(* ===== verification/BENC_Prelude.thy ===== *)
theory BENC_Prelude
  imports Main "HOL-Library.Word"
begin

text \<open>
  What every component of the development shares: the machine types of the Go program, the
  error-or-value result of a fallible operation, the byte-order conversions of
  \<open>encoding/binary\<close>, and the generic interfaces (a transition system with an invariant, an
  involutive byte transformation) that several components provide.
\<close>

unbundle bit_operations_syntax

section \<open>Machine types\<close>

type_synonym byte = "8 word"
type_synonym bytes = "8 word list"
type_synonym u16 = "16 word"
type_synonym u32 = "32 word"
type_synonym u64 = "64 word"

section \<open>Fallible results\<close>

text \<open>A Go function that returns a value and an error: \<open>Inl\<close> carries the error.\<close>

definition ebind :: "'e + 'a \<Rightarrow> ('a \<Rightarrow> 'e + 'b) \<Rightarrow> 'e + 'b" where
  "ebind m f = (case m of Inl e \<Rightarrow> Inl e | Inr x \<Rightarrow> f x)"

definition isOk :: "'e + 'a \<Rightarrow> bool" where
  "isOk m = (case m of Inl _ \<Rightarrow> False | Inr _ \<Rightarrow> True)"

lemma ebind_simps [simp]:
  "ebind (Inl e) f = Inl e"
  "ebind (Inr x) f = f x"
  by (simp_all add: ebind_def)

lemma isOk_simps [simp]:
  "\<not> isOk (Inl e)"
  "isOk (Inr x)"
  by (simp_all add: isOk_def)

lemma ebind_eq_Inr: "ebind m f = Inr y \<longleftrightarrow> (\<exists>x. m = Inr x \<and> f x = Inr y)"
  by (cases m) auto

lemma ebind_eq_Inl: "ebind m f = Inl e \<longleftrightarrow> m = Inl e \<or> (\<exists>x. m = Inr x \<and> f x = Inl e)"
  by (cases m) auto

text \<open>Effects in sequence, up to the first that fails.\<close>

definition andThen :: "'e option \<times> 's \<Rightarrow> ('s \<Rightarrow> 'e option \<times> 's) \<Rightarrow> 'e option \<times> 's" where
  "andThen r f = (case r of (Some e, S) \<Rightarrow> (Some e, S) | (None, S) \<Rightarrow> f S)"

fun eachOf :: "('a \<Rightarrow> 's \<Rightarrow> 'e option \<times> 's) \<Rightarrow> 'a list \<Rightarrow> 's \<Rightarrow> 'e option \<times> 's" where
  "eachOf f [] S = (None, S)"
| "eachOf f (x # xs) S = andThen (f x S) (eachOf f xs)"

lemma snd_andThen:
  assumes "P (snd r)" and "\<And>S. P S \<Longrightarrow> P (snd (f S))"
  shows "P (snd (andThen r f))"
  using assms unfolding andThen_def by (auto split: prod.split option.split)

lemma snd_eachOf:
  assumes "\<And>x S. x \<in> set xs \<Longrightarrow> P S \<Longrightarrow> P (snd (f x S))" and "P S"
  shows "P (snd (eachOf f xs S))"
  using assms
proof (induction xs arbitrary: S)
  case (Cons x xs)
  show ?case unfolding eachOf.simps using Cons by (intro snd_andThen [where P = P]) simp_all
qed simp

section \<open>Byte order\<close>

datatype byteOrder = BigEndian | LittleEndian

fun le_bytes :: "nat \<Rightarrow> nat \<Rightarrow> bytes" where
  "le_bytes 0 x = []"
| "le_bytes (Suc k) x = word_of_nat (x mod 256) # le_bytes k (x div 256)"

fun le_val :: "bytes \<Rightarrow> nat" where
  "le_val [] = 0"
| "le_val (b # bs) = unat b + 256 * le_val bs"

text \<open>\<open>binary.ByteOrder\<close>: \<open>PutUint16\<close> and its wider kin write \<open>k\<close> bytes, \<open>Uint16\<close> reads them.\<close>

definition putUint :: "byteOrder \<Rightarrow> nat \<Rightarrow> nat \<Rightarrow> bytes" where
  "putUint order k x = (case order of LittleEndian \<Rightarrow> le_bytes k x | BigEndian \<Rightarrow> rev (le_bytes k x))"

definition getUint :: "byteOrder \<Rightarrow> bytes \<Rightarrow> nat" where
  "getUint order bs = (case order of LittleEndian \<Rightarrow> le_val bs | BigEndian \<Rightarrow> le_val (rev bs))"

lemma length_le_bytes [simp]: "length (le_bytes k x) = k"
  by (induction k arbitrary: x) auto

lemma length_putUint [simp]: "length (putUint order k x) = k"
  by (simp add: putUint_def split: byteOrder.splits)

lemma putUint_eq_Nil [simp]: "putUint order k x = [] \<longleftrightarrow> k = 0"
  by (metis length_0_conv length_putUint)

lemma le_val_le_bytes: "le_val (le_bytes k x) = x mod 256 ^ k"
proof (induction k arbitrary: x)
  case (Suc k)
  have "unat (word_of_nat (x mod 256) :: byte) = x mod 256"
    by (simp add: unat_of_nat)
  then have "le_val (le_bytes (Suc k) x) = x mod 256 + 256 * (x div 256 mod 256 ^ k)"
    by (simp add: Suc.IH)
  also have "\<dots> = x mod (256 * 256 ^ k)"
    by (simp add: mod_mult2_eq)
  finally show ?case by simp
qed simp

lemma unat_byte: "unat (b :: byte) < 256"
  using unsigned_less [of b] by simp

lemma le_val_bound: "le_val bs < 256 ^ length bs"
proof (induction bs)
  case (Cons b bs)
  have "unat b + 256 * le_val bs < 256 * (le_val bs + 1)" using unat_byte [of b] by simp
  also have "\<dots> \<le> 256 * 256 ^ length bs"
    using Cons.IH by (intro mult_le_mono2) simp
  finally show ?case by simp
qed simp

lemma le_bytes_le_val: "le_bytes (length bs) (le_val bs) = bs"
proof (induction bs)
  case (Cons b bs)
  have b: "unat b < 256" by (rule unat_byte)
  then have "(unat b + 256 * le_val bs) mod 256 = unat b"
    "(unat b + 256 * le_val bs) div 256 = le_val bs" by auto
  with Cons.IH show ?case by simp
qed simp

lemma getUint_putUint: "getUint order (putUint order k x) = x mod 256 ^ k"
  by (cases order) (simp_all add: getUint_def putUint_def le_val_le_bytes)

lemma putUint_getUint: "length bs = k \<Longrightarrow> putUint order k (getUint order bs) = bs"
  using le_bytes_le_val [of bs] le_bytes_le_val [of "rev bs"]
  by (cases order) (auto simp: getUint_def putUint_def)

lemma getUint_bound: "length bs = k \<Longrightarrow> getUint order bs < 256 ^ k"
  using le_val_bound [of bs] le_val_bound [of "rev bs"]
  by (cases order) (auto simp: getUint_def)

lemma putUint_inject:
  assumes "putUint order k x = putUint order k y" and "x < 256 ^ k" and "y < 256 ^ k"
  shows "x = y"
proof -
  from assms(1) have "x mod 256 ^ k = y mod 256 ^ k"
    by (metis getUint_putUint)
  with assms(2,3) show ?thesis by simp
qed

lemma putUint_one [simp]: "putUint order (Suc 0) x = [word_of_nat (x mod 256)]"
  by (cases order) (simp_all add: putUint_def)

section \<open>Lists\<close>

lemma take_length_append [simp]: "take (length xs) (xs @ ys) = xs"
  by simp

text \<open>An element-wise combination with a cyclic key: the shape of every keystream of the program.\<close>

definition xor_stream :: "(nat \<Rightarrow> byte) \<Rightarrow> bytes \<Rightarrow> bytes" where
  "xor_stream key bs = map (\<lambda>(i, b). b XOR key i) (zip [0..<length bs] bs)"

lemma length_xor_stream [simp]: "length (xor_stream key bs) = length bs"
  by (simp add: xor_stream_def)

lemma nth_xor_stream [simp]: "i < length bs \<Longrightarrow> xor_stream key bs ! i = bs ! i XOR key i"
  by (simp add: xor_stream_def)

lemma xor_stream_twice [simp]: "xor_stream key (xor_stream key bs) = bs"
  by (rule nth_equalityI) (simp_all add: xor.assoc)

section \<open>Shared interfaces\<close>

text \<open>
  A byte transformation that undoes itself and keeps the length: the contract of password
  roasting and of the ICQ packet ciphers.
\<close>

locale involutive_cipher =
  fixes crypt :: "bytes \<Rightarrow> bytes"
  assumes crypt_crypt: "crypt (crypt p) = p"
    and length_crypt: "length (crypt p) = length p"
begin

lemma crypt_inject: "crypt p = crypt q \<Longrightarrow> p = q"
  by (metis crypt_crypt)

lemma crypt_surj: "\<exists>q. crypt q = p"
  using crypt_crypt by blast

lemma crypt_Nil: "crypt [] = []"
  using length_crypt [of "[]"] by simp

lemma crypt_eq_iff: "crypt p = q \<longleftrightarrow> p = crypt q"
  by (metis crypt_crypt)

end

text \<open>A transition system whose steps keep an invariant: the contract of every stateful component.\<close>

locale invariant_system =
  fixes start :: "'s \<Rightarrow> bool"
    and step :: "'s \<Rightarrow> 's \<Rightarrow> bool"
    and invar :: "'s \<Rightarrow> bool"
  assumes invar_start: "start s \<Longrightarrow> invar s"
    and invar_step: "invar s \<Longrightarrow> step s t \<Longrightarrow> invar t"
begin

lemma invar_reachable: "step\<^sup>*\<^sup>* s t \<Longrightarrow> start s \<Longrightarrow> invar t"
  by (induction rule: rtranclp_induct) (auto intro: invar_start invar_step)

lemma invar_steps: "step\<^sup>*\<^sup>* s t \<Longrightarrow> invar s \<Longrightarrow> invar t"
  by (induction rule: rtranclp_induct) (auto intro: invar_step)

end

end
