(* ===== verification/Wire_Codec.thy ===== *)
theory Wire_Codec
  imports BENC_Prelude
begin

text \<open>
  The reflective codec of \<open>wire/encode.go\<close> and \<open>wire/decode.go\<close>. A Go type is a descriptor
  (\<open>gtype\<close>, what \<open>reflect.Type\<close> answers), a Go value is a tree (\<open>gval\<close>, what \<open>reflect.Value\<close>
  holds), and a struct field carries the text of its \<open>oscar\<close> tag. \<open>marshal_switch\<close> and
  \<open>unmarshal_switch\<close> follow the two kind switches of the source; the reader is the list of bytes
  still unread, kept on errors too, because an optional struct and a slice without a prefix
  swallow \<open>io.EOF\<close> and go on with the same reader.
\<close>

section \<open>Types, values, errors\<close>

datatype gtype =
    TU8 | TU16 | TU32 | TU64
  | TString
  | TSlice gtype
  | TArray nat gtype
  | TStruct string gfields
  | TPtr gtype
  | TAny
  | TOther string
and gfields =
    FNil
  | FCons string "string option" gtype gfields

datatype gval =
    VU8 byte | VU16 u16 | VU32 u32 | VU64 u64
  | VString bytes
  | VSlice "gval list"
  | VArray "gval list"
  | VStruct "gval list"
  | VPtr "gval option"
  | VAny "(gtype \<times> gval) option"
  | VOther

text \<open>
  The errors the codec tells apart. \<open>EOF\<close> is \<open>io.EOF\<close>, which \<open>errors.Is\<close> finds through the
  wrappers; \<open>Diverges\<close> stands for a decode loop that never ends (an element that decodes
  without consuming a byte), \<open>Panics\<close> for a run-time panic of \<open>reflect\<close> or of the codec.
\<close>

datatype gerr =
    EOF | UnexpectedEOF
  | MarshalFailureNilSNAC | NonOptionalPointer | OptionalNonPointer | InvalidStructTag
  | PointerAtNonFinalField | PointerNotToStruct | UnsupportedType | InterfaceNotStruct
  | NotFixedSize | MissingLenPrefix
  | Panics | Diverges

fun is_struct :: "gtype \<Rightarrow> bool" where
  "is_struct (TStruct _ _) = True"
| "is_struct _ = False"

fun is_ptr :: "gtype \<Rightarrow> bool" where
  "is_ptr (TPtr _) = True"
| "is_ptr _ = False"

fun ptr_to_struct :: "gtype \<Rightarrow> bool" where
  "ptr_to_struct (TPtr t) = is_struct t"
| "ptr_to_struct _ = False"

fun structFields :: "(string \<times> string option \<times> gtype) list \<Rightarrow> gfields" where
  "structFields [] = FNil"
| "structFields ((n, tag, t) # fs) = FCons n tag t (structFields fs)"

section \<open>Struct tags\<close>

datatype prefixKind = KInvalid | KUint8 | KUint16

record oscarTag =
  hasCountPrefix :: bool
  countPrefix :: prefixKind
  hasLenPrefix :: bool
  lenPrefix :: prefixKind
  optional :: bool
  nullTerminated :: bool
  quirk :: string

definition noTag :: oscarTag where
  "noTag = \<lparr>hasCountPrefix = False, countPrefix = KInvalid, hasLenPrefix = False,
     lenPrefix = KInvalid, optional = False, nullTerminated = False, quirk = []\<rparr>"

definition isSpace :: "char \<Rightarrow> bool" where
  "isSpace c \<longleftrightarrow> c \<in> {CHR '' '', CHR 0x09, CHR 0x0A, CHR 0x0B, CHR 0x0C, CHR 0x0D}"

text \<open>\<open>strings.TrimSpace\<close>, \<open>strings.Split\<close> and \<open>strings.SplitN(kv, "=", 2)\<close> on ASCII tag text.\<close>

definition trimSpace :: "string \<Rightarrow> string" where
  "trimSpace s = rev (dropWhile isSpace (rev (dropWhile isSpace s)))"

fun splitOn :: "char \<Rightarrow> string \<Rightarrow> string list" where
  "splitOn c [] = [[]]"
| "splitOn c (x # xs) =
     (if x = c then [] # splitOn c xs
      else (case splitOn c xs of [] \<Rightarrow> [[x]] | p # ps \<Rightarrow> (x # p) # ps))"

fun splitFirst :: "char \<Rightarrow> string \<Rightarrow> string \<times> string option" where
  "splitFirst c [] = ([], None)"
| "splitFirst c (x # xs) =
     (if x = c then ([], Some xs) else (let (p, r) = splitFirst c xs in (x # p, r)))"

definition parsePrefixKind :: "string \<Rightarrow> gerr + prefixKind" where
  "parsePrefixKind v =
     (if v = ''uint8'' then Inr KUint8 else if v = ''uint16'' then Inr KUint16
      else Inl InvalidStructTag)"

definition parseTagEntry :: "string \<Rightarrow> oscarTag \<Rightarrow> gerr + oscarTag" where
  "parseTagEntry kv0 tg =
     (let kv = trimSpace kv0 in
      if kv = [] then Inr tg else
      (case splitFirst (CHR ''='') kv of
         (k0, Some v0) \<Rightarrow>
           (let key = trimSpace k0; valPart = trimSpace v0 in
            if key = ''len_prefix'' then
              ebind (parsePrefixKind valPart) (\<lambda>k. Inr (tg\<lparr>hasLenPrefix := True, lenPrefix := k\<rparr>))
            else if key = ''count_prefix'' then
              ebind (parsePrefixKind valPart) (\<lambda>k. Inr (tg\<lparr>hasCountPrefix := True, countPrefix := k\<rparr>))
            else if key = ''quirk'' then
              (if valPart = [] then Inl InvalidStructTag
               else if quirk tg \<noteq> [] then Inl InvalidStructTag
               else Inr (tg\<lparr>quirk := valPart\<rparr>))
            else Inl InvalidStructTag)
       | (k0, None) \<Rightarrow>
           (let key = trimSpace k0 in
            if key = ''optional'' then Inr (tg\<lparr>optional := True\<rparr>)
            else if key = ''nullterm'' then Inr (tg\<lparr>nullTerminated := True\<rparr>)
            else Inl InvalidStructTag)))"

fun parseTagEntries :: "string list \<Rightarrow> oscarTag \<Rightarrow> gerr + oscarTag" where
  "parseTagEntries [] tg = Inr tg"
| "parseTagEntries (kv # kvs) tg = ebind (parseTagEntry kv tg) (parseTagEntries kvs)"

definition parseOSCARTag :: "string option \<Rightarrow> gerr + oscarTag" where
  "parseOSCARTag tag =
     (case tag of
        None \<Rightarrow> Inr noTag
      | Some v \<Rightarrow>
          ebind (parseTagEntries (splitOn (CHR '','') v) noTag)
            (\<lambda>tg. if hasCountPrefix tg \<and> hasLenPrefix tg then Inl InvalidStructTag else Inr tg))"

section \<open>Encoding\<close>

definition prefixWidth :: "prefixKind \<Rightarrow> nat" where
  "prefixWidth k = (case k of KInvalid \<Rightarrow> 0 | KUint8 \<Rightarrow> 1 | KUint16 \<Rightarrow> 2)"

text \<open>\<open>uint8(intVal)\<close> and \<open>uint16(intVal)\<close> truncate silently, as the conversion does in Go.\<close>

definition marshalUnsignedInt :: "prefixKind \<Rightarrow> nat \<Rightarrow> byteOrder \<Rightarrow> gerr + bytes" where
  "marshalUnsignedInt intType intVal order =
     (case intType of
        KUint8 \<Rightarrow> Inr (putUint order 1 (intVal mod 2 ^ 8))
      | KUint16 \<Rightarrow> Inr (putUint order 2 (intVal mod 2 ^ 16))
      | KInvalid \<Rightarrow> Inl Panics)"

text \<open>\<open>binary.Write\<close> of a value whose type has a fixed size; any other type is an error.\<close>

primrec fixedSize :: "gtype \<Rightarrow> bool" and fixedSizeFields :: "gfields \<Rightarrow> bool" where
  "fixedSize TU8 = True"
| "fixedSize TU16 = True"
| "fixedSize TU32 = True"
| "fixedSize TU64 = True"
| "fixedSize TString = False"
| "fixedSize (TSlice t) = False"
| "fixedSize (TArray k t) = fixedSize t"
| "fixedSize (TStruct n fs) = fixedSizeFields fs"
| "fixedSize (TPtr t) = False"
| "fixedSize TAny = False"
| "fixedSize (TOther n) = False"
| "fixedSizeFields FNil = True"
| "fixedSizeFields (FCons n tag t fs) = (fixedSize t \<and> fixedSizeFields fs)"

fun binaryWrite :: "byteOrder \<Rightarrow> gval \<Rightarrow> bytes" where
  "binaryWrite order (VU8 w) = [w]"
| "binaryWrite order (VU16 w) = putUint order 2 (unat w)"
| "binaryWrite order (VU32 w) = putUint order 4 (unat w)"
| "binaryWrite order (VU64 w) = putUint order 8 (unat w)"
| "binaryWrite order (VArray vs) = concat (map (binaryWrite order) vs)"
| "binaryWrite order (VStruct vs) = concat (map (binaryWrite order) vs)"
| "binaryWrite order _ = []"

definition marshalString :: "oscarTag \<Rightarrow> bytes \<Rightarrow> byteOrder \<Rightarrow> gerr + bytes" where
  "marshalString tg s order =
     (let str = (if nullTerminated tg \<and> s \<noteq> [] then s @ [0] else s) in
      if hasLenPrefix tg
      then ebind (marshalUnsignedInt (lenPrefix tg) (length str) order) (\<lambda>p. Inr (p @ str))
      else Inr str)"

text \<open>
  The tag handling of \<open>marshal\<close>, around the kind switch \<open>sw\<close>: an optional nil pointer writes
  nothing, an optional pointer is dereferenced, any other pointer is refused.
\<close>

definition marshalTagged :: "(oscarTag \<Rightarrow> gerr + bytes) \<Rightarrow> gtype \<Rightarrow> string option \<Rightarrow> gval
    \<Rightarrow> gerr + bytes" where
  "marshalTagged sw t tag v =
     ebind (parseOSCARTag tag) (\<lambda>tg.
       if optional tg then
         (if \<not> is_ptr t then Inl OptionalNonPointer
          else if v = VPtr None then Inr [] else sw tg)
       else if is_ptr t then Inl NonOptionalPointer
       else sw tg)"

definition marshalSlicePrefix :: "oscarTag \<Rightarrow> nat \<Rightarrow> byteOrder \<Rightarrow> bytes \<Rightarrow> gerr + bytes" where
  "marshalSlicePrefix tg vlen order buf =
     (if hasLenPrefix tg
      then ebind (marshalUnsignedInt (lenPrefix tg) (length buf) order) (\<lambda>p. Inr (p @ buf))
      else if hasCountPrefix tg
      then ebind (marshalUnsignedInt (countPrefix tg) vlen order) (\<lambda>p. Inr (p @ buf))
      else Inr buf)"

definition marshalStructPrefix :: "oscarTag \<Rightarrow> byteOrder \<Rightarrow> bytes \<Rightarrow> gerr + bytes" where
  "marshalStructPrefix tg order buf =
     (if hasLenPrefix tg
      then ebind (marshalUnsignedInt (lenPrefix tg) (length buf) order) (\<lambda>p. Inr (p @ buf))
      else Inr buf)"

definition fieldPointerCheck :: "gtype \<Rightarrow> gfields \<Rightarrow> gerr option" where
  "fieldPointerCheck t rest =
     (if is_ptr t then
        (if rest \<noteq> FNil then Some PointerAtNonFinalField
         else if \<not> ptr_to_struct t then Some PointerNotToStruct else None)
      else None)"

definition structOrder :: "string \<Rightarrow> byteOrder \<Rightarrow> byteOrder" where
  "structOrder name order = (if name = ''ICQMessageReplyEnvelope'' then LittleEndian else order)"

function (sequential) marshal_switch :: "gtype \<Rightarrow> byteOrder \<Rightarrow> oscarTag \<Rightarrow> gval \<Rightarrow> gerr + bytes"
  and marshalStructs :: "gtype \<Rightarrow> byteOrder \<Rightarrow> gval list \<Rightarrow> gerr + bytes"
  and marshalEachField :: "gfields \<Rightarrow> byteOrder \<Rightarrow> gval list \<Rightarrow> gerr + bytes" where
  "marshal_switch t order tg (VSlice vs) =
     (case t of
        TSlice et \<Rightarrow>
          ebind (if is_struct et then marshalStructs et order vs
                 else if fixedSize et then Inr (concat (map (binaryWrite order) vs))
                 else Inl NotFixedSize)
            (marshalSlicePrefix tg (length vs) order)
      | _ \<Rightarrow> Inl Panics)"
| "marshal_switch t order tg (VArray vs) =
     (case t of
        TArray k et \<Rightarrow>
          (if is_struct et then marshalStructs et order vs
           else if fixedSize et then Inr (concat (map (binaryWrite order) vs))
           else Inl NotFixedSize)
      | _ \<Rightarrow> Inl Panics)"
| "marshal_switch t order tg (VStruct vs) =
     (case t of
        TStruct name fs \<Rightarrow>
          ebind (marshalEachField fs (structOrder name order) vs)
            (marshalStructPrefix tg (structOrder name order))
      | _ \<Rightarrow> Inl Panics)"
| "marshal_switch t order tg (VPtr (Some v)) =
     (case t of TPtr et \<Rightarrow> marshal_switch et order tg v | _ \<Rightarrow> Inl Panics)"
| "marshal_switch t order tg (VAny (Some (dt, v))) =
     (case t of
        TAny \<Rightarrow> (if is_struct dt then marshal_switch dt order tg v else Inl InterfaceNotStruct)
      | _ \<Rightarrow> Inl Panics)"
| "marshal_switch t order tg (VAny None) = Inl InterfaceNotStruct"
| "marshal_switch t order tg (VString s) = marshalString tg s order"
| "marshal_switch t order tg (VPtr None) = Inl Panics"
| "marshal_switch t order tg VOther = Inl UnsupportedType"
| "marshal_switch t order tg v = Inr (binaryWrite order v)"
| "marshalStructs et order [] = Inr []"
| "marshalStructs et order (v # vs) =
     ebind (marshal_switch et order noTag v) (\<lambda>b.
       ebind (marshalStructs et order vs) (\<lambda>bs. Inr (b @ bs)))"
| "marshalEachField FNil order vs = Inr []"
| "marshalEachField (FCons n tag t fs) order [] = Inl Panics"
| "marshalEachField (FCons n tag t fs) order (v # vs) =
     (case fieldPointerCheck t fs of
        Some e \<Rightarrow> Inl e
      | None \<Rightarrow>
          ebind (marshalTagged (\<lambda>tg. marshal_switch t order tg v) t tag v)
            (\<lambda>b. ebind (marshalEachField fs order vs) (\<lambda>bs. Inr (b @ bs))))"
  by pat_completeness auto
termination
  by (relation "measure (\<lambda>x. case x of Inl (t, order, tg, v) \<Rightarrow> size v
        | Inr (Inl (et, order, vs)) \<Rightarrow> size_list size vs
        | Inr (Inr (fs, order, vs)) \<Rightarrow> size_list size vs)") auto

text \<open>\<open>MarshalBE\<close> and \<open>MarshalLE\<close>: the argument is an interface value, \<open>None\<close> for an untyped nil.\<close>

definition marshalTop :: "byteOrder \<Rightarrow> (gtype \<times> gval) option \<Rightarrow> gerr + bytes" where
  "marshalTop order tv =
     (case tv of None \<Rightarrow> Inl MarshalFailureNilSNAC
      | Some (t, v) \<Rightarrow> marshalTagged (\<lambda>tg. marshal_switch t order tg v) t None v)"

definition MarshalBE :: "(gtype \<times> gval) option \<Rightarrow> gerr + bytes" where
  "MarshalBE = marshalTop BigEndian"

definition MarshalLE :: "(gtype \<times> gval) option \<Rightarrow> gerr + bytes" where
  "MarshalLE = marshalTop LittleEndian"

section \<open>Decoding\<close>

text \<open>
  A reader over the bytes not yet read. \<open>io.ReadFull\<close> answers \<open>io.EOF\<close> when nothing was left
  and \<open>io.ErrUnexpectedEOF\<close> (consuming what was there) when some but not enough bytes were.
\<close>

type_synonym 'a reader = "bytes \<Rightarrow> (gerr + 'a) \<times> bytes"

definition rret :: "'a \<Rightarrow> 'a reader" where
  "rret x = (\<lambda>bs. (Inr x, bs))"

definition rfail :: "gerr \<Rightarrow> 'a reader" where
  "rfail e = (\<lambda>bs. (Inl e, bs))"

definition rbind :: "'a reader \<Rightarrow> ('a \<Rightarrow> 'b reader) \<Rightarrow> 'b reader" where
  "rbind m f = (\<lambda>bs. case m bs of (Inl e, bs') \<Rightarrow> (Inl e, bs') | (Inr x, bs') \<Rightarrow> f x bs')"

definition readFull :: "nat \<Rightarrow> bytes reader" where
  "readFull n = (\<lambda>bs.
     if n = 0 then (Inr [], bs)
     else if bs = [] then (Inl EOF, [])
     else if length bs < n then (Inl UnexpectedEOF, [])
     else (Inr (take n bs), drop n bs))"

text \<open>\<open>binary.Read\<close> of an unsigned integer of \<open>k\<close> bytes.\<close>

definition readUint :: "byteOrder \<Rightarrow> nat \<Rightarrow> nat reader" where
  "readUint order k = rbind (readFull k) (\<lambda>b. rret (getUint order b))"

definition unmarshalUnsignedInt :: "prefixKind \<Rightarrow> byteOrder \<Rightarrow> nat reader" where
  "unmarshalUnsignedInt intType order =
     (case intType of
        KUint8 \<Rightarrow> readUint order 1
      | KUint16 \<Rightarrow> readUint order 2
      | KInvalid \<Rightarrow> rfail Panics)"

definition unmarshalString :: "oscarTag \<Rightarrow> byteOrder \<Rightarrow> gval reader" where
  "unmarshalString tg order =
     (if \<not> hasLenPrefix tg then rfail MissingLenPrefix
      else rbind (unmarshalUnsignedInt (lenPrefix tg) order) (\<lambda>n.
        rbind (readFull n) (\<lambda>buf.
          rret (VString (if nullTerminated tg then takeWhile (\<lambda>b. b \<noteq> 0) buf else buf)))))"

text \<open>
  The three loops of \<open>unmarshalSlice\<close> over an element reader. The first runs on a private buffer
  until it is empty, the last until the reader answers \<open>io.EOF\<close>. An element that decodes without
  consuming anything would be decoded again for ever: the loops answer \<open>Diverges\<close> there.
\<close>

function readBuffered :: "gval reader \<Rightarrow> bytes \<Rightarrow> gerr + gval list" where
  "readBuffered rd bs =
     (if bs = [] then Inr []
      else (case rd bs of
              (Inl e, _) \<Rightarrow> Inl e
            | (Inr v, bs') \<Rightarrow>
                if length bs' < length bs
                then ebind (readBuffered rd bs') (\<lambda>vs. Inr (v # vs))
                else Inl Diverges))"
  by pat_completeness auto
termination by (relation "measure (\<lambda>(rd, bs). length bs)") auto

declare readBuffered.simps [simp del]

fun readCount :: "nat \<Rightarrow> gval reader \<Rightarrow> gval list reader" where
  "readCount 0 rd = rret []"
| "readCount (Suc n) rd = rbind rd (\<lambda>v. rbind (readCount n rd) (\<lambda>vs. rret (v # vs)))"

function readUntilEOF :: "gval reader \<Rightarrow> gval list reader" where
  "readUntilEOF rd bs =
     (case rd bs of
        (Inl e, bs') \<Rightarrow> if e = EOF then (Inr [], bs') else (Inl e, bs')
      | (Inr v, bs') \<Rightarrow>
          if length bs' < length bs
          then (case readUntilEOF rd bs' of
                  (Inl e, r) \<Rightarrow> (Inl e, r)
                | (Inr vs, r) \<Rightarrow> (Inr (v # vs), r))
          else (Inl Diverges, bs'))"
  by pat_completeness auto
termination by (relation "measure (\<lambda>(rd, bs). length bs)") auto

declare readUntilEOF.simps [simp del]

definition TLV_type :: gtype where
  "TLV_type = TStruct ''TLV'' (structFields
     [(''Tag'', None, TU16), (''Value'', Some ''len_prefix=uint16'', TSlice TU8)])"

abbreviation (input) ICQTLVTagsUIN :: nat where "ICQTLVTagsUIN \<equiv> 0x0136"
abbreviation (input) ICQTLVTagsEmail :: nat where "ICQTLVTagsEmail \<equiv> 0x015E"

definition tlvValue :: "nat \<Rightarrow> bytes \<Rightarrow> gval" where
  "tlvValue tag buf = VStruct [VU16 (word_of_nat tag), VSlice (map VU8 buf)]"

definition unmarshalTLVICQ2003bSetFullInfo :: "byteOrder \<Rightarrow> gval reader" where
  "unmarshalTLVICQ2003bSetFullInfo order =
     rbind (readUint order 2) (\<lambda>tag.
       rbind (readUint order 2) (\<lambda>n0.
         let n = (if tag = ICQTLVTagsEmail \<and> n0 = 3 then 4 else n0) in
         rbind (readFull n) (\<lambda>buf. rret (tlvValue tag buf))))"

definition unmarshalTLVQIP2005SearchByUIN2 :: "byteOrder \<Rightarrow> gval reader" where
  "unmarshalTLVQIP2005SearchByUIN2 order =
     rbind (readUint order 2) (\<lambda>tag.
       rbind (readUint order 2) (\<lambda>n0.
         let n = (if tag = ICQTLVTagsUIN \<and> n0 \<noteq> 4 then 4 else n0) in
         rbind (readFull n) (\<lambda>buf. rret (tlvValue tag buf))))"

text \<open>Jimm: a value that runs past the payload is trimmed to what is there.\<close>

definition unmarshalTLVJimmSetInfo :: "byteOrder \<Rightarrow> gval reader" where
  "unmarshalTLVJimmSetInfo order =
     rbind (readUint order 2) (\<lambda>tag.
       rbind (readUint order 2) (\<lambda>n bs.
         case readFull n bs of
           (Inl e, bs') \<Rightarrow>
             if e = UnexpectedEOF then (Inr (tlvValue tag (take n bs)), bs') else (Inl e, bs')
         | (Inr buf, bs') \<Rightarrow> (Inr (tlvValue tag buf), bs')))"

definition unmarshalSliceElement :: "gval reader \<Rightarrow> gtype \<Rightarrow> byteOrder \<Rightarrow> string \<Rightarrow> gval reader" where
  "unmarshalSliceElement rd et order activeQuirk =
     (if activeQuirk = ''icq2003b_set_fullinfo'' \<and> order = LittleEndian \<and> et = TLV_type
      then unmarshalTLVICQ2003bSetFullInfo order
      else if activeQuirk = ''qip_2005_search_by_uin2'' \<and> order = LittleEndian \<and> et = TLV_type
      then unmarshalTLVQIP2005SearchByUIN2 order
      else if activeQuirk = ''jimm_locate_set_info'' \<and> order = BigEndian \<and> et = TLV_type
      then unmarshalTLVJimmSetInfo order
      else rd)"

definition unmarshalSlice :: "gval reader \<Rightarrow> oscarTag \<Rightarrow> byteOrder \<Rightarrow> gval reader" where
  "unmarshalSlice rd tg order =
     (if hasLenPrefix tg then
        rbind (unmarshalUnsignedInt (lenPrefix tg) order) (\<lambda>n.
          rbind (readFull n) (\<lambda>b bs.
            case readBuffered rd b of Inl e \<Rightarrow> (Inl e, bs) | Inr vs \<Rightarrow> (Inr (VSlice vs), bs)))
      else if hasCountPrefix tg then
        rbind (unmarshalUnsignedInt (countPrefix tg) order) (\<lambda>n.
          rbind (readCount n rd) (\<lambda>vs. rret (VSlice vs)))
      else rbind (readUntilEOF rd) (\<lambda>vs. rret (VSlice vs)))"

text \<open>The tag handling of \<open>unmarshal\<close> around the kind switch \<open>sw\<close>.\<close>

definition unmarshalTagged :: "(oscarTag \<Rightarrow> string \<Rightarrow> gval reader) \<Rightarrow> gtype \<Rightarrow> string option \<Rightarrow> string
    \<Rightarrow> gval reader" where
  "unmarshalTagged sw t tag activeQuirk =
     (case parseOSCARTag tag of
        Inl e \<Rightarrow> rfail e
      | Inr tg \<Rightarrow>
          (let q = trimSpace (quirk tg); effectiveQuirk = (if q = [] then activeQuirk else q) in
           if optional tg then
             (if \<not> is_ptr t then rfail Panics
              else (\<lambda>bs. case sw tg effectiveQuirk bs of
                      (Inl e, bs') \<Rightarrow> if e = EOF then (Inr (VPtr None), bs') else (Inl e, bs')
                    | (Inr v, bs') \<Rightarrow> (Inr (VPtr (Some v)), bs')))
           else if is_ptr t then rfail NonOptionalPointer
           else sw tg effectiveQuirk))"

text \<open>A struct with a length prefix decodes its fields from a private buffer of that length.\<close>

definition unmarshalStruct :: "gval list reader \<Rightarrow> oscarTag \<Rightarrow> byteOrder \<Rightarrow> gval reader" where
  "unmarshalStruct rd tg order =
     (if hasLenPrefix tg then
        rbind (unmarshalUnsignedInt (lenPrefix tg) order) (\<lambda>n.
          rbind (readFull n) (\<lambda>b bs.
            case rd b of (Inl e, _) \<Rightarrow> (Inl e, bs) | (Inr vs, _) \<Rightarrow> (Inr (VStruct vs), bs)))
      else rbind rd (\<lambda>vs. rret (VStruct vs)))"

primrec unmarshal_switch :: "gtype \<Rightarrow> byteOrder \<Rightarrow> oscarTag \<Rightarrow> string \<Rightarrow> gval reader"
  and unmarshalFields :: "gfields \<Rightarrow> byteOrder \<Rightarrow> string \<Rightarrow> gval list reader" where
  "unmarshal_switch TU8 order tg q = rbind (readUint order 1) (\<lambda>n. rret (VU8 (word_of_nat n)))"
| "unmarshal_switch TU16 order tg q = rbind (readUint order 2) (\<lambda>n. rret (VU16 (word_of_nat n)))"
| "unmarshal_switch TU32 order tg q = rbind (readUint order 4) (\<lambda>n. rret (VU32 (word_of_nat n)))"
| "unmarshal_switch TU64 order tg q = rbind (readUint order 8) (\<lambda>n. rret (VU64 (word_of_nat n)))"
| "unmarshal_switch TString order tg q = unmarshalString tg order"
| "unmarshal_switch (TSlice et) order tg q =
     unmarshalSlice
       (unmarshalSliceElement (unmarshalTagged (unmarshal_switch et order) et None q) et order q)
       tg order"
| "unmarshal_switch (TArray k et) order tg q =
     rbind (readCount k (unmarshalTagged (unmarshal_switch et order) et None q))
       (\<lambda>vs. rret (VArray vs))"
| "unmarshal_switch (TStruct name fs) order tg q =
     unmarshalStruct (unmarshalFields fs order q) tg order"
| "unmarshal_switch (TPtr et) order tg q = unmarshal_switch et order tg q"
| "unmarshal_switch TAny order tg q = rfail UnsupportedType"
| "unmarshal_switch (TOther n) order tg q = rfail UnsupportedType"
| "unmarshalFields FNil order q = rret []"
| "unmarshalFields (FCons n tag t fs) order q =
     (case fieldPointerCheck t fs of
        Some e \<Rightarrow> rfail e
      | None \<Rightarrow>
          rbind (unmarshalTagged (unmarshal_switch t order) t tag q) (\<lambda>v.
            rbind (unmarshalFields fs order q) (\<lambda>vs. rret (v # vs))))"

definition unmarshalTop :: "byteOrder \<Rightarrow> gtype \<Rightarrow> gval reader" where
  "unmarshalTop order t = unmarshalTagged (unmarshal_switch t order) t None []"

definition UnmarshalBE :: "gtype \<Rightarrow> gval reader" where
  "UnmarshalBE = unmarshalTop BigEndian"

definition UnmarshalLE :: "gtype \<Rightarrow> gval reader" where
  "UnmarshalLE = unmarshalTop LittleEndian"

end
