(* ===== verification/Wire_Codec_Laws.thy ===== *)
theory Wire_Codec_Laws
  imports Wire_Codec
begin

text \<open>
  The laws of the codec: which descriptors decode what they encode (\<open>codable\<close>), which values fit
  their length prefixes (\<open>fits\<close>), and the round trip over all of them. The loops over elements are
  treated once, in the locale \<open>element_codec\<close>.
\<close>

section \<open>Element loops\<close>

locale element_codec =
  fixes ok :: "gval \<Rightarrow> bool"
    and enc :: "gval \<Rightarrow> bytes"
    and rd :: "gval reader"
  assumes rd_enc: "ok v \<Longrightarrow> rd (enc v @ r) = (Inr v, r)"
    and enc_nonempty: "ok v \<Longrightarrow> enc v \<noteq> []"
    and rd_eof: "rd [] = (Inl EOF, [])"
begin

lemma readCount_enc:
  "\<forall>v\<in>set vs. ok v \<Longrightarrow> readCount (length vs) rd (concat (map enc vs) @ r) = (Inr vs, r)"
  by (induction vs) (simp_all add: rret_def rbind_def rd_enc)

lemma readBuffered_enc:
  "\<forall>v\<in>set vs. ok v \<Longrightarrow> readBuffered rd (concat (map enc vs)) = Inr vs"
proof (induction vs)
  case Nil
  show ?case by (simp add: readBuffered.simps)
next
  case (Cons v vs)
  then have "rd (enc v @ concat (map enc vs)) = (Inr v, concat (map enc vs))" "enc v \<noteq> []"
    by (simp_all add: rd_enc enc_nonempty)
  with Cons show ?case by (subst readBuffered.simps) simp
qed

lemma readUntilEOF_enc:
  "\<forall>v\<in>set vs. ok v \<Longrightarrow> readUntilEOF rd (concat (map enc vs)) = (Inr vs, [])"
proof (induction vs)
  case Nil
  show ?case by (subst readUntilEOF.simps) (simp add: rd_eof)
next
  case (Cons v vs)
  then have "rd (enc v @ concat (map enc vs)) = (Inr v, concat (map enc vs))" "enc v \<noteq> []"
    by (simp_all add: rd_enc enc_nonempty)
  with Cons show ?case by (subst readUntilEOF.simps) simp
qed

lemma readUntilEOF_tail:
  "\<forall>v\<in>set vs. ok v \<Longrightarrow> rd tail = (Inl e, r) \<Longrightarrow>
     readUntilEOF rd (concat (map enc vs) @ tail) = (if e = EOF then Inr vs else Inl e, r)"
proof (induction vs)
  case Nil
  then show ?case by (subst readUntilEOF.simps) simp
next
  case (Cons v vs)
  then have "rd (enc v @ concat (map enc vs) @ tail) = (Inr v, concat (map enc vs) @ tail)" "enc v \<noteq> []"
    by (simp_all add: rd_enc enc_nonempty)
  with Cons show ?case by (subst readUntilEOF.simps) simp
qed

end

section \<open>Readers\<close>

lemma readFull_append: "length bs = n \<Longrightarrow> readFull n (bs @ r) = (Inr bs, r)"
  by (auto simp: readFull_def)

lemma readFull_Nil: "readFull n [] = (if n = 0 then Inr [] else Inl EOF, [])"
  by (simp add: readFull_def)

lemma readUint_putUint:
  "n < 256 ^ k \<Longrightarrow> readUint order k (putUint order k n @ r) = (Inr n, r)"
  by (simp add: readUint_def rbind_def readFull_append rret_def getUint_putUint)

lemma readUint_Nil: "0 < k \<Longrightarrow> readUint order k [] = (Inl EOF, [])"
  by (simp add: readUint_def rbind_def readFull_Nil)

definition lenFits :: "prefixKind \<Rightarrow> nat \<Rightarrow> bool" where
  "lenFits k n = (case k of KInvalid \<Rightarrow> False | KUint8 \<Rightarrow> n < 2 ^ 8 | KUint16 \<Rightarrow> n < 2 ^ 16)"

lemma unsignedInt_roundtrip:
  assumes "lenFits k n"
  shows "\<exists>p. marshalUnsignedInt k n order = Inr p \<and> p \<noteq> [] \<and>
    unmarshalUnsignedInt k order (p @ r) = (Inr n, r)"
proof (cases k)
  case KUint8
  with assms readUint_putUint [of n 1 order r] show ?thesis
    by (simp add: lenFits_def marshalUnsignedInt_def unmarshalUnsignedInt_def)
next
  case KUint16
  have "putUint order 2 n \<noteq> []" by (metis length_putUint list.size(3) zero_neq_numeral)
  with KUint16 assms readUint_putUint [of n 2 order r] show ?thesis
    by (simp add: lenFits_def marshalUnsignedInt_def unmarshalUnsignedInt_def)
qed (use assms in \<open>simp add: lenFits_def\<close>)

lemma unmarshalUnsignedInt_Nil: "k \<noteq> KInvalid \<Longrightarrow> unmarshalUnsignedInt k order [] = (Inl EOF, [])"
  by (cases k) (simp_all add: unmarshalUnsignedInt_def readUint_Nil)

section \<open>Descriptors that round-trip, values that fit\<close>

primrec scalarType :: "gtype \<Rightarrow> bool" where
  "scalarType TU8 = True"
| "scalarType TU16 = True"
| "scalarType TU32 = True"
| "scalarType TU64 = True"
| "scalarType TString = False"
| "scalarType (TSlice t) = False"
| "scalarType (TArray k t) = scalarType t"
| "scalarType (TStruct n fs) = False"
| "scalarType (TPtr t) = False"
| "scalarType TAny = False"
| "scalarType (TOther n) = False"

text \<open>
  \<open>selfDelim\<close>: the encoding carries its own end. \<open>starts\<close>: the encoding is not empty, and the
  decoder asks for a byte before anything else, so that it answers \<open>io.EOF\<close> at the end of input.
\<close>

primrec selfDelim :: "gtype \<Rightarrow> oscarTag \<Rightarrow> bool" and selfDelimFields :: "gfields \<Rightarrow> bool" where
  "selfDelim TU8 tg = True"
| "selfDelim TU16 tg = True"
| "selfDelim TU32 tg = True"
| "selfDelim TU64 tg = True"
| "selfDelim TString tg = True"
| "selfDelim (TSlice t) tg = (hasLenPrefix tg \<or> hasCountPrefix tg)"
| "selfDelim (TArray k t) tg = True"
| "selfDelim (TStruct n fs) tg = (hasLenPrefix tg \<or> selfDelimFields fs)"
| "selfDelim (TPtr t) tg = False"
| "selfDelim TAny tg = False"
| "selfDelim (TOther n) tg = False"
| "selfDelimFields FNil = True"
| "selfDelimFields (FCons n tag t fs) =
     ((case parseOSCARTag tag of Inl e \<Rightarrow> False | Inr tg \<Rightarrow> selfDelim t tg) \<and> selfDelimFields fs)"

primrec starts :: "gtype \<Rightarrow> oscarTag \<Rightarrow> bool" and startsFields :: "gfields \<Rightarrow> bool" where
  "starts TU8 tg = True"
| "starts TU16 tg = True"
| "starts TU32 tg = True"
| "starts TU64 tg = True"
| "starts TString tg = (hasLenPrefix tg \<and> lenPrefix tg \<noteq> KInvalid)"
| "starts (TSlice t) tg =
     (if hasLenPrefix tg then lenPrefix tg \<noteq> KInvalid
      else hasCountPrefix tg \<and> countPrefix tg \<noteq> KInvalid)"
| "starts (TArray k t) tg = (0 < k \<and> starts t noTag)"
| "starts (TStruct n fs) tg =
     (if hasLenPrefix tg then lenPrefix tg \<noteq> KInvalid else startsFields fs)"
| "starts (TPtr t) tg = False"
| "starts TAny tg = False"
| "starts (TOther n) tg = False"
| "startsFields FNil = False"
| "startsFields (FCons n tag t fs) =
     (case parseOSCARTag tag of Inl e \<Rightarrow> False | Inr tg \<Rightarrow> starts t tg)"

primrec codable :: "gtype \<Rightarrow> oscarTag \<Rightarrow> bool" and codableFields :: "gfields \<Rightarrow> bool" where
  "codable TU8 tg = True"
| "codable TU16 tg = True"
| "codable TU32 tg = True"
| "codable TU64 tg = True"
| "codable TString tg = hasLenPrefix tg"
| "codable (TSlice t) tg =
     (codable t noTag \<and> selfDelim t noTag \<and> starts t noTag \<and> (is_struct t \<or> scalarType t))"
| "codable (TArray k t) tg =
     (codable t noTag \<and> selfDelim t noTag \<and> starts t noTag \<and> (is_struct t \<or> scalarType t))"
| "codable (TStruct n fs) tg = (n \<noteq> ''ICQMessageReplyEnvelope'' \<and> codableFields fs)"
| "codable (TPtr t) tg = (is_struct t \<and> codable t tg \<and> starts t tg)"
| "codable TAny tg = False"
| "codable (TOther n) tg = False"
| "codableFields FNil = True"
| "codableFields (FCons n tag t fs) =
     ((case parseOSCARTag tag of Inl e \<Rightarrow> False
       | Inr tg \<Rightarrow> optional tg = is_ptr t \<and> codable t tg \<and>
           (fs = FNil \<or> selfDelim t tg)) \<and> codableFields fs)"

text \<open>No tag of the descriptor names a decode quirk, so that encoding and decoding mirror each other.\<close>

primrec noQuirk :: "gtype \<Rightarrow> bool" and noQuirkFields :: "gfields \<Rightarrow> bool" where
  "noQuirk TU8 = True"
| "noQuirk TU16 = True"
| "noQuirk TU32 = True"
| "noQuirk TU64 = True"
| "noQuirk TString = True"
| "noQuirk (TSlice t) = noQuirk t"
| "noQuirk (TArray k t) = noQuirk t"
| "noQuirk (TStruct n fs) = noQuirkFields fs"
| "noQuirk (TPtr t) = noQuirk t"
| "noQuirk TAny = True"
| "noQuirk (TOther n) = True"
| "noQuirkFields FNil = True"
| "noQuirkFields (FCons n tag t fs) =
     ((case parseOSCARTag tag of Inl e \<Rightarrow> True | Inr tg \<Rightarrow> quirk tg = []) \<and>
      noQuirk t \<and> noQuirkFields fs)"

definition encOf :: "gtype \<Rightarrow> byteOrder \<Rightarrow> oscarTag \<Rightarrow> gval \<Rightarrow> bytes" where
  "encOf t order tg v = (case marshal_switch t order tg v of Inl e \<Rightarrow> [] | Inr bs \<Rightarrow> bs)"

primrec fits :: "gtype \<Rightarrow> oscarTag \<Rightarrow> byteOrder \<Rightarrow> gval \<Rightarrow> bool"
  and fitsFields :: "gfields \<Rightarrow> byteOrder \<Rightarrow> gval list \<Rightarrow> bool" where
  "fits TU8 tg order v = (case v of VU8 w \<Rightarrow> True | _ \<Rightarrow> False)"
| "fits TU16 tg order v = (case v of VU16 w \<Rightarrow> True | _ \<Rightarrow> False)"
| "fits TU32 tg order v = (case v of VU32 w \<Rightarrow> True | _ \<Rightarrow> False)"
| "fits TU64 tg order v = (case v of VU64 w \<Rightarrow> True | _ \<Rightarrow> False)"
| "fits TString tg order v =
     (case v of VString s \<Rightarrow>
        lenFits (lenPrefix tg) (length s + (if nullTerminated tg \<and> s \<noteq> [] then 1 else 0)) \<and>
        (nullTerminated tg \<longrightarrow> 0 \<notin> set s) | _ \<Rightarrow> False)"
| "fits (TSlice t) tg order v =
     (case v of VSlice vs \<Rightarrow>
        list_all (fits t noTag order) vs \<and>
        (if hasLenPrefix tg
         then lenFits (lenPrefix tg) (length (concat (map (encOf t order noTag) vs)))
         else hasCountPrefix tg \<longrightarrow> lenFits (countPrefix tg) (length vs)) | _ \<Rightarrow> False)"
| "fits (TArray k t) tg order v =
     (case v of VArray vs \<Rightarrow> length vs = k \<and> list_all (fits t noTag order) vs | _ \<Rightarrow> False)"
| "fits (TStruct n fs) tg order v =
     (case v of VStruct vs \<Rightarrow>
        fitsFields fs order vs \<and>
        (hasLenPrefix tg \<longrightarrow>
           lenFits (lenPrefix tg) (case marshalEachField fs order vs of Inl e \<Rightarrow> 0 | Inr bs \<Rightarrow> length bs))
      | _ \<Rightarrow> False)"
| "fits (TPtr t) tg order v =
     (case v of VPtr p \<Rightarrow> (case p of None \<Rightarrow> True | Some x \<Rightarrow> fits t tg order x) | _ \<Rightarrow> False)"
| "fits TAny tg order v = False"
| "fits (TOther n) tg order v = False"
| "fitsFields FNil order vs = (vs = [])"
| "fitsFields (FCons n tag t fs) order vs =
     (case vs of [] \<Rightarrow> False
      | v # vs' \<Rightarrow> (case parseOSCARTag tag of Inl e \<Rightarrow> False | Inr tg \<Rightarrow> fits t tg order v) \<and>
          fitsFields fs order vs')"

section \<open>Round trip\<close>

definition roundtrips :: "gtype \<Rightarrow> oscarTag \<Rightarrow> byteOrder \<Rightarrow> gval \<Rightarrow> bool" where
  "roundtrips t tg order v \<longleftrightarrow>
     (\<exists>bs. marshal_switch t order tg v = Inr bs \<and> (starts t tg \<longrightarrow> bs \<noteq> []) \<and>
       (\<forall>r. selfDelim t tg \<or> r = [] \<longrightarrow> unmarshal_switch t order tg [] (bs @ r) = (Inr v, r)))"

definition roundtripsFields :: "gfields \<Rightarrow> byteOrder \<Rightarrow> gval list \<Rightarrow> bool" where
  "roundtripsFields fs order vs \<longleftrightarrow>
     (\<exists>bs. marshalEachField fs order vs = Inr bs \<and> (startsFields fs \<longrightarrow> bs \<noteq> []) \<and>
       (\<forall>r. selfDelimFields fs \<or> r = [] \<longrightarrow> unmarshalFields fs order [] (bs @ r) = (Inr vs, r)))"

lemma parse_noTag [simp]: "parseOSCARTag None = Inr noTag"
  by (simp add: parseOSCARTag_def)

lemma noTag_simps [simp]:
  "\<not> hasCountPrefix noTag" "\<not> hasLenPrefix noTag" "\<not> optional noTag" "\<not> nullTerminated noTag"
  "quirk noTag = []" "lenPrefix noTag = KInvalid" "countPrefix noTag = KInvalid"
  by (simp_all add: noTag_def)

lemma trimSpace_Nil [simp]: "trimSpace [] = []"
  by (simp add: trimSpace_def)

lemma starts_not_ptr: "starts t tg \<Longrightarrow> \<not> is_ptr t"
  by (cases t) auto

lemma unmarshalTagged_None:
  "\<not> is_ptr t \<Longrightarrow> unmarshalTagged sw t None q = sw noTag q"
  by (simp add: unmarshalTagged_def Let_def)

definition effectiveQuirk :: "oscarTag \<Rightarrow> string \<Rightarrow> string" where
  "effectiveQuirk tg q = (if trimSpace (quirk tg) = [] then q else trimSpace (quirk tg))"

lemma effectiveQuirk_none [simp]: "quirk tg = [] \<Longrightarrow> effectiveQuirk tg q = q"
  by (simp add: effectiveQuirk_def trimSpace_def)

lemma unmarshalTagged_plain:
  "parseOSCARTag tag = Inr tg \<Longrightarrow> \<not> optional tg \<Longrightarrow> \<not> is_ptr t
    \<Longrightarrow> unmarshalTagged sw t tag q = sw tg (effectiveQuirk tg q)"
  by (simp add: unmarshalTagged_def effectiveQuirk_def Let_def)

lemma unmarshalSliceElement_noQuirk [simp]: "unmarshalSliceElement rd et order [] = rd"
  by (simp add: unmarshalSliceElement_def)

lemma readCount_Suc_Nil: "rd [] = (Inl EOF, []) \<Longrightarrow> 0 < k \<Longrightarrow> readCount k rd [] = (Inl EOF, [])"
  by (cases k) (simp_all add: rbind_def)

text \<open>At the end of input a descriptor that \<open>starts\<close> answers \<open>io.EOF\<close>.\<close>

lemma starts_eof:
  "codable t tg \<Longrightarrow> starts t tg \<Longrightarrow> unmarshal_switch t order tg q [] = (Inl EOF, [])"
  "codableFields fs \<Longrightarrow> startsFields fs \<Longrightarrow> unmarshalFields fs order q [] = (Inl EOF, [])"
proof (induction t and fs arbitrary: tg q and q)
  case (TArray k t)
  then have "unmarshalTagged (unmarshal_switch t order) t None q [] = (Inl EOF, [])"
    using starts_not_ptr [of t noTag] by (simp add: unmarshalTagged_None)
  with TArray.prems show ?case
    by (simp add: rbind_def readCount_Suc_Nil)
next
  case (TStruct n fs)
  then show ?case
    by (auto simp: unmarshalStruct_def rbind_def unmarshalUnsignedInt_Nil split: if_splits)
next
  case (FCons n tag t fs)
  then obtain tg where tg: "parseOSCARTag tag = Inr tg" "starts t tg" "codable t tg"
    "optional tg = is_ptr t"
    by (auto split: sum.splits)
  moreover from tg(2) have "\<not> is_ptr t" by (rule starts_not_ptr)
  ultimately show ?case
    using FCons.IH(1) by (simp add: fieldPointerCheck_def unmarshalTagged_plain rbind_def)
qed (auto simp: rbind_def readUint_Nil unmarshalString_def unmarshalSlice_def
       unmarshalUnsignedInt_Nil split: if_splits)

lemma scalar_fixedSize: "scalarType t \<Longrightarrow> fixedSize t \<and> \<not> is_struct t"
  by (induction t) auto

lemma scalar_marshal:
  "scalarType t \<Longrightarrow> fits t tg order v \<Longrightarrow>
     fixedSize t \<and> \<not> is_struct t \<and> marshal_switch t order tg v = Inr (binaryWrite order v)"
proof (induction t arbitrary: tg v)
  case (TArray k t)
  then show ?case
    by (cases v) (auto split: gval.splits dest: scalar_fixedSize)
qed (auto split: gval.splits)

lemma roundtrips_encOf:
  assumes "roundtrips t tg order v"
  shows "marshal_switch t order tg v = Inr (encOf t order tg v)"
    and "starts t tg \<Longrightarrow> encOf t order tg v \<noteq> []"
    and "selfDelim t tg \<or> r = [] \<Longrightarrow>
      unmarshal_switch t order tg [] (encOf t order tg v @ r) = (Inr v, r)"
  using assms by (auto simp: roundtrips_def encOf_def)

lemma element_codecI:
  assumes "codable et noTag" "selfDelim et noTag" "starts et noTag"
    and "\<And>v. fits et noTag order v \<Longrightarrow> roundtrips et noTag order v"
  shows "element_codec (fits et noTag order) (encOf et order noTag)
    (unmarshalTagged (unmarshal_switch et order) et None [])"
  using assms starts_not_ptr [OF assms(3)]
  by unfold_locales (auto simp: unmarshalTagged_None roundtrips_encOf starts_eof)

lemma marshalStructs_encOf:
  "\<forall>v\<in>set vs. roundtrips et noTag order v \<Longrightarrow>
     marshalStructs et order vs = Inr (concat (map (encOf et order noTag) vs))"
  by (induction vs) (auto simp: roundtrips_encOf(1))

lemma elements_encOf:
  assumes "is_struct et \<or> scalarType et"
    and "\<forall>v\<in>set vs. fits et noTag order v" and "\<forall>v\<in>set vs. roundtrips et noTag order v"
  shows "(if is_struct et then marshalStructs et order vs
     else if fixedSize et then Inr (concat (map (binaryWrite order) vs)) else Inl NotFixedSize)
     = Inr (concat (map (encOf et order noTag) vs))"
proof (cases "is_struct et")
  case True
  with assms(3) show ?thesis by (simp add: marshalStructs_encOf)
next
  case False
  with assms(1) have s: "scalarType et" by simp
  then have "map (binaryWrite order) vs = map (encOf et order noTag) vs"
    using assms(2) scalar_marshal [OF s] by (auto simp: encOf_def)
  with s False show ?thesis by (metis scalar_fixedSize)
qed

lemma roundtrips_slice:
  assumes c: "codable (TSlice et) tg" and f: "fits (TSlice et) tg order v"
    and IH: "\<And>v. fits et noTag order v \<Longrightarrow> roundtrips et noTag order v"
  shows "roundtrips (TSlice et) tg order v"
proof -
  from f obtain vs where v: "v = VSlice vs" and fe: "\<forall>v\<in>set vs. fits et noTag order v"
    by (auto split: gval.splits simp: list_all_iff)
  define buf where "buf = concat (map (encOf et order noTag) vs)"
  from c IH have ec: "element_codec (fits et noTag order) (encOf et order noTag)
      (unmarshalTagged (unmarshal_switch et order) et None [])"
    by (intro element_codecI) auto
  have m: "(if is_struct et then marshalStructs et order vs
      else if fixedSize et then Inr (concat (map (binaryWrite order) vs)) else Inl NotFixedSize) = Inr buf"
    using c fe IH unfolding buf_def by (intro elements_encOf) auto
  show ?thesis
  proof (cases "hasLenPrefix tg")
    case True
    with f v have lf: "lenFits (lenPrefix tg) (length buf)" by (simp add: buf_def)
    obtain p where p: "marshalUnsignedInt (lenPrefix tg) (length buf) order = Inr p" "p \<noteq> []"
      by (metis unsignedInt_roundtrip [OF lf])
    then have pr: "unmarshalUnsignedInt (lenPrefix tg) order (p @ r) = (Inr (length buf), r)" for r
      using unsignedInt_roundtrip [OF lf] by (metis Inr_inject)
    have "readBuffered (unmarshalTagged (unmarshal_switch et order) et None []) buf = Inr vs"
      using element_codec.readBuffered_enc [OF ec fe] by (simp add: buf_def)
    with True p pr m v show ?thesis
      by (simp add: roundtrips_def marshalSlicePrefix_def unmarshalSlice_def rbind_def
          readFull_append)
  next
    case nl: False
    show ?thesis
    proof (cases "hasCountPrefix tg")
      case True
      with f v nl have lf: "lenFits (countPrefix tg) (length vs)" by simp
      obtain p where p: "marshalUnsignedInt (countPrefix tg) (length vs) order = Inr p" "p \<noteq> []"
        by (metis unsignedInt_roundtrip [OF lf])
      then have pr: "unmarshalUnsignedInt (countPrefix tg) order (p @ r) = (Inr (length vs), r)" for r
        using unsignedInt_roundtrip [OF lf] by (metis Inr_inject)
      show ?thesis
        using True nl p pr m v element_codec.readCount_enc [OF ec fe]
        by (simp add: roundtrips_def marshalSlicePrefix_def unmarshalSlice_def rbind_def rret_def
            buf_def)
    next
      case False
      with nl m v element_codec.readUntilEOF_enc [OF ec fe] show ?thesis
        by (simp add: roundtrips_def marshalSlicePrefix_def unmarshalSlice_def rbind_def rret_def
            buf_def)
    qed
  qed
qed

lemma roundtrips_array:
  assumes c: "codable (TArray k et) tg" and f: "fits (TArray k et) tg order v"
    and IH: "\<And>v. fits et noTag order v \<Longrightarrow> roundtrips et noTag order v"
  shows "roundtrips (TArray k et) tg order v"
proof -
  from f obtain vs where v: "v = VArray vs" "length vs = k"
    and fe: "\<forall>v\<in>set vs. fits et noTag order v"
    by (auto split: gval.splits simp: list_all_iff)
  from c IH have ec: "element_codec (fits et noTag order) (encOf et order noTag)
      (unmarshalTagged (unmarshal_switch et order) et None [])"
    by (intro element_codecI) auto
  have m: "marshal_switch (TArray k et) order tg v = Inr (concat (map (encOf et order noTag) vs))"
    using c fe IH v elements_encOf [of et vs order] by auto
  have ne: "0 < k \<Longrightarrow> concat (map (encOf et order noTag) vs) \<noteq> []"
    using v fe element_codec.enc_nonempty [OF ec] by (cases vs) auto
  show ?thesis
    using m ne v element_codec.readCount_enc [OF ec fe]
    by (auto simp: roundtrips_def rbind_def rret_def)
qed

lemma roundtrips_string:
  assumes "codable TString tg" and f: "fits TString tg order v"
  shows "roundtrips TString tg order v"
proof -
  from f obtain s where v: "v = VString s" and
    lf: "lenFits (lenPrefix tg) (length s + (if nullTerminated tg \<and> s \<noteq> [] then 1 else 0))"
    and nz: "nullTerminated tg \<longrightarrow> 0 \<notin> set s"
    by (auto split: gval.splits)
  define str where "str = (if nullTerminated tg \<and> s \<noteq> [] then s @ [0] else s)"
  from lf have lf': "lenFits (lenPrefix tg) (length str)" by (auto simp: str_def split: if_splits)
  obtain p where p: "marshalUnsignedInt (lenPrefix tg) (length str) order = Inr p" "p \<noteq> []"
    by (metis unsignedInt_roundtrip [OF lf'])
  then have pr: "unmarshalUnsignedInt (lenPrefix tg) order (p @ r) = (Inr (length str), r)" for r
    using unsignedInt_roundtrip [OF lf'] by (metis Inr_inject)
  have "0 \<notin> set s \<Longrightarrow> takeWhile (\<lambda>b. b \<noteq> 0) (s @ zs) = s @ takeWhile (\<lambda>b. b \<noteq> 0) zs" for zs
    by (rule takeWhile_append2) auto
  then have tw: "nullTerminated tg \<Longrightarrow> takeWhile (\<lambda>b. b \<noteq> 0) str = s"
    using nz by (simp add: str_def)
  have nt: "\<not> nullTerminated tg \<Longrightarrow> str = s" by (simp add: str_def)
  show ?thesis
    using assms(1) p pr tw nt v
    by (simp add: roundtrips_def marshalString_def str_def [symmetric] unmarshalString_def
        rbind_def rret_def readFull_append Let_def)
qed

lemma roundtrips_struct:
  assumes c: "codable (TStruct n fs) tg" and f: "fits (TStruct n fs) tg order v"
    and IH: "\<And>vs. fitsFields fs order vs \<Longrightarrow> roundtripsFields fs order vs"
  shows "roundtrips (TStruct n fs) tg order v"
proof -
  from f obtain vs where v: "v = VStruct vs" and ff: "fitsFields fs order vs"
    by (auto split: gval.splits)
  from IH [OF ff] obtain buf where buf: "marshalEachField fs order vs = Inr buf"
    "startsFields fs \<Longrightarrow> buf \<noteq> []"
    "\<And>r. selfDelimFields fs \<or> r = [] \<Longrightarrow> unmarshalFields fs order [] (buf @ r) = (Inr vs, r)"
    unfolding roundtripsFields_def by blast
  from c have o: "structOrder n order = order" by (simp add: structOrder_def)
  show ?thesis
  proof (cases "hasLenPrefix tg")
    case True
    with f v buf have lf: "lenFits (lenPrefix tg) (length buf)" by simp
    obtain p where p: "marshalUnsignedInt (lenPrefix tg) (length buf) order = Inr p" "p \<noteq> []"
      by (metis unsignedInt_roundtrip [OF lf])
    then have pr: "unmarshalUnsignedInt (lenPrefix tg) order (p @ r) = (Inr (length buf), r)" for r
      using unsignedInt_roundtrip [OF lf] by (metis Inr_inject)
    from True p pr v buf(1) buf(3) [of "[]"] o show ?thesis
      by (simp add: roundtrips_def marshalStructPrefix_def unmarshalStruct_def rbind_def
          readFull_append)
  next
    case False
    with v buf buf(3) [of "[]"] o show ?thesis
      by (auto simp: roundtrips_def marshalStructPrefix_def unmarshalStruct_def rbind_def rret_def)
  qed
qed

text \<open>A field: the tag and pointer handling around a type that round-trips.\<close>

lemma roundtrips_field:
  assumes tg: "parseOSCARTag tag = Inr tg" "quirk tg = []" "optional tg = is_ptr t"
    and c: "codable t tg" and f: "fits t tg order v"
    and plain: "\<not> is_ptr t \<Longrightarrow> roundtrips t tg order v"
    and ptr: "\<And>u x. t = TPtr u \<Longrightarrow> v = VPtr (Some x) \<Longrightarrow> roundtrips u tg order x"
  shows "\<exists>b. marshalTagged (\<lambda>tg. marshal_switch t order tg v) t tag v = Inr b \<and>
    (starts t tg \<longrightarrow> b \<noteq> []) \<and>
    (\<forall>r. selfDelim t tg \<or> r = [] \<longrightarrow>
       unmarshalTagged (unmarshal_switch t order) t tag [] (b @ r) = (Inr v, r))"
proof (cases "is_ptr t")
  case False
  with tg plain show ?thesis
    by (simp add: roundtrips_def marshalTagged_def unmarshalTagged_plain)
next
  case True
  then obtain u where u: "t = TPtr u" by (cases t) auto
  from f u obtain p where p: "v = VPtr p" by (auto split: gval.splits)
  show ?thesis
  proof (cases p)
    case None
    with c u p tg True show ?thesis
      by (simp add: marshalTagged_def unmarshalTagged_def Let_def starts_eof)
  next
    case (Some x)
    with ptr [OF u] p have "roundtrips u tg order x" by simp
    then obtain bs where bs: "marshal_switch u order tg x = Inr bs"
      "unmarshal_switch u order tg [] bs = (Inr x, [])"
      by (auto simp: roundtrips_def)
    with c u p tg True Some show ?thesis
      by (simp add: marshalTagged_def unmarshalTagged_def Let_def)
  qed
qed

lemma word_bounds:
  "unat (w8 :: 8 word) < 256" "unat (w16 :: 16 word) < 256 ^ 2"
  "unat (w32 :: 32 word) < 256 ^ 4" "unat (w64 :: 64 word) < 256 ^ 8"
  using unsigned_less [of w8] unsigned_less [of w16] unsigned_less [of w32] unsigned_less [of w64]
  by simp_all

lemma readUint_word:
  "readUint order (Suc 0) (w8 # r) = (Inr (unat w8), r)"
  "readUint order 2 (putUint order 2 (unat w16) @ r) = (Inr (unat w16), r)"
  "readUint order 4 (putUint order 4 (unat w32) @ r) = (Inr (unat w32), r)"
  "readUint order 8 (putUint order 8 (unat w64) @ r) = (Inr (unat w64), r)"
  for w8 :: "8 word" and w16 :: "16 word" and w32 :: "32 word" and w64 :: "64 word"
  using readUint_putUint [OF word_bounds(2)] readUint_putUint [OF word_bounds(3)]
    readUint_putUint [OF word_bounds(4)] readUint_putUint [of "unat w8" 1 order r] word_bounds(1)
  by simp_all

lemma roundtrips_main:
  "codable t tg \<Longrightarrow> noQuirk t \<Longrightarrow> fits t tg order v \<Longrightarrow>
     (\<not> is_ptr t \<longrightarrow> roundtrips t tg order v) \<and>
     (\<forall>u x. t = TPtr u \<and> v = VPtr (Some x) \<longrightarrow> roundtrips u tg order x)"
  "codableFields fs \<Longrightarrow> noQuirkFields fs \<Longrightarrow> fitsFields fs order vs \<Longrightarrow> roundtripsFields fs order vs"
proof (induction t and fs arbitrary: tg v and vs)
  case (TSlice et)
  then have "\<not> is_ptr et" using starts_not_ptr by auto
  with TSlice show ?case using roundtrips_slice [OF TSlice.prems(1,3)] by auto
next
  case (TArray k et)
  then have "\<not> is_ptr et" using starts_not_ptr by auto
  with TArray show ?case using roundtrips_array [OF TArray.prems(1,3)] by auto
next
  case (TStruct n fs)
  then show ?case using roundtrips_struct [OF TStruct.prems(1,3)] by auto
next
  case TString
  then show ?case using roundtrips_string [OF TString.prems(1,3)] by auto
next
  case (TPtr u)
  then have "\<not> is_ptr u" using starts_not_ptr by auto
  with TPtr show ?case by auto
next
  case FNil
  then show ?case by (simp add: roundtripsFields_def rret_def)
next
  case (FCons n tag t fs)
  from FCons.prems obtain tg v vs' where tg: "parseOSCARTag tag = Inr tg" "quirk tg = []"
      "optional tg = is_ptr t" "codable t tg" "fs = FNil \<or> selfDelim t tg"
    and vs: "vs = v # vs'" "fits t tg order v" "fitsFields fs order vs'" and cf: "codableFields fs"
    and nq: "noQuirk t" "noQuirkFields fs"
    by (auto split: sum.splits list.splits)
  from FCons.IH(1) [OF tg(4) nq(1) vs(2)]
  have "\<exists>b. marshalTagged (\<lambda>tg. marshal_switch t order tg v) t tag v = Inr b \<and>
      (starts t tg \<longrightarrow> b \<noteq> []) \<and>
      (\<forall>r. selfDelim t tg \<or> r = [] \<longrightarrow>
         unmarshalTagged (unmarshal_switch t order) t tag [] (b @ r) = (Inr v, r))"
    by (intro roundtrips_field [OF tg(1-4) vs(2)]) auto
  then obtain b where b: "marshalTagged (\<lambda>tg. marshal_switch t order tg v) t tag v = Inr b"
    "starts t tg \<Longrightarrow> b \<noteq> []"
    "\<And>r. selfDelim t tg \<or> r = [] \<Longrightarrow>
       unmarshalTagged (unmarshal_switch t order) t tag [] (b @ r) = (Inr v, r)" by blast
  from FCons.IH(2) [OF cf nq(2) vs(3)] obtain bs where bs: "marshalEachField fs order vs' = Inr bs"
    "\<And>r. selfDelimFields fs \<or> r = [] \<Longrightarrow> unmarshalFields fs order [] (bs @ r) = (Inr vs', r)"
    unfolding roundtripsFields_def by blast
  have chk: "fieldPointerCheck t fs = None"
    using tg(4,5) by (cases t) (auto simp: fieldPointerCheck_def)
  have un: "unmarshalFields (FCons n tag t fs) order [] ((b @ bs) @ r) = (Inr vs, r)"
    if r: "selfDelimFields (FCons n tag t fs) \<or> r = []" for r
  proof -
    have "fs = FNil \<Longrightarrow> bs = []" using bs(1) by simp
    then have "selfDelim t tg \<or> bs @ r = []" using r tg(1,5) by auto
    moreover have "selfDelimFields fs \<or> r = []" using r by auto
    ultimately show ?thesis using b(3) [of "bs @ r"] bs(2) vs(1) chk
      by (simp add: rbind_def rret_def)
  qed
  have "marshalEachField (FCons n tag t fs) order vs = Inr (b @ bs)"
    using b(1) bs(1) vs(1) chk by simp
  moreover have "startsFields (FCons n tag t fs) \<Longrightarrow> b @ bs \<noteq> []"
    using b(2) tg(1) by simp
  ultimately show ?case using un unfolding roundtripsFields_def by blast
qed (auto simp: roundtrips_def rbind_def rret_def readUint_word
      split: gval.splits)

end
