(* ===== verification/Wire_Codec_Safety.thy ===== *)
theory Wire_Codec_Safety
  imports Wire_Codec_Laws
begin

text \<open>
  What decoding does on bytes nobody vouches for. \<open>goodReader rd P c\<close>: the reader only fails with
  \<open>io.EOF\<close> or \<open>io.ErrUnexpectedEOF\<close>, never un-reads, and on success has consumed at least \<open>c\<close>
  bytes and produced a value satisfying \<open>P\<close>.
\<close>

definition readError :: "gerr \<Rightarrow> bool" where
  "readError e \<longleftrightarrow> e = EOF \<or> e = UnexpectedEOF"

definition goodReader :: "'a reader \<Rightarrow> ('a \<Rightarrow> bool) \<Rightarrow> nat \<Rightarrow> bool" where
  "goodReader rd P c \<longleftrightarrow>
     (\<forall>bs. case rd bs of
        (Inl e, r) \<Rightarrow> readError e \<and> length r \<le> length bs
      | (Inr v, r) \<Rightarrow> P v \<and> length r + c \<le> length bs)"

lemma goodReaderD_Inr:
  "goodReader rd P c \<Longrightarrow> rd bs = (Inr v, r) \<Longrightarrow> P v \<and> length r + c \<le> length bs"
  by (auto simp: goodReader_def dest: spec [of _ bs])

lemma goodReaderD_Inl:
  "goodReader rd P c \<Longrightarrow> rd bs = (Inl e, r) \<Longrightarrow> readError e \<and> length r \<le> length bs"
  by (auto simp: goodReader_def dest: spec [of _ bs])

lemma goodReaderI:
  assumes "\<And>bs v r. rd bs = (Inr v, r) \<Longrightarrow> P v \<and> length r + c \<le> length bs"
    and "\<And>bs e r. rd bs = (Inl e, r) \<Longrightarrow> readError e \<and> length r \<le> length bs"
  shows "goodReader rd P c"
  unfolding goodReader_def
proof
  fix bs
  show "case rd bs of (Inl e, r) \<Rightarrow> readError e \<and> length r \<le> length bs
      | (Inr v, r) \<Rightarrow> P v \<and> length r + c \<le> length bs"
    using assms [of bs] by (cases "rd bs") (auto split: sum.splits)
qed

lemma goodReader_mono:
  "goodReader rd P c \<Longrightarrow> (\<And>v. P v \<Longrightarrow> Q v) \<Longrightarrow> d \<le> c \<Longrightarrow> goodReader rd Q d"
  unfolding goodReader_def by (force split: prod.splits sum.splits)

lemma goodReader_rret: "P x \<Longrightarrow> goodReader (rret x) P 0"
  by (simp add: goodReader_def rret_def)

lemma goodReader_rbind:
  assumes "goodReader m P c" and "\<And>x. P x \<Longrightarrow> goodReader (f x) Q d"
  shows "goodReader (rbind m f) Q (c + d)"
proof (rule goodReaderI)
  fix bs v r assume "rbind m f bs = (Inr v, r)"
  then obtain x bs' where "m bs = (Inr x, bs')" "f x bs' = (Inr v, r)"
    by (auto simp: rbind_def split: prod.splits sum.splits)
  with assms show "Q v \<and> length r + (c + d) \<le> length bs"
    by (fastforce dest: goodReaderD_Inr)
next
  fix bs e r assume a: "rbind m f bs = (Inl e, r)"
  show "readError e \<and> length r \<le> length bs"
  proof (cases "m bs")
    case (Pair y bs')
    show ?thesis
    proof (cases y)
      case (Inl e')
      with Pair a assms(1) show ?thesis by (auto simp: rbind_def dest: goodReaderD_Inl)
    next
      case (Inr x)
      with Pair a have "f x bs' = (Inl e, r)" by (simp add: rbind_def)
      with Pair Inr assms show ?thesis
        by (fastforce dest: goodReaderD_Inl goodReaderD_Inr)
    qed
  qed
qed

lemma goodReader_rbind_rret:
  "goodReader m P c \<Longrightarrow> (\<And>x. P x \<Longrightarrow> Q (g x)) \<Longrightarrow> goodReader (rbind m (\<lambda>x. rret (g x))) Q c"
  using goodReader_rbind [of m P c "\<lambda>x. rret (g x)" Q 0] by (simp add: goodReader_rret)

lemma goodReader_readFull: "goodReader (readFull n) (\<lambda>b. length b = n) n"
  by (auto simp: goodReader_def readFull_def readError_def split: if_splits)

lemma goodReader_readUint: "goodReader (readUint order k) (\<lambda>_. True) k"
  unfolding readUint_def by (rule goodReader_rbind_rret [OF goodReader_readFull]) simp

lemma goodReader_unsignedInt:
  "k \<noteq> KInvalid \<Longrightarrow> goodReader (unmarshalUnsignedInt k order) (\<lambda>_. True) 1"
  using goodReader_readUint [of order 1] goodReader_readUint [of order 2]
  by (cases k) (auto simp: unmarshalUnsignedInt_def elim: goodReader_mono)

lemma goodReader_prefixed:
  "k \<noteq> KInvalid \<Longrightarrow> (\<And>n. goodReader (f n) Q 0) \<Longrightarrow>
     goodReader (rbind (unmarshalUnsignedInt k order) f) Q (Suc 0)"
  using goodReader_rbind [OF goodReader_unsignedInt, of k f Q 0 order] by simp

section \<open>The element loops\<close>

lemma readBuffered_good:
  "goodReader rd P 1 \<Longrightarrow>
     (case readBuffered rd bs of Inl e \<Rightarrow> readError e | Inr vs \<Rightarrow> list_all P vs)"
proof (induction rd bs rule: readBuffered.induct)
  case (1 rd bs)
  show ?case
  proof (cases "bs = []")
    case True
    then show ?thesis by (simp add: readBuffered.simps)
  next
    case False
    show ?thesis
    proof (cases "rd bs")
      case (Pair y bs')
      show ?thesis
      proof (cases y)
        case (Inl e)
        with Pair False 1(2) show ?thesis
          by (subst readBuffered.simps) (auto dest: goodReaderD_Inl)
      next
        case (Inr v)
        with Pair 1(2) have "P v" "length bs' < length bs" by (auto dest: goodReaderD_Inr)
        with Pair Inr False 1 show ?thesis
          by (subst readBuffered.simps) (auto simp: ebind_def split: sum.splits)
      qed
    qed
  qed
qed

lemma goodReader_readCount:
  "goodReader rd P 1 \<Longrightarrow> goodReader (readCount n rd) (\<lambda>vs. length vs = n \<and> list_all P vs) n"
proof (induction n)
  case 0
  then show ?case by (simp add: goodReader_rret)
next
  case (Suc n)
  have "goodReader (rbind rd (\<lambda>v. rbind (readCount n rd) (\<lambda>vs. rret (v # vs))))
      (\<lambda>vs. length vs = Suc n \<and> list_all P vs) (1 + n)"
    using Suc by (intro goodReader_rbind [OF Suc.prems] goodReader_rbind_rret) auto
  then show ?case by simp
qed

lemma readUntilEOF_good:
  "goodReader rd P 1 \<Longrightarrow>
     (case readUntilEOF rd bs of (Inl e, r) \<Rightarrow> readError e \<and> length r \<le> length bs
      | (Inr vs, r) \<Rightarrow> list_all P vs \<and> length r \<le> length bs)"
proof (induction rd bs rule: readUntilEOF.induct)
  case (1 rd bs)
  show ?case
  proof (cases "rd bs")
    case (Pair y bs')
    show ?thesis
    proof (cases y)
      case (Inl e)
      with Pair 1(2) show ?thesis
        by (subst readUntilEOF.simps) (auto dest: goodReaderD_Inl)
    next
      case (Inr v)
      with Pair 1(2) have "P v" "length bs' < length bs" by (auto dest: goodReaderD_Inr)
      moreover from Pair Inr this 1 have "case readUntilEOF rd bs' of
          (Inl e, r) \<Rightarrow> readError e \<and> length r \<le> length bs'
        | (Inr vs, r) \<Rightarrow> list_all P vs \<and> length r \<le> length bs'" by auto
      ultimately show ?thesis using Pair Inr
        by (subst readUntilEOF.simps) (auto split: prod.splits sum.splits)
    qed
  qed
qed

lemma goodReader_readUntilEOF:
  "goodReader rd P 1 \<Longrightarrow> goodReader (readUntilEOF rd) (list_all P) 0"
  unfolding goodReader_def [of "readUntilEOF rd"] add_0_right
  by (intro allI) (rule readUntilEOF_good)

section \<open>Shapes\<close>

text \<open>The values of a type: what a decoded value looks like.\<close>

primrec shape :: "gtype \<Rightarrow> gval \<Rightarrow> bool" and shapeFields :: "gfields \<Rightarrow> gval list \<Rightarrow> bool" where
  "shape TU8 v = (case v of VU8 w \<Rightarrow> True | _ \<Rightarrow> False)"
| "shape TU16 v = (case v of VU16 w \<Rightarrow> True | _ \<Rightarrow> False)"
| "shape TU32 v = (case v of VU32 w \<Rightarrow> True | _ \<Rightarrow> False)"
| "shape TU64 v = (case v of VU64 w \<Rightarrow> True | _ \<Rightarrow> False)"
| "shape TString v = (case v of VString s \<Rightarrow> True | _ \<Rightarrow> False)"
| "shape (TSlice t) v = (case v of VSlice vs \<Rightarrow> list_all (shape t) vs | _ \<Rightarrow> False)"
| "shape (TArray k t) v = (case v of VArray vs \<Rightarrow> length vs = k \<and> list_all (shape t) vs | _ \<Rightarrow> False)"
| "shape (TStruct n fs) v = (case v of VStruct vs \<Rightarrow> shapeFields fs vs | _ \<Rightarrow> False)"
| "shape (TPtr t) v =
     (case v of VPtr p \<Rightarrow> (case p of None \<Rightarrow> True | Some x \<Rightarrow> shape t x) | _ \<Rightarrow> False)"
| "shape TAny v = (case v of VAny p \<Rightarrow> True | _ \<Rightarrow> False)"
| "shape (TOther n) v = (v = VOther)"
| "shapeFields FNil vs = (vs = [])"
| "shapeFields (FCons n tag t fs) vs =
     (case vs of [] \<Rightarrow> False | v # vs' \<Rightarrow> shape t v \<and> shapeFields fs vs')"

definition validTag :: "oscarTag \<Rightarrow> bool" where
  "validTag tg \<longleftrightarrow> (hasLenPrefix tg \<longrightarrow> lenPrefix tg \<noteq> KInvalid) \<and>
     (hasCountPrefix tg \<longrightarrow> countPrefix tg \<noteq> KInvalid)"

lemma parsePrefixKind_valid: "parsePrefixKind v = Inr k \<Longrightarrow> k \<noteq> KInvalid"
  by (auto simp: parsePrefixKind_def split: if_splits)

lemma parseTagEntry_valid:
  "parseTagEntry kv tg = Inr tg' \<Longrightarrow> validTag tg \<Longrightarrow> validTag tg'"
  by (auto simp: parseTagEntry_def Let_def validTag_def ebind_eq_Inr
      split: if_splits prod.splits option.splits dest: parsePrefixKind_valid)

lemma parseTagEntries_valid:
  "parseTagEntries kvs tg = Inr tg' \<Longrightarrow> validTag tg \<Longrightarrow> validTag tg'"
  by (induction kvs arbitrary: tg) (auto simp: ebind_eq_Inr dest: parseTagEntry_valid)

lemma validTag_noTag [simp]: "validTag noTag"
  by (simp add: validTag_def)

lemma parse_validTag: "parseOSCARTag tag = Inr tg \<Longrightarrow> validTag tg"
  by (auto simp: parseOSCARTag_def ebind_eq_Inr split: option.splits if_splits
      dest: parseTagEntries_valid)

section \<open>Decoding is safe\<close>

lemma shape_tlvValue: "shape TLV_type (tlvValue tag buf)"
  by (simp add: TLV_type_def tlvValue_def list_all_iff)

lemma goodReader_tlvTail:
  "goodReader (rbind (readUint order 2) (\<lambda>tag. rbind (readUint order 2) (\<lambda>n0.
     rbind (readFull (f tag n0)) (\<lambda>buf. rret (tlvValue tag buf))))) (shape TLV_type) 1"
proof -
  have "goodReader (rbind (readFull (f tag n0)) (\<lambda>buf. rret (tlvValue tag buf))) (shape TLV_type) 0"
    for tag n0
    by (rule goodReader_mono [OF goodReader_rbind_rret [OF goodReader_readFull]])
      (auto intro: shape_tlvValue)
  then have "goodReader (rbind (readUint order 2) (\<lambda>tag. rbind (readUint order 2) (\<lambda>n0.
     rbind (readFull (f tag n0)) (\<lambda>buf. rret (tlvValue tag buf))))) (shape TLV_type) (2 + (2 + 0))"
    by (intro goodReader_rbind [OF goodReader_readUint])
  then show ?thesis by (rule goodReader_mono) auto
qed

lemma goodReader_jimm: "goodReader (unmarshalTLVJimmSetInfo order) (shape TLV_type) 1"
proof -
  have "goodReader (\<lambda>bs. case readFull n bs of
           (Inl e, bs') \<Rightarrow>
             if e = UnexpectedEOF then (Inr (tlvValue tag (take n bs)), bs') else (Inl e, bs')
         | (Inr buf, bs') \<Rightarrow> (Inr (tlvValue tag buf), bs')) (shape TLV_type) 0" for tag n
    by (auto simp: goodReader_def readFull_def readError_def shape_tlvValue)
  then have "goodReader (unmarshalTLVJimmSetInfo order) (shape TLV_type) (2 + (2 + 0))"
    unfolding unmarshalTLVJimmSetInfo_def by (intro goodReader_rbind [OF goodReader_readUint])
  then show ?thesis by (rule goodReader_mono) auto
qed

lemma goodReader_sliceElement:
  "goodReader rd (shape et) 1 \<Longrightarrow> goodReader (unmarshalSliceElement rd et order q) (shape et) 1"
  using goodReader_tlvTail [of order "\<lambda>tag n0. if tag = ICQTLVTagsEmail \<and> n0 = 3 then 4 else n0"]
    goodReader_tlvTail [of order "\<lambda>tag n0. if tag = ICQTLVTagsUIN \<and> n0 \<noteq> 4 then 4 else n0"]
    goodReader_jimm [of order]
  by (auto simp: unmarshalSliceElement_def unmarshalTLVICQ2003bSetFullInfo_def
      unmarshalTLVQIP2005SearchByUIN2_def Let_def)

lemma goodReader_bufferedSlice:
  assumes "goodReader rd (shape et) 1"
  shows "goodReader (\<lambda>bs. case readBuffered rd b of Inl e \<Rightarrow> (Inl e, bs) | Inr vs \<Rightarrow> (Inr (VSlice vs), bs))
    (shape (TSlice et)) 0"
  using readBuffered_good [OF assms, of b] by (auto simp: goodReader_def split: sum.splits)

lemma goodReader_slice:
  assumes rd: "goodReader rd (shape et) 1" and vt: "validTag tg"
  shows "goodReader (unmarshalSlice rd tg order) (shape (TSlice et))
    (if starts (TSlice et) tg then 1 else 0)"
proof -
  show ?thesis
  proof (cases "hasLenPrefix tg")
    case True
    have "goodReader (rbind (readFull n) (\<lambda>b bs.
            case readBuffered rd b of Inl e \<Rightarrow> (Inl e, bs) | Inr vs \<Rightarrow> (Inr (VSlice vs), bs)))
          (shape (TSlice et)) 0" for n
      by (rule goodReader_mono [OF goodReader_rbind [OF goodReader_readFull goodReader_bufferedSlice]])
        (use rd in auto)
    with True vt show ?thesis by (auto simp: unmarshalSlice_def validTag_def intro!: goodReader_prefixed)
  next
    case nl: False
    show ?thesis
    proof (cases "hasCountPrefix tg")
      case True
      have "goodReader (rbind (readCount n rd) (\<lambda>vs. rret (VSlice vs))) (shape (TSlice et)) 0" for n
        by (rule goodReader_mono [OF goodReader_rbind_rret [OF goodReader_readCount [OF rd]]]) auto
      with True nl vt show ?thesis by (auto simp: unmarshalSlice_def validTag_def intro!: goodReader_prefixed)
    next
      case False
      with nl show ?thesis
        using goodReader_rbind_rret [OF goodReader_readUntilEOF [OF rd], of "shape (TSlice et)" VSlice]
        by (simp add: unmarshalSlice_def)
    qed
  qed
qed

lemma goodReader_struct:
  assumes rd: "goodReader rd (shapeFields fs) (if startsFields fs then 1 else 0)" and vt: "validTag tg"
  shows "goodReader (unmarshalStruct rd tg order) (shape (TStruct n fs))
    (if starts (TStruct n fs) tg then 1 else 0)"
proof (cases "hasLenPrefix tg")
  case True
  have inner: "goodReader (\<lambda>bs. case rd b of (Inl e, _) \<Rightarrow> (Inl e, bs) | (Inr vs, _) \<Rightarrow> (Inr (VStruct vs), bs))
      (shape (TStruct n fs)) 0" for b
    using goodReaderD_Inr [OF rd, of b] goodReaderD_Inl [OF rd, of b]
    by (auto simp: goodReader_def split: prod.splits sum.splits)
  have "goodReader (rbind (readFull m) (\<lambda>b bs.
      case rd b of (Inl e, _) \<Rightarrow> (Inl e, bs) | (Inr vs, _) \<Rightarrow> (Inr (VStruct vs), bs)))
      (shape (TStruct n fs)) 0" for m
    by (rule goodReader_mono [OF goodReader_rbind [OF goodReader_readFull inner]]) auto
  with True vt show ?thesis
    by (simp add: unmarshalStruct_def validTag_def goodReader_prefixed del: shape.simps)
next
  case False
  with goodReader_rbind_rret [OF rd, of "shape (TStruct n fs)" VStruct] show ?thesis
    by (simp add: unmarshalStruct_def)
qed

lemma goodReader_optional:
  assumes "goodReader (sw tg q) (shape u) c" and "t = TPtr u"
    and "parseOSCARTag tag = Inr tg" and "optional tg" and "q = effectiveQuirk tg q0"
  shows "goodReader (unmarshalTagged sw t tag q0) (shape t) 0"
proof (rule goodReaderI)
  fix bs v r assume a: "unmarshalTagged sw t tag q0 bs = (Inr v, r)"
  with assms(2-5) show "shape t v \<and> length r + 0 \<le> length bs"
    using goodReaderD_Inr [OF assms(1), of bs] goodReaderD_Inl [OF assms(1), of bs]
    by (cases "sw tg q bs")
      (auto simp: unmarshalTagged_def effectiveQuirk_def Let_def split: sum.splits if_splits)
next
  fix bs e r assume a: "unmarshalTagged sw t tag q0 bs = (Inl e, r)"
  with assms(2-5) show "readError e \<and> length r \<le> length bs"
    using goodReaderD_Inl [OF assms(1), of bs]
    by (cases "sw tg q bs")
      (auto simp: unmarshalTagged_def effectiveQuirk_def Let_def split: sum.splits if_splits)
qed

text \<open>The type a kind switch produces a value of: an optional pointer decodes the struct it points to.\<close>

fun switchType :: "gtype \<Rightarrow> gtype" where
  "switchType (TPtr u) = u"
| "switchType t = t"

lemma switchType_plain: "\<not> is_ptr t \<Longrightarrow> switchType t = t"
  by (cases t) auto

lemma goodReader_scalar:
  assumes "\<And>n. shape t (f n)" and "0 < k"
  shows "goodReader (rbind (readUint order k) (\<lambda>n. rret (f n))) (shape t) (Suc 0)"
  by (rule goodReader_mono [OF goodReader_rbind_rret [OF goodReader_readUint]]) (use assms in auto)

lemma decode_good:
  "codable t tg \<Longrightarrow> validTag tg \<Longrightarrow>
     goodReader (unmarshal_switch t order tg q) (shape (switchType t)) (if starts t tg then 1 else 0)"
  "codableFields fs \<Longrightarrow>
     goodReader (unmarshalFields fs order q) (shapeFields fs) (if startsFields fs then 1 else 0)"
proof (induction t and fs arbitrary: tg q and q)
  case TString
  then have k: "hasLenPrefix tg" "lenPrefix tg \<noteq> KInvalid" by (auto simp: validTag_def)
  have "goodReader (rbind (readFull n) (\<lambda>buf.
      rret (VString (if nullTerminated tg then takeWhile (\<lambda>b. b \<noteq> 0) buf else buf))))
      (shape TString) 0" for n
    by (rule goodReader_mono [OF goodReader_rbind_rret [OF goodReader_readFull]]) auto
  with k show ?case by (simp add: unmarshalString_def goodReader_prefixed del: shape.simps)
next
  case (TSlice et)
  then have e: "\<not> is_ptr et" using starts_not_ptr [of et noTag] by auto
  from TSlice have "goodReader (unmarshal_switch et order noTag q) (shape et) 1"
    using switchType_plain [OF e] by fastforce
  with e have "goodReader (unmarshalSliceElement
      (unmarshalTagged (unmarshal_switch et order) et None q) et order q) (shape et) 1"
    by (intro goodReader_sliceElement) (simp add: unmarshalTagged_None)
  with TSlice.prems(2) show ?case
    using goodReader_slice [of _ et tg order] by (simp del: shape.simps starts.simps)
next
  case (TArray k et)
  then have e: "\<not> is_ptr et" using starts_not_ptr [of et noTag] by auto
  from TArray have "goodReader (unmarshal_switch et order noTag q) (shape et) 1"
    using switchType_plain [OF e] by fastforce
  with e have "goodReader (readCount k (unmarshalTagged (unmarshal_switch et order) et None q))
      (\<lambda>vs. length vs = k \<and> list_all (shape et) vs) k"
    by (intro goodReader_readCount) (simp add: unmarshalTagged_None)
  then have "goodReader (rbind (readCount k (unmarshalTagged (unmarshal_switch et order) et None q))
      (\<lambda>vs. rret (VArray vs))) (shape (TArray k et)) k"
    by (rule goodReader_rbind_rret) simp
  then have "goodReader (rbind (readCount k (unmarshalTagged (unmarshal_switch et order) et None q))
      (\<lambda>vs. rret (VArray vs))) (shape (TArray k et)) (if starts (TArray k et) tg then 1 else 0)"
    by (rule goodReader_mono) auto
  then show ?case by (simp del: shape.simps starts.simps)
next
  case (TStruct n fs)
  then show ?case
    using goodReader_struct [of _ fs tg order n] by (simp del: shape.simps starts.simps)
next
  case (TPtr u)
  then have "switchType u = u" by (cases u) auto
  moreover from TPtr.prems have "codable u tg" by simp
  ultimately have "goodReader (unmarshal_switch u order tg q) (shape u) (if starts u tg then 1 else 0)"
    using TPtr.IH [of tg q] TPtr.prems(2) by metis
  then have "goodReader (unmarshal_switch u order tg q) (shape u) 0"
    by (rule goodReader_mono) auto
  then show ?case by simp
next
  case FNil
  then show ?case by (simp add: goodReader_rret)
next
  case (FCons n tag t fs)
  from FCons.prems obtain tg where tg: "parseOSCARTag tag = Inr tg" "optional tg = is_ptr t"
    "codable t tg" "fs = FNil \<or> selfDelim t tg" and cf: "codableFields fs"
    by (auto split: sum.splits)
  have chk: "fieldPointerCheck t fs = None"
    using tg(3,4) by (cases t) (auto simp: fieldPointerCheck_def)
  note sw = FCons.IH(1) [OF tg(3) parse_validTag [OF tg(1)], of "effectiveQuirk tg q"]
  have f: "goodReader (unmarshalTagged (unmarshal_switch t order) t tag q) (shape t)
      (if starts t tg then 1 else 0)"
  proof (cases "is_ptr t")
    case False
    with sw tg show ?thesis by (simp add: unmarshalTagged_plain switchType_plain)
  next
    case True
    then obtain u where "t = TPtr u" by (cases t) auto
    with sw tg True goodReader_optional [of "unmarshal_switch t order" tg "effectiveQuirk tg q" u _ t tag q]
    show ?thesis by auto
  qed
  from FCons.IH(2) [OF cf, of q]
  have "goodReader (unmarshalFields fs order q) (shapeFields fs) 0"
    by (rule goodReader_mono) auto
  then have "goodReader (rbind (unmarshalTagged (unmarshal_switch t order) t tag q) (\<lambda>v.
      rbind (unmarshalFields fs order q) (\<lambda>vs. rret (v # vs)))) (shapeFields (FCons n tag t fs))
      ((if starts t tg then 1 else 0) + 0)"
    by (intro goodReader_rbind [OF f] goodReader_rbind_rret) auto
  with chk tg(1) show ?case by (simp del: shapeFields.simps)
qed (auto intro!: goodReader_scalar simp del: shape.simps, auto)

end
