(* ===== verification/Wire_TLV.thy ===== *)
theory Wire_TLV
  imports Wire_Codec_Laws
begin

text \<open>
  \<open>wire/tlv.go\<close>: the TLV record, its typed accessors, the TLV list and the three block types that
  carry it on the wire. An accessor of \<open>encoding/binary\<close> on a value that is too short panics; the
  panic is the result \<open>Inl Panics\<close>.
\<close>

section \<open>TLV\<close>

record TLV =
  Tag :: u16
  Value :: bytes

definition binaryUint16 :: "byteOrder \<Rightarrow> bytes \<Rightarrow> gerr + u16" where
  "binaryUint16 order b =
     (if length b < 2 then Inl Panics else Inr (word_of_nat (getUint order (take 2 b))))"

definition binaryUint32 :: "byteOrder \<Rightarrow> bytes \<Rightarrow> gerr + u32" where
  "binaryUint32 order b =
     (if length b < 4 then Inl Panics else Inr (word_of_nat (getUint order (take 4 b))))"

definition TLV_ICQString :: "TLV \<Rightarrow> bytes" where
  "TLV_ICQString t =
     (if length (Value t) < 3 then []
      else (let expectedLength = getUint LittleEndian (take 2 (Value t)); value = drop 2 (Value t) in
        if expectedLength \<noteq> length value then [] else take (length value - 1) value))"

definition TLV_Uint8 :: "TLV \<Rightarrow> byte" where
  "TLV_Uint8 t = (if Value t \<noteq> [] then Value t ! 0 else 0)"

definition TLV_Uint16LE :: "TLV \<Rightarrow> gerr + u16" where
  "TLV_Uint16LE t = binaryUint16 LittleEndian (Value t)"

definition TLV_Uint16BE :: "TLV \<Rightarrow> gerr + u16" where
  "TLV_Uint16BE t = binaryUint16 BigEndian (Value t)"

definition TLV_Uint32LE :: "TLV \<Rightarrow> gerr + u32" where
  "TLV_Uint32LE t = binaryUint32 LittleEndian (Value t)"

definition TLV_Uint32BE :: "TLV \<Rightarrow> gerr + u32" where
  "TLV_Uint32BE t = binaryUint32 BigEndian (Value t)"

text \<open>The bytes of a \<open>[]byte\<close> value, and the value a TLV is for the codec.\<close>

definition valBytes :: "gval list \<Rightarrow> bytes" where
  "valBytes vs = map (\<lambda>v. case v of VU8 b \<Rightarrow> b | _ \<Rightarrow> 0) vs"

definition bytesVal :: "bytes \<Rightarrow> gval" where
  "bytesVal bs = VSlice (map VU8 bs)"

definition TLV_val :: "TLV \<Rightarrow> gval" where
  "TLV_val t = VStruct [VU16 (Tag t), bytesVal (Value t)]"

text \<open>
  \<open>newTLV\<close>: a \<open>[]byte\<close> is the value as it is, anything else is marshalled; a marshalling error is
  a panic.
\<close>

definition newTLV :: "u16 \<Rightarrow> (gtype \<times> gval) option \<Rightarrow> byteOrder \<Rightarrow> gerr + TLV" where
  "newTLV tag val order =
     (case val of
        Some (TSlice TU8, VSlice vs) \<Rightarrow> Inr \<lparr>Tag = tag, Value = valBytes vs\<rparr>
      | _ \<Rightarrow>
          (case (case order of BigEndian \<Rightarrow> MarshalBE val | LittleEndian \<Rightarrow> MarshalLE val) of
             Inl e \<Rightarrow> Inl Panics
           | Inr bs \<Rightarrow> Inr \<lparr>Tag = tag, Value = bs\<rparr>))"

definition NewTLVBE :: "u16 \<Rightarrow> (gtype \<times> gval) option \<Rightarrow> gerr + TLV" where
  "NewTLVBE tag val = newTLV tag val BigEndian"

definition NewTLVLE :: "u16 \<Rightarrow> (gtype \<times> gval) option \<Rightarrow> gerr + TLV" where
  "NewTLVLE tag val = newTLV tag val LittleEndian"

section \<open>TLV lists\<close>

type_synonym TLVList = "TLV list"

definition TLVList_Append :: "TLVList \<Rightarrow> TLV \<Rightarrow> TLVList" where
  "TLVList_Append s tlv = s @ [tlv]"

definition TLVList_AppendList :: "TLVList \<Rightarrow> TLV list \<Rightarrow> TLVList" where
  "TLVList_AppendList s tlvs = s @ tlvs"

fun TLVList_HasTag :: "TLVList \<Rightarrow> u16 \<Rightarrow> bool" where
  "TLVList_HasTag [] tag = False"
| "TLVList_HasTag (tlv # s) tag = (if tag = Tag tlv then True else TLVList_HasTag s tag)"

fun TLVList_Replace :: "TLVList \<Rightarrow> TLV \<Rightarrow> TLVList" where
  "TLVList_Replace [] new = []"
| "TLVList_Replace (old # s) new =
     (if Tag old = Tag new then old\<lparr>Value := Value new\<rparr> else old) # TLVList_Replace s new"

text \<open>The typed lookups all stop at the first TLV with the tag; \<open>None\<close> is the result \<open>false\<close>.\<close>

fun TLVList_String :: "TLVList \<Rightarrow> u16 \<Rightarrow> bytes option" where
  "TLVList_String [] tag = None"
| "TLVList_String (tlv # s) tag = (if tag = Tag tlv then Some (Value tlv) else TLVList_String s tag)"

fun TLVList_ICQString :: "TLVList \<Rightarrow> u16 \<Rightarrow> bytes option" where
  "TLVList_ICQString [] tag = None"
| "TLVList_ICQString (tlv # s) tag =
     (if tag \<noteq> Tag tlv then TLVList_ICQString s tag else Some (TLV_ICQString tlv))"

fun TLVList_Bytes :: "TLVList \<Rightarrow> u16 \<Rightarrow> bytes option" where
  "TLVList_Bytes [] tag = None"
| "TLVList_Bytes (tlv # s) tag = (if tag = Tag tlv then Some (Value tlv) else TLVList_Bytes s tag)"

fun TLVList_Uint8 :: "TLVList \<Rightarrow> u16 \<Rightarrow> byte option" where
  "TLVList_Uint8 [] tag = None"
| "TLVList_Uint8 (tlv # s) tag = (if tag = Tag tlv then Some (TLV_Uint8 tlv) else TLVList_Uint8 s tag)"

fun TLVList_Uint16BE :: "TLVList \<Rightarrow> u16 \<Rightarrow> gerr + u16 option" where
  "TLVList_Uint16BE [] tag = Inr None"
| "TLVList_Uint16BE (tlv # s) tag =
     (if tag = Tag tlv then ebind (TLV_Uint16BE tlv) (\<lambda>x. Inr (Some x)) else TLVList_Uint16BE s tag)"

fun TLVList_Uint16LE :: "TLVList \<Rightarrow> u16 \<Rightarrow> gerr + u16 option" where
  "TLVList_Uint16LE [] tag = Inr None"
| "TLVList_Uint16LE (tlv # s) tag =
     (if tag = Tag tlv then ebind (TLV_Uint16LE tlv) (\<lambda>x. Inr (Some x)) else TLVList_Uint16LE s tag)"

fun TLVList_Uint32BE :: "TLVList \<Rightarrow> u16 \<Rightarrow> gerr + u32 option" where
  "TLVList_Uint32BE [] tag = Inr None"
| "TLVList_Uint32BE (tlv # s) tag =
     (if tag = Tag tlv then ebind (TLV_Uint32BE tlv) (\<lambda>x. Inr (Some x)) else TLVList_Uint32BE s tag)"

fun TLVList_Uint32LE :: "TLVList \<Rightarrow> u16 \<Rightarrow> gerr + u32 option" where
  "TLVList_Uint32LE [] tag = Inr None"
| "TLVList_Uint32LE (tlv # s) tag =
     (if tag = Tag tlv then ebind (TLV_Uint32LE tlv) (\<lambda>x. Inr (Some x)) else TLVList_Uint32LE s tag)"

definition uint16Chunks :: "bytes \<Rightarrow> u16 list" where
  "uint16Chunks b =
     map (\<lambda>i. word_of_nat (getUint BigEndian (take 2 (drop (i * 2) b)))) [0..<length b div 2]"

fun TLVList_Uint16SliceBE :: "TLVList \<Rightarrow> u16 \<Rightarrow> u16 list option" where
  "TLVList_Uint16SliceBE [] tag = None"
| "TLVList_Uint16SliceBE (tlv # s) tag =
     (if tag = Tag tlv then Some (uint16Chunks (Value tlv)) else TLVList_Uint16SliceBE s tag)"

section \<open>Blocks\<close>

definition TLVRestBlock_type :: gtype where
  "TLVRestBlock_type = TStruct ''TLVRestBlock'' (structFields [(''TLVList'', None, TSlice TLV_type)])"

definition TLVBlock_type :: gtype where
  "TLVBlock_type = TStruct ''TLVBlock''
     (structFields [(''TLVList'', Some ''count_prefix=uint16'', TSlice TLV_type)])"

definition TLVLBlock_type :: gtype where
  "TLVLBlock_type = TStruct ''TLVLBlock''
     (structFields [(''TLVList'', Some ''len_prefix=uint16'', TSlice TLV_type)])"

definition TLVList_val :: "TLVList \<Rightarrow> gval" where
  "TLVList_val s = VStruct [VSlice (map TLV_val s)]"

section \<open>Lookup after update\<close>

text \<open>
  What the client of a TLV list relies on: the first value of a tag, unchanged by what is
  appended behind it and by the replacement of other tags.
\<close>

locale tag_table =
  fixes lookup :: "'t \<Rightarrow> 'k \<Rightarrow> 'v option"
    and append :: "'t \<Rightarrow> 'k \<Rightarrow> 'v \<Rightarrow> 't"
    and replace :: "'t \<Rightarrow> 'k \<Rightarrow> 'v \<Rightarrow> 't"
  assumes lookup_append: "lookup (append t k v) k' =
      (case lookup t k' of Some x \<Rightarrow> Some x | None \<Rightarrow> if k' = k then Some v else None)"
    and lookup_replace: "lookup (replace t k v) k' =
      (case lookup t k' of None \<Rightarrow> None | Some x \<Rightarrow> if k' = k then Some v else Some x)"
begin

text \<open>The idiom of the handlers: replace the value when the tag is there, append it otherwise.\<close>

definition upsert :: "'t \<Rightarrow> 'k \<Rightarrow> 'v \<Rightarrow> 't" where
  "upsert t k v = (if lookup t k = None then append t k v else replace t k v)"

lemma lookup_upsert: "lookup (upsert t k v) k' = (if k' = k then Some v else lookup t k')"
  by (auto simp: upsert_def lookup_append lookup_replace split: option.splits)

lemma lookup_replace_twice: "lookup (replace (replace t k v) k w) k' = lookup (replace t k w) k'"
  by (auto simp: lookup_replace split: option.splits)

lemma lookup_replace_comm:
  "k \<noteq> l \<Longrightarrow> lookup (replace (replace t k v) l w) k' = lookup (replace (replace t l w) k v) k'"
  by (auto simp: lookup_replace split: option.splits)

lemma lookup_append_first: "lookup (append (append t k v) k w) k = lookup (append t k v) k"
  by (simp add: lookup_append split: option.splits)

end

lemma Bytes_append:
  "TLVList_Bytes (s @ [tlv]) tag =
     (case TLVList_Bytes s tag of Some x \<Rightarrow> Some x
      | None \<Rightarrow> if tag = Tag tlv then Some (Value tlv) else None)"
  by (induction s) auto

lemma Bytes_Replace:
  "TLVList_Bytes (TLVList_Replace s new) tag =
     (case TLVList_Bytes s tag of None \<Rightarrow> None
      | Some x \<Rightarrow> if tag = Tag new then Some (Value new) else Some x)"
  by (induction s) auto

interpretation tlvs: tag_table TLVList_Bytes
    "\<lambda>s tag v. TLVList_Append s \<lparr>Tag = tag, Value = v\<rparr>"
    "\<lambda>s tag v. TLVList_Replace s \<lparr>Tag = tag, Value = v\<rparr>"
  by unfold_locales (simp_all add: TLVList_Append_def Bytes_append Bytes_Replace split: option.splits)

section \<open>The typed lookups as one lookup\<close>

lemma HasTag_Bytes: "TLVList_HasTag s tag \<longleftrightarrow> TLVList_Bytes s tag \<noteq> None"
  by (induction s) auto

lemma String_Bytes: "TLVList_String s tag = TLVList_Bytes s tag"
  by (induction s) auto

lemma Uint8_Bytes:
  "TLVList_Uint8 s tag = map_option (\<lambda>v. if v \<noteq> [] then v ! 0 else 0) (TLVList_Bytes s tag)"
  by (induction s) (auto simp: TLV_Uint8_def)

lemma Uint16BE_Bytes:
  "TLVList_Uint16BE s tag = (case TLVList_Bytes s tag of None \<Rightarrow> Inr None
     | Some v \<Rightarrow> ebind (binaryUint16 BigEndian v) (\<lambda>x. Inr (Some x)))"
  by (induction s) (auto simp: TLV_Uint16BE_def)

lemma Uint16LE_Bytes:
  "TLVList_Uint16LE s tag = (case TLVList_Bytes s tag of None \<Rightarrow> Inr None
     | Some v \<Rightarrow> ebind (binaryUint16 LittleEndian v) (\<lambda>x. Inr (Some x)))"
  by (induction s) (auto simp: TLV_Uint16LE_def)

lemma Uint32BE_Bytes:
  "TLVList_Uint32BE s tag = (case TLVList_Bytes s tag of None \<Rightarrow> Inr None
     | Some v \<Rightarrow> ebind (binaryUint32 BigEndian v) (\<lambda>x. Inr (Some x)))"
  by (induction s) (auto simp: TLV_Uint32BE_def)

lemma Uint32LE_Bytes:
  "TLVList_Uint32LE s tag = (case TLVList_Bytes s tag of None \<Rightarrow> Inr None
     | Some v \<Rightarrow> ebind (binaryUint32 LittleEndian v) (\<lambda>x. Inr (Some x)))"
  by (induction s) (auto simp: TLV_Uint32LE_def)

lemmas lookups_Bytes = HasTag_Bytes String_Bytes Uint8_Bytes Uint16BE_Bytes Uint16LE_Bytes
  Uint32BE_Bytes Uint32LE_Bytes

lemma binaryUint16_putUint [simp]:
  "binaryUint16 order (putUint order 2 (unat w)) = Inr w" for w :: u16
  using getUint_putUint [of order 2 "unat w"] word_bounds(2) [of w]
  by (simp add: binaryUint16_def)

lemma binaryUint32_putUint [simp]:
  "binaryUint32 order (putUint order 4 (unat w)) = Inr w" for w :: u32
  using getUint_putUint [of order 4 "unat w"] word_bounds(3) [of w]
  by (simp add: binaryUint32_def)

section \<open>TLVs through the codec\<close>

lemma TLV_type_codable:
  "codable TLV_type noTag" "noQuirk TLV_type" "selfDelim TLV_type noTag" "starts TLV_type noTag"
  by (simp_all add: TLV_type_def parseOSCARTag_def parseTagEntry_def parsePrefixKind_def trimSpace_def
      isSpace_def noTag_def)

text \<open>The element loops of the codec run on TLVs: the contract \<open>element_codec\<close> holds of the model.\<close>

interpretation tlv_elements: element_codec "fits TLV_type noTag order" "encOf TLV_type order noTag"
    "unmarshalTagged (unmarshal_switch TLV_type order) TLV_type None []" for order
  using roundtrips_main(1) [OF TLV_type_codable(1,2)]
  by (intro element_codecI TLV_type_codable) (auto simp: TLV_type_def)

lemma parse_prefix16:
  "parseOSCARTag (Some ''len_prefix=uint16'') = Inr (noTag\<lparr>hasLenPrefix := True, lenPrefix := KUint16\<rparr>)"
  "parseOSCARTag (Some ''count_prefix=uint16'') = Inr (noTag\<lparr>hasCountPrefix := True, countPrefix := KUint16\<rparr>)"
  by (simp_all add: parseOSCARTag_def parseTagEntry_def parsePrefixKind_def trimSpace_def
      isSpace_def noTag_def)

definition TLV_ok :: "TLV \<Rightarrow> bool" where
  "TLV_ok t \<longleftrightarrow> length (Value t) < 2 ^ 16"

definition TLV_enc :: "byteOrder \<Rightarrow> TLV \<Rightarrow> bytes" where
  "TLV_enc order t =
     putUint order 2 (unat (Tag t)) @ putUint order 2 (length (Value t)) @ Value t"

lemma encOf_bytes: "concat (map (encOf TU8 order noTag) (map VU8 bs)) = bs"
  by (induction bs) (simp_all add: encOf_def)

lemma fits_TLV_val: "fits TLV_type noTag order (TLV_val t) \<longleftrightarrow> TLV_ok t"
  by (simp add: TLV_type_def TLV_val_def TLV_ok_def bytesVal_def parse_prefix16 list_all_iff
      lenFits_def encOf_bytes del: map_map)

lemma encOf_TLV_val: "TLV_ok t \<Longrightarrow> encOf TLV_type order noTag (TLV_val t) = TLV_enc order t"
  by (simp add: TLV_type_def TLV_val_def TLV_ok_def TLV_enc_def bytesVal_def parse_prefix16 encOf_def
      structOrder_def fieldPointerCheck_def marshalTagged_def marshalSlicePrefix_def
      marshalStructPrefix_def marshalUnsignedInt_def concat_map_singleton comp_def)

section \<open>Properties\<close>

lemma top_of_plain: "\<not> is_ptr t \<Longrightarrow> marshalTop order (Some (t, v)) = marshal_switch t order noTag v"
  "\<not> is_ptr t \<Longrightarrow> unmarshalTop order t = unmarshal_switch t order noTag []"
  by (simp_all add: marshalTop_def marshalTagged_def unmarshalTop_def unmarshalTagged_None)

lemma is_struct_TLV: "is_struct TLV_type" "\<not> is_ptr TLV_type" "TLV_type \<noteq> TU8"
  by (simp_all add: TLV_type_def)

lemma marshalStructs_TLVs:
  "list_all TLV_ok s \<Longrightarrow>
     marshalStructs TLV_type order (map TLV_val s) = Inr (concat (map (TLV_enc order) s))"
proof (induction s)
  case (Cons t s)
  then have "roundtrips TLV_type noTag order (TLV_val t)"
    using roundtrips_main(1) [OF TLV_type_codable(1,2), of order "TLV_val t"]
    by (simp add: fits_TLV_val is_struct_TLV)
  with Cons show ?case by (simp add: roundtrips_encOf(1) encOf_TLV_val)
qed simp

lemma TLVs_decode:
  assumes "list_all TLV_ok s"
  shows "readCount (length s) (unmarshalTagged (unmarshal_switch TLV_type order) TLV_type None [])
      (concat (map (TLV_enc order) s) @ r) = (Inr (map TLV_val s), r)"
    and "readBuffered (unmarshalTagged (unmarshal_switch TLV_type order) TLV_type None [])
      (concat (map (TLV_enc order) s)) = Inr (map TLV_val s)"
    and "readUntilEOF (unmarshalTagged (unmarshal_switch TLV_type order) TLV_type None [])
      (concat (map (TLV_enc order) s)) = (Inr (map TLV_val s), [])"
proof -
  have ok: "\<forall>v\<in>set (map TLV_val s). fits TLV_type noTag order v"
    and enc: "map (encOf TLV_type order noTag) (map TLV_val s) = map (TLV_enc order) s"
    using assms by (auto simp: list_all_iff fits_TLV_val encOf_TLV_val)
  show "readCount (length s) (unmarshalTagged (unmarshal_switch TLV_type order) TLV_type None [])
      (concat (map (TLV_enc order) s) @ r) = (Inr (map TLV_val s), r)"
    using tlv_elements.readCount_enc [OF ok, of r] by (simp only: enc length_map)
  show "readBuffered (unmarshalTagged (unmarshal_switch TLV_type order) TLV_type None [])
      (concat (map (TLV_enc order) s)) = Inr (map TLV_val s)"
    using tlv_elements.readBuffered_enc [OF ok] by (simp only: enc)
  show "readUntilEOF (unmarshalTagged (unmarshal_switch TLV_type order) TLV_type None [])
      (concat (map (TLV_enc order) s)) = (Inr (map TLV_val s), [])"
    using tlv_elements.readUntilEOF_enc [OF ok] by (simp only: enc)
qed

lemmas block_defs = top_of_plain marshalTagged_def marshalSlicePrefix_def marshalStructPrefix_def
  structOrder_def fieldPointerCheck_def marshalStructs_TLVs is_struct_TLV parse_prefix16
  marshalUnsignedInt_def unmarshalStruct_def unmarshalTagged_plain unmarshalSlice_def
  unmarshalUnsignedInt_def rbind_def rret_def TLVList_val_def

lemma TLVRestBlock_codec:
  assumes "list_all TLV_ok s"
  shows "marshalTop order (Some (TLVRestBlock_type, TLVList_val s)) = Inr (concat (map (TLV_enc order) s))"
    and "unmarshalTop order TLVRestBlock_type (concat (map (TLV_enc order) s)) = (Inr (TLVList_val s), [])"
  using assms TLVs_decode(3) [OF assms, of order]
  by (simp_all add: TLVRestBlock_type_def block_defs)

lemma TLVBlock_codec:
  assumes "list_all TLV_ok s" and "length s < 2 ^ 16"
  shows "marshalTop order (Some (TLVBlock_type, TLVList_val s)) =
      Inr (putUint order 2 (length s) @ concat (map (TLV_enc order) s))"
    and "unmarshalTop order TLVBlock_type
      ((putUint order 2 (length s) @ concat (map (TLV_enc order) s)) @ r) = (Inr (TLVList_val s), r)"
  using assms TLVs_decode(1) [OF assms(1), of order r]
    readUint_putUint [of "length s" 2 order "concat (map (TLV_enc order) s) @ r"]
  by (simp_all add: TLVBlock_type_def block_defs)

lemma TLVLBlock_codec:
  assumes "list_all TLV_ok s" and "length (concat (map (TLV_enc order) s)) < 2 ^ 16"
  shows "marshalTop order (Some (TLVLBlock_type, TLVList_val s)) =
      Inr (putUint order 2 (length (concat (map (TLV_enc order) s))) @ concat (map (TLV_enc order) s))"
    and "unmarshalTop order TLVLBlock_type
      ((putUint order 2 (length (concat (map (TLV_enc order) s))) @ concat (map (TLV_enc order) s)) @ r)
      = (Inr (TLVList_val s), r)"
  using assms TLVs_decode(2) [OF assms(1), of order]
    readUint_putUint [of "length (concat (map (TLV_enc order) s))" 2 order "concat (map (TLV_enc order) s) @ r"]
    readFull_append [of "concat (map (TLV_enc order) s)" _ r, OF refl]
  by (simp_all add: TLVLBlock_type_def block_defs)

text \<open>TLV blocks round-trip in either byte order. Every list of TLVs whose values fit the
  two-byte length decodes from what it encodes to: a rest block when it is the end of the payload,
  a counted block and a length-prefixed block in front of any further bytes, which are left
  unread, provided the count and the byte length fit two bytes.\<close>
theorem tlv_blocks_roundtrip:
  assumes "list_all TLV_ok s"
  shows "(\<exists>bs. marshalTop order (Some (TLVRestBlock_type, TLVList_val s)) = Inr bs \<and>
        unmarshalTop order TLVRestBlock_type bs = (Inr (TLVList_val s), [])) \<and>
    (length s < 2 ^ 16 \<longrightarrow>
      (\<exists>bs. marshalTop order (Some (TLVBlock_type, TLVList_val s)) = Inr bs \<and>
        (\<forall>r. unmarshalTop order TLVBlock_type (bs @ r) = (Inr (TLVList_val s), r)))) \<and>
    ((\<Sum>t\<leftarrow>s. 4 + length (Value t)) < 2 ^ 16 \<longrightarrow>
      (\<exists>bs. marshalTop order (Some (TLVLBlock_type, TLVList_val s)) = Inr bs \<and>
        (\<forall>r. unmarshalTop order TLVLBlock_type (bs @ r) = (Inr (TLVList_val s), r))))"
proof -
  have "length (concat (map (TLV_enc order) s)) = (\<Sum>t\<leftarrow>s. 4 + length (Value t))"
    by (induction s) (simp_all add: TLV_enc_def)
  with TLVRestBlock_codec [OF assms, of order] TLVBlock_codec [OF assms, of order]
    TLVLBlock_codec [OF assms, of order]
  show ?thesis by metis
qed

lemma tlv_blocks_roundtrip_witness:
  "(\<exists>bs. marshalTop BigEndian (Some (TLVLBlock_type, TLVList_val [\<lparr>Tag = 1, Value = [7, 8]\<rparr>])) = Inr bs \<and>
     (\<forall>r. unmarshalTop BigEndian TLVLBlock_type (bs @ r)
        = (Inr (TLVList_val [\<lparr>Tag = 1, Value = [7, 8]\<rparr>]), r)))"
  using tlv_blocks_roundtrip [of "[\<lparr>Tag = 1, Value = [7, 8]\<rparr>]" BigEndian] by (simp add: TLV_ok_def)

text \<open>The length prefix of a TLV value is truncated, not checked. A value of 65536 + k bytes is
  written with the length k, and the peer decodes a TLV with the first k bytes and takes the rest
  of the value for what follows.\<close>
theorem tlv_oversized_value_desyncs:
  assumes "length (Value t) = 2 ^ 16 + k" and "k < 2 ^ 16"
  shows "\<exists>bs. marshalTop order (Some (TLV_type, TLV_val t)) = Inr bs \<and>
    unmarshalTop order TLV_type bs =
      (Inr (TLV_val (t\<lparr>Value := take k (Value t)\<rparr>)), drop k (Value t))"
proof -
  let ?v = "Value t"
  have ok: "TLV_ok (t\<lparr>Value := take k ?v\<rparr>)" using assms by (simp add: TLV_ok_def)
  have mod: "(2 ^ 16 + k) mod 2 ^ 16 = k" using assms(2) by simp
  have w: "concat (map (binaryWrite order) (map VU8 bs)) = bs" for bs by (induction bs) auto
  have "marshalTop order (Some (TLV_type, TLV_val t)) =
      Inr (putUint order 2 (unat (Tag t)) @ putUint order 2 k @ ?v)"
    using assms mod w [of ?v]
    by (simp add: top_of_plain is_struct_TLV TLV_type_def TLV_val_def bytesVal_def parse_prefix16
        structOrder_def fieldPointerCheck_def marshalTagged_def marshalSlicePrefix_def
        marshalStructPrefix_def marshalUnsignedInt_def del: map_map)
  also have "putUint order 2 (unat (Tag t)) @ putUint order 2 k @ ?v
      = TLV_enc order (t\<lparr>Value := take k ?v\<rparr>) @ drop k ?v"
    using assms by (simp add: TLV_enc_def)
  finally have m: "marshalTop order (Some (TLV_type, TLV_val t)) =
      Inr (TLV_enc order (t\<lparr>Value := take k ?v\<rparr>) @ drop k ?v)" .
  have "unmarshalTop order TLV_type (TLV_enc order (t\<lparr>Value := take k ?v\<rparr>) @ drop k ?v)
      = (Inr (TLV_val (t\<lparr>Value := take k ?v\<rparr>)), drop k ?v)"
    using TLVs_decode(1) [of "[t\<lparr>Value := take k ?v\<rparr>]" order "drop k ?v"] ok
    by (auto simp: top_of_plain is_struct_TLV unmarshalTagged_None rbind_def rret_def
        split: prod.splits sum.splits)
  with m show ?thesis by blast
qed

lemma tlv_oversized_value_desyncs_witness:
  "\<exists>bs. marshalTop BigEndian (Some (TLV_type, TLV_val \<lparr>Tag = 5, Value = replicate (2 ^ 16) 9\<rparr>)) = Inr bs \<and>
    unmarshalTop BigEndian TLV_type bs =
      (Inr (TLV_val \<lparr>Tag = 5, Value = []\<rparr>), replicate (2 ^ 16) 9)"
  using tlv_oversized_value_desyncs [of "\<lparr>Tag = 5, Value = replicate (2 ^ 16) 9\<rparr>" 0 BigEndian]
  by (simp only: TLV.simps take_0 drop_0 length_replicate) simp

text \<open>Replacing a tag that is in the list changes exactly that tag: the first value of the tag
  is the new one, every other tag keeps its value, the tags and their order stay, and replacing
  twice is replacing once.\<close>
theorem tlv_replace_correct:
  assumes "TLVList_HasTag s (Tag new)"
  shows "TLVList_Bytes (TLVList_Replace s new) tag =
      (if tag = Tag new then Some (Value new) else TLVList_Bytes s tag) \<and>
    map Tag (TLVList_Replace s new) = map Tag s \<and>
    TLVList_Replace (TLVList_Replace s new) new = TLVList_Replace s new"
proof -
  have "map Tag (TLVList_Replace s new) = map Tag s"
    "TLVList_Replace (TLVList_Replace s new) new = TLVList_Replace s new"
    by (induction s) auto
  moreover obtain k v where n: "new = \<lparr>Tag = k, Value = v\<rparr>" by (cases new)
  ultimately show ?thesis
    using assms tlvs.lookup_replace [of s k v tag]
    by (auto simp: HasTag_Bytes split: option.splits)
qed

lemma tlv_replace_correct_witness:
  "TLVList_Bytes (TLVList_Replace [\<lparr>Tag = 1, Value = [7]\<rparr>, \<lparr>Tag = 2, Value = [8]\<rparr>]
     \<lparr>Tag = 2, Value = [9]\<rparr>) 2 = Some [9]"
  using tlv_replace_correct [of "[\<lparr>Tag = 1, Value = [7]\<rparr>, \<lparr>Tag = 2, Value = [8]\<rparr>]" "\<lparr>Tag = 2, Value = [9]\<rparr>" 2]
  by simp

text \<open>The integer lookups answer by the first TLV with the tag and panic exactly when its value
  is shorter than the integer: absent tags and values of at least the width never panic, extra
  bytes are ignored.\<close>
theorem tlv_uint_lookups:
  "TLVList_Uint16BE s tag = (case TLVList_Bytes s tag of
      None \<Rightarrow> Inr None
    | Some v \<Rightarrow> if length v < 2 then Inl Panics
        else Inr (Some (word_of_nat (256 * unat (v ! 0) + unat (v ! 1))))) \<and>
   (isOk (TLVList_Uint32BE s tag) = (case TLVList_Bytes s tag of None \<Rightarrow> True | Some v \<Rightarrow> 4 \<le> length v)) \<and>
   (isOk (TLVList_Uint16LE s tag) = isOk (TLVList_Uint16BE s tag)) \<and>
   (isOk (TLVList_Uint32LE s tag) = isOk (TLVList_Uint32BE s tag))"
proof -
  have g: "getUint BigEndian (take 2 v) = 256 * unat (v ! 0) + unat (v ! 1)" if "\<not> length v < 2" for v
  proof -
    from that obtain a b r where "v = a # b # r"
      by (cases v; cases "tl v") auto
    then show ?thesis by (simp add: getUint_def numeral_2_eq_2)
  qed
  show ?thesis
    by (auto simp: Uint16BE_Bytes Uint32BE_Bytes Uint16LE_Bytes Uint32LE_Bytes binaryUint16_def
        binaryUint32_def g simp del: of_nat_add of_nat_mult split: option.splits)
qed

text \<open>A TLV built from an integer is read back by the accessor of the same width and order, a TLV
  built from a byte slice holds the slice unchanged, and the marshalling that would fail (an untyped
  nil) panics instead of returning.\<close>
theorem newTLV_accessors:
  "(\<exists>t. NewTLVBE tag (Some (TU16, VU16 w)) = Inr t \<and> Tag t = tag \<and> TLV_Uint16BE t = Inr w) \<and>
   (\<exists>t. NewTLVLE tag (Some (TU16, VU16 w)) = Inr t \<and> Tag t = tag \<and> TLV_Uint16LE t = Inr w) \<and>
   (\<exists>t. NewTLVBE tag (Some (TU32, VU32 x)) = Inr t \<and> Tag t = tag \<and> TLV_Uint32BE t = Inr x) \<and>
   (\<exists>t. NewTLVLE tag (Some (TU32, VU32 x)) = Inr t \<and> Tag t = tag \<and> TLV_Uint32LE t = Inr x) \<and>
   (\<exists>t. NewTLVBE tag (Some (TU8, VU8 y)) = Inr t \<and> Tag t = tag \<and> TLV_Uint8 t = y) \<and>
   NewTLVBE tag (Some (TSlice TU8, bytesVal bs)) = Inr \<lparr>Tag = tag, Value = bs\<rparr> \<and>
   NewTLVBE tag None = Inl Panics"
  by (simp add: NewTLVBE_def NewTLVLE_def newTLV_def MarshalBE_def MarshalLE_def top_of_plain
      marshalTop_def marshalTagged_def TLV_Uint16BE_def TLV_Uint16LE_def TLV_Uint32BE_def
      TLV_Uint32LE_def TLV_Uint8_def bytesVal_def valBytes_def comp_def)

end
