(* ===== verification/Wire_Snacs.thy ===== *)
theory Wire_Snacs
  imports Wire_TLV Wire_Codec_Safety
begin

text \<open>
  The message catalogue: one descriptor per struct of \<open>wire/snacs.go\<close>, \<open>wire/frames.go\<close> and
  \<open>wire/benco_keydir.go\<close>, field by field in the order of the source, with the text of each
  \<open>oscar\<close> tag. An embedded struct is a field with the name of its type, as \<open>reflect\<close> sees it.
  \<open>uuid.UUID\<close> is an array of sixteen bytes. The lists at the end collect the descriptors by food
  group; the theorems say which of them decode what they encode.
\<close>

section \<open>Descriptors\<close>

definition UUID_type :: gtype where
  "UUID_type = TArray 16 TU8"

definition SNACError_type :: gtype where
  "SNACError_type = TStruct ''SNACError'' (structFields
     [(''Code'', None, TU16),
      (''TLVRestBlock'', None, TLVRestBlock_type)])"

definition FLAPFrame_type :: gtype where
  "FLAPFrame_type = TStruct ''FLAPFrame'' (structFields
     [(''StartMarker'', None, TU8),
      (''FrameType'', None, TU8),
      (''Sequence'', None, TU16),
      (''Payload'', Some ''len_prefix=uint16'', TSlice TU8)])"

definition FLAPFrameDisconnect_type :: gtype where
  "FLAPFrameDisconnect_type = TStruct ''FLAPFrameDisconnect'' (structFields
     [(''StartMarker'', None, TU8),
      (''FrameType'', None, TU8),
      (''Sequence'', None, TU16)])"

definition SNACFrame_type :: gtype where
  "SNACFrame_type = TStruct ''SNACFrame'' (structFields
     [(''FoodGroup'', None, TU16),
      (''SubGroup'', None, TU16),
      (''Flags'', None, TU16),
      (''RequestID'', None, TU32)])"

definition FLAPSignonFrame_type :: gtype where
  "FLAPSignonFrame_type = TStruct ''FLAPSignonFrame'' (structFields
     [(''FLAPVersion'', None, TU32),
      (''TLVRestBlock'', None, TLVRestBlock_type)])"

definition SNAC_0x01_0x02_OServiceClientOnline :: gtype where
  "SNAC_0x01_0x02_OServiceClientOnline = TStruct ''SNAC_0x01_0x02_OServiceClientOnline'' (structFields
     [(''GroupVersions'', None, TSlice (TStruct '''' (structFields [(''FoodGroup'', None, TU16),
     (''Version'', None, TU16),
     (''ToolID'', None, TU16),
     (''ToolVersion'', None, TU16)])))])"

definition SNAC_0x01_0x03_OServiceHostOnline :: gtype where
  "SNAC_0x01_0x03_OServiceHostOnline = TStruct ''SNAC_0x01_0x03_OServiceHostOnline'' (structFields
     [(''FoodGroups'', None, TSlice TU16)])"

definition SNAC_0x01_0x04_OServiceServiceRequest :: gtype where
  "SNAC_0x01_0x04_OServiceServiceRequest = TStruct ''SNAC_0x01_0x04_OServiceServiceRequest'' (structFields
     [(''FoodGroup'', None, TU16),
      (''TLVRestBlock'', None, TLVRestBlock_type)])"

definition SNAC_0x01_0x04_TLVRoomInfo :: gtype where
  "SNAC_0x01_0x04_TLVRoomInfo = TStruct ''SNAC_0x01_0x04_TLVRoomInfo'' (structFields
     [(''Exchange'', None, TU16),
      (''Cookie'', Some ''len_prefix=uint8'', TString),
      (''InstanceNumber'', None, TU16)])"

definition SNAC_0x01_0x05_OServiceServiceResponse :: gtype where
  "SNAC_0x01_0x05_OServiceServiceResponse = TStruct ''SNAC_0x01_0x05_OServiceServiceResponse'' (structFields
     [(''TLVRestBlock'', None, TLVRestBlock_type)])"

definition RateParamsSNAC_type :: gtype where
  "RateParamsSNAC_type = TStruct ''RateParamsSNAC'' (structFields
     [(''ID'', None, TU16),
      (''WindowSize'', None, TU32),
      (''ClearLevel'', None, TU32),
      (''AlertLevel'', None, TU32),
      (''LimitLevel'', None, TU32),
      (''DisconnectLevel'', None, TU32),
      (''CurrentLevel'', None, TU32),
      (''MaxLevel'', None, TU32),
      (''V2Params'', Some ''optional'', TPtr (TStruct '''' (structFields [(''LastTime'', None, TU32),
     (''DroppingSNACs'', None, TU8)])))])"

definition SNAC_0x01_0x07_OServiceRateParamsReply :: gtype where
  "SNAC_0x01_0x07_OServiceRateParamsReply = TStruct ''SNAC_0x01_0x07_OServiceRateParamsReply'' (structFields
     [(''RateClasses'', Some ''count_prefix=uint16'', TSlice RateParamsSNAC_type),
      (''RateGroups'', None, TSlice (TStruct '''' (structFields [(''ID'', None, TU16),
     (''Pairs'', Some ''count_prefix=uint16'', TSlice (TStruct '''' (structFields [(''FoodGroup'', None, TU16),
     (''SubGroup'', None, TU16)])))])))])"

definition SNAC_0x01_0x0A_OServiceRateParamsChange :: gtype where
  "SNAC_0x01_0x0A_OServiceRateParamsChange = TStruct ''SNAC_0x01_0x0A_OServiceRateParamsChange'' (structFields
     [(''Code'', None, TU16),
      (''Rate'', None, RateParamsSNAC_type)])"

definition SNAC_0x01_0x08_OServiceRateParamsSubAdd :: gtype where
  "SNAC_0x01_0x08_OServiceRateParamsSubAdd = TStruct ''SNAC_0x01_0x08_OServiceRateParamsSubAdd'' (structFields
     [(''ClassIDs'', None, TSlice TU16)])"

definition TLVUserInfo_type :: gtype where
  "TLVUserInfo_type = TStruct ''TLVUserInfo'' (structFields
     [(''ScreenName'', Some ''len_prefix=uint8'', TString),
      (''WarningLevel'', None, TU16),
      (''TLVBlock'', None, TLVBlock_type)])"

definition SNAC_0x01_0x0F_OServiceUserInfoUpdate :: gtype where
  "SNAC_0x01_0x0F_OServiceUserInfoUpdate = TStruct ''SNAC_0x01_0x0F_OServiceUserInfoUpdate'' (structFields
     [(''UserInfo'', None, TSlice TLVUserInfo_type)])"

definition SNAC_0x01_0x10_OServiceEvilNotification :: gtype where
  "SNAC_0x01_0x10_OServiceEvilNotification = TStruct ''SNAC_0x01_0x10_OServiceEvilNotification'' (structFields
     [(''NewEvil'', None, TU16),
      (''Snitcher'', Some ''optional'', TPtr (TStruct '''' (structFields [(''TLVUserInfo'', None, TLVUserInfo_type)])))])"

definition SNAC_0x01_0x11_OServiceIdleNotification :: gtype where
  "SNAC_0x01_0x11_OServiceIdleNotification = TStruct ''SNAC_0x01_0x11_OServiceIdleNotification'' (structFields
     [(''IdleTime'', None, TU32)])"

definition SNAC_0x01_0x13_OServiceMOTD :: gtype where
  "SNAC_0x01_0x13_OServiceMOTD = TStruct ''SNAC_0x01_0x13_OServiceMOTD'' (structFields
     [(''MessageType'', None, TU16),
      (''TLVRestBlock'', None, TLVRestBlock_type)])"

definition SNAC_0x01_0x14_OServiceSetPrivacyFlags :: gtype where
  "SNAC_0x01_0x14_OServiceSetPrivacyFlags = TStruct ''SNAC_0x01_0x14_OServiceSetPrivacyFlags'' (structFields
     [(''PrivacyFlags'', None, TU32)])"

definition SNAC_0x01_0x17_OServiceClientVersions :: gtype where
  "SNAC_0x01_0x17_OServiceClientVersions = TStruct ''SNAC_0x01_0x17_OServiceClientVersions'' (structFields
     [(''Versions'', None, TSlice TU16)])"

definition SNAC_0x01_0x18_OServiceHostVersions :: gtype where
  "SNAC_0x01_0x18_OServiceHostVersions = TStruct ''SNAC_0x01_0x18_OServiceHostVersions'' (structFields
     [(''Versions'', None, TSlice TU16)])"

definition SNAC_0x01_0x1E_OServiceSetUserInfoFields :: gtype where
  "SNAC_0x01_0x1E_OServiceSetUserInfoFields = TStruct ''SNAC_0x01_0x1E_OServiceSetUserInfoFields'' (structFields
     [(''TLVRestBlock'', None, TLVRestBlock_type)])"

definition BARTInfo_type :: gtype where
  "BARTInfo_type = TStruct ''BARTInfo'' (structFields
     [(''Flags'', None, TU8),
      (''Hash'', Some ''len_prefix=uint8'', TSlice TU8)])"

definition BARTID_type :: gtype where
  "BARTID_type = TStruct ''BARTID'' (structFields
     [(''Type'', None, TU16),
      (''BARTInfo'', None, BARTInfo_type)])"

definition SNAC_0x01_0x21_OServiceBARTReply :: gtype where
  "SNAC_0x01_0x21_OServiceBARTReply = TStruct ''SNAC_0x01_0x21_OServiceBARTReply'' (structFields
     [(''BARTID'', None, BARTID_type)])"

definition BartQueryReplyID_type :: gtype where
  "BartQueryReplyID_type = TStruct ''BartQueryReplyID'' (structFields
     [(''QueryID'', None, BARTID_type),
      (''Code'', None, TU8),
      (''ReplyID'', None, BARTID_type)])"

definition SNAC_0x01_0x23_OServiceBART2Reply :: gtype where
  "SNAC_0x01_0x23_OServiceBART2Reply = TStruct ''SNAC_0x01_0x23_OServiceBART2Reply'' (structFields
     [(''ReplyID'', None, TSlice BartQueryReplyID_type)])"

definition SNAC_0x02_0x03_LocateRightsReply :: gtype where
  "SNAC_0x02_0x03_LocateRightsReply = TStruct ''SNAC_0x02_0x03_LocateRightsReply'' (structFields
     [(''TLVRestBlock'', None, TLVRestBlock_type)])"

definition SNAC_0x02_0x04_LocateSetInfo :: gtype where
  "SNAC_0x02_0x04_LocateSetInfo = TStruct ''SNAC_0x02_0x04_LocateSetInfo'' (structFields
     [(''TLVRestBlock'', Some ''quirk=jimm_locate_set_info'', TLVRestBlock_type)])"

definition SNAC_0x02_0x06_LocateUserInfoReply :: gtype where
  "SNAC_0x02_0x06_LocateUserInfoReply = TStruct ''SNAC_0x02_0x06_LocateUserInfoReply'' (structFields
     [(''TLVUserInfo'', None, TLVUserInfo_type),
      (''LocateInfo'', None, TLVRestBlock_type)])"

definition SNAC_0x02_0x09_LocateSetDirInfo :: gtype where
  "SNAC_0x02_0x09_LocateSetDirInfo = TStruct ''SNAC_0x02_0x09_LocateSetDirInfo'' (structFields
     [(''TLVRestBlock'', None, TLVRestBlock_type)])"

definition SNAC_0x02_0x0A_LocateSetDirReply :: gtype where
  "SNAC_0x02_0x0A_LocateSetDirReply = TStruct ''SNAC_0x02_0x0A_LocateSetDirReply'' (structFields
     [(''Result'', None, TU16)])"

definition SNAC_0x02_0x0B_LocateGetDirInfo :: gtype where
  "SNAC_0x02_0x0B_LocateGetDirInfo = TStruct ''SNAC_0x02_0x0B_LocateGetDirInfo'' (structFields
     [(''ScreenName'', Some ''len_prefix=uint8'', TString)])"

definition SNAC_0x02_0x0C_LocateGetDirReply :: gtype where
  "SNAC_0x02_0x0C_LocateGetDirReply = TStruct ''SNAC_0x02_0x0C_LocateGetDirReply'' (structFields
     [(''Status'', None, TU16),
      (''TLVBlock'', None, TLVBlock_type)])"

definition SNAC_0x02_0x0F_LocateSetKeywordInfo :: gtype where
  "SNAC_0x02_0x0F_LocateSetKeywordInfo = TStruct ''SNAC_0x02_0x0F_LocateSetKeywordInfo'' (structFields
     [(''TLVRestBlock'', None, TLVRestBlock_type)])"

definition SNAC_0x02_0x10_LocateSetKeywordReply :: gtype where
  "SNAC_0x02_0x10_LocateSetKeywordReply = TStruct ''SNAC_0x02_0x10_LocateSetKeywordReply'' (structFields
     [(''Unknown'', None, TU16)])"

definition SNAC_0x02_0x05_LocateUserInfoQuery :: gtype where
  "SNAC_0x02_0x05_LocateUserInfoQuery = TStruct ''SNAC_0x02_0x05_LocateUserInfoQuery'' (structFields
     [(''Type'', None, TU16),
      (''ScreenName'', Some ''len_prefix=uint8'', TString)])"

definition SNAC_0x02_0x15_LocateUserInfoQuery2 :: gtype where
  "SNAC_0x02_0x15_LocateUserInfoQuery2 = TStruct ''SNAC_0x02_0x15_LocateUserInfoQuery2'' (structFields
     [(''Type2'', None, TU32),
      (''ScreenName'', Some ''len_prefix=uint8'', TString)])"

definition SNAC_0x03_0x02_BuddyRightsQuery :: gtype where
  "SNAC_0x03_0x02_BuddyRightsQuery = TStruct ''SNAC_0x03_0x02_BuddyRightsQuery'' (structFields
     [(''TLVRestBlock'', None, TLVRestBlock_type)])"

definition SNAC_0x03_0x03_BuddyRightsReply :: gtype where
  "SNAC_0x03_0x03_BuddyRightsReply = TStruct ''SNAC_0x03_0x03_BuddyRightsReply'' (structFields
     [(''TLVRestBlock'', None, TLVRestBlock_type)])"

definition SNAC_0x03_0x04_BuddyAddBuddies :: gtype where
  "SNAC_0x03_0x04_BuddyAddBuddies = TStruct ''SNAC_0x03_0x04_BuddyAddBuddies'' (structFields
     [(''Buddies'', None, TSlice (TStruct '''' (structFields [(''ScreenName'', Some ''len_prefix=uint8'', TString)])))])"

definition SNAC_0x03_0x0A_BuddyRejectNotification :: gtype where
  "SNAC_0x03_0x0A_BuddyRejectNotification = TStruct ''SNAC_0x03_0x0A_BuddyRejectNotification'' (structFields
     [(''Buddies'', None, TSlice (TStruct '''' (structFields [(''ScreenName'', Some ''len_prefix=uint8'', TString)])))])"

definition SNAC_0x03_0x05_BuddyDelBuddies :: gtype where
  "SNAC_0x03_0x05_BuddyDelBuddies = TStruct ''SNAC_0x03_0x05_BuddyDelBuddies'' (structFields
     [(''Buddies'', None, TSlice (TStruct '''' (structFields [(''ScreenName'', Some ''len_prefix=uint8'', TString)])))])"

definition SNAC_0x03_0x0B_BuddyArrived :: gtype where
  "SNAC_0x03_0x0B_BuddyArrived = TStruct ''SNAC_0x03_0x0B_BuddyArrived'' (structFields
     [(''TLVUserInfo'', None, TLVUserInfo_type)])"

definition SNAC_0x03_0x0C_BuddyDeparted :: gtype where
  "SNAC_0x03_0x0C_BuddyDeparted = TStruct ''SNAC_0x03_0x0C_BuddyDeparted'' (structFields
     [(''TLVUserInfo'', None, TLVUserInfo_type)])"

definition SNAC_0x03_0x0F_BuddyAddTempBuddies :: gtype where
  "SNAC_0x03_0x0F_BuddyAddTempBuddies = TStruct ''SNAC_0x03_0x0F_BuddyAddTempBuddies'' (structFields
     [(''Buddies'', None, TSlice (TStruct '''' (structFields [(''ScreenName'', Some ''len_prefix=uint8'', TString)])))])"

definition SNAC_0x03_0x10_BuddyDelTempBuddies :: gtype where
  "SNAC_0x03_0x10_BuddyDelTempBuddies = TStruct ''SNAC_0x03_0x10_BuddyDelTempBuddies'' (structFields
     [(''Buddies'', None, TSlice (TStruct '''' (structFields [(''ScreenName'', Some ''len_prefix=uint8'', TString)])))])"

definition ICBMCh1Fragment_type :: gtype where
  "ICBMCh1Fragment_type = TStruct ''ICBMCh1Fragment'' (structFields
     [(''ID'', None, TU8),
      (''Version'', None, TU8),
      (''Payload'', Some ''len_prefix=uint16'', TSlice TU8)])"

definition ICBMCh2Fragment_type :: gtype where
  "ICBMCh2Fragment_type = TStruct ''ICBMCh2Fragment'' (structFields
     [(''Type'', None, TU16),
      (''Cookie'', None, TArray 8 TU8),
      (''Capability'', None, TArray 16 TU8),
      (''TLVRestBlock'', None, TLVRestBlock_type)])"

definition ICBMRoomInfo_type :: gtype where
  "ICBMRoomInfo_type = TStruct ''ICBMRoomInfo'' (structFields
     [(''Exchange'', None, TU16),
      (''Cookie'', Some ''len_prefix=uint8'', TString),
      (''Instance'', None, TU16)])"

definition ICBMCh1Message_type :: gtype where
  "ICBMCh1Message_type = TStruct ''ICBMCh1Message'' (structFields
     [(''Charset'', None, TU16),
      (''Language'', None, TU16),
      (''Text'', None, TSlice TU8)])"

definition ICBMCh4Message_type :: gtype where
  "ICBMCh4Message_type = TStruct ''ICBMCh4Message'' (structFields
     [(''UIN'', None, TU32),
      (''MessageType'', None, TU8),
      (''Flags'', None, TU8),
      (''Message'', Some ''len_prefix=uint16,nullterm'', TString)])"

definition SNAC_0x04_0x02_ICBMAddParameters :: gtype where
  "SNAC_0x04_0x02_ICBMAddParameters = TStruct ''SNAC_0x04_0x02_ICBMAddParameters'' (structFields
     [(''Channel'', None, TU16),
      (''ICBMFlags'', None, TU32),
      (''MaxIncomingICBMLen'', None, TU16),
      (''MaxSourceEvil'', None, TU16),
      (''MaxDestinationEvil'', None, TU16),
      (''MinInterICBMInterval'', None, TU32)])"

definition SNAC_0x04_0x05_ICBMParameterReply :: gtype where
  "SNAC_0x04_0x05_ICBMParameterReply = TStruct ''SNAC_0x04_0x05_ICBMParameterReply'' (structFields
     [(''MaxSlots'', None, TU16),
      (''ICBMFlags'', None, TU32),
      (''MaxIncomingICBMLen'', None, TU16),
      (''MaxSourceEvil'', None, TU16),
      (''MaxDestinationEvil'', None, TU16),
      (''MinInterICBMInterval'', None, TU32)])"

definition SNAC_0x04_0x06_ICBMChannelMsgToHost :: gtype where
  "SNAC_0x04_0x06_ICBMChannelMsgToHost = TStruct ''SNAC_0x04_0x06_ICBMChannelMsgToHost'' (structFields
     [(''Cookie'', None, TU64),
      (''ChannelID'', None, TU16),
      (''ScreenName'', Some ''len_prefix=uint8'', TString),
      (''TLVRestBlock'', None, TLVRestBlock_type)])"

definition SNAC_0x04_0x07_ICBMChannelMsgToClient :: gtype where
  "SNAC_0x04_0x07_ICBMChannelMsgToClient = TStruct ''SNAC_0x04_0x07_ICBMChannelMsgToClient'' (structFields
     [(''Cookie'', None, TU64),
      (''ChannelID'', None, TU16),
      (''TLVUserInfo'', None, TLVUserInfo_type),
      (''TLVRestBlock'', None, TLVRestBlock_type)])"

definition SNAC_0x04_0x08_ICBMEvilRequest :: gtype where
  "SNAC_0x04_0x08_ICBMEvilRequest = TStruct ''SNAC_0x04_0x08_ICBMEvilRequest'' (structFields
     [(''SendAs'', None, TU16),
      (''ScreenName'', Some ''len_prefix=uint8'', TString)])"

definition SNAC_0x04_0x09_ICBMEvilReply :: gtype where
  "SNAC_0x04_0x09_ICBMEvilReply = TStruct ''SNAC_0x04_0x09_ICBMEvilReply'' (structFields
     [(''EvilDeltaApplied'', None, TU16),
      (''UpdatedEvilValue'', None, TU16)])"

definition SNAC_0x04_0x0B_ICBMClientErr :: gtype where
  "SNAC_0x04_0x0B_ICBMClientErr = TStruct ''SNAC_0x04_0x0B_ICBMClientErr'' (structFields
     [(''Cookie'', None, TU64),
      (''ChannelID'', None, TU16),
      (''ScreenName'', Some ''len_prefix=uint8'', TString),
      (''Code'', None, TU16),
      (''ErrInfo'', None, TSlice TU8)])"

definition SNAC_0x04_0x0C_ICBMHostAck :: gtype where
  "SNAC_0x04_0x0C_ICBMHostAck = TStruct ''SNAC_0x04_0x0C_ICBMHostAck'' (structFields
     [(''Cookie'', None, TU64),
      (''ChannelID'', None, TU16),
      (''ScreenName'', Some ''len_prefix=uint8'', TString)])"

definition SNAC_0x04_0x14_ICBMClientEvent :: gtype where
  "SNAC_0x04_0x14_ICBMClientEvent = TStruct ''SNAC_0x04_0x14_ICBMClientEvent'' (structFields
     [(''Cookie'', None, TU64),
      (''ChannelID'', None, TU16),
      (''ScreenName'', Some ''len_prefix=uint8'', TString),
      (''Event'', None, TU16)])"

definition SNAC_0x04_0x0A_ICBMOfflineRetrieve :: gtype where
  "SNAC_0x04_0x0A_ICBMOfflineRetrieve = TStruct ''SNAC_0x04_0x0A_ICBMOfflineRetrieve'' (structFields
     [])"

definition SNAC_0x04_0x17_ICBMOfflineRetrieveReply :: gtype where
  "SNAC_0x04_0x17_ICBMOfflineRetrieveReply = TStruct ''SNAC_0x04_0x17_ICBMOfflineRetrieveReply'' (structFields
     [])"

definition SNAC_0x07_0x02_AdminInfoQuery :: gtype where
  "SNAC_0x07_0x02_AdminInfoQuery = TStruct ''SNAC_0x07_0x02_AdminInfoQuery'' (structFields
     [(''TLVRestBlock'', None, TLVRestBlock_type)])"

definition SNAC_0x07_0x03_AdminInfoReply :: gtype where
  "SNAC_0x07_0x03_AdminInfoReply = TStruct ''SNAC_0x07_0x03_AdminInfoReply'' (structFields
     [(''Permissions'', None, TU16),
      (''TLVBlock'', None, TLVBlock_type)])"

definition SNAC_0x07_0x04_AdminInfoChangeRequest :: gtype where
  "SNAC_0x07_0x04_AdminInfoChangeRequest = TStruct ''SNAC_0x07_0x04_AdminInfoChangeRequest'' (structFields
     [(''TLVRestBlock'', None, TLVRestBlock_type)])"

definition SNAC_0x07_0x05_AdminChangeReply :: gtype where
  "SNAC_0x07_0x05_AdminChangeReply = TStruct ''SNAC_0x07_0x05_AdminChangeReply'' (structFields
     [(''Permissions'', None, TU16),
      (''TLVBlock'', None, TLVBlock_type)])"

definition SNAC_0x07_0x06_AdminConfirmRequest :: gtype where
  "SNAC_0x07_0x06_AdminConfirmRequest = TStruct ''SNAC_0x07_0x06_AdminConfirmRequest'' (structFields
     [])"

definition SNAC_0x07_0x07_AdminConfirmReply :: gtype where
  "SNAC_0x07_0x07_AdminConfirmReply = TStruct ''SNAC_0x07_0x07_AdminConfirmReply'' (structFields
     [(''Status'', None, TU16),
      (''TLV'', None, TLV_type)])"

definition SNAC_0x09_0x03_PermitDenyRightsReply :: gtype where
  "SNAC_0x09_0x03_PermitDenyRightsReply = TStruct ''SNAC_0x09_0x03_PermitDenyRightsReply'' (structFields
     [(''TLVRestBlock'', None, TLVRestBlock_type)])"

definition SNAC_0x09_0x05_PermitDenyAddPermListEntries :: gtype where
  "SNAC_0x09_0x05_PermitDenyAddPermListEntries = TStruct ''SNAC_0x09_0x05_PermitDenyAddPermListEntries'' (structFields
     [(''Users'', None, TSlice (TStruct '''' (structFields [(''ScreenName'', Some ''len_prefix=uint8'', TString)])))])"

definition SNAC_0x09_0x06_PermitDenyDelPermListEntries :: gtype where
  "SNAC_0x09_0x06_PermitDenyDelPermListEntries = TStruct ''SNAC_0x09_0x06_PermitDenyDelPermListEntries'' (structFields
     [(''Users'', None, TSlice (TStruct '''' (structFields [(''ScreenName'', Some ''len_prefix=uint8'', TString)])))])"

definition SNAC_0x09_0x07_PermitDenyAddDenyListEntries :: gtype where
  "SNAC_0x09_0x07_PermitDenyAddDenyListEntries = TStruct ''SNAC_0x09_0x07_PermitDenyAddDenyListEntries'' (structFields
     [(''Users'', None, TSlice (TStruct '''' (structFields [(''ScreenName'', Some ''len_prefix=uint8'', TString)])))])"

definition SNAC_0x09_0x08_PermitDenyDelDenyListEntries :: gtype where
  "SNAC_0x09_0x08_PermitDenyDelDenyListEntries = TStruct ''SNAC_0x09_0x08_PermitDenyDelDenyListEntries'' (structFields
     [(''Users'', None, TSlice (TStruct '''' (structFields [(''ScreenName'', Some ''len_prefix=uint8'', TString)])))])"

definition SNAC_0x09_0x04_PermitDenySetGroupPermitMask :: gtype where
  "SNAC_0x09_0x04_PermitDenySetGroupPermitMask = TStruct ''SNAC_0x09_0x04_PermitDenySetGroupPermitMask'' (structFields
     [(''PermMask'', None, TU32)])"

definition SNAC_0x0A_0x02_UserLookupFindByEmail :: gtype where
  "SNAC_0x0A_0x02_UserLookupFindByEmail = TStruct ''SNAC_0x0A_0x02_UserLookupFindByEmail'' (structFields
     [(''Email'', None, TSlice TU8)])"

definition SNAC_0x0A_0x03_UserLookupFindReply :: gtype where
  "SNAC_0x0A_0x03_UserLookupFindReply = TStruct ''SNAC_0x0A_0x03_UserLookupFindReply'' (structFields
     [(''TLVRestBlock'', None, TLVRestBlock_type)])"

definition SNAC_0x0B_0x02_StatsSetMinReportInterval :: gtype where
  "SNAC_0x0B_0x02_StatsSetMinReportInterval = TStruct ''SNAC_0x0B_0x02_StatsSetMinReportInterval'' (structFields
     [(''MinReportInterval'', None, TU16)])"

definition SNAC_0x0B_0x03_StatsReportEvents :: gtype where
  "SNAC_0x0B_0x03_StatsReportEvents = TStruct ''SNAC_0x0B_0x03_StatsReportEvents'' (structFields
     [(''TLVRestBlock'', None, TLVRestBlock_type)])"

definition SNAC_0x0B_0x04_StatsReportAck :: gtype where
  "SNAC_0x0B_0x04_StatsReportAck = TStruct ''SNAC_0x0B_0x04_StatsReportAck'' (structFields
     [])"

definition SNAC_0x0D_0x03_ChatNavRequestExchangeInfo :: gtype where
  "SNAC_0x0D_0x03_ChatNavRequestExchangeInfo = TStruct ''SNAC_0x0D_0x03_ChatNavRequestExchangeInfo'' (structFields
     [(''Exchange'', None, TU16)])"

definition SNAC_0x0D_0x04_ChatNavRequestRoomInfo :: gtype where
  "SNAC_0x0D_0x04_ChatNavRequestRoomInfo = TStruct ''SNAC_0x0D_0x04_ChatNavRequestRoomInfo'' (structFields
     [(''Exchange'', None, TU16),
      (''Cookie'', Some ''len_prefix=uint8'', TString),
      (''InstanceNumber'', None, TU16),
      (''DetailLevel'', None, TU8)])"

definition SNAC_0x0D_0x09_ChatNavNavInfo :: gtype where
  "SNAC_0x0D_0x09_ChatNavNavInfo = TStruct ''SNAC_0x0D_0x09_ChatNavNavInfo'' (structFields
     [(''TLVRestBlock'', None, TLVRestBlock_type)])"

definition SNAC_0x0D_0x09_TLVExchangeInfo :: gtype where
  "SNAC_0x0D_0x09_TLVExchangeInfo = TStruct ''SNAC_0x0D_0x09_TLVExchangeInfo'' (structFields
     [(''Identifier'', None, TU16),
      (''TLVBlock'', None, TLVBlock_type)])"

definition SNAC_0x0E_0x02_ChatRoomInfoUpdate :: gtype where
  "SNAC_0x0E_0x02_ChatRoomInfoUpdate = TStruct ''SNAC_0x0E_0x02_ChatRoomInfoUpdate'' (structFields
     [(''Exchange'', None, TU16),
      (''Cookie'', Some ''len_prefix=uint8'', TString),
      (''InstanceNumber'', None, TU16),
      (''DetailLevel'', None, TU8),
      (''TLVBlock'', None, TLVBlock_type)])"

definition SNAC_0x0E_0x03_ChatUsersJoined :: gtype where
  "SNAC_0x0E_0x03_ChatUsersJoined = TStruct ''SNAC_0x0E_0x03_ChatUsersJoined'' (structFields
     [(''Users'', None, TSlice TLVUserInfo_type)])"

definition SNAC_0x0E_0x04_ChatUsersLeft :: gtype where
  "SNAC_0x0E_0x04_ChatUsersLeft = TStruct ''SNAC_0x0E_0x04_ChatUsersLeft'' (structFields
     [(''Users'', None, TSlice TLVUserInfo_type)])"

definition SNAC_0x0E_0x05_ChatChannelMsgToHost :: gtype where
  "SNAC_0x0E_0x05_ChatChannelMsgToHost = TStruct ''SNAC_0x0E_0x05_ChatChannelMsgToHost'' (structFields
     [(''Cookie'', None, TU64),
      (''Channel'', None, TU16),
      (''TLVRestBlock'', None, TLVRestBlock_type)])"

definition SNAC_0x0E_0x06_ChatChannelMsgToClient :: gtype where
  "SNAC_0x0E_0x06_ChatChannelMsgToClient = TStruct ''SNAC_0x0E_0x06_ChatChannelMsgToClient'' (structFields
     [(''Cookie'', None, TU64),
      (''Channel'', None, TU16),
      (''TLVRestBlock'', None, TLVRestBlock_type)])"

definition SNAC_0x0F_0x02_InfoQuery :: gtype where
  "SNAC_0x0F_0x02_InfoQuery = TStruct ''SNAC_0x0F_0x02_InfoQuery'' (structFields
     [(''TLVRestBlock'', None, TLVRestBlock_type)])"

definition SNAC_0x0F_0x03_InfoReply :: gtype where
  "SNAC_0x0F_0x03_InfoReply = TStruct ''SNAC_0x0F_0x03_InfoReply'' (structFields
     [(''Status'', None, TU16),
      (''Unknown'', None, TU16),
      (''Results'', Some ''count_prefix=uint16'', TStruct '''' (structFields [(''List'', Some ''count_prefix=uint16'', TSlice TLVBlock_type)]))])"

definition SNAC_0x0F_0x04_KeywordListQuery :: gtype where
  "SNAC_0x0F_0x04_KeywordListQuery = TStruct ''SNAC_0x0F_0x04_KeywordListQuery'' (structFields
     [])"

definition ODirKeywordListItem_type :: gtype where
  "ODirKeywordListItem_type = TStruct ''ODirKeywordListItem'' (structFields
     [(''Type'', None, TU8),
      (''ID'', None, TU8),
      (''Name'', Some ''len_prefix=uint16'', TString)])"

definition SNAC_0x0F_0x04_KeywordListReply :: gtype where
  "SNAC_0x0F_0x04_KeywordListReply = TStruct ''SNAC_0x0F_0x04_KeywordListReply'' (structFields
     [(''Status'', None, TU16),
      (''Interests'', Some ''count_prefix=uint16'', TSlice ODirKeywordListItem_type)])"

definition BartIDsWName_type :: gtype where
  "BartIDsWName_type = TStruct ''BartIDsWName'' (structFields
     [(''ScreenName'', Some ''len_prefix=uint8'', TString),
      (''IDs'', Some ''len_prefix=uint8'', TSlice BARTID_type)])"

definition SNAC_0x10_0x02_BARTUploadQuery :: gtype where
  "SNAC_0x10_0x02_BARTUploadQuery = TStruct ''SNAC_0x10_0x02_BARTUploadQuery'' (structFields
     [(''Type'', None, TU16),
      (''Data'', Some ''len_prefix=uint16'', TSlice TU8)])"

definition SNAC_0x10_0x03_BARTUploadReply :: gtype where
  "SNAC_0x10_0x03_BARTUploadReply = TStruct ''SNAC_0x10_0x03_BARTUploadReply'' (structFields
     [(''Code'', None, TU8),
      (''ID'', None, BARTID_type)])"

definition SNAC_0x10_0x04_BARTDownloadQuery :: gtype where
  "SNAC_0x10_0x04_BARTDownloadQuery = TStruct ''SNAC_0x10_0x04_BARTDownloadQuery'' (structFields
     [(''ScreenName'', Some ''len_prefix=uint8'', TString),
      (''Command'', None, TU8),
      (''BARTID'', None, BARTID_type)])"

definition SNAC_0x10_0x05_BARTDownloadReply :: gtype where
  "SNAC_0x10_0x05_BARTDownloadReply = TStruct ''SNAC_0x10_0x05_BARTDownloadReply'' (structFields
     [(''ScreenName'', Some ''len_prefix=uint8'', TString),
      (''BARTID'', None, BARTID_type),
      (''Data'', Some ''len_prefix=uint16'', TSlice TU8)])"

definition SNAC_0x10_0x06_BARTDownload2Query :: gtype where
  "SNAC_0x10_0x06_BARTDownload2Query = TStruct ''SNAC_0x10_0x06_BARTDownload2Query'' (structFields
     [(''ScreenName'', Some ''len_prefix=uint8'', TString),
      (''IDs'', Some ''count_prefix=uint8'', TSlice BARTID_type)])"

definition SNAC_0x10_0x07_BARTDownload2Reply :: gtype where
  "SNAC_0x10_0x07_BARTDownload2Reply = TStruct ''SNAC_0x10_0x07_BARTDownload2Reply'' (structFields
     [(''ScreenName'', Some ''len_prefix=uint8'', TString),
      (''ReplyID'', None, BartQueryReplyID_type),
      (''Data'', Some ''len_prefix=uint16'', TSlice TU8)])"

definition SNAC_0x13_0x02_FeedbagRightsQuery :: gtype where
  "SNAC_0x13_0x02_FeedbagRightsQuery = TStruct ''SNAC_0x13_0x02_FeedbagRightsQuery'' (structFields
     [(''TLVRestBlock'', None, TLVRestBlock_type)])"

definition SNAC_0x13_0x03_FeedbagRightsReply :: gtype where
  "SNAC_0x13_0x03_FeedbagRightsReply = TStruct ''SNAC_0x13_0x03_FeedbagRightsReply'' (structFields
     [(''TLVRestBlock'', None, TLVRestBlock_type)])"

definition SNAC_0x13_0x05_FeedbagQueryIfModified :: gtype where
  "SNAC_0x13_0x05_FeedbagQueryIfModified = TStruct ''SNAC_0x13_0x05_FeedbagQueryIfModified'' (structFields
     [(''LastUpdate'', None, TU32),
      (''Count'', None, TU8)])"

definition FeedbagItem_type :: gtype where
  "FeedbagItem_type = TStruct ''FeedbagItem'' (structFields
     [(''Name'', Some ''len_prefix=uint16'', TString),
      (''GroupID'', None, TU16),
      (''ItemID'', None, TU16),
      (''ClassID'', None, TU16),
      (''TLVLBlock'', None, TLVLBlock_type)])"

definition SNAC_0x13_0x06_FeedbagReply :: gtype where
  "SNAC_0x13_0x06_FeedbagReply = TStruct ''SNAC_0x13_0x06_FeedbagReply'' (structFields
     [(''Version'', None, TU8),
      (''Items'', Some ''count_prefix=uint16'', TSlice FeedbagItem_type),
      (''LastUpdate'', None, TU32)])"

definition SNAC_0x13_0x08_FeedbagInsertItem :: gtype where
  "SNAC_0x13_0x08_FeedbagInsertItem = TStruct ''SNAC_0x13_0x08_FeedbagInsertItem'' (structFields
     [(''Items'', None, TSlice FeedbagItem_type)])"

definition SNAC_0x13_0x09_FeedbagUpdateItem :: gtype where
  "SNAC_0x13_0x09_FeedbagUpdateItem = TStruct ''SNAC_0x13_0x09_FeedbagUpdateItem'' (structFields
     [(''Items'', None, TSlice FeedbagItem_type)])"

definition SNAC_0x13_0x0A_FeedbagDeleteItem :: gtype where
  "SNAC_0x13_0x0A_FeedbagDeleteItem = TStruct ''SNAC_0x13_0x0A_FeedbagDeleteItem'' (structFields
     [(''Items'', None, TSlice FeedbagItem_type)])"

definition SNAC_0x13_0x0E_FeedbagStatus :: gtype where
  "SNAC_0x13_0x0E_FeedbagStatus = TStruct ''SNAC_0x13_0x0E_FeedbagStatus'' (structFields
     [(''Results'', None, TSlice TU16)])"

definition SNAC_0x13_0x11_FeedbagStartCluster :: gtype where
  "SNAC_0x13_0x11_FeedbagStartCluster = TStruct ''SNAC_0x13_0x11_FeedbagStartCluster'' (structFields
     [(''TLVRestBlock'', None, TLVRestBlock_type)])"

definition SNAC_0x13_0x12_FeedbagEndCluster :: gtype where
  "SNAC_0x13_0x12_FeedbagEndCluster = TStruct ''SNAC_0x13_0x12_FeedbagEndCluster'' (structFields
     [])"

definition SNAC_0x13_0x18_FeedbagRequestAuthorizationToHost :: gtype where
  "SNAC_0x13_0x18_FeedbagRequestAuthorizationToHost = TStruct ''SNAC_0x13_0x18_FeedbagRequestAuthorizationToHost'' (structFields
     [(''ScreenName'', Some ''len_prefix=uint8'', TString),
      (''Reason'', Some ''len_prefix=uint16'', TString),
      (''Unknown'', None, TU16)])"

definition FeedbagExtendedInfo_type :: gtype where
  "FeedbagExtendedInfo_type = TStruct ''FeedbagExtendedInfo'' (structFields
     [])"

definition SNAC_0x13_0x19_FeedbagRequestAuthorizeToClient :: gtype where
  "SNAC_0x13_0x19_FeedbagRequestAuthorizeToClient = TStruct ''SNAC_0x13_0x19_FeedbagRequestAuthorizeToClient'' (structFields
     [(''TLVLBlock'', None, TLVLBlock_type),
      (''ScreenName'', Some ''len_prefix=uint8'', TString),
      (''Reason'', Some ''len_prefix=uint16'', TString),
      (''Unknown'', None, TU16)])"

definition SNAC_0x13_0x1A_FeedbagRespondAuthorizeToHost :: gtype where
  "SNAC_0x13_0x1A_FeedbagRespondAuthorizeToHost = TStruct ''SNAC_0x13_0x1A_FeedbagRespondAuthorizeToHost'' (structFields
     [(''ScreenName'', Some ''len_prefix=uint8'', TString),
      (''Accepted'', None, TU8),
      (''Reason'', Some ''len_prefix=uint16'', TString)])"

definition SNAC_0x13_0x1B_FeedbagRespondAuthorizeToClient :: gtype where
  "SNAC_0x13_0x1B_FeedbagRespondAuthorizeToClient = TStruct ''SNAC_0x13_0x1B_FeedbagRespondAuthorizeToClient'' (structFields
     [(''TLVLBlock'', None, TLVLBlock_type),
      (''ScreenName'', Some ''len_prefix=uint8'', TString),
      (''Accepted'', None, TU8),
      (''Reason'', Some ''len_prefix=uint16'', TString),
      (''Nullterm'', None, TU16)])"

definition SNAC_0x13_0x1C_FeedbagBuddyAdded :: gtype where
  "SNAC_0x13_0x1C_FeedbagBuddyAdded = TStruct ''SNAC_0x13_0x1C_FeedbagBuddyAdded'' (structFields
     [(''TLVLBlock'', None, TLVLBlock_type),
      (''ScreenName'', Some ''len_prefix=uint8'', TString),
      (''Nullterm'', None, TU16)])"

definition SNAC_0x13_0x14_FeedbagPreAuthorizeBuddy :: gtype where
  "SNAC_0x13_0x14_FeedbagPreAuthorizeBuddy = TStruct ''SNAC_0x13_0x14_FeedbagPreAuthorizeBuddy'' (structFields
     [(''ScreenName'', Some ''len_prefix=uint8'', TString),
      (''Message'', Some ''len_prefix=uint16'', TString),
      (''Flags'', None, TU16)])"

definition SNAC_0x13_0x15_FeedbagPreAuthorizedBuddy :: gtype where
  "SNAC_0x13_0x15_FeedbagPreAuthorizedBuddy = TStruct ''SNAC_0x13_0x15_FeedbagPreAuthorizedBuddy'' (structFields
     [(''ScreenName'', Some ''len_prefix=uint8'', TString),
      (''Message'', Some ''len_prefix=uint16'', TString),
      (''Flags'', None, TU16)])"

definition SNAC_0x15_0x02_BQuery :: gtype where
  "SNAC_0x15_0x02_BQuery = TStruct ''SNAC_0x15_0x02_BQuery'' (structFields
     [(''TLVRestBlock'', None, TLVRestBlock_type)])"

definition ICQ_0x07D0_0x04BA_DBQueryMetaReqShortInfo :: gtype where
  "ICQ_0x07D0_0x04BA_DBQueryMetaReqShortInfo = TStruct ''ICQ_0x07D0_0x04BA_DBQueryMetaReqShortInfo'' (structFields
     [(''UIN'', None, TU32)])"

definition ICQ_0x07D0_0x0898_DBQueryMetaReqXMLReq :: gtype where
  "ICQ_0x07D0_0x0898_DBQueryMetaReqXMLReq = TStruct ''ICQ_0x07D0_0x0898_DBQueryMetaReqXMLReq'' (structFields
     [(''XMLRequest'', Some ''len_prefix=uint16,nullterm'', TString)])"

definition ICQ_0x07D0_0x0424_DBQueryMetaReqSetPermissions :: gtype where
  "ICQ_0x07D0_0x0424_DBQueryMetaReqSetPermissions = TStruct ''ICQ_0x07D0_0x0424_DBQueryMetaReqSetPermissions'' (structFields
     [(''Authorization'', None, TU8),
      (''WebAware'', None, TU8),
      (''DCPerms'', None, TU8),
      (''Unknown'', None, TU8)])"

definition ICQ_0x07D0_0x0654_DBQueryMetaReqSetICQPhone :: gtype where
  "ICQ_0x07D0_0x0654_DBQueryMetaReqSetICQPhone = TStruct ''ICQ_0x07D0_0x0654_DBQueryMetaReqSetICQPhone'' (structFields
     [])"

definition ICQ_0x07D0_0x051F_DBQueryMetaReqSearchByUIN :: gtype where
  "ICQ_0x07D0_0x051F_DBQueryMetaReqSearchByUIN = TStruct ''ICQ_0x07D0_0x051F_DBQueryMetaReqSearchByUIN'' (structFields
     [(''UIN'', None, TU32)])"

definition ICQ_0x07D0_0x0569_DBQueryMetaReqSearchByUIN2 :: gtype where
  "ICQ_0x07D0_0x0569_DBQueryMetaReqSearchByUIN2 = TStruct ''ICQ_0x07D0_0x0569_DBQueryMetaReqSearchByUIN2'' (structFields
     [(''TLVRestBlock'', Some ''quirk=qip_2005_search_by_uin2'', TLVRestBlock_type)])"

definition ICQ_0x07D0_0x0529_DBQueryMetaReqSearchByEmail :: gtype where
  "ICQ_0x07D0_0x0529_DBQueryMetaReqSearchByEmail = TStruct ''ICQ_0x07D0_0x0529_DBQueryMetaReqSearchByEmail'' (structFields
     [(''Email'', Some ''len_prefix=uint16,nullterm'', TString)])"

definition ICQ_0x07D0_0x0573_DBQueryMetaReqSearchByEmail3 :: gtype where
  "ICQ_0x07D0_0x0573_DBQueryMetaReqSearchByEmail3 = TStruct ''ICQ_0x07D0_0x0573_DBQueryMetaReqSearchByEmail3'' (structFields
     [(''TLVRestBlock'', None, TLVRestBlock_type)])"

definition ICQ_0x07D0_0x0515_DBQueryMetaReqSearchByDetails :: gtype where
  "ICQ_0x07D0_0x0515_DBQueryMetaReqSearchByDetails = TStruct ''ICQ_0x07D0_0x0515_DBQueryMetaReqSearchByDetails'' (structFields
     [(''FirstName'', Some ''len_prefix=uint16,nullterm'', TString),
      (''LastName'', Some ''len_prefix=uint16,nullterm'', TString),
      (''NickName'', Some ''len_prefix=uint16,nullterm'', TString)])"

definition ICQInterests_type :: gtype where
  "ICQInterests_type = TStruct ''ICQInterests'' (structFields
     [(''Code'', None, TU16),
      (''Keyword'', Some ''len_prefix=uint16,nullterm'', TString)])"

definition ICQEmail_type :: gtype where
  "ICQEmail_type = TStruct ''ICQEmail'' (structFields
     [(''Email'', Some ''len_prefix=uint16,nullterm'', TString)])"

definition ICQ_0x07D0_0x0533_DBQueryMetaReqSearchWhitePages :: gtype where
  "ICQ_0x07D0_0x0533_DBQueryMetaReqSearchWhitePages = TStruct ''ICQ_0x07D0_0x0533_DBQueryMetaReqSearchWhitePages'' (structFields
     [(''FirstName'', Some ''len_prefix=uint16,nullterm'', TString),
      (''LastName'', Some ''len_prefix=uint16,nullterm'', TString),
      (''Nickname'', Some ''len_prefix=uint16,nullterm'', TString),
      (''Email'', Some ''len_prefix=uint16,nullterm'', TString),
      (''MinAge'', None, TU16),
      (''MaxAge'', None, TU16),
      (''Gender'', None, TU8),
      (''SpeakingLang'', None, TU8),
      (''City'', Some ''len_prefix=uint16,nullterm'', TString),
      (''State'', Some ''len_prefix=uint16,nullterm'', TString),
      (''CountryCode'', None, TU16),
      (''Company'', Some ''len_prefix=uint16,nullterm'', TString),
      (''Department'', Some ''len_prefix=uint16,nullterm'', TString),
      (''Position'', Some ''len_prefix=uint16,nullterm'', TString),
      (''OccupationCode'', None, TU16),
      (''PastCode'', None, TU16),
      (''PastKeywords'', Some ''len_prefix=uint16,nullterm'', TString),
      (''InterestsCode'', None, TU16),
      (''InterestsKeyword'', Some ''len_prefix=uint16,nullterm'', TString),
      (''AffiliationsCode'', None, TU16),
      (''AffiliationsKeyword'', Some ''len_prefix=uint16,nullterm'', TString),
      (''HomePageCode'', None, TU16),
      (''HomePageKeywords'', Some ''len_prefix=uint16,nullterm'', TString),
      (''SearchScope'', None, TU8)])"

definition ICQ_0x07D0_0x055F_DBQueryMetaReqSearchWhitePages2 :: gtype where
  "ICQ_0x07D0_0x055F_DBQueryMetaReqSearchWhitePages2 = TStruct ''ICQ_0x07D0_0x055F_DBQueryMetaReqSearchWhitePages2'' (structFields
     [(''TLVRestBlock'', None, TLVRestBlock_type)])"

definition ICQ_0x07D0_0x0C3A_DBQueryMetaReqSetFullInfo :: gtype where
  "ICQ_0x07D0_0x0C3A_DBQueryMetaReqSetFullInfo = TStruct ''ICQ_0x07D0_0x0C3A_DBQueryMetaReqSetFullInfo'' (structFields
     [(''TLVRestBlock'', Some ''quirk=icq2003b_set_fullinfo'', TLVRestBlock_type)])"

definition ICQ_0x07D0_0x03FD_DBQueryMetaReqSetMoreInfo :: gtype where
  "ICQ_0x07D0_0x03FD_DBQueryMetaReqSetMoreInfo = TStruct ''ICQ_0x07D0_0x03FD_DBQueryMetaReqSetMoreInfo'' (structFields
     [(''Age'', None, TU8),
      (''Gender'', None, TU16),
      (''HomePageAddr'', Some ''len_prefix=uint16,nullterm'', TString),
      (''BirthYear'', None, TU16),
      (''BirthMonth'', None, TU8),
      (''BirthDay'', None, TU8),
      (''Lang1'', None, TU8),
      (''Lang2'', None, TU8),
      (''Lang3'', None, TU8)])"

definition ICQ_0x07D0_0x03F3_DBQueryMetaReqSetWorkInfo :: gtype where
  "ICQ_0x07D0_0x03F3_DBQueryMetaReqSetWorkInfo = TStruct ''ICQ_0x07D0_0x03F3_DBQueryMetaReqSetWorkInfo'' (structFields
     [(''City'', Some ''len_prefix=uint16,nullterm'', TString),
      (''State'', Some ''len_prefix=uint16,nullterm'', TString),
      (''Phone'', Some ''len_prefix=uint16,nullterm'', TString),
      (''Fax'', Some ''len_prefix=uint16,nullterm'', TString),
      (''Address'', Some ''len_prefix=uint16,nullterm'', TString),
      (''ZIP'', Some ''len_prefix=uint16,nullterm'', TString),
      (''CountryCode'', None, TU16),
      (''Company'', Some ''len_prefix=uint16,nullterm'', TString),
      (''Department'', Some ''len_prefix=uint16,nullterm'', TString),
      (''Position'', Some ''len_prefix=uint16,nullterm'', TString),
      (''OccupationCode'', None, TU16),
      (''WebPage'', Some ''len_prefix=uint16,nullterm'', TString)])"

definition ICQ_0x07D0_0x040B_DBQueryMetaReqSetEmails :: gtype where
  "ICQ_0x07D0_0x040B_DBQueryMetaReqSetEmails = TStruct ''ICQ_0x07D0_0x040B_DBQueryMetaReqSetEmails'' (structFields
     [(''Emails'', Some ''count_prefix=uint8'', TSlice (TStruct '''' (structFields [(''Publish'', None, TU8),
     (''Email'', Some ''len_prefix=uint16,nullterm'', TString)])))])"

definition ICQ_0x07D0_0x0406_DBQueryMetaReqSetNotes :: gtype where
  "ICQ_0x07D0_0x0406_DBQueryMetaReqSetNotes = TStruct ''ICQ_0x07D0_0x0406_DBQueryMetaReqSetNotes'' (structFields
     [(''Notes'', Some ''len_prefix=uint16,nullterm'', TString)])"

definition ICQ_0x07D0_0x0410_DBQueryMetaReqSetInterests :: gtype where
  "ICQ_0x07D0_0x0410_DBQueryMetaReqSetInterests = TStruct ''ICQ_0x07D0_0x0410_DBQueryMetaReqSetInterests'' (structFields
     [(''Interests'', Some ''count_prefix=uint8'', TSlice (TStruct '''' (structFields [(''Code'', None, TU16),
     (''Keyword'', Some ''len_prefix=uint16,nullterm'', TString)])))])"

definition ICQ_0x07D0_0x041A_DBQueryMetaReqSetAffiliations :: gtype where
  "ICQ_0x07D0_0x041A_DBQueryMetaReqSetAffiliations = TStruct ''ICQ_0x07D0_0x041A_DBQueryMetaReqSetAffiliations'' (structFields
     [(''PastAffiliations'', Some ''count_prefix=uint8'', TSlice (TStruct '''' (structFields [(''Code'', None, TU16),
     (''Keyword'', Some ''len_prefix=uint16,nullterm'', TString)]))),
      (''Affiliations'', Some ''count_prefix=uint8'', TSlice (TStruct '''' (structFields [(''Code'', None, TU16),
     (''Keyword'', Some ''len_prefix=uint16,nullterm'', TString)])))])"

definition ICQ_0x07D0_0x03EA_DBQueryMetaReqSetBasicInfo :: gtype where
  "ICQ_0x07D0_0x03EA_DBQueryMetaReqSetBasicInfo = TStruct ''ICQ_0x07D0_0x03EA_DBQueryMetaReqSetBasicInfo'' (structFields
     [(''Nickname'', Some ''len_prefix=uint16,nullterm'', TString),
      (''FirstName'', Some ''len_prefix=uint16,nullterm'', TString),
      (''LastName'', Some ''len_prefix=uint16,nullterm'', TString),
      (''EmailAddress'', Some ''len_prefix=uint16,nullterm'', TString),
      (''City'', Some ''len_prefix=uint16,nullterm'', TString),
      (''State'', Some ''len_prefix=uint16,nullterm'', TString),
      (''Phone'', Some ''len_prefix=uint16,nullterm'', TString),
      (''Fax'', Some ''len_prefix=uint16,nullterm'', TString),
      (''HomeAddress'', Some ''len_prefix=uint16,nullterm'', TString),
      (''CellPhone'', Some ''len_prefix=uint16,nullterm'', TString),
      (''ZIP'', Some ''len_prefix=uint16,nullterm'', TString),
      (''CountryCode'', None, TU16),
      (''GMTOffset'', None, TU8),
      (''PublishEmail'', None, TU8)])"

definition SNAC_0x15_0x02_DBReply :: gtype where
  "SNAC_0x15_0x02_DBReply = TStruct ''SNAC_0x15_0x02_DBReply'' (structFields
     [(''TLVRestBlock'', None, TLVRestBlock_type)])"

definition ICQMetadata_type :: gtype where
  "ICQMetadata_type = TStruct ''ICQMetadata'' (structFields
     [(''UIN'', None, TU32),
      (''ReqType'', None, TU16),
      (''Seq'', None, TU16)])"

definition ICQ_0x07DA_0x010E_DBQueryMetaReplyHomePageCat :: gtype where
  "ICQ_0x07DA_0x010E_DBQueryMetaReplyHomePageCat = TStruct ''ICQ_0x07DA_0x010E_DBQueryMetaReplyHomePageCat'' (structFields
     [(''ICQMetadata'', None, ICQMetadata_type),
      (''ReqSubType'', None, TU16),
      (''Success'', None, TU8),
      (''Enabled'', None, TU8),
      (''CatCode'', None, TU16),
      (''Keywords'', Some ''len_prefix=uint16,nullterm'', TString),
      (''Unknown'', None, TU8)])"

definition ICQ_0x07DA_0x08A2_DBQueryMetaReplyXMLData :: gtype where
  "ICQ_0x07DA_0x08A2_DBQueryMetaReplyXMLData = TStruct ''ICQ_0x07DA_0x08A2_DBQueryMetaReplyXMLData'' (structFields
     [(''ICQMetadata'', None, ICQMetadata_type),
      (''ReqSubType'', None, TU16),
      (''Success'', None, TU8),
      (''XML'', Some ''len_prefix=uint16,nullterm'', TString)])"

definition ICQ_0x07DA_0x00DC_DBQueryMetaReplyMoreInfo :: gtype where
  "ICQ_0x07DA_0x00DC_DBQueryMetaReplyMoreInfo = TStruct ''ICQ_0x07DA_0x00DC_DBQueryMetaReplyMoreInfo'' (structFields
     [(''ICQMetadata'', None, ICQMetadata_type),
      (''ReqSubType'', None, TU16),
      (''Success'', None, TU8),
      (''Age'', None, TU16),
      (''Gender'', None, TU8),
      (''HomePageAddr'', Some ''len_prefix=uint16,nullterm'', TString),
      (''BirthYear'', None, TU16),
      (''BirthMonth'', None, TU8),
      (''BirthDay'', None, TU8),
      (''Lang1'', None, TU8),
      (''Lang2'', None, TU8),
      (''Lang3'', None, TU8),
      (''Unknown'', None, TU16),
      (''City'', Some ''len_prefix=uint16,nullterm'', TString),
      (''State'', Some ''len_prefix=uint16,nullterm'', TString),
      (''CountryCode'', None, TU16),
      (''TimeZone'', None, TU8),
      (''Buffer'', None, TArray 4 TU8)])"

definition ICQ_0x07DA_0x00EB_DBQueryMetaReplyExtEmailInfo :: gtype where
  "ICQ_0x07DA_0x00EB_DBQueryMetaReplyExtEmailInfo = TStruct ''ICQ_0x07DA_0x00EB_DBQueryMetaReplyExtEmailInfo'' (structFields
     [(''ICQMetadata'', None, ICQMetadata_type),
      (''ReqSubType'', None, TU16),
      (''Success'', None, TU8),
      (''Emails'', Some ''count_prefix=uint8'', TSlice (TStruct '''' (structFields [(''Flag'', None, TU8),
     (''Email'', Some ''len_prefix=uint16,nullterm'', TString)])))])"

definition ICQ_0x07DA_0x00D2_DBQueryMetaReplyWorkInfo :: gtype where
  "ICQ_0x07DA_0x00D2_DBQueryMetaReplyWorkInfo = TStruct ''ICQ_0x07DA_0x00D2_DBQueryMetaReplyWorkInfo'' (structFields
     [(''ICQMetadata'', None, ICQMetadata_type),
      (''ReqSubType'', None, TU16),
      (''Success'', None, TU8),
      (''ICQ_0x07D0_0x03F3_DBQueryMetaReqSetWorkInfo'', None, ICQ_0x07D0_0x03F3_DBQueryMetaReqSetWorkInfo)])"

definition ICQ_0x07DA_0x00F0_DBQueryMetaReplyInterests :: gtype where
  "ICQ_0x07DA_0x00F0_DBQueryMetaReplyInterests = TStruct ''ICQ_0x07DA_0x00F0_DBQueryMetaReplyInterests'' (structFields
     [(''ICQMetadata'', None, ICQMetadata_type),
      (''ReqSubType'', None, TU16),
      (''Success'', None, TU8),
      (''Interests'', Some ''count_prefix=uint8'', TSlice (TStruct '''' (structFields [(''Code'', None, TU16),
     (''Keyword'', Some ''len_prefix=uint16,nullterm'', TString)])))])"

definition ICQ_0x07DA_0x00E6_DBQueryMetaReplyNotes :: gtype where
  "ICQ_0x07DA_0x00E6_DBQueryMetaReplyNotes = TStruct ''ICQ_0x07DA_0x00E6_DBQueryMetaReplyNotes'' (structFields
     [(''ICQMetadata'', None, ICQMetadata_type),
      (''ReqSubType'', None, TU16),
      (''Success'', None, TU8),
      (''ICQ_0x07D0_0x0406_DBQueryMetaReqSetNotes'', None, ICQ_0x07D0_0x0406_DBQueryMetaReqSetNotes)])"

definition ICQ_0x07DA_0x00FA_DBQueryMetaReplyAffiliations :: gtype where
  "ICQ_0x07DA_0x00FA_DBQueryMetaReplyAffiliations = TStruct ''ICQ_0x07DA_0x00FA_DBQueryMetaReplyAffiliations'' (structFields
     [(''ICQMetadata'', None, ICQMetadata_type),
      (''ReqSubType'', None, TU16),
      (''Success'', None, TU8),
      (''ICQ_0x07D0_0x041A_DBQueryMetaReqSetAffiliations'', None, ICQ_0x07D0_0x041A_DBQueryMetaReqSetAffiliations)])"

definition ICQ_0x07DA_0x00C8_DBQueryMetaReplyBasicInfo :: gtype where
  "ICQ_0x07DA_0x00C8_DBQueryMetaReplyBasicInfo = TStruct ''ICQ_0x07DA_0x00C8_DBQueryMetaReplyBasicInfo'' (structFields
     [(''ICQMetadata'', None, ICQMetadata_type),
      (''ReqSubType'', None, TU16),
      (''Success'', None, TU8),
      (''Nickname'', Some ''len_prefix=uint16,nullterm'', TString),
      (''FirstName'', Some ''len_prefix=uint16,nullterm'', TString),
      (''LastName'', Some ''len_prefix=uint16,nullterm'', TString),
      (''Email'', Some ''len_prefix=uint16,nullterm'', TString),
      (''City'', Some ''len_prefix=uint16,nullterm'', TString),
      (''State'', Some ''len_prefix=uint16,nullterm'', TString),
      (''Phone'', Some ''len_prefix=uint16,nullterm'', TString),
      (''Fax'', Some ''len_prefix=uint16,nullterm'', TString),
      (''Address'', Some ''len_prefix=uint16,nullterm'', TString),
      (''CellPhone'', Some ''len_prefix=uint16,nullterm'', TString),
      (''ZIP'', Some ''len_prefix=uint16,nullterm'', TString),
      (''CountryCode'', None, TU16),
      (''GMTOffset'', None, TU8),
      (''AuthFlag'', None, TU8),
      (''WebAware'', None, TU8),
      (''DCPerms'', None, TU8),
      (''PublishEmail'', None, TU8)])"

definition ICQUserSearchRecord_type :: gtype where
  "ICQUserSearchRecord_type = TStruct ''ICQUserSearchRecord'' (structFields
     [(''UIN'', None, TU32),
      (''Nickname'', Some ''len_prefix=uint16,nullterm'', TString),
      (''FirstName'', Some ''len_prefix=uint16,nullterm'', TString),
      (''LastName'', Some ''len_prefix=uint16,nullterm'', TString),
      (''Email'', Some ''len_prefix=uint16,nullterm'', TString),
      (''Authorization'', None, TU8),
      (''OnlineStatus'', None, TU16),
      (''Gender'', None, TU8),
      (''Age'', None, TU16)])"

definition ICQ_0x07DA_0x01A4_DBQueryMetaReplyUserFound :: gtype where
  "ICQ_0x07DA_0x01A4_DBQueryMetaReplyUserFound = TStruct ''ICQ_0x07DA_0x01A4_DBQueryMetaReplyUserFound'' (structFields
     [(''ICQMetadata'', None, ICQMetadata_type),
      (''ReqSubType'', None, TU16),
      (''Success'', None, TU8),
      (''Details'', Some ''len_prefix=uint16'', ICQUserSearchRecord_type),
      (''Buffer'', None, TArray 12 TU8)])"

definition ICQ_0x07DA_0x01AE_DBQueryMetaReplyLastUserFound :: gtype where
  "ICQ_0x07DA_0x01AE_DBQueryMetaReplyLastUserFound = TStruct ''ICQ_0x07DA_0x01AE_DBQueryMetaReplyLastUserFound'' (structFields
     [(''ICQMetadata'', None, ICQMetadata_type),
      (''ReqSubType'', None, TU16),
      (''Success'', None, TU8),
      (''Details'', Some ''len_prefix=uint16'', ICQUserSearchRecord_type),
      (''UsersLeft'', None, TU32),
      (''Buffer'', None, TArray 8 TU8)])"

definition ICQ_0x07DA_0x0104_DBQueryMetaReplyShortInfo :: gtype where
  "ICQ_0x07DA_0x0104_DBQueryMetaReplyShortInfo = TStruct ''ICQ_0x07DA_0x0104_DBQueryMetaReplyShortInfo'' (structFields
     [(''ICQMetadata'', None, ICQMetadata_type),
      (''ReqSubType'', None, TU16),
      (''Success'', None, TU8),
      (''Nickname'', Some ''len_prefix=uint16,nullterm'', TString),
      (''FirstName'', Some ''len_prefix=uint16,nullterm'', TString),
      (''LastName'', Some ''len_prefix=uint16,nullterm'', TString),
      (''Email'', Some ''len_prefix=uint16,nullterm'', TString),
      (''Authorization'', None, TU8),
      (''Unknown'', None, TU8),
      (''Gender'', None, TU8)])"

definition ICQ_0x0041_DBQueryOfflineMsgReply :: gtype where
  "ICQ_0x0041_DBQueryOfflineMsgReply = TStruct ''ICQ_0x0041_DBQueryOfflineMsgReply'' (structFields
     [(''ICQMetadata'', None, ICQMetadata_type),
      (''SenderUIN'', None, TU32),
      (''Year'', None, TU16),
      (''Month'', None, TU8),
      (''Day'', None, TU8),
      (''Hour'', None, TU8),
      (''Minute'', None, TU8),
      (''MsgType'', None, TU8),
      (''Flags'', None, TU8),
      (''Message'', Some ''len_prefix=uint16,nullterm'', TString)])"

definition ICQ_0x0042_DBQueryOfflineMsgReplyLast :: gtype where
  "ICQ_0x0042_DBQueryOfflineMsgReplyLast = TStruct ''ICQ_0x0042_DBQueryOfflineMsgReplyLast'' (structFields
     [(''ICQMetadata'', None, ICQMetadata_type),
      (''DroppedMessages'', None, TU8)])"

definition ICQMetadataWithSubType_type :: gtype where
  "ICQMetadataWithSubType_type = TStruct ''ICQMetadataWithSubType'' (structFields
     [(''ICQMetadata'', None, ICQMetadata_type),
      (''Optional'', Some ''optional'', TPtr (TStruct '''' (structFields [(''ReqSubType'', None, TU16)])))])"

definition ICQMessageRequestEnvelope_type :: gtype where
  "ICQMessageRequestEnvelope_type = TStruct ''ICQMessageRequestEnvelope'' (structFields
     [(''Body'', Some ''len_prefix=uint16'', TSlice TU8)])"

definition ICQMessageReplyEnvelope_type :: gtype where
  "ICQMessageReplyEnvelope_type = TStruct ''ICQMessageReplyEnvelope'' (structFields
     [(''Message'', Some ''len_prefix=uint16'', TAny)])"

definition SNAC_0x17_0x02_BUCPLoginRequest :: gtype where
  "SNAC_0x17_0x02_BUCPLoginRequest = TStruct ''SNAC_0x17_0x02_BUCPLoginRequest'' (structFields
     [(''TLVRestBlock'', None, TLVRestBlock_type)])"

definition SNAC_0x17_0x03_BUCPLoginResponse :: gtype where
  "SNAC_0x17_0x03_BUCPLoginResponse = TStruct ''SNAC_0x17_0x03_BUCPLoginResponse'' (structFields
     [(''TLVRestBlock'', None, TLVRestBlock_type)])"

definition SNAC_0x17_0x06_BUCPChallengeRequest :: gtype where
  "SNAC_0x17_0x06_BUCPChallengeRequest = TStruct ''SNAC_0x17_0x06_BUCPChallengeRequest'' (structFields
     [(''TLVRestBlock'', None, TLVRestBlock_type)])"

definition SNAC_0x17_0x07_BUCPChallengeResponse :: gtype where
  "SNAC_0x17_0x07_BUCPChallengeResponse = TStruct ''SNAC_0x17_0x07_BUCPChallengeResponse'' (structFields
     [(''AuthKey'', Some ''len_prefix=uint16'', TString)])"

definition SNAC_0x050C_0x0002_KerberosLoginRequest :: gtype where
  "SNAC_0x050C_0x0002_KerberosLoginRequest = TStruct ''SNAC_0x050C_0x0002_KerberosLoginRequest'' (structFields
     [(''RequestID'', None, TU32),
      (''ClientIP'', None, TU32),
      (''ClientCOOLVersionMajor'', None, TU32),
      (''ClientCOOLVersionMinor'', None, TU32),
      (''PaddingOrZero'', None, TU32),
      (''KerberosPayload'', None, TLVBlock_type),
      (''LocaleFlags1'', None, TU32),
      (''LocaleFlags2'', None, TU32),
      (''CountryCode'', Some ''len_prefix=uint16'', TString),
      (''LanguageCode'', Some ''len_prefix=uint16'', TString),
      (''ServiceContextBlock'', None, TLVBlock_type),
      (''VersionOrFlags'', None, TU32),
      (''AuthType'', None, TU8),
      (''ClientPrincipal'', Some ''len_prefix=uint16'', TString),
      (''ServicePrincipal'', Some ''len_prefix=uint16'', TString),
      (''Reserved1'', None, TU32),
      (''RealmCount'', None, TU16),
      (''TicketRequestMetadata'', None, TLVBlock_type)])"

definition KerberosTicket_type :: gtype where
  "KerberosTicket_type = TStruct ''KerberosTicket'' (structFields
     [(''PVNO'', None, TU16),
      (''EncTicket'', Some ''len_prefix=uint16'', TSlice TU8),
      (''TicketRealm'', Some ''len_prefix=uint16'', TString),
      (''ServicePrincipal'', Some ''len_prefix=uint16'', TString),
      (''ClientRealm'', Some ''len_prefix=uint16'', TString),
      (''ClientPrincipal'', Some ''len_prefix=uint16'', TString),
      (''KVNO'', None, TU8),
      (''SessionKey'', Some ''len_prefix=uint16'', TSlice TU8),
      (''Unknown1'', None, TU32),
      (''Unknown2'', None, TU32),
      (''AuthTime'', None, TU32),
      (''StartTime'', None, TU32),
      (''EndTime'', None, TU32),
      (''RenewTill'', None, TU32),
      (''Unknown4'', None, TU32),
      (''Unknown5'', None, TU32),
      (''Unknown6'', None, TU32),
      (''ConnectionMetadata'', None, TLVBlock_type)])"

definition SNAC_0x050C_0x0003_KerberosLoginSuccessResponse :: gtype where
  "SNAC_0x050C_0x0003_KerberosLoginSuccessResponse = TStruct ''SNAC_0x050C_0x0003_KerberosLoginSuccessResponse'' (structFields
     [(''RequestID'', None, TU32),
      (''Epoch'', None, TU32),
      (''Reserved'', None, TU32),
      (''ClientPrincipal'', Some ''len_prefix=uint16'', TString),
      (''ClientRealm'', Some ''len_prefix=uint16'', TString),
      (''Tickets'', Some ''count_prefix=uint16'', TSlice KerberosTicket_type),
      (''Extensions'', None, TLVBlock_type)])"

definition SNAC_0x050C_0x0004_KerberosLoginErrResponse :: gtype where
  "SNAC_0x050C_0x0004_KerberosLoginErrResponse = TStruct ''SNAC_0x050C_0x0004_KerberosLoginErrResponse'' (structFields
     [(''KerbRequestID'', None, TU32),
      (''ScreenName'', Some ''len_prefix=uint16'', TString),
      (''ErrCode'', None, TU16),
      (''Message'', Some ''len_prefix=uint16'', TString),
      (''Unknown1'', None, TU32),
      (''Metadata'', None, TLVBlock_type)])"

definition KerberosLoginRequestTicket_type :: gtype where
  "KerberosLoginRequestTicket_type = TStruct ''KerberosLoginRequestTicket'' (structFields
     [(''Marker'', None, TU32),
      (''Version'', None, TU16),
      (''Flags'', None, TU32),
      (''Unknown'', None, TU16),
      (''Password'', Some ''len_prefix=uint16'', TSlice TU8),
      (''PasswordMetadata'', None, TLVBlock_type)])"

definition KerberosBOSServerInfo_type :: gtype where
  "KerberosBOSServerInfo_type = TStruct ''KerberosBOSServerInfo'' (structFields
     [(''Unknown'', None, TU16),
      (''ConnectionInfo'', None, TLVBlock_type)])"

definition ICQDCInfo_type :: gtype where
  "ICQDCInfo_type = TStruct ''ICQDCInfo'' (structFields
     [(''IP'', None, TU32),
      (''Port'', None, TU32),
      (''DCType'', None, TU8),
      (''ProtoVersion'', None, TU16),
      (''AuthCookie'', None, TU32),
      (''WebPort'', None, TU32),
      (''ClientFutures'', None, TU32),
      (''LastUpdateTime'', None, TU32),
      (''LastExtInfoUpdateTime'', None, TU32),
      (''LastExtStatusUpdateTime'', None, TU32),
      (''Unknown'', None, TU16)])"

definition BENCOKey_type :: gtype where
  "BENCOKey_type = TStruct ''BENCOKey'' (structFields
     [(''Alg'', None, TU8),
      (''Key'', Some ''len_prefix=uint16'', TSlice TU8)])"

definition BENCODevice_type :: gtype where
  "BENCODevice_type = TStruct ''BENCODevice'' (structFields
     [(''Box'', None, BENCOKey_type),
      (''Sign'', None, BENCOKey_type),
      (''Label'', Some ''len_prefix=uint8'', TString)])"

definition BENCOManifest_type :: gtype where
  "BENCOManifest_type = TStruct ''BENCOManifest'' (structFields
     [(''Version'', None, TU16),
      (''ScreenName'', Some ''len_prefix=uint8'', TString),
      (''Counter'', None, TU64),
      (''IssuedAt'', None, TU64),
      (''Identity'', None, BENCOKey_type),
      (''Devices'', Some ''count_prefix=uint16'', TSlice BENCODevice_type)])"

definition SNAC_0xBE00_0x0002_BENCOKeyDirPublishRequest :: gtype where
  "SNAC_0xBE00_0x0002_BENCOKeyDirPublishRequest = TStruct ''SNAC_0xBE00_0x0002_BENCOKeyDirPublishRequest'' (structFields
     [(''Version'', None, TU16),
      (''Manifest'', Some ''len_prefix=uint16'', TSlice TU8),
      (''SigAlg'', None, TU8),
      (''Signature'', Some ''len_prefix=uint16'', TSlice TU8)])"

definition SNAC_0xBE00_0x0003_BENCOKeyDirPublishReply :: gtype where
  "SNAC_0xBE00_0x0003_BENCOKeyDirPublishReply = TStruct ''SNAC_0xBE00_0x0003_BENCOKeyDirPublishReply'' (structFields
     [(''Accepted'', None, TU8),
      (''Counter'', None, TU64)])"

definition SNAC_0xBE00_0x0004_BENCOKeyDirQueryRequest :: gtype where
  "SNAC_0xBE00_0x0004_BENCOKeyDirQueryRequest = TStruct ''SNAC_0xBE00_0x0004_BENCOKeyDirQueryRequest'' (structFields
     [(''Version'', None, TU16),
      (''ScreenName'', Some ''len_prefix=uint8'', TString)])"

definition SNAC_0xBE00_0x0005_BENCOKeyDirQueryReply :: gtype where
  "SNAC_0xBE00_0x0005_BENCOKeyDirQueryReply = TStruct ''SNAC_0xBE00_0x0005_BENCOKeyDirQueryReply'' (structFields
     [(''ScreenName'', Some ''len_prefix=uint8'', TString),
      (''Present'', None, TU8),
      (''Manifest'', Some ''len_prefix=uint16'', TSlice TU8),
      (''SigAlg'', None, TU8),
      (''Signature'', Some ''len_prefix=uint16'', TSlice TU8)])"

definition SNAC_0xBE00_0x0006_BENCOKeyDirPutBackupRequest :: gtype where
  "SNAC_0xBE00_0x0006_BENCOKeyDirPutBackupRequest = TStruct ''SNAC_0xBE00_0x0006_BENCOKeyDirPutBackupRequest'' (structFields
     [(''Version'', None, TU16),
      (''KDF'', None, TU8),
      (''Params'', Some ''len_prefix=uint16'', TSlice TU8),
      (''Salt'', Some ''len_prefix=uint16'', TSlice TU8),
      (''Blob'', Some ''len_prefix=uint16'', TSlice TU8)])"

definition SNAC_0xBE00_0x0007_BENCOKeyDirPutBackupReply :: gtype where
  "SNAC_0xBE00_0x0007_BENCOKeyDirPutBackupReply = TStruct ''SNAC_0xBE00_0x0007_BENCOKeyDirPutBackupReply'' (structFields
     [(''Stored'', None, TU8)])"

definition SNAC_0xBE00_0x0008_BENCOKeyDirGetBackupRequest :: gtype where
  "SNAC_0xBE00_0x0008_BENCOKeyDirGetBackupRequest = TStruct ''SNAC_0xBE00_0x0008_BENCOKeyDirGetBackupRequest'' (structFields
     [(''Version'', None, TU16)])"

definition SNAC_0xBE00_0x0009_BENCOKeyDirGetBackupReply :: gtype where
  "SNAC_0xBE00_0x0009_BENCOKeyDirGetBackupReply = TStruct ''SNAC_0xBE00_0x0009_BENCOKeyDirGetBackupReply'' (structFields
     [(''Present'', None, TU8),
      (''KDF'', None, TU8),
      (''Params'', Some ''len_prefix=uint16'', TSlice TU8),
      (''Salt'', Some ''len_prefix=uint16'', TSlice TU8),
      (''Blob'', Some ''len_prefix=uint16'', TSlice TU8)])"

definition SNAC_0xBE00_0x000A_BENCOKeyDirAttestChallenge :: gtype where
  "SNAC_0xBE00_0x000A_BENCOKeyDirAttestChallenge = TStruct ''SNAC_0xBE00_0x000A_BENCOKeyDirAttestChallenge'' (structFields
     [(''Version'', None, TU16),
      (''Nonce'', Some ''len_prefix=uint16'', TSlice TU8)])"

definition SNAC_0xBE00_0x000B_BENCOKeyDirAttestResponse :: gtype where
  "SNAC_0xBE00_0x000B_BENCOKeyDirAttestResponse = TStruct ''SNAC_0xBE00_0x000B_BENCOKeyDirAttestResponse'' (structFields
     [(''Version'', None, TU16),
      (''SignKey'', None, BENCOKey_type),
      (''Signature'', Some ''len_prefix=uint16'', TSlice TU8)])"

definition SNAC_0xBE00_0x000C_BENCOKeyDirAttestReply :: gtype where
  "SNAC_0xBE00_0x000C_BENCOKeyDirAttestReply = TStruct ''SNAC_0xBE00_0x000C_BENCOKeyDirAttestReply'' (structFields
     [(''Version'', None, TU16),
      (''Accepted'', None, TU8)])"

section \<open>The catalogue\<close>

definition messages_shared :: "gtype list" where
  "messages_shared =
    [SNACError_type,
     FLAPFrame_type,
     FLAPFrameDisconnect_type,
     SNACFrame_type,
     FLAPSignonFrame_type,
     RateParamsSNAC_type,
     TLVUserInfo_type,
     BARTInfo_type,
     BARTID_type,
     BartQueryReplyID_type,
     ICBMCh1Fragment_type,
     ICBMCh2Fragment_type,
     ICBMRoomInfo_type,
     ICBMCh1Message_type,
     ICBMCh4Message_type,
     ODirKeywordListItem_type,
     BartIDsWName_type,
     FeedbagItem_type,
     FeedbagExtendedInfo_type,
     ICQInterests_type,
     ICQEmail_type,
     ICQMetadata_type,
     ICQUserSearchRecord_type,
     ICQMetadataWithSubType_type,
     ICQMessageRequestEnvelope_type,
     KerberosTicket_type,
     KerberosLoginRequestTicket_type,
     KerberosBOSServerInfo_type,
     ICQDCInfo_type,
     BENCOKey_type,
     BENCODevice_type,
     BENCOManifest_type]"

definition messages_01 :: "gtype list" where
  "messages_01 =
    [SNAC_0x01_0x02_OServiceClientOnline,
     SNAC_0x01_0x03_OServiceHostOnline,
     SNAC_0x01_0x04_OServiceServiceRequest,
     SNAC_0x01_0x04_TLVRoomInfo,
     SNAC_0x01_0x05_OServiceServiceResponse,
     SNAC_0x01_0x0A_OServiceRateParamsChange,
     SNAC_0x01_0x08_OServiceRateParamsSubAdd,
     SNAC_0x01_0x0F_OServiceUserInfoUpdate,
     SNAC_0x01_0x10_OServiceEvilNotification,
     SNAC_0x01_0x11_OServiceIdleNotification,
     SNAC_0x01_0x13_OServiceMOTD,
     SNAC_0x01_0x14_OServiceSetPrivacyFlags,
     SNAC_0x01_0x17_OServiceClientVersions,
     SNAC_0x01_0x18_OServiceHostVersions,
     SNAC_0x01_0x1E_OServiceSetUserInfoFields,
     SNAC_0x01_0x21_OServiceBARTReply,
     SNAC_0x01_0x23_OServiceBART2Reply]"

definition messages_02 :: "gtype list" where
  "messages_02 =
    [SNAC_0x02_0x03_LocateRightsReply,
     SNAC_0x02_0x04_LocateSetInfo,
     SNAC_0x02_0x06_LocateUserInfoReply,
     SNAC_0x02_0x09_LocateSetDirInfo,
     SNAC_0x02_0x0A_LocateSetDirReply,
     SNAC_0x02_0x0B_LocateGetDirInfo,
     SNAC_0x02_0x0C_LocateGetDirReply,
     SNAC_0x02_0x0F_LocateSetKeywordInfo,
     SNAC_0x02_0x10_LocateSetKeywordReply,
     SNAC_0x02_0x05_LocateUserInfoQuery,
     SNAC_0x02_0x15_LocateUserInfoQuery2]"

definition messages_03 :: "gtype list" where
  "messages_03 =
    [SNAC_0x03_0x02_BuddyRightsQuery,
     SNAC_0x03_0x03_BuddyRightsReply,
     SNAC_0x03_0x04_BuddyAddBuddies,
     SNAC_0x03_0x0A_BuddyRejectNotification,
     SNAC_0x03_0x05_BuddyDelBuddies,
     SNAC_0x03_0x0B_BuddyArrived,
     SNAC_0x03_0x0C_BuddyDeparted,
     SNAC_0x03_0x0F_BuddyAddTempBuddies,
     SNAC_0x03_0x10_BuddyDelTempBuddies]"

definition messages_04 :: "gtype list" where
  "messages_04 =
    [SNAC_0x04_0x02_ICBMAddParameters,
     SNAC_0x04_0x05_ICBMParameterReply,
     SNAC_0x04_0x06_ICBMChannelMsgToHost,
     SNAC_0x04_0x07_ICBMChannelMsgToClient,
     SNAC_0x04_0x08_ICBMEvilRequest,
     SNAC_0x04_0x09_ICBMEvilReply,
     SNAC_0x04_0x0B_ICBMClientErr,
     SNAC_0x04_0x0C_ICBMHostAck,
     SNAC_0x04_0x14_ICBMClientEvent,
     SNAC_0x04_0x0A_ICBMOfflineRetrieve,
     SNAC_0x04_0x17_ICBMOfflineRetrieveReply]"

definition messages_07 :: "gtype list" where
  "messages_07 =
    [SNAC_0x07_0x02_AdminInfoQuery,
     SNAC_0x07_0x03_AdminInfoReply,
     SNAC_0x07_0x04_AdminInfoChangeRequest,
     SNAC_0x07_0x05_AdminChangeReply,
     SNAC_0x07_0x06_AdminConfirmRequest,
     SNAC_0x07_0x07_AdminConfirmReply]"

definition messages_09 :: "gtype list" where
  "messages_09 =
    [SNAC_0x09_0x03_PermitDenyRightsReply,
     SNAC_0x09_0x05_PermitDenyAddPermListEntries,
     SNAC_0x09_0x06_PermitDenyDelPermListEntries,
     SNAC_0x09_0x07_PermitDenyAddDenyListEntries,
     SNAC_0x09_0x08_PermitDenyDelDenyListEntries,
     SNAC_0x09_0x04_PermitDenySetGroupPermitMask]"

definition messages_0A :: "gtype list" where
  "messages_0A =
    [SNAC_0x0A_0x02_UserLookupFindByEmail,
     SNAC_0x0A_0x03_UserLookupFindReply]"

definition messages_0B :: "gtype list" where
  "messages_0B =
    [SNAC_0x0B_0x02_StatsSetMinReportInterval,
     SNAC_0x0B_0x03_StatsReportEvents,
     SNAC_0x0B_0x04_StatsReportAck]"

definition messages_0D :: "gtype list" where
  "messages_0D =
    [SNAC_0x0D_0x03_ChatNavRequestExchangeInfo,
     SNAC_0x0D_0x04_ChatNavRequestRoomInfo,
     SNAC_0x0D_0x09_ChatNavNavInfo,
     SNAC_0x0D_0x09_TLVExchangeInfo]"

definition messages_0E :: "gtype list" where
  "messages_0E =
    [SNAC_0x0E_0x02_ChatRoomInfoUpdate,
     SNAC_0x0E_0x03_ChatUsersJoined,
     SNAC_0x0E_0x04_ChatUsersLeft,
     SNAC_0x0E_0x05_ChatChannelMsgToHost,
     SNAC_0x0E_0x06_ChatChannelMsgToClient]"

definition messages_0F :: "gtype list" where
  "messages_0F =
    [SNAC_0x0F_0x02_InfoQuery,
     SNAC_0x0F_0x03_InfoReply,
     SNAC_0x0F_0x04_KeywordListQuery,
     SNAC_0x0F_0x04_KeywordListReply]"

definition messages_10 :: "gtype list" where
  "messages_10 =
    [SNAC_0x10_0x02_BARTUploadQuery,
     SNAC_0x10_0x03_BARTUploadReply,
     SNAC_0x10_0x04_BARTDownloadQuery,
     SNAC_0x10_0x05_BARTDownloadReply,
     SNAC_0x10_0x06_BARTDownload2Query,
     SNAC_0x10_0x07_BARTDownload2Reply]"

definition messages_13 :: "gtype list" where
  "messages_13 =
    [SNAC_0x13_0x02_FeedbagRightsQuery,
     SNAC_0x13_0x03_FeedbagRightsReply,
     SNAC_0x13_0x05_FeedbagQueryIfModified,
     SNAC_0x13_0x06_FeedbagReply,
     SNAC_0x13_0x08_FeedbagInsertItem,
     SNAC_0x13_0x09_FeedbagUpdateItem,
     SNAC_0x13_0x0A_FeedbagDeleteItem,
     SNAC_0x13_0x0E_FeedbagStatus,
     SNAC_0x13_0x11_FeedbagStartCluster,
     SNAC_0x13_0x12_FeedbagEndCluster,
     SNAC_0x13_0x18_FeedbagRequestAuthorizationToHost,
     SNAC_0x13_0x19_FeedbagRequestAuthorizeToClient,
     SNAC_0x13_0x1A_FeedbagRespondAuthorizeToHost,
     SNAC_0x13_0x1B_FeedbagRespondAuthorizeToClient,
     SNAC_0x13_0x1C_FeedbagBuddyAdded,
     SNAC_0x13_0x14_FeedbagPreAuthorizeBuddy,
     SNAC_0x13_0x15_FeedbagPreAuthorizedBuddy]"

definition messages_15 :: "gtype list" where
  "messages_15 =
    [SNAC_0x15_0x02_BQuery,
     SNAC_0x15_0x02_DBReply]"

definition messages_ICQ_DB :: "gtype list" where
  "messages_ICQ_DB =
    [ICQ_0x07D0_0x04BA_DBQueryMetaReqShortInfo,
     ICQ_0x07D0_0x0898_DBQueryMetaReqXMLReq,
     ICQ_0x07D0_0x0424_DBQueryMetaReqSetPermissions,
     ICQ_0x07D0_0x0654_DBQueryMetaReqSetICQPhone,
     ICQ_0x07D0_0x051F_DBQueryMetaReqSearchByUIN,
     ICQ_0x07D0_0x0569_DBQueryMetaReqSearchByUIN2,
     ICQ_0x07D0_0x0529_DBQueryMetaReqSearchByEmail,
     ICQ_0x07D0_0x0573_DBQueryMetaReqSearchByEmail3,
     ICQ_0x07D0_0x0515_DBQueryMetaReqSearchByDetails,
     ICQ_0x07D0_0x0533_DBQueryMetaReqSearchWhitePages,
     ICQ_0x07D0_0x055F_DBQueryMetaReqSearchWhitePages2,
     ICQ_0x07D0_0x0C3A_DBQueryMetaReqSetFullInfo,
     ICQ_0x07D0_0x03FD_DBQueryMetaReqSetMoreInfo,
     ICQ_0x07D0_0x03F3_DBQueryMetaReqSetWorkInfo,
     ICQ_0x07D0_0x040B_DBQueryMetaReqSetEmails,
     ICQ_0x07D0_0x0406_DBQueryMetaReqSetNotes,
     ICQ_0x07D0_0x0410_DBQueryMetaReqSetInterests,
     ICQ_0x07D0_0x041A_DBQueryMetaReqSetAffiliations,
     ICQ_0x07D0_0x03EA_DBQueryMetaReqSetBasicInfo,
     ICQ_0x07DA_0x010E_DBQueryMetaReplyHomePageCat,
     ICQ_0x07DA_0x08A2_DBQueryMetaReplyXMLData,
     ICQ_0x07DA_0x00DC_DBQueryMetaReplyMoreInfo,
     ICQ_0x07DA_0x00EB_DBQueryMetaReplyExtEmailInfo,
     ICQ_0x07DA_0x00D2_DBQueryMetaReplyWorkInfo,
     ICQ_0x07DA_0x00F0_DBQueryMetaReplyInterests,
     ICQ_0x07DA_0x00E6_DBQueryMetaReplyNotes,
     ICQ_0x07DA_0x00FA_DBQueryMetaReplyAffiliations,
     ICQ_0x07DA_0x00C8_DBQueryMetaReplyBasicInfo,
     ICQ_0x07DA_0x01A4_DBQueryMetaReplyUserFound,
     ICQ_0x07DA_0x01AE_DBQueryMetaReplyLastUserFound,
     ICQ_0x07DA_0x0104_DBQueryMetaReplyShortInfo,
     ICQ_0x0041_DBQueryOfflineMsgReply,
     ICQ_0x0042_DBQueryOfflineMsgReplyLast]"

definition messages_17 :: "gtype list" where
  "messages_17 =
    [SNAC_0x17_0x02_BUCPLoginRequest,
     SNAC_0x17_0x03_BUCPLoginResponse,
     SNAC_0x17_0x06_BUCPChallengeRequest,
     SNAC_0x17_0x07_BUCPChallengeResponse]"

definition messages_050C :: "gtype list" where
  "messages_050C =
    [SNAC_0x050C_0x0002_KerberosLoginRequest,
     SNAC_0x050C_0x0003_KerberosLoginSuccessResponse,
     SNAC_0x050C_0x0004_KerberosLoginErrResponse]"

definition messages_BE00 :: "gtype list" where
  "messages_BE00 =
    [SNAC_0xBE00_0x0002_BENCOKeyDirPublishRequest,
     SNAC_0xBE00_0x0003_BENCOKeyDirPublishReply,
     SNAC_0xBE00_0x0004_BENCOKeyDirQueryRequest,
     SNAC_0xBE00_0x0005_BENCOKeyDirQueryReply,
     SNAC_0xBE00_0x0006_BENCOKeyDirPutBackupRequest,
     SNAC_0xBE00_0x0007_BENCOKeyDirPutBackupReply,
     SNAC_0xBE00_0x0008_BENCOKeyDirGetBackupRequest,
     SNAC_0xBE00_0x0009_BENCOKeyDirGetBackupReply,
     SNAC_0xBE00_0x000A_BENCOKeyDirAttestChallenge,
     SNAC_0xBE00_0x000B_BENCOKeyDirAttestResponse,
     SNAC_0xBE00_0x000C_BENCOKeyDirAttestReply]"

definition messageCatalogue :: "gtype list" where
  "messageCatalogue =
     messages_shared @
     messages_01 @
     messages_02 @
     messages_03 @
     messages_04 @
     messages_07 @
     messages_09 @
     messages_0A @
     messages_0B @
     messages_0D @
     messages_0E @
     messages_0F @
     messages_10 @
     messages_13 @
     messages_15 @
     messages_ICQ_DB @
     messages_17 @
     messages_050C @
     messages_BE00"

text \<open>Every tag text of the catalogue, parsed.\<close>

lemma parse_tags:
  "parseOSCARTag (Some ''len_prefix=uint8'') = Inr (noTag\<lparr>hasLenPrefix := True, lenPrefix := KUint8\<rparr>)"
  "parseOSCARTag (Some ''len_prefix=uint16'') = Inr (noTag\<lparr>hasLenPrefix := True, lenPrefix := KUint16\<rparr>)"
  "parseOSCARTag (Some ''count_prefix=uint8'') = Inr (noTag\<lparr>hasCountPrefix := True, countPrefix := KUint8\<rparr>)"
  "parseOSCARTag (Some ''count_prefix=uint16'') = Inr (noTag\<lparr>hasCountPrefix := True, countPrefix := KUint16\<rparr>)"
  "parseOSCARTag (Some ''len_prefix=uint16,nullterm'') = Inr (noTag\<lparr>hasLenPrefix := True, lenPrefix := KUint16, nullTerminated := True\<rparr>)"
  "parseOSCARTag (Some ''optional'') = Inr (noTag\<lparr>optional := True\<rparr>)"
  "parseOSCARTag (Some ''quirk=qip_2005_search_by_uin2'') = Inr (noTag\<lparr>quirk := ''qip_2005_search_by_uin2''\<rparr>)"
  "parseOSCARTag (Some ''quirk=jimm_locate_set_info'') = Inr (noTag\<lparr>quirk := ''jimm_locate_set_info''\<rparr>)"
  "parseOSCARTag (Some ''quirk=icq2003b_set_fullinfo'') = Inr (noTag\<lparr>quirk := ''icq2003b_set_fullinfo''\<rparr>)"
  by (simp_all add: parseOSCARTag_def parseTagEntry_def parsePrefixKind_def trimSpace_def
      isSpace_def noTag_def)

lemmas block_types = UUID_type_def TLV_type_def TLVRestBlock_type_def TLVBlock_type_def TLVLBlock_type_def

lemma codable_messages_shared: "list_all (\<lambda>t. codable t noTag) messages_shared"
  by (simp add: messages_shared_def block_types parse_tags
      SNACError_type_def FLAPFrame_type_def FLAPFrameDisconnect_type_def SNACFrame_type_def
      FLAPSignonFrame_type_def RateParamsSNAC_type_def TLVUserInfo_type_def BARTInfo_type_def
      BARTID_type_def BartQueryReplyID_type_def ICBMCh1Fragment_type_def
      ICBMCh2Fragment_type_def ICBMRoomInfo_type_def ICBMCh1Message_type_def
      ICBMCh4Message_type_def ODirKeywordListItem_type_def BartIDsWName_type_def
      FeedbagItem_type_def FeedbagExtendedInfo_type_def ICQInterests_type_def
      ICQEmail_type_def ICQMetadata_type_def ICQUserSearchRecord_type_def
      ICQMetadataWithSubType_type_def ICQMessageRequestEnvelope_type_def
      KerberosTicket_type_def KerberosLoginRequestTicket_type_def
      KerberosBOSServerInfo_type_def ICQDCInfo_type_def BENCOKey_type_def BENCODevice_type_def
      BENCOManifest_type_def)

lemma noQuirk_messages_shared: "list_all noQuirk messages_shared"
  by (simp add: messages_shared_def block_types parse_tags
      SNACError_type_def FLAPFrame_type_def FLAPFrameDisconnect_type_def SNACFrame_type_def
      FLAPSignonFrame_type_def RateParamsSNAC_type_def TLVUserInfo_type_def BARTInfo_type_def
      BARTID_type_def BartQueryReplyID_type_def ICBMCh1Fragment_type_def
      ICBMCh2Fragment_type_def ICBMRoomInfo_type_def ICBMCh1Message_type_def
      ICBMCh4Message_type_def ODirKeywordListItem_type_def BartIDsWName_type_def
      FeedbagItem_type_def FeedbagExtendedInfo_type_def ICQInterests_type_def
      ICQEmail_type_def ICQMetadata_type_def ICQUserSearchRecord_type_def
      ICQMetadataWithSubType_type_def ICQMessageRequestEnvelope_type_def
      KerberosTicket_type_def KerberosLoginRequestTicket_type_def
      KerberosBOSServerInfo_type_def ICQDCInfo_type_def BENCOKey_type_def BENCODevice_type_def
      BENCOManifest_type_def)

lemma struct_messages_shared: "list_all is_struct messages_shared"
  by (simp add: messages_shared_def block_types
      SNACError_type_def FLAPFrame_type_def FLAPFrameDisconnect_type_def SNACFrame_type_def
      FLAPSignonFrame_type_def RateParamsSNAC_type_def TLVUserInfo_type_def BARTInfo_type_def
      BARTID_type_def BartQueryReplyID_type_def ICBMCh1Fragment_type_def
      ICBMCh2Fragment_type_def ICBMRoomInfo_type_def ICBMCh1Message_type_def
      ICBMCh4Message_type_def ODirKeywordListItem_type_def BartIDsWName_type_def
      FeedbagItem_type_def FeedbagExtendedInfo_type_def ICQInterests_type_def
      ICQEmail_type_def ICQMetadata_type_def ICQUserSearchRecord_type_def
      ICQMetadataWithSubType_type_def ICQMessageRequestEnvelope_type_def
      KerberosTicket_type_def KerberosLoginRequestTicket_type_def
      KerberosBOSServerInfo_type_def ICQDCInfo_type_def BENCOKey_type_def BENCODevice_type_def
      BENCOManifest_type_def)

lemma codable_messages_01: "list_all (\<lambda>t. codable t noTag) messages_01"
  by (simp add: messages_01_def block_types parse_tags
      SNAC_0x01_0x02_OServiceClientOnline_def SNAC_0x01_0x03_OServiceHostOnline_def
      SNAC_0x01_0x04_OServiceServiceRequest_def SNAC_0x01_0x04_TLVRoomInfo_def
      SNAC_0x01_0x05_OServiceServiceResponse_def RateParamsSNAC_type_def
      SNAC_0x01_0x0A_OServiceRateParamsChange_def SNAC_0x01_0x08_OServiceRateParamsSubAdd_def
      TLVUserInfo_type_def SNAC_0x01_0x0F_OServiceUserInfoUpdate_def
      SNAC_0x01_0x10_OServiceEvilNotification_def SNAC_0x01_0x11_OServiceIdleNotification_def
      SNAC_0x01_0x13_OServiceMOTD_def SNAC_0x01_0x14_OServiceSetPrivacyFlags_def
      SNAC_0x01_0x17_OServiceClientVersions_def SNAC_0x01_0x18_OServiceHostVersions_def
      SNAC_0x01_0x1E_OServiceSetUserInfoFields_def BARTInfo_type_def BARTID_type_def
      SNAC_0x01_0x21_OServiceBARTReply_def BartQueryReplyID_type_def
      SNAC_0x01_0x23_OServiceBART2Reply_def)

lemma noQuirk_messages_01: "list_all noQuirk messages_01"
  by (simp add: messages_01_def block_types parse_tags
      SNAC_0x01_0x02_OServiceClientOnline_def SNAC_0x01_0x03_OServiceHostOnline_def
      SNAC_0x01_0x04_OServiceServiceRequest_def SNAC_0x01_0x04_TLVRoomInfo_def
      SNAC_0x01_0x05_OServiceServiceResponse_def RateParamsSNAC_type_def
      SNAC_0x01_0x0A_OServiceRateParamsChange_def SNAC_0x01_0x08_OServiceRateParamsSubAdd_def
      TLVUserInfo_type_def SNAC_0x01_0x0F_OServiceUserInfoUpdate_def
      SNAC_0x01_0x10_OServiceEvilNotification_def SNAC_0x01_0x11_OServiceIdleNotification_def
      SNAC_0x01_0x13_OServiceMOTD_def SNAC_0x01_0x14_OServiceSetPrivacyFlags_def
      SNAC_0x01_0x17_OServiceClientVersions_def SNAC_0x01_0x18_OServiceHostVersions_def
      SNAC_0x01_0x1E_OServiceSetUserInfoFields_def BARTInfo_type_def BARTID_type_def
      SNAC_0x01_0x21_OServiceBARTReply_def BartQueryReplyID_type_def
      SNAC_0x01_0x23_OServiceBART2Reply_def)

lemma struct_messages_01: "list_all is_struct messages_01"
  by (simp add: messages_01_def block_types
      SNAC_0x01_0x02_OServiceClientOnline_def SNAC_0x01_0x03_OServiceHostOnline_def
      SNAC_0x01_0x04_OServiceServiceRequest_def SNAC_0x01_0x04_TLVRoomInfo_def
      SNAC_0x01_0x05_OServiceServiceResponse_def RateParamsSNAC_type_def
      SNAC_0x01_0x0A_OServiceRateParamsChange_def SNAC_0x01_0x08_OServiceRateParamsSubAdd_def
      TLVUserInfo_type_def SNAC_0x01_0x0F_OServiceUserInfoUpdate_def
      SNAC_0x01_0x10_OServiceEvilNotification_def SNAC_0x01_0x11_OServiceIdleNotification_def
      SNAC_0x01_0x13_OServiceMOTD_def SNAC_0x01_0x14_OServiceSetPrivacyFlags_def
      SNAC_0x01_0x17_OServiceClientVersions_def SNAC_0x01_0x18_OServiceHostVersions_def
      SNAC_0x01_0x1E_OServiceSetUserInfoFields_def BARTInfo_type_def BARTID_type_def
      SNAC_0x01_0x21_OServiceBARTReply_def BartQueryReplyID_type_def
      SNAC_0x01_0x23_OServiceBART2Reply_def)

lemma codable_messages_02: "list_all (\<lambda>t. codable t noTag) messages_02"
  by (simp add: messages_02_def block_types parse_tags
      SNAC_0x02_0x03_LocateRightsReply_def SNAC_0x02_0x04_LocateSetInfo_def
      TLVUserInfo_type_def SNAC_0x02_0x06_LocateUserInfoReply_def
      SNAC_0x02_0x09_LocateSetDirInfo_def SNAC_0x02_0x0A_LocateSetDirReply_def
      SNAC_0x02_0x0B_LocateGetDirInfo_def SNAC_0x02_0x0C_LocateGetDirReply_def
      SNAC_0x02_0x0F_LocateSetKeywordInfo_def SNAC_0x02_0x10_LocateSetKeywordReply_def
      SNAC_0x02_0x05_LocateUserInfoQuery_def SNAC_0x02_0x15_LocateUserInfoQuery2_def)

lemma noQuirk_messages_02: "list_all (\<lambda>t. noQuirk t \<or> t \<in> {SNAC_0x02_0x04_LocateSetInfo}) messages_02"
  by (simp add: messages_02_def block_types parse_tags
      SNAC_0x02_0x03_LocateRightsReply_def SNAC_0x02_0x04_LocateSetInfo_def
      TLVUserInfo_type_def SNAC_0x02_0x06_LocateUserInfoReply_def
      SNAC_0x02_0x09_LocateSetDirInfo_def SNAC_0x02_0x0A_LocateSetDirReply_def
      SNAC_0x02_0x0B_LocateGetDirInfo_def SNAC_0x02_0x0C_LocateGetDirReply_def
      SNAC_0x02_0x0F_LocateSetKeywordInfo_def SNAC_0x02_0x10_LocateSetKeywordReply_def
      SNAC_0x02_0x05_LocateUserInfoQuery_def SNAC_0x02_0x15_LocateUserInfoQuery2_def)

lemma struct_messages_02: "list_all is_struct messages_02"
  by (simp add: messages_02_def block_types
      SNAC_0x02_0x03_LocateRightsReply_def SNAC_0x02_0x04_LocateSetInfo_def
      TLVUserInfo_type_def SNAC_0x02_0x06_LocateUserInfoReply_def
      SNAC_0x02_0x09_LocateSetDirInfo_def SNAC_0x02_0x0A_LocateSetDirReply_def
      SNAC_0x02_0x0B_LocateGetDirInfo_def SNAC_0x02_0x0C_LocateGetDirReply_def
      SNAC_0x02_0x0F_LocateSetKeywordInfo_def SNAC_0x02_0x10_LocateSetKeywordReply_def
      SNAC_0x02_0x05_LocateUserInfoQuery_def SNAC_0x02_0x15_LocateUserInfoQuery2_def)

lemma codable_messages_03: "list_all (\<lambda>t. codable t noTag) messages_03"
  by (simp add: messages_03_def block_types parse_tags
      SNAC_0x03_0x02_BuddyRightsQuery_def SNAC_0x03_0x03_BuddyRightsReply_def
      SNAC_0x03_0x04_BuddyAddBuddies_def SNAC_0x03_0x0A_BuddyRejectNotification_def
      SNAC_0x03_0x05_BuddyDelBuddies_def TLVUserInfo_type_def SNAC_0x03_0x0B_BuddyArrived_def
      SNAC_0x03_0x0C_BuddyDeparted_def SNAC_0x03_0x0F_BuddyAddTempBuddies_def
      SNAC_0x03_0x10_BuddyDelTempBuddies_def)

lemma noQuirk_messages_03: "list_all noQuirk messages_03"
  by (simp add: messages_03_def block_types parse_tags
      SNAC_0x03_0x02_BuddyRightsQuery_def SNAC_0x03_0x03_BuddyRightsReply_def
      SNAC_0x03_0x04_BuddyAddBuddies_def SNAC_0x03_0x0A_BuddyRejectNotification_def
      SNAC_0x03_0x05_BuddyDelBuddies_def TLVUserInfo_type_def SNAC_0x03_0x0B_BuddyArrived_def
      SNAC_0x03_0x0C_BuddyDeparted_def SNAC_0x03_0x0F_BuddyAddTempBuddies_def
      SNAC_0x03_0x10_BuddyDelTempBuddies_def)

lemma struct_messages_03: "list_all is_struct messages_03"
  by (simp add: messages_03_def block_types
      SNAC_0x03_0x02_BuddyRightsQuery_def SNAC_0x03_0x03_BuddyRightsReply_def
      SNAC_0x03_0x04_BuddyAddBuddies_def SNAC_0x03_0x0A_BuddyRejectNotification_def
      SNAC_0x03_0x05_BuddyDelBuddies_def TLVUserInfo_type_def SNAC_0x03_0x0B_BuddyArrived_def
      SNAC_0x03_0x0C_BuddyDeparted_def SNAC_0x03_0x0F_BuddyAddTempBuddies_def
      SNAC_0x03_0x10_BuddyDelTempBuddies_def)

lemma codable_messages_04: "list_all (\<lambda>t. codable t noTag) messages_04"
  by (simp add: messages_04_def block_types parse_tags
      SNAC_0x04_0x02_ICBMAddParameters_def SNAC_0x04_0x05_ICBMParameterReply_def
      SNAC_0x04_0x06_ICBMChannelMsgToHost_def TLVUserInfo_type_def
      SNAC_0x04_0x07_ICBMChannelMsgToClient_def SNAC_0x04_0x08_ICBMEvilRequest_def
      SNAC_0x04_0x09_ICBMEvilReply_def SNAC_0x04_0x0B_ICBMClientErr_def
      SNAC_0x04_0x0C_ICBMHostAck_def SNAC_0x04_0x14_ICBMClientEvent_def
      SNAC_0x04_0x0A_ICBMOfflineRetrieve_def SNAC_0x04_0x17_ICBMOfflineRetrieveReply_def)

lemma noQuirk_messages_04: "list_all noQuirk messages_04"
  by (simp add: messages_04_def block_types parse_tags
      SNAC_0x04_0x02_ICBMAddParameters_def SNAC_0x04_0x05_ICBMParameterReply_def
      SNAC_0x04_0x06_ICBMChannelMsgToHost_def TLVUserInfo_type_def
      SNAC_0x04_0x07_ICBMChannelMsgToClient_def SNAC_0x04_0x08_ICBMEvilRequest_def
      SNAC_0x04_0x09_ICBMEvilReply_def SNAC_0x04_0x0B_ICBMClientErr_def
      SNAC_0x04_0x0C_ICBMHostAck_def SNAC_0x04_0x14_ICBMClientEvent_def
      SNAC_0x04_0x0A_ICBMOfflineRetrieve_def SNAC_0x04_0x17_ICBMOfflineRetrieveReply_def)

lemma struct_messages_04: "list_all is_struct messages_04"
  by (simp add: messages_04_def block_types
      SNAC_0x04_0x02_ICBMAddParameters_def SNAC_0x04_0x05_ICBMParameterReply_def
      SNAC_0x04_0x06_ICBMChannelMsgToHost_def TLVUserInfo_type_def
      SNAC_0x04_0x07_ICBMChannelMsgToClient_def SNAC_0x04_0x08_ICBMEvilRequest_def
      SNAC_0x04_0x09_ICBMEvilReply_def SNAC_0x04_0x0B_ICBMClientErr_def
      SNAC_0x04_0x0C_ICBMHostAck_def SNAC_0x04_0x14_ICBMClientEvent_def
      SNAC_0x04_0x0A_ICBMOfflineRetrieve_def SNAC_0x04_0x17_ICBMOfflineRetrieveReply_def)

lemma codable_messages_07: "list_all (\<lambda>t. codable t noTag) messages_07"
  by (simp add: messages_07_def block_types parse_tags
      SNAC_0x07_0x02_AdminInfoQuery_def SNAC_0x07_0x03_AdminInfoReply_def
      SNAC_0x07_0x04_AdminInfoChangeRequest_def SNAC_0x07_0x05_AdminChangeReply_def
      SNAC_0x07_0x06_AdminConfirmRequest_def SNAC_0x07_0x07_AdminConfirmReply_def)

lemma noQuirk_messages_07: "list_all noQuirk messages_07"
  by (simp add: messages_07_def block_types parse_tags
      SNAC_0x07_0x02_AdminInfoQuery_def SNAC_0x07_0x03_AdminInfoReply_def
      SNAC_0x07_0x04_AdminInfoChangeRequest_def SNAC_0x07_0x05_AdminChangeReply_def
      SNAC_0x07_0x06_AdminConfirmRequest_def SNAC_0x07_0x07_AdminConfirmReply_def)

lemma struct_messages_07: "list_all is_struct messages_07"
  by (simp add: messages_07_def block_types
      SNAC_0x07_0x02_AdminInfoQuery_def SNAC_0x07_0x03_AdminInfoReply_def
      SNAC_0x07_0x04_AdminInfoChangeRequest_def SNAC_0x07_0x05_AdminChangeReply_def
      SNAC_0x07_0x06_AdminConfirmRequest_def SNAC_0x07_0x07_AdminConfirmReply_def)

lemma codable_messages_09: "list_all (\<lambda>t. codable t noTag) messages_09"
  by (simp add: messages_09_def block_types parse_tags
      SNAC_0x09_0x03_PermitDenyRightsReply_def SNAC_0x09_0x05_PermitDenyAddPermListEntries_def
      SNAC_0x09_0x06_PermitDenyDelPermListEntries_def
      SNAC_0x09_0x07_PermitDenyAddDenyListEntries_def
      SNAC_0x09_0x08_PermitDenyDelDenyListEntries_def
      SNAC_0x09_0x04_PermitDenySetGroupPermitMask_def)

lemma noQuirk_messages_09: "list_all noQuirk messages_09"
  by (simp add: messages_09_def block_types parse_tags
      SNAC_0x09_0x03_PermitDenyRightsReply_def SNAC_0x09_0x05_PermitDenyAddPermListEntries_def
      SNAC_0x09_0x06_PermitDenyDelPermListEntries_def
      SNAC_0x09_0x07_PermitDenyAddDenyListEntries_def
      SNAC_0x09_0x08_PermitDenyDelDenyListEntries_def
      SNAC_0x09_0x04_PermitDenySetGroupPermitMask_def)

lemma struct_messages_09: "list_all is_struct messages_09"
  by (simp add: messages_09_def block_types
      SNAC_0x09_0x03_PermitDenyRightsReply_def SNAC_0x09_0x05_PermitDenyAddPermListEntries_def
      SNAC_0x09_0x06_PermitDenyDelPermListEntries_def
      SNAC_0x09_0x07_PermitDenyAddDenyListEntries_def
      SNAC_0x09_0x08_PermitDenyDelDenyListEntries_def
      SNAC_0x09_0x04_PermitDenySetGroupPermitMask_def)

lemma codable_messages_0A: "list_all (\<lambda>t. codable t noTag) messages_0A"
  by (simp add: messages_0A_def block_types parse_tags
      SNAC_0x0A_0x02_UserLookupFindByEmail_def SNAC_0x0A_0x03_UserLookupFindReply_def)

lemma noQuirk_messages_0A: "list_all noQuirk messages_0A"
  by (simp add: messages_0A_def block_types parse_tags
      SNAC_0x0A_0x02_UserLookupFindByEmail_def SNAC_0x0A_0x03_UserLookupFindReply_def)

lemma struct_messages_0A: "list_all is_struct messages_0A"
  by (simp add: messages_0A_def block_types
      SNAC_0x0A_0x02_UserLookupFindByEmail_def SNAC_0x0A_0x03_UserLookupFindReply_def)

lemma codable_messages_0B: "list_all (\<lambda>t. codable t noTag) messages_0B"
  by (simp add: messages_0B_def block_types parse_tags
      SNAC_0x0B_0x02_StatsSetMinReportInterval_def SNAC_0x0B_0x03_StatsReportEvents_def
      SNAC_0x0B_0x04_StatsReportAck_def)

lemma noQuirk_messages_0B: "list_all noQuirk messages_0B"
  by (simp add: messages_0B_def block_types parse_tags
      SNAC_0x0B_0x02_StatsSetMinReportInterval_def SNAC_0x0B_0x03_StatsReportEvents_def
      SNAC_0x0B_0x04_StatsReportAck_def)

lemma struct_messages_0B: "list_all is_struct messages_0B"
  by (simp add: messages_0B_def block_types
      SNAC_0x0B_0x02_StatsSetMinReportInterval_def SNAC_0x0B_0x03_StatsReportEvents_def
      SNAC_0x0B_0x04_StatsReportAck_def)

lemma codable_messages_0D: "list_all (\<lambda>t. codable t noTag) messages_0D"
  by (simp add: messages_0D_def block_types parse_tags
      SNAC_0x0D_0x03_ChatNavRequestExchangeInfo_def SNAC_0x0D_0x04_ChatNavRequestRoomInfo_def
      SNAC_0x0D_0x09_ChatNavNavInfo_def SNAC_0x0D_0x09_TLVExchangeInfo_def)

lemma noQuirk_messages_0D: "list_all noQuirk messages_0D"
  by (simp add: messages_0D_def block_types parse_tags
      SNAC_0x0D_0x03_ChatNavRequestExchangeInfo_def SNAC_0x0D_0x04_ChatNavRequestRoomInfo_def
      SNAC_0x0D_0x09_ChatNavNavInfo_def SNAC_0x0D_0x09_TLVExchangeInfo_def)

lemma struct_messages_0D: "list_all is_struct messages_0D"
  by (simp add: messages_0D_def block_types
      SNAC_0x0D_0x03_ChatNavRequestExchangeInfo_def SNAC_0x0D_0x04_ChatNavRequestRoomInfo_def
      SNAC_0x0D_0x09_ChatNavNavInfo_def SNAC_0x0D_0x09_TLVExchangeInfo_def)

lemma codable_messages_0E: "list_all (\<lambda>t. codable t noTag) messages_0E"
  by (simp add: messages_0E_def block_types parse_tags
      SNAC_0x0E_0x02_ChatRoomInfoUpdate_def TLVUserInfo_type_def
      SNAC_0x0E_0x03_ChatUsersJoined_def SNAC_0x0E_0x04_ChatUsersLeft_def
      SNAC_0x0E_0x05_ChatChannelMsgToHost_def SNAC_0x0E_0x06_ChatChannelMsgToClient_def)

lemma noQuirk_messages_0E: "list_all noQuirk messages_0E"
  by (simp add: messages_0E_def block_types parse_tags
      SNAC_0x0E_0x02_ChatRoomInfoUpdate_def TLVUserInfo_type_def
      SNAC_0x0E_0x03_ChatUsersJoined_def SNAC_0x0E_0x04_ChatUsersLeft_def
      SNAC_0x0E_0x05_ChatChannelMsgToHost_def SNAC_0x0E_0x06_ChatChannelMsgToClient_def)

lemma struct_messages_0E: "list_all is_struct messages_0E"
  by (simp add: messages_0E_def block_types
      SNAC_0x0E_0x02_ChatRoomInfoUpdate_def TLVUserInfo_type_def
      SNAC_0x0E_0x03_ChatUsersJoined_def SNAC_0x0E_0x04_ChatUsersLeft_def
      SNAC_0x0E_0x05_ChatChannelMsgToHost_def SNAC_0x0E_0x06_ChatChannelMsgToClient_def)

lemma codable_messages_0F: "list_all (\<lambda>t. codable t noTag) messages_0F"
  by (simp add: messages_0F_def block_types parse_tags
      SNAC_0x0F_0x02_InfoQuery_def SNAC_0x0F_0x03_InfoReply_def
      SNAC_0x0F_0x04_KeywordListQuery_def ODirKeywordListItem_type_def
      SNAC_0x0F_0x04_KeywordListReply_def)

lemma noQuirk_messages_0F: "list_all noQuirk messages_0F"
  by (simp add: messages_0F_def block_types parse_tags
      SNAC_0x0F_0x02_InfoQuery_def SNAC_0x0F_0x03_InfoReply_def
      SNAC_0x0F_0x04_KeywordListQuery_def ODirKeywordListItem_type_def
      SNAC_0x0F_0x04_KeywordListReply_def)

lemma struct_messages_0F: "list_all is_struct messages_0F"
  by (simp add: messages_0F_def block_types
      SNAC_0x0F_0x02_InfoQuery_def SNAC_0x0F_0x03_InfoReply_def
      SNAC_0x0F_0x04_KeywordListQuery_def ODirKeywordListItem_type_def
      SNAC_0x0F_0x04_KeywordListReply_def)

lemma codable_messages_10: "list_all (\<lambda>t. codable t noTag) messages_10"
  by (simp add: messages_10_def block_types parse_tags
      SNAC_0x10_0x02_BARTUploadQuery_def BARTInfo_type_def BARTID_type_def
      SNAC_0x10_0x03_BARTUploadReply_def SNAC_0x10_0x04_BARTDownloadQuery_def
      SNAC_0x10_0x05_BARTDownloadReply_def SNAC_0x10_0x06_BARTDownload2Query_def
      BartQueryReplyID_type_def SNAC_0x10_0x07_BARTDownload2Reply_def)

lemma noQuirk_messages_10: "list_all noQuirk messages_10"
  by (simp add: messages_10_def block_types parse_tags
      SNAC_0x10_0x02_BARTUploadQuery_def BARTInfo_type_def BARTID_type_def
      SNAC_0x10_0x03_BARTUploadReply_def SNAC_0x10_0x04_BARTDownloadQuery_def
      SNAC_0x10_0x05_BARTDownloadReply_def SNAC_0x10_0x06_BARTDownload2Query_def
      BartQueryReplyID_type_def SNAC_0x10_0x07_BARTDownload2Reply_def)

lemma struct_messages_10: "list_all is_struct messages_10"
  by (simp add: messages_10_def block_types
      SNAC_0x10_0x02_BARTUploadQuery_def BARTInfo_type_def BARTID_type_def
      SNAC_0x10_0x03_BARTUploadReply_def SNAC_0x10_0x04_BARTDownloadQuery_def
      SNAC_0x10_0x05_BARTDownloadReply_def SNAC_0x10_0x06_BARTDownload2Query_def
      BartQueryReplyID_type_def SNAC_0x10_0x07_BARTDownload2Reply_def)

lemma codable_messages_13: "list_all (\<lambda>t. codable t noTag) messages_13"
  by (simp add: messages_13_def block_types parse_tags
      SNAC_0x13_0x02_FeedbagRightsQuery_def SNAC_0x13_0x03_FeedbagRightsReply_def
      SNAC_0x13_0x05_FeedbagQueryIfModified_def FeedbagItem_type_def
      SNAC_0x13_0x06_FeedbagReply_def SNAC_0x13_0x08_FeedbagInsertItem_def
      SNAC_0x13_0x09_FeedbagUpdateItem_def SNAC_0x13_0x0A_FeedbagDeleteItem_def
      SNAC_0x13_0x0E_FeedbagStatus_def SNAC_0x13_0x11_FeedbagStartCluster_def
      SNAC_0x13_0x12_FeedbagEndCluster_def
      SNAC_0x13_0x18_FeedbagRequestAuthorizationToHost_def
      SNAC_0x13_0x19_FeedbagRequestAuthorizeToClient_def
      SNAC_0x13_0x1A_FeedbagRespondAuthorizeToHost_def
      SNAC_0x13_0x1B_FeedbagRespondAuthorizeToClient_def SNAC_0x13_0x1C_FeedbagBuddyAdded_def
      SNAC_0x13_0x14_FeedbagPreAuthorizeBuddy_def SNAC_0x13_0x15_FeedbagPreAuthorizedBuddy_def)

lemma noQuirk_messages_13: "list_all noQuirk messages_13"
  by (simp add: messages_13_def block_types parse_tags
      SNAC_0x13_0x02_FeedbagRightsQuery_def SNAC_0x13_0x03_FeedbagRightsReply_def
      SNAC_0x13_0x05_FeedbagQueryIfModified_def FeedbagItem_type_def
      SNAC_0x13_0x06_FeedbagReply_def SNAC_0x13_0x08_FeedbagInsertItem_def
      SNAC_0x13_0x09_FeedbagUpdateItem_def SNAC_0x13_0x0A_FeedbagDeleteItem_def
      SNAC_0x13_0x0E_FeedbagStatus_def SNAC_0x13_0x11_FeedbagStartCluster_def
      SNAC_0x13_0x12_FeedbagEndCluster_def
      SNAC_0x13_0x18_FeedbagRequestAuthorizationToHost_def
      SNAC_0x13_0x19_FeedbagRequestAuthorizeToClient_def
      SNAC_0x13_0x1A_FeedbagRespondAuthorizeToHost_def
      SNAC_0x13_0x1B_FeedbagRespondAuthorizeToClient_def SNAC_0x13_0x1C_FeedbagBuddyAdded_def
      SNAC_0x13_0x14_FeedbagPreAuthorizeBuddy_def SNAC_0x13_0x15_FeedbagPreAuthorizedBuddy_def)

lemma struct_messages_13: "list_all is_struct messages_13"
  by (simp add: messages_13_def block_types
      SNAC_0x13_0x02_FeedbagRightsQuery_def SNAC_0x13_0x03_FeedbagRightsReply_def
      SNAC_0x13_0x05_FeedbagQueryIfModified_def FeedbagItem_type_def
      SNAC_0x13_0x06_FeedbagReply_def SNAC_0x13_0x08_FeedbagInsertItem_def
      SNAC_0x13_0x09_FeedbagUpdateItem_def SNAC_0x13_0x0A_FeedbagDeleteItem_def
      SNAC_0x13_0x0E_FeedbagStatus_def SNAC_0x13_0x11_FeedbagStartCluster_def
      SNAC_0x13_0x12_FeedbagEndCluster_def
      SNAC_0x13_0x18_FeedbagRequestAuthorizationToHost_def
      SNAC_0x13_0x19_FeedbagRequestAuthorizeToClient_def
      SNAC_0x13_0x1A_FeedbagRespondAuthorizeToHost_def
      SNAC_0x13_0x1B_FeedbagRespondAuthorizeToClient_def SNAC_0x13_0x1C_FeedbagBuddyAdded_def
      SNAC_0x13_0x14_FeedbagPreAuthorizeBuddy_def SNAC_0x13_0x15_FeedbagPreAuthorizedBuddy_def)

lemma codable_messages_15: "list_all (\<lambda>t. codable t noTag) messages_15"
  by (simp add: messages_15_def block_types parse_tags
      SNAC_0x15_0x02_BQuery_def SNAC_0x15_0x02_DBReply_def)

lemma noQuirk_messages_15: "list_all noQuirk messages_15"
  by (simp add: messages_15_def block_types parse_tags
      SNAC_0x15_0x02_BQuery_def SNAC_0x15_0x02_DBReply_def)

lemma struct_messages_15: "list_all is_struct messages_15"
  by (simp add: messages_15_def block_types
      SNAC_0x15_0x02_BQuery_def SNAC_0x15_0x02_DBReply_def)

lemma codable_messages_ICQ_DB: "list_all (\<lambda>t. codable t noTag) messages_ICQ_DB"
  by (simp add: messages_ICQ_DB_def block_types parse_tags
      ICQ_0x07D0_0x04BA_DBQueryMetaReqShortInfo_def ICQ_0x07D0_0x0898_DBQueryMetaReqXMLReq_def
      ICQ_0x07D0_0x0424_DBQueryMetaReqSetPermissions_def
      ICQ_0x07D0_0x0654_DBQueryMetaReqSetICQPhone_def
      ICQ_0x07D0_0x051F_DBQueryMetaReqSearchByUIN_def
      ICQ_0x07D0_0x0569_DBQueryMetaReqSearchByUIN2_def
      ICQ_0x07D0_0x0529_DBQueryMetaReqSearchByEmail_def
      ICQ_0x07D0_0x0573_DBQueryMetaReqSearchByEmail3_def
      ICQ_0x07D0_0x0515_DBQueryMetaReqSearchByDetails_def
      ICQ_0x07D0_0x0533_DBQueryMetaReqSearchWhitePages_def
      ICQ_0x07D0_0x055F_DBQueryMetaReqSearchWhitePages2_def
      ICQ_0x07D0_0x0C3A_DBQueryMetaReqSetFullInfo_def
      ICQ_0x07D0_0x03FD_DBQueryMetaReqSetMoreInfo_def
      ICQ_0x07D0_0x03F3_DBQueryMetaReqSetWorkInfo_def
      ICQ_0x07D0_0x040B_DBQueryMetaReqSetEmails_def
      ICQ_0x07D0_0x0406_DBQueryMetaReqSetNotes_def
      ICQ_0x07D0_0x0410_DBQueryMetaReqSetInterests_def
      ICQ_0x07D0_0x041A_DBQueryMetaReqSetAffiliations_def
      ICQ_0x07D0_0x03EA_DBQueryMetaReqSetBasicInfo_def ICQMetadata_type_def
      ICQ_0x07DA_0x010E_DBQueryMetaReplyHomePageCat_def
      ICQ_0x07DA_0x08A2_DBQueryMetaReplyXMLData_def
      ICQ_0x07DA_0x00DC_DBQueryMetaReplyMoreInfo_def
      ICQ_0x07DA_0x00EB_DBQueryMetaReplyExtEmailInfo_def
      ICQ_0x07DA_0x00D2_DBQueryMetaReplyWorkInfo_def
      ICQ_0x07DA_0x00F0_DBQueryMetaReplyInterests_def
      ICQ_0x07DA_0x00E6_DBQueryMetaReplyNotes_def
      ICQ_0x07DA_0x00FA_DBQueryMetaReplyAffiliations_def
      ICQ_0x07DA_0x00C8_DBQueryMetaReplyBasicInfo_def ICQUserSearchRecord_type_def
      ICQ_0x07DA_0x01A4_DBQueryMetaReplyUserFound_def
      ICQ_0x07DA_0x01AE_DBQueryMetaReplyLastUserFound_def
      ICQ_0x07DA_0x0104_DBQueryMetaReplyShortInfo_def ICQ_0x0041_DBQueryOfflineMsgReply_def
      ICQ_0x0042_DBQueryOfflineMsgReplyLast_def)

lemma noQuirk_messages_ICQ_DB: "list_all (\<lambda>t. noQuirk t \<or> t \<in> {ICQ_0x07D0_0x0569_DBQueryMetaReqSearchByUIN2, ICQ_0x07D0_0x0C3A_DBQueryMetaReqSetFullInfo}) messages_ICQ_DB"
  by (simp add: messages_ICQ_DB_def block_types parse_tags
      ICQ_0x07D0_0x04BA_DBQueryMetaReqShortInfo_def ICQ_0x07D0_0x0898_DBQueryMetaReqXMLReq_def
      ICQ_0x07D0_0x0424_DBQueryMetaReqSetPermissions_def
      ICQ_0x07D0_0x0654_DBQueryMetaReqSetICQPhone_def
      ICQ_0x07D0_0x051F_DBQueryMetaReqSearchByUIN_def
      ICQ_0x07D0_0x0569_DBQueryMetaReqSearchByUIN2_def
      ICQ_0x07D0_0x0529_DBQueryMetaReqSearchByEmail_def
      ICQ_0x07D0_0x0573_DBQueryMetaReqSearchByEmail3_def
      ICQ_0x07D0_0x0515_DBQueryMetaReqSearchByDetails_def
      ICQ_0x07D0_0x0533_DBQueryMetaReqSearchWhitePages_def
      ICQ_0x07D0_0x055F_DBQueryMetaReqSearchWhitePages2_def
      ICQ_0x07D0_0x0C3A_DBQueryMetaReqSetFullInfo_def
      ICQ_0x07D0_0x03FD_DBQueryMetaReqSetMoreInfo_def
      ICQ_0x07D0_0x03F3_DBQueryMetaReqSetWorkInfo_def
      ICQ_0x07D0_0x040B_DBQueryMetaReqSetEmails_def
      ICQ_0x07D0_0x0406_DBQueryMetaReqSetNotes_def
      ICQ_0x07D0_0x0410_DBQueryMetaReqSetInterests_def
      ICQ_0x07D0_0x041A_DBQueryMetaReqSetAffiliations_def
      ICQ_0x07D0_0x03EA_DBQueryMetaReqSetBasicInfo_def ICQMetadata_type_def
      ICQ_0x07DA_0x010E_DBQueryMetaReplyHomePageCat_def
      ICQ_0x07DA_0x08A2_DBQueryMetaReplyXMLData_def
      ICQ_0x07DA_0x00DC_DBQueryMetaReplyMoreInfo_def
      ICQ_0x07DA_0x00EB_DBQueryMetaReplyExtEmailInfo_def
      ICQ_0x07DA_0x00D2_DBQueryMetaReplyWorkInfo_def
      ICQ_0x07DA_0x00F0_DBQueryMetaReplyInterests_def
      ICQ_0x07DA_0x00E6_DBQueryMetaReplyNotes_def
      ICQ_0x07DA_0x00FA_DBQueryMetaReplyAffiliations_def
      ICQ_0x07DA_0x00C8_DBQueryMetaReplyBasicInfo_def ICQUserSearchRecord_type_def
      ICQ_0x07DA_0x01A4_DBQueryMetaReplyUserFound_def
      ICQ_0x07DA_0x01AE_DBQueryMetaReplyLastUserFound_def
      ICQ_0x07DA_0x0104_DBQueryMetaReplyShortInfo_def ICQ_0x0041_DBQueryOfflineMsgReply_def
      ICQ_0x0042_DBQueryOfflineMsgReplyLast_def)

lemma struct_messages_ICQ_DB: "list_all is_struct messages_ICQ_DB"
  by (simp add: messages_ICQ_DB_def block_types
      ICQ_0x07D0_0x04BA_DBQueryMetaReqShortInfo_def ICQ_0x07D0_0x0898_DBQueryMetaReqXMLReq_def
      ICQ_0x07D0_0x0424_DBQueryMetaReqSetPermissions_def
      ICQ_0x07D0_0x0654_DBQueryMetaReqSetICQPhone_def
      ICQ_0x07D0_0x051F_DBQueryMetaReqSearchByUIN_def
      ICQ_0x07D0_0x0569_DBQueryMetaReqSearchByUIN2_def
      ICQ_0x07D0_0x0529_DBQueryMetaReqSearchByEmail_def
      ICQ_0x07D0_0x0573_DBQueryMetaReqSearchByEmail3_def
      ICQ_0x07D0_0x0515_DBQueryMetaReqSearchByDetails_def
      ICQ_0x07D0_0x0533_DBQueryMetaReqSearchWhitePages_def
      ICQ_0x07D0_0x055F_DBQueryMetaReqSearchWhitePages2_def
      ICQ_0x07D0_0x0C3A_DBQueryMetaReqSetFullInfo_def
      ICQ_0x07D0_0x03FD_DBQueryMetaReqSetMoreInfo_def
      ICQ_0x07D0_0x03F3_DBQueryMetaReqSetWorkInfo_def
      ICQ_0x07D0_0x040B_DBQueryMetaReqSetEmails_def
      ICQ_0x07D0_0x0406_DBQueryMetaReqSetNotes_def
      ICQ_0x07D0_0x0410_DBQueryMetaReqSetInterests_def
      ICQ_0x07D0_0x041A_DBQueryMetaReqSetAffiliations_def
      ICQ_0x07D0_0x03EA_DBQueryMetaReqSetBasicInfo_def ICQMetadata_type_def
      ICQ_0x07DA_0x010E_DBQueryMetaReplyHomePageCat_def
      ICQ_0x07DA_0x08A2_DBQueryMetaReplyXMLData_def
      ICQ_0x07DA_0x00DC_DBQueryMetaReplyMoreInfo_def
      ICQ_0x07DA_0x00EB_DBQueryMetaReplyExtEmailInfo_def
      ICQ_0x07DA_0x00D2_DBQueryMetaReplyWorkInfo_def
      ICQ_0x07DA_0x00F0_DBQueryMetaReplyInterests_def
      ICQ_0x07DA_0x00E6_DBQueryMetaReplyNotes_def
      ICQ_0x07DA_0x00FA_DBQueryMetaReplyAffiliations_def
      ICQ_0x07DA_0x00C8_DBQueryMetaReplyBasicInfo_def ICQUserSearchRecord_type_def
      ICQ_0x07DA_0x01A4_DBQueryMetaReplyUserFound_def
      ICQ_0x07DA_0x01AE_DBQueryMetaReplyLastUserFound_def
      ICQ_0x07DA_0x0104_DBQueryMetaReplyShortInfo_def ICQ_0x0041_DBQueryOfflineMsgReply_def
      ICQ_0x0042_DBQueryOfflineMsgReplyLast_def)

lemma codable_messages_17: "list_all (\<lambda>t. codable t noTag) messages_17"
  by (simp add: messages_17_def block_types parse_tags
      SNAC_0x17_0x02_BUCPLoginRequest_def SNAC_0x17_0x03_BUCPLoginResponse_def
      SNAC_0x17_0x06_BUCPChallengeRequest_def SNAC_0x17_0x07_BUCPChallengeResponse_def)

lemma noQuirk_messages_17: "list_all noQuirk messages_17"
  by (simp add: messages_17_def block_types parse_tags
      SNAC_0x17_0x02_BUCPLoginRequest_def SNAC_0x17_0x03_BUCPLoginResponse_def
      SNAC_0x17_0x06_BUCPChallengeRequest_def SNAC_0x17_0x07_BUCPChallengeResponse_def)

lemma struct_messages_17: "list_all is_struct messages_17"
  by (simp add: messages_17_def block_types
      SNAC_0x17_0x02_BUCPLoginRequest_def SNAC_0x17_0x03_BUCPLoginResponse_def
      SNAC_0x17_0x06_BUCPChallengeRequest_def SNAC_0x17_0x07_BUCPChallengeResponse_def)

lemma codable_messages_050C: "list_all (\<lambda>t. codable t noTag) messages_050C"
  by (simp add: messages_050C_def block_types parse_tags
      SNAC_0x050C_0x0002_KerberosLoginRequest_def KerberosTicket_type_def
      SNAC_0x050C_0x0003_KerberosLoginSuccessResponse_def
      SNAC_0x050C_0x0004_KerberosLoginErrResponse_def)

lemma noQuirk_messages_050C: "list_all noQuirk messages_050C"
  by (simp add: messages_050C_def block_types parse_tags
      SNAC_0x050C_0x0002_KerberosLoginRequest_def KerberosTicket_type_def
      SNAC_0x050C_0x0003_KerberosLoginSuccessResponse_def
      SNAC_0x050C_0x0004_KerberosLoginErrResponse_def)

lemma struct_messages_050C: "list_all is_struct messages_050C"
  by (simp add: messages_050C_def block_types
      SNAC_0x050C_0x0002_KerberosLoginRequest_def KerberosTicket_type_def
      SNAC_0x050C_0x0003_KerberosLoginSuccessResponse_def
      SNAC_0x050C_0x0004_KerberosLoginErrResponse_def)

lemma codable_messages_BE00: "list_all (\<lambda>t. codable t noTag) messages_BE00"
  by (simp add: messages_BE00_def block_types parse_tags
      SNAC_0xBE00_0x0002_BENCOKeyDirPublishRequest_def
      SNAC_0xBE00_0x0003_BENCOKeyDirPublishReply_def
      SNAC_0xBE00_0x0004_BENCOKeyDirQueryRequest_def
      SNAC_0xBE00_0x0005_BENCOKeyDirQueryReply_def
      SNAC_0xBE00_0x0006_BENCOKeyDirPutBackupRequest_def
      SNAC_0xBE00_0x0007_BENCOKeyDirPutBackupReply_def
      SNAC_0xBE00_0x0008_BENCOKeyDirGetBackupRequest_def
      SNAC_0xBE00_0x0009_BENCOKeyDirGetBackupReply_def
      SNAC_0xBE00_0x000A_BENCOKeyDirAttestChallenge_def BENCOKey_type_def
      SNAC_0xBE00_0x000B_BENCOKeyDirAttestResponse_def
      SNAC_0xBE00_0x000C_BENCOKeyDirAttestReply_def)

lemma noQuirk_messages_BE00: "list_all noQuirk messages_BE00"
  by (simp add: messages_BE00_def block_types parse_tags
      SNAC_0xBE00_0x0002_BENCOKeyDirPublishRequest_def
      SNAC_0xBE00_0x0003_BENCOKeyDirPublishReply_def
      SNAC_0xBE00_0x0004_BENCOKeyDirQueryRequest_def
      SNAC_0xBE00_0x0005_BENCOKeyDirQueryReply_def
      SNAC_0xBE00_0x0006_BENCOKeyDirPutBackupRequest_def
      SNAC_0xBE00_0x0007_BENCOKeyDirPutBackupReply_def
      SNAC_0xBE00_0x0008_BENCOKeyDirGetBackupRequest_def
      SNAC_0xBE00_0x0009_BENCOKeyDirGetBackupReply_def
      SNAC_0xBE00_0x000A_BENCOKeyDirAttestChallenge_def BENCOKey_type_def
      SNAC_0xBE00_0x000B_BENCOKeyDirAttestResponse_def
      SNAC_0xBE00_0x000C_BENCOKeyDirAttestReply_def)

lemma struct_messages_BE00: "list_all is_struct messages_BE00"
  by (simp add: messages_BE00_def block_types
      SNAC_0xBE00_0x0002_BENCOKeyDirPublishRequest_def
      SNAC_0xBE00_0x0003_BENCOKeyDirPublishReply_def
      SNAC_0xBE00_0x0004_BENCOKeyDirQueryRequest_def
      SNAC_0xBE00_0x0005_BENCOKeyDirQueryReply_def
      SNAC_0xBE00_0x0006_BENCOKeyDirPutBackupRequest_def
      SNAC_0xBE00_0x0007_BENCOKeyDirPutBackupReply_def
      SNAC_0xBE00_0x0008_BENCOKeyDirGetBackupRequest_def
      SNAC_0xBE00_0x0009_BENCOKeyDirGetBackupReply_def
      SNAC_0xBE00_0x000A_BENCOKeyDirAttestChallenge_def BENCOKey_type_def
      SNAC_0xBE00_0x000B_BENCOKeyDirAttestResponse_def
      SNAC_0xBE00_0x000C_BENCOKeyDirAttestReply_def)

lemmas codable_messages =
  codable_messages_shared
  codable_messages_01
  codable_messages_02
  codable_messages_03
  codable_messages_04
  codable_messages_07
  codable_messages_09
  codable_messages_0A
  codable_messages_0B
  codable_messages_0D
  codable_messages_0E
  codable_messages_0F
  codable_messages_10
  codable_messages_13
  codable_messages_15
  codable_messages_ICQ_DB
  codable_messages_17
  codable_messages_050C
  codable_messages_BE00

lemmas noQuirk_messages =
  noQuirk_messages_shared
  noQuirk_messages_01
  noQuirk_messages_02
  noQuirk_messages_03
  noQuirk_messages_04
  noQuirk_messages_07
  noQuirk_messages_09
  noQuirk_messages_0A
  noQuirk_messages_0B
  noQuirk_messages_0D
  noQuirk_messages_0E
  noQuirk_messages_0F
  noQuirk_messages_10
  noQuirk_messages_13
  noQuirk_messages_15
  noQuirk_messages_ICQ_DB
  noQuirk_messages_17
  noQuirk_messages_050C
  noQuirk_messages_BE00

lemmas struct_messages =
  struct_messages_shared
  struct_messages_01
  struct_messages_02
  struct_messages_03
  struct_messages_04
  struct_messages_07
  struct_messages_09
  struct_messages_0A
  struct_messages_0B
  struct_messages_0D
  struct_messages_0E
  struct_messages_0F
  struct_messages_10
  struct_messages_13
  struct_messages_15
  struct_messages_ICQ_DB
  struct_messages_17
  struct_messages_050C
  struct_messages_BE00

end
