(* ===== verification/Wire_Catalogue.thy ===== *)
theory Wire_Catalogue
  imports Wire_Snacs
begin

text \<open>
  What the codec guarantees for the messages of the catalogue: every one of them decodes hostile
  bytes without a panic and decodes what it encodes; what the decoder does with a payload that
  stops inside a TLV; and how the client quirks relate to the plain decoder.
\<close>

section \<open>All messages\<close>

lemma catalogue_codable: "t \<in> set messageCatalogue \<Longrightarrow> codable t noTag"
  using codable_messages by (auto simp: messageCatalogue_def list_all_iff)

lemma catalogue_struct: "t \<in> set messageCatalogue \<Longrightarrow> is_struct t"
  using struct_messages by (auto simp: messageCatalogue_def list_all_iff)

lemma struct_not_ptr: "is_struct t \<Longrightarrow> \<not> is_ptr t"
  by (cases t) auto

lemma catalogue_not_ptr: "t \<in> set messageCatalogue \<Longrightarrow> \<not> is_ptr t"
  by (simp add: catalogue_struct struct_not_ptr)

lemma catalogue_codec:
  assumes "t \<in> set messageCatalogue" and "noQuirk t" and "fits t noTag order v"
  shows "\<exists>bs. marshalTop order (Some (t, v)) = Inr bs \<and>
    unmarshalTop order t bs = (Inr v, []) \<and>
    (selfDelim t noTag \<longrightarrow> (\<forall>r. unmarshalTop order t (bs @ r) = (Inr v, r)))"
proof -
  have np: "\<not> is_ptr t" using assms(1) by (rule catalogue_not_ptr)
  with roundtrips_main(1) [OF catalogue_codable [OF assms(1)] assms(2,3)]
  have rt: "roundtrips t noTag order v" by simp
  show ?thesis
    using roundtrips_encOf [OF rt] roundtrips_encOf(3) [OF rt, of "[]"] np by (simp add: top_of_plain)
qed

text \<open>C10: Every message of \<open>messageCatalogue\<close> whose tags name no client quirk decodes what it encodes, in
  either byte order. The catalogue holds every message of \<open>Wire_Snacs\<close> but two: the reply with the rate
  parameters, \<open>SNAC_0x01_0x07_OServiceRateParamsReply\<close>, which does not decode as it was encoded
  (\<open>rate_params_reply_ambiguous\<close>), and \<open>ICQMessageReplyEnvelope\<close>, whose body has no fixed type. For a value whose strings, slices and structs fit their length prefixes the
  encoder succeeds, and the decoder run on the result answers the value with nothing left over;
  behind a message that carries its own end it leaves the following bytes unread.\<close>
theorem catalogue_roundtrip:
  assumes "t \<in> set messageCatalogue" and "noQuirk t" and "fits t noTag order v"
  shows "\<exists>bs. marshalTop order (Some (t, v)) = Inr bs \<and>
    unmarshalTop order t bs = (Inr v, []) \<and>
    (selfDelim t noTag \<longrightarrow> (\<forall>r. unmarshalTop order t (bs @ r) = (Inr v, r)))"
  using catalogue_codec [OF assms] .

lemma catalogue_roundtrip_witness:
  "\<exists>bs. marshalTop BigEndian (Some (SNACFrame_type, VStruct [VU16 1, VU16 2, VU16 0, VU32 7])) = Inr bs \<and>
    (\<forall>r. unmarshalTop BigEndian SNACFrame_type (bs @ r)
       = (Inr (VStruct [VU16 1, VU16 2, VU16 0, VU32 7]), r))"
proof -
  have "SNACFrame_type \<in> set messageCatalogue"
    by (simp add: messageCatalogue_def messages_shared_def)
  moreover have "noQuirk SNACFrame_type" "selfDelim SNACFrame_type noTag"
    "fits SNACFrame_type noTag BigEndian (VStruct [VU16 1, VU16 2, VU16 0, VU32 7])"
    by (simp_all add: SNACFrame_type_def)
  ultimately show ?thesis using catalogue_roundtrip by blast
qed

text \<open>C11: Decoding never panics and never loops, whatever bytes a client sends: on every message of
  \<open>messageCatalogue\<close>, so not for the rate parameter reply and the ICQ reply envelope, which only the server writes,
  the decoder either answers a value of the shape of the type and a rest that is not
  longer than the input, or fails with \<open>io.EOF\<close> or \<open>io.ErrUnexpectedEOF\<close> and no other error.\<close>
theorem catalogue_decode_safe:
  assumes "t \<in> set messageCatalogue"
  shows "case unmarshalTop order t bs of
      (Inl e, r) \<Rightarrow> (e = EOF \<or> e = UnexpectedEOF) \<and> length r \<le> length bs
    | (Inr v, r) \<Rightarrow> shape t v \<and> length r \<le> length bs"
proof -
  have np: "\<not> is_ptr t" using assms by (rule catalogue_not_ptr)
  have "validTag noTag" by (simp add: validTag_def)
  then have g: "goodReader (unmarshalTop order t) (shape t) (if starts t noTag then 1 else 0)"
    using decode_good(1) [OF catalogue_codable [OF assms], of order "[]"] np
    by (simp add: top_of_plain switchType_plain)
  show ?thesis
    using goodReaderD_Inr [OF g, of bs] goodReaderD_Inl [OF g, of bs]
    by (auto simp: readError_def split: prod.splits sum.splits)
qed

lemma catalogue_decode_safe_witness:
  "case unmarshalTop BigEndian FLAPFrame_type [0x2A, 2, 0] of
      (Inl e, r) \<Rightarrow> (e = EOF \<or> e = UnexpectedEOF) \<and> length r \<le> length [0x2A, 2, 0 :: byte]
    | (Inr v, r) \<Rightarrow> shape FLAPFrame_type v \<and> length r \<le> length [0x2A, 2, 0 :: byte]"
  by (rule catalogue_decode_safe) (simp add: messageCatalogue_def messages_shared_def)

section \<open>What is outside the catalogue\<close>

lemma list_of_two: "length xs = 2 \<Longrightarrow> \<exists>a b. xs = [a, b]"
  by (cases xs; cases "tl xs") auto

lemma list_of_four: "length xs = 4 \<Longrightarrow> \<exists>a b c d. xs = [a, b, c, d]"
  using list_of_two [of "drop 2 xs"] list_of_two [of "take 2 xs"]
  by (metis append_Cons append_Nil append_take_drop_id diff_add_inverse length_drop length_take
      min.absorb2 numeral_Bit0 le_add1)

text \<open>The rate parameters reply does not decode what it encodes: its rate classes end in an
  optional struct, which swallows the head of the next class. Two classes without the optional
  part are encoded without an error, and decoding the result fails.\<close>
theorem rate_params_reply_ambiguous:
  "\<exists>bs. marshalTop BigEndian (Some (SNAC_0x01_0x07_OServiceRateParamsReply,
      VStruct [VSlice (replicate 2 (VStruct ([VU16 w] @ replicate 7 (VU32 x) @ [VPtr None]))), VSlice []])) = Inr bs \<and>
    unmarshalTop BigEndian SNAC_0x01_0x07_OServiceRateParamsReply bs = (Inl UnexpectedEOF, [])"
proof -
  obtain a1 a2 where w: "putUint BigEndian 2 (unat w) = [a1, a2]"
    using list_of_two [OF length_putUint] by blast
  obtain b1 b2 b3 b4 where x: "putUint BigEndian 4 (unat x) = [b1, b2, b3, b4]"
    using list_of_four [OF length_putUint] by blast
  have n: "putUint BigEndian 2 (Suc (Suc 0)) = [0, 2]" "getUint BigEndian [0, 2] = 2"
    by code_simp+
  have r: "replicate 7 y = [y, y, y, y, y, y, y]" "replicate 2 z = [z, z]" for y :: 'y and z :: 'z
    by (simp_all add: numeral_eq_Suc)
  have c: "readCount 2 rd = rbind rd (\<lambda>v. rbind (rbind rd (\<lambda>v. rret [v])) (\<lambda>vs. rret (v # vs)))" for rd
    by (simp add: numeral_2_eq_2 rbind_def rret_def split: prod.splits sum.splits)
  let ?c = "[a1, a2] @ concat (replicate 7 [b1, b2, b3, b4])"
  have "marshalTop BigEndian (Some (SNAC_0x01_0x07_OServiceRateParamsReply,
      VStruct [VSlice (replicate 2 (VStruct ([VU16 w] @ replicate 7 (VU32 x) @ [VPtr None]))), VSlice []]))
      = Inr ([0, 2] @ ?c @ ?c)"
    by (simp add: SNAC_0x01_0x07_OServiceRateParamsReply_def RateParamsSNAC_type_def block_defs parse_tags
        w x n r)
  moreover have "unmarshalTop BigEndian SNAC_0x01_0x07_OServiceRateParamsReply ([0, 2] @ ?c @ ?c)
      = (Inl UnexpectedEOF, [])"
    by (simp add: SNAC_0x01_0x07_OServiceRateParamsReply_def RateParamsSNAC_type_def top_of_plain
        parse_tags n c r unmarshalStruct_def unmarshalTagged_def Let_def
        unmarshalSlice_def unmarshalUnsignedInt_def fieldPointerCheck_def rbind_def rret_def
        readUint_def readFull_def)
  ultimately show ?thesis by blast
qed

section \<open>Truncated payloads\<close>

lemma TLV_reader:
  "unmarshalTagged (unmarshal_switch TLV_type order) TLV_type None [] =
     unmarshal_switch TLV_type order noTag []"
  by (simp add: unmarshalTagged_None is_struct_TLV)

lemma readBuffered_bytes:
  "readBuffered (unmarshal_switch TU8 order noTag []) b = Inr (map VU8 b)"
proof -
  have "element_codec (fits TU8 noTag order) (encOf TU8 order noTag)
      (unmarshalTagged (unmarshal_switch TU8 order) TU8 None [])"
    using roundtrips_main(1) [of TU8] by (intro element_codecI) auto
  then have "readBuffered (unmarshalTagged (unmarshal_switch TU8 order) TU8 None [])
      (concat (map (encOf TU8 order noTag) (map VU8 b))) = Inr (map VU8 b)"
    by (rule element_codec.readBuffered_enc) auto
  then show ?thesis by (simp only: encOf_bytes) (simp add: unmarshalTagged_None del: unmarshal_switch.simps)
qed

lemma TLV_plain_reader:
  "unmarshal_switch TLV_type order noTag [] =
     rbind (readUint order 2) (\<lambda>tag. rbind (readUint order 2) (\<lambda>n.
       rbind (readFull n) (\<lambda>buf. rret (tlvValue tag buf))))"
proof -
  have "unmarshal_switch (TSlice TU8) order (noTag\<lparr>hasLenPrefix := True, lenPrefix := KUint16\<rparr>) [] =
      rbind (readUint order 2) (\<lambda>n. rbind (readFull n) (\<lambda>b. rret (VSlice (map VU8 b))))"
    by (simp add: unmarshalSlice_def unmarshalUnsignedInt_def unmarshalTagged_None readBuffered_bytes
        rret_def del: unmarshal_switch.simps(1))
  then show ?thesis
    by (intro ext) (simp add: TLV_type_def unmarshalStruct_def unmarshalTagged_plain
      parse_prefix16 fieldPointerCheck_def tlvValue_def rbind_def rret_def
      del: unmarshal_switch.simps(6) split: prod.splits sum.splits)
qed

text \<open>A rest block cut off behind the tag of a TLV is accepted: the dangling tag is dropped in
  silence, because the missing length reads as the end of the list. A cut inside the tag is an
  error.\<close>
theorem tlv_truncation_at_boundary:
  assumes "list_all TLV_ok s"
  shows "unmarshalTop order TLVRestBlock_type (concat (map (TLV_enc order) s) @ putUint order 2 tag)
      = (Inr (TLVList_val s), []) \<and>
    unmarshalTop order TLVRestBlock_type (concat (map (TLV_enc order) s) @ [b]) = (Inl UnexpectedEOF, [])"
proof -
  let ?rd = "unmarshalTagged (unmarshal_switch TLV_type order) TLV_type None []"
  have "length (putUint order 2 tag) = 2" by simp
  then have cut: "?rd (putUint order 2 tag) = (Inl EOF, [])" "?rd [b] = (Inl UnexpectedEOF, [])"
    by (simp_all only: TLV_reader TLV_plain_reader)
      (auto simp: rbind_def readUint_def readFull_def rret_def)
  have ok: "\<forall>v\<in>set (map TLV_val s). fits TLV_type noTag order v"
    and enc: "map (encOf TLV_type order noTag) (map TLV_val s) = map (TLV_enc order) s"
    using assms by (auto simp: list_all_iff fits_TLV_val encOf_TLV_val)
  have "readUntilEOF ?rd (concat (map (TLV_enc order) s) @ putUint order 2 tag) = (Inr (map TLV_val s), [])"
    "readUntilEOF ?rd (concat (map (TLV_enc order) s) @ [b]) = (Inl UnexpectedEOF, [])"
    using tlv_elements.readUntilEOF_tail [OF ok cut(1)] tlv_elements.readUntilEOF_tail [OF ok cut(2)]
    by (simp_all only: enc) simp_all
  then show ?thesis by (simp add: TLVRestBlock_type_def block_defs)
qed

lemma tlv_truncation_at_boundary_witness:
  "unmarshalTop BigEndian TLVRestBlock_type
     (concat (map (TLV_enc BigEndian) [\<lparr>Tag = 1, Value = [7]\<rparr>]) @ putUint BigEndian 2 5)
     = (Inr (TLVList_val [\<lparr>Tag = 1, Value = [7]\<rparr>]), [])"
  using tlv_truncation_at_boundary [of "[\<lparr>Tag = 1, Value = [7]\<rparr>]" BigEndian 5] by (simp add: TLV_ok_def)

section \<open>Client quirks\<close>

lemma rbind_eq_Inr:
  "rbind m f bs = (Inr v, r) \<longleftrightarrow> (\<exists>x b. m bs = (Inr x, b) \<and> f x b = (Inr v, r))"
  by (simp add: rbind_def split: prod.splits sum.splits)

lemma readUint_eq_Inr:
  "readUint order (Suc k) bs = (Inr n, r) \<Longrightarrow> n = getUint order (take (Suc k) bs) \<and> r = drop (Suc k) bs"
  by (auto simp: readUint_def rbind_eq_Inr rret_def readFull_def split: if_splits)

text \<open>The quirk readers only differ from the plain TLV decoder where the client is wrong: what the
  plain decoder accepts, the Jimm reader decodes to the same TLV, and the ICQ 2003b reader does
  unless it is an e-mail TLV of length three.\<close>
theorem quirk_readers_extend_plain:
  assumes "unmarshalTop order TLV_type bs = (Inr v, r)"
  shows "unmarshalTLVJimmSetInfo order bs = (Inr v, r) \<and>
    (\<not> (getUint order (take 2 bs) = ICQTLVTagsEmail \<and> getUint order (take 2 (drop 2 bs)) = 3) \<longrightarrow>
       unmarshalTLVICQ2003bSetFullInfo order bs = (Inr v, r)) \<and>
    (getUint order (take 2 bs) \<noteq> ICQTLVTagsUIN \<longrightarrow> unmarshalTLVQIP2005SearchByUIN2 order bs = (Inr v, r))"
proof -
  obtain tag n buf a b where r: "readUint order 2 bs = (Inr tag, a)" "readUint order 2 a = (Inr n, b)"
    "readFull n b = (Inr buf, r)" "v = tlvValue tag buf"
    using assms by (auto simp: top_of_plain is_struct_TLV TLV_plain_reader rbind_eq_Inr rret_def)
  have "tag = getUint order (take 2 bs)" "n = getUint order (take 2 (drop 2 bs))"
    using readUint_eq_Inr [of order 1 bs] readUint_eq_Inr [of order 1 a] r(1,2)
    by (simp_all add: numeral_2_eq_2)
  with r show ?thesis
    by (simp add: unmarshalTLVJimmSetInfo_def unmarshalTLVICQ2003bSetFullInfo_def
        unmarshalTLVQIP2005SearchByUIN2_def rbind_def rret_def Let_def)
qed

lemma quirk_readers_extend_plain_witness:
  "unmarshalTLVJimmSetInfo BigEndian [0, 1, 0, 1, 9, 5] = (Inr (tlvValue 1 [9]), [5])"
proof -
  have "unmarshalTop BigEndian TLV_type [0, 1, 0, 1, 9, 5] = (Inr (tlvValue 1 [9]), [5])"
    by (simp add: top_of_plain is_struct_TLV TLV_plain_reader rbind_def rret_def readUint_def
        readFull_def getUint_def)
  from quirk_readers_extend_plain [OF this] show ?thesis by blast
qed

end
