(* ===== verification/Wire_Frames.thy ===== *)
theory Wire_Frames
  imports Wire_Catalogue
begin

text \<open>
  \<open>wire/frames.go\<close>: the FLAP client. Its state is the sequence counter (32 bits, of which a frame
  carries the low 16), the bytes that have arrived and are not read yet, and the bytes written so
  far; the writer is one that takes every byte. Each operation answers an error or nothing and the
  new state.
\<close>

section \<open>State and operations\<close>

record FlapClient =
  sequence :: u32
  flapReader :: bytes
  flapWriter :: bytes

abbreviation (input) FLAPFrameSignon :: byte where "FLAPFrameSignon \<equiv> 0x01"
abbreviation (input) FLAPFrameData :: byte where "FLAPFrameData \<equiv> 0x02"
abbreviation (input) FLAPFrameError :: byte where "FLAPFrameError \<equiv> 0x03"
abbreviation (input) FLAPFrameSignoff :: byte where "FLAPFrameSignoff \<equiv> 0x04"
abbreviation (input) FLAPFrameKeepAlive :: byte where "FLAPFrameKeepAlive \<equiv> 0x05"

definition NewFlapClient :: "u32 \<Rightarrow> bytes \<Rightarrow> FlapClient" where
  "NewFlapClient startSeq rd = \<lparr>sequence = startSeq, flapReader = rd, flapWriter = []\<rparr>"

definition FLAPFrame_val :: "byte \<Rightarrow> u32 \<Rightarrow> bytes \<Rightarrow> gval" where
  "FLAPFrame_val frameType seq payload =
     VStruct [VU8 42, VU8 frameType, VU16 (ucast seq), bytesVal payload]"

text \<open>The body that all senders of a payload share: marshal the frame, then count it.\<close>

definition writeFrame :: "byte \<Rightarrow> bytes \<Rightarrow> FlapClient \<Rightarrow> gerr option \<times> FlapClient" where
  "writeFrame frameType payload f =
     (case MarshalBE (Some (FLAPFrame_type, FLAPFrame_val frameType (sequence f) payload)) of
        Inl e \<Rightarrow> (Some e, f)
      | Inr bs \<Rightarrow> (None, f\<lparr>flapWriter := flapWriter f @ bs, sequence := sequence f + 1\<rparr>))"

definition SendSignonFrame :: "TLV list \<Rightarrow> FlapClient \<Rightarrow> gerr option \<times> FlapClient" where
  "SendSignonFrame tlvs f =
     (let signonFrame = VStruct [VU32 1, TLVList_val (if 0 < length tlvs then TLVList_AppendList [] tlvs else [])] in
      case MarshalBE (Some (FLAPSignonFrame_type, signonFrame)) of
        Inl e \<Rightarrow> (Some e, f)
      | Inr buf \<Rightarrow> writeFrame FLAPFrameSignon buf f)"

definition flapPayload :: "gval \<Rightarrow> bytes" where
  "flapPayload v = (case v of VStruct [_, _, _, VSlice vs] \<Rightarrow> valBytes vs | _ \<Rightarrow> [])"

definition ReceiveSignonFrame :: "FlapClient \<Rightarrow> (gerr + gval) \<times> FlapClient" where
  "ReceiveSignonFrame f =
     (case UnmarshalBE FLAPFrame_type (flapReader f) of
        (Inl e, rest) \<Rightarrow> (Inl e, f\<lparr>flapReader := rest\<rparr>)
      | (Inr flap, rest) \<Rightarrow>
          (case UnmarshalBE FLAPSignonFrame_type (flapPayload flap) of
             (Inl e, _) \<Rightarrow> (Inl e, f\<lparr>flapReader := rest\<rparr>)
           | (Inr signonFrame, _) \<Rightarrow> (Inr signonFrame, f\<lparr>flapReader := rest\<rparr>)))"

definition ReceiveFLAP :: "FlapClient \<Rightarrow> (gerr + gval) \<times> FlapClient" where
  "ReceiveFLAP f =
     (case UnmarshalBE FLAPFrame_type (flapReader f) of (res, rest) \<Rightarrow> (res, f\<lparr>flapReader := rest\<rparr>))"

text \<open>\<open>OldSignoff\<close> is the one sender that does not count its frame.\<close>

definition OldSignoff :: "FlapClient \<Rightarrow> gerr option \<times> FlapClient" where
  "OldSignoff f =
     (case MarshalBE (Some (FLAPFrameDisconnect_type,
         VStruct [VU8 42, VU8 FLAPFrameSignoff, VU16 (ucast (sequence f))])) of
        Inl e \<Rightarrow> (Some e, f)
      | Inr bs \<Rightarrow> (None, f\<lparr>flapWriter := flapWriter f @ bs\<rparr>))"

definition NewSignoff :: "TLVList \<Rightarrow> FlapClient \<Rightarrow> gerr option \<times> FlapClient" where
  "NewSignoff tlvs f =
     (case MarshalBE (Some (TLVRestBlock_type, TLVList_val tlvs)) of
        Inl e \<Rightarrow> (Some e, f)
      | Inr tlvBuf \<Rightarrow> writeFrame FLAPFrameSignoff tlvBuf f)"

record SNACFrame =
  FoodGroup :: u16
  SubGroup :: u16
  Flags :: u16
  RequestID :: u32

definition SNACFrame_val :: "SNACFrame \<Rightarrow> gval" where
  "SNACFrame_val fr = VStruct [VU16 (FoodGroup fr), VU16 (SubGroup fr), VU16 (Flags fr), VU32 (RequestID fr)]"

definition SendSNAC :: "SNACFrame \<Rightarrow> (gtype \<times> gval) option \<Rightarrow> FlapClient \<Rightarrow> gerr option \<times> FlapClient" where
  "SendSNAC frame body f =
     (case MarshalBE (Some (SNACFrame_type, SNACFrame_val frame)) of
        Inl e \<Rightarrow> (Some e, f)
      | Inr h \<Rightarrow>
          (case MarshalBE body of
             Inl e \<Rightarrow> (Some e, f)
           | Inr b \<Rightarrow> writeFrame FLAPFrameData (h @ b) f))"

definition SendDataFrame :: "bytes \<Rightarrow> FlapClient \<Rightarrow> gerr option \<times> FlapClient" where
  "SendDataFrame payload f = writeFrame FLAPFrameData payload f"

definition SendKeepAliveFrame :: "FlapClient \<Rightarrow> gerr option \<times> FlapClient" where
  "SendKeepAliveFrame f = writeFrame FLAPFrameKeepAlive [] f"

definition ReceiveSNAC :: "gtype \<Rightarrow> FlapClient \<Rightarrow> (gerr + gval \<times> gval) \<times> FlapClient" where
  "ReceiveSNAC bodyType f =
     (case UnmarshalBE FLAPFrame_type (flapReader f) of
        (Inl e, rest) \<Rightarrow> (Inl e, f\<lparr>flapReader := rest\<rparr>)
      | (Inr flap, rest) \<Rightarrow>
          (case UnmarshalBE SNACFrame_type (flapPayload flap) of
             (Inl e, _) \<Rightarrow> (Inl e, f\<lparr>flapReader := rest\<rparr>)
           | (Inr frame, buf) \<Rightarrow>
               (case UnmarshalBE bodyType buf of
                  (Inl e, _) \<Rightarrow> (Inl e, f\<lparr>flapReader := rest\<rparr>)
                | (Inr body, _) \<Rightarrow> (Inr (frame, body), f\<lparr>flapReader := rest\<rparr>))))"

section \<open>Frames through the codec\<close>

definition frameBytes :: "byte \<Rightarrow> u32 \<Rightarrow> bytes \<Rightarrow> bytes" where
  "frameBytes frameType seq payload =
     [42, frameType] @ putUint BigEndian 2 (unat (ucast seq :: u16)) @
     putUint BigEndian 2 (length payload mod 2 ^ 16) @ payload"

lemma writeFrame_eq:
  "writeFrame frameType payload f =
     (None, f\<lparr>flapWriter := flapWriter f @ frameBytes frameType (sequence f) payload, sequence := sequence f + 1\<rparr>)"
proof -
  have "concat (map (binaryWrite BigEndian) (map VU8 payload)) = payload"
    by (induction payload) auto
  then show ?thesis
    by (simp add: writeFrame_def MarshalBE_def top_of_plain FLAPFrame_type_def FLAPFrame_val_def
        bytesVal_def frameBytes_def parse_tags block_defs del: map_map)
qed

lemma flapPayload_FLAPFrame [simp]: "flapPayload (FLAPFrame_val ft seq payload) = payload"
  by (simp add: flapPayload_def FLAPFrame_val_def bytesVal_def valBytes_def comp_def)

lemma in_catalogue:
  "FLAPFrame_type \<in> set messageCatalogue" "SNACFrame_type \<in> set messageCatalogue"
  "FLAPSignonFrame_type \<in> set messageCatalogue"
  by (simp_all add: messageCatalogue_def messages_shared_def)

lemma frame_plain: "\<not> is_ptr FLAPFrame_type" "\<not> is_ptr SNACFrame_type"
  by (simp_all add: FLAPFrame_type_def SNACFrame_type_def)

lemma FLAPFrame_facts:
  "noQuirk FLAPFrame_type" "selfDelim FLAPFrame_type noTag"
  "length payload < 2 ^ 16 \<Longrightarrow> fits FLAPFrame_type noTag order (FLAPFrame_val ft seq payload)"
  by (simp_all add: FLAPFrame_type_def FLAPFrame_val_def bytesVal_def parse_tags list_all_iff lenFits_def
      encOf_bytes del: map_map)

lemma decode_frame:
  assumes "length payload < 2 ^ 16"
  shows "UnmarshalBE FLAPFrame_type (frameBytes ft seq payload @ rest) =
    (Inr (FLAPFrame_val ft seq payload), rest)"
proof -
  from writeFrame_eq [of ft payload "\<lparr>sequence = seq, flapReader = [], flapWriter = []\<rparr>"]
  have "MarshalBE (Some (FLAPFrame_type, FLAPFrame_val ft seq payload)) = Inr (frameBytes ft seq payload)"
    by (simp add: writeFrame_def split: sum.splits)
  with catalogue_codec [OF in_catalogue(1) FLAPFrame_facts(1) FLAPFrame_facts(3) [OF assms],
      of BigEndian ft seq] FLAPFrame_facts(2)
  show ?thesis by (auto simp: MarshalBE_def UnmarshalBE_def)
qed

section \<open>Properties\<close>

fun sendAll :: "bytes list \<Rightarrow> FlapClient \<Rightarrow> FlapClient" where
  "sendAll [] f = f"
| "sendAll (p # ps) f = sendAll ps (snd (SendDataFrame p f))"

fun receiveAll :: "nat \<Rightarrow> FlapClient \<Rightarrow> (gerr + gval) list \<times> FlapClient" where
  "receiveAll 0 f = ([], f)"
| "receiveAll (Suc n) f =
     (let (x, f1) = ReceiveFLAP f; (xs, f2) = receiveAll n f1 in (x # xs, f2))"

fun dataFrames :: "u32 \<Rightarrow> bytes list \<Rightarrow> gval list" where
  "dataFrames seq [] = []"
| "dataFrames seq (p # ps) = FLAPFrame_val FLAPFrameData seq p # dataFrames (seq + 1) ps"

fun dataBytes :: "u32 \<Rightarrow> bytes list \<Rightarrow> bytes" where
  "dataBytes seq [] = []"
| "dataBytes seq (p # ps) = frameBytes FLAPFrameData seq p @ dataBytes (seq + 1) ps"

lemma sendAll_bytes:
  "flapWriter (sendAll ps f) = flapWriter f @ dataBytes (sequence f) ps \<and>
   sequence (sendAll ps f) = sequence f + of_nat (length ps)"
  by (induction ps arbitrary: f) (simp_all add: SendDataFrame_def writeFrame_eq)

lemma receiveAll_frames:
  "\<forall>p\<in>set ps. length p < 2 ^ 16 \<Longrightarrow> flapReader f = dataBytes seq ps @ rest \<Longrightarrow>
     receiveAll (length ps) f = (map Inr (dataFrames seq ps), f\<lparr>flapReader := rest\<rparr>)"
proof (induction ps arbitrary: seq f)
  case (Cons p ps)
  then have "ReceiveFLAP f = (Inr (FLAPFrame_val FLAPFrameData seq p),
      f\<lparr>flapReader := dataBytes (seq + 1) ps @ rest\<rparr>)"
    by (simp add: ReceiveFLAP_def decode_frame)
  with Cons show ?case by simp
qed simp

text \<open>C12: A FLAP connection delivers what was sent, in order, when every payload is shorter than \<open>2 ^ 16\<close> bytes,
  which \<open>SendDataFrame\<close> leaves to its callers (\<open>flap_oversized_payload_desyncs\<close> tells what a longer one does).
  Under this condition the data frames a client writes are read
  back by the peer one by one with their payloads, numbered by consecutive sequence numbers that
  start at the sender's counter and wrap at two bytes, and the bytes behind them stay unread.\<close>
theorem flap_stream_delivers:
  assumes "\<forall>p\<in>set ps. length p < 2 ^ 16" and "flapWriter f = []"
    and "flapReader g = flapWriter (sendAll ps f) @ rest"
  shows "receiveAll (length ps) g = (map Inr (dataFrames (sequence f) ps), g\<lparr>flapReader := rest\<rparr>) \<and>
    sequence (sendAll ps f) = sequence f + of_nat (length ps)"
  using sendAll_bytes [of ps f] receiveAll_frames [OF assms(1), of g "sequence f" rest] assms(2,3)
  by simp

lemma flap_stream_delivers_witness:
  "fst (receiveAll 2 (NewFlapClient 0 (flapWriter (sendAll [[7], [8, 9]] (NewFlapClient 0xFFFF []))))) =
     [Inr (FLAPFrame_val FLAPFrameData 0xFFFF [7]), Inr (FLAPFrame_val FLAPFrameData 0x10000 [8, 9])]"
proof -
  let ?f = "NewFlapClient 0xFFFF []"
  let ?g = "NewFlapClient 0 (flapWriter (sendAll [[7], [8, 9]] ?f))"
  have "receiveAll (length [[7], [8, 9 :: byte]]) ?g =
      (map Inr (dataFrames (sequence ?f) [[7], [8, 9]]), ?g\<lparr>flapReader := []\<rparr>)"
    by (rule conjunct1 [OF flap_stream_delivers]) (simp_all add: NewFlapClient_def)
  then have "fst (receiveAll (length [[7], [8, 9 :: byte]]) ?g) = map Inr (dataFrames (sequence ?f) [[7], [8, 9]])"
    by (simp only: fst_conv)
  moreover have "map Inr (dataFrames (sequence ?f) [[7], [8, 9]]) =
      ([Inr (FLAPFrame_val FLAPFrameData 0xFFFF [7]), Inr (FLAPFrame_val FLAPFrameData 0x10000 [8, 9])]
       :: (gerr + gval) list)"
    by (simp add: NewFlapClient_def)
  ultimately show ?thesis by (simp only: list.size numeral_2_eq_2 One_nat_def add_0 add_Suc plus_1_eq_Suc)
qed

lemma SNACFrame_facts:
  "noQuirk SNACFrame_type" "selfDelim SNACFrame_type noTag"
  "fits SNACFrame_type noTag order (SNACFrame_val frame)"
  by (simp_all add: SNACFrame_type_def SNACFrame_val_def)

text \<open>A SNAC arrives as it was sent. For a body of a catalogue type without client quirks that fits
  its prefixes and a frame within 65535 bytes, \<open>SendSNAC\<close> succeeds and counts one frame, and
  \<open>ReceiveSNAC\<close> at the peer answers the same header and the same body.\<close>
theorem snac_roundtrip:
  assumes "t \<in> set messageCatalogue" and "noQuirk t" and "fits t noTag BigEndian v"
    and "MarshalBE (Some (t, v)) = Inr b" and "length b + 10 < 2 ^ 16"
    and "flapWriter f = []" and "flapReader g = flapWriter (snd (SendSNAC frame (Some (t, v)) f)) @ rest"
  shows "fst (SendSNAC frame (Some (t, v)) f) = None \<and>
    sequence (snd (SendSNAC frame (Some (t, v)) f)) = sequence f + 1 \<and>
    ReceiveSNAC t g = (Inr (SNACFrame_val frame, v), g\<lparr>flapReader := rest\<rparr>)"
proof -
  let ?h = "putUint BigEndian 2 (unat (FoodGroup frame)) @ putUint BigEndian 2 (unat (SubGroup frame)) @
    putUint BigEndian 2 (unat (Flags frame)) @ putUint BigEndian 4 (unat (RequestID frame))"
  have h: "MarshalBE (Some (SNACFrame_type, SNACFrame_val frame)) = Inr ?h"
    by (simp add: MarshalBE_def SNACFrame_type_def SNACFrame_val_def block_defs)
  have dh: "UnmarshalBE SNACFrame_type (?h @ b) = (Inr (SNACFrame_val frame), b)"
    using catalogue_codec [OF in_catalogue(2) SNACFrame_facts(1) SNACFrame_facts(3), of BigEndian frame] h
      SNACFrame_facts(2)
    by (auto simp: MarshalBE_def UnmarshalBE_def simp del: append_assoc)
  have db: "UnmarshalBE t b = (Inr v, [])"
    using catalogue_codec [OF assms(1-3)] assms(4) by (auto simp: MarshalBE_def UnmarshalBE_def)
  have send: "SendSNAC frame (Some (t, v)) f = writeFrame FLAPFrameData (?h @ b) f"
    using h assms(4) by (simp add: SendSNAC_def)
  have len: "length (?h @ b) < 2 ^ 16" using assms(5) by simp
  have "UnmarshalBE FLAPFrame_type (flapReader g) =
      (Inr (FLAPFrame_val FLAPFrameData (sequence f) (?h @ b)), rest)"
    using decode_frame [OF len, of FLAPFrameData "sequence f" rest] assms(6,7)
    by (simp only: send writeFrame_eq) simp
  then have "ReceiveSNAC t g = (Inr (SNACFrame_val frame, v), g\<lparr>flapReader := rest\<rparr>)"
    by (simp only: ReceiveSNAC_def prod.case sum.case flapPayload_FLAPFrame dh db)
  then show ?thesis by (simp add: send writeFrame_eq)
qed

lemma snac_roundtrip_witness:
  "fst (ReceiveSNAC SNACFrame_type (NewFlapClient 0 (flapWriter (snd (SendSNAC
      \<lparr>FoodGroup = 1, SubGroup = 2, Flags = 0, RequestID = 5\<rparr>
      (Some (SNACFrame_type, VStruct [VU16 1, VU16 2, VU16 0, VU32 7])) (NewFlapClient 0 [])))))) =
   Inr (SNACFrame_val \<lparr>FoodGroup = 1, SubGroup = 2, Flags = 0, RequestID = 5\<rparr>,
     VStruct [VU16 1, VU16 2, VU16 0, VU32 7])"
proof -
  let ?v = "VStruct [VU16 1, VU16 2, VU16 0, VU32 7]"
  let ?fr = "\<lparr>FoodGroup = 1, SubGroup = 2, Flags = 0, RequestID = 5\<rparr>"
  let ?g = "NewFlapClient 0 (flapWriter (snd (SendSNAC ?fr (Some (SNACFrame_type, ?v)) (NewFlapClient 0 []))))"
  obtain b where b: "MarshalBE (Some (SNACFrame_type, ?v)) = Inr b" "length b = 10"
    by (simp add: MarshalBE_def SNACFrame_type_def block_defs)
  have "fits SNACFrame_type noTag BigEndian ?v" by (simp add: SNACFrame_type_def)
  then have "ReceiveSNAC SNACFrame_type ?g = (Inr (SNACFrame_val ?fr, ?v), ?g\<lparr>flapReader := []\<rparr>)"
    using snac_roundtrip [OF in_catalogue(2) SNACFrame_facts(1) _ b(1), of "NewFlapClient 0 []" ?g ?fr "[]"] b(2)
    by (simp add: NewFlapClient_def)
  then show ?thesis by simp
qed

text \<open>A payload over 65535 bytes breaks the stream. \<open>SendDataFrame\<close> reports success, but the length
  it writes is the length modulo 65536, so the peer takes the first bytes for the frame and the
  rest of the payload for the header of the next frame; the declared maximum is never checked.\<close>
theorem flap_oversized_payload_desyncs:
  assumes "length payload = 2 ^ 16 + k" and "k < 2 ^ 16" and "flapWriter f = []"
    and "flapReader g = flapWriter (snd (SendDataFrame payload f))"
  shows "fst (SendDataFrame payload f) = None \<and>
    ReceiveFLAP g = (Inr (FLAPFrame_val FLAPFrameData (sequence f) (take k payload)),
      g\<lparr>flapReader := drop k payload\<rparr>)"
proof -
  have mod: "(2 ^ 16 + k) mod 2 ^ 16 = k" using assms(2) by simp
  have "frameBytes FLAPFrameData (sequence f) payload =
      frameBytes FLAPFrameData (sequence f) (take k payload) @ drop k payload"
    using assms(1,2) mod by (simp add: frameBytes_def)
  moreover have "length (take k payload) < 2 ^ 16" using assms(2) by simp
  ultimately show ?thesis
    using assms(3,4) decode_frame [of "take k payload" FLAPFrameData "sequence f" "drop k payload"]
    by (simp add: SendDataFrame_def writeFrame_eq ReceiveFLAP_def)
qed

lemma flap_oversized_payload_desyncs_witness:
  "fst (ReceiveFLAP (NewFlapClient 0
     (flapWriter (snd (SendDataFrame (replicate (2 ^ 16 + 1) 7) (NewFlapClient 3 [])))))) =
   Inr (FLAPFrame_val FLAPFrameData 3 [7])"
  using flap_oversized_payload_desyncs [of "replicate (2 ^ 16 + 1) 7" 1 "NewFlapClient 3 []"
      "NewFlapClient 0 (flapWriter (snd (SendDataFrame (replicate (2 ^ 16 + 1) 7) (NewFlapClient 3 []))))"]
  by (simp only: length_replicate NewFlapClient_def FlapClient.simps) (simp add: min_def)

end
