(* ===== verification/Wire_Codes.thy ===== *)
theory Wire_Codes
  imports BENC_Prelude
begin

text \<open>
  The food group and subgroup codes of \<open>wire/snacs.go\<close> and \<open>wire/benco_keydir.go\<close> that the rate
  limit table and the dispatcher name.
\<close>

abbreviation (input) OService :: u16 where "OService \<equiv> 0x0001"
abbreviation (input) OServiceErr :: u16 where "OServiceErr \<equiv> 0x0001"
abbreviation (input) OServiceClientOnline :: u16 where "OServiceClientOnline \<equiv> 0x0002"
abbreviation (input) OServiceHostOnline :: u16 where "OServiceHostOnline \<equiv> 0x0003"
abbreviation (input) OServiceServiceRequest :: u16 where "OServiceServiceRequest \<equiv> 0x0004"
abbreviation (input) OServiceServiceResponse :: u16 where "OServiceServiceResponse \<equiv> 0x0005"
abbreviation (input) OServiceRateParamsQuery :: u16 where "OServiceRateParamsQuery \<equiv> 0x0006"
abbreviation (input) OServiceRateParamsReply :: u16 where "OServiceRateParamsReply \<equiv> 0x0007"
abbreviation (input) OServiceRateParamsSubAdd :: u16 where "OServiceRateParamsSubAdd \<equiv> 0x0008"
abbreviation (input) OServiceRateDelParamSub :: u16 where "OServiceRateDelParamSub \<equiv> 0x0009"
abbreviation (input) OServiceRateParamChange :: u16 where "OServiceRateParamChange \<equiv> 0x000A"
abbreviation (input) OServicePauseReq :: u16 where "OServicePauseReq \<equiv> 0x000B"
abbreviation (input) OServicePauseAck :: u16 where "OServicePauseAck \<equiv> 0x000C"
abbreviation (input) OServiceResume :: u16 where "OServiceResume \<equiv> 0x000D"
abbreviation (input) OServiceUserInfoQuery :: u16 where "OServiceUserInfoQuery \<equiv> 0x000E"
abbreviation (input) OServiceUserInfoUpdate :: u16 where "OServiceUserInfoUpdate \<equiv> 0x000F"
abbreviation (input) OServiceEvilNotification :: u16 where "OServiceEvilNotification \<equiv> 0x0010"
abbreviation (input) OServiceIdleNotification :: u16 where "OServiceIdleNotification \<equiv> 0x0011"
abbreviation (input) OServiceMigrateGroups :: u16 where "OServiceMigrateGroups \<equiv> 0x0012"
abbreviation (input) OServiceMotd :: u16 where "OServiceMotd \<equiv> 0x0013"
abbreviation (input) OServiceSetPrivacyFlags :: u16 where "OServiceSetPrivacyFlags \<equiv> 0x0014"
abbreviation (input) OServiceWellKnownUrls :: u16 where "OServiceWellKnownUrls \<equiv> 0x0015"
abbreviation (input) OServiceNoop :: u16 where "OServiceNoop \<equiv> 0x0016"
abbreviation (input) OServiceClientVersions :: u16 where "OServiceClientVersions \<equiv> 0x0017"
abbreviation (input) OServiceHostVersions :: u16 where "OServiceHostVersions \<equiv> 0x0018"
abbreviation (input) OServiceMaxConfigQuery :: u16 where "OServiceMaxConfigQuery \<equiv> 0x0019"
abbreviation (input) OServiceMaxConfigReply :: u16 where "OServiceMaxConfigReply \<equiv> 0x001A"
abbreviation (input) OServiceStoreConfig :: u16 where "OServiceStoreConfig \<equiv> 0x001B"
abbreviation (input) OServiceConfigQuery :: u16 where "OServiceConfigQuery \<equiv> 0x001C"
abbreviation (input) OServiceConfigReply :: u16 where "OServiceConfigReply \<equiv> 0x001D"
abbreviation (input) OServiceSetUserInfoFields :: u16 where "OServiceSetUserInfoFields \<equiv> 0x001E"
abbreviation (input) OServiceProbeReq :: u16 where "OServiceProbeReq \<equiv> 0x001F"
abbreviation (input) OServiceProbeAck :: u16 where "OServiceProbeAck \<equiv> 0x0020"
abbreviation (input) OServiceBartReply :: u16 where "OServiceBartReply \<equiv> 0x0021"
abbreviation (input) OServiceBartQuery2 :: u16 where "OServiceBartQuery2 \<equiv> 0x0022"
abbreviation (input) OServiceBartReply2 :: u16 where "OServiceBartReply2 \<equiv> 0x0023"
abbreviation (input) Locate :: u16 where "Locate \<equiv> 0x0002"
abbreviation (input) LocateErr :: u16 where "LocateErr \<equiv> 0x0001"
abbreviation (input) LocateRightsQuery :: u16 where "LocateRightsQuery \<equiv> 0x0002"
abbreviation (input) LocateRightsReply :: u16 where "LocateRightsReply \<equiv> 0x0003"
abbreviation (input) LocateSetInfo :: u16 where "LocateSetInfo \<equiv> 0x0004"
abbreviation (input) LocateUserInfoQuery :: u16 where "LocateUserInfoQuery \<equiv> 0x0005"
abbreviation (input) LocateUserInfoReply :: u16 where "LocateUserInfoReply \<equiv> 0x0006"
abbreviation (input) LocateWatcherSubRequest :: u16 where "LocateWatcherSubRequest \<equiv> 0x0007"
abbreviation (input) LocateWatcherNotification :: u16 where "LocateWatcherNotification \<equiv> 0x0008"
abbreviation (input) LocateSetDirInfo :: u16 where "LocateSetDirInfo \<equiv> 0x0009"
abbreviation (input) LocateSetDirReply :: u16 where "LocateSetDirReply \<equiv> 0x000A"
abbreviation (input) LocateGetDirInfo :: u16 where "LocateGetDirInfo \<equiv> 0x000B"
abbreviation (input) LocateGetDirReply :: u16 where "LocateGetDirReply \<equiv> 0x000C"
abbreviation (input) LocateGroupCapabilityQuery :: u16 where "LocateGroupCapabilityQuery \<equiv> 0x000D"
abbreviation (input) LocateGroupCapabilityReply :: u16 where "LocateGroupCapabilityReply \<equiv> 0x000E"
abbreviation (input) LocateSetKeywordInfo :: u16 where "LocateSetKeywordInfo \<equiv> 0x000F"
abbreviation (input) LocateSetKeywordReply :: u16 where "LocateSetKeywordReply \<equiv> 0x0010"
abbreviation (input) LocateGetKeywordInfo :: u16 where "LocateGetKeywordInfo \<equiv> 0x0011"
abbreviation (input) LocateGetKeywordReply :: u16 where "LocateGetKeywordReply \<equiv> 0x0012"
abbreviation (input) LocateFindListByEmail :: u16 where "LocateFindListByEmail \<equiv> 0x0013"
abbreviation (input) LocateFindListReply :: u16 where "LocateFindListReply \<equiv> 0x0014"
abbreviation (input) LocateUserInfoQuery2 :: u16 where "LocateUserInfoQuery2 \<equiv> 0x0015"
abbreviation (input) Buddy :: u16 where "Buddy \<equiv> 0x0003"
abbreviation (input) BuddyErr :: u16 where "BuddyErr \<equiv> 0x0001"
abbreviation (input) BuddyRightsQuery :: u16 where "BuddyRightsQuery \<equiv> 0x0002"
abbreviation (input) BuddyRightsReply :: u16 where "BuddyRightsReply \<equiv> 0x0003"
abbreviation (input) BuddyAddBuddies :: u16 where "BuddyAddBuddies \<equiv> 0x0004"
abbreviation (input) BuddyDelBuddies :: u16 where "BuddyDelBuddies \<equiv> 0x0005"
abbreviation (input) BuddyWatcherListQuery :: u16 where "BuddyWatcherListQuery \<equiv> 0x0006"
abbreviation (input) BuddyWatcherListResponse :: u16 where "BuddyWatcherListResponse \<equiv> 0x0007"
abbreviation (input) BuddyWatcherSubRequest :: u16 where "BuddyWatcherSubRequest \<equiv> 0x0008"
abbreviation (input) BuddyWatcherNotification :: u16 where "BuddyWatcherNotification \<equiv> 0x0009"
abbreviation (input) BuddyRejectNotification :: u16 where "BuddyRejectNotification \<equiv> 0x000A"
abbreviation (input) BuddyArrived :: u16 where "BuddyArrived \<equiv> 0x000B"
abbreviation (input) BuddyDeparted :: u16 where "BuddyDeparted \<equiv> 0x000C"
abbreviation (input) BuddyAddTempBuddies :: u16 where "BuddyAddTempBuddies \<equiv> 0x000F"
abbreviation (input) BuddyDelTempBuddies :: u16 where "BuddyDelTempBuddies \<equiv> 0x0010"
abbreviation (input) ICBM :: u16 where "ICBM \<equiv> 0x0004"
abbreviation (input) ICBMErr :: u16 where "ICBMErr \<equiv> 0x0001"
abbreviation (input) ICBMAddParameters :: u16 where "ICBMAddParameters \<equiv> 0x0002"
abbreviation (input) ICBMDelParameters :: u16 where "ICBMDelParameters \<equiv> 0x0003"
abbreviation (input) ICBMParameterQuery :: u16 where "ICBMParameterQuery \<equiv> 0x0004"
abbreviation (input) ICBMParameterReply :: u16 where "ICBMParameterReply \<equiv> 0x0005"
abbreviation (input) ICBMChannelMsgToHost :: u16 where "ICBMChannelMsgToHost \<equiv> 0x0006"
abbreviation (input) ICBMChannelMsgToClient :: u16 where "ICBMChannelMsgToClient \<equiv> 0x0007"
abbreviation (input) ICBMEvilRequest :: u16 where "ICBMEvilRequest \<equiv> 0x0008"
abbreviation (input) ICBMEvilReply :: u16 where "ICBMEvilReply \<equiv> 0x0009"
abbreviation (input) ICBMMissedCalls :: u16 where "ICBMMissedCalls \<equiv> 0x000A"
abbreviation (input) ICBMClientErr :: u16 where "ICBMClientErr \<equiv> 0x000B"
abbreviation (input) ICBMHostAck :: u16 where "ICBMHostAck \<equiv> 0x000C"
abbreviation (input) ICBMSinStored :: u16 where "ICBMSinStored \<equiv> 0x000D"
abbreviation (input) ICBMSinListQuery :: u16 where "ICBMSinListQuery \<equiv> 0x000E"
abbreviation (input) ICBMSinListReply :: u16 where "ICBMSinListReply \<equiv> 0x000F"
abbreviation (input) ICBMOfflineRetrieve :: u16 where "ICBMOfflineRetrieve \<equiv> 0x0010"
abbreviation (input) ICBMSinDelete :: u16 where "ICBMSinDelete \<equiv> 0x0011"
abbreviation (input) ICBMNotifyRequest :: u16 where "ICBMNotifyRequest \<equiv> 0x0012"
abbreviation (input) ICBMNotifyReply :: u16 where "ICBMNotifyReply \<equiv> 0x0013"
abbreviation (input) ICBMClientEvent :: u16 where "ICBMClientEvent \<equiv> 0x0014"
abbreviation (input) Advert :: u16 where "Advert \<equiv> 0x0005"
abbreviation (input) AdvertErr :: u16 where "AdvertErr \<equiv> 0x0001"
abbreviation (input) AdvertAdsQuery :: u16 where "AdvertAdsQuery \<equiv> 0x0002"
abbreviation (input) AdvertAdsReply :: u16 where "AdvertAdsReply \<equiv> 0x0003"
abbreviation (input) Invite :: u16 where "Invite \<equiv> 0x0006"
abbreviation (input) InviteErr :: u16 where "InviteErr \<equiv> 0x0001"
abbreviation (input) InviteRequestQuery :: u16 where "InviteRequestQuery \<equiv> 0x0002"
abbreviation (input) InviteRequestReply :: u16 where "InviteRequestReply \<equiv> 0x0003"
abbreviation (input) Admin :: u16 where "Admin \<equiv> 0x0007"
abbreviation (input) AdminErr :: u16 where "AdminErr \<equiv> 0x0001"
abbreviation (input) AdminInfoQuery :: u16 where "AdminInfoQuery \<equiv> 0x0002"
abbreviation (input) AdminInfoReply :: u16 where "AdminInfoReply \<equiv> 0x0003"
abbreviation (input) AdminInfoChangeRequest :: u16 where "AdminInfoChangeRequest \<equiv> 0x0004"
abbreviation (input) AdminInfoChangeReply :: u16 where "AdminInfoChangeReply \<equiv> 0x0005"
abbreviation (input) AdminAcctConfirmRequest :: u16 where "AdminAcctConfirmRequest \<equiv> 0x0006"
abbreviation (input) AdminAcctConfirmReply :: u16 where "AdminAcctConfirmReply \<equiv> 0x0007"
abbreviation (input) AdminAcctDeleteRequest :: u16 where "AdminAcctDeleteRequest \<equiv> 0x0008"
abbreviation (input) AdminAcctDeleteReply :: u16 where "AdminAcctDeleteReply \<equiv> 0x0009"
abbreviation (input) Popup :: u16 where "Popup \<equiv> 0x0008"
abbreviation (input) PopupErr :: u16 where "PopupErr \<equiv> 0x0001"
abbreviation (input) PopupDisplay :: u16 where "PopupDisplay \<equiv> 0x0002"
abbreviation (input) PermitDeny :: u16 where "PermitDeny \<equiv> 0x0009"
abbreviation (input) PermitDenyErr :: u16 where "PermitDenyErr \<equiv> 0x0001"
abbreviation (input) PermitDenyRightsQuery :: u16 where "PermitDenyRightsQuery \<equiv> 0x0002"
abbreviation (input) PermitDenyRightsReply :: u16 where "PermitDenyRightsReply \<equiv> 0x0003"
abbreviation (input) PermitDenySetGroupPermitMask :: u16 where "PermitDenySetGroupPermitMask \<equiv> 0x0004"
abbreviation (input) PermitDenyAddPermListEntries :: u16 where "PermitDenyAddPermListEntries \<equiv> 0x0005"
abbreviation (input) PermitDenyDelPermListEntries :: u16 where "PermitDenyDelPermListEntries \<equiv> 0x0006"
abbreviation (input) PermitDenyAddDenyListEntries :: u16 where "PermitDenyAddDenyListEntries \<equiv> 0x0007"
abbreviation (input) PermitDenyDelDenyListEntries :: u16 where "PermitDenyDelDenyListEntries \<equiv> 0x0008"
abbreviation (input) PermitDenyBosErr :: u16 where "PermitDenyBosErr \<equiv> 0x0009"
abbreviation (input) PermitDenyAddTempPermitListEntries :: u16 where "PermitDenyAddTempPermitListEntries \<equiv> 0x000A"
abbreviation (input) PermitDenyDelTempPermitListEntries :: u16 where "PermitDenyDelTempPermitListEntries \<equiv> 0x000B"
abbreviation (input) UserLookup :: u16 where "UserLookup \<equiv> 0x000A"
abbreviation (input) UserLookupErr :: u16 where "UserLookupErr \<equiv> 0x0001"
abbreviation (input) UserLookupFindByEmail :: u16 where "UserLookupFindByEmail \<equiv> 0x0002"
abbreviation (input) UserLookupFindReply :: u16 where "UserLookupFindReply \<equiv> 0x0003"
abbreviation (input) Stats :: u16 where "Stats \<equiv> 0x000B"
abbreviation (input) StatsErr :: u16 where "StatsErr \<equiv> 0x0001"
abbreviation (input) StatsSetMinReportInterval :: u16 where "StatsSetMinReportInterval \<equiv> 0x0002"
abbreviation (input) StatsReportEvents :: u16 where "StatsReportEvents \<equiv> 0x0003"
abbreviation (input) StatsReportAck :: u16 where "StatsReportAck \<equiv> 0x0004"
abbreviation (input) Translate :: u16 where "Translate \<equiv> 0x000C"
abbreviation (input) TranslateErr :: u16 where "TranslateErr \<equiv> 0x0001"
abbreviation (input) TranslateRequest :: u16 where "TranslateRequest \<equiv> 0x0002"
abbreviation (input) TranslateReply :: u16 where "TranslateReply \<equiv> 0x0003"
abbreviation (input) ChatNav :: u16 where "ChatNav \<equiv> 0x000D"
abbreviation (input) ChatNavErr :: u16 where "ChatNavErr \<equiv> 0x0001"
abbreviation (input) ChatNavRequestChatRights :: u16 where "ChatNavRequestChatRights \<equiv> 0x0002"
abbreviation (input) ChatNavRequestExchangeInfo :: u16 where "ChatNavRequestExchangeInfo \<equiv> 0x0003"
abbreviation (input) ChatNavRequestRoomInfo :: u16 where "ChatNavRequestRoomInfo \<equiv> 0x0004"
abbreviation (input) ChatNavRequestMoreRoomInfo :: u16 where "ChatNavRequestMoreRoomInfo \<equiv> 0x0005"
abbreviation (input) ChatNavRequestOccupantList :: u16 where "ChatNavRequestOccupantList \<equiv> 0x0006"
abbreviation (input) ChatNavSearchForRoom :: u16 where "ChatNavSearchForRoom \<equiv> 0x0007"
abbreviation (input) ChatNavCreateRoom :: u16 where "ChatNavCreateRoom \<equiv> 0x0008"
abbreviation (input) ChatNavNavInfo :: u16 where "ChatNavNavInfo \<equiv> 0x0009"
abbreviation (input) Chat :: u16 where "Chat \<equiv> 0x000E"
abbreviation (input) ChatErr :: u16 where "ChatErr \<equiv> 0x0001"
abbreviation (input) ChatRoomInfoUpdate :: u16 where "ChatRoomInfoUpdate \<equiv> 0x0002"
abbreviation (input) ChatUsersJoined :: u16 where "ChatUsersJoined \<equiv> 0x0003"
abbreviation (input) ChatUsersLeft :: u16 where "ChatUsersLeft \<equiv> 0x0004"
abbreviation (input) ChatChannelMsgToHost :: u16 where "ChatChannelMsgToHost \<equiv> 0x0005"
abbreviation (input) ChatChannelMsgToClient :: u16 where "ChatChannelMsgToClient \<equiv> 0x0006"
abbreviation (input) ChatEvilRequest :: u16 where "ChatEvilRequest \<equiv> 0x0007"
abbreviation (input) ChatEvilReply :: u16 where "ChatEvilReply \<equiv> 0x0008"
abbreviation (input) ChatClientErr :: u16 where "ChatClientErr \<equiv> 0x0009"
abbreviation (input) ODir :: u16 where "ODir \<equiv> 0x000F"
abbreviation (input) ODirErr :: u16 where "ODirErr \<equiv> 0x0001"
abbreviation (input) ODirInfoQuery :: u16 where "ODirInfoQuery \<equiv> 0x0002"
abbreviation (input) ODirInfoReply :: u16 where "ODirInfoReply \<equiv> 0x0003"
abbreviation (input) ODirKeywordListQuery :: u16 where "ODirKeywordListQuery \<equiv> 0x0004"
abbreviation (input) BART :: u16 where "BART \<equiv> 0x0010"
abbreviation (input) BARTErr :: u16 where "BARTErr \<equiv> 0x0001"
abbreviation (input) BARTUploadQuery :: u16 where "BARTUploadQuery \<equiv> 0x0002"
abbreviation (input) BARTDownloadQuery :: u16 where "BARTDownloadQuery \<equiv> 0x0004"
abbreviation (input) BARTDownload2Query :: u16 where "BARTDownload2Query \<equiv> 0x0006"
abbreviation (input) Feedbag :: u16 where "Feedbag \<equiv> 0x0013"
abbreviation (input) FeedbagErr :: u16 where "FeedbagErr \<equiv> 0x0001"
abbreviation (input) FeedbagRightsQuery :: u16 where "FeedbagRightsQuery \<equiv> 0x0002"
abbreviation (input) FeedbagRightsReply :: u16 where "FeedbagRightsReply \<equiv> 0x0003"
abbreviation (input) FeedbagQuery :: u16 where "FeedbagQuery \<equiv> 0x0004"
abbreviation (input) FeedbagQueryIfModified :: u16 where "FeedbagQueryIfModified \<equiv> 0x0005"
abbreviation (input) FeedbagReply :: u16 where "FeedbagReply \<equiv> 0x0006"
abbreviation (input) FeedbagUse :: u16 where "FeedbagUse \<equiv> 0x0007"
abbreviation (input) FeedbagInsertItem :: u16 where "FeedbagInsertItem \<equiv> 0x0008"
abbreviation (input) FeedbagUpdateItem :: u16 where "FeedbagUpdateItem \<equiv> 0x0009"
abbreviation (input) FeedbagDeleteItem :: u16 where "FeedbagDeleteItem \<equiv> 0x000A"
abbreviation (input) FeedbagInsertClass :: u16 where "FeedbagInsertClass \<equiv> 0x000B"
abbreviation (input) FeedbagUpdateClass :: u16 where "FeedbagUpdateClass \<equiv> 0x000C"
abbreviation (input) FeedbagDeleteClass :: u16 where "FeedbagDeleteClass \<equiv> 0x000D"
abbreviation (input) FeedbagStatus :: u16 where "FeedbagStatus \<equiv> 0x000E"
abbreviation (input) FeedbagReplyNotModified :: u16 where "FeedbagReplyNotModified \<equiv> 0x000F"
abbreviation (input) FeedbagDeleteUser :: u16 where "FeedbagDeleteUser \<equiv> 0x0010"
abbreviation (input) FeedbagStartCluster :: u16 where "FeedbagStartCluster \<equiv> 0x0011"
abbreviation (input) FeedbagEndCluster :: u16 where "FeedbagEndCluster \<equiv> 0x0012"
abbreviation (input) FeedbagAuthorizeBuddy :: u16 where "FeedbagAuthorizeBuddy \<equiv> 0x0013"
abbreviation (input) FeedbagPreAuthorizeBuddy :: u16 where "FeedbagPreAuthorizeBuddy \<equiv> 0x0014"
abbreviation (input) FeedbagPreAuthorizedBuddy :: u16 where "FeedbagPreAuthorizedBuddy \<equiv> 0x0015"
abbreviation (input) FeedbagRemoveMe :: u16 where "FeedbagRemoveMe \<equiv> 0x0016"
abbreviation (input) FeedbagRemoveMe2 :: u16 where "FeedbagRemoveMe2 \<equiv> 0x0017"
abbreviation (input) FeedbagRequestAuthorizeToHost :: u16 where "FeedbagRequestAuthorizeToHost \<equiv> 0x0018"
abbreviation (input) FeedbagRequestAuthorizeToClient :: u16 where "FeedbagRequestAuthorizeToClient \<equiv> 0x0019"
abbreviation (input) FeedbagRespondAuthorizeToHost :: u16 where "FeedbagRespondAuthorizeToHost \<equiv> 0x001A"
abbreviation (input) FeedbagRespondAuthorizeToClient :: u16 where "FeedbagRespondAuthorizeToClient \<equiv> 0x001B"
abbreviation (input) FeedbagBuddyAdded :: u16 where "FeedbagBuddyAdded \<equiv> 0x001C"
abbreviation (input) FeedbagRequestAuthorizeToBadog :: u16 where "FeedbagRequestAuthorizeToBadog \<equiv> 0x001D"
abbreviation (input) FeedbagRespondAuthorizeToBadog :: u16 where "FeedbagRespondAuthorizeToBadog \<equiv> 0x001E"
abbreviation (input) FeedbagBuddyAddedToBadog :: u16 where "FeedbagBuddyAddedToBadog \<equiv> 0x001F"
abbreviation (input) FeedbagTestSnac :: u16 where "FeedbagTestSnac \<equiv> 0x0021"
abbreviation (input) FeedbagForwardMsg :: u16 where "FeedbagForwardMsg \<equiv> 0x0022"
abbreviation (input) FeedbagIsAuthRequiredQuery :: u16 where "FeedbagIsAuthRequiredQuery \<equiv> 0x0023"
abbreviation (input) FeedbagIsAuthRequiredReply :: u16 where "FeedbagIsAuthRequiredReply \<equiv> 0x0024"
abbreviation (input) FeedbagRecentBuddyUpdate :: u16 where "FeedbagRecentBuddyUpdate \<equiv> 0x0025"
abbreviation (input) ICQ :: u16 where "ICQ \<equiv> 0x0015"
abbreviation (input) ICQErr :: u16 where "ICQErr \<equiv> 0x0001"
abbreviation (input) ICQDBQuery :: u16 where "ICQDBQuery \<equiv> 0x0002"
abbreviation (input) ICQDBReply :: u16 where "ICQDBReply \<equiv> 0x0003"
abbreviation (input) BUCP :: u16 where "BUCP \<equiv> 0x0017"
abbreviation (input) BUCPErr :: u16 where "BUCPErr \<equiv> 0x0001"
abbreviation (input) BUCPLoginRequest :: u16 where "BUCPLoginRequest \<equiv> 0x0002"
abbreviation (input) BUCPRegisterRequest :: u16 where "BUCPRegisterRequest \<equiv> 0x0004"
abbreviation (input) BUCPChallengeRequest :: u16 where "BUCPChallengeRequest \<equiv> 0x0006"
abbreviation (input) BUCPAsasnRequest :: u16 where "BUCPAsasnRequest \<equiv> 0x0008"
abbreviation (input) BUCPSecuridRequest :: u16 where "BUCPSecuridRequest \<equiv> 0x000A"
abbreviation (input) BUCPRegistrationImageRequest :: u16 where "BUCPRegistrationImageRequest \<equiv> 0x000C"
abbreviation (input) Alert :: u16 where "Alert \<equiv> 0x0018"
abbreviation (input) AlertErr :: u16 where "AlertErr \<equiv> 0x0001"
abbreviation (input) AlertSetAlertRequest :: u16 where "AlertSetAlertRequest \<equiv> 0x0002"
abbreviation (input) AlertGetSubsRequest :: u16 where "AlertGetSubsRequest \<equiv> 0x0004"
abbreviation (input) AlertNotifyCapabilities :: u16 where "AlertNotifyCapabilities \<equiv> 0x0006"
abbreviation (input) AlertNotify :: u16 where "AlertNotify \<equiv> 0x0007"
abbreviation (input) AlertGetRuleRequest :: u16 where "AlertGetRuleRequest \<equiv> 0x0008"
abbreviation (input) AlertGetFeedRequest :: u16 where "AlertGetFeedRequest \<equiv> 0x000A"
abbreviation (input) AlertRefreshFeed :: u16 where "AlertRefreshFeed \<equiv> 0x000D"
abbreviation (input) AlertEvent :: u16 where "AlertEvent \<equiv> 0x000E"
abbreviation (input) AlertQogSnac :: u16 where "AlertQogSnac \<equiv> 0x000F"
abbreviation (input) AlertRefreshFeedStock :: u16 where "AlertRefreshFeedStock \<equiv> 0x0010"
abbreviation (input) AlertNotifyTransport :: u16 where "AlertNotifyTransport \<equiv> 0x0011"
abbreviation (input) AlertSetAlertRequestV2 :: u16 where "AlertSetAlertRequestV2 \<equiv> 0x0012"
abbreviation (input) AlertNotifyAck :: u16 where "AlertNotifyAck \<equiv> 0x0015"
abbreviation (input) AlertNotifyDisplayCapabilities :: u16 where "AlertNotifyDisplayCapabilities \<equiv> 0x0016"
abbreviation (input) AlertUserOnline :: u16 where "AlertUserOnline \<equiv> 0x0017"
abbreviation (input) BENCOKeyDir :: u16 where "BENCOKeyDir \<equiv> 0xBE00"
abbreviation (input) BENCOKeyDirErr :: u16 where "BENCOKeyDirErr \<equiv> 0x0001"
abbreviation (input) BENCOKeyDirPublishRequest :: u16 where "BENCOKeyDirPublishRequest \<equiv> 0x0002"
abbreviation (input) BENCOKeyDirPublishReply :: u16 where "BENCOKeyDirPublishReply \<equiv> 0x0003"
abbreviation (input) BENCOKeyDirQueryRequest :: u16 where "BENCOKeyDirQueryRequest \<equiv> 0x0004"
abbreviation (input) BENCOKeyDirQueryReply :: u16 where "BENCOKeyDirQueryReply \<equiv> 0x0005"
abbreviation (input) BENCOKeyDirPutBackupRequest :: u16 where "BENCOKeyDirPutBackupRequest \<equiv> 0x0006"
abbreviation (input) BENCOKeyDirPutBackupReply :: u16 where "BENCOKeyDirPutBackupReply \<equiv> 0x0007"
abbreviation (input) BENCOKeyDirGetBackupRequest :: u16 where "BENCOKeyDirGetBackupRequest \<equiv> 0x0008"
abbreviation (input) BENCOKeyDirGetBackupReply :: u16 where "BENCOKeyDirGetBackupReply \<equiv> 0x0009"
abbreviation (input) BENCOKeyDirAttestChallenge :: u16 where "BENCOKeyDirAttestChallenge \<equiv> 0x000A"
abbreviation (input) BENCOKeyDirAttestResponse :: u16 where "BENCOKeyDirAttestResponse \<equiv> 0x000B"
abbreviation (input) BENCOKeyDirAttestReply :: u16 where "BENCOKeyDirAttestReply \<equiv> 0x000C"

end
