(* ===== verification/Wire_RateLimit.thy ===== *)
theory Wire_RateLimit
  imports Wire_Codes "HOL-Library.AList" "HOL-Library.Signed_Division"
begin

text \<open>
  \<open>wire/rate_limit.go\<close>: the rate classes, the table that assigns a class to every SNAC, and the
  moving average. Times are nanoseconds; a duration saturates at 64 bits, its milliseconds are
  converted to 32 bits, and the average is computed in 32-bit arithmetic that wraps.
\<close>

section \<open>Arithmetic of Go\<close>

definition int32 :: "int \<Rightarrow> int" where
  "int32 x = (x + 2 ^ 31) mod 2 ^ 32 - 2 ^ 31"

lemma int32_id: "- (2 ^ 31) \<le> x \<Longrightarrow> x < 2 ^ 31 \<Longrightarrow> int32 x = x"
  by (simp add: int32_def)

lemma int32_wrap: "2 ^ 31 \<le> x \<Longrightarrow> x < 2 ^ 32 + 2 ^ 31 \<Longrightarrow> int32 x = x - 2 ^ 32"
proof -
  assume "2 ^ 31 \<le> x" "x < 2 ^ 32 + 2 ^ 31"
  then have "(x + 2 ^ 31) mod 2 ^ 32 = x + 2 ^ 31 - 2 ^ 32"
    by (subst minus_mod_self2 [symmetric]) (rule mod_pos_pos_trivial, auto)
  then show ?thesis by (simp add: int32_def)
qed

text \<open>\<open>time.Time.Sub\<close> saturates; \<open>Duration.Milliseconds\<close> divides towards zero.\<close>

definition timeSub :: "int \<Rightarrow> int \<Rightarrow> int" where
  "timeSub t u = max (- (2 ^ 63)) (min (2 ^ 63 - 1) (t - u))"

definition Milliseconds :: "int \<Rightarrow> int" where
  "Milliseconds d = d sdiv 1000000"

section \<open>Classes\<close>

datatype RateLimitStatus =
    RateLimitStatusLimited
  | RateLimitStatusAlert
  | RateLimitStatusClear
  | RateLimitStatusDisconnect

record RateClass =
  ID :: u16
  WindowSize :: int
  ClearLevel :: int
  AlertLevel :: int
  LimitLevel :: int
  DisconnectLevel :: int
  MaxLevel :: int

type_synonym RateLimitClasses = "RateClass list"

definition NewRateLimitClasses :: "RateClass list \<Rightarrow> RateLimitClasses" where
  "NewRateLimitClasses classes = classes"

definition DefaultRateLimitClasses :: RateLimitClasses where
  "DefaultRateLimitClasses =
     [\<lparr>ID = 1, WindowSize = 80, ClearLevel = 2500, AlertLevel = 2000, LimitLevel = 1500,
        DisconnectLevel = 800, MaxLevel = 6000\<rparr>,
      \<lparr>ID = 2, WindowSize = 80, ClearLevel = 1500, AlertLevel = 1200, LimitLevel = 1000,
        DisconnectLevel = 100, MaxLevel = 15000\<rparr>,
      \<lparr>ID = 3, WindowSize = 20, ClearLevel = 1500, AlertLevel = 1200, LimitLevel = 1000,
        DisconnectLevel = 100, MaxLevel = 15000\<rparr>,
      \<lparr>ID = 4, WindowSize = 20, ClearLevel = 5500, AlertLevel = 5300, LimitLevel = 4200,
        DisconnectLevel = 3000, MaxLevel = 8000\<rparr>,
      \<lparr>ID = 5, WindowSize = 10, ClearLevel = 5500, AlertLevel = 5300, LimitLevel = 4200,
        DisconnectLevel = 3000, MaxLevel = 8000\<rparr>]"

text \<open>\<open>None\<close> is the index panic: \<open>ID - 1\<close> wraps in 16 bits.\<close>

definition RateLimitClasses_Get :: "RateLimitClasses \<Rightarrow> u16 \<Rightarrow> RateClass option" where
  "RateLimitClasses_Get classes cid =
     (let i = unat (cid - 1) in if i < length classes then Some (classes ! i) else None)"

definition RateLimitClasses_All :: "RateLimitClasses \<Rightarrow> RateClass list" where
  "RateLimitClasses_All classes = classes"

section \<open>The moving average\<close>

text \<open>\<open>None\<close> is the division panic of a class with window size zero.\<close>

definition CheckRateLimit :: "int \<Rightarrow> int \<Rightarrow> RateClass \<Rightarrow> int \<Rightarrow> bool \<Rightarrow> (RateLimitStatus \<times> int) option" where
  "CheckRateLimit lastTime currentTime rateClass currentAvg limitedNow =
     (if WindowSize rateClass = 0 then None
      else
        let elapsedMs = int32 (Milliseconds (timeSub currentTime lastTime));
            newAvg = int32 (int32 (int32 (currentAvg * int32 (WindowSize rateClass - 1)) + elapsedMs)
              sdiv WindowSize rateClass);
            newAvg = (if MaxLevel rateClass < newAvg then MaxLevel rateClass else newAvg);
            status =
              (if newAvg < DisconnectLevel rateClass then RateLimitStatusDisconnect
               else if limitedNow \<and> ClearLevel rateClass \<le> newAvg then RateLimitStatusClear
               else if limitedNow then RateLimitStatusLimited
               else if newAvg < LimitLevel rateClass then RateLimitStatusLimited
               else if newAvg < AlertLevel rateClass then RateLimitStatusAlert
               else RateLimitStatusClear)
        in Some (status, newAvg))"

section \<open>The SNAC table\<close>

text \<open>Two nested Go maps, as association lists with distinct keys.\<close>

type_synonym SNACRateLimits = "(u16 \<times> (u16 \<times> u16) list) list"

definition rateLimits_OService :: "(u16 \<times> u16) list" where
  "rateLimits_OService =
     [(OServiceErr, 1),
      (OServiceClientOnline, 1),
      (OServiceHostOnline, 1),
      (OServiceServiceRequest, 1),
      (OServiceServiceResponse, 1),
      (OServiceRateParamsQuery, 1),
      (OServiceRateParamsReply, 1),
      (OServiceRateParamsSubAdd, 1),
      (OServiceRateDelParamSub, 1),
      (OServiceRateParamChange, 1),
      (OServicePauseReq, 1),
      (OServicePauseAck, 1),
      (OServiceResume, 1),
      (OServiceUserInfoQuery, 1),
      (OServiceUserInfoUpdate, 1),
      (OServiceEvilNotification, 1),
      (OServiceIdleNotification, 1),
      (OServiceMigrateGroups, 1),
      (OServiceMotd, 1),
      (OServiceSetPrivacyFlags, 1),
      (OServiceWellKnownUrls, 1),
      (OServiceNoop, 1),
      (OServiceClientVersions, 1),
      (OServiceHostVersions, 1),
      (OServiceMaxConfigQuery, 1),
      (OServiceMaxConfigReply, 1),
      (OServiceStoreConfig, 1),
      (OServiceConfigQuery, 1),
      (OServiceConfigReply, 1),
      (OServiceSetUserInfoFields, 1),
      (OServiceProbeReq, 1),
      (OServiceProbeAck, 1),
      (OServiceBartReply, 1),
      (OServiceBartQuery2, 1),
      (OServiceBartReply2, 1)]"

definition rateLimits_Locate :: "(u16 \<times> u16) list" where
  "rateLimits_Locate =
     [(LocateErr, 1),
      (LocateRightsQuery, 1),
      (LocateRightsReply, 1),
      (LocateSetInfo, 1),
      (LocateUserInfoQuery, 3),
      (LocateUserInfoReply, 1),
      (LocateWatcherSubRequest, 1),
      (LocateWatcherNotification, 1),
      (LocateSetDirInfo, 4),
      (LocateSetDirReply, 1),
      (LocateGetDirInfo, 4),
      (LocateGetDirReply, 1),
      (LocateGroupCapabilityQuery, 1),
      (LocateGroupCapabilityReply, 1),
      (LocateSetKeywordInfo, 1),
      (LocateSetKeywordReply, 1),
      (LocateGetKeywordInfo, 1),
      (LocateGetKeywordReply, 1),
      (LocateFindListByEmail, 1),
      (LocateFindListReply, 1),
      (LocateUserInfoQuery2, 1)]"

definition rateLimits_Buddy :: "(u16 \<times> u16) list" where
  "rateLimits_Buddy =
     [(BuddyErr, 1),
      (BuddyRightsQuery, 1),
      (BuddyRightsReply, 1),
      (BuddyAddBuddies, 2),
      (BuddyDelBuddies, 2),
      (BuddyWatcherListQuery, 1),
      (BuddyWatcherListResponse, 1),
      (BuddyWatcherSubRequest, 1),
      (BuddyWatcherNotification, 1),
      (BuddyRejectNotification, 1),
      (BuddyArrived, 1),
      (BuddyDeparted, 1),
      (BuddyAddTempBuddies, 1),
      (BuddyDelTempBuddies, 1)]"

definition rateLimits_ICBM :: "(u16 \<times> u16) list" where
  "rateLimits_ICBM =
     [(ICBMErr, 1),
      (ICBMAddParameters, 1),
      (ICBMDelParameters, 1),
      (ICBMParameterQuery, 1),
      (ICBMParameterReply, 1),
      (ICBMChannelMsgToHost, 3),
      (ICBMChannelMsgToClient, 1),
      (ICBMEvilRequest, 1),
      (ICBMEvilReply, 1),
      (ICBMMissedCalls, 1),
      (ICBMClientErr, 1),
      (ICBMHostAck, 1),
      (ICBMSinStored, 1),
      (ICBMSinListQuery, 1),
      (ICBMSinListReply, 1),
      (ICBMOfflineRetrieve, 1),
      (ICBMSinDelete, 1),
      (ICBMNotifyRequest, 1),
      (ICBMNotifyReply, 1),
      (ICBMClientEvent, 1)]"

definition rateLimits_Advert :: "(u16 \<times> u16) list" where
  "rateLimits_Advert =
     [(AdvertErr, 1),
      (AdvertAdsQuery, 1),
      (AdvertAdsReply, 1)]"

definition rateLimits_Invite :: "(u16 \<times> u16) list" where
  "rateLimits_Invite =
     [(InviteErr, 1),
      (InviteRequestQuery, 1),
      (InviteRequestReply, 1)]"

definition rateLimits_Admin :: "(u16 \<times> u16) list" where
  "rateLimits_Admin =
     [(AdminErr, 1),
      (AdminInfoQuery, 1),
      (AdminInfoReply, 1),
      (AdminInfoChangeRequest, 1),
      (AdminInfoChangeReply, 1),
      (AdminAcctConfirmRequest, 1),
      (AdminAcctConfirmReply, 1),
      (AdminAcctDeleteRequest, 1),
      (AdminAcctDeleteReply, 1)]"

definition rateLimits_Popup :: "(u16 \<times> u16) list" where
  "rateLimits_Popup =
     [(PopupErr, 1),
      (PopupDisplay, 1)]"

definition rateLimits_PermitDeny :: "(u16 \<times> u16) list" where
  "rateLimits_PermitDeny =
     [(PermitDenyErr, 1),
      (PermitDenyRightsQuery, 1),
      (PermitDenyRightsReply, 1),
      (PermitDenySetGroupPermitMask, 1),
      (PermitDenyAddPermListEntries, 2),
      (PermitDenyDelPermListEntries, 2),
      (PermitDenyAddDenyListEntries, 2),
      (PermitDenyDelDenyListEntries, 2),
      (PermitDenyBosErr, 1),
      (PermitDenyAddTempPermitListEntries, 1),
      (PermitDenyDelTempPermitListEntries, 1)]"

definition rateLimits_UserLookup :: "(u16 \<times> u16) list" where
  "rateLimits_UserLookup =
     [(UserLookupErr, 1),
      (UserLookupFindByEmail, 1),
      (UserLookupFindReply, 1)]"

definition rateLimits_Stats :: "(u16 \<times> u16) list" where
  "rateLimits_Stats =
     [(StatsErr, 1),
      (StatsSetMinReportInterval, 1),
      (StatsReportEvents, 1),
      (StatsReportAck, 1)]"

definition rateLimits_Translate :: "(u16 \<times> u16) list" where
  "rateLimits_Translate =
     [(TranslateErr, 1),
      (TranslateRequest, 1),
      (TranslateReply, 1)]"

definition rateLimits_ChatNav :: "(u16 \<times> u16) list" where
  "rateLimits_ChatNav =
     [(ChatNavErr, 1),
      (ChatNavRequestChatRights, 1),
      (ChatNavRequestExchangeInfo, 1),
      (ChatNavRequestRoomInfo, 1),
      (ChatNavRequestMoreRoomInfo, 1),
      (ChatNavRequestOccupantList, 1),
      (ChatNavSearchForRoom, 1),
      (ChatNavCreateRoom, 1),
      (ChatNavNavInfo, 1)]"

definition rateLimits_Chat :: "(u16 \<times> u16) list" where
  "rateLimits_Chat =
     [(ChatErr, 1),
      (ChatRoomInfoUpdate, 1),
      (ChatUsersJoined, 1),
      (ChatUsersLeft, 1),
      (ChatChannelMsgToHost, 2),
      (ChatChannelMsgToClient, 1),
      (ChatEvilRequest, 1),
      (ChatEvilReply, 1),
      (ChatClientErr, 1)]"

definition rateLimits_ODir :: "(u16 \<times> u16) list" where
  "rateLimits_ODir =
     [(ODirErr, 1),
      (ODirInfoQuery, 1),
      (ODirInfoReply, 1),
      (ODirKeywordListQuery, 1)]"

definition rateLimits_BART :: "(u16 \<times> u16) list" where
  "rateLimits_BART =
     [(BARTErr, 1),
      (BARTUploadQuery, 1),
      (BARTDownloadQuery, 1),
      (BARTDownload2Query, 1)]"

definition rateLimits_Feedbag :: "(u16 \<times> u16) list" where
  "rateLimits_Feedbag =
     [(FeedbagErr, 1),
      (FeedbagRightsQuery, 1),
      (FeedbagRightsReply, 1),
      (FeedbagQuery, 1),
      (FeedbagQueryIfModified, 1),
      (FeedbagReply, 1),
      (FeedbagUse, 1),
      (FeedbagInsertItem, 1),
      (FeedbagUpdateItem, 1),
      (FeedbagDeleteItem, 1),
      (FeedbagInsertClass, 1),
      (FeedbagUpdateClass, 1),
      (FeedbagDeleteClass, 1),
      (FeedbagStatus, 1),
      (FeedbagReplyNotModified, 1),
      (FeedbagDeleteUser, 1),
      (FeedbagStartCluster, 1),
      (FeedbagEndCluster, 1),
      (FeedbagAuthorizeBuddy, 1),
      (FeedbagPreAuthorizeBuddy, 1),
      (FeedbagPreAuthorizedBuddy, 1),
      (FeedbagRemoveMe, 1),
      (FeedbagRemoveMe2, 1),
      (FeedbagRequestAuthorizeToHost, 1),
      (FeedbagRequestAuthorizeToClient, 1),
      (FeedbagRespondAuthorizeToHost, 1),
      (FeedbagRespondAuthorizeToClient, 1),
      (FeedbagBuddyAdded, 1),
      (FeedbagRequestAuthorizeToBadog, 1),
      (FeedbagRespondAuthorizeToBadog, 1),
      (FeedbagBuddyAddedToBadog, 1),
      (0x0020, 1),
      (FeedbagTestSnac, 1),
      (FeedbagForwardMsg, 1),
      (FeedbagIsAuthRequiredQuery, 1),
      (FeedbagIsAuthRequiredReply, 1),
      (FeedbagRecentBuddyUpdate, 1),
      (0x0026, 1),
      (0x0027, 1),
      (0x0028, 1)]"

definition rateLimits_ICQ :: "(u16 \<times> u16) list" where
  "rateLimits_ICQ =
     [(ICQErr, 1),
      (ICQDBQuery, 1),
      (ICQDBReply, 1)]"

definition rateLimits_BUCP :: "(u16 \<times> u16) list" where
  "rateLimits_BUCP =
     [(BUCPErr, 1),
      (BUCPLoginRequest, 1),
      (BUCPRegisterRequest, 1),
      (BUCPChallengeRequest, 1),
      (BUCPAsasnRequest, 1),
      (BUCPSecuridRequest, 1),
      (BUCPRegistrationImageRequest, 1)]"

definition rateLimits_Alert :: "(u16 \<times> u16) list" where
  "rateLimits_Alert =
     [(AlertErr, 1),
      (AlertSetAlertRequest, 1),
      (AlertGetSubsRequest, 1),
      (AlertNotifyCapabilities, 1),
      (AlertNotify, 1),
      (AlertGetRuleRequest, 1),
      (AlertGetFeedRequest, 1),
      (AlertRefreshFeed, 1),
      (AlertEvent, 1),
      (AlertQogSnac, 1),
      (AlertRefreshFeedStock, 1),
      (AlertNotifyTransport, 1),
      (AlertSetAlertRequestV2, 1),
      (AlertNotifyAck, 1),
      (AlertNotifyDisplayCapabilities, 1),
      (AlertUserOnline, 1)]"

definition DefaultSNACRateLimits :: SNACRateLimits where
  "DefaultSNACRateLimits =
     [(OService, rateLimits_OService),
      (Locate, rateLimits_Locate),
      (Buddy, rateLimits_Buddy),
      (ICBM, rateLimits_ICBM),
      (Advert, rateLimits_Advert),
      (Invite, rateLimits_Invite),
      (Admin, rateLimits_Admin),
      (Popup, rateLimits_Popup),
      (PermitDeny, rateLimits_PermitDeny),
      (UserLookup, rateLimits_UserLookup),
      (Stats, rateLimits_Stats),
      (Translate, rateLimits_Translate),
      (ChatNav, rateLimits_ChatNav),
      (Chat, rateLimits_Chat),
      (ODir, rateLimits_ODir),
      (BART, rateLimits_BART),
      (Feedbag, rateLimits_Feedbag),
      (ICQ, rateLimits_ICQ),
      (BUCP, rateLimits_BUCP),
      (Alert, rateLimits_Alert)]"

definition rateLimits_BENCOKeyDir :: "(u16 \<times> u16) list" where
  "rateLimits_BENCOKeyDir =
     [(BENCOKeyDirErr, 1),
      (BENCOKeyDirPublishRequest, 1),
      (BENCOKeyDirPublishReply, 1),
      (BENCOKeyDirQueryRequest, 1),
      (BENCOKeyDirQueryReply, 1),
      (BENCOKeyDirPutBackupRequest, 1),
      (BENCOKeyDirPutBackupReply, 1),
      (BENCOKeyDirGetBackupRequest, 1),
      (BENCOKeyDirGetBackupReply, 1),
      (BENCOKeyDirAttestChallenge, 1),
      (BENCOKeyDirAttestResponse, 1),
      (BENCOKeyDirAttestReply, 1)]"

text \<open>The map assignment replaces the entry of the food group, or adds one.\<close>

definition WithBENCOKeyDirRateLimits :: "SNACRateLimits \<Rightarrow> SNACRateLimits" where
  "WithBENCOKeyDirRateLimits limits =
     AList.update BENCOKeyDir rateLimits_BENCOKeyDir limits"

definition RateClassLookup :: "SNACRateLimits \<Rightarrow> u16 \<Rightarrow> u16 \<Rightarrow> u16 option" where
  "RateClassLookup rg foodGroup subGroup =
     (case map_of rg foodGroup of
        None \<Rightarrow> None
      | Some grp \<Rightarrow> (case map_of grp subGroup of None \<Rightarrow> None | Some cls \<Rightarrow> Some cls))"

text \<open>The iterator yields every pair once; the order of a Go map is not specified.\<close>

definition SNACRateLimits_All :: "SNACRateLimits \<Rightarrow> (u16 \<times> u16 \<times> u16) list" where
  "SNACRateLimits_All rg =
     concat (map (\<lambda>(foodGroup, subGroups). map (\<lambda>(subGroup, classID). (foodGroup, subGroup, classID)) subGroups) rg)"

section \<open>Arithmetic without wrap-around\<close>

text \<open>The levels of a class are ordered, and a full window of the greatest level stays within 32 bits.\<close>

definition classOk :: "RateClass \<Rightarrow> bool" where
  "classOk rc \<longleftrightarrow> 1 \<le> WindowSize rc \<and> 0 < DisconnectLevel rc \<and> DisconnectLevel rc \<le> LimitLevel rc \<and>
     LimitLevel rc \<le> AlertLevel rc \<and> AlertLevel rc \<le> ClearLevel rc \<and> ClearLevel rc \<le> MaxLevel rc \<and>
     MaxLevel rc * WindowSize rc \<le> 2 ^ 21"

lemma default_classOk: "rc \<in> set DefaultRateLimitClasses \<Longrightarrow> classOk rc"
  by (auto simp: DefaultRateLimitClasses_def classOk_def)

definition nextAvg :: "RateClass \<Rightarrow> int \<Rightarrow> int \<Rightarrow> int" where
  "nextAvg rc avg ms = min (MaxLevel rc) ((avg * (WindowSize rc - 1) + ms) div WindowSize rc)"

definition classify :: "RateClass \<Rightarrow> int \<Rightarrow> bool \<Rightarrow> RateLimitStatus" where
  "classify rc avg limitedNow =
     (if avg < DisconnectLevel rc then RateLimitStatusDisconnect
      else if limitedNow then (if ClearLevel rc \<le> avg then RateLimitStatusClear else RateLimitStatusLimited)
      else if avg < LimitLevel rc then RateLimitStatusLimited
      else if avg < AlertLevel rc then RateLimitStatusAlert else RateLimitStatusClear)"

lemma avg_bounds:
  assumes "classOk rc" and "0 \<le> avg" and "avg \<le> MaxLevel rc"
  shows "1 \<le> WindowSize rc" "WindowSize rc \<le> 2 ^ 21" "0 \<le> avg * (WindowSize rc - 1)"
    "avg * (WindowSize rc - 1) \<le> 2 ^ 21"
proof -
  have w: "1 \<le> WindowSize rc" "1 \<le> MaxLevel rc" "MaxLevel rc * WindowSize rc \<le> 2 ^ 21"
    using assms(1) by (auto simp: classOk_def)
  have "1 * WindowSize rc \<le> MaxLevel rc * WindowSize rc" using w by (intro mult_right_mono) auto
  with w(3) have "WindowSize rc \<le> 2 ^ 21" by linarith
  moreover have "avg * (WindowSize rc - 1) \<le> MaxLevel rc * WindowSize rc"
    using assms w by (intro mult_mono) auto
  ultimately show "1 \<le> WindowSize rc" "WindowSize rc \<le> 2 ^ 21" "0 \<le> avg * (WindowSize rc - 1)"
    "avg * (WindowSize rc - 1) \<le> 2 ^ 21" using assms(2) w by auto
qed

lemma elapsed_ms:
  "0 \<le> ms \<Longrightarrow> ms < 2 ^ 33 \<Longrightarrow> 0 \<le> ns \<Longrightarrow> ns < 1000000 \<Longrightarrow>
     Milliseconds (timeSub (t + (ms * 1000000 + ns)) t) = ms"
  by (simp add: Milliseconds_def timeSub_def signed_divide_int_def sgn_if min_def max_def zero_le_mult_iff)

lemma CheckRateLimit_exact:
  assumes "classOk rc" and "0 \<le> avg" and "avg \<le> MaxLevel rc"
    and "0 \<le> ms" and "ms < 2 ^ 31 - 2 ^ 21" and "0 \<le> ns" and "ns < 1000000"
  shows "CheckRateLimit t (t + (ms * 1000000 + ns)) rc avg lim =
    Some (classify rc (nextAvg rc avg ms) lim, nextAvg rc avg ms)"
proof -
  note b = avg_bounds [OF assms(1-3)]
  let ?s = "avg * (WindowSize rc - 1) + ms"
  have s: "0 \<le> ?s" "?s < 2 ^ 31" using b assms(4,5) by auto
  have q: "0 \<le> ?s div WindowSize rc" "?s div WindowSize rc \<le> ?s"
    using b s zdiv_mono2 [of ?s 1 "WindowSize rc"] by (auto simp: pos_imp_zdiv_nonneg_iff)
  have i: "int32 ms = ms" "int32 (WindowSize rc - 1) = WindowSize rc - 1"
    "int32 (avg * (WindowSize rc - 1)) = avg * (WindowSize rc - 1)" "int32 ?s = ?s"
    "int32 (?s div WindowSize rc) = ?s div WindowSize rc"
    using b s q assms(4,5) by (auto intro!: int32_id)
  have "?s sdiv WindowSize rc = ?s div WindowSize rc"
    using b s by (auto simp: signed_divide_int_def sgn_if)
  with i b elapsed_ms [of ms ns t] assms(4-7) show ?thesis
    by (simp add: CheckRateLimit_def Let_def nextAvg_def classify_def min_def)
qed

lemma nextAvg_bounds:
  "classOk rc \<Longrightarrow> 0 \<le> avg \<Longrightarrow> 0 \<le> ms \<Longrightarrow> 0 \<le> nextAvg rc avg ms \<and> nextAvg rc avg ms \<le> MaxLevel rc"
  by (auto simp: nextAvg_def classOk_def min_def pos_imp_zdiv_nonneg_iff)

text \<open>A client that leaves the limit level between two messages keeps the average above it.\<close>

lemma nextAvg_paced:
  assumes "classOk rc" and "LimitLevel rc \<le> avg" and "LimitLevel rc \<le> ms"
  shows "LimitLevel rc \<le> nextAvg rc avg ms"
proof -
  have w: "1 \<le> WindowSize rc" "LimitLevel rc \<le> MaxLevel rc" using assms(1) by (auto simp: classOk_def)
  have "LimitLevel rc * (WindowSize rc - 1) \<le> avg * (WindowSize rc - 1)"
    using assms(2) w by (intro mult_right_mono) auto
  then have "LimitLevel rc * WindowSize rc \<le> avg * (WindowSize rc - 1) + ms"
    using assms(3) by (simp add: algebra_simps)
  then have "LimitLevel rc \<le> (avg * (WindowSize rc - 1) + ms) div WindowSize rc"
    using w zdiv_mono1 [of "LimitLevel rc * WindowSize rc" _ "WindowSize rc"] by simp
  with w show ?thesis by (simp add: nextAvg_def)
qed

text \<open>A run of messages as \<open>EvaluateRateLimit\<close> makes it: gaps in milliseconds, the statuses answered.\<close>

fun rateRun :: "RateClass \<Rightarrow> int \<Rightarrow> int \<Rightarrow> bool \<Rightarrow> int list \<Rightarrow> RateLimitStatus list option" where
  "rateRun rc t avg limitedNow [] = Some []"
| "rateRun rc t avg limitedNow (gap # gaps) =
     (case CheckRateLimit t (t + gap * 1000000) rc avg limitedNow of
        None \<Rightarrow> None
      | Some (status, avg') \<Rightarrow>
          map_option ((#) status)
            (rateRun rc (t + gap * 1000000) avg' (status = RateLimitStatusLimited) gaps))"

section \<open>Properties\<close>

text \<open>Below 24 days of silence the average is exact. For every default class, every level the class
  can have and an elapsed time of less than 2145386496 milliseconds, the new level is the rounded
  average, capped, it stays between zero and the maximum, and the status is read off the
  thresholds; a limited client is cleared exactly when the level reaches the clear level.\<close>
theorem CheckRateLimit_correct:
  assumes "rc \<in> set DefaultRateLimitClasses" and "0 \<le> avg" and "avg \<le> MaxLevel rc"
    and "0 \<le> ms" and "ms < 2 ^ 31 - 2 ^ 21" and "0 \<le> ns" and "ns < 1000000"
  shows "\<exists>new. CheckRateLimit t (t + (ms * 1000000 + ns)) rc avg lim =
      Some (if new < DisconnectLevel rc then RateLimitStatusDisconnect
        else if lim then (if ClearLevel rc \<le> new then RateLimitStatusClear else RateLimitStatusLimited)
        else if new < LimitLevel rc then RateLimitStatusLimited
        else if new < AlertLevel rc then RateLimitStatusAlert else RateLimitStatusClear, new) \<and>
    new = min (MaxLevel rc) ((avg * (WindowSize rc - 1) + ms) div WindowSize rc) \<and>
    0 \<le> new \<and> new \<le> MaxLevel rc"
  using CheckRateLimit_exact [OF default_classOk [OF assms(1)] assms(2-7), of t lim]
    nextAvg_bounds [OF default_classOk [OF assms(1)] assms(2,4)]
  by (auto simp: classify_def nextAvg_def)

lemma CheckRateLimit_correct_witness:
  "\<exists>new. CheckRateLimit 0 (0 + (500 * 1000000 + 0)) (DefaultRateLimitClasses ! 2) 15000 False =
      Some (RateLimitStatusClear, new) \<and> new = 14275"
  using CheckRateLimit_correct [of "DefaultRateLimitClasses ! 2" 15000 500 0 0 False]
  by (simp add: DefaultRateLimitClasses_def)

text \<open>A client that keeps the pace is never throttled. If it is not limited, its level is at least the
  limit level of a default class, and it leaves at least that many milliseconds (and at most 24
  days) between any two messages, then no message of the run is limited or disconnects it.\<close>
theorem paced_client_never_limited:
  assumes "rc \<in> set DefaultRateLimitClasses" and "LimitLevel rc \<le> avg" and "avg \<le> MaxLevel rc"
    and "\<forall>gap\<in>set gaps. LimitLevel rc \<le> gap \<and> gap < 2 ^ 31 - 2 ^ 21"
  shows "\<exists>ss. rateRun rc t avg False gaps = Some ss \<and> length ss = length gaps \<and>
    RateLimitStatusLimited \<notin> set ss \<and> RateLimitStatusDisconnect \<notin> set ss"
  using assms(2-4)
proof (induction gaps arbitrary: t avg)
  case (Cons gap gaps)
  have ok: "classOk rc" using assms(1) by (rule default_classOk)
  then have l: "0 < LimitLevel rc" "DisconnectLevel rc \<le> LimitLevel rc" by (auto simp: classOk_def)
  let ?a = "nextAvg rc avg gap"
  have c: "CheckRateLimit t (t + gap * 1000000) rc avg False = Some (classify rc ?a False, ?a)"
    using CheckRateLimit_exact [OF ok, of avg gap 0 t False] Cons.prems l by auto
  have a: "LimitLevel rc \<le> ?a" "?a \<le> MaxLevel rc"
    using nextAvg_paced [OF ok] nextAvg_bounds [OF ok, of avg gap] Cons.prems l by auto
  then have s: "classify rc ?a False \<noteq> RateLimitStatusLimited"
    "classify rc ?a False \<noteq> RateLimitStatusDisconnect" using l by (auto simp: classify_def)
  from Cons.IH [OF a, of "t + gap * 1000000"] Cons.prems(3) obtain ss where
    "rateRun rc (t + gap * 1000000) ?a False gaps = Some ss" "length ss = length gaps"
    "RateLimitStatusLimited \<notin> set ss" "RateLimitStatusDisconnect \<notin> set ss" by auto
  with c s show ?case by auto
qed simp

lemma paced_client_never_limited_witness:
  "\<exists>ss. rateRun (DefaultRateLimitClasses ! 2) 0 1000 False (replicate 100 1000) = Some ss \<and>
     length ss = 100 \<and> RateLimitStatusLimited \<notin> set ss"
  using paced_client_never_limited [of "DefaultRateLimitClasses ! 2" 1000 "replicate 100 1000" 0]
  by (auto simp: DefaultRateLimitClasses_def)

text \<open>The level after \<open>n\<close> messages without a pause.\<close>

fun decayed :: "int \<Rightarrow> int \<Rightarrow> nat \<Rightarrow> int" where
  "decayed w avg 0 = avg"
| "decayed w avg (Suc n) = decayed w ((avg * (w - 1)) div w) n"

lemma decay_step:
  fixes w avg :: int
  assumes "1 \<le> w" and "0 \<le> avg"
  shows "0 \<le> avg * (w - 1) div w" "avg * (w - 1) div w \<le> avg"
proof -
  show "0 \<le> avg * (w - 1) div w"
    using assms by (auto simp: pos_imp_zdiv_nonneg_iff intro!: mult_nonneg_nonneg)
  have "avg * (w - 1) \<le> avg * w" using assms by (intro mult_left_mono) auto
  from zdiv_mono1 [OF this, of w] show "avg * (w - 1) div w \<le> avg" using assms by simp
qed

lemma decayed_le: "1 \<le> w \<Longrightarrow> 0 \<le> avg \<Longrightarrow> decayed w avg n \<le> avg"
proof (induction n arbitrary: avg)
  case (Suc n)
  from Suc.IH [OF Suc.prems(1) decay_step(1) [OF Suc.prems]] decay_step(2) [OF Suc.prems]
  show ?case by simp
qed simp

lemma rateRun_decay:
  assumes ok: "classOk rc"
  shows "0 \<le> avg \<Longrightarrow> avg \<le> MaxLevel rc \<Longrightarrow> LimitLevel rc \<le> decayed (WindowSize rc) avg n \<Longrightarrow>
    \<exists>ss. rateRun rc t avg False (replicate n 0 @ gaps) =
        map_option ((@) ss) (rateRun rc t (decayed (WindowSize rc) avg n) False gaps) \<and>
      RateLimitStatusLimited \<notin> set ss \<and> RateLimitStatusDisconnect \<notin> set ss"
proof (induction n arbitrary: avg)
  case 0
  show ?case by (rule exI [of _ "[]"]) (simp add: option.map_id0 [unfolded id_def] option.map_ident)
next
  case (Suc n)
  have w: "1 \<le> WindowSize rc" "DisconnectLevel rc \<le> LimitLevel rc" using ok by (auto simp: classOk_def)
  let ?a = "avg * (WindowSize rc - 1) div WindowSize rc"
  have a: "0 \<le> ?a" "?a \<le> MaxLevel rc" "LimitLevel rc \<le> ?a"
    using decay_step [OF w(1) Suc.prems(1)] decayed_le [OF w(1), of ?a n] Suc.prems by auto
  have c: "CheckRateLimit t t rc avg False = Some (classify rc ?a False, ?a)"
    using CheckRateLimit_exact [OF ok Suc.prems(1,2), of 0 0 t False] a by (simp add: nextAvg_def min_def)
  have s: "classify rc ?a False \<noteq> RateLimitStatusLimited"
    "classify rc ?a False \<noteq> RateLimitStatusDisconnect" using a w by (auto simp: classify_def)
  from Suc.IH [OF a(1,2)] Suc.prems(3) obtain ss where
    "rateRun rc t ?a False (replicate n 0 @ gaps) =
      map_option ((@) ss) (rateRun rc t (decayed (WindowSize rc) ?a n) False gaps)"
    "RateLimitStatusLimited \<notin> set ss" "RateLimitStatusDisconnect \<notin> set ss" by auto
  with c s show ?case
    by (intro exI [of _ "classify rc ?a False # ss"]) (simp add: option.map_comp comp_def)
qed

lemma burst_end:
  assumes ok: "classOk rc" and n: "LimitLevel rc \<le> decayed (WindowSize rc) (MaxLevel rc) n"
    and last: "DisconnectLevel rc \<le> decayed (WindowSize rc) (MaxLevel rc) (Suc n)"
      "decayed (WindowSize rc) (MaxLevel rc) (Suc n) < LimitLevel rc"
    and "m = Suc n"
  shows "\<exists>ss. rateRun rc 0 (MaxLevel rc) False (replicate m 0) = Some (ss @ [RateLimitStatusLimited]) \<and>
    RateLimitStatusLimited \<notin> set ss \<and> RateLimitStatusDisconnect \<notin> set ss"
proof -
  let ?d = "decayed (WindowSize rc) (MaxLevel rc) n"
  have w: "1 \<le> WindowSize rc" "0 < MaxLevel rc" "0 < LimitLevel rc" using ok by (auto simp: classOk_def)
  have suc: "decayed w avg (Suc n) = decayed w avg n * (w - 1) div w" for w avg
    by (induction n arbitrary: avg) simp_all
  have d: "0 \<le> ?d" "?d \<le> MaxLevel rc" using n w decayed_le [OF w(1), of "MaxLevel rc" n] by auto
  have "CheckRateLimit 0 0 rc ?d False = Some (RateLimitStatusLimited, decayed (WindowSize rc) (MaxLevel rc) (Suc n))"
    using CheckRateLimit_exact [OF ok d, of 0 0 0 False] last decay_step(2) [OF w(1) d(1)] d(2)
    by (simp add: suc nextAvg_def classify_def min_def del: decayed.simps)
  then have "rateRun rc 0 ?d False [0] = Some [RateLimitStatusLimited]" by simp
  moreover have "replicate m 0 = replicate n 0 @ [0 :: int]"
    using \<open>m = Suc n\<close> by (simp add: replicate_append_same)
  ultimately show ?thesis
    using rateRun_decay [OF ok _ _ n, of 0 "[0]"] w by auto
qed

text \<open>The burst allowances of the default classes. Starting from the greatest level and sending
  without a pause, the first message of class 1 to 5 that is limited is number 109, 213, 53, 13
  and 7, and none before it is limited or disconnects.\<close>
theorem burst_allowance:
  "list_all2 (\<lambda>rc n. \<exists>ss. rateRun rc 0 (MaxLevel rc) False (replicate n 0) =
        Some (ss @ [RateLimitStatusLimited]) \<and>
      RateLimitStatusLimited \<notin> set ss \<and> RateLimitStatusDisconnect \<notin> set ss)
    DefaultRateLimitClasses [109, 213, 53, 13, 7]"
proof -
  have "\<forall>rc\<in>set DefaultRateLimitClasses. classOk rc" using default_classOk by blast
  then show ?thesis
    unfolding DefaultRateLimitClasses_def list.rel_inject list.set ball_simps
    by (intro conjI list.rel_intros burst_end; code_simp)
qed

lemma long_idle_negative:
  assumes "rc \<in> set DefaultRateLimitClasses" and "0 \<le> avg" and "avg \<le> MaxLevel rc"
    and "2 ^ 31 \<le> ms" and "ms \<le> 2 ^ 32 - 2 ^ 21 - 2 ^ 10" and "0 \<le> ns" and "ns < 1000000"
  shows "\<exists>new. CheckRateLimit t (t + (ms * 1000000 + ns)) rc avg lim =
    Some (RateLimitStatusDisconnect, new) \<and> new < 0"
proof -
  have ok: "classOk rc" and w: "1 \<le> WindowSize rc" "WindowSize rc \<le> 80" "0 < DisconnectLevel rc"
      "0 < MaxLevel rc"
    using assms(1) by (auto simp: DefaultRateLimitClasses_def classOk_def)
  note b = avg_bounds [OF ok assms(2,3)]
  let ?s = "avg * (WindowSize rc - 1) + (ms - 2 ^ 32)"
  have s: "- (2 ^ 31) \<le> ?s" "?s \<le> - 1024" using b assms(4,5) by auto
  have "80 div WindowSize rc \<le> (- ?s) div WindowSize rc" "1 \<le> 80 div WindowSize rc"
    using s w zdiv_mono1 [of 80 "- ?s" "WindowSize rc"] zdiv_mono1 [of "WindowSize rc" 80 "WindowSize rc"]
    by auto
  then have q: "?s sdiv WindowSize rc = - ((- ?s) div WindowSize rc)" "1 \<le> (- ?s) div WindowSize rc"
    using s w by (auto simp: signed_divide_int_def sgn_if)
  have "(- ?s) div WindowSize rc \<le> - ?s" using s w zdiv_mono2 [of "- ?s" 1 "WindowSize rc"] by auto
  then have i: "int32 ms = ms - 2 ^ 32" "int32 (WindowSize rc - 1) = WindowSize rc - 1"
    "int32 (avg * (WindowSize rc - 1)) = avg * (WindowSize rc - 1)" "int32 ?s = ?s"
    "int32 (?s sdiv WindowSize rc) = - ((- ?s) div WindowSize rc)"
    using b s w int32_wrap [OF assms(4)] assms(5) q by (auto intro!: int32_id)
  have "CheckRateLimit t (t + (ms * 1000000 + ns)) rc avg lim =
      Some (RateLimitStatusDisconnect, - ((- ?s) div WindowSize rc))"
    unfolding CheckRateLimit_def Let_def
    using elapsed_ms [of ms ns t] assms(4-7) i q w by (simp only:) auto
  with q show ?thesis by auto
qed

text \<open>After 25 days of silence the client is disconnected. The elapsed milliseconds are converted to 32
  bits: between 2147483648 and 4292869120 of them the level comes out negative, below every
  disconnect level, whatever it was before.\<close>
theorem long_idle_disconnects:
  assumes "rc \<in> set DefaultRateLimitClasses" and "0 \<le> avg" and "avg \<le> MaxLevel rc"
    and "2 ^ 31 \<le> ms" and "ms \<le> 2 ^ 32 - 2 ^ 21 - 2 ^ 10" and "0 \<le> ns" and "ns < 1000000"
  shows "\<exists>new. CheckRateLimit t (t + (ms * 1000000 + ns)) rc avg lim =
    Some (RateLimitStatusDisconnect, new) \<and> new < 0"
  using long_idle_negative [OF assms] .

lemma long_idle_disconnects_witness:
  "\<exists>new. CheckRateLimit 0 (0 + (2 ^ 31 * 1000000 + 0)) (DefaultRateLimitClasses ! 0) 6000 False =
    Some (RateLimitStatusDisconnect, new) \<and> new < 0"
  using long_idle_disconnects [of "DefaultRateLimitClasses ! 0" 6000 "2 ^ 31" 0 0 False]
  by (simp add: DefaultRateLimitClasses_def)

lemma All_Lookup:
  assumes "distinct (map fst rg)" and "\<forall>(fg, grp)\<in>set rg. distinct (map fst grp)"
  shows "(fg, sg, cid) \<in> set (SNACRateLimits_All rg) \<longleftrightarrow> RateClassLookup rg fg sg = Some cid"
proof -
  have "(fg, sg, cid) \<in> set (SNACRateLimits_All rg) \<longleftrightarrow> (\<exists>grp. (fg, grp) \<in> set rg \<and> (sg, cid) \<in> set grp)"
    by (force simp: SNACRateLimits_All_def)
  also have "\<dots> \<longleftrightarrow> (\<exists>grp. map_of rg fg = Some grp \<and> map_of grp sg = Some cid)"
    using assms by (auto simp: map_of_eq_Some_iff dest: map_of_SomeD; fastforce simp: map_of_eq_Some_iff)
  finally show ?thesis by (auto simp: RateClassLookup_def split: option.splits)
qed

definition limitsOk :: "SNACRateLimits \<Rightarrow> bool" where
  "limitsOk rg \<longleftrightarrow> distinct (map fst rg) \<and>
     list_all (\<lambda>(fg, grp). distinct (map fst grp) \<and> list_all (\<lambda>(sg, cid). cid \<in> {1, 2, 3, 4, 5}) grp) rg"

lemma default_limitsOk: "limitsOk (WithBENCOKeyDirRateLimits DefaultSNACRateLimits)"
  by code_simp

text \<open>The rate table is total over its codes and safe. With the key directory added, every pair it
  lists has a class from one to five, so that fetching the class never panics; the lookup answers
  exactly the pairs that the iterator lists; and adding the key directory changes no other food
  group.\<close>
theorem rate_table_safe:
  "(RateClassLookup (WithBENCOKeyDirRateLimits DefaultSNACRateLimits) fg sg = Some cid \<longrightarrow>
      RateLimitClasses_Get DefaultRateLimitClasses cid \<noteq> None) \<and>
   ((fg, sg, cid) \<in> set (SNACRateLimits_All (WithBENCOKeyDirRateLimits DefaultSNACRateLimits)) \<longleftrightarrow>
      RateClassLookup (WithBENCOKeyDirRateLimits DefaultSNACRateLimits) fg sg = Some cid) \<and>
   (fg \<noteq> BENCOKeyDir \<longrightarrow>
      RateClassLookup (WithBENCOKeyDirRateLimits DefaultSNACRateLimits) fg sg =
      RateClassLookup DefaultSNACRateLimits fg sg)"
proof -
  let ?rg = "WithBENCOKeyDirRateLimits DefaultSNACRateLimits"
  have d: "distinct (map fst ?rg)" "\<forall>(fg, grp)\<in>set ?rg. distinct (map fst grp)"
    and c: "\<forall>(fg, grp)\<in>set ?rg. \<forall>(sg, cid)\<in>set grp. cid \<in> {1, 2, 3, 4, 5}"
    using default_limitsOk by (auto simp: limitsOk_def list_all_iff split: prod.splits)
  have "RateLimitClasses_Get DefaultRateLimitClasses cid \<noteq> None" if "RateClassLookup ?rg fg sg = Some cid"
  proof -
    from that c have "cid \<in> {1, 2, 3, 4, 5}"
      by (auto simp: RateClassLookup_def split: option.splits dest!: map_of_SomeD)
    then show ?thesis by (auto simp: RateLimitClasses_Get_def DefaultRateLimitClasses_def)
  qed
  moreover have "fg \<noteq> BENCOKeyDir \<Longrightarrow> RateClassLookup ?rg fg sg = RateClassLookup DefaultSNACRateLimits fg sg"
    by (simp add: RateClassLookup_def WithBENCOKeyDirRateLimits_def update_conv')
  ultimately show ?thesis using All_Lookup [OF d] by blast
qed

lemma rate_table_safe_witness:
  "RateClassLookup (WithBENCOKeyDirRateLimits DefaultSNACRateLimits) ICBM ICBMChannelMsgToHost = Some 3 \<and>
   RateLimitClasses_Get DefaultRateLimitClasses 3 \<noteq> None"
proof -
  have "RateClassLookup (WithBENCOKeyDirRateLimits DefaultSNACRateLimits) ICBM ICBMChannelMsgToHost = Some 3"
    by code_simp
  with rate_table_safe [of ICBM ICBMChannelMsgToHost 3] show ?thesis by blast
qed

end
