(* ===== verification/Wire_Values.thy ===== *)
theory Wire_Values
  imports Wire_TLV Wire_Frames
begin

text \<open>
  Decoded values as Go code reads them: the fields of a struct value by position, numbers, strings
  and byte slices out of their values, and what a byte slice encodes to. Components that decode a
  message with the codec read its fields with these.
\<close>

fun asU8 :: "gval \<Rightarrow> byte" where "asU8 (VU8 w) = w" | "asU8 _ = 0"
fun asU16 :: "gval \<Rightarrow> u16" where "asU16 (VU16 w) = w" | "asU16 _ = 0"
fun asU32 :: "gval \<Rightarrow> u32" where "asU32 (VU32 w) = w" | "asU32 _ = 0"
fun asU64 :: "gval \<Rightarrow> u64" where "asU64 (VU64 w) = w" | "asU64 _ = 0"

fun asBytes :: "gval \<Rightarrow> bytes" where
  "asBytes (VSlice vs) = valBytes vs"
| "asBytes (VString s) = s"
| "asBytes _ = []"

definition field :: "nat \<Rightarrow> gval \<Rightarrow> gval" where
  "field k v = (case v of VStruct vs \<Rightarrow> if k < length vs then vs ! k else VOther | _ \<Rightarrow> VOther)"

section \<open>Lemmas\<close>

lemma valBytes_VU8 [simp]: "valBytes (map VU8 bs) = bs"
  by (simp add: valBytes_def comp_def)

lemma field_simps [simp]:
  "field 0 (VStruct (v # vs)) = v"
  "field (Suc k) (VStruct (v # vs)) = field k (VStruct vs)"
  "field (numeral n) (VStruct (v # vs)) = field (pred_numeral n) (VStruct vs)"
  by (simp_all add: field_def numeral_eq_Suc)

lemma concat_enc_bytes:
  "concat (map (encOf TU8 order noTag) (map VU8 bs)) = bs"
  by (induction bs) (simp_all add: encOf_def)

lemma fits_bytes: "list_all (fits TU8 noTag order) (map VU8 bs)"
  by (induction bs) simp_all

lemma binaryWrite_bytes: "concat (map (binaryWrite order) (map VU8 bs)) = bs"
  by (induction bs) simp_all

end
