(* ===== verification/Legacy_Crypt.thy ===== *)
theory Legacy_Crypt
  imports BENC_Prelude
begin

text \<open>
  The packet ciphers: \<open>server/icq_legacy/wire_legacy_crypt.go\<close> (the V3, V4 and V5 protocols of ICQ)
  and the password roasting of \<open>wire/user.go\<close>. Packets are changed in place in Go; here each
  routine answers the changed packet. The random numbers of a check code are arguments.
\<close>

section \<open>Tables\<close>

definition v5Table :: bytes where
  "v5Table = [
     0x59, 0x60, 0x37, 0x6B, 0x65, 0x62, 0x46, 0x48, 0x53, 0x61, 0x4C, 0x59, 0x60, 0x57, 0x5B, 0x3D,
     0x5E, 0x34, 0x6D, 0x36, 0x50, 0x3F, 0x6F, 0x67, 0x53, 0x61, 0x4C, 0x59, 0x40, 0x47, 0x63, 0x39,
     0x50, 0x5F, 0x5F, 0x3F, 0x6F, 0x47, 0x43, 0x69, 0x48, 0x33, 0x31, 0x64, 0x35, 0x5A, 0x4A, 0x42,
     0x56, 0x40, 0x67, 0x53, 0x41, 0x07, 0x6C, 0x49, 0x58, 0x3B, 0x4D, 0x46, 0x68, 0x43, 0x69, 0x48,
     0x33, 0x31, 0x44, 0x65, 0x62, 0x46, 0x48, 0x53, 0x41, 0x07, 0x6C, 0x69, 0x48, 0x33, 0x51, 0x54,
     0x5D, 0x4E, 0x6C, 0x49, 0x38, 0x4B, 0x55, 0x4A, 0x62, 0x46, 0x48, 0x33, 0x51, 0x34, 0x6D, 0x36,
     0x50, 0x5F, 0x5F, 0x5F, 0x3F, 0x6F, 0x47, 0x63, 0x59, 0x40, 0x67, 0x33, 0x31, 0x64, 0x35, 0x5A,
     0x6A, 0x52, 0x6E, 0x3C, 0x51, 0x34, 0x6D, 0x36, 0x50, 0x5F, 0x5F, 0x3F, 0x4F, 0x37, 0x4B, 0x35,
     0x5A, 0x4A, 0x62, 0x66, 0x58, 0x3B, 0x4D, 0x66, 0x58, 0x5B, 0x5D, 0x4E, 0x6C, 0x49, 0x58, 0x3B,
     0x4D, 0x66, 0x58, 0x3B, 0x4D, 0x46, 0x48, 0x53, 0x61, 0x4C, 0x59, 0x40, 0x67, 0x33, 0x31, 0x64,
     0x55, 0x6A, 0x32, 0x3E, 0x44, 0x45, 0x52, 0x6E, 0x3C, 0x31, 0x64, 0x55, 0x6A, 0x52, 0x4E, 0x6C,
     0x69, 0x48, 0x53, 0x61, 0x4C, 0x39, 0x30, 0x6F, 0x47, 0x63, 0x59, 0x60, 0x57, 0x5B, 0x3D, 0x3E,
     0x64, 0x35, 0x3A, 0x3A, 0x5A, 0x6A, 0x52, 0x4E, 0x6C, 0x69, 0x48, 0x53, 0x61, 0x6C, 0x49, 0x58,
     0x3B, 0x4D, 0x46, 0x68, 0x63, 0x39, 0x50, 0x5F, 0x5F, 0x3F, 0x6F, 0x67, 0x53, 0x41, 0x25, 0x41,
     0x3C, 0x51, 0x54, 0x3D, 0x5E, 0x54, 0x5D, 0x4E, 0x4C, 0x39, 0x50, 0x5F, 0x5F, 0x5F, 0x3F, 0x6F,
     0x47, 0x43, 0x69, 0x48, 0x33, 0x51, 0x54, 0x5D, 0x6E, 0x3C, 0x31, 0x64, 0x35, 0x5A, 0x00, 0x00]"

definition V4Table :: bytes where
  "V4Table = [
     0x0a, 0x5b, 0x31, 0x5d, 0x20, 0x59, 0x6f, 0x75, 0x20, 0x63, 0x61, 0x6e, 0x20, 0x6d, 0x6f, 0x64,
     0x69, 0x66, 0x79, 0x20, 0x74, 0x68, 0x65, 0x20, 0x73, 0x6f, 0x75, 0x6e, 0x64, 0x73, 0x20, 0x49,
     0x43, 0x51, 0x20, 0x6d, 0x61, 0x6b, 0x65, 0x73, 0x2e, 0x20, 0x4a, 0x75, 0x73, 0x74, 0x20, 0x73,
     0x65, 0x6c, 0x65, 0x63, 0x74, 0x20, 0x22, 0x53, 0x6f, 0x75, 0x6e, 0x64, 0x73, 0x22, 0x20, 0x66,
     0x72, 0x6f, 0x6d, 0x20, 0x74, 0x68, 0x65, 0x20, 0x22, 0x70, 0x72, 0x65, 0x66, 0x65, 0x72, 0x65,
     0x6e, 0x63, 0x65, 0x73, 0x2f, 0x6d, 0x69, 0x73, 0x63, 0x22, 0x20, 0x69, 0x6e, 0x20, 0x49, 0x43,
     0x51, 0x20, 0x6f, 0x72, 0x20, 0x66, 0x72, 0x6f, 0x6d, 0x20, 0x74, 0x68, 0x65, 0x20, 0x22, 0x53,
     0x6f, 0x75, 0x6e, 0x64, 0x73, 0x22, 0x20, 0x69, 0x6e, 0x20, 0x74, 0x68, 0x65, 0x20, 0x63, 0x6f,
     0x6e, 0x74, 0x72, 0x6f, 0x6c, 0x20, 0x70, 0x61, 0x6e, 0x65, 0x6c, 0x2e, 0x20, 0x43, 0x72, 0x65,
     0x64, 0x69, 0x74, 0x3a, 0x20, 0x45, 0x72, 0x61, 0x6e, 0x0a, 0x5b, 0x32, 0x5d, 0x20, 0x43, 0x61,
     0x6e, 0x27, 0x74, 0x20, 0x72, 0x65, 0x6d, 0x65, 0x6d, 0x62, 0x65, 0x72, 0x20, 0x77, 0x68, 0x61,
     0x74, 0x20, 0x77, 0x61, 0x73, 0x20, 0x73, 0x61, 0x69, 0x64, 0x3f, 0x20, 0x20, 0x44, 0x6f, 0x75,
     0x62, 0x6c, 0x65, 0x2d, 0x63, 0x6c, 0x69, 0x63, 0x6b, 0x20, 0x6f, 0x6e, 0x20, 0x61, 0x20, 0x75,
     0x73, 0x65, 0x72, 0x20, 0x74, 0x6f, 0x20, 0x67, 0x65, 0x74, 0x20, 0x61, 0x20, 0x64, 0x69, 0x61,
     0x6c, 0x6f, 0x67, 0x20, 0x6f, 0x66, 0x20, 0x61, 0x6c, 0x6c, 0x20, 0x6d, 0x65, 0x73, 0x73, 0x61,
     0x67, 0x65, 0x73, 0x20, 0x73, 0x65, 0x6e, 0x74, 0x20, 0x69, 0x6e, 0x63, 0x6f, 0x6d, 0x69, 0x6e]"

text \<open>\<open>packet[i] ^= b\<close> under the guard \<open>i < len(packet)\<close>, and \<open>binary.LittleEndian.PutUint32(packet[i:], x)\<close>.\<close>

definition xorAt :: "nat \<Rightarrow> byte \<Rightarrow> bytes \<Rightarrow> bytes" where
  "xorAt i b packet = (if i < length packet then packet[i := packet ! i XOR b] else packet)"

definition putUint32At :: "nat \<Rightarrow> u32 \<Rightarrow> bytes \<Rightarrow> bytes" where
  "putUint32At i x packet =
     packet[i := ucast x, i + 1 := ucast (drop_bit 8 x), i + 2 := ucast (drop_bit 16 x),
       i + 3 := ucast (drop_bit 24 x)]"

section \<open>V5\<close>

definition getV5Key :: "bytes \<Rightarrow> nat \<Rightarrow> u32" where
  "getV5Key packet packetLen =
     (if length packet < 0x18 then 0
      else
        let check = word_of_nat (getUint LittleEndian (take 4 (drop 0x14 packet)));
            A1 = drop_bit 0x0C (check AND 0x0001F000);
            A2 = drop_bit 0x01 (check AND 0x07C007C0);
            A3 = push_bit 0x0A (check AND 0x003E0001);
            A4 = drop_bit 0x10 (check AND 0xF8000000);
            A5 = push_bit 0x0F (check AND 0x0000083E);
            descrambledCheck = A5 + A1 + A2 + A3 + A4
        in word_of_nat packetLen * 0x68656C6C + descrambledCheck)"

definition decryptV5Step :: "u32 \<Rightarrow> nat \<Rightarrow> bytes \<Rightarrow> bytes" where
  "decryptV5Step key i packet =
     (let k = key + ucast (v5Table ! (i mod 256));
          p1 = (if i \<noteq> 0x16
                then xorAt (i + 1) (ucast (drop_bit 8 (k AND 0x0000FF00)))
                       (xorAt i (ucast (k AND 0x000000FF)) packet)
                else packet)
      in if i \<noteq> 0x12
         then xorAt (i + 3) (ucast (drop_bit 24 (k AND 0xFF000000)))
                (xorAt (i + 2) (ucast (drop_bit 16 (k AND 0x00FF0000))) p1)
         else p1)"

lemma length_xorAt [simp]: "length (xorAt i b p) = length p"
  by (simp add: xorAt_def)

lemma length_decryptV5Step [simp]: "length (decryptV5Step key i p) = length p"
  by (simp add: decryptV5Step_def Let_def)

function decryptV5Loop :: "u32 \<Rightarrow> nat \<Rightarrow> bytes \<Rightarrow> bytes" where
  "decryptV5Loop key i packet =
     (if i < length packet + 3 then decryptV5Loop key (i + 4) (decryptV5Step key i packet) else packet)"
  by pat_completeness auto
termination by (relation "measure (\<lambda>(key, i, p). length p + 3 - i)") auto

declare decryptV5Loop.simps [simp del]

definition DecryptV5Packet :: "bytes \<Rightarrow> u32 \<Rightarrow> bytes" where
  "DecryptV5Packet packet sessionID =
     (if length packet < 0x18 then packet
      else decryptV5Loop (getV5Key packet (length packet)) 0x0A packet)"

text \<open>
  \<open>calculateV5CheckCode\<close>: \<open>r1\<close> is \<open>rand.Intn(0x10)\<close> and \<open>r2\<close> is \<open>rand.Intn(0xFF)\<close>. The code reads
  \<open>packet[r1]\<close> after it has only checked for ten bytes: \<open>None\<close> is the index panic.
\<close>

definition calculateV5CheckCode :: "nat \<Rightarrow> nat \<Rightarrow> bytes \<Rightarrow> u32 option" where
  "calculateV5CheckCode r1 r2 packet =
     (if length packet < 10 then Some 0
      else if length packet \<le> r1 then None
      else
        let number1 = word_of_nat (getUint BigEndian [packet ! 8, packet ! 4, packet ! 2, packet ! 6]);
            number2 = word_of_nat (getUint BigEndian
              [word_of_nat r1, packet ! r1, word_of_nat r2, v5Table ! r2]) XOR 0x00FF00FF
        in Some (number1 XOR number2))"

function encryptV5Loop :: "u32 \<Rightarrow> nat \<Rightarrow> bytes \<Rightarrow> bytes" where
  "encryptV5Loop key pos packet =
     (if pos < length packet then
        let slab = min 4 (length packet - pos);
            tmpUint = word_of_nat (getUint LittleEndian (take slab (drop pos packet))) XOR
              (key + ucast (v5Table ! (pos mod 256)));
            out = map (\<lambda>rightI. ucast (drop_bit (8 * rightI) tmpUint)) [0..<slab]
        in encryptV5Loop key (pos + slab) (take pos packet @ out @ drop (pos + slab) packet)
      else packet)"
  by pat_completeness auto
termination by (relation "measure (\<lambda>(key, pos, p). length p - pos)") auto

declare encryptV5Loop.simps [simp del]

definition EncryptV5Packet :: "nat \<Rightarrow> nat \<Rightarrow> bytes \<Rightarrow> u32 \<Rightarrow> bytes option" where
  "EncryptV5Packet r1 r2 packet sessionID =
     (if length packet < 0x18 then Some packet
      else (case calculateV5CheckCode r1 r2 packet of
          None \<Rightarrow> None
        | Some cc \<Rightarrow>
            let key = word_of_nat (length packet) * 0x68656C6C + cc
            in Some (encryptV5Loop key 0x0A (putUint32At 0x14 cc packet))))"

definition AddV5ServerCheckcode :: "nat \<Rightarrow> nat \<Rightarrow> bytes \<Rightarrow> bytes option" where
  "AddV5ServerCheckcode r1 r2 packet =
     (if length packet < 21 then Some packet
      else (case calculateV5CheckCode r1 r2 packet of
          None \<Rightarrow> None
        | Some cc \<Rightarrow> Some (putUint32At 0x11 cc packet)))"

definition V5CheckCode :: "nat \<Rightarrow> nat \<Rightarrow> bytes \<Rightarrow> u32 option" where
  "V5CheckCode r1 r2 packet = calculateV5CheckCode r1 r2 packet"

definition ScramblePassword :: "bytes \<Rightarrow> bytes" where
  "ScramblePassword password =
     (if length password = 0 then []
      else map (\<lambda>i. password ! i XOR v5Table ! (i mod 256)) [0..<length password])"

definition UnscramblePassword :: "bytes \<Rightarrow> bytes" where
  "UnscramblePassword scrambled =
     (if length scrambled = 0 then []
      else map (\<lambda>i. scrambled ! i XOR v5Table ! (i mod 256)) [0..<length scrambled])"

section \<open>V4 and V3\<close>

text \<open>\<open>r1\<close> is \<open>rand.Intn(len(packet)-5)\<close>, \<open>r2\<close> is \<open>rand.Intn(256)\<close>.\<close>

definition V4CheckCode :: "nat \<Rightarrow> nat \<Rightarrow> bytes \<Rightarrow> u32" where
  "V4CheckCode r1_0 r2 packet =
     (if length packet < 10 then 0
      else
        let chk1 = push_bit 24 (ucast (packet ! 8)) OR push_bit 16 (ucast (packet ! 4)) OR
              push_bit 8 (ucast (packet ! 2)) OR ucast (packet ! 6);
            r1 = r1_0 + 1;
            chk2 = push_bit 24 (word_of_nat r1) OR push_bit 16 (ucast (packet ! r1)) OR
              push_bit 8 (word_of_nat r2) OR ucast (v5Table ! r2)
        in chk1 XOR chk2)"

definition V4EncryptionKey :: "nat \<Rightarrow> u32 \<Rightarrow> u32" where
  "V4EncryptionKey packetLen checkCode = word_of_nat packetLen * 0x66756B65 + checkCode"

fun encryptV4Loop :: "bytes \<Rightarrow> nat list \<Rightarrow> bytes \<Rightarrow> bytes" where
  "encryptV4Loop keyBytes [] packet = packet"
| "encryptV4Loop keyBytes (i # is) packet =
     (let idx = 4 + i in
      if length packet \<le> idx then packet
      else
        let tableIdx = word_of_nat (i mod 256) XOR keyBytes ! (i mod 4)
        in encryptV4Loop keyBytes is (xorAt idx (v5Table ! unat tableIdx) packet))"

definition EncryptV4Packet :: "bytes \<Rightarrow> u32 \<Rightarrow> bytes" where
  "EncryptV4Packet packet key =
     (if length packet < 8 then packet
      else
        let encryptLen = (length packet - 4) div 4;
            encryptLen = (if encryptLen < 1 then 1 else encryptLen)
        in encryptV4Loop (putUint LittleEndian 4 (unat key)) [0..<encryptLen] packet)"

definition DecryptV4Packet :: "bytes \<Rightarrow> u32 \<Rightarrow> bytes" where
  "DecryptV4Packet packet key = EncryptV4Packet packet key"

definition v3Checkcode :: "bytes \<Rightarrow> u32" where
  "v3Checkcode packet =
     (let checkA = push_bit 24 (ucast (packet ! 8)) OR push_bit 16 (ucast (packet ! 4)) OR
            push_bit 8 (ucast (packet ! 2)) OR ucast (packet ! 6);
          tableOffset = packet ! 0 XOR packet ! 2 XOR packet ! 4 XOR packet ! 6;
          checkB = (push_bit 8 (ucast tableOffset) OR ucast (v5Table ! unat tableOffset)) XOR 0x00FF00FF
      in checkA XOR checkB)"

definition SetV3Checkcode :: "bytes \<Rightarrow> bytes" where
  "SetV3Checkcode packet =
     (if length packet < 16 then packet else putUint32At 12 (v3Checkcode packet) packet)"

section \<open>Roasting\<close>

definition roastPass :: "bytes \<Rightarrow> bytes \<Rightarrow> bytes" where
  "roastPass roastedPass roastTable =
     map (\<lambda>i. roastedPass ! i XOR roastTable ! (i mod length roastTable)) [0..<length roastedPass]"

definition RoastOSCARPassword :: "bytes \<Rightarrow> bytes" where
  "RoastOSCARPassword roastedPass = roastPass roastedPass
     [0xF3, 0x26, 0x81, 0xC4, 0x39, 0x86, 0xDB, 0x92,
      0x71, 0xA3, 0xB9, 0xE6, 0x53, 0x7A, 0x95, 0x7C]"

definition RoastKerberosPassword :: "bytes \<Rightarrow> bytes" where
  "RoastKerberosPassword roastedPass = roastPass roastedPass
     [0x76, 0x91, 0xc5, 0xe7, 0xd0, 0xd9, 0x95, 0xdd,
      0x9e, 0x2F, 0xea, 0xd8, 0x6B, 0x21, 0xc2, 0xbc]"

definition RoastOSCARJavaPassword :: "bytes \<Rightarrow> bytes" where
  "RoastOSCARJavaPassword roastedPass = roastPass roastedPass
     [0xF3, 0xB3, 0x6C, 0x99, 0x95, 0x3F, 0xAC, 0xB6,
      0xC5, 0xFA, 0x6B, 0x63, 0x69, 0x6C, 0xC3, 0x9A]"

text \<open>The bytes of \<open>"Tic/Toc"\<close>.\<close>

definition RoastTOCPassword :: "bytes \<Rightarrow> bytes" where
  "RoastTOCPassword roastedPass = roastPass roastedPass [0x54, 0x69, 0x63, 0x2F, 0x54, 0x6F, 0x63]"

section \<open>Every cipher as a keystream\<close>

lemma xor_stream_map:
  "map (\<lambda>i. bs ! i XOR key i) [0..<length bs] = xor_stream key bs"
  by (rule nth_equalityI) simp_all

lemma roastPass_stream: "roastPass p t = xor_stream (\<lambda>i. t ! (i mod length t)) p"
  by (simp add: roastPass_def xor_stream_map)

lemma ScramblePassword_stream: "ScramblePassword p = xor_stream (\<lambda>i. v5Table ! (i mod 256)) p"
  using xor_stream_map [of p "\<lambda>i. v5Table ! (i mod 256)"] by (auto simp: ScramblePassword_def)

lemma UnscramblePassword_stream: "UnscramblePassword p = xor_stream (\<lambda>i. v5Table ! (i mod 256)) p"
  using xor_stream_map [of p "\<lambda>i. v5Table ! (i mod 256)"] by (auto simp: UnscramblePassword_def)

interpretation roast: involutive_cipher "\<lambda>p. roastPass p t" for t
  by unfold_locales (simp_all add: roastPass_stream)

lemma nth_xorAt: "j < length p \<Longrightarrow> xorAt i b p ! j = (if j = i then p ! j XOR b else p ! j)"
  by (auto simp: xorAt_def)

text \<open>The byte the V5 loop applies at offset \<open>off\<close> of the group that starts at \<open>i\<close>; the check code is skipped.\<close>

definition v5StreamAt :: "u32 \<Rightarrow> nat \<Rightarrow> nat \<Rightarrow> byte" where
  "v5StreamAt key i off =
     (let k = key + ucast (v5Table ! (i mod 256)) in
      if off < 2 then
        (if i = 0x16 then 0 else if off = 0 then ucast (k AND 0x000000FF) else ucast (drop_bit 8 (k AND 0x0000FF00)))
      else
        (if i = 0x12 then 0 else if off = 2 then ucast (drop_bit 16 (k AND 0x00FF0000))
         else ucast (drop_bit 24 (k AND 0xFF000000))))"

lemma nth_decryptV5Step:
  "j < length p \<Longrightarrow> decryptV5Step key i p ! j =
     (if i \<le> j \<and> j < i + 4 then p ! j XOR v5StreamAt key i (j - i) else p ! j)"
proof -
  assume j: "j < length p"
  have "j < i \<or> i + 4 \<le> j \<or> j = i \<or> j = i + 1 \<or> j = i + 2 \<or> j = i + 3" by arith
  then show ?thesis
    using j by (elim disjE) (simp_all add: decryptV5Step_def v5StreamAt_def Let_def nth_xorAt)
qed

lemma length_decryptV5Loop [simp]: "length (decryptV5Loop key i p) = length p"
  by (induction key i p rule: decryptV5Loop.induct) (subst decryptV5Loop.simps, simp)

lemma nth_decryptV5Loop:
  "j < length p \<Longrightarrow> decryptV5Loop key i p ! j =
     (if j < i then p ! j else p ! j XOR v5StreamAt key (i + 4 * ((j - i) div 4)) ((j - i) mod 4))"
proof (induction key i p rule: decryptV5Loop.induct)
  case IH: (1 key i p)
  show ?case
  proof (cases "i < length p + 3")
    case False
    with IH(2) show ?thesis by (subst decryptV5Loop.simps) simp
  next
    case True
    consider "j < i + 4" | d where "j = i + 4 + d" by (metis le_Suc_ex not_le)
    then show ?thesis
    proof cases
      case 1
      with IH True show ?thesis
        by (subst decryptV5Loop.simps) (simp add: nth_decryptV5Step)
    next
      case 2
      then have "(j - i) div 4 = 1 + (j - (i + 4)) div 4" "(j - i) mod 4 = (j - (i + 4)) mod 4"
        by simp_all
      with 2 IH True show ?thesis
        by (subst decryptV5Loop.simps) (simp add: nth_decryptV5Step add.assoc)
    qed
  qed
qed

definition v5Stream :: "u32 \<Rightarrow> nat \<Rightarrow> byte" where
  "v5Stream key j = (if j < 10 then 0 else v5StreamAt key (10 + 4 * ((j - 10) div 4)) ((j - 10) mod 4))"

lemma DecryptV5Packet_stream:
  "0x18 \<le> length p \<Longrightarrow>
     DecryptV5Packet p s = xor_stream (v5Stream (getV5Key p (length p))) p"
  by (rule nth_equalityI) (auto simp: DecryptV5Packet_def nth_decryptV5Loop v5Stream_def)

lemma v5Stream_checkcode: "j \<in> {0x14..<0x18} \<Longrightarrow> v5Stream key j = 0"
proof -
  assume "j \<in> {0x14..<0x18}"
  then have "j = 20 \<or> j = 21 \<or> j = 22 \<or> j = 23" by auto
  then show ?thesis by (elim disjE) (simp_all add: v5Stream_def v5StreamAt_def)
qed

lemma DecryptV5Packet_key:
  assumes "0x18 \<le> length p"
  shows "getV5Key (DecryptV5Packet p s) (length p) = getV5Key p (length p)"
proof -
  have "take 4 (drop 0x14 (DecryptV5Packet p s)) = take 4 (drop 0x14 p)"
    using assms v5Stream_checkcode
    by (intro nth_equalityI) (auto simp: DecryptV5Packet_stream)
  moreover have "length (DecryptV5Packet p s) = length p"
    using assms by (simp add: DecryptV5Packet_stream)
  ultimately show ?thesis by (simp only: getV5Key_def)
qed

lemma DecryptV5Packet_twice: "DecryptV5Packet (DecryptV5Packet p s) s' = p"
proof (cases "0x18 \<le> length p")
  case True
  let ?q = "DecryptV5Packet p s"
  have q: "?q = xor_stream (v5Stream (getV5Key p (length p))) p" and l: "length ?q = length p"
    using True by (simp_all add: DecryptV5Packet_stream)
  have "DecryptV5Packet ?q s' = xor_stream (v5Stream (getV5Key p (length p))) ?q"
    using True DecryptV5Packet_key [OF True] by (simp add: DecryptV5Packet_stream l)
  then show ?thesis by (simp only: q xor_stream_twice)
qed (simp add: DecryptV5Packet_def)

lemma length_DecryptV5Packet [simp]: "length (DecryptV5Packet p s) = length p"
  by (simp add: DecryptV5Packet_def)

interpretation v5: involutive_cipher "\<lambda>p. DecryptV5Packet p s" for s
  by unfold_locales (simp_all add: DecryptV5Packet_twice)

lemma length_encryptV4Loop [simp]: "length (encryptV4Loop kb is p) = length p"
  by (induction kb "is" p rule: encryptV4Loop.induct) (simp_all add: Let_def)

lemma nth_encryptV4Loop:
  "j < length p \<Longrightarrow> encryptV4Loop kb [a..<b] p ! j =
     (if 4 + a \<le> j \<and> j < 4 + b
      then p ! j XOR v5Table ! unat (word_of_nat ((j - 4) mod 256) XOR kb ! ((j - 4) mod 4)) else p ! j)"
proof (induction "b - a" arbitrary: a p)
  case (Suc n)
  then have c: "[a..<b] = a # [Suc a..<b]" and lt: "a < b" by (simp_all add: upt_conv_Cons)
  show ?case
  proof (cases "length p \<le> 4 + a")
    case True
    with c Suc.prems show ?thesis by simp
  next
    case False
    let ?p = "xorAt (4 + a) (v5Table ! unat (word_of_nat (a mod 256) XOR kb ! (a mod 4))) p"
    have "encryptV4Loop kb [a..<b] p ! j = encryptV4Loop kb [Suc a..<b] ?p ! j"
      using False by (simp add: c Let_def)
    also have "\<dots> = (if 4 + Suc a \<le> j \<and> j < 4 + b
        then ?p ! j XOR v5Table ! unat (word_of_nat ((j - 4) mod 256) XOR kb ! ((j - 4) mod 4)) else ?p ! j)"
      using Suc.hyps Suc.prems by (intro Suc.hyps(1)) auto
    finally show ?thesis using lt Suc.prems by (auto simp: nth_xorAt)
  qed
qed auto

text \<open>The bytes \<open>EncryptV4Packet\<close> changes: the first quarter behind the offset four, one byte at least.\<close>

definition v4Length :: "bytes \<Rightarrow> nat" where
  "v4Length p = max 1 ((length p - 4) div 4)"

definition v4Stream :: "nat \<Rightarrow> u32 \<Rightarrow> nat \<Rightarrow> byte" where
  "v4Stream n key j =
     (if 4 \<le> j \<and> j < 4 + n
      then v5Table ! unat (word_of_nat ((j - 4) mod 256) XOR putUint LittleEndian 4 (unat key) ! ((j - 4) mod 4))
      else 0)"

lemma EncryptV4Packet_stream:
  "8 \<le> length p \<Longrightarrow> EncryptV4Packet p key = xor_stream (v4Stream (v4Length p) key) p"
  by (rule nth_equalityI)
    (auto simp: EncryptV4Packet_def Let_def v4Length_def v4Stream_def nth_encryptV4Loop max_def)

lemma length_EncryptV4Packet [simp]: "length (EncryptV4Packet p key) = length p"
  by (simp add: EncryptV4Packet_def Let_def)

interpretation v4: involutive_cipher "\<lambda>p. EncryptV4Packet p key" for key
proof unfold_locales
  fix p
  show "EncryptV4Packet (EncryptV4Packet p key) key = p"
  proof (cases "8 \<le> length p")
    case True
    then have "v4Length (EncryptV4Packet p key) = v4Length p" by (simp add: v4Length_def)
    with True show ?thesis by (simp add: EncryptV4Packet_stream)
  qed (simp add: EncryptV4Packet_def)
qed simp

lemma length_putUint32At [simp]: "length (putUint32At i x p) = length p"
  by (simp add: putUint32At_def)

lemma nth_putUint32At:
  "i + 3 < length p \<Longrightarrow> j < length p \<Longrightarrow> putUint32At i x p ! j =
     (if i \<le> j \<and> j < i + 4 then ucast (drop_bit (8 * (j - i)) x) else p ! j)"
proof -
  assume a: "i + 3 < length p" "j < length p"
  have "j < i \<or> i + 4 \<le> j \<or> j = i \<or> j = i + 1 \<or> j = i + 2 \<or> j = i + 3" by arith
  with a show ?thesis by (elim disjE) (simp_all add: putUint32At_def nth_list_update)
qed

section \<open>Properties\<close>

text \<open>The V5 cipher undoes itself, for every packet and whatever session id is passed: the loop
  skips the check code that the key comes from. It never changes the length, the ten header bytes
  or the check code.\<close>
theorem DecryptV5Packet_involution:
  "DecryptV5Packet (DecryptV5Packet packet sessionID) sessionID' = packet \<and>
   length (DecryptV5Packet packet sessionID) = length packet \<and>
   take 10 (DecryptV5Packet packet sessionID) = take 10 packet \<and>
   take 4 (drop 0x14 (DecryptV5Packet packet sessionID)) = take 4 (drop 0x14 packet)"
proof (cases "0x18 \<le> length packet")
  case True
  have "take 10 (DecryptV5Packet packet sessionID) = take 10 packet"
    using True by (intro nth_equalityI) (auto simp: DecryptV5Packet_stream v5Stream_def)
  moreover have "take 4 (drop 0x14 (DecryptV5Packet packet sessionID)) = take 4 (drop 0x14 packet)"
    using True v5Stream_checkcode by (intro nth_equalityI) (auto simp: DecryptV5Packet_stream)
  ultimately show ?thesis by (simp add: DecryptV5Packet_twice)
qed (simp add: DecryptV5Packet_def)

text \<open>The V4 cipher undoes itself under the same key, and it only touches the first quarter of the
  packet behind offset four (at least one byte), so that the length and every other byte stay.\<close>
theorem EncryptV4Packet_involution:
  "DecryptV4Packet (EncryptV4Packet packet key) key = packet \<and>
   length (EncryptV4Packet packet key) = length packet \<and>
   take 4 (EncryptV4Packet packet key) = take 4 packet \<and>
   drop (4 + max 1 ((length packet - 4) div 4)) (EncryptV4Packet packet key) =
     drop (4 + max 1 ((length packet - 4) div 4)) packet"
proof (cases "8 \<le> length packet")
  case True
  have "take 4 (EncryptV4Packet packet key) = take 4 packet"
    "drop (4 + max 1 ((length packet - 4) div 4)) (EncryptV4Packet packet key) =
       drop (4 + max 1 ((length packet - 4) div 4)) packet"
    using True by (intro nth_equalityI; simp add: EncryptV4Packet_stream v4Stream_def v4Length_def)+
  then show ?thesis by (simp add: DecryptV4Packet_def v4.crypt_crypt)
qed (simp add: EncryptV4Packet_def DecryptV4Packet_def)

text \<open>Roasting a password twice is the identity for each of the four client tables, no two passwords
  roast to the same bytes, and the V4/V5 login password is unscrambled to what was scrambled.\<close>
theorem roasting_involution:
  "RoastOSCARPassword (RoastOSCARPassword p) = p \<and> RoastKerberosPassword (RoastKerberosPassword p) = p \<and>
   RoastOSCARJavaPassword (RoastOSCARJavaPassword p) = p \<and> RoastTOCPassword (RoastTOCPassword p) = p \<and>
   (RoastOSCARPassword p = RoastOSCARPassword q \<longleftrightarrow> p = q) \<and>
   UnscramblePassword (ScramblePassword p) = p"
  using roast.crypt_crypt roast.crypt_inject
  by (auto simp: RoastOSCARPassword_def RoastKerberosPassword_def RoastOSCARJavaPassword_def
      RoastTOCPassword_def ScramblePassword_stream UnscramblePassword_stream)

text \<open>A V5 server packet is stamped safely. For every draw of the random numbers and every packet of
  at least 21 bytes the check code is computed without an index panic, it changes the bytes 17 to 20
  and nothing else, and the check code of the stamped packet is the one stamped into it.\<close>
theorem AddV5ServerCheckcode_correct:
  assumes "21 \<le> length packet" and "r1 < 0x10"
  shows "\<exists>out cc. AddV5ServerCheckcode r1 r2 packet = Some out \<and> length out = length packet \<and>
    take 17 out = take 17 packet \<and> drop 21 out = drop 21 packet \<and>
    calculateV5CheckCode r1 r2 out = Some cc \<and>
    take 4 (drop 17 out) = map (\<lambda>i. ucast (drop_bit (8 * i) cc)) [0..<4]"
proof -
  obtain cc where cc: "calculateV5CheckCode r1 r2 packet = Some cc"
    using assms by (simp add: calculateV5CheckCode_def Let_def)
  let ?out = "putUint32At 0x11 cc packet"
  have "?out ! j = packet ! j" if "j < 17" for j
    using assms that by (simp add: nth_putUint32At)
  then have "calculateV5CheckCode r1 r2 ?out = Some cc"
    using assms cc by (simp add: calculateV5CheckCode_def Let_def)
  moreover have "take 17 ?out = take 17 packet" "drop 21 ?out = drop 21 packet"
    "take 4 (drop 17 ?out) = map (\<lambda>i. ucast (drop_bit (8 * i) cc)) [0..<4]"
    using assms by (intro nth_equalityI; simp add: nth_putUint32At)+
  moreover have "AddV5ServerCheckcode r1 r2 packet = Some ?out"
    using assms cc by (simp add: AddV5ServerCheckcode_def)
  ultimately show ?thesis by auto
qed

lemma AddV5ServerCheckcode_correct_witness:
  "\<exists>out cc. AddV5ServerCheckcode 3 9 (replicate 24 7) = Some out \<and>
     calculateV5CheckCode 3 9 out = Some cc \<and>
     take 4 (drop 17 out) = map (\<lambda>i. ucast (drop_bit (8 * i) cc)) [0..<4]"
  using AddV5ServerCheckcode_correct [of "replicate 24 7" 3 9] by auto

text \<open>\<open>V5CheckCode\<close> checks for ten bytes but reads one of the first sixteen: with 10 to 15 bytes there
  is a draw of the random number that panics, with fewer or more there is none.\<close>
theorem V5CheckCode_panics:
  "(\<exists>r1<0x10. V5CheckCode r1 r2 packet = None) \<longleftrightarrow> 10 \<le> length packet \<and> length packet < 0x10"
  by (auto simp: V5CheckCode_def calculateV5CheckCode_def Let_def intro: exI [of _ "15 :: nat"])

end
