(* ===== verification/State_ScreenName.thy ===== *)
theory State_ScreenName
  imports BENC_Prelude
begin

text \<open>
  The screen names of \<open>state/user.go\<close>: the normal form that identifies an account
  (\<open>IdentScreenName\<close>), the form the user typed (\<open>DisplayScreenName\<close>), and the checks of both kinds
  of account name. Strings are Go strings, so byte lists; \<open>range\<close> over a string decodes UTF-8.
  The tables of the \<open>unicode\<close> package beyond ASCII, and the \<open>ed25519\<close> verification that other
  components use, are parameters of the model, gathered in the record \<open>platform\<close>.
\<close>

section \<open>What the platform provides\<close>

record platform =
  ed25519_Verify :: "bytes \<Rightarrow> bytes \<Rightarrow> bytes \<Rightarrow> bool"
  unicodeToLower :: "bytes \<Rightarrow> bytes"
  unicodeIsLetter :: "nat \<Rightarrow> bool"
  unicodeIsDigit :: "nat \<Rightarrow> bool"

text \<open>A concrete platform, on which properties are evaluated: an \<open>ed25519\<close> stand-in that accepts one
  signature per key, and identity beyond ASCII.\<close>

definition samplePlatform :: platform where
  "samplePlatform = \<lparr>ed25519_Verify = (\<lambda>key m sig. m \<noteq> [] \<and> sig = key @ key),
     unicodeToLower = (\<lambda>s. s), unicodeIsLetter = (\<lambda>r. False), unicodeIsDigit = (\<lambda>r. False)\<rparr>"

definition asciiBytes :: "string \<Rightarrow> bytes" where
  "asciiBytes s = map (\<lambda>c. word_of_nat (of_char c)) s"

definition isASCII :: "bytes \<Rightarrow> bool" where
  "isASCII s = list_all (\<lambda>b. b < 0x80) s"

definition asciiLower :: "byte \<Rightarrow> byte" where
  "asciiLower b = (if 0x41 \<le> b \<and> b \<le> 0x5A then b + 0x20 else b)"

text \<open>\<open>strings.ToLower\<close>: the ASCII branch of the library, else \<open>unicode.ToLower\<close> rune by rune.\<close>

definition strings_ToLower :: "platform \<Rightarrow> bytes \<Rightarrow> bytes" where
  "strings_ToLower P s = (if isASCII s then map asciiLower s else unicodeToLower P s)"

definition isLetter :: "platform \<Rightarrow> nat \<Rightarrow> bool" where
  "isLetter P r =
     (if r < 0x80 then 0x41 \<le> r \<and> r \<le> 0x5A \<or> 0x61 \<le> r \<and> r \<le> 0x7A else unicodeIsLetter P r)"

definition isDigit :: "platform \<Rightarrow> nat \<Rightarrow> bool" where
  "isDigit P r = (if r < 0x80 then 0x30 \<le> r \<and> r \<le> 0x39 else unicodeIsDigit P r)"

text \<open>\<open>range\<close> over a string: one rune and its width; an invalid byte is U+FFFD of width 1.\<close>

definition cont :: "bytes \<Rightarrow> nat \<Rightarrow> nat \<Rightarrow> nat \<Rightarrow> bool" where
  "cont s k lo hi \<longleftrightarrow> k < length s \<and> lo \<le> unat (s ! k) \<and> unat (s ! k) \<le> hi"

definition decodeRune :: "bytes \<Rightarrow> nat \<times> nat" where
  "decodeRune s =
     (let b = unat (s ! 0); c = (\<lambda>k. unat (s ! k) mod 0x40) in
      if b < 0x80 then (b, 1)
      else if 0xC2 \<le> b \<and> b \<le> 0xDF \<and> cont s 1 0x80 0xBF then ((b mod 0x20) * 0x40 + c 1, 2)
      else if 0xE0 \<le> b \<and> b \<le> 0xEF
        \<and> cont s 1 (if b = 0xE0 then 0xA0 else 0x80) (if b = 0xED then 0x9F else 0xBF)
        \<and> cont s 2 0x80 0xBF
      then ((b mod 0x10) * 0x1000 + c 1 * 0x40 + c 2, 3)
      else if 0xF0 \<le> b \<and> b \<le> 0xF4
        \<and> cont s 1 (if b = 0xF0 then 0x90 else 0x80) (if b = 0xF4 then 0x8F else 0xBF)
        \<and> cont s 2 0x80 0xBF \<and> cont s 3 0x80 0xBF
      then ((b mod 0x08) * 0x40000 + c 1 * 0x1000 + c 2 * 0x40 + c 3, 4)
      else (0xFFFD, 1))"

function runes :: "bytes \<Rightarrow> nat list" where
  "runes s = (if s = [] then [] else fst (decodeRune s) # runes (drop (max 1 (snd (decodeRune s))) s))"
  by pat_completeness auto
termination by (relation "measure length") auto

declare runes.simps [simp del]

section \<open>Normal form\<close>

type_synonym IdentScreenName = bytes
type_synonym DisplayScreenName = bytes

definition NewIdentScreenName :: "platform \<Rightarrow> bytes \<Rightarrow> IdentScreenName" where
  "NewIdentScreenName P screenName = strings_ToLower P (removeAll 0x20 screenName)"

definition DisplayScreenName_IdentScreenName :: "platform \<Rightarrow> DisplayScreenName \<Rightarrow> IdentScreenName" where
  "DisplayScreenName_IdentScreenName P s = NewIdentScreenName P s"

section \<open>Account name checks\<close>

datatype nameError = ErrAIMHandleInvalidFormat | ErrAIMHandleLength | ErrICQUINInvalidFormat

fun countHandle :: "platform \<Rightarrow> nat list \<Rightarrow> nat \<Rightarrow> nameError + nat" where
  "countHandle P [] c = Inr c"
| "countHandle P (r # rs) c =
     (if isLetter P r \<or> isDigit P r then countHandle P rs (c + 1)
      else if r \<noteq> 0x20 then Inl ErrAIMHandleInvalidFormat
      else countHandle P rs c)"

definition ValidateAIMHandle :: "platform \<Rightarrow> DisplayScreenName \<Rightarrow> nameError option" where
  "ValidateAIMHandle P s =
     (if length s > 16 then Some ErrAIMHandleLength
      else (case countHandle P (runes s) 0 of
        Inl e \<Rightarrow> Some e
      | Inr c \<Rightarrow>
          if c < 3 then Some ErrAIMHandleLength
          else if \<not> isLetter P (unat (s ! 0)) \<or> s ! (length s - 1) = 0x20
          then Some ErrAIMHandleInvalidFormat
          else None))"

definition IsUIN :: "platform \<Rightarrow> DisplayScreenName \<Rightarrow> bool" where
  "IsUIN P s \<longleftrightarrow> s \<noteq> [] \<and> list_all (isDigit P) (runes s)"

text \<open>\<open>strconv.Atoi\<close>: an optional sign, then decimal digits within the range of a 64-bit int.\<close>

definition isDecimal :: "byte \<Rightarrow> bool" where
  "isDecimal b \<longleftrightarrow> 0x30 \<le> b \<and> b \<le> 0x39"

definition decimalValue :: "bytes \<Rightarrow> int" where
  "decimalValue ds = fold (\<lambda>b n. n * 10 + (uint b - 0x30)) ds 0"

definition atoiDigits :: "bytes \<Rightarrow> int option" where
  "atoiDigits ds = (if ds = [] \<or> \<not> list_all isDecimal ds then None else Some (decimalValue ds))"

definition atoiRange :: "int \<Rightarrow> int option" where
  "atoiRange n = (if - (2 ^ 63) \<le> n \<and> n < 2 ^ 63 then Some n else None)"

definition strconv_Atoi :: "bytes \<Rightarrow> int option" where
  "strconv_Atoi s =
     (case s of
        [] \<Rightarrow> None
      | b # bs \<Rightarrow>
          if b = 0x2B then Option.bind (atoiDigits bs) atoiRange
          else if b = 0x2D then Option.bind (atoiDigits bs) (\<lambda>n. atoiRange (- n))
          else Option.bind (atoiDigits s) atoiRange)"

definition ValidateUIN :: "DisplayScreenName \<Rightarrow> nameError option" where
  "ValidateUIN s =
     (case strconv_Atoi s of
        None \<Rightarrow> Some ErrICQUINInvalidFormat
      | Some uin \<Rightarrow> if uin < 10000 \<or> uin > 2147483646 then Some ErrICQUINInvalidFormat else None)"

text \<open>\<open>UIN\<close> ignores the error of \<open>Atoi\<close>, which answers the nearest bound when the digits overflow.\<close>

definition atoiSaturate :: "int \<Rightarrow> int" where
  "atoiSaturate n = (if n < - (2 ^ 63) then - (2 ^ 63) else if n \<ge> 2 ^ 63 then 2 ^ 63 - 1 else n)"

definition atoiValue :: "bytes \<Rightarrow> int" where
  "atoiValue s =
     (case s of
        [] \<Rightarrow> 0
      | b # bs \<Rightarrow>
          if b = 0x2B then (case atoiDigits bs of None \<Rightarrow> 0 | Some n \<Rightarrow> atoiSaturate n)
          else if b = 0x2D then (case atoiDigits bs of None \<Rightarrow> 0 | Some n \<Rightarrow> atoiSaturate (- n))
          else (case atoiDigits s of None \<Rightarrow> 0 | Some n \<Rightarrow> atoiSaturate n))"

definition UIN :: "IdentScreenName \<Rightarrow> u32" where
  "UIN i = word_of_int (atoiValue i)"

section \<open>Lemmas\<close>

lemma isASCII_simps [simp]:
  "isASCII []"
  "isASCII (b # bs) \<longleftrightarrow> b < 0x80 \<and> isASCII bs"
  by (simp_all add: isASCII_def)

lemma isASCII_set: "isASCII s \<longleftrightarrow> (\<forall>b\<in>set s. b < 0x80)"
  by (simp add: isASCII_def list_all_iff)

lemma isASCII_removeAll [simp]: "isASCII s \<Longrightarrow> isASCII (removeAll x s)"
  by (auto simp: isASCII_set)

lemma asciiLower_cases:
  assumes "b < 0x80"
  shows "asciiLower b < 0x80" and "\<not> (0x41 \<le> asciiLower b \<and> asciiLower b \<le> 0x5A)"
    and "asciiLower (asciiLower b) = asciiLower b" and "asciiLower b = 0x20 \<longleftrightarrow> b = 0x20"
proof -
  have u: "unat (b + 0x20) = unat b + 32" if "unat b < 128"
    using that by (simp add: unat_word_ariths)
  have "unat b < 128" using assms by (simp add: word_less_nat_alt)
  with u show "asciiLower b < 0x80" "\<not> (0x41 \<le> asciiLower b \<and> asciiLower b \<le> 0x5A)"
    "asciiLower (asciiLower b) = asciiLower b" "asciiLower b = 0x20 \<longleftrightarrow> b = 0x20"
    by (auto simp: asciiLower_def word_le_nat_alt word_less_nat_alt word_unat_eq_iff)
qed

lemma isASCII_map_lower [simp]: "isASCII s \<Longrightarrow> isASCII (map asciiLower s)"
  by (auto simp: isASCII_set asciiLower_cases)

lemma ident_ascii: "isASCII s \<Longrightarrow> NewIdentScreenName P s = map asciiLower (removeAll 0x20 s)"
  by (simp add: NewIdentScreenName_def strings_ToLower_def)

lemma runes_Nil [simp]: "runes [] = []"
  by (simp add: runes.simps)

lemma runes_ascii: "isASCII s \<Longrightarrow> runes s = map unat s"
proof (induction s)
  case (Cons b s)
  then have "decodeRune (b # s) = (unat b, 1)"
    by (simp add: decodeRune_def word_less_nat_alt)
  with Cons show ?case by (simp add: runes.simps [of "b # s"])
qed simp

definition handleChar :: "byte \<Rightarrow> bool" where
  "handleChar b \<longleftrightarrow> 0x41 \<le> b \<and> b \<le> 0x5A \<or> 0x61 \<le> b \<and> b \<le> 0x7A \<or> 0x30 \<le> b \<and> b \<le> 0x39"

lemma alnum_handleChar: "b < 0x80 \<Longrightarrow> isLetter P (unat b) \<or> isDigit P (unat b) \<longleftrightarrow> handleChar b"
  by (auto simp: isLetter_def isDigit_def handleChar_def word_le_nat_alt word_less_nat_alt)

lemma handleChar_not_space: "handleChar b \<Longrightarrow> b \<noteq> 0x20"
  by (auto simp: handleChar_def)

lemma countHandle_ascii:
  "isASCII s \<Longrightarrow> countHandle P (map unat s) c =
     (if list_all (\<lambda>b. handleChar b \<or> b = 0x20) s then Inr (c + length (removeAll 0x20 s))
      else Inl ErrAIMHandleInvalidFormat)"
proof (induction s arbitrary: c)
  case (Cons b s)
  then have "isLetter P (unat b) \<or> isDigit P (unat b) \<longleftrightarrow> handleChar b"
    by (simp add: alnum_handleChar)
  moreover have "unat b = 0x20 \<longleftrightarrow> b = 0x20" by (simp add: word_unat_eq_iff)
  ultimately show ?case using Cons handleChar_not_space by auto
qed simp

lemma handleChar_lower: "handleChar b \<Longrightarrow> handleChar (asciiLower b)"
proof -
  assume h: "handleChar b"
  then have "unat b < 128" by (auto simp: handleChar_def word_le_nat_alt)
  then have "unat (b + 0x20) = unat b + 32" by (simp add: unat_word_ariths)
  with h show ?thesis
    by (auto simp: handleChar_def asciiLower_def word_le_nat_alt)
qed

section \<open>Properties\<close>

text \<open>On ASCII names the identifying form has no spaces and no capitals, normalising it again
  changes nothing, and two names are the same account exactly when they agree up to case and
  spaces.\<close>
theorem ident_normal_form:
  assumes "isASCII s" and "isASCII t"
  shows "(\<forall>b\<in>set (NewIdentScreenName P s). b \<noteq> 0x20 \<and> \<not> (0x41 \<le> b \<and> b \<le> 0x5A))
    \<and> NewIdentScreenName P (NewIdentScreenName P s) = NewIdentScreenName P s
    \<and> (NewIdentScreenName P s = NewIdentScreenName P t
        \<longleftrightarrow> removeAll 0x20 (map asciiLower s) = removeAll 0x20 (map asciiLower t))"
proof -
  have clean: "\<forall>b\<in>set (map asciiLower (removeAll 0x20 s)). b \<noteq> 0x20 \<and> \<not> (0x41 \<le> b \<and> b \<le> 0x5A)"
    using assms(1) asciiLower_cases by (auto simp: isASCII_set)
  then have "removeAll 0x20 (map asciiLower (removeAll 0x20 s)) = map asciiLower (removeAll 0x20 s)"
    by (intro removeAll_id) blast
  moreover have "map asciiLower (map asciiLower (removeAll 0x20 s)) = map asciiLower (removeAll 0x20 s)"
    using assms(1) by (auto simp: isASCII_set asciiLower_cases)
  ultimately have twice: "NewIdentScreenName P (map asciiLower (removeAll 0x20 s))
      = map asciiLower (removeAll 0x20 s)"
    using assms(1) by (simp add: ident_ascii)
  have swap: "map asciiLower (removeAll 0x20 u) = removeAll 0x20 (map asciiLower u)" if "isASCII u" for u
    using that by (induction u) (auto simp: asciiLower_cases)
  show ?thesis
    using clean twice assms by (simp add: ident_ascii swap)
qed

theorem ident_normal_form_witness:
  "NewIdentScreenName samplePlatform (asciiBytes ''Big Al'')
    = NewIdentScreenName samplePlatform (asciiBytes ''bigAL'')"
  using ident_normal_form [of "asciiBytes ''Big Al''" "asciiBytes ''bigAL''" samplePlatform]
  by (simp add: asciiBytes_def asciiLower_def)

text \<open>The check of an AIM handle accepts exactly the names the error messages describe: at most
  16 bytes, letters, digits and spaces, at least three of them not spaces, a letter first and no
  space last. An accepted name identifies an account of 3 to 16 letters and digits.\<close>
theorem ValidateAIMHandle_correct:
  assumes "isASCII s"
  shows "(ValidateAIMHandle P s = None \<longleftrightarrow>
      length s \<le> 16 \<and> (\<forall>b\<in>set s. handleChar b \<or> b = 0x20) \<and> 3 \<le> length (removeAll 0x20 s)
      \<and> isLetter P (unat (hd s)) \<and> last s \<noteq> 0x20)
    \<and> (ValidateAIMHandle P s = None \<longrightarrow>
      (\<forall>b\<in>set (NewIdentScreenName P s). handleChar b)
      \<and> 3 \<le> length (NewIdentScreenName P s) \<and> length (NewIdentScreenName P s) \<le> 16)"
proof -
  have ne: "s \<noteq> []" if "3 \<le> length (removeAll 0x20 s)" using that by auto
  have ends: "s ! 0 = hd s \<and> s ! (length s - 1) = last s" if "s \<noteq> []"
    using that by (simp add: hd_conv_nth last_conv_nth)
  have iff: "ValidateAIMHandle P s = None \<longleftrightarrow>
      length s \<le> 16 \<and> (\<forall>b\<in>set s. handleChar b \<or> b = 0x20) \<and> 3 \<le> length (removeAll 0x20 s)
      \<and> isLetter P (unat (hd s)) \<and> last s \<noteq> 0x20"
    using assms ne ends
    by (auto simp: ValidateAIMHandle_def runes_ascii countHandle_ascii list_all_iff not_less)
  have len: "length (removeAll 0x20 s) \<le> 16" if "length s \<le> 16"
    using that le_trans [OF length_filter_le] by (simp add: removeAll_filter_not_eq)
  show ?thesis
    using iff len assms handleChar_lower by (auto simp: ident_ascii)
qed

theorem ValidateAIMHandle_correct_witness:
  "length (NewIdentScreenName samplePlatform (asciiBytes ''Al 99'')) = 4
    \<and> (ValidateAIMHandle samplePlatform (asciiBytes ''Al 99'') = None)"
  using ValidateAIMHandle_correct [of "asciiBytes ''Al 99''" samplePlatform]
  by (simp add: asciiBytes_def handleChar_def isLetter_def ident_ascii)

text \<open>The check of a UIN is weaker than "is a number": a string of digits is accepted exactly
  when its value is in the range, but a sign is accepted too, so that \<open>+10001\<close> and \<open>10001\<close> both
  pass, are different accounts, and answer the same UIN.\<close>
theorem ValidateUIN_accepts_sign:
  assumes "ds \<noteq> []" and "list_all isDecimal ds"
  shows "(ValidateUIN ds = None \<longleftrightarrow> 10000 \<le> decimalValue ds \<and> decimalValue ds \<le> 2147483646)
    \<and> ValidateUIN (0x2B # ds) = ValidateUIN ds
    \<and> \<not> IsUIN P (0x2B # ds)
    \<and> UIN (NewIdentScreenName P (0x2B # ds)) = UIN (NewIdentScreenName P ds)
    \<and> NewIdentScreenName P (0x2B # ds) \<noteq> NewIdentScreenName P ds"
proof -
  obtain b bs where ds: "ds = b # bs" using assms(1) by (cases ds) auto
  have digit: "isDecimal x \<Longrightarrow> x < 0x80 \<and> x \<noteq> 0x20 \<and> asciiLower x = x \<and> x \<noteq> 0x2B \<and> x \<noteq> 0x2D" for x
    by (auto simp: isDecimal_def asciiLower_def word_le_nat_alt word_less_nat_alt)
  have ascii: "isASCII ds" using assms(2) digit by (auto simp: isASCII_set list_all_iff)
  have same: "map asciiLower (removeAll 0x20 ds) = ds"
    using assms(2) digit by (induction ds) auto
  have atoi: "strconv_Atoi ds = Option.bind (atoiDigits ds) atoiRange"
    "strconv_Atoi (0x2B # ds) = Option.bind (atoiDigits ds) atoiRange"
    "atoiDigits ds = Some (decimalValue ds)"
    using assms digit [of b] ds by (auto simp: strconv_Atoi_def atoiDigits_def)
  have val: "atoiValue (0x2B # ds) = atoiValue ds"
    using assms digit [of b] ds by (auto simp: atoiValue_def)
  have ident: "NewIdentScreenName P ds = ds" "NewIdentScreenName P (0x2B # ds) = 0x2B # ds"
    using ascii same by (simp_all add: ident_ascii asciiLower_def)
  have "\<not> IsUIN P (0x2B # ds)"
    using ascii by (simp add: IsUIN_def runes_ascii isDigit_def)
  then show ?thesis
    using atoi val ident by (auto simp: ValidateUIN_def UIN_def atoiRange_def)
qed

theorem ValidateUIN_accepts_sign_witness:
  "ValidateUIN (0x2B # asciiBytes ''10001'') = None \<and> ValidateUIN (asciiBytes ''10001'') = None"
  using ValidateUIN_accepts_sign [of "asciiBytes ''10001''"]
  by (simp add: asciiBytes_def isDecimal_def decimalValue_def)

end
