(* ===== verification/State_Password.thy ===== *)
theory State_Password
  imports State_ScreenName
begin

text \<open>
  \<open>state/password.go\<close>: stored passwords are argon2id hashes in PHC string format. What the code
  uses of the standard library is modelled: \<open>strings.Split\<close>, the \<open>%d\<close> verb of \<open>fmt.Sprintf\<close> and
  \<open>fmt.Sscanf\<close>, unpadded base64. The key derivation \<open>argon2.IDKey\<close> is a parameter \<open>IDKey\<close> of the
  definitions; \<open>rand\<close> is the answer of the random source, \<open>None\<close> its failure. Strings are byte lists.
\<close>

section \<open>Splitting and decimal numbers\<close>

text \<open>\<open>strings.Split\<close> by a one-byte separator.\<close>

fun strings_Split :: "byte \<Rightarrow> bytes \<Rightarrow> bytes list" where
  "strings_Split c [] = [[]]"
| "strings_Split c (b # bs) =
     (if b = c then [] # strings_Split c bs
      else (case strings_Split c bs of [] \<Rightarrow> [[b]] | p # ps \<Rightarrow> (b # p) # ps))"

text \<open>The \<open>%d\<close> verb of \<open>fmt.Sprintf\<close> for an unsigned number.\<close>

definition decDigit :: "nat \<Rightarrow> byte" where
  "decDigit d = word_of_nat (0x30 + d)"

fun showDecimal :: "nat \<Rightarrow> bytes" where
  "showDecimal n =
     (if n < 10 then [decDigit n] else showDecimal (n div 10) @ [decDigit (n mod 10)])"

declare showDecimal.simps [simp del]

text \<open>\<open>fmt.Sscanf\<close>: spaces before a number are skipped (a newline is an error), a literal byte must be there, and what is left of the input is not looked at.\<close>

definition spaceRunes :: "bytes list" where
  "spaceRunes = [[0x09], [0x0B], [0x0C], [0x0D], [0x20], [0xC2, 0x85], [0xC2, 0xA0], [0xE1, 0x9A, 0x80],
     [0xE2, 0x80, 0x80], [0xE2, 0x80, 0x81], [0xE2, 0x80, 0x82], [0xE2, 0x80, 0x83], [0xE2, 0x80, 0x84],
     [0xE2, 0x80, 0x85], [0xE2, 0x80, 0x86], [0xE2, 0x80, 0x87], [0xE2, 0x80, 0x88], [0xE2, 0x80, 0x89],
     [0xE2, 0x80, 0x8A], [0xE2, 0x80, 0xA8], [0xE2, 0x80, 0xA9], [0xE2, 0x80, 0xAF], [0xE2, 0x81, 0x9F],
     [0xE3, 0x80, 0x80]]"

definition stripAny :: "bytes list \<Rightarrow> bytes \<Rightarrow> bytes option" where
  "stripAny ps s = (case find (\<lambda>p. take (length p) s = p) ps of None \<Rightarrow> None | Some p \<Rightarrow> Some (drop (length p) s))"

lemma stripAny_shorter: "stripAny spaceRunes s = Some t \<Longrightarrow> length t < length s"
  by (cases s) (auto simp: stripAny_def spaceRunes_def split: if_splits)

function SkipSpace :: "bytes \<Rightarrow> bytes option" where
  "SkipSpace s =
     (if take 1 s = [0x0A] then None
      else (case stripAny spaceRunes s of None \<Rightarrow> Some s | Some t \<Rightarrow> SkipSpace t))"
  by pat_completeness auto
termination
  by (relation "measure length") (auto dest: stripAny_shorter)

declare SkipSpace.simps [simp del]

definition scanDigits :: "bytes \<Rightarrow> (nat \<times> bytes) option" where
  "scanDigits s =
     (let ds = takeWhile isDecimal s in
      if ds = [] then None else Some (nat (decimalValue ds), dropWhile isDecimal s))"

text \<open>\<open>scanUint\<close> for a \<open>bits\<close> wide unsigned target, \<open>scanInt\<close> for an int.\<close>

definition scanUint :: "nat \<Rightarrow> bytes \<Rightarrow> (nat \<times> bytes) option" where
  "scanUint bits s =
     Option.bind (SkipSpace s) (\<lambda>s1. Option.bind (scanDigits s1)
       (\<lambda>(n, r). if n < 2 ^ 64 \<and> n < 2 ^ bits then Some (n, r) else None))"

definition scanInt :: "bytes \<Rightarrow> (int \<times> bytes) option" where
  "scanInt s =
     Option.bind (SkipSpace s) (\<lambda>s1.
       (let neg = (take 1 s1 = [0x2D]);
            s2 = (if take 1 s1 = [0x2B] \<or> neg then drop 1 s1 else s1)
        in Option.bind (scanDigits s2)
          (\<lambda>(n, r). map_option (\<lambda>i. (i, r)) (atoiRange (if neg then - int n else int n)))))"

definition scanLiteral :: "bytes \<Rightarrow> bytes \<Rightarrow> bytes option" where
  "scanLiteral lit s = (if take (length lit) s = lit then Some (drop (length lit) s) else None)"

section \<open>Unpadded base64\<close>

text \<open>\<open>base64.RawStdEncoding\<close>: carriage returns and newlines are skipped, the bits that do not
  make a whole byte are not checked.\<close>

definition b64Char :: "nat \<Rightarrow> byte" where
  "b64Char v =
     (if v < 26 then word_of_nat (0x41 + v) else if v < 52 then word_of_nat (0x61 + (v - 26))
      else if v < 62 then word_of_nat (0x30 + (v - 52)) else if v = 62 then 0x2B else 0x2F)"

definition b64Val :: "byte \<Rightarrow> nat option" where
  "b64Val c =
     (let n = unat c in
      if 0x41 \<le> n \<and> n \<le> 0x5A then Some (n - 0x41)
      else if 0x61 \<le> n \<and> n \<le> 0x7A then Some (n - 0x61 + 26)
      else if 0x30 \<le> n \<and> n \<le> 0x39 then Some (n - 0x30 + 52)
      else if n = 0x2B then Some 62 else if n = 0x2F then Some 63 else None)"

fun RawStdEncode :: "bytes \<Rightarrow> bytes" where
  "RawStdEncode (a # b # c # bs) =
     (let v = unat a * 65536 + unat b * 256 + unat c in
      b64Char (v div 262144) # b64Char (v div 4096 mod 64) # b64Char (v div 64 mod 64) # b64Char (v mod 64)
        # RawStdEncode bs)"
| "RawStdEncode [a, b] =
     (let v = unat a * 65536 + unat b * 256 in
      [b64Char (v div 262144), b64Char (v div 4096 mod 64), b64Char (v div 64 mod 64)])"
| "RawStdEncode [a] = (let v = unat a * 65536 in [b64Char (v div 262144), b64Char (v div 4096 mod 64)])"
| "RawStdEncode [] = []"

text \<open>The quanta of four digits; a last quantum of one digit is an error.\<close>

fun decodeQuanta :: "nat list \<Rightarrow> bytes option" where
  "decodeQuanta (p # q # r # s # vs) =
     (let v = p * 262144 + q * 4096 + r * 64 + s in
      map_option (\<lambda>bs. word_of_nat (v div 65536 mod 256) # word_of_nat (v div 256 mod 256)
        # word_of_nat (v mod 256) # bs) (decodeQuanta vs))"
| "decodeQuanta [p, q, r] =
     (let v = p * 262144 + q * 4096 + r * 64 in
      Some [word_of_nat (v div 65536 mod 256), word_of_nat (v div 256 mod 256)])"
| "decodeQuanta [p, q] = (let v = p * 262144 + q * 4096 in Some [word_of_nat (v div 65536 mod 256)])"
| "decodeQuanta [p] = None"
| "decodeQuanta [] = Some []"

definition RawStdDecode :: "bytes \<Rightarrow> bytes option" where
  "RawStdDecode s =
     (let vs = map b64Val (filter (\<lambda>c. c \<noteq> 0x0D \<and> c \<noteq> 0x0A) s) in
      if None \<in> set vs then None else decodeQuanta (map the vs))"

section \<open>Hashing and verification\<close>

type_synonym keyDerivation = "bytes \<Rightarrow> bytes \<Rightarrow> u32 \<Rightarrow> u32 \<Rightarrow> byte \<Rightarrow> u32 \<Rightarrow> bytes"

abbreviation (input) argon2Time :: u32 where "argon2Time \<equiv> 2"
abbreviation (input) argon2Memory :: u32 where "argon2Memory \<equiv> 19 * 1024"
abbreviation (input) argon2Threads :: byte where "argon2Threads \<equiv> 1"
abbreviation (input) argon2SaltLen :: nat where "argon2SaltLen \<equiv> 16"
abbreviation (input) argon2KeyLen :: u32 where "argon2KeyLen \<equiv> 32"
abbreviation (input) argon2_Version :: nat where "argon2_Version \<equiv> 19"

datatype passwordError = ErrPasswordHashInvalid | ErrPasswordSalt

record Argon2Params =
  Memory :: u32
  Time :: u32
  Threads :: byte

abbreviation (input) dollar :: byte where "dollar \<equiv> 0x24"

definition variantName :: bytes where "variantName = asciiBytes ''argon2id''"

definition encodeArgon2Hash :: "keyDerivation \<Rightarrow> bytes \<Rightarrow> bytes \<Rightarrow> u32 \<Rightarrow> u32 \<Rightarrow> byte \<Rightarrow> u32 \<Rightarrow> bytes" where
  "encodeArgon2Hash IDKey password salt time memory threads keyLen =
     (let key = IDKey password salt time memory threads keyLen in
      [dollar] @ variantName @ [dollar] @ asciiBytes ''v='' @ showDecimal argon2_Version @ [dollar]
        @ asciiBytes ''m='' @ showDecimal (unat memory) @ asciiBytes '',t='' @ showDecimal (unat time)
        @ asciiBytes '',p='' @ showDecimal (unat threads) @ [dollar]
        @ RawStdEncode salt @ [dollar] @ RawStdEncode key)"

definition NewPasswordHash :: "keyDerivation \<Rightarrow> bytes option \<Rightarrow> bytes \<Rightarrow> passwordError + bytes" where
  "NewPasswordHash IDKey rand password =
     (case rand of
        None \<Rightarrow> Inl ErrPasswordSalt
      | Some salt \<Rightarrow> Inr (encodeArgon2Hash IDKey password salt argon2Time argon2Memory argon2Threads argon2KeyLen))"

definition scanVersion :: "bytes \<Rightarrow> int option" where
  "scanVersion s = Option.bind (scanLiteral (asciiBytes ''v='') s) (\<lambda>r. map_option fst (scanInt r))"

definition scanParams :: "bytes \<Rightarrow> Argon2Params option" where
  "scanParams s =
     Option.bind (scanLiteral (asciiBytes ''m='') s) (\<lambda>s1. Option.bind (scanUint 32 s1) (\<lambda>(m, s2).
     Option.bind (scanLiteral (asciiBytes '',t='') s2) (\<lambda>s3. Option.bind (scanUint 32 s3) (\<lambda>(t, s4).
     Option.bind (scanLiteral (asciiBytes '',p='') s4) (\<lambda>s5. Option.bind (scanUint 8 s5) (\<lambda>(p, s6).
       Some \<lparr>Memory = word_of_nat m, Time = word_of_nat t, Threads = word_of_nat p\<rparr>))))))"

definition ParsePasswordHash :: "bytes \<Rightarrow> passwordError + (Argon2Params \<times> bytes \<times> bytes)" where
  "ParsePasswordHash encoded =
     (let parts = strings_Split dollar encoded in
      if length parts \<noteq> 6 \<or> parts ! 0 \<noteq> [] then Inl ErrPasswordHashInvalid
      else if parts ! 1 \<noteq> variantName then Inl ErrPasswordHashInvalid
      else (case scanVersion (parts ! 2) of
        None \<Rightarrow> Inl ErrPasswordHashInvalid
      | Some version \<Rightarrow>
          if version \<noteq> int argon2_Version then Inl ErrPasswordHashInvalid
          else (case scanParams (parts ! 3) of
            None \<Rightarrow> Inl ErrPasswordHashInvalid
          | Some params \<Rightarrow>
              if Memory params = 0 \<or> Memory params > 1024 * 1024 \<or> Time params = 0 \<or> Threads params = 0
              then Inl ErrPasswordHashInvalid
              else (case RawStdDecode (parts ! 4) of
                None \<Rightarrow> Inl ErrPasswordHashInvalid
              | Some salt \<Rightarrow>
                  (case RawStdDecode (parts ! 5) of
                    None \<Rightarrow> Inl ErrPasswordHashInvalid
                  | Some key \<Rightarrow>
                      if length salt = 0 \<or> length key = 0 then Inl ErrPasswordHashInvalid
                      else Inr (params, salt, key))))))"

definition VerifyPassword :: "keyDerivation \<Rightarrow> bytes \<Rightarrow> bytes \<Rightarrow> bool" where
  "VerifyPassword IDKey encoded password =
     (case ParsePasswordHash encoded of
        Inl _ \<Rightarrow> False
      | Inr (params, salt, want) \<Rightarrow>
          IDKey password salt (Time params) (Memory params) (Threads params) (word_of_nat (length want)) = want)"

section \<open>Lemmas\<close>

lemma strings_Split_not_Nil [simp]: "strings_Split c s \<noteq> []"
  by (induction s) (auto split: list.splits)

lemma strings_Split_append:
  assumes "c \<notin> set xs"
  shows "strings_Split c (xs @ c # ys) = xs # strings_Split c ys" and "strings_Split c xs = [xs]"
  using assms by (induction xs) auto

lemma decDigit:
  assumes "d < 10"
  shows "isDecimal (decDigit d)" "uint (decDigit d) = 0x30 + int d"
proof -
  have "unat (decDigit d) = 0x30 + d" using assms by (simp add: decDigit_def unat_of_nat del: of_nat_add)
  then show "isDecimal (decDigit d)" "uint (decDigit d) = 0x30 + int d"
    using assms by (auto simp: isDecimal_def word_le_nat_alt uint_nat)
qed

lemma showDecimal_isDecimal: "list_all isDecimal (showDecimal n)"
  by (induction n rule: showDecimal.induct)
    (subst showDecimal.simps, auto simp: decDigit)

lemma showDecimal_not_Nil: "showDecimal n \<noteq> []"
  by (subst showDecimal.simps) simp

lemma decimalValue_snoc: "decimalValue (ds @ [b]) = decimalValue ds * 10 + (uint b - 0x30)"
  by (simp add: decimalValue_def)

lemma decimalValue_showDecimal: "decimalValue (showDecimal n) = int n"
proof (induction n rule: showDecimal.induct)
  case (1 n)
  show ?case
  proof (cases "n < 10")
    case True
    then show ?thesis by (subst showDecimal.simps) (simp add: decimalValue_def decDigit)
  next
    case False
    with 1 have "decimalValue (showDecimal n) = int (n div 10) * 10 + int (n mod 10)"
      by (subst showDecimal.simps) (simp add: decimalValue_snoc decDigit)
    then show ?thesis by (simp add: zdiv_int zmod_int)
  qed
qed

lemma isDecimal_facts: "isDecimal b \<Longrightarrow> b \<noteq> 0x24 \<and> b \<noteq> 0x2B \<and> b \<noteq> 0x2C \<and> b \<noteq> 0x2D"
  by (auto simp: isDecimal_def)

lemma scanDigits_show:
  assumes "r = [] \<or> \<not> isDecimal (hd r)"
  shows "scanDigits (showDecimal n @ r) = Some (n, r)"
proof -
  have d: "\<forall>b\<in>set (showDecimal n). isDecimal b"
    using showDecimal_isDecimal by (simp add: list_all_iff)
  have "takeWhile isDecimal r = []" "dropWhile isDecimal r = r"
    using assms by (cases r; simp)+
  with d showDecimal_not_Nil [of n] show ?thesis
    by (simp add: scanDigits_def takeWhile_append2 dropWhile_append2 decimalValue_showDecimal)
qed

lemma SkipSpace_digit:
  assumes "isDecimal b"
  shows "SkipSpace (b # s) = Some (b # s)"
proof -
  have "list_all (\<lambda>p. p \<noteq> [] \<and> \<not> isDecimal (hd p)) spaceRunes"
    by (simp add: spaceRunes_def isDecimal_def)
  then have "take (length p) (b # s) \<noteq> p" if "p \<in> set spaceRunes" for p
    using that assms by (cases p) (auto simp: list_all_iff)
  then have "find (\<lambda>p. take (length p) (b # s) = p) spaceRunes = None"
    by (simp add: find_None_iff)
  moreover have "b \<noteq> 0x0A" using assms by (auto simp: isDecimal_def)
  ultimately show ?thesis by (simp add: SkipSpace.simps stripAny_def)
qed

lemma SkipSpace_show: "SkipSpace (showDecimal n @ r) = Some (showDecimal n @ r)"
  using showDecimal_not_Nil [of n] showDecimal_isDecimal [of n] SkipSpace_digit
  by (cases "showDecimal n") auto

lemma scanUint_show:
  "n < 2 ^ bits \<Longrightarrow> bits \<le> 64 \<Longrightarrow> r = [] \<or> \<not> isDecimal (hd r) \<Longrightarrow> scanUint bits (showDecimal n @ r) = Some (n, r)"
proof -
  assume n: "n < 2 ^ bits" and "bits \<le> 64" and r: "r = [] \<or> \<not> isDecimal (hd r)"
  then have "n < 2 ^ 64" by (meson less_le_trans one_le_numeral power_increasing)
  then show ?thesis using n r by (simp add: scanUint_def SkipSpace_show scanDigits_show)
qed

lemma scanInt_show: "n < 2 ^ 63 \<Longrightarrow> r = [] \<or> \<not> isDecimal (hd r) \<Longrightarrow> scanInt (showDecimal n @ r) = Some (int n, r)"
proof -
  assume n: "n < 2 ^ 63" and r: "r = [] \<or> \<not> isDecimal (hd r)"
  have "\<not> take 1 (showDecimal n @ r) = [0x2D]" "\<not> take 1 (showDecimal n @ r) = [0x2B]"
    using showDecimal_not_Nil [of n] showDecimal_isDecimal [of n] isDecimal_facts
    by (cases "showDecimal n"; auto)+
  moreover have "int n < 2 ^ 63" using n by (metis of_nat_less_iff of_nat_numeral of_nat_power)
  ultimately show ?thesis
    using r by (simp add: scanInt_def SkipSpace_show scanDigits_show atoiRange_def)
qed

lemma scanLiteral_append [simp]: "scanLiteral l (l @ r) = Some r"
  by (simp add: scanLiteral_def)

lemma b64: 
  assumes "v < 64"
  shows "b64Val (b64Char v) = Some v" "b64Char v \<noteq> 0x0A" "b64Char v \<noteq> 0x0D" "b64Char v \<noteq> 0x24"
proof -
  have "list_all (\<lambda>v. b64Val (b64Char v) = Some v \<and> b64Char v \<noteq> 0x0A \<and> b64Char v \<noteq> 0x0D \<and> b64Char v \<noteq> 0x24) [0..<64]"
    by code_simp
  with assms show "b64Val (b64Char v) = Some v" "b64Char v \<noteq> 0x0A" "b64Char v \<noteq> 0x0D" "b64Char v \<noteq> 0x24"
    by (simp_all add: list_all_iff)
qed

lemma b64Char_mod [simp]: "b64Char (v mod 64) \<in> b64Char ` {..<64}"
  by (rule imageI) simp

lemma triple_bound: "unat (a :: byte) * 65536 + unat (b :: byte) * 256 + unat (c :: byte) < 16777216"
  using unat_byte [of a] unat_byte [of b] unat_byte [of c] by simp

lemma b64Char_top: "v < 16777216 \<Longrightarrow> b64Char (v div 262144) \<in> b64Char ` {..<64}"
  by (rule imageI) (simp add: less_mult_imp_div_less)

lemma RawStdEncode_chars: "set (RawStdEncode bs) \<subseteq> b64Char ` {..<64}"
proof (induction bs rule: RawStdEncode.induct)
  case (1 a b c bs)
  then show ?case using b64Char_top [OF triple_bound [of a b c]] by (simp add: Let_def)
next
  case (2 a b)
  then show ?case using b64Char_top [OF triple_bound [of a b 0]] by (simp add: Let_def)
next
  case (3 a)
  then show ?case using b64Char_top [OF triple_bound [of a 0 0]] by (simp add: Let_def)
qed simp

lemma RawStdEncode_no_dollar: "dollar \<notin> set (RawStdEncode bs)"
  using RawStdEncode_chars [of bs] b64(4) by auto

lemma base64_digits:
  "v = 64 * q1 + r1 \<Longrightarrow> q1 = 64 * q2 + r2 \<Longrightarrow> q2 = 64 * q3 + r3
     \<Longrightarrow> q3 * 262144 + r3 * 4096 + r2 * 64 + r1 = (v :: nat)"
  by simp

lemma sextets:
  "v < 16777216 \<Longrightarrow> v div 262144 < 64"
  "v div 262144 * 262144 + v div 4096 mod 64 * 4096 + v div 64 mod 64 * 64 + v mod 64 = (v :: nat)"
proof -
  have e: "(64 :: nat) * 64 = 4096" "(4096 :: nat) * 64 = 262144" by simp_all
  have d: "v div 262144 = v div 64 div 64 div 64" "v div 4096 = v div 64 div 64"
    by (metis div_mult2_eq e(1) e(2), metis div_mult2_eq e(1))
  show "v div 262144 * 262144 + v div 4096 mod 64 * 4096 + v div 64 mod 64 * 64 + v mod 64 = v"
    unfolding d by (rule base64_digits) (rule mult_div_mod_eq [symmetric])+
  show "v < 16777216 \<Longrightarrow> v div 262144 < 64" by (simp add: less_mult_imp_div_less)
qed

lemma octets:
  fixes a b c :: byte
  assumes "v = unat a * 65536 + unat b * 256 + unat c"
  shows "word_of_nat (v div 65536 mod 256) = a" "word_of_nat (v div 256 mod 256) = b" "word_of_nat (v mod 256) = c"
    "v < 16777216"
proof -
  note u = unat_byte [of a] unat_byte [of b] unat_byte [of c]
  have "v div 65536 = unat a" "v div 256 = unat a * 256 + unat b"
    using u assms by (auto intro!: div_nat_eqI)
  moreover have "v = unat c + 256 * (unat a * 256 + unat b)" using assms by simp
  then have "v mod 256 = unat c" using u(3) by (simp only: mod_mult_self2) simp
  moreover have "(unat a * 256 + unat b) mod 256 = unat b" using u(2) by simp
  ultimately show "word_of_nat (v div 65536 mod 256) = a" "word_of_nat (v div 256 mod 256) = b" "word_of_nat (v mod 256) = c"
    using u by simp_all
  show "v < 16777216" using u assms by simp
qed

lemma decode_encode:
  "None \<notin> set (map b64Val (RawStdEncode bs)) \<and> decodeQuanta (map the (map b64Val (RawStdEncode bs))) = Some bs"
proof (induction bs rule: RawStdEncode.induct)
  case (1 a b c bs)
  define v where "v = unat a * 65536 + unat b * 256 + unat c"
  note o = octets [OF v_def]
  show ?case using 1 o(1-3) b64(1) sextets(1) [OF o(4)] sextets(2) [of v]
    by (simp add: Let_def v_def [symmetric])
next
  case (2 a b)
  define v where "v = unat a * 65536 + unat b * 256 + unat (0 :: byte)"
  note o = octets [OF v_def]
  have "v = 64 * (unat a * 1024 + unat b * 4)" by (simp add: v_def)
  then have "v mod 64 = 0" by (metis mod_mult_self1_is_0)
  then show ?case using o(1-3) b64(1) sextets(1) [OF o(4)] sextets(2) [of v]
    by (simp add: Let_def v_def [simplified, symmetric])
next
  case (3 a)
  define v where "v = unat a * 65536 + unat (0 :: byte) * 256 + unat (0 :: byte)"
  note o = octets [OF v_def]
  have "v = 64 * (64 * (unat a * 16))" by (simp add: v_def)
  then have "v mod 64 = 0" "v div 64 mod 64 = 0" by simp_all
  then show ?case using o(1-3) b64(1) sextets(1) [OF o(4)] sextets(2) [of v]
    by (simp add: Let_def v_def [simplified, symmetric])
qed simp

lemma RawStdDecode_Encode: "RawStdDecode (RawStdEncode bs) = Some bs"
proof -
  have "filter (\<lambda>c. c \<noteq> 0x0D \<and> c \<noteq> 0x0A) (RawStdEncode bs) = RawStdEncode bs"
    using RawStdEncode_chars [of bs] b64(2,3) by (auto simp: filter_id_conv)
  then show ?thesis using decode_encode [of bs] by (simp add: RawStdDecode_def)
qed

text \<open>The fields between the dollar signs, and that none of them holds one.\<close>

lemma showDecimal_no_dollar: "dollar \<notin> set (showDecimal n)"
  using showDecimal_isDecimal [of n] isDecimal_facts by (auto simp: list_all_iff)

lemma literals_no_dollar:
  "dollar \<notin> set variantName" "dollar \<notin> set (asciiBytes ''v='')" "dollar \<notin> set (asciiBytes ''m='')"
  "dollar \<notin> set (asciiBytes '',t='')" "dollar \<notin> set (asciiBytes '',p='')"
  by (simp_all add: variantName_def asciiBytes_def)

lemma strings_Split_encoded:
  assumes "list_all (\<lambda>f. dollar \<notin> set f) [f1, f2, f3, f4, f5]"
  shows "strings_Split dollar ([dollar] @ f1 @ [dollar] @ f2 @ [dollar] @ f3 @ [dollar] @ f4 @ [dollar] @ f5)
    = [[], f1, f2, f3, f4, f5]"
  using assms strings_Split_append(1) [of dollar f1] strings_Split_append(1) [of dollar f2] strings_Split_append(1) [of dollar f3]
    strings_Split_append(1) [of dollar f4] strings_Split_append(2) [of dollar f5] by simp

lemma scanVersion_show:
  "r = [] \<or> \<not> isDecimal (hd r) \<Longrightarrow> scanVersion (asciiBytes ''v='' @ showDecimal argon2_Version @ r) = Some (int argon2_Version)"
  using scanInt_show [of argon2_Version r] by (simp add: scanVersion_def)

lemma scanParams_show:
  assumes "r = [] \<or> \<not> isDecimal (hd r)"
  shows "scanParams (asciiBytes ''m='' @ showDecimal (unat m) @ asciiBytes '',t='' @ showDecimal (unat t)
    @ asciiBytes '',p='' @ showDecimal (unat p) @ r) = Some \<lparr>Memory = m, Time = t, Threads = p\<rparr>"
proof -
  have "unat m < 2 ^ 32" "unat t < 2 ^ 32" "unat p < 2 ^ 8"
    using unsigned_less [of m] unsigned_less [of t] unsigned_less [of p] by simp_all
  moreover have "\<not> isDecimal (hd (asciiBytes '',t='' @ s))" "\<not> isDecimal (hd (asciiBytes '',p='' @ s))" for s
    by (simp_all add: asciiBytes_def isDecimal_def)
  ultimately show ?thesis using assms scanUint_show by (simp add: scanParams_def)
qed

lemma Parse_fields:
  assumes "list_all (\<lambda>f. dollar \<notin> set f) [f2, f3, f4, f5]"
    and "scanVersion f2 = Some (int argon2_Version)" and "scanParams f3 = Some P"
    and "RawStdDecode f4 = Some salt" and "RawStdDecode f5 = Some key"
    and "Memory P \<noteq> 0" "Memory P \<le> 1024 * 1024" "Time P \<noteq> 0" "Threads P \<noteq> 0" "salt \<noteq> []" "key \<noteq> []"
  shows "ParsePasswordHash ([dollar] @ variantName @ [dollar] @ f2 @ [dollar] @ f3 @ [dollar] @ f4 @ [dollar] @ f5)
    = Inr (P, salt, key)"
proof -
  have "strings_Split dollar ([dollar] @ variantName @ [dollar] @ f2 @ [dollar] @ f3 @ [dollar] @ f4 @ [dollar] @ f5)
      = [[], variantName, f2, f3, f4, f5]"
    using assms(1) literals_no_dollar(1) by (intro strings_Split_encoded) simp
  then show ?thesis using assms(2-) by (simp add: ParsePasswordHash_def Let_def not_less)
qed

text \<open>A key derivation that computes, on which the properties are evaluated.\<close>

definition sampleIDKey :: keyDerivation where
  "sampleIDKey password salt time memory threads keyLen = take (unat keyLen) (password @ salt @ replicate (unat keyLen) 0)"

lemma length_sampleIDKey: "length (sampleIDKey pw salt t m p k) = unat k"
  by (simp add: sampleIDKey_def)

lemma password_hash_parses:
  assumes "length (IDKey pw salt t m p k) = unat k"
    and "m \<noteq> 0" and "m \<le> 1024 * 1024" and "t \<noteq> 0" and "p \<noteq> 0" and "k \<noteq> 0" and "salt \<noteq> []"
  shows "ParsePasswordHash (encodeArgon2Hash IDKey pw salt t m p k)
      = Inr (\<lparr>Memory = m, Time = t, Threads = p\<rparr>, salt, IDKey pw salt t m p k)"
proof -
  let ?key = "IDKey pw salt t m p k"
  have "?key \<noteq> []" using assms(1,6) by (metis length_0_conv unat_eq_zero)
  moreover have "scanVersion (asciiBytes ''v='' @ showDecimal argon2_Version) = Some (int argon2_Version)"
    "scanParams (asciiBytes ''m='' @ showDecimal (unat m) @ asciiBytes '',t='' @ showDecimal (unat t)
      @ asciiBytes '',p='' @ showDecimal (unat p)) = Some \<lparr>Memory = m, Time = t, Threads = p\<rparr>"
    using scanVersion_show [of "[]"] scanParams_show [of "[]" m t p] by simp_all
  ultimately show ?thesis
    using Parse_fields [of "asciiBytes ''v='' @ showDecimal argon2_Version"
        "asciiBytes ''m='' @ showDecimal (unat m) @ asciiBytes '',t='' @ showDecimal (unat t)
          @ asciiBytes '',p='' @ showDecimal (unat p)" "RawStdEncode salt" "RawStdEncode ?key"
        "\<lparr>Memory = m, Time = t, Threads = p\<rparr>" salt ?key] assms
      showDecimal_no_dollar literals_no_dollar RawStdEncode_no_dollar RawStdDecode_Encode
    by (simp add: encodeArgon2Hash_def Let_def)
qed

section \<open>Properties\<close>

text \<open>C17: What is stored for a password is read back as it was written: the parser recovers the cost
  parameters, the salt and the derived key of every encoded hash, so that a hash verifies the
  password it was made from whatever the current constants are, and another password exactly when
  the key derivation collides. The key derivation is only assumed to answer as many bytes as it
  was asked for.\<close>
theorem password_hash_roundtrip:
  assumes "length (IDKey pw salt t m p k) = unat k"
    and "m \<noteq> 0" and "m \<le> 1024 * 1024" and "t \<noteq> 0" and "p \<noteq> 0" and "k \<noteq> 0" and "salt \<noteq> []"
  shows "ParsePasswordHash (encodeArgon2Hash IDKey pw salt t m p k)
      = Inr (\<lparr>Memory = m, Time = t, Threads = p\<rparr>, salt, IDKey pw salt t m p k)
    \<and> VerifyPassword IDKey (encodeArgon2Hash IDKey pw salt t m p k) pw
    \<and> (VerifyPassword IDKey (encodeArgon2Hash IDKey pw salt t m p k) other
        \<longleftrightarrow> IDKey other salt t m p k = IDKey pw salt t m p k)"
  using password_hash_parses [of IDKey pw salt t m p k] assms by (simp add: VerifyPassword_def)

theorem password_hash_roundtrip_witness:
  "VerifyPassword sampleIDKey (encodeArgon2Hash sampleIDKey [1, 2] [7] 2 19456 1 32) [1, 2]
    \<and> \<not> VerifyPassword sampleIDKey (encodeArgon2Hash sampleIDKey [1, 2] [7] 2 19456 1 32) [1, 3]"
  using password_hash_roundtrip [of sampleIDKey "[1, 2]" "[7]" 2 19456 1 32 "[1, 3]"] length_sampleIDKey
  by (simp add: sampleIDKey_def)

text \<open>What the parser accepts has bounded memory but not bounded cost. Every accepted hash asks
  for at most 1 GiB and has a salt and a key, and verifying it never divides by a zero cost. The
  number of passes is not bounded: every nonzero 32-bit pass count is accepted, and so is any text
  behind the version and behind the parameters that is not a digit or a dollar sign.\<close>
theorem accepted_hash_cost:
  assumes "junk = [] \<or> \<not> isDecimal (hd junk)" and "dollar \<notin> set junk" and "t \<noteq> 0"
    and "salt \<noteq> []" and "key \<noteq> []"
  shows "(ParsePasswordHash s = Inr (Q, salt', key') \<longrightarrow>
      0 < Memory Q \<and> Memory Q \<le> 1024 * 1024 \<and> 0 < Time Q \<and> 0 < Threads Q \<and> salt' \<noteq> [] \<and> key' \<noteq> [])
    \<and> ParsePasswordHash ([dollar] @ variantName @ [dollar] @ (asciiBytes ''v='' @ showDecimal argon2_Version @ junk)
        @ [dollar] @ (asciiBytes ''m='' @ showDecimal (unat (1024 * 1024 :: u32)) @ asciiBytes '',t='' @ showDecimal (unat t)
          @ asciiBytes '',p='' @ showDecimal (unat (255 :: byte)) @ junk)
        @ [dollar] @ RawStdEncode salt @ [dollar] @ RawStdEncode key)
      = Inr (\<lparr>Memory = 1024 * 1024, Time = t, Threads = 255\<rparr>, salt, key)"
proof
  show "ParsePasswordHash s = Inr (Q, salt', key') \<longrightarrow>
      0 < Memory Q \<and> Memory Q \<le> 1024 * 1024 \<and> 0 < Time Q \<and> 0 < Threads Q \<and> salt' \<noteq> [] \<and> key' \<noteq> []"
    by (auto simp: ParsePasswordHash_def Let_def word_neq_0_conv not_less split: if_splits option.splits)
  show "ParsePasswordHash ([dollar] @ variantName @ [dollar] @ (asciiBytes ''v='' @ showDecimal argon2_Version @ junk)
        @ [dollar] @ (asciiBytes ''m='' @ showDecimal (unat (1024 * 1024 :: u32)) @ asciiBytes '',t='' @ showDecimal (unat t)
          @ asciiBytes '',p='' @ showDecimal (unat (255 :: byte)) @ junk)
        @ [dollar] @ RawStdEncode salt @ [dollar] @ RawStdEncode key)
      = Inr (\<lparr>Memory = 1024 * 1024, Time = t, Threads = 255\<rparr>, salt, key)"
    using scanVersion_show [OF assms(1)] scanParams_show [OF assms(1), of "1024 * 1024" t 255] assms(2-)
      showDecimal_no_dollar literals_no_dollar RawStdEncode_no_dollar
    by (intro Parse_fields) (simp_all add: RawStdDecode_Encode)
qed

theorem accepted_hash_cost_witness:
  "ParsePasswordHash ([dollar] @ variantName @ [dollar] @ (asciiBytes ''v='' @ showDecimal argon2_Version @ [0x78])
        @ [dollar] @ (asciiBytes ''m='' @ showDecimal (unat (1024 * 1024 :: u32)) @ asciiBytes '',t='' @ showDecimal (unat (0xFFFFFFFF :: u32))
          @ asciiBytes '',p='' @ showDecimal (unat (255 :: byte)) @ [0x78])
        @ [dollar] @ RawStdEncode [1] @ [dollar] @ RawStdEncode [2])
      = Inr (\<lparr>Memory = 1024 * 1024, Time = 0xFFFFFFFF, Threads = 255\<rparr>, [1], [2])"
  by (rule accepted_hash_cost [THEN conjunct2]) (simp_all add: isDecimal_def)

end
