(* ===== verification/State_User.thy ===== *)
theory State_User
  imports State_Password Legacy_Crypt
begin

text \<open>
  User accounts: the records of \<open>state/user.go\<close>, the checks of a password at sign-on (every form of
  it is brought back to cleartext and compared with the stored argon2id hash), the length rules of
  a new password, the age shown in ICQ directories, the account creator of \<open>state/account.go\<close>, and
  the statements of \<open>state/user_store.go\<close> that write the account table. A time is an int of
  nanoseconds since 1970; strings are byte lists.
\<close>

section \<open>Records\<close>

record AIMNameAndAddr =
  dirFirstName :: bytes
  dirLastName :: bytes
  dirMiddleName :: bytes
  dirMaidenName :: bytes
  dirCountry :: bytes
  dirState :: bytes
  dirCity :: bytes
  dirNickName :: bytes
  dirZIPCode :: bytes
  dirAddress :: bytes

record ICQBasicInfo =
  basicAddress :: bytes
  basicCellPhone :: bytes
  basicCity :: bytes
  basicCountryCode :: u16
  basicEmailAddress :: bytes
  basicFax :: bytes
  basicFirstName :: bytes
  basicGMTOffset :: byte
  basicLastName :: bytes
  basicNickname :: bytes
  basicPhone :: bytes
  basicPublishEmail :: bool
  basicState :: bytes
  basicZIPCode :: bytes
  basicOriginallyFromCity :: bytes
  basicOriginallyFromState :: bytes
  basicOriginallyFromCountryCode :: u16

record ICQAffiliations =
  affilPastCount :: byte
  affilPastCode1 :: u16
  affilPastKeyword1 :: bytes
  affilPastCode2 :: u16
  affilPastKeyword2 :: bytes
  affilPastCode3 :: u16
  affilPastKeyword3 :: bytes
  affilCurrentCount :: byte
  affilCurrentCode1 :: u16
  affilCurrentKeyword1 :: bytes
  affilCurrentCode2 :: u16
  affilCurrentKeyword2 :: bytes
  affilCurrentCode3 :: u16
  affilCurrentKeyword3 :: bytes

record ICQInterests =
  interestCount :: byte
  interestCode1 :: u16
  interestKeyword1 :: bytes
  interestCode2 :: u16
  interestKeyword2 :: bytes
  interestCode3 :: u16
  interestKeyword3 :: bytes
  interestCode4 :: u16
  interestKeyword4 :: bytes

record ICQUserNotes =
  userNotes :: bytes

record ICQMoreInfo =
  Gender :: u16
  HomePageAddr :: bytes
  BirthYear :: u16
  BirthMonth :: byte
  BirthDay :: byte
  Lang1 :: byte
  Lang2 :: byte
  Lang3 :: byte

record ICQWorkInfo =
  workAddress :: bytes
  workCity :: bytes
  workCompany :: bytes
  workCountryCode :: u16
  workDepartment :: bytes
  workFax :: bytes
  workOccupationCode :: u16
  workPhone :: bytes
  workPosition :: bytes
  workState :: bytes
  workWebPage :: bytes
  workZIPCode :: bytes

record ICQPermissions =
  AuthRequired :: bool
  WebAware :: bool
  AllowSpam :: bool

record ICQHomepageCategory =
  homepageEnabled :: bool
  homepageIndex :: u16
  homepageDescription :: bytes

record ICQInfo =
  icqAffiliations :: ICQAffiliations
  icqInterests :: ICQInterests
  icqMore :: ICQMoreInfo
  icqPermissions :: ICQPermissions
  icqBasic :: ICQBasicInfo
  icqNotes :: ICQUserNotes
  icqWork :: ICQWorkInfo
  icqHomepageCategory :: ICQHomepageCategory

record UserProfile =
  ProfileText :: bytes
  MIMEType :: bytes
  UpdateTime :: int

record User =
  userIdentScreenName :: IdentScreenName
  userDisplayScreenName :: DisplayScreenName
  userPasswordHash :: bytes
  userIsICQ :: bool
  userConfirmStatus :: bool
  userRegStatus :: int
  userSuspendedStatus :: u16
  userEmailAddress :: bytes
  userICQInfo :: ICQInfo
  userAIMDirectoryInfo :: AIMNameAndAddr
  userTOCConfig :: bytes
  userIsBot :: bool
  userLastWarnUpdate :: int
  userLastWarnLevel :: u16
  userOfflineMsgCount :: int

text \<open>The zero value of \<open>time.Time\<close>: the first of January of year 1, UTC.\<close>

definition zeroTime :: int where
  "zeroTime = - 62135596800 * 10 ^ 9"

definition UserProfile_IsZero :: "UserProfile \<Rightarrow> bool" where
  "UserProfile_IsZero p \<longleftrightarrow> UpdateTime p = zeroTime"

definition UserProfile_IsEmpty :: "UserProfile \<Rightarrow> bool" where
  "UserProfile_IsEmpty p \<longleftrightarrow> UserProfile_IsZero p \<or> ProfileText p = [] \<or> ProfileText p = [0]"

text \<open>The zero values, from which Go struct literals start.\<close>

definition zeroAIMNameAndAddr :: AIMNameAndAddr where
  "zeroAIMNameAndAddr = \<lparr>dirFirstName = [], dirLastName = [], dirMiddleName = [], dirMaidenName = [], dirCountry
     = [], dirState = [], dirCity = [], dirNickName = [], dirZIPCode = [], dirAddress = []\<rparr>"

definition zeroICQBasicInfo :: ICQBasicInfo where
  "zeroICQBasicInfo = \<lparr>basicAddress = [], basicCellPhone = [], basicCity = [], basicCountryCode = 0,
     basicEmailAddress = [], basicFax = [], basicFirstName = [], basicGMTOffset = 0,
     basicLastName = [], basicNickname = [], basicPhone = [], basicPublishEmail = False,
     basicState = [], basicZIPCode = [], basicOriginallyFromCity = [],
     basicOriginallyFromState = [], basicOriginallyFromCountryCode = 0\<rparr>"

definition zeroICQAffiliations :: ICQAffiliations where
  "zeroICQAffiliations = \<lparr>affilPastCount = 0, affilPastCode1 = 0, affilPastKeyword1 = [], affilPastCode2 = 0,
     affilPastKeyword2 = [], affilPastCode3 = 0, affilPastKeyword3 = [], affilCurrentCount =
     0, affilCurrentCode1 = 0, affilCurrentKeyword1 = [], affilCurrentCode2 = 0,
     affilCurrentKeyword2 = [], affilCurrentCode3 = 0, affilCurrentKeyword3 = []\<rparr>"

definition zeroICQInterests :: ICQInterests where
  "zeroICQInterests = \<lparr>interestCount = 0, interestCode1 = 0, interestKeyword1 = [], interestCode2 = 0,
     interestKeyword2 = [], interestCode3 = 0, interestKeyword3 = [], interestCode4 = 0,
     interestKeyword4 = []\<rparr>"

definition zeroICQUserNotes :: ICQUserNotes where
  "zeroICQUserNotes = \<lparr>userNotes = []\<rparr>"

definition zeroICQMoreInfo :: ICQMoreInfo where
  "zeroICQMoreInfo = \<lparr>Gender = 0, HomePageAddr = [], BirthYear = 0, BirthMonth = 0, BirthDay = 0, Lang1 = 0,
     Lang2 = 0, Lang3 = 0\<rparr>"

definition zeroICQWorkInfo :: ICQWorkInfo where
  "zeroICQWorkInfo = \<lparr>workAddress = [], workCity = [], workCompany = [], workCountryCode = 0, workDepartment =
     [], workFax = [], workOccupationCode = 0, workPhone = [], workPosition = [], workState =
     [], workWebPage = [], workZIPCode = []\<rparr>"

definition zeroICQPermissions :: ICQPermissions where
  "zeroICQPermissions = \<lparr>AuthRequired = False, WebAware = False, AllowSpam = False\<rparr>"

definition zeroICQHomepageCategory :: ICQHomepageCategory where
  "zeroICQHomepageCategory = \<lparr>homepageEnabled = False, homepageIndex = 0, homepageDescription = []\<rparr>"

definition zeroICQInfo :: ICQInfo where
  "zeroICQInfo = \<lparr>icqAffiliations = zeroICQAffiliations, icqInterests = zeroICQInterests, icqMore =
     zeroICQMoreInfo, icqPermissions = zeroICQPermissions, icqBasic = zeroICQBasicInfo,
     icqNotes = zeroICQUserNotes, icqWork = zeroICQWorkInfo, icqHomepageCategory =
     zeroICQHomepageCategory\<rparr>"

definition zeroUserProfile :: UserProfile where
  "zeroUserProfile = \<lparr>ProfileText = [], MIMEType = [], UpdateTime = zeroTime\<rparr>"

definition zeroUser :: User where
  "zeroUser = \<lparr>userIdentScreenName = [], userDisplayScreenName = [], userPasswordHash = [], userIsICQ =
     False, userConfirmStatus = False, userRegStatus = 0, userSuspendedStatus = 0,
     userEmailAddress = [], userICQInfo = zeroICQInfo, userAIMDirectoryInfo =
     zeroAIMNameAndAddr, userTOCConfig = [], userIsBot = False, userLastWarnUpdate =
     zeroTime, userLastWarnLevel = 0, userOfflineMsgCount = 0\<rparr>"

section \<open>Passwords\<close>

datatype accountError = NameInvalid nameError | ErrPasswordInvalid | HashFailed passwordError
  | ErrDupUser | ErrNoUser | ErrUINNotICQ

definition ValidateHash :: "User \<Rightarrow> bytes \<Rightarrow> bool" where
  "ValidateHash u md5Hash = False"

definition User_verify :: "keyDerivation \<Rightarrow> User \<Rightarrow> bytes \<Rightarrow> bool" where
  "User_verify IDKey u cleartext = VerifyPassword IDKey (userPasswordHash u) cleartext"

definition ValidateRoastedPass :: "keyDerivation \<Rightarrow> User \<Rightarrow> bytes \<Rightarrow> bool" where
  "ValidateRoastedPass IDKey u roastedPass = User_verify IDKey u (RoastOSCARPassword roastedPass)"

definition ValidateRoastedJavaPass :: "keyDerivation \<Rightarrow> User \<Rightarrow> bytes \<Rightarrow> bool" where
  "ValidateRoastedJavaPass IDKey u roastedPass = User_verify IDKey u (RoastOSCARJavaPassword roastedPass)"

definition ValidateRoastedTOCPass :: "keyDerivation \<Rightarrow> User \<Rightarrow> bytes \<Rightarrow> bool" where
  "ValidateRoastedTOCPass IDKey u roastedPass = User_verify IDKey u (RoastTOCPassword roastedPass)"

definition ValidatePlaintextPass :: "keyDerivation \<Rightarrow> User \<Rightarrow> bytes \<Rightarrow> bool" where
  "ValidatePlaintextPass IDKey u plaintextPass = User_verify IDKey u plaintextPass"

definition ValidateRoastedKerberosPass :: "keyDerivation \<Rightarrow> User \<Rightarrow> bytes \<Rightarrow> bool" where
  "ValidateRoastedKerberosPass IDKey u roastedPass = User_verify IDKey u (RoastKerberosPassword roastedPass)"

abbreviation (input) minPasswordLen :: nat where "minPasswordLen \<equiv> 8"
abbreviation (input) maxPasswordLen :: nat where "maxPasswordLen \<equiv> 128"

definition validateAIMPassword :: "bytes \<Rightarrow> accountError option" where
  "validateAIMPassword pass =
     (if length pass < minPasswordLen \<or> length pass > maxPasswordLen then Some ErrPasswordInvalid else None)"

definition validateICQPassword :: "bytes \<Rightarrow> accountError option" where
  "validateICQPassword pass = (if length pass < 6 \<or> length pass > 8 then Some ErrPasswordInvalid else None)"

text \<open>\<open>HashPassword\<close> answers the user with the new hash, or the error.\<close>

definition User_HashPassword :: "keyDerivation \<Rightarrow> bytes option \<Rightarrow> bytes \<Rightarrow> User \<Rightarrow> accountError + User" where
  "User_HashPassword IDKey rand passwd u =
     (case (if userIsICQ u then validateICQPassword passwd else validateAIMPassword passwd) of
        Some e \<Rightarrow> Inl e
      | None \<Rightarrow>
          (case NewPasswordHash IDKey rand passwd of
             Inl e \<Rightarrow> Inl (HashFailed e)
           | Inr hash \<Rightarrow> Inr (u\<lparr>userPasswordHash := hash\<rparr>)))"

section \<open>The account table\<close>

text \<open>The columns that account creation writes, by identifying screen name (the primary key).\<close>

record userRow =
  rowDisplayScreenName :: DisplayScreenName
  rowPasswordHash :: bytes
  rowIsICQ :: bool
  rowIsBot :: bool

type_synonym userTable = "(IdentScreenName \<times> userRow) list"

definition InsertUser :: "platform \<Rightarrow> User \<Rightarrow> userTable \<Rightarrow> accountError option \<times> userTable" where
  "InsertUser P u t =
     (if IsUIN P (userDisplayScreenName u) \<and> \<not> userIsICQ u then (Some ErrUINNotICQ, t)
      else if map_of t (userIdentScreenName u) \<noteq> None then (Some ErrDupUser, t)
      else (None, t @ [(userIdentScreenName u, \<lparr>rowDisplayScreenName = userDisplayScreenName u,
        rowPasswordHash = userPasswordHash u, rowIsICQ = userIsICQ u, rowIsBot = userIsBot u\<rparr>)]))"

definition DeleteUser :: "IdentScreenName \<Rightarrow> userTable \<Rightarrow> accountError option \<times> userTable" where
  "DeleteUser screenName t =
     (if map_of t screenName = None then (Some ErrNoUser, t)
      else (None, filter (\<lambda>(i, r). i \<noteq> screenName) t))"

definition SetUserPassword :: "keyDerivation \<Rightarrow> bytes option \<Rightarrow> IdentScreenName \<Rightarrow> bytes \<Rightarrow> userTable
    \<Rightarrow> accountError option \<times> userTable" where
  "SetUserPassword IDKey rand screenName newPassword t =
     (case map_of t screenName of
        None \<Rightarrow> (Some ErrNoUser, t)
      | Some row \<Rightarrow>
          (case User_HashPassword IDKey rand newPassword (zeroUser\<lparr>userIsICQ := rowIsICQ row\<rparr>) of
             Inl e \<Rightarrow> (Some e, t)
           | Inr u \<Rightarrow> (None, map (\<lambda>(i, r). (i, if i = screenName
               then r\<lparr>rowPasswordHash := userPasswordHash u\<rparr> else r)) t)))"

text \<open>The function \<open>NewAccountCreator\<close> answers, over this table.\<close>

definition CreateAccount :: "platform \<Rightarrow> keyDerivation \<Rightarrow> bytes option \<Rightarrow> DisplayScreenName \<Rightarrow> bytes
    \<Rightarrow> userTable \<Rightarrow> accountError option \<times> userTable" where
  "CreateAccount P IDKey rand screenName password t =
     (case (if IsUIN P screenName then ValidateUIN screenName else ValidateAIMHandle P screenName) of
        Some e \<Rightarrow> (Some (NameInvalid e), t)
      | None \<Rightarrow>
          (case User_HashPassword IDKey rand password
              (zeroUser\<lparr>userDisplayScreenName := screenName,
                userIdentScreenName := DisplayScreenName_IdentScreenName P screenName,
                userIsICQ := IsUIN P screenName\<rparr>) of
             Inl e \<Rightarrow> (Some e, t)
           | Inr user \<Rightarrow> InsertUser P user t))"

section \<open>Age\<close>

text \<open>The proleptic Gregorian calendar of package \<open>time\<close>, by day numbers from 1 January of year 1.
  \<open>time.Date\<close> normalises a month outside 1 to 12; a day beyond its month counts on.\<close>

definition isLeap :: "int \<Rightarrow> bool" where
  "isLeap y \<longleftrightarrow> y mod 4 = 0 \<and> (y mod 100 \<noteq> 0 \<or> y mod 400 = 0)"

definition yearStart :: "int \<Rightarrow> int" where
  "yearStart y = 365 * (y - 1) + (y - 1) div 4 - (y - 1) div 100 + (y - 1) div 400"

definition daysBefore :: "bool \<Rightarrow> int \<Rightarrow> int" where
  "daysBefore leap m = [0, 31, 59, 90, 120, 151, 181, 212, 243, 273, 304, 334] ! nat (m - 1)
     + (if leap \<and> m > 2 then 1 else 0)"

definition dayNumber :: "int \<Rightarrow> int \<Rightarrow> int \<Rightarrow> int" where
  "dayNumber y m d =
     (let y' = y + (m - 1) div 12; m' = (m - 1) mod 12 + 1
      in yearStart y' + daysBefore (isLeap y') m' + d - 1)"

text \<open>The year of a day number: cut off the cycles of 400, 100, 4 and 1 years.\<close>

definition yearOf :: "int \<Rightarrow> int" where
  "yearOf n =
     (let n400 = n div 146097; d = n mod 146097; n100 = min 3 (d div 36524);
          d2 = d - 36524 * n100; n4 = d2 div 1461; d3 = d2 mod 1461; n1 = min 3 (d3 div 365)
      in 400 * n400 + 100 * n100 + 4 * n4 + n1 + 1)"

definition yearDay :: "int \<Rightarrow> int" where
  "yearDay n = n - yearStart (yearOf n) + 1"

definition dayOf :: "int \<Rightarrow> int" where
  "dayOf t = t div (86400 * 10 ^ 9) + 719162"

definition Age :: "int \<Rightarrow> User \<Rightarrow> u16" where
  "Age now u =
     (let info = icqMore (userICQInfo u); today = dayOf now in
      if BirthYear info > 0 \<and> BirthDay info = 0 \<and> BirthMonth info = 0
      then word_of_int (yearOf today - yearOf (dayNumber (uint (BirthYear info)) 1 1))
      else if BirthYear info > 0 \<and> BirthDay info > 0 \<and> BirthMonth info > 0
      then (let bday = dayNumber (uint (BirthYear info)) (uint (BirthMonth info)) (uint (BirthDay info));
                years = yearOf today - yearOf bday
            in word_of_int (if yearDay today < yearDay bday then years - 1 else years))
      else 0)"

section \<open>The calendar\<close>

text \<open>The place of a year in its 400-year cycle, and the first day of the year from it.\<close>

lemma year_digits:
  fixes y :: int
  obtains a b c d where "y - 1 = 400 * a + 100 * b + 4 * c + d" "0 \<le> b" "b \<le> 3" "0 \<le> c" "c \<le> 24" "0 \<le> d" "d \<le> 3"
proof
  let ?r = "(y - 1) mod 400"
  show "y - 1 = 400 * ((y - 1) div 400) + 100 * (?r div 100) + 4 * (?r mod 100 div 4) + ?r mod 100 mod 4" by simp
  have "0 \<le> ?r" "?r < 400" by simp_all
  then show "0 \<le> ?r div 100" "?r div 100 \<le> 3" "0 \<le> ?r mod 100 div 4" "?r mod 100 div 4 \<le> 24"
    "0 \<le> ?r mod 100 mod 4" "?r mod 100 mod 4 \<le> 3" by auto
qed

lemma mod_0_iff_pred:
  fixes y :: int
  assumes "0 < n"
  shows "y mod n = 0 \<longleftrightarrow> (y - 1) mod n = n - 1"
proof
  assume "y mod n = 0"
  then have "(y - 1) mod n = (0 - 1) mod n" by (metis mod_diff_left_eq)
  then show "(y - 1) mod n = n - 1" using zmod_minus1 [OF assms] by simp
next
  assume "(y - 1) mod n = n - 1"
  then have "(y - 1 + 1) mod n = (n - 1 + 1) mod n" by (metis mod_add_left_eq)
  then show "y mod n = 0" by simp
qed

lemma yearStart_digits:
  assumes "y - 1 = 400 * a + 100 * b + 4 * c + d" "0 \<le> b" "b \<le> 3" "0 \<le> c" "c \<le> 24" "0 \<le> d" "d \<le> 3"
  shows "yearStart y = 146097 * a + 36524 * b + 1461 * c + 365 * d"
    and "isLeap y \<longleftrightarrow> d = 3 \<and> (c \<noteq> 24 \<or> b = 3)"
proof -
  have "(y - 1) div 4 = 100 * a + 25 * b + c"
    using int_div_pos_eq [of "y - 1" 4 "100 * a + 25 * b + c" d] assms by simp
  moreover have "(y - 1) div 100 = 4 * a + b"
    using int_div_pos_eq [of "y - 1" 100 "4 * a + b" "4 * c + d"] assms by simp
  moreover have "(y - 1) div 400 = a"
    using int_div_pos_eq [of "y - 1" 400 a "100 * b + 4 * c + d"] assms by simp
  ultimately show "yearStart y = 146097 * a + 36524 * b + 1461 * c + 365 * d"
    using assms(1) by (simp add: yearStart_def)
  have "(y - 1) mod 4 = d" "(y - 1) mod 100 = 4 * c + d" "(y - 1) mod 400 = 100 * b + 4 * c + d"
    using int_mod_pos_eq [of "y - 1" 4 "100 * a + 25 * b + c" d] int_mod_pos_eq [of "y - 1" 100 "4 * a + b" "4 * c + d"]
      int_mod_pos_eq [of "y - 1" 400 a "100 * b + 4 * c + d"] assms by simp_all
  then have "y mod 4 = 0 \<longleftrightarrow> d = 3" "y mod 100 = 0 \<longleftrightarrow> 4 * c + d = 99" "y mod 400 = 0 \<longleftrightarrow> 100 * b + 4 * c + d = 399"
    using mod_0_iff_pred [of 4 y] mod_0_iff_pred [of 100 y] mod_0_iff_pred [of 400 y] by simp_all
  moreover have "4 * c + d = 99 \<longleftrightarrow> d = 3 \<and> c = 24" "100 * b + 4 * c + d = 399 \<longleftrightarrow> d = 3 \<and> c = 24 \<and> b = 3"
    using assms(2-7) by linarith+
  ultimately show "isLeap y \<longleftrightarrow> d = 3 \<and> (c \<noteq> 24 \<or> b = 3)" by (auto simp: isLeap_def)
qed

lemma yearOf_correct:
  assumes "0 \<le> k" and "k < 365 + (if isLeap y then 1 else 0)"
  shows "yearOf (yearStart y + k) = y"
proof -
  obtain a b c d where y: "y - 1 = 400 * a + 100 * b + 4 * c + d" "0 \<le> b" "b \<le> 3" "0 \<le> c" "c \<le> 24" "0 \<le> d" "d \<le> 3"
    by (rule year_digits)
  note ys = yearStart_digits [OF y]
  define r where "r = 365 * d + k"
  define e where "e = 1461 * c + r"
  define f where "f = 36524 * b + e"
  have r: "0 \<le> r" "r \<le> 1460" "c = 24 \<Longrightarrow> b \<noteq> 3 \<Longrightarrow> r \<le> 1459" "min 3 (r div 365) = d"
    using assms y ys(2) by (auto simp: r_def split: if_splits)
  have "b \<noteq> 3 \<Longrightarrow> e < 36524"
  proof (cases "c = 24")
    case True
    then show "b \<noteq> 3 \<Longrightarrow> e < 36524" using r(3) unfolding e_def by simp
  next
    case False
    then have "c \<le> 23" using y(5) by simp
    then show "e < 36524" using r(2) unfolding e_def by simp
  qed
  then have e: "0 \<le> e" "e \<le> 36524" "b \<noteq> 3 \<Longrightarrow> e < 36524" "e div 1461 = c" "e mod 1461 = r"
    using r(1,2) y(4,5) by (auto simp: e_def)
  have f: "0 \<le> f" "f < 146097" "min 3 (f div 36524) = b"
  proof -
    have "f div 36524 = (if e = 36524 then b + 1 else b)"
      using e(1,2) by (auto simp: f_def intro!: int_div_pos_eq)
    then show "min 3 (f div 36524) = b" using e(3) y(3) by (cases "b = 3") auto
  qed (use e(1,2) y in \<open>auto simp: f_def\<close>)
  have n: "yearStart y + k = 146097 * a + f" by (simp add: ys(1) f_def e_def r_def)
  have "(146097 * a + f) div 146097 = a" "(146097 * a + f) mod 146097 = f" "f - 36524 * b = e"
    using f by (simp_all add: f_def)
  then have "yearOf (yearStart y + k) = 400 * a + 100 * b + 4 * c + d + 1"
    by (simp only: yearOf_def n Let_def f(3) e(4,5) r(4))
  with y(1) show ?thesis by simp
qed

definition monthLen :: "bool \<Rightarrow> int \<Rightarrow> int" where
  "monthLen leap m = (if m = 2 then (if leap then 29 else 28) else if m \<in> {4, 6, 9, 11} then 30 else 31)"

definition validDate :: "int \<Rightarrow> int \<Rightarrow> int \<Rightarrow> bool" where
  "validDate y m d \<longleftrightarrow> 1 \<le> m \<and> m \<le> 12 \<and> 1 \<le> d \<and> d \<le> monthLen (isLeap y) m"

lemma months: "1 \<le> m \<Longrightarrow> m \<le> 12 \<Longrightarrow> m \<in> set [1 .. 12 :: int]"
  by simp

lemma month_step:
  assumes "1 \<le> m" "m \<le> 12" "1 \<le> m'" "m' \<le> 12"
  shows "m < m' \<Longrightarrow> daysBefore l m + monthLen l m \<le> daysBefore l m'"
    and "daysBefore l m + monthLen l m \<le> 365 + (if l then 1 else 0)" and "0 \<le> daysBefore l m"
    and "daysBefore True m = daysBefore False m + (if m > 2 then 1 else 0)"
proof -
  have "list_all (\<lambda>l. list_all (\<lambda>m. daysBefore l m + monthLen l m \<le> 365 + (if l then 1 else 0) \<and> 0 \<le> daysBefore l m
      \<and> list_all (\<lambda>m'. m < m' \<longrightarrow> daysBefore l m + monthLen l m \<le> daysBefore l m') [1 .. 12]) [1 .. 12]) [True, False]"
    by code_simp
  with assms show "m < m' \<Longrightarrow> daysBefore l m + monthLen l m \<le> daysBefore l m'"
    "daysBefore l m + monthLen l m \<le> 365 + (if l then 1 else 0)" "0 \<le> daysBefore l m"
    by (cases l; simp add: list_all_iff)+
  show "daysBefore True m = daysBefore False m + (if m > 2 then 1 else 0)" by (simp add: daysBefore_def)
qed

lemma dayNumber_valid:
  assumes "validDate y m d"
  shows "dayNumber y m d = yearStart y + (daysBefore (isLeap y) m + d - 1)"
    and "yearOf (dayNumber y m d) = y" and "yearDay (dayNumber y m d) = daysBefore (isLeap y) m + d"
proof -
  have v: "1 \<le> m" "m \<le> 12" "1 \<le> d" "d \<le> monthLen (isLeap y) m" using assms by (auto simp: validDate_def)
  show n: "dayNumber y m d = yearStart y + (daysBefore (isLeap y) m + d - 1)"
    using v by (simp add: dayNumber_def)
  have "0 \<le> daysBefore (isLeap y) m + d - 1" "daysBefore (isLeap y) m + d - 1 < 365 + (if isLeap y then 1 else 0)"
    using v month_step(2,3) [OF v(1,2,1,2), of "isLeap y"] by auto
  then show "yearOf (dayNumber y m d) = y" unfolding n by (rule yearOf_correct)
  then show "yearDay (dayNumber y m d) = daysBefore (isLeap y) m + d" by (simp add: yearDay_def n)
qed

text \<open>Two dates compared by their days of the year, and which days of the year fall before March.\<close>

lemma month_bounds:
  assumes "1 \<le> m" "m \<le> 12"
  shows "m \<le> 2 \<Longrightarrow> daysBefore True m + monthLen l m \<le> (if l then 60 else 59)" "m > 2 \<Longrightarrow> 60 \<le> daysBefore True m"
    "monthLen False m \<le> monthLen True m"
proof -
  have "list_all (\<lambda>m. list_all (\<lambda>l. m \<le> 2 \<longrightarrow> daysBefore True m + monthLen l m \<le> (if l then 60 else 59)) [True, False]
      \<and> (m > 2 \<longrightarrow> 60 \<le> daysBefore True m) \<and> monthLen False m \<le> monthLen True m) [1 .. 12]"
    by code_simp
  with assms show "m \<le> 2 \<Longrightarrow> daysBefore True m + monthLen l m \<le> (if l then 60 else 59)"
    "m > 2 \<Longrightarrow> 60 \<le> daysBefore True m" "monthLen False m \<le> monthLen True m"
    by (cases l; simp add: list_all_iff)+
qed

lemma date_order:
  assumes "1 \<le> m" "m \<le> 12" "1 \<le> d" "d \<le> monthLen l m" "1 \<le> m'" "m' \<le> 12" "1 \<le> d'" "d' \<le> monthLen l m'"
  shows "daysBefore l m + d < daysBefore l m' + d' \<longleftrightarrow> m < m' \<or> m = m' \<and> d < d'"
proof (cases m m' rule: linorder_cases)
  case less
  then show ?thesis using month_step(1) [OF assms(1,2,5,6) less, of l] assms(4,7) by linarith
next
  case greater
  then show ?thesis using month_step(1) [OF assms(5,6,1,2) greater, of l] assms(3,8) by linarith
qed simp

definition ageSlip :: "int \<Rightarrow> int \<Rightarrow> int \<Rightarrow> int \<Rightarrow> int \<Rightarrow> int \<Rightarrow> int" where
  "ageSlip by bm bd y m d =
     (if isLeap by \<and> \<not> isLeap y \<and> bm > 2 \<and> m = bm \<and> d = bd then - 1
      else if \<not> isLeap by \<and> isLeap y \<and> bm > 2 \<and> dayNumber y m d + 1 = dayNumber y bm bd then 1 else 0)"

lemma yearDay_compare:
  assumes "validDate by bm bd" and "validDate y m d"
  shows "(if yearDay (dayNumber y m d) < yearDay (dayNumber by bm bd) then 1 else 0)
    = (if m < bm \<or> m = bm \<and> d < bd then 1 else 0) - ageSlip by bm bd y m d"
proof -
  define T where "T = daysBefore True"
  have b: "1 \<le> bm" "bm \<le> 12" "1 \<le> bd" "bd \<le> monthLen (isLeap by) bm" using assms(1) by (auto simp: validDate_def)
  have n: "1 \<le> m" "m \<le> 12" "1 \<le> d" "d \<le> monthLen (isLeap y) m" using assms(2) by (auto simp: validDate_def)
  have F: "daysBefore l k = T k - (if \<not> l \<and> k > 2 then 1 else 0)" for l k
    by (simp add: daysBefore_def T_def)
  have "bd \<le> monthLen True bm"
    using b(4) month_bounds(3) [OF b(1,2)] by (cases "isLeap by") simp_all
  moreover have "d \<le> monthLen True m"
    using n(4) month_bounds(3) [OF n(1,2)] by (cases "isLeap y") simp_all
  ultimately have before: "m < bm \<or> m = bm \<and> d < bd \<longleftrightarrow> T m + d < T bm + bd"
    and same: "m = bm \<and> d = bd \<longleftrightarrow> T m + d = T bm + bd"
    using date_order [OF n(1-3) _ b(1-3), of True] date_order [OF b(1-3) _ n(1-3), of True] unfolding T_def
    by fastforce+
  have low: "m \<le> 2 \<Longrightarrow> T m + d \<le> (if isLeap y then 60 else 59)" "bm \<le> 2 \<Longrightarrow> T bm + bd \<le> (if isLeap by then 60 else 59)"
    "m > 2 \<Longrightarrow> 60 \<le> T m" "bm > 2 \<Longrightarrow> 60 \<le> T bm"
    using month_bounds(1) [OF n(1,2), of "isLeap y"] month_bounds(1) [OF b(1,2), of "isLeap by"] n(4) b(4)
      month_bounds(2) [OF n(1,2)] month_bounds(2) [OF b(1,2)] unfolding T_def by linarith+
  have "validDate y m d \<Longrightarrow> dayNumber y bm bd = yearStart y + (daysBefore (isLeap y) bm + bd - 1)"
    using b by (simp add: dayNumber_def)
  then have "dayNumber y m d + 1 = dayNumber y bm bd \<longleftrightarrow> daysBefore (isLeap y) m + d + 1 = daysBefore (isLeap y) bm + bd"
    using dayNumber_valid(1) [OF assms(2)] assms(2) by auto
  then show ?thesis
    using low n(3) b(3) unfolding dayNumber_valid(3) [OF assms(1)] dayNumber_valid(3) [OF assms(2)] before ageSlip_def same F
    by (cases "isLeap by"; cases "isLeap y"; cases "m > 2"; cases "bm > 2"; simp)
qed

section \<open>The invariant of the account table\<close>

inductive accountStep :: "platform \<Rightarrow> keyDerivation \<Rightarrow> userTable \<Rightarrow> userTable \<Rightarrow> bool" for P IDKey where
  create: "rand = None \<or> length (the rand) = argon2SaltLen \<Longrightarrow>
    accountStep P IDKey t (snd (CreateAccount P IDKey rand screenName password t))"
| setPassword: "rand = None \<or> length (the rand) = argon2SaltLen \<Longrightarrow>
    accountStep P IDKey t (snd (SetUserPassword IDKey rand screenName password t))"
| delete: "accountStep P IDKey t (snd (DeleteUser screenName t))"

text \<open>A password of this length for this kind of account, and the hash that is stored for it.\<close>

definition passwordLenOk :: "bool \<Rightarrow> bytes \<Rightarrow> bool" where
  "passwordLenOk icq pw \<longleftrightarrow> (if icq then 6 \<le> length pw \<and> length pw \<le> 8 else 8 \<le> length pw \<and> length pw \<le> 128)"

definition storedHash :: "keyDerivation \<Rightarrow> bytes \<Rightarrow> bytes \<Rightarrow> bytes" where
  "storedHash IDKey pw salt = encodeArgon2Hash IDKey pw salt argon2Time argon2Memory argon2Threads argon2KeyLen"

definition hashOk :: "keyDerivation \<Rightarrow> bool \<Rightarrow> bytes \<Rightarrow> bool" where
  "hashOk IDKey icq h \<longleftrightarrow>
     (\<exists>pw salt. length salt = argon2SaltLen \<and> passwordLenOk icq pw \<and> h = storedHash IDKey pw salt)"

lemma hashOkI [simp]: "length salt = argon2SaltLen \<Longrightarrow> passwordLenOk icq pw \<Longrightarrow> hashOk IDKey icq (storedHash IDKey pw salt)"
  by (auto simp: hashOk_def)

definition accountOk :: "platform \<Rightarrow> keyDerivation \<Rightarrow> IdentScreenName \<Rightarrow> userRow \<Rightarrow> bool" where
  "accountOk P IDKey i r \<longleftrightarrow>
     i = NewIdentScreenName P (rowDisplayScreenName r) \<and>
     (rowIsICQ r \<longleftrightarrow> IsUIN P (rowDisplayScreenName r)) \<and>
     (if rowIsICQ r then ValidateUIN (rowDisplayScreenName r) = None
      else ValidateAIMHandle P (rowDisplayScreenName r) = None) \<and>
     hashOk IDKey (rowIsICQ r) (rowPasswordHash r)"

definition accountsOk :: "platform \<Rightarrow> keyDerivation \<Rightarrow> userTable \<Rightarrow> bool" where
  "accountsOk P IDKey t \<longleftrightarrow> distinct (map fst t) \<and> (\<forall>(i, r)\<in>set t. accountOk P IDKey i r)"

lemma HashPassword_Inr:
  assumes "User_HashPassword IDKey rand pw u = Inr v"
  obtains salt where "rand = Some salt" "passwordLenOk (userIsICQ u) pw" "v = u\<lparr>userPasswordHash := storedHash IDKey pw salt\<rparr>"
  using assms
  by (cases "userIsICQ u")
    (auto simp: User_HashPassword_def validateICQPassword_def validateAIMPassword_def NewPasswordHash_def
      passwordLenOk_def storedHash_def split: if_splits option.splits)

lemma CreateAccount_None:
  assumes "CreateAccount P IDKey rand sn pw t = (None, t')"
  obtains salt r where "rand = Some salt" "passwordLenOk (IsUIN P sn) pw" "map_of t (NewIdentScreenName P sn) = None"
    "t' = t @ [(NewIdentScreenName P sn, r)]" "rowDisplayScreenName r = sn" "rowIsICQ r = IsUIN P sn" "\<not> rowIsBot r"
    "rowPasswordHash r = storedHash IDKey pw salt"
    "if IsUIN P sn then ValidateUIN sn = None else ValidateAIMHandle P sn = None"
proof -
  let ?u = "zeroUser\<lparr>userDisplayScreenName := sn, userIdentScreenName := DisplayScreenName_IdentScreenName P sn,
    userIsICQ := IsUIN P sn\<rparr>"
  obtain v where v: "User_HashPassword IDKey rand pw ?u = Inr v" "InsertUser P v t = (None, t')"
    and name: "if IsUIN P sn then ValidateUIN sn = None else ValidateAIMHandle P sn = None"
    using assms by (auto simp: CreateAccount_def split: option.splits sum.splits if_splits)
  obtain salt where s: "rand = Some salt" "passwordLenOk (IsUIN P sn) pw" "v = ?u\<lparr>userPasswordHash := storedHash IDKey pw salt\<rparr>"
    using HashPassword_Inr [OF v(1)] by auto
  have "map_of t (NewIdentScreenName P sn) = None"
    "t' = t @ [(NewIdentScreenName P sn, \<lparr>rowDisplayScreenName = sn, rowPasswordHash = storedHash IDKey pw salt,
      rowIsICQ = IsUIN P sn, rowIsBot = False\<rparr>)]"
    using v(2) s(3) by (auto simp: InsertUser_def DisplayScreenName_IdentScreenName_def zeroUser_def split: if_splits)
  with s(1,2) name show thesis by (auto intro: that)
qed

lemma CreateAccount_Some: "fst (CreateAccount P IDKey rand sn pw t) = Some e \<Longrightarrow> snd (CreateAccount P IDKey rand sn pw t) = t"
  by (auto simp: CreateAccount_def InsertUser_def split: option.splits sum.splits if_splits)

lemma SetUserPassword_None:
  assumes "SetUserPassword IDKey rand sn pw t = (None, t')"
  obtains salt row where "rand = Some salt" "map_of t sn = Some row" "passwordLenOk (rowIsICQ row) pw"
    "t' = map (\<lambda>(i, r). (i, if i = sn then r\<lparr>rowPasswordHash := storedHash IDKey pw salt\<rparr> else r)) t"
proof -
  obtain row where row: "map_of t sn = Some row" using assms by (auto simp: SetUserPassword_def split: option.splits)
  then obtain u where u: "User_HashPassword IDKey rand pw (zeroUser\<lparr>userIsICQ := rowIsICQ row\<rparr>) = Inr u"
    "t' = map (\<lambda>(i, r). (i, if i = sn then r\<lparr>rowPasswordHash := userPasswordHash u\<rparr> else r)) t"
    using assms by (auto simp: SetUserPassword_def split: sum.splits)
  obtain salt where "rand = Some salt" "passwordLenOk (rowIsICQ row) pw"
    "u = zeroUser\<lparr>userIsICQ := rowIsICQ row, userPasswordHash := storedHash IDKey pw salt\<rparr>"
    using HashPassword_Inr [OF u(1)] by auto
  with u(2) row show thesis by (intro that [of salt row]) auto
qed

lemma SetUserPassword_Some: "fst (SetUserPassword IDKey rand sn pw t) = Some e \<Longrightarrow> snd (SetUserPassword IDKey rand sn pw t) = t"
  by (auto simp: SetUserPassword_def split: option.splits sum.splits)

lemma accountsOk_create:
  assumes "accountsOk P IDKey t" and "rand = None \<or> length (the rand) = argon2SaltLen"
  shows "accountsOk P IDKey (snd (CreateAccount P IDKey rand sn pw t))"
proof (cases "fst (CreateAccount P IDKey rand sn pw t)")
  case None
  then obtain t' where c: "CreateAccount P IDKey rand sn pw t = (None, t')" by (metis prod.collapse)
  obtain salt r where r: "rand = Some salt" "passwordLenOk (IsUIN P sn) pw" "map_of t (NewIdentScreenName P sn) = None"
    "t' = t @ [(NewIdentScreenName P sn, r)]" "rowDisplayScreenName r = sn" "rowIsICQ r = IsUIN P sn"
    "rowPasswordHash r = storedHash IDKey pw salt"
    "if IsUIN P sn then ValidateUIN sn = None else ValidateAIMHandle P sn = None"
    by (rule CreateAccount_None [OF c])
  have "accountOk P IDKey (NewIdentScreenName P sn) r"
    using r assms(2) by (simp add: accountOk_def)
  moreover have "NewIdentScreenName P sn \<notin> set (map fst t)" using r(3) by (simp add: map_of_eq_None_iff)
  ultimately show ?thesis using assms(1) by (simp add: c r(4) accountsOk_def)
qed (use assms CreateAccount_Some in metis)

lemma accountsOk_setPassword:
  assumes "accountsOk P IDKey t" and "rand = None \<or> length (the rand) = argon2SaltLen"
  shows "accountsOk P IDKey (snd (SetUserPassword IDKey rand sn pw t))"
proof (cases "fst (SetUserPassword IDKey rand sn pw t)")
  case None
  then obtain t' where c: "SetUserPassword IDKey rand sn pw t = (None, t')" by (metis prod.collapse)
  obtain salt row where s: "rand = Some salt" "map_of t sn = Some row" "passwordLenOk (rowIsICQ row) pw"
    and t': "t' = map (\<lambda>(i, r). (i, if i = sn then r\<lparr>rowPasswordHash := storedHash IDKey pw salt\<rparr> else r)) t"
    by (rule SetUserPassword_None [OF c])
  have keys: "map fst t' = map fst t" by (auto simp: t')
  have "accountOk P IDKey i (if i = sn then r\<lparr>rowPasswordHash := storedHash IDKey pw salt\<rparr> else r)"
    if "(i, r) \<in> set t" for i r
  proof -
    have "map_of t i = Some r" using that assms(1) by (simp add: accountsOk_def)
    moreover have "accountOk P IDKey i r" using that assms(1) by (auto simp: accountsOk_def)
    ultimately show ?thesis using s assms(2) by (auto simp: accountOk_def)
  qed
  then have "\<forall>(i, r)\<in>set t'. accountOk P IDKey i r" by (auto simp: t')
  then show ?thesis using assms(1) by (simp add: c accountsOk_def keys)
qed (use assms SetUserPassword_Some in metis)

interpretation accounts: invariant_system "\<lambda>t. t = []" "accountStep P IDKey" "accountsOk P IDKey"
proof
  show "accountsOk P IDKey t'" if "accountsOk P IDKey t" "accountStep P IDKey t t'" for t t'
    using that(2,1)
  proof cases
    case (delete sn)
    then show ?thesis using that(1)
      by (auto simp: accountsOk_def DeleteUser_def intro: distinct_map_filter)
  qed (use that(1) accountsOk_create accountsOk_setPassword in blast)+
qed (simp add: accountsOk_def)

section \<open>Properties\<close>

text \<open>The law of the key derivation the code relies on: it answers as many bytes as it is asked for.\<close>

definition derivesKeys :: "keyDerivation \<Rightarrow> bool" where
  "derivesKeys IDKey \<longleftrightarrow> (\<forall>pw salt t m p k. length (IDKey pw salt t m p k) = unat k)"

lemma Verify_storedHash:
  assumes "derivesKeys IDKey" and "length salt = argon2SaltLen"
  shows "VerifyPassword IDKey (storedHash IDKey pw salt) other \<longleftrightarrow>
    IDKey other salt argon2Time argon2Memory argon2Threads argon2KeyLen
      = IDKey pw salt argon2Time argon2Memory argon2Threads argon2KeyLen"
proof -
  have "salt \<noteq> []" "length (IDKey pw salt argon2Time argon2Memory argon2Threads argon2KeyLen) = unat argon2KeyLen"
    using assms by (auto simp: derivesKeys_def)
  then show ?thesis
    using password_hash_parses [of IDKey pw salt argon2Time argon2Memory argon2Threads argon2KeyLen]
    by (simp add: storedHash_def VerifyPassword_def)
qed

text \<open>Every way of signing on that still works, with the form of the password it sends.\<close>

definition signsOn :: "keyDerivation \<Rightarrow> User \<Rightarrow> bytes \<Rightarrow> bool list" where
  "signsOn IDKey u pw =
     [ValidatePlaintextPass IDKey u pw, ValidateRoastedPass IDKey u (RoastOSCARPassword pw),
      ValidateRoastedJavaPass IDKey u (RoastOSCARJavaPassword pw), ValidateRoastedTOCPass IDKey u (RoastTOCPassword pw),
      ValidateRoastedKerberosPass IDKey u (RoastKerberosPassword pw)]"

lemma signsOn_eq: "signsOn IDKey u pw = replicate 5 (VerifyPassword IDKey (userPasswordHash u) pw)"
  by (simp add: signsOn_def ValidatePlaintextPass_def ValidateRoastedPass_def ValidateRoastedJavaPass_def
      ValidateRoastedTOCPass_def ValidateRoastedKerberosPass_def User_verify_def RoastOSCARPassword_def
      RoastOSCARJavaPassword_def RoastTOCPassword_def RoastKerberosPassword_def roast.crypt_crypt
      eval_nat_numeral)

text \<open>An account that the creator accepted can sign on with the password it was created with, in
  each of the five forms clients send it, and with another password exactly when the key
  derivation of that password under the account's salt collides. The account is the row of the
  name's normal form, was not there before, and the rest of the table is untouched.\<close>
theorem created_account_signs_on:
  assumes "derivesKeys IDKey" and "length salt = argon2SaltLen"
    and "CreateAccount P IDKey (Some salt) sn pw t = (None, t')"
  shows "\<exists>r. map_of t' (NewIdentScreenName P sn) = Some r \<and> map_of t (NewIdentScreenName P sn) = None
    \<and> (\<forall>i. i \<noteq> NewIdentScreenName P sn \<longrightarrow> map_of t' i = map_of t i)
    \<and> (\<forall>u. userPasswordHash u = rowPasswordHash r \<longrightarrow> signsOn IDKey u pw = replicate 5 True
        \<and> signsOn IDKey u other = replicate 5 (IDKey other salt argon2Time argon2Memory argon2Threads argon2KeyLen
            = IDKey pw salt argon2Time argon2Memory argon2Threads argon2KeyLen))"
proof -
  obtain r where r: "map_of t (NewIdentScreenName P sn) = None" "t' = t @ [(NewIdentScreenName P sn, r)]"
    "rowPasswordHash r = storedHash IDKey pw salt"
    using CreateAccount_None [OF assms(3)] by (metis option.inject)
  have "map_of t' (NewIdentScreenName P sn) = Some r" "\<forall>i. i \<noteq> NewIdentScreenName P sn \<longrightarrow> map_of t' i = map_of t i"
    using r(1) by (simp_all add: r(2) map_of_append map_add_def split: option.split)
  with r(1,3) show ?thesis using Verify_storedHash [OF assms(1,2)] by (auto simp: signsOn_eq)
qed

lemma sample_derivesKeys: "derivesKeys sampleIDKey"
  by (simp add: derivesKeys_def length_sampleIDKey)

definition sampleSalt :: bytes where "sampleSalt = replicate 16 7"

lemma sample_CreateAccount:
  "fst (CreateAccount samplePlatform sampleIDKey (Some sampleSalt) (asciiBytes ''Al 99'') (asciiBytes ''opensesame'') []) = None"
proof -
  have "isASCII (asciiBytes ''Al 99'')" "IsUIN samplePlatform (asciiBytes ''Al 99'') = False"
    by (simp_all add: asciiBytes_def IsUIN_def runes_ascii isDigit_def)
  then show ?thesis
    by (simp add: CreateAccount_def ValidateAIMHandle_def runes_ascii countHandle_ascii asciiBytes_def handleChar_def
      isLetter_def isDigit_def User_HashPassword_def validateAIMPassword_def NewPasswordHash_def InsertUser_def zeroUser_def)
qed

theorem created_account_signs_on_witness:
  "\<exists>t' r. CreateAccount samplePlatform sampleIDKey (Some sampleSalt) (asciiBytes ''Al 99'') (asciiBytes ''opensesame'') []
      = (None, t') \<and> map_of t' (asciiBytes ''al99'') = Some r
    \<and> signsOn sampleIDKey (zeroUser\<lparr>userPasswordHash := rowPasswordHash r\<rparr>) (asciiBytes ''opensesame'') = replicate 5 True"
proof -
  obtain t' where c: "CreateAccount samplePlatform sampleIDKey (Some sampleSalt) (asciiBytes ''Al 99'')
      (asciiBytes ''opensesame'') [] = (None, t')"
    using sample_CreateAccount by (metis prod.collapse)
  have "NewIdentScreenName samplePlatform (asciiBytes ''Al 99'') = asciiBytes ''al99''"
    by (simp add: ident_ascii asciiBytes_def asciiLower_def)
  moreover have "length sampleSalt = 16" by (simp add: sampleSalt_def)
  ultimately obtain r where "map_of t' (asciiBytes ''al99'') = Some r"
    "\<forall>u. userPasswordHash u = rowPasswordHash r \<longrightarrow> signsOn sampleIDKey u (asciiBytes ''opensesame'') = replicate 5 True"
    using created_account_signs_on [OF sample_derivesKeys _ c, where other = "[]"] by metis
  moreover have "userPasswordHash (zeroUser\<lparr>userPasswordHash := h\<rparr>) = h" for h by simp
  ultimately show ?thesis using c by blast
qed

text \<open>C16: What every account row holds in a table that only account creation, password changes and deletion have
  made, in any order from the empty one:
  one row per normal form of a name that passed its check, the kind of account decided by the
  digits of the name, and the hash of some password whose length is right for that kind. The hash
  can be parsed, so no row made this way locks its account out. Rows that were written otherwise are not meant: those
  that migration 0034 left without a hash, those other callers of \<open>InsertUser\<close> make, and those whose display
  name was changed since.\<close>
theorem account_table_invariant:
  assumes "(accountStep P IDKey)\<^sup>*\<^sup>* [] t" and "derivesKeys IDKey"
  shows "distinct (map fst t) \<and> (\<forall>(i, r)\<in>set t. accountOk P IDKey i r \<and> isOk (ParsePasswordHash (rowPasswordHash r)))"
proof -
  have ok: "accountsOk P IDKey t" using accounts.invar_reachable [OF assms(1)] by simp
  have "isOk (ParsePasswordHash (rowPasswordHash r))" if r: "accountOk P IDKey i r" for i r
  proof -
    obtain pw salt where h: "length salt = 16" "rowPasswordHash r = storedHash IDKey pw salt"
      using r by (auto simp: accountOk_def hashOk_def)
    then have "VerifyPassword IDKey (rowPasswordHash r) pw" using Verify_storedHash [OF assms(2)] by simp
    then show ?thesis by (auto simp: VerifyPassword_def split: sum.splits)
  qed
  with ok show ?thesis by (auto simp: accountsOk_def)
qed

theorem account_table_invariant_witness:
  "\<exists>t. (accountStep samplePlatform sampleIDKey)\<^sup>*\<^sup>* [] t \<and> length t = 1
    \<and> (\<forall>(i, r)\<in>set t. isOk (ParsePasswordHash (rowPasswordHash r)))"
proof -
  let ?t = "snd (CreateAccount samplePlatform sampleIDKey (Some sampleSalt) (asciiBytes ''Al 99'') (asciiBytes ''opensesame'') [])"
  have r: "(accountStep samplePlatform sampleIDKey)\<^sup>*\<^sup>* [] ?t"
    by (rule r_into_rtranclp, rule accountStep.create) (simp add: sampleSalt_def)
  obtain t' where "CreateAccount samplePlatform sampleIDKey (Some sampleSalt) (asciiBytes ''Al 99'')
      (asciiBytes ''opensesame'') [] = (None, t')"
    using sample_CreateAccount by (metis prod.collapse)
  then have "length ?t = 1" by (auto elim: CreateAccount_None)
  then show ?thesis
    using r account_table_invariant [OF r sample_derivesKeys] by (intro exI [of _ ?t]) auto
qed

text \<open>Leading zeros make different accounts with one UIN. A string of digits whose value is in the
  range of UINs is accepted by the account creator, and so is the same string behind any number
  of zeros; each is an account of its own, and all of them answer the same UIN.\<close>
theorem leading_zeros_share_uin:
  assumes "ds \<noteq> []" and "list_all isDecimal ds" and "10000 \<le> decimalValue ds" and "decimalValue ds \<le> 2147483646"
    and "passwordLenOk True pw" and "zs = replicate (Suc n) 0x30 @ ds"
  shows "\<exists>t1 t2. CreateAccount P IDKey (Some salt) ds pw [] = (None, t1) \<and> CreateAccount P IDKey (Some salt) zs pw t1 = (None, t2)
    \<and> length t2 = 2 \<and> UIN (NewIdentScreenName P zs) = UIN (NewIdentScreenName P ds)"
proof -
  have digit: "isDecimal x \<Longrightarrow> x < 0x80 \<and> x \<noteq> 0x20 \<and> asciiLower x = x \<and> x \<noteq> 0x2B \<and> x \<noteq> 0x2D \<and> isDigit P (unat x)" for x
    by (auto simp: isDecimal_def asciiLower_def isDigit_def word_le_nat_alt word_less_nat_alt)
  have zs: "zs \<noteq> []" "list_all isDecimal zs" "zs \<noteq> ds" "decimalValue zs = decimalValue ds"
  proof -
    have "fold (\<lambda>b n. n * 10 + (uint b - 48)) (replicate k (0x30 :: byte)) 0 = 0" for k
      by (induction k) simp_all
    then show "decimalValue zs = decimalValue ds" by (simp add: assms(6) decimalValue_def del: replicate_Suc)
  qed (use assms(2) in \<open>auto simp: assms(6) isDecimal_def list_all_iff\<close>)
  have name: "NewIdentScreenName P s = s" "IsUIN P s" "ValidateUIN s = None" "atoiValue s = decimalValue s"
    if s: "s \<noteq> []" "list_all isDecimal s" "10000 \<le> decimalValue s" "decimalValue s \<le> 2147483646" for s
  proof -
    have ascii: "isASCII s" using s(2) digit by (auto simp: isASCII_set list_all_iff)
    have "map asciiLower (removeAll 0x20 s) = s" using s(2) digit by (induction s) auto
    with ascii show "NewIdentScreenName P s = s" by (simp add: ident_ascii)
    show "IsUIN P s" using ascii s digit by (auto simp: IsUIN_def runes_ascii list_all_iff)
    have "\<exists>b bs. s = b # bs \<and> b \<noteq> 0x2B \<and> b \<noteq> 0x2D" using s(1,2) digit by (cases s) auto
    with s show "ValidateUIN s = None" "atoiValue s = decimalValue s"
      by (auto simp: ValidateUIN_def strconv_Atoi_def atoiDigits_def atoiRange_def atoiValue_def atoiSaturate_def)
  qed
  note d = name [OF assms(1-4)] and z = name [of zs, unfolded zs(4), OF zs(1,2) assms(3,4)]
  have "validateICQPassword pw = None" using assms(5) by (auto simp: validateICQPassword_def passwordLenOk_def)
  then show ?thesis
    using d z zs(3,4)
    by (auto simp: CreateAccount_def User_HashPassword_def NewPasswordHash_def InsertUser_def zeroUser_def
        DisplayScreenName_IdentScreenName_def UIN_def)
qed

theorem leading_zeros_share_uin_witness:
  "UIN (NewIdentScreenName samplePlatform (asciiBytes ''010001'')) = UIN (NewIdentScreenName samplePlatform (asciiBytes ''10001''))"
proof -
  have "list_all isDecimal (asciiBytes ''10001'')" "decimalValue (asciiBytes ''10001'') = 10001"
    "asciiBytes ''10001'' \<noteq> []" "asciiBytes ''010001'' = replicate (Suc 0) 0x30 @ asciiBytes ''10001''"
    by (simp_all add: asciiBytes_def isDecimal_def decimalValue_def)
  then show ?thesis
    using leading_zeros_share_uin [of "asciiBytes ''10001''" "[1, 2, 3, 4, 5, 6]" "asciiBytes ''010001''" 0
        samplePlatform sampleIDKey "[]"] by (auto simp: passwordLenOk_def)
qed

text \<open>The age of a directory entry. For a real birth date and today's date the answer is the number
  of birthdays that have passed, except for dates of different kinds of year after February, which
  are compared by their day of the year: someone born after February of a leap year is one year
  too young on the birthday itself in every other year, and someone born after February of another
  year is one year too old on the day before the birthday in every leap year.\<close>
theorem Age_correct:
  assumes "info = icqMore (userICQInfo u)" and "by = uint (BirthYear info)" and "bm = uint (BirthMonth info)"
    and "bd = uint (BirthDay info)" and "0 < by" and "validDate by bm bd" and "validDate y m d"
    and "dayOf now = dayNumber y m d"
  shows "Age now u = word_of_int (y - by - (if m < bm \<or> m = bm \<and> d < bd then 1 else 0) + ageSlip by bm bd y m d)"
proof -
  have pos: "0 < BirthYear info" "0 < BirthMonth info" "0 < BirthDay info" "BirthDay info \<noteq> 0"
    using assms(2-6) by (auto simp: validDate_def word_less_def)
  have "(if yearDay (dayNumber y m d) < yearDay (dayNumber by bm bd) then y - by - 1 else y - by)
      = y - by - (if yearDay (dayNumber y m d) < yearDay (dayNumber by bm bd) then 1 else 0)" by simp
  also have "\<dots> = y - by - (if m < bm \<or> m = bm \<and> d < bd then 1 else 0) + ageSlip by bm bd y m d"
    by (simp only: yearDay_compare [OF assms(6,7)])
  finally have slip: "(if yearDay (dayNumber y m d) < yearDay (dayNumber by bm bd) then y - by - 1 else y - by)
      = y - by - (if m < bm \<or> m = bm \<and> d < bd then 1 else 0) + ageSlip by bm bd y m d" .
  have "Age now u = word_of_int (if yearDay (dayNumber y m d) < yearDay (dayNumber by bm bd)
      then yearOf (dayNumber y m d) - yearOf (dayNumber by bm bd) - 1
      else yearOf (dayNumber y m d) - yearOf (dayNumber by bm bd))"
    using pos unfolding Age_def Let_def assms(8) assms(2-4) assms(1) by (simp del: of_int_diff)
  then show ?thesis
    unfolding dayNumber_valid(2) [OF assms(6)] dayNumber_valid(2) [OF assms(7)] slip .
qed

theorem Age_correct_witness:
  "Age ((dayNumber 2023 3 15 - 719162) * (86400 * 10 ^ 9))
     (zeroUser\<lparr>userICQInfo := zeroICQInfo\<lparr>icqMore := zeroICQMoreInfo\<lparr>BirthYear := 2000, BirthMonth := 3, BirthDay := 15\<rparr>\<rparr>\<rparr>) = 22"
  using Age_correct [of "zeroICQMoreInfo\<lparr>BirthYear := 2000, BirthMonth := 3, BirthDay := 15\<rparr>"
      "zeroUser\<lparr>userICQInfo := zeroICQInfo\<lparr>icqMore := zeroICQMoreInfo\<lparr>BirthYear := 2000, BirthMonth := 3, BirthDay := 15\<rparr>\<rparr>\<rparr>"
      2000 3 15 2023 3 15 "(dayNumber 2023 3 15 - 719162) * (86400 * 10 ^ 9)"]
  by (simp add: validDate_def monthLen_def isLeap_def ageSlip_def dayOf_def)

end
