(* ===== verification/State_Cookie.thy ===== *)
theory State_Cookie
  imports State_User Wire_Values Wire_Catalogue
begin

text \<open>
  \<open>state/cookie.go\<close>: the signed tokens that carry a login from one service to the next. A token is
  what the codec encodes; the keyed hash (\<open>hmac\<close> over \<open>sha256\<close>) is a parameter \<open>HMAC\<close> of the
  definitions, and so is the clock, in nanoseconds since 1970.
\<close>

section \<open>Payloads\<close>

record ServerCookie =
  cookieService :: u16
  cookieScreenName :: DisplayScreenName
  cookieClientID :: bytes
  cookieChatCookie :: bytes
  cookieMultiConnFlag :: byte
  cookieKerberosAuth :: byte
  cookieSessionNum :: byte

definition ServerCookie_type :: gtype where
  "ServerCookie_type = TStruct ''ServerCookie'' (structFields
     [(''Service'', None, TU16),
      (''ScreenName'', Some ''len_prefix=uint8'', TString),
      (''ClientID'', Some ''len_prefix=uint8'', TString),
      (''ChatCookie'', Some ''len_prefix=uint8'', TString),
      (''MultiConnFlag'', None, TU8),
      (''KerberosAuth'', None, TU8),
      (''SessionNum'', None, TU8)])"

definition ServerCookie_val :: "ServerCookie \<Rightarrow> gval" where
  "ServerCookie_val c = VStruct [VU16 (cookieService c), VString (cookieScreenName c), VString (cookieClientID c),
     VString (cookieChatCookie c), VU8 (cookieMultiConnFlag c), VU8 (cookieKerberosAuth c), VU8 (cookieSessionNum c)]"

definition toServerCookie :: "gval \<Rightarrow> ServerCookie" where
  "toServerCookie v = \<lparr>cookieService = asU16 (field 0 v), cookieScreenName = asBytes (field 1 v),
     cookieClientID = asBytes (field 2 v), cookieChatCookie = asBytes (field 3 v),
     cookieMultiConnFlag = asU8 (field 4 v), cookieKerberosAuth = asU8 (field 5 v), cookieSessionNum = asU8 (field 6 v)\<rparr>"

definition hmacTokenPayload_type :: gtype where
  "hmacTokenPayload_type = TStruct ''hmacTokenPayload'' (structFields
     [(''Expiry'', None, TU32), (''Data'', Some ''len_prefix=uint16'', TSlice TU8)])"

definition hmacToken_type :: gtype where
  "hmacToken_type = TStruct ''hmacToken'' (structFields
     [(''Data'', Some ''len_prefix=uint16'', TSlice TU8), (''Sig'', Some ''len_prefix=uint16'', TSlice TU8)])"

section \<open>Issue and crack\<close>

type_synonym keyedHash = "bytes \<Rightarrow> bytes \<Rightarrow> bytes"

abbreviation (input) authCookieLen :: nat where "authCookieLen \<equiv> 256"

datatype cookieError = CookieMarshal gerr | CookieTooLong | CookieUnmarshal gerr | CookieInvalid
  | CookiePayload gerr | CookieExpired

text \<open>\<open>Unix\<close> seconds of a time, and the payload's expiry: one minute from now, as a uint32.\<close>

definition unixSeconds :: "int \<Rightarrow> int" where
  "unixSeconds t = t div 10 ^ 9"

definition cookieExpiry :: "int \<Rightarrow> u32" where
  "cookieExpiry now = word_of_int (unixSeconds (now + 60 * 10 ^ 9))"

definition Issue :: "keyedHash \<Rightarrow> bytes \<Rightarrow> int \<Rightarrow> bytes \<Rightarrow> cookieError + bytes" where
  "Issue HMAC key now data =
     (case MarshalBE (Some (hmacTokenPayload_type, VStruct [VU32 (cookieExpiry now), bytesVal data])) of
        Inl e \<Rightarrow> Inl (CookieMarshal e)
      | Inr payload \<Rightarrow>
          (case MarshalBE (Some (hmacToken_type, VStruct [bytesVal payload, bytesVal (HMAC key payload)])) of
             Inl e \<Rightarrow> Inl (CookieMarshal e)
           | Inr buf \<Rightarrow>
               if length buf > authCookieLen then Inl CookieTooLong
               else Inr (buf @ replicate (authCookieLen - length buf) 0)))"

definition Crack :: "keyedHash \<Rightarrow> bytes \<Rightarrow> int \<Rightarrow> bytes \<Rightarrow> cookieError + bytes" where
  "Crack HMAC key now data =
     (case UnmarshalBE hmacToken_type data of
        (Inl e, _) \<Rightarrow> Inl (CookieUnmarshal e)
      | (Inr tok, _) \<Rightarrow>
          if asBytes (field 1 tok) \<noteq> HMAC key (asBytes (field 0 tok)) then Inl CookieInvalid
          else (case UnmarshalBE hmacTokenPayload_type (asBytes (field 0 tok)) of
            (Inl e, _) \<Rightarrow> Inl (CookiePayload e)
          | (Inr payload, _) \<Rightarrow>
              if uint (asU32 (field 0 payload)) * 10 ^ 9 < now then Inl CookieExpired
              else Inr (asBytes (field 1 payload))))"

section \<open>What the tokens encode to\<close>

lemmas marshal_eval = marshalTop_def marshalTagged_def fieldPointerCheck_def structOrder_def marshalStructPrefix_def
  marshalSlicePrefix_def marshalString_def marshalUnsignedInt_def parse_tags

text \<open>The two payloads as bytes. A data part whose length does not fit its prefix is cut there.\<close>

definition payloadBytes :: "u32 \<Rightarrow> bytes \<Rightarrow> bytes" where
  "payloadBytes e data = putUint BigEndian 4 (unat e) @ putUint BigEndian 2 (length data mod 2 ^ 16) @ data"

definition tokenBytes :: "bytes \<Rightarrow> bytes \<Rightarrow> bytes" where
  "tokenBytes d g = putUint BigEndian 2 (length d mod 2 ^ 16) @ d @ putUint BigEndian 2 (length g mod 2 ^ 16) @ g"

lemma encode_payload:
  "MarshalBE (Some (hmacTokenPayload_type, VStruct [VU32 e, bytesVal data])) = Inr (payloadBytes e data)"
  by (simp add: MarshalBE_def hmacTokenPayload_type_def bytesVal_def marshal_eval binaryWrite_bytes payloadBytes_def
      del: map_map)

lemma encode_token:
  "MarshalBE (Some (hmacToken_type, VStruct [bytesVal d, bytesVal g])) = Inr (tokenBytes d g)"
  by (simp add: MarshalBE_def hmacToken_type_def bytesVal_def marshal_eval binaryWrite_bytes tokenBytes_def
      del: map_map)

lemma length_payload: "length (payloadBytes e data) = length data + 6" "length (tokenBytes d g) = length d + length g + 4"
  by (simp_all add: payloadBytes_def tokenBytes_def)

text \<open>What a codec type of this theory decodes behind its own encoding.\<close>

lemma decode_own:
  assumes "codable t noTag" and "noQuirk t" and "selfDelim t noTag" and "\<not> is_ptr t" and "fits t noTag BigEndian v"
    and "MarshalBE (Some (t, v)) = Inr bs"
  shows "UnmarshalBE t (bs @ r) = (Inr v, r)"
proof -
  have rt: "roundtrips t noTag BigEndian v" using roundtrips_main(1) [OF assms(1,2,5)] assms(4) by simp
  show ?thesis
    using roundtrips_encOf(1) [OF rt] roundtrips_encOf(3) [OF rt, of r] assms(3,4,6)
    by (simp add: top_of_plain MarshalBE_def UnmarshalBE_def)
qed

lemma fits_bytesVal: "length bs < 2 ^ 16 \<Longrightarrow> fits (TSlice TU8) (noTag\<lparr>hasLenPrefix := True, lenPrefix := KUint16\<rparr>) order (bytesVal bs)"
  using fits_bytes [of order bs]
  by (simp add: bytesVal_def lenFits_def prefixWidth_def concat_enc_bytes del: map_map)

lemma decode_payload: "length data < 2 ^ 16 \<Longrightarrow> UnmarshalBE hmacTokenPayload_type (payloadBytes e data @ r) = (Inr (VStruct [VU32 e, bytesVal data]), r)"
  using fits_bytesVal [of data BigEndian]
  by (intro decode_own encode_payload) (simp_all add: hmacTokenPayload_type_def parse_tags)

lemma decode_token: "length d < 2 ^ 16 \<Longrightarrow> length g < 2 ^ 16 \<Longrightarrow>
    UnmarshalBE hmacToken_type (tokenBytes d g @ r) = (Inr (VStruct [bytesVal d, bytesVal g]), r)"
  using fits_bytesVal [of d BigEndian] fits_bytesVal [of g BigEndian]
  by (intro decode_own encode_token) (simp_all add: hmacToken_type_def parse_tags)

lemma asBytes_bytesVal [simp]: "asBytes (bytesVal bs) = bs"
  by (simp add: bytesVal_def)

section \<open>Issued cookies\<close>

text \<open>The law of the keyed hash the code relies on: a \<open>sha256\<close> sum has 32 bytes.\<close>

definition sumOf32 :: "keyedHash \<Rightarrow> bool" where
  "sumOf32 HMAC \<longleftrightarrow> (\<forall>key d. length (HMAC key d) = 32)"

lemma Issue_cases:
  assumes "sumOf32 HMAC"
  shows "Issue HMAC key now data =
    (if length data \<le> 214
     then (let p = payloadBytes (cookieExpiry now) data
           in Inr (tokenBytes p (HMAC key p) @ replicate (214 - length data) 0))
     else Inl CookieTooLong)"
  using assms by (simp add: Issue_def encode_payload encode_token length_payload sumOf32_def Let_def)

lemma issue_crack:
  assumes "sumOf32 HMAC" and "0 \<le> now" and "unixSeconds (now + 60 * 10 ^ 9) < 2 ^ 32" and "length data \<le> 214"
  shows "\<exists>c. Issue HMAC key now data = Inr c \<and> length c = 256
      \<and> (\<forall>later r. Crack HMAC key later (c @ r) =
          (if unixSeconds (now + 60 * 10 ^ 9) * 10 ^ 9 < later then Inl CookieExpired else Inr data))
      \<and> (\<forall>key' later. HMAC key' (payloadBytes (cookieExpiry now) data) \<noteq> HMAC key (payloadBytes (cookieExpiry now) data)
          \<longrightarrow> Crack HMAC key' later c = Inl CookieInvalid)"
proof (intro exI conjI allI impI)
  let ?d = "payloadBytes (cookieExpiry now) data"
  let ?c = "tokenBytes ?d (HMAC key ?d) @ replicate (214 - length data) 0"
  have l: "length (HMAC k p) = 32" for k p using assms(1) by (simp add: sumOf32_def)
  have e: "uint (cookieExpiry now) = unixSeconds (now + 60 * 10 ^ 9)"
    using assms(2,3) by (simp add: cookieExpiry_def uint_word_of_int unixSeconds_def)
  show "Issue HMAC key now data = Inr ?c" using assms(4) Issue_cases [OF assms(1)] by (simp add: Let_def)
  show "length ?c = 256" using assms(4) by (simp add: length_payload l)
  have t: "UnmarshalBE hmacToken_type (tokenBytes ?d (HMAC key ?d) @ r) = (Inr (VStruct [bytesVal ?d, bytesVal (HMAC key ?d)]), r)" for r
    using assms(4) by (intro decode_token) (simp_all add: length_payload l)
  have p: "UnmarshalBE hmacTokenPayload_type ?d = (Inr (VStruct [VU32 (cookieExpiry now), bytesVal data]), [])"
    using decode_payload [of data "cookieExpiry now" "[]"] assms(4) by simp
  show "Crack HMAC key later (?c @ r) =
      (if unixSeconds (now + 60 * 10 ^ 9) * 10 ^ 9 < later then Inl CookieExpired else Inr data)" for later r
    by (simp add: Crack_def t p e)
  show "Crack HMAC key' later ?c = Inl CookieInvalid" if "HMAC key' ?d \<noteq> HMAC key ?d" for key' later
    using that by (simp add: Crack_def t eq_commute)
qed

text \<open>The round trip of an auth cookie. Data of up to 214 bytes is issued as a cookie of exactly 256
  bytes, and the same server cracks it to the same data, whatever follows the cookie, as long as
  the clock has not passed the expiry second, one minute after the issue; from then on it answers
  the expiry error. Longer data is refused. Under any key whose hash of the payload differs the
  cookie is refused as invalid, whatever the time.\<close>
theorem cookie_roundtrip:
  assumes "sumOf32 HMAC" and "0 \<le> now" and "unixSeconds (now + 60 * 10 ^ 9) < 2 ^ 32"
    and "d = payloadBytes (cookieExpiry now) data"
  shows "(length data \<le> 214 \<longrightarrow> (\<exists>c. Issue HMAC key now data = Inr c \<and> length c = 256
      \<and> (\<forall>later r. Crack HMAC key later (c @ r) =
          (if unixSeconds (now + 60 * 10 ^ 9) * 10 ^ 9 < later then Inl CookieExpired else Inr data))
      \<and> (\<forall>key' later. HMAC key' d \<noteq> HMAC key d \<longrightarrow> Crack HMAC key' later c = Inl CookieInvalid)))
    \<and> (214 < length data \<longrightarrow> Issue HMAC key now data = Inl CookieTooLong)"
  using issue_crack [OF assms(1-3), of data key] Issue_cases [OF assms(1)] by (simp add: assms(4))

definition sampleHMAC :: keyedHash where
  "sampleHMAC key d = take 32 (key @ replicate 32 0)"

lemma sampleHMAC_32: "sumOf32 sampleHMAC"
  by (auto simp: sumOf32_def sampleHMAC_def min_def)

theorem cookie_roundtrip_witness:
  "\<exists>c. Issue sampleHMAC [1] 5 [7, 7] = Inr c \<and> Crack sampleHMAC [1] (60 * 10 ^ 9) c = Inr [7, 7]
    \<and> Crack sampleHMAC [1] (61 * 10 ^ 9) c = Inl CookieExpired \<and> Crack sampleHMAC [2] 5 c = Inl CookieInvalid"
proof -
  have "(\<exists>c. Issue sampleHMAC [1] 5 [7, 7] = Inr c \<and> length c = 256
      \<and> (\<forall>later r. Crack sampleHMAC [1] later (c @ r) =
          (if unixSeconds (5 + 60 * 10 ^ 9) * 10 ^ 9 < later then Inl CookieExpired else Inr [7, 7]))
      \<and> (\<forall>key' later. sampleHMAC key' (payloadBytes (cookieExpiry 5) [7, 7]) \<noteq> sampleHMAC [1] (payloadBytes (cookieExpiry 5) [7, 7])
          \<longrightarrow> Crack sampleHMAC key' later c = Inl CookieInvalid))"
    using cookie_roundtrip [OF sampleHMAC_32, of 5 _ "[7, 7]" "[1]"] by (simp add: unixSeconds_def)
  then obtain c where c: "Issue sampleHMAC [1] 5 [7, 7] = Inr c"
    "\<forall>later r. Crack sampleHMAC [1] later (c @ r) = (if 60 * 10 ^ 9 < later then Inl CookieExpired else Inr [7, 7])"
    "\<forall>key' later. sampleHMAC key' (payloadBytes (cookieExpiry 5) [7, 7]) \<noteq> sampleHMAC [1] (payloadBytes (cookieExpiry 5) [7, 7])
      \<longrightarrow> Crack sampleHMAC key' later c = Inl CookieInvalid"
    by (auto simp: unixSeconds_def)
  have "sampleHMAC [2] p \<noteq> sampleHMAC [1] p" for p by (simp add: sampleHMAC_def)
  with c(1,3) c(2) [rule_format, of _ "[]"] show ?thesis by auto
qed

section \<open>The login cookie\<close>

definition cookieLen :: "ServerCookie \<Rightarrow> nat" where
  "cookieLen c = 8 + length (cookieScreenName c) + length (cookieClientID c) + length (cookieChatCookie c)"

lemma encode_ServerCookie:
  obtains bs where "MarshalBE (Some (ServerCookie_type, ServerCookie_val c)) = Inr bs" "length bs = cookieLen c"
    "cookieLen c \<le> 214 \<Longrightarrow> UnmarshalBE ServerCookie_type bs = (Inr (ServerCookie_val c), [])"
proof
  let ?bs = "putUint BigEndian 2 (unat (cookieService c))
      @ putUint BigEndian 1 (length (cookieScreenName c) mod 2 ^ 8) @ cookieScreenName c
      @ putUint BigEndian 1 (length (cookieClientID c) mod 2 ^ 8) @ cookieClientID c
      @ putUint BigEndian 1 (length (cookieChatCookie c) mod 2 ^ 8) @ cookieChatCookie c
      @ [cookieMultiConnFlag c, cookieKerberosAuth c, cookieSessionNum c]"
  show enc: "MarshalBE (Some (ServerCookie_type, ServerCookie_val c)) = Inr ?bs"
    by (simp add: MarshalBE_def ServerCookie_type_def ServerCookie_val_def marshal_eval Let_def)
  show "length ?bs = cookieLen c" by (simp add: cookieLen_def)
  assume fit: "cookieLen c \<le> 214"
  have "UnmarshalBE ServerCookie_type (?bs @ []) = (Inr (ServerCookie_val c), [])"
    using fit by (intro decode_own enc) (simp_all add: ServerCookie_type_def ServerCookie_val_def parse_tags
      cookieLen_def lenFits_def prefixWidth_def)
  then show "UnmarshalBE ServerCookie_type ?bs = (Inr (ServerCookie_val c), [])" by simp
qed

lemma toServerCookie_val [simp]: "toServerCookie (ServerCookie_val c) = c"
  by (simp add: toServerCookie_def ServerCookie_val_def)

text \<open>The marker of a login: what the sign-on services do to issue one and to take it back.\<close>

definition issueLogin :: "keyedHash \<Rightarrow> bytes \<Rightarrow> int \<Rightarrow> ServerCookie \<Rightarrow> cookieError + bytes" where
  "issueLogin HMAC key now c =
     (case MarshalBE (Some (ServerCookie_type, ServerCookie_val c)) of
        Inl e \<Rightarrow> Inl (CookieMarshal e)
      | Inr buf \<Rightarrow> Issue HMAC key now buf)"

definition CrackCookie :: "keyedHash \<Rightarrow> bytes \<Rightarrow> int \<Rightarrow> bytes \<Rightarrow> cookieError + ServerCookie" where
  "CrackCookie HMAC key now authCookie =
     (case Crack HMAC key now authCookie of
        Inl e \<Rightarrow> Inl e
      | Inr buf \<Rightarrow>
          (case UnmarshalBE ServerCookie_type buf of
             (Inl e, _) \<Rightarrow> Inl (CookieUnmarshal e)
           | (Inr v, _) \<Rightarrow> Inr (toServerCookie v)))"

lemma issued_login:
  assumes "sumOf32 HMAC" and "0 \<le> now" and "unixSeconds (now + 60 * 10 ^ 9) < 2 ^ 32"
    and "later \<le> unixSeconds (now + 60 * 10 ^ 9) * 10 ^ 9"
  shows "case issueLogin HMAC key now c of
      Inl e \<Rightarrow> e = CookieTooLong \<and> 206 < length (cookieScreenName c) + length (cookieClientID c) + length (cookieChatCookie c)
    | Inr ck \<Rightarrow> length ck = 256 \<and> CrackCookie HMAC key later (ck @ r) = Inr c"
proof -
  obtain bs where bs: "MarshalBE (Some (ServerCookie_type, ServerCookie_val c)) = Inr bs" "length bs = cookieLen c"
    "cookieLen c \<le> 214 \<Longrightarrow> UnmarshalBE ServerCookie_type bs = (Inr (ServerCookie_val c), [])"
    using encode_ServerCookie [of c] by metis
  show ?thesis
  proof (cases "cookieLen c \<le> 214")
    case True
    then obtain ck where "Issue HMAC key now bs = Inr ck" "length ck = 256" "Crack HMAC key later (ck @ r) = Inr bs"
      using issue_crack [OF assms(1-3), of bs key] bs(2) assms(4) by (auto simp: not_less)
    with True bs show ?thesis by (simp add: issueLogin_def CrackCookie_def)
  next
    case False
    with Issue_cases [OF assms(1), of key now bs] bs show ?thesis
      by (simp add: issueLogin_def cookieLen_def)
  qed
qed

text \<open>C18: A login cookie comes back as it was issued. The screen name, the client's name for itself and
  the chat room of a cookie together have at most 206 bytes or the cookie is refused, so that no
  client can shift the fields behind an overlong one; a cookie that is issued has 256 bytes and,
  until it expires, cracks to exactly the record it was issued for, behind whatever follows it.\<close>
theorem login_cookie_roundtrip:
  assumes "sumOf32 HMAC" and "0 \<le> now" and "unixSeconds (now + 60 * 10 ^ 9) < 2 ^ 32"
    and "later \<le> unixSeconds (now + 60 * 10 ^ 9) * 10 ^ 9"
  shows "case issueLogin HMAC key now c of
      Inl e \<Rightarrow> e = CookieTooLong \<and> 206 < length (cookieScreenName c) + length (cookieClientID c) + length (cookieChatCookie c)
    | Inr ck \<Rightarrow> length ck = 256 \<and> CrackCookie HMAC key later (ck @ r) = Inr c"
  by (rule issued_login [OF assms])

theorem login_cookie_roundtrip_witness:
  "\<exists>ck. issueLogin sampleHMAC [1] 0 \<lparr>cookieService = 4, cookieScreenName = [65], cookieClientID = [66], cookieChatCookie = [],
      cookieMultiConnFlag = 1, cookieKerberosAuth = 0, cookieSessionNum = 0\<rparr> = Inr ck
    \<and> map_sum id cookieScreenName (CrackCookie sampleHMAC [1] (60 * 10 ^ 9) ck) = Inr [65]"
proof -
  let ?c = "\<lparr>cookieService = 4, cookieScreenName = [65], cookieClientID = [66], cookieChatCookie = [],
      cookieMultiConnFlag = 1, cookieKerberosAuth = 0, cookieSessionNum = 0\<rparr>"
  show ?thesis
    using login_cookie_roundtrip [OF sampleHMAC_32, where now = 0 and later = "60 * 10 ^ 9" and key = "[1]" and c = ?c and r = "[]"]
    by (cases "issueLogin sampleHMAC [1] 0 ?c") (simp_all add: unixSeconds_def)
qed

text \<open>A token issued for other data is no login. The TOC service signs the bare screen name of a user
  with the same key. The name of every account is made of letters and digits, and such bytes never
  decode to a login cookie of an account whose name is shorter than 48 characters, so that no
  token of the TOC service signs anyone on as an AIM user.\<close>
theorem name_token_is_no_login:
  assumes "\<forall>b\<in>set name. 0x30 \<le> b" and "UnmarshalBE ServerCookie_type name = (Inr v, r)"
  shows "48 \<le> length (cookieScreenName (toServerCookie v))"
proof -
  let ?tag = "noTag\<lparr>hasLenPrefix := True, lenPrefix := KUint8\<rparr>"
  have str: "unmarshalString ?tag BigEndian bs = (Inr w, q) \<Longrightarrow>
      bs \<noteq> [] \<and> w = VString (take (unat (hd bs)) (tl bs)) \<and> unat (hd bs) \<le> length (tl bs)" for bs w q
    by (cases bs) (auto simp: unmarshalString_def unmarshalUnsignedInt_def readUint_def readFull_def rbind_def
      rret_def getUint_def split: if_splits)
  obtain n bs w q vs where "readUint BigEndian 2 name = (Inr n, bs)" and w: "unmarshalString ?tag BigEndian bs = (Inr w, q)"
    and v: "v = VStruct (VU16 (word_of_nat n) # w # vs)"
    using assms(2)
    by (auto simp: UnmarshalBE_def top_of_plain ServerCookie_type_def unmarshalStruct_def rbind_eq_Inr rret_def
        fieldPointerCheck_def unmarshalTagged_plain parse_tags)
  then have "set bs \<subseteq> set name"
    by (auto simp: readUint_def readFull_def rbind_def rret_def split: if_splits dest: in_set_dropD)
  with str [OF w] assms(1) have "48 \<le> unat (hd bs)" by (cases bs) (auto simp: word_le_nat_alt)
  with str [OF w] show ?thesis by (simp add: toServerCookie_def v)
qed

theorem name_token_is_no_login_witness:
  "\<exists>v. UnmarshalBE ServerCookie_type (replicate 152 0x30) = (Inr v, []) \<and> 48 \<le> length (cookieScreenName (toServerCookie v))"
proof -
  let ?c = "\<lparr>cookieService = 0x3030, cookieScreenName = replicate 48 0x30, cookieClientID = replicate 48 0x30,
    cookieChatCookie = replicate 48 0x30, cookieMultiConnFlag = 0x30, cookieKerberosAuth = 0x30, cookieSessionNum = 0x30\<rparr>"
  have e: "2 = Suc (Suc 0)" "152 = Suc (Suc (Suc (48 + Suc (48 + Suc (48 + Suc (Suc (Suc 0)))))))" by simp_all
  have "putUint BigEndian 2 0x3030 = [0x30, 0x30 :: byte]" by (simp add: putUint_def e(1))
  then have "MarshalBE (Some (ServerCookie_type, ServerCookie_val ?c)) = Inr (replicate 152 0x30)"
    unfolding e(2) replicate_add replicate_Suc replicate_0
    by (simp add: MarshalBE_def ServerCookie_type_def ServerCookie_val_def marshal_eval Let_def)
  then have "UnmarshalBE ServerCookie_type (replicate 152 0x30) = (Inr (ServerCookie_val ?c), [])"
    using encode_ServerCookie [of ?c] by (auto simp: cookieLen_def)
  then show ?thesis using name_token_is_no_login [of "replicate 152 0x30"] by auto
qed

end
