(* ===== verification/State_Session.thy ===== *)
theory State_Session
  imports Wire_RateLimit Wire_Frames Wire_Values Wire_Snacs State_User Complex_Main
begin

text \<open>
  \<open>state/session.go\<close>: the session a user's connections share, and the instances (one per
  connection). Instances are objects that several goroutines hold: the session keeps them in a
  store, and everything else refers to them by their address in it. The map from instance numbers
  and the slice in the order of sign-on are both kept. Locks are not modelled: a method is one
  step, except where a method takes the lock several times (\<open>CloseInstance\<close>), which is also given
  step by step. The functions registered for closing are entries of a log.
\<close>

section \<open>State\<close>

datatype SessSendStatus = SessSendOK | SessSendClosed | SessQueueFull

record RateClassState =
  rateClass :: RateClass
  CurrentLevel :: int
  LastTime :: int
  CurrentStatus :: "RateLimitStatus option"
  Subscribed :: bool
  LimitedNow :: bool

type_synonym SNACMessage = "SNACFrame \<times> (gtype \<times> gval) option"

record BARTID =
  bartType :: u16
  bartFlags :: byte
  bartHash :: bytes

definition zeroBARTID :: BARTID where
  "zeroBARTID = \<lparr>bartType = 0, bartFlags = 0, bartHash = []\<rparr>"

record ICQDCInfo =
  dcIP :: u32
  dcPort :: u32
  dcType :: byte
  dcProtoVersion :: u16
  dcAuthCookie :: u32
  dcWebPort :: u32
  dcClientFutures :: u32
  dcLastUpdateTime :: u32
  dcLastExtInfoUpdateTime :: u32
  dcLastExtStatusUpdateTime :: u32
  dcUnknown :: u16

definition zeroICQDCInfo :: ICQDCInfo where
  "zeroICQDCInfo = \<lparr>dcIP = 0, dcPort = 0, dcType = 0, dcProtoVersion = 0, dcAuthCookie = 0, dcWebPort = 0,
     dcClientFutures = 0, dcLastUpdateTime = 0, dcLastExtInfoUpdateTime = 0, dcLastExtStatusUpdateTime = 0,
     dcUnknown = 0\<rparr>"

text \<open>An instance. \<open>stopCh\<close> is closed exactly when \<open>closed\<close> is set, \<open>onInstanceCloseFn\<close> is its entry in
  the log of the session, and a remote address is its IP, 4 or 16 bytes (the port is only displayed).\<close>

record SessionInstance =
  instanceNum :: byte
  remoteAddr :: "bytes option"
  signonComplete :: bool
  closed :: bool
  msgCh :: "SNACMessage list"
  kerberosAuth :: bool
  clientID :: bytes
  capabilities :: "bytes list"
  foodGroupVersions :: "u16 list"
  multiConnFlag :: byte
  toc2 :: bool
  toc2MsgEnc :: bool
  icqDCInfo :: ICQDCInfo
  attestNonce :: "bytes option"
  attested :: bool
  unattestedUse :: bool
  idle :: bool
  idleTime :: int
  awayMsg :: bytes
  awayTime :: int
  userInfoBitmask :: u16
  userStatusBitmask :: u32
  contactsInit :: bool
  notifyTxnActive :: bool
  notifyTxnShouldSend :: bool
  notifyTxnNames :: "IdentScreenName list option"
  profile :: UserProfile

datatype closeEvent = OnSessCloseFn | OnInstanceCloseFn nat

text \<open>A session. \<open>initDone\<close> is the \<open>sync.Once\<close>, \<open>warningCh\<close> the contents of the channel of capacity one.\<close>

record Session =
  displayScreenName :: DisplayScreenName
  identScreenName :: IdentScreenName
  uin :: u32
  memberSince :: int
  signonTime :: int
  warning :: u16
  warningCh :: "u16 list"
  offlineMsgCount :: int
  chatRoomCookie :: bytes
  buddyIcon :: BARTID
  typingEventsEnabled :: bool
  usesFeedbag :: bool
  initDone :: bool
  rateLimitStates :: "RateClassState list"
  rateLimitStatesOriginal :: "RateClassState list"
  lastObservedStates :: "RateClassState list"
  instances :: "(byte \<times> nat) list"
  instancesOrdered :: "nat list"
  objects :: "SessionInstance list"
  closeLog :: "closeEvent list"

definition zeroRateClass :: RateClass where
  "zeroRateClass = \<lparr>ID = 0, WindowSize = 0, ClearLevel = 0, AlertLevel = 0, LimitLevel = 0,
     DisconnectLevel = 0, MaxLevel = 0\<rparr>"

definition zeroRateClassState :: RateClassState where
  "zeroRateClassState = \<lparr>rateClass = zeroRateClass, CurrentLevel = 0, LastTime = zeroTime,
     CurrentStatus = None, Subscribed = False, LimitedNow = False\<rparr>"

definition NewSession :: Session where
  "NewSession = \<lparr>displayScreenName = [], identScreenName = [], uin = 0, memberSince = zeroTime,
     signonTime = zeroTime, warning = 0, warningCh = [], offlineMsgCount = 0, chatRoomCookie = [],
     buddyIcon = zeroBARTID, typingEventsEnabled = False, usesFeedbag = False, initDone = False,
     rateLimitStates = replicate 5 zeroRateClassState,
     rateLimitStatesOriginal = replicate 5 zeroRateClassState,
     lastObservedStates = replicate 5 zeroRateClassState,
     instances = [], instancesOrdered = [], objects = [], closeLog = []\<rparr>"

definition inst :: "Session \<Rightarrow> nat \<Rightarrow> SessionInstance" where
  "inst s i = objects s ! i"

definition updInst :: "nat \<Rightarrow> (SessionInstance \<Rightarrow> SessionInstance) \<Rightarrow> Session \<Rightarrow> Session" where
  "updInst i f s = s\<lparr>objects := (objects s)[i := f (objects s ! i)]\<rparr>"

abbreviation (input) OServiceUserFlagUnavailable :: u16 where "OServiceUserFlagUnavailable \<equiv> 0x0020"
abbreviation (input) OServiceUserFlagOSCARFree :: u16 where "OServiceUserFlagOSCARFree \<equiv> 0x0010"
abbreviation (input) OServiceUserFlagBot :: u16 where "OServiceUserFlagBot \<equiv> 0x0400"
abbreviation (input) OServiceUserStatusAvailable :: u32 where "OServiceUserStatusAvailable \<equiv> 0x00000000"
abbreviation (input) OServiceUserStatusAway :: u32 where "OServiceUserStatusAway \<equiv> 0x00000001"
abbreviation (input) OServiceUserStatusInvisible :: u32 where "OServiceUserStatusInvisible \<equiv> 0x00000100"

section \<open>Instances\<close>

text \<open>The loop from 1 until the 8-bit counter is 0 again; \<open>None\<close> is the panic when all are taken.\<close>

definition generateInstanceNum :: "Session \<Rightarrow> byte option" where
  "generateInstanceNum s = find (\<lambda>num. map_of (instances s) num = None) (map word_of_nat [1..<256])"

text \<open>Version 1 of every food group that has one, indexed by food group.\<close>

definition defaultFoodGroupVersions :: "u16 list" where
  "defaultFoodGroupVersions = map (\<lambda>fg. if fg \<in> {0x01, 0x02, 0x03, 0x04, 0x05, 0x06, 0x07, 0x08, 0x09, 0x0A, 0x0B,
     0x0C, 0x0D, 0x0E, 0x0F, 0x10, 0x13, 0x15, 0x17, 0x18, 0x22, 0x24, 0x25} then 1 else 0) [0..<0x26]"

definition newInstance :: "byte \<Rightarrow> SessionInstance" where
  "newInstance num = \<lparr>instanceNum = num, remoteAddr = None, signonComplete = False, closed = False,
     msgCh = [], kerberosAuth = False, clientID = [], capabilities = [],
     foodGroupVersions = defaultFoodGroupVersions, multiConnFlag = 0, toc2 = False, toc2MsgEnc = False,
     icqDCInfo = zeroICQDCInfo, attestNonce = None, attested = False, unattestedUse = False, idle = False,
     idleTime = zeroTime, awayMsg = [], awayTime = zeroTime, userInfoBitmask = OServiceUserFlagOSCARFree,
     userStatusBitmask = OServiceUserStatusAvailable, contactsInit = False, notifyTxnActive = False,
     notifyTxnShouldSend = False, notifyTxnNames = None, profile = zeroUserProfile\<rparr>"

definition AddInstance :: "Session \<Rightarrow> (nat \<times> Session) option" where
  "AddInstance s =
     (case generateInstanceNum s of
        None \<Rightarrow> None
      | Some num \<Rightarrow>
          (let i = length (objects s) in
           Some (i, s\<lparr>objects := objects s @ [newInstance num],
                      instances := AList.update num i (instances s),
                      instancesOrdered := instancesOrdered s @ [i]\<rparr>)))"

definition RemoveInstance :: "nat \<Rightarrow> Session \<Rightarrow> Session" where
  "RemoveInstance i s =
     s\<lparr>instances := AList.delete (instanceNum (inst s i)) (instances s),
       instancesOrdered := remove1 i (instancesOrdered s)\<rparr>"

definition InstanceCount :: "Session \<Rightarrow> nat" where
  "InstanceCount s = length (instances s)"

definition Instances :: "Session \<Rightarrow> nat list" where
  "Instances s = instancesOrdered s"

definition InstanceOf :: "Session \<Rightarrow> byte \<Rightarrow> nat option" where
  "InstanceOf s num = map_of (instances s) num"

definition live :: "SessionInstance \<Rightarrow> bool" where
  "live x \<longleftrightarrow> \<not> closed x \<and> signonComplete x"

definition HasLiveInstances :: "Session \<Rightarrow> bool" where
  "HasLiveInstances s \<longleftrightarrow> list_ex (\<lambda>(num, i). live (inst s i)) (instances s)"

section \<open>Closing\<close>

text \<open>The atomic sections of \<open>CloseInstance\<close>: mark closed, remove, then count and call.\<close>

definition closeMark :: "nat \<Rightarrow> Session \<Rightarrow> bool \<times> Session" where
  "closeMark i s =
     (if closed (inst s i) then (False, s) else (True, updInst i (\<lambda>x. x\<lparr>closed := True\<rparr>) s))"

definition closeCall :: "bool \<Rightarrow> nat \<Rightarrow> Session \<Rightarrow> Session" where
  "closeCall instFn i s =
     (if InstanceCount s = 0 then s\<lparr>closeLog := closeLog s @ [OnSessCloseFn]\<rparr>
      else if instFn then s\<lparr>closeLog := closeLog s @ [OnInstanceCloseFn i]\<rparr> else s)"

definition CloseInstance :: "nat \<Rightarrow> Session \<Rightarrow> Session" where
  "CloseInstance i s =
     (let (go, s1) = closeMark i s in if \<not> go then s1 else closeCall True i (RemoveInstance i s1))"

definition closeOnly :: "nat \<Rightarrow> Session \<Rightarrow> Session" where
  "closeOnly i s =
     (let (go, s1) = closeMark i s in if \<not> go then s1 else closeCall False i (RemoveInstance i s1))"

definition CloseSession :: "Session \<Rightarrow> Session" where
  "CloseSession s = fold closeOnly (map snd (instances s)) s"

section \<open>Presence\<close>

definition away :: "SessionInstance \<Rightarrow> bool" where
  "away x \<longleftrightarrow> userInfoBitmask x AND OServiceUserFlagUnavailable \<noteq> 0 \<or>
     userStatusBitmask x AND OServiceUserStatusAway \<noteq> 0"

definition active :: "SessionInstance \<Rightarrow> bool" where
  "active x \<longleftrightarrow> \<not> closed x \<and> signonComplete x \<and> \<not> idle x \<and> \<not> away x"

definition instanceInvisible :: "SessionInstance \<Rightarrow> bool" where
  "instanceInvisible x \<longleftrightarrow> userStatusBitmask x AND OServiceUserStatusInvisible = OServiceUserStatusInvisible"

definition Away :: "Session \<Rightarrow> bool" where
  "Away s =
     (if length (Instances s) = 0 then False
      else list_all (\<lambda>i. \<not> (userInfoBitmask (inst s i) AND OServiceUserFlagUnavailable = 0 \<and>
             userStatusBitmask (inst s i) AND OServiceUserStatusAway = 0)) (Instances s))"

text \<open>The loop over the map keeps the away instance with the latest time.\<close>

definition latestAway :: "Session \<Rightarrow> nat \<Rightarrow> nat option \<Rightarrow> nat option" where
  "latestAway s i latest =
     (if \<not> away (inst s i) then latest
      else (case latest of None \<Rightarrow> Some i
            | Some l \<Rightarrow> if awayTime (inst s l) < awayTime (inst s i) then Some i else Some l))"

definition AwayMessage :: "Session \<Rightarrow> bytes" where
  "AwayMessage s =
     (case fold (latestAway s) (map snd (instances s)) None of None \<Rightarrow> [] | Some l \<Rightarrow> awayMsg (inst s l))"

definition Idle :: "Session \<Rightarrow> bool" where
  "Idle s =
     (if length (Instances s) = 0 then False else list_all (\<lambda>i. idle (inst s i)) (Instances s))"

definition Inactive :: "Session \<Rightarrow> bool" where
  "Inactive s \<longleftrightarrow> list_all (\<lambda>i. \<not> active (inst s i)) (Instances s)"

definition Invisible :: "Session \<Rightarrow> bool" where
  "Invisible s \<longleftrightarrow> list_all (\<lambda>(num, i). instanceInvisible (inst s i)) (instances s)"

definition AllUserInfoBitmask :: "u16 \<Rightarrow> Session \<Rightarrow> bool" where
  "AllUserInfoBitmask flag s \<longleftrightarrow> list_all (\<lambda>i. userInfoBitmask (inst s i) AND flag = flag) (Instances s)"

definition AllUserStatusBitmask :: "u32 \<Rightarrow> Session \<Rightarrow> bool" where
  "AllUserStatusBitmask flag s \<longleftrightarrow> list_all (\<lambda>i. userStatusBitmask (inst s i) AND flag = flag) (Instances s)"

section \<open>Operations on an instance\<close>

definition SetIdle :: "int \<Rightarrow> int \<Rightarrow> SessionInstance \<Rightarrow> SessionInstance" where
  "SetIdle now dur x = x\<lparr>idle := True, idleTime := now - dur\<rparr>"

definition UnsetIdle :: "SessionInstance \<Rightarrow> SessionInstance" where
  "UnsetIdle x = x\<lparr>idle := False\<rparr>"

definition SetAttestNonce :: "bytes \<Rightarrow> SessionInstance \<Rightarrow> SessionInstance" where
  "SetAttestNonce n x = x\<lparr>attestNonce := Some n\<rparr>"

definition SetAttested :: "SessionInstance \<Rightarrow> SessionInstance" where
  "SetAttested x = x\<lparr>attested := True\<rparr>"

definition NoteUnattestedUse :: "SessionInstance \<Rightarrow> bool \<times> SessionInstance" where
  "NoteUnattestedUse x = (\<not> unattestedUse x, x\<lparr>unattestedUse := True\<rparr>)"

definition SetSignonComplete :: "SessionInstance \<Rightarrow> SessionInstance" where
  "SetSignonComplete x = x\<lparr>signonComplete := True\<rparr>"

definition SetContactsInit :: "SessionInstance \<Rightarrow> SessionInstance" where
  "SetContactsInit x = x\<lparr>contactsInit := True\<rparr>"

definition SetAwayMessage :: "bytes \<Rightarrow> SessionInstance \<Rightarrow> SessionInstance" where
  "SetAwayMessage m x = x\<lparr>awayMsg := m\<rparr>"

definition SetUserInfoFlag :: "int \<Rightarrow> u16 \<Rightarrow> SessionInstance \<Rightarrow> SessionInstance" where
  "SetUserInfoFlag now flag x =
     (let x1 = (if flag = OServiceUserFlagUnavailable then x\<lparr>awayTime := now\<rparr> else x)
      in x1\<lparr>userInfoBitmask := userInfoBitmask x1 OR flag\<rparr>)"

definition ClearUserInfoFlag :: "u16 \<Rightarrow> SessionInstance \<Rightarrow> SessionInstance" where
  "ClearUserInfoFlag flag x = x\<lparr>userInfoBitmask := userInfoBitmask x AND NOT flag\<rparr>"

definition SetUserStatusBitmask :: "int \<Rightarrow> u32 \<Rightarrow> SessionInstance \<Rightarrow> SessionInstance" where
  "SetUserStatusBitmask now bitmask x =
     (let x1 = (if bitmask AND OServiceUserStatusAway = OServiceUserStatusAway \<and> \<not> away x
                then x\<lparr>awayTime := now\<rparr> else x)
      in x1\<lparr>userStatusBitmask := bitmask\<rparr>)"

definition RelayMessageToInstance :: "SNACMessage \<Rightarrow> SessionInstance \<Rightarrow> SessSendStatus \<times> SessionInstance" where
  "RelayMessageToInstance msg x =
     (if closed x then (SessSendClosed, x)
      else if length (msgCh x) < 1000 then (SessSendOK, x\<lparr>msgCh := msgCh x @ [msg]\<rparr>)
      else (SessQueueFull, x))"

subsection \<open>Notify transactions\<close>

datatype notifyError = errNotifyTxnNotActive | errNotifyTxnTooManyNames

abbreviation maxNotifyTxnNames :: nat where "maxNotifyTxnNames \<equiv> 1000"

definition BeginNotifyTxn :: "SessionInstance \<Rightarrow> SessionInstance" where
  "BeginNotifyTxn x = x\<lparr>notifyTxnShouldSend := False, notifyTxnNames := None, notifyTxnActive := True\<rparr>"

definition txnNames :: "SessionInstance \<Rightarrow> IdentScreenName list" where
  "txnNames x = (case notifyTxnNames x of None \<Rightarrow> [] | Some ns \<Rightarrow> ns)"

definition NotifyTxn :: "IdentScreenName list \<Rightarrow> SessionInstance \<Rightarrow> notifyError option \<times> SessionInstance" where
  "NotifyTxn names x =
     (if \<not> notifyTxnActive x then (Some errNotifyTxnNotActive, x)
      else if length (txnNames x) + length names > maxNotifyTxnNames then (Some errNotifyTxnTooManyNames, x)
      else (None, x\<lparr>notifyTxnShouldSend := True,
              notifyTxnNames := Some (fold List.insert names (txnNames x))\<rparr>))"

definition EndNotifyTxn :: "SessionInstance \<Rightarrow> (bool \<times> IdentScreenName list) \<times> SessionInstance" where
  "EndNotifyTxn x =
     ((if \<not> notifyTxnActive x then (False, []) else (notifyTxnShouldSend x, txnNames x)),
      x\<lparr>notifyTxnActive := False, notifyTxnShouldSend := False, notifyTxnNames := None\<rparr>)"

section \<open>Identity and settings\<close>

definition SetIdentScreenName :: "IdentScreenName \<Rightarrow> Session \<Rightarrow> Session" where
  "SetIdentScreenName sn s = s\<lparr>identScreenName := sn\<rparr>"

definition SetDisplayScreenName :: "DisplayScreenName \<Rightarrow> Session \<Rightarrow> Session" where
  "SetDisplayScreenName sn s = s\<lparr>displayScreenName := sn\<rparr>"

definition SetUIN :: "u32 \<Rightarrow> Session \<Rightarrow> Session" where
  "SetUIN n s = s\<lparr>uin := n\<rparr>"

definition SetBuddyIcon :: "BARTID \<Rightarrow> Session \<Rightarrow> Session" where
  "SetBuddyIcon icon s = s\<lparr>buddyIcon := icon\<rparr>"

definition SetChatRoomCookie :: "bytes \<Rightarrow> Session \<Rightarrow> Session" where
  "SetChatRoomCookie cookie s = s\<lparr>chatRoomCookie := cookie\<rparr>"

definition SetMemberSince :: "int \<Rightarrow> Session \<Rightarrow> Session" where
  "SetMemberSince t s = s\<lparr>memberSince := t\<rparr>"

definition SetOfflineMsgCount :: "int \<Rightarrow> Session \<Rightarrow> Session" where
  "SetOfflineMsgCount n s = s\<lparr>offlineMsgCount := n\<rparr>"

definition SetSignonTime :: "int \<Rightarrow> Session \<Rightarrow> Session" where
  "SetSignonTime t s = s\<lparr>signonTime := t\<rparr>"

definition SetTypingEventsEnabled :: "bool \<Rightarrow> Session \<Rightarrow> Session" where
  "SetTypingEventsEnabled b s = s\<lparr>typingEventsEnabled := b\<rparr>"

definition SetUsesFeedbag :: "Session \<Rightarrow> Session" where
  "SetUsesFeedbag s = s\<lparr>usesFeedbag := True\<rparr>"

definition SetWarning :: "u16 \<Rightarrow> Session \<Rightarrow> Session" where
  "SetWarning w s = s\<lparr>warning := w\<rparr>"

text \<open>\<open>sync.Once\<close> around a function that may change the session and fail: run the first time only,
  and whoever comes later gets no error.\<close>

definition RunOnce :: "(Session \<Rightarrow> 'e option \<times> Session) \<Rightarrow> Session \<Rightarrow> 'e option \<times> Session" where
  "RunOnce f s =
     (if initDone s then (None, s) else (let (e, s1) = f s in (e, s1\<lparr>initDone := True\<rparr>)))"

definition SetClientID :: "bytes \<Rightarrow> SessionInstance \<Rightarrow> SessionInstance" where
  "SetClientID c x = x\<lparr>clientID := c\<rparr>"

definition SetTOC2 :: "bool \<Rightarrow> SessionInstance \<Rightarrow> SessionInstance" where
  "SetTOC2 enc x = x\<lparr>toc2 := True, toc2MsgEnc := enc\<rparr>"

definition SetCaps :: "bytes list \<Rightarrow> SessionInstance \<Rightarrow> SessionInstance" where
  "SetCaps caps x = x\<lparr>capabilities := caps\<rparr>"

definition SetFoodGroupVersions :: "u16 list \<Rightarrow> SessionInstance \<Rightarrow> SessionInstance" where
  "SetFoodGroupVersions vs x = x\<lparr>foodGroupVersions := vs\<rparr>"

definition SetKerberosAuth :: "bool \<Rightarrow> SessionInstance \<Rightarrow> SessionInstance" where
  "SetKerberosAuth b x = x\<lparr>kerberosAuth := b\<rparr>"

definition SetMultiConnFlag :: "byte \<Rightarrow> SessionInstance \<Rightarrow> SessionInstance" where
  "SetMultiConnFlag f x = x\<lparr>multiConnFlag := f\<rparr>"

definition SetProfile :: "UserProfile \<Rightarrow> SessionInstance \<Rightarrow> SessionInstance" where
  "SetProfile p x = x\<lparr>profile := p\<rparr>"

definition SetRemoteAddr :: "bytes option \<Rightarrow> SessionInstance \<Rightarrow> SessionInstance" where
  "SetRemoteAddr a x = x\<lparr>remoteAddr := a\<rparr>"

definition SetICQDCInfo :: "ICQDCInfo \<Rightarrow> SessionInstance \<Rightarrow> SessionInstance" where
  "SetICQDCInfo dc x = x\<lparr>icqDCInfo := dc\<rparr>"

definition BuddyIcon :: "Session \<Rightarrow> BARTID \<times> bool" where
  "BuddyIcon s = (buddyIcon s, bartType (buddyIcon s) \<noteq> 0)"

text \<open>The union of the capabilities, sorted byte by byte; a capability has 16 bytes, so this is their
  order as numbers.\<close>

definition Caps :: "Session \<Rightarrow> bytes list" where
  "Caps s = sort_key (getUint BigEndian) (remdups (concat (map (\<lambda>(num, i). capabilities (inst s i)) (instances s))))"

definition HasCap :: "bytes \<Rightarrow> Session \<Rightarrow> bool" where
  "HasCap cap s \<longleftrightarrow> list_ex (\<lambda>c. c = cap) (Caps s)"

definition latestProfile :: "UserProfile \<Rightarrow> UserProfile \<Rightarrow> UserProfile" where
  "latestProfile p latest =
     (if UserProfile_IsEmpty p then latest
      else if UserProfile_IsEmpty latest \<or> UpdateTime latest < UpdateTime p then p else latest)"

definition Profile :: "Session \<Rightarrow> UserProfile" where
  "Profile s = fold latestProfile (map (\<lambda>i. profile (inst s i)) (Instances s)) zeroUserProfile"

definition mostRecentIdleTime :: "Session \<Rightarrow> int" where
  "mostRecentIdleTime s =
     fold (\<lambda>i m. if m = zeroTime \<or> (idle (inst s i) \<and> m < idleTime (inst s i)) then idleTime (inst s i) else m)
       (Instances s) zeroTime"

definition IdleTime :: "Session \<Rightarrow> int" where
  "IdleTime s = (if \<not> Idle s then zeroTime else mostRecentIdleTime s)"

section \<open>Warning levels\<close>

text \<open>float32: rounding of a rational to 24 binary digits, half to even (the exponents stay in range
  here), and the conversion to an integer, which cuts off.\<close>

definition roundHalfEven :: "rat \<Rightarrow> int" where
  "roundHalfEven x =
     (let f = \<lfloor>x\<rfloor>; d = x - of_int f in
      if d < 1 / 2 then f else if d > 1 / 2 then f + 1 else if even f then f else f + 1)"

definition float32 :: "rat \<Rightarrow> rat" where
  "float32 x =
     (if x = 0 then 0
      else (let e = the (find (\<lambda>e. \<bar>x\<bar> < 2 powi (e + 1)) [-126..127]); u = 2 powi (e - 23)
            in of_int (roundHalfEven (x / u)) * u))"

definition truncate32 :: "rat \<Rightarrow> int" where
  "truncate32 x = int32 (if x < 0 then - \<lfloor>- x\<rfloor> else \<lfloor>x\<rfloor>)"

definition clampLevel :: "int \<Rightarrow> int \<Rightarrow> int \<Rightarrow> int" where
  "clampLevel v lo hi = (if v < lo then lo else if v > hi then hi else v)"

text \<open>One scaled level: the current one plus the share of its distance to the top, within bounds.\<close>

definition scaleLevel :: "rat \<Rightarrow> int \<Rightarrow> int \<Rightarrow> int \<Rightarrow> int \<Rightarrow> int" where
  "scaleLevel pct maxLevel origMax level orig =
     clampLevel (int32 (level + truncate32 (float32 (float32 (of_int (int32 (maxLevel - orig))) * pct)))) orig origMax"

datatype scaleResult = Scaled bool u16 Session | ScaleBlocked Session | ScalePanic

text \<open>\<open>incr\<close> is an int16. The new level is put into a channel of capacity one while the session is
  locked: when the channel is full the call waits, with the session locked (\<open>ScaleBlocked\<close>), until
  somebody receives.\<close>

definition ScaleWarningAndRateLimit :: "16 word \<Rightarrow> u16 \<Rightarrow> Session \<Rightarrow> scaleResult" where
  "ScaleWarningAndRateLimit incr classID s =
     (let newWarning = uint (warning s) + sint incr in
      if newWarning > 1000 then Scaled False 0 s
      else
        let s1 = s\<lparr>warning := (if newWarning < 0 then 0 else word_of_int newWarning)\<rparr>;
            pct = float32 (float32 (of_int (sint incr)) / 1000);
            k = unat (classID - 1) in
        if length (rateLimitStates s) \<le> k then ScalePanic
        else
          let rc = rateLimitStates s ! k; cls = rateClass rc; orig = rateClass (rateLimitStatesOriginal s ! k);
              maxLevel = int32 (MaxLevel orig - 150);
              cls' = cls\<lparr>LimitLevel := scaleLevel pct maxLevel (MaxLevel orig) (LimitLevel cls) (LimitLevel orig),
                ClearLevel := scaleLevel pct maxLevel (MaxLevel orig) (ClearLevel cls) (ClearLevel orig),
                AlertLevel := scaleLevel pct maxLevel (MaxLevel orig) (AlertLevel cls) (AlertLevel orig)\<rparr>;
              s2 = s1\<lparr>rateLimitStates := (rateLimitStates s1)[k := rc\<lparr>rateClass := cls'\<rparr>]\<rparr>
          in if length (warningCh s2) = 0 then Scaled True (warning s2) (s2\<lparr>warningCh := [warning s2]\<rparr>)
             else ScaleBlocked s2)"

text \<open>Receiving from the warning channel.\<close>

definition receiveWarning :: "Session \<Rightarrow> (u16 \<times> Session) option" where
  "receiveWarning s =
     (case warningCh s of [] \<Rightarrow> None | w # ws \<Rightarrow> Some (w, s\<lparr>warningCh := ws\<rparr>))"

section \<open>Rate limits\<close>

text \<open>\<open>None\<close> is a panic: a class id out of range, or a class whose window size is zero.\<close>

definition EvaluateRateLimit :: "int \<Rightarrow> u16 \<Rightarrow> Session \<Rightarrow> (RateLimitStatus \<times> Session) option" where
  "EvaluateRateLimit now rateClassID s =
     (if AllUserInfoBitmask OServiceUserFlagBot s then Some (RateLimitStatusClear, s)
      else
        let k = unat (rateClassID - 1) in
        if length (rateLimitStates s) \<le> k then None
        else
          let rc = rateLimitStates s ! k in
          (case CheckRateLimit (LastTime rc) now (rateClass rc) (CurrentLevel rc) (LimitedNow rc) of
             None \<Rightarrow> None
           | Some (status, newLevel) \<Rightarrow>
               let rc' = rc\<lparr>CurrentLevel := newLevel, CurrentStatus := Some status, LastTime := now,
                         LimitedNow := (status = RateLimitStatusLimited)\<rparr>;
                   s1 = s\<lparr>rateLimitStates := (rateLimitStates s)[k := rc']\<rparr>
               in Some (status, if status = RateLimitStatusDisconnect then CloseSession s1 else s1)))"

definition SetRateClasses :: "int \<Rightarrow> RateLimitClasses \<Rightarrow> Session \<Rightarrow> Session" where
  "SetRateClasses now classes s =
     (let newStates = map (\<lambda>(cls, seen). \<lparr>rateClass = cls, CurrentLevel = MaxLevel cls, LastTime = now,
              CurrentStatus = Some RateLimitStatusClear, Subscribed = Subscribed seen, LimitedNow = False\<rparr>)
            (zip (RateLimitClasses_All classes) (lastObservedStates s));
          observed = (if ID (rateClass (lastObservedStates s ! 0)) = 0 then newStates else rateLimitStates s)
      in s\<lparr>lastObservedStates := observed, rateLimitStates := newStates, rateLimitStatesOriginal := newStates\<rparr>)"

fun SubscribeRateLimits :: "u16 list \<Rightarrow> Session \<Rightarrow> Session option" where
  "SubscribeRateLimits [] s = Some s"
| "SubscribeRateLimits (classID # classes) s =
     (let k = unat (classID - 1) in
      if length (rateLimitStates s) \<le> k then None
      else SubscribeRateLimits classes (s\<lparr>rateLimitStates := (rateLimitStates s)[k :=
        (rateLimitStates s ! k)\<lparr>Subscribed := True\<rparr>]\<rparr>))"

text \<open>One turn of the loop of \<open>ObserveRateChanges\<close>, for class index \<open>k\<close>.\<close>

definition observeClass :: "int \<Rightarrow> nat \<Rightarrow>
    (RateClassState list \<times> RateClassState list \<times> Session) \<Rightarrow>
    (RateClassState list \<times> RateClassState list \<times> Session) option" where
  "observeClass now k acc =
     (let (classDelta, stateDelta, s) = acc; params = rateLimitStates s ! k in
      if \<not> Subscribed params then Some acc
      else
        (case CheckRateLimit (LastTime params) now (rateClass params) (CurrentLevel params) (LimitedNow params) of
           None \<Rightarrow> None
         | Some (state, level) \<Rightarrow>
             let cur = params\<lparr>CurrentStatus := Some state\<rparr>;
                 cur = (if LimitedNow params \<and> state = RateLimitStatusClear
                        then cur\<lparr>LimitedNow := False, CurrentLevel := level\<rparr> else cur);
                 old = lastObservedStates s ! k
             in Some
               ((if rateClass params \<noteq> rateClass old then classDelta @ [cur] else classDelta),
                (if CurrentStatus old \<noteq> CurrentStatus cur then stateDelta @ [cur] else stateDelta),
                s\<lparr>rateLimitStates := (rateLimitStates s)[k := cur],
                  lastObservedStates := (lastObservedStates s)[k := cur]\<rparr>)))"

fun observeLoop :: "int \<Rightarrow> nat list \<Rightarrow> (RateClassState list \<times> RateClassState list \<times> Session) \<Rightarrow>
    (RateClassState list \<times> RateClassState list \<times> Session) option" where
  "observeLoop now [] acc = Some acc"
| "observeLoop now (k # ks) acc =
     (case observeClass now k acc of None \<Rightarrow> None | Some acc' \<Rightarrow> observeLoop now ks acc')"

definition ObserveRateChanges :: "int \<Rightarrow> Session \<Rightarrow>
    (RateClassState list \<times> RateClassState list \<times> Session) option" where
  "ObserveRateChanges now s = observeLoop now [0..<5] ([], [], s)"

section \<open>The invariant of a session\<close>

definition sessionOk :: "Session \<Rightarrow> bool" where
  "sessionOk s \<longleftrightarrow> distinct (map fst (instances s)) \<and> distinct (instancesOrdered s) \<and>
     map_of (instances s) 0 = None \<and>
     (\<forall>num i. map_of (instances s) num = Some i \<longleftrightarrow>
        i \<in> set (instancesOrdered s) \<and> instanceNum (inst s i) = num) \<and>
     (\<forall>i\<in>set (instancesOrdered s). i < length (objects s)) \<and>
     (\<forall>i<length (objects s). closed (inst s i) \<longleftrightarrow> i \<notin> set (instancesOrdered s))"

lemma sessionOkD:
  assumes "sessionOk s"
  shows "distinct (map fst (instances s))" "distinct (instancesOrdered s)" "map_of (instances s) 0 = None"
    "map_of (instances s) num = Some i \<longleftrightarrow> i \<in> set (instancesOrdered s) \<and> instanceNum (inst s i) = num"
    "i \<in> set (instancesOrdered s) \<Longrightarrow> i < length (objects s)"
    "i < length (objects s) \<Longrightarrow> closed (inst s i) \<longleftrightarrow> i \<notin> set (instancesOrdered s)"
  using assms by (auto simp: sessionOk_def)

lemma sessionOk_instances:
  assumes "sessionOk s"
  shows "set (map snd (instances s)) = set (instancesOrdered s)" "distinct (map snd (instances s))"
    "InstanceCount s = length (instancesOrdered s)"
proof -
  note ok = sessionOkD [OF assms]
  have m: "(num, i) \<in> set (instances s) \<longleftrightarrow> i \<in> set (instancesOrdered s) \<and> instanceNum (inst s i) = num" for num i
    using ok(4) [of num i] map_of_eq_Some_iff [OF ok(1), of num i] by blast
  show st: "set (map snd (instances s)) = set (instancesOrdered s)"
  proof (intro set_eqI iffI)
    fix i assume "i \<in> set (map snd (instances s))"
    then show "i \<in> set (instancesOrdered s)" using m by auto
  next
    fix i assume "i \<in> set (instancesOrdered s)"
    then have "(instanceNum (inst s i), i) \<in> set (instances s)" using m by simp
    then show "i \<in> set (map snd (instances s))" by force
  qed
  have "inj_on snd (set (instances s))" by (rule inj_onI) (auto simp: m)
  then show d: "distinct (map snd (instances s))"
    using ok(1) by (simp add: distinct_map)
  have "length (map snd (instances s)) = length (instancesOrdered s)"
    using distinct_card [OF d] distinct_card [OF ok(2)] by (simp only: st)
  then show "InstanceCount s = length (instancesOrdered s)"
    by (simp add: InstanceCount_def)
qed

lemma sessionOk_New: "sessionOk NewSession"
  by (simp add: sessionOk_def NewSession_def)

text \<open>The numbers 1 to 255 are all the nonzero ones.\<close>

lemma nums: "set (map word_of_nat [1..<256]) = - {0 :: byte}"
proof -
  have "b \<in> word_of_nat ` {1..<256}" if "b \<noteq> 0" for b :: byte
  proof
    show "b = word_of_nat (unat b)" by simp
    show "unat b \<in> {1..<256}" using that word_bounds(1) [of b] by (simp add: Suc_le_eq unat_gt_0)
  qed
  moreover have "word_of_nat n \<noteq> (0 :: byte)" if "n \<in> {1..<256}" for n
    using that by (auto simp: word_of_nat_eq_0_iff dest: nat_dvd_not_less)
  ultimately show ?thesis by auto
qed

lemma find_SomeD: "find P xs = Some x \<Longrightarrow> x \<in> set xs \<and> P x"
  by (induction xs) (auto split: if_splits)

lemma generateInstanceNum_Some:
  "generateInstanceNum s = Some num \<Longrightarrow> num \<noteq> 0 \<and> map_of (instances s) num = None"
proof -
  assume "generateInstanceNum s = Some num"
  from find_SomeD [OF this [unfolded generateInstanceNum_def]]
  have "num \<in> set (map word_of_nat [1..<256])" "map_of (instances s) num = None" by blast+
  then show ?thesis unfolding nums by simp
qed

lemma generateInstanceNum_None:
  "generateInstanceNum s = None \<longleftrightarrow> (\<forall>num. num \<noteq> 0 \<longrightarrow> map_of (instances s) num \<noteq> None)"
  unfolding generateInstanceNum_def find_None_iff nums by auto

lemma inst_append: "i < length (objects s) \<Longrightarrow> (objects s @ xs) ! i = inst s i"
  by (simp add: inst_def nth_append)

lemma sessionOk_Add:
  assumes ok: "sessionOk s" and "AddInstance s = Some (i, t)"
  shows "sessionOk t"
proof -
  obtain num where num: "generateInstanceNum s = Some num" and i: "i = length (objects s)"
    and t: "t = s\<lparr>objects := objects s @ [newInstance num], instances := AList.update num i (instances s),
      instancesOrdered := instancesOrdered s @ [i]\<rparr>"
    using assms(2) by (auto simp: AddInstance_def Let_def split: option.splits)
  note s = sessionOkD [OF ok]
  note n = generateInstanceNum_Some [OF num]
  have new: "inst t i = newInstance num" using i by (simp add: t inst_def)
  have old: "inst t j = inst s j" if "j < length (objects s)" for j
    using that by (simp add: t inst_def nth_append)
  have "map_of (instances t) k = Some j \<longleftrightarrow> j \<in> set (instancesOrdered t) \<and> instanceNum (inst t j) = k" for k j
  proof (cases "j = i")
    case True
    with s(4) [of k i] s(5) [of i] i show ?thesis
      by (auto simp: t update_conv' new newInstance_def inst_def)
  next
    case False
    have "instanceNum (inst s j) \<noteq> num" if "j \<in> set (instancesOrdered s)"
      using n s(4) [of num j] that by auto
    with False s(4) [of k j] s(5) [of j] old [of j] show ?thesis
      by (auto simp: t update_conv')
  qed
  moreover have "distinct (map fst (instances t))" using s(1) by (simp add: t distinct_update)
  ultimately show ?thesis
    using s(2,3,5,6) n i new old unfolding sessionOk_def
    by (auto simp: t update_conv' newInstance_def less_Suc_eq)
qed

lemma map_of_delete_eq: "map_of (AList.delete k xs) k' = (if k' = k then None else map_of xs k')"
  by (simp add: delete_conv')

text \<open>What the two ways of closing do to an open instance, and to one that is already closed.\<close>

definition closedState :: "nat \<Rightarrow> Session \<Rightarrow> Session" where
  "closedState i s = RemoveInstance i (updInst i (\<lambda>x. x\<lparr>closed := True\<rparr>) s)"

lemma close_unfold:
  "CloseInstance i s = (if closed (inst s i) then s else closeCall True i (closedState i s))"
  "closeOnly i s = (if closed (inst s i) then s else closeCall False i (closedState i s))"
  by (simp_all add: CloseInstance_def closeOnly_def closeMark_def closedState_def)

lemma inst_upd: "i < length (objects s) \<Longrightarrow> inst (updInst i f s) j = (if j = i then f (inst s i) else inst s j)"
  by (simp add: inst_def updInst_def nth_list_update)

lemma closedState_simps:
  assumes "i < length (objects s)"
  shows "inst (closedState i s) j = (if j = i then (inst s i)\<lparr>closed := True\<rparr> else inst s j)"
    "instances (closedState i s) = AList.delete (instanceNum (inst s i)) (instances s)"
    "instancesOrdered (closedState i s) = remove1 i (instancesOrdered s)"
    "length (objects (closedState i s)) = length (objects s)"
    "closeLog (closedState i s) = closeLog s"
  using assms inst_upd [OF assms, of "\<lambda>x. x\<lparr>closed := True\<rparr>"]
  by (simp_all add: closedState_def RemoveInstance_def inst_def updInst_def nth_list_update)

lemma sessionOk_closedState:
  assumes ok: "sessionOk s" and "i \<in> set (instancesOrdered s)"
  shows "sessionOk (closedState i s)"
proof -
  note s = sessionOkD [OF ok]
  have lt: "i < length (objects s)" using s(5) assms(2) by blast
  note c = closedState_simps [OF lt]
  have uniq: "instanceNum (inst s j) = instanceNum (inst s i) \<Longrightarrow> j = i" if "j \<in> set (instancesOrdered s)" for j
    using s(4) [of "instanceNum (inst s i)" i] s(4) [of "instanceNum (inst s i)" j] that assms(2) by auto
  have "map_of (instances (closedState i s)) k = Some j \<longleftrightarrow>
      j \<in> set (instancesOrdered (closedState i s)) \<and> instanceNum (inst (closedState i s) j) = k" for k j
    using s(4) [of k j] uniq [of j] s(2) by (auto simp: c map_of_delete_eq)
  then show ?thesis
    using s(1,2,3,5,6) unfolding sessionOk_def
    by (auto simp: c map_of_delete_eq distinct_delete dest: notin_set_remove1)
qed

lemma closeCall_simps [simp]:
  "instances (closeCall b i s) = instances s" "instancesOrdered (closeCall b i s) = instancesOrdered s"
  "objects (closeCall b i s) = objects s" "inst (closeCall b i s) = inst s"
  "rateLimitStates (closeCall b i s) = rateLimitStates s"
  by (auto simp: closeCall_def inst_def)

lemma sessionOk_frame:
  "instances t = instances s \<Longrightarrow> instancesOrdered t = instancesOrdered s \<Longrightarrow> objects t = objects s \<Longrightarrow>
     sessionOk t = sessionOk s"
  by (simp add: sessionOk_def inst_def)

lemma sessionOk_close:
  assumes "sessionOk s" and "i < length (objects s)"
  shows "sessionOk (CloseInstance i s)" "sessionOk (closeOnly i s)"
proof -
  have "sessionOk (closeCall b i (closedState i s)) = sessionOk (closedState i s)" for b
    by (rule sessionOk_frame) simp_all
  with assms sessionOk_closedState [OF assms(1)] sessionOkD(6) [OF assms]
  show "sessionOk (CloseInstance i s)" "sessionOk (closeOnly i s)"
    by (simp_all add: close_unfold)
qed

text \<open>Closing a list of instances one after the other: what stays, and what is logged.\<close>

lemma fold_closeOnly:
  assumes "sessionOk s" and "distinct is" and "set is \<subseteq> set (instancesOrdered s)"
  shows "sessionOk (fold closeOnly is s) \<and>
    set (instancesOrdered (fold closeOnly is s)) = set (instancesOrdered s) - set is \<and>
    length (objects (fold closeOnly is s)) = length (objects s) \<and>
    rateLimitStates (fold closeOnly is s) = rateLimitStates s \<and>
    closeLog (fold closeOnly is s) =
      closeLog s @ (if is \<noteq> [] \<and> set is = set (instancesOrdered s) then [OnSessCloseFn] else [])"
  using assms
proof (induction "is" arbitrary: s)
  case (Cons i "is")
  note s = sessionOkD [OF Cons.prems(1)]
  have i: "i \<in> set (instancesOrdered s)" "i < length (objects s)" "\<not> closed (inst s i)"
    using Cons.prems(3) s(5,6) by auto
  let ?c = "closeOnly i s"
  note c = closedState_simps [OF i(2)]
  have ok: "sessionOk ?c" using sessionOk_close(2) [OF Cons.prems(1) i(2)] .
  have o: "set (instancesOrdered ?c) = set (instancesOrdered s) - {i}"
    using i s(2) by (simp add: close_unfold c)
  have r: "rateLimitStates ?c = rateLimitStates s" "length (objects ?c) = length (objects s)"
    using i by (simp_all add: close_unfold c closedState_def RemoveInstance_def updInst_def)
  have cnt: "InstanceCount (closedState i s) = 0 \<longleftrightarrow> set (instancesOrdered s) = {i}"
  proof -
    have "InstanceCount (closedState i s) = 0 \<longleftrightarrow> set (remove1 i (instancesOrdered s)) = {}"
      using sessionOk_instances(3) [OF sessionOk_closedState [OF Cons.prems(1) i(1)]]
      by (simp add: c del: set_remove1_eq)
    then show ?thesis using i(1) s(2) by (auto simp: set_remove1_eq)
  qed
  have l: "closeLog ?c = closeLog s @ (if set (instancesOrdered s) = {i} then [OnSessCloseFn] else [])"
    using i cnt by (simp add: close_unfold closeCall_def c)
  have sub: "set is \<subseteq> set (instancesOrdered ?c)" "distinct is" "i \<notin> set is"
    using Cons.prems(2,3) o by auto
  have "set is = set (instancesOrdered ?c) \<longleftrightarrow> set (i # is) = set (instancesOrdered s)"
    using o i(1) sub(3) by auto
  then have log: "closeLog (fold closeOnly is ?c) =
      closeLog s @ (if set (i # is) = set (instancesOrdered s) then [OnSessCloseFn] else [])"
  proof (cases "is = []")
    case True
    with l i(1) show ?thesis by (simp add: insert_eq_iff eq_commute)
  next
    case False
    with o i(1) sub have "set (instancesOrdered s) \<noteq> {i}" by auto
    with False \<open>set is = set (instancesOrdered ?c) \<longleftrightarrow> set (i # is) = set (instancesOrdered s)\<close>
      Cons.IH [OF ok sub(2,1)] l show ?thesis by simp
  qed
  have "set (instancesOrdered (fold closeOnly is ?c)) = set (instancesOrdered s) - set (i # is)"
    using Cons.IH [OF ok sub(2,1)] o by (simp add: insert_commute set_diff_eq)
  with Cons.IH [OF ok sub(2,1)] r log show ?case by (simp only: fold_simps o_def) simp
qed simp

lemma CloseSession_correct:
  assumes ok: "sessionOk s"
  shows "sessionOk (CloseSession s)" "Instances (CloseSession s) = []" "InstanceCount (CloseSession s) = 0"
    "rateLimitStates (CloseSession s) = rateLimitStates s"
    "closeLog (CloseSession s) = closeLog s @ (if InstanceCount s = 0 then [] else [OnSessCloseFn])"
    "\<forall>i<length (objects s). closed (inst (CloseSession s) i)"
proof -
  note i = sessionOk_instances [OF ok]
  have f: "sessionOk (CloseSession s)" "set (instancesOrdered (CloseSession s)) = {}"
    "length (objects (CloseSession s)) = length (objects s)"
    "rateLimitStates (CloseSession s) = rateLimitStates s"
    "closeLog (CloseSession s) = closeLog s @ (if map snd (instances s) \<noteq> [] then [OnSessCloseFn] else [])"
    using fold_closeOnly [OF ok i(2)] i(1) unfolding CloseSession_def by auto
  from f(1) show "sessionOk (CloseSession s)" .
  from f(2) show n: "Instances (CloseSession s) = []" by (simp add: Instances_def)
  then show "InstanceCount (CloseSession s) = 0"
    using sessionOk_instances(3) [OF f(1)] by (simp add: Instances_def)
  from f(4) show "rateLimitStates (CloseSession s) = rateLimitStates s" .
  from f(5) show "closeLog (CloseSession s) = closeLog s @ (if InstanceCount s = 0 then [] else [OnSessCloseFn])"
    by (simp add: InstanceCount_def)
  show "\<forall>i<length (objects s). closed (inst (CloseSession s) i)"
    using sessionOkD(6) [OF f(1)] f(2,3) by auto
qed

section \<open>Every operation keeps the invariant\<close>

lemma sessionOk_upd:
  assumes "sessionOk s" and "i < length (objects s)"
    and "instanceNum (f (inst s i)) = instanceNum (inst s i)" and "closed (f (inst s i)) = closed (inst s i)"
  shows "sessionOk (updInst i f s)"
proof -
  have e: "instanceNum (inst (updInst i f s) j) = instanceNum (inst s j)"
    "closed (inst (updInst i f s) j) = closed (inst s j)" for j
    using assms(3,4) inst_upd [OF assms(2), of f j] by auto
  have k: "instances (updInst i f s) = instances s" "instancesOrdered (updInst i f s) = instancesOrdered s"
    "length (objects (updInst i f s)) = length (objects s)"
    by (simp_all add: updInst_def)
  from assms(1) show ?thesis unfolding sessionOk_def e k .
qed

lemma sessionOk_Evaluate:
  assumes "sessionOk s" and "EvaluateRateLimit now c s = Some (st, t)"
  shows "sessionOk t"
proof -
  have "sessionOk (s\<lparr>rateLimitStates := rs\<rparr>)" for rs
    using assms(1) sessionOk_frame [of "s\<lparr>rateLimitStates := rs\<rparr>" s] by simp
  with assms show ?thesis
    by (auto simp: EvaluateRateLimit_def Let_def CloseSession_correct(1) split: if_splits option.splits)
qed

lemma observe_frame:
  "observeLoop now ks (a, b, s) = Some (a', b', t) \<Longrightarrow>
     instances t = instances s \<and> instancesOrdered t = instancesOrdered s \<and> objects t = objects s"
proof (induction ks arbitrary: a b s)
  case (Cons k ks)
  then obtain a1 b1 s1 where 1: "observeClass now k (a, b, s) = Some (a1, b1, s1)"
    "observeLoop now ks (a1, b1, s1) = Some (a', b', t)" by (auto split: option.splits)
  then have "instances s1 = instances s \<and> instancesOrdered s1 = instancesOrdered s \<and> objects s1 = objects s"
    by (auto simp: observeClass_def Let_def split: if_splits option.splits)
  with Cons.IH [OF 1(2)] show ?case by simp
qed simp

lemma subscribe_frame:
  "SubscribeRateLimits cs s = Some t \<Longrightarrow>
     instances t = instances s \<and> instancesOrdered t = instancesOrdered s \<and> objects t = objects s"
  by (induction cs s rule: SubscribeRateLimits.induct) (auto simp: Let_def split: if_splits)

text \<open>The operations that only set a field of the session; \<open>RunOnce\<close> sets its flag around the steps of
  the function it runs.\<close>

inductive sessionSetter :: "(Session \<Rightarrow> Session) \<Rightarrow> bool" where
  "sessionSetter (SetIdentScreenName sn)"
| "sessionSetter (SetDisplayScreenName dn)"
| "sessionSetter (SetUIN n)"
| "sessionSetter (SetBuddyIcon icon)"
| "sessionSetter (SetChatRoomCookie cookie)"
| "sessionSetter (SetMemberSince t)"
| "sessionSetter (SetOfflineMsgCount count)"
| "sessionSetter (SetSignonTime t)"
| "sessionSetter (SetTypingEventsEnabled b)"
| "sessionSetter SetUsesFeedbag"
| "sessionSetter (SetWarning w)"
| "sessionSetter (initDone_update (\<lambda>_. True))"

lemma setter_frame:
  "sessionSetter f \<Longrightarrow> instances (f s) = instances s \<and> instancesOrdered (f s) = instancesOrdered s \<and> objects (f s) = objects s"
  by (induction rule: sessionSetter.induct) (simp_all add: SetIdentScreenName_def SetDisplayScreenName_def SetUIN_def
    SetBuddyIcon_def SetChatRoomCookie_def SetMemberSince_def SetOfflineMsgCount_def SetSignonTime_def
    SetTypingEventsEnabled_def SetUsesFeedbag_def SetWarning_def)

lemma scale_frame:
  "ScaleWarningAndRateLimit incr c s = Scaled ok w t \<or> ScaleWarningAndRateLimit incr c s = ScaleBlocked t \<Longrightarrow>
     instances t = instances s \<and> instancesOrdered t = instancesOrdered s \<and> objects t = objects s"
  by (auto simp: ScaleWarningAndRateLimit_def Let_def split: if_splits)

lemma receive_frame:
  "receiveWarning s = Some (w, t) \<Longrightarrow>
     instances t = instances s \<and> instancesOrdered t = instancesOrdered s \<and> objects t = objects s"
  by (auto simp: receiveWarning_def split: list.splits)

inductive sessionStep :: "Session \<Rightarrow> Session \<Rightarrow> bool" where
  add: "AddInstance s = Some (i, t) \<Longrightarrow> sessionStep s t"
| closeInstance: "i < length (objects s) \<Longrightarrow> sessionStep s (CloseInstance i s)"
| closeSession: "sessionStep s (CloseSession s)"
| update: "i < length (objects s) \<Longrightarrow> instanceNum (f (inst s i)) = instanceNum (inst s i) \<Longrightarrow>
    closed (f (inst s i)) = closed (inst s i) \<Longrightarrow> sessionStep s (updInst i f s)"
| evaluate: "EvaluateRateLimit now c s = Some (st, t) \<Longrightarrow> sessionStep s t"
| observe: "ObserveRateChanges now s = Some (cd, sd, t) \<Longrightarrow> sessionStep s t"
| setRateClasses: "sessionStep s (SetRateClasses now classes s)"
| subscribe: "SubscribeRateLimits cs s = Some t \<Longrightarrow> sessionStep s t"
| setter: "sessionSetter f \<Longrightarrow> sessionStep s (f s)"
| scale: "ScaleWarningAndRateLimit incr c s = Scaled ok w t \<Longrightarrow> sessionStep s t"
| scaleBlocked: "ScaleWarningAndRateLimit incr c s = ScaleBlocked t \<Longrightarrow> sessionStep s t"
| receive: "receiveWarning s = Some (w, t) \<Longrightarrow> sessionStep s t"

interpretation session: invariant_system "\<lambda>s. s = NewSession" sessionStep sessionOk
proof
  fix s t assume "sessionOk s" "sessionStep s t"
  from this(2,1) show "sessionOk t"
  proof cases
    case observe
    with \<open>sessionOk s\<close> observe_frame show ?thesis
      unfolding ObserveRateChanges_def using sessionOk_frame by blast
  next
    case subscribe
    with \<open>sessionOk s\<close> subscribe_frame sessionOk_frame show ?thesis by blast
  next
    case setter
    with \<open>sessionOk s\<close> setter_frame sessionOk_frame show ?thesis by blast
  next
    case scale
    with \<open>sessionOk s\<close> scale_frame sessionOk_frame show ?thesis by blast
  next
    case scaleBlocked
    with \<open>sessionOk s\<close> scale_frame sessionOk_frame show ?thesis by blast
  next
    case receive
    with \<open>sessionOk s\<close> receive_frame sessionOk_frame show ?thesis by blast
  next
    case setRateClasses
    then show ?thesis using \<open>sessionOk s\<close> sessionOk_frame [of t s] by (simp add: SetRateClasses_def Let_def)
  qed (auto intro: sessionOk_Add sessionOk_close CloseSession_correct sessionOk_upd sessionOk_Evaluate)
qed (simp add: sessionOk_New)

section \<open>Properties\<close>

text \<open>C13: Instance numbers are unique and never exceed a byte. In every session reachable from a new one
  by adding and closing instances, changing their state and evaluating rate limits, the open
  instances have distinct numbers from 1 to 255, looking a number up finds exactly its instance,
  the count is the number of open instances, and adding one more panics exactly when there are 255.\<close>
theorem session_instances_correct:
  assumes "sessionStep\<^sup>*\<^sup>* NewSession s"
  shows "distinct (Instances s) \<and> InstanceCount s = length (Instances s) \<and>
    inj_on (\<lambda>i. instanceNum (inst s i)) (set (Instances s)) \<and>
    (\<forall>num i. InstanceOf s num = Some i \<longleftrightarrow> i \<in> set (Instances s) \<and> instanceNum (inst s i) = num) \<and>
    (\<forall>i\<in>set (Instances s). instanceNum (inst s i) \<noteq> 0 \<and> \<not> closed (inst s i)) \<and>
    InstanceCount s \<le> 255 \<and> (AddInstance s = None \<longleftrightarrow> InstanceCount s = 255)"
proof -
  have ok: "sessionOk s" using session.invar_reachable [OF assms] by simp
  note s = sessionOkD [OF ok]
  have inj: "inj_on (\<lambda>i. instanceNum (inst s i)) (set (Instances s))"
  proof (rule inj_onI)
    fix i j assume "i \<in> set (Instances s)" "j \<in> set (Instances s)" "instanceNum (inst s i) = instanceNum (inst s j)"
    then show "i = j" using s(4) [of "instanceNum (inst s j)" i] s(4) [of "instanceNum (inst s j)" j]
      by (auto simp: Instances_def)
  qed
  have n0: "instanceNum (inst s i) \<noteq> 0" if "i \<in> set (Instances s)" for i
    using s(3) s(4) [of 0 i] that by (auto simp: Instances_def)
  define N where "N = (\<lambda>i. instanceNum (inst s i)) ` set (Instances s)"
  have N: "N \<subseteq> - {0}" "card N = InstanceCount s"
    using n0 card_image [OF inj] distinct_card [OF s(2)] sessionOk_instances(3) [OF ok]
    by (auto simp: N_def Instances_def)
  have card: "card (- {0 :: byte}) = 255" by (simp add: Compl_eq_Diff_UNIV card_Diff_singleton card_word)
  have "map_of (instances s) num \<noteq> None \<longleftrightarrow> num \<in> N" for num
    using s(4) [of num] by (auto simp: N_def Instances_def)
  then have "AddInstance s = None \<longleftrightarrow> - {0} \<subseteq> N"
    using generateInstanceNum_None [of s] by (auto simp: AddInstance_def Let_def split: option.splits)
  also have "\<dots> \<longleftrightarrow> card N = 255"
    using N(1) card card_subset_eq [of "- {0 :: byte}" N] by (metis finite_code subset_antisym subset_refl)
  finally show ?thesis
    using s(2,4,5,6) inj n0 N card card_mono [OF _ N(1)] sessionOk_instances(3) [OF ok]
    by (auto simp: Instances_def InstanceOf_def)
qed

text \<open>Closing a session closes every instance ever added, empties it, and runs the function
  registered for the session's end exactly once, or not at all when no instance was open; the
  rate limit states stay.\<close>
theorem CloseSession_closes_all:
  assumes "sessionStep\<^sup>*\<^sup>* NewSession s"
  shows "InstanceCount (CloseSession s) = 0 \<and> Instances (CloseSession s) = [] \<and>
    (\<forall>i<length (objects s). closed (inst (CloseSession s) i)) \<and>
    rateLimitStates (CloseSession s) = rateLimitStates s \<and>
    closeLog (CloseSession s) = closeLog s @ (if InstanceCount s = 0 then [] else [OnSessCloseFn])"
  using CloseSession_correct [OF session.invar_reachable [OF assms refl]] by blast

lemma first_numbers:
  "map_of (instances s) 1 = None \<Longrightarrow> generateInstanceNum s = Some 1"
  "map_of (instances s) 1 \<noteq> None \<Longrightarrow> map_of (instances s) 2 = None \<Longrightarrow> generateInstanceNum s = Some 2"
proof -
  have u: "[1..<256 :: nat] = 1 # 2 # [3..<256]"
  proof -
    have "[Suc 0..<256 :: nat] = Suc 0 # [Suc (Suc 0)..<256]"
      "[Suc (Suc 0)..<256 :: nat] = Suc (Suc 0) # [Suc (Suc (Suc 0))..<256]"
      by (rule upt_conv_Cons, simp)+
    then show ?thesis by (simp only: One_nat_def numeral_2_eq_2 numeral_3_eq_3)
  qed
  show "map_of (instances s) 1 = None \<Longrightarrow> generateInstanceNum s = Some 1"
    "map_of (instances s) 1 \<noteq> None \<Longrightarrow> map_of (instances s) 2 = None \<Longrightarrow> generateInstanceNum s = Some 2"
    unfolding generateInstanceNum_def u by auto
qed

text \<open>A session with one instance, and one with two, for the witnesses.\<close>

definition oneInstance :: Session where
  "oneInstance = NewSession\<lparr>objects := [newInstance 1], instances := [(1, 0)], instancesOrdered := [0]\<rparr>"

definition twoInstances :: Session where
  "twoInstances = NewSession\<lparr>objects := [newInstance 1, newInstance 2], instances := [(1, 0), (2, 1)],
     instancesOrdered := [0, 1]\<rparr>"

lemma oneInstance_reachable: "sessionStep\<^sup>*\<^sup>* NewSession oneInstance"
proof -
  have "AddInstance NewSession = Some (0, oneInstance)"
    using first_numbers(1) [of NewSession] by (simp add: AddInstance_def oneInstance_def NewSession_def)
  then show ?thesis using sessionStep.add by blast
qed

lemma twoInstances_reachable: "sessionStep\<^sup>*\<^sup>* NewSession twoInstances" "Instances twoInstances = [0, 1]"
proof -
  have "AddInstance oneInstance = Some (1, twoInstances)"
    using first_numbers(2) [of oneInstance]
    by (simp add: AddInstance_def oneInstance_def twoInstances_def NewSession_def)
  then show "sessionStep\<^sup>*\<^sup>* NewSession twoInstances"
    using oneInstance_reachable sessionStep.add by (meson rtranclp.rtrancl_into_rtrancl)
qed (simp add: twoInstances_def Instances_def)

lemma CloseSession_closes_all_witness:
  "closeLog (CloseSession oneInstance) = [OnSessCloseFn]"
  using CloseSession_closes_all [OF oneInstance_reachable]
  by (simp add: oneInstance_def NewSession_def InstanceCount_def)

lemma session_instances_correct_witness:
  "InstanceCount twoInstances \<le> 255 \<and> InstanceOf twoInstances 2 = Some 1 \<and> inst twoInstances 1 = newInstance 2"
  using session_instances_correct [OF twoInstances_reachable(1)]
  by (simp add: InstanceOf_def twoInstances_def inst_def)

text \<open>Goroutines that close instances at the same time: each runs the three atomic sections.\<close>

datatype closePc = CStart | CMarked | CRemoved | CDone

definition closeStepAt :: "nat \<Rightarrow> Session \<times> (nat \<times> closePc) list \<Rightarrow> Session \<times> (nat \<times> closePc) list" where
  "closeStepAt k c =
     (let (s, ths) = c; (i, pc) = ths ! k in
      case pc of
        CStart \<Rightarrow> (let (go, s1) = closeMark i s in (s1, ths[k := (i, if go then CMarked else CDone)]))
      | CMarked \<Rightarrow> (RemoveInstance i s, ths[k := (i, CRemoved)])
      | CRemoved \<Rightarrow> (closeCall True i s, ths[k := (i, CDone)])
      | CDone \<Rightarrow> c)"

lemma RemoveInstance_simps:
  "instancesOrdered (RemoveInstance i s) = remove1 i (instancesOrdered s)"
  "instances (RemoveInstance i s) = AList.delete (instanceNum (inst s i)) (instances s)"
  "objects (RemoveInstance i s) = objects s" "inst (RemoveInstance i s) = inst s"
  "closeLog (RemoveInstance i s) = closeLog s"
  by (auto simp: RemoveInstance_def inst_def)

text \<open>Two instances closed at the same time can end the session twice. One after the other, the first
  close reports the instance and the second the session. Interleaved so that both are removed
  before either counts, each of the two goroutines sees an empty session and runs the function
  registered for the session's end.\<close>
theorem concurrent_close_notifies_twice:
  assumes "sessionStep\<^sup>*\<^sup>* NewSession s" and "Instances s = [i, j]"
  shows "closeLog (fst (fold closeStepAt [0, 0, 0, 1, 1, 1] (s, [(i, CStart), (j, CStart)]))) =
      closeLog s @ [OnInstanceCloseFn i, OnSessCloseFn] \<and>
    closeLog (fst (fold closeStepAt [0, 0, 1, 1, 0, 1] (s, [(i, CStart), (j, CStart)]))) =
      closeLog s @ [OnSessCloseFn, OnSessCloseFn]"
proof -
  have ok: "sessionOk s" using session.invar_reachable [OF assms(1)] by simp
  note s = sessionOkD [OF ok]
  have o: "instancesOrdered s = [i, j]" "i \<noteq> j" using assms(2) s(2) by (auto simp: Instances_def)
  have lt: "i < length (objects s)" "j < length (objects s)" and op: "\<not> closed (inst s i)" "\<not> closed (inst s j)"
    using s(5,6) o by auto
  have n: "instanceNum (inst s i) \<noteq> instanceNum (inst s j)"
    using s(4) [of "instanceNum (inst s i)" i] s(4) [of "instanceNum (inst s i)" j] o by auto
  have lenI: "length (instances s) = 2" using sessionOk_instances(3) [OF ok] o by (simp add: InstanceCount_def)
  have mem: "map_of (instances s) (instanceNum (inst s i)) = Some i"
    "map_of (instances s) (instanceNum (inst s j)) = Some j" using s(4) o by auto
  obtain a b where ab: "instances s = [a, b]" using lenI by (auto simp: numeral_2_eq_2 length_Suc_conv)
  have dij: "AList.delete (instanceNum (inst s i)) (instances s) = [(instanceNum (inst s j), j)]"
    "AList.delete (instanceNum (inst s j)) (instances s) = [(instanceNum (inst s i), i)]"
    using mem n s(1) unfolding ab by (cases a; cases b; auto split: if_splits)+
  show ?thesis
    using o lt op n dij unfolding inst_def
    by (simp add: closeStepAt_def closeMark_def updInst_def RemoveInstance_def closeCall_def
        InstanceCount_def inst_def)
qed

lemma concurrent_close_notifies_twice_witness:
  "closeLog (fst (fold closeStepAt [0, 0, 1, 1, 0, 1] (twoInstances, [(0, CStart), (1, CStart)]))) =
     closeLog twoInstances @ [OnSessCloseFn, OnSessCloseFn]"
  using concurrent_close_notifies_twice [OF twoInstances_reachable] by blast

lemma Evaluate_no_instances:
  "Instances s = [] \<Longrightarrow> EvaluateRateLimit now c s = Some (RateLimitStatusClear, s)"
  by (simp add: EvaluateRateLimit_def AllUserInfoBitmask_def)

text \<open>A disconnect status closes every instance of the session, and from then on no message of it is
  limited: with no instance left, every instance is a bot, so that each further evaluation, of any
  class at any time, answers clear and changes nothing.\<close>
theorem disconnect_then_unlimited:
  assumes "sessionStep\<^sup>*\<^sup>* NewSession s"
    and "EvaluateRateLimit now c s = Some (RateLimitStatusDisconnect, t)"
  shows "Instances t = [] \<and> (\<forall>i<length (objects s). closed (inst t i)) \<and>
    EvaluateRateLimit now' c' t = Some (RateLimitStatusClear, t)"
proof -
  obtain rs where t: "t = CloseSession (s\<lparr>rateLimitStates := rs\<rparr>)"
    using assms(2) by (auto simp: EvaluateRateLimit_def Let_def split: if_splits option.splits)
  have "sessionOk s" using session.invar_reachable [OF assms(1)] by simp
  then have "sessionOk (s\<lparr>rateLimitStates := rs\<rparr>)"
    using sessionOk_frame [of "s\<lparr>rateLimitStates := rs\<rparr>" s] by simp
  note c = CloseSession_correct [OF this]
  from c(2,6) have "Instances t = []" "\<forall>i<length (objects s). closed (inst t i)" by (simp_all add: t)
  with Evaluate_no_instances show ?thesis by blast
qed

definition ratedSession :: Session where
  "ratedSession = SetRateClasses 0 DefaultRateLimitClasses oneInstance"

lemma ratedSession_reachable: "sessionStep\<^sup>*\<^sup>* NewSession ratedSession"
  unfolding ratedSession_def
  using oneInstance_reachable sessionStep.setRateClasses by (meson rtranclp.rtrancl_into_rtrancl)

lemma ratedSession_simps:
  "rateLimitStates ratedSession = map (\<lambda>cls. \<lparr>rateClass = cls, CurrentLevel = MaxLevel cls, LastTime = 0,
     CurrentStatus = Some RateLimitStatusClear, Subscribed = False, LimitedNow = False\<rparr>) DefaultRateLimitClasses"
  "Instances ratedSession = [0]" "inst ratedSession 0 = newInstance 1"
  by (simp_all add: ratedSession_def SetRateClasses_def oneInstance_def NewSession_def inst_def Instances_def
      RateLimitClasses_All_def DefaultRateLimitClasses_def zeroRateClassState_def zeroRateClass_def
      numeral_eq_Suc Let_def)

lemma ratedSession_disconnects:
  "\<exists>t. EvaluateRateLimit (0 + (2 ^ 31 * 1000000 + 0)) 1 ratedSession = Some (RateLimitStatusDisconnect, t)"
proof -
  obtain new where c: "CheckRateLimit 0 (0 + (2 ^ 31 * 1000000 + 0)) (DefaultRateLimitClasses ! 0)
      (MaxLevel (DefaultRateLimitClasses ! 0)) False = Some (RateLimitStatusDisconnect, new)"
    using long_idle_negative [of "DefaultRateLimitClasses ! 0" 6000 "2 ^ 31" 0 0 False]
    by (auto simp: DefaultRateLimitClasses_def)
  then show ?thesis
    by (simp add: EvaluateRateLimit_def AllUserInfoBitmask_def ratedSession_simps newInstance_def
        DefaultRateLimitClasses_def)
qed

lemma disconnect_then_unlimited_witness:
  "\<exists>t. EvaluateRateLimit (0 + (2 ^ 31 * 1000000 + 0)) 1 ratedSession = Some (RateLimitStatusDisconnect, t) \<and>
     EvaluateRateLimit 0 3 t = Some (RateLimitStatusClear, t)"
  using ratedSession_disconnects disconnect_then_unlimited [OF ratedSession_reachable] by blast

text \<open>Evaluating a message of a session with at least one instance that is no bot updates exactly its
  class: the status and level are those of the moving average since the last message of the class,
  the time is recorded, the client is limited from now on exactly when the status says so, and the
  other classes keep their state.\<close>
theorem EvaluateRateLimit_correct:
  assumes "i \<in> set (Instances s)" and "userInfoBitmask (inst s i) AND OServiceUserFlagBot = 0"
    and "k = unat (c - 1)" and "k < length (rateLimitStates s)" and "rc = rateLimitStates s ! k"
    and "CheckRateLimit (LastTime rc) now (rateClass rc) (CurrentLevel rc) (LimitedNow rc) = Some (st, level)"
    and "sessionOk s"
  shows "\<exists>t. EvaluateRateLimit now c s = Some (st, t) \<and>
    rateLimitStates t ! k = rc\<lparr>CurrentLevel := level, CurrentStatus := Some st, LastTime := now,
      LimitedNow := (st = RateLimitStatusLimited)\<rparr> \<and>
    (\<forall>j. j \<noteq> k \<longrightarrow> rateLimitStates t ! j = rateLimitStates s ! j) \<and>
    (st \<noteq> RateLimitStatusDisconnect \<longrightarrow> Instances t = Instances s)"
proof -
  have bot: "\<not> AllUserInfoBitmask OServiceUserFlagBot s"
    using assms(1,2) by (auto simp: AllUserInfoBitmask_def list_all_iff intro!: bexI [of _ i])
  have "sessionOk (s\<lparr>rateLimitStates := rs\<rparr>)" for rs
    using assms(7) sessionOk_frame [of "s\<lparr>rateLimitStates := rs\<rparr>" s] by simp
  then have "rateLimitStates (CloseSession (s\<lparr>rateLimitStates := rs\<rparr>)) = rs" for rs
    using CloseSession_correct(4) by simp
  with bot assms(3-6) show ?thesis
    by (auto simp: EvaluateRateLimit_def Let_def Instances_def)
qed

lemma EvaluateRateLimit_correct_witness:
  "\<exists>t. EvaluateRateLimit (0 + (1000 * 1000000 + 0)) 3 ratedSession = Some (RateLimitStatusClear, t) \<and>
     Instances t = [0] \<and> CurrentLevel (rateLimitStates t ! 2) = 14300"
proof -
  have "CheckRateLimit 0 (0 + (1000 * 1000000 + 0)) (DefaultRateLimitClasses ! 2) 15000 False
      = Some (RateLimitStatusClear, 14300)"
    using CheckRateLimit_exact [OF default_classOk, of "DefaultRateLimitClasses ! 2" 15000 1000 0 0 False]
    by (simp add: DefaultRateLimitClasses_def nextAvg_def classify_def)
  moreover have "sessionOk ratedSession" using session.invar_reachable [OF ratedSession_reachable] by simp
  ultimately show ?thesis
    using EvaluateRateLimit_correct [of 0 ratedSession 2 3 "rateLimitStates ratedSession ! 2"
        "0 + (1000 * 1000000 + 0)" RateLimitStatusClear 14300]
    by (auto simp: ratedSession_simps newInstance_def DefaultRateLimitClasses_def)
qed

lemma rateLimitStates_CloseSession [simp]: "rateLimitStates (CloseSession s) = rateLimitStates s"
proof -
  have "rateLimitStates (closeOnly i s) = rateLimitStates s" for i s
    by (simp add: close_unfold closedState_def RemoveInstance_def updInst_def)
  then have "rateLimitStates (fold closeOnly is s) = rateLimitStates s" for "is"
    by (induction "is" arbitrary: s) simp_all
  then show ?thesis by (simp add: CloseSession_def)
qed

text \<open>Observing that a limit has cleared credits the silence twice. When a limited class is seen to be
  clear, the level that averages the silence in is stored, but the time of the last message is
  kept: a message at the same moment averages the same silence in once more, on top of it.\<close>
theorem observe_credits_silence_twice:
  assumes "rc = rateLimitStates s ! 0" and "0 < length (rateLimitStates s)"
    and "rateClass rc \<in> set DefaultRateLimitClasses" and "Subscribed rc" and "LimitedNow rc"
    and "0 \<le> CurrentLevel rc" and "CurrentLevel rc \<le> MaxLevel (rateClass rc)"
    and "now = LastTime rc + ms * 1000000" and "0 \<le> ms" and "ms < 2 ^ 31 - 2 ^ 21"
    and "ClearLevel (rateClass rc) \<le> nextAvg (rateClass rc) (CurrentLevel rc) ms"
    and "\<not> AllUserInfoBitmask OServiceUserFlagBot s"
  shows "\<exists>cd sd t st u. observeClass now 0 ([], [], s) = Some (cd, sd, t) \<and>
    CurrentLevel (rateLimitStates t ! 0) = nextAvg (rateClass rc) (CurrentLevel rc) ms \<and>
    EvaluateRateLimit now 1 t = Some (st, u) \<and>
    CurrentLevel (rateLimitStates u ! 0) =
      nextAvg (rateClass rc) (nextAvg (rateClass rc) (CurrentLevel rc) ms) ms"
proof -
  let ?c = "rateClass rc" and ?a = "nextAvg (rateClass rc) (CurrentLevel rc) ms"
  have ok: "classOk ?c" using assms(3) by (rule default_classOk)
  have a: "0 \<le> ?a" "?a \<le> MaxLevel ?c" using nextAvg_bounds [OF ok assms(6,9)] by simp_all
  have c: "CheckRateLimit (LastTime rc) now ?c lv lim = Some (classify ?c (nextAvg ?c lv ms) lim, nextAvg ?c lv ms)"
    if "0 \<le> lv" "lv \<le> MaxLevel ?c" for lv lim
    using CheckRateLimit_exact [OF ok that assms(9,10), of 0 "LastTime rc" lim] assms(8) by simp
  have "classify ?c ?a True = RateLimitStatusClear"
    using ok assms(11) by (auto simp: classify_def classOk_def)
  with c [OF assms(6,7), of True] have o: "CheckRateLimit (LastTime rc) now ?c (CurrentLevel rc) True
      = Some (RateLimitStatusClear, ?a)" by simp
  let ?rc = "rc\<lparr>CurrentStatus := Some RateLimitStatusClear, LimitedNow := False, CurrentLevel := ?a\<rparr>"
  obtain cd sd t where t: "observeClass now 0 ([], [], s) = Some (cd, sd, t)"
    "rateLimitStates t = (rateLimitStates s)[0 := ?rc]" "objects t = objects s"
    "instancesOrdered t = instancesOrdered s"
    using o assms(1,4,5) by (auto simp: observeClass_def Let_def)
  have t0: "rateLimitStates t ! 0 = ?rc" "0 < length (rateLimitStates t)" using t(2) assms(2) by auto
  have "\<not> AllUserInfoBitmask OServiceUserFlagBot t"
    using assms(12) t(3,4) by (simp add: AllUserInfoBitmask_def Instances_def inst_def)
  then have "\<exists>st u. EvaluateRateLimit now 1 t = Some (st, u) \<and>
      CurrentLevel (rateLimitStates u ! 0) = nextAvg ?c ?a ms"
    using c [OF a, of False] t0 by (auto simp: EvaluateRateLimit_def Let_def)
  with t(1) t0 show ?thesis by auto
qed

lemma observe_credits_silence_twice_witness:
  "\<exists>cd sd t st u. observeClass (0 + 12900 * 1000000) 0
      ([], [], oneInstance\<lparr>rateLimitStates := [\<lparr>rateClass = DefaultRateLimitClasses ! 2, CurrentLevel = 900,
        LastTime = 0, CurrentStatus = None, Subscribed = True, LimitedNow = True\<rparr>]\<rparr>) = Some (cd, sd, t) \<and>
    CurrentLevel (rateLimitStates t ! 0) = 1500 \<and>
    EvaluateRateLimit (0 + 12900 * 1000000) 1 t = Some (st, u) \<and> CurrentLevel (rateLimitStates u ! 0) = 2070"
proof -
  let ?rc = "\<lparr>rateClass = DefaultRateLimitClasses ! 2, CurrentLevel = 900,
        LastTime = 0, CurrentStatus = None, Subscribed = True, LimitedNow = True\<rparr>"
  have n: "nextAvg (DefaultRateLimitClasses ! 2) 900 12900 = 1500" "nextAvg (DefaultRateLimitClasses ! 2) 1500 12900 = 2070"
    "ClearLevel (DefaultRateLimitClasses ! 2) = 1500" "MaxLevel (DefaultRateLimitClasses ! 2) = 15000"
    "DefaultRateLimitClasses ! 2 \<in> set DefaultRateLimitClasses"
    by (simp_all add: nextAvg_def DefaultRateLimitClasses_def)
  have "\<not> AllUserInfoBitmask OServiceUserFlagBot (oneInstance\<lparr>rateLimitStates := [?rc]\<rparr>)"
    by (simp add: AllUserInfoBitmask_def Instances_def inst_def oneInstance_def newInstance_def)
  with observe_credits_silence_twice [of ?rc "oneInstance\<lparr>rateLimitStates := [?rc]\<rparr>" "0 + 12900 * 1000000" 12900] n
  show ?thesis by simp
qed

lemma EndNotifyTxn_simps:
  "notifyTxnActive y \<Longrightarrow> fst (EndNotifyTxn y) = (notifyTxnShouldSend y, txnNames y)"
  "\<not> notifyTxnActive (snd (EndNotifyTxn y))" "txnNames (snd (EndNotifyTxn y)) = []"
  by (simp_all add: EndNotifyTxn_def txnNames_def)

text \<open>A notify transaction collects exactly the names it was given, each once, and never more than
  1000. Between \<open>BeginNotifyTxn\<close> and \<open>EndNotifyTxn\<close> every accepted call adds its names, a refused
  call changes nothing, and the end answers the collected set and leaves no transaction open.\<close>
theorem notify_txn_correct:
  assumes "notifyTxnActive x" and "distinct (txnNames x)" and "length (txnNames x) \<le> 1000"
    and "NotifyTxn names x = (e, y)"
  shows "(e = None \<longrightarrow> set (txnNames y) = set (txnNames x) \<union> set names \<and> notifyTxnShouldSend y) \<and>
    (e \<noteq> None \<longrightarrow> y = x \<and> length (txnNames x) + length names > 1000) \<and>
    notifyTxnActive y \<and> distinct (txnNames y) \<and> length (txnNames y) \<le> 1000 \<and>
    fst (EndNotifyTxn y) = (notifyTxnShouldSend y, txnNames y) \<and>
    \<not> notifyTxnActive (snd (EndNotifyTxn y)) \<and> txnNames (snd (EndNotifyTxn y)) = []"
proof -
  have f: "set (fold List.insert ns xs) = set xs \<union> set ns \<and> (distinct xs \<longrightarrow> distinct (fold List.insert ns xs)) \<and>
      length (fold List.insert ns xs) \<le> length xs + length ns" for ns xs :: "IdentScreenName list"
  proof (induction ns arbitrary: xs)
    case (Cons a ns)
    from Cons [of "List.insert a xs"] show ?case by (auto simp: List.insert_def split: if_splits)
  qed simp
  show ?thesis
  proof (cases "length (txnNames x) + length names > 1000")
    case True
    with assms(1,4) have "e = Some errNotifyTxnTooManyNames" "y = x" by (simp_all add: NotifyTxn_def)
    with True assms(1-3) EndNotifyTxn_simps [of x] show ?thesis by blast
  next
    case False
    with assms(1,4) have e: "e = None"
      and y: "y = x\<lparr>notifyTxnShouldSend := True, notifyTxnNames := Some (fold List.insert names (txnNames x))\<rparr>"
      by (simp_all add: NotifyTxn_def)
    have n: "txnNames y = fold List.insert names (txnNames x)" "notifyTxnShouldSend y" "notifyTxnActive y"
      using assms(1) by (simp_all add: y txnNames_def)
    have "set (txnNames y) = set (txnNames x) \<union> set names" "distinct (txnNames y)" "length (txnNames y) \<le> 1000"
      using False assms(2) f [of names "txnNames x"] unfolding n(1) by linarith+
    with e n EndNotifyTxn_simps [of y] show ?thesis by blast
  qed
qed

lemma notify_txn_correct_witness:
  "set (txnNames (snd (NotifyTxn [[1], [2], [1]] (BeginNotifyTxn (newInstance 1))))) = {[1], [2]}"
  using notify_txn_correct [of "BeginNotifyTxn (newInstance 1)" "[[1], [2], [1]]"
      "fst (NotifyTxn [[1], [2], [1]] (BeginNotifyTxn (newInstance 1)))"
      "snd (NotifyTxn [[1], [2], [1]] (BeginNotifyTxn (newInstance 1)))"]
  by (simp add: BeginNotifyTxn_def txnNames_def newInstance_def NotifyTxn_def) auto

end
