(* ===== verification/State_UserInfo.thy ===== *)
theory State_UserInfo
  imports State_Session
begin

text \<open>
  The user info block of \<open>state/session.go\<close>: the name, the warning level and the TLVs that every
  presence event, chat event and buddy list carries about a user, computed from all instances.
  The properties say what the block tells a client that looks its tags up.
\<close>

section \<open>The user info block\<close>

abbreviation (input) OServiceUserFlagICQ :: u16 where "OServiceUserFlagICQ \<equiv> 0x0040"
abbreviation (input) OServiceUserInfoUserFlags :: u16 where "OServiceUserInfoUserFlags \<equiv> 0x01"
abbreviation (input) OServiceUserInfoSignonTOD :: u16 where "OServiceUserInfoSignonTOD \<equiv> 0x03"
abbreviation (input) OServiceUserInfoIdleTime :: u16 where "OServiceUserInfoIdleTime \<equiv> 0x04"
abbreviation (input) OServiceUserInfoStatus :: u16 where "OServiceUserInfoStatus \<equiv> 0x06"
abbreviation (input) OServiceUserInfoICQDC :: u16 where "OServiceUserInfoICQDC \<equiv> 0x0C"
abbreviation (input) OServiceUserInfoOscarCaps :: u16 where "OServiceUserInfoOscarCaps \<equiv> 0x0D"
abbreviation (input) OServiceUserInfoBARTInfo :: u16 where "OServiceUserInfoBARTInfo \<equiv> 0x1D"
abbreviation (input) OServiceUserInfoMySubscriptions :: u16 where "OServiceUserInfoMySubscriptions \<equiv> 0x1E"

record TLVUserInfo =
  tuiScreenName :: bytes
  tuiWarningLevel :: u16
  tuiTLVs :: TLVList

definition BARTID_val :: "BARTID \<Rightarrow> gval" where
  "BARTID_val b = VStruct [VU16 (bartType b), VStruct [VU8 (bartFlags b), bytesVal (bartHash b)]]"

definition ICQDCInfo_type :: gtype where
  "ICQDCInfo_type = TStruct ''ICQDCInfo'' (structFields
     [(''IP'', None, TU32), (''Port'', None, TU32), (''DCType'', None, TU8), (''ProtoVersion'', None, TU16),
      (''AuthCookie'', None, TU32), (''WebPort'', None, TU32), (''ClientFutures'', None, TU32),
      (''LastUpdateTime'', None, TU32), (''LastExtInfoUpdateTime'', None, TU32),
      (''LastExtStatusUpdateTime'', None, TU32), (''Unknown'', None, TU16)])"

definition ICQDCInfo_val :: "ICQDCInfo \<Rightarrow> gval" where
  "ICQDCInfo_val d = VStruct [VU32 (dcIP d), VU32 (dcPort d), VU8 (dcType d), VU16 (dcProtoVersion d),
     VU32 (dcAuthCookie d), VU32 (dcWebPort d), VU32 (dcClientFutures d), VU32 (dcLastUpdateTime d),
     VU32 (dcLastExtInfoUpdateTime d), VU32 (dcLastExtStatusUpdateTime d), VU16 (dcUnknown d)]"

definition capsVal :: "bytes list \<Rightarrow> gval" where
  "capsVal cs = VSlice (map (\<lambda>c. VArray (map VU8 c)) cs)"

text \<open>The user flags: those of the first instance, the away flag from all of them.\<close>

definition userFlags :: "Session \<Rightarrow> u16" where
  "userFlags s =
     (let base = (case Instances s of [] \<Rightarrow> 0 | i # _ \<Rightarrow> userInfoBitmask (inst s i))
      in if Away s then base OR OServiceUserFlagUnavailable else base AND NOT OServiceUserFlagUnavailable)"

definition statusBitmask :: "Session \<Rightarrow> u32" where
  "statusBitmask s =
     (case Instances s of
        [] \<Rightarrow> 0
      | i # _ \<Rightarrow> fold (\<lambda>j m. m AND userStatusBitmask (inst s j)) (Instances s) (userStatusBitmask (inst s i)))"

text \<open>Whole minutes of idle time. (The code divides in floating point; below 65536 minutes the
  truncated quotient is this number.)\<close>

definition idleMinutes :: "int \<Rightarrow> int \<Rightarrow> u16" where
  "idleMinutes now since = word_of_int ((now - since) sdiv (60 * 10 ^ 9))"

text \<open>The entries of \<open>userInfo\<close> in order, each with its tag and value.\<close>

definition userInfoEntries :: "int \<Rightarrow> Session \<Rightarrow> (u16 \<times> gtype \<times> gval) list" where
  "userInfoEntries now s =
     [(OServiceUserInfoSignonTOD, TU32, VU32 (word_of_int (signonTime s div 10 ^ 9))),
      (OServiceUserInfoUserFlags, TU16, VU16 (userFlags s)),
      (OServiceUserInfoStatus, TU32, VU32 (statusBitmask s))]
     @ (if Idle s then [(OServiceUserInfoIdleTime, TU16, VU16 (idleMinutes now (mostRecentIdleTime s)))] else [])
     @ (if snd (BuddyIcon s) then [(OServiceUserInfoBARTInfo, BARTID_type, BARTID_val (buddyIcon s))] else [])
     @ (if userFlags s AND OServiceUserFlagICQ = OServiceUserFlagICQ \<and> Instances s \<noteq> []
        then [(OServiceUserInfoICQDC, ICQDCInfo_type, ICQDCInfo_val (icqDCInfo (inst s (hd (Instances s)))))] else [])
     @ (if Caps s \<noteq> [] then [(OServiceUserInfoOscarCaps, TSlice (TArray 16 TU8), capsVal (Caps s))] else [])
     @ [(OServiceUserInfoMySubscriptions, TU32, VU32 0)]"

fun appendTLVs :: "(u16 \<times> gtype \<times> gval) list \<Rightarrow> TLVList \<Rightarrow> gerr + TLVList" where
  "appendTLVs [] tlvs = Inr tlvs"
| "appendTLVs ((tag, t, v) # es) tlvs =
     ebind (NewTLVBE tag (Some (t, v))) (\<lambda>tlv. appendTLVs es (TLVList_Append tlvs tlv))"

definition userInfo :: "int \<Rightarrow> Session \<Rightarrow> gerr + TLVList" where
  "userInfo now s = appendTLVs (userInfoEntries now s) []"

definition Session_TLVUserInfo :: "int \<Rightarrow> Session \<Rightarrow> gerr + TLVUserInfo" where
  "Session_TLVUserInfo now s =
     ebind (userInfo now s) (\<lambda>tlvs. Inr \<lparr>tuiScreenName = displayScreenName s, tuiWarningLevel = warning s, tuiTLVs = tlvs\<rparr>)"


section \<open>Lemmas\<close>

lemmas marshal_value = NewTLVBE_def newTLV_def MarshalBE_def marshalTop_def marshalTagged_def fieldPointerCheck_def
  structOrder_def marshalStructPrefix_def marshalSlicePrefix_def marshalString_def marshalUnsignedInt_def parse_tags

lemma write_bytes: "concat (map (binaryWrite order) (map VU8 bs)) = bs"
  by (induction bs) simp_all

lemma scalar_TLVs [simp]:
  "NewTLVBE tag (Some (TU16, VU16 a)) = Inr \<lparr>Tag = tag, Value = putUint BigEndian 2 (unat a)\<rparr>"
  "NewTLVBE tag (Some (TU32, VU32 b)) = Inr \<lparr>Tag = tag, Value = putUint BigEndian 4 (unat b)\<rparr>"
  by (simp_all add: marshal_value)

lemma icon_TLV: "\<exists>v. NewTLVBE tag (Some (BARTID_type, BARTID_val b)) = Inr \<lparr>Tag = tag, Value = v\<rparr>"
  by (simp add: marshal_value BARTID_type_def BARTInfo_type_def BARTID_val_def bytesVal_def write_bytes del: map_map)

lemma dc_TLV: "\<exists>v. NewTLVBE tag (Some (ICQDCInfo_type, ICQDCInfo_val d)) = Inr \<lparr>Tag = tag, Value = v\<rparr>"
  by (simp add: marshal_value ICQDCInfo_type_def ICQDCInfo_val_def)

lemma caps_TLV: "\<exists>v. NewTLVBE tag (Some (TSlice (TArray 16 TU8), capsVal cs)) = Inr \<lparr>Tag = tag, Value = v\<rparr>"
  by (simp add: marshal_value capsVal_def)

lemma fold_AND:
  fixes f :: "nat \<Rightarrow> u32"
  shows "fold (\<lambda>j m. m AND f j) is m AND flag = flag \<longleftrightarrow> m AND flag = flag \<and> (\<forall>j\<in>set is. f j AND flag = flag)"
proof (induction "is" arbitrary: m)
  case (Cons j js)
  have "(m AND f j) AND flag = flag \<longleftrightarrow> m AND flag = flag \<and> f j AND flag = flag"
    by (auto simp: bit_eq_iff bit_simps)
  with Cons.IH [of "m AND f j"] show ?case by simp
qed simp

lemma statusBitmask_all:
  "Instances s \<noteq> [] \<Longrightarrow> statusBitmask s AND flag = flag \<longleftrightarrow> AllUserStatusBitmask flag s"
  by (cases "Instances s") (auto simp: statusBitmask_def fold_AND AllUserStatusBitmask_def list_all_iff)

lemma Away_all: "Away s \<longleftrightarrow> Instances s \<noteq> [] \<and> (\<forall>i\<in>set (Instances s). away (inst s i))"
  by (auto simp: Away_def away_def list_all_iff)

lemma mask_bits:
  fixes b m :: u16
  shows "(b OR m) AND m = m" "(b AND NOT m) AND m = 0"
  by (rule bit_eqI, auto simp: bit_simps)+

lemma userFlags_unavailable: "userFlags s AND OServiceUserFlagUnavailable \<noteq> 0 \<longleftrightarrow> Away s"
  using mask_bits [of _ OServiceUserFlagUnavailable] by (simp add: userFlags_def Let_def)

lemma Caps_set:
  assumes "sessionOk s"
  shows "set (Caps s) = (\<Union>i\<in>set (Instances s). set (capabilities (inst s i)))"
proof -
  have "set (Caps s) = (\<Union>i\<in>set (map snd (instances s)). set (capabilities (inst s i)))"
    by (force simp: Caps_def)
  then show ?thesis unfolding sessionOk_instances(1) [OF assms] Instances_def .
qed

lemma appendTLVs_tags:
  assumes "list_all (\<lambda>(tag, t, v). \<exists>b. NewTLVBE tag (Some (t, v)) = Inr \<lparr>Tag = tag, Value = b\<rparr>) es"
  shows "\<exists>tlvs. (\<forall>acc. appendTLVs es acc = Inr (acc @ tlvs)) \<and> map Tag tlvs = map fst es"
  using assms
proof (induction es)
  case (Cons e es)
  obtain tag t v where e: "e = (tag, t, v)" by (cases e) auto
  with Cons.prems obtain b where b: "NewTLVBE tag (Some (t, v)) = Inr \<lparr>Tag = tag, Value = b\<rparr>" by auto
  from Cons obtain tlvs where "\<And>acc. appendTLVs es acc = Inr (acc @ tlvs)" "map Tag tlvs = map fst es" by auto
  then show ?case using b
    by (intro exI [of _ "\<lparr>Tag = tag, Value = b\<rparr> # tlvs"]) (simp add: e TLVList_Append_def)
qed simp

lemma HasTag_set: "TLVList_HasTag tlvs tag \<longleftrightarrow> tag \<in> set (map Tag tlvs)"
  by (induction tlvs) auto

text \<open>The block in closed form: three fixed TLVs, then those that depend on the state.\<close>

lemma userInfo_shape:
  assumes "Instances s \<noteq> []"
  shows "\<exists>rest. userInfo now s = Inr (
      [\<lparr>Tag = OServiceUserInfoSignonTOD, Value = putUint BigEndian 4 (unat (word_of_int (signonTime s div 10 ^ 9) :: u32))\<rparr>,
       \<lparr>Tag = OServiceUserInfoUserFlags, Value = putUint BigEndian 2 (unat (userFlags s))\<rparr>,
       \<lparr>Tag = OServiceUserInfoStatus, Value = putUint BigEndian 4 (unat (statusBitmask s))\<rparr>] @ rest) \<and>
    map Tag rest = (if Idle s then [OServiceUserInfoIdleTime] else [])
      @ (if bartType (buddyIcon s) \<noteq> 0 then [OServiceUserInfoBARTInfo] else [])
      @ (if userFlags s AND OServiceUserFlagICQ = OServiceUserFlagICQ then [OServiceUserInfoICQDC] else [])
      @ (if Caps s \<noteq> [] then [OServiceUserInfoOscarCaps] else []) @ [OServiceUserInfoMySubscriptions]"
proof -
  define es where "es = (if Idle s then [(OServiceUserInfoIdleTime, TU16, VU16 (idleMinutes now (mostRecentIdleTime s)))] else [])
     @ (if snd (BuddyIcon s) then [(OServiceUserInfoBARTInfo, BARTID_type, BARTID_val (buddyIcon s))] else [])
     @ (if userFlags s AND OServiceUserFlagICQ = OServiceUserFlagICQ \<and> Instances s \<noteq> []
        then [(OServiceUserInfoICQDC, ICQDCInfo_type, ICQDCInfo_val (icqDCInfo (inst s (hd (Instances s)))))] else [])
     @ (if Caps s \<noteq> [] then [(OServiceUserInfoOscarCaps, TSlice (TArray 16 TU8), capsVal (Caps s))] else [])
     @ [(OServiceUserInfoMySubscriptions, TU32, VU32 0)]"
  have "list_all (\<lambda>(tag, t, v). \<exists>b. NewTLVBE tag (Some (t, v)) = Inr \<lparr>Tag = tag, Value = b\<rparr>) es"
    using icon_TLV dc_TLV caps_TLV by (simp add: es_def)
  from appendTLVs_tags [OF this] obtain rest where rest: "map Tag rest = map fst es"
    "\<And>acc. appendTLVs es acc = Inr (acc @ rest)" by blast
  have "userInfoEntries now s =
      (OServiceUserInfoSignonTOD, TU32, VU32 (word_of_int (signonTime s div 10 ^ 9)))
      # (OServiceUserInfoUserFlags, TU16, VU16 (userFlags s))
      # (OServiceUserInfoStatus, TU32, VU32 (statusBitmask s)) # es"
    unfolding userInfoEntries_def es_def append_Cons append_Nil ..
  then have "userInfo now s = Inr (
      [\<lparr>Tag = OServiceUserInfoSignonTOD, Value = putUint BigEndian 4 (unat (word_of_int (signonTime s div 10 ^ 9) :: u32))\<rparr>,
       \<lparr>Tag = OServiceUserInfoUserFlags, Value = putUint BigEndian 2 (unat (userFlags s))\<rparr>,
       \<lparr>Tag = OServiceUserInfoStatus, Value = putUint BigEndian 4 (unat (statusBitmask s))\<rparr>] @ rest)"
    unfolding userInfo_def by (simp add: TLVList_Append_def rest(2))
  moreover have "map fst es = (if Idle s then [OServiceUserInfoIdleTime] else [])
      @ (if bartType (buddyIcon s) \<noteq> 0 then [OServiceUserInfoBARTInfo] else [])
      @ (if userFlags s AND OServiceUserFlagICQ = OServiceUserFlagICQ then [OServiceUserInfoICQDC] else [])
      @ (if Caps s \<noteq> [] then [OServiceUserInfoOscarCaps] else []) @ [OServiceUserInfoMySubscriptions]"
    using assms by (simp add: es_def BuddyIcon_def)
  ultimately show ?thesis using rest(1) by metis
qed

section \<open>Properties\<close>

text \<open>The user info block says what all instances of a user have in common. For a reachable session
  with an instance the block is built, carries the user's name and warning level, shows the user
  away exactly when every instance is away, a status bit exactly when every instance has it, an idle
  time exactly when every instance is idle, the buddy icon exactly when one is set, and capabilities
  exactly when some instance has one.\<close>
theorem userInfo_correct:
  assumes "sessionStep\<^sup>*\<^sup>* NewSession s" and "Instances s \<noteq> []"
  shows "\<exists>info flags status. Session_TLVUserInfo now s = Inr info \<and>
    tuiScreenName info = displayScreenName s \<and> tuiWarningLevel info = warning s \<and>
    TLVList_Uint16BE (tuiTLVs info) OServiceUserInfoUserFlags = Inr (Some flags) \<and>
    (flags AND OServiceUserFlagUnavailable \<noteq> 0 \<longleftrightarrow> (\<forall>i\<in>set (Instances s). away (inst s i))) \<and>
    TLVList_Uint32BE (tuiTLVs info) OServiceUserInfoStatus = Inr (Some status) \<and>
    (\<forall>b. status AND b = b \<longleftrightarrow> (\<forall>i\<in>set (Instances s). userStatusBitmask (inst s i) AND b = b)) \<and>
    (TLVList_HasTag (tuiTLVs info) OServiceUserInfoIdleTime \<longleftrightarrow> (\<forall>i\<in>set (Instances s). idle (inst s i))) \<and>
    (TLVList_HasTag (tuiTLVs info) OServiceUserInfoBARTInfo \<longleftrightarrow> bartType (buddyIcon s) \<noteq> 0) \<and>
    (TLVList_HasTag (tuiTLVs info) OServiceUserInfoOscarCaps \<longleftrightarrow>
       (\<exists>i\<in>set (Instances s). capabilities (inst s i) \<noteq> []))"
proof -
  have ok: "sessionOk s" using session.invar_reachable [OF assms(1)] by simp
  obtain tlvs where tlvs: "userInfo now s = Inr tlvs"
    and u: "TLVList_Uint16BE tlvs OServiceUserInfoUserFlags = Inr (Some (userFlags s))"
      "TLVList_Uint32BE tlvs OServiceUserInfoStatus = Inr (Some (statusBitmask s))"
    and h: "TLVList_HasTag tlvs OServiceUserInfoIdleTime \<longleftrightarrow> Idle s"
      "TLVList_HasTag tlvs OServiceUserInfoBARTInfo \<longleftrightarrow> bartType (buddyIcon s) \<noteq> 0"
      "TLVList_HasTag tlvs OServiceUserInfoOscarCaps \<longleftrightarrow> Caps s \<noteq> []"
  proof -
    obtain rest where r: "userInfo now s = Inr (
      [\<lparr>Tag = OServiceUserInfoSignonTOD, Value = putUint BigEndian 4 (unat (word_of_int (signonTime s div 10 ^ 9) :: u32))\<rparr>,
       \<lparr>Tag = OServiceUserInfoUserFlags, Value = putUint BigEndian 2 (unat (userFlags s))\<rparr>,
       \<lparr>Tag = OServiceUserInfoStatus, Value = putUint BigEndian 4 (unat (statusBitmask s))\<rparr>] @ rest)"
      and t: "map Tag rest = (if Idle s then [OServiceUserInfoIdleTime] else [])
      @ (if bartType (buddyIcon s) \<noteq> 0 then [OServiceUserInfoBARTInfo] else [])
      @ (if userFlags s AND OServiceUserFlagICQ = OServiceUserFlagICQ then [OServiceUserInfoICQDC] else [])
      @ (if Caps s \<noteq> [] then [OServiceUserInfoOscarCaps] else []) @ [OServiceUserInfoMySubscriptions]"
      using userInfo_shape [OF assms(2), of now] by blast
    show thesis
      by (rule that [OF r]) (simp_all add: TLV_Uint16BE_def TLV_Uint32BE_def HasTag_set t del: set_map)
  qed
  have idle: "Idle s \<longleftrightarrow> (\<forall>i\<in>set (Instances s). idle (inst s i))"
    using assms(2) by (simp add: Idle_def list_all_iff)
  have st: "\<forall>b. statusBitmask s AND b = b \<longleftrightarrow> (\<forall>i\<in>set (Instances s). userStatusBitmask (inst s i) AND b = b)"
    using statusBitmask_all [OF assms(2)] by (simp add: AllUserStatusBitmask_def list_all_iff)
  have caps: "Caps s \<noteq> [] \<longleftrightarrow> (\<exists>i\<in>set (Instances s). capabilities (inst s i) \<noteq> [])"
    using Caps_set [OF ok] by (metis (no_types, lifting) SUP_bot_conv(2) set_empty)
  have fl: "userFlags s AND OServiceUserFlagUnavailable \<noteq> 0 \<longleftrightarrow> (\<forall>i\<in>set (Instances s). away (inst s i))"
    using userFlags_unavailable Away_all assms(2) by simp
  show ?thesis
    by (rule exI [of _ "\<lparr>tuiScreenName = displayScreenName s, tuiWarningLevel = warning s, tuiTLVs = tlvs\<rparr>"],
        rule exI [of _ "userFlags s"], rule exI [of _ "statusBitmask s"])
      (simp add: Session_TLVUserInfo_def tlvs u h fl st flip: idle caps)
qed

lemma userInfo_correct_witness:
  "\<exists>info. Session_TLVUserInfo (10 ^ 9) twoInstances = Inr info \<and> \<not> TLVList_HasTag (tuiTLVs info) OServiceUserInfoIdleTime"
proof -
  have "\<not> (\<forall>i\<in>set (Instances twoInstances). idle (inst twoInstances i))"
    by (simp add: twoInstances_def Instances_def inst_def newInstance_def)
  then show ?thesis
    using userInfo_correct [OF twoInstances_reachable(1), of "10 ^ 9"] twoInstances_reachable(2) by force
qed

end
