(* ===== verification/State_SessionManager.thy ===== *)
theory State_SessionManager
  imports State_UserInfo
begin

text \<open>
  \<open>state/session_manager.go\<close>: the pool of sessions, keyed by user, that every service reaches users
  through. Sessions and slots are objects several goroutines refer to, so both live in stores and
  are referred to by address; a mutex per user is an object too, with its count of users.

  A call of \<open>AddSession\<close> is a sequence of atomic steps (it takes and gives back three different
  locks on the way), and the calls, the removals of sessions and the steps of the sessions themselves
  interleave freely in \<open>worldStep\<close>. The functions that relay messages are one step each.
\<close>

section \<open>State\<close>

text \<open>\<open>removed\<close> is a channel that is only ever closed; \<open>slotRemoved\<close> says whether it is.\<close>

record sessionSlot =
  slotSession :: nat
  slotRemoved :: bool
  multiSession :: bool

record userLock =
  held :: bool
  refCount :: int

record SessionManager =
  store :: "(IdentScreenName \<times> nat) list"
  slots :: "sessionSlot list"
  userLocks :: "(IdentScreenName \<times> nat) list"
  lockObjs :: "userLock list"
  maxConcurrentSessions :: nat

abbreviation (input) DefaultMaxConcurrentSessions :: nat where "DefaultMaxConcurrentSessions \<equiv> 5"

definition NewInMemorySessionManager :: SessionManager where
  "NewInMemorySessionManager = \<lparr>store = [], slots = [], userLocks = [], lockObjs = [],
     maxConcurrentSessions = DefaultMaxConcurrentSessions\<rparr>"

type_synonym sessions = "Session list"

section \<open>The lock of a user\<close>

text \<open>\<open>lockUser\<close> counts the caller in under the mutex of the map, then waits for the lock itself.\<close>

definition lockRegister :: "IdentScreenName \<Rightarrow> SessionManager \<Rightarrow> nat \<times> SessionManager" where
  "lockRegister sn m =
     (let (a, m1) = (case map_of (userLocks m) sn of
             Some a \<Rightarrow> (a, m)
           | None \<Rightarrow> (length (lockObjs m), m\<lparr>userLocks := AList.update sn (length (lockObjs m)) (userLocks m),
                        lockObjs := lockObjs m @ [\<lparr>held = False, refCount = 0\<rparr>]\<rparr>))
      in (a, m1\<lparr>lockObjs := (lockObjs m1)[a := (lockObjs m1 ! a)\<lparr>refCount := refCount (lockObjs m1 ! a) + 1\<rparr>]\<rparr>))"

definition lockAcquire :: "nat \<Rightarrow> SessionManager \<Rightarrow> SessionManager option" where
  "lockAcquire a m =
     (if held (lockObjs m ! a) then None
      else Some (m\<lparr>lockObjs := (lockObjs m)[a := (lockObjs m ! a)\<lparr>held := True\<rparr>]\<rparr>))"

text \<open>\<open>None\<close>: unlocking a mutex that is not locked stops the program.\<close>

definition unlockUser :: "IdentScreenName \<Rightarrow> SessionManager \<Rightarrow> SessionManager option" where
  "unlockUser sn m =
     (case map_of (userLocks m) sn of
        None \<Rightarrow> Some m
      | Some a \<Rightarrow>
          (let l = lockObjs m ! a in
           if \<not> held l then None
           else
             let l' = \<lparr>held = False, refCount = refCount l - 1\<rparr>; m1 = m\<lparr>lockObjs := (lockObjs m)[a := l']\<rparr>
             in Some (if refCount l' = 0 then m1\<lparr>userLocks := AList.delete sn (userLocks m1)\<rparr> else m1)))"

section \<open>Lookup and removal\<close>

text \<open>The loops over the map; at most one entry matches (\<open>session_store_consistent\<close>), so its order does not matter.\<close>

definition findRec :: "IdentScreenName \<Rightarrow> SessionManager \<Rightarrow> sessions \<Rightarrow> nat option" where
  "findRec sn m h =
     map_option snd (find (\<lambda>(k, a). sn = identScreenName (h ! slotSession (slots m ! a))) (store m))"

definition RemoveSession :: "nat \<Rightarrow> SessionManager \<Rightarrow> sessions \<Rightarrow> SessionManager" where
  "RemoveSession sess m h =
     (case map_of (store m) (identScreenName (h ! sess)) of
        None \<Rightarrow> m
      | Some a \<Rightarrow>
          if slotSession (slots m ! a) = sess
          then m\<lparr>store := AList.delete (identScreenName (h ! sess)) (store m),
                 slots := (slots m)[a := (slots m ! a)\<lparr>slotRemoved := True\<rparr>]\<rparr>
          else m)"

definition RetrieveSession :: "IdentScreenName \<Rightarrow> SessionManager \<Rightarrow> sessions \<Rightarrow> nat option" where
  "RetrieveSession sn m h =
     (case map_of (store m) sn of
        None \<Rightarrow> None
      | Some a \<Rightarrow> if HasLiveInstances (h ! slotSession (slots m ! a)) then Some (slotSession (slots m ! a)) else None)"

definition retrieveByScreenNames :: "IdentScreenName list \<Rightarrow> SessionManager \<Rightarrow> sessions \<Rightarrow> nat list" where
  "retrieveByScreenNames sns m h =
     concat (map (\<lambda>sn. case findRec sn m h of None \<Rightarrow> [] | Some a \<Rightarrow> [slotSession (slots m ! a)]) sns)"

definition Empty :: "SessionManager \<Rightarrow> bool" where
  "Empty m \<longleftrightarrow> length (store m) = 0"

definition AllSessions :: "SessionManager \<Rightarrow> sessions \<Rightarrow> nat list" where
  "AllSessions m h =
     filter (\<lambda>s. HasLiveInstances (h ! s)) (map (\<lambda>(k, a). slotSession (slots m ! a)) (store m))"

section \<open>Relaying messages\<close>

text \<open>Offering a message to the instance \<open>i\<close> of a session: an instance whose queue is full is closed.\<close>

definition offer :: "SNACMessage \<Rightarrow> nat \<Rightarrow> Session \<Rightarrow> Session" where
  "offer msg i s =
     (case RelayMessageToInstance msg (inst s i) of
        (SessQueueFull, x) \<Rightarrow> CloseInstance i s
      | (_, x) \<Rightarrow> updInst i (\<lambda>_. x) s)"

definition relayLoop :: "(SessionInstance \<Rightarrow> bool) \<Rightarrow> SNACMessage \<Rightarrow> nat list \<Rightarrow> Session \<Rightarrow> Session" where
  "relayLoop wants msg is s = fold (\<lambda>i s. if wants (inst s i) then offer msg i s else s) is s"

definition maybeRelayMessage :: "SNACMessage \<Rightarrow> Session \<Rightarrow> Session" where
  "maybeRelayMessage msg s = relayLoop live msg (Instances s) s"

definition maybeRelayMessageActiveOnly :: "SNACMessage \<Rightarrow> Session \<Rightarrow> Session" where
  "maybeRelayMessageActiveOnly msg s = relayLoop active msg (Instances s) s"

definition RelayToSelf :: "nat \<Rightarrow> SNACMessage \<Rightarrow> Session \<Rightarrow> Session" where
  "RelayToSelf i msg s = offer msg i s"

definition RelayToOtherInstances :: "nat \<Rightarrow> SNACMessage \<Rightarrow> Session \<Rightarrow> Session" where
  "RelayToOtherInstances i msg s = relayLoop live msg (filter (\<lambda>j. j \<noteq> i) (Instances s)) s"

definition updSession :: "(Session \<Rightarrow> Session) \<Rightarrow> nat \<Rightarrow> sessions \<Rightarrow> sessions" where
  "updSession f a h = h[a := f (h ! a)]"

definition RelayToAll :: "SNACMessage \<Rightarrow> SessionManager \<Rightarrow> sessions \<Rightarrow> sessions" where
  "RelayToAll msg m h = fold (updSession (maybeRelayMessage msg)) (map (\<lambda>(k, a). slotSession (slots m ! a)) (store m)) h"

definition RelayToScreenName :: "IdentScreenName \<Rightarrow> SNACMessage \<Rightarrow> SessionManager \<Rightarrow> sessions \<Rightarrow> sessions" where
  "RelayToScreenName sn msg m h =
     (case RetrieveSession sn m h of None \<Rightarrow> h | Some s \<Rightarrow> updSession (maybeRelayMessage msg) s h)"

definition RelayToScreenNames :: "IdentScreenName list \<Rightarrow> SNACMessage \<Rightarrow> SessionManager \<Rightarrow> sessions \<Rightarrow> sessions" where
  "RelayToScreenNames sns msg m h = fold (updSession (maybeRelayMessage msg)) (retrieveByScreenNames sns m h) h"

definition RelayToScreenNameActiveOnly :: "IdentScreenName \<Rightarrow> SNACMessage \<Rightarrow> SessionManager \<Rightarrow> sessions \<Rightarrow> sessions" where
  "RelayToScreenNameActiveOnly sn msg m h =
     (case RetrieveSession sn m h of None \<Rightarrow> h | Some s \<Rightarrow> updSession (maybeRelayMessageActiveOnly msg) s h)"

section \<open>Adding a session\<close>

text \<open>A call: the screen name, whether the client shares a session, and what the caller configures.\<close>

record addReq =
  reqName :: DisplayScreenName
  reqMulti :: bool
  reqCfg :: "Session \<Rightarrow> Session"

datatype addError = ErrMaxConcurrentSessionsReached | errWaiting

type_synonym addResult = "addError + nat \<times> nat"

definition newSession :: "platform \<Rightarrow> addReq \<Rightarrow> SessionManager \<Rightarrow> sessions \<Rightarrow>
    (addResult \<times> SessionManager \<times> sessions) option" where
  "newSession P r m h =
     (let sess = SetDisplayScreenName (reqName r) (SetIdentScreenName (DisplayScreenName_IdentScreenName P (reqName r)) NewSession)
      in case AddInstance (reqCfg r sess) of
           None \<Rightarrow> None
         | Some (i, sess) \<Rightarrow>
             Some (Inr (length h, i),
               m\<lparr>store := AList.update (identScreenName sess) (length (slots m)) (store m),
                 slots := slots m @ [\<lparr>slotSession = length h, slotRemoved = False, multiSession = reqMulti r\<rparr>]\<rparr>,
               h @ [sess]))"

text \<open>Where a call is: before the lock, waiting for it, and then inside, up to the deferred unlock.\<close>

datatype addPc = AtStart | AtLock nat | AtFind | AtReplace nat | AtCount nat | AtAdd nat
  | AtClose nat | AtWait nat | AtNew | AtUnlock addResult | AtDone addResult

datatype addOut = Blocked | Fatal | Next addPc SessionManager sessions

definition slotSess :: "SessionManager \<Rightarrow> nat \<Rightarrow> nat" where
  "slotSess m a = slotSession (slots m ! a)"

fun addStep :: "platform \<Rightarrow> addReq \<Rightarrow> addPc \<Rightarrow> SessionManager \<Rightarrow> sessions \<Rightarrow> addOut" where
  "addStep P r AtStart m h =
     (let (a, m1) = lockRegister (DisplayScreenName_IdentScreenName P (reqName r)) m in Next (AtLock a) m1 h)"
| "addStep P r (AtLock a) m h =
     (case lockAcquire a m of None \<Rightarrow> Blocked | Some m1 \<Rightarrow> Next AtFind m1 h)"
| "addStep P r AtFind m h =
     (case findRec (DisplayScreenName_IdentScreenName P (reqName r)) m h of
        None \<Rightarrow> Next AtNew m h
      | Some a \<Rightarrow>
          if reqMulti r then (if \<not> multiSession (slots m ! a) then Next (AtReplace a) m h else Next (AtCount a) m h)
          else Next (AtClose a) m h)"
| "addStep P r (AtReplace a) m h = Next AtNew m (updSession CloseSession (slotSess m a) h)"
| "addStep P r (AtCount a) m h =
     (if InstanceCount (h ! slotSess m a) \<ge> maxConcurrentSessions m
      then Next (AtUnlock (Inl ErrMaxConcurrentSessionsReached)) m h else Next (AtAdd a) m h)"
| "addStep P r (AtAdd a) m h =
     (case AddInstance (h ! slotSess m a) of
        None \<Rightarrow> Fatal
      | Some (i, s) \<Rightarrow> Next (AtUnlock (Inr (slotSess m a, i))) m (h[slotSess m a := s]))"
| "addStep P r (AtClose a) m h = Next (AtWait a) m (updSession CloseSession (slotSess m a) h)"
| "addStep P r (AtWait a) m h = (if slotRemoved (slots m ! a) then Next AtNew m h else Blocked)"
| "addStep P r AtNew m h =
     (case newSession P r m h of None \<Rightarrow> Fatal | Some (res, m1, h1) \<Rightarrow> Next (AtUnlock res) m1 h1)"
| "addStep P r (AtUnlock res) m h =
     (case unlockUser (DisplayScreenName_IdentScreenName P (reqName r)) m of
        None \<Rightarrow> Fatal
      | Some m1 \<Rightarrow> Next (AtDone res) m1 h)"
| "addStep P r (AtDone res) m h = Blocked"

text \<open>The call run on its own, at most \<open>n\<close> steps, to where it is done or waits.\<close>

fun runAdd :: "platform \<Rightarrow> nat \<Rightarrow> addReq \<Rightarrow> addPc \<Rightarrow> SessionManager \<Rightarrow> sessions \<Rightarrow> addOut" where
  "runAdd P 0 r pc m h = Next pc m h"
| "runAdd P (Suc n) r pc m h =
     (case addStep P r pc m h of
        Next pc1 m1 h1 \<Rightarrow> runAdd P n r pc1 m1 h1
      | Blocked \<Rightarrow> Next pc m h
      | Fatal \<Rightarrow> Fatal)"

section \<open>Interleavings\<close>

record World =
  mgr :: SessionManager
  heap :: sessions
  calls :: "(addReq \<times> addPc) list"

text \<open>What callers configure before the session is published leaves its name and instances alone; what
  happens to a published session outside the manager never adds an instance or renames it.\<close>

definition cfgOk :: "(Session \<Rightarrow> Session) \<Rightarrow> bool" where
  "cfgOk f \<longleftrightarrow> (\<forall>s. identScreenName (f s) = identScreenName s \<and> instances (f s) = instances s \<and>
     instancesOrdered (f s) = instancesOrdered s \<and> objects (f s) = objects s)"

definition ownStep :: "Session \<Rightarrow> Session \<Rightarrow> bool" where
  "ownStep s t \<longleftrightarrow> sessionStep s t \<and> identScreenName t = identScreenName s \<and> InstanceCount t \<le> InstanceCount s"

inductive worldStep :: "platform \<Rightarrow> World \<Rightarrow> World \<Rightarrow> bool" for P where
  call: "cfgOk (reqCfg r) \<Longrightarrow> worldStep P w (w\<lparr>calls := calls w @ [(r, AtStart)]\<rparr>)"
| run: "k < length (calls w) \<Longrightarrow> calls w ! k = (r, pc) \<Longrightarrow> addStep P r pc (mgr w) (heap w) = Next pc' m h \<Longrightarrow>
    worldStep P w (w\<lparr>mgr := m, heap := h, calls := (calls w)[k := (r, pc')]\<rparr>)"
| cancel: "k < length (calls w) \<Longrightarrow> calls w ! k = (r, AtWait a) \<Longrightarrow>
    worldStep P w (w\<lparr>calls := (calls w)[k := (r, AtUnlock (Inl errWaiting))]\<rparr>)"
| remove: "a < length (heap w) \<Longrightarrow> worldStep P w (w\<lparr>mgr := RemoveSession a (mgr w) (heap w)\<rparr>)"
| session: "a < length (heap w) \<Longrightarrow> ownStep (heap w ! a) s \<Longrightarrow> worldStep P w (w\<lparr>heap := (heap w)[a := s]\<rparr>)"

definition emptyWorld :: World where
  "emptyWorld = \<lparr>mgr = NewInMemorySessionManager, heap = [], calls = []\<rparr>"

subsection \<open>The invariant\<close>

definition reqIdent :: "platform \<Rightarrow> addReq \<times> addPc \<Rightarrow> IdentScreenName" where
  "reqIdent P c = DisplayScreenName_IdentScreenName P (reqName (fst c))"

fun inside :: "addPc \<Rightarrow> bool" where
  "inside AtStart = False" | "inside (AtLock a) = False" | "inside (AtDone r) = False" | "inside _ = True"

fun registered :: "addPc \<Rightarrow> bool" where
  "registered AtStart = False" | "registered (AtDone r) = False" | "registered _ = True"

definition holders :: "platform \<Rightarrow> IdentScreenName \<Rightarrow> (addReq \<times> addPc) list \<Rightarrow> nat" where
  "holders P n cs = length (filter (\<lambda>c. reqIdent P c = n \<and> inside (snd c)) cs)"

definition users :: "platform \<Rightarrow> IdentScreenName \<Rightarrow> (addReq \<times> addPc) list \<Rightarrow> nat" where
  "users P n cs = length (filter (\<lambda>c. reqIdent P c = n \<and> registered (snd c)) cs)"

definition entryOk :: "platform \<Rightarrow> SessionManager \<Rightarrow> (addReq \<times> addPc) list \<Rightarrow> IdentScreenName \<Rightarrow> bool" where
  "entryOk P m cs n \<longleftrightarrow>
     (case map_of (userLocks m) n of
        None \<Rightarrow> users P n cs = 0
      | Some a \<Rightarrow> a < length (lockObjs m) \<and> refCount (lockObjs m ! a) = int (users P n cs) \<and> users P n cs > 0 \<and>
          holders P n cs = (if held (lockObjs m ! a) then 1 else 0))"

definition locksOk :: "platform \<Rightarrow> SessionManager \<Rightarrow> (addReq \<times> addPc) list \<Rightarrow> bool" where
  "locksOk P m cs \<longleftrightarrow>
     (\<forall>n. entryOk P m cs n) \<and>
     (\<forall>n n' a. map_of (userLocks m) n = Some a \<longrightarrow> map_of (userLocks m) n' = Some a \<longrightarrow> n = n') \<and>
     (\<forall>c\<in>set cs. \<forall>a. snd c = AtLock a \<longrightarrow> map_of (userLocks m) (reqIdent P c) = Some a)"

definition storeOk :: "SessionManager \<Rightarrow> sessions \<Rightarrow> bool" where
  "storeOk m h \<longleftrightarrow> distinct (map fst (store m)) \<and>
     (\<forall>a<length (slots m). slotSess m a < length h) \<and>
     (\<forall>k a. map_of (store m) k = Some a \<longrightarrow>
        a < length (slots m) \<and> \<not> slotRemoved (slots m ! a) \<and> identScreenName (h ! slotSess m a) = k) \<and>
     (\<forall>s\<in>set h. sessionOk s \<and> InstanceCount s \<le> maxConcurrentSessions m) \<and> 0 < maxConcurrentSessions m \<and>
     maxConcurrentSessions m < 255"

fun pcSlot :: "addPc \<Rightarrow> nat option" where
  "pcSlot (AtReplace a) = Some a" | "pcSlot (AtCount a) = Some a" | "pcSlot (AtAdd a) = Some a"
| "pcSlot (AtClose a) = Some a" | "pcSlot (AtWait a) = Some a" | "pcSlot _ = None"

text \<open>What a call in progress knows about the slot it found.\<close>

definition callOk :: "platform \<Rightarrow> SessionManager \<Rightarrow> sessions \<Rightarrow> addReq \<times> addPc \<Rightarrow> bool" where
  "callOk P m h c \<longleftrightarrow> cfgOk (reqCfg (fst c)) \<and>
     (\<forall>a. pcSlot (snd c) = Some a \<longrightarrow> a < length (slots m) \<and> identScreenName (h ! slotSess m a) = reqIdent P c) \<and>
     (\<forall>a. snd c = AtAdd a \<longrightarrow> InstanceCount (h ! slotSess m a) < maxConcurrentSessions m)"

definition worldOk :: "platform \<Rightarrow> World \<Rightarrow> bool" where
  "worldOk P w \<longleftrightarrow> locksOk P (mgr w) (calls w) \<and> storeOk (mgr w) (heap w) \<and>
     (\<forall>c\<in>set (calls w). callOk P (mgr w) (heap w) c)"

end
