(* ===== verification/State_SessionManager_Laws.thy ===== *)
theory State_SessionManager_Laws
  imports State_SessionManager
begin

text \<open>
  What holds of the session manager in every interleaving: the locks of the users exclude each other
  and are not leaked, the pool names its sessions, no user has more instances than allowed and no
  call stops the program; where a call can go wrong all the same; and what relaying a message does.
\<close>

section \<open>The locks\<close>

lemma length_filter_update:
  "k < length xs \<Longrightarrow> length (filter Q (xs[k := y])) + (if Q (xs ! k) then 1 else 0) =
     length (filter Q xs) + (if Q y then 1 else 0)"
proof (induction xs arbitrary: k)
  case (Cons x xs)
  then show ?case by (cases k) auto
qed simp

abbreviation nameOf :: "platform \<Rightarrow> addReq \<Rightarrow> IdentScreenName" where
  "nameOf P r \<equiv> DisplayScreenName_IdentScreenName P (reqName r)"

lemma counts_update:
  assumes "k < length cs" and "cs ! k = (r, pc)"
  shows "users P n (cs[k := (r, pc')]) + (if nameOf P r = n \<and> registered pc then 1 else 0) =
      users P n cs + (if nameOf P r = n \<and> registered pc' then 1 else 0)"
    "holders P n (cs[k := (r, pc')]) + (if nameOf P r = n \<and> inside pc then 1 else 0) =
      holders P n cs + (if nameOf P r = n \<and> inside pc' then 1 else 0)"
  using length_filter_update [OF assms(1), of "\<lambda>c. reqIdent P c = n \<and> registered (snd c)" "(r, pc')"]
    length_filter_update [OF assms(1), of "\<lambda>c. reqIdent P c = n \<and> inside (snd c)" "(r, pc')"]
  by (simp_all add: users_def holders_def reqIdent_def assms(2))

lemma inside_registered: "inside pc \<Longrightarrow> registered pc"
  by (cases pc) auto

lemma count_pos:
  assumes "k < length cs" and "cs ! k = (r, pc)"
  shows "registered pc \<Longrightarrow> 0 < users P (nameOf P r) cs" "inside pc \<Longrightarrow> 0 < holders P (nameOf P r) cs"
  using nth_mem [OF assms(1)] by (force simp: users_def holders_def reqIdent_def assms(2) filter_empty_conv)+

lemma entryOk_cases:
  "map_of (userLocks m) n = None \<Longrightarrow> entryOk P m cs n \<longleftrightarrow> users P n cs = 0"
  "map_of (userLocks m) n = Some a \<Longrightarrow> entryOk P m cs n \<longleftrightarrow> a < length (lockObjs m) \<and>
     refCount (lockObjs m ! a) = int (users P n cs) \<and> users P n cs > 0 \<and>
     holders P n cs = (if held (lockObjs m ! a) then 1 else 0)"
  by (simp_all add: entryOk_def)

lemma locksOk_cong:
  "userLocks m' = userLocks m \<Longrightarrow> lockObjs m' = lockObjs m \<Longrightarrow> locksOk P m' cs = locksOk P m cs"
  by (simp only: locksOk_def entryOk_def)

lemma locksOk_entry:
  assumes "locksOk P m cs" and "map_of (userLocks m) n = Some a"
  shows "a < length (lockObjs m)" "refCount (lockObjs m ! a) = int (users P n cs)" "0 < users P n cs"
    "holders P n cs = (if held (lockObjs m ! a) then 1 else 0)"
    "map_of (userLocks m) n' = Some a \<Longrightarrow> n' = n"
proof -
  from assms have "entryOk P m cs n" unfolding locksOk_def by blast
  then show "a < length (lockObjs m)" "refCount (lockObjs m ! a) = int (users P n cs)" "0 < users P n cs"
    "holders P n cs = (if held (lockObjs m ! a) then 1 else 0)" by (simp_all add: entryOk_def assms(2))
  show "map_of (userLocks m) n' = Some a \<Longrightarrow> n' = n" using assms unfolding locksOk_def by blast
qed

lemma locksOk_none: "locksOk P m cs \<Longrightarrow> map_of (userLocks m) n = None \<Longrightarrow> users P n cs = 0"
  unfolding locksOk_def by (drule conjunct1, drule spec [of _ n]) (simp add: entryOk_def)

text \<open>A call inside has the lock of its user, which is held, and is the only one.\<close>

lemma inside_lock:
  assumes "locksOk P m cs" and "k < length cs" and "cs ! k = (r, pc)" and "inside pc"
  obtains a where "map_of (userLocks m) (nameOf P r) = Some a" "held (lockObjs m ! a)"
    "holders P (nameOf P r) cs = 1"
proof (cases "map_of (userLocks m) (nameOf P r)")
  case None
  then show thesis using locksOk_none [OF assms(1)] count_pos(1) [OF assms(2,3), of P] inside_registered [OF assms(4)]
    by simp
next
  case (Some a)
  with locksOk_entry(4) [OF assms(1) Some] count_pos(2) [OF assms(2,3,4), of P] that show thesis
    by (auto split: if_splits)
qed

lemma inside_unique:
  assumes "locksOk P m cs" and "k < length cs" "cs ! k = (r, pc)" "inside pc"
    and "k' < length cs" "cs ! k' = (r', pc')" "inside pc'" and "nameOf P r = nameOf P r'"
  shows "k = k'"
proof (rule ccontr)
  assume neq: "k \<noteq> k'"
  have "holders P (nameOf P r) cs = 1" by (rule inside_lock [OF assms(1-4)])
  moreover have "holders P (nameOf P r) (cs[k := (r, AtStart)]) + 1 = holders P (nameOf P r) cs"
    using counts_update(2) [OF assms(2,3), of P "nameOf P r" AtStart] assms(4) by simp
  moreover have "0 < holders P (nameOf P r) (cs[k := (r, AtStart)])"
    using count_pos(2) [of k' "cs[k := (r, AtStart)]" r' pc' P] assms(5-8) neq by simp
  ultimately show False by simp
qed

lemma locksOk_call: "locksOk P m cs \<Longrightarrow> locksOk P m (cs @ [(r, AtStart)])"
proof -
  have e: "users P n (cs @ [(r, AtStart)]) = users P n cs" "holders P n (cs @ [(r, AtStart)]) = holders P n cs" for n
    by (simp_all add: users_def holders_def)
  assume "locksOk P m cs"
  then show ?thesis unfolding locksOk_def entryOk_def e by auto
qed

lemma locksOk_move:
  assumes ok: "locksOk P m cs" and k: "k < length cs" "cs ! k = (r, pc)"
    and same: "registered pc' = registered pc" "inside pc' = inside pc" "\<And>a. pc' \<noteq> AtLock a"
    and m: "userLocks m' = userLocks m" "lockObjs m' = lockObjs m"
  shows "locksOk P m' (cs[k := (r, pc')])"
proof -
  have c: "users P n (cs[k := (r, pc')]) = users P n cs" "holders P n (cs[k := (r, pc')]) = holders P n cs" for n
    using counts_update [OF k, of P n pc'] same by (auto split: if_splits)
  have "\<forall>c\<in>set (cs[k := (r, pc')]). \<forall>a. snd c = AtLock a \<longrightarrow> map_of (userLocks m) (reqIdent P c) = Some a"
    using ok same(3) unfolding locksOk_def by (auto dest!: subsetD [OF set_update_subset_insert])
  with ok show ?thesis unfolding locksOk_def entryOk_def c m by blast
qed

lemma locksOk_register:
  assumes ok: "locksOk P m cs" and k: "k < length cs" "cs ! k = (r, AtStart)"
    and reg: "lockRegister (nameOf P r) m = (a, m')"
  shows "locksOk P m' (cs[k := (r, AtLock a)])"
proof -
  let ?n = "nameOf P r" and ?cs = "cs[k := (r, AtLock a)]"
  have u: "users P n ?cs = users P n cs + (if ?n = n then 1 else 0)" "holders P n ?cs = holders P n cs" for n
    using counts_update [OF k, of P n "AtLock a"] by (auto split: if_splits)
  have at: "\<forall>c\<in>set ?cs. \<forall>b. snd c = AtLock b \<longrightarrow> c = (r, AtLock a) \<or> map_of (userLocks m) (reqIdent P c) = Some b"
    using ok unfolding locksOk_def by (auto dest!: subsetD [OF set_update_subset_insert])
  show ?thesis
  proof (cases "map_of (userLocks m) ?n")
    case (Some b)
    with reg have m': "a = b" "m' = m\<lparr>lockObjs := (lockObjs m)[b := (lockObjs m ! b)\<lparr>refCount := refCount (lockObjs m ! b) + 1\<rparr>]\<rparr>"
      by (auto simp: lockRegister_def)
    note e = locksOk_entry [OF ok]
    have ml: "userLocks m' = userLocks m"
      "lockObjs m' = (lockObjs m)[b := (lockObjs m ! b)\<lparr>refCount := refCount (lockObjs m ! b) + 1\<rparr>]"
      by (simp_all add: m'(2))
    show ?thesis unfolding locksOk_def
    proof (intro conjI allI)
      fix n
      show "entryOk P m' ?cs n"
      proof (cases "map_of (userLocks m) n")
        case None
        then have "n \<noteq> ?n" using Some by auto
        then show ?thesis using locksOk_none [OF ok None] None u(1) [of n] entryOk_cases(1) [of m' n P ?cs] ml by auto
      next
        case n: (Some c)
        have c: "c = b \<longleftrightarrow> ?n = n" using e(5) [OF Some, of n] Some n by auto
        show ?thesis using e(1-4) [OF n] c u [of n] n entryOk_cases(2) [of m' n c P ?cs] ml
          by (auto simp: nth_list_update)
      qed
    next
      show "\<forall>c\<in>set ?cs. \<forall>a. snd c = AtLock a \<longrightarrow> map_of (userLocks m') (reqIdent P c) = Some a"
        using at Some by (auto simp: m' reqIdent_def)
    qed (use ok in \<open>auto simp: m' locksOk_def\<close>)
  next
    case None
    with reg have a: "a = length (lockObjs m)" and m': "userLocks m' = AList.update ?n a (userLocks m)"
      "lockObjs m' = lockObjs m @ [\<lparr>held = False, refCount = 1\<rparr>]"
      by (auto simp: lockRegister_def nth_append list_update_append)
    have h0: "users P ?n cs = 0" using locksOk_none [OF ok None] .
    then have h0': "holders P ?n cs = 0"
      unfolding users_def holders_def using inside_registered by (auto simp: filter_empty_conv)
    have old: "map_of (userLocks m) n = Some b \<Longrightarrow> b < a" for n b using locksOk_entry(1) [OF ok] a by simp
    show ?thesis unfolding locksOk_def
    proof (intro conjI allI)
      fix n
      show "entryOk P m' ?cs n"
      proof (cases "n = ?n")
        case True
        then show ?thesis using h0 h0' u [of n] entryOk_cases(2) [of m' n a P ?cs] by (auto simp: m' update_conv' a)
      next
        case False
        then show ?thesis using locksOk_entry(1-4) [OF ok, of n] locksOk_none [OF ok, of n]
          by (auto simp: entryOk_def m' u update_conv' nth_append split: option.splits)
      qed
    next
      fix n n' b
      show "map_of (userLocks m') n = Some b \<longrightarrow> map_of (userLocks m') n' = Some b \<longrightarrow> n = n'"
        using old [of n b] old [of n' b] locksOk_entry(5) [OF ok, of n b n']
        by (auto simp: m'(1) update_conv' split: if_splits)
    next
      show "\<forall>c\<in>set ?cs. \<forall>b. snd c = AtLock b \<longrightarrow> map_of (userLocks m') (reqIdent P c) = Some b"
        using at None by (auto simp: m' reqIdent_def update_conv')
    qed
  qed
qed

lemma locksOk_acquire:
  assumes ok: "locksOk P m cs" and k: "k < length cs" "cs ! k = (r, AtLock a)"
    and acq: "lockAcquire a m = Some m'"
  shows "locksOk P m' (cs[k := (r, AtFind)])"
proof -
  let ?n = "nameOf P r" and ?cs = "cs[k := (r, AtFind)]"
  have u: "users P n ?cs = users P n cs" "holders P n ?cs = holders P n cs + (if ?n = n then 1 else 0)" for n
    using counts_update [OF k, of P n AtFind] by (auto split: if_splits)
  have a: "map_of (userLocks m) ?n = Some a"
    using ok k nth_mem [OF k(1)] unfolding locksOk_def by (force simp: reqIdent_def)
  have m': "m' = m\<lparr>lockObjs := (lockObjs m)[a := (lockObjs m ! a)\<lparr>held := True\<rparr>]\<rparr>" "\<not> held (lockObjs m ! a)"
    using acq by (auto simp: lockAcquire_def split: if_splits)
  show ?thesis unfolding locksOk_def
  proof (intro conjI allI)
    fix n
    show "entryOk P m' ?cs n"
    proof (cases "map_of (userLocks m) n")
      case None
      then show ?thesis using locksOk_none [OF ok None] by (simp add: entryOk_def m' u)
    next
      case (Some c)
      show ?thesis
      proof (cases "n = ?n")
        case True
        then show ?thesis using locksOk_entry(1-4) [OF ok a] a m'(2) by (simp add: entryOk_def m'(1) u)
      next
        case False
        then have "c \<noteq> a" using locksOk_entry(5) [OF ok a] Some by auto
        then show ?thesis using locksOk_entry(1-4) [OF ok Some] False by (simp add: entryOk_def m'(1) u Some)
      qed
    qed
  next
    show "\<forall>c\<in>set ?cs. \<forall>b. snd c = AtLock b \<longrightarrow> map_of (userLocks m') (reqIdent P c) = Some b"
      using ok unfolding locksOk_def m' by (auto dest!: subsetD [OF set_update_subset_insert])
  qed (use ok in \<open>auto simp: m' locksOk_def\<close>)
qed

text \<open>The unlock at the end of a call: it finds the lock held, and takes an unused lock out of the map.\<close>

lemma locksOk_unlock:
  assumes ok: "locksOk P m cs" and k: "k < length cs" "cs ! k = (r, AtUnlock res)"
  obtains m' where "unlockUser (nameOf P r) m = Some m'" "locksOk P m' (cs[k := (r, AtDone res)])"
    "store m' = store m" "slots m' = slots m" "maxConcurrentSessions m' = maxConcurrentSessions m"
proof -
  let ?n = "nameOf P r" and ?cs = "cs[k := (r, AtDone res)]"
  have u: "users P n ?cs = users P n cs - (if ?n = n then 1 else 0)"
    "holders P n ?cs = holders P n cs - (if ?n = n then 1 else 0)" for n
    using counts_update [OF k, of P n "AtDone res"] by (auto split: if_splits)
  obtain a where a: "map_of (userLocks m) ?n = Some a" "held (lockObjs m ! a)" "holders P ?n cs = 1"
    using inside_lock [OF ok k] by auto
  note e = locksOk_entry [OF ok a(1)]
  let ?l = "\<lparr>held = False, refCount = refCount (lockObjs m ! a) - 1\<rparr>"
  let ?m1 = "m\<lparr>lockObjs := (lockObjs m)[a := ?l]\<rparr>"
  let ?m = "if users P ?n cs = 1 then ?m1\<lparr>userLocks := AList.delete ?n (userLocks m)\<rparr> else ?m1"
  have "refCount (lockObjs m ! a) - 1 = 0 \<longleftrightarrow> users P ?n cs = 1" using e(2) by linarith
  then have un: "unlockUser ?n m = Some ?m" using a by (simp add: unlockUser_def Let_def)
  have ml: "map_of (userLocks ?m) n = (if n = ?n \<and> users P ?n cs = 1 then None else map_of (userLocks m) n)"
    "lockObjs ?m = (lockObjs m)[a := ?l]" for n
    by (auto simp: delete_conv')
  have ent: "entryOk P ?m ?cs n" for n
  proof (cases "n = ?n")
    case True
    show ?thesis
    proof (cases "users P ?n cs = 1")
      case one: True
      then show ?thesis using u(1) [of ?n] \<open>n = ?n\<close> ml(1) [of n] entryOk_cases(1) [of ?m n P ?cs] by simp
    next
      case False
      then have "map_of (userLocks ?m) n = Some a" using ml(1) [of n] a(1) \<open>n = ?n\<close> by simp
      moreover have "0 < users P ?n cs - 1" using e(3) False by linarith
      moreover have "lockObjs ?m ! a = ?l" using ml(2) e(1) by simp
      moreover have "a < length (lockObjs ?m)" using ml(2) e(1) by simp
      ultimately show ?thesis
        using u [of ?n] e(2,3) a(3) \<open>n = ?n\<close> entryOk_cases(2) [of ?m n a P ?cs] by (simp add: of_nat_diff)
    qed
  next
    case False
    show ?thesis
    proof (cases "map_of (userLocks m) n")
      case None
      then show ?thesis unfolding entryOk_def ml using locksOk_none [OF ok None] False u [of n] by simp
    next
      case (Some b)
      then have "b \<noteq> a" using e(5) False by blast
      then show ?thesis unfolding entryOk_def ml using locksOk_entry(1-4) [OF ok Some] Some False u [of n] by simp
    qed
  qed
  have sub: "map_of (userLocks ?m) n = Some b \<Longrightarrow> map_of (userLocks m) n = Some b" for n b
    unfolding ml by (auto split: if_splits)
  have atl: "map_of (userLocks ?m) (reqIdent P c) = Some b" if "c \<in> set ?cs" "snd c = AtLock b" for c b
  proof -
    have "c \<in> set cs" using that by (auto dest!: subsetD [OF set_update_subset_insert])
    then have b: "map_of (userLocks m) (reqIdent P c) = Some b" using ok that(2) unfolding locksOk_def by blast
    have "users P (reqIdent P c) ?cs > 0" unfolding users_def using that
      by (auto simp: filter_empty_conv intro!: bexI [of _ c])
    then have "reqIdent P c = ?n \<Longrightarrow> users P ?n cs \<noteq> 1" using u(1) [of ?n] by auto
    then show ?thesis unfolding ml using b by auto
  qed
  have inj: "map_of (userLocks m) n = Some b \<Longrightarrow> map_of (userLocks m) n' = Some b \<Longrightarrow> n = n'" for n n' b
    using ok unfolding locksOk_def by blast
  have "locksOk P ?m ?cs" unfolding locksOk_def
    by (intro conjI allI ballI impI) (rule ent, drule sub, drule sub, erule (1) inj, erule (1) atl)
  from that [OF un this] show thesis by simp
qed

section \<open>The sessions\<close>

lemma closeOnly_name [simp]: "identScreenName (closeOnly i s) = identScreenName s"
  by (simp add: closeOnly_def closeMark_def closeCall_def RemoveInstance_def updInst_def)

lemma CloseSession_name [simp]: "identScreenName (CloseSession s) = identScreenName s"
proof -
  have "identScreenName (fold closeOnly is s) = identScreenName s" for "is"
    by (induction "is" arbitrary: s) simp_all
  then show ?thesis by (simp add: CloseSession_def)
qed

lemma AddInstance_facts:
  assumes "AddInstance s = Some (i, t)"
  shows "identScreenName t = identScreenName s" "InstanceCount t = Suc (InstanceCount s)"
    "i = length (objects s)" "Instances t = Instances s @ [i]" "length (objects t) = Suc (length (objects s))"
    "j < length (objects s) \<Longrightarrow> inst t j = inst s j"
proof -
  obtain num where num: "generateInstanceNum s = Some num" and i: "i = length (objects s)"
    and t: "t = s\<lparr>objects := objects s @ [newInstance num], instances := AList.update num i (instances s),
      instancesOrdered := instancesOrdered s @ [i]\<rparr>"
    using assms by (auto simp: AddInstance_def Let_def split: option.splits)
  have "length (AList.update num i xs) = Suc (length xs)" if "map_of xs num = None" for xs
    using that by (induction xs) (auto split: if_splits)
  then show "InstanceCount t = Suc (InstanceCount s)"
    using generateInstanceNum_Some [OF num] by (simp add: InstanceCount_def t)
  show "identScreenName t = identScreenName s" "i = length (objects s)" "Instances t = Instances s @ [i]"
    "length (objects t) = Suc (length (objects s))" "j < length (objects s) \<Longrightarrow> inst t j = inst s j"
    by (simp_all add: t i Instances_def inst_def nth_append)
qed

lemma AddInstance_room:
  assumes "InstanceCount s < 255"
  obtains i t where "AddInstance s = Some (i, t)"
proof (cases "AddInstance s")
  case None
  then have "\<forall>num. num \<noteq> 0 \<longrightarrow> map_of (instances s) num \<noteq> None"
    using generateInstanceNum_None [of s] by (auto simp: AddInstance_def Let_def split: option.splits)
  then have "- {0} \<subseteq> fst ` set (instances s)" by (auto simp: map_of_eq_None_iff)
  then have "card (- {0 :: byte}) \<le> card (fst ` set (instances s))" by (simp add: card_mono)
  also have "\<dots> \<le> card (set (instances s))" by (simp add: card_image_le)
  also have "\<dots> \<le> InstanceCount s" by (simp add: InstanceCount_def card_length)
  finally have "255 \<le> InstanceCount s" by (simp add: Compl_eq_Diff_UNIV card_Diff_singleton card_word)
  then show thesis using assms by simp
qed (use that in auto)

section \<open>Every step keeps the invariant\<close>

lemma slotSess_upd [simp]:
  "slotSess (m\<lparr>store := st\<rparr>) = slotSess m" "slotSess (m\<lparr>lockObjs := l\<rparr>) = slotSess m"
  "slotSess (m\<lparr>userLocks := u\<rparr>) = slotSess m"
  by (simp_all add: slotSess_def fun_eq_iff)

lemma storeOk_set:
  assumes ok: "storeOk m h" and "a < length h" "sessionOk t" "InstanceCount t \<le> maxConcurrentSessions m"
    "identScreenName t = identScreenName (h ! a)"
  shows "storeOk m (h[a := t])"
proof -
  have "identScreenName (h[a := t] ! b) = identScreenName (h ! b)" if "b < length h" for b
    using assms(2,5) that by (simp add: nth_list_update)
  then have n: "b < length (slots m) \<Longrightarrow> identScreenName (h[a := t] ! slotSess m b) = identScreenName (h ! slotSess m b)" for b
    using ok by (simp add: storeOk_def)
  have s: "\<forall>s\<in>set (h[a := t]). sessionOk s \<and> InstanceCount s \<le> maxConcurrentSessions m"
    using ok assms(3,4) by (auto simp: storeOk_def dest!: subsetD [OF set_update_subset_insert])
  from ok n s show ?thesis unfolding storeOk_def length_list_update by blast
qed

lemma callOk_set:
  assumes ok: "storeOk m h" and c: "callOk P m h c" and "a < length h" "identScreenName t = identScreenName (h ! a)"
    and "\<And>b. snd c = AtAdd b \<Longrightarrow> slotSess m b = a \<Longrightarrow> InstanceCount t < maxConcurrentSessions m"
  shows "callOk P m (h[a := t]) c"
proof -
  have "identScreenName (h[a := t] ! b) = identScreenName (h ! b)" if "b < length h" for b
    using assms(3,4) that by (simp add: nth_list_update)
  moreover have "b < length (slots m) \<Longrightarrow> slotSess m b < length h" for b using ok by (simp add: storeOk_def)
  ultimately have n: "b < length (slots m) \<Longrightarrow> identScreenName (h[a := t] ! slotSess m b) = identScreenName (h ! slotSess m b)" for b
    by simp
  have i: "InstanceCount (h[a := t] ! slotSess m b) < maxConcurrentSessions m" if "snd c = AtAdd b" for b
    using assms(5) [OF that] c that assms(3) by (cases "slotSess m b = a") (auto simp: callOk_def)
  from c n i show ?thesis unfolding callOk_def by simp
qed

lemma storeOk_remove:
  assumes ok: "storeOk m h"
  shows "storeOk (RemoveSession a m h) h" "callOk P m h c \<Longrightarrow> callOk P (RemoveSession a m h) h c"
    "locksOk P m cs \<Longrightarrow> locksOk P (RemoveSession a m h) cs"
proof -
  have "storeOk (RemoveSession a m h) h \<and> (callOk P m h c \<longrightarrow> callOk P (RemoveSession a m h) h c) \<and>
    (locksOk P m cs \<longrightarrow> locksOk P (RemoveSession a m h) cs)"
  proof (cases "\<exists>b. map_of (store m) (identScreenName (h ! a)) = Some b \<and> slotSession (slots m ! b) = a")
    case False
    then have "RemoveSession a m h = m" by (auto simp: RemoveSession_def split: option.splits)
    then show ?thesis using ok by simp
  next
    case True
    then obtain b where b: "map_of (store m) (identScreenName (h ! a)) = Some b" "slotSession (slots m ! b) = a" by blast
    let ?m = "m\<lparr>store := AList.delete (identScreenName (h ! a)) (store m),
      slots := (slots m)[b := (slots m ! b)\<lparr>slotRemoved := True\<rparr>]\<rparr>"
    have m: "RemoveSession a m h = ?m" by (simp add: RemoveSession_def b)
    have bl: "b < length (slots m)" "identScreenName (h ! slotSess m b) = identScreenName (h ! a)"
      using ok b(1) unfolding storeOk_def by blast+
    have ss: "slotSess ?m x = slotSess m x" for x using bl(1) by (simp add: slotSess_def nth_list_update)
    have ne: "x \<noteq> b" if "map_of (store m) k = Some x" "k \<noteq> identScreenName (h ! a)" for x k
      using ok that bl(2) unfolding storeOk_def by blast
    have entry: "x < length (slots ?m) \<and> \<not> slotRemoved (slots ?m ! x) \<and> identScreenName (h ! slotSess ?m x) = k"
      if "map_of (store ?m) k = Some x" for k x
    proof -
      from that have kx: "map_of (store m) k = Some x" "k \<noteq> identScreenName (h ! a)"
        by (auto simp: delete_conv' split: if_splits)
      then show ?thesis using ok ne [OF kx] unfolding storeOk_def ss by simp
    qed
    have "distinct (map fst (store ?m))" using ok by (simp add: storeOk_def distinct_delete)
    then have "storeOk ?m h" using ok entry unfolding storeOk_def ss by simp
    moreover have "callOk P ?m h c" if "callOk P m h c" using that unfolding callOk_def ss by simp
    moreover have "locksOk P ?m cs" if "locksOk P m cs" using that locksOk_cong [of ?m m] by simp
    ultimately show ?thesis unfolding m by blast
  qed
  then show "storeOk (RemoveSession a m h) h" "callOk P m h c \<Longrightarrow> callOk P (RemoveSession a m h) h c"
    "locksOk P m cs \<Longrightarrow> locksOk P (RemoveSession a m h) cs" by blast+
qed

lemma worldOk_move:
  assumes ok: "worldOk P w" and k: "k < length (calls w)" "calls w ! k = (r, pc)"
    and same: "registered pc' = registered pc" "inside pc' = inside pc" "\<And>a. pc' \<noteq> AtLock a"
    and m: "userLocks m = userLocks (mgr w)" "lockObjs m = lockObjs (mgr w)"
    and st: "storeOk m h" and c: "callOk P m h (r, pc')"
    and others: "\<And>k'. k' < length (calls w) \<Longrightarrow> k' \<noteq> k \<Longrightarrow> callOk P m h (calls w ! k')"
  shows "worldOk P (w\<lparr>mgr := m, heap := h, calls := (calls w)[k := (r, pc')]\<rparr>)"
proof -
  have "locksOk P m ((calls w)[k := (r, pc')])"
    using ok locksOk_move [OF _ k same m] by (simp add: worldOk_def)
  moreover have "callOk P m h x" if "x \<in> set ((calls w)[k := (r, pc')])" for x
    using that c others k(1) by (auto simp: in_set_conv_nth nth_list_update split: if_splits)
  ultimately show ?thesis using st by (simp add: worldOk_def)
qed

lemma worldOk_call: "worldOk P w \<Longrightarrow> k < length (calls w) \<Longrightarrow> callOk P (mgr w) (heap w) (calls w ! k)"
  by (simp add: worldOk_def)

lemma storeOk_entry:
  assumes "storeOk m h" and "map_of (store m) k = Some a"
  shows "identScreenName (h ! slotSess m a) = k" "\<not> slotRemoved (slots m ! a)" "a < length (slots m)"
    "slotSess m a < length h"
  using assms unfolding storeOk_def by blast+

lemma findRec_store:
  assumes "storeOk m h"
  shows "findRec n m h = map_of (store m) n"
proof -
  have "find (\<lambda>(k, a). n = identScreenName (h ! slotSession (slots m ! a))) (store m) = find (\<lambda>(k, a). n = k) (store m)"
  proof (rule find_cong [OF refl])
    fix x assume "x \<in> set (store m)"
    with assms have "map_of (store m) (fst x) = Some (snd x)" by (auto simp: storeOk_def)
    from storeOk_entry(1) [OF assms this]
    show "(case x of (k, a) \<Rightarrow> n = identScreenName (h ! slotSession (slots m ! a))) = (case x of (k, a) \<Rightarrow> n = k)"
      by (cases x) (auto simp: slotSess_def)
  qed
  moreover have "map_option snd (find (\<lambda>(k, a). n = k) xs) = map_of xs n" for xs :: "(IdentScreenName \<times> nat) list"
    by (induction xs) auto
  ultimately show ?thesis by (simp add: findRec_def)
qed

lemma findRec_Some:
  assumes "storeOk m h" and "findRec n m h = Some a"
  shows "a < length (slots m)" "identScreenName (h ! slotSess m a) = n"
  using storeOk_entry [OF assms(1)] assms(2) unfolding findRec_store [OF assms(1)] by blast+

lemma newSession_shape:
  assumes cfg: "cfgOk (reqCfg r)"
  obtains t where "newSession P r m h = Some (Inr (length h, 0),
      m\<lparr>store := AList.update (nameOf P r) (length (slots m)) (store m),
        slots := slots m @ [\<lparr>slotSession = length h, slotRemoved = False, multiSession = reqMulti r\<rparr>]\<rparr>, h @ [t])"
    "identScreenName t = nameOf P r" "InstanceCount t = 1" "sessionOk t"
proof -
  let ?s0 = "SetDisplayScreenName (reqName r) (SetIdentScreenName (nameOf P r) NewSession)"
  have f: "identScreenName (reqCfg r ?s0) = nameOf P r" "instances (reqCfg r ?s0) = []" "instancesOrdered (reqCfg r ?s0) = []"
    "objects (reqCfg r ?s0) = []"
    using cfg by (simp_all add: cfgOk_def SetDisplayScreenName_def SetIdentScreenName_def NewSession_def)
  have ok0: "sessionOk (reqCfg r ?s0)"
    using sessionOk_New sessionOk_frame [of "reqCfg r ?s0" NewSession] f by (simp add: NewSession_def)
  have c0: "InstanceCount (reqCfg r ?s0) = 0" by (simp add: InstanceCount_def f)
  then obtain i t where add: "AddInstance (reqCfg r ?s0) = Some (i, t)" using AddInstance_room [of "reqCfg r ?s0"] by auto
  note t = AddInstance_facts [OF add]
  show thesis
  proof (rule that [of t])
    show "newSession P r m h = Some (Inr (length h, 0),
      m\<lparr>store := AList.update (nameOf P r) (length (slots m)) (store m),
        slots := slots m @ [\<lparr>slotSession = length h, slotRemoved = False, multiSession = reqMulti r\<rparr>]\<rparr>, h @ [t])"
      using t f by (simp add: newSession_def Let_def add)
  qed (use t f c0 sessionOk_Add [OF ok0 add] in simp_all)
qed

lemma newSession_ok:
  assumes st: "storeOk m h" and cfg: "cfgOk (reqCfg r)"
  obtains res m' h' where "newSession P r m h = Some (res, m', h')" "storeOk m' h'"
    "userLocks m' = userLocks m" "lockObjs m' = lockObjs m"
    "\<And>c. callOk P m h c \<Longrightarrow> callOk P m' h' c"
proof -
  obtain t where new: "newSession P r m h = Some (Inr (length h, 0),
      m\<lparr>store := AList.update (nameOf P r) (length (slots m)) (store m),
        slots := slots m @ [\<lparr>slotSession = length h, slotRemoved = False, multiSession = reqMulti r\<rparr>]\<rparr>, h @ [t])"
    and t: "identScreenName t = nameOf P r" "InstanceCount t = 1" "sessionOk t"
    by (rule newSession_shape [OF cfg])
  let ?m = "m\<lparr>store := AList.update (nameOf P r) (length (slots m)) (store m),
        slots := slots m @ [\<lparr>slotSession = length h, slotRemoved = False, multiSession = reqMulti r\<rparr>]\<rparr>"
  have ss: "slotSess ?m a = (if a < length (slots m) then slotSess m a else length h)" if "a \<le> length (slots m)" for a
    using that by (simp add: slotSess_def nth_append)
  have sl: "a < length (slots m) \<Longrightarrow> slotSess m a < length h" for a using st by (simp add: storeOk_def)
  have entry: "a < length (slots ?m) \<and> \<not> slotRemoved (slots ?m ! a) \<and> identScreenName ((h @ [t]) ! slotSess ?m a) = k"
    if "map_of (store ?m) k = Some a" for k a
  proof (cases "k = nameOf P r")
    case True
    then have "a = length (slots m)" using that by (simp add: update_conv')
    then show ?thesis using ss [of a] True t(1) by simp
  next
    case False
    then have "map_of (store m) k = Some a" using that by (simp add: update_conv')
    then have "a < length (slots m)" "\<not> slotRemoved (slots m ! a)" "identScreenName (h ! slotSess m a) = k"
      using st unfolding storeOk_def by blast+
    then show ?thesis using ss [of a] sl [of a] by (simp add: nth_append)
  qed
  have "distinct (map fst (store ?m))" using st by (simp add: storeOk_def distinct_update)
  moreover have "\<forall>a<length (slots ?m). slotSess ?m a < length (h @ [t])" using ss sl by (auto simp: less_Suc_eq_le le_Suc_eq intro!: less_imp_le)
  moreover have "\<forall>s\<in>set (h @ [t]). sessionOk s \<and> InstanceCount s \<le> maxConcurrentSessions m"
    using st t(2,3) by (auto simp: storeOk_def)
  ultimately have ok: "storeOk ?m (h @ [t])" using st entry unfolding storeOk_def by simp
  have "callOk P ?m (h @ [t]) c" if "callOk P m h c" for c
  proof -
    have "a < length (slots m) \<Longrightarrow> (h @ [t]) ! slotSess ?m a = h ! slotSess m a" for a
      using ss [of a] sl [of a] by (simp add: nth_append)
    moreover have "snd c = AtAdd a \<Longrightarrow> a < length (slots m)" for a using that by (auto simp: callOk_def)
    ultimately show ?thesis using that unfolding callOk_def by (auto simp: less_Suc_eq)
  qed
  with that [OF new ok] show thesis by simp
qed

lemma CloseSession_set:
  assumes st: "storeOk m h" and a: "a < length (slots m)" and c: "callOk P m h c"
  shows "storeOk m (updSession CloseSession (slotSess m a) h)" "callOk P m (updSession CloseSession (slotSess m a) h) c"
proof -
  have l: "slotSess m a < length h" using st a by (simp add: storeOk_def)
  then have ok: "sessionOk (h ! slotSess m a)" using st by (simp add: storeOk_def)
  note close = CloseSession_correct [OF ok]
  show "storeOk m (updSession CloseSession (slotSess m a) h)" unfolding updSession_def
    using st by (intro storeOk_set [OF st l]) (simp_all add: close storeOk_def)
  show "callOk P m (updSession CloseSession (slotSess m a) h) c" unfolding updSession_def
    using st by (intro callOk_set [OF st c l]) (simp_all add: close storeOk_def)
qed

lemma callOk_pc: "callOk P m h (r, pc) \<Longrightarrow> pcSlot pc' = None \<Longrightarrow> callOk P m h (r, pc')"
  by (cases pc') (simp_all add: callOk_def)

lemma same_pool:
  assumes "store m' = store m" "slots m' = slots m" "maxConcurrentSessions m' = maxConcurrentSessions m"
  shows "storeOk m' h = storeOk m h" "callOk P m' h c = callOk P m h c"
  by (simp_all add: storeOk_def callOk_def slotSess_def assms)

text \<open>The steps that change the locks leave the pool alone.\<close>

lemma worldOk_lock_step:
  assumes ok: "worldOk P w" and k: "k < length (calls w)" "calls w ! k = (r, pc)"
    and m: "store m = store (mgr w)" "slots m = slots (mgr w)" "maxConcurrentSessions m = maxConcurrentSessions (mgr w)"
    and lk: "locksOk P m ((calls w)[k := (r, pc')])" and pc': "pcSlot pc' = None"
  shows "worldOk P (w\<lparr>mgr := m, calls := (calls w)[k := (r, pc')]\<rparr>)"
proof -
  have "callOk P (mgr w) (heap w) (r, pc')" using callOk_pc [OF _ pc'] worldOk_call [OF ok k(1)] k(2) by simp
  then have "callOk P m (heap w) c" if "c \<in> set ((calls w)[k := (r, pc')])" for c
    using that ok unfolding same_pool(2) [OF m]
    by (auto simp: worldOk_def dest!: subsetD [OF set_update_subset_insert])
  then show ?thesis using ok lk same_pool(1) [OF m] by (simp add: worldOk_def)
qed

lemma run_locks:
  assumes ok: "worldOk P w" and k: "k < length (calls w)" "calls w ! k = (r, pc)"
    and pc: "pc = AtStart \<or> pc = AtLock a \<or> pc = AtUnlock res"
  shows "addStep P r pc (mgr w) (heap w) = Blocked \<or> (\<exists>pc' m. addStep P r pc (mgr w) (heap w) = Next pc' m (heap w) \<and>
       worldOk P (w\<lparr>mgr := m, calls := (calls w)[k := (r, pc')]\<rparr>))"
proof -
  have lk: "locksOk P (mgr w) (calls w)" using ok by (simp add: worldOk_def)
  note step = worldOk_lock_step [OF ok k]
  from pc show ?thesis
  proof (elim disjE)
    assume pc: "pc = AtStart"
    obtain a m' where reg: "lockRegister (nameOf P r) (mgr w) = (a, m')" by fastforce
    then have "locksOk P m' ((calls w)[k := (r, AtLock a)])" using locksOk_register [OF lk] k pc by simp
    then have "worldOk P (w\<lparr>mgr := m', calls := (calls w)[k := (r, AtLock a)]\<rparr>)"
      using reg by (intro step) (auto simp: lockRegister_def Let_def split: option.splits)
    then show ?thesis by (simp add: pc reg)
  next
    assume pc: "pc = AtLock a"
    show ?thesis
    proof (cases "lockAcquire a (mgr w)")
      case (Some m')
      then have "locksOk P m' ((calls w)[k := (r, AtFind)])" using locksOk_acquire [OF lk k(1)] k(2) pc by simp
      then have "worldOk P (w\<lparr>mgr := m', calls := (calls w)[k := (r, AtFind)]\<rparr>)"
        using Some by (intro step) (auto simp: lockAcquire_def split: if_splits)
      then show ?thesis by (simp add: pc Some)
    qed (simp add: pc)
  next
    assume pc: "pc = AtUnlock res"
    obtain m' where m': "unlockUser (nameOf P r) (mgr w) = Some m'" "locksOk P m' ((calls w)[k := (r, AtDone res)])"
      "store m' = store (mgr w)" "slots m' = slots (mgr w)" "maxConcurrentSessions m' = maxConcurrentSessions (mgr w)"
      using locksOk_unlock [OF lk k(1)] k(2) pc by blast
    from step [OF m'(3-5,2)] show ?thesis by (simp add: pc m'(1))
  qed
qed

lemma run_add:
  assumes ok: "worldOk P w" and k: "k < length (calls w)" "calls w ! k = (r, AtAdd a)"
  obtains i t where "AddInstance (heap w ! slotSess (mgr w) a) = Some (i, t)"
    "worldOk P (w\<lparr>mgr := mgr w, heap := (heap w)[slotSess (mgr w) a := t],
       calls := (calls w)[k := (r, AtUnlock (Inr (slotSess (mgr w) a, i)))]\<rparr>)"
proof -
  let ?m = "mgr w" and ?h = "heap w"
  have st: "storeOk ?m ?h" and lk: "locksOk P ?m (calls w)" using ok by (simp_all add: worldOk_def)
  note cs = worldOk_call [OF ok]
  have me: "callOk P ?m ?h (r, AtAdd a)" using cs [OF k(1)] k(2) by simp
  then have a: "a < length (slots ?m)" "identScreenName (?h ! slotSess ?m a) = nameOf P r"
    "InstanceCount (?h ! slotSess ?m a) < maxConcurrentSessions ?m" "maxConcurrentSessions ?m < 255"
    using st by (simp_all add: callOk_def reqIdent_def storeOk_def)
  have l: "slotSess ?m a < length ?h" using st a(1) by (simp add: storeOk_def)
  have "InstanceCount (?h ! slotSess ?m a) < 255" using a(3,4) by simp
  then obtain i t where add: "AddInstance (?h ! slotSess ?m a) = Some (i, t)" by (rule AddInstance_room)
  note t = AddInstance_facts [OF add]
  have "sessionOk t" using st l sessionOk_Add [OF _ add] by (simp add: storeOk_def)
  then have "storeOk ?m (?h[slotSess ?m a := t])" using a(3) by (intro storeOk_set [OF st l]) (simp_all add: t)
  moreover have "callOk P ?m (?h[slotSess ?m a := t]) (calls w ! k')" if k': "k' < length (calls w)" "k' \<noteq> k" for k'
  proof (rule callOk_set [OF st cs [OF k'(1)] l t(1)])
    fix b assume b: "snd (calls w ! k') = AtAdd b" "slotSess ?m b = slotSess ?m a"
    obtain r' where r': "calls w ! k' = (r', AtAdd b)" using b(1) by (cases "calls w ! k'") auto
    have "nameOf P r' = nameOf P r" using cs [OF k'(1)] r' b(2) a(2) by (simp add: callOk_def reqIdent_def)
    with inside_unique [OF lk k'(1) r' _ k] k'(2) show "InstanceCount t < maxConcurrentSessions ?m" by simp
  qed
  moreover have "callOk P ?m (?h[slotSess ?m a := t]) (r, AtUnlock (Inr (slotSess ?m a, i)))"
    using me by (simp add: callOk_def)
  ultimately show thesis by (intro that [OF add] worldOk_move [OF ok k]) simp_all
qed

text \<open>A step of a call never stops the program and keeps the invariant.\<close>

lemma worldOk_run:
  assumes ok: "worldOk P w" and k: "k < length (calls w)" "calls w ! k = (r, pc)"
  shows "addStep P r pc (mgr w) (heap w) = Blocked \<or> (\<exists>pc' m h. addStep P r pc (mgr w) (heap w) = Next pc' m h \<and>
       worldOk P (w\<lparr>mgr := m, heap := h, calls := (calls w)[k := (r, pc')]\<rparr>))"
proof -
  let ?m = "mgr w" and ?h = "heap w"
  have st: "storeOk ?m ?h" using ok by (simp add: worldOk_def)
  note cs = worldOk_call [OF ok]
  have me: "callOk P ?m ?h (r, pc)" using cs [OF k(1)] k(2) by simp
  note slot = callOk_pc [OF me]
  have stay: "worldOk P (w\<lparr>mgr := ?m, heap := ?h, calls := (calls w)[k := (r, pc')]\<rparr>)"
    if "callOk P ?m ?h (r, pc')" "registered pc' = registered pc" "inside pc' = inside pc" "\<And>a. pc' \<noteq> AtLock a" for pc'
    using that st cs by (intro worldOk_move [OF ok k]) auto
  have close: "worldOk P (w\<lparr>mgr := ?m, heap := updSession CloseSession (slotSess ?m a) ?h, calls := (calls w)[k := (r, pc')]\<rparr>)"
    if "a < length (slots ?m)" "callOk P ?m ?h (r, pc')" "registered pc' = registered pc" "inside pc' = inside pc"
      "\<And>a. pc' \<noteq> AtLock a" for pc' a
    using that CloseSession_set [OF st that(1)] cs by (intro worldOk_move [OF ok k]) auto
  show ?thesis
  proof (cases pc)
    case AtFind
    have "callOk P ?m ?h (r, pc')" if "addStep P r AtFind ?m ?h = Next pc' ?m ?h" for pc'
      using that me findRec_Some [OF st] AtFind
      by (auto simp: callOk_def reqIdent_def split: option.splits if_splits)
    then show ?thesis using stay AtFind by (auto split: option.splits if_splits)
  next
    case (AtReplace a)
    then show ?thesis using close [of a AtNew] slot me by (simp add: callOk_def)
  next
    case (AtClose a)
    then show ?thesis using close [of a "AtWait a"] me by (simp add: callOk_def reqIdent_def)
  next
    case (AtCount a)
    have "callOk P ?m ?h (r, AtAdd a)" if "InstanceCount (?h ! slotSess ?m a) < maxConcurrentSessions ?m"
      using me AtCount that by (simp add: callOk_def reqIdent_def)
    then show ?thesis using stay slot AtCount by auto
  next
    case (AtAdd a)
    with k have "calls w ! k = (r, AtAdd a)" by simp
    from run_add [OF ok k(1) this] show ?thesis using AtAdd by fastforce
  next
    case (AtWait a)
    then show ?thesis using stay slot by auto
  next
    case AtNew
    have "cfgOk (reqCfg r)" using me by (simp add: callOk_def)
    then obtain res m' h' where n: "newSession P r ?m ?h = Some (res, m', h')" "storeOk m' h'"
      "userLocks m' = userLocks ?m" "lockObjs m' = lockObjs ?m" "\<And>c. callOk P ?m ?h c \<Longrightarrow> callOk P m' h' c"
      using newSession_ok [OF st, of r P] by blast
    have "worldOk P (w\<lparr>mgr := m', heap := h', calls := (calls w)[k := (r, AtUnlock res)]\<rparr>)"
      using AtNew cs n slot by (intro worldOk_move [OF ok k]) auto
    then show ?thesis using AtNew n(1) by simp
  qed (use run_locks [OF ok k] in \<open>fastforce\<close>)+
qed

interpretation pool: invariant_system "\<lambda>w. w = emptyWorld" "worldStep P" "worldOk P" for P
proof
  fix w w' assume ok: "worldOk P w" and "worldStep P w w'"
  from this(2) show "worldOk P w'"
  proof cases
    case (call r)
    then have "callOk P (mgr w) (heap w) (r, AtStart)" by (simp add: callOk_def)
    then show ?thesis using ok call locksOk_call by (simp add: worldOk_def)
  next
    case (run k r pc pc' m h)
    then show ?thesis using worldOk_run [OF ok, of k r pc] by auto
  next
    case (cancel k r a)
    have "callOk P (mgr w) (heap w) (r, AtUnlock (Inl errWaiting))"
      using callOk_pc [of P "mgr w" "heap w" r "AtWait a"] worldOk_call [OF ok, of k] cancel by simp
    then have "worldOk P (w\<lparr>mgr := mgr w, heap := heap w, calls := (calls w)[k := (r, AtUnlock (Inl errWaiting))]\<rparr>)"
      using ok worldOk_call [OF ok] cancel by (intro worldOk_move [OF ok]) (auto simp: worldOk_def)
    then show ?thesis using cancel by simp
  next
    case (remove a)
    then show ?thesis using ok storeOk_remove by (simp add: worldOk_def)
  next
    case (session a s)
    have st: "storeOk (mgr w) (heap w)" using ok by (simp add: worldOk_def)
    then have "sessionOk (heap w ! a)" using session by (simp add: storeOk_def)
    then have s: "sessionOk s" "identScreenName s = identScreenName (heap w ! a)"
      "InstanceCount s \<le> InstanceCount (heap w ! a)" "InstanceCount (heap w ! a) \<le> maxConcurrentSessions (mgr w)"
      using session st session.invar_step [of "heap w ! a" s] by (auto simp: ownStep_def storeOk_def)
    have "storeOk (mgr w) ((heap w)[a := s])" using s session by (intro storeOk_set [OF st]) simp_all
    moreover have "callOk P (mgr w) ((heap w)[a := s]) c" if "c \<in> set (calls w)" for c
    proof (rule callOk_set [OF st])
      show c: "callOk P (mgr w) (heap w) c" using ok that by (simp add: worldOk_def)
      fix b assume "snd c = AtAdd b" "slotSess (mgr w) b = a"
      then show "InstanceCount s < maxConcurrentSessions (mgr w)" using c s(3) by (auto simp: callOk_def)
    qed (use s session in auto)
    ultimately show ?thesis using ok session by (simp add: worldOk_def)
  qed
qed (simp add: emptyWorld_def NewInMemorySessionManager_def worldOk_def locksOk_def entryOk_def users_def storeOk_def)

section \<open>Properties\<close>


text \<open>Nobody gets more connections than the limit. Whatever sign-ons, disconnects and removals
  interleave, no session has more than five instances, and every session satisfies the invariant of
  sessions.\<close>
theorem instance_limit:
  assumes "(worldStep P)\<^sup>*\<^sup>* emptyWorld w" and "s \<in> set (heap w)"
  shows "InstanceCount s \<le> maxConcurrentSessions (mgr w) \<and> sessionOk s"
proof -
  have "worldOk P w" using pool.invar_reachable [OF assms(1)] by simp
  then show ?thesis using assms(2) by (simp add: worldOk_def storeOk_def)
qed

text \<open>C14: The pool finds users under their own names. In every interleaving the session stored under a name
  has that name and has not been signalled as removed, looking a name up by searching all sessions
  and by the key of the map agree, and a session that is retrieved has the name asked for and a live
  instance.\<close>
theorem session_store_consistent:
  assumes "(worldStep P)\<^sup>*\<^sup>* emptyWorld w"
  shows "(\<forall>k a. map_of (store (mgr w)) k = Some a \<longrightarrow>
      identScreenName (heap w ! slotSess (mgr w) a) = k \<and> \<not> slotRemoved (slots (mgr w) ! a)) \<and>
    (\<forall>n. findRec n (mgr w) (heap w) = map_of (store (mgr w)) n) \<and>
    (\<forall>n s. RetrieveSession n (mgr w) (heap w) = Some s \<longrightarrow>
      s < length (heap w) \<and> identScreenName (heap w ! s) = n \<and> HasLiveInstances (heap w ! s))"
proof -
  let ?m = "mgr w" and ?h = "heap w"
  have "worldOk P w" using pool.invar_reachable [OF assms] by simp
  then have st: "storeOk ?m ?h" by (simp add: worldOk_def)
  note e = storeOk_entry [OF st]
  have "s < length ?h \<and> identScreenName (?h ! s) = n \<and> HasLiveInstances (?h ! s)"
    if "RetrieveSession n ?m ?h = Some s" for n s
    using that e by (auto simp: RetrieveSession_def slotSess_def split: option.splits if_splits)
  with e(1,2) findRec_store [OF st] show ?thesis by blast
qed

subsection \<open>A sign-on that is lost\<close>

text \<open>Running the call with index \<open>k\<close> one step further.\<close>

definition stepCall :: "platform \<Rightarrow> nat \<Rightarrow> World \<Rightarrow> World" where
  "stepCall P k w =
     (let (r, pc) = calls w ! k in
      case addStep P r pc (mgr w) (heap w) of
        Next pc' m h \<Rightarrow> w\<lparr>mgr := m, heap := h, calls := (calls w)[k := (r, pc')]\<rparr>
      | _ \<Rightarrow> w)"

lemma stepCall_reaches: "k < length (calls w) \<Longrightarrow> (worldStep P)\<^sup>*\<^sup>* w (stepCall P k w)"
proof -
  assume k: "k < length (calls w)"
  obtain r pc where c: "calls w ! k = (r, pc)" by (cases "calls w ! k")
  show ?thesis
  proof (cases "addStep P r pc (mgr w) (heap w)")
    case (Next pc' m h)
    from worldStep.run [OF k c this] show ?thesis by (simp add: stepCall_def c Next r_into_rtranclp)
  qed (simp_all add: stepCall_def c)
qed

definition sampleReq :: addReq where
  "sampleReq = \<lparr>reqName = [97], reqMulti = True, reqCfg = (\<lambda>s. s)\<rparr>"

definition firstLogin :: "platform \<Rightarrow> World" where
  "firstLogin P = fold (stepCall P) [0, 0, 0, 0, 0] (emptyWorld\<lparr>calls := [(sampleReq, AtStart), (sampleReq, AtStart)]\<rparr>)"

definition secondFound :: "platform \<Rightarrow> World" where
  "secondFound P =
     (let w = firstLogin P in fold (stepCall P) [1, 1, 1, 1] (w\<lparr>heap := (heap w)[0 := CloseInstance 0 (heap w ! 0)]\<rparr>))"

definition secondLost :: "platform \<Rightarrow> World" where
  "secondLost P =
     (let w = secondFound P in fold (stepCall P) [1, 1] (w\<lparr>mgr := RemoveSession 0 (mgr w) (heap w)\<rparr>))"

definition sampleSession :: Session where
  "sampleSession = SetDisplayScreenName [97] (SetIdentScreenName [97] oneInstance)"

definition lockFree :: userLock where "lockFree = \<lparr>held = False, refCount = 0\<rparr>"

lemma sampleName [simp]: "DisplayScreenName_IdentScreenName P [97] = [97]"
  by (simp add: DisplayScreenName_IdentScreenName_def ident_ascii isASCII_def asciiLower_def)

lemma sampleNew:
  "newSession P sampleReq m h = Some (Inr (length h, 0),
     m\<lparr>store := AList.update [97] (length (slots m)) (store m),
       slots := slots m @ [\<lparr>slotSession = length h, slotRemoved = False, multiSession = True\<rparr>]\<rparr>, h @ [sampleSession])"
proof -
  have "AddInstance (SetDisplayScreenName [97] (SetIdentScreenName [97] NewSession)) = Some (0, sampleSession)"
    using first_numbers(1) [of "SetDisplayScreenName [97] (SetIdentScreenName [97] NewSession)"]
    by (simp add: AddInstance_def sampleSession_def oneInstance_def SetDisplayScreenName_def SetIdentScreenName_def
        NewSession_def)
  then show ?thesis
    by (simp add: newSession_def sampleReq_def) (simp add: sampleSession_def SetDisplayScreenName_def SetIdentScreenName_def)
qed

definition sampleClosed :: Session where
  "sampleClosed = CloseInstance 0 sampleSession"

lemma sampleSession_simps [simp]:
  "identScreenName sampleSession = [97]" "identScreenName sampleClosed = [97]"
  "instances sampleClosed = []" "instancesOrdered sampleClosed = []"
  "objects sampleClosed = [(newInstance 1)\<lparr>closed := True\<rparr>]"
  by (simp_all add: sampleClosed_def sampleSession_def SetDisplayScreenName_def SetIdentScreenName_def oneInstance_def
      CloseInstance_def closeMark_def closeCall_def RemoveInstance_def updInst_def inst_def newInstance_def
      InstanceCount_def NewSession_def)

definition sampleAgain :: Session where
  "sampleAgain = sampleClosed\<lparr>objects := [(newInstance 1)\<lparr>closed := True\<rparr>, newInstance 1],
     instances := [(1, 1)], instancesOrdered := [1]\<rparr>"

lemma sampleAdd: "AddInstance sampleClosed = Some (1, sampleAgain)"
  using first_numbers(1) [of sampleClosed] by (simp add: AddInstance_def sampleAgain_def)

lemmas call_eval = stepCall_def lockRegister_def lockAcquire_def unlockUser_def findRec_def slotSess_def

lemma firstLogin_eval:
  "firstLogin P = \<lparr>mgr = \<lparr>store = [([97], 0)], slots = [\<lparr>slotSession = 0, slotRemoved = False, multiSession = True\<rparr>],
       userLocks = [], lockObjs = [lockFree], maxConcurrentSessions = 5\<rparr>,
     heap = [sampleSession], calls = [(sampleReq, AtDone (Inr (0, 0))), (sampleReq, AtStart)]\<rparr>"
proof -
  have [simp]: "reqName sampleReq = [97]" by (simp add: sampleReq_def)
  show ?thesis
    by (simp add: firstLogin_def call_eval emptyWorld_def NewInMemorySessionManager_def sampleNew lockFree_def)
qed

lemma secondFound_eval:
  "secondFound P = \<lparr>mgr = \<lparr>store = [([97], 0)], slots = [\<lparr>slotSession = 0, slotRemoved = False, multiSession = True\<rparr>],
       userLocks = [([97], 1)], lockObjs = [lockFree, \<lparr>held = True, refCount = 1\<rparr>], maxConcurrentSessions = 5\<rparr>,
     heap = [sampleClosed], calls = [(sampleReq, AtDone (Inr (0, 0))), (sampleReq, AtAdd 0)]\<rparr>"
proof -
  have [simp]: "reqName sampleReq = [97]" "reqMulti sampleReq" by (simp_all add: sampleReq_def)
  show ?thesis
    by (simp add: secondFound_def firstLogin_eval Let_def flip: sampleClosed_def)
      (simp add: call_eval InstanceCount_def)
qed

lemma secondLost_eval:
  "secondLost P = \<lparr>mgr = \<lparr>store = [], slots = [\<lparr>slotSession = 0, slotRemoved = True, multiSession = True\<rparr>],
       userLocks = [], lockObjs = [lockFree, lockFree], maxConcurrentSessions = 5\<rparr>,
     heap = [sampleAgain], calls = [(sampleReq, AtDone (Inr (0, 0))), (sampleReq, AtDone (Inr (0, 1)))]\<rparr>"
proof -
  have [simp]: "reqName sampleReq = [97]" by (simp add: sampleReq_def)
  show ?thesis
    by (simp add: Let_def secondLost_def secondFound_eval call_eval RemoveSession_def sampleAdd lockFree_def)
qed

lemma run_reaches:
  "\<forall>k\<in>set ks. k < length (calls w) \<Longrightarrow> (worldStep P)\<^sup>*\<^sup>* w (fold (stepCall P) ks w)"
proof (induction ks arbitrary: w)
  case (Cons k ks)
  have "length (calls (stepCall P k w)) = length (calls w)"
    by (auto simp: stepCall_def split: prod.splits addOut.splits)
  with Cons show ?case using stepCall_reaches [of k w P] by (auto intro: rtranclp_trans)
qed simp

lemma firstLogin_reachable: "(worldStep P)\<^sup>*\<^sup>* emptyWorld (firstLogin P)"
proof -
  have cfg: "cfgOk (reqCfg sampleReq)" by (simp add: cfgOk_def sampleReq_def)
  let ?w0 = "emptyWorld\<lparr>calls := [(sampleReq, AtStart), (sampleReq, AtStart)]\<rparr>"
  have "worldStep P emptyWorld (emptyWorld\<lparr>calls := [(sampleReq, AtStart)]\<rparr>)"
    using worldStep.call [OF cfg, of P emptyWorld] by (simp add: emptyWorld_def)
  moreover have "worldStep P (emptyWorld\<lparr>calls := [(sampleReq, AtStart)]\<rparr>) ?w0"
    using worldStep.call [OF cfg, of P "emptyWorld\<lparr>calls := [(sampleReq, AtStart)]\<rparr>"] by (simp add: emptyWorld_def)
  ultimately have "(worldStep P)\<^sup>*\<^sup>* emptyWorld ?w0" by (meson converse_rtranclp_into_rtranclp r_into_rtranclp)
  then show ?thesis
    using run_reaches [of "[0, 0, 0, 0, 0]" ?w0] unfolding firstLogin_def by (simp add: rtranclp_trans)
qed

lemma secondFound_reachable: "(worldStep P)\<^sup>*\<^sup>* emptyWorld (secondFound P)"
proof -
  have own: "ownStep sampleSession sampleClosed"
    using sessionStep.closeInstance [of 0 sampleSession]
    by (simp add: ownStep_def sampleClosed_def [symmetric] InstanceCount_def)
      (simp add: sampleClosed_def sampleSession_def SetDisplayScreenName_def SetIdentScreenName_def oneInstance_def)
  let ?w1 = "(firstLogin P)\<lparr>heap := (heap (firstLogin P))[0 := CloseInstance 0 (heap (firstLogin P) ! 0)]\<rparr>"
  have "worldStep P (firstLogin P) ?w1"
    using worldStep.session [of 0 "firstLogin P" sampleClosed P] own by (simp add: firstLogin_eval sampleClosed_def)
  moreover have "(worldStep P)\<^sup>*\<^sup>* ?w1 (secondFound P)"
    using run_reaches [of "[1, 1, 1, 1]" ?w1] by (simp add: secondFound_def Let_def firstLogin_eval)
  ultimately show ?thesis using firstLogin_reachable by (meson rtranclp.rtrancl_into_rtrancl rtranclp_trans)
qed

lemma secondLost_reachable: "(worldStep P)\<^sup>*\<^sup>* emptyWorld (secondLost P)"
proof -
  let ?w2 = "(secondFound P)\<lparr>mgr := RemoveSession 0 (mgr (secondFound P)) (heap (secondFound P))\<rparr>"
  have "worldStep P (secondFound P) ?w2" by (rule worldStep.remove) (simp add: secondFound_eval)
  moreover have "(worldStep P)\<^sup>*\<^sup>* ?w2 (secondLost P)"
    using run_reaches [of "[1, 1]" ?w2] by (simp add: secondLost_def Let_def secondFound_eval)
  ultimately show ?thesis using secondFound_reachable by (meson rtranclp.rtrancl_into_rtrancl rtranclp_trans)
qed


lemma instance_limit_witness: "InstanceCount sampleSession \<le> 5"
  using instance_limit [OF firstLogin_reachable, of sampleSession] by (simp add: firstLogin_eval)

lemma session_store_consistent_witness: "findRec [97] (mgr (firstLogin samplePlatform)) (heap (firstLogin samplePlatform)) = Some 0"
  using session_store_consistent [OF firstLogin_reachable [of samplePlatform]] by (simp add: firstLogin_eval)

text \<open>A sign-on can be lost when the only other connection closes at the same time. There is an
  interleaving (the last instance of a shared session closes after a second sign-on has found the
  session, and its removal comes before that sign-on is done) in which \<open>AddSession\<close> succeeds with an
  instance that stays open, while its session is in no pool: no message will ever reach it.\<close>
theorem login_lost_in_race:
  "\<exists>w r s i. (worldStep P)\<^sup>*\<^sup>* emptyWorld w \<and> (r, AtDone (Inr (s, i))) \<in> set (calls w) \<and> s < length (heap w) \<and>
     i \<in> set (Instances (heap w ! s)) \<and> \<not> closed (inst (heap w ! s) i) \<and> store (mgr w) = [] \<and>
     (\<forall>h. RetrieveSession (identScreenName (heap w ! s)) (mgr w) h = None)"
  using secondLost_reachable [of P]
  by (intro exI [of _ "secondLost P"] exI [of _ sampleReq] exI [of _ 0] exI [of _ 1])
    (simp add: secondLost_eval sampleAgain_def Instances_def inst_def newInstance_def RetrieveSession_def)

subsection \<open>Relaying\<close>

text \<open>What an instance looks like after it was offered a message.\<close>

definition offered :: "SNACMessage \<Rightarrow> SessionInstance \<Rightarrow> SessionInstance" where
  "offered msg x = (if length (msgCh x) < 1000 then x\<lparr>msgCh := msgCh x @ [msg]\<rparr> else x\<lparr>closed := True\<rparr>)"

lemma offer_correct:
  assumes ok: "sessionOk s" and i: "i \<in> set (instancesOrdered s)"
  shows "sessionOk (offer msg i s)" "length (objects (offer msg i s)) = length (objects s)"
    "inst (offer msg i s) j = (if j = i then offered msg (inst s i) else inst s j)"
    "set (instancesOrdered (offer msg i s)) =
       set (instancesOrdered s) - (if length (msgCh (inst s i)) < 1000 then {} else {i})"
proof -
  note s = sessionOkD [OF ok]
  have l: "i < length (objects s)" and op: "\<not> closed (inst s i)" using s(5,6) [of i] i by blast+
  note c = closedState_simps [OF l]
  note u = inst_upd [OF l]
  have "sessionOk (offer msg i s) \<and> length (objects (offer msg i s)) = length (objects s) \<and>
    inst (offer msg i s) j = (if j = i then offered msg (inst s i) else inst s j) \<and>
    set (instancesOrdered (offer msg i s)) = set (instancesOrdered s) - (if length (msgCh (inst s i)) < 1000 then {} else {i})"
  proof (cases "length (msgCh (inst s i)) < 1000")
    case True
    let ?x = "(inst s i)\<lparr>msgCh := msgCh (inst s i) @ [msg]\<rparr>"
    have "offer msg i s = updInst i (\<lambda>_. ?x) s" using True op by (simp add: offer_def RelayMessageToInstance_def)
    then show ?thesis using sessionOk_upd [OF ok l, of "\<lambda>_. ?x"] u [of "\<lambda>_. ?x" j] True
      by (simp add: offered_def updInst_def)
  next
    case False
    have o: "offer msg i s = closeCall True i (closedState i s)"
      using False op by (simp add: offer_def RelayMessageToInstance_def close_unfold)
    show ?thesis using sessionOk_close(1) [OF ok l] op False s(2)
      by (simp add: o close_unfold c offered_def)
  qed
  then show "sessionOk (offer msg i s)" "length (objects (offer msg i s)) = length (objects s)"
    "inst (offer msg i s) j = (if j = i then offered msg (inst s i) else inst s j)"
    "set (instancesOrdered (offer msg i s)) =
       set (instancesOrdered s) - (if length (msgCh (inst s i)) < 1000 then {} else {i})" by blast+
qed

lemma relayLoop_correct:
  assumes "sessionOk s" and "distinct is" and "set is \<subseteq> set (instancesOrdered s)"
  shows "sessionOk (relayLoop wants msg is s)"
    "inst (relayLoop wants msg is s) j = (if j \<in> set is \<and> wants (inst s j) then offered msg (inst s j) else inst s j)"
    "set (Instances (relayLoop wants msg is s)) =
       set (Instances s) - {i \<in> set is. wants (inst s i) \<and> 1000 \<le> length (msgCh (inst s i))}"
proof -
  have "sessionOk (relayLoop wants msg is s) \<and>
    (\<forall>j. inst (relayLoop wants msg is s) j = (if j \<in> set is \<and> wants (inst s j) then offered msg (inst s j) else inst s j)) \<and>
    set (instancesOrdered (relayLoop wants msg is s)) =
      set (instancesOrdered s) - {i \<in> set is. wants (inst s i) \<and> 1000 \<le> length (msgCh (inst s i))}"
    using assms
  proof (induction "is" arbitrary: s)
    case (Cons i "is")
    have i: "i \<in> set (instancesOrdered s)" "i \<notin> set is" using Cons.prems by auto
    note o = offer_correct [OF Cons.prems(1) i(1), of msg]
    show ?case
    proof (cases "wants (inst s i)")
      case False
      then have e: "relayLoop wants msg (i # is) s = relayLoop wants msg is s" by (simp add: relayLoop_def)
      have "sessionOk s" "distinct is" "set is \<subseteq> set (instancesOrdered s)" using Cons.prems by auto
      from Cons.IH [OF this] show ?thesis unfolding e using False by auto
    next
      case True
      then have e: "relayLoop wants msg (i # is) s = relayLoop wants msg is (offer msg i s)" by (simp add: relayLoop_def)
      have "set is \<subseteq> set (instancesOrdered (offer msg i s))" using Cons.prems(3) i(2) o(4) by auto
      from Cons.IH [OF o(1) _ this] Cons.prems(2) have ih: "sessionOk (relayLoop wants msg is (offer msg i s))"
        "inst (relayLoop wants msg is (offer msg i s)) j =
          (if j \<in> set is \<and> wants (inst (offer msg i s) j) then offered msg (inst (offer msg i s) j) else inst (offer msg i s) j)"
        "set (instancesOrdered (relayLoop wants msg is (offer msg i s))) = set (instancesOrdered (offer msg i s)) -
          {k \<in> set is. wants (inst (offer msg i s) k) \<and> 1000 \<le> length (msgCh (inst (offer msg i s) k))}" for j
        by auto
      have "{k \<in> set is. wants (inst (offer msg i s) k) \<and> 1000 \<le> length (msgCh (inst (offer msg i s) k))} =
        {k \<in> set is. wants (inst s k) \<and> 1000 \<le> length (msgCh (inst s k))}" using i(2) o(3) by auto
      with ih(1,3) ih(2) show ?thesis unfolding e using True i(2) o(3,4) by auto
    qed
  qed (simp add: relayLoop_def)
  then show "sessionOk (relayLoop wants msg is s)"
    "inst (relayLoop wants msg is s) j = (if j \<in> set is \<and> wants (inst s j) then offered msg (inst s j) else inst s j)"
    "set (Instances (relayLoop wants msg is s)) =
       set (Instances s) - {i \<in> set is. wants (inst s i) \<and> 1000 \<le> length (msgCh (inst s i))}"
    by (simp_all add: Instances_def)
qed

text \<open>A relayed message reaches every live connection of a user, once. For a reachable session,
  relaying to a user appends the message to the queue of every open instance that has completed its
  sign-on (the active ones only, or all but the sender, in the variants) and changes no other
  instance, except that an instance whose queue of 1000 is full gets nothing and is closed.\<close>
theorem relay_delivers:
  assumes "sessionStep\<^sup>*\<^sup>* NewSession s"
  shows "inst (maybeRelayMessage msg s) i =
      (if i \<in> set (Instances s) \<and> live (inst s i) then offered msg (inst s i) else inst s i) \<and>
    inst (maybeRelayMessageActiveOnly msg s) i =
      (if i \<in> set (Instances s) \<and> active (inst s i) then offered msg (inst s i) else inst s i) \<and>
    inst (RelayToOtherInstances k msg s) i =
      (if i \<in> set (Instances s) \<and> i \<noteq> k \<and> live (inst s i) then offered msg (inst s i) else inst s i) \<and>
    set (Instances (maybeRelayMessage msg s)) =
      {j \<in> set (Instances s). live (inst s j) \<longrightarrow> length (msgCh (inst s j)) < 1000}"
proof -
  have ok: "sessionOk s" using session.invar_reachable [OF assms] by simp
  have d: "distinct (Instances s)" "set (Instances s) \<subseteq> set (instancesOrdered s)"
    using sessionOkD(2) [OF ok] by (simp_all add: Instances_def)
  have f: "distinct (filter (\<lambda>j. j \<noteq> k) (Instances s))" "set (filter (\<lambda>j. j \<noteq> k) (Instances s)) \<subseteq> set (instancesOrdered s)"
    using d by auto
  show ?thesis
    using relayLoop_correct(2,3) [OF ok d] relayLoop_correct(2) [OF ok f]
    by (auto simp: maybeRelayMessage_def maybeRelayMessageActiveOnly_def RelayToOtherInstances_def)
qed

lemma relay_delivers_witness:
  "inst (maybeRelayMessage (\<lparr>FoodGroup = 4, SubGroup = 7, Flags = 0, RequestID = 0\<rparr>, None) twoInstances) 0 = newInstance 1"
  using relay_delivers [OF twoInstances_reachable(1), of "(\<lparr>FoodGroup = 4, SubGroup = 7, Flags = 0, RequestID = 0\<rparr>, None)" 0]
  by (simp add: twoInstances_def inst_def live_def newInstance_def)

subsection \<open>A call alone\<close>

text \<open>With no other call of the user in progress, the lock is taken and given back.\<close>

lemma alone_locks:
  assumes "map_of (userLocks m) (nameOf P r) = None"
  obtains m2 where "runAdd P (Suc (Suc n)) r AtStart m h = runAdd P n r AtFind m2 h"
    "store m2 = store m" "slots m2 = slots m" "maxConcurrentSessions m2 = maxConcurrentSessions m"
    "\<And>m3. userLocks m3 = userLocks m2 \<Longrightarrow> lockObjs m3 = lockObjs m2 \<Longrightarrow>
       \<exists>m4. unlockUser (nameOf P r) m3 = Some m4 \<and> store m4 = store m3 \<and> slots m4 = slots m3"
proof -
  let ?a = "length (lockObjs m)"
  let ?m2 = "m\<lparr>userLocks := AList.update (nameOf P r) ?a (userLocks m), lockObjs := lockObjs m @ [\<lparr>held = True, refCount = 1\<rparr>]\<rparr>"
  have "runAdd P (Suc (Suc n)) r AtStart m h = runAdd P n r AtFind ?m2 h"
    using assms by (simp add: lockRegister_def lockAcquire_def nth_append list_update_append)
  then show thesis by (rule that) (auto simp: unlockUser_def update_conv' nth_append)
qed

lemma runAdd_numeral:
  "runAdd P (numeral k) r pc m h =
     (case addStep P r pc m h of
        Next pc1 m1 h1 \<Rightarrow> runAdd P (pred_numeral k) r pc1 m1 h1
      | Blocked \<Rightarrow> Next pc m h
      | Fatal \<Rightarrow> Fatal)"
  by (simp add: numeral_eq_Suc)

lemma runAdd_Done: "runAdd P n r (AtDone res) m h = Next (AtDone res) m h"
  by (cases n) simp_all

lemma alone_new:
  assumes "cfgOk (reqCfg r)"
    and unlock: "\<And>m3. userLocks m3 = userLocks m \<Longrightarrow> lockObjs m3 = lockObjs m \<Longrightarrow>
       \<exists>m4. unlockUser (nameOf P r) m3 = Some m4 \<and> store m4 = store m3 \<and> slots m4 = slots m3"
    and n: "2 \<le> n"
  shows "\<exists>m' t. runAdd P n r AtNew m h = Next (AtDone (Inr (length h, 0))) m' (h @ [t]) \<and>
    identScreenName t = nameOf P r \<and> InstanceCount t = 1 \<and> map_of (store m') (nameOf P r) = Some (length (slots m))"
proof -
  obtain t where new: "newSession P r m h = Some (Inr (length h, 0),
      m\<lparr>store := AList.update (nameOf P r) (length (slots m)) (store m),
        slots := slots m @ [\<lparr>slotSession = length h, slotRemoved = False, multiSession = reqMulti r\<rparr>]\<rparr>, h @ [t])"
    and t: "identScreenName t = nameOf P r" "InstanceCount t = 1"
    by (rule newSession_shape [OF assms(1)])
  let ?m = "m\<lparr>store := AList.update (nameOf P r) (length (slots m)) (store m),
        slots := slots m @ [\<lparr>slotSession = length h, slotRemoved = False, multiSession = reqMulti r\<rparr>]\<rparr>"
  obtain m4 where "unlockUser (nameOf P r) ?m = Some m4" "store m4 = store ?m" using unlock [of ?m] by auto
  moreover obtain k where "n = Suc (Suc k)" using n by (metis Suc_le_D Suc_le_mono numeral_2_eq_2)
  ultimately show ?thesis using new t by (simp add: runAdd_Done update_conv')
qed

lemma fresh_add:
  assumes st: "storeOk m h" and "map_of (userLocks m) (nameOf P r) = None" and "map_of (store m) (nameOf P r) = None"
    and "cfgOk (reqCfg r)"
  obtains m' t where "runAdd P 7 r AtStart m h = Next (AtDone (Inr (length h, 0))) m' (h @ [t])"
    "identScreenName t = nameOf P r" "InstanceCount t = 1" "map_of (store m') (nameOf P r) = Some (length (slots m))"
    "slotSess m' (length (slots m)) = length h"
    "AddInstance (reqCfg r (SetDisplayScreenName (reqName r) (SetIdentScreenName (nameOf P r) NewSession))) = Some (0, t)"
proof -
  obtain m2 where start: "runAdd P 7 r AtStart m h = runAdd P 5 r AtFind m2 h"
    and m2: "store m2 = store m" "slots m2 = slots m"
    and unlock: "\<And>m3. userLocks m3 = userLocks m2 \<Longrightarrow> lockObjs m3 = lockObjs m2 \<Longrightarrow>
       \<exists>m4. unlockUser (nameOf P r) m3 = Some m4 \<and> store m4 = store m3 \<and> slots m4 = slots m3"
    using alone_locks [OF assms(2), of 5 h] by (simp add: eval_nat_numeral) blast
  have "findRec (nameOf P r) m h = None" using findRec_store [OF st] assms(3) by simp
  then have "findRec (nameOf P r) m2 h = None" by (simp add: findRec_def m2)
  then have new: "runAdd P 5 r AtFind m2 h = runAdd P 4 r AtNew m2 h" by (simp add: runAdd_numeral)
  obtain t where t: "newSession P r m2 h = Some (Inr (length h, 0),
      m2\<lparr>store := AList.update (nameOf P r) (length (slots m2)) (store m2),
        slots := slots m2 @ [\<lparr>slotSession = length h, slotRemoved = False, multiSession = reqMulti r\<rparr>]\<rparr>, h @ [t])"
    "identScreenName t = nameOf P r" "InstanceCount t = 1"
    by (rule newSession_shape [OF assms(4)])
  let ?m = "m2\<lparr>store := AList.update (nameOf P r) (length (slots m2)) (store m2),
        slots := slots m2 @ [\<lparr>slotSession = length h, slotRemoved = False, multiSession = reqMulti r\<rparr>]\<rparr>"
  obtain m4 where m4: "unlockUser (nameOf P r) ?m = Some m4" "store m4 = store ?m" "slots m4 = slots ?m"
    using unlock [of ?m] by auto
  have "runAdd P 4 r AtNew m2 h = Next (AtDone (Inr (length h, 0))) m4 (h @ [t])"
    using t(1) m4(1) by (simp add: runAdd_numeral runAdd_Done)
  moreover have "AddInstance (reqCfg r (SetDisplayScreenName (reqName r) (SetIdentScreenName (nameOf P r) NewSession))) = Some (0, t)"
    using t(1) by (auto simp: newSession_def Let_def split: option.splits)
  ultimately show thesis using start new m4 t
    by (intro that [of m4 t]) (simp_all add: m2 update_conv' slotSess_def)
qed

definition joinOutcome :: "platform \<Rightarrow> addReq \<Rightarrow> World \<Rightarrow> nat \<Rightarrow> bool" where
  "joinOutcome P r w a \<longleftrightarrow>
     (let s = heap w ! slotSess (mgr w) a in
      if InstanceCount s < maxConcurrentSessions (mgr w)
      then \<exists>m i t. AddInstance s = Some (i, t) \<and> runAdd P 7 r AtStart (mgr w) (heap w) =
        Next (AtDone (Inr (slotSess (mgr w) a, i))) m ((heap w)[slotSess (mgr w) a := t])
      else \<exists>m. runAdd P 7 r AtStart (mgr w) (heap w) = Next (AtDone (Inl ErrMaxConcurrentSessionsReached)) m (heap w))"

text \<open>What a sign-on with no rival of the same user does, branch by branch. With no session in the
  pool the user gets a new one; a client that shares joins a shared session as a new instance while
  there is room, and is refused, with nothing changed, when the limit is reached; a client that shares
  replaces a session that is not shared after closing all of it; a client that does not share closes
  the session and waits for its removal, and is given a new session when that comes.\<close>
theorem AddSession_alone:
  assumes "(worldStep P)\<^sup>*\<^sup>* emptyWorld w" and "cfgOk (reqCfg r)"
    and "\<forall>(r', pc)\<in>set (calls w). \<not> registered pc"
  shows "(case map_of (store (mgr w)) (DisplayScreenName_IdentScreenName P (reqName r)) of
      None \<Rightarrow> \<exists>m t. runAdd P 7 r AtStart (mgr w) (heap w) = Next (AtDone (Inr (length (heap w), 0))) m (heap w @ [t]) \<and>
        InstanceCount t = 1
    | Some a \<Rightarrow>
       (let s = heap w ! slotSess (mgr w) a; closedHeap = (heap w)[slotSess (mgr w) a := CloseSession s] in
        if reqMulti r then
          if multiSession (slots (mgr w) ! a) then joinOutcome P r w a
          else \<exists>m t. runAdd P 7 r AtStart (mgr w) (heap w) = Next (AtDone (Inr (length (heap w), 0))) m (closedHeap @ [t])
        else \<exists>m. runAdd P 7 r AtStart (mgr w) (heap w) = Next (AtWait a) m closedHeap \<and>
          (\<exists>m' t. runAdd P 3 r (AtWait a) (RemoveSession (slotSess (mgr w) a) m closedHeap) closedHeap =
             Next (AtDone (Inr (length (heap w), 0))) m' (closedHeap @ [t]))))"
proof -
  let ?m = "mgr w" and ?h = "heap w" and ?n = "nameOf P r"
  have ok: "worldOk P w" using pool.invar_reachable [OF assms(1)] by simp
  then have st: "storeOk ?m ?h" and lk: "locksOk P ?m (calls w)" by (simp_all add: worldOk_def)
  have "users P ?n (calls w) = 0" using assms(3) by (auto simp: users_def filter_empty_conv)
  then have "map_of (userLocks ?m) ?n = None" using locksOk_entry(3) [OF lk] by fastforce
  from alone_locks [OF this, of 5 ?h] obtain m2 where
    start: "runAdd P 7 r AtStart ?m ?h = runAdd P 5 r AtFind m2 ?h" and
    m2: "store m2 = store ?m" "slots m2 = slots ?m" "maxConcurrentSessions m2 = maxConcurrentSessions ?m" and
    unlock: "\<And>m3. userLocks m3 = userLocks m2 \<Longrightarrow> lockObjs m3 = lockObjs m2 \<Longrightarrow>
       \<exists>m4. unlockUser ?n m3 = Some m4 \<and> store m4 = store m3 \<and> slots m4 = slots m3"
    by (simp add: eval_nat_numeral) blast
  have ss: "slotSess m2 = slotSess ?m" by (simp add: slotSess_def m2 fun_eq_iff)
  have f: "findRec ?n m2 ?h = map_of (store ?m) ?n"
    using findRec_store [of m2 ?h ?n] same_pool(1) [OF m2] st by (simp add: m2)
  note new = alone_new [OF assms(2), where m = m2, OF unlock]
  show ?thesis
  proof (cases "map_of (store ?m) ?n")
    case None
    then have "runAdd P 5 r AtFind m2 ?h = runAdd P 4 r AtNew m2 ?h" using f by (simp add: runAdd_numeral)
    with new [of 4 ?h] None show ?thesis unfolding start by fastforce
  next
    case (Some a)
    let ?s = "?h ! slotSess ?m a" and ?closed = "?h[slotSess ?m a := CloseSession (?h ! slotSess ?m a)]"
    note e = storeOk_entry [OF st Some]
    have len: "length ?closed = length ?h" by simp
    consider (join) "reqMulti r" "multiSession (slots ?m ! a)" | (replace) "reqMulti r" "\<not> multiSession (slots ?m ! a)"
      | (wait) "\<not> reqMulti r" by blast
    then show ?thesis
    proof cases
      case join
      have c: "runAdd P 5 r AtFind m2 ?h = runAdd P 4 r (AtCount a) m2 ?h"
        using f Some join by (simp add: runAdd_numeral [of P "num.Bit1 (num.Bit0 num.One)"] m2)
      obtain m4 where "unlockUser ?n m2 = Some m4" using unlock [of m2] by blast
      note m4 = this
      have "joinOutcome P r w a"
      proof (cases "InstanceCount ?s < maxConcurrentSessions ?m")
        case True
        then have "InstanceCount ?s < 255" using st by (simp add: storeOk_def)
        then obtain i t where "AddInstance ?s = Some (i, t)" by (rule AddInstance_room)
        then show ?thesis using True m4 unfolding joinOutcome_def Let_def start c
          by (simp add: runAdd_numeral ss m2 runAdd_Done)
      next
        case False
        then show ?thesis using m4 unfolding joinOutcome_def Let_def start c
          by (simp add: runAdd_numeral ss m2 runAdd_Done)
      qed
      then show ?thesis using Some join by (simp add: Let_def)
    next
      case replace
      have "runAdd P 5 r AtFind m2 ?h = runAdd P 3 r AtNew m2 ?closed"
        using f Some replace by (simp add: runAdd_numeral [of P "num.Bit1 (num.Bit0 num.One)"]
          runAdd_numeral [of P "num.Bit0 (num.Bit0 num.One)"] m2 ss updSession_def)
      with new [of 3 ?closed] len have "\<exists>m t. runAdd P 5 r AtFind m2 ?h = Next (AtDone (Inr (length ?h, 0))) m (?closed @ [t])"
        by fastforce
      then show ?thesis unfolding start using Some replace by (simp add: Let_def)
    next
      case wait
      have w1: "runAdd P 5 r AtFind m2 ?h = Next (AtWait a) m2 ?closed"
        using f Some wait e(2) by (simp add: runAdd_numeral m2 ss updSession_def)
      let ?m3 = "RemoveSession (slotSess ?m a) m2 ?closed"
      have ident: "identScreenName (?closed ! slotSess ?m a) = ?n" using e(1,4) by simp
      have m3: "?m3 = m2\<lparr>store := AList.delete ?n (store m2), slots := (slots m2)[a := (slots m2 ! a)\<lparr>slotRemoved := True\<rparr>]\<rparr>"
        unfolding RemoveSession_def ident using Some by (simp add: m2 slotSess_def)
      have "runAdd P 3 r (AtWait a) ?m3 ?closed = runAdd P 2 r AtNew ?m3 ?closed"
        using e(3) by (simp add: runAdd_numeral [of P "num.Bit1 num.One"] m3 m2)
      moreover have "\<exists>m' t. runAdd P 2 r AtNew ?m3 ?closed = Next (AtDone (Inr (length ?closed, 0))) m' (?closed @ [t])"
      proof -
        have "\<exists>m4. unlockUser ?n m5 = Some m4 \<and> store m4 = store m5 \<and> slots m4 = slots m5"
          if "userLocks m5 = userLocks ?m3" "lockObjs m5 = lockObjs ?m3" for m5
          using that unlock [of m5] by (simp add: m3)
        from alone_new [OF assms(2) this, where n = 2 and h = ?closed] show ?thesis by blast
      qed
      ultimately show ?thesis unfolding start w1 using Some wait by (simp add: Let_def)
    qed
  qed
qed

lemma AddSession_alone_witness:
  "\<exists>m t. runAdd samplePlatform 7 sampleReq AtStart NewInMemorySessionManager [] = Next (AtDone (Inr (0, 0))) m [t] \<and> InstanceCount t = 1"
  using AddSession_alone [of samplePlatform emptyWorld sampleReq]
  by (simp add: emptyWorld_def NewInMemorySessionManager_def cfgOk_def sampleReq_def)

end
