(* ===== verification/State_Chat.thy ===== *)
theory State_Chat
  imports State_SessionManager_Laws State_Cookie
begin

text \<open>
  Chat rooms. The first part is \<open>state/chat.go\<close>: a room, the cookie that identifies it to clients, the
  link that invites to it and the TLVs that describe it. The second is the chat session manager of
  \<open>state/session_manager.go\<close>: one pool of sessions per room, made when somebody enters and dropped when
  the last one leaves. Pools are objects a call keeps hold of, so they have addresses; the sessions of
  all pools share one store.
\<close>

section \<open>Rooms\<close>

abbreviation (input) PrivateExchange :: u16 where "PrivateExchange \<equiv> 4"
abbreviation (input) PublicExchange :: u16 where "PublicExchange \<equiv> 5"

record ChatRoom =
  roomCreateTime :: int
  roomCreator :: IdentScreenName
  roomExchange :: u16
  roomName :: bytes

definition NewChatRoom :: "bytes \<Rightarrow> IdentScreenName \<Rightarrow> u16 \<Rightarrow> ChatRoom" where
  "NewChatRoom name creator exchange =
     \<lparr>roomCreateTime = zeroTime, roomCreator = creator, roomExchange = exchange, roomName = name\<rparr>"

definition ChatRoom_InstanceNumber :: "ChatRoom \<Rightarrow> u16" where
  "ChatRoom_InstanceNumber c = 0"

definition ChatRoom_DetailLevel :: "ChatRoom \<Rightarrow> byte" where
  "ChatRoom_DetailLevel c = 2"

definition ChatRoom_Cookie :: "ChatRoom \<Rightarrow> bytes" where
  "ChatRoom_Cookie c = showDecimal (unat (roomExchange c)) @ [0x2D] @ showDecimal (unat (ChatRoom_InstanceNumber c))
     @ [0x2D] @ roomName c"

text \<open>\<open>url.QueryEscape\<close>: letters, digits and \<open>-_.~\<close> stay, a space is a plus, all else is a percent sign
  and two hexadecimal digits.\<close>

definition hexDigit :: "nat \<Rightarrow> byte" where
  "hexDigit d = (if d < 10 then word_of_nat (0x30 + d) else word_of_nat (0x37 + d))"

definition unreserved :: "byte \<Rightarrow> bool" where
  "unreserved b \<longleftrightarrow> (0x30 \<le> b \<and> b \<le> 0x39) \<or> (0x41 \<le> b \<and> b \<le> 0x5A) \<or> (0x61 \<le> b \<and> b \<le> 0x7A) \<or>
     b = 0x2D \<or> b = 0x5F \<or> b = 0x2E \<or> b = 0x7E"

fun QueryEscape :: "bytes \<Rightarrow> bytes" where
  "QueryEscape [] = []"
| "QueryEscape (b # bs) =
     (if unreserved b then b # QueryEscape bs
      else if b = 0x20 then 0x2B # QueryEscape bs
      else 0x25 # hexDigit (unat b div 16) # hexDigit (unat b mod 16) # QueryEscape bs)"

definition ChatRoom_URL :: "ChatRoom \<Rightarrow> bytes" where
  "ChatRoom_URL c = asciiBytes ''aim:'' @ asciiBytes ''gochat?roomname='' @ QueryEscape (roomName c)
     @ asciiBytes ''&exchange='' @ showDecimal (unat (roomExchange c))"

abbreviation (input) ChatRoomTLVFullyQualifiedName :: u16 where "ChatRoomTLVFullyQualifiedName \<equiv> 0x6A"
abbreviation (input) ChatRoomTLVFlags :: u16 where "ChatRoomTLVFlags \<equiv> 0xC9"
abbreviation (input) ChatRoomTLVCreateTime :: u16 where "ChatRoomTLVCreateTime \<equiv> 0xCA"
abbreviation (input) ChatRoomTLVMaxMsgLen :: u16 where "ChatRoomTLVMaxMsgLen \<equiv> 0xD1"
abbreviation (input) ChatRoomTLVMaxOccupancy :: u16 where "ChatRoomTLVMaxOccupancy \<equiv> 0xD2"
abbreviation (input) ChatRoomTLVRoomName :: u16 where "ChatRoomTLVRoomName \<equiv> 0xD3"
abbreviation (input) ChatRoomTLVNavCreatePerms :: u16 where "ChatRoomTLVNavCreatePerms \<equiv> 0xD5"
abbreviation (input) ChatRoomTLVMaxMsgVisLen :: u16 where "ChatRoomTLVMaxMsgVisLen \<equiv> 0xDA"

definition ChatRoom_TLVList :: "ChatRoom \<Rightarrow> gerr + TLVList" where
  "ChatRoom_TLVList c = appendTLVs
     [(ChatRoomTLVFlags, TU16, VU16 15),
      (ChatRoomTLVCreateTime, TU32, VU32 (word_of_int (unixSeconds (roomCreateTime c)))),
      (ChatRoomTLVMaxMsgLen, TU16, VU16 1024),
      (ChatRoomTLVMaxOccupancy, TU16, VU16 100),
      (ChatRoomTLVNavCreatePerms, TU8, VU8 2),
      (ChatRoomTLVFullyQualifiedName, TString, VString (roomName c)),
      (ChatRoomTLVRoomName, TString, VString (roomName c)),
      (ChatRoomTLVMaxMsgVisLen, TU16, VU16 1024)] []"

section \<open>The sessions in rooms\<close>

record ChatManager =
  rooms :: "(bytes \<times> nat) list"
  managers :: "SessionManager list"

definition NewInMemoryChatSessionManager :: ChatManager where
  "NewInMemoryChatSessionManager = \<lparr>rooms = [], managers = []\<rparr>"

text \<open>The two critical sections of \<open>AddSession\<close>: find or make the pool of the room, and at the end put it
  back if the room has gone.\<close>

definition chatEnter :: "bytes \<Rightarrow> ChatManager \<Rightarrow> nat \<times> ChatManager" where
  "chatEnter cookie cm =
     (case map_of (rooms cm) cookie of
        Some a \<Rightarrow> (a, cm)
      | None \<Rightarrow> (length (managers cm), cm\<lparr>rooms := AList.update cookie (length (managers cm)) (rooms cm),
                   managers := managers cm @ [NewInMemorySessionManager]\<rparr>))"

definition chatRestore :: "bytes \<Rightarrow> nat \<Rightarrow> ChatManager \<Rightarrow> ChatManager" where
  "chatRestore cookie a cm =
     (case map_of (rooms cm) cookie of
        Some b \<Rightarrow> cm
      | None \<Rightarrow> cm\<lparr>rooms := AList.update cookie a (rooms cm)\<rparr>)"

datatype chatPc = ChatStart | ChatAdding nat addPc | ChatNamed nat "nat \<times> nat" | ChatDone addResult

datatype chatOut = ChatBlocked | ChatFatal | ChatNext chatPc ChatManager sessions

fun chatStep :: "platform \<Rightarrow> bytes \<Rightarrow> addReq \<Rightarrow> chatPc \<Rightarrow> ChatManager \<Rightarrow> sessions \<Rightarrow> chatOut" where
  "chatStep P cookie r ChatStart cm h =
     (let (a, cm1) = chatEnter cookie cm in ChatNext (ChatAdding a AtStart) cm1 h)"
| "chatStep P cookie r (ChatAdding a (AtDone (Inl e))) cm h = ChatNext (ChatDone (Inl e)) cm h"
| "chatStep P cookie r (ChatAdding a (AtDone (Inr (s, i)))) cm h =
     ChatNext (ChatNamed a (s, i)) cm (updSession (SetChatRoomCookie cookie) s h)"
| "chatStep P cookie r (ChatAdding a pc) cm h =
     (case addStep P (r\<lparr>reqMulti := False\<rparr>) pc (managers cm ! a) h of
        Blocked \<Rightarrow> ChatBlocked
      | Fatal \<Rightarrow> ChatFatal
      | Next pc1 m1 h1 \<Rightarrow> ChatNext (ChatAdding a pc1) (cm\<lparr>managers := (managers cm)[a := m1]\<rparr>) h1)"
| "chatStep P cookie r (ChatNamed a si) cm h = ChatNext (ChatDone (Inr si)) (chatRestore cookie a cm) h"
| "chatStep P cookie r (ChatDone res) cm h = ChatBlocked"

text \<open>A call on its own, at most \<open>n\<close> steps, to where it is done or waits.\<close>

fun runChat :: "platform \<Rightarrow> bytes \<Rightarrow> addReq \<Rightarrow> nat \<Rightarrow> chatPc \<Rightarrow> ChatManager \<Rightarrow> sessions \<Rightarrow> chatOut" where
  "runChat P cookie r 0 pc cm h = ChatNext pc cm h"
| "runChat P cookie r (Suc n) pc cm h =
     (case chatStep P cookie r pc cm h of
        ChatNext pc1 cm1 h1 \<Rightarrow> runChat P cookie r n pc1 cm1 h1
      | ChatBlocked \<Rightarrow> ChatNext pc cm h
      | ChatFatal \<Rightarrow> ChatFatal)"

text \<open>\<open>None\<close> is the panic for a session whose room does not exist.\<close>

definition chatRemoveSession :: "nat \<Rightarrow> ChatManager \<Rightarrow> sessions \<Rightarrow> ChatManager option" where
  "chatRemoveSession s cm h =
     (case map_of (rooms cm) (chatRoomCookie (h ! s)) of
        None \<Rightarrow> None
      | Some a \<Rightarrow>
          (let m = RemoveSession s (managers cm ! a) h; cm1 = cm\<lparr>managers := (managers cm)[a := m]\<rparr>
           in Some (if Empty m then cm1\<lparr>rooms := AList.delete (chatRoomCookie (h ! s)) (rooms cm1)\<rparr> else cm1)))"

definition RemoveUserFromAllChats :: "IdentScreenName \<Rightarrow> ChatManager \<Rightarrow> sessions \<Rightarrow> sessions" where
  "RemoveUserFromAllChats user cm h =
     fold (\<lambda>(cookie, a) h. case RetrieveSession user (managers cm ! a) h of
         None \<Rightarrow> h | Some s \<Rightarrow> updSession CloseSession s h) (rooms cm) h"

definition chatAllSessions :: "bytes \<Rightarrow> ChatManager \<Rightarrow> sessions \<Rightarrow> nat list" where
  "chatAllSessions cookie cm h =
     (case map_of (rooms cm) cookie of None \<Rightarrow> [] | Some a \<Rightarrow> AllSessions (managers cm ! a) h)"

definition RelayToAllExcept :: "bytes \<Rightarrow> IdentScreenName \<Rightarrow> SNACMessage \<Rightarrow> ChatManager \<Rightarrow> sessions \<Rightarrow> sessions" where
  "RelayToAllExcept cookie except msg cm h =
     (case map_of (rooms cm) cookie of
        None \<Rightarrow> h
      | Some a \<Rightarrow> fold (\<lambda>s h. if identScreenName (h ! s) = except then h else updSession (maybeRelayMessage msg) s h)
          (AllSessions (managers cm ! a) h) h)"

definition chatRelayToScreenName :: "bytes \<Rightarrow> IdentScreenName \<Rightarrow> SNACMessage \<Rightarrow> ChatManager \<Rightarrow> sessions \<Rightarrow> sessions" where
  "chatRelayToScreenName cookie recipient msg cm h =
     (case map_of (rooms cm) cookie of
        None \<Rightarrow> h
      | Some a \<Rightarrow> RelayToScreenName recipient msg (managers cm ! a) h)"

section \<open>Names and links\<close>

lemma showDecimal_inject: "showDecimal m = showDecimal n \<Longrightarrow> m = n"
  by (metis decimalValue_showDecimal of_nat_eq_iff)

lemma decimal_prefix:
  assumes "showDecimal m @ x # xs = showDecimal n @ x # ys" and "\<not> isDecimal x"
  shows "m = n \<and> xs = ys"
proof -
  have "takeWhile isDecimal (showDecimal k @ x # zs) = showDecimal k" for k zs
    using showDecimal_isDecimal [of k] assms(2) by (simp add: takeWhile_append2 list_all_iff)
  then have "showDecimal m = showDecimal n" using assms(1) by metis
  with assms(1) showDecimal_inject show ?thesis by auto
qed

text \<open>The cookie of a chat room tells rooms apart: two rooms have the same cookie only if they are on the
  same exchange and have the same name, whatever bytes (dashes and digits too) the name has.\<close>
theorem chat_cookie_unique:
  "ChatRoom_Cookie c = ChatRoom_Cookie d \<longleftrightarrow> roomExchange c = roomExchange d \<and> roomName c = roomName d"
proof
  assume eq: "ChatRoom_Cookie c = ChatRoom_Cookie d"
  have "\<not> isDecimal 0x2D" by (simp add: isDecimal_def)
  then have "unat (roomExchange c) = unat (roomExchange d)" "roomName c = roomName d"
    using eq decimal_prefix [of "unat (roomExchange c)" "0x2D"]
    by (auto simp: ChatRoom_Cookie_def ChatRoom_InstanceNumber_def)
  then show "roomExchange c = roomExchange d \<and> roomName c = roomName d" by (simp add: word_unat_eq_iff)
qed (simp add: ChatRoom_Cookie_def ChatRoom_InstanceNumber_def)

lemma unat_hexDigit: "d < 16 \<Longrightarrow> unat (hexDigit d) = (if d < 10 then 0x30 + d else 0x37 + d)"
  by (simp add: hexDigit_def unat_of_nat del: of_nat_add)

lemma hexDigit_inject: "m < 16 \<Longrightarrow> n < 16 \<Longrightarrow> hexDigit m = hexDigit n \<longleftrightarrow> m = n"
proof -
  assume m: "m < 16" and n: "n < 16"
  have "m = n" if "hexDigit m = hexDigit n"
  proof -
    from that have "unat (hexDigit m) = unat (hexDigit n)" by simp
    then show ?thesis unfolding unat_hexDigit [OF m] unat_hexDigit [OF n] by (simp split: if_splits)
  qed
  then show ?thesis by blast
qed

lemma unreserved_unat:
  "unreserved b \<longleftrightarrow> (0x30 \<le> unat b \<and> unat b \<le> 0x39) \<or> (0x41 \<le> unat b \<and> unat b \<le> 0x5A) \<or>
     (0x61 \<le> unat b \<and> unat b \<le> 0x7A) \<or> unat b = 0x2D \<or> unat b = 0x5F \<or> unat b = 0x2E \<or> unat b = 0x7E"
proof -
  have "unat (0x30 :: byte) = 0x30" "unat (0x39 :: byte) = 0x39" "unat (0x41 :: byte) = 0x41" "unat (0x5A :: byte) = 0x5A"
    "unat (0x61 :: byte) = 0x61" "unat (0x7A :: byte) = 0x7A" "unat (0x2D :: byte) = 0x2D" "unat (0x5F :: byte) = 0x5F"
    "unat (0x2E :: byte) = 0x2E" "unat (0x7E :: byte) = 0x7E"
    by simp_all
  then show ?thesis by (simp only: unreserved_def word_le_nat_alt word_unat_eq_iff)
qed

lemma nibbles: "unat (b :: byte) div 16 < 16" "unat b mod 16 < 16"
  using unat_byte [of b] by auto

lemma QueryEscape_chars:
  "list_all (\<lambda>b. unreserved b \<or> b = 0x2B \<or> b = 0x25) (QueryEscape bs)"
proof (induction bs)
  case (Cons b bs)
  have "unreserved (hexDigit d)" if "d < 16" for d
    using that by (auto simp: unat_hexDigit unreserved_unat)
  with Cons.IH nibbles [of b] show ?case by auto
qed simp

lemma QueryEscape_inject: "QueryEscape bs = QueryEscape cs \<Longrightarrow> bs = cs"
proof (induction bs arbitrary: cs)
  case Nil
  then show ?case by (cases cs) (auto split: if_splits)
next
  case (Cons b bs)
  then obtain c cs' where cs: "cs = c # cs'" by (cases cs) (auto split: if_splits)
  have r: "\<not> unreserved 0x2B" "\<not> unreserved 0x25" "\<not> unreserved 0x20" by (simp_all add: unreserved_def)
  have "b = c \<and> QueryEscape bs = QueryEscape cs'"
  proof (cases "unreserved b \<or> b = 0x20 \<or> unreserved c \<or> c = 0x20")
    case True
    then show ?thesis using Cons.prems r by (auto simp: cs split: if_splits)
  next
    case False
    then have "hexDigit (unat b div 16) = hexDigit (unat c div 16)" "hexDigit (unat b mod 16) = hexDigit (unat c mod 16)"
      "QueryEscape bs = QueryEscape cs'" using Cons.prems by (simp_all add: cs)
    then have "unat b div 16 = unat c div 16" "unat b mod 16 = unat c mod 16"
      using hexDigit_inject nibbles by blast+
    then have "unat b = unat c" by (metis div_mult_mod_eq)
    then show ?thesis using \<open>QueryEscape bs = QueryEscape cs'\<close> by (simp add: word_unat_eq_iff)
  qed
  with Cons.IH cs show ?case by blast
qed

text \<open>An invitation link leads to one room: it names the exchange and the room unambiguously, and the
  escaped name has no character that could end the parameter.\<close>
theorem chat_link_unique:
  "(ChatRoom_URL c = ChatRoom_URL d \<longleftrightarrow> roomExchange c = roomExchange d \<and> roomName c = roomName d) \<and>
   0x26 \<notin> set (QueryEscape (roomName c))"
proof -
  have amp: "0x26 \<notin> set (QueryEscape n)" for n
    using QueryEscape_chars [of n] by (auto simp: list_all_iff unreserved_def)
  have "ChatRoom_URL c = ChatRoom_URL d \<Longrightarrow> roomExchange c = roomExchange d \<and> roomName c = roomName d"
  proof -
    assume "ChatRoom_URL c = ChatRoom_URL d"
    then have eq: "QueryEscape (roomName c) @ 0x26 # asciiBytes ''exchange='' @ showDecimal (unat (roomExchange c)) =
        QueryEscape (roomName d) @ 0x26 # asciiBytes ''exchange='' @ showDecimal (unat (roomExchange d))"
      by (simp add: ChatRoom_URL_def asciiBytes_def)
    have tw: "takeWhile (\<lambda>b. b \<noteq> 0x26) (QueryEscape n @ 0x26 # r) = QueryEscape n" for n and r :: bytes
      using amp [of n] by (subst takeWhile_append2) auto
    have "QueryEscape (roomName c) = QueryEscape (roomName d)" using eq tw by metis
    then have "roomName c = roomName d" by (rule QueryEscape_inject)
    moreover have "unat (roomExchange c) = unat (roomExchange d)" using eq calculation showDecimal_inject by simp
    ultimately show ?thesis by (simp add: word_unat_eq_iff)
  qed
  then show ?thesis using amp by (auto simp: ChatRoom_URL_def)
qed

section \<open>Rooms that come apart\<close>

definition guest :: "bytes \<Rightarrow> addReq" where
  "guest n = \<lparr>reqName = n, reqMulti = False, reqCfg = (\<lambda>s. s)\<rparr>"

definition guestSession :: "bytes \<Rightarrow> Session" where
  "guestSession n = SetDisplayScreenName n (SetIdentScreenName n oneInstance)"

lemma guest_simps [simp]:
  "reqName (guest n) = n" "reqMulti (guest n) = False" "(guest n)\<lparr>reqMulti := False\<rparr> = guest n"
  by (simp_all add: guest_def)

lemma guestName [simp]: "DisplayScreenName_IdentScreenName P [98] = [98]"
  by (simp add: DisplayScreenName_IdentScreenName_def ident_ascii isASCII_def asciiLower_def)

lemma guestNew:
  assumes "DisplayScreenName_IdentScreenName P n = n"
  shows "newSession P (guest n) m h = Some (Inr (length h, 0),
     m\<lparr>store := AList.update n (length (slots m)) (store m),
       slots := slots m @ [\<lparr>slotSession = length h, slotRemoved = False, multiSession = False\<rparr>]\<rparr>, h @ [guestSession n])"
proof -
  have "AddInstance (SetDisplayScreenName n (SetIdentScreenName n NewSession)) = Some (0, guestSession n)"
    using first_numbers(1) [of "SetDisplayScreenName n (SetIdentScreenName n NewSession)"]
    by (simp add: AddInstance_def guestSession_def oneInstance_def SetDisplayScreenName_def SetIdentScreenName_def
        NewSession_def)
  moreover have "identScreenName (guestSession n) = n"
    by (simp add: guestSession_def SetDisplayScreenName_def SetIdentScreenName_def)
  ultimately show ?thesis using assms by (simp add: newSession_def guest_def)
qed

lemma closeOnly_cookie [simp]: "chatRoomCookie (closeOnly i s) = chatRoomCookie s"
  by (simp add: closeOnly_def closeMark_def closeCall_def RemoveInstance_def updInst_def)

lemma CloseSession_cookie [simp]: "chatRoomCookie (CloseSession s) = chatRoomCookie s"
proof -
  have "chatRoomCookie (fold closeOnly is s) = chatRoomCookie s" for "is"
    by (induction "is" arbitrary: s) simp_all
  then show ?thesis by (simp add: CloseSession_def)
qed

lemma guestSession_simps [simp]:
  "identScreenName (guestSession n) = n" "identScreenName (SetChatRoomCookie c s) = identScreenName s"
  "chatRoomCookie (SetChatRoomCookie c s) = c" "chatRoomCookie (guestSession n) = []"
  by (simp_all add: guestSession_def SetDisplayScreenName_def SetIdentScreenName_def SetChatRoomCookie_def
      oneInstance_def NewSession_def)

lemma runChat_numeral:
  "runChat P cookie r (numeral k) pc cm h =
     (case chatStep P cookie r pc cm h of
        ChatNext pc1 cm1 h1 \<Rightarrow> runChat P cookie r (pred_numeral k) pc1 cm1 h1
      | ChatBlocked \<Rightarrow> ChatNext pc cm h
      | ChatFatal \<Rightarrow> ChatFatal)"
  by (simp add: numeral_eq_Suc)

lemmas chat_eval = runChat_numeral chatEnter_def chatRestore_def lockRegister_def lockAcquire_def unlockUser_def findRec_def
  slotSess_def guestNew NewInMemorySessionManager_def NewInMemoryChatSessionManager_def updSession_def chatRemoveSession_def
  RemoveSession_def Empty_def Let_def

text \<open>Rejoining a room can split it. A guest who is alone in a room joins it again; while that call waits
  for the first session to be removed, its removal drops the room, and another guest enters it and so
  makes it anew. The first call then succeeds, but its session is in a pool that is no room's: it is
  open and carries the cookie of the room, is not among the participants, gets no message, and
  removing it later changes nothing.\<close>
theorem chat_rejoin_splits_room:
  "\<exists>cm1 h1 cm2 h2 cm3 cm4 h3 cm5 h4.
     runChat P c (guest [97]) 12 ChatStart NewInMemoryChatSessionManager [] = ChatNext (ChatDone (Inr (0, 0))) cm1 h1 \<and>
     runChat P c (guest [97]) 12 ChatStart cm1 h1 = ChatNext (ChatAdding 0 (AtWait 0)) cm2 h2 \<and>
     chatRemoveSession 0 cm2 h2 = Some cm3 \<and>
     runChat P c (guest [98]) 12 ChatStart cm3 h2 = ChatNext (ChatDone (Inr (1, 0))) cm4 h3 \<and>
     runChat P c (guest [97]) 12 (ChatAdding 0 (AtWait 0)) cm4 h3 = ChatNext (ChatDone (Inr (2, 0))) cm5 h4 \<and>
     chatRoomCookie (h4 ! 2) = c \<and> \<not> closed (inst (h4 ! 2) 0) \<and>
     (\<forall>h. 2 \<notin> set (chatAllSessions c cm5 h)) \<and> chatRemoveSession 2 cm5 h4 = Some cm5"
proof -
  let ?s = "SetChatRoomCookie c (guestSession [97])" and ?t = "SetChatRoomCookie c (guestSession [98])"
  let ?free = "\<lparr>held = False, refCount = 0\<rparr>" and ?held = "\<lparr>held = True, refCount = 1\<rparr>"
  let ?slot = "\<lambda>i b. \<lparr>slotSession = i, slotRemoved = b, multiSession = False\<rparr>"
  let ?m1 = "\<lparr>store = [([97], 0)], slots = [?slot 0 False], userLocks = [], lockObjs = [?free], maxConcurrentSessions = 5\<rparr>"
  let ?m2 = "?m1\<lparr>userLocks := [([97], 1)], lockObjs := [?free, ?held]\<rparr>"
  let ?m3 = "?m2\<lparr>store := [], slots := [?slot 0 True]\<rparr>"
  let ?n = "\<lparr>store = [([98], 0)], slots = [?slot 1 False], userLocks = [], lockObjs = [?free], maxConcurrentSessions = 5\<rparr>"
  let ?m4 = "\<lparr>store = [([97], 1)], slots = [?slot 0 True, ?slot 2 False], userLocks = [], lockObjs = [?free, ?free],
    maxConcurrentSessions = 5\<rparr>"
  have 1: "runChat P c (guest [97]) 12 ChatStart NewInMemoryChatSessionManager [] =
      ChatNext (ChatDone (Inr (0, 0))) \<lparr>rooms = [(c, 0)], managers = [?m1]\<rparr> [?s]"
    by (simp add: chat_eval)
  have 2: "runChat P c (guest [97]) 12 ChatStart \<lparr>rooms = [(c, 0)], managers = [?m1]\<rparr> [?s] =
      ChatNext (ChatAdding 0 (AtWait 0)) \<lparr>rooms = [(c, 0)], managers = [?m2]\<rparr> [CloseSession ?s]"
    by (simp add: chat_eval)
  have 3: "chatRemoveSession 0 \<lparr>rooms = [(c, 0)], managers = [?m2]\<rparr> [CloseSession ?s] = Some \<lparr>rooms = [], managers = [?m3]\<rparr>"
    by (simp add: chat_eval)
  have 4: "runChat P c (guest [98]) 12 ChatStart \<lparr>rooms = [], managers = [?m3]\<rparr> [CloseSession ?s] =
      ChatNext (ChatDone (Inr (1, 0))) \<lparr>rooms = [(c, 1)], managers = [?m3, ?n]\<rparr> [CloseSession ?s, ?t]"
    by (simp add: chat_eval)
  have 5: "runChat P c (guest [97]) 12 (ChatAdding 0 (AtWait 0)) \<lparr>rooms = [(c, 1)], managers = [?m3, ?n]\<rparr> [CloseSession ?s, ?t] =
      ChatNext (ChatDone (Inr (2, 0))) \<lparr>rooms = [(c, 1)], managers = [?m4, ?n]\<rparr> [CloseSession ?s, ?t, ?s]"
    by (simp add: chat_eval)
  have o: "\<not> closed (inst ?s 0)"
    by (simp add: inst_def SetChatRoomCookie_def guestSession_def SetDisplayScreenName_def SetIdentScreenName_def
        oneInstance_def newInstance_def)
  have a: "2 \<notin> set (chatAllSessions c \<lparr>rooms = [(c, 1)], managers = [?m4, ?n]\<rparr> h)" for h
    by (simp add: chatAllSessions_def AllSessions_def)
  have r: "chatRemoveSession 2 \<lparr>rooms = [(c, 1)], managers = [?m4, ?n]\<rparr> [CloseSession ?s, ?t, ?s] =
      Some \<lparr>rooms = [(c, 1)], managers = [?m4, ?n]\<rparr>"
    by (simp add: chat_eval)
  from 1 2 3 4 5 o a r show ?thesis by (intro exI conjI) (assumption | simp)+
qed

text \<open>Joining twice at once can stop the server. A call that has got its session but not yet named the
  room in it is overtaken by a second call of the same guest, which closes that session; the function
  that runs on closing then looks for a room without a name and panics.\<close>
theorem chat_join_race_panics:
  "\<exists>cm1 h1 cm2 h2.
     runChat P (ChatRoom_Cookie room) (guest [97]) 6 ChatStart NewInMemoryChatSessionManager [] =
       ChatNext (ChatAdding 0 (AtDone (Inr (0, 0)))) cm1 h1 \<and>
     runChat P (ChatRoom_Cookie room) (guest [97]) 12 ChatStart cm1 h1 = ChatNext (ChatAdding 0 (AtWait 0)) cm2 h2 \<and>
     closeLog (h2 ! 0) = [OnSessCloseFn] \<and> chatRemoveSession 0 cm2 h2 = None"
proof -
  define c where "c = ChatRoom_Cookie room"
  have c: "c \<noteq> []" by (simp add: c_def ChatRoom_Cookie_def)
  let ?s = "guestSession [97]" and ?free = "\<lparr>held = False, refCount = 0\<rparr>" and ?held = "\<lparr>held = True, refCount = 1\<rparr>"
  let ?m1 = "\<lparr>store = [([97], 0)], slots = [\<lparr>slotSession = 0, slotRemoved = False, multiSession = False\<rparr>],
    userLocks = [], lockObjs = [?free], maxConcurrentSessions = 5\<rparr>"
  let ?m2 = "?m1\<lparr>userLocks := [([97], 1)], lockObjs := [?free, ?held]\<rparr>"
  have 1: "runChat P c (guest [97]) 6 ChatStart NewInMemoryChatSessionManager [] =
      ChatNext (ChatAdding 0 (AtDone (Inr (0, 0)))) \<lparr>rooms = [(c, 0)], managers = [?m1]\<rparr> [?s]"
    by (simp add: chat_eval)
  have 2: "runChat P c (guest [97]) 12 ChatStart \<lparr>rooms = [(c, 0)], managers = [?m1]\<rparr> [?s] =
      ChatNext (ChatAdding 0 (AtWait 0)) \<lparr>rooms = [(c, 0)], managers = [?m2]\<rparr> [CloseSession ?s]"
    by (simp add: chat_eval)
  have "sessionOk ?s"
    using session.invar_reachable [OF oneInstance_reachable] sessionOk_frame [of ?s oneInstance]
    by (simp add: guestSession_def SetDisplayScreenName_def SetIdentScreenName_def)
  from CloseSession_correct(5) [OF this] have 3: "closeLog (CloseSession ?s) = [OnSessCloseFn]"
    by (simp add: guestSession_def SetDisplayScreenName_def SetIdentScreenName_def oneInstance_def NewSession_def
        InstanceCount_def)
  have 4: "chatRemoveSession 0 \<lparr>rooms = [(c, 0)], managers = [?m2]\<rparr> [CloseSession ?s] = None"
    using c by (simp add: chatRemoveSession_def)
  show ?thesis unfolding c_def [symmetric] using 1 2 3 4 by (intro exI conjI) (assumption | simp)+
qed

end
