(* ===== verification/State_BuddyLists.thy ===== *)
theory State_BuddyLists
  imports State_User Wire_Values "HOL-Library.AList"
begin

text \<open>
  The tables of buddy lists and privacy settings (\<open>state/user_store.go\<close>) and the query over them that
  decides who sees and reaches whom (\<open>state/relationship.go\<close>). A table is a list of rows, keyed by an
  association list where it has a primary key; a statement is a function on the tables. Failures of
  the database itself are not modelled. Boolean expressions of SQL that can be NULL are written out
  with the value their COALESCE gives them.
\<close>

section \<open>Items\<close>

record FeedbagItem =
  itemName :: bytes
  itemGroupID :: u16
  itemItemID :: u16
  itemClassID :: u16
  itemTLVs :: TLVList

definition zeroFeedbagItem :: FeedbagItem where
  "zeroFeedbagItem = \<lparr>itemName = [], itemGroupID = 0, itemItemID = 0, itemClassID = 0, itemTLVs = []\<rparr>"

abbreviation (input) FeedbagClassIdBuddy :: u16 where "FeedbagClassIdBuddy \<equiv> 0x0000"
abbreviation (input) FeedbagClassIdGroup :: u16 where "FeedbagClassIdGroup \<equiv> 0x0001"
abbreviation (input) FeedbagClassIDPermit :: u16 where "FeedbagClassIDPermit \<equiv> 0x0002"
abbreviation (input) FeedbagClassIDDeny :: u16 where "FeedbagClassIDDeny \<equiv> 0x0003"
abbreviation (input) FeedbagClassIdPdinfo :: u16 where "FeedbagClassIdPdinfo \<equiv> 0x0004"
abbreviation (input) FeedbagAttributesPending :: u16 where "FeedbagAttributesPending \<equiv> 0x0066"
abbreviation (input) FeedbagAttributesPdMode :: u16 where "FeedbagAttributesPdMode \<equiv> 0x00CA"

abbreviation (input) FeedbagPDModePermitAll :: byte where "FeedbagPDModePermitAll \<equiv> 1"
abbreviation (input) FeedbagPDModeDenyAll :: byte where "FeedbagPDModeDenyAll \<equiv> 2"
abbreviation (input) FeedbagPDModePermitSome :: byte where "FeedbagPDModePermitSome \<equiv> 3"
abbreviation (input) FeedbagPDModeDenySome :: byte where "FeedbagPDModeDenySome \<equiv> 4"
abbreviation (input) FeedbagPDModePermitOnList :: byte where "FeedbagPDModePermitOnList \<equiv> 5"

section \<open>Tables\<close>

record feedbagRow =
  fbScreenName :: IdentScreenName
  fbGroupID :: u16
  fbItemID :: u16
  fbClassID :: u16
  fbName :: bytes
  fbAttributes :: bytes
  fbPdMode :: byte
  fbAuthPending :: bool
  fbLastModified :: int

record listMode =
  clientSidePDMode :: byte
  useFeedbag :: bool

record sideEntry =
  isBuddy :: bool
  isPermit :: bool
  isDeny :: bool

text \<open>\<open>authFlags\<close> is the column of the users table that says whether adding the user needs consent;
  the users are its keys.\<close>

record ListStore =
  feedbag :: "feedbagRow list"
  buddyListMode :: "(IdentScreenName \<times> listMode) list"
  clientSideBuddyList :: "((IdentScreenName \<times> IdentScreenName) \<times> sideEntry) list"
  contactPreauth :: "(IdentScreenName \<times> IdentScreenName) list"
  buddyAddedNotifications :: "(IdentScreenName \<times> IdentScreenName) list"
  authFlags :: "(IdentScreenName \<times> bool) list"

section \<open>The server-side list\<close>

definition fbKey :: "feedbagRow \<Rightarrow> IdentScreenName \<times> u16 \<times> u16" where
  "fbKey r = (fbScreenName r, fbGroupID r, fbItemID r)"

text \<open>\<open>INSERT ... ON CONFLICT DO UPDATE\<close> on the unique key.\<close>

fun upsertRow :: "feedbagRow \<Rightarrow> feedbagRow list \<Rightarrow> feedbagRow list" where
  "upsertRow r [] = [r]"
| "upsertRow r (x # xs) = (if fbKey x = fbKey r then r # xs else x # upsertRow r xs)"

definition hasScreenName :: "u16 \<Rightarrow> bool" where
  "hasScreenName classID \<longleftrightarrow> classID = FeedbagClassIdBuddy \<or> classID = FeedbagClassIDPermit \<or> classID = FeedbagClassIDDeny"

text \<open>The row one item is stored as, at time \<open>now\<close> in seconds.\<close>

definition feedbagRowOf :: "platform \<Rightarrow> int \<Rightarrow> IdentScreenName \<Rightarrow> FeedbagItem \<Rightarrow> gerr + feedbagRow" where
  "feedbagRowOf P now screenName item =
     ebind (MarshalBE (Some (TLVLBlock_type, TLVList_val (itemTLVs item)))) (\<lambda>buf.
       Inr \<lparr>fbScreenName = screenName, fbGroupID = itemGroupID item, fbItemID = itemItemID item,
         fbClassID = itemClassID item,
         fbName = (if hasScreenName (itemClassID item) then NewIdentScreenName P (itemName item) else itemName item),
         fbAttributes = buf,
         fbPdMode = (if itemClassID item = FeedbagClassIdPdinfo
           then (case TLVList_Uint8 (itemTLVs item) FeedbagAttributesPdMode of None \<Rightarrow> FeedbagPDModePermitAll | Some m \<Rightarrow> m)
           else 0),
         fbAuthPending = (itemClassID item = FeedbagClassIdBuddy \<and> TLVList_HasTag (itemTLVs item) FeedbagAttributesPending),
         fbLastModified = now\<rparr>)"

text \<open>No transaction: an item that cannot be encoded leaves the ones before it stored.\<close>

fun FeedbagUpsert :: "platform \<Rightarrow> int \<Rightarrow> IdentScreenName \<Rightarrow> FeedbagItem list \<Rightarrow> ListStore \<Rightarrow> gerr option \<times> ListStore" where
  "FeedbagUpsert P now screenName [] st = (None, st)"
| "FeedbagUpsert P now screenName (item # items) st =
     (case feedbagRowOf P now screenName item of
        Inl e \<Rightarrow> (Some e, st)
      | Inr row \<Rightarrow> FeedbagUpsert P now screenName items (st\<lparr>feedbag := upsertRow row (feedbag st)\<rparr>))"

fun FeedbagDelete :: "IdentScreenName \<Rightarrow> FeedbagItem list \<Rightarrow> ListStore \<Rightarrow> ListStore" where
  "FeedbagDelete screenName [] st = st"
| "FeedbagDelete screenName (item # items) st = FeedbagDelete screenName items
     (st\<lparr>feedbag := filter (\<lambda>r. fbKey r \<noteq> (screenName, itemGroupID item, itemItemID item)) (feedbag st)\<rparr>)"

definition toTLV :: "gval \<Rightarrow> TLV" where
  "toTLV v = \<lparr>Tag = asU16 (field 0 v), Value = asBytes (field 1 v)\<rparr>"

definition toTLVList :: "gval \<Rightarrow> TLVList" where
  "toTLVList v = (case field 0 v of VSlice vs \<Rightarrow> map toTLV vs | _ \<Rightarrow> [])"

fun readItems :: "feedbagRow list \<Rightarrow> FeedbagItem list \<times> gerr option" where
  "readItems [] = ([], None)"
| "readItems (r # rs) =
     (case UnmarshalBE TLVLBlock_type (fbAttributes r) of
        (Inl e, _) \<Rightarrow> ([], Some e)
      | (Inr v, _) \<Rightarrow>
          (let (items, err) = readItems rs in
           (\<lparr>itemName = fbName r, itemGroupID = fbGroupID r, itemItemID = fbItemID r, itemClassID = fbClassID r,
             itemTLVs = toTLVList v\<rparr> # items, err)))"

definition Feedbag :: "IdentScreenName \<Rightarrow> ListStore \<Rightarrow> FeedbagItem list \<times> gerr option" where
  "Feedbag screenName st = readItems (filter (\<lambda>r. fbScreenName r = screenName) (feedbag st))"

text \<open>MAX over no rows is NULL, which reads as second 0.\<close>

definition FeedbagLastModified :: "IdentScreenName \<Rightarrow> ListStore \<Rightarrow> int" where
  "FeedbagLastModified screenName st =
     (case map fbLastModified (filter (\<lambda>r. fbScreenName r = screenName) (feedbag st)) of
        [] \<Rightarrow> 0 | t # ts \<Rightarrow> fold max ts t)"

section \<open>Registration and the client-side list\<close>

definition ClearBuddyListRegistry :: "ListStore \<Rightarrow> ListStore" where
  "ClearBuddyListRegistry st = st\<lparr>buddyListMode := [], clientSideBuddyList := []\<rparr>"

definition RegisterBuddyList :: "IdentScreenName \<Rightarrow> ListStore \<Rightarrow> ListStore" where
  "RegisterBuddyList user st =
     (case map_of (buddyListMode st) user of
        Some m \<Rightarrow> st
      | None \<Rightarrow> st\<lparr>buddyListMode := AList.update user \<lparr>clientSidePDMode = FeedbagPDModePermitAll, useFeedbag = False\<rparr> (buddyListMode st)\<rparr>)"

definition UnregisterBuddyList :: "IdentScreenName \<Rightarrow> ListStore \<Rightarrow> ListStore" where
  "UnregisterBuddyList user st = st\<lparr>buddyListMode := AList.delete user (buddyListMode st),
     clientSideBuddyList := filter (\<lambda>((me, them), e). me \<noteq> user) (clientSideBuddyList st)\<rparr>"

definition UseFeedbag :: "IdentScreenName \<Rightarrow> ListStore \<Rightarrow> ListStore" where
  "UseFeedbag screenName st =
     st\<lparr>buddyListMode := AList.update screenName \<lparr>clientSidePDMode = 0, useFeedbag = True\<rparr> (buddyListMode st)\<rparr>"

definition isPDModeEqual :: "IdentScreenName \<Rightarrow> byte \<Rightarrow> ListStore \<Rightarrow> bool" where
  "isPDModeEqual me pdMode st =
     (case map_of (buddyListMode st) me of None \<Rightarrow> False | Some m \<Rightarrow> clientSidePDMode m = pdMode)"

definition setClientSidePDMode :: "IdentScreenName \<Rightarrow> byte \<Rightarrow> ListStore \<Rightarrow> ListStore" where
  "setClientSidePDMode me pdMode st =
     st\<lparr>buddyListMode := AList.update me
       (case map_of (buddyListMode st) me of
          None \<Rightarrow> \<lparr>clientSidePDMode = pdMode, useFeedbag = False\<rparr>
        | Some m \<Rightarrow> m\<lparr>clientSidePDMode := pdMode\<rparr>) (buddyListMode st)\<rparr>"

definition clearClientSidePDFlags :: "IdentScreenName \<Rightarrow> ListStore \<Rightarrow> ListStore" where
  "clearClientSidePDFlags me st =
     st\<lparr>clientSideBuddyList := map (\<lambda>(k, e). (k, if fst k = me then e\<lparr>isDeny := False, isPermit := False\<rparr> else e))
       (clientSideBuddyList st)\<rparr>"

definition clearBlankClientSideBuddies :: "IdentScreenName \<Rightarrow> ListStore \<Rightarrow> ListStore" where
  "clearBlankClientSideBuddies me st =
     st\<lparr>clientSideBuddyList := filter (\<lambda>(k, e). \<not> (\<not> isBuddy e \<and> \<not> isPermit e \<and> \<not> isDeny e \<and> fst k = me))
       (clientSideBuddyList st)\<rparr>"

definition SetPDMode :: "IdentScreenName \<Rightarrow> byte \<Rightarrow> ListStore \<Rightarrow> ListStore" where
  "SetPDMode me pdMode st =
     (if isPDModeEqual me pdMode st then st
      else clearBlankClientSideBuddies me (clearClientSidePDFlags me (setClientSidePDMode me pdMode st)))"

definition sideEntryOf :: "IdentScreenName \<Rightarrow> IdentScreenName \<Rightarrow> ListStore \<Rightarrow> sideEntry" where
  "sideEntryOf me them st =
     (case map_of (clientSideBuddyList st) (me, them) of
        None \<Rightarrow> \<lparr>isBuddy = False, isPermit = False, isDeny = False\<rparr> | Some e \<Rightarrow> e)"

text \<open>\<open>INSERT ... ON CONFLICT DO UPDATE SET\<close> one flag, and \<open>UPDATE ... SET\<close> one flag.\<close>

definition insertFlag :: "(sideEntry \<Rightarrow> sideEntry) \<Rightarrow> IdentScreenName \<Rightarrow> IdentScreenName \<Rightarrow> ListStore \<Rightarrow> ListStore" where
  "insertFlag f me them st =
     st\<lparr>clientSideBuddyList := AList.update (me, them) (f (sideEntryOf me them st)) (clientSideBuddyList st)\<rparr>"

definition updateFlag :: "(sideEntry \<Rightarrow> sideEntry) \<Rightarrow> IdentScreenName \<Rightarrow> IdentScreenName \<Rightarrow> ListStore \<Rightarrow> ListStore" where
  "updateFlag f me them st =
     st\<lparr>clientSideBuddyList := AList.map_entry (me, them) f (clientSideBuddyList st)\<rparr>"

definition AddBuddy :: "IdentScreenName \<Rightarrow> IdentScreenName \<Rightarrow> ListStore \<Rightarrow> ListStore" where
  "AddBuddy = insertFlag (isBuddy_update (\<lambda>_. True))"

definition RemoveBuddy :: "IdentScreenName \<Rightarrow> IdentScreenName \<Rightarrow> ListStore \<Rightarrow> ListStore" where
  "RemoveBuddy = updateFlag (isBuddy_update (\<lambda>_. False))"

definition DenyBuddy :: "IdentScreenName \<Rightarrow> IdentScreenName \<Rightarrow> ListStore \<Rightarrow> ListStore" where
  "DenyBuddy = insertFlag (isDeny_update (\<lambda>_. True))"

definition RemoveDenyBuddy :: "IdentScreenName \<Rightarrow> IdentScreenName \<Rightarrow> ListStore \<Rightarrow> ListStore" where
  "RemoveDenyBuddy = updateFlag (isDeny_update (\<lambda>_. False))"

definition PermitBuddy :: "IdentScreenName \<Rightarrow> IdentScreenName \<Rightarrow> ListStore \<Rightarrow> ListStore" where
  "PermitBuddy = insertFlag (isPermit_update (\<lambda>_. True))"

definition RemovePermitBuddy :: "IdentScreenName \<Rightarrow> IdentScreenName \<Rightarrow> ListStore \<Rightarrow> ListStore" where
  "RemovePermitBuddy = updateFlag (isPermit_update (\<lambda>_. False))"

section \<open>Consent\<close>

definition RequiresAuthorization :: "IdentScreenName \<Rightarrow> IdentScreenName \<Rightarrow> ListStore \<Rightarrow> bool" where
  "RequiresAuthorization owner requester st =
     (case map_of (authFlags st) owner of
        None \<Rightarrow> False
      | Some req \<Rightarrow> if \<not> req then False else (owner, requester) \<notin> set (contactPreauth st))"

text \<open>\<open>INSERT OR IGNORE\<close> under foreign keys on both columns: no row unless both users exist.\<close>

definition RecordPreAuth :: "IdentScreenName \<Rightarrow> IdentScreenName \<Rightarrow> ListStore \<Rightarrow> ListStore" where
  "RecordPreAuth owner requester st =
     (if map_of (authFlags st) owner = None \<or> map_of (authFlags st) requester = None then st
      else st\<lparr>contactPreauth := List.insert (owner, requester) (contactPreauth st)\<rparr>)"

definition RevokePreAuth :: "IdentScreenName \<Rightarrow> IdentScreenName \<Rightarrow> ListStore \<Rightarrow> ListStore" where
  "RevokePreAuth owner authorized st = st\<lparr>contactPreauth := removeAll (owner, authorized) (contactPreauth st)\<rparr>"

definition HasBuddyAddedNotification :: "IdentScreenName \<Rightarrow> IdentScreenName \<Rightarrow> ListStore \<Rightarrow> bool" where
  "HasBuddyAddedNotification granter requester st \<longleftrightarrow> (granter, requester) \<in> set (buddyAddedNotifications st)"

definition RecordBuddyAddedNotification :: "IdentScreenName \<Rightarrow> IdentScreenName \<Rightarrow> ListStore \<Rightarrow> ListStore" where
  "RecordBuddyAddedNotification granter requester st =
     (if map_of (authFlags st) granter = None \<or> map_of (authFlags st) requester = None then st
      else st\<lparr>buddyAddedNotifications := List.insert (granter, requester) (buddyAddedNotifications st)\<rparr>)"

section \<open>Relationships\<close>

text \<open>A row of the result. (The code normalises the name of the user once more; the names of the tables
  are normalised already.)\<close>

record RelationshipRow =
  relUser :: IdentScreenName
  relBlocksYou :: bool
  relYouBlock :: bool
  relIsOnTheirList :: bool
  relIsOnYourList :: bool

text \<open>The rows of \<open>feedbag\<close> that one user has about another, grouped: \<open>None\<close> when there is no row, or
  the list is not the one in use.\<close>

definition feedbagEntry :: "ListStore \<Rightarrow> IdentScreenName \<Rightarrow> IdentScreenName \<Rightarrow> sideEntry option" where
  "feedbagEntry st owner name =
     (let rows = filter (\<lambda>r. fbScreenName r = owner \<and> fbName r = name \<and> fbClassID r \<in> {0, 2, 3}) (feedbag st);
          inUse = (case map_of (buddyListMode st) owner of None \<Rightarrow> False | Some m \<Rightarrow> useFeedbag m) in
      if \<not> inUse \<or> rows = [] then None
      else Some \<lparr>isBuddy = list_ex (\<lambda>r. fbClassID r = 0 \<and> \<not> fbAuthPending r) rows,
                 isPermit = list_ex (\<lambda>r. fbClassID r = 2) rows,
                 isDeny = list_ex (\<lambda>r. fbClassID r = 3) rows\<rparr>)"

text \<open>The full outer join of the two kinds of list: what \<open>owner\<close>'s lists say about \<open>name\<close>.\<close>

definition listEntry :: "ListStore \<Rightarrow> IdentScreenName \<Rightarrow> IdentScreenName \<Rightarrow> sideEntry option" where
  "listEntry st owner name =
     (case (map_of (clientSideBuddyList st) (owner, name), feedbagEntry st owner name) of
        (None, None) \<Rightarrow> None
      | (Some c, None) \<Rightarrow> Some c
      | (None, Some f) \<Rightarrow> Some f
      | (Some c, Some f) \<Rightarrow> Some \<lparr>isBuddy = (isBuddy c \<or> isBuddy f), isPermit = (isPermit c \<or> isPermit f),
          isDeny = (isDeny c \<or> isDeny f)\<rparr>)"

text \<open>The privacy modes of a user: the left join gives one row per privacy item of the user, or one.\<close>

definition privacyPrefs :: "ListStore \<Rightarrow> IdentScreenName \<Rightarrow> byte list" where
  "privacyPrefs st user =
     (case map_of (buddyListMode st) user of
        None \<Rightarrow> []
      | Some m \<Rightarrow>
          (let items = filter (\<lambda>r. fbScreenName r = user \<and> fbClassID r = 4) (feedbag st) in
           if items = [] then [if useFeedbag m then 1 else clientSidePDMode m]
           else map (\<lambda>r. if useFeedbag m then fbPdMode r else clientSidePDMode m) items))"

definition blocks :: "byte \<Rightarrow> sideEntry option \<Rightarrow> bool" where
  "blocks pdMode e =
     (if pdMode = 1 then False
      else if pdMode = 2 then True
      else if pdMode = 3 then (case e of None \<Rightarrow> True | Some f \<Rightarrow> \<not> isPermit f)
      else if pdMode = 4 then (case e of None \<Rightarrow> False | Some f \<Rightarrow> isDeny f)
      else if pdMode = 5 then (case e of None \<Rightarrow> True | Some f \<Rightarrow> \<not> isBuddy f)
      else False)"

definition onList :: "sideEntry option \<Rightarrow> bool" where
  "onList e = (case e of None \<Rightarrow> False | Some f \<Rightarrow> isBuddy f)"

text \<open>Everybody the lists could mention; the joins keep those with an entry on one side.\<close>

definition listedNames :: "ListStore \<Rightarrow> IdentScreenName list" where
  "listedNames st = remdups (map fbScreenName (feedbag st) @ map fbName (feedbag st)
     @ map (fst \<circ> fst) (clientSideBuddyList st) @ map (snd \<circ> fst) (clientSideBuddyList st))"

definition AllRelationships :: "IdentScreenName \<Rightarrow> IdentScreenName list \<Rightarrow> ListStore \<Rightarrow> RelationshipRow list" where
  "AllRelationships me filterNames st =
     concat (map (\<lambda>them.
       concat (map (\<lambda>theirMode. map (\<lambda>yourMode.
          \<lparr>relUser = them, relBlocksYou = blocks theirMode (listEntry st them me),
           relYouBlock = blocks yourMode (listEntry st me them),
           relIsOnTheirList = onList (listEntry st them me), relIsOnYourList = onList (listEntry st me them)\<rparr>)
         (privacyPrefs st me)) (privacyPrefs st them)))
     (filter (\<lambda>them. (listEntry st me them \<noteq> None \<or> listEntry st them me \<noteq> None) \<and>
        (filterNames = [] \<or> them \<in> set filterNames)) (listedNames st)))"

definition Relationship :: "IdentScreenName \<Rightarrow> IdentScreenName \<Rightarrow> ListStore \<Rightarrow> RelationshipRow" where
  "Relationship me them st =
     (case AllRelationships me [them] st of
        [] \<Rightarrow> \<lparr>relUser = them, relBlocksYou = False, relYouBlock = False, relIsOnTheirList = False, relIsOnYourList = False\<rparr>
      | r # _ \<Rightarrow> r)"

section \<open>Lemmas\<close>

lemma privacyPrefs_cong:
  "feedbag st' = feedbag st \<Longrightarrow> map_of (buddyListMode st') v = map_of (buddyListMode st) v \<Longrightarrow>
     privacyPrefs st' v = privacyPrefs st v"
  by (simp only: privacyPrefs_def)

lemma listEntry_listed:
  assumes "listEntry st a b \<noteq> None"
  shows "a \<in> set (listedNames st) \<and> b \<in> set (listedNames st)"
proof -
  consider (side) e where "map_of (clientSideBuddyList st) (a, b) = Some e" | (fb) "feedbagEntry st a b \<noteq> None"
    using assms by (fastforce simp: listEntry_def split: option.splits)
  then show ?thesis
  proof cases
    case side
    then have "((a, b), e) \<in> set (clientSideBuddyList st)" by (rule map_of_SomeD)
    then show ?thesis by (force simp: listedNames_def)
  next
    case fb
    then obtain r where "r \<in> set (feedbag st)" "fbScreenName r = a" "fbName r = b"
      by (fastforce simp: feedbagEntry_def Let_def filter_empty_conv split: if_splits)
    then show ?thesis by (force simp: listedNames_def)
  qed
qed

lemma AllRelationships_iff:
  "r \<in> set (AllRelationships me ns st) \<longleftrightarrow>
     (listEntry st me (relUser r) \<noteq> None \<or> listEntry st (relUser r) me \<noteq> None) \<and> (ns = [] \<or> relUser r \<in> set ns) \<and>
     (\<exists>tm\<in>set (privacyPrefs st (relUser r)). \<exists>ym\<in>set (privacyPrefs st me).
        r = \<lparr>relUser = relUser r, relBlocksYou = blocks tm (listEntry st (relUser r) me),
             relYouBlock = blocks ym (listEntry st me (relUser r)),
             relIsOnTheirList = onList (listEntry st (relUser r) me), relIsOnYourList = onList (listEntry st me (relUser r))\<rparr>)"
proof -
  have "listEntry st me u \<noteq> None \<or> listEntry st u me \<noteq> None \<Longrightarrow> u \<in> set (listedNames st)" for u
    using listEntry_listed by blast
  then show ?thesis by (auto simp: AllRelationships_def)
qed

section \<open>Properties\<close>

text \<open>Both users see the same relationship. Whatever the tables hold, a row about \<open>them\<close> in the result
  for \<open>me\<close> is, with the directions exchanged, a row about \<open>me\<close> in the result for \<open>them\<close>; and the query
  restricted to some names gives exactly the rows about those names.\<close>
theorem relationships_mirror:
  "(\<lparr>relUser = them, relBlocksYou = b, relYouBlock = y, relIsOnTheirList = t, relIsOnYourList = l\<rparr>
      \<in> set (AllRelationships me [] st) \<longleftrightarrow>
    \<lparr>relUser = me, relBlocksYou = y, relYouBlock = b, relIsOnTheirList = l, relIsOnYourList = t\<rparr>
      \<in> set (AllRelationships them [] st)) \<and>
   set (AllRelationships me (n # ns) st) = {r \<in> set (AllRelationships me [] st). relUser r \<in> set (n # ns)}"
proof
  show "\<lparr>relUser = them, relBlocksYou = b, relYouBlock = y, relIsOnTheirList = t, relIsOnYourList = l\<rparr>
      \<in> set (AllRelationships me [] st) \<longleftrightarrow>
    \<lparr>relUser = me, relBlocksYou = y, relYouBlock = b, relIsOnTheirList = l, relIsOnYourList = t\<rparr>
      \<in> set (AllRelationships them [] st)"
    by (auto simp: AllRelationships_iff)
  have "r \<in> set (AllRelationships me (n # ns) st) \<longleftrightarrow> r \<in> set (AllRelationships me [] st) \<and> relUser r \<in> set (n # ns)" for r
    unfolding AllRelationships_iff by blast
  then show "set (AllRelationships me (n # ns) st) = {r \<in> set (AllRelationships me [] st). relUser r \<in> set (n # ns)}"
    by blast
qed

text \<open>A privacy setting does nothing against strangers. When neither user has the other on any list,
  the relationship is the default one, in which nobody blocks anybody, even if one of them has set the
  mode that denies everybody or the one that permits only those on a list.\<close>
theorem strangers_are_not_blocked:
  assumes "listEntry st me them = None" and "listEntry st them me = None"
  shows "\<not> relBlocksYou (Relationship me them st) \<and> \<not> relYouBlock (Relationship me them st)"
proof -
  have "r \<notin> set (AllRelationships me [them] st)" for r
    using assms by (auto simp: AllRelationships_iff)
  then have "AllRelationships me [them] st = []" by (cases "AllRelationships me [them] st") auto
  then show ?thesis by (simp add: Relationship_def)
qed

definition emptyStore :: ListStore where
  "emptyStore = \<lparr>feedbag = [], buddyListMode = [], clientSideBuddyList = [], contactPreauth = [],
     buddyAddedNotifications = [], authFlags = []\<rparr>"

lemma strangers_are_not_blocked_witness:
  "privacyPrefs (SetPDMode [98] FeedbagPDModeDenyAll (RegisterBuddyList [98] (RegisterBuddyList [97] emptyStore))) [98] = [FeedbagPDModeDenyAll] \<and>
   \<not> relBlocksYou (Relationship [97] [98]
       (SetPDMode [98] FeedbagPDModeDenyAll (RegisterBuddyList [98] (RegisterBuddyList [97] emptyStore))))"
proof -
  let ?st = "SetPDMode [98] FeedbagPDModeDenyAll (RegisterBuddyList [98] (RegisterBuddyList [97] emptyStore))"
  have m: "feedbag ?st = []" "clientSideBuddyList ?st = []"
    "map_of (buddyListMode ?st) [98] = Some \<lparr>clientSidePDMode = FeedbagPDModeDenyAll, useFeedbag = False\<rparr>"
    by (simp_all add: SetPDMode_def isPDModeEqual_def RegisterBuddyList_def emptyStore_def setClientSidePDMode_def
        clearClientSidePDFlags_def clearBlankClientSideBuddies_def)
  then have "listEntry ?st a b = None" for a b by (simp add: listEntry_def feedbagEntry_def)
  with strangers_are_not_blocked [of ?st "[97]" "[98]"] m show ?thesis by (simp add: privacyPrefs_def)
qed

lemma SetPDMode_tables:
  "feedbag (SetPDMode me mode st) = feedbag st"
  "map_of (buddyListMode (SetPDMode me mode st)) u =
     (if u = me then Some (case map_of (buddyListMode st) me of None \<Rightarrow> \<lparr>clientSidePDMode = mode, useFeedbag = False\<rparr>
        | Some m \<Rightarrow> m\<lparr>clientSidePDMode := mode\<rparr>) else map_of (buddyListMode st) u)"
  "((u, them), e) \<in> set (clientSideBuddyList (SetPDMode me mode st)) \<longleftrightarrow>
     (if u = me \<and> \<not> isPDModeEqual me mode st
      then \<exists>e'. ((me, them), e') \<in> set (clientSideBuddyList st) \<and> isBuddy e' \<and> e = e'\<lparr>isPermit := False, isDeny := False\<rparr>
      else ((u, them), e) \<in> set (clientSideBuddyList st))"
proof -
  show "feedbag (SetPDMode me mode st) = feedbag st"
    by (simp add: SetPDMode_def setClientSidePDMode_def clearClientSidePDFlags_def clearBlankClientSideBuddies_def)
  show "map_of (buddyListMode (SetPDMode me mode st)) u =
     (if u = me then Some (case map_of (buddyListMode st) me of None \<Rightarrow> \<lparr>clientSidePDMode = mode, useFeedbag = False\<rparr>
        | Some m \<Rightarrow> m\<lparr>clientSidePDMode := mode\<rparr>) else map_of (buddyListMode st) u)"
  proof (cases "isPDModeEqual me mode st")
    case True
    then obtain m where "map_of (buddyListMode st) me = Some m" "clientSidePDMode m = mode"
      by (auto simp: isPDModeEqual_def split: option.splits)
    moreover have "m\<lparr>clientSidePDMode := clientSidePDMode m\<rparr> = m" by simp
    ultimately show ?thesis using True by (auto simp: SetPDMode_def)
  next
    case False
    then show ?thesis
      by (simp add: SetPDMode_def setClientSidePDMode_def clearClientSidePDFlags_def clearBlankClientSideBuddies_def
          update_conv')
  qed
  show "((u, them), e) \<in> set (clientSideBuddyList (SetPDMode me mode st)) \<longleftrightarrow>
     (if u = me \<and> \<not> isPDModeEqual me mode st
      then \<exists>e'. ((me, them), e') \<in> set (clientSideBuddyList st) \<and> isBuddy e' \<and> e = e'\<lparr>isPermit := False, isDeny := False\<rparr>
      else ((u, them), e) \<in> set (clientSideBuddyList st))"
    by (force simp: SetPDMode_def setClientSidePDMode_def clearClientSidePDFlags_def clearBlankClientSideBuddies_def)
qed

text \<open>Setting the privacy mode takes effect and forgets the old lists. A user without a server-side list
  is in the new mode afterwards; if it is another mode than before, no entry of the client-side list
  permits or denies anybody any more and only buddies are left; nobody else's settings or lists change;
  setting the same mode again changes nothing.\<close>
theorem SetPDMode_correct:
  assumes "case map_of (buddyListMode st) me of None \<Rightarrow> True | Some m \<Rightarrow> \<not> useFeedbag m"
  shows "set (privacyPrefs (SetPDMode me mode st) me) = {mode} \<and>
    (\<not> isPDModeEqual me mode st \<longrightarrow> (\<forall>them e. ((me, them), e) \<in> set (clientSideBuddyList (SetPDMode me mode st)) \<longleftrightarrow>
       (\<exists>e'. ((me, them), e') \<in> set (clientSideBuddyList st) \<and> isBuddy e' \<and> e = e'\<lparr>isPermit := False, isDeny := False\<rparr>))) \<and>
    (\<forall>u. u \<noteq> me \<longrightarrow> privacyPrefs (SetPDMode me mode st) u = privacyPrefs st u \<and> (\<forall>them e.
      ((u, them), e) \<in> set (clientSideBuddyList (SetPDMode me mode st)) \<longleftrightarrow> ((u, them), e) \<in> set (clientSideBuddyList st))) \<and>
    SetPDMode me mode (SetPDMode me mode st) = SetPDMode me mode st"
proof (intro conjI)
  note t = SetPDMode_tables
  show "set (privacyPrefs (SetPDMode me mode st) me) = {mode}"
    using assms by (auto simp: privacyPrefs_def t Let_def filter_empty_conv image_iff split: option.splits)
  show "\<not> isPDModeEqual me mode st \<longrightarrow> (\<forall>them e. ((me, them), e) \<in> set (clientSideBuddyList (SetPDMode me mode st)) \<longleftrightarrow>
       (\<exists>e'. ((me, them), e') \<in> set (clientSideBuddyList st) \<and> isBuddy e' \<and> e = e'\<lparr>isPermit := False, isDeny := False\<rparr>))"
    by (simp add: t(3))
  show "\<forall>u. u \<noteq> me \<longrightarrow> privacyPrefs (SetPDMode me mode st) u = privacyPrefs st u \<and> (\<forall>them e.
      ((u, them), e) \<in> set (clientSideBuddyList (SetPDMode me mode st)) \<longleftrightarrow> ((u, them), e) \<in> set (clientSideBuddyList st))"
    unfolding privacyPrefs_def t(1) by (simp add: t)
  have "isPDModeEqual me mode (SetPDMode me mode st)"
    by (auto simp: isPDModeEqual_def t split: option.splits)
  then show "SetPDMode me mode (SetPDMode me mode st) = SetPDMode me mode st" by (simp add: SetPDMode_def [of _ _ "SetPDMode me mode st"])
qed

lemma SetPDMode_correct_witness:
  "set (privacyPrefs (SetPDMode [97] FeedbagPDModePermitOnList (DenyBuddy [97] [98] (AddBuddy [97] [98] emptyStore))) [97]) =
     {FeedbagPDModePermitOnList} \<and>
   ((([97], [98]), \<lparr>isBuddy = True, isPermit = False, isDeny = False\<rparr>) \<in> set (clientSideBuddyList
     (SetPDMode [97] FeedbagPDModePermitOnList (DenyBuddy [97] [98] (AddBuddy [97] [98] emptyStore)))))"
proof -
  let ?st = "DenyBuddy [97] [98] (AddBuddy [97] [98] emptyStore)"
  have st: "clientSideBuddyList ?st = [(([97], [98]), \<lparr>isBuddy = True, isPermit = False, isDeny = True\<rparr>)]"
    "buddyListMode ?st = []"
    by (simp_all add: DenyBuddy_def AddBuddy_def insertFlag_def sideEntryOf_def emptyStore_def)
  note c = SetPDMode_correct [of ?st "[97]" FeedbagPDModePermitOnList]
  have n: "\<not> isPDModeEqual [97] FeedbagPDModePermitOnList ?st" by (simp add: st isPDModeEqual_def)
  from c st have "\<not> isPDModeEqual [97] FeedbagPDModePermitOnList ?st \<longrightarrow> (\<forall>them e. (([97], them), e) \<in> set (clientSideBuddyList
      (SetPDMode [97] FeedbagPDModePermitOnList ?st)) \<longleftrightarrow> (\<exists>e'. (([97], them), e') \<in> set (clientSideBuddyList ?st) \<and> isBuddy e' \<and>
      e = e'\<lparr>isPermit := False, isDeny := False\<rparr>))" "set (privacyPrefs (SetPDMode [97] FeedbagPDModePermitOnList ?st) [97]) = {FeedbagPDModePermitOnList}"
    by simp_all
  with n st show ?thesis by simp
qed

section \<open>The invariant of the tables\<close>

definition storeKeysOk :: "ListStore \<Rightarrow> bool" where
  "storeKeysOk st \<longleftrightarrow> distinct (map fbKey (feedbag st)) \<and> distinct (map fst (buddyListMode st)) \<and>
     distinct (map fst (clientSideBuddyList st)) \<and> distinct (contactPreauth st) \<and> distinct (buddyAddedNotifications st) \<and>
     (\<forall>p\<in>set (contactPreauth st) \<union> set (buddyAddedNotifications st).
        map_of (authFlags st) (fst p) \<noteq> None \<and> map_of (authFlags st) (snd p) \<noteq> None)"

lemma upsertRow_keys:
  "set (map fbKey (upsertRow r xs)) = insert (fbKey r) (set (map fbKey xs))"
  "distinct (map fbKey xs) \<Longrightarrow> distinct (map fbKey (upsertRow r xs))"
proof -
  show keys: "set (map fbKey (upsertRow r xs)) = insert (fbKey r) (set (map fbKey xs))" for xs
    by (induction xs) auto
  show "distinct (map fbKey xs) \<Longrightarrow> distinct (map fbKey (upsertRow r xs))"
  proof (induction xs)
    case (Cons x xs)
    then show ?case using keys [of xs] by auto
  qed simp
qed

lemma upsertRow_set:
  "distinct (map fbKey xs) \<Longrightarrow> set (upsertRow r xs) = insert r {x \<in> set xs. fbKey x \<noteq> fbKey r}"
proof (induction xs)
  case (Cons x xs)
  then have "fbKey x \<notin> fbKey ` set xs" by simp
  then have "fbKey x = fbKey r \<Longrightarrow> \<forall>y\<in>set xs. fbKey y \<noteq> fbKey r" by (metis image_eqI)
  with Cons show ?case by auto
qed simp

inductive listStep :: "platform \<Rightarrow> ListStore \<Rightarrow> ListStore \<Rightarrow> bool" for P where
  "FeedbagUpsert P now u items st = (err, st') \<Longrightarrow> listStep P st st'"
| "listStep P st (FeedbagDelete u items st)"
| "listStep P st (ClearBuddyListRegistry st)"
| "listStep P st (RegisterBuddyList u st)"
| "listStep P st (UnregisterBuddyList u st)"
| "listStep P st (UseFeedbag u st)"
| "listStep P st (SetPDMode u mode st)"
| "listStep P st (AddBuddy u v st)"
| "listStep P st (RemoveBuddy u v st)"
| "listStep P st (DenyBuddy u v st)"
| "listStep P st (RemoveDenyBuddy u v st)"
| "listStep P st (PermitBuddy u v st)"
| "listStep P st (RemovePermitBuddy u v st)"
| "listStep P st (RecordPreAuth u v st)"
| "listStep P st (RevokePreAuth u v st)"
| "listStep P st (RecordBuddyAddedNotification u v st)"

lemma storeKeysOk_upsert: "FeedbagUpsert P now u items st = (err, st') \<Longrightarrow> storeKeysOk st \<Longrightarrow> storeKeysOk st'"
proof (induction items arbitrary: st)
  case (Cons item items)
  show ?case
  proof (cases "feedbagRowOf P now u item")
    case (Inr row)
    have "storeKeysOk (st\<lparr>feedbag := upsertRow row (feedbag st)\<rparr>)"
      using Cons.prems(2) upsertRow_keys(2) by (simp add: storeKeysOk_def)
    with Cons Inr show ?thesis by simp
  qed (use Cons.prems in simp)
qed simp

lemma storeKeysOk_delete: "storeKeysOk st \<Longrightarrow> storeKeysOk (FeedbagDelete u items st)"
  by (induction u items st rule: FeedbagDelete.induct) (simp_all add: storeKeysOk_def distinct_map_filter)

lemma keys_map_entry: "map fst (AList.map_entry k f xs) = map fst xs"
  by (induction xs) auto

lemma storeKeysOk_flags: "storeKeysOk st \<Longrightarrow> storeKeysOk (insertFlag f a b st)" "storeKeysOk st \<Longrightarrow> storeKeysOk (updateFlag f a b st)"
  by (simp_all add: storeKeysOk_def insertFlag_def updateFlag_def distinct_update keys_map_entry)

lemma storeKeysOk_mode: "storeKeysOk st \<Longrightarrow> storeKeysOk (SetPDMode u mode st)"
  by (auto simp: storeKeysOk_def SetPDMode_def setClientSidePDMode_def clearClientSidePDFlags_def
      clearBlankClientSideBuddies_def distinct_update distinct_map_filter comp_def case_prod_beta)

interpretation lists: invariant_system "\<lambda>st. st = emptyStore\<lparr>authFlags := users\<rparr>" "listStep P" storeKeysOk for P users
proof
  fix st st' assume "storeKeysOk st" "listStep P st st'"
  from this(2,1) show "storeKeysOk st'"
  proof induction
    case (1 now u items st err st')
    then show ?case by (rule storeKeysOk_upsert)
  next
    case (4 st u)
    then show ?case by (auto simp: RegisterBuddyList_def storeKeysOk_def distinct_update split: option.splits)
  next
    case (2 st u items)
    then show ?case by (rule storeKeysOk_delete)
  next
    case (7 st u mode)
    then show ?case by (rule storeKeysOk_mode)
  next
    case (5 st u)
    then show ?case by (auto simp: storeKeysOk_def UnregisterBuddyList_def distinct_delete distinct_map_filter)
  next
    case (15 st u v)
    then show ?case by (auto simp: storeKeysOk_def RevokePreAuth_def distinct_removeAll)
  qed (simp_all add: storeKeysOk_def AddBuddy_def RemoveBuddy_def DenyBuddy_def RemoveDenyBuddy_def PermitBuddy_def
      RemovePermitBuddy_def insertFlag_def updateFlag_def keys_map_entry ClearBuddyListRegistry_def UseFeedbag_def
      distinct_update RecordPreAuth_def RecordBuddyAddedNotification_def)
qed (simp add: storeKeysOk_def emptyStore_def)

text \<open>The tables keep their keys. In every state reached by the operations, an item has one row per user,
  group and item number, a user one mode, a pair of users one entry, consent and notifications are
  recorded once, and only between users that exist.\<close>
theorem list_tables_invariant:
  assumes "(listStep P)\<^sup>*\<^sup>* (emptyStore\<lparr>authFlags := users\<rparr>) st"
  shows "distinct (map fbKey (feedbag st)) \<and> distinct (map fst (buddyListMode st)) \<and>
    distinct (map fst (clientSideBuddyList st)) \<and> distinct (contactPreauth st) \<and> distinct (buddyAddedNotifications st) \<and>
    (\<forall>a b. (a, b) \<in> set (contactPreauth st) \<longrightarrow> map_of (authFlags st) a \<noteq> None \<and> map_of (authFlags st) b \<noteq> None)"
proof -
  have "storeKeysOk st" using lists.invar_reachable [OF assms refl] .
  moreover from this have "\<forall>p\<in>set (contactPreauth st). map_of (authFlags st) (fst p) \<noteq> None \<and> map_of (authFlags st) (snd p) \<noteq> None"
    unfolding storeKeysOk_def by blast
  ultimately show ?thesis unfolding storeKeysOk_def by (metis fst_conv snd_conv)
qed

lemma list_tables_invariant_witness:
  "distinct (map fst (buddyListMode (RegisterBuddyList [98] (RegisterBuddyList [97] emptyStore))))"
proof -
  have e: "emptyStore\<lparr>authFlags := []\<rparr> = emptyStore" by (simp add: emptyStore_def)
  have "(listStep samplePlatform)\<^sup>*\<^sup>* (emptyStore\<lparr>authFlags := []\<rparr>) (RegisterBuddyList [98] (RegisterBuddyList [97] emptyStore))"
    unfolding e by (meson converse_rtranclp_into_rtranclp listStep.intros(4) r_into_rtranclp)
  from list_tables_invariant [OF this] show ?thesis by simp
qed

text \<open>Consent is asked for, given and taken back. A user who requires it is closed to everybody without
  a recorded consent; recording one between two existing users opens the way for that pair only,
  revoking it closes it again, and a user who does not require consent is open.\<close>
theorem consent_correct:
  assumes "map_of (authFlags st) owner = Some req" and "map_of (authFlags st) requester \<noteq> None"
  shows "\<not> RequiresAuthorization owner requester (RecordPreAuth owner requester st) \<and>
    RequiresAuthorization owner requester (RevokePreAuth owner requester st) = req \<and>
    ((a, b) \<noteq> (owner, requester) \<longrightarrow>
      RequiresAuthorization a b (RecordPreAuth owner requester st) = RequiresAuthorization a b st \<and>
      RequiresAuthorization a b (RevokePreAuth owner requester st) = RequiresAuthorization a b st)"
  using assms by (auto simp: RequiresAuthorization_def RecordPreAuth_def RevokePreAuth_def split: option.splits)

lemma consent_correct_witness:
  "RequiresAuthorization [97] [98] (RevokePreAuth [97] [98]
     (RecordPreAuth [97] [98] (emptyStore\<lparr>authFlags := [([97], True), ([98], False)]\<rparr>)))"
  using consent_correct [of "RecordPreAuth [97] [98] (emptyStore\<lparr>authFlags := [([97], True), ([98], False)]\<rparr>)" "[97]" True "[98]"]
  by (simp add: RecordPreAuth_def)

text \<open>A user who is not registered is in nobody's relationships. After a sign-off, no result has a row
  about that user, the user's own result is empty, and the rows of everybody else about each other are
  the same as before.\<close>
theorem unregistered_has_no_relationships:
  "AllRelationships u ns (UnregisterBuddyList u st) = [] \<and>
   (\<forall>r\<in>set (AllRelationships me ns (UnregisterBuddyList u st)). relUser r \<noteq> u) \<and>
   (me \<noteq> u \<longrightarrow> set (AllRelationships me ns (UnregisterBuddyList u st)) =
      {r \<in> set (AllRelationships me ns st). relUser r \<noteq> u})"
proof -
  let ?st = "UnregisterBuddyList u st"
  have p: "privacyPrefs ?st v = (if v = u then [] else privacyPrefs st v)" for v
  proof -
    have "feedbag ?st = feedbag st" "map_of (buddyListMode ?st) v = (if v = u then None else map_of (buddyListMode st) v)"
      by (simp_all add: UnregisterBuddyList_def delete_conv')
    then show ?thesis using privacyPrefs_cong [of ?st st v] by (cases "v = u") (simp_all add: privacyPrefs_def)
  qed
  have side: "map_of (clientSideBuddyList ?st) (a, b) = map_of (clientSideBuddyList st) (a, b)" if "a \<noteq> u" for a b
  proof -
    have "map_of (filter (\<lambda>((me, them), e). me \<noteq> u) xs) (a, b) = map_of xs (a, b)" for xs
      using that by (induction xs) auto
    then show ?thesis by (simp add: UnregisterBuddyList_def)
  qed
  have l: "listEntry ?st a b = listEntry st a b" if "a \<noteq> u" for a b
  proof -
    have "feedbagEntry ?st a b = feedbagEntry st a b"
      using that by (simp add: feedbagEntry_def UnregisterBuddyList_def delete_conv')
    then show ?thesis unfolding listEntry_def side [OF that] by simp
  qed
  have none: "r \<notin> set (AllRelationships u ns ?st)" for r by (simp add: AllRelationships_iff p)
  have "AllRelationships u ns ?st = []" using none by (cases "AllRelationships u ns ?st") auto
  moreover have "r \<in> set (AllRelationships me ns ?st) \<longleftrightarrow> r \<in> set (AllRelationships me ns st) \<and> relUser r \<noteq> u" if "me \<noteq> u" for r
    using l [OF that] l [of "relUser r"] that by (cases "relUser r = u") (simp_all add: AllRelationships_iff p)
  moreover have "relUser r \<noteq> u" if "r \<in> set (AllRelationships me ns ?st)" for r
    using that by (auto simp: AllRelationships_iff p split: if_splits)
  ultimately show ?thesis by blast
qed

section \<open>Storing and reading a list\<close>

lemma toTLVList_val [simp]: "toTLVList (TLVList_val s) = s"
proof -
  have "toTLV (TLV_val t) = t" for t by (simp add: toTLV_def TLV_val_def bytesVal_def del: map_map)
  then show ?thesis by (simp add: toTLVList_def TLVList_val_def comp_def)
qed

definition storable :: "FeedbagItem \<Rightarrow> bool" where
  "storable item \<longleftrightarrow> list_all TLV_ok (itemTLVs item) \<and> (\<Sum>t\<leftarrow>itemTLVs item. 4 + length (Value t)) < 2 ^ 16"

definition normalized :: "platform \<Rightarrow> FeedbagItem \<Rightarrow> FeedbagItem" where
  "normalized P item =
     item\<lparr>itemName := (if hasScreenName (itemClassID item) then NewIdentScreenName P (itemName item) else itemName item)\<rparr>"

lemma stored_item:
  assumes "storable item"
  obtains row where "feedbagRowOf P now u item = Inr row" "fbKey row = (u, itemGroupID item, itemItemID item)"
    "fbScreenName row = u" "readItems [row] = ([normalized P item], None)"
proof -
  let ?bs = "concat (map (TLV_enc BigEndian) (itemTLVs item))"
  have "length ?bs = (\<Sum>t\<leftarrow>itemTLVs item. 4 + length (Value t))"
  proof -
    have "length (concat (map (TLV_enc BigEndian) s)) = (\<Sum>t\<leftarrow>s. 4 + length (Value t))" for s
      by (induction s) (simp_all add: TLV_enc_def)
    then show ?thesis .
  qed
  then have ok: "list_all TLV_ok (itemTLVs item)" "length ?bs < 2 ^ 16" using assms by (simp_all add: storable_def)
  note codec = TLVLBlock_codec [OF ok]
  from codec(1) have "MarshalBE (Some (TLVLBlock_type, TLVList_val (itemTLVs item))) = Inr (putUint BigEndian 2 (length ?bs) @ ?bs)"
    by (simp add: MarshalBE_def)
  then obtain row where row: "feedbagRowOf P now u item = Inr row" "fbScreenName row = u" "fbGroupID row = itemGroupID item"
    "fbItemID row = itemItemID item" "fbClassID row = itemClassID item" "fbAttributes row = putUint BigEndian 2 (length ?bs) @ ?bs"
    "fbName row = (if hasScreenName (itemClassID item) then NewIdentScreenName P (itemName item) else itemName item)"
    by (simp add: feedbagRowOf_def)
  have d: "UnmarshalBE TLVLBlock_type (putUint BigEndian 2 (length ?bs) @ ?bs) = (Inr (TLVList_val (itemTLVs item)), [])"
    using codec(2) [of "[]"] by (simp add: UnmarshalBE_def)
  have "readItems [row] = ([normalized P item], None)"
    using d by (simp add: row(3-7) normalized_def)
  with that row show thesis by (simp add: fbKey_def)
qed

lemma upsertRow_new: "fbKey r \<notin> set (map fbKey xs) \<Longrightarrow> upsertRow r xs = xs @ [r]"
  by (induction xs) auto

lemma readItems_append: "readItems xs = (is, None) \<Longrightarrow> readItems (xs @ ys) = (is @ fst (readItems ys), snd (readItems ys))"
  by (induction xs arbitrary: "is") (auto split: sum.splits prod.splits)

text \<open>A list that is uploaded is read back. For a user without a list, storing items with different numbers
  (each with TLVs that fit their length fields) succeeds, and reading the list gives the same items in
  the same order, with only the screen names of buddies, permits and denials normalised; the lists of
  all others are unchanged.\<close>
theorem feedbag_roundtrip:
  assumes "filter (\<lambda>r. fbScreenName r = u) (feedbag st) = []" and "list_all storable items"
    and "distinct (map (\<lambda>i. (itemGroupID i, itemItemID i)) items)"
  shows "\<exists>st'. FeedbagUpsert P now u items st = (None, st') \<and> Feedbag u st' = (map (normalized P) items, None) \<and>
    (\<forall>v. v \<noteq> u \<longrightarrow> Feedbag v st' = Feedbag v st)"
proof -
  have step: "\<exists>st'. FeedbagUpsert P now u items st = (None, st') \<and> Feedbag u st' = (done @ map (normalized P) items, None) \<and>
    (\<forall>v. v \<noteq> u \<longrightarrow> Feedbag v st' = Feedbag v st)"
    if "Feedbag u st = (done, None)" "\<forall>i\<in>set items. (u, itemGroupID i, itemItemID i) \<notin> set (map fbKey (feedbag st))" for "done" st
    using assms(2,3) that
  proof (induction items arbitrary: "done" st)
    case (Cons item items)
    then have "storable item" by simp
    then obtain row where row: "feedbagRowOf P now u item = Inr row" "fbKey row = (u, itemGroupID item, itemItemID item)"
      "fbScreenName row = u" "readItems [row] = ([normalized P item], None)" by (rule stored_item)
    have new: "upsertRow row (feedbag st) = feedbag st @ [row]"
      using Cons.prems(4) by (intro upsertRow_new) (simp add: row(2))
    let ?st = "st\<lparr>feedbag := feedbag st @ [row]\<rparr>"
    have "Feedbag u ?st = (done @ [normalized P item], None)"
      using readItems_append [where ys = "[row]"] Cons.prems(3) row(3,4) by (simp add: Feedbag_def)
    moreover have "\<forall>i\<in>set items. (u, itemGroupID i, itemItemID i) \<notin> set (map fbKey (feedbag ?st))"
    proof -
      have "(itemGroupID i, itemItemID i) \<noteq> (itemGroupID item, itemItemID item)" if "i \<in> set items" for i
        using Cons.prems(2) image_eqI [OF refl that, of "\<lambda>i. (itemGroupID i, itemItemID i)"] by auto
      then show ?thesis using Cons.prems(4) by (auto simp: row(2))
    qed
    ultimately obtain st' where "FeedbagUpsert P now u items ?st = (None, st')"
      "Feedbag u st' = ((done @ [normalized P item]) @ map (normalized P) items, None)" "\<forall>v. v \<noteq> u \<longrightarrow> Feedbag v st' = Feedbag v ?st"
      using Cons.IH [of ?st "done @ [normalized P item]"] Cons.prems(1,2) by auto
    then show ?case using row(1,3) new by (auto simp: Feedbag_def)
  qed simp
  have "Feedbag u st = ([], None)" using assms(1) by (simp add: Feedbag_def)
  moreover have "\<forall>i\<in>set items. (u, itemGroupID i, itemItemID i) \<notin> set (map fbKey (feedbag st))"
    using assms(1) by (auto simp: fbKey_def filter_empty_conv)
  ultimately show ?thesis using step [of st "[]", unfolded append_Nil] by blast
qed

lemma feedbag_roundtrip_witness:
  "\<exists>st'. FeedbagUpsert samplePlatform 0 [97] [zeroFeedbagItem\<lparr>itemClassID := 1, itemName := [66], itemGroupID := 7\<rparr>] emptyStore = (None, st') \<and>
     Feedbag [97] st' = ([zeroFeedbagItem\<lparr>itemClassID := 1, itemName := [66], itemGroupID := 7\<rparr>], None)"
  using feedbag_roundtrip [of "[97]" emptyStore "[zeroFeedbagItem\<lparr>itemClassID := 1, itemName := [66], itemGroupID := 7\<rparr>]" samplePlatform 0]
  by (auto simp: emptyStore_def storable_def zeroFeedbagItem_def normalized_def hasScreenName_def)

end
