(* ===== verification/State_FeedbagList.thy ===== *)
theory State_FeedbagList
  imports State_BuddyLists
begin

text \<open>
  \<open>state/feedbag_list.go\<close>: the editor of a server-side buddy list that the TOC gateway works with. It
  changes a copy of the list in memory and keeps what must be written back: the items to store and the
  items to delete. Items are objects that the list and the pending sets share, so they are cells of a
  store, and the lists hold their addresses. The number drawn by \<open>randInt\<close> is a parameter of the
  operations that draw one (none draws two).
\<close>

section \<open>Items\<close>

abbreviation (input) FeedbagAttributesOrder :: u16 where "FeedbagAttributesOrder \<equiv> 0x00C8"
abbreviation (input) FeedbagAttributesAlias :: u16 where "FeedbagAttributesAlias \<equiv> 0x0131"
abbreviation (input) FeedbagAttributesNote :: u16 where "FeedbagAttributesNote \<equiv> 0x013C"

definition FeedbagItem_IsEqual :: "FeedbagItem \<Rightarrow> FeedbagItem \<Rightarrow> bool" where
  "FeedbagItem_IsEqual f other =
     (if itemName f \<noteq> itemName other \<or> itemGroupID f \<noteq> itemGroupID other \<or> itemClassID f \<noteq> itemClassID other then False
      else if length (itemTLVs f) \<noteq> length (itemTLVs other) then False
      else list_all (\<lambda>(tlv, o'). Tag tlv = Tag o' \<and> Value tlv = Value o') (zip (itemTLVs f) (itemTLVs other)))"

text \<open>The TLVs that are made of numbers and strings (\<open>small_TLVs\<close>: what \<open>NewTLVBE\<close> gives for them).\<close>

definition orderTLV :: "u16 list \<Rightarrow> TLV" where
  "orderTLV ids = \<lparr>Tag = FeedbagAttributesOrder, Value = concat (map (\<lambda>i. putUint BigEndian 2 (unat i)) ids)\<rparr>"

definition AppendOrderMembers :: "u16 list \<Rightarrow> FeedbagItem \<Rightarrow> FeedbagItem" where
  "AppendOrderMembers memberIDs f =
     (case TLVList_Uint16SliceBE (itemTLVs f) FeedbagAttributesOrder of
        Some existing \<Rightarrow> f\<lparr>itemTLVs := TLVList_Replace (itemTLVs f) (orderTLV (existing @ memberIDs))\<rparr>
      | None \<Rightarrow> f\<lparr>itemTLVs := TLVList_Append (itemTLVs f) (orderTLV memberIDs)\<rparr>)"

definition RemoveOrderMembers :: "u16 list \<Rightarrow> FeedbagItem \<Rightarrow> FeedbagItem" where
  "RemoveOrderMembers memberIDs f =
     (case TLVList_Uint16SliceBE (itemTLVs f) FeedbagAttributesOrder of
        None \<Rightarrow> f
      | Some existing \<Rightarrow>
          f\<lparr>itemTLVs := TLVList_Replace (itemTLVs f) (orderTLV (filter (\<lambda>i. i \<notin> set memberIDs) existing))\<rparr>)"

section \<open>The list\<close>

record FeedbagList =
  cells :: "FeedbagItem list"
  listItems :: "nat list"
  pendingUpdates :: "nat list"
  pendingDeletes :: "nat list"

definition NewFeedbagList :: "FeedbagItem list \<Rightarrow> FeedbagList" where
  "NewFeedbagList items = \<lparr>cells = items, listItems = [0..<length items], pendingUpdates = [], pendingDeletes = []\<rparr>"

definition cell :: "FeedbagList \<Rightarrow> nat \<Rightarrow> FeedbagItem" where
  "cell f a = cells f ! a"

definition setCell :: "nat \<Rightarrow> FeedbagItem \<Rightarrow> FeedbagList \<Rightarrow> FeedbagList" where
  "setCell a x f = f\<lparr>cells := (cells f)[a := x]\<rparr>"

definition groupByName :: "bytes \<Rightarrow> FeedbagList \<Rightarrow> nat option" where
  "groupByName name f = find (\<lambda>a. itemClassID (cell f a) = FeedbagClassIdGroup \<and> itemName (cell f a) = name) (listItems f)"

definition trackUpdate :: "nat \<Rightarrow> FeedbagList \<Rightarrow> FeedbagList" where
  "trackUpdate a f = (if a \<in> set (pendingUpdates f) then f else f\<lparr>pendingUpdates := pendingUpdates f @ [a]\<rparr>)"

definition itemsMatch :: "platform \<Rightarrow> FeedbagItem \<Rightarrow> FeedbagItem \<Rightarrow> bool" where
  "itemsMatch P a b =
     (if itemClassID a \<noteq> itemClassID b then False
      else if \<not> (if hasScreenName (itemClassID a) then NewIdentScreenName P (itemName a) = NewIdentScreenName P (itemName b)
                 else itemName a = itemName b) then False
      else if itemClassID a = FeedbagClassIdBuddy then itemGroupID a = itemGroupID b
      else True)"

text \<open>The loop over the numbers from the drawn one on, round to the one before it, which is not tried.\<close>

definition genID :: "u16 \<Rightarrow> FeedbagList \<Rightarrow> u16" where
  "genID num f =
     (case find (\<lambda>i. i \<noteq> 0 \<and> \<not> list_ex (\<lambda>a. itemGroupID (cell f a) = i \<or> itemItemID (cell f a) = i) (listItems f))
         (map (\<lambda>k. num + word_of_nat k) [0..<65535]) of
        None \<Rightarrow> 0 | Some i \<Rightarrow> i)"

definition newCell :: "FeedbagItem \<Rightarrow> FeedbagList \<Rightarrow> nat \<times> FeedbagList" where
  "newCell x f = (length (cells f), f\<lparr>cells := cells f @ [x], listItems := listItems f @ [length (cells f)]\<rparr>)"

definition deleteItem :: "platform \<Rightarrow> FeedbagItem \<Rightarrow> FeedbagList \<Rightarrow> FeedbagItem option \<times> FeedbagList" where
  "deleteItem P item f =
     (case find (\<lambda>a. itemsMatch P (cell f a) item) (listItems f) of
        None \<Rightarrow> (None, f)
      | Some a \<Rightarrow> (Some (cell f a), f\<lparr>pendingDeletes := pendingDeletes f @ [a], listItems := remove1 a (listItems f)\<rparr>))"

definition upsertItem :: "platform \<Rightarrow> u16 \<Rightarrow> FeedbagItem \<Rightarrow> FeedbagList \<Rightarrow> (FeedbagItem \<times> bool) \<times> FeedbagList" where
  "upsertItem P num item f =
     (let item = (if hasScreenName (itemClassID item) then item\<lparr>itemName := NewIdentScreenName P (itemName item)\<rparr> else item) in
      case find (\<lambda>a. itemsMatch P (cell f a) item) (listItems f) of
        Some a \<Rightarrow>
          (if \<not> FeedbagItem_IsEqual (cell f a) item
           then (let item = item\<lparr>itemItemID := itemItemID (cell f a)\<rparr> in ((item, False), trackUpdate a (setCell a item f)))
           else ((cell f a, False), f))
      | None \<Rightarrow>
          (let item = item\<lparr>itemItemID := genID num f\<rparr>; (a, f1) = newCell item f
           in ((item, True), f1\<lparr>pendingUpdates := pendingUpdates f1 @ [a]\<rparr>)))"

definition SetMode :: "platform \<Rightarrow> u16 \<Rightarrow> byte \<Rightarrow> FeedbagList \<Rightarrow> FeedbagList" where
  "SetMode P num mode f = snd (upsertItem P num (zeroFeedbagItem\<lparr>itemClassID := FeedbagClassIdPdinfo,
     itemTLVs := [\<lparr>Tag = FeedbagAttributesPdMode, Value = [mode]\<rparr>]\<rparr>) f)"

definition AddGroup :: "u16 \<Rightarrow> bytes \<Rightarrow> FeedbagList \<Rightarrow> FeedbagItem \<times> FeedbagList" where
  "AddGroup num name f =
     (case groupByName name f of
        Some a \<Rightarrow> (cell f a, f)
      | None \<Rightarrow>
          (let (root, f1) = (case find (\<lambda>a. itemClassID (cell f a) = FeedbagClassIdGroup \<and> itemGroupID (cell f a) = 0) (listItems f) of
                 Some a \<Rightarrow> (a, f)
               | None \<Rightarrow> (let (a, f1) = newCell (zeroFeedbagItem\<lparr>itemClassID := FeedbagClassIdGroup\<rparr>) f in (a, trackUpdate a f1)));
               grp = zeroFeedbagItem\<lparr>itemClassID := FeedbagClassIdGroup, itemName := name, itemGroupID := genID num f1\<rparr>;
               (a, f2) = newCell grp f1;
               f3 = setCell root (AppendOrderMembers [itemGroupID grp] (cell f2 root)) f2
           in (grp, trackUpdate a (trackUpdate root f3))))"

definition DeleteGroup :: "platform \<Rightarrow> bytes \<Rightarrow> FeedbagList \<Rightarrow> FeedbagList" where
  "DeleteGroup P groupName f =
     (case groupByName groupName f of
        None \<Rightarrow> f
      | Some g \<Rightarrow>
          (let groupID = itemGroupID (cell f g);
               toDelete = filter (\<lambda>a. itemGroupID (cell f a) = groupID) (listItems f);
               f1 = fold (\<lambda>a f. snd (deleteItem P (cell f a) f)) toDelete f
           in if 0 < length toDelete \<and> groupID \<noteq> 0
              then fold (\<lambda>a f. if itemClassID (cell f a) = FeedbagClassIdGroup \<and> itemGroupID (cell f a) = 0
                       then trackUpdate a (setCell a (RemoveOrderMembers [groupID] (cell f a)) f) else f) (listItems f1) f1
              else f1))"

definition AddBuddy :: "platform \<Rightarrow> u16 \<Rightarrow> bytes \<Rightarrow> bytes \<Rightarrow> bytes \<Rightarrow> bytes \<Rightarrow> FeedbagList \<Rightarrow> bool option \<times> FeedbagList" where
  "AddBuddy P num groupName screenName alias note f =
     (case groupByName groupName f of
        None \<Rightarrow> (None, f)
      | Some grp \<Rightarrow>
          (let item = zeroFeedbagItem\<lparr>itemClassID := FeedbagClassIdBuddy, itemGroupID := itemGroupID (cell f grp),
                 itemName := screenName,
                 itemTLVs := (if alias \<noteq> [] then [\<lparr>Tag = FeedbagAttributesAlias, Value = alias\<rparr>] else [])
                   @ (if note \<noteq> [] then [\<lparr>Tag = FeedbagAttributesNote, Value = note\<rparr>] else [])\<rparr>;
               ((result, inserted), f1) = upsertItem P num item f
           in if inserted
              then (Some True, trackUpdate grp (setCell grp (AppendOrderMembers [itemItemID result] (cell f1 grp)) f1))
              else (Some False, f1)))"

text \<open>\<open>None\<close>: there is no such group.\<close>

definition DeleteBuddy :: "platform \<Rightarrow> bytes \<Rightarrow> bytes \<Rightarrow> FeedbagList \<Rightarrow> unit option \<times> FeedbagList" where
  "DeleteBuddy P groupName buddyName f =
     (case groupByName groupName f of
        None \<Rightarrow> (None, f)
      | Some grp \<Rightarrow>
          (case deleteItem P (zeroFeedbagItem\<lparr>itemClassID := FeedbagClassIdBuddy, itemGroupID := itemGroupID (cell f grp),
              itemName := buddyName\<rparr>) f of
             (Some deleted, f1) \<Rightarrow>
               (Some (), trackUpdate grp (setCell grp (RemoveOrderMembers [itemItemID deleted] (cell f1 grp)) f1))
           | (None, f1) \<Rightarrow> (Some (), f1)))"

definition PermitUser :: "platform \<Rightarrow> u16 \<Rightarrow> bytes \<Rightarrow> FeedbagList \<Rightarrow> FeedbagList" where
  "PermitUser P num screenName f =
     snd (upsertItem P num (zeroFeedbagItem\<lparr>itemClassID := FeedbagClassIDPermit, itemName := screenName\<rparr>) f)"

definition DenyUser :: "platform \<Rightarrow> u16 \<Rightarrow> bytes \<Rightarrow> FeedbagList \<Rightarrow> FeedbagList" where
  "DenyUser P num screenName f =
     snd (upsertItem P num (zeroFeedbagItem\<lparr>itemClassID := FeedbagClassIDDeny, itemName := screenName\<rparr>) f)"

definition DeletePermit :: "platform \<Rightarrow> bytes \<Rightarrow> FeedbagList \<Rightarrow> FeedbagList" where
  "DeletePermit P screenName f =
     snd (deleteItem P (zeroFeedbagItem\<lparr>itemClassID := FeedbagClassIDPermit, itemName := screenName\<rparr>) f)"

definition DeleteDeny :: "platform \<Rightarrow> bytes \<Rightarrow> FeedbagList \<Rightarrow> FeedbagList" where
  "DeleteDeny P screenName f =
     snd (deleteItem P (zeroFeedbagItem\<lparr>itemClassID := FeedbagClassIDDeny, itemName := screenName\<rparr>) f)"

definition PendingUpdates :: "FeedbagList \<Rightarrow> FeedbagItem list \<times> FeedbagList" where
  "PendingUpdates f = (map (cell f) (pendingUpdates f), f\<lparr>pendingUpdates := []\<rparr>)"

definition PendingDeletes :: "FeedbagList \<Rightarrow> FeedbagItem list \<times> FeedbagList" where
  "PendingDeletes f = (map (cell f) (pendingDeletes f), f\<lparr>pendingDeletes := []\<rparr>)"

section \<open>Lemmas\<close>

lemma small_TLVs:
  "NewTLVBE FeedbagAttributesOrder (Some (TSlice TU16, VSlice (map VU16 ids))) = Inr (orderTLV ids)"
  "NewTLVBE tag (Some (TString, VString bs)) = Inr \<lparr>Tag = tag, Value = bs\<rparr>"
  "NewTLVBE tag (Some (TU8, VU8 b)) = Inr \<lparr>Tag = tag, Value = [b]\<rparr>"
proof -
  have "concat (map (binaryWrite BigEndian) (map VU16 ids)) = concat (map (\<lambda>i. putUint BigEndian 2 (unat i)) ids)"
    by (induction ids) simp_all
  then show "NewTLVBE FeedbagAttributesOrder (Some (TSlice TU16, VSlice (map VU16 ids))) = Inr (orderTLV ids)"
    by (simp add: NewTLVBE_def newTLV_def MarshalBE_def marshalTop_def marshalTagged_def fieldPointerCheck_def
        structOrder_def marshalSlicePrefix_def parse_tags orderTLV_def del: map_map)
qed (simp_all add: NewTLVBE_def newTLV_def MarshalBE_def marshalTop_def marshalTagged_def fieldPointerCheck_def
    structOrder_def marshalString_def parse_tags)

lemma uint16Chunks_order: "uint16Chunks (concat (map (\<lambda>i. putUint BigEndian 2 (unat i)) ids)) = ids"
proof -
  have "length (concat (map (\<lambda>i. putUint BigEndian 2 (unat (i :: u16))) is)) = 2 * length is" for "is"
    by (induction "is") simp_all
  moreover have "map (\<lambda>k. word_of_nat (getUint BigEndian (take 2 (drop (k * 2) (concat (map (\<lambda>i. putUint BigEndian 2 (unat i)) is))))))
      [0..<length is] = is" for "is" :: "u16 list"
  proof (induction "is")
    case (Cons i "is")
    have "[0..<length (i # is)] = 0 # map Suc [0..<length is]"
      by (subst upt_conv_Cons) (simp_all add: map_Suc_upt del: upt_Suc)
    moreover have "getUint BigEndian (putUint BigEndian 2 (unat i)) = unat i"
      using unsigned_less [where 'a = nat, of i] by (simp add: getUint_putUint)
    ultimately show ?case using Cons.IH by (simp add: comp_def)
  qed simp
  ultimately show ?thesis by (simp add: uint16Chunks_def)
qed

lemma setCell_simps [simp]:
  "listItems (setCell a x f) = listItems f" "pendingUpdates (setCell a x f) = pendingUpdates f"
  "pendingDeletes (setCell a x f) = pendingDeletes f" "length (cells (setCell a x f)) = length (cells f)"
  "listItems (trackUpdate a f) = listItems f" "cells (trackUpdate a f) = cells f" "cell (trackUpdate a f) = cell f"
  "pendingDeletes (trackUpdate a f) = pendingDeletes f"
  "set (pendingUpdates (trackUpdate a f)) = insert a (set (pendingUpdates f))"
  by (auto simp: setCell_def trackUpdate_def cell_def fun_eq_iff)

lemma cell_setCell: "a < length (cells f) \<Longrightarrow> cell (setCell a x f) b = (if b = a then x else cell f b)"
  by (simp add: cell_def setCell_def nth_list_update)

lemma order_key [simp]:
  "itemGroupID (AppendOrderMembers ids x) = itemGroupID x" "itemItemID (AppendOrderMembers ids x) = itemItemID x"
  "itemClassID (AppendOrderMembers ids x) = itemClassID x" "itemName (AppendOrderMembers ids x) = itemName x"
  "itemGroupID (RemoveOrderMembers ids x) = itemGroupID x" "itemItemID (RemoveOrderMembers ids x) = itemItemID x"
  "itemClassID (RemoveOrderMembers ids x) = itemClassID x" "itemName (RemoveOrderMembers ids x) = itemName x"
  by (auto simp: AppendOrderMembers_def RemoveOrderMembers_def split: option.splits)

section \<open>Numbers\<close>

lemma candidates: "set (map (\<lambda>k. num + word_of_nat k) [0..<65535]) = - {num - 1 :: u16}"
proof -
  have "x \<in> (\<lambda>k. num + word_of_nat k) ` {0..<65535}" if "x \<noteq> num - 1" for x
  proof -
    have "unat (x - num) \<noteq> 65535"
    proof
      assume "unat (x - num) = 65535"
      then have "x - num = word_of_nat 65535" by (simp only: word_unat_eq_iff) simp
      then have "x - num = - 1" by simp
      then show False using that by (metis add.commute diff_add_cancel uminus_add_conv_diff)
    qed
    moreover have "unat (x - num) < 65536" using unsigned_less [of "x - num"] by simp
    ultimately have "unat (x - num) \<in> {0..<65535}" by simp
    moreover have "x = num + word_of_nat (unat (x - num))" by simp
    ultimately show ?thesis by blast
  qed
  moreover have "num + word_of_nat k \<noteq> num - 1" if "k < 65535" for k
  proof
    assume "num + word_of_nat k = num - 1"
    then have "word_of_nat k = (word_of_nat 65535 :: u16)" by simp
    then have "unat (word_of_nat k :: u16) = unat (word_of_nat 65535 :: u16)" by (rule arg_cong)
    then show False using that by (simp add: unat_of_nat del: word_of_nat_eq_iff)
  qed
  ultimately show ?thesis by force
qed

end
