(* ===== verification/State_Accounts.thy ===== *)
theory State_Accounts
  imports State_User
begin

text \<open>
  The table \<open>users\<close> with all its columns and the methods of \<open>state/user_store.go\<close> that read and write
  it. A row holds its columns as the record \<open>User\<close> they are scanned into, except the password hash,
  which is a nullable column, and the keywords. The columns that a row does not have (the counts of
  affiliations and interests) are zero. The account table of \<open>State_User\<close> is the projection of this
  one to the columns of an \<open>INSERT\<close>.
\<close>

section \<open>Rows\<close>

record accountRow =
  acUser :: User
  acPasswordHash :: "bytes option"
  acKeywords :: "nat option list"

type_synonym accountTable = "(IdentScreenName \<times> accountRow) list"

datatype storeError = SQLSyntaxError | ScanNullError | ErrICQSearchEmptyCriteria | StoreNoUser

abbreviation (input) nanosecs :: int where "nanosecs \<equiv> 10 ^ 9"

text \<open>The row an \<open>INSERT\<close> makes of the five columns it names: the others have the defaults of the schema.\<close>

definition newAccountRow :: "User \<Rightarrow> accountRow" where
  "newAccountRow u = \<lparr>acUser = zeroUser\<lparr>userIdentScreenName := userIdentScreenName u,
       userDisplayScreenName := userDisplayScreenName u, userIsICQ := userIsICQ u, userIsBot := userIsBot u,
       userRegStatus := 3, userLastWarnUpdate := 0,
       userICQInfo := zeroICQInfo\<lparr>icqPermissions := zeroICQPermissions\<lparr>AuthRequired := True\<rparr>\<rparr>\<rparr>,
     acPasswordHash = Some (userPasswordHash u), acKeywords = replicate 5 None\<rparr>"

definition accInsertUser :: "platform \<Rightarrow> User \<Rightarrow> accountTable \<Rightarrow> accountError option \<times> accountTable" where
  "accInsertUser P u t =
     (if IsUIN P (userDisplayScreenName u) \<and> \<not> userIsICQ u then (Some ErrUINNotICQ, t)
      else if map_of t (userIdentScreenName u) \<noteq> None then (Some ErrDupUser, t)
      else (None, t @ [(userIdentScreenName u, newAccountRow u)]))"

definition accDeleteUser :: "IdentScreenName \<Rightarrow> accountTable \<Rightarrow> accountError option \<times> accountTable" where
  "accDeleteUser screenName t =
     (if map_of t screenName = None then (Some ErrNoUser, t)
      else (None, filter (\<lambda>(i, r). i \<noteq> screenName) t))"

text \<open>\<open>UPDATE users SET ... WHERE identScreenName = ?\<close>, alone and with the check of the affected rows.\<close>

definition updateRow :: "IdentScreenName \<Rightarrow> (accountRow \<Rightarrow> accountRow) \<Rightarrow> accountTable \<Rightarrow> accountTable" where
  "updateRow name f t = map (\<lambda>(i, r). (i, if i = name then f r else r)) t"

definition execUpdate :: "IdentScreenName \<Rightarrow> (accountRow \<Rightarrow> accountRow) \<Rightarrow> accountTable \<Rightarrow> accountError option \<times> accountTable" where
  "execUpdate name f t = (if map_of t name = None then Some ErrNoUser else None, updateRow name f t)"

definition onUser :: "(User \<Rightarrow> User) \<Rightarrow> accountRow \<Rightarrow> accountRow" where
  "onUser f r = r\<lparr>acUser := f (acUser r)\<rparr>"

definition onICQ :: "(ICQInfo \<Rightarrow> ICQInfo) \<Rightarrow> accountRow \<Rightarrow> accountRow" where
  "onICQ f = onUser (\<lambda>u. u\<lparr>userICQInfo := f (userICQInfo u)\<rparr>)"

definition accSetUserPassword :: "keyDerivation \<Rightarrow> bytes option \<Rightarrow> IdentScreenName \<Rightarrow> bytes \<Rightarrow> accountTable
    \<Rightarrow> accountError option \<times> accountTable" where
  "accSetUserPassword IDKey rand screenName newPassword t =
     (case map_of t screenName of
        None \<Rightarrow> (Some ErrNoUser, t)
      | Some row \<Rightarrow>
          (case User_HashPassword IDKey rand newPassword (zeroUser\<lparr>userIsICQ := userIsICQ (acUser row)\<rparr>) of
             Inl e \<Rightarrow> (Some e, t)
           | Inr u \<Rightarrow> (None, updateRow screenName (\<lambda>r. r\<lparr>acPasswordHash := Some (userPasswordHash u)\<rparr>) t)))"

section \<open>Reading\<close>

text \<open>The scan of one row. A null hash does not scan into a string.\<close>

definition scanUser :: "platform \<Rightarrow> IdentScreenName \<times> accountRow \<Rightarrow> storeError + User" where
  "scanUser P row = (case acPasswordHash (snd row) of
      None \<Rightarrow> Inl ScanNullError
    | Some h \<Rightarrow> Inr ((acUser (snd row))\<lparr>userIdentScreenName := NewIdentScreenName P (fst row), userPasswordHash := h\<rparr>))"

fun scanUsers :: "platform \<Rightarrow> (IdentScreenName \<times> accountRow) list \<Rightarrow> storeError + User list" where
  "scanUsers P [] = Inr []"
| "scanUsers P (row # rows) = ebind (scanUser P row) (\<lambda>u. ebind (scanUsers P rows) (\<lambda>us. Inr (u # us)))"

definition queryUsers :: "platform \<Rightarrow> (IdentScreenName \<times> accountRow \<Rightarrow> bool) \<Rightarrow> accountTable \<Rightarrow> storeError + User list" where
  "queryUsers P cond t = scanUsers P (filter cond t)"

definition AllUsers :: "platform \<Rightarrow> accountTable \<Rightarrow> User list" where
  "AllUsers P t = map (\<lambda>(i, r). zeroUser\<lparr>userIdentScreenName := NewIdentScreenName P i,
     userDisplayScreenName := userDisplayScreenName (acUser r), userIsICQ := userIsICQ (acUser r),
     userIsBot := userIsBot (acUser r)\<rparr>) t"

definition firstUser :: "storeError + User list \<Rightarrow> storeError + User" where
  "firstUser res = ebind res (\<lambda>us. case us of [] \<Rightarrow> Inl StoreNoUser | u # _ \<Rightarrow> Inr u)"

definition findUser :: "platform \<Rightarrow> IdentScreenName \<Rightarrow> accountTable \<Rightarrow> storeError + User option" where
  "findUser P screenName t = ebind (queryUsers P (\<lambda>(i, r). i = screenName) t)
     (\<lambda>us. case us of [] \<Rightarrow> Inr None | u # _ \<Rightarrow> Inr (Some u))"

definition FindByUIN :: "platform \<Rightarrow> u32 \<Rightarrow> accountTable \<Rightarrow> storeError + User" where
  "FindByUIN P n t = firstUser (queryUsers P (\<lambda>(i, r). i = showDecimal (unat n)) t)"

definition FindByICQEmail :: "platform \<Rightarrow> bytes \<Rightarrow> accountTable \<Rightarrow> storeError + User" where
  "FindByICQEmail P email t =
     firstUser (queryUsers P (\<lambda>(i, r). basicEmailAddress (icqBasic (userICQInfo (acUser r))) = email) t)"

definition FindByAIMEmail :: "platform \<Rightarrow> bytes \<Rightarrow> accountTable \<Rightarrow> storeError + User" where
  "FindByAIMEmail P email t = firstUser (queryUsers P (\<lambda>(i, r). userEmailAddress (acUser r) = email) t)"

section \<open>Writing\<close>

text \<open>These five do not look at the number of rows they changed.\<close>

definition UpdateDisplayScreenName :: "platform \<Rightarrow> DisplayScreenName \<Rightarrow> accountTable \<Rightarrow> accountTable" where
  "UpdateDisplayScreenName P d = updateRow (DisplayScreenName_IdentScreenName P d) (onUser (\<lambda>u. u\<lparr>userDisplayScreenName := d\<rparr>))"

definition UpdateEmailAddress :: "IdentScreenName \<Rightarrow> bytes \<Rightarrow> accountTable \<Rightarrow> accountTable" where
  "UpdateEmailAddress name addr = updateRow name (onUser (\<lambda>u. u\<lparr>userEmailAddress := addr\<rparr>))"

definition UpdateRegStatus :: "IdentScreenName \<Rightarrow> u16 \<Rightarrow> accountTable \<Rightarrow> accountTable" where
  "UpdateRegStatus name status = updateRow name (onUser (\<lambda>u. u\<lparr>userRegStatus := uint status\<rparr>))"

definition UpdateConfirmStatus :: "IdentScreenName \<Rightarrow> bool \<Rightarrow> accountTable \<Rightarrow> accountTable" where
  "UpdateConfirmStatus name status = updateRow name (onUser (\<lambda>u. u\<lparr>userConfirmStatus := status\<rparr>))"

definition UpdateSuspendedStatus :: "u16 \<Rightarrow> IdentScreenName \<Rightarrow> accountTable \<Rightarrow> accountTable" where
  "UpdateSuspendedStatus status name = updateRow name (onUser (\<lambda>u. u\<lparr>userSuspendedStatus := status\<rparr>))"

definition SetBotStatus :: "bool \<Rightarrow> IdentScreenName \<Rightarrow> accountTable \<Rightarrow> accountTable" where
  "SetBotStatus isBot name = updateRow name (onUser (\<lambda>u. u\<lparr>userIsBot := isBot\<rparr>))"

text \<open>The three readers answer the zero value for a user who does not exist.\<close>

definition RegStatus :: "IdentScreenName \<Rightarrow> accountTable \<Rightarrow> u16" where
  "RegStatus name t = (case map_of t name of None \<Rightarrow> 0 | Some r \<Rightarrow> word_of_int (userRegStatus (acUser r)))"

definition ConfirmStatus :: "IdentScreenName \<Rightarrow> accountTable \<Rightarrow> bool" where
  "ConfirmStatus name t = (case map_of t name of None \<Rightarrow> False | Some r \<Rightarrow> userConfirmStatus (acUser r))"

definition storedEmail :: "IdentScreenName \<Rightarrow> accountTable \<Rightarrow> bytes" where
  "storedEmail name t = (case map_of t name of None \<Rightarrow> [] | Some r \<Rightarrow> userEmailAddress (acUser r))"

definition SetDirectoryInfo :: "IdentScreenName \<Rightarrow> AIMNameAndAddr \<Rightarrow> accountTable \<Rightarrow> accountError option \<times> accountTable" where
  "SetDirectoryInfo name info = execUpdate name (onUser (\<lambda>u. u\<lparr>userAIMDirectoryInfo := info\<rparr>))"

text \<open>The columns each statement sets, one assignment for one column.\<close>

definition workColumns :: "ICQWorkInfo \<Rightarrow> ICQInfo \<Rightarrow> ICQInfo" where
  "workColumns d i = i\<lparr>icqWork := (icqWork i)\<lparr>workCompany := workCompany d, workDepartment := workDepartment d,
     workOccupationCode := workOccupationCode d, workPosition := workPosition d, workAddress := workAddress d,
     workCity := workCity d, workCountryCode := workCountryCode d, workFax := workFax d, workPhone := workPhone d,
     workState := workState d, workWebPage := workWebPage d, workZIPCode := workZIPCode d\<rparr>\<rparr>"

definition permissionColumns :: "ICQPermissions \<Rightarrow> ICQInfo \<Rightarrow> ICQInfo" where
  "permissionColumns d i = i\<lparr>icqPermissions := (icqPermissions i)\<lparr>AuthRequired := AuthRequired d,
     WebAware := WebAware d, AllowSpam := AllowSpam d\<rparr>\<rparr>"

definition homepageColumns :: "ICQHomepageCategory \<Rightarrow> ICQInfo \<Rightarrow> ICQInfo" where
  "homepageColumns d i = i\<lparr>icqHomepageCategory := (icqHomepageCategory i)\<lparr>homepageEnabled := homepageEnabled d,
     homepageIndex := homepageIndex d, homepageDescription := homepageDescription d\<rparr>\<rparr>"

definition moreColumns :: "ICQMoreInfo \<Rightarrow> ICQInfo \<Rightarrow> ICQInfo" where
  "moreColumns d i = i\<lparr>icqMore := (icqMore i)\<lparr>BirthDay := BirthDay d, BirthMonth := BirthMonth d,
     BirthYear := BirthYear d, Gender := Gender d, HomePageAddr := HomePageAddr d, Lang1 := Lang1 d,
     Lang2 := Lang2 d, Lang3 := Lang3 d\<rparr>\<rparr>"

definition noteColumns :: "ICQUserNotes \<Rightarrow> ICQInfo \<Rightarrow> ICQInfo" where
  "noteColumns d i = i\<lparr>icqNotes := (icqNotes i)\<lparr>userNotes := userNotes d\<rparr>\<rparr>"

definition interestColumns :: "ICQInterests \<Rightarrow> ICQInfo \<Rightarrow> ICQInfo" where
  "interestColumns d i = i\<lparr>icqInterests := (icqInterests i)\<lparr>interestCode1 := interestCode1 d,
     interestKeyword1 := interestKeyword1 d, interestCode2 := interestCode2 d, interestKeyword2 := interestKeyword2 d,
     interestCode3 := interestCode3 d, interestKeyword3 := interestKeyword3 d, interestCode4 := interestCode4 d,
     interestKeyword4 := interestKeyword4 d\<rparr>\<rparr>"

definition affiliationColumns :: "ICQAffiliations \<Rightarrow> ICQInfo \<Rightarrow> ICQInfo" where
  "affiliationColumns d i = i\<lparr>icqAffiliations := (icqAffiliations i)\<lparr>affilCurrentCode1 := affilCurrentCode1 d,
     affilCurrentKeyword1 := affilCurrentKeyword1 d, affilCurrentCode2 := affilCurrentCode2 d,
     affilCurrentKeyword2 := affilCurrentKeyword2 d, affilCurrentCode3 := affilCurrentCode3 d,
     affilCurrentKeyword3 := affilCurrentKeyword3 d, affilPastCode1 := affilPastCode1 d,
     affilPastKeyword1 := affilPastKeyword1 d, affilPastCode2 := affilPastCode2 d,
     affilPastKeyword2 := affilPastKeyword2 d, affilPastCode3 := affilPastCode3 d,
     affilPastKeyword3 := affilPastKeyword3 d\<rparr>\<rparr>"

definition basicColumns :: "ICQBasicInfo \<Rightarrow> ICQInfo \<Rightarrow> ICQInfo" where
  "basicColumns d i = i\<lparr>icqBasic := (icqBasic i)\<lparr>basicCellPhone := basicCellPhone d,
     basicCountryCode := basicCountryCode d, basicEmailAddress := basicEmailAddress d,
     basicFirstName := basicFirstName d, basicGMTOffset := basicGMTOffset d, basicAddress := basicAddress d,
     basicCity := basicCity d, basicFax := basicFax d, basicPhone := basicPhone d, basicState := basicState d,
     basicLastName := basicLastName d, basicNickname := basicNickname d, basicPublishEmail := basicPublishEmail d,
     basicZIPCode := basicZIPCode d\<rparr>\<rparr>"

text \<open>The columns only the statement for the whole record sets.\<close>

definition originColumns :: "ICQBasicInfo \<Rightarrow> ICQInfo \<Rightarrow> ICQInfo" where
  "originColumns d i = i\<lparr>icqBasic := (icqBasic i)\<lparr>basicOriginallyFromCity := basicOriginallyFromCity d,
     basicOriginallyFromState := basicOriginallyFromState d,
     basicOriginallyFromCountryCode := basicOriginallyFromCountryCode d\<rparr>\<rparr>"

definition SetWorkInfo :: "IdentScreenName \<Rightarrow> ICQWorkInfo \<Rightarrow> accountTable \<Rightarrow> accountError option \<times> accountTable" where
  "SetWorkInfo name d = execUpdate name (onICQ (workColumns d))"

definition SetPermissions :: "IdentScreenName \<Rightarrow> ICQPermissions \<Rightarrow> accountTable \<Rightarrow> accountError option \<times> accountTable" where
  "SetPermissions name d = execUpdate name (onICQ (permissionColumns d))"

definition SetHomepageCategory :: "IdentScreenName \<Rightarrow> ICQHomepageCategory \<Rightarrow> accountTable \<Rightarrow> accountError option \<times> accountTable" where
  "SetHomepageCategory name d = execUpdate name (onICQ (homepageColumns d))"

definition SetMoreInfo :: "IdentScreenName \<Rightarrow> ICQMoreInfo \<Rightarrow> accountTable \<Rightarrow> accountError option \<times> accountTable" where
  "SetMoreInfo name d = execUpdate name (onICQ (moreColumns d))"

definition SetUserNotes :: "IdentScreenName \<Rightarrow> ICQUserNotes \<Rightarrow> accountTable \<Rightarrow> accountError option \<times> accountTable" where
  "SetUserNotes name d = execUpdate name (onICQ (noteColumns d))"

definition SetInterests :: "IdentScreenName \<Rightarrow> ICQInterests \<Rightarrow> accountTable \<Rightarrow> accountError option \<times> accountTable" where
  "SetInterests name d = execUpdate name (onICQ (interestColumns d))"

definition SetAffiliations :: "IdentScreenName \<Rightarrow> ICQAffiliations \<Rightarrow> accountTable \<Rightarrow> accountError option \<times> accountTable" where
  "SetAffiliations name d = execUpdate name (onICQ (affiliationColumns d))"

definition SetBasicInfo :: "IdentScreenName \<Rightarrow> ICQBasicInfo \<Rightarrow> accountTable \<Rightarrow> accountError option \<times> accountTable" where
  "SetBasicInfo name d = execUpdate name (onICQ (basicColumns d))"

definition SetICQInfo :: "IdentScreenName \<Rightarrow> ICQInfo \<Rightarrow> accountTable \<Rightarrow> accountError option \<times> accountTable" where
  "SetICQInfo name info = execUpdate name (onICQ (homepageColumns (icqHomepageCategory info)
     \<circ> affiliationColumns (icqAffiliations info) \<circ> interestColumns (icqInterests info) \<circ> noteColumns (icqNotes info)
     \<circ> permissionColumns (icqPermissions info) \<circ> workColumns (icqWork info) \<circ> moreColumns (icqMore info)
     \<circ> originColumns (icqBasic info) \<circ> basicColumns (icqBasic info)))"

definition SetTOCConfig :: "IdentScreenName \<Rightarrow> bytes \<Rightarrow> accountTable \<Rightarrow> accountError option \<times> accountTable" where
  "SetTOCConfig name config = execUpdate name (onUser (\<lambda>u. u\<lparr>userTOCConfig := config\<rparr>))"

text \<open>Only whole seconds of a time are stored.\<close>

definition SetWarnLevel :: "IdentScreenName \<Rightarrow> int \<Rightarrow> u16 \<Rightarrow> accountTable \<Rightarrow> accountError option \<times> accountTable" where
  "SetWarnLevel name lastWarnUpdate lastWarnLevel =
     execUpdate name (onUser (\<lambda>u. u\<lparr>userLastWarnUpdate := lastWarnUpdate div nanosecs * nanosecs, userLastWarnLevel := lastWarnLevel\<rparr>))"

definition accSetOfflineMsgCount :: "IdentScreenName \<Rightarrow> int \<Rightarrow> accountTable \<Rightarrow> accountError option \<times> accountTable" where
  "accSetOfflineMsgCount name count = execUpdate name (onUser (\<lambda>u. u\<lparr>userOfflineMsgCount := count\<rparr>))"

section \<open>Lookup after update\<close>

lemma map_of_updateRow: "map_of (updateRow name f t) i = (if i = name then map_option f (map_of t i) else map_of t i)"
  by (induction t) (auto simp: updateRow_def)

lemma keys_updateRow [simp]: "map fst (updateRow name f t) = map fst t"
  by (induction t) (auto simp: updateRow_def)

lemma updateRow_twice: "updateRow name f (updateRow name g t) = updateRow name (f \<circ> g) t"
  by (auto simp: updateRow_def)

lemma updateRow_absent: "map_of t name = None \<Longrightarrow> updateRow name f t = t"
  by (induction t) (auto simp: updateRow_def split: if_splits)

lemma filter_key: "distinct (map fst t) \<Longrightarrow> filter (\<lambda>(i, r). i = k) t = (case map_of t k of None \<Rightarrow> [] | Some r \<Rightarrow> [(k, r)])"
proof (induction t)
  case (Cons a t)
  obtain i r where a: "a = (i, r)" by (cases a)
  show ?case
  proof (cases "i = k")
    case True
    then have "map_of t k = None" using Cons.prems by (simp add: a map_of_eq_None_iff)
    then show ?thesis using Cons True by (simp add: a)
  qed (use Cons in \<open>simp add: a\<close>)
qed simp

lemma findUser_map:
  assumes "distinct (map fst t)"
  shows "findUser P name t = (case map_of t name of None \<Rightarrow> Inr None
    | Some r \<Rightarrow> ebind (scanUser P (name, r)) (\<lambda>u. Inr (Some u)))"
  using filter_key [OF assms, of name]
  by (auto simp: findUser_def queryUsers_def ebind_def split: option.splits sum.splits)

lemma execUpdate_ok: "fst (execUpdate name f t) = None \<longleftrightarrow> map_of t name \<noteq> None"
  by (simp add: execUpdate_def)

section \<open>The projection to the table of accounts\<close>

definition abstractRow :: "accountRow \<Rightarrow> userRow" where
  "abstractRow r = \<lparr>rowDisplayScreenName = userDisplayScreenName (acUser r),
     rowPasswordHash = (case acPasswordHash r of None \<Rightarrow> [] | Some h \<Rightarrow> h),
     rowIsICQ = userIsICQ (acUser r), rowIsBot = userIsBot (acUser r)\<rparr>"

definition abstractTable :: "accountTable \<Rightarrow> userTable" where
  "abstractTable t = map (\<lambda>(i, r). (i, abstractRow r)) t"

lemma map_of_abstractTable: "map_of (abstractTable t) i = map_option abstractRow (map_of t i)"
  by (induction t) (auto simp: abstractTable_def)

lemma abstract_updateRow:
  "abstractTable (updateRow name f t) = map (\<lambda>(i, r). (i, if i = name then abstractRow (f r) else abstractRow r)) t"
  by (auto simp: abstractTable_def updateRow_def)

lemma abstract_same:
  assumes "\<And>r. abstractRow (f r) = abstractRow r"
  shows "abstractTable (updateRow name f t) = abstractTable t"
  unfolding abstract_updateRow unfolding abstractTable_def by (auto simp: assms)

lemma abstract_delete: "abstractTable (filter (\<lambda>(i, r). i \<noteq> name) t) = filter (\<lambda>(i, r). i \<noteq> name) (abstractTable t)"
  by (induction t) (auto simp: abstractTable_def)

lemma abstract_onICQ [simp]: "abstractRow (onICQ f r) = abstractRow r"
  by (simp add: abstractRow_def onICQ_def onUser_def)

section \<open>Properties\<close>

text \<open>The table of all columns refines the table of accounts: creating, deleting and giving a new
  password answer the same and do the same to the projection, and setting the ICQ profile, the directory
  information, the warning level or the number of offline messages leaves the projection as it is.\<close>
theorem accounts_refine:
  "map_prod id abstractTable (accInsertUser P u t) = InsertUser P u (abstractTable t) \<and>
   map_prod id abstractTable (accDeleteUser name t) = DeleteUser name (abstractTable t) \<and>
   map_prod id abstractTable (accSetUserPassword IDKey rand name pw t) = SetUserPassword IDKey rand name pw (abstractTable t) \<and>
   (map_prod id abstractTable (SetICQInfo name info t) = (if map_of (abstractTable t) name = None then Some ErrNoUser else None, abstractTable t)) \<and>
   (map_prod id abstractTable (SetDirectoryInfo name dirInfo t) = (if map_of (abstractTable t) name = None then Some ErrNoUser else None, abstractTable t)) \<and>
   (map_prod id abstractTable (SetWarnLevel name now lvl t) = (if map_of (abstractTable t) name = None then Some ErrNoUser else None, abstractTable t)) \<and>
   (map_prod id abstractTable (accSetOfflineMsgCount name n t) = (if map_of (abstractTable t) name = None then Some ErrNoUser else None, abstractTable t))"
proof (intro conjI)
  show "map_prod id abstractTable (accInsertUser P u t) = InsertUser P u (abstractTable t)"
    by (simp add: accInsertUser_def InsertUser_def map_of_abstractTable newAccountRow_def)
      (simp add: abstractTable_def abstractRow_def)
  show "map_prod id abstractTable (accDeleteUser name t) = DeleteUser name (abstractTable t)"
    by (simp add: accDeleteUser_def DeleteUser_def map_of_abstractTable abstract_delete)
  show "map_prod id abstractTable (accSetUserPassword IDKey rand name pw t) = SetUserPassword IDKey rand name pw (abstractTable t)"
  proof (cases "map_of t name")
    case None
    then show ?thesis by (simp add: accSetUserPassword_def SetUserPassword_def map_of_abstractTable)
  next
    case (Some r)
    have icq: "rowIsICQ (abstractRow r) = userIsICQ (acUser r)" by (simp add: abstractRow_def)
    have "abstractTable (updateRow name (\<lambda>r. r\<lparr>acPasswordHash := Some h\<rparr>) t)
        = map (\<lambda>(i, r). (i, if i = name then r\<lparr>rowPasswordHash := h\<rparr> else r)) (abstractTable t)" for h
      unfolding abstract_updateRow by (auto simp: abstractTable_def abstractRow_def)
    then show ?thesis
      by (simp add: accSetUserPassword_def SetUserPassword_def map_of_abstractTable Some icq split: sum.split)
  qed
  show "map_prod id abstractTable (SetICQInfo name info t)
      = (if map_of (abstractTable t) name = None then Some ErrNoUser else None, abstractTable t)"
    unfolding SetICQInfo_def execUpdate_def by (simp add: map_of_abstractTable abstract_same [OF abstract_onICQ])
qed (simp_all add: SetDirectoryInfo_def SetWarnLevel_def accSetOfflineMsgCount_def execUpdate_def
    map_of_abstractTable abstract_same abstractRow_def onUser_def)

text \<open>Storing the whole ICQ record is the same as storing its eight parts one after the other, except
  for the three columns of where a user is originally from, which no other statement sets. So the column
  lists that the code asks to keep aligned are aligned.\<close>
theorem SetICQInfo_parts:
  "snd (SetICQInfo name info t) =
     updateRow name (onICQ (originColumns (icqBasic info)))
       (snd (SetHomepageCategory name (icqHomepageCategory info)
         (snd (SetAffiliations name (icqAffiliations info) (snd (SetInterests name (icqInterests info)
           (snd (SetUserNotes name (icqNotes info) (snd (SetPermissions name (icqPermissions info)
             (snd (SetWorkInfo name (icqWork info) (snd (SetMoreInfo name (icqMore info)
               (snd (SetBasicInfo name (icqBasic info) t))))))))))))))))"
proof -
  have c: "onICQ f \<circ> onICQ g = onICQ (f \<circ> g)" for f g by (auto simp: onICQ_def onUser_def)
  show ?thesis
    by (simp add: SetICQInfo_def SetHomepageCategory_def SetAffiliations_def SetInterests_def SetUserNotes_def
        SetPermissions_def SetWorkInfo_def SetMoreInfo_def SetBasicInfo_def execUpdate_def updateRow_twice c)
      (rule arg_cong [where f = "\<lambda>f. updateRow name (onICQ f) t"],
        simp add: fun_eq_iff homepageColumns_def affiliationColumns_def interestColumns_def noteColumns_def
        permissionColumns_def workColumns_def moreColumns_def originColumns_def basicColumns_def)
qed

text \<open>The counts are not columns.\<close>

definition withoutCounts :: "ICQInfo \<Rightarrow> ICQInfo" where
  "withoutCounts i = i\<lparr>icqAffiliations := (icqAffiliations i)\<lparr>affilPastCount := 0, affilCurrentCount := 0\<rparr>,
     icqInterests := (icqInterests i)\<lparr>interestCount := 0\<rparr>\<rparr>"

definition noCounts :: "accountTable \<Rightarrow> bool" where
  "noCounts t \<longleftrightarrow> (\<forall>(i, r)\<in>set t. withoutCounts (userICQInfo (acUser r)) = userICQInfo (acUser r))"

text \<open>The ICQ record that is stored is read back, without the counts, for which there are no columns,
  and nobody else's account changes.\<close>
theorem ICQInfo_roundtrip:
  assumes "distinct (map fst t)" and "noCounts t" and "findUser P name t = Inr (Some u)"
  shows "fst (SetICQInfo name info t) = None \<and>
    findUser P name (snd (SetICQInfo name info t)) = Inr (Some (u\<lparr>userICQInfo := withoutCounts info\<rparr>)) \<and>
    (\<forall>other. other \<noteq> name \<longrightarrow> findUser P other (snd (SetICQInfo name info t)) = findUser P other t)"
proof -
  have d: "distinct (map fst (snd (SetICQInfo name info t)))"
    using assms(1) by (simp add: SetICQInfo_def execUpdate_def)
  obtain r h where r: "map_of t name = Some r" "acPasswordHash r = Some h"
    "u = (acUser r)\<lparr>userIdentScreenName := NewIdentScreenName P name, userPasswordHash := h\<rparr>"
    using assms(3) unfolding findUser_map [OF assms(1)]
    by (auto simp: scanUser_def ebind_def split: option.splits)
  have "(name, r) \<in> set t" using r(1) by (rule map_of_SomeD)
  then have nc: "withoutCounts (userICQInfo (acUser r)) = userICQInfo (acUser r)" using assms(2) by (auto simp: noCounts_def)
  let ?f = "homepageColumns (icqHomepageCategory info)
     \<circ> affiliationColumns (icqAffiliations info) \<circ> interestColumns (icqInterests info) \<circ> noteColumns (icqNotes info)
     \<circ> permissionColumns (icqPermissions info) \<circ> workColumns (icqWork info) \<circ> moreColumns (icqMore info)
     \<circ> originColumns (icqBasic info) \<circ> basicColumns (icqBasic info)"
  have "?f (withoutCounts i) = withoutCounts info" for i
    by (simp add: withoutCounts_def homepageColumns_def affiliationColumns_def interestColumns_def noteColumns_def
        permissionColumns_def workColumns_def moreColumns_def originColumns_def basicColumns_def)
  then have f: "?f (userICQInfo (acUser r)) = withoutCounts info" by (metis nc)
  have m: "map_of (snd (SetICQInfo name info t)) i = (if i = name then map_option (onICQ ?f) (map_of t i) else map_of t i)" for i
    by (simp add: SetICQInfo_def execUpdate_def map_of_updateRow)
  have "findUser P name (snd (SetICQInfo name info t)) = Inr (Some (u\<lparr>userICQInfo := withoutCounts info\<rparr>))"
    using r f by (simp add: findUser_map [OF d] m scanUser_def ebind_def onICQ_def onUser_def)
  moreover have "findUser P other (snd (SetICQInfo name info t)) = findUser P other t" if "other \<noteq> name" for other
    using that by (simp add: findUser_map [OF d] findUser_map [OF assms(1)] m)
  moreover have "fst (SetICQInfo name info t) = None" using r(1) by (simp add: SetICQInfo_def execUpdate_def)
  ultimately show ?thesis by blast
qed

definition sampleAccount :: "bytes \<Rightarrow> accountTable" where
  "sampleAccount name = [(name, newAccountRow (zeroUser\<lparr>userIdentScreenName := name, userDisplayScreenName := name\<rparr>))]"

lemma noCounts_sample: "noCounts (sampleAccount name)"
  by (simp add: noCounts_def sampleAccount_def newAccountRow_def withoutCounts_def zeroICQInfo_def zeroICQAffiliations_def
      zeroICQInterests_def)

lemma ICQInfo_roundtrip_witness:
  "\<exists>u. findUser samplePlatform [98] (snd (SetICQInfo [98] (zeroICQInfo\<lparr>icqNotes := \<lparr>userNotes = [1]\<rparr>\<rparr>) (sampleAccount [98]))) = Inr (Some u)
     \<and> userNotes (icqNotes (userICQInfo u)) = [1]"
proof -
  obtain u where u: "findUser samplePlatform [98] (sampleAccount [98]) = Inr (Some u)"
    by (simp add: sampleAccount_def findUser_def queryUsers_def scanUser_def ebind_def newAccountRow_def)
  have "distinct (map fst (sampleAccount [98]))" by (simp add: sampleAccount_def)
  from ICQInfo_roundtrip [OF this noCounts_sample u, of "zeroICQInfo\<lparr>icqNotes := \<lparr>userNotes = [1]\<rparr>\<rparr>"]
  show ?thesis by (simp add: withoutCounts_def)
qed

text \<open>An account from before the hashes, whose hash is null, cannot be read at all: its owner's name
  gives an error and not the account, and so does every search whose condition it meets, for everybody
  else it would have found. Giving the account a password repairs both.\<close>
theorem null_hash_fails:
  assumes "(name, r) \<in> set t" and "acPasswordHash r = None"
  shows "(\<forall>cond. cond (name, r) \<longrightarrow> queryUsers P cond t = Inl ScanNullError) \<and>
    findUser P name t = Inl ScanNullError \<and>
    (\<forall>rand IDKey pw t'. distinct (map fst t) \<longrightarrow> accSetUserPassword IDKey rand name pw t = (None, t') \<longrightarrow>
       (\<exists>u. findUser P name t' = Inr (Some u)))"
proof -
  have scan: "scanUsers P rows = Inl ScanNullError" if "\<exists>row\<in>set rows. acPasswordHash (snd row) = None" for rows
    using that
  proof (induction rows)
    case (Cons a rows)
    show ?case
    proof (cases "acPasswordHash (snd a)")
      case (Some h)
      then show ?thesis using Cons by (auto simp: scanUser_def ebind_def)
    qed (simp add: scanUser_def ebind_def)
  qed simp
  have q: "queryUsers P cond t = Inl ScanNullError" if "cond (name, r)" for cond
    using assms that unfolding queryUsers_def by (intro scan) force
  have "findUser P name t = Inl ScanNullError" unfolding findUser_def using q by (simp add: ebind_def)
  moreover have "\<exists>u. findUser P name t' = Inr (Some u)"
    if d: "distinct (map fst t)" and s: "accSetUserPassword IDKey rand name pw t = (None, t')" for rand IDKey pw t'
  proof -
    obtain h where t': "t' = updateRow name (\<lambda>r. r\<lparr>acPasswordHash := Some h\<rparr>) t" and n: "map_of t name \<noteq> None"
      using s by (auto simp: accSetUserPassword_def split: option.splits sum.splits)
    have d': "distinct (map fst t')" using d by (simp add: t')
    show ?thesis unfolding findUser_map [OF d'] using n by (auto simp: t' map_of_updateRow scanUser_def ebind_def)
  qed
  ultimately show ?thesis using q by blast
qed

definition legacyAccount :: accountTable where
  "legacyAccount = sampleAccount [98] @ [([97], (newAccountRow zeroUser)\<lparr>acPasswordHash := None\<rparr>)]"

lemma null_hash_fails_witness:
  "queryUsers samplePlatform (\<lambda>_. True) legacyAccount = Inl ScanNullError \<and> findUser samplePlatform [97] legacyAccount = Inl ScanNullError"
proof -
  have "([97], (newAccountRow zeroUser)\<lparr>acPasswordHash := None\<rparr>) \<in> set legacyAccount" by (simp add: legacyAccount_def)
  from null_hash_fails [OF this, of samplePlatform] show ?thesis by simp
qed

end
