(* ===== verification/State_Search.thy ===== *)
theory State_Search
  imports State_Accounts "HOL-Library.Sublist"
begin

text \<open>
  The searches of \<open>state/user_store.go\<close> over the table of accounts. A \<open>WHERE\<close> clause is the predicate it
  denotes, or the error of a statement that does not parse; the values of its placeholders are
  bound in it. Text is compared by SQLite as documented: \<open>LOWER\<close> and \<open>LIKE\<close> fold the case of ASCII
  letters only, and \<open>LIKE\<close> takes \<open>%\<close> and \<open>_\<close> of the pattern as wildcards.
\<close>

section \<open>Text\<close>

definition sqlLower :: "bytes \<Rightarrow> bytes" where
  "sqlLower = map asciiLower"

text \<open>The rest of a text after one UTF-8 character.\<close>

definition skipChar :: "bytes \<Rightarrow> bytes" where
  "skipChar s = (if hd s \<ge> 0xC0 then dropWhile (\<lambda>b. b AND 0xC0 = 0x80) (tl s) else tl s)"

lemma skipChar_shorter: "s \<noteq> [] \<Longrightarrow> length (skipChar s) < length s"
proof -
  assume "s \<noteq> []"
  then obtain b t where "s = b # t" by (cases s) auto
  then show ?thesis using length_dropWhile_le [of "\<lambda>b. b AND 0xC0 = 0x80" t] by (simp add: skipChar_def less_Suc_eq_le)
qed

function sqlLike :: "bytes \<Rightarrow> bytes \<Rightarrow> bool" where
  "sqlLike [] s = (s = [])"
| "sqlLike (p # ps) s =
     (if p = 0x25 then sqlLike ps s \<or> (if s = [] then False else sqlLike (p # ps) (tl s))
      else if s = [] then False
      else if p = 0x5F then sqlLike ps (skipChar s)
      else asciiLower p = asciiLower (hd s) \<and> sqlLike ps (tl s))"
  by pat_completeness auto
termination
  by (relation "measure (\<lambda>(p, s). length p + length s)") (auto dest: skipChar_shorter intro: diff_Suc_less)

definition containsPattern :: "bytes \<Rightarrow> bytes" where
  "containsPattern val = [0x25] @ val @ [0x25]"

section \<open>Clauses\<close>

type_synonym storedAccount = "IdentScreenName \<times> accountRow"
type_synonym whereClause = "storeError + (storedAccount \<Rightarrow> bool)"

abbreviation (input) basicOf :: "storedAccount \<Rightarrow> ICQBasicInfo" where "basicOf a \<equiv> icqBasic (userICQInfo (acUser (snd a)))"
abbreviation (input) workOf :: "storedAccount \<Rightarrow> ICQWorkInfo" where "workOf a \<equiv> icqWork (userICQInfo (acUser (snd a)))"
abbreviation (input) moreOf :: "storedAccount \<Rightarrow> ICQMoreInfo" where "moreOf a \<equiv> icqMore (userICQInfo (acUser (snd a)))"
abbreviation (input) interestsOf :: "storedAccount \<Rightarrow> ICQInterests" where "interestsOf a \<equiv> icqInterests (userICQInfo (acUser (snd a)))"
abbreviation (input) affiliationsOf :: "storedAccount \<Rightarrow> ICQAffiliations" where "affiliationsOf a \<equiv> icqAffiliations (userICQInfo (acUser (snd a)))"
abbreviation (input) homepageOf :: "storedAccount \<Rightarrow> ICQHomepageCategory" where "homepageOf a \<equiv> icqHomepageCategory (userICQInfo (acUser (snd a)))"
abbreviation (input) directoryOf :: "storedAccount \<Rightarrow> AIMNameAndAddr" where "directoryOf a \<equiv> userAIMDirectoryInfo (acUser (snd a))"

text \<open>\<open>strings.Join\<close> with a connective; joining nothing leaves an empty clause, which does not parse.\<close>

fun joinClauses :: "(bool \<Rightarrow> bool \<Rightarrow> bool) \<Rightarrow> whereClause list \<Rightarrow> whereClause" where
  "joinClauses f [] = Inl SQLSyntaxError"
| "joinClauses f [c] = c"
| "joinClauses f (c # cs) = ebind c (\<lambda>p. ebind (joinClauses f cs) (\<lambda>q. Inr (\<lambda>a. f (p a) (q a))))"

definition runQuery :: "platform \<Rightarrow> whereClause \<Rightarrow> accountTable \<Rightarrow> storeError + User list" where
  "runQuery P c t = ebind c (\<lambda>p. queryUsers P p t)"

definition ifNonEmpty :: "bytes \<Rightarrow> (storedAccount \<Rightarrow> bytes) \<Rightarrow> whereClause list" where
  "ifNonEmpty val column = (if val \<noteq> [] then [Inr (\<lambda>a. sqlLower (column a) = sqlLower val)] else [])"

definition appendLike :: "bytes option \<Rightarrow> (storedAccount \<Rightarrow> bytes) \<Rightarrow> whereClause list" where
  "appendLike val column = (case val of None \<Rightarrow> []
     | Some v \<Rightarrow> [Inr (\<lambda>a. sqlLike (sqlLower (containsPattern v)) (sqlLower (column a)))])"

definition FindByICQName :: "platform \<Rightarrow> bytes \<Rightarrow> bytes \<Rightarrow> bytes \<Rightarrow> accountTable \<Rightarrow> storeError + User list" where
  "FindByICQName P firstName lastName nickName =
     runQuery P (joinClauses (\<and>) (ifNonEmpty firstName (\<lambda>a. basicFirstName (basicOf a))
       @ ifNonEmpty lastName (\<lambda>a. basicLastName (basicOf a)) @ ifNonEmpty nickName (\<lambda>a. basicNickname (basicOf a))))"

definition FindByAIMNameAndAddr :: "platform \<Rightarrow> AIMNameAndAddr \<Rightarrow> accountTable \<Rightarrow> storeError + User list" where
  "FindByAIMNameAndAddr P info =
     runQuery P (joinClauses (\<and>) (ifNonEmpty (dirFirstName info) (\<lambda>a. dirFirstName (directoryOf a))
       @ ifNonEmpty (dirLastName info) (\<lambda>a. dirLastName (directoryOf a))
       @ ifNonEmpty (dirMiddleName info) (\<lambda>a. dirMiddleName (directoryOf a))
       @ ifNonEmpty (dirMaidenName info) (\<lambda>a. dirMaidenName (directoryOf a))
       @ ifNonEmpty (dirCountry info) (\<lambda>a. dirCountry (directoryOf a))
       @ ifNonEmpty (dirState info) (\<lambda>a. dirState (directoryOf a))
       @ ifNonEmpty (dirCity info) (\<lambda>a. dirCity (directoryOf a))
       @ ifNonEmpty (dirNickName info) (\<lambda>a. dirNickName (directoryOf a))
       @ ifNonEmpty (dirZIPCode info) (\<lambda>a. dirZIPCode (directoryOf a))
       @ ifNonEmpty (dirAddress info) (\<lambda>a. dirAddress (directoryOf a))))"

text \<open>A slot is a column with a code and a column with a keyword.\<close>

type_synonym slotColumns = "(storedAccount \<Rightarrow> u16) \<times> (storedAccount \<Rightarrow> bytes)"

definition slotClause :: "u16 \<Rightarrow> bytes list \<Rightarrow> slotColumns \<Rightarrow> whereClause" where
  "slotClause code keywords slot =
     ebind (joinClauses (\<or>) (map (\<lambda>key. Inr (\<lambda>a. sqlLike (containsPattern key) (snd slot a))) keywords)) (\<lambda>p.
       Inr (\<lambda>a. fst slot a = code \<and> p a))"

definition interestSlots :: "slotColumns list" where
  "interestSlots = [(\<lambda>a. interestCode1 (interestsOf a), \<lambda>a. interestKeyword1 (interestsOf a)),
     (\<lambda>a. interestCode2 (interestsOf a), \<lambda>a. interestKeyword2 (interestsOf a)),
     (\<lambda>a. interestCode3 (interestsOf a), \<lambda>a. interestKeyword3 (interestsOf a)),
     (\<lambda>a. interestCode4 (interestsOf a), \<lambda>a. interestKeyword4 (interestsOf a))]"

definition currentSlots :: "slotColumns list" where
  "currentSlots = [(\<lambda>a. affilCurrentCode1 (affiliationsOf a), \<lambda>a. affilCurrentKeyword1 (affiliationsOf a)),
     (\<lambda>a. affilCurrentCode2 (affiliationsOf a), \<lambda>a. affilCurrentKeyword2 (affiliationsOf a)),
     (\<lambda>a. affilCurrentCode3 (affiliationsOf a), \<lambda>a. affilCurrentKeyword3 (affiliationsOf a))]"

definition pastSlots :: "slotColumns list" where
  "pastSlots = [(\<lambda>a. affilPastCode1 (affiliationsOf a), \<lambda>a. affilPastKeyword1 (affiliationsOf a)),
     (\<lambda>a. affilPastCode2 (affiliationsOf a), \<lambda>a. affilPastKeyword2 (affiliationsOf a)),
     (\<lambda>a. affilPastCode3 (affiliationsOf a), \<lambda>a. affilPastKeyword3 (affiliationsOf a))]"

definition icqInterestsWhereClause :: "u16 \<Rightarrow> bytes list \<Rightarrow> whereClause" where
  "icqInterestsWhereClause code keywords = joinClauses (\<or>) (map (slotClause code keywords) interestSlots)"

definition icqAffiliationsWhereClause :: "u16 \<Rightarrow> bytes list \<Rightarrow> slotColumns list \<Rightarrow> whereClause" where
  "icqAffiliationsWhereClause code keywords slots = joinClauses (\<or>) (map (slotClause code keywords) slots)"

definition anyInterest :: "bytes \<Rightarrow> whereClause" where
  "anyInterest keyword = joinClauses (\<or>) (map (\<lambda>slot. Inr (\<lambda>a. sqlLike (containsPattern keyword) (snd slot a))) interestSlots)"

definition FindByICQInterests :: "platform \<Rightarrow> u16 \<Rightarrow> bytes list \<Rightarrow> accountTable \<Rightarrow> storeError + User list" where
  "FindByICQInterests P code keywords = runQuery P (icqInterestsWhereClause code keywords)"

definition FindByICQKeyword :: "platform \<Rightarrow> bytes \<Rightarrow> accountTable \<Rightarrow> storeError + User list" where
  "FindByICQKeyword P keyword = runQuery P (anyInterest keyword)"

section \<open>The white pages search\<close>

record ICQUserSearchCriteria =
  critUIN :: "u32 option"
  critFirstName :: "bytes option"
  critLastName :: "bytes option"
  critNickName :: "bytes option"
  critEmail :: "bytes option"
  critMinAge :: "u16 option"
  critMaxAge :: "u16 option"
  critGender :: "byte option"
  critSpokenLanguage :: "byte option"
  critCity :: "bytes option"
  critState :: "bytes option"
  critCountryCode :: "u16 option"
  critCompany :: "bytes option"
  critPosition :: "bytes option"
  critDepartmentName :: "bytes option"
  critOccupationCode :: "u16 option"
  critInterestsCode :: "u16 option"
  critInterestsKeywords :: "bytes list"
  critAffiliationsCode :: "u16 option"
  critAffiliationsKeywords :: "bytes list"
  critPastAffiliationsCode :: "u16 option"
  critPastAffiliationsKeywords :: "bytes list"
  critHomePageCategoryIndex :: "u16 option"
  critHomePageKeywords :: "bytes list"
  critAnyKeyword :: "bytes option"

definition whenSet :: "'v option \<Rightarrow> ('v \<Rightarrow> storedAccount \<Rightarrow> bool) \<Rightarrow> whereClause list" where
  "whenSet c p = (case c of None \<Rightarrow> [] | Some v \<Rightarrow> [Inr (p v)])"

definition whenCode :: "u16 option \<Rightarrow> (u16 \<Rightarrow> whereClause) \<Rightarrow> whereClause list" where
  "whenCode c f = (case c of None \<Rightarrow> [] | Some v \<Rightarrow> [f v])"

text \<open>\<open>year\<close> is the current year.\<close>

definition searchClauses :: "int \<Rightarrow> ICQUserSearchCriteria \<Rightarrow> whereClause list" where
  "searchClauses year c =
     whenSet (critUIN c) (\<lambda>v a. fst a = showDecimal (unat v))
     @ appendLike (critFirstName c) (\<lambda>a. basicFirstName (basicOf a))
     @ appendLike (critLastName c) (\<lambda>a. basicLastName (basicOf a))
     @ appendLike (critNickName c) (\<lambda>a. basicNickname (basicOf a))
     @ appendLike (critEmail c) (\<lambda>a. basicEmailAddress (basicOf a))
     @ whenSet (critGender c) (\<lambda>v a. uint (Gender (moreOf a)) = uint v)
     @ whenSet (critSpokenLanguage c) (\<lambda>v a. Lang1 (moreOf a) = v \<or> Lang2 (moreOf a) = v \<or> Lang3 (moreOf a) = v)
     @ whenSet (critMinAge c) (\<lambda>v a. BirthYear (moreOf a) > 0 \<and> year - uint (BirthYear (moreOf a)) \<ge> uint v)
     @ whenSet (critMaxAge c) (\<lambda>v a. BirthYear (moreOf a) > 0 \<and> year - uint (BirthYear (moreOf a)) \<le> uint v)
     @ appendLike (critCity c) (\<lambda>a. basicCity (basicOf a))
     @ whenSet (critState c) (\<lambda>v a. sqlLike (sqlLower (containsPattern v)) (sqlLower (basicState (basicOf a)))
         \<or> sqlLike (sqlLower (containsPattern v)) (sqlLower (workState (workOf a))))
     @ whenSet (critCountryCode c) (\<lambda>v a. basicCountryCode (basicOf a) = v \<or> workCountryCode (workOf a) = v)
     @ appendLike (critCompany c) (\<lambda>a. workCompany (workOf a))
     @ appendLike (critDepartmentName c) (\<lambda>a. workDepartment (workOf a))
     @ appendLike (critPosition c) (\<lambda>a. workPosition (workOf a))
     @ whenSet (critOccupationCode c) (\<lambda>v a. workOccupationCode (workOf a) = v)
     @ whenCode (critInterestsCode c) (\<lambda>v. icqInterestsWhereClause v (critInterestsKeywords c))
     @ whenCode (critAffiliationsCode c) (\<lambda>v. icqAffiliationsWhereClause v (critAffiliationsKeywords c) currentSlots)
     @ whenCode (critPastAffiliationsCode c) (\<lambda>v. icqAffiliationsWhereClause v (critPastAffiliationsKeywords c) pastSlots)
     @ whenSet (critHomePageCategoryIndex c) (\<lambda>v a. homepageIndex (homepageOf a) = v)
     @ (if length (critHomePageKeywords c) > 0
        then [joinClauses (\<or>) (map (\<lambda>kw. Inr (\<lambda>a. sqlLike (sqlLower (containsPattern kw))
          (sqlLower (homepageDescription (homepageOf a))))) (critHomePageKeywords c))] else [])
     @ (case critAnyKeyword c of None \<Rightarrow> [] | Some kw \<Rightarrow> [anyInterest kw])"

definition SearchICQUsers :: "platform \<Rightarrow> int \<Rightarrow> ICQUserSearchCriteria \<Rightarrow> accountTable \<Rightarrow> storeError + User list" where
  "SearchICQUsers P year c t =
     (let clauses = searchClauses year c in
      if length clauses = 0 then Inl ErrICQSearchEmptyCriteria
      else runQuery P (joinClauses (\<and>) (clauses @ [Inr (\<lambda>a. userIsICQ (acUser (snd a)))])) t)"

section \<open>What the clauses mean\<close>

text \<open>A text without wildcards.\<close>

definition plainText :: "bytes \<Rightarrow> bool" where
  "plainText v \<longleftrightarrow> 0x25 \<notin> set v \<and> 0x5F \<notin> set v"

definition containsText :: "bytes \<Rightarrow> bytes \<Rightarrow> bool" where
  "containsText v s = sublist (sqlLower v) (sqlLower s)"

lemma asciiLower_idem [simp]: "asciiLower (asciiLower b) = asciiLower b"
  by (auto simp: asciiLower_def word_le_nat_alt unat_word_ariths)

lemma sqlLower_idem [simp]: "sqlLower (sqlLower s) = sqlLower s"
  by (simp add: sqlLower_def)

lemma asciiLower_wildcard: "asciiLower b = 0x25 \<longleftrightarrow> b = 0x25" "asciiLower b = 0x5F \<longleftrightarrow> b = 0x5F"
proof -
  have "\<forall>b :: byte. (asciiLower b = 0x25 \<longleftrightarrow> b = 0x25) \<and> (asciiLower b = 0x5F \<longleftrightarrow> b = 0x5F)"
    unfolding asciiLower_def by (auto simp: word_le_nat_alt word_unat_eq_iff unat_word_ariths)
  then show "asciiLower b = 0x25 \<longleftrightarrow> b = 0x25" "asciiLower b = 0x5F \<longleftrightarrow> b = 0x5F" by blast+
qed

lemma plainText_lower [simp]: "plainText (sqlLower v) = plainText v"
  by (auto simp: plainText_def sqlLower_def image_iff asciiLower_wildcard)

lemma sqlLike_any: "sqlLike [0x25] s"
  by (induction s) simp_all

lemma sqlLike_prefix: "plainText v \<Longrightarrow> sqlLike (v @ [0x25]) s \<longleftrightarrow> prefix (sqlLower v) (sqlLower s)"
proof (induction v arbitrary: s)
  case (Cons b v)
  then have b: "b \<noteq> 0x25" "b \<noteq> 0x5F" "plainText v" by (auto simp: plainText_def)
  show ?case using Cons.IH [OF b(3)] b by (cases s) (auto simp: sqlLower_def)
qed (simp add: sqlLike_any sqlLower_def del: sqlLike.simps)

lemma sqlLike_contains: "plainText v \<Longrightarrow> sqlLike (containsPattern v) s \<longleftrightarrow> containsText v s"
proof (induction s)
  case Nil
  show ?case using sqlLike_prefix [OF Nil, of "[]"]
    by (simp add: containsPattern_def containsText_def sqlLower_def)
next
  case (Cons b s)
  have "sqlLike (containsPattern v) (b # s) \<longleftrightarrow> sqlLike (v @ [0x25]) (b # s) \<or> sqlLike (containsPattern v) s"
    by (simp add: containsPattern_def)
  then show ?case using Cons sqlLike_prefix [OF Cons.prems, of "b # s"]
    by (simp add: containsText_def sqlLower_def sublist_Cons_right)
qed

lemma containsPattern_lower: "sqlLower (containsPattern v) = containsPattern (sqlLower v)"
  by (simp add: containsPattern_def sqlLower_def asciiLower_def)

lemma sqlLike_lower: "plainText v \<Longrightarrow> sqlLike (sqlLower (containsPattern v)) (sqlLower s) \<longleftrightarrow> containsText v s"
  using sqlLike_contains [of "sqlLower v" "sqlLower s"] by (simp add: containsPattern_lower containsText_def)

lemma join_all: "ps \<noteq> [] \<Longrightarrow> joinClauses (\<and>) (map Inr ps) = Inr (\<lambda>a. \<forall>p\<in>set ps. p a)"
proof (induction ps rule: induct_list012)
  case (3 p q ps)
  then show ?case by (simp add: ebind_def)
qed simp_all

lemma join_any: "ps \<noteq> [] \<Longrightarrow> joinClauses (\<or>) (map Inr ps) = Inr (\<lambda>a. \<exists>p\<in>set ps. p a)"
proof (induction ps rule: induct_list012)
  case (3 p q ps)
  then show ?case by (simp add: ebind_def)
qed simp_all

lemma slotClause_plain:
  assumes "list_all plainText keywords" and "keywords \<noteq> []"
  shows "slotClause code keywords slot = Inr (\<lambda>a. fst slot a = code \<and> (\<exists>k\<in>set keywords. containsText k (snd slot a)))"
proof -
  have "joinClauses (\<or>) (map (\<lambda>key. Inr (\<lambda>a. sqlLike (containsPattern key) (snd slot a))) keywords)
      = joinClauses (\<or>) (map Inr (map (\<lambda>key a. containsText key (snd slot a)) keywords))"
    using assms(1) by (auto simp: list_all_iff sqlLike_contains fun_eq_iff intro!: arg_cong [where f = "joinClauses (\<or>)"])
  also have "\<dots> = Inr (\<lambda>a. \<exists>k\<in>set keywords. containsText k (snd slot a))"
    using assms(2) by (subst join_any) (simp_all add: fun_eq_iff)
  finally show ?thesis by (simp add: slotClause_def ebind_def)
qed

definition slotMatch :: "slotColumns list \<Rightarrow> bytes list \<Rightarrow> u16 \<Rightarrow> storedAccount \<Rightarrow> bool" where
  "slotMatch slots keywords code a \<longleftrightarrow> (\<exists>s\<in>set slots. fst s a = code \<and> (\<exists>k\<in>set keywords. containsText k (snd s a)))"

lemma slots_plain:
  assumes "list_all plainText keywords" and "keywords \<noteq> []" and "slots \<noteq> []"
  shows "joinClauses (\<or>) (map (slotClause code keywords) slots) = Inr (slotMatch slots keywords code)"
proof -
  have "map (slotClause code keywords) slots
      = map Inr (map (\<lambda>s a. fst s a = code \<and> (\<exists>k\<in>set keywords. containsText k (snd s a))) slots)"
    using slotClause_plain [OF assms(1,2)] by simp
  then show ?thesis using assms(3) by (simp add: join_any slotMatch_def fun_eq_iff del: map_map)
qed

section \<open>Properties\<close>

text \<open>What each constraint asks of an account.\<close>

definition criteriaMatch :: "int \<Rightarrow> ICQUserSearchCriteria \<Rightarrow> storedAccount \<Rightarrow> bool" where
  "criteriaMatch year c a \<longleftrightarrow>
     (\<forall>v. critUIN c = Some v \<longrightarrow> fst a = showDecimal (unat v)) \<and>
     (\<forall>v. critFirstName c = Some v \<longrightarrow> containsText v (basicFirstName (basicOf a))) \<and>
     (\<forall>v. critLastName c = Some v \<longrightarrow> containsText v (basicLastName (basicOf a))) \<and>
     (\<forall>v. critNickName c = Some v \<longrightarrow> containsText v (basicNickname (basicOf a))) \<and>
     (\<forall>v. critEmail c = Some v \<longrightarrow> containsText v (basicEmailAddress (basicOf a))) \<and>
     (\<forall>v. critGender c = Some v \<longrightarrow> uint (Gender (moreOf a)) = uint v) \<and>
     (\<forall>v. critSpokenLanguage c = Some v \<longrightarrow> Lang1 (moreOf a) = v \<or> Lang2 (moreOf a) = v \<or> Lang3 (moreOf a) = v) \<and>
     (\<forall>v. critMinAge c = Some v \<longrightarrow> BirthYear (moreOf a) > 0 \<and> year - uint (BirthYear (moreOf a)) \<ge> uint v) \<and>
     (\<forall>v. critMaxAge c = Some v \<longrightarrow> BirthYear (moreOf a) > 0 \<and> year - uint (BirthYear (moreOf a)) \<le> uint v) \<and>
     (\<forall>v. critCity c = Some v \<longrightarrow> containsText v (basicCity (basicOf a))) \<and>
     (\<forall>v. critState c = Some v \<longrightarrow> containsText v (basicState (basicOf a)) \<or> containsText v (workState (workOf a))) \<and>
     (\<forall>v. critCountryCode c = Some v \<longrightarrow> basicCountryCode (basicOf a) = v \<or> workCountryCode (workOf a) = v) \<and>
     (\<forall>v. critCompany c = Some v \<longrightarrow> containsText v (workCompany (workOf a))) \<and>
     (\<forall>v. critDepartmentName c = Some v \<longrightarrow> containsText v (workDepartment (workOf a))) \<and>
     (\<forall>v. critPosition c = Some v \<longrightarrow> containsText v (workPosition (workOf a))) \<and>
     (\<forall>v. critOccupationCode c = Some v \<longrightarrow> workOccupationCode (workOf a) = v) \<and>
     (\<forall>v. critInterestsCode c = Some v \<longrightarrow> slotMatch interestSlots (critInterestsKeywords c) v a) \<and>
     (\<forall>v. critAffiliationsCode c = Some v \<longrightarrow> slotMatch currentSlots (critAffiliationsKeywords c) v a) \<and>
     (\<forall>v. critPastAffiliationsCode c = Some v \<longrightarrow> slotMatch pastSlots (critPastAffiliationsKeywords c) v a) \<and>
     (\<forall>v. critHomePageCategoryIndex c = Some v \<longrightarrow> homepageIndex (homepageOf a) = v) \<and>
     (critHomePageKeywords c \<noteq> [] \<longrightarrow> (\<exists>k\<in>set (critHomePageKeywords c). containsText k (homepageDescription (homepageOf a)))) \<and>
     (\<forall>v. critAnyKeyword c = Some v \<longrightarrow> (\<exists>s\<in>set interestSlots. containsText v (snd s a)))"

definition emptyCriteria :: ICQUserSearchCriteria where
  "emptyCriteria = \<lparr>critUIN = None, critFirstName = None, critLastName = None, critNickName = None, critEmail = None,
     critMinAge = None, critMaxAge = None, critGender = None, critSpokenLanguage = None, critCity = None,
     critState = None, critCountryCode = None, critCompany = None, critPosition = None, critDepartmentName = None,
     critOccupationCode = None, critInterestsCode = None, critInterestsKeywords = [], critAffiliationsCode = None,
     critAffiliationsKeywords = [], critPastAffiliationsCode = None, critPastAffiliationsKeywords = [],
     critHomePageCategoryIndex = None, critHomePageKeywords = [], critAnyKeyword = None\<rparr>"

text \<open>Nothing is asked.\<close>

definition asksNothing :: "ICQUserSearchCriteria \<Rightarrow> bool" where
  "asksNothing c \<longleftrightarrow> c\<lparr>critInterestsKeywords := [], critAffiliationsKeywords := [], critPastAffiliationsKeywords := []\<rparr> = emptyCriteria"

text \<open>The texts have no wildcards, and where there is a code there are keywords, as the comments on the
  criteria ask.\<close>

definition plainOption :: "bytes option \<Rightarrow> bool" where
  "plainOption v \<longleftrightarrow> (case v of None \<Rightarrow> True | Some b \<Rightarrow> plainText b)"

definition codeWithKeywords :: "u16 option \<Rightarrow> bytes list \<Rightarrow> bool" where
  "codeWithKeywords c ks \<longleftrightarrow> list_all plainText ks \<and> (c \<noteq> None \<longrightarrow> ks \<noteq> [])"

definition plainCriteria :: "ICQUserSearchCriteria \<Rightarrow> bool" where
  "plainCriteria c \<longleftrightarrow> list_all plainOption [critFirstName c, critLastName c, critNickName c, critEmail c, critCity c,
       critState c, critCompany c, critPosition c, critDepartmentName c, critAnyKeyword c] \<and>
     codeWithKeywords (critInterestsCode c) (critInterestsKeywords c) \<and>
     codeWithKeywords (critAffiliationsCode c) (critAffiliationsKeywords c) \<and>
     codeWithKeywords (critPastAffiliationsCode c) (critPastAffiliationsKeywords c) \<and>
     list_all plainText (critHomePageKeywords c)"

text \<open>A list of clauses that parse, with the predicate it stands for.\<close>

definition means :: "whereClause list \<Rightarrow> (storedAccount \<Rightarrow> bool) \<Rightarrow> bool" where
  "means cs q \<longleftrightarrow> (\<exists>ps. cs = map Inr ps \<and> (\<forall>a. q a \<longleftrightarrow> (\<forall>p\<in>set ps. p a)))"

lemma means_append: "means cs p \<Longrightarrow> means ds q \<Longrightarrow> means (cs @ ds) (\<lambda>a. p a \<and> q a)"
  unfolding means_def by (metis map_append set_append Un_iff)

lemma means_one: "means [Inr p] p"
  unfolding means_def by (intro exI [of _ "[p]"]) simp

lemma means_nil: "means [] (\<lambda>_. True)"
  unfolding means_def by (intro exI [of _ "[]"]) simp

lemma means_whenSet: "means (whenSet c p) (\<lambda>a. \<forall>v. c = Some v \<longrightarrow> p v a)"
  using means_one means_nil by (cases c) (simp_all add: whenSet_def)

lemma means_whenCode:
  assumes "\<And>v. c = Some v \<Longrightarrow> f v = Inr (p v)"
  shows "means (whenCode c f) (\<lambda>a. \<forall>v. c = Some v \<longrightarrow> p v a)"
  using means_one means_nil assms by (cases c) (simp_all add: whenCode_def)

lemma means_appendLike:
  assumes "plainOption v"
  shows "means (appendLike v col) (\<lambda>a. \<forall>x. v = Some x \<longrightarrow> containsText x (col a))"
  using means_one means_nil assms
  by (cases v) (simp_all add: appendLike_def plainOption_def sqlLike_lower)

lemma means_keywords:
  assumes "list_all plainText ks"
  shows "means (if length ks > 0 then [joinClauses (\<or>) (map (\<lambda>kw. Inr (\<lambda>a. sqlLike (sqlLower (containsPattern kw)) (sqlLower (col a)))) ks)] else [])
    (\<lambda>a. ks \<noteq> [] \<longrightarrow> (\<exists>k\<in>set ks. containsText k (col a)))"
proof (cases "ks = []")
  case False
  have e: "map (\<lambda>kw. Inr (\<lambda>a. sqlLike (sqlLower (containsPattern kw)) (sqlLower (col a)))) ks
      = map Inr (map (\<lambda>k a. containsText k (col a)) ks)"
    using assms by (auto simp: list_all_iff sqlLike_lower fun_eq_iff)
  have "joinClauses (\<or>) (map (\<lambda>kw. Inr (\<lambda>a. sqlLike (sqlLower (containsPattern kw)) (sqlLower (col a)))) ks)
      = Inr (\<lambda>a. \<exists>k\<in>set ks. containsText k (col a))"
    unfolding e using False by (subst join_any) (simp_all add: fun_eq_iff)
  then show ?thesis using means_one False by simp
qed (simp add: means_nil)

lemma means_any:
  assumes "plainOption v"
  shows "means (case v of None \<Rightarrow> [] | Some kw \<Rightarrow> [anyInterest kw])
    (\<lambda>a. \<forall>x. v = Some x \<longrightarrow> (\<exists>s\<in>set interestSlots. containsText x (snd s a)))"
proof (cases v)
  case (Some x)
  have e: "map (\<lambda>slot. Inr (\<lambda>a. sqlLike (containsPattern x) (snd slot a))) interestSlots
      = map Inr (map (\<lambda>s a. containsText x (snd s a)) interestSlots)"
    using assms Some by (simp add: plainOption_def sqlLike_contains)
  have "anyInterest x = Inr (\<lambda>a. \<exists>s\<in>set interestSlots. containsText x (snd s a))"
    unfolding anyInterest_def e by (subst join_any) (simp_all add: fun_eq_iff interestSlots_def)
  then show ?thesis using means_one Some by simp
qed (simp add: means_nil)

lemma means_slots:
  assumes "codeWithKeywords c ks" and "slots \<noteq> []"
  shows "means (whenCode c (\<lambda>v. joinClauses (\<or>) (map (slotClause v ks) slots))) (\<lambda>a. \<forall>v. c = Some v \<longrightarrow> slotMatch slots ks v a)"
  using assms by (intro means_whenCode slots_plain) (auto simp: codeWithKeywords_def)

lemma means_state:
  assumes "plainOption (critState c)"
  shows "means (whenSet (critState c) (\<lambda>v a. sqlLike (sqlLower (containsPattern v)) (sqlLower (f a)) \<or> sqlLike (sqlLower (containsPattern v)) (sqlLower (g a))))
    (\<lambda>a. \<forall>v. critState c = Some v \<longrightarrow> containsText v (f a) \<or> containsText v (g a))"
proof (cases "critState c")
  case (Some v)
  then have "plainText v" using assms by (simp add: plainOption_def)
  then show ?thesis using means_whenSet [of "critState c" "\<lambda>v a. containsText v (f a) \<or> containsText v (g a)"] Some
    by (simp add: whenSet_def sqlLike_lower)
qed (simp add: means_nil whenSet_def)

lemma searchClauses_mean:
  assumes "plainCriteria c"
  shows "means (searchClauses year c) (criteriaMatch year c)"
proof -
  have p: "plainOption (critFirstName c)" "plainOption (critLastName c)" "plainOption (critNickName c)" "plainOption (critEmail c)"
    "plainOption (critCity c)" "plainOption (critState c)" "plainOption (critCompany c)" "plainOption (critPosition c)"
    "plainOption (critDepartmentName c)" "plainOption (critAnyKeyword c)" "list_all plainText (critHomePageKeywords c)"
    "codeWithKeywords (critInterestsCode c) (critInterestsKeywords c)"
    "codeWithKeywords (critAffiliationsCode c) (critAffiliationsKeywords c)"
    "codeWithKeywords (critPastAffiliationsCode c) (critPastAffiliationsKeywords c)"
    using assms by (simp_all add: plainCriteria_def)
  have n: "interestSlots \<noteq> []" "currentSlots \<noteq> []" "pastSlots \<noteq> []"
    by (simp_all add: interestSlots_def currentSlots_def pastSlots_def)
  show ?thesis
    unfolding searchClauses_def criteriaMatch_def icqInterestsWhereClause_def icqAffiliationsWhereClause_def
    by (intro means_append means_whenSet means_appendLike means_slots means_state means_keywords means_any p n)
qed

lemma searchClauses_empty: "searchClauses year c = [] \<longleftrightarrow> asksNothing c"
proof -
  have w: "whenSet x p = [] \<longleftrightarrow> x = None" "whenCode y f = [] \<longleftrightarrow> y = None" "appendLike z col = [] \<longleftrightarrow> z = None"
    for x :: "'x option" and p y f z col
    by (simp_all add: whenSet_def whenCode_def appendLike_def split: option.split)
  have "(case critAnyKeyword c of None \<Rightarrow> [] | Some kw \<Rightarrow> [anyInterest kw]) = [] \<longleftrightarrow> critAnyKeyword c = None"
    by (simp split: option.split)
  then show ?thesis
    unfolding searchClauses_def asksNothing_def emptyCriteria_def
    by (cases c) (auto simp: w)
qed

lemma scanUsers_hashed:
  assumes "\<forall>a\<in>set rows. acPasswordHash (snd a) \<noteq> None"
  shows "scanUsers P rows = Inr (map (\<lambda>a. projr (scanUser P a)) rows)"
  using assms by (induction rows) (auto simp: scanUser_def ebind_def)

text \<open>A white pages search without wildcards in its texts answers exactly the ICQ accounts that meet all
  its constraints, in the order of the table; the texts are found anywhere in the column, whatever the
  case of ASCII letters. A search that asks nothing is refused.\<close>
theorem search_exact:
  assumes "plainCriteria c" and "\<forall>a\<in>set t. acPasswordHash (snd a) \<noteq> None"
  shows "SearchICQUsers P year c t =
    (if asksNothing c then Inl ErrICQSearchEmptyCriteria
     else Inr (map (\<lambda>a. projr (scanUser P a)) (filter (\<lambda>a. criteriaMatch year c a \<and> userIsICQ (acUser (snd a))) t)))"
proof (cases "asksNothing c")
  case True
  then show ?thesis by (simp add: SearchICQUsers_def searchClauses_empty)
next
  case False
  have "means (searchClauses year c @ [Inr (\<lambda>a. userIsICQ (acUser (snd a)))])
      (\<lambda>a. criteriaMatch year c a \<and> userIsICQ (acUser (snd a)))"
    by (intro means_append searchClauses_mean assms(1) means_one)
  then obtain ps where ps: "searchClauses year c @ [Inr (\<lambda>a. userIsICQ (acUser (snd a)))] = map Inr ps"
    "\<And>a. criteriaMatch year c a \<and> userIsICQ (acUser (snd a)) \<longleftrightarrow> (\<forall>p\<in>set ps. p a)"
    unfolding means_def by blast
  have "ps \<noteq> []" using ps(1) by auto
  then have "SearchICQUsers P year c t = queryUsers P (\<lambda>a. criteriaMatch year c a \<and> userIsICQ (acUser (snd a))) t"
    using False by (simp add: SearchICQUsers_def searchClauses_empty runQuery_def ps join_all ebind_def)
  then show ?thesis using assms(2) False by (simp add: queryUsers_def scanUsers_hashed)
qed

definition namedJohn :: ICQUserSearchCriteria where
  "namedJohn = emptyCriteria\<lparr>critFirstName := Some (asciiBytes ''Joh'')\<rparr>"

definition sampleICQ :: "bytes \<Rightarrow> accountTable" where
  "sampleICQ name = snd (SetBasicInfo (asciiBytes ''10001'') (icqBasic zeroICQInfo\<lparr>basicFirstName := name\<rparr>)
     [(asciiBytes ''10001'', newAccountRow (zeroUser\<lparr>userIsICQ := True\<rparr>))])"

lemma search_exact_witness:
  "map_sum id length (SearchICQUsers samplePlatform 2025 namedJohn (sampleICQ (asciiBytes ''little john''))) = Inr 1"
proof -
  have p: "plainCriteria namedJohn"
    by (simp add: plainCriteria_def namedJohn_def emptyCriteria_def plainOption_def plainText_def codeWithKeywords_def asciiBytes_def)
  have h: "\<forall>a\<in>set (sampleICQ (asciiBytes ''little john'')). acPasswordHash (snd a) \<noteq> None"
    by (simp add: sampleICQ_def SetBasicInfo_def execUpdate_def updateRow_def newAccountRow_def onICQ_def onUser_def)
  have a: "\<not> asksNothing namedJohn" by (simp add: asksNothing_def namedJohn_def emptyCriteria_def)
  have "filter (\<lambda>a. criteriaMatch 2025 namedJohn a \<and> userIsICQ (acUser (snd a))) (sampleICQ (asciiBytes ''little john''))
      = sampleICQ (asciiBytes ''little john'')"
    by (simp add: criteriaMatch_def namedJohn_def emptyCriteria_def sampleICQ_def SetBasicInfo_def execUpdate_def
        updateRow_def newAccountRow_def onICQ_def onUser_def basicColumns_def containsText_def sqlLower_def asciiBytes_def
        asciiLower_def sublist_code prefix_code)
  then show ?thesis using search_exact [OF p h, of samplePlatform 2025] a
    by (simp add: sampleICQ_def SetBasicInfo_def execUpdate_def updateRow_def)
qed

text \<open>A percent sign in a search is not looked for: it matches any text. A search for it in the first
  name answers every ICQ account, and a keyword search for it every account at all.\<close>
theorem percent_matches_all:
  "SearchICQUsers P year (emptyCriteria\<lparr>critFirstName := Some [0x25]\<rparr>) t = queryUsers P (\<lambda>a. userIsICQ (acUser (snd a))) t \<and>
   FindByICQKeyword P [0x25] t = queryUsers P (\<lambda>_. True) t"
proof -
  have any: "sqlLike [0x25, 0x25, 0x25] s" for s using sqlLike_any [of s] by (cases s) simp_all
  show ?thesis
    by (simp add: SearchICQUsers_def searchClauses_def emptyCriteria_def whenSet_def whenCode_def appendLike_def runQuery_def
        FindByICQKeyword_def anyInterest_def interestSlots_def ebind_def containsPattern_def sqlLower_def asciiLower_def any
        del: sqlLike.simps)
qed

end
