(* ===== verification/State_Mail.thy ===== *)
theory State_Mail
  imports State_Accounts State_BuddyLists Wire_Catalogue
begin

text \<open>
  Offline messages: the table \<open>offlineMessage\<close> of \<open>state/user_store.go\<close> with its foreign keys to the
  accounts. A message is stored as the bytes of its SNAC and decoded when it is retrieved. The time
  it was sent at is stored as the instant it is.
\<close>

section \<open>The message of a client\<close>

record ChannelMsg =
  cmCookie :: u64
  cmChannelID :: u16
  cmScreenName :: bytes
  cmTLVs :: TLVList

definition ChannelMsg_val :: "ChannelMsg \<Rightarrow> gval" where
  "ChannelMsg_val m = VStruct [VU64 (cmCookie m), VU16 (cmChannelID m), VString (cmScreenName m), TLVList_val (cmTLVs m)]"

definition toChannelMsg :: "gval \<Rightarrow> ChannelMsg" where
  "toChannelMsg v = \<lparr>cmCookie = asU64 (field 0 v), cmChannelID = asU16 (field 1 v),
     cmScreenName = asBytes (field 2 v), cmTLVs = toTLVList (field 3 v)\<rparr>"

record OfflineMessage =
  omSender :: IdentScreenName
  omRecipient :: IdentScreenName
  omMessage :: ChannelMsg
  omSent :: int

section \<open>The table\<close>

record mailRow =
  mailSender :: IdentScreenName
  mailRecipient :: IdentScreenName
  mailBlob :: bytes
  mailSent :: int

record MailStore =
  mailAccounts :: accountTable
  mailRows :: "mailRow list"

datatype mailError = MailMarshal gerr | ErrOfflineInboxFull | MailNoUser | MailUnmarshal gerr

abbreviation (input) offlineInboxLimit :: nat where "offlineInboxLimit \<equiv> 10"

definition pairCount :: "IdentScreenName \<Rightarrow> IdentScreenName \<Rightarrow> mailRow list \<Rightarrow> nat" where
  "pairCount s r rows = length (filter (\<lambda>m. mailSender m = s \<and> mailRecipient m = r) rows)"

definition SaveMessage :: "OfflineMessage \<Rightarrow> MailStore \<Rightarrow> (mailError + nat) \<times> MailStore" where
  "SaveMessage m S =
     (case MarshalBE (Some (SNAC_0x04_0x06_ICBMChannelMsgToHost, ChannelMsg_val (omMessage m))) of
        Inl e \<Rightarrow> (Inl (MailMarshal e), S)
      | Inr buf \<Rightarrow>
          (let currentCount = pairCount (omSender m) (omRecipient m) (mailRows S) in
           if offlineInboxLimit \<le> currentCount then (Inl ErrOfflineInboxFull, S)
           else if map_of (mailAccounts S) (omSender m) = None \<or> map_of (mailAccounts S) (omRecipient m) = None
           then (Inl MailNoUser, S)
           else
             (let newCount = currentCount + 1 in
              (Inr newCount, S\<lparr>mailRows := mailRows S @ [\<lparr>mailSender = omSender m, mailRecipient = omRecipient m,
                   mailBlob = buf, mailSent = omSent m\<rparr>],
                 mailAccounts := updateRow (omRecipient m) (onUser (\<lambda>u. u\<lparr>userOfflineMsgCount := int newCount\<rparr>))
                   (mailAccounts S)\<rparr>))))"

fun readMessages :: "platform \<Rightarrow> IdentScreenName \<Rightarrow> mailRow list \<Rightarrow> mailError + OfflineMessage list" where
  "readMessages P recip [] = Inr []"
| "readMessages P recip (row # rows) =
     (case fst (UnmarshalBE SNAC_0x04_0x06_ICBMChannelMsgToHost (mailBlob row)) of
        Inl e \<Rightarrow> Inl (MailUnmarshal e)
      | Inr v \<Rightarrow> ebind (readMessages P recip rows) (\<lambda>ms.
          Inr (\<lparr>omSender = NewIdentScreenName P (mailSender row), omRecipient = recip,
            omMessage = toChannelMsg v, omSent = mailSent row\<rparr> # ms)))"

definition RetrieveMessages :: "platform \<Rightarrow> IdentScreenName \<Rightarrow> MailStore \<Rightarrow> mailError + OfflineMessage list" where
  "RetrieveMessages P recip S = readMessages P recip (filter (\<lambda>r. mailRecipient r = recip) (mailRows S))"

definition DeleteMessages :: "IdentScreenName \<Rightarrow> MailStore \<Rightarrow> MailStore" where
  "DeleteMessages recip S = S\<lparr>mailRows := filter (\<lambda>r. mailRecipient r \<noteq> recip) (mailRows S)\<rparr>"

text \<open>Deleting an account takes the messages from and to it along.\<close>

definition mailDeleteUser :: "IdentScreenName \<Rightarrow> MailStore \<Rightarrow> accountError option \<times> MailStore" where
  "mailDeleteUser name S =
     (case accDeleteUser name (mailAccounts S) of
        (Some e, _) \<Rightarrow> (Some e, S)
      | (None, t) \<Rightarrow> (None, S\<lparr>mailAccounts := t,
          mailRows := filter (\<lambda>r. mailSender r \<noteq> name \<and> mailRecipient r \<noteq> name) (mailRows S)\<rparr>))"

section \<open>The invariant\<close>

inductive mailStep :: "platform \<Rightarrow> MailStore \<Rightarrow> MailStore \<Rightarrow> bool" for P where
  save: "mailStep P S (snd (SaveMessage m S))"
| drop: "mailStep P S (DeleteMessages recip S)"
| insert: "mailStep P S (S\<lparr>mailAccounts := snd (accInsertUser P u (mailAccounts S))\<rparr>)"
| delete: "mailStep P S (snd (mailDeleteUser name S))"
| update: "mailStep P S (S\<lparr>mailAccounts := updateRow name f (mailAccounts S)\<rparr>)"

definition mailOk :: "MailStore \<Rightarrow> bool" where
  "mailOk S \<longleftrightarrow> distinct (map fst (mailAccounts S)) \<and>
     (\<forall>r\<in>set (mailRows S). map_of (mailAccounts S) (mailSender r) \<noteq> None \<and> map_of (mailAccounts S) (mailRecipient r) \<noteq> None) \<and>
     (\<forall>s r. pairCount s r (mailRows S) \<le> offlineInboxLimit)"

lemma pairCount_append: "pairCount s r (xs @ ys) = pairCount s r xs + pairCount s r ys"
  by (simp add: pairCount_def)

lemma pairCount_filter: "pairCount s r (filter q xs) \<le> pairCount s r xs"
  unfolding pairCount_def by (induction xs) simp_all

lemma map_of_keep: "map_of t i \<noteq> None \<Longrightarrow> map_of (t @ u) i \<noteq> None"
  by (auto simp: map_of_eq_None_iff)

lemma mailOk_save: "mailOk S \<Longrightarrow> mailOk (snd (SaveMessage m S))"
proof -
  assume ok: "mailOk S"
  show ?thesis
  proof (cases "snd (SaveMessage m S) = S")
    case False
    then obtain buf where e: "pairCount (omSender m) (omRecipient m) (mailRows S) < 10"
      "map_of (mailAccounts S) (omSender m) \<noteq> None" "map_of (mailAccounts S) (omRecipient m) \<noteq> None"
      "mailRows (snd (SaveMessage m S)) = mailRows S @ [\<lparr>mailSender = omSender m, mailRecipient = omRecipient m,
         mailBlob = buf, mailSent = omSent m\<rparr>]"
      "mailAccounts (snd (SaveMessage m S)) = updateRow (omRecipient m)
         (onUser (\<lambda>u. u\<lparr>userOfflineMsgCount := int (pairCount (omSender m) (omRecipient m) (mailRows S) + 1)\<rparr>)) (mailAccounts S)"
      by (auto simp: SaveMessage_def Let_def not_le split: sum.splits if_splits)
    have "pairCount s r (mailRows (snd (SaveMessage m S))) \<le> 10" for s r
      using ok e(1) by (cases "s = omSender m \<and> r = omRecipient m") (auto simp: e(4) pairCount_append mailOk_def pairCount_def [of _ _ "[_]"])
    then show ?thesis using ok e(2,3) by (auto simp: mailOk_def e(4,5) map_of_updateRow)
  qed (use ok in simp)
qed

interpretation mail: invariant_system "\<lambda>S. mailAccounts S = [] \<and> mailRows S = []" "mailStep P" mailOk
proof
  show "mailOk S'" if "mailOk S" "mailStep P S S'" for S S'
    using that(2,1)
  proof cases
    case (save m)
    then show ?thesis using mailOk_save [OF that(1)] by simp
  next
    case (drop recip)
    then show ?thesis using that(1) order_trans [OF pairCount_filter] by (auto simp: mailOk_def DeleteMessages_def)
  next
    case (insert u)
    then show ?thesis using that(1) map_of_keep
      by (auto simp: mailOk_def accInsertUser_def map_of_eq_None_iff)
  next
    case (delete name)
    have "map_of (filter (\<lambda>(i, r). i \<noteq> name) t) j = (if j = name then None else map_of t j)" for t :: accountTable and j
      by (induction t) auto
    with delete show ?thesis using that(1) order_trans [OF pairCount_filter]
      by (auto simp: mailOk_def mailDeleteUser_def accDeleteUser_def intro: distinct_map_filter)
  next
    case (update name f)
    then show ?thesis using that(1) by (auto simp: mailOk_def map_of_updateRow)
  qed
qed (simp add: mailOk_def pairCount_def)

section \<open>Properties\<close>

definition storableMsg :: "ChannelMsg \<Rightarrow> bool" where
  "storableMsg m \<longleftrightarrow> length (cmScreenName m) < 256 \<and> list_all TLV_ok (cmTLVs m)"

lemma toChannelMsg_val [simp]: "toChannelMsg (ChannelMsg_val m) = m"
  by (simp add: toChannelMsg_def ChannelMsg_val_def)

lemma ChannelMsg_codec:
  assumes "storableMsg m"
  obtains bs where "MarshalBE (Some (SNAC_0x04_0x06_ICBMChannelMsgToHost, ChannelMsg_val m)) = Inr bs"
    "UnmarshalBE SNAC_0x04_0x06_ICBMChannelMsgToHost bs = (Inr (ChannelMsg_val m), [])"
proof -
  have c: "SNAC_0x04_0x06_ICBMChannelMsgToHost \<in> set messageCatalogue"
  proof -
    have "SNAC_0x04_0x06_ICBMChannelMsgToHost \<in> set messages_04" by (simp add: messages_04_def)
    then show ?thesis unfolding messageCatalogue_def set_append by blast
  qed
  have "noQuirk SNAC_0x04_0x06_ICBMChannelMsgToHost"
    by (simp add: SNAC_0x04_0x06_ICBMChannelMsgToHost_def TLVRestBlock_type_def TLV_type_def parse_tags(1) parse_prefix16)
  moreover have "fits SNAC_0x04_0x06_ICBMChannelMsgToHost noTag BigEndian (ChannelMsg_val m)"
    using assms fits_TLV_val
    by (simp add: SNAC_0x04_0x06_ICBMChannelMsgToHost_def TLVRestBlock_type_def ChannelMsg_val_def TLVList_val_def
        storableMsg_def list_all_iff parse_tags(1) lenFits_def)
  ultimately show thesis using catalogue_codec [OF c] that unfolding MarshalBE_def UnmarshalBE_def by blast
qed

lemma readMessages_append:
  "readMessages P recip (xs @ ys) = ebind (readMessages P recip xs) (\<lambda>ms. ebind (readMessages P recip ys) (\<lambda>ns. Inr (ms @ ns)))"
  by (induction xs) (auto simp: ebind_def split: sum.splits)

text \<open>A message that is left for somebody is waiting for them. It is stored when both users exist and
  fewer than ten messages of the sender are waiting for the recipient, and not otherwise; then the
  recipient retrieves what was there before and, last, the message with its sender, cookie, channel,
  TLVs and time, and what others retrieve does not change. Deleting empties exactly this inbox.\<close>
theorem offline_message_delivered:
  assumes "storableMsg (omMessage m)" and "NewIdentScreenName P (omSender m) = omSender m"
    and "RetrieveMessages P (omRecipient m) S = Inr ms"
  shows "(if offlineInboxLimit \<le> pairCount (omSender m) (omRecipient m) (mailRows S)
      then SaveMessage m S = (Inl ErrOfflineInboxFull, S)
      else if map_of (mailAccounts S) (omSender m) = None \<or> map_of (mailAccounts S) (omRecipient m) = None
      then SaveMessage m S = (Inl MailNoUser, S)
      else isOk (fst (SaveMessage m S)) \<and> RetrieveMessages P (omRecipient m) (snd (SaveMessage m S)) = Inr (ms @ [m])) \<and>
    (\<forall>other. other \<noteq> omRecipient m \<longrightarrow> RetrieveMessages P other (snd (SaveMessage m S)) = RetrieveMessages P other S) \<and>
    RetrieveMessages P (omRecipient m) (DeleteMessages (omRecipient m) S) = Inr [] \<and>
    (\<forall>other. other \<noteq> omRecipient m \<longrightarrow> RetrieveMessages P other (DeleteMessages (omRecipient m) S) = RetrieveMessages P other S)"
proof -
  obtain bs where bs: "MarshalBE (Some (SNAC_0x04_0x06_ICBMChannelMsgToHost, ChannelMsg_val (omMessage m))) = Inr bs"
    "UnmarshalBE SNAC_0x04_0x06_ICBMChannelMsgToHost bs = (Inr (ChannelMsg_val (omMessage m)), [])"
    by (rule ChannelMsg_codec [OF assms(1)])
  let ?row = "\<lparr>mailSender = omSender m, mailRecipient = omRecipient m, mailBlob = bs, mailSent = omSent m\<rparr>"
  have read: "readMessages P (omRecipient m) [?row] = Inr [m]" using bs(2) assms(2) by (simp add: ebind_def)
  have save: "SaveMessage m S = (let k = pairCount (omSender m) (omRecipient m) (mailRows S) in
      if offlineInboxLimit \<le> k then (Inl ErrOfflineInboxFull, S)
      else if map_of (mailAccounts S) (omSender m) = None \<or> map_of (mailAccounts S) (omRecipient m) = None
      then (Inl MailNoUser, S)
      else (Inr (k + 1), S\<lparr>mailRows := mailRows S @ [?row],
        mailAccounts := updateRow (omRecipient m) (onUser (\<lambda>u. u\<lparr>userOfflineMsgCount := int (k + 1)\<rparr>)) (mailAccounts S)\<rparr>))"
    by (simp add: SaveMessage_def bs(1) Let_def)
  have others: "RetrieveMessages P other (snd (SaveMessage m S)) = RetrieveMessages P other S" if "other \<noteq> omRecipient m" for other
    using that by (auto simp: save Let_def RetrieveMessages_def)
  have new: "RetrieveMessages P (omRecipient m) (snd (SaveMessage m S)) = Inr (ms @ [m])"
    if "\<not> offlineInboxLimit \<le> pairCount (omSender m) (omRecipient m) (mailRows S)"
      "\<not> (map_of (mailAccounts S) (omSender m) = None \<or> map_of (mailAccounts S) (omRecipient m) = None)"
  proof -
    have "mailRows (snd (SaveMessage m S)) = mailRows S @ [?row]" using that by (auto simp: save Let_def)
    then show ?thesis using assms(3) read unfolding RetrieveMessages_def
      by (simp add: readMessages_append ebind_def del: readMessages.simps(2))
  qed
  have del: "RetrieveMessages P (omRecipient m) (DeleteMessages (omRecipient m) S) = Inr []"
    by (simp add: RetrieveMessages_def DeleteMessages_def filter_False)
  have del': "RetrieveMessages P other (DeleteMessages (omRecipient m) S) = RetrieveMessages P other S" if "other \<noteq> omRecipient m" for other
    using that by (simp add: RetrieveMessages_def DeleteMessages_def) (metis (mono_tags, lifting))
  show ?thesis using others new del del' by (auto simp: save Let_def isOk_def)
qed

text \<open>Nobody can fill another's inbox alone, and no message outlives its sender or recipient: in every
  reachable state at most ten messages of one sender wait for one recipient, and both have an
  account.\<close>
theorem inbox_invariant:
  assumes "(mailStep P)\<^sup>*\<^sup>* S0 S" and "mailAccounts S0 = []" and "mailRows S0 = []"
  shows "(\<forall>s r. pairCount s r (mailRows S) \<le> offlineInboxLimit) \<and>
    (\<forall>r\<in>set (mailRows S). map_of (mailAccounts S) (mailSender r) \<noteq> None \<and> map_of (mailAccounts S) (mailRecipient r) \<noteq> None)"
  using mail.invar_reachable [OF assms(1)] assms(2,3) unfolding mailOk_def by blast

lemma marshal_ChannelMsg:
  assumes "list_all TLV_ok (cmTLVs m)"
  shows "MarshalBE (Some (SNAC_0x04_0x06_ICBMChannelMsgToHost, ChannelMsg_val m)) =
    Inr (putUint BigEndian 8 (unat (cmCookie m)) @ putUint BigEndian 2 (unat (cmChannelID m)) @
      putUint BigEndian 1 (length (cmScreenName m) mod 256) @ cmScreenName m @ concat (map (TLV_enc BigEndian) (cmTLVs m)))"
  using assms
  by (simp add: MarshalBE_def SNAC_0x04_0x06_ICBMChannelMsgToHost_def ChannelMsg_val_def TLVRestBlock_type_def block_defs
      marshalString_def Let_def parse_tags(1))

text \<open>A name of 256 bytes has the length byte zero: what follows is taken for TLVs.\<close>

lemma long_name_undecodable:
  assumes "cmScreenName m = [0x20, 0x20, 0x20, 0x20] @ rest" and "length rest = 252"
    and "length (concat (map (TLV_enc BigEndian) (cmTLVs m))) < 0x2020 - 252" and "list_all TLV_ok (cmTLVs m)"
  shows "\<exists>bs. MarshalBE (Some (SNAC_0x04_0x06_ICBMChannelMsgToHost, ChannelMsg_val m)) = Inr bs \<and>
    fst (UnmarshalBE SNAC_0x04_0x06_ICBMChannelMsgToHost bs) = Inl UnexpectedEOF"
proof -
  let ?tail = "concat (map (TLV_enc BigEndian) (cmTLVs m))"
  let ?rd = "unmarshalTagged (unmarshal_switch TLV_type BigEndian) TLV_type None []"
  let ?r = "0x20 # 0x20 # 0x20 # 0x20 # rest @ ?tail"
  let ?bs = "putUint BigEndian 8 (unat (cmCookie m)) @ putUint BigEndian 2 (unat (cmChannelID m)) @ putUint BigEndian 1 0 @ ?r"
  have enc: "MarshalBE (Some (SNAC_0x04_0x06_ICBMChannelMsgToHost, ChannelMsg_val m)) = Inr ?bs"
    using marshal_ChannelMsg [OF assms(4)] assms(1,2) by simp
  have two: "readUint BigEndian 2 (0x20 # 0x20 # x) = (Inr 0x2020, x)" for x
    by (simp add: readUint_def rbind_def readFull_def rret_def getUint_def)
  have long: "readFull 0x2020 (rest @ ?tail) = (Inl UnexpectedEOF, [])"
    using assms(2,3) by (auto simp: readFull_def)
  have "?rd ?r = (Inl UnexpectedEOF, [])"
    unfolding TLV_reader TLV_plain_reader rbind_def by (simp add: two long)
  then have eof: "readUntilEOF ?rd ?r = (Inl UnexpectedEOF, [])" by (subst readUntilEOF.simps) simp
  have "fst (UnmarshalBE SNAC_0x04_0x06_ICBMChannelMsgToHost ?bs) = Inl UnexpectedEOF"
    using eof
    by (simp add: UnmarshalBE_def SNAC_0x04_0x06_ICBMChannelMsgToHost_def TLVRestBlock_type_def block_defs parse_tags(1)
        unmarshalString_def readUint_word
        readUint_putUint [of 0 1, simplified] readFull_def)
  with enc show ?thesis by blast
qed

lemma readMessages_bad:
  assumes "\<exists>row\<in>set rows. \<exists>e. fst (UnmarshalBE SNAC_0x04_0x06_ICBMChannelMsgToHost (mailBlob row)) = Inl e"
  shows "\<exists>e. readMessages P recip rows = Inl e"
  using assms
proof (induction rows)
  case (Cons row rows)
  show ?case
  proof (cases "fst (UnmarshalBE SNAC_0x04_0x06_ICBMChannelMsgToHost (mailBlob row))")
    case (Inr v)
    then obtain e where "readMessages P recip rows = Inl e" using Cons by auto
    then show ?thesis using Inr by (simp add: ebind_def)
  qed simp
qed simp

text \<open>One message can close an inbox. The web front end passes on the recipient's name as it was typed, and
  a name that is padded with blanks to 256 bytes is the recipient's when it is normalised, but is
  written with the length zero. The message is accepted, and from then on every retrieval of the
  recipient fails, whatever else is stored for them, until the messages are deleted; the
  messaging service deletes them only after a retrieval.\<close>
theorem long_name_closes_inbox:
  assumes "cmScreenName (omMessage m) = [0x20, 0x20, 0x20, 0x20] @ rest" and "length rest = 252"
    and "length (concat (map (TLV_enc BigEndian) (cmTLVs (omMessage m)))) < 0x2020 - 252"
    and "list_all TLV_ok (cmTLVs (omMessage m))"
    and "pairCount (omSender m) (omRecipient m) (mailRows S) < offlineInboxLimit"
    and "map_of (mailAccounts S) (omSender m) \<noteq> None" and "map_of (mailAccounts S) (omRecipient m) \<noteq> None"
  shows "isOk (fst (SaveMessage m S)) \<and>
    (\<forall>ms. \<exists>e. RetrieveMessages P (omRecipient m) (fold (\<lambda>n. snd \<circ> SaveMessage n) ms (snd (SaveMessage m S))) = Inl e)"
proof -
  obtain bs where bs: "MarshalBE (Some (SNAC_0x04_0x06_ICBMChannelMsgToHost, ChannelMsg_val (omMessage m))) = Inr bs"
    "fst (UnmarshalBE SNAC_0x04_0x06_ICBMChannelMsgToHost bs) = Inl UnexpectedEOF"
    using long_name_undecodable [OF assms(1-4)] by blast
  define bad where "bad rows \<longleftrightarrow> (\<exists>row\<in>set rows. mailRecipient row = omRecipient m \<and> mailBlob row = bs)" for rows :: "mailRow list"
  have save: "isOk (fst (SaveMessage m S)) \<and> bad (mailRows (snd (SaveMessage m S)))"
    using assms(5-7) by (simp add: SaveMessage_def bs(1) Let_def isOk_def bad_def not_le)
  have keep: "bad (mailRows (snd (SaveMessage n T)))" if "bad (mailRows T)" for n T
    using that by (auto simp: SaveMessage_def Let_def bad_def split: sum.split)
  have "bad (mailRows (fold (\<lambda>n. snd \<circ> SaveMessage n) ms T))" if "bad (mailRows T)" for ms T
    using that keep by (induction ms arbitrary: T) auto
  moreover have "\<exists>e. RetrieveMessages P (omRecipient m) T = Inl e" if "bad (mailRows T)" for T
    unfolding RetrieveMessages_def using that bs(2) by (intro readMessages_bad) (auto simp: bad_def)
  ultimately show ?thesis using save by blast
qed

definition sampleMail :: MailStore where
  "sampleMail = \<lparr>mailAccounts = sampleAccount [97] @ sampleAccount [98], mailRows = []\<rparr>"

definition sampleMsg :: "bytes \<Rightarrow> OfflineMessage" where
  "sampleMsg name = \<lparr>omSender = [97], omRecipient = [98],
     omMessage = \<lparr>cmCookie = 5, cmChannelID = 1, cmScreenName = name, cmTLVs = [\<lparr>Tag = 2, Value = [7]\<rparr>]\<rparr>, omSent = 9\<rparr>"

lemma long_name_closes_inbox_witness:
  "isOk (fst (SaveMessage (sampleMsg (replicate 255 0x20 @ [98])) sampleMail)) \<and>
     (\<exists>e. RetrieveMessages samplePlatform [98] (snd (SaveMessage (sampleMsg (replicate 255 0x20 @ [98])) sampleMail)) = Inl e)"
proof -
  let ?m = "sampleMsg (replicate 255 0x20 @ [98])"
  have "replicate 255 (0x20 :: byte) = replicate 4 0x20 @ replicate 251 0x20" unfolding replicate_add [symmetric] by simp
  moreover have "replicate 4 (0x20 :: byte) = [0x20, 0x20, 0x20, 0x20]" by (simp add: numeral_eq_Suc)
  ultimately have "cmScreenName (omMessage ?m) = [0x20, 0x20, 0x20, 0x20] @ (replicate 251 0x20 @ [98])"
    by (simp add: sampleMsg_def)
  from long_name_closes_inbox [OF this, of sampleMail samplePlatform]
  have "isOk (fst (SaveMessage ?m sampleMail)) \<and>
    (\<forall>ms. \<exists>e. RetrieveMessages samplePlatform [98] (fold (\<lambda>n. snd \<circ> SaveMessage n) ms (snd (SaveMessage ?m sampleMail))) = Inl e)"
    by (simp add: sampleMsg_def TLV_enc_def TLV_ok_def pairCount_def sampleMail_def sampleAccount_def)
  then show ?thesis by (metis fold_simps(1))
qed

lemma offline_message_delivered_witness:
  "RetrieveMessages samplePlatform [98] (snd (SaveMessage (sampleMsg [98]) sampleMail)) = Inr [sampleMsg [98]]"
proof -
  have "storableMsg (omMessage (sampleMsg [98]))" "NewIdentScreenName samplePlatform (omSender (sampleMsg [98])) = omSender (sampleMsg [98])"
    by (simp_all add: storableMsg_def sampleMsg_def TLV_ok_def NewIdentScreenName_def samplePlatform_def strings_ToLower_def
        isASCII_def asciiLower_def)
  from offline_message_delivered [OF this, of sampleMail "[]"] show ?thesis
    by (simp add: sampleMail_def sampleMsg_def RetrieveMessages_def pairCount_def sampleAccount_def)
qed

lemma inbox_invariant_witness:
  "\<exists>S. (mailStep samplePlatform)\<^sup>*\<^sup>* \<lparr>mailAccounts = [], mailRows = []\<rparr> S \<and> length (mailAccounts S) = 1 \<and>
     (\<forall>s r. pairCount s r (mailRows S) \<le> offlineInboxLimit)"
proof -
  let ?start = "\<lparr>mailAccounts = [], mailRows = []\<rparr> :: MailStore" and ?u = "zeroUser\<lparr>userIdentScreenName := [98], userIsICQ := True\<rparr>"
  let ?S = "?start\<lparr>mailAccounts := snd (accInsertUser samplePlatform ?u (mailAccounts ?start))\<rparr>"
  have r: "(mailStep samplePlatform)\<^sup>*\<^sup>* ?start ?S" by (intro r_into_rtranclp mailStep.insert)
  have "length (mailAccounts ?S) = 1" by (simp add: accInsertUser_def)
  with r inbox_invariant [OF r] show ?thesis by auto
qed

end
