(* ===== verification/State_Catalog.thy ===== *)
theory State_Catalog
  imports State_Search State_Chat State_BuddyLists State_UserInfo "HOL-Library.List_Lexorder" "HOL-Library.Product_Lexorder"
begin

text \<open>
  The small tables of \<open>state/user_store.go\<close>: profiles, BART assets, chat rooms, and the keywords of the AIM
  directory with their categories. A statement is the function on tables it denotes; a row id that
  is not given is the largest one in use plus one, as SQLite documents for \<open>INTEGER PRIMARY KEY\<close>; a query
  for one row without an order takes the first of the table. Text is ordered by its bytes.
\<close>

section \<open>Tables\<close>

datatype catalogError = ErrBARTItemExists | ErrBARTItemNotFound | ErrChatRoomNotFound | ErrDupChatRoom
  | ErrKeywordCategoryExists | ErrKeywordCategoryNotFound | errTooManyCategories | ErrKeywordExists
  | ErrKeywordInUse | ErrKeywordNotFound | errTooManyKeywords | IconUnmarshal gerr | IconPayload

record profileRow =
  profBody :: bytes
  profMime :: bytes
  profUpdated :: int

record bartRow =
  brHash :: bytes
  brBody :: bytes
  brType :: u16

record keywordRow =
  kwID :: nat
  kwName :: bytes
  kwParent :: "nat option"

record CatalogStore =
  csProfiles :: "(IdentScreenName \<times> profileRow) list"
  csBart :: "bartRow list"
  csRooms :: "(bytes \<times> ChatRoom) list"
  csCategories :: "(nat \<times> bytes) list"
  csKeywords :: "keywordRow list"
  csAccounts :: accountTable

section \<open>Profiles\<close>

definition storedProfile :: "IdentScreenName \<Rightarrow> CatalogStore \<Rightarrow> UserProfile" where
  "storedProfile name S =
     (case map_of (csProfiles S) name of
        None \<Rightarrow> zeroUserProfile
      | Some row \<Rightarrow> \<lparr>ProfileText = profBody row, MIMEType = profMime row,
          UpdateTime = (if profUpdated row > 0 then profUpdated row * nanosecs else zeroTime)\<rparr>)"

definition storeProfile :: "IdentScreenName \<Rightarrow> UserProfile \<Rightarrow> CatalogStore \<Rightarrow> CatalogStore" where
  "storeProfile name p S = S\<lparr>csProfiles := AList.update name \<lparr>profBody = ProfileText p, profMime = MIMEType p,
     profUpdated = (if UpdateTime p = zeroTime then 0 else unixSeconds (UpdateTime p))\<rparr> (csProfiles S)\<rparr>"

section \<open>BART assets\<close>

definition InsertBARTItem :: "bytes \<Rightarrow> bytes \<Rightarrow> u16 \<Rightarrow> CatalogStore \<Rightarrow> catalogError option \<times> CatalogStore" where
  "InsertBARTItem hash blob itemType S =
     (if hash \<in> brHash ` set (csBart S) then (Some ErrBARTItemExists, S)
      else (None, S\<lparr>csBart := csBart S @ [\<lparr>brHash = hash, brBody = blob, brType = itemType\<rparr>]\<rparr>))"

definition BARTItem_body :: "bytes \<Rightarrow> CatalogStore \<Rightarrow> bytes" where
  "BARTItem_body hash S = (case filter (\<lambda>r. brHash r = hash) (csBart S) of [] \<Rightarrow> [] | r # _ \<Rightarrow> brBody r)"

text \<open>\<open>hex.EncodeToString\<close>\<close>

definition hexLower :: "nat \<Rightarrow> byte" where
  "hexLower d = (if d < 10 then word_of_nat (0x30 + d) else word_of_nat (0x57 + d))"

definition hexString :: "bytes \<Rightarrow> bytes" where
  "hexString bs = concat (map (\<lambda>b. [hexLower (unat b div 16), hexLower (unat b mod 16)]) bs)"

definition ListBARTItems :: "u16 \<Rightarrow> CatalogStore \<Rightarrow> (bytes \<times> u16) list" where
  "ListBARTItems itemType S = map (\<lambda>r. (hexString (brHash r), brType r)) (filter (\<lambda>r. brType r = itemType) (csBart S))"

definition DeleteBARTItem :: "bytes \<Rightarrow> CatalogStore \<Rightarrow> catalogError option \<times> CatalogStore" where
  "DeleteBARTItem hash S =
     (if hash \<in> brHash ` set (csBart S) then (None, S\<lparr>csBart := filter (\<lambda>r. brHash r \<noteq> hash) (csBart S)\<rparr>)
      else (Some ErrBARTItemNotFound, S))"

abbreviation (input) BARTTypesBuddyIcon :: u16 where "BARTTypesBuddyIcon \<equiv> 0x01"
abbreviation (input) FeedbagClassIdBart :: u16 where "FeedbagClassIdBart \<equiv> 0x0014"
abbreviation (input) FeedbagAttributesBartInfo :: u16 where "FeedbagAttributesBartInfo \<equiv> 0x00D5"

text \<open>The name of the icon's item is a number that SQLite compares as text.\<close>

definition BuddyIconMetadata :: "IdentScreenName \<Rightarrow> ListStore \<Rightarrow> catalogError + BARTID option" where
  "BuddyIconMetadata screenName st =
     (case filter (\<lambda>r. fbScreenName r = screenName \<and> fbName r = showDecimal (unat BARTTypesBuddyIcon)
         \<and> fbClassID r = FeedbagClassIdBart) (feedbag st) of
        [] \<Rightarrow> Inr None
      | r # _ \<Rightarrow>
          (case fst (UnmarshalBE TLVLBlock_type (fbAttributes r)) of
             Inl e \<Rightarrow> Inl (IconUnmarshal e)
           | Inr v \<Rightarrow>
               (case TLVList_Bytes (toTLVList v) FeedbagAttributesBartInfo of
                  None \<Rightarrow> Inl IconPayload
                | Some b \<Rightarrow>
                    (case fst (UnmarshalBE BARTInfo_type b) of
                       Inl e \<Rightarrow> Inl (IconUnmarshal e)
                     | Inr info \<Rightarrow> Inr (Some \<lparr>bartType = BARTTypesBuddyIcon, bartFlags = asU8 (field 0 info),
                         bartHash = asBytes (field 1 info)\<rparr>)))))"

section \<open>Chat rooms\<close>

definition zeroRoom :: ChatRoom where
  "zeroRoom = \<lparr>roomCreateTime = zeroTime, roomCreator = [], roomExchange = 0, roomName = []\<rparr>"

definition readRoom :: "platform \<Rightarrow> ChatRoom \<Rightarrow> ChatRoom" where
  "readRoom P r = r\<lparr>roomCreator := NewIdentScreenName P (roomCreator r)\<rparr>"

definition ChatRoomByCookie :: "platform \<Rightarrow> bytes \<Rightarrow> CatalogStore \<Rightarrow> ChatRoom \<times> catalogError option" where
  "ChatRoomByCookie P cookie S =
     (case filter (\<lambda>(c, r). sqlLower c = sqlLower cookie) (csRooms S) of
        [] \<Rightarrow> (readRoom P zeroRoom, Some ErrChatRoomNotFound)
      | (c, r) # _ \<Rightarrow> (readRoom P r, None))"

definition ChatRoomByName :: "platform \<Rightarrow> u16 \<Rightarrow> bytes \<Rightarrow> CatalogStore \<Rightarrow> ChatRoom \<times> catalogError option" where
  "ChatRoomByName P exchange name S =
     (case filter (\<lambda>(c, r). roomExchange r = exchange \<and> sqlLower (roomName r) = sqlLower name) (csRooms S) of
        [] \<Rightarrow> (readRoom P (zeroRoom\<lparr>roomExchange := exchange\<rparr>), Some ErrChatRoomNotFound)
      | (c, r) # _ \<Rightarrow> (readRoom P r, None))"

definition CreateChatRoom :: "int \<Rightarrow> ChatRoom \<Rightarrow> CatalogStore \<Rightarrow> (ChatRoom \<times> catalogError option) \<times> CatalogStore" where
  "CreateChatRoom now chatRoom S =
     (let room = chatRoom\<lparr>roomCreateTime := now\<rparr> in
      if list_ex (\<lambda>(c, r). c = ChatRoom_Cookie room \<or> (roomExchange r = roomExchange room \<and> roomName r = roomName room)) (csRooms S)
      then ((room, Some ErrDupChatRoom), S)
      else ((room, None), S\<lparr>csRooms := csRooms S @ [(ChatRoom_Cookie room, room)]\<rparr>))"

definition AllChatRooms :: "platform \<Rightarrow> u16 \<Rightarrow> CatalogStore \<Rightarrow> ChatRoom list" where
  "AllChatRooms P exchange S =
     map (readRoom P) (sort_key roomCreateTime (filter (\<lambda>r. roomExchange r = exchange) (map snd (csRooms S))))"

definition DeleteChatRooms :: "u16 \<Rightarrow> bytes list \<Rightarrow> CatalogStore \<Rightarrow> nat \<times> CatalogStore" where
  "DeleteChatRooms exchange names S =
     (if length names = 0 then (0, S)
      else
        (let hit = (\<lambda>(c, r). roomExchange r = exchange \<and> roomName r \<in> set names)
         in (length (filter hit (csRooms S)), S\<lparr>csRooms := filter (\<lambda>row. \<not> hit row) (csRooms S)\<rparr>)))"

section \<open>Keywords\<close>

definition newRowID :: "nat list \<Rightarrow> nat" where
  "newRowID ids = Suc (fold max ids 0)"

definition Categories :: "CatalogStore \<Rightarrow> (nat \<times> bytes) list" where
  "Categories S = sort_key snd (csCategories S)"

definition CreateCategory :: "bytes \<Rightarrow> CatalogStore \<Rightarrow> (catalogError + nat \<times> bytes) \<times> CatalogStore" where
  "CreateCategory name S =
     (if name \<in> snd ` set (csCategories S) then (Inl ErrKeywordCategoryExists, S)
      else
        (let i = newRowID (map fst (csCategories S)) in
         if i > 255 then (Inl errTooManyCategories, S)
         else (Inr (i, name), S\<lparr>csCategories := csCategories S @ [(i, name)]\<rparr>)))"

text \<open>Whether an account refers to a keyword.\<close>

definition keywordUsed :: "nat \<Rightarrow> CatalogStore \<Rightarrow> bool" where
  "keywordUsed i S \<longleftrightarrow> list_ex (\<lambda>(n, r). Some i \<in> set (acKeywords r)) (csAccounts S)"

text \<open>Deleting a category deletes its keywords (\<open>ON DELETE CASCADE\<close>), which fails when one is used.\<close>

definition DeleteCategory :: "nat \<Rightarrow> CatalogStore \<Rightarrow> catalogError option \<times> CatalogStore" where
  "DeleteCategory categoryID S =
     (if categoryID \<notin> fst ` set (csCategories S) then (Some ErrKeywordCategoryNotFound, S)
      else if list_ex (\<lambda>k. kwParent k = Some categoryID \<and> keywordUsed (kwID k) S) (csKeywords S) then (Some ErrKeywordInUse, S)
      else (None, S\<lparr>csCategories := filter (\<lambda>(i, n). i \<noteq> categoryID) (csCategories S),
        csKeywords := filter (\<lambda>k. kwParent k \<noteq> Some categoryID) (csKeywords S)\<rparr>))"

definition KeywordsByCategory :: "nat \<Rightarrow> CatalogStore \<Rightarrow> catalogError + (nat \<times> bytes) list" where
  "KeywordsByCategory categoryID S =
     (let keywords = sort_key snd (map (\<lambda>k. (kwID k, kwName k))
        (filter (\<lambda>k. kwParent k = (if categoryID = 0 then None else Some categoryID)) (csKeywords S)))
      in if length keywords = 0 \<and> categoryID \<notin> fst ` set (csCategories S) then Inl ErrKeywordCategoryNotFound else Inr keywords)"

definition CreateKeyword :: "bytes \<Rightarrow> nat \<Rightarrow> CatalogStore \<Rightarrow> (catalogError + nat \<times> bytes) \<times> CatalogStore" where
  "CreateKeyword name categoryID S =
     (if name \<in> kwName ` set (csKeywords S) then (Inl ErrKeywordExists, S)
      else if categoryID \<noteq> 0 \<and> categoryID \<notin> fst ` set (csCategories S) then (Inl ErrKeywordCategoryNotFound, S)
      else
        (let i = newRowID (map kwID (csKeywords S)) in
         if i > 255 then (Inl errTooManyKeywords, S)
         else (Inr (i, name), S\<lparr>csKeywords := csKeywords S @
           [\<lparr>kwID = i, kwName = name, kwParent = (if categoryID = 0 then None else Some categoryID)\<rparr>]\<rparr>)))"

definition DeleteKeyword :: "nat \<Rightarrow> CatalogStore \<Rightarrow> catalogError option \<times> CatalogStore" where
  "DeleteKeyword i S =
     (if i \<notin> kwID ` set (csKeywords S) then (Some ErrKeywordNotFound, S)
      else if keywordUsed i S then (Some ErrKeywordInUse, S)
      else (None, S\<lparr>csKeywords := filter (\<lambda>k. kwID k \<noteq> i) (csKeywords S)\<rparr>))"

text \<open>The id of a name, or NULL.\<close>

definition keywordID :: "bytes \<Rightarrow> CatalogStore \<Rightarrow> nat option" where
  "keywordID name S = (case filter (\<lambda>k. kwName k = name) (csKeywords S) of [] \<Rightarrow> None | k # _ \<Rightarrow> Some (kwID k))"

definition SetKeywords :: "IdentScreenName \<Rightarrow> bytes list \<Rightarrow> CatalogStore \<Rightarrow> CatalogStore" where
  "SetKeywords screenName keywords S = S\<lparr>csAccounts :=
     updateRow screenName (\<lambda>r. r\<lparr>acKeywords := map (\<lambda>k. keywordID k S) keywords\<rparr>) (csAccounts S)\<rparr>"

definition FindByAIMKeyword :: "platform \<Rightarrow> bytes \<Rightarrow> CatalogStore \<Rightarrow> storeError + User list" where
  "FindByAIMKeyword P keyword S =
     (case keywordID keyword S of
        None \<Rightarrow> queryUsers P (\<lambda>row. False) (csAccounts S)
      | Some i \<Rightarrow> queryUsers P (\<lambda>(n, r). Some i \<in> set (acKeywords r)) (csAccounts S))"

text \<open>The rows of the query: grouping, id, priority and name.\<close>

type_synonym interestRow = "bytes \<times> nat \<times> nat \<times> bytes"

definition categoryRow :: "nat \<times> bytes \<Rightarrow> interestRow" where
  "categoryRow c = (snd c, fst c, 0, snd c)"

definition keywordEntry :: "CatalogStore \<Rightarrow> keywordRow \<Rightarrow> interestRow" where
  "keywordEntry S k =
     (case kwParent k of
        None \<Rightarrow> (kwName k, 0, 1, kwName k)
      | Some i \<Rightarrow> ((case map_of (csCategories S) i of None \<Rightarrow> kwName k | Some n \<Rightarrow> n), i, 2, kwName k))"

definition interestRows :: "CatalogStore \<Rightarrow> interestRow list" where
  "interestRows S = sort_key (\<lambda>(g, i, p, n). (g, p, n))
     (remdups (map categoryRow (csCategories S) @ map (keywordEntry S) (csKeywords S)))"

record ODirKeywordListItem =
  odirType :: byte
  odirID :: byte
  odirName :: bytes

abbreviation (input) ODirKeywordCategory :: byte where "ODirKeywordCategory \<equiv> 0x01"
abbreviation (input) ODirKeyword :: byte where "ODirKeyword \<equiv> 0x02"

definition listItem :: "interestRow \<Rightarrow> ODirKeywordListItem" where
  "listItem row = (case row of (g, i, p, n) \<Rightarrow>
     \<lparr>odirType = (if p = 0 then ODirKeywordCategory else ODirKeyword), odirID = word_of_nat i, odirName = n\<rparr>)"

definition InterestList :: "CatalogStore \<Rightarrow> ODirKeywordListItem list" where
  "InterestList S = map listItem (interestRows S)"

section \<open>The invariant\<close>

inductive catalogStep :: "platform \<Rightarrow> CatalogStore \<Rightarrow> CatalogStore \<Rightarrow> bool" for P where
  profile: "catalogStep P S (storeProfile name p S)"
| insertBART: "catalogStep P S (snd (InsertBARTItem hash blob t S))"
| deleteBART: "catalogStep P S (snd (DeleteBARTItem hash S))"
| room: "catalogStep P S (snd (CreateChatRoom now r S))"
| rooms: "catalogStep P S (snd (DeleteChatRooms exchange names S))"
| category: "catalogStep P S (snd (CreateCategory name S))"
| dropCategory: "catalogStep P S (snd (DeleteCategory i S))"
| keyword: "catalogStep P S (snd (CreateKeyword name i S))"
| dropKeyword: "catalogStep P S (snd (DeleteKeyword i S))"
| choose: "length keywords = 5 \<Longrightarrow> catalogStep P S (SetKeywords name keywords S)"
| account: "catalogStep P S (S\<lparr>csAccounts := snd (accInsertUser P u (csAccounts S))\<rparr>)"
| noAccount: "catalogStep P S (S\<lparr>csAccounts := snd (accDeleteUser name (csAccounts S))\<rparr>)"
| change: "catalogStep P S (S\<lparr>csAccounts := updateRow name (onUser f) (csAccounts S)\<rparr>)"

definition categoriesOk :: "CatalogStore \<Rightarrow> bool" where
  "categoriesOk S \<longleftrightarrow> distinct (map fst (csCategories S)) \<and> distinct (map snd (csCategories S)) \<and>
     (\<forall>i\<in>set (map fst (csCategories S)). 1 \<le> i \<and> i \<le> 255)"

definition keywordsOk :: "CatalogStore \<Rightarrow> bool" where
  "keywordsOk S \<longleftrightarrow> distinct (map kwID (csKeywords S)) \<and> distinct (map kwName (csKeywords S)) \<and>
     (\<forall>k\<in>set (csKeywords S). 1 \<le> kwID k \<and> kwID k \<le> 255 \<and>
        (\<forall>i. kwParent k = Some i \<longrightarrow> i \<in> fst ` set (csCategories S)))"

definition choicesOk :: "CatalogStore \<Rightarrow> bool" where
  "choicesOk S \<longleftrightarrow> (\<forall>r\<in>snd ` set (csAccounts S). length (acKeywords r) = 5 \<and>
     (\<forall>i. Some i \<in> set (acKeywords r) \<longrightarrow> i \<in> kwID ` set (csKeywords S)))"

definition roomsOk :: "CatalogStore \<Rightarrow> bool" where
  "roomsOk S \<longleftrightarrow> distinct (map fst (csRooms S)) \<and> distinct (map (\<lambda>(c, r). (roomExchange r, roomName r)) (csRooms S)) \<and>
     (\<forall>(c, r)\<in>set (csRooms S). c = ChatRoom_Cookie r) \<and> distinct (map brHash (csBart S))"

definition catalogOk :: "CatalogStore \<Rightarrow> bool" where
  "catalogOk S \<longleftrightarrow> categoriesOk S \<and> keywordsOk S \<and> choicesOk S \<and> roomsOk S"

definition emptyCatalog :: CatalogStore where
  "emptyCatalog = \<lparr>csProfiles = [], csBart = [], csRooms = [], csCategories = [], csKeywords = [], csAccounts = []\<rparr>"

lemma newRowID_new: "i \<in> set ids \<Longrightarrow> i < newRowID ids"
proof -
  have "m \<le> fold max ids m \<and> (\<forall>i\<in>set ids. i \<le> fold max ids m)" for m
  proof (induction ids arbitrary: m)
    case (Cons a ids)
    from Cons [of "max a m"] show ?case by simp
  qed simp
  then show "i \<in> set ids \<Longrightarrow> i < newRowID ids" by (auto simp: newRowID_def less_Suc_eq_le)
qed

lemma keywordID_Some: "keywordID n S = Some i \<Longrightarrow> i \<in> kwID ` set (csKeywords S)"
proof -
  assume "keywordID n S = Some i"
  then obtain k ks where "filter (\<lambda>k. kwName k = n) (csKeywords S) = k # ks" "i = kwID k"
    by (auto simp: keywordID_def split: list.splits)
  then have "k \<in> set (csKeywords S)" using set_filter [of "\<lambda>k. kwName k = n" "csKeywords S"] by auto
  then show "i \<in> kwID ` set (csKeywords S)" using \<open>i = kwID k\<close> by simp
qed

lemma catalogOk_category:
  assumes "catalogOk S"
  shows "catalogOk (snd (CreateCategory name S))"
proof (cases "snd (CreateCategory name S) = S")
  case False
  let ?i = "newRowID (map fst (csCategories S))"
  have n: "name \<notin> snd ` set (csCategories S)" "?i \<le> 255"
    and e: "snd (CreateCategory name S) = S\<lparr>csCategories := csCategories S @ [(?i, name)]\<rparr>"
    using False by (auto simp: CreateCategory_def Let_def split: if_splits)
  have "?i \<notin> fst ` set (csCategories S)" using newRowID_new [of ?i "map fst (csCategories S)"] by auto
  then show ?thesis using assms n unfolding e
    by (auto simp: catalogOk_def categoriesOk_def keywordsOk_def choicesOk_def roomsOk_def newRowID_def)
qed (use assms in simp)

lemma catalogOk_keyword:
  assumes "catalogOk S"
  shows "catalogOk (snd (CreateKeyword name c S))"
proof (cases "snd (CreateKeyword name c S) = S")
  case False
  let ?i = "newRowID (map kwID (csKeywords S))"
  have n: "name \<notin> kwName ` set (csKeywords S)" "?i \<le> 255" "c = 0 \<or> c \<in> fst ` set (csCategories S)"
    and e: "snd (CreateKeyword name c S) = S\<lparr>csKeywords := csKeywords S @
      [\<lparr>kwID = ?i, kwName = name, kwParent = (if c = 0 then None else Some c)\<rparr>]\<rparr>"
    using False by (auto simp: CreateKeyword_def Let_def split: if_splits)
  have "?i \<notin> kwID ` set (csKeywords S)" using newRowID_new [of ?i "map kwID (csKeywords S)"] by auto
  then show ?thesis using assms n unfolding e
    by (auto simp: catalogOk_def categoriesOk_def keywordsOk_def choicesOk_def roomsOk_def newRowID_def)
qed (use assms in simp)

lemma catalogOk_dropCategory:
  assumes "catalogOk S"
  shows "catalogOk (snd (DeleteCategory i S))"
proof (cases "snd (DeleteCategory i S) = S")
  case False
  have u: "\<forall>k\<in>set (csKeywords S). kwParent k = Some i \<longrightarrow> \<not> keywordUsed (kwID k) S"
    and e: "snd (DeleteCategory i S) = S\<lparr>csCategories := filter (\<lambda>(j, n). j \<noteq> i) (csCategories S),
      csKeywords := filter (\<lambda>k. kwParent k \<noteq> Some i) (csKeywords S)\<rparr>"
    using False by (auto simp: DeleteCategory_def list_ex_iff split: if_splits)
  have "choicesOk (snd (DeleteCategory i S))"
    using assms u unfolding e by (fastforce simp: catalogOk_def choicesOk_def keywordUsed_def list_ex_iff)
  moreover have "fst ` set (filter (\<lambda>(j, n). j \<noteq> i) (csCategories S)) = fst ` set (csCategories S) - {i}" by force
  ultimately show ?thesis using assms unfolding e
    by (auto simp: catalogOk_def categoriesOk_def keywordsOk_def roomsOk_def distinct_map_filter)
qed (use assms in simp)

lemma catalogOk_dropKeyword:
  assumes "catalogOk S"
  shows "catalogOk (snd (DeleteKeyword i S))"
proof (cases "snd (DeleteKeyword i S) = S")
  case False
  have u: "\<not> keywordUsed i S" and e: "snd (DeleteKeyword i S) = S\<lparr>csKeywords := filter (\<lambda>k. kwID k \<noteq> i) (csKeywords S)\<rparr>"
    using False by (auto simp: DeleteKeyword_def split: if_splits)
  have "choicesOk (snd (DeleteKeyword i S))"
    using assms u unfolding e by (fastforce simp: catalogOk_def choicesOk_def keywordUsed_def list_ex_iff)
  then show ?thesis using assms unfolding e
    by (auto simp: catalogOk_def categoriesOk_def keywordsOk_def roomsOk_def distinct_map_filter)
qed (use assms in simp)

lemma catalogOk_room:
  assumes "catalogOk S"
  shows "catalogOk (snd (CreateChatRoom now r S))" "catalogOk (snd (DeleteChatRooms exchange names S))"
    "catalogOk (snd (InsertBARTItem hash blob t S))" "catalogOk (snd (DeleteBARTItem hash S))"
  using assms
  by (auto simp: catalogOk_def categoriesOk_def keywordsOk_def choicesOk_def roomsOk_def CreateChatRoom_def DeleteChatRooms_def
      InsertBARTItem_def DeleteBARTItem_def Let_def list_ex_iff distinct_map_filter split: prod.splits)

lemma catalogOk_accounts:
  assumes "catalogOk S"
  shows "length keywords = 5 \<Longrightarrow> catalogOk (SetKeywords name keywords S)"
    "catalogOk (S\<lparr>csAccounts := snd (accInsertUser P u (csAccounts S))\<rparr>)"
    "catalogOk (S\<lparr>csAccounts := snd (accDeleteUser name (csAccounts S))\<rparr>)"
    "catalogOk (S\<lparr>csAccounts := updateRow name (onUser f) (csAccounts S)\<rparr>)"
proof -
  have new: "acKeywords (newAccountRow u) = replicate 5 None" for u by (simp add: newAccountRow_def)
  show "catalogOk (S\<lparr>csAccounts := snd (accInsertUser P u (csAccounts S))\<rparr>)"
    using assms by (auto simp: catalogOk_def categoriesOk_def keywordsOk_def choicesOk_def roomsOk_def accInsertUser_def new)
  show "catalogOk (S\<lparr>csAccounts := snd (accDeleteUser name (csAccounts S))\<rparr>)"
    using assms by (auto simp: catalogOk_def categoriesOk_def keywordsOk_def choicesOk_def roomsOk_def accDeleteUser_def)
  show "catalogOk (S\<lparr>csAccounts := updateRow name (onUser f) (csAccounts S)\<rparr>)"
    using assms
    by (force simp: catalogOk_def categoriesOk_def keywordsOk_def choicesOk_def roomsOk_def updateRow_def onUser_def split: if_splits)
  show "catalogOk (SetKeywords name keywords S)" if "length keywords = 5"
    using assms that keywordID_Some [of _ S, OF sym]
    by (force simp: catalogOk_def categoriesOk_def keywordsOk_def choicesOk_def roomsOk_def updateRow_def SetKeywords_def split: if_splits)
qed

interpretation catalog: invariant_system "\<lambda>S. S = emptyCatalog" "catalogStep P" catalogOk
proof
  show "catalogOk S" if "S = emptyCatalog" for S
    by (simp add: that emptyCatalog_def catalogOk_def categoriesOk_def keywordsOk_def choicesOk_def roomsOk_def)
  show "catalogOk T" if "catalogOk S" "catalogStep P S T" for S T
    using that(2,1)
  proof cases
    case (profile name p)
    then show ?thesis using that(1)
      by (simp add: catalogOk_def categoriesOk_def keywordsOk_def choicesOk_def roomsOk_def storeProfile_def)
  qed (simp_all add: that(1) catalogOk_category catalogOk_keyword catalogOk_dropCategory catalogOk_dropKeyword
      catalogOk_room catalogOk_accounts)
qed

section \<open>Properties\<close>

text \<open>C27: The directory is well formed. In every reachable state the ids of categories and of keywords are
  distinct numbers of one byte above zero and their names are distinct, a keyword's category exists, every account
  has five keyword slots that name existing keywords only, and a chat room is stored once, under its own
  cookie.\<close>
theorem catalog_well_formed:
  assumes "(catalogStep P)\<^sup>*\<^sup>* emptyCatalog S"
  shows "distinct (map fst (csCategories S)) \<and> distinct (map snd (csCategories S)) \<and>
    distinct (map kwID (csKeywords S)) \<and> distinct (map kwName (csKeywords S)) \<and>
    (\<forall>i\<in>fst ` set (csCategories S) \<union> kwID ` set (csKeywords S). 1 \<le> i \<and> i \<le> 255) \<and>
    (\<forall>k\<in>set (csKeywords S). \<forall>i. kwParent k = Some i \<longrightarrow> i \<in> fst ` set (csCategories S)) \<and>
    (\<forall>(n, r)\<in>set (csAccounts S). length (acKeywords r) = 5 \<and>
       (\<forall>i. Some i \<in> set (acKeywords r) \<longrightarrow> i \<in> kwID ` set (csKeywords S))) \<and>
    distinct (map fst (csRooms S)) \<and> (\<forall>(c, r)\<in>set (csRooms S). c = ChatRoom_Cookie r)"
proof -
  have "catalogOk S" using catalog.invar_reachable [OF assms refl] .
  then show ?thesis
    by (simp add: catalogOk_def categoriesOk_def keywordsOk_def choicesOk_def roomsOk_def ball_Un) (force)
qed

lemma catalog_well_formed_witness:
  "\<exists>S. (catalogStep samplePlatform)\<^sup>*\<^sup>* emptyCatalog S \<and> length (csCategories S) = 1 \<and> distinct (map fst (csCategories S))"
proof -
  let ?S = "snd (CreateCategory [77] emptyCatalog)"
  have r: "(catalogStep samplePlatform)\<^sup>*\<^sup>* emptyCatalog ?S" by (intro r_into_rtranclp catalogStep.category)
  have "length (csCategories ?S) = 1" by (simp add: CreateCategory_def emptyCatalog_def newRowID_def Let_def)
  with r catalog_well_formed [OF r] show ?thesis by blast
qed

text \<open>The names the list is grouped by, and the rows of one group.\<close>

definition groupNames :: "CatalogStore \<Rightarrow> bytes list" where
  "groupNames S = sort (remdups (map snd (csCategories S) @ map kwName (filter (\<lambda>k. kwParent k = None) (csKeywords S))))"

definition groupRows :: "CatalogStore \<Rightarrow> bytes \<Rightarrow> interestRow list" where
  "groupRows S n =
     concat (map (\<lambda>(i, m). if m = n then [(n, i, 0, n)] else []) (csCategories S)) @
     (if n \<in> kwName ` {k \<in> set (csKeywords S). kwParent k = None} then [(n, 0, 1, n)] else []) @
     concat (map (\<lambda>(i, m). if m = n
         then map (\<lambda>k. (n, i, 2, kwName k)) (sort_key kwName (filter (\<lambda>k. kwParent k = Some i) (csKeywords S))) else [])
       (csCategories S))"

abbreviation (input) rowKey :: "interestRow \<Rightarrow> bytes \<times> nat \<times> bytes" where
  "rowKey \<equiv> (\<lambda>(g, i, p, n). (g, p, n))"

lemma concat_unique:
  assumes "distinct (map snd cs)"
  shows "concat (map (\<lambda>(i, m). if m = n then f i else []) cs) =
    (case map_of (map (\<lambda>(i, m). (m, i)) cs) n of None \<Rightarrow> [] | Some i \<Rightarrow> f i)"
  using assms
proof (induction cs)
  case (Cons c cs)
  have "n \<notin> snd ` set cs \<Longrightarrow> map_of (map (\<lambda>(i, m). (m, i)) cs) n = None" by (force simp: map_of_eq_None_iff)
  then show ?case using Cons by (cases c) auto
qed simp

lemma strict_concat:
  assumes "sorted_wrt (<) ns" and "\<And>n. n \<in> set ns \<Longrightarrow> sorted_wrt (<) (map rowKey (G n))"
    and "\<And>n r. n \<in> set ns \<Longrightarrow> r \<in> set (G n) \<Longrightarrow> fst r = n"
  shows "sorted_wrt (<) (map rowKey (concat (map G ns)))"
  using assms
proof (induction ns)
  case (Cons n ns)
  have "rowKey r < rowKey t" if "r \<in> set (G n)" "t \<in> set (G m)" "m \<in> set ns" for r t m
    using Cons.prems(1) Cons.prems(3) [of n r] Cons.prems(3) [of m t] that by (auto split: prod.splits)
  then show ?case using Cons by (auto simp: sorted_wrt_append simp del: case_prod_unfold)
qed simp

lemma groupRows_first: "r \<in> set (groupRows S n) \<Longrightarrow> fst r = n"
  by (auto simp: groupRows_def split: if_splits)

lemma groupRows_strict:
  assumes "catalogOk S"
  shows "sorted_wrt (<) (map rowKey (groupRows S n))"
proof -
  have names: "distinct (map snd (csCategories S))" "distinct (map kwName (csKeywords S))"
    using assms by (simp_all add: catalogOk_def categoriesOk_def keywordsOk_def)
  have "sorted_wrt (<) (map kwName (sort_key kwName (filter p (csKeywords S))))" for p
    using names(2) by (auto simp: strict_sorted_iff distinct_map inj_on_def)
  then show ?thesis
    unfolding groupRows_def concat_unique [OF names(1)]
    by (auto simp: sorted_wrt_append sorted_wrt_map split: option.splits)
qed

lemma groupRows_set:
  assumes "catalogOk S"
  shows "set (groupRows S n) = {r. fst r = n \<and> r \<in> categoryRow ` set (csCategories S) \<union> keywordEntry S ` set (csKeywords S)}"
proof -
  have ids: "distinct (map fst (csCategories S))" using assms by (simp add: catalogOk_def categoriesOk_def)
  have parent: "kwParent k = Some i \<Longrightarrow> k \<in> set (csKeywords S) \<Longrightarrow>
      \<exists>m. (i, m) \<in> set (csCategories S) \<and> keywordEntry S k = (m, i, 2, kwName k)" for k i
    using assms map_of_is_SomeI [OF ids] by (fastforce simp: catalogOk_def keywordsOk_def keywordEntry_def)
  have top: "kwParent k = None \<Longrightarrow> keywordEntry S k = (kwName k, 0, 1, kwName k)" for k by (simp add: keywordEntry_def)
  show ?thesis
  proof (intro set_eqI iffI)
    fix r assume "r \<in> set (groupRows S n)"
    then consider (cat) i where "(i, n) \<in> set (csCategories S)" "r = (n, i, 0, n)"
      | (kw) k where "k \<in> set (csKeywords S)" "kwParent k = None" "n = kwName k" "r = (n, 0, 1, n)"
      | (sub) i k where "(i, n) \<in> set (csCategories S)" "k \<in> set (csKeywords S)" "kwParent k = Some i" "r = (n, i, 2, kwName k)"
      by (auto simp: groupRows_def split: if_splits)
    then show "r \<in> {r. fst r = n \<and> r \<in> categoryRow ` set (csCategories S) \<union> keywordEntry S ` set (csKeywords S)}"
    proof cases
      case cat
      then show ?thesis by (force simp: categoryRow_def)
    next
      case kw
      then have "r = keywordEntry S k" "fst r = n" using top [OF kw(2)] by simp_all
      then show ?thesis using kw(1) by blast
    next
      case sub
      then show ?thesis using map_of_is_SomeI [OF ids sub(1)] by (force simp: keywordEntry_def)
    qed
  next
    fix r assume "r \<in> {r. fst r = n \<and> r \<in> categoryRow ` set (csCategories S) \<union> keywordEntry S ` set (csKeywords S)}"
    then consider (cat) i where "(i, n) \<in> set (csCategories S)" "r = (n, i, 0, n)"
      | (kw) k where "k \<in> set (csKeywords S)" "fst r = n" "r = keywordEntry S k"
      by (auto simp: categoryRow_def)
    then show "r \<in> set (groupRows S n)"
    proof cases
      case cat
      then show ?thesis by (auto simp: groupRows_def)
    next
      case kw
      show ?thesis
      proof (cases "kwParent k")
        case None
        then show ?thesis using kw top [OF None] by (auto simp: groupRows_def)
      next
        case (Some i)
        with parent [OF Some kw(1)] kw(2,3) have m: "(i, n) \<in> set (csCategories S)" "r = (n, i, 2, kwName k)" by auto
        have "r \<in> set (map (\<lambda>k. (n, i, 2, kwName k)) (sort_key kwName (filter (\<lambda>k. kwParent k = Some i) (csKeywords S))))"
          using m(2) kw(1) Some by auto
        then show ?thesis using m(1) unfolding groupRows_def set_append set_concat by fastforce
      qed
    qed
  qed
qed

text \<open>C28: The list of interests is grouped. It has one group for the name of every category and of every keyword
  without a category, in the order of the names; a group begins with the category, then has the keyword
  of that name that belongs to no category, then the keywords of the category in the order of their
  names. So the keywords of a category follow it immediately, unless a keyword outside has its name.\<close>
theorem InterestList_grouped:
  assumes "(catalogStep P)\<^sup>*\<^sup>* emptyCatalog S"
  shows "InterestList S = concat (map (\<lambda>n. map listItem (groupRows S n)) (groupNames S)) \<and>
    ((i, n) \<in> set (csCategories S) \<longrightarrow> (\<forall>k\<in>set (csKeywords S). kwParent k = None \<longrightarrow> kwName k \<noteq> n) \<longrightarrow>
       groupRows S n = (n, i, 0, n) # map (\<lambda>k. (n, i, 2, kwName k)) (sort_key kwName (filter (\<lambda>k. kwParent k = Some i) (csKeywords S))))"
proof -
  have ok: "catalogOk S" using catalog.invar_reachable [OF assms refl] .
  let ?rows = "remdups (map categoryRow (csCategories S) @ map (keywordEntry S) (csKeywords S))"
  let ?list = "concat (map (groupRows S) (groupNames S))"
  have names: "sorted_wrt (<) (groupNames S)" by (simp add: groupNames_def strict_sorted_iff)
  have strict: "sorted_wrt (<) (map rowKey ?list)"
    by (rule strict_concat [OF names groupRows_strict [OF ok] groupRows_first])
  have grp: "fst r \<in> set (groupNames S)" if r: "r \<in> set ?rows" for r
  proof -
    consider (cat) c where "c \<in> set (csCategories S)" "fst r = snd c"
      | (kw) k where "k \<in> set (csKeywords S)" "r = keywordEntry S k"
      using r by (auto simp: categoryRow_def)
    then show ?thesis
    proof cases
      case kw
      show ?thesis
      proof (cases "kwParent k")
        case None
        then show ?thesis using kw by (simp add: groupNames_def keywordEntry_def)
      next
        case (Some i)
        then have "i \<in> fst ` set (csCategories S)" using ok kw(1) by (auto simp: catalogOk_def keywordsOk_def)
        then obtain m where m: "map_of (csCategories S) i = Some m" by (auto dest: weak_map_of_SomeI)
        from map_of_SomeD [OF m] m Some show ?thesis by (force simp: groupNames_def keywordEntry_def kw(2))
      qed
    qed (simp add: groupNames_def)
  qed
  have "r \<in> set ?list \<longleftrightarrow> fst r \<in> set (groupNames S) \<and> r \<in> set ?rows" for r
    unfolding set_concat set_map UN_iff bex_simps groupRows_set [OF ok] set_remdups set_append by blast
  then have set_eq: "set ?list = set ?rows" using grp by blast
  have d: "distinct (map rowKey ?list)" using strict by (simp add: strict_sorted_iff)
  then have inj: "inj_on rowKey (set ?rows)" unfolding distinct_map set_eq by blast
  have "sorted_wrt (<) (map rowKey (interestRows S))"
    using inj by (simp add: interestRows_def strict_sorted_iff distinct_map)
  then have "map rowKey (interestRows S) = map rowKey ?list"
    using strict_sorted_equal [OF _ strict] set_eq by (simp add: interestRows_def)
  moreover have "inj_on rowKey (set (interestRows S) \<union> set ?list)" using inj set_eq by (simp add: interestRows_def)
  ultimately have "interestRows S = ?list" using inj_on_map_eq_map by blast
  then have "InterestList S = concat (map (\<lambda>n. map listItem (groupRows S n)) (groupNames S))"
    by (simp add: InterestList_def map_concat comp_def)
  moreover have "groupRows S n = (n, i, 0, n) # map (\<lambda>k. (n, i, 2, kwName k)) (sort_key kwName (filter (\<lambda>k. kwParent k = Some i) (csKeywords S)))"
    if "(i, n) \<in> set (csCategories S)" "\<forall>k\<in>set (csKeywords S). kwParent k = None \<longrightarrow> kwName k \<noteq> n"
  proof -
    have u: "distinct (map snd (csCategories S))" using ok by (simp add: catalogOk_def categoriesOk_def)
    have e: "map fst (map (\<lambda>(i, m). (m, i)) (csCategories S)) = map snd (csCategories S)" by auto
    have "(n, i) \<in> set (map (\<lambda>(i, m). (m, i)) (csCategories S))" using that(1) by force
    then have "map_of (map (\<lambda>(i, m). (m, i)) (csCategories S)) n = Some i"
      by (rule map_of_is_SomeI [OF u [folded e]])
    then show ?thesis using that(2) unfolding groupRows_def concat_unique [OF u] by auto
  qed
  ultimately show ?thesis by blast
qed

lemma InterestList_grouped_witness:
  "map odirName (InterestList (snd (CreateKeyword [74] 1 (snd (CreateCategory [77] emptyCatalog))))) = [[77], [74]]"
proof -
  let ?T = "snd (CreateCategory [77] emptyCatalog)"
  let ?S = "snd (CreateKeyword [74] 1 ?T)"
  have "(catalogStep samplePlatform)\<^sup>*\<^sup>* emptyCatalog ?S"
    by (meson catalogStep.category catalogStep.keyword r_into_rtranclp rtranclp.rtrancl_into_rtrancl)
  from InterestList_grouped [OF this, of 1 "[77]"] show ?thesis
    by (simp add: CreateKeyword_def CreateCategory_def emptyCatalog_def newRowID_def Let_def groupNames_def groupRows_def
        listItem_def)
qed

lemma sqlLower_decimal: "sqlLower (showDecimal n) = showDecimal n"
proof -
  have "asciiLower b = b" if "isDecimal b" for b
  proof -
    from that have "b \<le> 0x39" by (simp add: isDecimal_def)
    then have "\<not> 0x41 \<le> b" by (simp add: word_le_nat_alt)
    then show ?thesis by (simp add: asciiLower_def)
  qed
  then show ?thesis using showDecimal_isDecimal [of n] by (simp add: sqlLower_def list_all_iff map_idI)
qed

lemma cookie_lower:
  "sqlLower (ChatRoom_Cookie c) = sqlLower (ChatRoom_Cookie d) \<longleftrightarrow>
     roomExchange c = roomExchange d \<and> sqlLower (roomName c) = sqlLower (roomName d)"
proof -
  have "asciiLower 0x2D = 0x2D" by (simp add: asciiLower_def)
  then have "sqlLower (ChatRoom_Cookie q) = ChatRoom_Cookie (q\<lparr>roomName := sqlLower (roomName q)\<rparr>)" for q
    using sqlLower_decimal by (simp add: ChatRoom_Cookie_def ChatRoom_InstanceNumber_def) (simp add: sqlLower_def)
  then show ?thesis by (simp add: chat_cookie_unique)
qed

text \<open>Chat rooms that differ in case only shadow each other. The uniqueness of room names is exact, but the
  lookups ignore the case of ASCII letters: after a room was created, another one whose name differs in
  case only is created as well, and from then on both names, and both cookies, lead to the room
  that was there first.\<close>
theorem rooms_shadow_each_other:
  assumes "catalogOk S" and "snd (ChatRoomByName P (roomExchange r) (roomName r) S) = Some ErrChatRoomNotFound"
    and "roomName r' \<noteq> roomName r" and "sqlLower (roomName r') = sqlLower (roomName r)" and "roomExchange r' = roomExchange r"
    and "NewIdentScreenName P (roomCreator r) = roomCreator r"
  shows "\<exists>S1 S2. CreateChatRoom t r S = ((r\<lparr>roomCreateTime := t\<rparr>, None), S1) \<and>
      CreateChatRoom t' r' S1 = ((r'\<lparr>roomCreateTime := t'\<rparr>, None), S2) \<and>
      (\<forall>q\<in>{r, r'}. ChatRoomByName P (roomExchange q) (roomName q) S2 = (r\<lparr>roomCreateTime := t\<rparr>, None) \<and>
         ChatRoomByCookie P (ChatRoom_Cookie q) S2 = (r\<lparr>roomCreateTime := t\<rparr>, None))"
proof -
  let ?r = "r\<lparr>roomCreateTime := t\<rparr>" and ?r' = "r'\<lparr>roomCreateTime := t'\<rparr>"
  have cookie: "ChatRoom_Cookie ?r = ChatRoom_Cookie r" "ChatRoom_Cookie ?r' = ChatRoom_Cookie r'"
    by (simp_all add: chat_cookie_unique)
  have stored: "c = ChatRoom_Cookie q" "\<not> (roomExchange q = roomExchange r \<and> sqlLower (roomName q) = sqlLower (roomName r))"
    if "(c, q) \<in> set (csRooms S)" for c q
  proof -
    show "c = ChatRoom_Cookie q" using assms(1) that by (auto simp: catalogOk_def roomsOk_def)
    have "filter (\<lambda>(c, q). roomExchange q = roomExchange r \<and> sqlLower (roomName q) = sqlLower (roomName r)) (csRooms S) = []"
      using assms(2) by (auto simp: ChatRoomByName_def split: list.splits)
    then show "\<not> (roomExchange q = roomExchange r \<and> sqlLower (roomName q) = sqlLower (roomName r))"
      using that unfolding filter_empty_conv by blast
  qed
  have none: "c \<noteq> ChatRoom_Cookie r \<and> \<not> (roomExchange q = roomExchange r \<and> roomName q = roomName r)"
      "c \<noteq> ChatRoom_Cookie r' \<and> \<not> (roomExchange q = roomExchange r' \<and> roomName q = roomName r')"
      "sqlLower c \<noteq> sqlLower (ChatRoom_Cookie r)"
    if "(c, q) \<in> set (csRooms S)" for c q
    using stored [OF that] assms(4,5) by (auto simp: chat_cookie_unique cookie_lower)
  let ?S1 = "S\<lparr>csRooms := csRooms S @ [(ChatRoom_Cookie r, ?r)]\<rparr>"
  let ?S2 = "S\<lparr>csRooms := csRooms S @ [(ChatRoom_Cookie r, ?r), (ChatRoom_Cookie r', ?r')]\<rparr>"
  have one: "CreateChatRoom t r S = ((?r, None), ?S1)"
    using none(1) by (fastforce simp: CreateChatRoom_def Let_def list_ex_iff cookie)
  have two: "CreateChatRoom t' r' ?S1 = ((?r', None), ?S2)"
    using none(2) assms(3,5) by (fastforce simp: CreateChatRoom_def Let_def list_ex_iff cookie chat_cookie_unique)
  have rest: "filter (\<lambda>(c, q). roomExchange q = roomExchange r \<and> sqlLower (roomName q) = sqlLower (roomName r)) (csRooms S) = []"
    "filter (\<lambda>(c, q). sqlLower c = sqlLower (ChatRoom_Cookie r)) (csRooms S) = []"
    unfolding filter_empty_conv using stored(2) none(3) by blast+
  have "sqlLower (ChatRoom_Cookie r') = sqlLower (ChatRoom_Cookie r)" using assms(4,5) by (simp add: cookie_lower)
  then have "\<forall>q\<in>{r, r'}. ChatRoomByName P (roomExchange q) (roomName q) ?S2 = (?r, None) \<and>
      ChatRoomByCookie P (ChatRoom_Cookie q) ?S2 = (?r, None)"
    using rest assms(4-6) by (simp add: ChatRoomByName_def ChatRoomByCookie_def readRoom_def)
  with one two show ?thesis by blast
qed

lemma rooms_shadow_each_other_witness:
  "\<exists>S. fst (ChatRoomByName samplePlatform 5 (asciiBytes ''lobby'') S) = (NewChatRoom (asciiBytes ''Lobby'') [97] 5)\<lparr>roomCreateTime := 1\<rparr> \<and>
     length (csRooms S) = 2"
proof -
  let ?r = "NewChatRoom (asciiBytes ''Lobby'') [97] 5" and ?r' = "NewChatRoom (asciiBytes ''lobby'') [97] 5"
  have ok: "catalogOk emptyCatalog" by (rule catalog.invar_start) simp
  have n: "NewIdentScreenName samplePlatform [97] = [97]" by (simp add: ident_ascii isASCII_def asciiLower_def)
  have "\<exists>S1 S2. CreateChatRoom 1 ?r emptyCatalog = ((?r\<lparr>roomCreateTime := 1\<rparr>, None), S1) \<and>
      CreateChatRoom 2 ?r' S1 = ((?r'\<lparr>roomCreateTime := 2\<rparr>, None), S2) \<and>
      (\<forall>q\<in>{?r, ?r'}. ChatRoomByName samplePlatform (roomExchange q) (roomName q) S2 = (?r\<lparr>roomCreateTime := 1\<rparr>, None) \<and>
         ChatRoomByCookie samplePlatform (ChatRoom_Cookie q) S2 = (?r\<lparr>roomCreateTime := 1\<rparr>, None))"
    by (rule rooms_shadow_each_other [OF ok])
      (simp_all add: ChatRoomByName_def emptyCatalog_def NewChatRoom_def n asciiBytes_def sqlLower_def asciiLower_def)
  then obtain S1 S2 where S: "CreateChatRoom 1 ?r emptyCatalog = ((?r\<lparr>roomCreateTime := 1\<rparr>, None), S1)"
    "CreateChatRoom 2 ?r' S1 = ((?r'\<lparr>roomCreateTime := 2\<rparr>, None), S2)"
    "ChatRoomByName samplePlatform (roomExchange ?r') (roomName ?r') S2 = (?r\<lparr>roomCreateTime := 1\<rparr>, None)" by blast
  have "length (csRooms S1) = 1" using S(1) by (auto simp: CreateChatRoom_def emptyCatalog_def Let_def)
  moreover have "length (csRooms S2) = Suc (length (csRooms S1))" using S(2) by (auto simp: CreateChatRoom_def Let_def split: if_splits)
  ultimately show ?thesis using S(3) by (intro exI [of _ S2]) (simp add: NewChatRoom_def)
qed

text \<open>Row ids run out. Whatever was deleted, no category can be created any more once one has the id 255, and no
  keyword once one has: the ids below are never used again.\<close>
theorem row_ids_run_out:
  "255 \<in> fst ` set (csCategories S) \<Longrightarrow> snd (CreateCategory name S) = S \<and> (\<exists>e. fst (CreateCategory name S) = Inl e)"
  "255 \<in> kwID ` set (csKeywords S) \<Longrightarrow> snd (CreateKeyword name i S) = S \<and> (\<exists>e. fst (CreateKeyword name i S) = Inl e)"
proof -
  show "snd (CreateCategory name S) = S \<and> (\<exists>e. fst (CreateCategory name S) = Inl e)" if "255 \<in> fst ` set (csCategories S)"
    using that newRowID_new [of 255 "map fst (csCategories S)"] by (auto simp: CreateCategory_def Let_def)
  show "snd (CreateKeyword name i S) = S \<and> (\<exists>e. fst (CreateKeyword name i S) = Inl e)" if "255 \<in> kwID ` set (csKeywords S)"
    using that newRowID_new [of 255 "map kwID (csKeywords S)"] by (auto simp: CreateKeyword_def Let_def)
qed

text \<open>What was chosen is found: a keyword leads to the accounts that have it in one of their slots.\<close>

lemma filter_distinct_map: "distinct (map f xs) \<Longrightarrow> k \<in> set xs \<Longrightarrow> filter (\<lambda>q. f q = f k) xs = [k]"
proof (induction xs)
  case (Cons q xs)
  then show ?case by (cases "k = q") (auto simp: filter_empty_conv intro: rev_image_eqI dest: sym)
qed simp

lemma chosen_keyword_found:
  assumes "catalogOk S" and "k \<in> set (csKeywords S)"
  shows "FindByAIMKeyword P (kwName k) S = queryUsers P (\<lambda>(n, r). Some (kwID k) \<in> set (acKeywords r)) (csAccounts S)"
  using assms by (simp add: FindByAIMKeyword_def keywordID_def filter_distinct_map catalogOk_def keywordsOk_def)

end
