(* ===== verification/Foodgroup_Buddy.thy ===== *)
theory Foodgroup_Buddy
  imports State_SessionManager_Laws State_BuddyLists
begin

text \<open>
  Presence: who is told that a user comes, goes or changes (\<open>foodgroup/buddy.go\<close>), and the block and
  permit requests of clients without a server-side list (\<open>foodgroup/permit_deny.go\<close>). The services
  join the pool of sessions with the relationship query over the list tables; both are part of the
  state \<open>BOS\<close>. A request is one step. An operation answers \<open>Inl\<close> where building a TLV or reading one
  panics, which \<open>userInfo_correct\<close> excludes for reachable sessions.
\<close>

section \<open>State\<close>

record BOS =
  bosMgr :: SessionManager
  bosHeap :: sessions
  bosLists :: ListStore

text \<open>An instance is named by the address of its session and its own address there.\<close>

type_synonym instanceRef = "nat \<times> nat"

definition sessionOf :: "instanceRef \<Rightarrow> BOS \<Rightarrow> Session" where
  "sessionOf you B = bosHeap B ! fst you"

definition instanceOf :: "instanceRef \<Rightarrow> BOS \<Rightarrow> SessionInstance" where
  "instanceOf you B = inst (sessionOf you B) (snd you)"

definition updInstance :: "(SessionInstance \<Rightarrow> SessionInstance) \<Rightarrow> instanceRef \<Rightarrow> BOS \<Rightarrow> BOS" where
  "updInstance f you B = B\<lparr>bosHeap := updSession (updInst (snd you) f) (fst you) (bosHeap B)\<rparr>"

definition relayTo :: "IdentScreenName \<Rightarrow> SNACMessage \<Rightarrow> BOS \<Rightarrow> BOS" where
  "relayTo sn msg B = B\<lparr>bosHeap := RelayToScreenName sn msg (bosMgr B) (bosHeap B)\<rparr>"

section \<open>Messages\<close>

abbreviation (input) FoodGroup_Buddy :: u16 where "FoodGroup_Buddy \<equiv> 0x0003"
abbreviation (input) FoodGroup_PermitDeny :: u16 where "FoodGroup_PermitDeny \<equiv> 0x0009"
abbreviation (input) ReqIDFromServer :: u32 where "ReqIDFromServer \<equiv> 0x80000000"
abbreviation (input) BuddyRightsReply :: u16 where "BuddyRightsReply \<equiv> 0x0003"
abbreviation (input) BuddyRejectNotification :: u16 where "BuddyRejectNotification \<equiv> 0x000A"
abbreviation (input) BuddyArrived :: u16 where "BuddyArrived \<equiv> 0x000B"
abbreviation (input) BuddyDeparted :: u16 where "BuddyDeparted \<equiv> 0x000C"
abbreviation (input) BuddyTLVTagsParmMaxBuddies :: u16 where "BuddyTLVTagsParmMaxBuddies \<equiv> 0x01"
abbreviation (input) BuddyTLVTagsParmMaxWatchers :: u16 where "BuddyTLVTagsParmMaxWatchers \<equiv> 0x02"
abbreviation (input) BuddyTLVTagsParmMaxIcqBroad :: u16 where "BuddyTLVTagsParmMaxIcqBroad \<equiv> 0x03"
abbreviation (input) BuddyTLVTagsParmMaxTempBuddies :: u16 where "BuddyTLVTagsParmMaxTempBuddies \<equiv> 0x04"
abbreviation (input) PermitDenyRightsReply :: u16 where "PermitDenyRightsReply \<equiv> 0x0003"
abbreviation (input) PermitDenyTLVMaxPermits :: u16 where "PermitDenyTLVMaxPermits \<equiv> 0x01"
abbreviation (input) PermitDenyTLVMaxDenies :: u16 where "PermitDenyTLVMaxDenies \<equiv> 0x02"
abbreviation (input) PermitDenyTLVMaxTempPermits :: u16 where "PermitDenyTLVMaxTempPermits \<equiv> 0x03"

definition serverFrame :: "u16 \<Rightarrow> u16 \<Rightarrow> SNACFrame" where
  "serverFrame fg sub = \<lparr>FoodGroup = fg, SubGroup = sub, Flags = 0, RequestID = ReqIDFromServer\<rparr>"

definition replyFrame :: "u16 \<Rightarrow> u16 \<Rightarrow> u32 \<Rightarrow> SNACFrame" where
  "replyFrame fg sub req = \<lparr>FoodGroup = fg, SubGroup = sub, Flags = 0, RequestID = req\<rparr>"

definition TLVUserInfo_val :: "TLVUserInfo \<Rightarrow> gval" where
  "TLVUserInfo_val u = VStruct [VString (tuiScreenName u), VU16 (tuiWarningLevel u), TLVList_val (tuiTLVs u)]"

definition IsInvisible :: "TLVUserInfo \<Rightarrow> gerr + bool" where
  "IsInvisible u =
     ebind (TLVList_Uint32BE (tuiTLVs u) OServiceUserInfoStatus) (\<lambda>m.
       let mask = (case m of None \<Rightarrow> 0 | Some w \<Rightarrow> w)
       in Inr (mask AND OServiceUserStatusInvisible = OServiceUserStatusInvisible))"

definition arrivedMsg :: "TLVUserInfo \<Rightarrow> SNACMessage" where
  "arrivedMsg u = (serverFrame FoodGroup_Buddy BuddyArrived,
     Some (SNAC_0x03_0x0B_BuddyArrived, VStruct [TLVUserInfo_val u]))"

definition departedMsg :: "TLVUserInfo \<Rightarrow> SNACMessage" where
  "departedMsg u = (serverFrame FoodGroup_Buddy BuddyDeparted,
     Some (SNAC_0x03_0x0C_BuddyDeparted, VStruct [TLVUserInfo_val u]))"

section \<open>Broadcasts\<close>

text \<open>The users who have \<open>sn\<close> on their list, without those blocked in either direction.\<close>

definition presenceRecipients :: "IdentScreenName \<Rightarrow> ListStore \<Rightarrow> IdentScreenName list" where
  "presenceRecipients sn st =
     map relUser (filter (\<lambda>u. \<not> (relYouBlock u \<or> relBlocksYou u \<or> \<not> relIsOnTheirList u)) (AllRelationships sn [] st))"

definition BroadcastBuddyArrived :: "IdentScreenName \<Rightarrow> TLVUserInfo \<Rightarrow> BOS \<Rightarrow> gerr + BOS" where
  "BroadcastBuddyArrived sn info B =
     ebind (IsInvisible info) (\<lambda>inv.
       if inv then Inr B
       else Inr (B\<lparr>bosHeap := RelayToScreenNames (presenceRecipients sn (bosLists B)) (arrivedMsg info)
              (bosMgr B) (bosHeap B)\<rparr>))"

definition BroadcastBuddyDeparted :: "IdentScreenName \<Rightarrow> BOS \<Rightarrow> gerr + BOS" where
  "BroadcastBuddyDeparted sn B =
     ebind (NewTLVBE OServiceUserInfoUserFlags (Some (TU16, VU16 0))) (\<lambda>tlv.
       Inr (B\<lparr>bosHeap := RelayToScreenNames (presenceRecipients sn (bosLists B))
         (departedMsg \<lparr>tuiScreenName = sn, tuiWarningLevel = 0, tuiTLVs = [tlv]\<rparr>) (bosMgr B) (bosHeap B)\<rparr>))"

definition unicastBuddyDeparted :: "Session \<Rightarrow> IdentScreenName \<Rightarrow> BOS \<Rightarrow> BOS" where
  "unicastBuddyDeparted from to B = relayTo to (departedMsg
     \<lparr>tuiScreenName = identScreenName from, tuiWarningLevel = warning from, tuiTLVs = []\<rparr>) B"

definition unicastBuddyArrived :: "TLVUserInfo \<Rightarrow> IdentScreenName \<Rightarrow> BOS \<Rightarrow> gerr + BOS" where
  "unicastBuddyArrived info to B =
     ebind (IsInvisible info) (\<lambda>inv. Inr (if inv then B else relayTo to (arrivedMsg info) B))"

text \<open>One turn of the loop of \<open>BroadcastVisibility\<close>, for one row of the relationships.\<close>

definition visibilityStep :: "int \<Rightarrow> instanceRef \<Rightarrow> TLVUserInfo \<Rightarrow> bool \<Rightarrow> RelationshipRow \<Rightarrow> BOS \<Rightarrow> gerr + BOS" where
  "visibilityStep now you yourInfo doSendDepartures r B =
     (if relBlocksYou r then Inr B
      else
        (case RetrieveSession (relUser r) (bosMgr B) (bosHeap B) of
           None \<Rightarrow> Inr B
         | Some their \<Rightarrow>
             (let them = identScreenName (bosHeap B ! their); me = identScreenName (sessionOf you B) in
              if \<not> relYouBlock r then
                ebind (if relIsOnTheirList r then unicastBuddyArrived yourInfo them B else Inr B) (\<lambda>B1.
                  if relIsOnYourList r
                  then ebind (Session_TLVUserInfo now (bosHeap B1 ! their)) (\<lambda>theirInfo. unicastBuddyArrived theirInfo me B1)
                  else Inr B1)
              else if doSendDepartures then
                (let B1 = (if relIsOnTheirList r then unicastBuddyDeparted (sessionOf you B) them B else B)
                 in Inr (if relIsOnYourList r then unicastBuddyDeparted (bosHeap B1 ! their) me B1 else B1))
              else Inr B)))"

fun visibilityLoop :: "int \<Rightarrow> instanceRef \<Rightarrow> TLVUserInfo \<Rightarrow> bool \<Rightarrow> RelationshipRow list \<Rightarrow> BOS \<Rightarrow> gerr + BOS" where
  "visibilityLoop now you yourInfo dep [] B = Inr B"
| "visibilityLoop now you yourInfo dep (r # rs) B =
     ebind (visibilityStep now you yourInfo dep r B) (\<lambda>B1. visibilityLoop now you yourInfo dep rs B1)"

definition BroadcastVisibility :: "int \<Rightarrow> instanceRef \<Rightarrow> IdentScreenName list \<Rightarrow> bool \<Rightarrow> BOS \<Rightarrow> gerr + BOS" where
  "BroadcastVisibility now you filterNames doSendDepartures B =
     (let relationships = AllRelationships (identScreenName (sessionOf you B)) filterNames (bosLists B) in
      ebind (Session_TLVUserInfo now (sessionOf you B)) (\<lambda>yourInfo.
        visibilityLoop now you yourInfo doSendDepartures relationships B))"

section \<open>The buddy service\<close>

text \<open>The frame and the TLVs of a reply that lists limits.\<close>

definition rightsReply :: "u16 \<Rightarrow> u16 \<Rightarrow> gtype \<Rightarrow> u16 list \<Rightarrow> u32 \<Rightarrow> gerr + SNACMessage" where
  "rightsReply fg sub t tags req =
     ebind (appendTLVs (map (\<lambda>tag. (tag, TU16, VU16 100)) tags) []) (\<lambda>tlvs.
       Inr (replyFrame fg sub req, Some (t, VStruct [TLVList_val tlvs])))"

definition Buddy_RightsQuery :: "u32 \<Rightarrow> gerr + SNACMessage" where
  "Buddy_RightsQuery req = rightsReply FoodGroup_Buddy BuddyRightsReply SNAC_0x03_0x03_BuddyRightsReply
     [BuddyTLVTagsParmMaxBuddies, BuddyTLVTagsParmMaxWatchers, BuddyTLVTagsParmMaxIcqBroad,
      BuddyTLVTagsParmMaxTempBuddies] req"

text \<open>The loop over the requested buddies: who is rejected and who was added, in order.\<close>

fun addBuddiesLoop :: "platform \<Rightarrow> IdentScreenName \<Rightarrow> bytes list \<Rightarrow> ListStore \<Rightarrow> bytes list \<times> IdentScreenName list \<times> ListStore" where
  "addBuddiesLoop P me [] st = ([], [], st)"
| "addBuddiesLoop P me (name # names) st =
     (let them = NewIdentScreenName P name in
      if UIN them \<noteq> 0 \<and> (UIN me = 0 \<or> RequiresAuthorization them me st)
      then (let (rejected, added, st1) = addBuddiesLoop P me names st in (name # rejected, added, st1))
      else (let (rejected, added, st1) = addBuddiesLoop P me names (AddBuddy me them st)
            in (rejected, them # added, st1)))"

definition rejectMsg :: "u32 \<Rightarrow> bytes list \<Rightarrow> SNACMessage" where
  "rejectMsg req names = (replyFrame FoodGroup_Buddy BuddyRejectNotification req,
     Some (SNAC_0x03_0x0A_BuddyRejectNotification, VStruct [VSlice (map (\<lambda>n. VStruct [VString n]) names)]))"

definition AddBuddies :: "platform \<Rightarrow> int \<Rightarrow> instanceRef \<Rightarrow> u32 \<Rightarrow> bytes list \<Rightarrow> BOS \<Rightarrow> gerr + SNACMessage option \<times> BOS" where
  "AddBuddies P now you req names B =
     (let (rejected, added, st1) = addBuddiesLoop P (identScreenName (sessionOf you B)) names (bosLists B);
          B1 = updInstance SetContactsInit you (B\<lparr>bosLists := st1\<rparr>) in
      if \<not> signonComplete (instanceOf you B1) then Inr (None, B1)
      else
        ebind (if 0 < length added then BroadcastVisibility now you added True B1 else Inr B1) (\<lambda>B2.
          Inr (if 0 < length rejected then Some (rejectMsg req rejected) else None, B2)))"

definition DelBuddies :: "platform \<Rightarrow> int \<Rightarrow> instanceRef \<Rightarrow> bytes list \<Rightarrow> BOS \<Rightarrow> gerr + BOS" where
  "DelBuddies P now you names B =
     (let me = identScreenName (sessionOf you B); toNotify = map (NewIdentScreenName P) names
      in BroadcastVisibility now you toNotify True
           (B\<lparr>bosLists := fold (\<lambda>sn. RemoveBuddy me sn) toNotify (bosLists B)\<rparr>))"

definition AddTempBuddies :: "platform \<Rightarrow> int \<Rightarrow> instanceRef \<Rightarrow> u32 \<Rightarrow> bytes list \<Rightarrow> BOS \<Rightarrow> gerr + SNACMessage option \<times> BOS" where
  "AddTempBuddies P now you req names B = AddBuddies P now you req (map (\<lambda>name. name) names) B"

definition DelTempBuddies :: "platform \<Rightarrow> int \<Rightarrow> instanceRef \<Rightarrow> bytes list \<Rightarrow> BOS \<Rightarrow> gerr + BOS" where
  "DelTempBuddies P now you names B = DelBuddies P now you (map (\<lambda>name. name) names) B"

section \<open>The permit and deny service\<close>

definition maybeBroadcastVisibility :: "platform \<Rightarrow> int \<Rightarrow> instanceRef \<Rightarrow> bytes list \<Rightarrow> BOS \<Rightarrow> gerr + BOS" where
  "maybeBroadcastVisibility P now you names B =
     (if \<not> signonComplete (instanceOf you B) then Inr B
      else BroadcastVisibility now you (map (NewIdentScreenName P) names) True B)"

text \<open>A single entry that names the client itself sets another mode.\<close>

definition namesMe :: "platform \<Rightarrow> IdentScreenName \<Rightarrow> bytes list \<Rightarrow> bool" where
  "namesMe P me names \<longleftrightarrow> length names = 1 \<and> NewIdentScreenName P (names ! 0) = me"

definition AddDenyListEntries :: "platform \<Rightarrow> int \<Rightarrow> instanceRef \<Rightarrow> bytes list \<Rightarrow> BOS \<Rightarrow> gerr + BOS" where
  "AddDenyListEntries P now you names B =
     (let me = identScreenName (sessionOf you B) in
      if namesMe P me names
      then maybeBroadcastVisibility P now you [] (B\<lparr>bosLists := SetPDMode me FeedbagPDModePermitAll (bosLists B)\<rparr>)
      else maybeBroadcastVisibility P now you []
        (B\<lparr>bosLists := fold (\<lambda>user. DenyBuddy me (NewIdentScreenName P user)) names
             (SetPDMode me FeedbagPDModeDenySome (bosLists B))\<rparr>))"

definition AddPermListEntries :: "platform \<Rightarrow> int \<Rightarrow> instanceRef \<Rightarrow> bytes list \<Rightarrow> BOS \<Rightarrow> gerr + BOS" where
  "AddPermListEntries P now you names B =
     (let me = identScreenName (sessionOf you B) in
      if namesMe P me names
      then maybeBroadcastVisibility P now you [] (B\<lparr>bosLists := SetPDMode me FeedbagPDModeDenyAll (bosLists B)\<rparr>)
      else maybeBroadcastVisibility P now you []
        (B\<lparr>bosLists := fold (\<lambda>user. PermitBuddy me (NewIdentScreenName P user)) names
             (SetPDMode me FeedbagPDModePermitSome (bosLists B))\<rparr>))"

definition DelDenyListEntries :: "platform \<Rightarrow> int \<Rightarrow> instanceRef \<Rightarrow> bytes list \<Rightarrow> BOS \<Rightarrow> gerr + BOS" where
  "DelDenyListEntries P now you names B =
     (if length names = 0 then Inr B
      else
        let me = identScreenName (sessionOf you B) in
        maybeBroadcastVisibility P now you names
          (B\<lparr>bosLists := fold (\<lambda>user. RemoveDenyBuddy me (NewIdentScreenName P user)) names (bosLists B)\<rparr>))"

definition DelPermListEntries :: "platform \<Rightarrow> int \<Rightarrow> instanceRef \<Rightarrow> bytes list \<Rightarrow> BOS \<Rightarrow> gerr + BOS" where
  "DelPermListEntries P now you names B =
     (if length names = 0 then Inr B
      else
        let me = identScreenName (sessionOf you B) in
        maybeBroadcastVisibility P now you names
          (B\<lparr>bosLists := fold (\<lambda>user. RemovePermitBuddy me (NewIdentScreenName P user)) names (bosLists B)\<rparr>))"

definition PermitDeny_RightsQuery :: "u32 \<Rightarrow> gerr + SNACMessage" where
  "PermitDeny_RightsQuery req = rightsReply FoodGroup_PermitDeny PermitDenyRightsReply SNAC_0x09_0x03_PermitDenyRightsReply
     [PermitDenyTLVMaxDenies, PermitDenyTLVMaxPermits, PermitDenyTLVMaxTempPermits] req"

section \<open>What relaying keeps\<close>

text \<open>A change of a session that keeps its invariant and name and adds no instance.\<close>

definition keeps :: "(Session \<Rightarrow> Session) \<Rightarrow> bool" where
  "keeps f \<longleftrightarrow> (\<forall>s. sessionOk s \<longrightarrow> sessionOk (f s) \<and> identScreenName (f s) = identScreenName s \<and>
     InstanceCount (f s) \<le> InstanceCount s)"

lemma length_updSession [simp]: "length (updSession f a h) = length h"
  by (simp add: updSession_def)

lemma nth_updSession: "s < length h \<Longrightarrow> updSession f a h ! s = (if s = a then f (h ! s) else h ! s)"
  by (simp add: updSession_def nth_list_update)

lemma storeOk_upd:
  assumes "storeOk m h" and "keeps f"
  shows "storeOk m (updSession f a h)"
proof (cases "a < length h")
  case True
  have "sessionOk (h ! a)" "InstanceCount (h ! a) \<le> maxConcurrentSessions m"
    using assms(1) True by (auto simp: storeOk_def)
  then show ?thesis using assms True unfolding updSession_def keeps_def
    by (intro storeOk_set) (auto intro: le_trans)
qed (use assms in \<open>simp add: updSession_def list_update_beyond\<close>)

lemma offer_name: "identScreenName (offer msg i s) = identScreenName s"
  by (simp add: offer_def CloseInstance_def closeMark_def closeCall_def RemoveInstance_def updInst_def
      RelayMessageToInstance_def split: prod.splits SessSendStatus.splits)

lemma relayLoop_name: "identScreenName (relayLoop wants msg is s) = identScreenName s"
proof (induction "is" arbitrary: s)
  case (Cons i "is")
  then show ?case by (simp add: relayLoop_def offer_name)
qed (simp add: relayLoop_def)

lemma keeps_relayLoop:
  assumes "\<And>s. set (is s) \<subseteq> set (Instances s)" and "\<And>s. distinct (Instances s) \<Longrightarrow> distinct (is s)"
  shows "keeps (\<lambda>s. relayLoop wants msg (is s) s)"
  unfolding keeps_def
proof (intro allI impI conjI)
  fix s assume ok: "sessionOk s"
  have "distinct (is s)" "set (is s) \<subseteq> set (instancesOrdered s)"
    using assms [of s] sessionOkD(2) [OF ok] by (simp_all add: Instances_def)
  note r = relayLoop_correct [OF ok this, of wants msg]
  show "sessionOk (relayLoop wants msg (is s) s)" by (rule r)
  show "identScreenName (relayLoop wants msg (is s) s) = identScreenName s" by (rule relayLoop_name)
  have "card (set (instancesOrdered (relayLoop wants msg (is s) s))) \<le> card (set (instancesOrdered s))"
    using r(3) by (auto simp: Instances_def intro!: card_mono)
  then show "InstanceCount (relayLoop wants msg (is s) s) \<le> InstanceCount s"
    using sessionOk_instances(3) [OF ok] sessionOk_instances(3) [OF r(1)]
      distinct_card [OF sessionOkD(2) [OF ok]] distinct_card [OF sessionOkD(2) [OF r(1)]] by simp
qed

lemma keeps_relays [simp]:
  "keeps (maybeRelayMessage msg)" "keeps (maybeRelayMessageActiveOnly msg)" "keeps (RelayToOtherInstances i msg)"
  using keeps_relayLoop [of Instances live msg] keeps_relayLoop [of Instances active msg]
    keeps_relayLoop [of "\<lambda>s. filter (\<lambda>j. j \<noteq> i) (Instances s)" live msg]
  by (simp_all add: maybeRelayMessage_def [abs_def] maybeRelayMessageActiveOnly_def [abs_def]
      RelayToOtherInstances_def [abs_def] fun_eq_iff keeps_def)

lemma keeps_updInst:
  assumes "\<And>x. instanceNum (f x) = instanceNum x" and "\<And>x. closed (f x) = closed x"
  shows "keeps (updInst i f)"
  unfolding keeps_def
proof (intro allI impI conjI)
  fix s assume ok: "sessionOk s"
  show "sessionOk (updInst i f s)"
    using sessionOk_upd [OF ok, of i f] assms ok
    by (cases "i < length (objects s)") (simp_all add: updInst_def list_update_beyond)
qed (simp_all add: updInst_def InstanceCount_def)

lemma keeps_comp: "keeps f \<Longrightarrow> keeps g \<Longrightarrow> keeps (f \<circ> g)"
  unfolding keeps_def comp_def by (metis le_trans)

lemma length_relay [simp]:
  "length (RelayToScreenName sn msg m h) = length h" "length (RelayToScreenNameActiveOnly sn msg m h) = length h"
  "length (fold (updSession f) as h) = length h" "length (RelayToScreenNames sns msg m h) = length h"
proof -
  show f: "length (fold (updSession f) as h) = length h" for f as h
    by (induction as arbitrary: h) simp_all
  show "length (RelayToScreenName sn msg m h) = length h" "length (RelayToScreenNameActiveOnly sn msg m h) = length h"
    by (simp_all add: RelayToScreenName_def RelayToScreenNameActiveOnly_def split: option.splits)
  show "length (RelayToScreenNames sns msg m h) = length h" by (simp add: RelayToScreenNames_def f)
qed

lemma storeOk_relay:
  assumes "storeOk m h"
  shows "storeOk m (RelayToScreenName sn msg m h)" "storeOk m (RelayToScreenNameActiveOnly sn msg m h)"
    "storeOk m (RelayToScreenNames sns msg m h)"
proof -
  have f: "storeOk m h \<Longrightarrow> keeps f \<Longrightarrow> storeOk m (fold (updSession f) as h)" for f as h
    by (induction as arbitrary: h) (simp_all add: storeOk_upd)
  show "storeOk m (RelayToScreenNames sns msg m h)" by (simp add: RelayToScreenNames_def f assms)
  show "storeOk m (RelayToScreenName sn msg m h)" "storeOk m (RelayToScreenNameActiveOnly sn msg m h)"
    using assms by (simp_all add: RelayToScreenName_def RelayToScreenNameActiveOnly_def storeOk_upd split: option.splits)
qed

section \<open>Relaying by name\<close>

text \<open>Whether a session is the one the pool holds for its user.\<close>

definition pooled :: "SessionManager \<Rightarrow> sessions \<Rightarrow> nat \<Rightarrow> bool" where
  "pooled m h s \<longleftrightarrow> (case map_of (store m) (identScreenName (h ! s)) of None \<Rightarrow> False | Some a \<Rightarrow> slotSess m a = s)"

lemma fold_updSession_nth:
  "s < length h \<Longrightarrow> fold (updSession f) as h ! s = (f ^^ count_list as s) (h ! s)"
proof (induction as arbitrary: h)
  case (Cons a as)
  then show ?case by (auto simp: nth_updSession funpow_swap1)
qed simp

lemma count_retrieve:
  assumes "storeOk m h"
  shows "count_list (retrieveByScreenNames sns m h) s = (if pooled m h s then count_list sns (identScreenName (h ! s)) else 0)"
proof (induction sns)
  case (Cons n sns)
  have "slotSess m a = s \<Longrightarrow> map_of (store m) n = Some a \<Longrightarrow> identScreenName (h ! s) = n" for a
    using storeOk_entry [OF assms, of n a] by auto
  then have "count_list (case findRec n m h of None \<Rightarrow> [] | Some a \<Rightarrow> [slotSession (slots m ! a)]) s =
      (if pooled m h s \<and> identScreenName (h ! s) = n then 1 else 0)"
    unfolding findRec_store [OF assms] by (auto simp: pooled_def slotSess_def split: option.splits)
  moreover have "retrieveByScreenNames (n # sns) m h =
      (case findRec n m h of None \<Rightarrow> [] | Some a \<Rightarrow> [slotSession (slots m ! a)]) @ retrieveByScreenNames sns m h"
    by (simp add: retrieveByScreenNames_def)
  ultimately show ?case using Cons.IH by auto
qed (simp add: retrieveByScreenNames_def)

lemma relayNames_nth:
  assumes "storeOk m h" and "s < length h"
  shows "RelayToScreenNames sns msg m h ! s =
    (maybeRelayMessage msg ^^ (if pooled m h s then count_list sns (identScreenName (h ! s)) else 0)) (h ! s)"
  using fold_updSession_nth [OF assms(2)] count_retrieve [OF assms(1), of sns s] by (simp add: RelayToScreenNames_def)

lemma presenceRecipients_iff:
  "u \<in> set (presenceRecipients sn st) \<longleftrightarrow> onList (listEntry st u sn) \<and>
     (\<exists>y\<in>set (privacyPrefs st sn). \<not> blocks y (listEntry st sn u)) \<and>
     (\<exists>t\<in>set (privacyPrefs st u). \<not> blocks t (listEntry st u sn))"
proof
  assume "u \<in> set (presenceRecipients sn st)"
  then obtain r where r: "r \<in> set (AllRelationships sn [] st)" and u: "u = relUser r"
    and f: "\<not> relYouBlock r" "\<not> relBlocksYou r" "relIsOnTheirList r"
    by (auto simp: presenceRecipients_def)
  from r obtain tm ym where m: "tm \<in> set (privacyPrefs st u)" "ym \<in> set (privacyPrefs st sn)"
    and e: "r = \<lparr>relUser = u, relBlocksYou = blocks tm (listEntry st u sn), relYouBlock = blocks ym (listEntry st sn u),
      relIsOnTheirList = onList (listEntry st u sn), relIsOnYourList = onList (listEntry st sn u)\<rparr>"
    unfolding AllRelationships_iff u by blast
  have "relYouBlock r = blocks ym (listEntry st sn u)" "relBlocksYou r = blocks tm (listEntry st u sn)"
    "relIsOnTheirList r = onList (listEntry st u sn)" by (subst e, simp)+
  with f m show "onList (listEntry st u sn) \<and> (\<exists>y\<in>set (privacyPrefs st sn). \<not> blocks y (listEntry st sn u)) \<and>
     (\<exists>t\<in>set (privacyPrefs st u). \<not> blocks t (listEntry st u sn))" by blast
next
  assume a: "onList (listEntry st u sn) \<and> (\<exists>y\<in>set (privacyPrefs st sn). \<not> blocks y (listEntry st sn u)) \<and>
     (\<exists>t\<in>set (privacyPrefs st u). \<not> blocks t (listEntry st u sn))"
  then obtain y t where yt: "y \<in> set (privacyPrefs st sn)" "t \<in> set (privacyPrefs st u)"
    "\<not> blocks y (listEntry st sn u)" "\<not> blocks t (listEntry st u sn)" by blast
  have "listEntry st u sn \<noteq> None" using a by (auto simp: onList_def split: option.splits)
  define r where "r = \<lparr>relUser = u, relBlocksYou = blocks t (listEntry st u sn), relYouBlock = blocks y (listEntry st sn u),
      relIsOnTheirList = onList (listEntry st u sn), relIsOnYourList = onList (listEntry st sn u)\<rparr>"
  have u: "relUser r = u" by (simp add: r_def)
  have "r \<in> set (AllRelationships sn [] st)"
    unfolding AllRelationships_iff u using \<open>listEntry st u sn \<noteq> None\<close> yt r_def by blast
  moreover have "\<not> (relYouBlock r \<or> relBlocksYou r \<or> \<not> relIsOnTheirList r)" using a yt by (simp add: r_def)
  ultimately show "u \<in> set (presenceRecipients sn st)"
    unfolding presenceRecipients_def using u by force
qed

text \<open>How often a user is told: once for every pair of settings that does not block.\<close>

definition presenceCopies :: "IdentScreenName \<Rightarrow> IdentScreenName \<Rightarrow> ListStore \<Rightarrow> nat" where
  "presenceCopies sn u st =
     (if onList (listEntry st u sn)
      then length (filter (\<lambda>y. \<not> blocks y (listEntry st sn u)) (privacyPrefs st sn))
         * length (filter (\<lambda>t. \<not> blocks t (listEntry st u sn)) (privacyPrefs st u))
      else 0)"

lemma count_blocks:
  assumes "distinct xs" and "\<And>x r. r \<in> set (g x) \<Longrightarrow> f r = x"
  shows "count_list (map f (concat (map g xs))) u = (if u \<in> set xs then length (g u) else 0)"
proof -
  have "count_list (map f (g x)) u = (if x = u then length (g u) else 0)" for x
  proof -
    have "map f (g x) = replicate (length (g x)) x" using assms(2) by (intro replicate_eqI) auto
    moreover have "count_list (replicate n x) u = (if x = u then n else 0)" for n
      by (cases "x = u") (induction n, simp_all)+
    ultimately show ?thesis by (cases "x = u") (simp_all only: if_True if_False simp_thms)
  qed
  with assms(1) show ?thesis by (induction xs) auto
qed

lemma length_pairs:
  "length (concat (map (\<lambda>t. filter (\<lambda>r. P r) (map (f t) ys)) ts)) = sum_list (map (\<lambda>t. length (filter (\<lambda>y. P (f t y)) ys)) ts)"
  by (induction ts) (simp_all add: filter_map o_def)

lemma count_recipients: "count_list (presenceRecipients sn st) u = presenceCopies sn u st"
proof -
  let ?listed = "\<lambda>them. listEntry st sn them \<noteq> None \<or> listEntry st them sn \<noteq> None"
  let ?row = "\<lambda>them theirMode yourMode. \<lparr>relUser = them, relBlocksYou = blocks theirMode (listEntry st them sn),
     relYouBlock = blocks yourMode (listEntry st sn them), relIsOnTheirList = onList (listEntry st them sn),
     relIsOnYourList = onList (listEntry st sn them)\<rparr>"
  let ?ok = "\<lambda>r. \<not> (relYouBlock r \<or> relBlocksYou r \<or> \<not> relIsOnTheirList r)"
  let ?g = "\<lambda>them. concat (map (\<lambda>theirMode. filter ?ok (map (?row them theirMode) (privacyPrefs st sn))) (privacyPrefs st them))"
  let ?xs = "filter ?listed (listedNames st)"
  have d: "distinct ?xs" by (simp add: listedNames_def)
  have "presenceRecipients sn st = map relUser (concat (map ?g ?xs))"
    by (simp add: presenceRecipients_def AllRelationships_def filter_concat o_def)
  moreover have "count_list (map relUser (concat (map ?g ?xs))) u = (if u \<in> set ?xs then length (?g u) else 0)"
    by (rule count_blocks [OF d]) auto
  moreover have "length (?g u) = presenceCopies sn u st"
  proof -
    have "sum_list (map (\<lambda>t. length (filter (\<lambda>y. ?ok (?row u t y)) ys)) ts) =
      (if onList (listEntry st u sn) then length (filter (\<lambda>y. \<not> blocks y (listEntry st sn u)) ys)
         * length (filter (\<lambda>t. \<not> blocks t (listEntry st u sn)) ts) else 0)" for ys ts
      by (induction ts) (simp_all add: algebra_simps)
    then show ?thesis unfolding length_pairs presenceCopies_def by simp
  qed
  moreover have "presenceCopies sn u st = 0" if "u \<notin> set ?xs"
    using that listEntry_listed [of st u sn] by (auto simp: presenceCopies_def onList_def split: option.splits)
  ultimately show ?thesis by auto
qed

section \<open>What a request keeps\<close>

text \<open>A request that only relays leaves the pool and the tables alone and keeps the pool consistent.\<close>

definition samePool :: "BOS \<Rightarrow> BOS \<Rightarrow> bool" where
  "samePool B B' \<longleftrightarrow> bosMgr B' = bosMgr B \<and> bosLists B' = bosLists B \<and> length (bosHeap B') = length (bosHeap B) \<and>
     (storeOk (bosMgr B) (bosHeap B) \<longrightarrow> storeOk (bosMgr B) (bosHeap B'))"

lemma samePool_refl [simp]: "samePool B B"
  by (simp add: samePool_def)

lemma samePool_trans: "samePool A B \<Longrightarrow> samePool B C \<Longrightarrow> samePool A C"
  by (auto simp: samePool_def)

lemma samePool_relay [simp]: "samePool B (relayTo sn msg B)"
  by (simp add: samePool_def relayTo_def storeOk_relay)

lemma samePool_unicast:
  "samePool B (unicastBuddyDeparted s to B)"
  "unicastBuddyArrived info to B = Inr B' \<Longrightarrow> samePool B B'"
  by (auto simp: unicastBuddyDeparted_def unicastBuddyArrived_def ebind_eq_Inr split: if_splits)

lemma samePool_visibilityStep: "visibilityStep now you info dep r B = Inr B' \<Longrightarrow> samePool B B'"
  unfolding visibilityStep_def Let_def
  by (auto simp: ebind_eq_Inr split: if_splits option.splits intro: samePool_trans dest: samePool_unicast(2)
      intro: samePool_unicast(1))

lemma samePool_visibilityLoop: "visibilityLoop now you info dep rs B = Inr B' \<Longrightarrow> samePool B B'"
  by (induction rs arbitrary: B) (auto simp: ebind_eq_Inr intro: samePool_trans samePool_visibilityStep)

lemma samePool_BroadcastVisibility: "BroadcastVisibility now you ns dep B = Inr B' \<Longrightarrow> samePool B B'"
  by (auto simp: BroadcastVisibility_def Let_def ebind_eq_Inr dest: samePool_visibilityLoop)

lemma samePool_maybeBroadcast: "maybeBroadcastVisibility P now you ns B = Inr B' \<Longrightarrow> samePool B B'"
  by (auto simp: maybeBroadcastVisibility_def dest: samePool_BroadcastVisibility split: if_splits)

section \<open>Denied users\<close>

lemma DenyBuddy_tables [simp]:
  "feedbag (DenyBuddy a b st) = feedbag st" "buddyListMode (DenyBuddy a b st) = buddyListMode st"
  by (simp_all add: DenyBuddy_def insertFlag_def)

lemma deny_all:
  "feedbag (fold (\<lambda>n. DenyBuddy me (f n)) ns st) = feedbag st \<and>
   buddyListMode (fold (\<lambda>n. DenyBuddy me (f n)) ns st) = buddyListMode st"
  by (induction ns arbitrary: st) simp_all

lemma deny_keeps:
  "\<exists>e. map_of (clientSideBuddyList st) (me, them) = Some e \<and> isDeny e \<Longrightarrow>
   \<exists>e. map_of (clientSideBuddyList (fold (\<lambda>n. DenyBuddy me (f n)) ns st)) (me, them) = Some e \<and> isDeny e"
proof (induction ns arbitrary: st)
  case (Cons n ns)
  then have "\<exists>e. map_of (clientSideBuddyList (DenyBuddy me (f n) st)) (me, them) = Some e \<and> isDeny e"
    by (auto simp: DenyBuddy_def insertFlag_def update_conv')
  then show ?case using Cons.IH by simp
qed simp

lemma deny_sets:
  assumes "n \<in> set ns"
  shows "\<exists>e. map_of (clientSideBuddyList (fold (\<lambda>n. DenyBuddy me (f n)) ns st)) (me, f n) = Some e \<and> isDeny e"
  using assms
proof (induction ns arbitrary: st)
  case (Cons m ns)
  show ?case
  proof (cases "m = n")
    case True
    have "\<exists>e. map_of (clientSideBuddyList (DenyBuddy me (f n) st)) (me, f n) = Some e \<and> isDeny e"
      by (simp add: DenyBuddy_def insertFlag_def update_conv')
    then show ?thesis using deny_keeps True by simp
  qed (use Cons in simp)
qed simp

section \<open>Adding buddies\<close>

definition mayAdd :: "platform \<Rightarrow> IdentScreenName \<Rightarrow> ListStore \<Rightarrow> bytes \<Rightarrow> bool" where
  "mayAdd P me st name \<longleftrightarrow> UIN (NewIdentScreenName P name) = 0 \<or>
     UIN me \<noteq> 0 \<and> \<not> RequiresAuthorization (NewIdentScreenName P name) me st"

lemma AddBuddy_auth [simp]: "RequiresAuthorization a b (AddBuddy c d st) = RequiresAuthorization a b st"
  by (cases "map_of (authFlags st) a") (simp_all add: RequiresAuthorization_def AddBuddy_def insertFlag_def)

lemma mayAdd_AddBuddy [simp]: "mayAdd P me (AddBuddy a b st) = mayAdd P me st"
  by (simp add: mayAdd_def fun_eq_iff)

lemma addBuddiesLoop_correct:
  "addBuddiesLoop P me names st =
     (filter (\<lambda>n. \<not> mayAdd P me st n) names, map (NewIdentScreenName P) (filter (mayAdd P me st) names),
      fold (AddBuddy me) (map (NewIdentScreenName P) (filter (mayAdd P me st) names)) st)"
proof (induction names arbitrary: st)
  case (Cons n ns)
  then show ?case by (auto simp: Let_def mayAdd_def split: prod.splits)
qed simp

lemma AddBuddy_entries:
  "map_of (clientSideBuddyList (fold (AddBuddy me) ns st)) (a, b) =
     (if a = me \<and> b \<in> set ns then Some ((sideEntryOf me b st)\<lparr>isBuddy := True\<rparr>)
      else map_of (clientSideBuddyList st) (a, b))"
proof (induction ns arbitrary: st)
  case (Cons n ns)
  have "sideEntryOf me b (AddBuddy me n st) = (if b = n then (sideEntryOf me b st)\<lparr>isBuddy := True\<rparr> else sideEntryOf me b st)"
    by (simp add: sideEntryOf_def AddBuddy_def insertFlag_def update_conv')
  moreover have "map_of (clientSideBuddyList (AddBuddy me n st)) (a, b) =
      (if a = me \<and> b = n then Some ((sideEntryOf me n st)\<lparr>isBuddy := True\<rparr>) else map_of (clientSideBuddyList st) (a, b))"
    by (auto simp: AddBuddy_def insertFlag_def update_conv')
  ultimately show ?case using Cons.IH by auto
qed simp

lemma signedOn_SetContactsInit:
  "signonComplete (instanceOf you (updInstance SetContactsInit you B)) = signonComplete (instanceOf you B)"
  by (cases "fst you < length (bosHeap B)"; cases "snd you < length (objects (sessionOf you B))")
    (simp_all add: instanceOf_def sessionOf_def updInstance_def updSession_def list_update_beyond updInst_def inst_def
      SetContactsInit_def)

section \<open>A sample server\<close>

text \<open>Two users, 97 and 98, each with one instance that has not completed its sign-on.\<close>

definition sampleBOS :: "ListStore \<Rightarrow> BOS" where
  "sampleBOS st = \<lparr>bosMgr = \<lparr>store = [([97], 0), ([98], 1)], slots = [\<lparr>slotSession = 0, slotRemoved = False, multiSession = True\<rparr>,
       \<lparr>slotSession = 1, slotRemoved = False, multiSession = True\<rparr>], userLocks = [], lockObjs = [], maxConcurrentSessions = 5\<rparr>,
     bosHeap = [sampleSession, SetIdentScreenName [98] sampleSession], bosLists = st\<rparr>"

definition sampleLists :: ListStore where
  "sampleLists = AddBuddy [97] [98] (AddBuddy [98] [97] (RegisterBuddyList [98] (RegisterBuddyList [97] emptyStore)))"

definition sampleUserInfo :: "IdentScreenName \<Rightarrow> TLVUserInfo" where
  "sampleUserInfo sn = \<lparr>tuiScreenName = sn, tuiWarningLevel = 0, tuiTLVs = []\<rparr>"

lemma sampleBOS_ok: "storeOk (bosMgr (sampleBOS st)) (bosHeap (sampleBOS st))"
proof -
  have "worldOk samplePlatform (firstLogin samplePlatform)"
    using pool.invar_reachable [OF firstLogin_reachable] by simp
  then have ok: "sessionOk sampleSession" "InstanceCount sampleSession \<le> 5"
    by (simp_all add: worldOk_def storeOk_def firstLogin_eval)
  moreover have "sessionOk (SetIdentScreenName [98] sampleSession) = sessionOk sampleSession"
    by (rule sessionOk_frame) (simp_all add: SetIdentScreenName_def)
  moreover have "InstanceCount (SetIdentScreenName [98] sampleSession) = InstanceCount sampleSession"
    by (simp add: InstanceCount_def SetIdentScreenName_def)
  ultimately show ?thesis
    by (auto simp: sampleBOS_def storeOk_def slotSess_def less_Suc_eq SetIdentScreenName_def)
qed

lemma sampleBOS_simps [simp]:
  "bosLists (sampleBOS st) = st" "identScreenName (sessionOf (0, 0) (sampleBOS st)) = [97]"
  "identScreenName (bosHeap (sampleBOS st) ! 1) = [98]" "identScreenName (bosHeap (sampleBOS st) ! Suc 0) = [98]"
  "length (bosHeap (sampleBOS st)) = 2" "\<not> signonComplete (instanceOf (0, 0) (sampleBOS st))"
  "pooled (bosMgr (sampleBOS st)) (bosHeap (sampleBOS st)) (Suc 0)"
  by (simp_all add: sampleBOS_def sessionOf_def SetIdentScreenName_def instanceOf_def inst_def pooled_def slotSess_def
      sampleSession_def SetDisplayScreenName_def oneInstance_def newInstance_def)

lemma sampleLists_simps:
  "privacyPrefs sampleLists [97] = [1]" "privacyPrefs sampleLists [98] = [1]"
  "listEntry sampleLists [97] [98] = Some \<lparr>isBuddy = True, isPermit = False, isDeny = False\<rparr>"
  "listEntry sampleLists [98] [97] = Some \<lparr>isBuddy = True, isPermit = False, isDeny = False\<rparr>"
  by (simp_all add: sampleLists_def privacyPrefs_def listEntry_def feedbagEntry_def AddBuddy_def insertFlag_def
      RegisterBuddyList_def emptyStore_def sideEntryOf_def)

lemma sampleUserInfo_visible [simp]: "IsInvisible (sampleUserInfo sn) = Inr False"
  by (simp add: sampleUserInfo_def IsInvisible_def)

lemma sampleIdent [simp]: "NewIdentScreenName P [98] = [98]"
  by (simp add: ident_ascii isASCII_def asciiLower_def)

section \<open>Properties\<close>

text \<open>C19: Presence reaches exactly the users it is meant for, and exactly as often as the privacy settings say. In
  a consistent pool, the news that a visible user arrives, as the news that a user departs, is relayed to the pooled
  session of every user who has the subject on the list, once for every pair of a privacy setting of
  the subject and one of the user neither of which blocks, so once when both have one setting that
  does not block. Every other session is untouched: that of a user without the subject on the
  list, of one who is blocked in either direction, and any session outside the pool. An invisible
  user's arrival changes nothing at all.\<close>
theorem presence_exact:
  assumes "storeOk (bosMgr B) (bosHeap B)" and "s < length (bosHeap B)"
  shows "let copies = (if pooled (bosMgr B) (bosHeap B) s then presenceCopies sn (identScreenName (bosHeap B ! s)) (bosLists B) else 0) in
    (IsInvisible info = Inr True \<longrightarrow> BroadcastBuddyArrived sn info B = Inr B) \<and>
    (IsInvisible info = Inr False \<longrightarrow> (\<exists>B'. BroadcastBuddyArrived sn info B = Inr B' \<and> bosLists B' = bosLists B \<and>
       bosHeap B' ! s = (maybeRelayMessage (arrivedMsg info) ^^ copies) (bosHeap B ! s))) \<and>
    (\<exists>B' tlvs. BroadcastBuddyDeparted sn B = Inr B' \<and> bosLists B' = bosLists B \<and> bosHeap B' ! s =
       (maybeRelayMessage (departedMsg \<lparr>tuiScreenName = sn, tuiWarningLevel = 0, tuiTLVs = tlvs\<rparr>) ^^ copies) (bosHeap B ! s))"
proof -
  let ?r = "presenceRecipients sn (bosLists B)"
  have n: "RelayToScreenNames ?r msg (bosMgr B) (bosHeap B) ! s = (maybeRelayMessage msg ^^
      (if pooled (bosMgr B) (bosHeap B) s then presenceCopies sn (identScreenName (bosHeap B ! s)) (bosLists B) else 0)) (bosHeap B ! s)" for msg
    using relayNames_nth [OF assms, of ?r msg] by (simp add: count_recipients)
  obtain tlv where "NewTLVBE OServiceUserInfoUserFlags (Some (TU16, VU16 0)) = Inr tlv" by simp
  then show ?thesis
    using n unfolding Let_def BroadcastBuddyArrived_def BroadcastBuddyDeparted_def by (auto intro!: exI [of _ "[tlv]"])
qed

lemma presence_exact_witness:
  "\<exists>B'. BroadcastBuddyArrived [97] (sampleUserInfo [97]) (sampleBOS sampleLists) = Inr B' \<and>
     bosHeap B' ! 1 = maybeRelayMessage (arrivedMsg (sampleUserInfo [97])) (bosHeap (sampleBOS sampleLists) ! 1)"
  using presence_exact [OF sampleBOS_ok, of 1 sampleLists "[97]" "sampleUserInfo [97]"]
  by (simp add: presenceCopies_def sampleLists_simps onList_def blocks_def Let_def) blast

text \<open>C20: Denying somebody hides the denier. After a client without a server-side list has put users on its deny
  list, in a request that does not name itself and a pool that is consistent, each of them is shown as blocked by the client in every relationship, and
  neither the news of the client's arrival nor that of its departure, announced from there with
  \<open>BroadcastBuddyArrived\<close> and \<open>BroadcastBuddyDeparted\<close>, changes anything in the session of a denied
  user. (The request itself tells the denied users that the client departed.)\<close>
theorem denied_users_see_nothing:
  assumes "storeOk (bosMgr B) (bosHeap B)" and "AddDenyListEntries P now you names B = Inr B'"
    and "me = identScreenName (sessionOf you B)" and "\<not> namesMe P me names" and "user \<in> set names"
    and "case map_of (buddyListMode (bosLists B)) me of None \<Rightarrow> True | Some m \<Rightarrow> \<not> useFeedbag m"
    and "BroadcastBuddyArrived me info B' = Inr B'' \<or> BroadcastBuddyDeparted me B' = Inr B''" and "s < length (bosHeap B')"
    and "identScreenName (bosHeap B' ! s) = NewIdentScreenName P user"
  shows "(\<forall>r\<in>set (AllRelationships (NewIdentScreenName P user) ns (bosLists B')). relUser r = me \<longrightarrow> relBlocksYou r) \<and>
    (\<forall>r\<in>set (AllRelationships me ns (bosLists B')). relUser r = NewIdentScreenName P user \<longrightarrow> relYouBlock r) \<and>
    bosHeap B'' ! s = bosHeap B' ! s"
proof -
  let ?them = "NewIdentScreenName P user" and ?st = "SetPDMode me FeedbagPDModeDenySome (bosLists B)"
  let ?f = "fold (\<lambda>user. DenyBuddy me (NewIdentScreenName P user)) names ?st"
  have same: "samePool (B\<lparr>bosLists := ?f\<rparr>) B'"
    using assms(2,3,4) by (auto simp: AddDenyListEntries_def Let_def dest: samePool_maybeBroadcast)
  then have L: "bosLists B' = ?f" and ok: "storeOk (bosMgr B') (bosHeap B')"
    using assms(1) by (simp_all add: samePool_def)
  have "set (privacyPrefs ?st me) = {4}"
    using assms(6) by (auto simp: privacyPrefs_def SetPDMode_tables Let_def filter_empty_conv image_iff split: option.splits)
  then have mode: "set (privacyPrefs (bosLists B') me) = {4}"
    using privacyPrefs_cong [of "bosLists B'" ?st me] deny_all [of me "NewIdentScreenName P" names ?st] by (simp add: L)
  obtain e where "map_of (clientSideBuddyList (bosLists B')) (me, ?them) = Some e" "isDeny e"
    using deny_sets [OF assms(5), of me "NewIdentScreenName P" ?st] by (auto simp: L)
  then have "\<exists>f. listEntry (bosLists B') me ?them = Some f \<and> isDeny f"
    by (auto simp: listEntry_def split: option.splits)
  then have blocked: "blocks m (listEntry (bosLists B') me ?them)" if "m \<in> set (privacyPrefs (bosLists B') me)" for m
    using that mode by (auto simp: blocks_def)
  have "?them \<notin> set (presenceRecipients me (bosLists B'))"
    using blocked by (auto simp: presenceRecipients_iff)
  then have "count_list (presenceRecipients me (bosLists B')) (identScreenName (bosHeap B' ! s)) = 0"
    using assms(9) by (simp add: count_list_0_iff)
  then have keep: "RelayToScreenNames (presenceRecipients me (bosLists B')) msg (bosMgr B') (bosHeap B') ! s = bosHeap B' ! s" for msg
    using relayNames_nth [OF ok assms(8)] by simp
  have "bosHeap B'' ! s = bosHeap B' ! s"
    using assms(7) by (auto simp: keep BroadcastBuddyArrived_def BroadcastBuddyDeparted_def ebind_eq_Inr split: if_splits)
  moreover have "relBlocksYou r" if "r \<in> set (AllRelationships ?them ns (bosLists B'))" "relUser r = me" for r
    using that(1) unfolding AllRelationships_iff that(2)
    by (metis (no_types, lifting) RelationshipRow.select_convs(2) blocked)
  moreover have "relYouBlock r" if "r \<in> set (AllRelationships me ns (bosLists B'))" "relUser r = ?them" for r
    using that(1) unfolding AllRelationships_iff that(2)
    by (metis (no_types, lifting) RelationshipRow.select_convs(3) blocked)
  ultimately show ?thesis by blast
qed

lemma denied_users_see_nothing_witness:
  "\<exists>B' B''. AddDenyListEntries samplePlatform 0 (0, 0) [[98]] (sampleBOS sampleLists) = Inr B' \<and>
     BroadcastBuddyArrived [97] (sampleUserInfo [97]) B' = Inr B'' \<and> bosHeap B'' ! 1 = bosHeap B' ! 1"
proof -
  let ?B = "sampleBOS sampleLists"
  have n: "\<not> namesMe samplePlatform [97] [[98]]" by (simp add: namesMe_def)
  have m: "case map_of (buddyListMode (bosLists ?B)) [97] of None \<Rightarrow> True | Some m \<Rightarrow> \<not> useFeedbag m"
    by (simp add: sampleLists_def AddBuddy_def insertFlag_def RegisterBuddyList_def emptyStore_def)
  define B' where "B' = ?B\<lparr>bosLists := DenyBuddy [97] [98] (SetPDMode [97] FeedbagPDModeDenySome sampleLists)\<rparr>"
  have a: "AddDenyListEntries samplePlatform 0 (0, 0) [[98]] ?B = Inr B'"
  proof -
    have "instanceOf (0, 0) (?B\<lparr>bosLists := st\<rparr>) = instanceOf (0, 0) ?B" for st
      by (simp add: instanceOf_def sessionOf_def)
    then show ?thesis using n by (simp add: AddDenyListEntries_def Let_def maybeBroadcastVisibility_def B'_def)
  qed
  obtain B'' where b: "BroadcastBuddyArrived [97] (sampleUserInfo [97]) B' = Inr B''"
    by (simp add: BroadcastBuddyArrived_def)
  have "bosHeap B'' ! 1 = bosHeap B' ! 1"
    using denied_users_see_nothing [OF sampleBOS_ok a _ n _ m disjI1 [OF b], of "[98]" 1] by (simp add: B'_def)
  with a b show ?thesis by blast
qed

text \<open>Nobody gets onto a list that would need consent. Adding buddies puts exactly those on the client's
  list that are not ICQ users, or that are when the client is one too and has their consent where they
  ask for it; the others are named in the reply, in order. So an AIM user never follows an ICQ user by
  this way. Before the sign-on is complete the rejected names are dropped without a reply.\<close>
theorem AddBuddies_correct:
  assumes "AddBuddies P now you req names B = Inr (reply, B')" and "me = identScreenName (sessionOf you B)"
    and "ok = mayAdd P me (bosLists B)" and "signedOn = signonComplete (instanceOf you B)"
  shows "reply = (if signedOn \<and> filter (\<lambda>n. \<not> ok n) names \<noteq> [] then Some (rejectMsg req (filter (\<lambda>n. \<not> ok n) names)) else None) \<and>
    (\<forall>a b. map_of (clientSideBuddyList (bosLists B')) (a, b) =
       (if a = me \<and> b \<in> NewIdentScreenName P ` {n \<in> set names. ok n}
        then Some ((sideEntryOf me b (bosLists B))\<lparr>isBuddy := True\<rparr>) else map_of (clientSideBuddyList (bosLists B)) (a, b))) \<and>
    (UIN me = 0 \<longrightarrow> (\<forall>b. UIN b \<noteq> 0 \<longrightarrow>
       map_of (clientSideBuddyList (bosLists B')) (me, b) = map_of (clientSideBuddyList (bosLists B)) (me, b)))"
proof -
  let ?added = "map (NewIdentScreenName P) (filter ok names)" and ?rej = "filter (\<lambda>n. \<not> ok n) names"
  let ?st = "fold (AddBuddy me) ?added (bosLists B)"
  let ?B = "updInstance SetContactsInit you (B\<lparr>bosLists := ?st\<rparr>)"
  have loop: "addBuddiesLoop P me names (bosLists B) = (?rej, ?added, ?st)"
    by (simp add: addBuddiesLoop_correct assms(3))
  have c: "signonComplete (instanceOf you ?B) = signedOn"
    by (simp add: signedOn_SetContactsInit assms(4)) (simp add: instanceOf_def sessionOf_def)
  have B: "bosLists B' = ?st \<and> reply = (if signedOn \<and> ?rej \<noteq> [] then Some (rejectMsg req ?rej) else None)"
  proof (cases signedOn)
    case False
    then show ?thesis using assms(1,2) c loop by (auto simp: AddBuddies_def Let_def updInstance_def)
  next
    case True
    then obtain B2 where "(if 0 < length ?added then BroadcastVisibility now you ?added True ?B else Inr ?B) = Inr B2"
      "B' = B2" "reply = (if 0 < length ?rej then Some (rejectMsg req ?rej) else None)"
      using assms(1,2) c loop by (auto simp: AddBuddies_def Let_def ebind_eq_Inr)
    moreover from this(1) have "samePool ?B B2" by (auto dest: samePool_BroadcastVisibility split: if_splits)
    ultimately show ?thesis using True by (simp add: samePool_def updInstance_def)
  qed
  have "b \<notin> NewIdentScreenName P ` {n \<in> set names. ok n}" if "UIN me = 0" "UIN b \<noteq> 0" for b
    using that by (auto simp: assms(3) mayAdd_def)
  then show ?thesis using B AddBuddy_entries [of me ?added "bosLists B"] by auto
qed

lemma AddBuddies_correct_witness:
  "\<exists>B'. AddBuddies samplePlatform 0 (0, 0) 7 [[98]] (sampleBOS emptyStore) = Inr (None, B') \<and>
     map_of (clientSideBuddyList (bosLists B')) ([97], [98]) = Some \<lparr>isBuddy = True, isPermit = False, isDeny = False\<rparr>"
proof -
  have u: "UIN [98] = 0" by code_simp
  then have m: "mayAdd samplePlatform [97] emptyStore [98]" by (simp add: mayAdd_def)
  have "addBuddiesLoop samplePlatform [97] [[98]] emptyStore = ([], [[98]], AddBuddy [97] [98] emptyStore)"
    using u by (simp add: Let_def)
  moreover have "instanceOf (0, 0) (sampleBOS emptyStore\<lparr>bosLists := st\<rparr>) = instanceOf (0, 0) (sampleBOS emptyStore)" for st
    by (simp add: instanceOf_def sessionOf_def)
  ultimately obtain B' where B: "AddBuddies samplePlatform 0 (0, 0) 7 [[98]] (sampleBOS emptyStore) = Inr (None, B')"
    by (simp add: AddBuddies_def signedOn_SetContactsInit)
  from AddBuddies_correct [OF this refl refl refl] m have
    "map_of (clientSideBuddyList (bosLists B')) ([97], [98]) = Some \<lparr>isBuddy = True, isPermit = False, isDeny = False\<rparr>"
    by (simp add: sideEntryOf_def emptyStore_def)
  with B show ?thesis by blast
qed

end
