(* ===== verification/Foodgroup_Convo.thy ===== *)
theory Foodgroup_Convo
  imports State_User
begin

text \<open>
  The conversation tracker of \<open>foodgroup/icbm.go\<close>, which decides whether a user may warn another: who
  has sent messages to whom, and who has warned whom, in ring buffers of three times each that are
  kept in expiring caches. The caches are the library \<open>go-cache\<close>, a parameter of the model: only what
  it documents about \<open>Get\<close> and \<open>Set\<close> is assumed. A cache holds references to ring buffers, which
  live in a store of the tracker.
\<close>

section \<open>The library\<close>

record 'c cacheLib =
  cacheNew :: 'c
  cacheGet :: "int \<Rightarrow> bytes \<Rightarrow> 'c \<Rightarrow> nat option"
  cacheSet :: "int \<Rightarrow> bytes \<Rightarrow> nat \<Rightarrow> int \<Rightarrow> 'c \<Rightarrow> 'c"

text \<open>An item that was set is found until its duration has passed; nothing else is found.\<close>

definition cacheLaws :: "'c cacheLib \<Rightarrow> ('c \<Rightarrow> bytes \<Rightarrow> (nat \<times> int) option) \<Rightarrow> bool" where
  "cacheLaws L content \<longleftrightarrow>
     (\<forall>k. content (cacheNew L) k = None) \<and>
     (\<forall>now k v d c k'. content (cacheSet L now k v d c) k' = (if k' = k then Some (v, now + d) else content c k')) \<and>
     (\<forall>now k c. cacheGet L now k c =
        (case content c k of None \<Rightarrow> None | Some (v, expiry) \<Rightarrow> if now > expiry then None else Some v))"

text \<open>A cache as a list of items; the newest one of a key counts.\<close>

definition listCache :: "(bytes \<times> nat \<times> int) list cacheLib" where
  "listCache = \<lparr>cacheNew = [],
     cacheGet = (\<lambda>now k c. case map_of c k of None \<Rightarrow> None | Some (v, expiry) \<Rightarrow> if now > expiry then None else Some v),
     cacheSet = (\<lambda>now k v d c. (k, v, now + d) # c)\<rparr>"

lemma listCache_laws: "cacheLaws listCache map_of"
  by (simp add: cacheLaws_def listCache_def)

section \<open>Ring buffers\<close>

record ringBuffer =
  cur :: nat
  vals :: "int list"

definition emptyRing :: ringBuffer where
  "emptyRing = \<lparr>cur = 0, vals = replicate 3 zeroTime\<rparr>"

definition ringSet :: "int \<Rightarrow> ringBuffer \<Rightarrow> ringBuffer" where
  "ringSet v r = r\<lparr>vals := (vals r)[cur r := v], cur := (cur r + 1) mod length (vals r)\<rparr>"

section \<open>The tracker\<close>

record 'c convoTracker =
  convos :: 'c
  warns :: 'c
  rings :: "ringBuffer list"

abbreviation (input) hour :: int where "hour \<equiv> 3600 * 10 ^ 9"

definition newConvoTracker :: "'c cacheLib \<Rightarrow> 'c convoTracker" where
  "newConvoTracker L = \<lparr>convos = cacheNew L, warns = cacheNew L, rings = []\<rparr>"

definition convoKey :: "IdentScreenName \<Rightarrow> IdentScreenName \<Rightarrow> bytes" where
  "convoKey sender recip = sender @ recip"

definition trackConvo :: "'c cacheLib \<Rightarrow> int \<Rightarrow> IdentScreenName \<Rightarrow> IdentScreenName \<Rightarrow> 'c convoTracker \<Rightarrow> 'c convoTracker" where
  "trackConvo L now sender recip w =
     (let k = convoKey sender recip;
          (a, w1) = (case cacheGet L now k (convos w) of
              Some a \<Rightarrow> (a, w)
            | None \<Rightarrow> (length (rings w), w\<lparr>convos := cacheSet L now k (length (rings w)) hour (convos w),
                         rings := rings w @ [emptyRing]\<rparr>))
      in w1\<lparr>rings := (rings w1)[a := ringSet now (rings w1 ! a)]\<rparr>)"

definition inWindow :: "int \<Rightarrow> ringBuffer \<Rightarrow> nat" where
  "inWindow now r = length (filter (\<lambda>v. v > now - hour) (vals r))"

definition trackWarn :: "'c cacheLib \<Rightarrow> int \<Rightarrow> IdentScreenName \<Rightarrow> IdentScreenName \<Rightarrow> 'c convoTracker \<Rightarrow> bool \<times> 'c convoTracker" where
  "trackWarn L now warner warnee w =
     (let k = convoKey warnee warner in
      case cacheGet L now k (convos w) of
        None \<Rightarrow> (False, w)
      | Some c \<Rightarrow>
          (let convoCt = inWindow now (rings w ! c);
               (a, w1) = (case cacheGet L now k (warns w) of
                  Some a \<Rightarrow> (a, w)
                | None \<Rightarrow> (length (rings w), w\<lparr>warns := cacheSet L now k (length (rings w)) hour (warns w),
                             rings := rings w @ [emptyRing]\<rparr>));
               warnCount = inWindow now (rings w1 ! a)
           in if convoCt \<le> warnCount then (False, w1)
              else (True, w1\<lparr>rings := (rings w1)[a := ringSet now (rings w1 ! a)]\<rparr>)))"

section \<open>Runs of events\<close>

datatype convoEvent = Message IdentScreenName IdentScreenName | Warn IdentScreenName IdentScreenName

text \<open>The answers to the warnings of a sequence of events with their times.\<close>

fun trackRun :: "'c cacheLib \<Rightarrow> (int \<times> convoEvent) list \<Rightarrow> 'c convoTracker \<Rightarrow> bool list" where
  "trackRun L [] w = []"
| "trackRun L ((now, Message s r) # es) w = trackRun L es (trackConvo L now s r w)"
| "trackRun L ((now, Warn s r) # es) w = (let (b, w1) = trackWarn L now s r w in b # trackRun L es w1)"

text \<open>What it is meant to do: for a pair of users, count messages and warnings, and allow a warning while
  fewer than three, and fewer than there were messages, have been given.\<close>

fun countRun :: "(int \<times> convoEvent) list \<Rightarrow> (bytes \<Rightarrow> nat \<times> nat) \<Rightarrow> bool list" where
  "countRun [] n = []"
| "countRun ((now, Message s r) # es) n =
     (let (m, k) = n (convoKey s r) in countRun es (n(convoKey s r := (m + 1, k))))"
| "countRun ((now, Warn s r) # es) n =
     (let (m, k) = n (convoKey r s); b = (k < min 3 m)
      in b # countRun es (n(convoKey r s := (m, if b then k + 1 else k))))"

section \<open>The invariant of a tracker less than an hour old\<close>

text \<open>The buffer of a key: \<open>True\<close> for its messages, \<open>False\<close> for its warnings.\<close>

definition slotOf :: "('c \<Rightarrow> bytes \<Rightarrow> (nat \<times> int) option) \<Rightarrow> 'c convoTracker \<Rightarrow> bool \<times> bytes \<Rightarrow> (nat \<times> int) option" where
  "slotOf content w x = content (if fst x then convos w else warns w) (snd x)"

definition tally :: "(bytes \<Rightarrow> nat \<times> nat) \<Rightarrow> bool \<times> bytes \<Rightarrow> nat" where
  "tally n x = (if fst x then fst (n (snd x)) else snd (n (snd x)))"

definition ringOk :: "int \<Rightarrow> ringBuffer \<Rightarrow> nat \<Rightarrow> bool" where
  "ringOk t0 r m \<longleftrightarrow> length (vals r) = 3 \<and> cur r = m mod 3 \<and>
     (\<forall>i<3. if i < m then t0 \<le> vals r ! i else vals r ! i = zeroTime)"

definition trackOk :: "('c \<Rightarrow> bytes \<Rightarrow> (nat \<times> int) option) \<Rightarrow> int \<Rightarrow> 'c convoTracker \<Rightarrow> (bytes \<Rightarrow> nat \<times> nat) \<Rightarrow> bool" where
  "trackOk content t0 w n \<longleftrightarrow>
     (\<forall>x. case slotOf content w x of
        None \<Rightarrow> tally n x = 0
      | Some (a, e) \<Rightarrow> a < length (rings w) \<and> t0 + hour \<le> e \<and> ringOk t0 (rings w ! a) (tally n x)) \<and>
     (\<forall>x y a e e'. slotOf content w x = Some (a, e) \<longrightarrow> slotOf content w y = Some (a, e') \<longrightarrow> x = y)"

lemma all_less_3: "(\<forall>i<3::nat. Q i) \<longleftrightarrow> Q 0 \<and> Q 1 \<and> Q 2"
  by (auto simp: numeral_3_eq_3 numeral_2_eq_2 less_Suc_eq)

lemma ringOk_empty: "ringOk t0 emptyRing 0"
  by (simp add: ringOk_def emptyRing_def all_less_3 numeral_3_eq_3 [symmetric] nth_replicate)

lemma ringOk_vals:
  assumes "ringOk t0 r m"
  obtains a b c where "vals r = [a, b, c]" "cur r = m mod 3"
    "if 0 < m then t0 \<le> a else a = zeroTime" "if 1 < m then t0 \<le> b else b = zeroTime" "if 2 < m then t0 \<le> c else c = zeroTime"
proof -
  have "length (vals r) = Suc (Suc (Suc 0))" using assms by (simp add: ringOk_def)
  then obtain a b c where v: "vals r = [a, b, c]" by (auto simp: length_Suc_conv)
  have r: "cur r = m mod 3" "\<forall>i<3. if i < m then t0 \<le> [a, b, c] ! i else [a, b, c] ! i = zeroTime"
    using assms unfolding ringOk_def v by simp_all
  then have "if 0 < m then t0 \<le> a else a = zeroTime" "if 1 < m then t0 \<le> b else b = zeroTime"
    "if 2 < m then t0 \<le> c else c = zeroTime" unfolding all_less_3 by (auto simp: numeral_2_eq_2 split: if_splits)
  with r(1) show thesis by (rule that [OF v])
qed

lemma ringOk_set:
  assumes "ringOk t0 r m" and "t0 \<le> now"
  shows "ringOk t0 (ringSet now r) (Suc m)"
proof -
  from assms(1) obtain a b c where v: "vals r = [a, b, c]" "cur r = m mod 3"
    "if 0 < m then t0 \<le> a else a = zeroTime" "if 1 < m then t0 \<le> b else b = zeroTime" "if 2 < m then t0 \<le> c else c = zeroTime"
    by (rule ringOk_vals)
  consider "m = 0" | "m = 1" | "m = 2" | "3 \<le> m" by linarith
  then show ?thesis
  proof cases
    case 4
    have c: "cur (ringSet now r) = Suc m mod 3" by (simp add: ringSet_def v mod_Suc_eq)
    have "m mod 3 < 3" by simp
    then consider "m mod 3 = 0" | "m mod 3 = 1" | "m mod 3 = 2" by linarith
    then show ?thesis using 4 c v(3-5) assms(2) by cases (simp_all add: ringOk_def all_less_3 ringSet_def v)
  qed (use v assms(2) in \<open>simp_all add: ringOk_def all_less_3 ringSet_def\<close>)
qed

lemma inWindow_ringOk:
  assumes "ringOk t0 r m" and "0 \<le> t0" and "t0 \<le> now" and "now < t0 + hour"
  shows "inWindow now r = min 3 m"
proof -
  from assms(1) obtain a b c where v: "vals r = [a, b, c]"
    "if 0 < m then t0 \<le> a else a = zeroTime" "if 1 < m then t0 \<le> b else b = zeroTime" "if 2 < m then t0 \<le> c else c = zeroTime"
    by (rule ringOk_vals)
  have z: "\<not> zeroTime > now - hour" using assms(2,3) by (simp add: zeroTime_def)
  have "a > now - hour \<longleftrightarrow> 0 < m" "b > now - hour \<longleftrightarrow> 1 < m" "c > now - hour \<longleftrightarrow> 2 < m"
    using v(2-4) assms(4) z by (auto split: if_splits)
  then have "inWindow now r = length (filter id [0 < m, 1 < m, 2 < m])"
    unfolding inWindow_def v by simp
  then show ?thesis by auto
qed

lemma trackOkD:
  assumes "trackOk content t0 w n"
  shows "slotOf content w y = None \<Longrightarrow> tally n y = 0"
    "slotOf content w y = Some (a, e) \<Longrightarrow> a < length (rings w) \<and> t0 + hour \<le> e \<and> ringOk t0 (rings w ! a) (tally n y)"
    "slotOf content w x = Some (a, e) \<Longrightarrow> slotOf content w y = Some (a, e') \<Longrightarrow> x = y"
proof -
  have "case slotOf content w y of
        None \<Rightarrow> tally n y = 0
      | Some (a, e) \<Rightarrow> a < length (rings w) \<and> t0 + hour \<le> e \<and> ringOk t0 (rings w ! a) (tally n y)"
    using assms unfolding trackOk_def by blast
  then show "slotOf content w y = None \<Longrightarrow> tally n y = 0"
    "slotOf content w y = Some (a, e) \<Longrightarrow> a < length (rings w) \<and> t0 + hour \<le> e \<and> ringOk t0 (rings w ! a) (tally n y)"
    by simp_all
  show "slotOf content w x = Some (a, e) \<Longrightarrow> slotOf content w y = Some (a, e') \<Longrightarrow> x = y"
    using assms unfolding trackOk_def by blast
qed

lemma trackOkI:
  assumes "\<And>y. slotOf content w y = None \<Longrightarrow> tally n y = 0"
    and "\<And>y a e. slotOf content w y = Some (a, e) \<Longrightarrow> a < length (rings w) \<and> t0 + hour \<le> e \<and> ringOk t0 (rings w ! a) (tally n y)"
    and "\<And>x y a e e'. slotOf content w x = Some (a, e) \<Longrightarrow> slotOf content w y = Some (a, e') \<Longrightarrow> x = y"
  shows "trackOk content t0 w n"
  unfolding trackOk_def
proof (intro conjI allI impI)
  fix y show "case slotOf content w y of
        None \<Rightarrow> tally n y = 0
      | Some (a, e) \<Rightarrow> a < length (rings w) \<and> t0 + hour \<le> e \<and> ringOk t0 (rings w ! a) (tally n y)"
    using assms(1,2) [of y] by (cases "slotOf content w y") auto
qed (use assms(3) in blast)

lemma trackOk_touch:
  assumes "trackOk content t0 w n" and "slotOf content w x = Some (a, e)" and "t0 \<le> now"
    and "\<And>y. tally n' y = (if y = x then Suc (tally n x) else tally n y)"
  shows "trackOk content t0 (w\<lparr>rings := (rings w)[a := ringSet now (rings w ! a)]\<rparr>) n'"
proof -
  let ?w = "w\<lparr>rings := (rings w)[a := ringSet now (rings w ! a)]\<rparr>"
  have s: "slotOf content ?w = slotOf content w" by (simp add: slotOf_def fun_eq_iff)
  note D = trackOkD [OF assms(1)]
  show ?thesis
  proof (rule trackOkI, unfold s)
    fix y assume "slotOf content w y = None"
    then show "tally n' y = 0" using D(1) [of y] assms(2,4) by auto
  next
    fix y b f assume y: "slotOf content w y = Some (b, f)"
    note b = D(2) [OF y]
    show "b < length (rings ?w) \<and> t0 + hour \<le> f \<and> ringOk t0 (rings ?w ! b) (tally n' y)"
    proof (cases "y = x")
      case True
      then show ?thesis using b y assms(2,4) ringOk_set [OF _ assms(3)] by simp
    next
      case False
      have "b \<noteq> a" using D(3) [OF y] assms(2) False by blast
      then show ?thesis using b assms(4) False by simp
    qed
  qed (use D(3) in blast)
qed

lemma trackOk_fresh:
  assumes "trackOk content t0 w n" and "slotOf content w x = None" and "t0 + hour \<le> e"
    and "rings w' = rings w @ [emptyRing]"
    and "\<And>y. slotOf content w' y = (if y = x then Some (length (rings w), e) else slotOf content w y)"
  shows "trackOk content t0 w' n"
proof (rule trackOkI)
  note D = trackOkD [OF assms(1)]
  fix y show "slotOf content w' y = None \<Longrightarrow> tally n y = 0" using D(1) [of y] assms(5) by (auto split: if_splits)
next
  note D = trackOkD [OF assms(1)]
  fix y b f assume y: "slotOf content w' y = Some (b, f)"
  show "b < length (rings w') \<and> t0 + hour \<le> f \<and> ringOk t0 (rings w' ! b) (tally n y)"
  proof (cases "y = x")
    case True
    then show ?thesis using y assms(3-5) D(1) [OF assms(2)] ringOk_empty by (auto simp: nth_append)
  next
    case False
    then show ?thesis using y assms(4,5) D(2) [of y b f] by (simp add: nth_append)
  qed
next
  note D = trackOkD [OF assms(1)]
  fix y z b f f' assume a: "slotOf content w' y = Some (b, f)" "slotOf content w' z = Some (b, f')"
  then show "y = z" using assms(5) [of y] assms(5) [of z] D(2) [of y b f] D(2) [of z b f'] D(3) [of y b f z f']
    by (cases "y = x"; cases "z = x") auto
qed

lemma cacheGet_slot:
  assumes "cacheLaws L content" and "trackOk content t0 w n" and "now < t0 + hour"
  shows "cacheGet L now k (convos w) = map_option fst (slotOf content w (True, k))"
    "cacheGet L now k (warns w) = map_option fst (slotOf content w (False, k))"
proof -
  have "\<not> now > e" if "slotOf content w x = Some (a, e)" for x a e
    using trackOkD(2) [OF assms(2) that] assms(3) by simp
  then have *: "cacheGet L now k c = map_option fst (content c k)" if "content c k = slotOf content w x" for c x
  proof -
    have "cacheGet L now k c = (case slotOf content w x of None \<Rightarrow> None | Some (v, e) \<Rightarrow> if now > e then None else Some v)"
      using assms(1) unfolding cacheLaws_def that [symmetric] by blast
    then show ?thesis
      using \<open>\<And>x a e. slotOf content w x = Some (a, e) \<Longrightarrow> \<not> now > e\<close> [of x]
      by (cases "slotOf content w x") (auto simp: that)
  qed
  show "cacheGet L now k (convos w) = map_option fst (slotOf content w (True, k))"
    using * [of "convos w" "(True, k)"] by (simp add: slotOf_def)
  show "cacheGet L now k (warns w) = map_option fst (slotOf content w (False, k))"
    using * [of "warns w" "(False, k)"] by (simp add: slotOf_def)
qed

lemma slotOf_set:
  assumes "cacheLaws L content"
  shows "slotOf content (w\<lparr>convos := cacheSet L now k v d (convos w), rings := r\<rparr>) y =
      (if y = (True, k) then Some (v, now + d) else slotOf content w y)"
    "slotOf content (w\<lparr>warns := cacheSet L now k v d (warns w), rings := r\<rparr>) y =
      (if y = (False, k) then Some (v, now + d) else slotOf content w y)"
  using assms by (cases y; auto simp: cacheLaws_def slotOf_def)+

section \<open>One event\<close>

lemma trackConvo_counts:
  assumes laws: "cacheLaws L content" and ok: "trackOk content t0 w n" and now: "t0 \<le> now" "now < t0 + hour"
    and m: "n (convoKey s r) = (m, k)"
  shows "trackOk content t0 (trackConvo L now s r w) (n(convoKey s r := (m + 1, k)))"
proof -
  let ?k = "convoKey s r" and ?x = "(True, convoKey s r)"
  have t: "tally (n(?k := (m + 1, k))) y = (if y = ?x then Suc (tally n ?x) else tally n y)" for y
    using m by (cases y) (auto simp: tally_def)
  note get = cacheGet_slot(1) [OF laws ok now(2), of ?k]
  show ?thesis
  proof (cases "slotOf content w ?x")
    case None
    let ?w = "w\<lparr>convos := cacheSet L now ?k (length (rings w)) hour (convos w), rings := rings w @ [emptyRing]\<rparr>"
    have "trackOk content t0 ?w n"
      using now(1) slotOf_set(1) [OF laws] by (intro trackOk_fresh [OF ok None, of "now + hour"]) simp_all
    from trackOk_touch [OF this _ now(1) t] slotOf_set(1) [OF laws] show ?thesis
      using get None by (simp add: trackConvo_def Let_def)
  next
    case (Some ae)
    obtain a e where "ae = (a, e)" by (cases ae)
    with trackOk_touch [OF ok _ now(1) t, of a e] Some get show ?thesis by (simp add: trackConvo_def Let_def)
  qed
qed

lemma trackWarn_counts:
  assumes laws: "cacheLaws L content" and ok: "trackOk content t0 w n" and now: "0 \<le> t0" "t0 \<le> now" "now < t0 + hour"
    and m: "n (convoKey r s) = (m, k)" and le: "k \<le> min 3 m"
  shows "fst (trackWarn L now s r w) = (k < min 3 m) \<and>
    trackOk content t0 (snd (trackWarn L now s r w)) (n(convoKey r s := (m, if k < min 3 m then k + 1 else k)))"
proof -
  let ?k = "convoKey r s" and ?x = "(False, convoKey r s)"
  have t: "k < min 3 m \<Longrightarrow> tally (n(?k := (m, if k < min 3 m then k + 1 else k))) y = (if y = ?x then Suc (tally n ?x) else tally n y)" for y
    using m by (cases y) (auto simp: tally_def)
  have same: "\<not> k < min 3 m \<Longrightarrow> n(?k := (m, if k < min 3 m then k + 1 else k)) = n" using m by auto
  note get = cacheGet_slot [OF laws ok now(3), of ?k]
  note D = trackOkD [OF ok]
  show ?thesis
  proof (cases "slotOf content w (True, ?k)")
    case None
    then have "m = 0" using D(1) [OF None] m by (simp add: tally_def)
    then show ?thesis using None get(1) ok same by (simp add: trackWarn_def Let_def)
  next
    case (Some ce)
    obtain c f where c: "slotOf content w (True, ?k) = Some (c, f)" using Some by (cases ce) auto
    then have cnt: "inWindow now (rings w ! c) = min 3 m"
      using inWindow_ringOk [OF _ now] D(2) [OF c] m by (simp add: tally_def)
    show ?thesis
    proof (cases "slotOf content w ?x")
      case None
      let ?w = "w\<lparr>warns := cacheSet L now ?k (length (rings w)) hour (warns w), rings := rings w @ [emptyRing]\<rparr>"
      have w: "trackOk content t0 ?w n"
        using now(2) slotOf_set(2) [OF laws] by (intro trackOk_fresh [OF ok None, of "now + hour"]) simp_all
      have "k = 0" using D(1) [OF None] m by (simp add: tally_def)
      moreover have z: "inWindow now emptyRing = min 3 0" by (rule inWindow_ringOk [OF ringOk_empty now])
      have e: "trackWarn L now s r w = (if min 3 m \<le> 0 then (False, ?w)
          else (True, ?w\<lparr>rings := (rings ?w)[length (rings w) := ringSet now (rings ?w ! length (rings w))]\<rparr>))"
        using get c None cnt z by (auto simp: trackWarn_def Let_def min_def)
      moreover have "0 < min 3 m \<Longrightarrow> k = 0 \<Longrightarrow> trackOk content t0
          (?w\<lparr>rings := (rings ?w)[length (rings w) := ringSet now (rings ?w ! length (rings w))]\<rparr>)
          (n(?k := (m, if k < min 3 m then k + 1 else k)))"
        using trackOk_touch [OF w _ now(2) t] slotOf_set(2) [OF laws] by simp
      ultimately show ?thesis using w same by (cases "0 < min 3 m") simp_all
    next
      case (Some ae)
      obtain a e where a: "slotOf content w ?x = Some (a, e)" using Some by (cases ae) auto
      then have "inWindow now (rings w ! a) = min 3 k"
        using inWindow_ringOk [OF _ now] D(2) [OF a] m by (simp add: tally_def)
      then have "inWindow now (rings w ! a) = k" using le by simp
      then show ?thesis
        using trackOk_touch [OF ok a now(2) t] get a c cnt ok same by (auto simp: trackWarn_def Let_def)
    qed
  qed
qed

lemma trackRun_countRun:
  assumes "cacheLaws L content" and "0 \<le> t0" and "\<forall>(t, e)\<in>set es. t0 \<le> t \<and> t < t0 + hour"
    and "trackOk content t0 w n" and "\<forall>x. snd (n x) \<le> min 3 (fst (n x))"
  shows "trackRun L es w = countRun es n"
  using assms(3-5)
proof (induction es arbitrary: w n)
  case (Cons e es)
  obtain now ev where e: "e = (now, ev)" by (cases e)
  have now: "t0 \<le> now" "now < t0 + hour" using Cons.prems(1) by (auto simp: e)
  show ?case
  proof (cases ev)
    case (Message s r)
    obtain m k where m: "n (convoKey s r) = (m, k)" by (cases "n (convoKey s r)")
    have "\<forall>x. snd ((n(convoKey s r := (m + 1, k))) x) \<le> min 3 (fst ((n(convoKey s r := (m + 1, k))) x))"
      using Cons.prems(3) m by (auto dest: spec [where x = "convoKey s r"])
    with Cons.IH [OF _ trackConvo_counts [OF assms(1) Cons.prems(2) now m]] Cons.prems(1) m show ?thesis
      by (simp add: e Message fun_upd_def)
  next
    case (Warn s r)
    obtain m k where m: "n (convoKey r s) = (m, k)" by (cases "n (convoKey r s)")
    have k: "k \<le> min 3 m" using Cons.prems(3) m by (metis fst_conv snd_conv)
    let ?n = "n(convoKey r s := (m, if k < min 3 m then k + 1 else k))"
    have "\<forall>x. snd (?n x) \<le> min 3 (fst (?n x))" using Cons.prems(3) k by auto
    moreover note c = trackWarn_counts [OF assms(1) Cons.prems(2) assms(2) now m k]
    ultimately have "trackRun L es (snd (trackWarn L now s r w)) = countRun es ?n"
      using Cons.IH Cons.prems(1) by simp
    then show ?thesis using c m by (simp add: e Warn case_prod_beta Let_def)
  qed
qed simp

section \<open>Properties\<close>

text \<open>For its first hour the tracker is the counter it is meant to be. Whatever messages and warnings
  come, in whatever order and between whatever users, as long as they lie within an hour of each
  other the answers are those of counting: a warning is allowed while fewer than three, and fewer
  than there were messages, have been given.\<close>
theorem tracker_counts_for_an_hour:
  assumes "cacheLaws L content" and "0 \<le> t0" and "\<forall>(t, e)\<in>set es. t0 \<le> t \<and> t < t0 + hour"
  shows "trackRun L es (newConvoTracker L) = countRun es (\<lambda>_. (0, 0))"
proof (rule trackRun_countRun [OF assms])
  have "slotOf content (newConvoTracker L) x = None" for x
    using assms(1) by (simp add: cacheLaws_def slotOf_def newConvoTracker_def)
  then show "trackOk content t0 (newConvoTracker L) (\<lambda>_. (0, 0))" by (intro trackOkI) (simp_all add: tally_def)
qed simp

lemma tracker_counts_for_an_hour_witness:
  "trackRun listCache [(0, Message [97] [98]), (1, Warn [98] [97]), (2, Warn [98] [97])] (newConvoTracker listCache) = [True, False]"
  using tracker_counts_for_an_hour [OF listCache_laws, of 0 "[(0, Message [97] [98]), (1, Warn [98] [97]), (2, Warn [98] [97])]"]
  by simp

text \<open>Users can be confused. The key of a conversation is the two names without a separator: a message
  from one user to another counts for every other way to cut the joined names in two. So somebody who
  has never received a message can warn a user who has never sent him one.\<close>
theorem conversation_keys_collide:
  assumes "cacheLaws L content" and "0 \<le> t" and "t \<le> t'" and "t' < t + hour"
  shows "trackRun L [(t, Message (a @ b) c), (t', Warn (b @ c) a)] (newConvoTracker L) = [True]"
proof -
  have "trackOk content t (newConvoTracker L) (\<lambda>_. (0, 0))"
  proof -
    have "slotOf content (newConvoTracker L) x = None" for x
      using assms(1) by (simp add: cacheLaws_def slotOf_def newConvoTracker_def)
    then show ?thesis by (intro trackOkI) (simp_all add: tally_def)
  qed
  from trackRun_countRun [OF assms(1,2) _ this, of "[(t, Message (a @ b) c), (t', Warn (b @ c) a)]"] assms(3,4)
  show ?thesis by (simp add: convoKey_def)
qed

lemma conversation_keys_collide_witness:
  "trackRun listCache [(0, Message (asciiBytes ''annabel'') (asciiBytes ''bob'')),
     (1, Warn (asciiBytes ''abelbob'') (asciiBytes ''ann''))] (newConvoTracker listCache) = [True]"
  using conversation_keys_collide [OF listCache_laws, of 0 1 "asciiBytes ''ann''" "asciiBytes ''abel''" "asciiBytes ''bob''"]
  by (simp add: asciiBytes_def)

text \<open>Every cache that keeps the laws answers like the list.\<close>

definition sameCaches :: "('c \<Rightarrow> bytes \<Rightarrow> (nat \<times> int) option) \<Rightarrow> 'c convoTracker \<Rightarrow> (bytes \<times> nat \<times> int) list convoTracker \<Rightarrow> bool" where
  "sameCaches content w v \<longleftrightarrow> rings w = rings v \<and> (\<forall>k. content (convos w) k = map_of (convos v) k) \<and>
     (\<forall>k. content (warns w) k = map_of (warns v) k)"

lemma same_gets:
  assumes "cacheLaws L content" and "sameCaches content w v"
  shows "cacheGet L now k (convos w) = cacheGet listCache now k (convos v)"
    "cacheGet L now k (warns w) = cacheGet listCache now k (warns v)"
  using assms unfolding cacheLaws_def sameCaches_def by (simp_all add: listCache_def)

lemma same_sets:
  assumes "cacheLaws L content" and "sameCaches content w v"
  shows "sameCaches content (w\<lparr>convos := cacheSet L now k a d (convos w), rings := r\<rparr>)
      (v\<lparr>convos := cacheSet listCache now k a d (convos v), rings := r\<rparr>)"
    "sameCaches content (w\<lparr>warns := cacheSet L now k a d (warns w), rings := r\<rparr>)
      (v\<lparr>warns := cacheSet listCache now k a d (warns v), rings := r\<rparr>)"
  using assms unfolding cacheLaws_def sameCaches_def by (simp_all add: listCache_def)

lemma same_rings: "sameCaches content w v \<Longrightarrow> sameCaches content (w\<lparr>rings := r\<rparr>) (v\<lparr>rings := r\<rparr>)"
  by (simp add: sameCaches_def)

lemma same_run:
  assumes laws: "cacheLaws L content"
  shows "sameCaches content w v \<Longrightarrow> trackRun L es w = trackRun listCache es v"
proof (induction es arbitrary: w v)
  case (Cons e es)
  note g = same_gets [OF laws Cons.prems] and st = same_sets [OF laws Cons.prems]
  have r: "rings w = rings v" using Cons.prems by (simp add: sameCaches_def)
  have c: "sameCaches content (trackConvo L now x y w) (trackConvo listCache now x y v)" for now x y
    using Cons.prems same_rings [OF st(1)] by (auto simp: trackConvo_def g r Let_def intro: same_rings split: option.splits)
  have t: "fst (trackWarn L now x y w) = fst (trackWarn listCache now x y v) \<and>
      sameCaches content (snd (trackWarn L now x y w)) (snd (trackWarn listCache now x y v))" for now x y
    using Cons.prems same_rings [OF st(2)] st(2) by (auto simp: trackWarn_def g r Let_def intro: same_rings split: option.splits)
  show ?case
  proof (cases e)
    case (Pair now ev)
    show ?thesis using Cons.IH [OF c] Cons.IH [OF conjunct2 [OF t]] t
      by (cases ev) (simp_all add: Pair case_prod_beta Let_def)
  qed
qed simp

definition minute :: int where
  "minute = 60 * 10 ^ 9"

text \<open>The limit of three warnings an hour can be exceeded, and so can the limit of one warning for a
  message. The record of the warnings expires an hour after it was made, not an hour after the last
  warning in it: a user who warns once at the start, and gets two messages an hour later, can warn
  three times within two minutes on their account, and one who gets three messages can warn five
  times.\<close>
theorem warning_limit_exceeded:
  assumes "cacheLaws L content"
  shows "trackRun L ([(0, Message warnee warner), (minute, Warn warner warnee)]
       @ replicate 2 (60 * minute + 1, Message warnee warner)
       @ [(60 * minute + 2, Warn warner warnee)] @ replicate 3 (61 * minute + 1, Warn warner warnee))
       (newConvoTracker L) = [True, True, True, True, False] \<and>
    trackRun L ([(0, Message warnee warner), (minute, Warn warner warnee)]
       @ replicate 3 (60 * minute + 1, Message warnee warner)
       @ replicate 3 (60 * minute + 2, Warn warner warnee) @ replicate 4 (61 * minute + 1, Warn warner warnee))
       (newConvoTracker L) = [True, True, True, False, True, True, True, False]"
proof -
  have "sameCaches content (newConvoTracker L) (newConvoTracker listCache)"
    using assms by (simp add: sameCaches_def cacheLaws_def newConvoTracker_def listCache_def)
  note run = same_run [OF assms this]
  have u: "replicate 2 x = [x, x]" "replicate 3 x = [x, x, x]" "replicate 4 x = [x, x, x, x]" for x :: "int \<times> convoEvent"
    by (simp_all add: numeral_eq_Suc)
  have e: "emptyRing = \<lparr>cur = 0, vals = [zeroTime, zeroTime, zeroTime]\<rparr>" by (simp add: emptyRing_def numeral_eq_Suc)
  have w: "trackRun L ((now, Warn s r) # es) w = fst (trackWarn L now s r w) # trackRun L es (snd (trackWarn L now s r w))"
    for L :: "(bytes \<times> nat \<times> int) list cacheLib" and now s r es w by (simp add: case_prod_beta)
  show ?thesis unfolding run unfolding u append.simps unfolding w trackRun.simps(1,2)
    by (intro conjI) (simp_all add: e listCache_def newConvoTracker_def trackConvo_def trackWarn_def convoKey_def minute_def
        ringSet_def inWindow_def zeroTime_def Let_def)
qed

lemma warning_limit_exceeded_witness:
  "trackRun listCache ([(0, Message [97] [98]), (minute, Warn [98] [97])] @ replicate 2 (60 * minute + 1, Message [97] [98])
       @ [(60 * minute + 2, Warn [98] [97])] @ replicate 3 (61 * minute + 1, Warn [98] [97])) (newConvoTracker listCache)
     = [True, True, True, True, False]"
  using warning_limit_exceeded [OF listCache_laws, of "[97]" "[98]"] by blast

end
