(* ===== verification/Foodgroup_Icbm.thy ===== *)
theory Foodgroup_Icbm
  imports Foodgroup_Buddy Foodgroup_Convo State_Mail State_Cookie Wire_Codes
begin

text \<open>
  The messaging service, \<open>foodgroup/icbm.go\<close>: instant messages to users who are online and to those who
  are not, typing events, warnings and their decay. The state joins the session pool and the list
  tables, the table of offline messages and the tracker of conversations. Parameters are the clock,
  the cache library of the tracker, the HTML tokenizer and the function the feedbag service installs
  for the authorization messages of ICQ.
\<close>

section \<open>State and parameters\<close>

record 'c ICBMService =
  icBos :: BOS
  icMail :: MailStore
  icConvo :: "'c convoTracker"

text \<open>What the tokenizer of \<open>golang.org/x/net/html\<close> yields up to its end or error: a text with its
  entities decoded, a start or self-closing tag with its name in lower case, anything else.\<close>

datatype htmlToken = TextToken bytes | StartTagToken bytes | OtherToken

datatype icbmFault = ICodec gerr | IMail mailError | IStore storeError | INoUser | IHang | IForward

record 'c icbmEnv =
  icPlatform :: platform
  icNow :: int
  icCache :: "'c cacheLib"
  icTokens :: "bytes \<Rightarrow> htmlToken list"
  icForward :: "IdentScreenName \<Rightarrow> IdentScreenName \<Rightarrow> gval \<Rightarrow> 'c ICBMService \<Rightarrow> icbmFault option \<times> 'c ICBMService"
  icLimits :: SNACRateLimits

type_synonym 'c icbmResult = "(icbmFault + SNACMessage option) \<times> 'c ICBMService"

abbreviation (input) ICBMTLVAOLIMData :: u16 where "ICBMTLVAOLIMData \<equiv> 0x02"
abbreviation (input) ICBMTLVRequestHostAck :: u16 where "ICBMTLVRequestHostAck \<equiv> 0x03"
abbreviation (input) ICBMTLVData :: u16 where "ICBMTLVData \<equiv> 0x05"
abbreviation (input) ICBMTLVStore :: u16 where "ICBMTLVStore \<equiv> 0x06"
abbreviation (input) ICBMTLVWantEvents :: u16 where "ICBMTLVWantEvents \<equiv> 0x0B"
abbreviation (input) ICBMTLVSendTime :: u16 where "ICBMTLVSendTime \<equiv> 0x16"
abbreviation (input) ICBMChannelIM :: u16 where "ICBMChannelIM \<equiv> 0x01"
abbreviation (input) ICBMChannelRendezvous :: u16 where "ICBMChannelRendezvous \<equiv> 0x02"
abbreviation (input) ICBMChannelMIME :: u16 where "ICBMChannelMIME \<equiv> 0x03"
abbreviation (input) ICBMChannelICQ :: u16 where "ICBMChannelICQ \<equiv> 0x04"
abbreviation (input) ICBMMsgTypeAuthReq :: byte where "ICBMMsgTypeAuthReq \<equiv> 0x06"
abbreviation (input) ICBMMsgTypeAuthDeny :: byte where "ICBMMsgTypeAuthDeny \<equiv> 0x07"
abbreviation (input) ICBMMsgTypeAuthOK :: byte where "ICBMMsgTypeAuthOK \<equiv> 0x08"
abbreviation (input) ICBMMsgTypeAdded :: byte where "ICBMMsgTypeAdded \<equiv> 0x0C"
abbreviation (input) ICBMRdvMessagePropose :: u16 where "ICBMRdvMessagePropose \<equiv> 0x00"
abbreviation (input) ICBMRdvTLVTagsRequesterIP :: u16 where "ICBMRdvTLVTagsRequesterIP \<equiv> 0x0003"
abbreviation (input) ICBMRdvTLVTagsVerifiedIP :: u16 where "ICBMRdvTLVTagsVerifiedIP \<equiv> 0x0004"
abbreviation (input) ICBMSubErrOfflineIMExceedMax :: u16 where "ICBMSubErrOfflineIMExceedMax \<equiv> 0x000F"
abbreviation (input) ErrorCodeNotLoggedOn :: u16 where "ErrorCodeNotLoggedOn \<equiv> 0x04"
abbreviation (input) ErrorCodeNotSupportedByHost :: u16 where "ErrorCodeNotSupportedByHost \<equiv> 0x08"
abbreviation (input) ErrorCodeRequestDenied :: u16 where "ErrorCodeRequestDenied \<equiv> 0x0D"
abbreviation (input) ErrorCodeInLocalPermitDeny :: u16 where "ErrorCodeInLocalPermitDeny \<equiv> 0x10"
abbreviation (input) ErrorTLVErrorSubcode :: u16 where "ErrorTLVErrorSubcode \<equiv> 0x0008"
abbreviation (input) FeedbagClassIdBuddyPrefs :: u16 where "FeedbagClassIdBuddyPrefs \<equiv> 0x0005"
abbreviation (input) FeedbagAttributesBuddyPrefs :: u16 where "FeedbagAttributesBuddyPrefs \<equiv> 0x00C9"
abbreviation (input) FeedbagAttributesBuddyPrefsValid :: u16 where "FeedbagAttributesBuddyPrefsValid \<equiv> 0x00D6"
abbreviation (input) FeedbagAttributesBuddyPrefs2 :: u16 where "FeedbagAttributesBuddyPrefs2 \<equiv> 0x00D7"
abbreviation (input) FeedbagAttributesBuddyPrefs2Valid :: u16 where "FeedbagAttributesBuddyPrefs2Valid \<equiv> 0x00D8"
abbreviation (input) FeedbagBuddyPrefsAcceptOfflineIM :: u16 where "FeedbagBuddyPrefsAcceptOfflineIM \<equiv> 0x34"

definition CapXHTMLIM :: bytes where
  "CapXHTMLIM = [0x09, 0x46, 0x00, 0x02, 0x4C, 0x7F, 0x11, 0xD1, 0x82, 0x22, 0x44, 0x45, 0x53, 0x54, 0x00, 0x00]"

abbreviation (input) ICBMOfflineRetrieveReply :: u16 where "ICBMOfflineRetrieveReply \<equiv> 0x0017"

section \<open>Replies\<close>

definition newICBMErr :: "u32 \<Rightarrow> u16 \<Rightarrow> TLVList \<Rightarrow> SNACMessage" where
  "newICBMErr req errCode tlvs = (replyFrame ICBM ICBMErr req, Some (SNACError_type, VStruct [VU16 errCode, TLVList_val tlvs]))"

definition ParameterQuery :: "u32 \<Rightarrow> SNACMessage" where
  "ParameterQuery req = (replyFrame ICBM ICBMParameterReply req,
     Some (SNAC_0x04_0x05_ICBMParameterReply, VStruct [VU16 100, VU32 3, VU16 512, VU16 999, VU16 999, VU32 0]))"

definition hostAck :: "u32 \<Rightarrow> ChannelMsg \<Rightarrow> SNACMessage" where
  "hostAck req body = (replyFrame ICBM ICBMHostAck req, Some (SNAC_0x04_0x0C_ICBMHostAck,
     VStruct [VU64 (cmCookie body), VU16 (cmChannelID body), VString (cmScreenName body)]))"

definition wantsAck :: "ChannelMsg \<Rightarrow> bool" where
  "wantsAck body \<longleftrightarrow> TLVList_Bytes (cmTLVs body) ICBMTLVRequestHostAck \<noteq> None"

definition clientMsg :: "u64 \<Rightarrow> u16 \<Rightarrow> TLVUserInfo \<Rightarrow> TLVList \<Rightarrow> SNACMessage" where
  "clientMsg cookie chan info tlvs = (serverFrame ICBM ICBMChannelMsgToClient,
     Some (SNAC_0x04_0x07_ICBMChannelMsgToClient, VStruct [VU64 cookie, VU16 chan, TLVUserInfo_val info, TLVList_val tlvs]))"

section \<open>Preferences\<close>

text \<open>A preference of the contact list: whether it is set at all, and its value (\<open>foodgroup/feedbag.go\<close>).
  An index below zero panics.\<close>

definition prefBit :: "bytes option \<Rightarrow> bytes option \<Rightarrow> (nat \<Rightarrow> int) \<Rightarrow> byte \<Rightarrow> gerr + bool \<times> bool" where
  "prefBit valid enabled indexOf bitMask =
     (case (valid, enabled) of
        (Some vs, Some es) \<Rightarrow>
          (let index = indexOf (length vs) in
           if index \<ge> int (length vs) \<or> index \<ge> int (length es) then Inr (False, False)
           else if index < 0 then Inl Panics
           else Inr (vs ! nat index AND bitMask \<noteq> 0, es ! nat index AND bitMask \<noteq> 0))
      | _ \<Rightarrow> Inr (False, False))"

definition feedbagBuddyPref :: "u16 \<Rightarrow> TLVList \<Rightarrow> gerr + bool \<times> bool" where
  "feedbagBuddyPref prefNum tlvs =
     (let offset = unat prefNum in
      if offset < 32 then
        prefBit (TLVList_Bytes tlvs FeedbagAttributesBuddyPrefsValid) (TLVList_Bytes tlvs FeedbagAttributesBuddyPrefs)
          (\<lambda>n. int n - 1 - int (offset div 8)) (push_bit (offset mod 8) 1)
      else
        (let offset = (if prefNum = 32 then 0 else offset - 33) in
         prefBit (TLVList_Bytes tlvs FeedbagAttributesBuddyPrefs2Valid) (TLVList_Bytes tlvs FeedbagAttributesBuddyPrefs2)
           (\<lambda>n. int (offset div 8)) (drop_bit (offset mod 8) 0x80)))"

fun firstOfflinePref :: "FeedbagItem list \<Rightarrow> gerr + bool" where
  "firstOfflinePref [] = Inr True"
| "firstOfflinePref (item # bag) =
     (if itemClassID item = FeedbagClassIdBuddyPrefs
      then ebind (feedbagBuddyPref FeedbagBuddyPrefsAcceptOfflineIM (itemTLVs item)) (\<lambda>(valid, ok).
        Inr (if \<not> valid then True else ok))
      else firstOfflinePref bag)"

definition canSendOfflineMessage :: "platform \<Rightarrow> ChannelMsg \<Rightarrow> ListStore \<Rightarrow> gerr + bool" where
  "canSendOfflineMessage P body st =
     (case Feedbag (NewIdentScreenName P (cmScreenName body)) st of
        (_, Some e) \<Rightarrow> Inl e
      | (bag, None) \<Rightarrow> firstOfflinePref bag)"

definition sendOfflineMessage :: "'c icbmEnv \<Rightarrow> instanceRef \<Rightarrow> u32 \<Rightarrow> ChannelMsg \<Rightarrow> 'c ICBMService \<Rightarrow> 'c icbmResult" where
  "sendOfflineMessage env you req body S =
     (case SaveMessage \<lparr>omSender = identScreenName (sessionOf you (icBos S)),
          omRecipient = NewIdentScreenName (icPlatform env) (cmScreenName body), omMessage = body, omSent = icNow env\<rparr> (icMail S) of
        (Inl ErrOfflineInboxFull, _) \<Rightarrow>
          (case NewTLVBE ErrorTLVErrorSubcode (Some (TU16, VU16 ICBMSubErrOfflineIMExceedMax)) of
             Inl e \<Rightarrow> (Inl (ICodec e), S)
           | Inr tlv \<Rightarrow> (Inr (Some (newICBMErr req ErrorCodeNotLoggedOn [tlv])), S))
      | (Inl e, _) \<Rightarrow> (Inl (IMail e), S)
      | (Inr _, M) \<Rightarrow> (Inr (if wantsAck body then Some (hostAck req body) else None), S\<lparr>icMail := M\<rparr>))"

section \<open>What is changed in a message\<close>

text \<open>\<open>Is4\<close>: an address of four bytes.\<close>

definition addExternalIP :: "SessionInstance \<Rightarrow> TLV \<Rightarrow> gerr + TLV" where
  "addExternalIP i tlv =
     (case fst (UnmarshalBE ICBMCh2Fragment_type (Value tlv)) of
        Inl e \<Rightarrow> Inl e
      | Inr frag \<Rightarrow>
          if asU16 (field 0 frag) \<noteq> ICBMRdvMessagePropose then Inr tlv
          else
            (let tlvs = toTLVList (field 3 frag) in
             case remoteAddr i of
               Some ip \<Rightarrow>
                 (if TLVList_HasTag tlvs ICBMRdvTLVTagsRequesterIP \<and> length ip = 4
                  then NewTLVBE (Tag tlv) (Some (ICBMCh2Fragment_type, VStruct [field 0 frag, field 1 frag, field 2 frag,
                    TLVList_val (TLVList_Append (TLVList_Replace tlvs \<lparr>Tag = ICBMRdvTLVTagsRequesterIP, Value = ip\<rparr>)
                      \<lparr>Tag = ICBMRdvTLVTagsVerifiedIP, Value = ip\<rparr>)]))
                  else Inr tlv)
             | None \<Rightarrow> Inr tlv))"

definition stripHTML :: "(bytes \<Rightarrow> htmlToken list) \<Rightarrow> bytes \<Rightarrow> bytes" where
  "stripHTML tokens txt =
     (if length txt = 0 then txt
      else concat (map (\<lambda>t. case t of TextToken b \<Rightarrow> b | StartTagToken tn \<Rightarrow> (if tn = asciiBytes ''br'' then [0x0A] else [])
        | OtherToken \<Rightarrow> []) (tokens txt)))"

text \<open>One fragment: the fragment afterwards, or \<open>None\<close> when it stays as it is.\<close>

definition stripFragment :: "(bytes \<Rightarrow> htmlToken list) \<Rightarrow> gval \<Rightarrow> gval option" where
  "stripFragment tokens frag =
     (if asU8 (field 0 frag) = 1 then
        (case fst (UnmarshalBE ICBMCh1Message_type (asBytes (field 2 frag))) of
           Inl e \<Rightarrow> None
         | Inr msg \<Rightarrow>
             (let strippedText = stripHTML tokens (asBytes (field 2 msg)) in
              if strippedText = asBytes (field 2 msg) then None
              else
                (case MarshalBE (Some (ICBMCh1Message_type, VStruct [field 0 msg, field 1 msg, bytesVal strippedText])) of
                   Inl e \<Rightarrow> None
                 | Inr buf \<Rightarrow> Some (VStruct [field 0 frag, field 1 frag, bytesVal buf]))))
      else None)"

definition stripHTMLFromICBMTLV :: "(bytes \<Rightarrow> htmlToken list) \<Rightarrow> TLV \<Rightarrow> gerr + TLV" where
  "stripHTMLFromICBMTLV tokens tlv =
     (case fst (UnmarshalBE (TSlice ICBMCh1Fragment_type) (Value tlv)) of
        Inr (VSlice frags) \<Rightarrow>
          (if list_all (\<lambda>f. stripFragment tokens f = None) frags then Inr tlv
           else
             (case MarshalBE (Some (TSlice ICBMCh1Fragment_type,
                 VSlice (map (\<lambda>f. case stripFragment tokens f of None \<Rightarrow> f | Some f' \<Rightarrow> f') frags))) of
                Inl e \<Rightarrow> Inl e
              | Inr newValue \<Rightarrow> Inr \<lparr>Tag = Tag tlv, Value = newValue\<rparr>))
      | Inr _ \<Rightarrow> Inl UnsupportedType
      | Inl e \<Rightarrow> Inl e)"

text \<open>The loop over the TLVs of a message.\<close>

definition relayTLV :: "'c icbmEnv \<Rightarrow> Session \<Rightarrow> SessionInstance \<Rightarrow> Session \<Rightarrow> u16 \<Rightarrow> TLV \<Rightarrow> gerr + TLV" where
  "relayTLV env from i recipSess chan tlv =
     ebind (if chan = ICBMChannelRendezvous \<and> Tag tlv = ICBMTLVData then addExternalIP i tlv else Inr tlv) (\<lambda>tlv.
       if uin from > 0 \<and> (chan = ICBMChannelIM \<or> chan = ICBMChannelMIME) \<and> Tag tlv = ICBMTLVAOLIMData
          \<and> \<not> HasCap CapXHTMLIM recipSess
       then (case stripHTMLFromICBMTLV (icTokens env) tlv of Inl e \<Rightarrow> Inr tlv | Inr tlv' \<Rightarrow> Inr tlv')
       else Inr tlv)"

fun relayTLVs :: "'c icbmEnv \<Rightarrow> Session \<Rightarrow> SessionInstance \<Rightarrow> Session \<Rightarrow> u16 \<Rightarrow> TLV list \<Rightarrow> gerr + TLV list" where
  "relayTLVs env from i recipSess chan [] = Inr []"
| "relayTLVs env from i recipSess chan (tlv # tlvs) =
     (if Tag tlv = ICBMTLVRequestHostAck then relayTLVs env from i recipSess chan tlvs
      else ebind (relayTLV env from i recipSess chan tlv) (\<lambda>tlv'.
        ebind (relayTLVs env from i recipSess chan tlvs) (\<lambda>rest. Inr (tlv' # rest))))"

section \<open>Messages to a user\<close>

text \<open>The authorization messages of ICQ: whether the handler returns here, and the state.\<close>

definition icqAuth :: "'c icbmEnv \<Rightarrow> instanceRef \<Rightarrow> nat \<Rightarrow> ChannelMsg \<Rightarrow> 'c ICBMService
    \<Rightarrow> (icbmFault + unit) option \<times> 'c ICBMService" where
  "icqAuth env you recipAddr body S =
     (let me = identScreenName (sessionOf you (icBos S)); recipSess = bosHeap (icBos S) ! recipAddr in
      if cmChannelID body \<noteq> ICBMChannelICQ then (None, S)
      else
        (case TLVList_Bytes (cmTLVs body) ICBMTLVData of
           None \<Rightarrow> (None, S)
         | Some b \<Rightarrow>
             (case fst (UnmarshalLE ICBMCh4Message_type b) of
                Inl e \<Rightarrow> (Some (Inl (ICodec e)), S)
              | Inr authMsg \<Rightarrow>
                  (let t = asU8 (field 1 authMsg) in
                   if t = ICBMMsgTypeAuthReq \<or> t = ICBMMsgTypeAuthDeny \<or> t = ICBMMsgTypeAuthOK \<or> t = ICBMMsgTypeAdded
                   then
                     if usesFeedbag recipSess
                     then (let (f, S1) = icForward env me (identScreenName recipSess) authMsg S
                           in (Some (case f of None \<Rightarrow> Inr () | Some e \<Rightarrow> Inl e), S1))
                     else if t = ICBMMsgTypeAuthOK
                     then (None, S\<lparr>icBos := (icBos S)\<lparr>bosLists := RecordPreAuth me (identScreenName recipSess) (bosLists (icBos S))\<rparr>\<rparr>)
                     else (None, S)
                   else (None, S)))))"

definition deliver :: "'c icbmEnv \<Rightarrow> instanceRef \<Rightarrow> u32 \<Rightarrow> nat \<Rightarrow> ChannelMsg \<Rightarrow> 'c ICBMService \<Rightarrow> 'c icbmResult" where
  "deliver env you req recipAddr body S =
     (let B = icBos S; from = sessionOf you B; recipSess = bosHeap B ! recipAddr; to = identScreenName recipSess in
      case ebind (Session_TLVUserInfo (icNow env) from) (\<lambda>info.
          ebind (relayTLVs env from (instanceOf you B) recipSess (cmChannelID body) (cmTLVs body)) (\<lambda>tlvs. Inr (info, tlvs))) of
        Inl e \<Rightarrow> (Inl (ICodec e), S)
      | Inr (info, tlvs) \<Rightarrow>
          (let tlvs' = (if typingEventsEnabled from \<and> (cmChannelID body = ICBMChannelIM \<or> cmChannelID body = ICBMChannelMIME)
                        then TLVList_Append tlvs \<lparr>Tag = ICBMTLVWantEvents, Value = []\<rparr> else tlvs);
               msg = clientMsg (cmCookie body) (cmChannelID body) info tlvs';
               heap = (if Inactive recipSess then RelayToScreenName to msg (bosMgr B) (bosHeap B)
                       else RelayToScreenNameActiveOnly to msg (bosMgr B) (bosHeap B))
           in (Inr (if wantsAck body then Some (hostAck req body) else None),
               S\<lparr>icBos := B\<lparr>bosHeap := heap\<rparr>,
                 icConvo := trackConvo (icCache env) (icNow env) (identScreenName from) to (icConvo S)\<rparr>)))"

definition offlineOrError :: "'c icbmEnv \<Rightarrow> instanceRef \<Rightarrow> u32 \<Rightarrow> ChannelMsg \<Rightarrow> 'c ICBMService \<Rightarrow> 'c icbmResult" where
  "offlineOrError env you req body S =
     (if TLVList_Bytes (cmTLVs body) ICBMTLVStore = None then (Inr (Some (newICBMErr req ErrorCodeNotLoggedOn [])), S)
      else
        (case canSendOfflineMessage (icPlatform env) body (bosLists (icBos S)) of
           Inl e \<Rightarrow> (Inl (ICodec e), S)
         | Inr canSend \<Rightarrow>
             if \<not> canSend then (Inr (Some (newICBMErr req ErrorCodeNotLoggedOn [])), S)
             else
               (case sendOfflineMessage env you req body S of
                  (Inl (IMail MailNoUser), S1) \<Rightarrow> (Inr (Some (newICBMErr req ErrorCodeNotLoggedOn [])), S1)
                | r \<Rightarrow> r)))"

definition ChannelMsgToHost :: "'c icbmEnv \<Rightarrow> instanceRef \<Rightarrow> u32 \<Rightarrow> ChannelMsg \<Rightarrow> 'c ICBMService \<Rightarrow> 'c icbmResult" where
  "ChannelMsgToHost env you req body S =
     (let B = icBos S; me = identScreenName (sessionOf you B);
          recip = NewIdentScreenName (icPlatform env) (cmScreenName body);
          rel = Relationship me recip (bosLists B) in
      if relBlocksYou rel then (Inr (Some (newICBMErr req ErrorCodeNotLoggedOn [])), S)
      else if relYouBlock rel then (Inr (Some (newICBMErr req ErrorCodeInLocalPermitDeny [])), S)
      else if uin (sessionOf you B) = 0 \<and> UIN recip = 0 \<and> RequiresAuthorization recip me (bosLists B)
      then (Inr (Some (newICBMErr req ErrorCodeNotLoggedOn [])), S)
      else
        (case RetrieveSession recip (bosMgr B) (bosHeap B) of
           None \<Rightarrow> offlineOrError env you req body S
         | Some recipAddr \<Rightarrow>
             (case icqAuth env you recipAddr body S of
                (Some (Inl e), S1) \<Rightarrow> (Inl e, S1)
              | (Some (Inr _), S1) \<Rightarrow> (Inr None, S1)
              | (None, S1) \<Rightarrow> deliver env you req recipAddr body S1)))"

section \<open>Events, errors and offline messages\<close>

definition ClientEvent :: "'c icbmEnv \<Rightarrow> instanceRef \<Rightarrow> u32 \<Rightarrow> u64 \<Rightarrow> u16 \<Rightarrow> bytes \<Rightarrow> u16 \<Rightarrow> 'c ICBMService \<Rightarrow> 'c ICBMService" where
  "ClientEvent env you req cookie chan name event S =
     (let B = icBos S; recipient = NewIdentScreenName (icPlatform env) name;
          blocked = Relationship (identScreenName (sessionOf you B)) recipient (bosLists B) in
      if relBlocksYou blocked \<or> relYouBlock blocked then S
      else S\<lparr>icBos := B\<lparr>bosHeap := RelayToScreenNameActiveOnly recipient (replyFrame ICBM ICBMClientEvent req,
        Some (SNAC_0x04_0x14_ICBMClientEvent, VStruct [VU64 cookie, VU16 chan, VString (displayScreenName (sessionOf you B)), VU16 event]))
        (bosMgr B) (bosHeap B)\<rparr>\<rparr>)"

definition ClientErr :: "'c icbmEnv \<Rightarrow> instanceRef \<Rightarrow> u32 \<Rightarrow> u64 \<Rightarrow> u16 \<Rightarrow> bytes \<Rightarrow> u16 \<Rightarrow> bytes \<Rightarrow> 'c ICBMService \<Rightarrow> 'c ICBMService" where
  "ClientErr env you req cookie chan name code errInfo S =
     (let B = icBos S in
      S\<lparr>icBos := B\<lparr>bosHeap := RelayToScreenName (NewIdentScreenName (icPlatform env) name) (replyFrame ICBM ICBMClientErr req,
        Some (SNAC_0x04_0x0B_ICBMClientErr, VStruct [VU64 cookie, VU16 chan, VString (displayScreenName (sessionOf you B)),
          VU16 code, bytesVal errInfo])) (bosMgr B) (bosHeap B)\<rparr>\<rparr>)"

definition offlineMsg :: "OfflineMessage \<Rightarrow> gerr + SNACMessage" where
  "offlineMsg m =
     ebind (NewTLVBE ICBMTLVSendTime (Some (TU32, VU32 (word_of_int (unixSeconds (omSent m)))))) (\<lambda>tlv.
       Inr (clientMsg (cmCookie (omMessage m)) (cmChannelID (omMessage m))
         \<lparr>tuiScreenName = omSender m, tuiWarningLevel = 0, tuiTLVs = []\<rparr> (cmTLVs (omMessage m) @ [tlv])))"

fun relayOffline :: "OfflineMessage list \<Rightarrow> BOS \<Rightarrow> gerr + BOS" where
  "relayOffline [] B = Inr B"
| "relayOffline (m # ms) B = ebind (offlineMsg m) (\<lambda>msg. relayOffline ms (relayTo (omRecipient m) msg B))"

definition OfflineRetrieve :: "'c icbmEnv \<Rightarrow> instanceRef \<Rightarrow> u32 \<Rightarrow> 'c ICBMService \<Rightarrow> 'c icbmResult" where
  "OfflineRetrieve env you req S =
     (let me = identScreenName (sessionOf you (icBos S)) in
      case RetrieveMessages (icPlatform env) me (icMail S) of
        Inl e \<Rightarrow> (Inl (IMail e), S)
      | Inr msgList \<Rightarrow>
          (case relayOffline msgList (icBos S) of
             Inl e \<Rightarrow> (Inl (ICodec e), S)
           | Inr B \<Rightarrow>
               (Inr (Some (replyFrame ICBM ICBMOfflineRetrieveReply req, Some (SNAC_0x04_0x17_ICBMOfflineRetrieveReply, VStruct []))),
                S\<lparr>icBos := B, icMail := (if length msgList > 0 then DeleteMessages me (icMail S) else icMail S)\<rparr>)))"

section \<open>Warnings\<close>

abbreviation (input) evilDelta :: u16 where "evilDelta \<equiv> 100"
abbreviation (input) evilDeltaAnon :: u16 where "evilDeltaAnon \<equiv> 30"
abbreviation (input) warningDecayPct :: int where "warningDecayPct \<equiv> - 50"
abbreviation (input) rateDecayInterval :: int where "rateDecayInterval \<equiv> 5 * 60 * 10 ^ 9"

text \<open>Every message that is put into a queue: the one who was warned learns who did it, unless the warning
  was anonymous.\<close>

definition evilNotification :: "u16 \<Rightarrow> u16 \<Rightarrow> Session \<Rightarrow> SNACMessage" where
  "evilNotification sendAs newLevel from = (replyFrame OService OServiceEvilNotification 0,
     Some (SNAC_0x01_0x10_OServiceEvilNotification, VStruct [VU16 newLevel, VPtr (if sendAs = 0
       then Some (VStruct [TLVUserInfo_val \<lparr>tuiScreenName = displayScreenName from, tuiWarningLevel = warning from, tuiTLVs = []\<rparr>])
       else None)]))"

definition EvilRequest :: "'c icbmEnv \<Rightarrow> instanceRef \<Rightarrow> u32 \<Rightarrow> u16 \<Rightarrow> bytes \<Rightarrow> 'c ICBMService \<Rightarrow> 'c icbmResult" where
  "EvilRequest env you req sendAs name S =
     (let B = icBos S; from = sessionOf you B; me = identScreenName from;
          them = NewIdentScreenName (icPlatform env) name; rel = Relationship me them (bosLists B);
          refuse = (\<lambda>code S. (Inr (Some (newICBMErr req code [])), S)) in
      if them = me then refuse ErrorCodeNotSupportedByHost S
      else if relBlocksYou rel \<or> relYouBlock rel then refuse ErrorCodeNotLoggedOn S
      else
        (case RetrieveSession them (bosMgr B) (bosHeap B) of
           None \<Rightarrow> refuse ErrorCodeNotLoggedOn S
         | Some a \<Rightarrow>
             (let recipSess = bosHeap B ! a in
              if AllUserInfoBitmask OServiceUserFlagBot recipSess then refuse ErrorCodeRequestDenied S
              else
                (let (canWarn, convo) = trackWarn (icCache env) (icNow env) me (identScreenName recipSess) (icConvo S);
                     S1 = S\<lparr>icConvo := convo\<rparr>; increase = (if sendAs = 1 then evilDeltaAnon else evilDelta) in
                 if \<not> canWarn then refuse ErrorCodeRequestDenied S1
                 else
                   (case RateClassLookup (icLimits env) ICBM ICBMChannelMsgToHost of
                      None \<Rightarrow> (Inl (ICodec Panics), S1)
                    | Some classID \<Rightarrow>
                        (case ScaleWarningAndRateLimit increase classID recipSess of
                           ScalePanic \<Rightarrow> (Inl (ICodec Panics), S1)
                         | ScaleBlocked s \<Rightarrow> (Inl IHang, S1\<lparr>icBos := B\<lparr>bosHeap := (bosHeap B)[a := s]\<rparr>\<rparr>)
                         | Scaled ok newLevel s \<Rightarrow>
                             (if \<not> ok then refuse ErrorCodeRequestDenied S1
                              else
                                (let B1 = B\<lparr>bosHeap := (bosHeap B)[a := s]\<rparr>
                                 in (Inr (Some (replyFrame ICBM ICBMEvilReply req,
                                       Some (SNAC_0x04_0x09_ICBMEvilReply, VStruct [VU16 increase, VU16 newLevel]))),
                                     S1\<lparr>icBos := relayTo (identScreenName recipSess)
                                       (evilNotification sendAs newLevel (sessionOf you B1)) B1\<rparr>)))))))))"

text \<open>\<open>time.Duration\<close> is an int64: a difference of times saturates, a quotient is truncated towards zero.\<close>

definition satDuration :: "int \<Rightarrow> int" where
  "satDuration d = max (- (2 ^ 63)) (min (2 ^ 63 - 1) d)"

definition goQuot :: "int \<Rightarrow> int \<Rightarrow> int" where
  "goQuot a b = sgn a * sgn b * (\<bar>a\<bar> div \<bar>b\<bar>)"

definition calcElapsedWarningLevel :: "int \<Rightarrow> int \<Rightarrow> int \<Rightarrow> 16 word" where
  "calcElapsedWarningLevel lastWarnUpdate now interval =
     word_of_int (goQuot (satDuration (now - lastWarnUpdate)) interval * warningDecayPct)"

definition timeTillNextInterval :: "int \<Rightarrow> int \<Rightarrow> int \<Rightarrow> int" where
  "timeTillNextInterval lastWarned now interval =
     (let d = satDuration (now - lastWarned) in interval - (d - goQuot d interval * interval))"

definition RestoreWarningLevel :: "'c icbmEnv \<Rightarrow> nat \<Rightarrow> 'c ICBMService \<Rightarrow> icbmFault option \<times> 'c ICBMService" where
  "RestoreWarningLevel env a S =
     (let B = icBos S; s = bosHeap B ! a in
      case findUser (icPlatform env) (identScreenName s) (mailAccounts (icMail S)) of
        Inl e \<Rightarrow> (Some (IStore e), S)
      | Inr None \<Rightarrow> (Some INoUser, S)
      | Inr (Some u) \<Rightarrow>
          (if userLastWarnLevel u = 0 then (None, S)
           else
             (case RateClassLookup (icLimits env) ICBM ICBMChannelMsgToHost of
                None \<Rightarrow> (Some (ICodec Panics), S)
              | Some classID \<Rightarrow>
                  (let newWarning = userLastWarnLevel u + calcElapsedWarningLevel (userLastWarnUpdate u) (icNow env) rateDecayInterval in
                   case ScaleWarningAndRateLimit newWarning classID (SetWarning 0 s) of
                     ScalePanic \<Rightarrow> (Some (ICodec Panics), S)
                   | ScaleBlocked s1 \<Rightarrow> (Some IHang, S\<lparr>icBos := B\<lparr>bosHeap := (bosHeap B)[a := s1]\<rparr>\<rparr>)
                   | Scaled ok lvl s1 \<Rightarrow> (None, S\<lparr>icBos := B\<lparr>bosHeap := (bosHeap B)[a := s1]\<rparr>\<rparr>)))))"

section \<open>The decay of warnings\<close>

text \<open>The loop of \<open>UpdateWarnLevel\<close>: its local variables, with the ticker by its interval, and one turn for
  each case of its select.\<close>

record warnDecay =
  inProgress :: bool
  ticker :: "int option"
  doReset :: bool

definition startDecay :: "int \<Rightarrow> int \<Rightarrow> int \<Rightarrow> Session \<Rightarrow> warnDecay" where
  "startDecay now lastWarnUpdate interval s =
     (if warning s > 0
      then (let newInterval = timeTillNextInterval lastWarnUpdate now interval
            in \<lparr>inProgress = True, ticker = Some (if newInterval > 0 then newInterval else interval), doReset = True\<rparr>)
      else \<lparr>inProgress = False, ticker = None, doReset = False\<rparr>)"

definition stopTicker :: "warnDecay \<Rightarrow> warnDecay" where
  "stopTicker d = d\<lparr>ticker := None, inProgress := False\<rparr>"

definition onWarned :: "int \<Rightarrow> warnDecay \<Rightarrow> warnDecay" where
  "onWarned interval d = (if inProgress d then d else d\<lparr>ticker := Some interval, inProgress := True\<rparr>)"

datatype tickResult = Ticking warnDecay Session | TickDone warnDecay Session | TickHangs Session | TickPanics

definition onTick :: "int \<Rightarrow> u16 \<Rightarrow> warnDecay \<Rightarrow> Session \<Rightarrow> tickResult" where
  "onTick interval classID d s =
     (let d1 = (if doReset d then d\<lparr>ticker := Some interval, doReset := False\<rparr> else d) in
      case ScaleWarningAndRateLimit (word_of_int warningDecayPct) classID s of
        ScalePanic \<Rightarrow> TickPanics
      | ScaleBlocked s1 \<Rightarrow> TickHangs s1
      | Scaled ok lvl s1 \<Rightarrow>
          (if \<not> ok then TickDone (stopTicker d1) s1
           else Ticking (if lvl = 0 then stopTicker d1 else d1) s1))"

text \<open>The other goroutine: it takes a level from the channel, wakes the loop through a channel of one place
  when the level is above zero, stores the level, and tells the contacts, for which it needs the lock of
  the session; a warning holds this lock while it waits for the channel.\<close>

datatype recvPc = Receiving | Signalling u16 | Storing u16 | Telling u16

record warnWorld =
  wwSession :: Session
  wwReceiver :: recvPc
  wwSignal :: bool
  wwLocked :: bool

inductive warnStep :: "u16 \<Rightarrow> warnWorld \<Rightarrow> warnWorld \<Rightarrow> bool" for classID where
  warn: "\<not> wwLocked W \<Longrightarrow> ScaleWarningAndRateLimit incr classID (wwSession W) = Scaled ok lvl s
     \<Longrightarrow> warnStep classID W (W\<lparr>wwSession := s\<rparr>)"
| waits: "\<not> wwLocked W \<Longrightarrow> ScaleWarningAndRateLimit incr classID (wwSession W) = ScaleBlocked s
     \<Longrightarrow> warnStep classID W (W\<lparr>wwSession := s, wwLocked := True\<rparr>)"
| sent: "wwLocked W \<Longrightarrow> warningCh (wwSession W) = []
     \<Longrightarrow> warnStep classID W (W\<lparr>wwSession := (wwSession W)\<lparr>warningCh := [warning (wwSession W)]\<rparr>, wwLocked := False\<rparr>)"
| receive: "wwReceiver W = Receiving \<Longrightarrow> receiveWarning (wwSession W) = Some (lvl, s)
     \<Longrightarrow> warnStep classID W (W\<lparr>wwSession := s, wwReceiver := (if lvl > 0 then Signalling lvl else Storing lvl)\<rparr>)"
| signal: "wwReceiver W = Signalling lvl \<Longrightarrow> \<not> wwSignal W
     \<Longrightarrow> warnStep classID W (W\<lparr>wwSignal := True, wwReceiver := Storing lvl\<rparr>)"
| wake: "wwSignal W \<Longrightarrow> warnStep classID W (W\<lparr>wwSignal := False\<rparr>)"
| stored: "wwReceiver W = Storing lvl \<Longrightarrow> warnStep classID W (W\<lparr>wwReceiver := Telling lvl\<rparr>)"
| told: "wwReceiver W = Telling lvl \<Longrightarrow> \<not> wwLocked W \<Longrightarrow> warnStep classID W (W\<lparr>wwReceiver := Receiving\<rparr>)"

section \<open>Lemmas\<close>

lemma sessionOk_instances_set:
  assumes "sessionOk s"
  shows "distinct (Instances s)" "set (Instances s) \<subseteq> set (instancesOrdered s)"
  using sessionOkD(2) [OF assms] by (simp_all add: Instances_def)

lemma retrieve_bound:
  assumes "storeOk m h" and "RetrieveSession n m h = Some s"
  shows "s < length h" "identScreenName (h ! s) = n" "sessionOk (h ! s)"
proof -
  from assms(2) obtain a where a: "map_of (store m) n = Some a" "slotSess m a = s"
    by (auto simp: RetrieveSession_def slotSess_def split: option.splits if_splits)
  show s: "s < length h" "identScreenName (h ! s) = n" using storeOk_entry [OF assms(1) a(1)] a(2) by auto
  then show "sessionOk (h ! s)" using assms(1) by (auto simp: storeOk_def)
qed

text \<open>What every instance has after a message was relayed to a name.\<close>

lemma relay_inst:
  assumes "storeOk m h" and "s < length h"
  shows "inst (RelayToScreenName n msg m h ! s) i =
      (if RetrieveSession n m h = Some s \<and> i \<in> set (Instances (h ! s)) \<and> live (inst (h ! s) i)
       then offered msg (inst (h ! s) i) else inst (h ! s) i)"
    "inst (RelayToScreenNameActiveOnly n msg m h ! s) i =
      (if RetrieveSession n m h = Some s \<and> i \<in> set (Instances (h ! s)) \<and> active (inst (h ! s) i)
       then offered msg (inst (h ! s) i) else inst (h ! s) i)"
proof -
  have ok: "sessionOk (h ! s)" using assms by (auto simp: storeOk_def)
  note d = sessionOk_instances_set [OF ok]
  show "inst (RelayToScreenName n msg m h ! s) i =
      (if RetrieveSession n m h = Some s \<and> i \<in> set (Instances (h ! s)) \<and> live (inst (h ! s) i)
       then offered msg (inst (h ! s) i) else inst (h ! s) i)"
    using relayLoop_correct(2) [OF ok d] assms(2)
    by (simp add: RelayToScreenName_def nth_updSession maybeRelayMessage_def split: option.split)
  show "inst (RelayToScreenNameActiveOnly n msg m h ! s) i =
      (if RetrieveSession n m h = Some s \<and> i \<in> set (Instances (h ! s)) \<and> active (inst (h ! s) i)
       then offered msg (inst (h ! s) i) else inst (h ! s) i)"
    using relayLoop_correct(2) [OF ok d] assms(2)
    by (simp add: RelayToScreenNameActiveOnly_def nth_updSession maybeRelayMessageActiveOnly_def split: option.split)
qed

lemma relayTLVs_plain:
  assumes "chan \<noteq> ICBMChannelRendezvous" and "uin from = 0"
  shows "relayTLVs env from i to chan tlvs = Inr (filter (\<lambda>t. Tag t \<noteq> ICBMTLVRequestHostAck) tlvs)"
  using assms by (induction tlvs) (simp_all add: relayTLV_def ebind_def)

section \<open>Properties\<close>

text \<open>Whether the relationship of two users allows a message.\<close>

definition mayMessage :: "platform \<Rightarrow> Session \<Rightarrow> IdentScreenName \<Rightarrow> ListStore \<Rightarrow> bool" where
  "mayMessage P from to st \<longleftrightarrow>
     (let rel = Relationship (identScreenName from) to st in
      \<not> relBlocksYou rel \<and> \<not> relYouBlock rel \<and>
      (uin from = 0 \<and> UIN to = 0 \<longrightarrow> \<not> RequiresAuthorization to (identScreenName from) st))"

text \<open>C22: A plain instant message reaches its recipient when that one is online, and nobody else. When one of the two blocks the other, or
  both are AIM users and the recipient has not authorized the sender, the sender gets an error and nothing
  changes. Otherwise the message with its cookie and channel, the sender's
  description and all TLVs but the request for an acknowledgement is offered once to every active
  connection of the recipient (to all live ones when none is active), and no other connection changes; offered
  means put into the queue, or, when the queue is full, that the connection is closed instead. The
  sender gets the acknowledgement exactly when it was requested. This is for a consistent pool, a sender with a connection, the channels of plain
  messages and a sender that is no ICQ user; the other channels and ICQ senders have the TLVs changed.\<close>
theorem message_reaches_recipient:
  assumes "storeOk (bosMgr (icBos S)) (bosHeap (icBos S))" and "uin (sessionOf you (icBos S)) = 0"
    and "cmChannelID body = ICBMChannelIM \<or> cmChannelID body = ICBMChannelMIME"
    and "Session_TLVUserInfo (icNow env) (sessionOf you (icBos S)) = Inr info"
    and "RetrieveSession (NewIdentScreenName (icPlatform env) (cmScreenName body)) (bosMgr (icBos S)) (bosHeap (icBos S)) = Some a"
  shows "let (r, S') = ChannelMsgToHost env you req body S; from = sessionOf you (icBos S); to = bosHeap (icBos S) ! a;
      msg = clientMsg (cmCookie body) (cmChannelID body) info
        (filter (\<lambda>t. Tag t \<noteq> ICBMTLVRequestHostAck) (cmTLVs body) @
         (if typingEventsEnabled from then [\<lparr>Tag = ICBMTLVWantEvents, Value = []\<rparr>] else []))
    in if \<not> mayMessage (icPlatform env) from (NewIdentScreenName (icPlatform env) (cmScreenName body)) (bosLists (icBos S))
       then S' = S \<and> (\<exists>code. r = Inr (Some (newICBMErr req code [])))
       else r = Inr (if wantsAck body then Some (hostAck req body) else None) \<and>
         icMail S' = icMail S \<and> bosLists (icBos S') = bosLists (icBos S) \<and>
         (\<forall>s i. s < length (bosHeap (icBos S)) \<longrightarrow> inst (bosHeap (icBos S') ! s) i =
           (if s = a \<and> i \<in> set (Instances to) \<and> live (inst to i) \<and> (Inactive to \<or> active (inst to i))
            then offered msg (inst to i) else inst (bosHeap (icBos S) ! s) i))"
proof -
  let ?B = "icBos S" and ?to = "NewIdentScreenName (icPlatform env) (cmScreenName body)"
  let ?from = "sessionOf you ?B" and ?sess = "bosHeap ?B ! a"
  let ?tlvs = "filter (\<lambda>t. Tag t \<noteq> ICBMTLVRequestHostAck) (cmTLVs body) @
    (if typingEventsEnabled ?from then [\<lparr>Tag = ICBMTLVWantEvents, Value = []\<rparr>] else [])"
  let ?msg = "clientMsg (cmCookie body) (cmChannelID body) info ?tlvs"
  let ?heap = "if Inactive ?sess then RelayToScreenName ?to ?msg (bosMgr ?B) (bosHeap ?B)
    else RelayToScreenNameActiveOnly ?to ?msg (bosMgr ?B) (bosHeap ?B)"
  note a = retrieve_bound [OF assms(1,5)]
  have chan: "cmChannelID body \<noteq> ICBMChannelICQ" "cmChannelID body \<noteq> ICBMChannelRendezvous" using assms(3) by auto
  have gate: "\<not> mayMessage (icPlatform env) ?from ?to (bosLists ?B) \<Longrightarrow>
      \<exists>code. ChannelMsgToHost env you req body S = (Inr (Some (newICBMErr req code [])), S)"
    using assms(2) by (auto simp: mayMessage_def ChannelMsgToHost_def Let_def)
  have sent: "ChannelMsgToHost env you req body S = (Inr (if wantsAck body then Some (hostAck req body) else None),
      S\<lparr>icBos := ?B\<lparr>bosHeap := ?heap\<rparr>,
        icConvo := trackConvo (icCache env) (icNow env) (identScreenName ?from) ?to (icConvo S)\<rparr>)"
    if "mayMessage (icPlatform env) ?from ?to (bosLists ?B)"
    using that assms(2-5) chan a(2)
    by (auto simp: mayMessage_def ChannelMsgToHost_def icqAuth_def deliver_def relayTLVs_plain ebind_def
        TLVList_Append_def Let_def)
  have "active x \<Longrightarrow> live x" for x by (simp add: active_def live_def)
  then have q: "inst (?heap ! s) i =
      (if s = a \<and> i \<in> set (Instances ?sess) \<and> live (inst ?sess i) \<and> (Inactive ?sess \<or> active (inst ?sess i))
       then offered ?msg (inst ?sess i) else inst (bosHeap ?B ! s) i)" if "s < length (bosHeap ?B)" for s i
    using relay_inst [OF assms(1) that, of ?to ?msg i] assms(5) by auto
  show ?thesis
  proof (cases "mayMessage (icPlatform env) ?from ?to (bosLists ?B)")
    case False
    with gate show ?thesis by (auto simp: Let_def)
  next
    case True
    then show ?thesis unfolding sent [OF True] Let_def using q by simp
  qed
qed

lemma Session_TLVUserInfo_ok: "Instances s \<noteq> [] \<Longrightarrow> \<exists>info. Session_TLVUserInfo now s = Inr info"
  using userInfo_shape [of s now] by (auto simp: Session_TLVUserInfo_def ebind_def)

text \<open>Two users, 97 and 98, who have no lists; both have signed on.\<close>

definition sampleOnline :: BOS where
  "sampleOnline = updInstance SetSignonComplete (1, 0) (updInstance SetSignonComplete (0, 0) (sampleBOS emptyStore))"

definition sampleEnv :: "(bytes \<times> nat \<times> int) list icbmEnv" where
  "sampleEnv = \<lparr>icPlatform = samplePlatform, icNow = 0, icCache = listCache, icTokens = (\<lambda>b. [TextToken b]),
     icForward = (\<lambda>a b m S. (Some IForward, S)), icLimits = DefaultSNACRateLimits\<rparr>"

definition sampleService :: "(bytes \<times> nat \<times> int) list ICBMService" where
  "sampleService = \<lparr>icBos = sampleOnline, icMail = sampleMail, icConvo = newConvoTracker listCache\<rparr>"

definition sampleIM :: ChannelMsg where
  "sampleIM = \<lparr>cmCookie = 5, cmChannelID = 1, cmScreenName = [98], cmTLVs = [\<lparr>Tag = 2, Value = [7]\<rparr>, \<lparr>Tag = 3, Value = []\<rparr>]\<rparr>"

lemma sampleOnline_ok: "storeOk (bosMgr sampleOnline) (bosHeap sampleOnline)"
  by (simp add: sampleOnline_def updInstance_def storeOk_upd sampleBOS_ok keeps_updInst SetSignonComplete_def)

lemma sampleOnline_simps [simp]:
  "bosMgr sampleOnline = bosMgr (sampleBOS emptyStore)" "bosLists sampleOnline = emptyStore"
  "length (bosHeap sampleOnline) = 2" "RetrieveSession [98] (bosMgr (sampleBOS emptyStore)) (bosHeap sampleOnline) = Some 1"
  "RetrieveSession [97] (bosMgr (sampleBOS emptyStore)) (bosHeap sampleOnline) = Some 0"
  "sessionOf (0, 0) sampleOnline = updInst 0 SetSignonComplete sampleSession"
  "bosHeap sampleOnline ! Suc 0 = updInst 0 SetSignonComplete (SetIdentScreenName [98] sampleSession)"
  by (simp_all add: sampleOnline_def updInstance_def sampleBOS_def sessionOf_def updSession_def RetrieveSession_def
      HasLiveInstances_def live_def updInst_def inst_def sampleSession_def SetDisplayScreenName_def SetIdentScreenName_def
      oneInstance_def newInstance_def SetSignonComplete_def)

lemma sampleSessions_simps [simp]:
  "Instances (updInst 0 SetSignonComplete sampleSession) = [0]"
  "Instances (updInst 0 SetSignonComplete (SetIdentScreenName [98] sampleSession)) = [0]"
  "identScreenName (updInst 0 SetSignonComplete sampleSession) = [97]"
  "uin (updInst 0 SetSignonComplete sampleSession) = 0"
  "inst (updInst 0 SetSignonComplete (SetIdentScreenName [98] sampleSession)) 0 = SetSignonComplete (newInstance 1)"
  by (simp_all add: updInst_def Instances_def sampleSession_def SetDisplayScreenName_def SetIdentScreenName_def oneInstance_def
      inst_def NewSession_def)

lemma emptyStore_lists [simp]:
  "\<not> relBlocksYou (Relationship me them emptyStore)" "\<not> relYouBlock (Relationship me them emptyStore)"
  "\<not> RequiresAuthorization a b emptyStore"
proof -
  have "listedNames emptyStore = []" by (simp add: listedNames_def emptyStore_def)
  then have "AllRelationships me ns emptyStore = []" for ns by (simp add: AllRelationships_def)
  then show "\<not> relBlocksYou (Relationship me them emptyStore)" "\<not> relYouBlock (Relationship me them emptyStore)"
    by (simp_all add: Relationship_def)
qed (simp add: emptyStore_def RequiresAuthorization_def)

lemma message_reaches_recipient_witness:
  "\<exists>m. msgCh (inst (bosHeap (icBos (snd (ChannelMsgToHost sampleEnv (0, 0) 9 sampleIM sampleService))) ! Suc 0) 0) = [m]"
proof -
  obtain info where info: "Session_TLVUserInfo (icNow sampleEnv) (sessionOf (0, 0) (icBos sampleService)) = Inr info"
    using Session_TLVUserInfo_ok [of "updInst 0 SetSignonComplete sampleSession"] by (auto simp: sampleService_def)
  have e: "icBos sampleService = sampleOnline" "cmScreenName sampleIM = [98]" "cmChannelID sampleIM = 1"
    "icPlatform sampleEnv = samplePlatform" by (simp_all add: sampleService_def sampleIM_def sampleEnv_def)
  obtain r S' where r: "ChannelMsgToHost sampleEnv (0, 0) 9 sampleIM sampleService = (r, S')" by fastforce
  let ?to = "bosHeap sampleOnline ! Suc 0"
  let ?m = "clientMsg (cmCookie sampleIM) (cmChannelID sampleIM) info
    (filter (\<lambda>t. Tag t \<noteq> ICBMTLVRequestHostAck) (cmTLVs sampleIM) @
      (if typingEventsEnabled (sessionOf (0, 0) sampleOnline) then [\<lparr>Tag = ICBMTLVWantEvents, Value = []\<rparr>] else []))"
  have "\<forall>s i. s < 2 \<longrightarrow> inst (bosHeap (icBos S') ! s) i =
      (if s = Suc 0 \<and> i \<in> set (Instances ?to) \<and> live (inst ?to i) \<and> (Inactive ?to \<or> active (inst ?to i))
       then offered ?m (inst ?to i) else inst (bosHeap sampleOnline ! s) i)"
    using message_reaches_recipient [OF _ _ _ info, of sampleIM "Suc 0" 9] sampleOnline_ok
    unfolding Let_def r e by (simp add: mayMessage_def e)
  from this [rule_format, of "Suc 0" 0]
  have "inst (bosHeap (icBos S') ! Suc 0) 0 = offered ?m (SetSignonComplete (newInstance 1))"
    by (simp add: live_def active_def Inactive_def) (simp add: SetSignonComplete_def newInstance_def)
  then show ?thesis by (simp add: r offered_def SetSignonComplete_def newInstance_def)
qed

subsection \<open>Offline messages\<close>

lemma HasLive_Instances:
  "sessionOk s \<Longrightarrow> HasLiveInstances s \<longleftrightarrow> (\<exists>i\<in>set (Instances s). live (inst s i))"
  using sessionOk_instances(1) [of s] by (force simp: HasLiveInstances_def list_ex_iff Instances_def)

text \<open>A message to a user all of whose connections have room leaves the user online.\<close>

lemma relay_room:
  assumes ok: "storeOk m h" and on: "RetrieveSession n m h = Some s"
    and room: "\<forall>i\<in>set (Instances (h ! s)). length (msgCh (inst (h ! s) i)) < 1000"
  shows "RetrieveSession n m (RelayToScreenName n msg m h) = Some s"
    "set (Instances (RelayToScreenName n msg m h ! s)) = set (Instances (h ! s))"
proof -
  let ?h = "RelayToScreenName n msg m h"
  note r = retrieve_bound [OF ok on]
  have e: "?h ! s = relayLoop live msg (Instances (h ! s)) (h ! s)"
    using on r(1) by (simp add: RelayToScreenName_def nth_updSession maybeRelayMessage_def)
  have none: "{i \<in> set (Instances (h ! s)). live (inst (h ! s) i) \<and> 1000 \<le> length (msgCh (inst (h ! s) i))} = {}"
    using room by auto
  then show same: "set (Instances (?h ! s)) = set (Instances (h ! s))"
    unfolding e relayLoop_correct(3) [OF r(3) sessionOk_instances_set [OF r(3)]] none by simp
  have "sessionOk (?h ! s)" unfolding e by (rule relayLoop_correct(1) [OF r(3) sessionOk_instances_set [OF r(3)]])
  moreover have "live (inst (?h ! s) i)" if "i \<in> set (Instances (h ! s))" "live (inst (h ! s) i)" for i
    using that room relay_inst(1) [OF ok r(1), of n msg i] on by (simp add: offered_def live_def)
  moreover have "HasLiveInstances (h ! s)" using on by (auto simp: RetrieveSession_def split: option.splits if_splits)
  ultimately have "HasLiveInstances (?h ! s)" using HasLive_Instances [OF r(3)] HasLive_Instances same by blast
  then show "RetrieveSession n m ?h = Some s"
    using on by (auto simp: RetrieveSession_def split: option.splits if_splits)
qed

text \<open>The message that a stored message is sent as.\<close>

definition asSent :: "OfflineMessage \<Rightarrow> SNACMessage" where
  "asSent m = clientMsg (cmCookie (omMessage m)) (cmChannelID (omMessage m))
     \<lparr>tuiScreenName = omSender m, tuiWarningLevel = 0, tuiTLVs = []\<rparr>
     (cmTLVs (omMessage m) @
      [\<lparr>Tag = ICBMTLVSendTime, Value = putUint BigEndian 4 (unat (word_of_int (unixSeconds (omSent m)) :: u32))\<rparr>])"

lemma offlineMsg_sent: "offlineMsg m = Inr (asSent m)"
  by (simp add: offlineMsg_def asSent_def ebind_def)

lemma relayOffline_fold: "relayOffline ms B = Inr (fold (\<lambda>m. relayTo (omRecipient m) (asSent m)) ms B)"
  by (induction ms arbitrary: B) (simp_all add: offlineMsg_sent ebind_def)

lemma relayOffline_queues:
  assumes "storeOk (bosMgr B) (bosHeap B)" and "RetrieveSession n (bosMgr B) (bosHeap B) = Some a"
    and "\<forall>i\<in>set (Instances (bosHeap B ! a)). length (msgCh (inst (bosHeap B ! a) i)) + length ms \<le> 1000"
    and "\<forall>m\<in>set ms. omRecipient m = n"
  shows "\<exists>B'. relayOffline ms B = Inr B' \<and> (\<forall>s i. s < length (bosHeap B) \<longrightarrow> inst (bosHeap B' ! s) i =
    (let x = inst (bosHeap B ! s) i
     in if s = a \<and> i \<in> set (Instances (bosHeap B ! a)) \<and> live x then x\<lparr>msgCh := msgCh x @ map asSent ms\<rparr> else x))"
  using assms
proof (induction ms arbitrary: B)
  case (Cons m ms)
  let ?B = "relayTo n (asSent m) B"
  have room: "\<forall>i\<in>set (Instances (bosHeap B ! a)). length (msgCh (inst (bosHeap B ! a) i)) < 1000"
    using Cons.prems(3) by force
  note r = relay_room [OF Cons.prems(1,2) room, of "asSent m"]
  note a = retrieve_bound(1) [OF Cons.prems(1,2)]
  have q: "inst (bosHeap ?B ! s) i = (if s = a \<and> i \<in> set (Instances (bosHeap B ! s)) \<and> live (inst (bosHeap B ! s) i)
      then (inst (bosHeap B ! s) i)\<lparr>msgCh := msgCh (inst (bosHeap B ! s) i) @ [asSent m]\<rparr> else inst (bosHeap B ! s) i)"
    if "s < length (bosHeap B)" for s i
    using relay_inst(1) [OF Cons.prems(1) that, of n "asSent m" i] Cons.prems(2) room
    by (auto simp: relayTo_def offered_def)
  have "\<exists>B'. relayOffline ms ?B = Inr B' \<and> (\<forall>s i. s < length (bosHeap ?B) \<longrightarrow> inst (bosHeap B' ! s) i =
    (let x = inst (bosHeap ?B ! s) i
     in if s = a \<and> i \<in> set (Instances (bosHeap ?B ! a)) \<and> live x then x\<lparr>msgCh := msgCh x @ map asSent ms\<rparr> else x))"
  proof (rule Cons.IH)
    show "storeOk (bosMgr ?B) (bosHeap ?B)" using storeOk_relay(1) [OF Cons.prems(1)] by (simp add: relayTo_def)
    show "RetrieveSession n (bosMgr ?B) (bosHeap ?B) = Some a" using r(1) by (simp add: relayTo_def)
    have "set (Instances (bosHeap ?B ! a)) = set (Instances (bosHeap B ! a))" using r(2) by (simp add: relayTo_def)
    then show "\<forall>i\<in>set (Instances (bosHeap ?B ! a)). length (msgCh (inst (bosHeap ?B ! a) i)) + length ms \<le> 1000"
      using Cons.prems(3) q [OF a] by auto
    show "\<forall>m\<in>set ms. omRecipient m = n" using Cons.prems(4) by simp
  qed
  then obtain B' where B': "relayOffline ms ?B = Inr B'" "\<And>s i. s < length (bosHeap B) \<Longrightarrow> inst (bosHeap B' ! s) i =
    (let x = inst (bosHeap ?B ! s) i
     in if s = a \<and> i \<in> set (Instances (bosHeap ?B ! a)) \<and> live x then x\<lparr>msgCh := msgCh x @ map asSent ms\<rparr> else x)"
    by (auto simp: relayTo_def)
  have same: "set (Instances (bosHeap ?B ! a)) = set (Instances (bosHeap B ! a))" using r(2) by (simp add: relayTo_def)
  have "relayOffline (m # ms) B = Inr B'" using B'(1) Cons.prems(4) by (simp add: offlineMsg_sent ebind_def)
  moreover have "inst (bosHeap B' ! s) i = (let x = inst (bosHeap B ! s) i
     in if s = a \<and> i \<in> set (Instances (bosHeap B ! a)) \<and> live x then x\<lparr>msgCh := msgCh x @ map asSent (m # ms)\<rparr> else x)"
    if "s < length (bosHeap B)" for s i
    using B'(2) [OF that, of i] q [OF that, of i] same by (auto simp: Let_def live_def)
  ultimately show ?case by blast
qed (simp add: Let_def)

lemma readMessages_recipient: "readMessages P n rows = Inr ms \<Longrightarrow> m \<in> set ms \<Longrightarrow> omRecipient m = n"
  by (induction rows arbitrary: ms) (auto simp: ebind_def split: sum.splits)

text \<open>C23: What waited for a user is delivered at the request, in order. When the user is online and the
  connections have room, every connection that has completed its sign-on gets all stored messages at the end of
  its queue, each with its sender, cookie, channel and TLVs and the time it was sent; no other queue changes,
  the inbox is empty afterwards, and the inboxes of others are as before.\<close>
theorem offline_retrieve_delivers:
  assumes "storeOk (bosMgr (icBos S)) (bosHeap (icBos S))"
    and "RetrieveSession (identScreenName (sessionOf you (icBos S))) (bosMgr (icBos S)) (bosHeap (icBos S)) = Some a"
    and "RetrieveMessages (icPlatform env) (identScreenName (sessionOf you (icBos S))) (icMail S) = Inr ms"
    and "\<forall>i\<in>set (Instances (bosHeap (icBos S) ! a)). length (msgCh (inst (bosHeap (icBos S) ! a) i)) + length ms \<le> 1000"
  shows "\<exists>S'. OfflineRetrieve env you req S = (Inr (Some (replyFrame ICBM ICBMOfflineRetrieveReply req,
        Some (SNAC_0x04_0x17_ICBMOfflineRetrieveReply, VStruct []))), S') \<and>
      (\<forall>s i. s < length (bosHeap (icBos S)) \<longrightarrow> inst (bosHeap (icBos S') ! s) i =
        (let x = inst (bosHeap (icBos S) ! s) i
         in if s = a \<and> i \<in> set (Instances (bosHeap (icBos S) ! a)) \<and> live x
            then x\<lparr>msgCh := msgCh x @ map asSent ms\<rparr> else x)) \<and>
      (\<forall>n. RetrieveMessages (icPlatform env) n (icMail S') =
        (if n = identScreenName (sessionOf you (icBos S)) then Inr [] else RetrieveMessages (icPlatform env) n (icMail S)))"
proof -
  let ?me = "identScreenName (sessionOf you (icBos S))" and ?P = "icPlatform env"
  have "\<forall>m\<in>set ms. omRecipient m = ?me"
    using assms(3) readMessages_recipient unfolding RetrieveMessages_def by blast
  from relayOffline_queues [OF assms(1,2,4) this] obtain B' where B': "relayOffline ms (icBos S) = Inr B'"
    "\<forall>s i. s < length (bosHeap (icBos S)) \<longrightarrow> inst (bosHeap B' ! s) i =
      (let x = inst (bosHeap (icBos S) ! s) i
       in if s = a \<and> i \<in> set (Instances (bosHeap (icBos S) ! a)) \<and> live x
          then x\<lparr>msgCh := msgCh x @ map asSent ms\<rparr> else x)" by blast
  let ?S = "S\<lparr>icBos := B', icMail := (if length ms > 0 then DeleteMessages ?me (icMail S) else icMail S)\<rparr>"
  have "RetrieveMessages ?P n (DeleteMessages ?me (icMail S)) = (if n = ?me then Inr [] else RetrieveMessages ?P n (icMail S))" for n
    by (auto simp: RetrieveMessages_def DeleteMessages_def filter_False intro: arg_cong [OF filter_cong])
  then have mail: "RetrieveMessages ?P n (icMail ?S) = (if n = ?me then Inr [] else RetrieveMessages ?P n (icMail S))" for n
    using assms(3) by simp
  have run: "OfflineRetrieve env you req S = (Inr (Some (replyFrame ICBM ICBMOfflineRetrieveReply req,
        Some (SNAC_0x04_0x17_ICBMOfflineRetrieveReply, VStruct []))), ?S)"
    by (simp add: OfflineRetrieve_def assms(3) B'(1))
  show ?thesis
    by (rule exI [of _ ?S], intro conjI, rule run) (use B'(2) mail in simp_all)
qed

lemma sampleInbox: "\<exists>M. length (mailRows M) = 1 \<and> RetrieveMessages (icPlatform sampleEnv) [98] M = Inr [sampleMsg [98]]"
proof -
  obtain bs where bs: "UnmarshalBE SNAC_0x04_0x06_ICBMChannelMsgToHost bs = (Inr (ChannelMsg_val (omMessage (sampleMsg [98]))), [])"
    using ChannelMsg_codec [of "omMessage (sampleMsg [98])"] by (auto simp: storableMsg_def sampleMsg_def TLV_ok_def)
  have n: "NewIdentScreenName samplePlatform [97] = [97]" by (simp add: ident_ascii isASCII_def asciiLower_def)
  show ?thesis
    by (rule exI [of _ "sampleMail\<lparr>mailRows := [\<lparr>mailSender = [97], mailRecipient = [98], mailBlob = bs, mailSent = 9\<rparr>]\<rparr>"])
      (simp add: RetrieveMessages_def bs ebind_def sampleEnv_def n, simp add: sampleMsg_def)
qed

lemma offline_retrieve_delivers_witness:
  "\<exists>M. length (mailRows M) = 1 \<and>
     msgCh (inst (bosHeap (icBos (snd (OfflineRetrieve sampleEnv (1, 0) 9 (sampleService\<lparr>icMail := M\<rparr>)))) ! Suc 0) 0) =
       [asSent (sampleMsg [98])]"
proof -
  obtain M where M: "length (mailRows M) = 1" "RetrieveMessages (icPlatform sampleEnv) [98] M = Inr [sampleMsg [98]]"
    using sampleInbox by blast
  let ?S = "sampleService\<lparr>icMail := M\<rparr>" and ?to = "bosHeap sampleOnline ! Suc 0"
  have me: "identScreenName (sessionOf (Suc 0, 0) sampleOnline) = [98]"
    by (simp add: sessionOf_def updInst_def SetIdentScreenName_def)
  have e: "icBos ?S = sampleOnline" "icMail ?S = M" by (simp_all add: sampleService_def)
  obtain S' where S': "OfflineRetrieve sampleEnv (Suc 0, 0) 9 ?S = (Inr (Some (replyFrame ICBM ICBMOfflineRetrieveReply 9,
      Some (SNAC_0x04_0x17_ICBMOfflineRetrieveReply, VStruct []))), S')"
    "\<And>s i. s < 2 \<Longrightarrow> inst (bosHeap (icBos S') ! s) i = (let x = inst (bosHeap sampleOnline ! s) i
       in if s = Suc 0 \<and> i \<in> set (Instances ?to) \<and> live x then x\<lparr>msgCh := msgCh x @ map asSent [sampleMsg [98]]\<rparr> else x)"
    using offline_retrieve_delivers [of ?S "(Suc 0, 0)" "Suc 0" sampleEnv "[sampleMsg [98]]" 9] sampleOnline_ok
    unfolding e me M(2) by (auto simp: SetSignonComplete_def newInstance_def)
  have "inst (bosHeap (icBos S') ! Suc 0) 0 = (SetSignonComplete (newInstance 1))\<lparr>msgCh := [asSent (sampleMsg [98])]\<rparr>"
    using S'(2) [of "Suc 0" 0] by (simp add: live_def) (simp add: SetSignonComplete_def newInstance_def)
  then show ?thesis using M(1) by (intro exI [of _ M]) (simp add: S'(1))
qed

text \<open>A request that comes too early loses the messages. As long as no connection of the user has completed
  its sign-on, no stored message is delivered to anybody, and all the same the inbox is emptied and the
  request confirmed.\<close>
theorem early_retrieve_loses_messages:
  assumes "RetrieveSession (identScreenName (sessionOf you (icBos S))) (bosMgr (icBos S)) (bosHeap (icBos S)) = None"
    and "RetrieveMessages (icPlatform env) (identScreenName (sessionOf you (icBos S))) (icMail S) = Inr ms"
  shows "\<exists>S' reply. OfflineRetrieve env you req S = (Inr (Some reply), S') \<and> icBos S' = icBos S \<and>
    RetrieveMessages (icPlatform env) (identScreenName (sessionOf you (icBos S))) (icMail S') = Inr []"
proof -
  let ?me = "identScreenName (sessionOf you (icBos S))"
  have "\<forall>m\<in>set ms. omRecipient m = ?me"
    using assms(2) readMessages_recipient unfolding RetrieveMessages_def by blast
  then have "fold (\<lambda>m. relayTo (omRecipient m) (asSent m)) ms (icBos S) = icBos S"
    using assms(1) by (induction ms) (simp_all add: relayTo_def RelayToScreenName_def)
  then have r: "relayOffline ms (icBos S) = Inr (icBos S)" by (simp add: relayOffline_fold)
  have "RetrieveMessages (icPlatform env) ?me (DeleteMessages ?me (icMail S)) = Inr []"
    by (simp add: RetrieveMessages_def DeleteMessages_def filter_False)
  then show ?thesis using assms(2) by (auto simp: OfflineRetrieve_def r)
qed

lemma early_retrieve_loses_messages_witness:
  "\<exists>M S' reply. length (mailRows M) = 1 \<and> OfflineRetrieve sampleEnv (1, 0) 9
     \<lparr>icBos = sampleBOS emptyStore, icMail = M, icConvo = newConvoTracker listCache\<rparr> = (Inr (Some reply), S') \<and>
     icBos S' = sampleBOS emptyStore \<and> RetrieveMessages (icPlatform sampleEnv) [98] (icMail S') = Inr []"
proof -
  obtain M where M: "length (mailRows M) = 1" "RetrieveMessages (icPlatform sampleEnv) [98] M = Inr [sampleMsg [98]]"
    using sampleInbox by blast
  let ?S = "\<lparr>icBos = sampleBOS emptyStore, icMail = M, icConvo = newConvoTracker listCache\<rparr>"
  have me: "identScreenName (sessionOf (1, 0) (icBos ?S)) = [98]" by (simp add: sessionOf_def)
  have off: "RetrieveSession [98] (bosMgr (icBos ?S)) (bosHeap (icBos ?S)) = None"
    by (simp add: RetrieveSession_def sampleBOS_def HasLiveInstances_def live_def inst_def SetIdentScreenName_def
        sampleSession_def SetDisplayScreenName_def oneInstance_def newInstance_def)
  show ?thesis
    using early_retrieve_loses_messages [of "(1, 0)" ?S sampleEnv, unfolded me] off M
    by (intro exI [of _ M]) auto
qed

subsection \<open>Warnings\<close>

text \<open>A session whose warnings are received and which has the rate class.\<close>

definition ready :: "u16 \<Rightarrow> Session \<Rightarrow> bool" where
  "ready classID s \<longleftrightarrow> warningCh s = [] \<and> unat (classID - 1) < length (rateLimitStates s)"

lemma Scale_ready:
  assumes "ready classID s" and "uint (warning s) + sint incr \<le> 1000"
  shows "\<exists>s'. ScaleWarningAndRateLimit incr classID s = Scaled True (warning s') s' \<and>
    uint (warning s') = max 0 (uint (warning s) + sint incr) \<and> warningCh s' = [warning s'] \<and>
    length (rateLimitStates s') = length (rateLimitStates s)"
proof -
  let ?n = "uint (warning s) + sint incr"
  define lvl :: u16 where "lvl = (if ?n < 0 then 0 else word_of_int ?n)"
  have "uint lvl = max 0 ?n" using assms(2) by (simp add: lvl_def max_def uint_word_of_int del: of_int_add)
  then show ?thesis
    using assms unfolding ScaleWarningAndRateLimit_def Let_def lvl_def [symmetric] by (simp add: ready_def)
qed

lemma calc_elapsed:
  assumes "0 \<le> now - t0" and "now - t0 < 2 ^ 63"
  shows "calcElapsedWarningLevel t0 now rateDecayInterval = word_of_int (- 50 * ((now - t0) div rateDecayInterval))"
  using assms by (cases "now = t0") (simp_all add: calcElapsedWarningLevel_def satDuration_def goQuot_def sgn_if)

lemma sint_small:
  assumes "- 32768 \<le> k" and "k < 32768"
  shows "sint (word_of_int k :: 16 word) = k"
  unfolding sint_sbintrunc' using assms by (simp add: signed_take_bit_int_eq_self)


text \<open>User 98 with a stored level of 900, signing on 1310 periods later.\<close>

definition warnedUser :: User where
  "warnedUser = zeroUser\<lparr>userIdentScreenName := [98], userDisplayScreenName := [98], userLastWarnLevel := 900,
    userLastWarnUpdate := 0\<rparr>"

definition lateEnv :: "(bytes \<times> nat \<times> int) list icbmEnv" where
  "lateEnv = sampleEnv\<lparr>icNow := 1310 * rateDecayInterval, icLimits := [(ICBM, [(ICBMChannelMsgToHost, 3)])]\<rparr>"


text \<open>The loop while nobody warns: a tick, after which the level is taken from the channel, and so on until the
  ticker is stopped. The number of turns bounds the run.\<close>

fun ticks :: "nat \<Rightarrow> u16 \<Rightarrow> warnDecay \<Rightarrow> Session \<Rightarrow> tickResult" where
  "ticks 0 classID d s = Ticking d s"
| "ticks (Suc n) classID d s =
     (if ticker d = None then Ticking d s
      else
        (case onTick rateDecayInterval classID d s of
           Ticking d1 s1 \<Rightarrow> ticks n classID d1 (case receiveWarning s1 of None \<Rightarrow> s1 | Some (lvl, s2) \<Rightarrow> s2)
         | r \<Rightarrow> r))"

lemma onTick_ready:
  assumes "ready classID s" and "uint (warning s) \<le> 1000" and "ticker d \<noteq> None"
  shows "\<exists>d' s'. onTick rateDecayInterval classID d s = Ticking d' s' \<and>
    uint (warning s') = max 0 (uint (warning s) - 50) \<and> (ticker d' = None \<longleftrightarrow> warning s' = 0) \<and>
    (\<exists>s''. receiveWarning s' = Some (warning s', s'') \<and> ready classID s'' \<and> warning s'' = warning s')"
proof -
  have "sint (word_of_int warningDecayPct :: 16 word) = - 50" by (rule sint_small) simp_all
  then obtain s' where s': "ScaleWarningAndRateLimit (word_of_int warningDecayPct) classID s = Scaled True (warning s') s'"
    "uint (warning s') = max 0 (uint (warning s) - 50)" "warningCh s' = [warning s']"
    "length (rateLimitStates s') = length (rateLimitStates s)"
    using Scale_ready [OF assms(1), of "word_of_int warningDecayPct"] assms(2) by auto
  have "receiveWarning s' = Some (warning s', s'\<lparr>warningCh := []\<rparr>)" by (simp add: receiveWarning_def s'(3))
  moreover have "ready classID (s'\<lparr>warningCh := []\<rparr>)" using assms(1) s'(4) by (simp add: ready_def)
  ultimately show ?thesis
    unfolding onTick_def s'(1) using s'(2) assms(3) by (simp add: Let_def stopTicker_def)
qed

lemma stopped: "ticker d = None \<Longrightarrow> ticks n classID d s = Ticking d s"
  by (cases n) simp_all

text \<open>C25: The decay of a warning comes to an end. When the level is taken from the channel after every tick, and
  nobody warns the user again, a level is gone after a fiftieth as many ticks, rounded up: then the ticker is
  stopped, and it was not before; at the highest level this takes 20 ticks. Each tick lowers the level by 50.\<close>
theorem decay_terminates:
  assumes "ready classID s" and "uint (warning s) \<le> 1000" and "0 < warning s" and "ticker d \<noteq> None"
  shows "\<exists>d' s'. ticks k classID d s = Ticking d' s' \<and> uint (warning s') = max 0 (uint (warning s) - 50 * int k) \<and>
    (ticker d' = None \<longleftrightarrow> uint (warning s) \<le> 50 * int k) \<and> (20 \<le> k \<longrightarrow> ticker d' = None \<and> warning s' = 0)"
proof -
  have "\<exists>d' s'. ticks k classID d s = Ticking d' s' \<and> uint (warning s') = max 0 (uint (warning s) - 50 * int k) \<and>
    (ticker d' = None \<longleftrightarrow> uint (warning s) \<le> 50 * int k)"
    using assms
  proof (induction k arbitrary: d s)
    case 0
    have "uint (warning s) \<noteq> 0" using 0(3) by (simp add: uint_0_iff word_gt_0)
    then have "\<not> uint (warning s) \<le> 0" using uint_nonnegative [of "warning s"] by linarith
    then show ?case using 0(4) by simp
  next
    case (Suc k)
    obtain d' s' s'' where t: "onTick rateDecayInterval classID d s = Ticking d' s'"
      "uint (warning s') = max 0 (uint (warning s) - 50)" "ticker d' = None \<longleftrightarrow> warning s' = 0"
      "receiveWarning s' = Some (warning s', s'')" "ready classID s''" "warning s'' = warning s'"
      using onTick_ready [OF Suc.prems(1,2,4)] by (elim exE conjE) (rule that)
    have step: "ticks (Suc k) classID d s = ticks k classID d' s''" using Suc.prems(4) t(1,4) by auto
    show ?case
    proof (cases "warning s' = 0")
      case True
      then have "uint (warning s) \<le> 50" using t(2) by simp
      then show ?thesis using stopped t(3,6) True unfolding step by auto
    next
      case False
      then have "0 < uint (warning s')" using uint_nonnegative [of "warning s'"] by (simp add: uint_0_iff less_le)
      then have e: "uint (warning s') = uint (warning s) - 50" "50 < uint (warning s)" using t(2) by linarith+
      have "\<exists>d2 s2. ticks k classID d' s'' = Ticking d2 s2 \<and> uint (warning s2) = max 0 (uint (warning s'') - 50 * int k) \<and>
        (ticker d2 = None \<longleftrightarrow> uint (warning s'') \<le> 50 * int k)"
        using t(3,5,6) e Suc.prems(2) False by (intro Suc.IH) (simp_all add: word_gt_0)
      then show ?thesis unfolding step t(6) e(1) by (simp add: algebra_simps)
    qed
  qed
  then obtain d' s' where r: "ticks k classID d s = Ticking d' s'" "uint (warning s') = max 0 (uint (warning s) - 50 * int k)"
    "ticker d' = None \<longleftrightarrow> uint (warning s) \<le> 50 * int k" by (elim exE conjE) (rule that)
  have "ticker d' = None \<and> warning s' = 0" if "20 \<le> k"
  proof -
    have "uint (warning s) \<le> 50 * int k" using that assms(2) by linarith
    then show ?thesis using r(2,3) by (simp add: uint_0_iff [symmetric] max_def)
  qed
  with r show ?thesis by (intro exI [of _ d'] exI [of _ s']) simp
qed

lemma decay_terminates_witness:
  "\<exists>d s. ticks 20 3 (startDecay 0 0 rateDecayInterval (SetWarning 120 oneInstance)) (SetWarning 120 oneInstance) = Ticking d s \<and>
     ticker d = None \<and> warning s = 0"
proof -
  have "ready 3 (SetWarning 120 oneInstance)"
    by (simp add: ready_def SetWarning_def oneInstance_def NewSession_def)
  moreover have "ticker (startDecay 0 0 rateDecayInterval (SetWarning 120 oneInstance)) \<noteq> None"
    by (simp add: startDecay_def SetWarning_def Let_def)
  moreover have "warning (SetWarning 120 oneInstance) = 120" by (simp add: SetWarning_def)
  ultimately show ?thesis
    using decay_terminates [of 3 "SetWarning 120 oneInstance" "startDecay 0 0 rateDecayInterval (SetWarning 120 oneInstance)" 20]
    by auto
qed

lemma Scale_full:
  assumes "warningCh s \<noteq> []" and "unat (classID - 1) < length (rateLimitStates s)"
    and "0 \<le> uint (warning s) + sint incr" and "uint (warning s) + sint incr \<le> 1000"
  shows "\<exists>s'. ScaleWarningAndRateLimit incr classID s = ScaleBlocked s' \<and> warningCh s' = warningCh s \<and>
    uint (warning s') = uint (warning s) + sint incr"
proof -
  define lvl :: u16 where "lvl = word_of_int (uint (warning s) + sint incr)"
  have "uint lvl = uint (warning s) + sint incr"
    using assms(3,4) by (simp add: lvl_def uint_word_of_int del: of_int_add)
  then show ?thesis
    using assms unfolding ScaleWarningAndRateLimit_def Let_def lvl_def [symmetric] by simp
qed

text \<open>C26: Three warnings in a row can stop a user's session for good. A warning puts the new level into a
  channel of one place while it holds the session's lock, and the goroutine that empties the channel needs this
  lock before it gets back to the channel. When it is storing a level while two more warnings arrive, the
  second of them waits for the channel and the goroutine for the lock: from then on nothing can happen.\<close>
theorem three_warnings_deadlock:
  assumes "ready classID s" and "warning s = 0"
  shows "\<exists>W. (warnStep classID)\<^sup>*\<^sup>* \<lparr>wwSession = s, wwReceiver = Receiving, wwSignal = False, wwLocked = False\<rparr> W \<and>
    warning (wwSession W) = 300 \<and> wwLocked W \<and> (\<forall>V. \<not> warnStep classID W V)"
proof -
  let ?W = "\<lambda>s r g l. \<lparr>wwSession = s, wwReceiver = r, wwSignal = g, wwLocked = l\<rparr>"
  have e: "sint (100 :: 16 word) = 100" by (simp add: sint_small [of 100, simplified])
  obtain s1 where s1: "ScaleWarningAndRateLimit 100 classID s = Scaled True (warning s1) s1" "uint (warning s1) = 100"
    "warningCh s1 = [warning s1]" "length (rateLimitStates s1) = length (rateLimitStates s)"
    using Scale_ready [OF assms(1), of 100] assms(2) e by auto
  let ?t = "s1\<lparr>warningCh := []\<rparr>"
  have t: "ready classID ?t" "receiveWarning s1 = Some (warning s1, ?t)"
    using assms(1) s1(3,4) by (simp_all add: ready_def receiveWarning_def)
  obtain s2 where s2: "ScaleWarningAndRateLimit 100 classID ?t = Scaled True (warning s2) s2" "uint (warning s2) = 200"
    "warningCh s2 = [warning s2]" "length (rateLimitStates s2) = length (rateLimitStates s)"
    using Scale_ready [OF t(1), of 100] s1 e by auto
  obtain s3 where s3: "ScaleWarningAndRateLimit 100 classID s2 = ScaleBlocked s3" "uint (warning s3) = 300" "warningCh s3 \<noteq> []"
    using Scale_full [of s2 classID 100] s2 e assms(1) by (auto simp: ready_def)
  have pos: "warning s1 > 0" using s1(2) by (auto simp: word_gt_0)
  have steps: "warnStep classID (?W s Receiving False False) (?W s1 Receiving False False)"
    "warnStep classID (?W s1 Receiving False False) (?W ?t (Signalling (warning s1)) False False)"
    "warnStep classID (?W ?t (Signalling (warning s1)) False False) (?W ?t (Storing (warning s1)) True False)"
    "warnStep classID (?W ?t (Storing (warning s1)) True False) (?W ?t (Storing (warning s1)) False False)"
    "warnStep classID (?W ?t (Storing (warning s1)) False False) (?W s2 (Storing (warning s1)) False False)"
    "warnStep classID (?W s2 (Storing (warning s1)) False False) (?W s3 (Storing (warning s1)) False True)"
    "warnStep classID (?W s3 (Storing (warning s1)) False True) (?W s3 (Telling (warning s1)) False True)"
    using warnStep.warn [of "?W s Receiving False False" 100 classID] s1(1)
      warnStep.receive [of "?W s1 Receiving False False" _ _ classID] t(2) pos
      warnStep.signal [of "?W ?t (Signalling (warning s1)) False False" _ classID]
      warnStep.wake [of "?W ?t (Storing (warning s1)) True False" classID]
      warnStep.warn [of "?W ?t (Storing (warning s1)) False False" 100 classID] s2(1)
      warnStep.waits [of "?W s2 (Storing (warning s1)) False False" 100 classID] s3(1)
      warnStep.stored [of "?W s3 (Storing (warning s1)) False True" _ classID]
    by simp_all
  have "(warnStep classID)\<^sup>*\<^sup>* (?W s Receiving False False) (?W s3 (Telling (warning s1)) False True)"
    using steps by (meson converse_rtranclp_into_rtranclp rtranclp.rtrancl_refl)
  moreover have "\<not> warnStep classID (?W s3 (Telling (warning s1)) False True) V" for V
    using s3(3) by (auto elim: warnStep.cases)
  moreover have "warning s3 = 300" using s3(2) by (simp add: word_uint_eq_iff)
  ultimately show ?thesis by (intro exI [of _ "?W s3 (Telling (warning s1)) False True"]) simp
qed

lemma three_warnings_deadlock_witness:
  "\<exists>W. (warnStep 3)\<^sup>*\<^sup>* \<lparr>wwSession = oneInstance, wwReceiver = Receiving, wwSignal = False, wwLocked = False\<rparr> W \<and>
     (\<forall>V. \<not> warnStep 3 W V)"
proof -
  have "ready 3 oneInstance" "warning oneInstance = 0" by (simp_all add: ready_def oneInstance_def NewSession_def)
  from three_warnings_deadlock [OF this] show ?thesis by blast
qed

end
