(* ===== verification/Foodgroup_Chat.thy ===== *)
theory Foodgroup_Chat
  imports State_Catalog Foodgroup_Icbm
begin

text \<open>
  The chat services: \<open>foodgroup/chat.go\<close> (messages, whispers, die rolls and the notices of who comes and
  goes, over the manager of the rooms' sessions) and \<open>foodgroup/chat_nav.go\<close> (the creation and lookup
  of rooms, over the table of rooms). The tokenizer of HTML and the die are parameters: the tokens
  of a text up to its end, and the number the i-th throw shows.
\<close>

section \<open>Constants and errors\<close>

datatype chatFault = ChatNoMessage | ChatNoText | ChatUnmarshal gerr | ChatPanic gerr
  | errChatNavRoomNameMissing | errChatNavRoomCreateFailed catalogError | errChatNavRetrieveFailed catalogError
  | errChatNavMismatchedExchange | ChatNavRoomNotFound catalogError

abbreviation (input) FoodGroup_Chat :: u16 where "FoodGroup_Chat \<equiv> 0x000E"
abbreviation (input) FoodGroup_ChatNav :: u16 where "FoodGroup_ChatNav \<equiv> 0x000D"
abbreviation (input) ChatRoomInfoUpdate :: u16 where "ChatRoomInfoUpdate \<equiv> 0x0002"
abbreviation (input) ChatUsersJoined :: u16 where "ChatUsersJoined \<equiv> 0x0003"
abbreviation (input) ChatUsersLeft :: u16 where "ChatUsersLeft \<equiv> 0x0004"
abbreviation (input) ChatChannelMsgToClient :: u16 where "ChatChannelMsgToClient \<equiv> 0x0006"
abbreviation (input) ChatTLVPublicWhisperFlag :: u16 where "ChatTLVPublicWhisperFlag \<equiv> 0x01"
abbreviation (input) ChatTLVWhisperToUser :: u16 where "ChatTLVWhisperToUser \<equiv> 0x02"
abbreviation (input) ChatTLVSenderInformation :: u16 where "ChatTLVSenderInformation \<equiv> 0x03"
abbreviation (input) ChatTLVMessageInfo :: u16 where "ChatTLVMessageInfo \<equiv> 0x05"
abbreviation (input) ChatTLVEnableReflectionFlag :: u16 where "ChatTLVEnableReflectionFlag \<equiv> 0x06"
abbreviation (input) ChatTLVMessageInfoText :: u16 where "ChatTLVMessageInfoText \<equiv> 0x01"
abbreviation (input) ChatTLVMessageInfoEncoding :: u16 where "ChatTLVMessageInfoEncoding \<equiv> 0x02"
abbreviation (input) ChatTLVMessageInfoLang :: u16 where "ChatTLVMessageInfoLang \<equiv> 0x03"
abbreviation (input) ChatRoomTLVClassPerms :: u16 where "ChatRoomTLVClassPerms \<equiv> 0x02"
abbreviation (input) ChatRoomTLVMaxConcurrentRooms :: u16 where "ChatRoomTLVMaxConcurrentRooms \<equiv> 0x03"
abbreviation (input) ChatRoomTLVMaxNameLen :: u16 where "ChatRoomTLVMaxNameLen \<equiv> 0x04"
abbreviation (input) ChatRoomTLVCharSet1 :: u16 where "ChatRoomTLVCharSet1 \<equiv> 0xD6"
abbreviation (input) ChatRoomTLVLang1 :: u16 where "ChatRoomTLVLang1 \<equiv> 0xD7"
abbreviation (input) ChatRoomTLVCharSet2 :: u16 where "ChatRoomTLVCharSet2 \<equiv> 0xD8"
abbreviation (input) ChatRoomTLVLang2 :: u16 where "ChatRoomTLVLang2 \<equiv> 0xD9"
abbreviation (input) ChatNavErr :: u16 where "ChatNavErr \<equiv> 0x0001"
abbreviation (input) ChatNavNavInfo :: u16 where "ChatNavNavInfo \<equiv> 0x0009"
abbreviation (input) ChatNavTLVMaxConcurrentRooms :: u16 where "ChatNavTLVMaxConcurrentRooms \<equiv> 0x0002"
abbreviation (input) ChatNavTLVExchangeInfo :: u16 where "ChatNavTLVExchangeInfo \<equiv> 0x0003"
abbreviation (input) ChatNavTLVRoomInfo :: u16 where "ChatNavTLVRoomInfo \<equiv> 0x0004"
abbreviation (input) ErrorCodeNoMatch :: u16 where "ErrorCodeNoMatch \<equiv> 0x14"

definition chatTLVs :: "(u16 \<times> gtype \<times> gval) list \<Rightarrow> chatFault + TLVList" where
  "chatTLVs es = (case appendTLVs es [] of Inl e \<Rightarrow> Inl (ChatPanic e) | Inr tlvs \<Rightarrow> Inr tlvs)"

definition chatUserInfo :: "int \<Rightarrow> Session \<Rightarrow> chatFault + TLVUserInfo" where
  "chatUserInfo now s = (case Session_TLVUserInfo now s of Inl e \<Rightarrow> Inl (ChatPanic e) | Inr info \<Rightarrow> Inr info)"

section \<open>Die rolls\<close>

text \<open>The command \<open>^//roll(?:-(dice|sides)([0-9]{1,3}))?(?:-(dice|sides)([0-9]{1,3}))?\s*$\<close>. One optional
  group: its keyword, its digits (as many as there are, at most three) and the text behind it. A
  shorter match of the digits never helps, since what may follow a group is no digit.\<close>

datatype rollArg = NoArg | DiceArg bytes | SidesArg bytes

definition upTo3Digits :: "bytes \<Rightarrow> bytes" where
  "upTo3Digits s = takeWhile isDecimal (take 3 s)"

definition rollGroup :: "bytes \<Rightarrow> rollArg \<times> bytes" where
  "rollGroup s =
     (let after = (\<lambda>kw mk. let r = drop (length kw) s; ds = upTo3Digits r in
            if take (length kw) s = kw \<and> ds \<noteq> [] then Some (mk ds, drop (length ds) r) else None)
      in case after (asciiBytes ''-dice'') DiceArg of
           Some x \<Rightarrow> x
         | None \<Rightarrow> (case after (asciiBytes ''-sides'') SidesArg of Some x \<Rightarrow> x | None \<Rightarrow> (NoArg, s)))"

definition regexpSpace :: "byte \<Rightarrow> bool" where
  "regexpSpace b \<longleftrightarrow> b \<in> {0x09, 0x0A, 0x0C, 0x0D, 0x20}"

definition rollDiceRgxp :: "bytes \<Rightarrow> (rollArg \<times> rollArg) option" where
  "rollDiceRgxp s =
     (let p = asciiBytes ''//roll'' in
      if take (length p) s \<noteq> p then None
      else
        (let (a, s1) = rollGroup (drop (length p) s); (b, s2) = rollGroup s1 in
         if list_all regexpSpace s2 then Some (a, b) else None))"

definition sameKeyword :: "rollArg \<Rightarrow> rollArg \<Rightarrow> bool" where
  "sameKeyword a b = (case (a, b) of (DiceArg _, DiceArg _) \<Rightarrow> True | (SidesArg _, SidesArg _) \<Rightarrow> True | _ \<Rightarrow> False)"

definition applyArg :: "rollArg \<Rightarrow> int \<times> int \<Rightarrow> (int \<times> int) option" where
  "applyArg a ds =
     (let (dice, sides) = ds in
      case a of
        NoArg \<Rightarrow> Some (dice, sides)
      | SidesArg v \<Rightarrow> (case strconv_Atoi v of None \<Rightarrow> None
          | Some n \<Rightarrow> if n = 0 \<or> n > 999 then None else Some (dice, n))
      | DiceArg v \<Rightarrow> (case strconv_Atoi v of None \<Rightarrow> None
          | Some n \<Rightarrow> if n = 0 \<or> n > 15 then None else Some (n, sides)))"

definition parseDiceCommand :: "bytes \<Rightarrow> (int \<times> int) option" where
  "parseDiceCommand txt =
     (case rollDiceRgxp txt of
        None \<Rightarrow> None
      | Some (a, b) \<Rightarrow> if sameKeyword a b then None else Option.bind (applyArg a (2, 6)) (applyArg b))"

text \<open>The answer to a roll; \<open>die i\<close> is what the i-th throw shows.\<close>

definition rollDice :: "(nat \<Rightarrow> nat) \<Rightarrow> DisplayScreenName \<Rightarrow> int \<Rightarrow> int \<Rightarrow> chatFault + TLVList" where
  "rollDice die name dice sides = chatTLVs
     [(ChatTLVMessageInfoEncoding, TString, VString (asciiBytes ''us-ascii'')),
      (ChatTLVMessageInfoLang, TString, VString (asciiBytes ''en'')),
      (ChatTLVMessageInfoText, TString, VString
        (asciiBytes ''<HTML><BODY BGCOLOR='' @ [0x22] @ asciiBytes ''#ffffff'' @ [0x22] @ asciiBytes ''><FONT LANG='' @ [0x22]
         @ asciiBytes ''0'' @ [0x22] @ asciiBytes ''>'' @ name @ asciiBytes '' rolled '' @ showDecimal (nat dice) @ [0x20]
         @ showDecimal (nat sides) @ asciiBytes ''-sided dice:''
         @ concat (map (\<lambda>i. [0x20] @ showDecimal (die i)) [0..<nat dice])
         @ asciiBytes ''</FONT></BODY></HTML>''))]"

section \<open>Messages\<close>

text \<open>The session that announces the results of rolls.\<close>

definition sessOnlineHost :: "platform \<Rightarrow> Session" where
  "sessOnlineHost P =
     (let sn = asciiBytes ''OnlineHost'';
          sess = SetIdentScreenName (DisplayScreenName_IdentScreenName P sn) (SetDisplayScreenName sn NewSession)
      in case AddInstance sess of None \<Rightarrow> sess | Some (i, s) \<Rightarrow> s)"

record ChatMsg =
  chmCookie :: u64
  chmChannel :: u16
  chmTLVs :: TLVList

text \<open>The first text token; the end of the text is an empty message.\<close>

fun firstText :: "htmlToken list \<Rightarrow> bytes" where
  "firstText [] = []"
| "firstText (TextToken b # toks) = b"
| "firstText (_ # toks) = firstText toks"

definition extractChatMessage :: "(bytes \<Rightarrow> htmlToken list) \<Rightarrow> TLVList \<Rightarrow> chatFault + bytes" where
  "extractChatMessage tokens msg =
     (case TLVList_Bytes msg ChatTLVMessageInfoText of None \<Rightarrow> Inl ChatNoText | Some b \<Rightarrow> Inr (firstText (tokens b)))"

definition newChatTLVBlock :: "int \<Rightarrow> TLVList \<Rightarrow> Session \<Rightarrow> TLVList \<Rightarrow> chatFault + TLVList" where
  "newChatTLVBlock now body sender msg =
     ebind (chatUserInfo now sender) (\<lambda>info. chatTLVs
       ([(ChatTLVSenderInformation, TLVUserInfo_type, TLVUserInfo_val info)]
        @ (if TLVList_HasTag body ChatTLVPublicWhisperFlag then [(ChatTLVPublicWhisperFlag, TSlice TU8, bytesVal [])] else [])
        @ [(ChatTLVMessageInfo, TLVRestBlock_type, TLVList_val msg)]))"

definition fixEncoding :: "TLVList \<Rightarrow> TLVList" where
  "fixEncoding msg =
     (if TLVList_String msg ChatTLVMessageInfoEncoding = Some (asciiBytes ''ISO 8859'')
      then TLVList_Replace msg \<lparr>Tag = ChatTLVMessageInfoEncoding, Value = asciiBytes ''ISO-8859-1''\<rparr> else msg)"

definition essentialTLV :: "TLV \<Rightarrow> bool" where
  "essentialTLV t \<longleftrightarrow> Tag t = ChatTLVMessageInfoText \<or> Tag t = ChatTLVMessageInfoEncoding \<or> Tag t = ChatTLVMessageInfoLang"

record chatEnv =
  chPlatform :: platform
  chNow :: int
  chTokens :: "bytes \<Rightarrow> htmlToken list"
  chDie :: "nat \<Rightarrow> nat"

definition transformChatMessage :: "chatEnv \<Rightarrow> TLVList \<Rightarrow> Session \<Rightarrow> chatFault + TLVList" where
  "transformChatMessage env body sender =
     (case TLVList_Bytes body ChatTLVMessageInfo of
        None \<Rightarrow> Inl ChatNoMessage
      | Some blob \<Rightarrow>
          (case fst (UnmarshalBE TLVRestBlock_type blob) of
             Inl e \<Rightarrow> Inl (ChatUnmarshal e)
           | Inr v \<Rightarrow>
               ebind (extractChatMessage (chTokens env) (toTLVList v)) (\<lambda>txt.
                 case parseDiceCommand txt of
                   Some (dice, sides) \<Rightarrow>
                     ebind (rollDice (chDie env) (displayScreenName sender) dice sides)
                       (newChatTLVBlock (chNow env) body (sessOnlineHost (chPlatform env)))
                 | None \<Rightarrow> newChatTLVBlock (chNow env) body sender (filter essentialTLV (fixEncoding (toTLVList v))))))"

definition chatMsgOut :: "ChatMsg \<Rightarrow> u32 \<Rightarrow> TLVList \<Rightarrow> SNACMessage" where
  "chatMsgOut body req tlvs = (replyFrame FoodGroup_Chat ChatChannelMsgToClient req,
     Some (SNAC_0x0E_0x06_ChatChannelMsgToClient, VStruct [VU64 (chmCookie body),
       VU16 (if chmChannel body = 0xFFFF then ICBMChannelMIME else chmChannel body), TLVList_val tlvs]))"

text \<open>\<open>sess\<close> is the address of the sender's session in the store of the rooms.\<close>

definition Chat_ChannelMsgToHost :: "chatEnv \<Rightarrow> nat \<Rightarrow> u32 \<Rightarrow> ChatMsg \<Rightarrow> ChatManager \<Rightarrow> sessions
    \<Rightarrow> chatFault + SNACMessage option \<times> sessions" where
  "Chat_ChannelMsgToHost env sess req body cm h =
     ebind (transformChatMessage env (chmTLVs body) (h ! sess)) (\<lambda>tlvs.
       let msg = chatMsgOut body 0 tlvs;
           cookie = chatRoomCookie (h ! sess);
           h1 = (if TLVList_HasTag (chmTLVs body) ChatTLVWhisperToUser \<and> \<not> TLVList_HasTag (chmTLVs body) ChatTLVPublicWhisperFlag
                 then chatRelayToScreenName cookie (NewIdentScreenName (chPlatform env)
                   (case TLVList_String (chmTLVs body) ChatTLVWhisperToUser of None \<Rightarrow> [] | Some r \<Rightarrow> r)) msg cm h
                 else RelayToAllExcept cookie (identScreenName (h ! sess)) msg cm h)
       in Inr (if TLVList_Bytes (chmTLVs body) ChatTLVEnableReflectionFlag \<noteq> None then Some (chatMsgOut body req tlvs) else None, h1))"

section \<open>Coming and going\<close>

fun chatInfos :: "int \<Rightarrow> Session list \<Rightarrow> chatFault + gval list" where
  "chatInfos now [] = Inr []"
| "chatInfos now (s # ss) = ebind (chatUserInfo now s) (\<lambda>i. ebind (chatInfos now ss) (\<lambda>is. Inr (TLVUserInfo_val i # is)))"

definition setOnlineChatUsers :: "int \<Rightarrow> nat \<Rightarrow> ChatManager \<Rightarrow> sessions \<Rightarrow> chatFault + sessions" where
  "setOnlineChatUsers now sess cm h =
     (let cookie = chatRoomCookie (h ! sess) in
      ebind (chatInfos now (map (\<lambda>s. h ! s) (chatAllSessions cookie cm h))) (\<lambda>infos.
        Inr (chatRelayToScreenName cookie (identScreenName (h ! sess))
          (replyFrame FoodGroup_Chat ChatUsersJoined 0, Some (SNAC_0x0E_0x03_ChatUsersJoined, VStruct [VSlice infos])) cm h)))"

definition alertUserJoined :: "int \<Rightarrow> nat \<Rightarrow> ChatManager \<Rightarrow> sessions \<Rightarrow> chatFault + sessions" where
  "alertUserJoined now sess cm h =
     ebind (chatUserInfo now (h ! sess)) (\<lambda>info.
       Inr (RelayToAllExcept (chatRoomCookie (h ! sess)) (identScreenName (h ! sess))
         (replyFrame FoodGroup_Chat ChatUsersJoined 0, Some (SNAC_0x0E_0x03_ChatUsersJoined,
            VStruct [VSlice [TLVUserInfo_val info]])) cm h))"

definition alertUserLeft :: "int \<Rightarrow> nat \<Rightarrow> ChatManager \<Rightarrow> sessions \<Rightarrow> chatFault + sessions" where
  "alertUserLeft now sess cm h =
     ebind (chatUserInfo now (h ! sess)) (\<lambda>info.
       Inr (RelayToAllExcept (chatRoomCookie (h ! sess)) (identScreenName (h ! sess))
         (replyFrame FoodGroup_Chat ChatUsersLeft 0, Some (SNAC_0x0E_0x04_ChatUsersLeft,
            VStruct [VSlice [TLVUserInfo_val info]])) cm h))"

text \<open>What a room is told as: the body of the update and the same value in a TLV of the navigation service.\<close>

definition roomInfo_val :: "ChatRoom \<Rightarrow> chatFault + gval" where
  "roomInfo_val room = (case ChatRoom_TLVList room of
      Inl e \<Rightarrow> Inl (ChatPanic e)
    | Inr tlvs \<Rightarrow> Inr (VStruct [VU16 (roomExchange room), VString (ChatRoom_Cookie room), VU16 (ChatRoom_InstanceNumber room),
        VU8 (ChatRoom_DetailLevel room), TLVList_val tlvs]))"

definition sendChatRoomInfoUpdate :: "nat \<Rightarrow> ChatRoom \<Rightarrow> ChatManager \<Rightarrow> sessions \<Rightarrow> chatFault + sessions" where
  "sendChatRoomInfoUpdate sess room cm h =
     ebind (roomInfo_val room) (\<lambda>v.
       Inr (chatRelayToScreenName (chatRoomCookie (h ! sess)) (identScreenName (h ! sess))
         (replyFrame FoodGroup_Chat ChatRoomInfoUpdate 0, Some (SNAC_0x0E_0x02_ChatRoomInfoUpdate, v)) cm h))"

section \<open>Navigation\<close>

definition defaultExchangeCfg :: "chatFault + TLVList" where
  "defaultExchangeCfg = chatTLVs
     [(ChatRoomTLVMaxConcurrentRooms, TU8, VU8 10),
      (ChatRoomTLVClassPerms, TU16, VU16 0x0010),
      (ChatRoomTLVMaxNameLen, TU16, VU16 100),
      (ChatRoomTLVFlags, TU16, VU16 15),
      (ChatRoomTLVNavCreatePerms, TU8, VU8 2),
      (ChatRoomTLVCharSet1, TString, VString (asciiBytes ''us-ascii'')),
      (ChatRoomTLVLang1, TString, VString (asciiBytes ''en'')),
      (ChatRoomTLVCharSet2, TString, VString (asciiBytes ''us-ascii'')),
      (ChatRoomTLVLang2, TString, VString (asciiBytes ''en''))]"

definition navInfo :: "u32 \<Rightarrow> (u16 \<times> gtype \<times> gval) list \<Rightarrow> chatFault + SNACMessage" where
  "navInfo req es = ebind (chatTLVs es) (\<lambda>tlvs.
     Inr (replyFrame FoodGroup_ChatNav ChatNavNavInfo req, Some (SNAC_0x0D_0x09_ChatNavNavInfo, VStruct [TLVList_val tlvs])))"

definition exchangeEntry :: "u16 \<Rightarrow> TLVList \<Rightarrow> u16 \<times> gtype \<times> gval" where
  "exchangeEntry exchange cfg = (ChatNavTLVExchangeInfo, SNAC_0x0D_0x09_TLVExchangeInfo, VStruct [VU16 exchange, TLVList_val cfg])"

definition sendChatNavErrorSNAC :: "u32 \<Rightarrow> u16 \<Rightarrow> SNACMessage" where
  "sendChatNavErrorSNAC req errorCode = (replyFrame FoodGroup_ChatNav ChatNavErr req,
     Some (SNACError_type, VStruct [VU16 errorCode, TLVList_val []]))"

definition validateExchange :: "u16 \<Rightarrow> bool" where
  "validateExchange exchange \<longleftrightarrow> exchange = PrivateExchange \<or> exchange = PublicExchange"

definition RequestChatRights :: "u32 \<Rightarrow> chatFault + SNACMessage" where
  "RequestChatRights req = ebind defaultExchangeCfg (\<lambda>cfg. navInfo req
     [(ChatNavTLVMaxConcurrentRooms, TU8, VU8 10), exchangeEntry PrivateExchange cfg, exchangeEntry PublicExchange cfg])"

definition roomReply :: "u32 \<Rightarrow> ChatRoom \<Rightarrow> chatFault + SNACMessage" where
  "roomReply req room = ebind (roomInfo_val room) (\<lambda>v. navInfo req [(ChatNavTLVRoomInfo, SNAC_0x0E_0x02_ChatRoomInfoUpdate, v)])"

text \<open>The exchange and the TLVs are what is read of the request.\<close>

definition CreateRoom :: "platform \<Rightarrow> int \<Rightarrow> IdentScreenName \<Rightarrow> u32 \<Rightarrow> u16 \<Rightarrow> TLVList \<Rightarrow> CatalogStore
    \<Rightarrow> (chatFault + SNACMessage) \<times> CatalogStore" where
  "CreateRoom P now me req exchange tlvs S =
     (if \<not> validateExchange exchange then (Inr (sendChatNavErrorSNAC req ErrorCodeNotSupportedByHost), S)
      else
        (case TLVList_String tlvs ChatRoomTLVRoomName of
           None \<Rightarrow> (Inl errChatNavRoomNameMissing, S)
         | Some name \<Rightarrow>
             (case ChatRoomByName P exchange name S of
                (room, None) \<Rightarrow> (roomReply req room, S)
              | (room, Some e) \<Rightarrow>
                  if e \<noteq> ErrChatRoomNotFound then (Inl (errChatNavRetrieveFailed e), S)
                  else if exchange = PublicExchange then (Inr (sendChatNavErrorSNAC req ErrorCodeNoMatch), S)
                  else
                    (case CreateChatRoom now (NewChatRoom name me exchange) S of
                       ((room, Some e), S1) \<Rightarrow> (Inl (errChatNavRoomCreateFailed e), S1)
                     | ((room, None), S1) \<Rightarrow> (roomReply req room, S1)))))"

definition RequestRoomInfo :: "platform \<Rightarrow> u32 \<Rightarrow> u16 \<Rightarrow> bytes \<Rightarrow> CatalogStore \<Rightarrow> chatFault + SNACMessage" where
  "RequestRoomInfo P req exchange cookie S =
     (if \<not> validateExchange exchange then Inr (sendChatNavErrorSNAC req ErrorCodeNotSupportedByHost)
      else
        (case ChatRoomByCookie P cookie S of
           (_, Some e) \<Rightarrow> Inl (ChatNavRoomNotFound e)
         | (room, None) \<Rightarrow> if roomExchange room \<noteq> exchange then Inl errChatNavMismatchedExchange else roomReply req room))"

definition ExchangeInfo :: "u32 \<Rightarrow> u16 \<Rightarrow> chatFault + SNACMessage" where
  "ExchangeInfo req exchange =
     (if \<not> validateExchange exchange then Inr (sendChatNavErrorSNAC req ErrorCodeNotSupportedByHost)
      else ebind defaultExchangeCfg (\<lambda>cfg. navInfo req [(ChatNavTLVMaxConcurrentRooms, TU8, VU8 10), exchangeEntry exchange cfg]))"

section \<open>Die rolls parse as they are written\<close>

lemma length_showDecimal: "n < 1000 \<Longrightarrow> length (showDecimal n) \<le> 3"
  by (simp add: showDecimal.simps [of n] showDecimal.simps [of "n div 10"] showDecimal.simps [of "n div 10 div 10"])

lemma upTo3Digits_show:
  assumes "n < 1000" and "r = [] \<or> \<not> isDecimal (hd r)"
  shows "upTo3Digits (showDecimal n @ r) = showDecimal n"
proof -
  have "takeWhile isDecimal (take k r) = []" for k using assms(2) by (cases r; cases k) auto
  then show ?thesis using length_showDecimal [OF assms(1)] showDecimal_isDecimal [of n]
    by (simp add: upTo3Digits_def list_all_iff takeWhile_append2)
qed

lemma rollGroup_args:
  assumes "n < 1000" and "r = [] \<or> \<not> isDecimal (hd r)"
  shows "rollGroup (asciiBytes ''-dice'' @ showDecimal n @ r) = (DiceArg (showDecimal n), r)"
    "rollGroup (asciiBytes ''-sides'' @ showDecimal n @ r) = (SidesArg (showDecimal n), r)"
  using upTo3Digits_show [OF assms] showDecimal_not_Nil [of n]
  by (simp_all add: rollGroup_def Let_def asciiBytes_def)

lemma rollGroup_none: "s = [] \<or> hd s \<noteq> 0x2D \<Longrightarrow> rollGroup s = (NoArg, s)"
  by (cases s) (auto simp: rollGroup_def asciiBytes_def)

lemma Atoi_show: "n < 2 ^ 63 \<Longrightarrow> strconv_Atoi (showDecimal n) = Some (int n)"
proof -
  assume n: "n < 2 ^ 63"
  obtain b bs where s: "showDecimal n = b # bs" using showDecimal_not_Nil by (cases "showDecimal n") auto
  have "isDecimal b" using showDecimal_isDecimal [of n] s by simp
  then have "b \<noteq> 0x2B \<and> b \<noteq> 0x2D" by (simp add: isDecimal_facts)
  moreover have "atoiDigits (showDecimal n) = Some (int n)"
    using showDecimal_isDecimal showDecimal_not_Nil decimalValue_showDecimal by (simp add: atoiDigits_def)
  ultimately show ?thesis using n s by (simp add: strconv_Atoi_def atoiRange_def)
qed

lemma rollGroup_digits:
  assumes "rollGroup s = (a, r)"
  shows "case a of NoArg \<Rightarrow> True | DiceArg v \<Rightarrow> list_all isDecimal v | SidesArg v \<Rightarrow> list_all isDecimal v"
  using assms set_takeWhileD
  by (fastforce simp: rollGroup_def Let_def upTo3Digits_def list_all_iff split: if_splits)

lemma Atoi_digits_nonneg: "list_all isDecimal v \<Longrightarrow> strconv_Atoi v = Some n \<Longrightarrow> 0 \<le> n"
proof -
  assume v: "list_all isDecimal v" and n: "strconv_Atoi v = Some n"
  have "0 \<le> decimalValue v" using v
  proof (induction v rule: rev_induct)
    case (snoc b bs)
    then have "0x30 \<le> uint b" by (simp add: isDecimal_def word_le_def)
    with snoc show ?case by (simp add: decimalValue_snoc)
  qed (simp add: decimalValue_def)
  with v n show ?thesis
    by (cases v) (auto simp: strconv_Atoi_def isDecimal_facts atoiDigits_def atoiRange_def split: if_splits)
qed

lemma applyArg_bounds:
  assumes "case a of NoArg \<Rightarrow> True | DiceArg v \<Rightarrow> list_all isDecimal v | SidesArg v \<Rightarrow> list_all isDecimal v"
    and "applyArg a (d, s) = Some (d', s')" and "1 \<le> d \<and> d \<le> 15 \<and> 1 \<le> s \<and> s \<le> 999"
  shows "1 \<le> d' \<and> d' \<le> 15 \<and> 1 \<le> s' \<and> s' \<le> 999"
  using assms Atoi_digits_nonneg by (fastforce simp: applyArg_def split: rollArg.splits option.splits if_splits)

lemma regexpSpace_start: "list_all regexpSpace ws \<Longrightarrow> ws = [] \<or> (\<not> isDecimal (hd ws) \<and> hd ws \<noteq> 0x2D)"
  by (cases ws) (auto simp: regexpSpace_def isDecimal_def)

text \<open>The die command parses as it is documented. Every command a client can write, in either order of its
  two arguments or without them, with trailing white space, gives the dice and sides it names, the
  defaults being two dice of six sides; and whatever text is taken for a command, between one and
  fifteen dice are thrown, with between one and 999 sides.\<close>
theorem roll_command_parses:
  assumes "1 \<le> d" and "d \<le> 15" and "1 \<le> s" and "s \<le> 999" and ws: "list_all regexpSpace ws"
  shows "parseDiceCommand (asciiBytes ''//roll'' @ ws) = Some (2, 6)
    \<and> parseDiceCommand (asciiBytes ''//roll-dice'' @ showDecimal d @ ws) = Some (int d, 6)
    \<and> parseDiceCommand (asciiBytes ''//roll-sides'' @ showDecimal s @ ws) = Some (2, int s)
    \<and> parseDiceCommand (asciiBytes ''//roll-dice'' @ showDecimal d @ asciiBytes ''-sides'' @ showDecimal s @ ws) = Some (int d, int s)
    \<and> parseDiceCommand (asciiBytes ''//roll-sides'' @ showDecimal s @ asciiBytes ''-dice'' @ showDecimal d @ ws) = Some (int d, int s)
    \<and> (\<forall>cmd a b. parseDiceCommand cmd = Some (a, b) \<longrightarrow> 1 \<le> a \<and> a \<le> 15 \<and> 1 \<le> b \<and> b \<le> 999)"
proof -
  let ?D = "asciiBytes ''-dice'' @ showDecimal d" and ?S = "asciiBytes ''-sides'' @ showDecimal s"
  have w: "ws = [] \<or> \<not> isDecimal (hd ws)" "rollGroup ws = (NoArg, ws)"
    using regexpSpace_start [OF ws] rollGroup_none by auto
  have dash: "\<not> isDecimal (hd (asciiBytes ''-dice'' @ x))" "\<not> isDecimal (hd (asciiBytes ''-sides'' @ x))" for x
    by (simp_all add: asciiBytes_def isDecimal_def)
  have roll: "parseDiceCommand (asciiBytes ''//roll'' @ t) =
      (case rollGroup t of (a, t1) \<Rightarrow> case rollGroup t1 of (b, t2) \<Rightarrow>
         if list_all regexpSpace t2 \<and> \<not> sameKeyword a b then Option.bind (applyArg a (2, 6)) (applyArg b) else None)" for t
    by (simp add: parseDiceCommand_def rollDiceRgxp_def asciiBytes_def split: prod.split)
  have join: "asciiBytes ''//roll-dice'' @ x = asciiBytes ''//roll'' @ asciiBytes ''-dice'' @ x"
    "asciiBytes ''//roll-sides'' @ x = asciiBytes ''//roll'' @ asciiBytes ''-sides'' @ x" for x
    by (simp_all add: asciiBytes_def)
  have n: "strconv_Atoi (showDecimal d) = Some (int d)" "strconv_Atoi (showDecimal s) = Some (int s)"
    using assms by (simp_all add: Atoi_show)
  have lt: "d < 1000" "s < 1000" using assms by simp_all
  note g = rollGroup_args(1) [OF lt(1)] rollGroup_args(2) [OF lt(2)]
  have "1 \<le> a \<and> a \<le> 15 \<and> 1 \<le> b \<and> b \<le> 999" if r: "parseDiceCommand cmd = Some (a, b)" for cmd a b
  proof -
    obtain t x y t1 t2 d1 s1 where "rollGroup t = (x, t1)" and "rollGroup t1 = (y, t2)"
      and "applyArg x (2, 6) = Some (d1, s1)" and "applyArg y (d1, s1) = Some (a, b)"
      using r by (auto simp: parseDiceCommand_def rollDiceRgxp_def Let_def bind_eq_Some_conv asciiBytes_def
        split: option.splits if_splits prod.splits)
    then show ?thesis
      using applyArg_bounds [OF rollGroup_digits, of t1 y t2 d1 s1 a b] applyArg_bounds [OF rollGroup_digits, of t x t1 2 6 d1 s1]
      by simp
  qed
  then show ?thesis
    unfolding join using w dash n ws assms(1-4)
    by (simp add: roll g sameKeyword_def applyArg_def)
qed

lemma roll_command_parses_witness:
  "parseDiceCommand (asciiBytes ''//roll-dice'' @ showDecimal 3 @ asciiBytes ''-sides'' @ showDecimal 20 @ [0x20]) = Some (3, 20)"
  using roll_command_parses [of 3 20 "[0x20]"] by (simp add: regexpSpace_def)

section \<open>Who a message is from and whom it reaches\<close>

lemma storeOk_AllSessions:
  assumes "storeOk m h"
  shows "distinct (AllSessions m h)"
proof -
  have entry: "slotSession (slots m ! a) = slotSess m a" "identScreenName (h ! slotSess m a) = k" if "(k, a) \<in> set (store m)" for k a
  proof -
    have "map_of (store m) k = Some a" using assms that by (simp add: storeOk_def)
    then show "identScreenName (h ! slotSess m a) = k" using storeOk_entry [OF assms] by auto
  qed (simp add: slotSess_def)
  have keys: "distinct (map fst (store m))" using assms by (simp add: storeOk_def)
  have "distinct (map (\<lambda>(k, a). slotSession (slots m ! a)) (store m))"
    unfolding distinct_map
  proof (intro conjI inj_onI)
    show "distinct (store m)" using keys by (simp add: distinct_map)
    fix x y assume x: "x \<in> set (store m)" and y: "y \<in> set (store m)"
      and eq: "(case x of (k, a) \<Rightarrow> slotSession (slots m ! a)) = (case y of (k, a) \<Rightarrow> slotSession (slots m ! a))"
    obtain k a l b where p: "x = (k, a)" "y = (l, b)" by fastforce
    then have "k = l" using x y eq entry by (metis case_prod_conv)
    then show "x = y" using x y p keys by (auto dest: eq_key_imp_eq_value)
  qed
  then show ?thesis by (simp add: AllSessions_def)
qed

lemma fold_except_nth:
  "distinct as \<Longrightarrow> s < length h \<Longrightarrow> \<forall>t. identScreenName (f t) = identScreenName t \<Longrightarrow>
    fold (\<lambda>s h. if identScreenName (h ! s) = n then h else updSession f s h) as h ! s =
      (if s \<in> set as \<and> identScreenName (h ! s) \<noteq> n then f (h ! s) else h ! s)"
  by (induction as arbitrary: h) (auto simp: nth_updSession)

definition addressees :: "platform \<Rightarrow> ChatMsg \<Rightarrow> IdentScreenName \<Rightarrow> SessionManager \<Rightarrow> sessions \<Rightarrow> nat set" where
  "addressees P body sender m h =
     (if TLVList_HasTag (chmTLVs body) ChatTLVWhisperToUser \<and> \<not> TLVList_HasTag (chmTLVs body) ChatTLVPublicWhisperFlag
      then {s. \<exists>r. TLVList_String (chmTLVs body) ChatTLVWhisperToUser = Some r \<and> RetrieveSession (NewIdentScreenName P r) m h = Some s}
      else {s. s \<in> set (AllSessions m h) \<and> identScreenName (h ! s) \<noteq> sender})"

lemma newChatTLVBlock_shape:
  assumes "newChatTLVBlock now body who msg = Inr tlvs"
  shows "\<exists>info t flag m. chatUserInfo now who = Inr info \<and>
    NewTLVBE ChatTLVSenderInformation (Some (TLVUserInfo_type, TLVUserInfo_val info)) = Inr t \<and>
    NewTLVBE ChatTLVMessageInfo (Some (TLVRestBlock_type, TLVList_val msg)) = Inr m \<and> tlvs = t # flag @ [m] \<and>
    map Tag flag = (if TLVList_HasTag body ChatTLVPublicWhisperFlag then [ChatTLVPublicWhisperFlag] else [])"
proof -
  have tag: "Tag t = tag" if "NewTLVBE tag v = Inr t" for tag v t
    using that by (auto simp: NewTLVBE_def newTLV_def split: option.splits sum.splits gtype.splits gval.splits)
  obtain info t m where info: "chatUserInfo now who = Inr info"
    "NewTLVBE ChatTLVSenderInformation (Some (TLVUserInfo_type, TLVUserInfo_val info)) = Inr t"
    "NewTLVBE ChatTLVMessageInfo (Some (TLVRestBlock_type, TLVList_val msg)) = Inr m"
    using assms by (auto simp: newChatTLVBlock_def chatTLVs_def ebind_def TLVList_Append_def split: sum.splits if_splits)
  show ?thesis
  proof (cases "TLVList_HasTag body ChatTLVPublicWhisperFlag")
    case True
    then obtain f where "NewTLVBE ChatTLVPublicWhisperFlag (Some (TSlice TU8, bytesVal [])) = Inr f" "tlvs = t # [f] @ [m]"
      using assms info by (auto simp: newChatTLVBlock_def chatTLVs_def ebind_def TLVList_Append_def split: sum.splits)
    with tag info True show ?thesis by (intro exI [of _ info] exI [of _ t] exI [of _ "[f]"] exI [of _ m]) simp
  next
    case False
    then have "tlvs = t # [] @ [m]"
      using assms info by (auto simp: newChatTLVBlock_def chatTLVs_def ebind_def TLVList_Append_def split: sum.splits)
    with info False show ?thesis by (intro exI [of _ info] exI [of _ t] exI [of _ "[]"] exI [of _ m]) simp
  qed
qed

text \<open>Under whom a message is told and with which content: as the sender's, with what is essential
  of it, unless its text is a command to roll dice, whose result OnlineHost tells.\<close>

definition announcedAs :: "chatEnv \<Rightarrow> TLVList \<Rightarrow> Session \<Rightarrow> Session \<Rightarrow> TLVList \<Rightarrow> bool" where
  "announcedAs env body sender who msg \<longleftrightarrow>
     (\<exists>blob v txt. TLVList_Bytes body ChatTLVMessageInfo = Some blob \<and> fst (UnmarshalBE TLVRestBlock_type blob) = Inr v \<and>
        extractChatMessage (chTokens env) (toTLVList v) = Inr txt \<and>
        (case parseDiceCommand txt of
           None \<Rightarrow> who = sender \<and> msg = filter essentialTLV (fixEncoding (toTLVList v))
         | Some (dice, sides) \<Rightarrow> who = sessOnlineHost (chPlatform env) \<and>
             rollDice (chDie env) (displayScreenName sender) dice sides = Inr msg))"

lemma transformChatMessage_from:
  assumes "transformChatMessage env body sender = Inr tlvs"
  shows "\<exists>who msg. announcedAs env body sender who msg \<and> newChatTLVBlock (chNow env) body who msg = Inr tlvs"
proof -
  obtain blob v said where d: "TLVList_Bytes body ChatTLVMessageInfo = Some blob" "fst (UnmarshalBE TLVRestBlock_type blob) = Inr v"
    "extractChatMessage (chTokens env) (toTLVList v) = Inr said"
    using assms by (auto simp: transformChatMessage_def ebind_def split: option.splits sum.splits)
  show ?thesis
  proof (cases "parseDiceCommand said")
    case None
    then show ?thesis using assms d by (auto simp: transformChatMessage_def announcedAs_def)
  next
    case (Some roll)
    obtain dice sides where "roll = (dice, sides)" by (cases roll)
    with Some assms d show ?thesis by (auto simp: transformChatMessage_def announcedAs_def ebind_eq_Inr)
  qed
qed



definition sampleRooms :: ChatManager where
  "sampleRooms = \<lparr>rooms = [([], 0)], managers = [bosMgr (sampleBOS emptyStore)]\<rparr>"

definition sampleChatMsg :: ChatMsg where
  "sampleChatMsg = \<lparr>chmCookie = 5, chmChannel = 3, chmTLVs = [\<lparr>Tag = ChatTLVMessageInfo, Value = [0, 1, 0, 1, 7]\<rparr>]\<rparr>"

definition sampleChatEnv :: chatEnv where
  "sampleChatEnv = \<lparr>chPlatform = samplePlatform, chNow = 0, chTokens = (\<lambda>b. [TextToken b]), chDie = (\<lambda>i. 1)\<rparr>"

lemma NewTLVBE_userInfo:
  assumes "length (tuiScreenName u) < 256" and "list_all TLV_ok (tuiTLVs u)" and "length (tuiTLVs u) < 2 ^ 16"
  shows "\<exists>b. NewTLVBE tag (Some (TLVUserInfo_type, TLVUserInfo_val u)) = Inr \<lparr>Tag = tag, Value = b\<rparr>"
proof -
  obtain x where x: "marshal_switch TLVBlock_type BigEndian noTag (TLVList_val (tuiTLVs u)) = Inr x"
    using TLVBlock_codec(1) [OF assms(2,3), of BigEndian] top_of_plain(1) [of TLVBlock_type] by (simp add: TLVBlock_type_def)
  moreover have "\<not> is_ptr TLVBlock_type" "is_struct TLVBlock_type" "TLVBlock_type \<noteq> TString" by (simp_all add: TLVBlock_type_def)
  ultimately show ?thesis using assms(1) by (simp add: TLVUserInfo_type_def TLVUserInfo_val_def marshal_value lenFits_def prefixWidth_def
      Let_def noTag_def)
qed

lemma sampleInfo:
  "\<exists>info b. chatUserInfo 0 (updInst 0 SetSignonComplete sampleSession) = Inr info \<and>
    NewTLVBE ChatTLVSenderInformation (Some (TLVUserInfo_type, TLVUserInfo_val info)) = Inr \<lparr>Tag = ChatTLVSenderInformation, Value = b\<rparr>"
proof -
  let ?s = "updInst 0 SetSignonComplete sampleSession"
  obtain info where info: "Session_TLVUserInfo 0 ?s = Inr info" using Session_TLVUserInfo_ok [of ?s] by auto
  have i: "inst ?s 0 = SetSignonComplete (newInstance 1)" and f: "buddyIcon ?s = zeroBARTID" "displayScreenName ?s = [97]"
    "instances ?s = [(1, 0)]"
    by (simp_all add: updInst_def inst_def sampleSession_def SetDisplayScreenName_def SetIdentScreenName_def oneInstance_def NewSession_def)
  have plain: "\<not> Idle ?s" "\<not> snd (BuddyIcon ?s)" "userFlags ?s AND OServiceUserFlagICQ \<noteq> OServiceUserFlagICQ" "Caps ?s = []" "displayScreenName ?s = [97]"
    using i by (simp_all add: Idle_def BuddyIcon_def userFlags_def Caps_def f Away_def away_def zeroBARTID_def Let_def newInstance_def SetSignonComplete_def)
  have "length (tuiScreenName info) < 256 \<and> list_all TLV_ok (tuiTLVs info) \<and> length (tuiTLVs info) < 2 ^ 16"
    using info by (auto simp: Session_TLVUserInfo_def userInfo_def userInfoEntries_def TLVList_Append_def ebind_def plain TLV_ok_def)
  then show ?thesis using info NewTLVBE_userInfo by (simp add: chatUserInfo_def)
qed


section \<open>Creating a room\<close>

text \<open>A room is created once. After a client asked for a room by its name and got
  the room's description for an answer, asking again for it, by whoever and in whatever case
  of ASCII letters, leads to the same room and changes nothing; in the
  public exchange, whose rooms the operator makes, no client's request ever changes the table.\<close>
theorem CreateRoom_again:
  assumes "TLVList_String tlvs ChatRoomTLVRoomName = Some name" and "TLVList_String tlvs' ChatRoomTLVRoomName = Some name'"
    and "sqlLower name' = sqlLower name" and "NewIdentScreenName P me = me"
    and "CreateRoom P now me req PrivateExchange tlvs S = (Inr reply, S1)"
  shows "(\<exists>room. roomReply req room = Inr reply \<and> CreateRoom P now' you req' PrivateExchange tlvs' S1 = (roomReply req' room, S1)
      \<and> roomExchange room = PrivateExchange \<and> sqlLower (roomName room) = sqlLower name)
    \<and> snd (CreateRoom P now me req PublicExchange tlvs S) = S"
proof -
  let ?p = "\<lambda>(c :: bytes, r). roomExchange r = PrivateExchange \<and> sqlLower (roomName r) = sqlLower name"
  have again: "CreateRoom P now' you req' PrivateExchange tlvs' S1 = (roomReply req' room, S1)"
    if "ChatRoomByName P PrivateExchange name' S1 = (room, None)" for room
    using assms(2) that by (simp add: CreateRoom_def validateExchange_def)
  have "snd (CreateRoom P now me req PublicExchange tlvs S) = S"
    using assms(1) by (simp add: CreateRoom_def validateExchange_def split: prod.split option.split)
  moreover have "\<exists>room. roomReply req room = Inr reply \<and> ChatRoomByName P PrivateExchange name' S1 = (room, None)
      \<and> roomExchange room = PrivateExchange \<and> sqlLower (roomName room) = sqlLower name"
  proof (cases "filter ?p (csRooms S)")
    case Nil
    then have "ChatRoomByName P PrivateExchange name S = (readRoom P (zeroRoom\<lparr>roomExchange := PrivateExchange\<rparr>), Some ErrChatRoomNotFound)"
      by (simp add: ChatRoomByName_def)
    then obtain room where "CreateChatRoom now (NewChatRoom name me PrivateExchange) S = ((room, None), S1)" "roomReply req room = Inr reply"
      using assms(1,5) by (auto simp: CreateRoom_def validateExchange_def split: prod.splits option.splits)
    then show ?thesis using assms(3,4) Nil
      by (auto simp: CreateChatRoom_def Let_def ChatRoomByName_def NewChatRoom_def readRoom_def split: if_splits)
  next
    case (Cons cr rest)
    obtain c r where cr: "cr = (c, r)" by fastforce
    have "cr \<in> set (filter ?p (csRooms S))" unfolding Cons by simp
    then have p: "roomExchange r = PrivateExchange" "sqlLower (roomName r) = sqlLower name" by (simp_all add: cr)
    have n: "ChatRoomByName P PrivateExchange name S = (readRoom P r, None)" using Cons by (simp add: ChatRoomByName_def cr)
    then have "S1 = S" "roomReply req (readRoom P r) = Inr reply"
      using assms(1,5) by (simp_all add: CreateRoom_def validateExchange_def)
    moreover have "ChatRoomByName P PrivateExchange name' S = (readRoom P r, None)"
      using n unfolding ChatRoomByName_def assms(3) .
    ultimately show ?thesis using p by (intro exI [of _ "readRoom P r"]) (simp add: readRoom_def)
  qed
  ultimately show ?thesis using again by blast
qed

lemma roomReply_ok:
  assumes "length (roomName r) < 200" and "unat (roomExchange r) < 10"
  shows "\<exists>reply. roomReply req r = Inr reply"
proof -
  obtain tlvs where tlvs: "ChatRoom_TLVList r = Inr tlvs" "list_all TLV_ok tlvs" "length tlvs = 8"
    using assms(1) by (simp add: ChatRoom_TLVList_def marshal_value TLVList_Append_def ebind_def TLV_ok_def)
  obtain x where "marshal_switch TLVBlock_type BigEndian noTag (TLVList_val tlvs) = Inr x"
    using TLVBlock_codec(1) [OF tlvs(2), of BigEndian] top_of_plain(1) [of TLVBlock_type] tlvs(3) by (simp add: TLVBlock_type_def)
  moreover have "\<not> is_ptr TLVBlock_type" "is_struct TLVBlock_type" "TLVBlock_type \<noteq> TString" by (simp_all add: TLVBlock_type_def)
  moreover have "length (ChatRoom_Cookie r) < 256"
    using assms length_showDecimal [of "unat (roomExchange r)"] length_showDecimal [of 0]
    by (simp add: ChatRoom_Cookie_def ChatRoom_InstanceNumber_def)
  ultimately show ?thesis
    by (simp add: roomReply_def roomInfo_val_def tlvs ebind_def navInfo_def chatTLVs_def SNAC_0x0E_0x02_ChatRoomInfoUpdate_def
      marshal_value lenFits_def prefixWidth_def Let_def noTag_def TLVList_Append_def)
qed

lemma CreateRoom_again_witness:
  "\<exists>room reply S1. CreateRoom samplePlatform 1 [97] 7 PrivateExchange [\<lparr>Tag = ChatRoomTLVRoomName, Value = asciiBytes ''Lobby''\<rparr>] emptyCatalog = (Inr reply, S1)
    \<and> roomReply 7 room = Inr reply
    \<and> CreateRoom samplePlatform 2 [98] 8 PrivateExchange [\<lparr>Tag = ChatRoomTLVRoomName, Value = asciiBytes ''lobby''\<rparr>] S1 = (roomReply 8 room, S1)"
proof -
  let ?t = "[\<lparr>Tag = ChatRoomTLVRoomName, Value = asciiBytes ''Lobby''\<rparr>]" and ?u = "[\<lparr>Tag = ChatRoomTLVRoomName, Value = asciiBytes ''lobby''\<rparr>]"
  have me: "NewIdentScreenName samplePlatform [97] = [97]" by (simp add: ident_ascii isASCII_def asciiLower_def)
  obtain reply S1 where "CreateRoom samplePlatform 1 [97] 7 PrivateExchange ?t emptyCatalog = (Inr reply, S1)"
    using roomReply_ok [of "(NewChatRoom (asciiBytes ''Lobby'') [97] PrivateExchange)\<lparr>roomCreateTime := 1\<rparr>" 7]
    by (simp add: CreateRoom_def validateExchange_def ChatRoomByName_def emptyCatalog_def CreateChatRoom_def NewChatRoom_def asciiBytes_def Let_def) blast
  with CreateRoom_again [of ?t "asciiBytes ''Lobby''" ?u "asciiBytes ''lobby''" samplePlatform "[97]" 1 7 emptyCatalog reply S1 2 "[98]" 8] me
  show ?thesis by (auto simp: sqlLower_def asciiLower_def asciiBytes_def)
qed

end
