(* ===== verification/Foodgroup_Auth.thy ===== *)
theory Foodgroup_Auth
  imports State_Cookie Foodgroup_Chat
begin

text \<open>
  The sign-on service of \<open>foodgroup/auth.go\<close>: what a client sends to prove who it is, in the seven
  forms of four protocols, the answer with the login cookie or the error code, and the registration
  of the session when the client comes back with the cookie. Accounts, contact lists, the pool of
  sessions and the chat rooms are the state; the session configuration of the caller is an
  argument, and so are the clock, the salt of a new password hash, and whether the connection of a
  session that has to go lets go of it in the five seconds the registration waits.
\<close>

section \<open>State and configuration\<close>

datatype authError = AuthNoName | AuthStore storeError | AuthCookie cookieError | AuthCreate accountError
  | AuthChat chatFault
  | AuthNoTicket | AuthTicket gerr | AuthPanic gerr | AuthNoUser | AuthAdd addError | AuthIcon catalogError | AuthUIN

record AuthService =
  auPlatform :: platform
  auIDKey :: keyDerivation
  auHMAC :: keyedHash
  auKey :: bytes
  auDisableAuth :: bool
  auTLS :: bool
  auClasses :: RateLimitClasses

record authState =
  auBos :: BOS
  auAccounts :: accountTable
  auChat :: ChatManager
  auChatHeap :: sessions

abbreviation (input) MaxConcurrentLoginsPerUser :: nat where "MaxConcurrentLoginsPerUser \<equiv> 5"
abbreviation (input) FoodGroup_BOS :: u16 where "FoodGroup_BOS \<equiv> 0x0000"
abbreviation (input) BUCP :: u16 where "BUCP \<equiv> 0x0017"
abbreviation (input) Kerberos :: u16 where "Kerberos \<equiv> 0x050C"
abbreviation (input) LoginTLVTagsScreenName :: u16 where "LoginTLVTagsScreenName \<equiv> 0x01"
abbreviation (input) LoginTLVTagsRoastedPassword :: u16 where "LoginTLVTagsRoastedPassword \<equiv> 0x02"
abbreviation (input) LoginTLVTagsClientIdentity :: u16 where "LoginTLVTagsClientIdentity \<equiv> 0x03"
abbreviation (input) LoginTLVTagsReconnectHere :: u16 where "LoginTLVTagsReconnectHere \<equiv> 0x05"
abbreviation (input) LoginTLVTagsAuthorizationCookie :: u16 where "LoginTLVTagsAuthorizationCookie \<equiv> 0x06"
abbreviation (input) LoginTLVTagsErrorSubcode :: u16 where "LoginTLVTagsErrorSubcode \<equiv> 0x08"
abbreviation (input) LoginTLVTagsPasswordHash :: u16 where "LoginTLVTagsPasswordHash \<equiv> 0x25"
abbreviation (input) LoginTLVTagsMultiConnFlags :: u16 where "LoginTLVTagsMultiConnFlags \<equiv> 0x4A"
abbreviation (input) LoginTLVTagsRoastedKerberosPassword :: u16 where "LoginTLVTagsRoastedKerberosPassword \<equiv> 0x1335"
abbreviation (input) LoginTLVTagsRoastedTOCPassword :: u16 where "LoginTLVTagsRoastedTOCPassword \<equiv> 0x1337"
abbreviation (input) LoginTLVTagsPlaintextKerberosPassword :: u16 where "LoginTLVTagsPlaintextKerberosPassword \<equiv> 0x1338"
abbreviation (input) LoginTLVTagsPlaintextPassword :: u16 where "LoginTLVTagsPlaintextPassword \<equiv> 0x1339"
abbreviation (input) LoginErrInvalidUsernameOrPassword :: u16 where "LoginErrInvalidUsernameOrPassword \<equiv> 0x0001"
abbreviation (input) LoginErrInvalidPassword :: u16 where "LoginErrInvalidPassword \<equiv> 0x0005"
abbreviation (input) LoginErrRateLimitExceeded :: u16 where "LoginErrRateLimitExceeded \<equiv> 0x001D"
abbreviation (input) LoginErrICQUserErr :: u16 where "LoginErrICQUserErr \<equiv> 0x0008"
abbreviation (input) MultiConnFlagsRecentClient :: byte where "MultiConnFlagsRecentClient \<equiv> 0x1"
abbreviation (input) OServiceTLVTagsSSLState :: u16 where "OServiceTLVTagsSSLState \<equiv> 0x8E"
abbreviation (input) OServiceServiceResponseSSLStateNotUsed :: byte where "OServiceServiceResponseSSLStateNotUsed \<equiv> 0x00"
abbreviation (input) OServiceServiceResponseSSLStateResume :: byte where "OServiceServiceResponseSSLStateResume \<equiv> 0x02"
abbreviation (input) OServiceUserFlagUnconfirmed :: u16 where "OServiceUserFlagUnconfirmed \<equiv> 0x0001"
abbreviation (input) OServiceUserFlagICQ :: u16 where "OServiceUserFlagICQ \<equiv> 0x0040"
abbreviation (input) BUCPLoginResponse :: u16 where "BUCPLoginResponse \<equiv> 0x0003"
abbreviation (input) KerberosLoginSuccessResponse :: u16 where "KerberosLoginSuccessResponse \<equiv> 0x0003"
abbreviation (input) KerberosKerberosLoginErrResponse :: u16 where "KerberosKerberosLoginErrResponse \<equiv> 0x0004"
abbreviation (input) KerberosTLVTicketRequest :: u16 where "KerberosTLVTicketRequest \<equiv> 0x0002"
abbreviation (input) KerberosTLVBOSServerInfo :: u16 where "KerberosTLVBOSServerInfo \<equiv> 0x0003"
abbreviation (input) KerberosTLVHostname :: u16 where "KerberosTLVHostname \<equiv> 0x0005"
abbreviation (input) KerberosTLVCookie :: u16 where "KerberosTLVCookie \<equiv> 0x0006"
abbreviation (input) KerberosTLVConnSettings :: u16 where "KerberosTLVConnSettings \<equiv> 0x008E"
abbreviation (input) KerberosConnUseSSL :: u16 where "KerberosConnUseSSL \<equiv> 0x0002"
abbreviation (input) KerberosErrAuthFailure :: u16 where "KerberosErrAuthFailure \<equiv> 0x0401"

section \<open>What the client sends\<close>

record loginProperties =
  lpClientID :: bytes
  isBUCPAuth :: bool
  isFLAPAuth :: bool
  isFLAPJavaAuth :: bool
  isKerberosPlaintextAuth :: bool
  isKerberosRoastedAuth :: bool
  isPlaintextAuth :: bool
  isTOCAuth :: bool
  lpMultiConnFlag :: byte
  passwordHash :: bytes
  plaintextPassword :: bytes
  roastedPass :: bytes
  lpScreenName :: DisplayScreenName

definition zeroLoginProperties :: loginProperties where
  "zeroLoginProperties = \<lparr>lpClientID = [], isBUCPAuth = False, isFLAPAuth = False, isFLAPJavaAuth = False,
     isKerberosPlaintextAuth = False, isKerberosRoastedAuth = False, isPlaintextAuth = False, isTOCAuth = False,
     lpMultiConnFlag = 0, passwordHash = [], plaintextPassword = [], roastedPass = [], lpScreenName = []\<rparr>"

definition strings_HasPrefix :: "bytes \<Rightarrow> bytes \<Rightarrow> bool" where
  "strings_HasPrefix s p \<longleftrightarrow> take (length p) s = p"

definition strings_Contains :: "bytes \<Rightarrow> bytes \<Rightarrow> bool" where
  "strings_Contains s p \<longleftrightarrow> list_ex (\<lambda>i. strings_HasPrefix (drop i s) p) [0..<Suc (length s)]"

definition isJavaClient :: "bytes \<Rightarrow> bool" where
  "isJavaClient c \<longleftrightarrow> strings_HasPrefix c (asciiBytes ''AOL Instant Messenger (TM) version'')
     \<and> strings_Contains c (asciiBytes ''for Java'')"

definition orEmpty :: "bytes option \<Rightarrow> bytes" where
  "orEmpty b = (case b of None \<Rightarrow> [] | Some b \<Rightarrow> b)"

text \<open>The switch over the password TLVs, in the order of its cases.\<close>

definition takePassword :: "TLVList \<Rightarrow> loginProperties \<Rightarrow> loginProperties" where
  "takePassword list l =
     (if TLVList_HasTag list LoginTLVTagsPasswordHash then
        l\<lparr>passwordHash := orEmpty (TLVList_Bytes list LoginTLVTagsPasswordHash), isBUCPAuth := True\<rparr>
      else if TLVList_HasTag list LoginTLVTagsRoastedPassword then
        (let l1 = l\<lparr>roastedPass := orEmpty (TLVList_Bytes list LoginTLVTagsRoastedPassword)\<rparr>
         in if isJavaClient (lpClientID l) then l1\<lparr>isFLAPJavaAuth := True\<rparr> else l1\<lparr>isFLAPAuth := True\<rparr>)
      else if TLVList_HasTag list LoginTLVTagsRoastedTOCPassword then
        l\<lparr>roastedPass := orEmpty (TLVList_Bytes list LoginTLVTagsRoastedTOCPassword), isTOCAuth := True\<rparr>
      else if TLVList_HasTag list LoginTLVTagsPlaintextKerberosPassword then
        l\<lparr>plaintextPassword := orEmpty (TLVList_Bytes list LoginTLVTagsPlaintextKerberosPassword),
          isKerberosPlaintextAuth := True\<rparr>
      else if TLVList_HasTag list LoginTLVTagsPlaintextPassword then
        l\<lparr>plaintextPassword := orEmpty (TLVList_Bytes list LoginTLVTagsPlaintextPassword), isPlaintextAuth := True\<rparr>
      else if TLVList_HasTag list LoginTLVTagsRoastedKerberosPassword then
        l\<lparr>roastedPass := orEmpty (TLVList_Bytes list LoginTLVTagsRoastedKerberosPassword), isKerberosRoastedAuth := True\<rparr>
      else l\<lparr>isFLAPAuth := True\<rparr>)"

definition fromTLV :: "TLVList \<Rightarrow> authError + loginProperties" where
  "fromTLV list =
     (case TLVList_String list LoginTLVTagsScreenName of
        None \<Rightarrow> Inl AuthNoName
      | Some screenName \<Rightarrow>
          (let l = takePassword list (zeroLoginProperties\<lparr>lpScreenName := screenName,
             lpClientID := orEmpty (TLVList_String list LoginTLVTagsClientIdentity)\<rparr>)
           in Inr (case TLVList_Uint8 list LoginTLVTagsMultiConnFlags of
                None \<Rightarrow> l | Some f \<Rightarrow> l\<lparr>lpMultiConnFlag := f\<rparr>)))"

section \<open>The answer\<close>

definition authTLVs :: "(u16 \<times> gtype \<times> gval) list \<Rightarrow> authError + TLVList" where
  "authTLVs es = (case appendTLVs es [] of Inl e \<Rightarrow> Inl (AuthPanic e) | Inr tlvs \<Rightarrow> Inr tlvs)"

definition loginFailureResponse :: "loginProperties \<Rightarrow> u16 \<Rightarrow> authError + TLVList" where
  "loginFailureResponse props errCode = authTLVs
     [(LoginTLVTagsScreenName, TString, VString (lpScreenName props)), (LoginTLVTagsErrorSubcode, TU16, VU16 errCode)]"

definition loginCookie :: "loginProperties \<Rightarrow> ServerCookie" where
  "loginCookie props = \<lparr>cookieService = FoodGroup_BOS, cookieScreenName = lpScreenName props,
     cookieClientID = lpClientID props, cookieChatCookie = [], cookieMultiConnFlag = lpMultiConnFlag props,
     cookieKerberosAuth = (if isKerberosPlaintextAuth props \<or> isKerberosRoastedAuth props then 1 else 0),
     cookieSessionNum = 0\<rparr>"

definition loginSuccessResponse :: "AuthService \<Rightarrow> int \<Rightarrow> loginProperties \<Rightarrow> bytes \<Rightarrow> authError + TLVList" where
  "loginSuccessResponse s now props advertisedHost =
     (case issueLogin (auHMAC s) (auKey s) now (loginCookie props) of
        Inl e \<Rightarrow> Inl (AuthCookie e)
      | Inr cookie \<Rightarrow> authTLVs
          [(LoginTLVTagsScreenName, TString, VString (lpScreenName props)),
           (LoginTLVTagsReconnectHere, TString, VString advertisedHost),
           (LoginTLVTagsAuthorizationCookie, TSlice TU8, bytesVal cookie),
           (OServiceTLVTagsSSLState, TU8, VU8 (if auTLS s then OServiceServiceResponseSSLStateResume
              else OServiceServiceResponseSSLStateNotUsed))])"

text \<open>The creator of \<open>state/account.go\<close> over the whole account table.\<close>

definition accCreateAccount :: "AuthService \<Rightarrow> bytes option \<Rightarrow> DisplayScreenName \<Rightarrow> bytes \<Rightarrow> accountTable
    \<Rightarrow> accountError option \<times> accountTable" where
  "accCreateAccount s rand screenName password t =
     (case (if IsUIN (auPlatform s) screenName then ValidateUIN screenName else ValidateAIMHandle (auPlatform s) screenName) of
        Some e \<Rightarrow> (Some (NameInvalid e), t)
      | None \<Rightarrow>
          (case User_HashPassword (auIDKey s) rand password
              (zeroUser\<lparr>userDisplayScreenName := screenName,
                userIdentScreenName := DisplayScreenName_IdentScreenName (auPlatform s) screenName,
                userIsICQ := IsUIN (auPlatform s) screenName\<rparr>) of
             Inl e \<Rightarrow> (Some e, t)
           | Inr user \<Rightarrow> accInsertUser (auPlatform s) user t))"

definition createUser :: "AuthService \<Rightarrow> bytes option \<Rightarrow> int \<Rightarrow> loginProperties \<Rightarrow> bytes \<Rightarrow> authState \<Rightarrow> (authError + TLVList) \<times> authState" where
  "createUser s rand now props advertisedHost S =
     (case accCreateAccount s rand (lpScreenName props) (asciiBytes ''welcome1'') (auAccounts S) of
        (Some e, _) \<Rightarrow>
          (if e = NameInvalid ErrAIMHandleInvalidFormat \<or> e = NameInvalid ErrAIMHandleLength
           then loginFailureResponse props LoginErrInvalidUsernameOrPassword
           else if e = NameInvalid ErrICQUINInvalidFormat then loginFailureResponse props LoginErrICQUserErr
           else Inl (AuthCreate e), S)
      | (None, t) \<Rightarrow> (loginSuccessResponse s now props advertisedHost, S\<lparr>auAccounts := t\<rparr>))"

definition validCredentials :: "keyDerivation \<Rightarrow> User \<Rightarrow> loginProperties \<Rightarrow> bool" where
  "validCredentials IDKey user props =
     (if isBUCPAuth props then ValidateHash user (passwordHash props)
      else if isFLAPAuth props then ValidateRoastedPass IDKey user (roastedPass props)
      else if isFLAPJavaAuth props then ValidateRoastedJavaPass IDKey user (roastedPass props)
      else if isTOCAuth props then ValidateRoastedTOCPass IDKey user (roastedPass props)
      else if isKerberosPlaintextAuth props then ValidatePlaintextPass IDKey user (plaintextPassword props)
      else if isKerberosRoastedAuth props then ValidateRoastedKerberosPass IDKey user (roastedPass props)
      else if isPlaintextAuth props then ValidatePlaintextPass IDKey user (plaintextPassword props)
      else False)"

definition tooManyLogins :: "platform \<Rightarrow> loginProperties \<Rightarrow> BOS \<Rightarrow> bool" where
  "tooManyLogins P props B \<longleftrightarrow> lpMultiConnFlag props = MultiConnFlagsRecentClient \<and>
     (case RetrieveSession (DisplayScreenName_IdentScreenName P (lpScreenName props)) (bosMgr B) (bosHeap B) of
        None \<Rightarrow> False
      | Some a \<Rightarrow> InstanceCount (bosHeap B ! a) \<ge> MaxConcurrentLoginsPerUser)"

definition login :: "AuthService \<Rightarrow> bytes option \<Rightarrow> int \<Rightarrow> TLVList \<Rightarrow> bytes \<Rightarrow> authState \<Rightarrow> (authError + TLVList) \<times> authState" where
  "login s rand now tlv advertisedHost S =
     (case fromTLV tlv of
        Inl e \<Rightarrow> (Inl e, S)
      | Inr props \<Rightarrow>
          (case findUser (auPlatform s) (DisplayScreenName_IdentScreenName (auPlatform s) (lpScreenName props)) (auAccounts S) of
             Inl e \<Rightarrow> (Inl (AuthStore e), S)
           | Inr None \<Rightarrow>
               if auDisableAuth s then createUser s rand now props advertisedHost S
               else (loginFailureResponse props (if IsUIN (auPlatform s) (lpScreenName props)
                   then LoginErrICQUserErr else LoginErrInvalidUsernameOrPassword), S)
           | Inr (Some user) \<Rightarrow>
               if userSuspendedStatus user > 0 then (loginFailureResponse props (userSuspendedStatus user), S)
               else if auDisableAuth s then (loginSuccessResponse s now props advertisedHost, S)
               else if \<not> validCredentials (auIDKey s) user props then (loginFailureResponse props LoginErrInvalidPassword, S)
               else if tooManyLogins (auPlatform s) props (auBos S) then (loginFailureResponse props LoginErrRateLimitExceeded, S)
               else (loginSuccessResponse s now props advertisedHost, S)))"

section \<open>The requests\<close>

definition FLAPLogin :: "AuthService \<Rightarrow> bytes option \<Rightarrow> int \<Rightarrow> TLVList \<Rightarrow> bytes \<Rightarrow> authState \<Rightarrow> (authError + TLVList) \<times> authState" where
  "FLAPLogin s rand now inFrame advertisedHost S = login s rand now inFrame advertisedHost S"

text \<open>Challenge and login of BUCP are refused with the same message, whatever the request holds.\<close>

definition bucpRefusal :: "authError + SNACMessage" where
  "bucpRefusal = ebind (authTLVs [(LoginTLVTagsErrorSubcode, TU16, VU16 LoginErrInvalidUsernameOrPassword)])
     (\<lambda>tlvs. Inr (replyFrame BUCP BUCPLoginResponse 0, Some (SNAC_0x17_0x03_BUCPLoginResponse, VStruct [TLVList_val tlvs])))"

definition BUCPChallenge :: "TLVList \<Rightarrow> authError + SNACMessage" where
  "BUCPChallenge inBody = bucpRefusal"

definition BUCPLogin :: "TLVList \<Rightarrow> bytes \<Rightarrow> authError + SNACMessage" where
  "BUCPLogin inBody advertisedHost = bucpRefusal"

text \<open>The fields of the Kerberos request that are read.\<close>

record KerberosRequest =
  krRequestID :: u32
  krClientPrincipal :: bytes
  krTicketRequestMetadata :: TLVList

definition kerberosList :: "KerberosRequest \<Rightarrow> gval \<Rightarrow> authError + TLVList" where
  "kerberosList inBody info = authTLVs
     [(LoginTLVTagsScreenName, TString, VString (krClientPrincipal inBody)),
      (LoginTLVTagsMultiConnFlags, TU8, VU8 MultiConnFlagsRecentClient),
      (if asU16 (field 1 info) \<ge> 4 then LoginTLVTagsRoastedKerberosPassword else LoginTLVTagsPlaintextKerberosPassword,
       TSlice TU8, bytesVal (asBytes (field 4 info)))]"

definition kerberosErr :: "KerberosRequest \<Rightarrow> SNACMessage" where
  "kerberosErr inBody = (replyFrame Kerberos KerberosKerberosLoginErrResponse 0,
     Some (SNAC_0x050C_0x0004_KerberosLoginErrResponse, VStruct [VU32 (krRequestID inBody), VString (krClientPrincipal inBody),
       VU16 KerberosErrAuthFailure, VString (asciiBytes ''Auth failure''), VU32 0, TLVList_val []]))"

definition kerberosTicket :: "int \<Rightarrow> bytes \<Rightarrow> TLVList \<Rightarrow> gval" where
  "kerberosTicket now clientPrincipal metadata =
     (let seconds = (\<lambda>t. VU32 (word_of_int (unixSeconds t))) in
      VStruct [VU16 5, bytesVal [], VString (asciiBytes ''AOL''), VString (asciiBytes ''im/boss''),
        VString (asciiBytes ''AOL''), VString clientPrincipal, VU8 0, bytesVal [], VU32 0, VU32 0,
        seconds now, seconds now, seconds (now + 24 * 3600 * 10 ^ 9), VU32 0,
        VU32 1610612736, VU32 1073741824, VU32 0, TLVList_val metadata])"

definition kerberosSuccess :: "int \<Rightarrow> KerberosRequest \<Rightarrow> bytes \<Rightarrow> bytes \<Rightarrow> authError + SNACMessage" where
  "kerberosSuccess now inBody advertisedHost cookie =
     ebind (authTLVs [(KerberosTLVHostname, TString, VString advertisedHost),
        (KerberosTLVCookie, TSlice TU8, bytesVal cookie),
        (KerberosTLVConnSettings, TU16, VU16 KerberosConnUseSSL)]) (\<lambda>info.
     ebind (authTLVs [(KerberosTLVBOSServerInfo, KerberosBOSServerInfo_type, VStruct [VU16 1, TLVList_val info])]) (\<lambda>metadata.
     Inr (replyFrame Kerberos KerberosLoginSuccessResponse 0,
       Some (SNAC_0x050C_0x0003_KerberosLoginSuccessResponse,
         VStruct [VU32 (krRequestID inBody), VU32 (word_of_int (unixSeconds now)), VU32 0,
           VString (krClientPrincipal inBody), VString (asciiBytes ''AOL''),
           VSlice [kerberosTicket now (krClientPrincipal inBody) metadata], TLVList_val []]))))"

definition KerberosLogin :: "AuthService \<Rightarrow> bytes option \<Rightarrow> int \<Rightarrow> KerberosRequest \<Rightarrow> bytes \<Rightarrow> authState
    \<Rightarrow> (authError + SNACMessage) \<times> authState" where
  "KerberosLogin s rand now inBody advertisedHost S =
     (case TLVList_Bytes (krTicketRequestMetadata inBody) KerberosTLVTicketRequest of
        None \<Rightarrow> (Inl AuthNoTicket, S)
      | Some b \<Rightarrow>
          (case fst (UnmarshalBE KerberosLoginRequestTicket_type b) of
             Inl e \<Rightarrow> (Inl (AuthTicket e), S)
           | Inr info \<Rightarrow>
               (case kerberosList inBody info of
                  Inl e \<Rightarrow> (Inl e, S)
                | Inr list \<Rightarrow>
                    (case login s rand now list advertisedHost S of
                       (Inl e, S') \<Rightarrow> (Inl e, S')
                     | (Inr result, S') \<Rightarrow>
                         (case TLVList_Bytes result LoginTLVTagsAuthorizationCookie of
                            None \<Rightarrow> (Inr (kerberosErr inBody), S')
                          | Some cookie \<Rightarrow> (kerberosSuccess now inBody advertisedHost cookie, S'))))))"

section \<open>Registering sessions\<close>

text \<open>A sign-on at the session pool that no other sign-on of the user gets in the way of. The wait for the
  connection of the old session ends when it lets go (\<open>released\<close>) or with the context's five seconds.
  \<open>None\<close> is a panic.\<close>

definition timedAdd :: "platform \<Rightarrow> addReq \<Rightarrow> bool \<Rightarrow> SessionManager \<Rightarrow> sessions \<Rightarrow> (addResult \<times> SessionManager \<times> sessions) option" where
  "timedAdd P r released m h =
     (let out = (case runAdd P 7 r AtStart m h of
          Next (AtWait a) m1 h1 \<Rightarrow>
            if released then runAdd P 3 r (AtWait a) (RemoveSession (slotSess m1 a) m1 h1) h1
            else runAdd P 1 r (AtUnlock (Inl errWaiting)) m1 h1
        | other \<Rightarrow> other)
      in case out of Next (AtDone res) m2 h2 \<Rightarrow> Some (res, m2, h2) | _ \<Rightarrow> None)"

definition bosConfig :: "int \<Rightarrow> RateLimitClasses \<Rightarrow> Session \<Rightarrow> Session" where
  "bosConfig now classes sess = SetMemberSince now (SetRateClasses now classes (SetSignonTime now sess))"

definition onSession :: "(Session \<Rightarrow> Session) \<Rightarrow> instanceRef \<Rightarrow> BOS \<Rightarrow> BOS" where
  "onSession f you B = B\<lparr>bosHeap := updSession f (fst you) (bosHeap B)\<rparr>"

text \<open>What follows once the session is in the pool, in three parts: the flags and the client, the icon,
  and the number of an ICQ user.\<close>

definition signonFlags :: "int \<Rightarrow> ServerCookie \<Rightarrow> User \<Rightarrow> accountTable \<Rightarrow> instanceRef \<Rightarrow> BOS \<Rightarrow> BOS" where
  "signonFlags now authCookie u t you B =
     (let B1 = (if ConfirmStatus (identScreenName (sessionOf you B)) t then B
                else updInstance (SetUserInfoFlag now OServiceUserFlagUnconfirmed) you B);
          B2 = (if userIsBot u then updInstance (SetUserInfoFlag now OServiceUserFlagBot) you B1 else B1)
      in onSession (SetOfflineMsgCount (userOfflineMsgCount u)) you
           (updInstance (SetClientID (cookieClientID authCookie)) you
             (updInstance (SetKerberosAuth (cookieKerberosAuth authCookie = 1)) you B2)))"

definition signonIcon :: "instanceRef \<Rightarrow> BOS \<Rightarrow> (authError + unit) \<times> BOS" where
  "signonIcon you B =
     (if snd (BuddyIcon (sessionOf you B)) then (Inr (), B)
      else (case BuddyIconMetadata (identScreenName (sessionOf you B)) (bosLists B) of
         Inl e \<Rightarrow> (Inl (AuthIcon e), B)
       | Inr None \<Rightarrow> (Inr (), B)
       | Inr (Some bartID) \<Rightarrow> (Inr (), onSession (SetBuddyIcon bartID) you B)))"

definition signonNumber :: "platform \<Rightarrow> int \<Rightarrow> ServerCookie \<Rightarrow> User \<Rightarrow> instanceRef \<Rightarrow> BOS \<Rightarrow> (authError + unit) \<times> BOS" where
  "signonNumber P now authCookie u you B =
     (let B1 = updInstance (SetMultiConnFlag (cookieMultiConnFlag authCookie)) you B in
      if IsUIN P (userDisplayScreenName u) then
        (let B2 = updInstance (SetUserInfoFlag now OServiceUserFlagICQ) you B1 in
         case strconv_Atoi (userIdentScreenName u) of
           None \<Rightarrow> (Inl AuthUIN, B2)
         | Some n \<Rightarrow> (Inr (), onSession (SetUIN (word_of_int n)) you B2))
      else (Inr (), B1))"

definition RegisterBOSSession :: "AuthService \<Rightarrow> int \<Rightarrow> bool \<Rightarrow> ServerCookie \<Rightarrow> (Session \<Rightarrow> Session) \<Rightarrow> authState
    \<Rightarrow> (authError + instanceRef) \<times> authState" where
  "RegisterBOSSession s now released authCookie sessCfg S =
     (case findUser (auPlatform s) (DisplayScreenName_IdentScreenName (auPlatform s) (cookieScreenName authCookie)) (auAccounts S) of
        Inl e \<Rightarrow> (Inl (AuthStore e), S)
      | Inr None \<Rightarrow> (Inl AuthNoUser, S)
      | Inr (Some u) \<Rightarrow>
          (case timedAdd (auPlatform s) \<lparr>reqName = userDisplayScreenName u,
                reqMulti = (cookieMultiConnFlag authCookie = MultiConnFlagsRecentClient),
                reqCfg = bosConfig now (auClasses s) \<circ> sessCfg\<rparr> released (bosMgr (auBos S)) (bosHeap (auBos S)) of
             None \<Rightarrow> (Inl (AuthPanic Panics), S)
           | Some (res, m, h) \<Rightarrow>
               (let B = (auBos S)\<lparr>bosMgr := m, bosHeap := h\<rparr> in
                case res of
                  Inl e \<Rightarrow> (Inl (AuthAdd e), S\<lparr>auBos := B\<rparr>)
                | Inr you \<Rightarrow>
                    (case signonIcon you (signonFlags now authCookie u (auAccounts S) you B) of
                       (Inl e, B1) \<Rightarrow> (Inl e, S\<lparr>auBos := B1\<rparr>)
                     | (Inr _, B1) \<Rightarrow>
                         (case signonNumber (auPlatform s) now authCookie u you B1 of
                            (Inl e, B2) \<Rightarrow> (Inl e, S\<lparr>auBos := B2\<rparr>)
                          | (Inr _, B2) \<Rightarrow> (Inr you, S\<lparr>auBos := B2\<rparr>))))))"

definition RetrieveBOSSession :: "AuthService \<Rightarrow> ServerCookie \<Rightarrow> authState \<Rightarrow> authError + instanceRef option" where
  "RetrieveBOSSession s serverCookie S =
     (case findUser (auPlatform s) (DisplayScreenName_IdentScreenName (auPlatform s) (cookieScreenName serverCookie)) (auAccounts S) of
        Inl e \<Rightarrow> Inl (AuthStore e)
      | Inr None \<Rightarrow> Inl AuthNoUser
      | Inr (Some u) \<Rightarrow>
          Inr (case RetrieveSession (userIdentScreenName u) (bosMgr (auBos S)) (bosHeap (auBos S)) of
             None \<Rightarrow> None
           | Some a \<Rightarrow> map_option (Pair a) (InstanceOf (bosHeap (auBos S) ! a) (cookieSessionNum serverCookie))))"

definition Signout :: "nat \<Rightarrow> authState \<Rightarrow> authState" where
  "Signout sess S = S\<lparr>auBos := (auBos S)\<lparr>bosMgr := RemoveSession sess (bosMgr (auBos S)) (bosHeap (auBos S))\<rparr>\<rparr>"

text \<open>\<open>RegisterChatSession\<close> waits for an earlier session of the guest as long as its connection lives: the
  call that waits is \<open>errWaiting\<close> here, in the state in which it waits.\<close>

definition RegisterChatSession :: "AuthService \<Rightarrow> int \<Rightarrow> ServerCookie \<Rightarrow> (Session \<Rightarrow> Session) \<Rightarrow> authState
    \<Rightarrow> (authError + instanceRef) \<times> authState" where
  "RegisterChatSession s now authCookie sessCfg S =
     (case runChat (auPlatform s) (cookieChatCookie authCookie) \<lparr>reqName = cookieScreenName authCookie, reqMulti = False,
           reqCfg = sessCfg\<rparr> 11 ChatStart (auChat S) (auChatHeap S) of
        ChatNext (ChatDone (Inr you)) cm h \<Rightarrow>
          (Inr you, S\<lparr>auChat := cm, auChatHeap := updSession (SetRateClasses now (auClasses s)) (fst you) h\<rparr>)
      | ChatNext (ChatDone (Inl e)) cm h \<Rightarrow> (Inl (AuthAdd e), S\<lparr>auChat := cm, auChatHeap := h\<rparr>)
      | ChatNext pc cm h \<Rightarrow> (Inl (AuthAdd errWaiting), S\<lparr>auChat := cm, auChatHeap := h\<rparr>)
      | _ \<Rightarrow> (Inl (AuthPanic Panics), S))"

definition SignoutChat :: "int \<Rightarrow> nat \<Rightarrow> authState \<Rightarrow> authError + authState" where
  "SignoutChat now sess S =
     (case alertUserLeft now sess (auChat S) (auChatHeap S) of
        Inl e \<Rightarrow> Inl (AuthChat e)
      | Inr h \<Rightarrow>
          (case chatRemoveSession sess (auChat S) h of
             None \<Rightarrow> Inl (AuthPanic Panics)
           | Some cm \<Rightarrow> Inr (S\<lparr>auChat := cm, auChatHeap := h\<rparr>)))"

section \<open>The callback of a session that has closed\<close>

text \<open>\<open>connectToOSCARService\<close> of \<open>server/oscar/server.go\<close> gives every new session the function to run when its
  last instance closes. It names the variable that the result of the registration is assigned to,
  which is nil when the registration failed.\<close>

definition registeredInstance :: "authError + instanceRef \<Rightarrow> instanceRef option" where
  "registeredInstance result = (case result of Inl _ \<Rightarrow> None | Inr you \<Rightarrow> Some you)"

definition bosSessionClosed :: "bool \<Rightarrow> instanceRef option \<Rightarrow> nat \<Rightarrow> authState \<Rightarrow> authError + authState" where
  "bosSessionClosed shuttingDown result sess S =
     (let S1 = (if shuttingDown then S
                else case BroadcastBuddyDeparted (identScreenName (bosHeap (auBos S) ! sess)) (auBos S) of
                  Inl e \<Rightarrow> S | Inr B \<Rightarrow> S\<lparr>auBos := B\<rparr>)
      in case result of
           None \<Rightarrow> Inl (AuthPanic Panics)
         | Some you \<Rightarrow>
             (let user = identScreenName (sessionOf you (auBos S1));
                  S2 = S1\<lparr>auBos := (auBos S1)\<lparr>bosLists := UnregisterBuddyList user (bosLists (auBos S1))\<rparr>\<rparr>
              in Inr (Signout sess (S2\<lparr>auChatHeap := RemoveUserFromAllChats user (auChat S2) (auChatHeap S2)\<rparr>))))"


section \<open>Answers\<close>

lemma text_TLVs [simp]:
  "NewTLVBE tag (Some (TString, VString s)) = Inr \<lparr>Tag = tag, Value = s\<rparr>"
  "NewTLVBE tag (Some (TSlice TU8, bytesVal b)) = Inr \<lparr>Tag = tag, Value = b\<rparr>"
  "NewTLVBE tag (Some (TU8, VU8 x)) = Inr \<lparr>Tag = tag, Value = [x]\<rparr>"
  by (simp_all add: marshal_value bytesVal_def valBytes_def comp_def)

text \<open>A refusal carries the name and the code and no cookie; the answer to a login that is granted carries
  the cookie issued for it.\<close>

definition refusal :: "loginProperties \<Rightarrow> u16 \<Rightarrow> TLVList" where
  "refusal props code = [\<lparr>Tag = LoginTLVTagsScreenName, Value = lpScreenName props\<rparr>,
     \<lparr>Tag = LoginTLVTagsErrorSubcode, Value = putUint BigEndian 2 (unat code)\<rparr>]"

lemma loginFailure: "loginFailureResponse props code = Inr (refusal props code)"
  by (simp add: loginFailureResponse_def authTLVs_def refusal_def TLVList_Append_def ebind_def)

lemma refusal_no_cookie [simp]: "TLVList_Bytes (refusal props code) LoginTLVTagsAuthorizationCookie = None"
  by (simp add: refusal_def)

lemma loginSuccess:
  "loginSuccessResponse s now props host =
     (case issueLogin (auHMAC s) (auKey s) now (loginCookie props) of
        Inl e \<Rightarrow> Inl (AuthCookie e)
      | Inr ck \<Rightarrow> Inr [\<lparr>Tag = LoginTLVTagsScreenName, Value = lpScreenName props\<rparr>,
          \<lparr>Tag = LoginTLVTagsReconnectHere, Value = host\<rparr>, \<lparr>Tag = LoginTLVTagsAuthorizationCookie, Value = ck\<rparr>,
          \<lparr>Tag = OServiceTLVTagsSSLState, Value = [if auTLS s then OServiceServiceResponseSSLStateResume
             else OServiceServiceResponseSSLStateNotUsed]\<rparr>])"
  by (simp add: loginSuccessResponse_def authTLVs_def TLVList_Append_def ebind_def split: sum.split)

lemma granted:
  assumes "loginSuccessResponse s now props host = Inr tlvs" and "TLVList_Bytes tlvs LoginTLVTagsAuthorizationCookie = Some ck"
    and "sumOf32 (auHMAC s)" and "0 \<le> now" and "unixSeconds (now + 60 * 10 ^ 9) < 2 ^ 32"
    and "later \<le> unixSeconds (now + 60 * 10 ^ 9) * 10 ^ 9"
  shows "CrackCookie (auHMAC s) (auKey s) later (ck @ r) = Inr (loginCookie props)"
  using assms(1,2) issued_login [OF assms(3-6), where key = "auKey s" and c = "loginCookie props" and r = r]
  by (auto simp: loginSuccess split: sum.splits)

text \<open>What it takes to be let in.\<close>

definition mayLogin :: "AuthService \<Rightarrow> loginProperties \<Rightarrow> authState \<Rightarrow> bool" where
  "mayLogin s props S \<longleftrightarrow>
     (case findUser (auPlatform s) (DisplayScreenName_IdentScreenName (auPlatform s) (lpScreenName props)) (auAccounts S) of
        Inr (Some u) \<Rightarrow> userSuspendedStatus u = 0 \<and> validCredentials (auIDKey s) u props
          \<and> \<not> tooManyLogins (auPlatform s) props (auBos S)
      | _ \<Rightarrow> False)"

lemma login_cases:
  assumes "\<not> auDisableAuth s" and "fromTLV tlv = Inr props" and "\<not> mayLogin s props S"
  shows "(\<exists>e. login s rand now tlv host S = (Inl e, S)) \<or> (\<exists>code. login s rand now tlv host S = (Inr (refusal props code), S))"
  using assms
  by (auto simp: login_def mayLogin_def loginFailure word_gt_0 split: sum.splits option.splits if_splits)

lemma login_granted:
  assumes "\<not> auDisableAuth s" and "fromTLV tlv = Inr props" and "mayLogin s props S"
  shows "login s rand now tlv host S = (loginSuccessResponse s now props host, S)"
  using assms by (auto simp: login_def mayLogin_def split: sum.splits option.splits)


section \<open>A new account signs on\<close>

lemma accCreateAccount_None:
  assumes "accCreateAccount s (Some salt) sn pw t0 = (None, t)"
  shows "findUser (auPlatform s) (NewIdentScreenName (auPlatform s) sn) t =
    Inr (Some ((acUser (newAccountRow (zeroUser\<lparr>userDisplayScreenName := sn,
        userIdentScreenName := NewIdentScreenName (auPlatform s) sn, userIsICQ := IsUIN (auPlatform s) sn\<rparr>)))
      \<lparr>userIdentScreenName := NewIdentScreenName (auPlatform s) (NewIdentScreenName (auPlatform s) sn),
       userPasswordHash := storedHash (auIDKey s) pw salt\<rparr>))"
proof -
  let ?n = "NewIdentScreenName (auPlatform s) sn"
  let ?u = "zeroUser\<lparr>userDisplayScreenName := sn, userIdentScreenName := ?n, userIsICQ := IsUIN (auPlatform s) sn\<rparr>"
  obtain v where v: "User_HashPassword (auIDKey s) (Some salt) pw ?u = Inr v" "accInsertUser (auPlatform s) v t0 = (None, t)"
    using assms by (auto simp: accCreateAccount_def DisplayScreenName_IdentScreenName_def split: option.splits sum.splits if_splits)
  have v': "v = ?u\<lparr>userPasswordHash := storedHash (auIDKey s) pw salt\<rparr>"
    using HashPassword_Inr [OF v(1)] by auto
  have t: "map_of t0 ?n = None" "t = t0 @ [(?n, newAccountRow v)]"
    using v(2) by (auto simp: accInsertUser_def v' split: if_splits)
  have "filter (\<lambda>(i, r). i = ?n) t0 = []" using t(1) by (auto simp: filter_empty_conv map_of_eq_None_iff rev_image_eqI)
  then show ?thesis
    by (simp add: findUser_def queryUsers_def t(2) scanUser_def ebind_def newAccountRow_def v' zeroUser_def)
qed

abbreviation (input) roastedLogin :: "DisplayScreenName \<Rightarrow> bytes \<Rightarrow> TLVList" where
  "roastedLogin sn pw \<equiv> [\<lparr>Tag = LoginTLVTagsScreenName, Value = sn\<rparr>,
     \<lparr>Tag = LoginTLVTagsRoastedPassword, Value = RoastOSCARPassword pw\<rparr>]"

definition roastedProps :: "DisplayScreenName \<Rightarrow> bytes \<Rightarrow> loginProperties" where
  "roastedProps sn pw = zeroLoginProperties\<lparr>lpScreenName := sn, roastedPass := RoastOSCARPassword pw, isFLAPAuth := True\<rparr>"

lemma fromTLV_roasted: "fromTLV (roastedLogin sn pw) = Inr (roastedProps sn pw)"
  by (simp add: fromTLV_def takePassword_def roastedProps_def orEmpty_def isJavaClient_def strings_HasPrefix_def asciiBytes_def
      zeroLoginProperties_def)

lemma roasted_may_login:
  assumes "accCreateAccount s (Some salt) sn pw t0 = (None, auAccounts S)" and "derivesKeys (auIDKey s)"
    and "length salt = argon2SaltLen"
  shows "mayLogin s (roastedProps sn pw) S"
  using accCreateAccount_None [OF assms(1)]
  by (simp add: mayLogin_def roastedProps_def DisplayScreenName_IdentScreenName_def newAccountRow_def zeroUser_def
      validCredentials_def zeroLoginProperties_def ValidateRoastedPass_def User_verify_def RoastOSCARPassword_def
      roast.crypt_crypt Verify_storedHash [OF assms(2,3)] tooManyLogins_def)

lemma roasted_login:
  assumes "\<not> auDisableAuth s" and "accCreateAccount s (Some salt) sn pw t0 = (None, auAccounts S)"
    and "derivesKeys (auIDKey s)" and "length salt = argon2SaltLen"
    and "sumOf32 (auHMAC s)" and "0 \<le> now" and "unixSeconds (now + 60 * 10 ^ 9) < 2 ^ 32" and "length sn \<le> 206"
  obtains tlvs ck where "login s rand now (roastedLogin sn pw) host S = (Inr tlvs, S)"
    "TLVList_Bytes tlvs LoginTLVTagsAuthorizationCookie = Some ck"
    "\<And>later. later \<le> unixSeconds (now + 60 * 10 ^ 9) * 10 ^ 9 \<Longrightarrow>
       CrackCookie (auHMAC s) (auKey s) later ck = Inr (loginCookie (roastedProps sn pw))"
proof -
  let ?p = "roastedProps sn pw"
  obtain ck where ck: "issueLogin (auHMAC s) (auKey s) now (loginCookie ?p) = Inr ck"
    using issued_login [OF assms(5-7) order.refl, where key = "auKey s" and c = "loginCookie ?p" and r = "[]"] assms(8)
    by (auto simp: loginCookie_def roastedProps_def zeroLoginProperties_def split: sum.splits)
  show thesis
  proof (rule that)
    show "login s rand now (roastedLogin sn pw) host S = (Inr [\<lparr>Tag = LoginTLVTagsScreenName, Value = lpScreenName ?p\<rparr>,
          \<lparr>Tag = LoginTLVTagsReconnectHere, Value = host\<rparr>, \<lparr>Tag = LoginTLVTagsAuthorizationCookie, Value = ck\<rparr>,
          \<lparr>Tag = OServiceTLVTagsSSLState, Value = [if auTLS s then OServiceServiceResponseSSLStateResume
             else OServiceServiceResponseSSLStateNotUsed]\<rparr>], S)" (is "_ = (Inr ?tlvs, S)")
      using login_granted [OF assms(1) fromTLV_roasted roasted_may_login [OF assms(2-4)], of rand now host] ck
      by (simp add: loginSuccess)
    show "TLVList_Bytes ?tlvs LoginTLVTagsAuthorizationCookie = Some ck" by simp
    show "CrackCookie (auHMAC s) (auKey s) later ck = Inr (loginCookie ?p)"
      if "later \<le> unixSeconds (now + 60 * 10 ^ 9) * 10 ^ 9" for later
      using issued_login [OF assms(5-7) that, where key = "auKey s" and c = "loginCookie ?p" and r = "[]"] ck by simp
  qed
qed

section \<open>Registration\<close>

text \<open>What the registration does to a session once it is in the pool leaves its name and instances alone.\<close>

definition quiet :: "(Session \<Rightarrow> Session) \<Rightarrow> bool" where
  "quiet f \<longleftrightarrow> (\<forall>s. (sessionOk s \<longrightarrow> sessionOk (f s)) \<and> identScreenName (f s) = identScreenName s
     \<and> instances (f s) = instances s \<and> closeLog (f s) = closeLog s)"

lemma quiet_comp: "quiet f \<Longrightarrow> quiet g \<Longrightarrow> quiet (f \<circ> g)"
  by (simp add: quiet_def)

lemma quiet_id: "quiet (\<lambda>s. s)"
  by (simp add: quiet_def)

lemma quiet_frame:
  "(\<And>s. instances (f s) = instances s \<and> instancesOrdered (f s) = instancesOrdered s \<and> objects (f s) = objects s
     \<and> identScreenName (f s) = identScreenName s \<and> closeLog (f s) = closeLog s) \<Longrightarrow> quiet f"
  using sessionOk_frame unfolding quiet_def by blast

lemma quiet_setters: "quiet (SetOfflineMsgCount n)" "quiet (SetBuddyIcon b)" "quiet (SetUIN k)"
  by (rule quiet_frame, simp add: SetOfflineMsgCount_def SetBuddyIcon_def SetUIN_def)+

lemma quiet_updInst:
  assumes "\<And>x. instanceNum (f x) = instanceNum x \<and> closed (f x) = closed x"
  shows "quiet (updInst i f)"
  unfolding quiet_def
proof (intro allI conjI impI)
  show "sessionOk (updInst i f s)" if "sessionOk s" for s
    using that sessionOk_upd [OF that, of i f] assms
    by (cases "i < length (objects s)") (simp_all add: updInst_def list_update_beyond)
qed (simp_all add: updInst_def)

lemma quiet_flags:
  "quiet (updInst i (SetUserInfoFlag now flag))" "quiet (updInst i (SetClientID c))" "quiet (updInst i (SetKerberosAuth b))"
  "quiet (updInst i (SetMultiConnFlag m))"
  by (rule quiet_updInst, simp add: SetUserInfoFlag_def Let_def SetClientID_def SetKerberosAuth_def SetMultiConnFlag_def)+

lemma updInstance_on: "updInstance f you B = onSession (updInst (snd you) f) you B"
  by (simp add: updInstance_def onSession_def)

lemma onSession_comp: "onSession f you (onSession g you B) = onSession (f \<circ> g) you B"
  by (cases "fst you < length (bosHeap B)") (simp_all add: onSession_def updSession_def list_update_beyond)

lemma onSession_id: "B = onSession (\<lambda>s. s) you B"
  by (simp add: onSession_def updSession_def)

lemma onSession_fields [simp]:
  "bosMgr (onSession f you B) = bosMgr B" "bosLists (onSession f you B) = bosLists B"
  by (simp_all add: onSession_def)

lemma sessionOf_onSession: "fst you < length (bosHeap B) \<Longrightarrow> sessionOf you (onSession f you B) = f (sessionOf you B)"
  by (simp add: sessionOf_def onSession_def updSession_def)

lemma signonFlags_quiet:
  obtains g where "signonFlags now c u t you B = onSession g you B" "quiet g" "\<And>s. buddyIcon (g s) = buddyIcon s"
proof -
  define f1 where "f1 = (if ConfirmStatus (identScreenName (sessionOf you B)) t then (\<lambda>s. s)
      else updInst (snd you) (SetUserInfoFlag now OServiceUserFlagUnconfirmed))"
  define f2 where "f2 = (if userIsBot u then updInst (snd you) (SetUserInfoFlag now OServiceUserFlagBot) else (\<lambda>s. s))"
  let ?g = "SetOfflineMsgCount (userOfflineMsgCount u) \<circ> (updInst (snd you) (SetClientID (cookieClientID c)) \<circ>
      (updInst (snd you) (SetKerberosAuth (cookieKerberosAuth c = 1)) \<circ> (f2 \<circ> f1)))"
  have "signonFlags now c u t you B = onSession ?g you B"
    by (simp add: signonFlags_def Let_def f1_def f2_def updInstance_on onSession_comp comp_assoc)
      (simp add: onSession_def updSession_def comp_def)
  moreover have "quiet ?g"
    by (intro quiet_comp quiet_setters quiet_flags) (simp_all add: f1_def f2_def quiet_id quiet_flags)
  moreover have "buddyIcon (?g s) = buddyIcon s" for s
    by (simp add: f1_def f2_def SetOfflineMsgCount_def updInst_def)
  ultimately show thesis by (rule that)
qed

lemma cfgOk_bosConfig: "cfgOk f \<Longrightarrow> cfgOk (bosConfig now classes \<circ> f)"
  by (simp add: cfgOk_def bosConfig_def SetMemberSince_def SetRateClasses_def SetSignonTime_def Let_def)

text \<open>The new session of a user who has none.\<close>

lemma timedAdd_fresh:
  assumes st: "storeOk m h" and "map_of (userLocks m) n = None" and "map_of (store m) n = None"
    and "cfgOk sessCfg" and n: "DisplayScreenName_IdentScreenName P sn = n"
  obtains m' t k where "timedAdd P \<lparr>reqName = sn, reqMulti = multi, reqCfg = bosConfig now classes \<circ> sessCfg\<rparr> released m h
      = Some (Inr (length h, 0), m', h @ [t])"
    "identScreenName t = n" "InstanceCount t = 1" "map_of (store m') n = Some k" "slotSess m' k = length h"
    "buddyIcon t = buddyIcon (sessCfg (SetDisplayScreenName sn (SetIdentScreenName n NewSession)))" "sessionOk t"
    "closeLog t = closeLog (sessCfg (SetDisplayScreenName sn (SetIdentScreenName n NewSession)))"
proof -
  let ?r = "\<lparr>reqName = sn, reqMulti = multi, reqCfg = bosConfig now classes \<circ> sessCfg\<rparr>"
  let ?s0 = "SetDisplayScreenName sn (SetIdentScreenName n NewSession)"
  have cfg: "cfgOk (reqCfg ?r)" using cfgOk_bosConfig [OF assms(4)] by simp
  obtain m' t where run: "runAdd P 7 ?r AtStart m h = Next (AtDone (Inr (length h, 0))) m' (h @ [t])"
    and t: "identScreenName t = n" "InstanceCount t = 1" "map_of (store m') n = Some (length (slots m))"
      "slotSess m' (length (slots m)) = length h"
    and add: "AddInstance ((bosConfig now classes \<circ> sessCfg) ?s0) = Some (0, t)"
    using fresh_add [OF st, where P = P and r = ?r] assms(2,3) cfg n by auto
  have s0: "instances (reqCfg ?r ?s0) = []" "instancesOrdered (reqCfg ?r ?s0) = []" "objects (reqCfg ?r ?s0) = []"
    using cfg by (simp_all add: cfgOk_def SetDisplayScreenName_def SetIdentScreenName_def NewSession_def)
  have "sessionOk (reqCfg ?r ?s0)"
    using sessionOk_New sessionOk_frame [of "reqCfg ?r ?s0" NewSession] s0 by (simp add: NewSession_def)
  then have "sessionOk t" using sessionOk_Add add by auto
  moreover have "buddyIcon t = buddyIcon (sessCfg ?s0)" "closeLog t = closeLog (sessCfg ?s0)"
    using add by (auto simp: AddInstance_def bosConfig_def SetMemberSince_def SetRateClasses_def SetSignonTime_def Let_def
      split: option.splits)
  ultimately show thesis using run t
    by (intro that [of m' t "length (slots m)"]) (simp_all add: timedAdd_def)
qed

text \<open>What the registration of a user's only session comes to: the session in the pool, changed quietly, and
  the failures of the icon and of the number.\<close>

lemma Register_fresh:
  assumes "findUser (auPlatform s) (DisplayScreenName_IdentScreenName (auPlatform s) (cookieScreenName c)) (auAccounts S) = Inr (Some u)"
    and n: "DisplayScreenName_IdentScreenName (auPlatform s) (userDisplayScreenName u) = n"
    and "storeOk (bosMgr (auBos S)) (bosHeap (auBos S))" and "map_of (userLocks (bosMgr (auBos S))) n = None"
    and "map_of (store (bosMgr (auBos S))) n = None" and "cfgOk sessCfg"
    and icon: "\<And>x. buddyIcon (sessCfg x) = buddyIcon x"
  obtains m t k where "identScreenName t = n" "InstanceCount t = 1" "map_of (store m) n = Some k" "sessionOk t"
    "slotSess m k = length (bosHeap (auBos S))"
    "closeLog t = closeLog (sessCfg (SetDisplayScreenName (userDisplayScreenName u) (SetIdentScreenName n NewSession)))"
    "\<And>e. BuddyIconMetadata n (bosLists (auBos S)) = Inl e \<Longrightarrow>
       \<exists>f. quiet f \<and> RegisterBOSSession s now released c sessCfg S = (Inl (AuthIcon e),
         S\<lparr>auBos := (auBos S)\<lparr>bosMgr := m, bosHeap := bosHeap (auBos S) @ [f t]\<rparr>\<rparr>)"
    "\<And>i. BuddyIconMetadata n (bosLists (auBos S)) = Inr i \<Longrightarrow> \<not> IsUIN (auPlatform s) (userDisplayScreenName u) \<Longrightarrow>
       \<exists>f. quiet f \<and> RegisterBOSSession s now released c sessCfg S = (Inr (length (bosHeap (auBos S)), 0),
         S\<lparr>auBos := (auBos S)\<lparr>bosMgr := m, bosHeap := bosHeap (auBos S) @ [f t]\<rparr>\<rparr>)"
proof -
  let ?P = "auPlatform s" and ?h = "bosHeap (auBos S)" and ?you = "(length (bosHeap (auBos S)), 0 :: nat)"
  obtain m t k where add: "timedAdd ?P \<lparr>reqName = userDisplayScreenName u,
        reqMulti = (cookieMultiConnFlag c = MultiConnFlagsRecentClient), reqCfg = bosConfig now (auClasses s) \<circ> sessCfg\<rparr> released
        (bosMgr (auBos S)) ?h = Some (Inr ?you, m, ?h @ [t])"
    and t: "identScreenName t = n" "InstanceCount t = 1" "map_of (store m) n = Some k" "slotSess m k = length ?h"
      "buddyIcon t = buddyIcon (sessCfg (SetDisplayScreenName (userDisplayScreenName u) (SetIdentScreenName n NewSession)))"
      "sessionOk t"
      "closeLog t = closeLog (sessCfg (SetDisplayScreenName (userDisplayScreenName u) (SetIdentScreenName n NewSession)))"
    by (rule timedAdd_fresh [OF assms(3-6) n])
  let ?B = "(auBos S)\<lparr>bosMgr := m, bosHeap := ?h @ [t]\<rparr>"
  obtain g where g: "signonFlags now c u (auAccounts S) ?you ?B = onSession g ?you ?B" "quiet g"
    "\<And>x. buddyIcon (g x) = buddyIcon x"
    using signonFlags_quiet [where now = now and c = c and u = u and t = "auAccounts S" and you = ?you and B = ?B] by blast
  let ?B1 = "onSession g ?you ?B"
  have at: "onSession f ?you ?B = (auBos S)\<lparr>bosMgr := m, bosHeap := ?h @ [f t]\<rparr>" for f
    by (simp add: onSession_def updSession_def list_update_append)
  have gt: "sessionOf ?you ?B1 = g t" "identScreenName (g t) = n"
    using g(2) t(1) by (simp_all add: sessionOf_onSession quiet_def) (simp add: sessionOf_def)
  have "buddyIcon (g t) = zeroBARTID"
    using t(5) g(3) icon by (simp add: SetDisplayScreenName_def SetIdentScreenName_def NewSession_def)
  then have noIcon: "snd (BuddyIcon (g t)) = False" by (simp add: BuddyIcon_def zeroBARTID_def)
  note reg = RegisterBOSSession_def assms(1) add g(1) signonIcon_def gt noIcon Let_def
  show thesis
  proof (rule that [of t m k])
    fix e assume e: "BuddyIconMetadata n (bosLists (auBos S)) = Inl e"
    show "\<exists>f. quiet f \<and> RegisterBOSSession s now released c sessCfg S = (Inl (AuthIcon e),
         S\<lparr>auBos := (auBos S)\<lparr>bosMgr := m, bosHeap := ?h @ [f t]\<rparr>\<rparr>)"
      using g(2) e by (intro exI [of _ g]) (simp add: reg, simp add: at)
  next
    fix i assume i: "BuddyIconMetadata n (bosLists (auBos S)) = Inr i" and aim: "\<not> IsUIN ?P (userDisplayScreenName u)"
    define b where "b = (case i of None \<Rightarrow> (\<lambda>x. x) | Some bartID \<Rightarrow> SetBuddyIcon bartID)"
    let ?f = "updInst 0 (SetMultiConnFlag (cookieMultiConnFlag c)) \<circ> (b \<circ> g)"
    have b: "quiet b" by (simp add: b_def quiet_id quiet_setters split: option.split)
    have "signonIcon ?you ?B1 = (Inr (), onSession (b \<circ> g) ?you ?B)"
      using i by (auto simp: reg b_def onSession_comp comp_def split: option.split)
    then have "RegisterBOSSession s now released c sessCfg S = (Inr ?you, S\<lparr>auBos := onSession ?f ?you ?B\<rparr>)"
      using aim by (simp add: RegisterBOSSession_def assms(1) add g(1) Let_def signonNumber_def updInstance_on
        onSession_comp)
    moreover have "quiet ?f" using b g(2) by (intro quiet_comp quiet_flags)
    ultimately show "\<exists>f. quiet f \<and> RegisterBOSSession s now released c sessCfg S = (Inr ?you,
         S\<lparr>auBos := (auBos S)\<lparr>bosMgr := m, bosHeap := ?h @ [f t]\<rparr>\<rparr>)"
      using at by auto
  qed (use t in simp_all)
qed

text \<open>C31: A new account signs on. With authentication enabled, an account that the creator made for an AIM
  name of at most 206 bytes logs in with its password in the roasted form and gets a cookie; the cookie, until it expires, is good for a session: the
  registration, for a user with no session and no sign-on in progress whose icon can be read, puts a
  session under the user's name into the pool, with exactly one connection.\<close>
theorem new_account_signs_on:
  assumes "\<not> auDisableAuth s" and "accCreateAccount s (Some salt) sn pw t0 = (None, auAccounts S)"
    and "derivesKeys (auIDKey s)" and "length salt = argon2SaltLen" and "sumOf32 (auHMAC s)"
    and "0 \<le> now" and "unixSeconds (now + 60 * 10 ^ 9) < 2 ^ 32" and "later \<le> unixSeconds (now + 60 * 10 ^ 9) * 10 ^ 9"
    and "length sn \<le> 206" and aim: "\<not> IsUIN (auPlatform s) sn"
    and n: "NewIdentScreenName (auPlatform s) sn = n"
    and pool: "storeOk (bosMgr (auBos S)) (bosHeap (auBos S))" "map_of (userLocks (bosMgr (auBos S))) n = None"
      "map_of (store (bosMgr (auBos S))) n = None"
    and "BuddyIconMetadata n (bosLists (auBos S)) = Inr icon"
  shows "\<exists>tlvs ck c you S'. FLAPLogin s rand now (roastedLogin sn pw) host S = (Inr tlvs, S)
    \<and> TLVList_Bytes tlvs LoginTLVTagsAuthorizationCookie = Some ck
    \<and> CrackCookie (auHMAC s) (auKey s) later ck = Inr c
    \<and> RegisterBOSSession s later released c id S = (Inr you, S')
    \<and> findRec n (bosMgr (auBos S')) (bosHeap (auBos S')) \<noteq> None
    \<and> identScreenName (sessionOf you (auBos S')) = n \<and> InstanceCount (sessionOf you (auBos S')) = 1"
proof -
  obtain tlvs ck where login: "login s rand now (roastedLogin sn pw) host S = (Inr tlvs, S)"
    "TLVList_Bytes tlvs LoginTLVTagsAuthorizationCookie = Some ck"
    "CrackCookie (auHMAC s) (auKey s) later ck = Inr (loginCookie (roastedProps sn pw))"
    using roasted_login [OF assms(1-7,9)] assms(8) by metis
  let ?c = "loginCookie (roastedProps sn pw)"
  have user: "\<exists>u. findUser (auPlatform s) (DisplayScreenName_IdentScreenName (auPlatform s) (cookieScreenName ?c)) (auAccounts S)
      = Inr (Some u) \<and> userDisplayScreenName u = sn"
    using accCreateAccount_None [OF assms(2)]
    by (simp add: loginCookie_def roastedProps_def DisplayScreenName_IdentScreenName_def newAccountRow_def)
  then obtain u where u: "findUser (auPlatform s) (DisplayScreenName_IdentScreenName (auPlatform s) (cookieScreenName ?c)) (auAccounts S)
      = Inr (Some u)" "userDisplayScreenName u = sn" by blast
  obtain m t k f where t: "identScreenName t = n" "InstanceCount t = 1" "map_of (store m) n = Some k"
      "slotSess m k = length (bosHeap (auBos S))" and f: "quiet f"
    and reg: "RegisterBOSSession s later released ?c id S = (Inr (length (bosHeap (auBos S)), 0),
         S\<lparr>auBos := (auBos S)\<lparr>bosMgr := m, bosHeap := bosHeap (auBos S) @ [f t]\<rparr>\<rparr>)"
    using Register_fresh [OF u(1), where n = n and sessCfg = id and now = later and released = released] u(2) n pool assms(15) aim
    by (metis DisplayScreenName_IdentScreenName_def cfgOk_def id_apply)
  let ?B = "(auBos S)\<lparr>bosMgr := m, bosHeap := bosHeap (auBos S) @ [f t]\<rparr>"
  have ft: "identScreenName (f t) = n" "InstanceCount (f t) = 1"
    using f t(1,2) by (simp_all add: quiet_def InstanceCount_def)
  have "findRec n (bosMgr ?B) (bosHeap ?B) \<noteq> None"
  proof -
    have "(n, k) \<in> set (store m)" "n = identScreenName (bosHeap ?B ! slotSession (slots m ! k))"
      using t(3,4) ft by (auto dest: map_of_SomeD simp: slotSess_def)
    then show ?thesis by (auto simp: findRec_def find_None_iff)
  qed
  with login reg ft show ?thesis by (auto simp: FLAPLogin_def sessionOf_def)
qed

text \<open>C32: An icon entry without an icon stops the server. When the contact list of a user who has no session
  in the (consistent) pool and no sign-on in progress has an icon entry that cannot be read, the registration fails after the session was put
  into the pool, where it stays with its one open connection. A later sign-on of this user that replaces the
  session closes it and so runs the function registered for the session's end. This one names
  the connection that the failed registration returned, which is none, and panics, whether the server is
  shutting down or not and whatever has happened in between. Nothing recovers the panic. (A connection
  that joins a shared session which has an icon does not read the entry and is not concerned.)\<close>
theorem bad_icon_stops_server:
  assumes "findUser (auPlatform s) (DisplayScreenName_IdentScreenName (auPlatform s) (cookieScreenName c)) (auAccounts S) = Inr (Some u)"
    and n: "DisplayScreenName_IdentScreenName (auPlatform s) (userDisplayScreenName u) = n"
    and pool: "storeOk (bosMgr (auBos S)) (bosHeap (auBos S))" "map_of (userLocks (bosMgr (auBos S))) n = None"
      "map_of (store (bosMgr (auBos S))) n = None"
    and "BuddyIconMetadata n (bosLists (auBos S)) = Inl e"
  shows "\<exists>S1 k a. RegisterBOSSession s now released c id S = (Inl (AuthIcon e), S1)
    \<and> map_of (store (bosMgr (auBos S1))) n = Some k \<and> slotSess (bosMgr (auBos S1)) k = a
    \<and> InstanceCount (bosHeap (auBos S1) ! a) = 1 \<and> closeLog (bosHeap (auBos S1) ! a) = []
    \<and> (\<forall>P r. \<exists>h2. addStep P r (AtClose k) (bosMgr (auBos S1)) (bosHeap (auBos S1)) = Next (AtWait k) (bosMgr (auBos S1)) h2
         \<and> closeLog (h2 ! a) = [OnSessCloseFn])
    \<and> (\<forall>shuttingDown S2. bosSessionClosed shuttingDown
          (registeredInstance (fst (RegisterBOSSession s now released c id S))) a S2 = Inl (AuthPanic Panics))"
proof -
  let ?h = "bosHeap (auBos S)"
  obtain m t k f where t: "identScreenName t = n" "InstanceCount t = 1" "map_of (store m) n = Some k" "sessionOk t"
      "slotSess m k = length ?h" "closeLog t = []" and f: "quiet f"
    and reg: "RegisterBOSSession s now released c id S = (Inl (AuthIcon e),
         S\<lparr>auBos := (auBos S)\<lparr>bosMgr := m, bosHeap := ?h @ [f t]\<rparr>\<rparr>)"
    using Register_fresh [OF assms(1) n pool, where sessCfg = id and now = now and released = released] assms(6)
    by (simp add: cfgOk_def SetDisplayScreenName_def SetIdentScreenName_def NewSession_def) metis
  have ft: "InstanceCount (f t) = 1" "sessionOk (f t)" "closeLog (f t) = []"
    using f t by (simp_all add: quiet_def InstanceCount_def)
  have "closeLog (CloseSession (f t)) = [OnSessCloseFn]" using CloseSession_correct(5) [OF ft(2)] ft by simp
  with reg t ft show ?thesis
    by (intro exI [of _ "S\<lparr>auBos := (auBos S)\<lparr>bosMgr := m, bosHeap := ?h @ [f t]\<rparr>\<rparr>"] exI [of _ k] exI [of _ "length ?h"])
      (simp add: bosSessionClosed_def registeredInstance_def updSession_def nth_append list_update_append)
qed

section \<open>Samples\<close>

definition sampleAuth :: AuthService where
  "sampleAuth = \<lparr>auPlatform = samplePlatform, auIDKey = sampleIDKey, auHMAC = sampleHMAC, auKey = [1],
     auDisableAuth = False, auTLS = True, auClasses = DefaultRateLimitClasses\<rparr>"

abbreviation (input) sampleName :: DisplayScreenName where "sampleName \<equiv> asciiBytes ''Al 99''"
abbreviation (input) samplePassword :: bytes where "samplePassword \<equiv> asciiBytes ''opensesame''"

definition sampleAccounts :: accountTable where
  "sampleAccounts = snd (accCreateAccount sampleAuth (Some sampleSalt) sampleName samplePassword [])"

definition sampleAuthState :: "ListStore \<Rightarrow> authState" where
  "sampleAuthState st = \<lparr>auBos = \<lparr>bosMgr = NewInMemorySessionManager, bosHeap = [], bosLists = st\<rparr>,
     auAccounts = sampleAccounts, auChat = NewInMemoryChatSessionManager, auChatHeap = []\<rparr>"

lemma sample_name: "IsUIN samplePlatform sampleName = False" "NewIdentScreenName samplePlatform sampleName = asciiBytes ''al99''"
  by (simp_all add: asciiBytes_def IsUIN_def runes_ascii isDigit_def ident_ascii asciiLower_def)

lemma sample_accounts: "accCreateAccount sampleAuth (Some sampleSalt) sampleName samplePassword [] = (None, sampleAccounts)"
proof -
  have "isASCII sampleName" by (simp add: asciiBytes_def)
  then have "fst (accCreateAccount sampleAuth (Some sampleSalt) sampleName samplePassword []) = None"
    using sample_name(1)
    by (simp add: accCreateAccount_def sampleAuth_def ValidateAIMHandle_def runes_ascii countHandle_ascii handleChar_def
      isLetter_def isDigit_def User_HashPassword_def validateAIMPassword_def NewPasswordHash_def accInsertUser_def zeroUser_def)
      (simp add: asciiBytes_def handleChar_def)
  then show ?thesis by (simp add: sampleAccounts_def prod_eq_iff)
qed

lemma sample_state [simp]:
  "bosLists (auBos (sampleAuthState st)) = st" "auAccounts (sampleAuthState st) = sampleAccounts"
  "storeOk (bosMgr (auBos (sampleAuthState st))) (bosHeap (auBos (sampleAuthState st)))"
  "map_of (userLocks (bosMgr (auBos (sampleAuthState st)))) n = None" "map_of (store (bosMgr (auBos (sampleAuthState st)))) n = None"
  by (simp_all add: sampleAuthState_def NewInMemorySessionManager_def storeOk_def)

lemma sample_auth [simp]:
  "\<not> auDisableAuth sampleAuth" "derivesKeys (auIDKey sampleAuth)" "sumOf32 (auHMAC sampleAuth)" "auPlatform sampleAuth = samplePlatform"
  using sample_derivesKeys sampleHMAC_32 by (simp_all add: sampleAuth_def)

lemma sample_salt: "length sampleSalt = 16"
  by (simp add: sampleSalt_def)

lemma new_account_signs_on_witness:
  "\<exists>tlvs ck c you S'. FLAPLogin sampleAuth None 0 (roastedLogin sampleName samplePassword) [] (sampleAuthState emptyStore) = (Inr tlvs, sampleAuthState emptyStore)
    \<and> TLVList_Bytes tlvs LoginTLVTagsAuthorizationCookie = Some ck \<and> CrackCookie sampleHMAC [1] 5 ck = Inr c
    \<and> RegisterBOSSession sampleAuth 5 False c id (sampleAuthState emptyStore) = (Inr you, S')
    \<and> identScreenName (sessionOf you (auBos S')) = asciiBytes ''al99''"
proof -
  have "accCreateAccount sampleAuth (Some sampleSalt) sampleName samplePassword [] = (None, auAccounts (sampleAuthState emptyStore))"
    by (simp add: sample_accounts)
  moreover have "BuddyIconMetadata (asciiBytes ''al99'') (bosLists (auBos (sampleAuthState emptyStore))) = Inr None"
    by (simp add: BuddyIconMetadata_def emptyStore_def)
  moreover have "length sampleName \<le> 206" by (simp add: asciiBytes_def)
  moreover have "auHMAC sampleAuth = sampleHMAC" "auKey sampleAuth = [1]" by (simp_all add: sampleAuth_def)
  ultimately show ?thesis
    using new_account_signs_on [of sampleAuth sampleSalt sampleName samplePassword "[]" "sampleAuthState emptyStore" 0 5 "asciiBytes ''al99''"
      None None "[]" False]
    by (simp add: sample_salt sample_name unixSeconds_def sampleHMAC_32) blast
qed


definition badIconLists :: ListStore where
  "badIconLists = emptyStore\<lparr>feedbag := [\<lparr>fbScreenName = asciiBytes ''al99'', fbGroupID = 0, fbItemID = 7, fbClassID = FeedbagClassIdBart,
     fbName = [0x31], fbAttributes = [0, 0], fbPdMode = 0, fbAuthPending = False, fbLastModified = 0\<rparr>]\<rparr>"

lemma bad_icon_stops_server_witness:
  "\<exists>e S1 a. RegisterBOSSession sampleAuth 5 False (loginCookie (roastedProps sampleName samplePassword)) id (sampleAuthState badIconLists)
      = (Inl (AuthIcon e), S1)
    \<and> InstanceCount (bosHeap (auBos S1) ! a) = 1
    \<and> bosSessionClosed False (registeredInstance (fst (RegisterBOSSession sampleAuth 5 False
         (loginCookie (roastedProps sampleName samplePassword)) id (sampleAuthState badIconLists)))) a S1 = Inl (AuthPanic Panics)"
proof -
  have "UnmarshalBE TLVLBlock_type [0, 0] = (Inr (TLVList_val []), [])"
    using decode_own [of TLVLBlock_type "TLVList_val []" "[0, 0]" "[]"]
    by (simp add: TLVLBlock_type_def TLV_type_def TLVList_val_def MarshalBE_def marshal_value parse_tags lenFits_def
      prefixWidth_def putUint_def numeral_2_eq_2)
  then have bad: "BuddyIconMetadata (asciiBytes ''al99'') (bosLists (auBos (sampleAuthState badIconLists))) = Inl IconPayload"
    by (simp add: BuddyIconMetadata_def badIconLists_def emptyStore_def showDecimal.simps [of "Suc 0"] decDigit_def)
  obtain u where u: "findUser samplePlatform (DisplayScreenName_IdentScreenName samplePlatform sampleName)
      (auAccounts (sampleAuthState badIconLists)) = Inr (Some u)" "userDisplayScreenName u = sampleName"
    using accCreateAccount_None [OF sample_accounts] by (simp add: DisplayScreenName_IdentScreenName_def newAccountRow_def)
  have "cookieScreenName (loginCookie (roastedProps sampleName samplePassword)) = sampleName"
    by (simp add: loginCookie_def roastedProps_def)
  then show ?thesis
    using bad_icon_stops_server [of sampleAuth "loginCookie (roastedProps sampleName samplePassword)" "sampleAuthState badIconLists" u
      "asciiBytes ''al99''" IconPayload 5 False] u bad sample_name(2)
    by (simp add: DisplayScreenName_IdentScreenName_def) blast
qed

end
