(* ===== verification/Foodgroup_OService.thy ===== *)
theory Foodgroup_OService
  imports Foodgroup_Auth
begin

text \<open>
  The control service, \<open>foodgroup/oservice.go\<close>: versions, rate parameters and their updates, the user's own
  information, idle and status changes, the redirection to other services, and what happens when
  a client is ready. The state joins that of the sign-on service with the tables of profiles and chat
  rooms. Requests that only write to the log are left out.
\<close>

section \<open>State and configuration\<close>

record serverState = authState +
  svCatalog :: CatalogStore

record OServiceService = AuthService +
  osLimits :: SNACRateLimits
  osDisableMultiLoginNotif :: bool

datatype oserviceFault = OsPanic gerr | OsUnmarshal gerr | OsNoRoomInfo | OsRoom catalogError | OsCookie cookieError
  | OsChat chatFault | OsMarshal gerr | OsOfflineCount accountError

type_synonym oserviceResult = "(oserviceFault + SNACMessage) \<times> serverState"

abbreviation (input) OServiceUserInfoMemberSince :: u16 where "OServiceUserInfoMemberSince \<equiv> 0x05"
abbreviation (input) OServiceUserInfoOnlineTime :: u16 where "OServiceUserInfoOnlineTime \<equiv> 0x0F"
abbreviation (input) OServiceUserInfoMyInstanceNum :: u16 where "OServiceUserInfoMyInstanceNum \<equiv> 0x14"
abbreviation (input) OServiceUserInfoSigTime :: u16 where "OServiceUserInfoSigTime \<equiv> 0x26"
abbreviation (input) OServiceUserInfoPrimaryInstance :: u16 where "OServiceUserInfoPrimaryInstance \<equiv> 0x28"
abbreviation (input) OServiceTLVTagsReconnectHere :: u16 where "OServiceTLVTagsReconnectHere \<equiv> 0x05"
abbreviation (input) OServiceTLVTagsLoginCookie :: u16 where "OServiceTLVTagsLoginCookie \<equiv> 0x06"
abbreviation (input) OServiceTLVTagsGroupID :: u16 where "OServiceTLVTagsGroupID \<equiv> 0x0D"
abbreviation (input) OserviceTLVTagsSSLUseSSL :: u16 where "OserviceTLVTagsSSLUseSSL \<equiv> 0x8C"
abbreviation (input) OServiceTLVTagsMOTDMessage :: u16 where "OServiceTLVTagsMOTDMessage \<equiv> 0x0B"
abbreviation (input) ErrorCodeServiceUnavailable :: u16 where "ErrorCodeServiceUnavailable \<equiv> 0x05"
abbreviation (input) ErrorCodeGeneralFailure :: u16 where "ErrorCodeGeneralFailure \<equiv> 0x1C"
abbreviation (input) StatsSetMinReportInterval :: u16 where "StatsSetMinReportInterval \<equiv> 0x0002"
abbreviation (input) MDir :: u16 where "MDir \<equiv> 0x0025"

definition osTLVs :: "(u16 \<times> gtype \<times> gval) list \<Rightarrow> TLVList \<Rightarrow> oserviceFault + TLVList" where
  "osTLVs es tlvs = (case appendTLVs es tlvs of Inl e \<Rightarrow> Inl (OsPanic e) | Inr r \<Rightarrow> Inr r)"

definition osUserInfo :: "int \<Rightarrow> Session \<Rightarrow> oserviceFault + TLVUserInfo" where
  "osUserInfo now s = (case Session_TLVUserInfo now s of Inl e \<Rightarrow> Inl (OsPanic e) | Inr info \<Rightarrow> Inr info)"

definition osBos :: "(gerr + BOS) \<Rightarrow> 'r \<Rightarrow> serverState \<Rightarrow> (oserviceFault + 'r) \<times> serverState" where
  "osBos res r S = (case res of Inl e \<Rightarrow> (Inl (OsPanic e), S) | Inr B \<Rightarrow> (Inr r, S\<lparr>auBos := B\<rparr>))"

section \<open>The user's own information\<close>

text \<open>What an instance is told of the instance at \<open>i\<close> of its session; only its own icon and profile
  are shown.\<close>

definition instanceInfoEntries :: "Session \<Rightarrow> nat \<Rightarrow> nat \<Rightarrow> (u16 \<times> gtype \<times> gval) list" where
  "instanceInfoEntries s self i =
     (let x = inst s i in
      [(OServiceUserInfoSignonTOD, TU32, VU32 (word_of_int (unixSeconds (signonTime s)))),
       (OServiceUserInfoUserFlags, TU16, VU16 (if Away s then userInfoBitmask x OR OServiceUserFlagUnavailable else userInfoBitmask x)),
       (OServiceUserInfoStatus, TU32, VU32 (if instanceInvisible x then OServiceUserStatusInvisible else 0))]
      @ (if i = self \<and> snd (BuddyIcon s) \<and> bartType (fst (BuddyIcon s)) \<noteq> 0
         then [(OServiceUserInfoBARTInfo, BARTID_type, BARTID_val (fst (BuddyIcon s)))] else [])
      @ [(OServiceUserInfoOscarCaps, TSlice (TArray 16 TU8), capsVal (Caps s)),
         (OServiceUserInfoMySubscriptions, TU32, VU32 0)]
      @ (if i = self \<and> UpdateTime (profile x) \<noteq> zeroTime
         then [(OServiceUserInfoSigTime, TU32, VU32 (word_of_int (unixSeconds (UpdateTime (profile x)))))] else [])
      @ [(OServiceUserInfoPrimaryInstance, TSlice TU8, bytesVal [instanceNum x])])"

fun instanceInfos :: "Session \<Rightarrow> nat \<Rightarrow> nat list \<Rightarrow> oserviceFault + gval list" where
  "instanceInfos s self [] = Inr []"
| "instanceInfos s self (i # is) =
     ebind (osTLVs (instanceInfoEntries s self i) []) (\<lambda>tlvs.
     ebind (instanceInfos s self is) (\<lambda>vs.
       Inr (TLVUserInfo_val \<lparr>tuiScreenName = displayScreenName s, tuiWarningLevel = warning s, tuiTLVs = tlvs\<rparr> # vs)))"

definition newOServiceUserInfoUpdate :: "int \<Rightarrow> Session \<Rightarrow> nat \<Rightarrow> oserviceFault + gval" where
  "newOServiceUserInfoUpdate now s self =
     ebind (osUserInfo now s) (\<lambda>info.
     ebind (osTLVs
       ([(OServiceUserInfoMemberSince, TU32, VU32 (word_of_int (unixSeconds (memberSince s)))),
         (OServiceUserInfoSignonTOD, TU32, VU32 (word_of_int (unixSeconds (signonTime s)))),
         (OServiceUserInfoOnlineTime, TU32, VU32 (word_of_int ((now - signonTime s) sdiv 10 ^ 9)))]
        @ (if foodGroupVersions (inst s self) ! unat OService \<ge> 4
           then [(OServiceUserInfoMyInstanceNum, TSlice TU8, bytesVal [instanceNum (inst s self)])] else []))
       (tuiTLVs info)) (\<lambda>tlvs.
     ebind (if foodGroupVersions (inst s self) ! unat OService \<ge> 4 then instanceInfos s self (Instances s) else Inr []) (\<lambda>vs.
       Inr (VStruct [VSlice (TLVUserInfo_val (info\<lparr>tuiTLVs := tlvs\<rparr>) # vs)]))))"

definition UserInfoQuery :: "int \<Rightarrow> instanceRef \<Rightarrow> u32 \<Rightarrow> serverState \<Rightarrow> oserviceFault + SNACMessage" where
  "UserInfoQuery now you req S =
     ebind (newOServiceUserInfoUpdate now (sessionOf you (auBos S)) (snd you)) (\<lambda>v.
       Inr (replyFrame OService OServiceUserInfoUpdate req, Some (SNAC_0x01_0x0F_OServiceUserInfoUpdate, v)))"

section \<open>Versions and rates\<close>

definition noteVersion :: "u16 \<Rightarrow> u16 \<Rightarrow> u16 list \<Rightarrow> u16 list" where
  "noteVersion fg ver versions =
     (if fg < OService \<or> fg > MDir then versions else if ver < 1 then versions else versions[unat fg := ver])"

fun noteVersions :: "u16 list \<Rightarrow> u16 list \<Rightarrow> u16 list" where
  "noteVersions (fg # ver # rest) versions = noteVersions rest (noteVersion fg ver versions)"
| "noteVersions _ versions = versions"

definition motd :: "oserviceFault + SNACMessage" where
  "motd = ebind (osTLVs [(OServiceTLVTagsMOTDMessage, TString, VString (asciiBytes ''Welcome to Open OSCAR Server''))] []) (\<lambda>tlvs.
     Inr (replyFrame OService OServiceMotd ReqIDFromServer, Some (SNAC_0x01_0x13_OServiceMOTD, VStruct [VU16 0x0004, TLVList_val tlvs])))"

definition ClientVersions :: "instanceRef \<Rightarrow> u32 \<Rightarrow> u16 list \<Rightarrow> serverState \<Rightarrow> (oserviceFault + SNACMessage list) \<times> serverState" where
  "ClientVersions you req versions S =
     (if length versions mod 2 \<noteq> 0 then (Inr [], S)
      else
        (ebind motd (\<lambda>m. Inr
           [(replyFrame OService OServiceHostVersions req,
             Some (SNAC_0x01_0x18_OServiceHostVersions, VStruct [VSlice (map VU16 versions)])), m]),
         S\<lparr>auBos := updInstance (SetFoodGroupVersions (noteVersions versions (replicate (Suc (unat MDir)) 0))) you (auBos S)\<rparr>))"

definition rateParams :: "RateClassState \<Rightarrow> (u32 \<times> byte) option \<Rightarrow> gval" where
  "rateParams st v2 =
     (let c = rateClass st; w = (\<lambda>x. VU32 (word_of_int x)) in
      VStruct [VU16 (ID c), w (WindowSize c), w (ClearLevel c), w (AlertLevel c), w (LimitLevel c), w (DisconnectLevel c),
        w (CurrentLevel st), w (MaxLevel c),
        VPtr (map_option (\<lambda>(lastTime, dropping). VStruct [VU32 lastTime, VU8 dropping]) v2)])"

definition rateGroup :: "(u16 \<times> u16 \<times> u16) list \<Rightarrow> u16 \<Rightarrow> gval" where
  "rateGroup all k = VStruct [VU16 k,
     VSlice (map (\<lambda>(fg, sg, c). VStruct [VU16 fg, VU16 sg]) (filter (\<lambda>(fg, sg, c). c = k) all))]"

text \<open>A class outside of 1 to 5 is an index out of range.\<close>

definition RateParamsQuery :: "int \<Rightarrow> SNACRateLimits \<Rightarrow> instanceRef \<Rightarrow> u32 \<Rightarrow> serverState \<Rightarrow> oserviceFault + SNACMessage" where
  "RateParamsQuery now limits you req S =
     (let s = sessionOf you (auBos S); all = SNACRateLimits_All limits;
          v2 = (if foodGroupVersions (inst s (snd you)) ! unat OService > 1
                then Some (word_of_int (unixSeconds (now - 10 ^ 9)), 0) else None) in
      if list_ex (\<lambda>(fg, sg, c). c < 1 \<or> 5 < c) all then Inl (OsPanic Panics)
      else Inr (replyFrame OService OServiceRateParamsReply req, Some (SNAC_0x01_0x07_OServiceRateParamsReply,
        VStruct [VSlice (map (\<lambda>st. rateParams st v2) (rateLimitStates s)), VSlice (map (rateGroup all) [1, 2, 3, 4, 5])])))"

definition RateParamsSubAdd :: "instanceRef \<Rightarrow> u16 list \<Rightarrow> serverState \<Rightarrow> (oserviceFault + unit) \<times> serverState" where
  "RateParamsSubAdd you classIDs S =
     (let ids = filter (\<lambda>i. \<not> (i < 1 \<or> i > 5)) classIDs in
      if length ids = 0 then (Inr (), S)
      else (case SubscribeRateLimits ids (sessionOf you (auBos S)) of
         None \<Rightarrow> (Inl (OsPanic Panics), S)
       | Some s \<Rightarrow> (Inr (), S\<lparr>auBos := onSession (\<lambda>_. s) you (auBos S)\<rparr>)))"

definition buildRateLimitUpdate :: "u16 \<Rightarrow> RateClassState \<Rightarrow> SessionInstance \<Rightarrow> int \<Rightarrow> SNACMessage" where
  "buildRateLimitUpdate code curRate x now =
     (replyFrame OService OServiceRateParamChange ReqIDFromServer, Some (SNAC_0x01_0x0A_OServiceRateParamsChange,
        VStruct [VU16 code, rateParams curRate
          (if foodGroupVersions x ! unat OService > 1
           then Some (word_of_int (max 0 (unixSeconds now - unixSeconds (LastTime curRate))),
                      if CurrentStatus curRate = Some RateLimitStatusLimited then 1 else 0)
           else None)]))"

definition stateUpdate :: "RateClassState \<Rightarrow> SessionInstance \<Rightarrow> int \<Rightarrow> SNACMessage list" where
  "stateUpdate curRate x now =
     (case CurrentStatus curRate of
        Some RateLimitStatusLimited \<Rightarrow> [buildRateLimitUpdate 3 curRate x now]
      | Some RateLimitStatusAlert \<Rightarrow> [buildRateLimitUpdate 2 curRate x now]
      | Some RateLimitStatusClear \<Rightarrow> [buildRateLimitUpdate 4 curRate x now]
      | Some RateLimitStatusDisconnect \<Rightarrow> []
      | None \<Rightarrow> [buildRateLimitUpdate 0 curRate x now])"

definition RateLimitUpdates :: "instanceRef \<Rightarrow> int \<Rightarrow> serverState \<Rightarrow> (oserviceFault + SNACMessage list) \<times> serverState" where
  "RateLimitUpdates you now S =
     (case ObserveRateChanges now (sessionOf you (auBos S)) of
        None \<Rightarrow> (Inl (OsPanic Panics), S)
      | Some (classDelta, stateDelta, s) \<Rightarrow>
          (let x = inst s (snd you) in
           (Inr (map (\<lambda>c. buildRateLimitUpdate 1 c x now) classDelta @ concat (map (\<lambda>c. stateUpdate c x now) stateDelta)),
            S\<lparr>auBos := onSession (\<lambda>_. s) you (auBos S)\<rparr>)))"

section \<open>Status and idle time\<close>

definition broadcastStatus :: "int \<Rightarrow> instanceRef \<Rightarrow> BOS \<Rightarrow> gerr + BOS" where
  "broadcastStatus now you B =
     (let s = sessionOf you B in
      if Invisible s then BroadcastBuddyDeparted (identScreenName s) B
      else ebind (Session_TLVUserInfo now s) (\<lambda>info. BroadcastBuddyArrived (identScreenName s) info B))"

definition toICQDCInfo :: "gval \<Rightarrow> ICQDCInfo" where
  "toICQDCInfo v = \<lparr>dcIP = asU32 (field 0 v), dcPort = asU32 (field 1 v), dcType = asU8 (field 2 v),
     dcProtoVersion = asU16 (field 3 v), dcAuthCookie = asU32 (field 4 v), dcWebPort = asU32 (field 5 v),
     dcClientFutures = asU32 (field 6 v), dcLastUpdateTime = asU32 (field 7 v), dcLastExtInfoUpdateTime = asU32 (field 8 v),
     dcLastExtStatusUpdateTime = asU32 (field 9 v), dcUnknown = asU16 (field 10 v)\<rparr>"

definition setStatusField :: "int \<Rightarrow> instanceRef \<Rightarrow> TLVList \<Rightarrow> serverState \<Rightarrow> (oserviceFault + unit) \<times> serverState" where
  "setStatusField now you inBody S =
     (case TLVList_Uint32BE inBody OServiceUserInfoStatus of
        Inl e \<Rightarrow> (Inl (OsPanic e), S)
      | Inr None \<Rightarrow> (Inr (), S)
      | Inr (Some status) \<Rightarrow>
          (let B = updInstance (SetUserStatusBitmask now status) you (auBos S)
           in osBos (broadcastStatus now you B) () (S\<lparr>auBos := B\<rparr>)))"

definition setDCField :: "instanceRef \<Rightarrow> TLVList \<Rightarrow> serverState \<Rightarrow> (oserviceFault + unit) \<times> serverState" where
  "setDCField you inBody S =
     (case TLVList_Bytes inBody OServiceUserInfoICQDC of
        None \<Rightarrow> (Inr (), S)
      | Some b \<Rightarrow>
          (case fst (UnmarshalBE ICQDCInfo_type b) of
             Inl e \<Rightarrow> (Inl (OsUnmarshal e), S)
           | Inr v \<Rightarrow> (Inr (), S\<lparr>auBos := updInstance (SetICQDCInfo (toICQDCInfo v)) you (auBos S)\<rparr>)))"

definition statusReply :: "int \<Rightarrow> instanceRef \<Rightarrow> u32 \<Rightarrow> BOS \<Rightarrow> oserviceFault + SNACMessage" where
  "statusReply now you req B =
     ebind (osUserInfo now (sessionOf you B)) (\<lambda>info.
     ebind (osTLVs [(OServiceUserInfoStatus, TU32, VU32 (userStatusBitmask (instanceOf you B)))] []) (\<lambda>new.
       Inr (replyFrame OService OServiceUserInfoUpdate req, Some (SNAC_0x01_0x0F_OServiceUserInfoUpdate,
         VStruct [VSlice [TLVUserInfo_val (info\<lparr>tuiTLVs := TLVList_Replace (tuiTLVs info) (hd new)\<rparr>)]]))))"

definition SetUserInfoFields :: "int \<Rightarrow> instanceRef \<Rightarrow> u32 \<Rightarrow> TLVList \<Rightarrow> serverState \<Rightarrow> oserviceResult" where
  "SetUserInfoFields now you req inBody S =
     (case setStatusField now you inBody S of
        (Inl e, S1) \<Rightarrow> (Inl e, S1)
      | (Inr _, S1) \<Rightarrow>
          (case setDCField you inBody S1 of
             (Inl e, S2) \<Rightarrow> (Inl e, S2)
           | (Inr _, S2) \<Rightarrow> (statusReply now you req (auBos S2), S2)))"

definition IdleNotification :: "int \<Rightarrow> instanceRef \<Rightarrow> u32 \<Rightarrow> serverState \<Rightarrow> (oserviceFault + unit) \<times> serverState" where
  "IdleNotification now you seconds S =
     (let B = updInstance (if seconds = 0 then UnsetIdle else SetIdle now (uint seconds * 10 ^ 9)) you (auBos S);
          s = sessionOf you B
      in osBos (ebind (Session_TLVUserInfo now s) (\<lambda>info. BroadcastBuddyArrived (identScreenName s) info B)) () (S\<lparr>auBos := B\<rparr>))"

definition ProbeReq :: "u32 \<Rightarrow> SNACMessage" where
  "ProbeReq req = (replyFrame OService OServiceProbeAck req, None)"

section \<open>Services\<close>

definition hostOnlineMsg :: "u16 list \<Rightarrow> SNACMessage" where
  "hostOnlineMsg foodGroups = (replyFrame OService OServiceHostOnline ReqIDFromServer,
     Some (SNAC_0x01_0x03_OServiceHostOnline, VStruct [VSlice (map VU16 foodGroups)]))"

definition HostOnline :: "u16 \<Rightarrow> SNACMessage" where
  "HostOnline service =
     (if service = Admin then hostOnlineMsg [OService, Admin]
      else if service = Alert then hostOnlineMsg [Alert, OService]
      else if service = BART then hostOnlineMsg [BART, OService]
      else if service = FoodGroup_BOS then hostOnlineMsg [Alert, BART, Buddy, Wire_Codes.Feedbag, ICBM, ICQ, Locate, OService, PermitDeny,
        UserLookup, Invite, Popup, Stats, BENCOKeyDir]
      else if service = FoodGroup_Chat then hostOnlineMsg [OService, FoodGroup_Chat]
      else if service = ChatNav then hostOnlineMsg [ChatNav, OService]
      else if service = ODir then hostOnlineMsg [ODir, OService]
      else (replyFrame OService OServiceErr 0, None))"

text \<open>A listener of \<open>config/config.go\<close>, with the two files of its TLS settings.\<close>

record Listener =
  BOSAdvertisedHostPlain :: bytes
  BOSAdvertisedHostSSL :: bytes
  HasSSL :: bool
  CertFile :: bytes
  KeyFile :: bytes

definition UsesTLS :: "Listener \<Rightarrow> bool" where
  "UsesTLS l \<longleftrightarrow> CertFile l \<noteq> [] \<or> KeyFile l \<noteq> []"

definition AdvertisedHost :: "Listener \<Rightarrow> bytes" where
  "AdvertisedHost l =
     (if UsesTLS l \<and> BOSAdvertisedHostSSL l \<noteq> [] then BOSAdvertisedHostSSL l else BOSAdvertisedHostPlain l)"

definition oserviceErr :: "u32 \<Rightarrow> u16 \<Rightarrow> SNACMessage" where
  "oserviceErr req code = (replyFrame OService OServiceErr req, Some (SNACError_type, VStruct [VU16 code, TLVList_val []]))"

definition serviceCookie :: "u16 \<Rightarrow> bytes \<Rightarrow> Session \<Rightarrow> nat \<Rightarrow> ServerCookie" where
  "serviceCookie service chatCookie s i = \<lparr>cookieService = service, cookieScreenName = displayScreenName s, cookieClientID = [],
     cookieChatCookie = chatCookie, cookieMultiConnFlag = 0, cookieKerberosAuth = 0, cookieSessionNum = instanceNum (inst s i)\<rparr>"

text \<open>The record the redirection carries; no record for a service that is not offered.\<close>

definition requestedCookie :: "platform \<Rightarrow> instanceRef \<Rightarrow> u16 \<Rightarrow> TLVList \<Rightarrow> serverState \<Rightarrow> oserviceFault + ServerCookie option" where
  "requestedCookie P you foodGroup inBody S =
     (let s = sessionOf you (auBos S) in
      if foodGroup = Admin \<or> foodGroup = Alert \<or> foodGroup = BART \<or> foodGroup = ChatNav \<or> foodGroup = ODir
      then Inr (Some (serviceCookie foodGroup [] s (snd you)))
      else if foodGroup = FoodGroup_Chat then
        (case TLVList_Bytes inBody 0x01 of
           None \<Rightarrow> Inl OsNoRoomInfo
         | Some roomMeta \<Rightarrow>
             (case fst (UnmarshalBE SNAC_0x01_0x04_TLVRoomInfo roomMeta) of
                Inl e \<Rightarrow> Inl (OsUnmarshal e)
              | Inr roomSNAC \<Rightarrow>
                  (case ChatRoomByCookie P (asBytes (field 1 roomSNAC)) (svCatalog S) of
                     (_, Some e) \<Rightarrow> Inl (OsRoom e)
                   | (room, None) \<Rightarrow> Inr (Some (serviceCookie FoodGroup_Chat (ChatRoom_Cookie room) s (snd you))))))
      else Inr None)"

definition redirection :: "u32 \<Rightarrow> u16 \<Rightarrow> TLVList \<Rightarrow> Listener \<Rightarrow> bytes \<Rightarrow> oserviceFault + SNACMessage" where
  "redirection req foodGroup inBody l cookie =
     (let (host, stateCode) =
        (if UsesTLS l then (AdvertisedHost l, OServiceServiceResponseSSLStateResume)
         else if TLVList_HasTag inBody OserviceTLVTagsSSLUseSSL then (BOSAdvertisedHostSSL l, OServiceServiceResponseSSLStateResume)
         else (BOSAdvertisedHostPlain l, OServiceServiceResponseSSLStateNotUsed)) in
      ebind (osTLVs [(OServiceTLVTagsGroupID, TU16, VU16 foodGroup), (OServiceTLVTagsReconnectHere, TString, VString host),
        (OServiceTLVTagsLoginCookie, TSlice TU8, bytesVal cookie), (OServiceTLVTagsSSLState, TU8, VU8 stateCode)] []) (\<lambda>tlvs.
      Inr (replyFrame OService OServiceServiceResponse req, Some (SNAC_0x01_0x05_OServiceServiceResponse, VStruct [TLVList_val tlvs]))))"

definition ServiceRequest :: "OServiceService \<Rightarrow> int \<Rightarrow> u16 \<Rightarrow> instanceRef \<Rightarrow> u32 \<Rightarrow> u16 \<Rightarrow> TLVList \<Rightarrow> Listener \<Rightarrow> serverState
    \<Rightarrow> oserviceFault + SNACMessage" where
  "ServiceRequest env now service you req foodGroup inBody l S =
     (if service \<noteq> FoodGroup_BOS then Inr (oserviceErr req ErrorCodeNotSupportedByHost)
      else if TLVList_HasTag inBody OserviceTLVTagsSSLUseSSL \<and> \<not> HasSSL l then Inr (oserviceErr req ErrorCodeGeneralFailure)
      else
        (case requestedCookie (auPlatform env) you foodGroup inBody S of
           Inl e \<Rightarrow> Inl e
         | Inr None \<Rightarrow> Inr (oserviceErr req ErrorCodeServiceUnavailable)
         | Inr (Some c) \<Rightarrow>
             (case issueLogin (auHMAC env) (auKey env) now c of
                Inl e \<Rightarrow> Inl (OsCookie e)
              | Inr cookie \<Rightarrow> redirection req foodGroup inBody l cookie)))"

section \<open>A client is ready\<close>

definition ICBMFragmentList :: "bytes \<Rightarrow> oserviceFault + gval" where
  "ICBMFragmentList txt =
     (case MarshalBE (Some (ICBMCh1Message_type, VStruct [VU16 0, VU16 0, bytesVal txt])) of
        Inl e \<Rightarrow> Inl (OsMarshal e)
      | Inr msgBuf \<Rightarrow> Inr (VSlice [VStruct [VU8 5, VU8 1, bytesVal [1, 1, 2]], VStruct [VU8 1, VU8 1, bytesVal msgBuf]]))"

definition systemMessage :: "bytes \<Rightarrow> oserviceFault + SNACMessage" where
  "systemMessage msg =
     ebind (ICBMFragmentList msg) (\<lambda>frags.
     ebind (osTLVs [(ICBMTLVAOLIMData, TSlice ICBMCh1Fragment_type, frags)] []) (\<lambda>tlvs.
       Inr (replyFrame ICBM ICBMChannelMsgToClient ReqIDFromServer, Some (SNAC_0x04_0x07_ICBMChannelMsgToClient,
         VStruct [VU64 0, VU16 ICBMChannelIM,
           TLVUserInfo_val \<lparr>tuiScreenName = asciiBytes ''OOS System Msg'', tuiWarningLevel = 0, tuiTLVs = []\<rparr>, TLVList_val tlvs]))))"

definition settingsLink :: "bytes \<Rightarrow> bytes" where
  "settingsLink label = asciiBytes ''<a href='' @ [0x22]
     @ asciiBytes ''https://www.youtube.com/watch?v=dQw4w9WgXcQ&list=RDdQw4w9WgXcQ&start_radio=1&pp=ygUJcmljayByb2xsoAcB''
     @ [0x22] @ asciiBytes ''>'' @ label @ asciiBytes ''</a>''"

definition sendOfflineMessageNotification :: "instanceRef \<Rightarrow> serverState \<Rightarrow> (oserviceFault + unit) \<times> serverState" where
  "sendOfflineMessageNotification you S =
     (let s = sessionOf you (auBos S) in
      case accSetOfflineMsgCount (identScreenName s) 0 (auAccounts S) of
        (Some e, t) \<Rightarrow> (Inl (OsOfflineCount e), S\<lparr>auAccounts := t\<rparr>)
      | (None, t) \<Rightarrow>
          (case systemMessage (asciiBytes ''You just received '' @ showDecimal (nat (offlineMsgCount s))
              @ asciiBytes '' IM(s) while you were offline. If you do not wish to receive offline messages, please go to ''
              @ settingsLink (asciiBytes ''IM Settings'') @ asciiBytes ''.'') of
             Inl e \<Rightarrow> (Inl e, S\<lparr>auAccounts := t\<rparr>)
           | Inr message \<Rightarrow>
               (Inr (), S\<lparr>auAccounts := t, auBos := onSession (SetOfflineMsgCount 0) you (relayTo (identScreenName s) message (auBos S))\<rparr>)))"

definition sendMultipleInstanceNotification :: "instanceRef \<Rightarrow> serverState \<Rightarrow> (oserviceFault + unit) \<times> serverState" where
  "sendMultipleInstanceNotification you S =
     (let s = sessionOf you (auBos S) in
      case systemMessage (asciiBytes ''Your screen name ('' @ displayScreenName s
          @ asciiBytes '') is now signed into Open OSCAR Server in '' @ showDecimal (InstanceCount s)
          @ asciiBytes '' locations. Click '' @ settingsLink (asciiBytes ''here'') @ asciiBytes '' for more information.'') of
        Inl e \<Rightarrow> (Inl e, S)
      | Inr message \<Rightarrow> (Inr (), S\<lparr>auBos := onSession (RelayToOtherInstances (snd you) message) you (auBos S)\<rparr>))"

text \<open>The steps of a client that is ready at the main service, each on what the one before it left.\<close>

definition whenReady :: "(serverState \<Rightarrow> (oserviceFault + unit) \<times> serverState) \<Rightarrow> (oserviceFault + unit) \<times> serverState
    \<Rightarrow> (oserviceFault + unit) \<times> serverState" where
  "whenReady f r = (case r of (Inl e, S) \<Rightarrow> (Inl e, S) | (Inr _, S) \<Rightarrow> f S)"

definition announceArrival :: "int \<Rightarrow> instanceRef \<Rightarrow> serverState \<Rightarrow> (oserviceFault + unit) \<times> serverState" where
  "announceArrival now you S =
     (if contactsInit (instanceOf you (auBos S)) then osBos (BroadcastVisibility now you [] False (auBos S)) () S else (Inr (), S))"

definition setReportInterval :: "instanceRef \<Rightarrow> serverState \<Rightarrow> (oserviceFault + unit) \<times> serverState" where
  "setReportInterval you S = (Inr (), S\<lparr>auBos := relayTo (identScreenName (sessionOf you (auBos S)))
     (replyFrame Stats StatsSetMinReportInterval ReqIDFromServer, Some (SNAC_0x0B_0x02_StatsSetMinReportInterval, VStruct [VU16 1]))
     (auBos S)\<rparr>)"

definition restoreProfile :: "int \<Rightarrow> instanceRef \<Rightarrow> serverState \<Rightarrow> (oserviceFault + unit) \<times> serverState" where
  "restoreProfile now you S =
     (if \<not> kerberosAuth (instanceOf you (auBos S)) then (Inr (), S)
      else
        (let p = storedProfile (identScreenName (sessionOf you (auBos S))) (svCatalog S) in
         if UserProfile_IsZero p then (Inr (), S)
         else
           (let B = updInstance (SetProfile p) you (auBos S) in
            case newOServiceUserInfoUpdate now (sessionOf you B) (snd you) of
              Inl e \<Rightarrow> (Inl e, S\<lparr>auBos := B\<rparr>)
            | Inr v \<Rightarrow> (Inr (), S\<lparr>auBos := onSession (RelayToSelf (snd you)
                (replyFrame OService OServiceUserInfoUpdate 0, Some (SNAC_0x01_0x0F_OServiceUserInfoUpdate, v))) you B\<rparr>))))"

definition ClientOnline_BOS :: "OServiceService \<Rightarrow> int \<Rightarrow> instanceRef \<Rightarrow> serverState \<Rightarrow> (oserviceFault + unit) \<times> serverState" where
  "ClientOnline_BOS env now you S =
     whenReady (\<lambda>S. if \<not> osDisableMultiLoginNotif env \<and> InstanceCount (sessionOf you (auBos S)) > 1
         then sendMultipleInstanceNotification you S else (Inr (), S))
      (whenReady (\<lambda>S. if uin (sessionOf you (auBos S)) = 0 \<and> offlineMsgCount (sessionOf you (auBos S)) > 0
         then sendOfflineMessageNotification you S else (Inr (), S))
       (whenReady (restoreProfile now you)
        (whenReady (setReportInterval you) (announceArrival now you S))))"

definition enterRoom :: "int \<Rightarrow> instanceRef \<Rightarrow> ChatRoom \<Rightarrow> serverState \<Rightarrow> (oserviceFault + unit) \<times> serverState" where
  "enterRoom now you room S =
     (case ebind (setOnlineChatUsers now (fst you) (auChat S) (auChatHeap S)) (\<lambda>h1.
           ebind (sendChatRoomInfoUpdate (fst you) room (auChat S) h1) (\<lambda>h2.
           alertUserJoined now (fst you) (auChat S) h2)) of
        Inl e \<Rightarrow> (Inl (OsChat e), S)
      | Inr h \<Rightarrow> (Inr (), S\<lparr>auChatHeap := h\<rparr>))"

text \<open>At the chat service the instance is one of the rooms' sessions, at every other service one of the pool.\<close>

definition ClientOnline :: "OServiceService \<Rightarrow> int \<Rightarrow> u16 \<Rightarrow> instanceRef \<Rightarrow> serverState \<Rightarrow> (oserviceFault + unit) \<times> serverState" where
  "ClientOnline env now service you S =
     (if service = FoodGroup_BOS then ClientOnline_BOS env now you (S\<lparr>auBos := updInstance SetSignonComplete you (auBos S)\<rparr>)
      else if service = FoodGroup_Chat then
        (let S1 = S\<lparr>auChatHeap := updSession (updInst (snd you) SetSignonComplete) (fst you) (auChatHeap S)\<rparr> in
         case ChatRoomByCookie (auPlatform env) (chatRoomCookie (auChatHeap S1 ! fst you)) (svCatalog S1) of
           (_, Some e) \<Rightarrow> (Inl (OsRoom e), S1)
         | (room, None) \<Rightarrow> enterRoom now you room S1)
      else (Inr (), S\<lparr>auBos := updInstance SetSignonComplete you (auBos S)\<rparr>))"

section \<open>A client that was sent to another service\<close>

lemma requestedCookie_of:
  assumes "requestedCookie P you foodGroup inBody S = Inr (Some c)"
  shows "cookieService c = foodGroup \<and> cookieScreenName c = displayScreenName (sessionOf you (auBos S))
    \<and> cookieSessionNum c = instanceNum (instanceOf you (auBos S))"
  using assms by (auto simp: requestedCookie_def serviceCookie_def instanceOf_def Let_def
    split: if_splits option.splits sum.splits prod.splits)

text \<open>C33: A client that is redirected is recognized. When a connected client, whose account
  and session are there, asks at the main service for another one and gets an address for an answer, the ticket that comes with it has 256 bytes and, for a minute, cracks to a
  record for that service under the name of the session that asked. Unless that service is a chat
  room, the lookup it makes with the record (\<open>RetrieveBOSSession\<close>, the default case of
  \<open>connectToOSCARService\<close>) leads it back to the very instance that asked; the chat service makes a new session
  of its own (\<open>RegisterChatSession\<close>), and that is not part of this statement. With TLS configured the
  address is the encrypted one and is marked so.\<close>
theorem redirected_client_recognized:
  assumes "sumOf32 (auHMAC env)" and "0 \<le> now" and "unixSeconds (now + 60 * 10 ^ 9) < 2 ^ 32"
    and "later \<le> unixSeconds (now + 60 * 10 ^ 9) * 10 ^ 9"
    and "ServiceRequest env now FoodGroup_BOS you req foodGroup inBody l S = Inr msg"
    and "\<not> (TLVList_HasTag inBody OserviceTLVTagsSSLUseSSL \<and> \<not> HasSSL l)"
    and "requestedCookie (auPlatform env) you foodGroup inBody S = Inr (Some c)"
    and "sessionOk (sessionOf you (auBos S))" and "snd you \<in> set (instancesOrdered (sessionOf you (auBos S)))"
    and "findUser (auPlatform env) (DisplayScreenName_IdentScreenName (auPlatform env) (displayScreenName (sessionOf you (auBos S))))
      (auAccounts S) = Inr (Some u)"
    and "RetrieveSession (userIdentScreenName u) (bosMgr (auBos S)) (bosHeap (auBos S)) = Some (fst you)"
  shows "\<exists>tlvs ck. msg = (replyFrame OService OServiceServiceResponse req, Some (SNAC_0x01_0x05_OServiceServiceResponse, VStruct [TLVList_val tlvs]))
    \<and> TLVList_Bytes tlvs OServiceTLVTagsLoginCookie = Some ck \<and> length ck = 256
    \<and> CrackCookie (auHMAC env) (auKey env) later (ck @ r) = Inr c \<and> cookieService c = foodGroup
    \<and> cookieScreenName c = displayScreenName (sessionOf you (auBos S))
    \<and> (foodGroup \<noteq> FoodGroup_Chat \<longrightarrow> RetrieveBOSSession (AuthService.truncate env) c (authState.truncate S) = Inr (Some you))
    \<and> (UsesTLS l \<longrightarrow> TLVList_String tlvs OServiceTLVTagsReconnectHere = Some (AdvertisedHost l)
        \<and> TLVList_Uint8 tlvs OServiceTLVTagsSSLState = Some OServiceServiceResponseSSLStateResume)"
proof -
  note c = requestedCookie_of [OF assms(7)]
  obtain ck where ck: "issueLogin (auHMAC env) (auKey env) now c = Inr ck" "redirection req foodGroup inBody l ck = Inr msg"
    using assms(5,6,7) by (auto simp: ServiceRequest_def split: sum.splits if_splits)
  have crack: "length ck = 256 \<and> CrackCookie (auHMAC env) (auKey env) later (ck @ r) = Inr c"
    using issued_login [OF assms(1-4), where key = "auKey env" and c = c and r = r] ck(1) by simp
  have found: "InstanceOf (sessionOf you (auBos S)) (cookieSessionNum c) = Some (snd you)"
    using assms(9) sessionOkD(4) [OF assms(8)] c by (simp add: InstanceOf_def instanceOf_def)
  have "RetrieveBOSSession (AuthService.truncate env) c (authState.truncate S) = Inr (Some you)"
    using assms(10,11) c found
    by (simp add: RetrieveBOSSession_def AuthService.truncate_def authState.truncate_def sessionOf_def)
  then show ?thesis using ck(2) crack c
    by (auto simp: redirection_def osTLVs_def TLVList_Append_def ebind_def TLV_Uint8_def Let_def split: prod.splits if_splits)
qed

definition sampleServer :: serverState where
  "sampleServer = \<lparr>auBos = \<lparr>bosMgr = \<lparr>store = [(asciiBytes ''al99'', 0)],
       slots = [\<lparr>slotSession = 0, slotRemoved = False, multiSession = True\<rparr>], userLocks = [], lockObjs = [], maxConcurrentSessions = 5\<rparr>,
     bosHeap = [updInst 0 SetSignonComplete (SetDisplayScreenName sampleName (SetIdentScreenName (asciiBytes ''al99'') oneInstance))],
     bosLists = emptyStore\<rparr>, auAccounts = sampleAccounts, auChat = NewInMemoryChatSessionManager, auChatHeap = [],
     svCatalog = emptyCatalog\<rparr>"

definition sampleOService :: OServiceService where
  "sampleOService = \<lparr>auPlatform = samplePlatform, auIDKey = sampleIDKey, auHMAC = sampleHMAC, auKey = [1],
     auDisableAuth = False, auTLS = True, auClasses = DefaultRateLimitClasses, osLimits = DefaultSNACRateLimits,
     osDisableMultiLoginNotif = False\<rparr>"

lemma redirected_client_recognized_witness:
  "\<exists>msg c. ServiceRequest sampleOService 0 FoodGroup_BOS (0, 0) 7 ODir []
      \<lparr>BOSAdvertisedHostPlain = [1], BOSAdvertisedHostSSL = [], HasSSL = False, CertFile = [2], KeyFile = [3]\<rparr> sampleServer = Inr msg
    \<and> RetrieveBOSSession (AuthService.truncate sampleOService) c (authState.truncate sampleServer) = Inr (Some (0, 0))"
proof -
  let ?l = "\<lparr>BOSAdvertisedHostPlain = [1], BOSAdvertisedHostSSL = [], HasSSL = False, CertFile = [2], KeyFile = [3]\<rparr>"
  let ?s = "sessionOf (0, 0) (auBos sampleServer)"
  have s: "displayScreenName ?s = sampleName" "identScreenName ?s = asciiBytes ''al99''" "instancesOrdered ?s = [0]" "sessionOk ?s"
    by (simp_all add: sampleServer_def sessionOf_def updInst_def SetDisplayScreenName_def SetIdentScreenName_def oneInstance_def
      NewSession_def sessionOk_def inst_def newInstance_def SetSignonComplete_def) (auto simp: nth_Cons')
  have live: "RetrieveSession (asciiBytes ''al99'') (bosMgr (auBos sampleServer)) (bosHeap (auBos sampleServer)) = Some 0"
    by (simp add: sampleServer_def RetrieveSession_def HasLiveInstances_def live_def updInst_def inst_def SetDisplayScreenName_def
      SetIdentScreenName_def oneInstance_def newInstance_def SetSignonComplete_def)
  have e: "auHMAC sampleOService = sampleHMAC" "auPlatform sampleOService = samplePlatform" "auAccounts sampleServer = sampleAccounts"
    by (simp_all add: sampleOService_def sampleServer_def)
  have canon: "NewIdentScreenName samplePlatform (asciiBytes ''al99'') = asciiBytes ''al99''"
    by (simp add: asciiBytes_def ident_ascii asciiLower_def)
  obtain u where u: "findUser samplePlatform (DisplayScreenName_IdentScreenName samplePlatform sampleName) sampleAccounts = Inr (Some u)"
      "userIdentScreenName u = asciiBytes ''al99''"
    using accCreateAccount_None [OF sample_accounts] sample_name(2) canon
    by (simp add: DisplayScreenName_IdentScreenName_def newAccountRow_def)
  let ?c = "serviceCookie ODir [] ?s 0"
  have c: "requestedCookie (auPlatform sampleOService) (0, 0) ODir [] sampleServer = Inr (Some ?c)" by (simp add: requestedCookie_def)
  obtain ck where ck: "issueLogin sampleHMAC (auKey sampleOService) 0 ?c = Inr ck"
    using issued_login [OF sampleHMAC_32, where now = 0 and later = 0 and key = "auKey sampleOService" and c = ?c and r = "[]"] s(1)
    by (auto simp: serviceCookie_def asciiBytes_def unixSeconds_def split: sum.splits)
  obtain msg where m: "ServiceRequest sampleOService 0 FoodGroup_BOS (0, 0) 7 ODir [] ?l sampleServer = Inr msg"
    using c ck e by (auto simp: ServiceRequest_def redirection_def osTLVs_def TLVList_Append_def ebind_def UsesTLS_def)
  from redirected_client_recognized [OF _ _ _ _ m _ c, of 5 u "[]"] s live u
  show ?thesis using m by (auto simp: e sampleHMAC_32 unixSeconds_def)
qed

end
