(* ===== verification/Foodgroup_Feedbag.thy ===== *)
theory Foodgroup_Feedbag
  imports Foodgroup_OService
begin

text \<open>
  The service of server-side contact lists, \<open>foodgroup/feedbag.go\<close> and \<open>foodgroup/feedbag_aim_auth.go\<close>:
  reading and editing the list, batches of edits, and the authorizations that contacts ask for and grant. It
  works on the state of the messaging service; the accounts and the icon table are only read. The
  function that sends a message through the messaging service is a field of the service, as in the
  code; \<open>bridged\<close> installs the model's own.
\<close>

section \<open>State and parameters\<close>

datatype feedbagFault = FbCodec gerr | FbPanic gerr | FbSender icbmFault | FbNotify notifyError | FbIconMissing
  | FbBartType | FbBartInfo gerr | FbStore storeError | FbInvalidAccepted byte | FbUserInfo oserviceFault

record 'c FeedbagService =
  fePlatform :: platform
  feNow :: int
  icbmSender :: "instanceRef \<Rightarrow> u32 \<Rightarrow> ChannelMsg \<Rightarrow> 'c ICBMService \<Rightarrow> 'c icbmResult"
  feAccounts :: accountTable
  feCatalog :: CatalogStore

type_synonym 'c feedbagEffect = "feedbagFault option \<times> 'c ICBMService"

abbreviation (input) FeedbagTLVVersion :: u16 where "FeedbagTLVVersion \<equiv> 1"
abbreviation (input) FeedbagClassIdNonbuddy :: u16 where "FeedbagClassIdNonbuddy \<equiv> 0x0006"
abbreviation (input) FeedbagClassIdClientPrefs :: u16 where "FeedbagClassIdClientPrefs \<equiv> 0x0009"
abbreviation (input) FeedbagClassIdWatchList :: u16 where "FeedbagClassIdWatchList \<equiv> 0x000D"
abbreviation (input) FeedbagClassIdIgnoreList :: u16 where "FeedbagClassIdIgnoreList \<equiv> 0x000E"
abbreviation (input) FeedbagClassIdDateTime :: u16 where "FeedbagClassIdDateTime \<equiv> 0x000F"
abbreviation (input) FeedbagClassIdExternalUser :: u16 where "FeedbagClassIdExternalUser \<equiv> 0x0010"
abbreviation (input) FeedbagClassIdRootCreator :: u16 where "FeedbagClassIdRootCreator \<equiv> 0x0011"
abbreviation (input) FeedbagClassIdImportTimestamp :: u16 where "FeedbagClassIdImportTimestamp \<equiv> 0x0013"
abbreviation (input) FeedbagRightsMaxItemAttrs :: u16 where "FeedbagRightsMaxItemAttrs \<equiv> 0x03"
abbreviation (input) FeedbagRightsMaxItemsByClass :: u16 where "FeedbagRightsMaxItemsByClass \<equiv> 0x04"
abbreviation (input) FeedbagRightsMaxClientItems :: u16 where "FeedbagRightsMaxClientItems \<equiv> 0x05"
abbreviation (input) FeedbagRightsMaxItemNameLen :: u16 where "FeedbagRightsMaxItemNameLen \<equiv> 0x06"
abbreviation (input) FeedbagRightsMaxRecentBuddies :: u16 where "FeedbagRightsMaxRecentBuddies \<equiv> 0x07"
abbreviation (input) FeedbagRightsInteractionBuddies :: u16 where "FeedbagRightsInteractionBuddies \<equiv> 0x08"
abbreviation (input) FeedbagRightsInteractionHalfLife :: u16 where "FeedbagRightsInteractionHalfLife \<equiv> 0x09"
abbreviation (input) FeedbagRightsInteractionMaxScore :: u16 where "FeedbagRightsInteractionMaxScore \<equiv> 0x0A"
abbreviation (input) FeedbagRightsMaxBuddiesPerGroup :: u16 where "FeedbagRightsMaxBuddiesPerGroup \<equiv> 0x0C"
abbreviation (input) FeedbagRightsMaxMegaBots :: u16 where "FeedbagRightsMaxMegaBots \<equiv> 0x0D"
abbreviation (input) FeedbagRightsMaxSmartGroups :: u16 where "FeedbagRightsMaxSmartGroups \<equiv> 0x0E"
abbreviation (input) FeedbagBuddyPrefsWantsTypingEvents :: u32 where "FeedbagBuddyPrefsWantsTypingEvents \<equiv> 0x400000"
abbreviation (input) SNACFlagsExtendedInfo :: u16 where "SNACFlagsExtendedInfo \<equiv> 0x8000"
abbreviation (input) BARTTypesBuddyIconSmall :: u16 where "BARTTypesBuddyIconSmall \<equiv> 0x00"
abbreviation (input) BARTFlagsUnknown :: byte where "BARTFlagsUnknown \<equiv> 0x40"

definition onBos :: "(BOS \<Rightarrow> BOS) \<Rightarrow> 'c ICBMService \<Rightarrow> 'c ICBMService" where
  "onBos f S = S\<lparr>icBos := f (icBos S)\<rparr>"

definition onLists :: "(ListStore \<Rightarrow> ListStore) \<Rightarrow> 'c ICBMService \<Rightarrow> 'c ICBMService" where
  "onLists f = onBos (\<lambda>B. B\<lparr>bosLists := f (bosLists B)\<rparr>)"

definition broadcast :: "(BOS \<Rightarrow> gerr + BOS) \<Rightarrow> 'c ICBMService \<Rightarrow> 'c feedbagEffect" where
  "broadcast f S = (case f (icBos S) of Inl e \<Rightarrow> (Some (FbPanic e), S) | Inr B \<Rightarrow> (None, S\<lparr>icBos := B\<rparr>))"

definition myName :: "instanceRef \<Rightarrow> 'c ICBMService \<Rightarrow> IdentScreenName" where
  "myName you S = identScreenName (sessionOf you (icBos S))"

section \<open>Messages\<close>

definition fbFrame :: "u16 \<Rightarrow> u16 \<Rightarrow> SNACFrame" where
  "fbFrame sub flags = \<lparr>FoodGroup = Wire_Codes.Feedbag, SubGroup = sub, Flags = flags, RequestID = 0\<rparr>"

definition FeedbagItem_val :: "FeedbagItem \<Rightarrow> gval" where
  "FeedbagItem_val i = VStruct [VString (itemName i), VU16 (itemGroupID i), VU16 (itemItemID i), VU16 (itemClassID i), TLVList_val (itemTLVs i)]"

definition itemsVal :: "FeedbagItem list \<Rightarrow> gval" where
  "itemsVal is = VStruct [VSlice (map FeedbagItem_val is)]"

text \<open>The one TLV in front of a notification says the version of the protocol.\<close>

definition versionBlock :: "u16 \<Rightarrow> gval" where
  "versionBlock v = TLVList_val [\<lparr>Tag = FeedbagTLVVersion, Value = putUint BigEndian 2 (unat v)\<rparr>]"

definition authRequestMsg :: "IdentScreenName \<Rightarrow> bytes \<Rightarrow> SNACMessage" where
  "authRequestMsg from reason = (fbFrame FeedbagRequestAuthorizeToClient SNACFlagsExtendedInfo,
     Some (SNAC_0x13_0x19_FeedbagRequestAuthorizeToClient, VStruct [versionBlock 2, VString from, VString reason, VU16 0]))"

definition authResponseMsg :: "IdentScreenName \<Rightarrow> byte \<Rightarrow> bytes \<Rightarrow> SNACMessage" where
  "authResponseMsg from accepted reason = (fbFrame FeedbagRespondAuthorizeToClient SNACFlagsExtendedInfo,
     Some (SNAC_0x13_0x1B_FeedbagRespondAuthorizeToClient, VStruct [versionBlock 2, VString from, VU8 accepted, VString reason, VU16 0]))"

definition buddyAddedMsg :: "bytes \<Rightarrow> SNACMessage" where
  "buddyAddedMsg from = (fbFrame FeedbagBuddyAdded SNACFlagsExtendedInfo,
     Some (SNAC_0x13_0x1C_FeedbagBuddyAdded, VStruct [versionBlock 4, VString from, VU16 0]))"

definition preAuthorizedMsg :: "IdentScreenName \<Rightarrow> bytes \<Rightarrow> SNACMessage" where
  "preAuthorizedMsg from message = (fbFrame FeedbagPreAuthorizedBuddy 0,
     Some (SNAC_0x13_0x15_FeedbagPreAuthorizedBuddy, VStruct [VString from, VString message, VU16 0]))"

definition relay :: "IdentScreenName \<Rightarrow> SNACMessage \<Rightarrow> 'c ICBMService \<Rightarrow> 'c ICBMService" where
  "relay to msg = onBos (relayTo to msg)"

definition sendAIMAuthReq :: "instanceRef \<Rightarrow> IdentScreenName \<Rightarrow> 'c ICBMService \<Rightarrow> 'c ICBMService" where
  "sendAIMAuthReq from target S = relay target (authRequestMsg (myName from S) []) S"

definition sendAIMConnectionRemoved :: "IdentScreenName \<Rightarrow> IdentScreenName \<Rightarrow> 'c ICBMService \<Rightarrow> 'c ICBMService" where
  "sendAIMConnectionRemoved from target = relay target (authResponseMsg from 0 [])"

definition feedbagErr :: "u32 \<Rightarrow> SNACMessage" where
  "feedbagErr req = (replyFrame Wire_Codes.Feedbag FeedbagErr req,
     Some (SNACError_type, VStruct [VU16 ErrorCodeNotSupportedByHost, TLVList_val []]))"

section \<open>Messages of the old ICQ protocol\<close>

definition utf8ToLatin1 :: "bytes \<Rightarrow> bytes" where
  "utf8ToLatin1 s = (if isASCII s then s else map (\<lambda>r. if r \<le> 0xFF then word_of_nat r else 0x3F) (runes s))"

definition legacyMsg :: "u64 \<Rightarrow> u32 \<Rightarrow> byte \<Rightarrow> bytes \<Rightarrow> IdentScreenName \<Rightarrow> gerr + ChannelMsg" where
  "legacyMsg cookie from msgType message to =
     ebind (NewTLVLE ICBMTLVData (Some (ICBMCh4Message_type, VStruct [VU32 from, VU8 msgType, VU8 0, VString message]))) (\<lambda>tlv.
       Inr \<lparr>cmCookie = cookie, cmChannelID = ICBMChannelICQ, cmScreenName = to, cmTLVs = [tlv, \<lparr>Tag = ICBMTLVStore, Value = []\<rparr>]\<rparr>)"

definition sendLegacy :: "'c FeedbagService \<Rightarrow> instanceRef \<Rightarrow> (gerr + ChannelMsg) \<Rightarrow> 'c ICBMService \<Rightarrow> 'c feedbagEffect" where
  "sendLegacy env from msg S =
     (case msg of
        Inl e \<Rightarrow> (Some (FbPanic e), S)
      | Inr body \<Rightarrow> (case icbmSender env from 0 body S of (Inl e, S1) \<Rightarrow> (Some (FbSender e), S1) | (Inr _, S1) \<Rightarrow> (None, S1)))"

definition authReqText :: "ICQBasicInfo \<Rightarrow> bool \<Rightarrow> bytes \<Rightarrow> bytes" where
  "authReqText info authorized reason = basicNickname info @ [0xFE] @ basicFirstName info @ [0xFE] @ basicLastName info @ [0xFE]
     @ basicEmailAddress info @ [0xFE] @ showDecimal (if authorized then 1 else 0) @ [0xFE] @ utf8ToLatin1 reason"

definition sendLegacyAuthReq :: "'c FeedbagService \<Rightarrow> instanceRef \<Rightarrow> IdentScreenName \<Rightarrow> bytes \<Rightarrow> ICQBasicInfo \<Rightarrow> bool
    \<Rightarrow> 'c ICBMService \<Rightarrow> 'c feedbagEffect" where
  "sendLegacyAuthReq env from to reason info authorized S =
     sendLegacy env from (legacyMsg 0 (uin (sessionOf from (icBos S))) ICBMMsgTypeAuthReq (authReqText info authorized reason) to) S"

text \<open>A session made for one message: it is in no pool, but the message needs a sender.\<close>

definition freshSession :: "IdentScreenName \<Rightarrow> Session" where
  "freshSession sn = SetDisplayScreenName sn (SetIdentScreenName sn NewSession)"

definition withFresh :: "Session \<Rightarrow> (instanceRef \<Rightarrow> 'c ICBMService \<Rightarrow> 'c feedbagEffect) \<Rightarrow> 'c ICBMService \<Rightarrow> 'c feedbagEffect" where
  "withFresh s f S =
     (case AddInstance s of
        None \<Rightarrow> (Some (FbPanic Panics), S)
      | Some (i, s1) \<Rightarrow> f (length (bosHeap (icBos S)), i) (onBos (\<lambda>B. B\<lparr>bosHeap := bosHeap B @ [s1]\<rparr>) S))"

definition sendLegacyAuthMsg :: "'c FeedbagService \<Rightarrow> IdentScreenName \<Rightarrow> IdentScreenName \<Rightarrow> 'c ICBMService \<Rightarrow> 'c feedbagEffect" where
  "sendLegacyAuthMsg env from to = withFresh (freshSession from)
     (\<lambda>ref. sendLegacy env ref (legacyMsg (word_of_int (feNow env)) (UIN from) ICBMMsgTypeAuthOK [] to))"

definition sendLegacyBuddyAddedMsg :: "'c FeedbagService \<Rightarrow> instanceRef \<Rightarrow> IdentScreenName \<Rightarrow> 'c ICBMService \<Rightarrow> 'c feedbagEffect" where
  "sendLegacyBuddyAddedMsg env from to S =
     sendLegacy env from (legacyMsg (word_of_int (feNow env)) (uin (sessionOf from (icBos S))) ICBMMsgTypeAdded [] to) S"

section \<open>Reading the list\<close>

definition itemLimits :: "u16 list" where
  "itemLimits = (replicate 21 0)[unat FeedbagClassIdBuddy := 61, unat FeedbagClassIdGroup := 61, unat FeedbagClassIDPermit := 100,
     unat FeedbagClassIDDeny := 100, unat FeedbagClassIdPdinfo := 1, unat FeedbagClassIdBuddyPrefs := 1,
     unat FeedbagClassIdNonbuddy := 50, unat FeedbagClassIdClientPrefs := 3, unat FeedbagClassIdWatchList := 128,
     unat FeedbagClassIdIgnoreList := 255, unat FeedbagClassIdDateTime := 20, unat FeedbagClassIdExternalUser := 200,
     unat FeedbagClassIdRootCreator := 1, unat FeedbagClassIdImportTimestamp := 1, unat FeedbagClassIdBart := 200]"

definition Feedbag_RightsQuery :: "u32 \<Rightarrow> gerr + SNACMessage" where
  "Feedbag_RightsQuery req =
     ebind (appendTLVs
       ([(FeedbagRightsMaxItemAttrs, TU16, VU16 200), (FeedbagRightsMaxItemsByClass, TSlice TU16, VSlice (map VU16 itemLimits))]
        @ map (\<lambda>tag. (tag, TU16, VU16 200)) [FeedbagRightsMaxClientItems, FeedbagRightsMaxItemNameLen, FeedbagRightsMaxRecentBuddies,
            FeedbagRightsInteractionBuddies, FeedbagRightsInteractionHalfLife, FeedbagRightsInteractionMaxScore,
            FeedbagRightsMaxBuddiesPerGroup, FeedbagRightsMaxMegaBots]
        @ [(FeedbagRightsMaxSmartGroups, TU16, VU16 100)]) []) (\<lambda>tlvs.
     Inr (replyFrame Wire_Codes.Feedbag FeedbagRightsReply req, Some (SNAC_0x13_0x03_FeedbagRightsReply, VStruct [TLVList_val tlvs])))"

definition listReply :: "u32 \<Rightarrow> FeedbagItem list \<Rightarrow> int \<Rightarrow> SNACMessage" where
  "listReply req fb lm = (replyFrame Wire_Codes.Feedbag FeedbagReply req, Some (SNAC_0x13_0x06_FeedbagReply,
     VStruct [VU8 0, VSlice (map FeedbagItem_val fb), VU32 (word_of_int lm)]))"

definition listOf :: "IdentScreenName \<Rightarrow> 'c ICBMService \<Rightarrow> feedbagFault + FeedbagItem list" where
  "listOf sn S = (case State_BuddyLists.Feedbag sn (bosLists (icBos S)) of (_, Some e) \<Rightarrow> Inl (FbCodec e) | (fb, None) \<Rightarrow> Inr fb)"

definition Query :: "instanceRef \<Rightarrow> u32 \<Rightarrow> 'c ICBMService \<Rightarrow> feedbagFault + SNACMessage" where
  "Query you req S = ebind (listOf (myName you S) S) (\<lambda>fb.
     Inr (listReply req fb (if length fb > 0 then FeedbagLastModified (myName you S) (bosLists (icBos S)) else 0)))"

definition QueryIfModified :: "instanceRef \<Rightarrow> u32 \<Rightarrow> u32 \<Rightarrow> 'c ICBMService \<Rightarrow> feedbagFault + SNACMessage" where
  "QueryIfModified you req lastUpdate S = ebind (listOf (myName you S) S) (\<lambda>fb.
     if length fb > 0 then
       (let lm = FeedbagLastModified (myName you S) (bosLists (icBos S)) in
        if lm < uint lastUpdate
        then Inr (replyFrame Wire_Codes.Feedbag FeedbagReplyNotModified req, Some (SNAC_0x13_0x05_FeedbagQueryIfModified,
          VStruct [VU32 (word_of_int lm), VU8 (word_of_nat (length fb))]))
        else Inr (listReply req fb lm))
     else Inr (listReply req fb 0))"

section \<open>Adding and changing entries\<close>

definition withoutPending :: "FeedbagItem \<Rightarrow> FeedbagItem" where
  "withoutPending item = item\<lparr>itemTLVs := filter (\<lambda>t. Tag t \<noteq> FeedbagAttributesPending) (itemTLVs item)\<rparr>"

definition isPending :: "FeedbagItem \<Rightarrow> bool" where
  "isPending item \<longleftrightarrow> TLVList_HasTag (itemTLVs item) FeedbagAttributesPending"

text \<open>What the loop over the items does with one: it is stored, as it is or changed, or held back until the contact agrees.\<close>

datatype gated = Pass FeedbagItem | Held

definition gateItem :: "'c FeedbagService \<Rightarrow> instanceRef \<Rightarrow> FeedbagItem \<Rightarrow> 'c ICBMService \<Rightarrow> (feedbagFault + gated) \<times> 'c ICBMService" where
  "gateItem env you item S =
     (let me = myName you S; myUIN = uin (sessionOf you (icBos S)); sn = NewIdentScreenName (fePlatform env) (itemName item);
          blocked = RequiresAuthorization sn me (bosLists (icBos S)) in
      if itemClassID item \<noteq> FeedbagClassIdBuddy then (Inr (Pass item), S)
      else if myUIN \<noteq> 0 \<and> UIN sn = 0 then (Inr (Pass item), onLists (RecordPreAuth me sn) S)
      else if myUIN \<noteq> 0 \<and> UIN sn \<noteq> 0 then
        (if blocked \<and> \<not> isPending item then (Inr Held, S)
         else if isPending item \<and> \<not> blocked then (Inr (Pass (withoutPending item)), S)
         else (Inr (Pass item), S))
      else if UIN sn \<noteq> 0 then
        (if blocked then
           (case sendLegacyAuthReq env you sn [] zeroICQBasicInfo True S of
              (Some e, S1) \<Rightarrow> (Inl e, S1)
            | (None, S1) \<Rightarrow>
                (Inr (Pass (item\<lparr>itemTLVs := TLVList_Append (itemTLVs item) \<lparr>Tag = FeedbagAttributesPending, Value = []\<rparr>\<rparr>)), S1))
         else (Inr (Pass item), S))
      else
        (if blocked \<and> \<not> isPending item then (Inr Held, sendAIMAuthReq you sn S)
         else if isPending item \<and> \<not> blocked then (Inr (Pass (withoutPending item)), S)
         else (Inr (Pass item), S)))"

text \<open>The items to store, and the names of those held back.\<close>

fun gateItems :: "'c FeedbagService \<Rightarrow> instanceRef \<Rightarrow> FeedbagItem list \<Rightarrow> 'c ICBMService
    \<Rightarrow> (feedbagFault + FeedbagItem list \<times> bytes list) \<times> 'c ICBMService" where
  "gateItems env you [] S = (Inr ([], []), S)"
| "gateItems env you (item # items) S =
     (case gateItem env you item S of
        (Inl e, S1) \<Rightarrow> (Inl e, S1)
      | (Inr g, S1) \<Rightarrow>
          (case gateItems env you items S1 of
             (Inl e, S2) \<Rightarrow> (Inl e, S2)
           | (Inr (toUpsert, authRequired), S2) \<Rightarrow>
               (case g of
                  Held \<Rightarrow> (Inr (toUpsert, itemName item # authRequired), S2)
                | Pass item' \<Rightarrow> (Inr (item' # toUpsert, authRequired), S2))))"

definition upsertRows :: "'c FeedbagService \<Rightarrow> IdentScreenName \<Rightarrow> FeedbagItem list \<Rightarrow> 'c ICBMService \<Rightarrow> 'c feedbagEffect" where
  "upsertRows env sn items S =
     (case FeedbagUpsert (fePlatform env) (unixSeconds (feNow env)) sn items (bosLists (icBos S)) of
        (err, st) \<Rightarrow> (map_option FbCodec err, onLists (\<lambda>_. st) S))"

fun setSessionBuddyPrefs :: "FeedbagItem list \<Rightarrow> instanceRef \<Rightarrow> 'c ICBMService \<Rightarrow> 'c feedbagEffect" where
  "setSessionBuddyPrefs [] you S = (None, S)"
| "setSessionBuddyPrefs (item # items) you S =
     (if itemClassID item = FeedbagClassIdBuddyPrefs \<and> TLVList_HasTag (itemTLVs item) FeedbagAttributesBuddyPrefs then
        (case TLVList_Uint32BE (itemTLVs item) FeedbagAttributesBuddyPrefs of
           Inl e \<Rightarrow> (Some (FbPanic e), S)
         | Inr prefs \<Rightarrow>
             (let buddyPrefs = (case prefs of None \<Rightarrow> 0 | Some w \<Rightarrow> w) in
              (None, onBos (onSession (SetTypingEventsEnabled
                (buddyPrefs AND FeedbagBuddyPrefsWantsTypingEvents = FeedbagBuddyPrefsWantsTypingEvents)) you) S)))
      else setSessionBuddyPrefs items you S)"

text \<open>\<open>strconv.ParseUint(s, 0, 16)\<close>: the base from the prefix, underscores between digits, and 16 bits.\<close>

definition lowerByte :: "byte \<Rightarrow> byte" where
  "lowerByte c = c OR 0x20"

definition digitVal :: "byte \<Rightarrow> nat option" where
  "digitVal c =
     (if 0x30 \<le> c \<and> c \<le> 0x39 then Some (unat (c - 0x30))
      else if 0x61 \<le> lowerByte c \<and> lowerByte c \<le> 0x7A then Some (unat (lowerByte c - 0x61) + 10) else None)"

fun parseDigits :: "nat \<Rightarrow> bytes \<Rightarrow> nat \<Rightarrow> nat option" where
  "parseDigits base [] n = (if n < 2 ^ 16 then Some n else None)"
| "parseDigits base (c # cs) n =
     (if c = 0x5F then parseDigits base cs n
      else (case digitVal c of
        None \<Rightarrow> None
      | Some d \<Rightarrow> (if base \<le> d \<or> 2 ^ 16 \<le> n * base + d then None else parseDigits base cs (n * base + d))))"

text \<open>\<open>underscoreOK\<close>: an underscore follows a digit, or the prefix, and is followed by a digit.\<close>

fun underscores :: "bool \<Rightarrow> bool \<Rightarrow> bytes \<Rightarrow> bool" where
  "underscores afterDigit afterUnderscore [] \<longleftrightarrow> \<not> afterUnderscore"
| "underscores afterDigit afterUnderscore (c # cs) \<longleftrightarrow>
     (if c = 0x5F then afterDigit \<and> underscores False True cs else underscores True False cs)"

definition intBase :: "bytes \<Rightarrow> nat \<times> bytes \<times> bool" where
  "intBase s =
     (if s ! 0 \<noteq> 0x30 then (10, s, False)
      else if 3 \<le> length s \<and> lowerByte (s ! 1) = 0x62 then (2, drop 2 s, True)
      else if 3 \<le> length s \<and> lowerByte (s ! 1) = 0x6F then (8, drop 2 s, True)
      else if 3 \<le> length s \<and> lowerByte (s ! 1) = 0x78 then (16, drop 2 s, True)
      else (8, drop 1 s, True))"

definition ParseUint0 :: "bytes \<Rightarrow> nat option" where
  "ParseUint0 s =
     (if s = [] then None
      else (let (base, digits, prefixed) = intBase s in if underscores prefixed False digits then parseDigits base digits 0 else None))"

definition isIconType :: "u16 \<Rightarrow> bool" where
  "isIconType t \<longleftrightarrow> t = BARTTypesBuddyIconSmall \<or> t = BARTTypesBuddyIcon"

definition GetClearIconHash :: bytes where
  "GetClearIconHash = [0x02, 0x01, 0xd2, 0x04, 0x72]"

definition iconReplies :: "'c FeedbagService \<Rightarrow> instanceRef \<Rightarrow> BARTID \<Rightarrow> 'c ICBMService \<Rightarrow> 'c feedbagEffect" where
  "iconReplies env you icon S =
     (let S1 = onBos (onSession (RelayToSelf (snd you)
            (replyFrame OService OServiceBartReply 0, Some (SNAC_0x01_0x21_OServiceBARTReply, VStruct [BARTID_val icon]))) you) S in
      if \<not> isIconType (bartType icon) then (None, S1)
      else
        (case newOServiceUserInfoUpdate (feNow env) (sessionOf you (icBos S1)) (snd you) of
           Inl e \<Rightarrow> (Some (FbUserInfo e), S1)
         | Inr v \<Rightarrow> (None, relay (myName you S1)
             (replyFrame OService OServiceUserInfoUpdate 0, Some (SNAC_0x01_0x0F_OServiceUserInfoUpdate, v)) S1)))"

definition setBARTItem :: "'c FeedbagService \<Rightarrow> instanceRef \<Rightarrow> FeedbagItem \<Rightarrow> 'c ICBMService \<Rightarrow> 'c feedbagEffect" where
  "setBARTItem env you item S =
     (case TLVList_Bytes (itemTLVs item) FeedbagAttributesBartInfo of
        None \<Rightarrow> (Some FbIconMissing, S)
      | Some b \<Rightarrow>
          (case ParseUint0 (itemName item) of
             None \<Rightarrow> (Some FbBartType, S)
           | Some itemType \<Rightarrow>
               (case fst (UnmarshalBE BARTInfo_type b) of
                  Inl e \<Rightarrow> (Some (FbBartInfo e), S)
                | Inr info \<Rightarrow>
                    (let icon = \<lparr>bartType = word_of_nat itemType, bartFlags = asU8 (field 0 info), bartHash = asBytes (field 1 info)\<rparr>;
                         known = (bartHash icon = GetClearIconHash \<or> length (BARTItem_body (bartHash icon) (feCatalog env)) > 0);
                         shown = (if known then icon else icon\<lparr>bartFlags := bartFlags icon OR BARTFlagsUnknown\<rparr>);
                         S1 = (if isIconType (bartType icon) then onBos (onSession (SetBuddyIcon shown) you) S else S) in
                     andThen (if known \<and> isIconType (bartType icon)
                         then broadcast (\<lambda>B. ebind (Session_TLVUserInfo (feNow env) (sessionOf you B)) (\<lambda>u.
                           BroadcastBuddyArrived (identScreenName (sessionOf you B)) u B)) S1
                         else (None, S1))
                       (iconReplies env you shown)))))"

definition onlineWithFeedbag :: "IdentScreenName \<Rightarrow> BOS \<Rightarrow> bool" where
  "onlineWithFeedbag sn B \<longleftrightarrow>
     (case RetrieveSession sn (bosMgr B) (bosHeap B) of None \<Rightarrow> False | Some a \<Rightarrow> usesFeedbag (bosHeap B ! a))"

text \<open>An ICQ user learns once that somebody added them.\<close>

definition noteAdded :: "'c FeedbagService \<Rightarrow> instanceRef \<Rightarrow> FeedbagItem \<Rightarrow> 'c ICBMService \<Rightarrow> 'c feedbagEffect" where
  "noteAdded env you item S =
     (let buddy = NewIdentScreenName (fePlatform env) (itemName item) in
      if itemClassID item = FeedbagClassIdBuddy \<and> \<not> isPending item \<and> UIN buddy \<noteq> 0
         \<and> \<not> HasBuddyAddedNotification (myName you S) buddy (bosLists (icBos S))
      then
        (let S1 = onLists (RecordBuddyAddedNotification (myName you S) buddy) S in
         if onlineWithFeedbag buddy (icBos S1)
         then (None, relay buddy (buddyAddedMsg (displayScreenName (sessionOf you (icBos S1)))) S1)
         else sendLegacyBuddyAddedMsg env you buddy S1)
      else (None, S))"

definition itemEffect :: "'c FeedbagService \<Rightarrow> instanceRef \<Rightarrow> FeedbagItem \<Rightarrow> 'c ICBMService \<Rightarrow> 'c feedbagEffect" where
  "itemEffect env you item S = (if itemClassID item = FeedbagClassIdBart then setBARTItem env you item S else (None, S))"

definition affected :: "platform \<Rightarrow> FeedbagItem list \<Rightarrow> IdentScreenName list" where
  "affected P items = map (\<lambda>i. NewIdentScreenName P (itemName i)) (filter (\<lambda>i. hasScreenName (itemClassID i)) items)"

text \<open>Who is to be told: collected while a batch is running, told at once otherwise.\<close>

definition notify :: "'c FeedbagService \<Rightarrow> instanceRef \<Rightarrow> IdentScreenName list \<Rightarrow> 'c ICBMService \<Rightarrow> 'c feedbagEffect" where
  "notify env you names S =
     (if notifyTxnActive (instanceOf you (icBos S)) then
        (case NotifyTxn names (instanceOf you (icBos S)) of
           (Some e, _) \<Rightarrow> (Some (FbNotify e), S)
         | (None, x) \<Rightarrow> (None, onBos (updInstance (\<lambda>_. x) you) S))
      else broadcast (BroadcastVisibility (feNow env) you names True) S)"

definition statusMsg :: "u32 \<Rightarrow> u16 list \<Rightarrow> SNACMessage" where
  "statusMsg req results = (replyFrame Wire_Codes.Feedbag FeedbagStatus req,
     Some (SNAC_0x13_0x0E_FeedbagStatus, VStruct [VSlice (map VU16 results)]))"

text \<open>The client gets the results, its other instances the request.\<close>

definition confirm :: "instanceRef \<Rightarrow> SNACFrame \<Rightarrow> u16 list \<Rightarrow> gtype \<Rightarrow> FeedbagItem list \<Rightarrow> 'c ICBMService \<Rightarrow> 'c ICBMService" where
  "confirm you inFrame results t items =
     onBos (onSession (RelayToOtherInstances (snd you)
        (replyFrame (FoodGroup inFrame) (SubGroup inFrame) ReqIDFromServer, Some (t, itemsVal items))
      \<circ> RelayToSelf (snd you) (statusMsg (RequestID inFrame) results)) you)"

definition afterUpsert :: "'c FeedbagService \<Rightarrow> instanceRef \<Rightarrow> FeedbagItem list \<Rightarrow> 'c ICBMService \<Rightarrow> 'c feedbagEffect" where
  "afterUpsert env you toUpsert S =
     andThen (eachOf (itemEffect env you) toUpsert S) (\<lambda>S.
     andThen (eachOf (noteAdded env you) toUpsert S) (\<lambda>S.
       if list_ex (\<lambda>i. itemClassID i = FeedbagClassIdPdinfo) toUpsert \<or> length (affected (fePlatform env) toUpsert) > 0
       then notify env you (affected (fePlatform env) toUpsert) S else (None, S)))"

definition storeItems :: "'c FeedbagService \<Rightarrow> instanceRef \<Rightarrow> SNACFrame \<Rightarrow> FeedbagItem list \<Rightarrow> FeedbagItem list \<Rightarrow> bytes list
    \<Rightarrow> 'c ICBMService \<Rightarrow> 'c feedbagEffect" where
  "storeItems env you inFrame items toUpsert authRequired S =
     andThen (if length toUpsert > 0 then upsertRows env (myName you S) toUpsert S else (None, S)) (\<lambda>S.
     andThen (setSessionBuddyPrefs items you S) (\<lambda>S.
       afterUpsert env you toUpsert (confirm you inFrame
         (map (\<lambda>i. if itemName i \<in> set authRequired then 0x000E else 0) items) SNAC_0x13_0x09_FeedbagUpdateItem toUpsert S)))"

definition replied :: "'c feedbagEffect \<Rightarrow> (feedbagFault + SNACMessage option) \<times> 'c ICBMService" where
  "replied r = (case r of (Some e, S) \<Rightarrow> (Inl e, S) | (None, S) \<Rightarrow> (Inr None, S))"

definition UpsertItem :: "'c FeedbagService \<Rightarrow> instanceRef \<Rightarrow> SNACFrame \<Rightarrow> FeedbagItem list \<Rightarrow> 'c ICBMService
    \<Rightarrow> (feedbagFault + SNACMessage option) \<times> 'c ICBMService" where
  "UpsertItem env you inFrame items S =
     (if list_ex (\<lambda>i. itemClassID i = FeedbagClassIDDeny \<and> NewIdentScreenName (fePlatform env) (itemName i) = myName you S) items
      then (Inr (Some (feedbagErr (RequestID inFrame))), S)
      else
        (case gateItems env you items S of
           (Inl e, S1) \<Rightarrow> (Inl e, S1)
         | (Inr (toUpsert, authRequired), S1) \<Rightarrow> replied (storeItems env you inFrame items toUpsert authRequired S1)))"

section \<open>Removing entries\<close>

definition buddyStillListed :: "platform \<Rightarrow> IdentScreenName \<Rightarrow> IdentScreenName \<Rightarrow> 'c ICBMService \<Rightarrow> feedbagFault + bool" where
  "buddyStillListed P owner buddy S = ebind (listOf owner S) (\<lambda>items.
     Inr (list_ex (\<lambda>it. itemClassID it = FeedbagClassIdBuddy \<and> NewIdentScreenName P (itemName it) = buddy) items))"

definition severed :: "'c FeedbagService \<Rightarrow> instanceRef \<Rightarrow> FeedbagItem \<Rightarrow> 'c ICBMService \<Rightarrow> 'c feedbagEffect" where
  "severed env you item S =
     (let me = myName you S; buddy = NewIdentScreenName (fePlatform env) (itemName item) in
      if itemClassID item \<noteq> FeedbagClassIdBuddy \<or> uin (sessionOf you (icBos S)) \<noteq> 0 \<or> UIN buddy \<noteq> 0 then (None, S)
      else
        (case buddyStillListed (fePlatform env) me buddy S of
           Inl e \<Rightarrow> (Some e, S)
         | Inr moved \<Rightarrow>
             (if moved then (None, S)
              else
                (let wasConnected = (\<not> RequiresAuthorization buddy me (bosLists (icBos S)));
                     S1 = onLists (RevokePreAuth buddy me \<circ> RevokePreAuth me buddy) S in
                 (None, if wasConnected then sendAIMConnectionRemoved me buddy S1 else S1)))))"

definition DeleteItem :: "'c FeedbagService \<Rightarrow> instanceRef \<Rightarrow> SNACFrame \<Rightarrow> FeedbagItem list \<Rightarrow> 'c ICBMService
    \<Rightarrow> (feedbagFault + SNACMessage option) \<times> 'c ICBMService" where
  "DeleteItem env you inFrame items S =
     (let S1 = confirm you inFrame (map (\<lambda>_. 0) items) SNAC_0x13_0x0A_FeedbagDeleteItem items
            (onLists (FeedbagDelete (myName you S) items) S) in
      replied (andThen (eachOf (severed env you) items S1) (notify env you (affected (fePlatform env) items))))"

section \<open>Batches and activation\<close>

definition StartCluster :: "instanceRef \<Rightarrow> SNACFrame \<Rightarrow> gval \<Rightarrow> 'c ICBMService \<Rightarrow> 'c ICBMService" where
  "StartCluster you inFrame inBody = onBos (onSession (RelayToOtherInstances (snd you)
       (inFrame, Some (SNAC_0x13_0x11_FeedbagStartCluster, inBody))) you
     \<circ> updInstance BeginNotifyTxn you)"

definition EndCluster :: "'c FeedbagService \<Rightarrow> instanceRef \<Rightarrow> SNACFrame \<Rightarrow> 'c ICBMService \<Rightarrow> 'c feedbagEffect" where
  "EndCluster env you inFrame S =
     (let S1 = onBos (onSession (RelayToOtherInstances (snd you) (inFrame, Some (SNAC_0x13_0x12_FeedbagEndCluster, VStruct []))) you) S in
      case EndNotifyTxn (instanceOf you (icBos S1)) of
        ((shouldNotify, names), x) \<Rightarrow>
          (let S2 = onBos (updInstance (\<lambda>_. x) you) S1 in
           if \<not> shouldNotify then (None, S2) else broadcast (BroadcastVisibility (feNow env) you names True) S2))"

definition activated :: "'c FeedbagService \<Rightarrow> instanceRef \<Rightarrow> 'c ICBMService \<Rightarrow> 'c feedbagEffect" where
  "activated env you S =
     (let S1 = onBos (updInstance SetContactsInit you \<circ> onSession SetUsesFeedbag you) S in
      if signonComplete (instanceOf you (icBos S1)) then broadcast (BroadcastVisibility (feNow env) you [] False) S1 else (None, S1))"

definition Use :: "'c FeedbagService \<Rightarrow> instanceRef \<Rightarrow> 'c ICBMService \<Rightarrow> 'c feedbagEffect" where
  "Use env you S =
     (let S1 = onLists (UseFeedbag (myName you S)) S in
      case listOf (myName you S1) S1 of
        Inl e \<Rightarrow> (Some e, S1)
      | Inr items \<Rightarrow> andThen (setSessionBuddyPrefs items you S1) (activated env you))"

section \<open>Asking for and giving authorization\<close>

text \<open>Every period after the first is dropped: ICQ 5 ignores requests with several.\<close>

fun stripDots :: "bytes \<Rightarrow> bytes" where
  "stripDots [] = []"
| "stripDots (c # cs) = (if c = 0x2E then c # filter (\<lambda>x. x \<noteq> 0x2E) cs else c # stripDots cs)"

definition RequestAuthorizeToHost :: "'c FeedbagService \<Rightarrow> instanceRef \<Rightarrow> bytes \<Rightarrow> bytes \<Rightarrow> 'c ICBMService \<Rightarrow> 'c feedbagEffect" where
  "RequestAuthorizeToHost env you name reason S =
     (let me = myName you S; recipient = NewIdentScreenName (fePlatform env) name;
          rel = Relationship me recipient (bosLists (icBos S)) in
      if relBlocksYou rel \<or> relYouBlock rel then (None, S)
      else if onlineWithFeedbag recipient (icBos S) then (None, relay recipient (authRequestMsg me (stripDots reason)) S)
      else
        (case findUser (fePlatform env) me (feAccounts env) of
           Inl e \<Rightarrow> (Some (FbStore e), S)
         | Inr user \<Rightarrow> sendLegacyAuthReq env you recipient reason
             (case user of None \<Rightarrow> zeroICQBasicInfo | Some u \<Rightarrow> icqBasic (userICQInfo u))
             (\<not> RequiresAuthorization me recipient (bosLists (icBos S))) S))"

definition youWereAdded :: "'c FeedbagService \<Rightarrow> IdentScreenName \<Rightarrow> IdentScreenName \<Rightarrow> 'c ICBMService \<Rightarrow> 'c feedbagEffect" where
  "youWereAdded env granter requester S =
     (if onlineWithFeedbag granter (icBos S) then (None, relay granter (buddyAddedMsg requester) S)
      else withFresh (SetUIN (UIN requester) (freshSession requester)) (\<lambda>ref. sendLegacyBuddyAddedMsg env ref granter) S)"

text \<open>What the requester is told, and the granter's contacts: the session of the granter was retrieved before.\<close>

definition tellConnected :: "'c FeedbagService \<Rightarrow> nat option \<Rightarrow> IdentScreenName \<Rightarrow> IdentScreenName \<Rightarrow> FeedbagItem list
    \<Rightarrow> 'c ICBMService \<Rightarrow> 'c feedbagEffect" where
  "tellConnected env granterSess granter requester updates S =
     (let S1 = relay requester (authResponseMsg granter 1 [])
            (relay requester (fbFrame FeedbagUpdateItem 0, Some (SNAC_0x13_0x09_FeedbagUpdateItem, itemsVal updates)) S) in
      case granterSess of
        None \<Rightarrow> (None, S1)
      | Some a \<Rightarrow>
          (case Instances (bosHeap (icBos S1) ! a) of
             [] \<Rightarrow> (None, S1)
           | i # _ \<Rightarrow> broadcast (BroadcastVisibility (feNow env) (a, i) [requester] False) S1))"

definition clearPendingAuth :: "'c FeedbagService \<Rightarrow> IdentScreenName \<Rightarrow> IdentScreenName \<Rightarrow> 'c ICBMService
    \<Rightarrow> (feedbagFault + bool) \<times> 'c ICBMService" where
  "clearPendingAuth env granter requester S =
     (case listOf requester S of
        Inl e \<Rightarrow> (Inl e, S)
      | Inr items \<Rightarrow>
          (case find (\<lambda>i. itemClassID i = FeedbagClassIdBuddy \<and> itemName i = granter) items of
             None \<Rightarrow> (Inr False, S)
           | Some item \<Rightarrow>
               (if \<not> isPending item then (Inr False, S)
                else
                  (case andThen (upsertRows env requester [withoutPending item] S) (\<lambda>S.
                        andThen (youWereAdded env granter requester S)
                          (tellConnected env (RetrieveSession granter (bosMgr (icBos S)) (bosHeap (icBos S))) granter requester [withoutPending item])) of
                     (Some e, S1) \<Rightarrow> (Inl e, S1)
                   | (None, S1) \<Rightarrow> (Inr True, S1)))))"

definition authorizeContact :: "'c FeedbagService \<Rightarrow> IdentScreenName \<Rightarrow> IdentScreenName \<Rightarrow> bytes \<Rightarrow> 'c ICBMService \<Rightarrow> 'c feedbagEffect" where
  "authorizeContact env granter requester message S =
     (let S1 = onLists (RecordPreAuth granter requester) S in
      case RetrieveSession requester (bosMgr (icBos S)) (bosHeap (icBos S)) of
        None \<Rightarrow> sendLegacyAuthMsg env granter requester S1
      | Some a \<Rightarrow>
          (case clearPendingAuth env granter requester S1 of
             (Inl e, S2) \<Rightarrow> (Some e, S2)
           | (Inr True, S2) \<Rightarrow> (None, S2)
           | (Inr False, S2) \<Rightarrow>
               (if usesFeedbag (bosHeap (icBos S2) ! a)
                then
                  (if relBlocksYou (Relationship granter requester (bosLists (icBos S2))) then (None, S2)
                   else (None, relay requester (preAuthorizedMsg granter message) S2))
                else sendLegacyAuthMsg env granter requester S2)))"

definition PreAuthorizeBuddy :: "'c FeedbagService \<Rightarrow> instanceRef \<Rightarrow> u32 \<Rightarrow> bytes \<Rightarrow> bytes \<Rightarrow> 'c ICBMService
    \<Rightarrow> (feedbagFault + SNACMessage option) \<times> 'c ICBMService" where
  "PreAuthorizeBuddy env you req name message S =
     (let buddy = NewIdentScreenName (fePlatform env) name in
      if buddy = myName you S then (Inr (Some (feedbagErr req)), S)
      else replied (authorizeContact env (myName you S) buddy message S))"

definition sendLegacyDeny :: "'c FeedbagService \<Rightarrow> IdentScreenName \<Rightarrow> IdentScreenName \<Rightarrow> bytes \<Rightarrow> 'c ICBMService \<Rightarrow> 'c feedbagEffect" where
  "sendLegacyDeny env rejecter requester reason = withFresh (freshSession rejecter)
     (\<lambda>ref. sendLegacy env ref (legacyMsg 0 (UIN rejecter) ICBMMsgTypeAuthDeny reason requester))"

definition rejectContact :: "'c FeedbagService \<Rightarrow> IdentScreenName \<Rightarrow> IdentScreenName \<Rightarrow> bytes \<Rightarrow> 'c ICBMService \<Rightarrow> 'c feedbagEffect" where
  "rejectContact env rejecter requester reason S =
     (if onlineWithFeedbag requester (icBos S) then (None, relay requester (authResponseMsg rejecter 0 reason) S)
      else sendLegacyDeny env rejecter requester reason S)"

definition RespondAuthorizeToHost :: "'c FeedbagService \<Rightarrow> IdentScreenName \<Rightarrow> bytes \<Rightarrow> byte \<Rightarrow> bytes \<Rightarrow> 'c ICBMService \<Rightarrow> 'c feedbagEffect" where
  "RespondAuthorizeToHost env me name accepted reason S =
     (let requester = NewIdentScreenName (fePlatform env) name in
      if accepted = 0 then rejectContact env me requester reason S
      else if accepted = 1 then
        andThen (authorizeContact env me requester reason S) (\<lambda>S.
          (None, if UIN me = 0 \<and> UIN requester = 0 then onLists (RecordPreAuth requester me) S else S))
      else (Some (FbInvalidAccepted accepted), S))"

text \<open>The authorization messages of the old protocol, for a recipient with a server-side list.\<close>

definition authReason :: "bytes \<Rightarrow> bytes" where
  "authReason message = (let parts = strings_Split 0xFE message in if length parts \<ge> 6 then parts ! 5 else [])"

definition ForwardICQAuthEvents :: "'c FeedbagService \<Rightarrow> IdentScreenName \<Rightarrow> IdentScreenName \<Rightarrow> gval \<Rightarrow> 'c ICBMService \<Rightarrow> 'c feedbagEffect" where
  "ForwardICQAuthEvents env sender recipient authMsg S =
     (let t = asU8 (field 1 authMsg); message = asBytes (field 3 authMsg) in
      if t = ICBMMsgTypeAuthOK then RespondAuthorizeToHost env sender recipient 1 message S
      else if t = ICBMMsgTypeAuthDeny then RespondAuthorizeToHost env sender recipient 0 message S
      else if t = ICBMMsgTypeAdded then (None, relay recipient (buddyAddedMsg sender) S)
      else if t = ICBMMsgTypeAuthReq then (None, relay recipient (authRequestMsg sender (authReason message)) S)
      else (None, S))"

section \<open>The bridge to the messaging service\<close>

text \<open>The two services call one another: an authorization for a user of the old protocol is a message, and such a
  message for a user with a server-side list is an authorization. The number bounds the calls.\<close>

fun bridged :: "nat \<Rightarrow> 'c icbmEnv \<Rightarrow> 'c FeedbagService \<Rightarrow> 'c FeedbagService" where
  "bridged 0 ic env = env\<lparr>icbmSender := \<lambda>you req body S. (Inl IForward, S)\<rparr>"
| "bridged (Suc n) ic env = env\<lparr>icbmSender := ChannelMsgToHost
     (ic\<lparr>icForward := \<lambda>sender recipient authMsg S.
        (case ForwardICQAuthEvents (bridged n ic env) sender recipient authMsg S of
           (e, S1) \<Rightarrow> (map_option (\<lambda>_. IForward) e, S1))\<rparr>)\<rparr>"

section \<open>Lemmas\<close>

lemma onBos_simps [simp]:
  "icBos (onBos f S) = f (icBos S)" "icMail (onBos f S) = icMail S" "icConvo (onBos f S) = icConvo S"
  "bosLists (icBos (onLists g S)) = g (bosLists (icBos S))" "bosMgr (icBos (onLists g S)) = bosMgr (icBos S)"
  "bosHeap (icBos (onLists g S)) = bosHeap (icBos S)" "sessionOf you (icBos (onLists g S)) = sessionOf you (icBos S)"
  "myName you (onLists g S) = myName you S"
  by (simp_all add: onBos_def onLists_def sessionOf_def myName_def)

lemma sends_keep_lists [simp]:
  "bosLists (relayTo sn msg B) = bosLists B" "bosMgr (relayTo sn msg B) = bosMgr B"
  "bosLists (onSession f you B) = bosLists B" "bosMgr (onSession f you B) = bosMgr B"
  "bosLists (updInstance g you B) = bosLists B"
  by (simp_all add: relayTo_def onSession_def updInstance_def)

lemma offer_uin: "uin (offer msg i s) = uin s"
  by (simp add: offer_def CloseInstance_def closeMark_def closeCall_def RemoveInstance_def updInst_def
      RelayMessageToInstance_def split: prod.splits SessSendStatus.splits)

lemma relayLoop_uin: "uin (relayLoop wants msg is s) = uin s"
  by (induction "is" arbitrary: s) (simp_all add: relayLoop_def offer_uin)

lemma updSession_nth_any: "updSession f a h ! s = (if s = a \<and> s < length h then f (h ! s) else h ! s)"
  by (cases "s = a") (auto simp: updSession_def list_update_beyond)

lemma relay_who [simp]:
  "identScreenName (sessionOf you (relayTo sn msg B)) = identScreenName (sessionOf you B)"
  "uin (sessionOf you (relayTo sn msg B)) = uin (sessionOf you B)"
  by (auto simp: relayTo_def sessionOf_def RelayToScreenName_def updSession_nth_any maybeRelayMessage_def relayLoop_name relayLoop_uin
      split: option.split)

lemma RecordPreAuth_tables [simp]:
  "feedbag (RecordPreAuth a b st) = feedbag st" "authFlags (RecordPreAuth a b st) = authFlags st"
  "feedbag (RevokePreAuth a b st) = feedbag st" "authFlags (RevokePreAuth a b st) = authFlags st"
  by (simp_all add: RecordPreAuth_def RevokePreAuth_def)

lemma Relationship_grants: "Relationship me them (st\<lparr>contactPreauth := grants\<rparr>) = Relationship me them st"
proof -
  have "feedbagEntry (st\<lparr>contactPreauth := grants\<rparr>) = feedbagEntry st" by (simp add: feedbagEntry_def fun_eq_iff)
  then have "listEntry (st\<lparr>contactPreauth := grants\<rparr>) = listEntry st" by (simp add: listEntry_def fun_eq_iff)
  moreover have "privacyPrefs (st\<lparr>contactPreauth := grants\<rparr>) = privacyPrefs st"
    by (intro ext privacyPrefs_cong) simp_all
  moreover have "listedNames (st\<lparr>contactPreauth := grants\<rparr>) = listedNames st" by (simp add: listedNames_def)
  ultimately show ?thesis by (simp add: Relationship_def AllRelationships_def)
qed

lemma Relationship_consent [simp]:
  "Relationship me them (RecordPreAuth a b st) = Relationship me them st"
  "Relationship me them (RevokePreAuth a b st) = Relationship me them st"
  by (simp_all add: RecordPreAuth_def RevokePreAuth_def Relationship_grants)

lemma RequiresAuthorization_record:
  "RequiresAuthorization a b (RecordPreAuth c d st) \<longleftrightarrow>
     RequiresAuthorization a b st \<and> \<not> ((a, b) = (c, d) \<and> map_of (authFlags st) b \<noteq> None)"
  by (auto simp: RequiresAuthorization_def RecordPreAuth_def split: option.splits)

lemma listOf_onLists: "feedbag (f (bosLists (icBos S))) = feedbag (bosLists (icBos S)) \<Longrightarrow> listOf sn (onLists f S) = listOf sn S"
  by (simp add: listOf_def Feedbag_def)

text \<open>The message of the old protocol that a fresh session sends ends at the gate for messages when the recipient's
  consent is missing: its sender is told so, which nobody hears.\<close>

lemma legacyMsg_ok: "\<exists>body. legacyMsg c u t [] to = Inr body \<and> cmScreenName body = to"
  by (simp add: legacyMsg_def ebind_def marshal_value NewTLVLE_def MarshalLE_def ICBMCh4Message_type_def lenFits_def
      prefixWidth_def Let_def noTag_def)

lemma AddInstance_fresh:
  "\<exists>i s. AddInstance (freshSession sn) = Some (i, s) \<and> identScreenName s = sn \<and> uin s = 0"
proof -
  have "generateInstanceNum (freshSession sn) \<noteq> None"
    unfolding generateInstanceNum_None
    by (auto simp: freshSession_def SetDisplayScreenName_def SetIdentScreenName_def NewSession_def intro: exI [of _ 1])
  then show ?thesis
    by (auto simp: AddInstance_def Let_def freshSession_def SetDisplayScreenName_def SetIdentScreenName_def NewSession_def)
qed

lemma ChannelMsg_refused:
  assumes "uin (sessionOf you (icBos S)) = 0" and "UIN (NewIdentScreenName (icPlatform ic) (cmScreenName body)) = 0"
    and "RequiresAuthorization (NewIdentScreenName (icPlatform ic) (cmScreenName body)) (myName you S) (bosLists (icBos S))"
  shows "\<exists>reply. ChannelMsgToHost ic you req body S = (Inr (Some reply), S)"
  using assms by (simp add: ChannelMsgToHost_def Let_def myName_def)

lemma sendLegacyAuthMsg_unheard:
  assumes "icbmSender env = ChannelMsgToHost ic" and "NewIdentScreenName (icPlatform ic) sn = sn" and "UIN sn = 0"
    and "RequiresAuthorization sn me (bosLists (icBos S))"
  shows "\<exists>s. sendLegacyAuthMsg env me sn S = (None, onBos (\<lambda>B. B\<lparr>bosHeap := bosHeap B @ [s]\<rparr>) S)"
proof -
  obtain i s where s: "AddInstance (freshSession me) = Some (i, s)" "identScreenName s = me" "uin s = 0"
    using AddInstance_fresh by blast
  obtain body where b: "legacyMsg (word_of_int (feNow env)) (UIN me) ICBMMsgTypeAuthOK [] sn = Inr body" "cmScreenName body = sn"
    using legacyMsg_ok by blast
  let ?S = "onBos (\<lambda>B. B\<lparr>bosHeap := bosHeap B @ [s]\<rparr>) S" and ?you = "(length (bosHeap (icBos S)), i)"
  have "sessionOf ?you (icBos ?S) = s" by (simp add: sessionOf_def)
  with ChannelMsg_refused [where you = ?you and S = ?S and ic = ic and body = body and req = 0] assms(2-4) s b(2)
  obtain reply where "ChannelMsgToHost ic ?you 0 body ?S = (Inr (Some reply), ?S)" by (auto simp: myName_def)
  then show ?thesis by (intro exI [of _ s]) (simp add: sendLegacyAuthMsg_def withFresh_def s(1) sendLegacy_def b(1) assms(1))
qed

lemma grants_itself:
  assumes "icbmSender env = ChannelMsgToHost ic" and "NewIdentScreenName (icPlatform ic) victim = victim" and "UIN victim = 0"
    and "victim \<noteq> me" and "RequiresAuthorization victim me (bosLists (icBos S))" and "listOf victim S = Inr items"
    and "\<forall>i\<in>set items. itemClassID i = FeedbagClassIdBuddy \<and> itemName i = me \<longrightarrow> \<not> isPending i"
  shows "\<exists>S1. authorizeContact env me victim reason S = (None, S1) \<and>
    bosLists (icBos S1) = RecordPreAuth me victim (bosLists (icBos S)) \<and>
    (\<forall>you. fst you < length (bosHeap (icBos S)) \<longrightarrow> myName you S1 = myName you S \<and>
       uin (sessionOf you (icBos S1)) = uin (sessionOf you (icBos S)))"
proof -
  let ?S = "onLists (RecordPreAuth me victim) S"
  have r: "RequiresAuthorization victim me (bosLists (icBos ?S))" using assms(4,5) by (simp add: RequiresAuthorization_record)
  obtain s where legacy: "sendLegacyAuthMsg env me victim ?S = (None, onBos (\<lambda>B. B\<lparr>bosHeap := bosHeap B @ [s]\<rparr>) ?S)"
    using sendLegacyAuthMsg_unheard [OF assms(1-3) r] by blast
  have "find (\<lambda>i. itemClassID i = FeedbagClassIdBuddy \<and> itemName i = me) items = Some i \<Longrightarrow> \<not> isPending i" for i
    using assms(7) by (auto simp: find_Some_iff)
  then have "clearPendingAuth env me victim ?S = (Inr False, ?S)"
    using assms(6) by (simp add: clearPendingAuth_def listOf_onLists split: option.split)
  then have "authorizeContact env me victim reason S \<in>
      Pair None ` {?S, relay victim (preAuthorizedMsg me reason) ?S, onBos (\<lambda>B. B\<lparr>bosHeap := bosHeap B @ [s]\<rparr>) ?S}"
    by (simp add: authorizeContact_def Let_def legacy split: option.split)
  then show ?thesis
    by (elim imageE insertE) (auto simp: relay_def myName_def sessionOf_def [of _ "_\<lparr>bosHeap := _\<rparr>"] nth_append,
      auto simp: sessionOf_def)
qed

lemma gate_open:
  assumes "\<not> RequiresAuthorization (NewIdentScreenName (icPlatform ic) (cmScreenName body)) (myName you S) (bosLists (icBos S))"
    and "cmChannelID body \<noteq> ICBMChannelICQ"
    and "\<not> relBlocksYou (Relationship (myName you S) (NewIdentScreenName (icPlatform ic) (cmScreenName body)) (bosLists (icBos S)))"
    and "\<not> relYouBlock (Relationship (myName you S) (NewIdentScreenName (icPlatform ic) (cmScreenName body)) (bosLists (icBos S)))"
  shows "ChannelMsgToHost ic you req body S =
    (case RetrieveSession (NewIdentScreenName (icPlatform ic) (cmScreenName body)) (bosMgr (icBos S)) (bosHeap (icBos S)) of
       None \<Rightarrow> offlineOrError ic you req body S | Some a \<Rightarrow> deliver ic you req a body S)"
  using assms by (simp add: ChannelMsgToHost_def Let_def myName_def icqAuth_def split: option.split)

text \<open>Users 97 and 98 online, both with an account, so that each has to be asked.\<close>

definition askingStore :: ListStore where
  "askingStore = emptyStore\<lparr>authFlags := [([97], True), ([98], True)]\<rparr>"

definition askingService :: "(bytes \<times> nat \<times> int) list ICBMService" where
  "askingService = sampleService\<lparr>icBos := sampleOnline\<lparr>bosLists := askingStore\<rparr>\<rparr>"

definition sampleFeedbag :: "(bytes \<times> nat \<times> int) list FeedbagService" where
  "sampleFeedbag = bridged 2 sampleEnv \<lparr>fePlatform = samplePlatform, feNow = 0, icbmSender = (\<lambda>you req body S. (Inl IForward, S)),
     feAccounts = [], feCatalog = emptyCatalog\<rparr>"

lemma askingStore_simps [simp]:
  "\<not> relBlocksYou (Relationship a b askingStore)" "\<not> relYouBlock (Relationship a b askingStore)"
  "RequiresAuthorization a b askingStore \<longleftrightarrow> a = [97] \<or> a = [98]" "authFlags askingStore = [([97], True), ([98], True)]"
  "feedbag askingStore = []"
proof -
  have "listedNames askingStore = []" by (simp add: listedNames_def emptyStore_def askingStore_def)
  then have "AllRelationships a ns askingStore = []" for ns by (simp add: AllRelationships_def)
  then show "\<not> relBlocksYou (Relationship a b askingStore)" "\<not> relYouBlock (Relationship a b askingStore)"
    by (simp_all add: Relationship_def)
qed (auto simp: askingStore_def emptyStore_def RequiresAuthorization_def)

lemma askingService_simps [simp]:
  "bosLists (icBos askingService) = askingStore" "bosHeap (icBos askingService) = bosHeap sampleOnline"
  "bosMgr (icBos askingService) = bosMgr (sampleBOS emptyStore)" "myName (0, 0) askingService = [97]"
  "uin (sessionOf (0, 0) (icBos askingService)) = 0" "listOf sn askingService = Inr []"
  using sampleOnline_simps(6) by (simp_all add: askingService_def sampleService_def myName_def sessionOf_def listOf_def Feedbag_def)

lemma sampleFeedbag_simps [simp]:
  "fePlatform sampleFeedbag = samplePlatform" "\<exists>ic. icbmSender sampleFeedbag = ChannelMsgToHost ic \<and> icPlatform ic = samplePlatform"
  "feNow sampleFeedbag = 0"
  by (simp_all add: sampleFeedbag_def numeral_2_eq_2 sampleEnv_def)
    (rule exI [of _ "sampleEnv\<lparr>icForward := _\<rparr>"], simp add: sampleEnv_def)

section \<open>Consent\<close>

text \<open>C36: Consent can be forged. The consent of a user is asked for before another may add or message them, but an
  answer is accepted without a question: a user who answers yes to a request that the victim never made
  is granted the victim's consent, online or not, unless the victim's list has a pending entry for them. A message
  that the gate refused before passes it afterwards.\<close>
theorem consent_forged:
  assumes "icbmSender env = ChannelMsgToHost ic0" and "icPlatform ic0 = fePlatform env" and "icPlatform ic = fePlatform env"
    and "NewIdentScreenName (fePlatform env) name = victim" and "NewIdentScreenName (fePlatform env) victim = victim"
    and "me = myName you S" and "victim \<noteq> me" and "uin (sessionOf you (icBos S)) = 0" and "UIN me = 0" and "UIN victim = 0"
    and "fst you < length (bosHeap (icBos S))" and "map_of (authFlags (bosLists (icBos S))) me \<noteq> None"
    and "RequiresAuthorization victim me (bosLists (icBos S))" and "listOf victim S = Inr items"
    and "\<forall>i\<in>set items. itemClassID i = FeedbagClassIdBuddy \<and> itemName i = me \<longrightarrow> \<not> isPending i"
    and "NewIdentScreenName (fePlatform env) (cmScreenName body) = victim" and "cmChannelID body \<noteq> ICBMChannelICQ"
    and "\<not> relBlocksYou (Relationship me victim (bosLists (icBos S)))" and "\<not> relYouBlock (Relationship me victim (bosLists (icBos S)))"
  shows "\<exists>S'. RespondAuthorizeToHost env me name 1 reason S = (None, S') \<and> \<not> RequiresAuthorization victim me (bosLists (icBos S')) \<and>
    ChannelMsgToHost ic you req body S = (Inr (Some (newICBMErr req ErrorCodeNotLoggedOn [])), S) \<and>
    ChannelMsgToHost ic you req body S' =
      (case RetrieveSession victim (bosMgr (icBos S')) (bosHeap (icBos S')) of
         None \<Rightarrow> offlineOrError ic you req body S' | Some a \<Rightarrow> deliver ic you req a body S')"
proof -
  obtain S1 where S1: "authorizeContact env me victim reason S = (None, S1)"
    "bosLists (icBos S1) = RecordPreAuth me victim (bosLists (icBos S))" "myName you S1 = me"
    using grants_itself [OF assms(1), of victim me S items reason] assms by metis
  let ?S = "onLists (RecordPreAuth victim me) S1"
  have "RespondAuthorizeToHost env me name 1 reason S = (None, ?S)"
    using assms(4,9,10) S1(1) by (simp add: RespondAuthorizeToHost_def andThen_def)
  moreover have passes: "\<not> RequiresAuthorization victim me (bosLists (icBos ?S))"
    using assms(12) S1(2) by (simp add: RequiresAuthorization_record)
  moreover have "ChannelMsgToHost ic you req body S = (Inr (Some (newICBMErr req ErrorCodeNotLoggedOn [])), S)"
    using assms(3,6,8,10,13,16,18,19) by (simp add: ChannelMsgToHost_def Let_def myName_def)
  moreover have "ChannelMsgToHost ic you req body ?S =
      (case RetrieveSession victim (bosMgr (icBos ?S)) (bosHeap (icBos ?S)) of
         None \<Rightarrow> offlineOrError ic you req body ?S | Some a \<Rightarrow> deliver ic you req a body ?S)"
    using gate_open [of ic body you ?S req] passes assms(3,16,17,18,19) S1(2,3) by (simp del: onBos_simps(5,6))
  ultimately show ?thesis by blast
qed

lemma consent_forged_witness:
  "\<exists>S'. RespondAuthorizeToHost sampleFeedbag [97] [98] 1 [] askingService = (None, S')
    \<and> RequiresAuthorization [98] [97] (bosLists (icBos askingService)) \<and> \<not> RequiresAuthorization [98] [97] (bosLists (icBos S'))"
proof -
  obtain ic where ic: "icbmSender sampleFeedbag = ChannelMsgToHost ic" "icPlatform ic = samplePlatform"
    using sampleFeedbag_simps(2) by blast
  have n: "NewIdentScreenName samplePlatform [98] = [98]" "cmScreenName sampleIM = [98]" "cmChannelID sampleIM = 1"
    "icPlatform sampleEnv = samplePlatform"
    by (simp_all add: ident_ascii isASCII_def asciiLower_def sampleIM_def sampleEnv_def)
  have u: "UIN [97] = 0" "UIN [98] = 0" by code_simp+
  show ?thesis
    using consent_forged [of sampleFeedbag ic sampleEnv "[98]" "[98]" "[97]" "(0, 0)" askingService "[]" sampleIM "[]" 0] ic n u by auto
qed

section \<open>What an edit does to the tables\<close>

lemma lists_broadcast: "bosLists (icBos (snd (broadcast (BroadcastVisibility now you ns dep) S))) = bosLists (icBos S)"
  by (auto simp: broadcast_def samePool_def dest: samePool_BroadcastVisibility split: sum.split)

lemma lists_notify: "bosLists (icBos (snd (notify env you ns S))) = bosLists (icBos S)"
  by (simp add: notify_def lists_broadcast split: prod.split option.split)

lemma lists_arrived: "bosLists (icBos (snd (broadcast (\<lambda>B. ebind (f B) (\<lambda>u. BroadcastBuddyArrived (n B) u B)) S))) = bosLists (icBos S)"
  by (auto simp: broadcast_def BroadcastBuddyArrived_def ebind_eq_Inr split: sum.split if_splits)

lemma lists_itemEffect: "bosLists (icBos (snd (itemEffect env you item S))) = bosLists (icBos S)"
proof -
  have "bosLists (icBos (snd (iconReplies env you icon S))) = bosLists (icBos S)" for icon S
    by (simp add: iconReplies_def Let_def relay_def split: sum.split)
  then show ?thesis unfolding itemEffect_def setBARTItem_def Let_def
    by (simp split: option.split sum.split)
      (intro allI impI conjI snd_andThen [where P = "\<lambda>T. bosLists (icBos T) = bosLists (icBos S)"]; simp add: lists_arrived)
qed

lemma lists_noteAdded:
  assumes "itemClassID item = FeedbagClassIdBuddy \<longrightarrow> UIN (NewIdentScreenName (fePlatform env) (itemName item)) = 0"
  shows "noteAdded env you item S = (None, S)"
  using assms by (auto simp: noteAdded_def Let_def)

lemma lists_afterUpsert:
  assumes "\<forall>i\<in>set items. itemClassID i = FeedbagClassIdBuddy \<longrightarrow> UIN (NewIdentScreenName (fePlatform env) (itemName i)) = 0"
  shows "bosLists (icBos (snd (afterUpsert env you items S))) = bosLists (icBos S)"
proof -
  let ?P = "\<lambda>T. bosLists (icBos T) = bosLists (icBos S)"
  have "?P (snd (eachOf (itemEffect env you) items S))"
    by (rule snd_eachOf [where P = ?P]) (simp_all add: lists_itemEffect)
  moreover have "?P (snd (eachOf (noteAdded env you) items T))" if "?P T" for T
    using assms that by (intro snd_eachOf [where P = ?P]) (simp_all add: lists_noteAdded)
  ultimately show ?thesis unfolding afterUpsert_def
    by (intro snd_andThen [where P = ?P]) (auto simp: lists_notify)
qed

lemma lists_prefs: "bosLists (icBos (snd (setSessionBuddyPrefs items you S))) = bosLists (icBos S)"
  by (induction items) (auto split: sum.split simp: Let_def)

lemma lists_confirm [simp]: "bosLists (icBos (confirm you frame rs t items S)) = bosLists (icBos S)"
  by (simp add: confirm_def)

lemma upserted_rows:
  assumes "FeedbagUpsert P now sn items st = (err, st')"
  shows "(\<forall>row\<in>set (feedbag st'). row \<in> set (feedbag st) \<or> (\<exists>i\<in>set items. feedbagRowOf P now sn i = Inr row)) \<and>
    contactPreauth st' = contactPreauth st \<and> authFlags st' = authFlags st"
  using assms
proof (induction items arbitrary: st)
  case (Cons i items)
  have rows: "set (upsertRow r xs) \<subseteq> insert r (set xs)" for r xs
    by (induction xs) auto
  show ?case
  proof (cases "feedbagRowOf P now sn i")
    case (Inr row)
    then show ?thesis using Cons.IH [of "st\<lparr>feedbag := upsertRow row (feedbag st)\<rparr>"] Cons.prems rows [of row "feedbag st"] by fastforce
  qed (use Cons.prems in auto)
qed simp

text \<open>An item that passes the gate of a user who is no ICQ user, for a contact who is none.\<close>

definition consented :: "platform \<Rightarrow> IdentScreenName \<Rightarrow> ListStore \<Rightarrow> FeedbagItem \<Rightarrow> bool" where
  "consented P me st i \<longleftrightarrow> (itemClassID i = FeedbagClassIdBuddy \<longrightarrow> UIN (NewIdentScreenName P (itemName i)) = 0 \<and>
     (RequiresAuthorization (NewIdentScreenName P (itemName i)) me st \<longrightarrow> isPending i))"

lemma gateItem_consented:
  assumes "uin (sessionOf you (icBos S)) = 0"
    and "itemClassID item = FeedbagClassIdBuddy \<longrightarrow> UIN (NewIdentScreenName (fePlatform env) (itemName item)) = 0"
  shows "\<exists>g S1. gateItem env you item S = (Inr g, S1) \<and> bosLists (icBos S1) = bosLists (icBos S) \<and> myName you S1 = myName you S \<and>
    uin (sessionOf you (icBos S1)) = 0 \<and> (\<forall>i. g = Pass i \<longrightarrow> consented (fePlatform env) (myName you S) (bosLists (icBos S)) i)"
  using assms unfolding gateItem_def Let_def
  by (auto simp: consented_def withoutPending_def sendAIMAuthReq_def relay_def myName_def)

lemma gateItems_consented:
  assumes "uin (sessionOf you (icBos S)) = 0"
    and "\<forall>i\<in>set items. itemClassID i = FeedbagClassIdBuddy \<longrightarrow> UIN (NewIdentScreenName (fePlatform env) (itemName i)) = 0"
  shows "\<exists>up held S1. gateItems env you items S = (Inr (up, held), S1) \<and> bosLists (icBos S1) = bosLists (icBos S) \<and>
    myName you S1 = myName you S \<and> (\<forall>i\<in>set up. consented (fePlatform env) (myName you S) (bosLists (icBos S)) i)"
  using assms
proof (induction items arbitrary: S)
  case (Cons item items)
  obtain g S1 where g: "gateItem env you item S = (Inr g, S1)" "bosLists (icBos S1) = bosLists (icBos S)" "myName you S1 = myName you S"
    "uin (sessionOf you (icBos S1)) = 0" "\<And>i. g = Pass i \<Longrightarrow> consented (fePlatform env) (myName you S) (bosLists (icBos S)) i"
    using gateItem_consented [OF Cons.prems(1), of item env] Cons.prems(2) by auto
  obtain up held S2 where "gateItems env you items S1 = (Inr (up, held), S2)" "bosLists (icBos S2) = bosLists (icBos S1)"
    "myName you S2 = myName you S1" "\<forall>i\<in>set up. consented (fePlatform env) (myName you S1) (bosLists (icBos S1)) i"
    using Cons.IH [OF g(4)] Cons.prems(2) by auto
  with g show ?case by (cases g) auto
qed simp

lemma feedbagRowOf_fields:
  assumes "feedbagRowOf P now sn i = Inr row"
  shows "fbScreenName row = sn" "fbClassID row = itemClassID i"
    "fbClassID row = FeedbagClassIdBuddy \<Longrightarrow> fbName row = NewIdentScreenName P (itemName i) \<and> fbAuthPending row = isPending i"
  using assms by (auto simp: feedbagRowOf_def ebind_eq_Inr hasScreenName_def isPending_def)

text \<open>C34: Nobody gets on a list without consent. Whatever a user who is no ICQ user puts on their server-side list in
  one request, of contacts who are none either: an entry for a contact who has not consented is stored
  at most as pending, under which it counts neither for presence nor as a contact, and the request changes
  no consent; this holds on the error paths too, and for a list of any length.\<close>
theorem add_needs_consent:
  assumes "uin (sessionOf you (icBos S)) = 0"
    and "\<forall>i\<in>set items. itemClassID i = FeedbagClassIdBuddy \<longrightarrow> UIN (NewIdentScreenName (fePlatform env) (itemName i)) = 0"
    and "UpsertItem env you frame items S = (res, S')" and "row \<in> set (feedbag (bosLists (icBos S')))"
  shows "(row \<in> set (feedbag (bosLists (icBos S))) \<or> fbScreenName row = myName you S \<and>
      (fbClassID row = FeedbagClassIdBuddy \<and> RequiresAuthorization (fbName row) (myName you S) (bosLists (icBos S)) \<longrightarrow> fbAuthPending row)) \<and>
    contactPreauth (bosLists (icBos S')) = contactPreauth (bosLists (icBos S))"
proof -
  let ?L = "\<lambda>T. bosLists (icBos T)"
  obtain up held S1 where g: "gateItems env you items S = (Inr (up, held), S1)" "?L S1 = ?L S" "myName you S1 = myName you S"
    "\<forall>i\<in>set up. consented (fePlatform env) (myName you S) (?L S) i"
    using gateItems_consented [OF assms(1,2)] by blast
  let ?P = "\<lambda>T. (\<forall>row\<in>set (feedbag (?L T)). row \<in> set (feedbag (?L S)) \<or>
      (\<exists>i\<in>set up. feedbagRowOf (fePlatform env) (unixSeconds (feNow env)) (myName you S) i = Inr row)) \<and>
    contactPreauth (?L T) = contactPreauth (?L S)"
  have up: "?P (snd (upsertRows env (myName you S1) up S1))"
    using upserted_rows [of "fePlatform env" "unixSeconds (feNow env)" "myName you S" up "?L S"] g(2,3)
    by (auto simp: upsertRows_def split: prod.split)
  have aim: "\<forall>i\<in>set up. itemClassID i = FeedbagClassIdBuddy \<longrightarrow> UIN (NewIdentScreenName (fePlatform env) (itemName i)) = 0"
    using g(4) by (auto simp: consented_def)
  have "?P (snd (storeItems env you frame items up held S1))"
    unfolding storeItems_def by (intro snd_andThen [where P = ?P])
      (use up g(2) in \<open>simp_all add: lists_prefs lists_afterUpsert [OF aim]\<close>)
  then have "?P S'" using assms(3) g(1,2)
    by (auto simp: UpsertItem_def replied_def split: if_splits prod.splits option.splits)
  show ?thesis
  proof (cases "row \<in> set (feedbag (?L S))")
    case False
    then obtain i where "i \<in> set up" "feedbagRowOf (fePlatform env) (unixSeconds (feNow env)) (myName you S) i = Inr row"
      using \<open>?P S'\<close> assms(4) by blast
    then show ?thesis using feedbagRowOf_fields [of "fePlatform env" "unixSeconds (feNow env)" "myName you S" i row] g(4) \<open>?P S'\<close>
      by (auto simp: consented_def)
  qed (use \<open>?P S'\<close> in simp)
qed

text \<open>User 97 adds 98, pending.\<close>

definition pendingItem :: FeedbagItem where
  "pendingItem = \<lparr>itemName = [98], itemGroupID = 1, itemItemID = 2, itemClassID = FeedbagClassIdBuddy,
     itemTLVs = [\<lparr>Tag = FeedbagAttributesPending, Value = []\<rparr>]\<rparr>"

lemma pendingItem_simps [simp]:
  "itemName pendingItem = [98]" "itemClassID pendingItem = 0" "isPending pendingItem" "UIN [98] = 0"
  "NewIdentScreenName samplePlatform [98] = [98]" "itemTLVs pendingItem = [\<lparr>Tag = FeedbagAttributesPending, Value = []\<rparr>]"
  by (simp_all add: pendingItem_def isPending_def ident_ascii isASCII_def asciiLower_def) code_simp

lemma snd_replied: "snd (replied r) = snd r"
  by (simp add: replied_def split: prod.split option.split)

lemma add_needs_consent_witness:
  "\<exists>res S' row. UpsertItem sampleFeedbag (0, 0) (replyFrame 0x13 8 5) [pendingItem] askingService = (res, S') \<and>
     row \<in> set (feedbag (bosLists (icBos S'))) \<and> row \<notin> set (feedbag (bosLists (icBos askingService))) \<and> fbAuthPending row"
proof -
  have "storable pendingItem" by (simp add: storable_def TLV_ok_def)
  then obtain row where row: "feedbagRowOf samplePlatform (unixSeconds 0) [97] pendingItem = Inr row"
    by (rule stored_item [where P = samplePlatform and now = "unixSeconds 0" and u = "[97]"])
  obtain res S' where r: "UpsertItem sampleFeedbag (0, 0) (replyFrame 0x13 8 5) [pendingItem] askingService = (res, S')"
    by fastforce
  have "gateItem sampleFeedbag (0, 0) pendingItem askingService = (Inr (Pass pendingItem), askingService)"
    by (simp add: gateItem_def Let_def)
  moreover have "upsertRows sampleFeedbag [97] [pendingItem] askingService
      = (None, onLists (\<lambda>_. askingStore\<lparr>feedbag := [row]\<rparr>) askingService)"
    using row by (simp add: upsertRows_def)
  ultimately have "snd (UpsertItem sampleFeedbag (0, 0) (replyFrame 0x13 8 5) [pendingItem] askingService) =
      snd (afterUpsert sampleFeedbag (0, 0) [pendingItem] (confirm (0, 0) (replyFrame 0x13 8 5) [0] SNAC_0x13_0x09_FeedbagUpdateItem
        [pendingItem] (onLists (\<lambda>_. askingStore\<lparr>feedbag := [row]\<rparr>) askingService)))"
    by (simp add: UpsertItem_def snd_replied storeItems_def andThen_def)
  then have stored: "bosLists (icBos S') = askingStore\<lparr>feedbag := [row]\<rparr>"
    using lists_afterUpsert [of "[pendingItem]" sampleFeedbag "(0, 0)"] r by simp
  then have "fbAuthPending row"
    using add_needs_consent [OF _ _ r, of row] feedbagRowOf_fields [OF row] by simp
  then show ?thesis using r stored by auto
qed

text \<open>A contact that a request removes for good: no other entry of the list, as it is afterwards, names them.\<close>

definition gone :: "platform \<Rightarrow> FeedbagItem list \<Rightarrow> FeedbagItem \<Rightarrow> bool" where
  "gone P left i \<longleftrightarrow> itemClassID i = FeedbagClassIdBuddy \<and> UIN (NewIdentScreenName P (itemName i)) = 0
     \<and> \<not> (\<exists>it\<in>set left. itemClassID it = FeedbagClassIdBuddy \<and> NewIdentScreenName P (itemName it) = NewIdentScreenName P (itemName i))"

definition between :: "IdentScreenName \<Rightarrow> IdentScreenName \<Rightarrow> (IdentScreenName \<times> IdentScreenName) set" where
  "between a b = {(a, b), (b, a)}"

lemma severed_grants:
  assumes "listOf (myName you S) S = Inr left" and "uin (sessionOf you (icBos S)) = 0"
  shows "\<exists>S1. severed env you i S = (None, S1) \<and> myName you S1 = myName you S \<and> uin (sessionOf you (icBos S1)) = 0 \<and>
    feedbag (bosLists (icBos S1)) = feedbag (bosLists (icBos S)) \<and>
    set (contactPreauth (bosLists (icBos S1))) = set (contactPreauth (bosLists (icBos S))) -
      (if gone (fePlatform env) left i then between (myName you S) (NewIdentScreenName (fePlatform env) (itemName i)) else {})"
  using assms unfolding severed_def Let_def gone_def between_def
  by (auto simp: buddyStillListed_def ebind_def list_ex_iff sendAIMConnectionRemoved_def relay_def RevokePreAuth_def myName_def)

lemma eachOf_severed:
  assumes "listOf (myName you S) S = Inr left" and "uin (sessionOf you (icBos S)) = 0"
  shows "\<exists>S1. eachOf (severed env you) items S = (None, S1) \<and>
    set (contactPreauth (bosLists (icBos S1))) = set (contactPreauth (bosLists (icBos S))) -
      (\<Union>i\<in>{i\<in>set items. gone (fePlatform env) left i}. between (myName you S) (NewIdentScreenName (fePlatform env) (itemName i)))"
  using assms
proof (induction items arbitrary: S)
  case (Cons i items)
  obtain S1 where S1: "severed env you i S = (None, S1)" "myName you S1 = myName you S" "uin (sessionOf you (icBos S1)) = 0"
    "feedbag (bosLists (icBos S1)) = feedbag (bosLists (icBos S))"
    "set (contactPreauth (bosLists (icBos S1))) = set (contactPreauth (bosLists (icBos S))) -
      (if gone (fePlatform env) left i then between (myName you S) (NewIdentScreenName (fePlatform env) (itemName i)) else {})"
    using severed_grants [OF Cons.prems, of env i] by blast
  have "listOf (myName you S1) S1 = Inr left" using Cons.prems(1) S1(2,4) by (simp add: listOf_def Feedbag_def)
  from Cons.IH [OF this S1(3)] show ?case using S1 by (auto simp: andThen_def split: if_splits)
qed simp

lemma confirm_who:
  "myName you (confirm you frame rs t items S) = myName you S"
  "uin (sessionOf you (icBos (confirm you frame rs t items S))) = uin (sessionOf you (icBos S))"
  by (simp_all add: confirm_def myName_def sessionOf_def onSession_def updSession_nth_any RelayToOtherInstances_def RelayToSelf_def
      relayLoop_name offer_name relayLoop_uin offer_uin)

text \<open>C35: A removal is mutual. When a user who is no ICQ user takes contacts off the server-side list, and the
  list that is left can be read, the consents between them and each contact who is no ICQ user either and is gone from
  the list end in both directions, so that neither may add or message the other; every other consent stays:
  that with an ICQ contact, which needs none, and that of a contact who was only moved to another group.\<close>
theorem removal_revokes_both:
  assumes "uin (sessionOf you (icBos S)) = 0"
    and "listOf (myName you S) (onLists (FeedbagDelete (myName you S) items) S) = Inr left"
    and "DeleteItem env you frame items S = (res, S')"
  shows "set (contactPreauth (bosLists (icBos S'))) = set (contactPreauth (bosLists (icBos S))) -
      (\<Union>i\<in>{i\<in>set items. gone (fePlatform env) left i}. between (myName you S) (NewIdentScreenName (fePlatform env) (itemName i)))"
proof -
  let ?S = "confirm you frame (map (\<lambda>_. 0) items) SNAC_0x13_0x0A_FeedbagDeleteItem items (onLists (FeedbagDelete (myName you S) items) S)"
  have kept: "contactPreauth (FeedbagDelete u is st) = contactPreauth st" for u "is" st
    by (induction "is" arbitrary: st) simp_all
  have "listOf (myName you ?S) ?S = Inr left" using assms(2) by (simp add: confirm_who listOf_def)
  then obtain S1 where S1: "eachOf (severed env you) items ?S = (None, S1)"
    "set (contactPreauth (bosLists (icBos S1))) = set (contactPreauth (bosLists (icBos S))) -
      (\<Union>i\<in>{i\<in>set items. gone (fePlatform env) left i}. between (myName you S) (NewIdentScreenName (fePlatform env) (itemName i)))"
    using eachOf_severed [of you ?S left env items] assms(1) by (auto simp: confirm_who kept)
  have "S' = snd (notify env you (affected (fePlatform env) items) S1)"
    using assms(3) S1(1) snd_replied [of "notify env you (affected (fePlatform env) items) S1"]
    by (simp add: DeleteItem_def Let_def andThen_def)
  then show ?thesis using S1(2) by (simp add: lists_notify)
qed

definition connectedService :: "(bytes \<times> nat \<times> int) list ICBMService" where
  "connectedService = onLists (\<lambda>st. st\<lparr>contactPreauth := [([97], [98]), ([98], [97]), ([98], [99])]\<rparr>) askingService"

lemma removal_revokes_both_witness:
  "set (contactPreauth (bosLists (icBos (snd (DeleteItem sampleFeedbag (0, 0) (replyFrame 0x13 0xA 5) [pendingItem] connectedService)))))
     = {([98], [99])}"
proof -
  obtain res S' where r: "DeleteItem sampleFeedbag (0, 0) (replyFrame 0x13 0xA 5) [pendingItem] connectedService = (res, S')" by fastforce
  have "listOf (myName (0, 0) connectedService) (onLists (FeedbagDelete (myName (0, 0) connectedService) [pendingItem]) connectedService) = Inr []"
    by (simp add: connectedService_def listOf_def Feedbag_def)
  moreover have "uin (sessionOf (0, 0) (icBos connectedService)) = 0" by (simp add: connectedService_def)
  ultimately have "set (contactPreauth (bosLists (icBos S'))) = set (contactPreauth (bosLists (icBos connectedService))) -
      (\<Union>i\<in>{i\<in>set [pendingItem]. gone samplePlatform [] i}. between [97] (NewIdentScreenName samplePlatform (itemName i)))"
    using removal_revokes_both [OF _ _ r, of "[]"] by (simp add: connectedService_def)
  moreover have "{i\<in>set [pendingItem]. gone samplePlatform [] i} = {pendingItem}" by (auto simp: gone_def)
  moreover have "set (contactPreauth (bosLists (icBos connectedService))) = {([97], [98]), ([98], [97]), ([98], [99])}"
    by (simp add: connectedService_def)
  ultimately show ?thesis by (auto simp: between_def r)
qed

end
