(* ===== verification/Foodgroup_Directory.thy ===== *)
theory Foodgroup_Directory
  imports Foodgroup_OService State_Search
begin

text \<open>
  The directory services over the account table and the catalogue: the search for users and the list of
  keywords (\<open>foodgroup/odir.go\<close>), the lookup by address (\<open>foodgroup/user_lookup.go\<close>) and the
  acknowledgement of statistics (\<open>foodgroup/stats.go\<close>). The users table of the code is both the account table
  of the sign-on service and that of the catalogue; an operation on keywords borrows it.
\<close>

section \<open>State and messages\<close>

datatype directoryFault = DirPanic gerr | DirStore storeError

definition withAccounts :: "serverState \<Rightarrow> CatalogStore" where
  "withAccounts S = (svCatalog S)\<lparr>csAccounts := auAccounts S\<rparr>"

abbreviation (input) ODirKeywordListReply :: u16 where "ODirKeywordListReply \<equiv> 0x0005"
abbreviation (input) ODirTLVFirstName :: u16 where "ODirTLVFirstName \<equiv> 0x0001"
abbreviation (input) ODirTLVLastName :: u16 where "ODirTLVLastName \<equiv> 0x0002"
abbreviation (input) ODirTLVMiddleName :: u16 where "ODirTLVMiddleName \<equiv> 0x0003"
abbreviation (input) ODirTLVMaidenName :: u16 where "ODirTLVMaidenName \<equiv> 0x0004"
abbreviation (input) ODirTLVEmailAddress :: u16 where "ODirTLVEmailAddress \<equiv> 0x0005"
abbreviation (input) ODirTLVCountry :: u16 where "ODirTLVCountry \<equiv> 0x0006"
abbreviation (input) ODirTLVState :: u16 where "ODirTLVState \<equiv> 0x0007"
abbreviation (input) ODirTLVCity :: u16 where "ODirTLVCity \<equiv> 0x0008"
abbreviation (input) ODirTLVScreenName :: u16 where "ODirTLVScreenName \<equiv> 0x0009"
abbreviation (input) ODirTLVInterest :: u16 where "ODirTLVInterest \<equiv> 0x000b"
abbreviation (input) ODirTLVNickName :: u16 where "ODirTLVNickName \<equiv> 0x000c"
abbreviation (input) ODirTLVZIP :: u16 where "ODirTLVZIP \<equiv> 0x000d"
abbreviation (input) ODirTLVAddress :: u16 where "ODirTLVAddress \<equiv> 0x0021"
abbreviation (input) ODirSearchResponseNameMissing :: u16 where "ODirSearchResponseNameMissing \<equiv> 0x04"
abbreviation (input) ODirSearchResponseOK :: u16 where "ODirSearchResponseOK \<equiv> 0x05"
abbreviation (input) UserLookupErrNoUserFound :: u16 where "UserLookupErrNoUserFound \<equiv> 0x0014"
abbreviation (input) UserLookupTLVEmailAddress :: u16 where "UserLookupTLVEmailAddress \<equiv> 0x0001"

definition dirTLVs :: "(u16 \<times> bytes) list \<Rightarrow> directoryFault + TLVList" where
  "dirTLVs es = (case appendTLVs (map (\<lambda>(tag, v). (tag, TString, VString v)) es) [] of Inl e \<Rightarrow> Inl (DirPanic e) | Inr tlvs \<Rightarrow> Inr tlvs)"

definition fromStore :: "storeError + 'a \<Rightarrow> directoryFault + 'a" where
  "fromStore r = (case r of Inl e \<Rightarrow> Inl (DirStore e) | Inr x \<Rightarrow> Inr x)"

definition tlvText :: "TLVList \<Rightarrow> u16 \<Rightarrow> bytes" where
  "tlvText tlvs tag = (case TLVList_String tlvs tag of None \<Rightarrow> [] | Some s \<Rightarrow> s)"

definition newAIMNameAndAddrFromTLVList :: "TLVList \<Rightarrow> AIMNameAndAddr" where
  "newAIMNameAndAddrFromTLVList tlvs =
     \<lparr>dirFirstName = tlvText tlvs ODirTLVFirstName, dirLastName = tlvText tlvs ODirTLVLastName,
      dirMiddleName = tlvText tlvs ODirTLVMiddleName, dirMaidenName = tlvText tlvs ODirTLVMaidenName,
      dirCountry = tlvText tlvs ODirTLVCountry, dirState = tlvText tlvs ODirTLVState, dirCity = tlvText tlvs ODirTLVCity,
      dirNickName = tlvText tlvs ODirTLVNickName, dirZIPCode = tlvText tlvs ODirTLVZIP, dirAddress = tlvText tlvs ODirTLVAddress\<rparr>"

section \<open>The directory search\<close>

definition searchEntry :: "User \<Rightarrow> (u16 \<times> bytes) list" where
  "searchEntry u = (let d = userAIMDirectoryInfo u in
     [(ODirTLVFirstName, dirFirstName d), (ODirTLVLastName, dirLastName d), (ODirTLVState, dirState d), (ODirTLVCity, dirCity d),
      (ODirTLVCountry, dirCountry d), (ODirTLVScreenName, userDisplayScreenName u)])"

fun searchEntries :: "User list \<Rightarrow> directoryFault + gval list" where
  "searchEntries [] = Inr []"
| "searchEntries (u # us) = ebind (dirTLVs (searchEntry u)) (\<lambda>tlvs. ebind (searchEntries us) (\<lambda>vs. Inr (TLVList_val tlvs # vs)))"

definition infoReply :: "u32 \<Rightarrow> u16 \<Rightarrow> gval list \<Rightarrow> SNACMessage" where
  "infoReply req status results = (replyFrame ODir ODirInfoReply req,
     Some (SNAC_0x0F_0x03_InfoReply, VStruct [VU16 status, VU16 0, VStruct [VSlice results]]))"

definition searchResponse :: "u32 \<Rightarrow> User list \<Rightarrow> directoryFault + SNACMessage" where
  "searchResponse req foundUsers = ebind (searchEntries foundUsers) (\<lambda>vs. Inr (infoReply req ODirSearchResponseOK vs))"

definition ODir_InfoQuery :: "platform \<Rightarrow> u32 \<Rightarrow> TLVList \<Rightarrow> serverState \<Rightarrow> directoryFault + SNACMessage" where
  "ODir_InfoQuery P req inBody S =
     (case TLVList_String inBody ODirTLVEmailAddress of
        Some email \<Rightarrow>
          (case FindByAIMEmail P email (auAccounts S) of
             Inl StoreNoUser \<Rightarrow> searchResponse req []
           | Inl e \<Rightarrow> Inl (DirStore e)
           | Inr u \<Rightarrow> searchResponse req [u])
      | None \<Rightarrow>
          (case TLVList_String inBody ODirTLVInterest of
             Some interest \<Rightarrow> ebind (fromStore (FindByAIMKeyword P interest (withAccounts S))) (searchResponse req)
           | None \<Rightarrow>
               (if TLVList_HasTag inBody ODirTLVFirstName \<or> TLVList_HasTag inBody ODirTLVLastName
                then ebind (fromStore (FindByAIMNameAndAddr P (newAIMNameAndAddrFromTLVList inBody) (auAccounts S))) (searchResponse req)
                else Inr (infoReply req ODirSearchResponseNameMissing []))))"

definition KeywordListQuery :: "u32 \<Rightarrow> serverState \<Rightarrow> SNACMessage" where
  "KeywordListQuery req S = (replyFrame ODir ODirKeywordListReply req, Some (SNAC_0x0F_0x04_KeywordListReply,
     VStruct [VU16 1, VSlice (map (\<lambda>i. VStruct [VU8 (odirType i), VU8 (odirID i), VString (odirName i)]) (InterestList (withAccounts S)))]))"

section \<open>Lookups and statistics\<close>

text \<open>When nobody has the address the body of the answer is the bare code.\<close>

definition FindByEmail :: "platform \<Rightarrow> u32 \<Rightarrow> bytes \<Rightarrow> serverState \<Rightarrow> directoryFault + SNACMessage" where
  "FindByEmail P req email S =
     (case FindByAIMEmail P email (auAccounts S) of
        Inl StoreNoUser \<Rightarrow> Inr (replyFrame UserLookup UserLookupErr req, Some (TU16, VU16 UserLookupErrNoUserFound))
      | Inl e \<Rightarrow> Inl (DirStore e)
      | Inr u \<Rightarrow> ebind (dirTLVs [(UserLookupTLVEmailAddress, userDisplayScreenName u)]) (\<lambda>tlvs.
          Inr (replyFrame UserLookup UserLookupFindReply req, Some (SNAC_0x0A_0x03_UserLookupFindReply, VStruct [TLVList_val tlvs]))))"

definition ReportEvents :: "u32 \<Rightarrow> SNACMessage" where
  "ReportEvents req = (replyFrame Stats StatsReportAck req, Some (SNAC_0x0B_0x04_StatsReportAck, VStruct []))"

section \<open>Lemmas\<close>

definition textTLVs :: "(u16 \<times> bytes) list \<Rightarrow> TLVList" where
  "textTLVs es = map (\<lambda>(tag, v). \<lparr>Tag = tag, Value = v\<rparr>) es"

lemma dirTLVs_ok [simp]: "dirTLVs es = Inr (textTLVs es)"
proof -
  have "appendTLVs (map (\<lambda>(tag, v). (tag, TString, VString v)) es) tlvs = Inr (tlvs @ textTLVs es)" for tlvs
    by (induction es arbitrary: tlvs) (auto simp: marshal_value textTLVs_def TLVList_Append_def)
  then show ?thesis by (simp add: dirTLVs_def)
qed

lemma textTLVs_String: "TLVList_String (textTLVs es) tag = map_of es tag"
  by (induction es) (auto simp: textTLVs_def)

lemma searchEntries_ok: "searchEntries us = Inr (map (\<lambda>u. TLVList_val (textTLVs (searchEntry u))) us)"
  by (induction us) simp_all

lemma searchResponse_ok:
  "searchResponse req us = Inr (infoReply req ODirSearchResponseOK (map (\<lambda>u. TLVList_val (textTLVs (searchEntry u))) us))"
  by (simp add: searchResponse_def searchEntries_ok)

text \<open>A search by the very entry that is stored finds the account.\<close>

lemma search_finds_entry:
  assumes "\<forall>a\<in>set t. acPasswordHash (snd a) \<noteq> None" and "(name, r) \<in> set t" and "userAIMDirectoryInfo (acUser r) = info"
    and "dirFirstName info \<noteq> [] \<or> dirLastName info \<noteq> []"
  shows "\<exists>us u. FindByAIMNameAndAddr P info t = Inr us \<and> u \<in> set us \<and> scanUser P (name, r) = Inr u"
proof -
  define cols :: "(bytes \<times> (storedAccount \<Rightarrow> bytes)) list" where
    "cols = [(dirFirstName info, \<lambda>a. dirFirstName (directoryOf a)), (dirLastName info, \<lambda>a. dirLastName (directoryOf a)),
      (dirMiddleName info, \<lambda>a. dirMiddleName (directoryOf a)), (dirMaidenName info, \<lambda>a. dirMaidenName (directoryOf a)),
      (dirCountry info, \<lambda>a. dirCountry (directoryOf a)), (dirState info, \<lambda>a. dirState (directoryOf a)),
      (dirCity info, \<lambda>a. dirCity (directoryOf a)), (dirNickName info, \<lambda>a. dirNickName (directoryOf a)),
      (dirZIPCode info, \<lambda>a. dirZIPCode (directoryOf a)), (dirAddress info, \<lambda>a. dirAddress (directoryOf a))]"
  have cols: "\<forall>(v, col)\<in>set cols. col (name, r) = v" using assms(3) by (simp add: cols_def)
  have c: "concat (map (\<lambda>(v, col). ifNonEmpty v col) cs)
      = map Inr (map (\<lambda>(v, col) a. sqlLower (col a) = sqlLower v) (filter (\<lambda>(v, col). v \<noteq> []) cs))"
    for cs :: "(bytes \<times> (storedAccount \<Rightarrow> bytes)) list"
    by (induction cs) (auto simp: ifNonEmpty_def)
  define ps where "ps = map (\<lambda>(v, col) a. sqlLower (col a) = sqlLower v) (filter (\<lambda>(v, col). v \<noteq> []) cols)"
  have "FindByAIMNameAndAddr P info t
      = runQuery P (joinClauses (\<and>) (concat (map (\<lambda>(v, col). ifNonEmpty v col) cols))) t"
    by (simp add: FindByAIMNameAndAddr_def cols_def)
  then have "FindByAIMNameAndAddr P info t = runQuery P (joinClauses (\<and>) (map Inr ps)) t"
    by (simp only: c ps_def)
  moreover have "\<exists>(v, col)\<in>set cols. v \<noteq> []" using assms(4) by (auto simp: cols_def)
  then have "ps \<noteq> []" unfolding ps_def by (auto simp: filter_empty_conv)
  ultimately have "FindByAIMNameAndAddr P info t = queryUsers P (\<lambda>a. \<forall>p\<in>set ps. p a) t"
    by (simp add: join_all runQuery_def)
  moreover have "\<forall>p\<in>set ps. p (name, r)" using cols unfolding ps_def by auto
  ultimately have q: "FindByAIMNameAndAddr P info t = scanUsers P (filter (\<lambda>a. \<forall>p\<in>set ps. p a) t)"
    and i: "(name, r) \<in> set (filter (\<lambda>a. \<forall>p\<in>set ps. p a) t)"
    using assms(2) by (simp_all add: queryUsers_def)
  have "scanUsers P (filter (\<lambda>a. \<forall>p\<in>set ps. p a) t) = Inr (map (\<lambda>a. projr (scanUser P a)) (filter (\<lambda>a. \<forall>p\<in>set ps. p a) t))"
    using assms(1) by (intro scanUsers_hashed) simp
  moreover obtain u where u: "scanUser P (name, r) = Inr u"
    using assms(1) [THEN bspec, OF assms(2)] by (auto simp: scanUser_def)
  ultimately show ?thesis
    using q imageI [OF i, of "\<lambda>a. projr (scanUser P a)"] by simp
qed

lemma absent_String: "\<not> TLVList_HasTag tlvs tag \<Longrightarrow> TLVList_String tlvs tag = None"
  by (induction tlvs) (auto split: if_splits)

lemma sendsName: "tlvText tlvs tag \<noteq> [] \<Longrightarrow> TLVList_HasTag tlvs tag"
  by (rule ccontr) (simp add: tlvText_def absent_String)

end
