(* ===== verification/Foodgroup_Locate.thy ===== *)
theory Foodgroup_Locate
  imports Foodgroup_Directory Foodgroup_Icbm
begin

text \<open>
  The location service, \<open>foodgroup/locate.go\<close>: the user's own profile, away message, capabilities and directory
  entry, and what one user learns about another. It works on the state of the control service.
\<close>

section \<open>State and messages\<close>

datatype locateFault = LocPanic gerr | LocAccount accountError | LocCaps | LocInfo oserviceFault | LocDirectory directoryFault

type_synonym locateEffect = "locateFault option \<times> serverState"

abbreviation (input) LocateTypeSig :: u32 where "LocateTypeSig \<equiv> 0x00000001"
abbreviation (input) LocateTypeUnavailable :: u32 where "LocateTypeUnavailable \<equiv> 0x00000002"
abbreviation (input) LocateTLVTagsInfoSigMime :: u16 where "LocateTLVTagsInfoSigMime \<equiv> 0x01"
abbreviation (input) LocateTLVTagsInfoSigData :: u16 where "LocateTLVTagsInfoSigData \<equiv> 0x02"
abbreviation (input) LocateTLVTagsInfoUnavailableMime :: u16 where "LocateTLVTagsInfoUnavailableMime \<equiv> 0x03"
abbreviation (input) LocateTLVTagsInfoUnavailableData :: u16 where "LocateTLVTagsInfoUnavailableData \<equiv> 0x04"
abbreviation (input) LocateTLVTagsInfoCapabilities :: u16 where "LocateTLVTagsInfoCapabilities \<equiv> 0x05"
abbreviation (input) LocateTLVTagsInfoSupportHostSig :: u16 where "LocateTLVTagsInfoSupportHostSig \<equiv> 0x0C"
abbreviation (input) LocateTLVTagsRightsMaxSigLen :: u16 where "LocateTLVTagsRightsMaxSigLen \<equiv> 0x01"
abbreviation (input) LocateTLVTagsRightsMaxCapabilitiesLen :: u16 where "LocateTLVTagsRightsMaxCapabilitiesLen \<equiv> 0x02"
abbreviation (input) LocateTLVTagsRightsMaxFindByEmailList :: u16 where "LocateTLVTagsRightsMaxFindByEmailList \<equiv> 0x03"
abbreviation (input) LocateTLVTagsRightsMaxCertsLen :: u16 where "LocateTLVTagsRightsMaxCertsLen \<equiv> 0x04"
abbreviation (input) LocateTLVTagsRightsMaxMaxShortCapabilities :: u16 where "LocateTLVTagsRightsMaxMaxShortCapabilities \<equiv> 0x05"
abbreviation (input) LocateGetDirReplyOK :: u16 where "LocateGetDirReplyOK \<equiv> 0x01"

definition CapGames :: bytes where
  "CapGames = [0x09, 0x46, 0x13, 0x4A, 0x4C, 0x7F, 0x11, 0xD1, 0x82, 0x22, 0x44, 0x45, 0x53, 0x54, 0x00, 0x00]"

definition CapSupportICQ :: bytes where
  "CapSupportICQ = [0x09, 0x46, 0x13, 0x4D, 0x4C, 0x7F, 0x11, 0xD1, 0x82, 0x22, 0x44, 0x45, 0x53, 0x54, 0x00, 0x00]"

definition CapVoiceChat :: bytes where
  "CapVoiceChat = [0x09, 0x46, 0x13, 0x41, 0x4C, 0x7F, 0x11, 0xD1, 0x82, 0x22, 0x44, 0x45, 0x53, 0x54, 0x00, 0x00]"

definition omitCaps :: "bytes list" where
  "omitCaps = [CapGames, CapSupportICQ, CapVoiceChat]"

definition Locate_RightsQuery :: "u32 \<Rightarrow> gerr + SNACMessage" where
  "Locate_RightsQuery req =
     ebind (appendTLVs (map (\<lambda>tag. (tag, TU16, VU16 1000)) [LocateTLVTagsRightsMaxSigLen, LocateTLVTagsRightsMaxCapabilitiesLen,
         LocateTLVTagsRightsMaxFindByEmailList, LocateTLVTagsRightsMaxCertsLen, LocateTLVTagsRightsMaxMaxShortCapabilities]) []) (\<lambda>tlvs.
       Inr (replyFrame Locate LocateRightsReply req, Some (SNAC_0x02_0x03_LocateRightsReply, VStruct [TLVList_val tlvs])))"

section \<open>The user's own information\<close>

definition ownName :: "instanceRef \<Rightarrow> serverState \<Rightarrow> IdentScreenName" where
  "ownName you S = identScreenName (sessionOf you (auBos S))"

definition atBos :: "(BOS \<Rightarrow> BOS) \<Rightarrow> serverState \<Rightarrow> serverState" where
  "atBos f S = S\<lparr>auBos := f (auBos S)\<rparr>"

text \<open>The news of a change, for a client that has finished its sign-on.\<close>

definition broadcastArrival :: "int \<Rightarrow> instanceRef \<Rightarrow> BOS \<Rightarrow> gerr + BOS" where
  "broadcastArrival now you B = ebind (Session_TLVUserInfo now (sessionOf you B)) (\<lambda>info.
     BroadcastBuddyArrived (identScreenName (sessionOf you B)) info B)"

definition announceChange :: "int \<Rightarrow> instanceRef \<Rightarrow> serverState \<Rightarrow> locateEffect" where
  "announceChange now you S =
     (if signonComplete (instanceOf you (auBos S))
      then (case broadcastArrival now you (auBos S) of Inl e \<Rightarrow> (Some (LocPanic e), S) | Inr B \<Rightarrow> (None, S\<lparr>auBos := B\<rparr>))
      else (None, S))"

definition shareProfile :: "UserProfile \<Rightarrow> Session \<Rightarrow> Session" where
  "shareProfile p s = fold (\<lambda>i s. if kerberosAuth (inst s i) then updInst i (SetProfile p) s else s) (Instances s) s"

definition serverProfile :: "int \<Rightarrow> instanceRef \<Rightarrow> UserProfile \<Rightarrow> serverState \<Rightarrow> locateEffect" where
  "serverProfile now you p S =
     (let S1 = atBos (onSession (shareProfile p) you) (S\<lparr>svCatalog := storeProfile (ownName you S) p (svCatalog S)\<rparr>) in
      case newOServiceUserInfoUpdate now (sessionOf you (auBos S1)) (snd you) of
        Inl e \<Rightarrow> (Some (LocInfo e), S1)
      | Inr v \<Rightarrow> (None, atBos (onSession (RelayToOtherInstances (snd you)
          (replyFrame OService OServiceUserInfoUpdate 0, Some (SNAC_0x01_0x0F_OServiceUserInfoUpdate, v))) you) S1))"

definition setProfileField :: "int \<Rightarrow> instanceRef \<Rightarrow> TLVList \<Rightarrow> serverState \<Rightarrow> locateEffect" where
  "setProfileField now you inBody S =
     (case TLVList_String inBody LocateTLVTagsInfoSigData of
        None \<Rightarrow> (None, S)
      | Some profileText \<Rightarrow>
          (let p = \<lparr>ProfileText = profileText, MIMEType = tlvText inBody LocateTLVTagsInfoSigMime, UpdateTime = now\<rparr> in
           if kerberosAuth (instanceOf you (auBos S)) \<or> TLVList_HasTag inBody LocateTLVTagsInfoSupportHostSig
           then serverProfile now you p S
           else (None, atBos (updInstance (SetProfile p) you) S)))"

definition setAwayField :: "int \<Rightarrow> instanceRef \<Rightarrow> TLVList \<Rightarrow> serverState \<Rightarrow> locateEffect" where
  "setAwayField now you inBody S =
     (case TLVList_String inBody LocateTLVTagsInfoUnavailableData of
        None \<Rightarrow> (None, S)
      | Some awayText \<Rightarrow> announceChange now you (atBos (updInstance (SetAwayMessage awayText
          \<circ> (if awayText \<noteq> [] then SetUserInfoFlag now OServiceUserFlagUnavailable else ClearUserInfoFlag OServiceUserFlagUnavailable)) you) S))"

fun chunks16 :: "bytes \<Rightarrow> bytes list" where
  "chunks16 [] = []"
| "chunks16 (b # bs) = take 16 (b # bs) # chunks16 (drop 15 bs)"

definition setCapsField :: "int \<Rightarrow> instanceRef \<Rightarrow> TLVList \<Rightarrow> serverState \<Rightarrow> locateEffect" where
  "setCapsField now you inBody S =
     (case TLVList_Bytes inBody LocateTLVTagsInfoCapabilities of
        None \<Rightarrow> (None, S)
      | Some b \<Rightarrow>
          (if length b mod 16 \<noteq> 0 then (Some LocCaps, S)
           else announceChange now you (atBos (updInstance (SetCaps (filter (\<lambda>c. c \<notin> set omitCaps) (chunks16 b))) you) S)))"

definition SetInfo :: "int \<Rightarrow> instanceRef \<Rightarrow> TLVList \<Rightarrow> serverState \<Rightarrow> locateEffect" where
  "SetInfo now you inBody S =
     andThen (setProfileField now you inBody S) (\<lambda>S.
     andThen (setAwayField now you inBody S) (setCapsField now you inBody))"

section \<open>Looking somebody up\<close>

definition newLocateErr :: "u32 \<Rightarrow> u16 \<Rightarrow> SNACMessage" where
  "newLocateErr req errCode = (replyFrame Locate LocateErr req, Some (SNACError_type, VStruct [VU16 errCode, TLVList_val []]))"

definition wants :: "u16 \<Rightarrow> u32 \<Rightarrow> bool" where
  "wants t flag \<longleftrightarrow> t AND ucast flag = ucast flag"

text \<open>The session that is looked up, or nothing when it may not be seen.\<close>

definition lookedUp :: "instanceRef \<Rightarrow> IdentScreenName \<Rightarrow> BOS \<Rightarrow> Session option" where
  "lookedUp you sn B =
     (let me = identScreenName (sessionOf you B); rel = Relationship me sn (bosLists B) in
      if sn = me then Some (sessionOf you B)
      else if relYouBlock rel \<or> relBlocksYou rel then None
      else map_option (\<lambda>a. bosHeap B ! a) (RetrieveSession sn (bosMgr B) (bosHeap B)))"

definition lookupTLVs :: "instanceRef \<Rightarrow> u16 \<Rightarrow> IdentScreenName \<Rightarrow> Session \<Rightarrow> BOS \<Rightarrow> directoryFault + TLVList" where
  "lookupTLVs you t sn s B =
     dirTLVs
       ((if wants t LocateTypeSig
         then (let p = (if identScreenName (sessionOf you B) = sn then profile (instanceOf you B) else Profile s) in
               [(LocateTLVTagsInfoSigMime, MIMEType p), (LocateTLVTagsInfoSigData, ProfileText p)])
         else [])
        @ (if wants t LocateTypeUnavailable \<and> Away s
           then [(LocateTLVTagsInfoUnavailableMime, asciiBytes ''text/aolrtf; charset='' @ [0x22] @ asciiBytes ''us-ascii'' @ [0x22]),
                 (LocateTLVTagsInfoUnavailableData, AwayMessage s)]
           else []))"

definition Locate_UserInfoQuery :: "platform \<Rightarrow> int \<Rightarrow> instanceRef \<Rightarrow> u32 \<Rightarrow> u16 \<Rightarrow> bytes \<Rightarrow> serverState \<Rightarrow> locateFault + SNACMessage" where
  "Locate_UserInfoQuery P now you req t name S =
     (let sn = NewIdentScreenName P name in
      case lookedUp you sn (auBos S) of
        None \<Rightarrow> Inr (newLocateErr req ErrorCodeNotLoggedOn)
      | Some s \<Rightarrow>
          (case lookupTLVs you t sn s (auBos S) of
             Inl e \<Rightarrow> Inl (LocDirectory e)
           | Inr tlvs \<Rightarrow>
               (case Session_TLVUserInfo now s of
                  Inl e \<Rightarrow> Inl (LocPanic e)
                | Inr info \<Rightarrow> Inr (replyFrame Locate LocateUserInfoReply req,
                    Some (SNAC_0x02_0x06_LocateUserInfoReply, VStruct [TLVUserInfo_val info, TLVList_val tlvs])))))"

section \<open>The directory entry\<close>

definition SetDirInfo :: "instanceRef \<Rightarrow> u32 \<Rightarrow> TLVList \<Rightarrow> serverState \<Rightarrow> (locateFault + SNACMessage) \<times> serverState" where
  "SetDirInfo you req inBody S =
     (case SetDirectoryInfo (ownName you S) (newAIMNameAndAddrFromTLVList inBody) (auAccounts S) of
        (Some e, t) \<Rightarrow> (Inl (LocAccount e), S\<lparr>auAccounts := t\<rparr>)
      | (None, t) \<Rightarrow> (Inr (replyFrame Locate LocateSetDirReply req, Some (SNAC_0x02_0x0A_LocateSetDirReply, VStruct [VU16 1])),
          S\<lparr>auAccounts := t\<rparr>))"

definition keywordFields :: "TLVList \<Rightarrow> bytes list" where
  "keywordFields tlvs = (let ks = take 5 (map Value (filter (\<lambda>t. Tag t = ODirTLVInterest) tlvs)) in ks @ replicate (5 - length ks) [])"

definition SetKeywordInfo :: "instanceRef \<Rightarrow> u32 \<Rightarrow> TLVList \<Rightarrow> serverState \<Rightarrow> SNACMessage \<times> serverState" where
  "SetKeywordInfo you req inBody S =
     (let C = SetKeywords (ownName you S) (keywordFields inBody) (withAccounts S) in
      ((replyFrame Locate LocateSetKeywordReply req, Some (SNAC_0x02_0x10_LocateSetKeywordReply, VStruct [VU16 1])),
       S\<lparr>auAccounts := csAccounts C\<rparr>))"

definition dirFields :: "AIMNameAndAddr \<Rightarrow> (u16 \<times> bytes) list" where
  "dirFields d = [(ODirTLVFirstName, dirFirstName d), (ODirTLVLastName, dirLastName d), (ODirTLVMiddleName, dirMiddleName d),
     (ODirTLVMaidenName, dirMaidenName d), (ODirTLVCountry, dirCountry d), (ODirTLVState, dirState d), (ODirTLVCity, dirCity d),
     (ODirTLVNickName, dirNickName d), (ODirTLVZIP, dirZIPCode d), (ODirTLVAddress, dirAddress d)]"

definition DirInfo :: "platform \<Rightarrow> u32 \<Rightarrow> bytes \<Rightarrow> serverState \<Rightarrow> locateFault + SNACMessage" where
  "DirInfo P req name S =
     (case findUser P (NewIdentScreenName P name) (auAccounts S) of
        Inl e \<Rightarrow> Inl (LocDirectory (DirStore e))
      | Inr user \<Rightarrow>
          (case dirTLVs (case user of None \<Rightarrow> [] | Some u \<Rightarrow> dirFields (userAIMDirectoryInfo u)) of
             Inl e \<Rightarrow> Inl (LocDirectory e)
           | Inr tlvs \<Rightarrow> Inr (replyFrame Locate LocateGetDirReply req,
               Some (SNAC_0x02_0x0C_LocateGetDirReply, VStruct [VU16 LocateGetDirReplyOK, TLVList_val tlvs]))))"

section \<open>Lemmas\<close>

text \<open>The description of a session says whether all its connections are invisible.\<close>

lemma described_invisible:
  assumes "Instances s \<noteq> []"
  shows "\<exists>info. Session_TLVUserInfo now s = Inr info \<and> tuiScreenName info = displayScreenName s \<and>
    IsInvisible info = Inr (AllUserStatusBitmask OServiceUserStatusInvisible s)"
proof -
  obtain rest where r: "userInfo now s = Inr (
      [\<lparr>Tag = OServiceUserInfoSignonTOD, Value = putUint BigEndian 4 (unat (word_of_int (signonTime s div 10 ^ 9) :: u32))\<rparr>,
       \<lparr>Tag = OServiceUserInfoUserFlags, Value = putUint BigEndian 2 (unat (userFlags s))\<rparr>,
       \<lparr>Tag = OServiceUserInfoStatus, Value = putUint BigEndian 4 (unat (statusBitmask s))\<rparr>] @ rest)"
    using userInfo_shape [OF assms, of now] by blast
  then show ?thesis
    using statusBitmask_all [OF assms, of OServiceUserStatusInvisible]
    by (simp add: Session_TLVUserInfo_def IsInvisible_def TLV_Uint32BE_def)
qed

lemma SetDirInfo_ok:
  assumes "map_of (auAccounts S) (ownName you S) = Some r"
  shows "SetDirInfo you req inBody S = (Inr (replyFrame Locate LocateSetDirReply req, Some (SNAC_0x02_0x0A_LocateSetDirReply, VStruct [VU16 1])),
    S\<lparr>auAccounts := updateRow (ownName you S) (onUser (\<lambda>u. u\<lparr>userAIMDirectoryInfo := newAIMNameAndAddrFromTLVList inBody\<rparr>)) (auAccounts S)\<rparr>)"
  using assms by (simp add: SetDirInfo_def SetDirectoryInfo_def execUpdate_def)

section \<open>Properties\<close>

text \<open>C37: A directory entry is published as it was sent. When a user whose account exists sets the entry, a
  query for the user's entry answers every one of the ten fields with the text that was sent, an absent one
  empty. When a first or a last name was sent, and neither an e-mail address nor an interest, which
  would make it another kind of search, searching the directory with the very same fields finds the user: one of the
  results has the sent names and the user's screen name. The query for the entry needs a password
  hash in the user's own row; the search needs one in every row, which accounts left by migration 0034 do not have.\<close>
theorem directory_published:
  assumes "distinct (map fst (auAccounts S))" and "map_of (auAccounts S) (ownName you S) = Some r"
    and "acPasswordHash r \<noteq> None" and "NewIdentScreenName P name = ownName you S"
  shows "\<exists>S' tlvs. SetDirInfo you req inBody S = (Inr (replyFrame Locate LocateSetDirReply req,
      Some (SNAC_0x02_0x0A_LocateSetDirReply, VStruct [VU16 1])), S') \<and>
    DirInfo P req' name S' = Inr (replyFrame Locate LocateGetDirReply req',
      Some (SNAC_0x02_0x0C_LocateGetDirReply, VStruct [VU16 LocateGetDirReplyOK, TLVList_val tlvs])) \<and>
    (\<forall>tag\<in>{ODirTLVFirstName, ODirTLVLastName, ODirTLVMiddleName, ODirTLVMaidenName, ODirTLVCountry, ODirTLVState, ODirTLVCity,
        ODirTLVNickName, ODirTLVZIP, ODirTLVAddress}. TLVList_String tlvs tag = Some (tlvText inBody tag)) \<and>
    (\<not> TLVList_HasTag inBody ODirTLVEmailAddress \<and> \<not> TLVList_HasTag inBody ODirTLVInterest \<and>
       (tlvText inBody ODirTLVFirstName \<noteq> [] \<or> tlvText inBody ODirTLVLastName \<noteq> []) \<and>
       (\<forall>a\<in>set (auAccounts S). acPasswordHash (snd a) \<noteq> None) \<longrightarrow>
     (\<exists>results found. ODir_InfoQuery P req' inBody S' = Inr (infoReply req' ODirSearchResponseOK results) \<and>
        TLVList_val found \<in> set results \<and> TLVList_String found ODirTLVFirstName = Some (tlvText inBody ODirTLVFirstName) \<and>
        TLVList_String found ODirTLVLastName = Some (tlvText inBody ODirTLVLastName) \<and>
        TLVList_String found ODirTLVScreenName = Some (userDisplayScreenName (acUser r))))"
proof -
  let ?me = "ownName you S" and ?d = "newAIMNameAndAddrFromTLVList inBody"
  let ?r = "onUser (\<lambda>u. u\<lparr>userAIMDirectoryInfo := ?d\<rparr>) r"
  let ?t = "updateRow ?me (onUser (\<lambda>u. u\<lparr>userAIMDirectoryInfo := ?d\<rparr>)) (auAccounts S)"
  let ?S = "S\<lparr>auAccounts := ?t\<rparr>"
  have t: "distinct (map fst ?t)" "map_of ?t ?me = Some ?r" using assms(1,2) by (simp_all add: map_of_updateRow)
  obtain h where "acPasswordHash r = Some h" using assms(3) by blast
  then obtain u where u: "scanUser P (?me, ?r) = Inr u" "userAIMDirectoryInfo u = ?d"
      "userDisplayScreenName u = userDisplayScreenName (acUser r)"
    by (simp add: scanUser_def onUser_def)
  have "findUser P ?me ?t = Inr (Some u)" by (simp add: findUser_map [OF t(1)] t(2) u(1))
  then have d: "DirInfo P req' name ?S = Inr (replyFrame Locate LocateGetDirReply req',
      Some (SNAC_0x02_0x0C_LocateGetDirReply, VStruct [VU16 LocateGetDirReplyOK, TLVList_val (textTLVs (dirFields ?d))]))"
    by (simp add: DirInfo_def assms(4) u(2))
  have f: "\<forall>tag\<in>{ODirTLVFirstName, ODirTLVLastName, ODirTLVMiddleName, ODirTLVMaidenName, ODirTLVCountry, ODirTLVState, ODirTLVCity,
        ODirTLVNickName, ODirTLVZIP, ODirTLVAddress}. TLVList_String (textTLVs (dirFields ?d)) tag = Some (tlvText inBody tag)"
    by (simp add: textTLVs_String dirFields_def newAIMNameAndAddrFromTLVList_def)
  have q: "\<exists>results found. ODir_InfoQuery P req' inBody ?S = Inr (infoReply req' ODirSearchResponseOK results) \<and>
        TLVList_val found \<in> set results \<and> TLVList_String found ODirTLVFirstName = Some (tlvText inBody ODirTLVFirstName) \<and>
        TLVList_String found ODirTLVLastName = Some (tlvText inBody ODirTLVLastName) \<and>
        TLVList_String found ODirTLVScreenName = Some (userDisplayScreenName (acUser r))"
    if n: "\<not> TLVList_HasTag inBody ODirTLVEmailAddress" "\<not> TLVList_HasTag inBody ODirTLVInterest"
      "tlvText inBody ODirTLVFirstName \<noteq> [] \<or> tlvText inBody ODirTLVLastName \<noteq> []"
      "\<forall>a\<in>set (auAccounts S). acPasswordHash (snd a) \<noteq> None"
  proof -
    have h: "\<forall>a\<in>set ?t. acPasswordHash (snd a) \<noteq> None" using n(4) by (auto simp: updateRow_def onUser_def)
    have "dirFirstName ?d \<noteq> [] \<or> dirLastName ?d \<noteq> []" using n(3) by (simp add: newAIMNameAndAddrFromTLVList_def)
    then obtain us where us: "FindByAIMNameAndAddr P ?d ?t = Inr us" "u \<in> set us"
      using search_finds_entry [OF h map_of_SomeD [OF t(2)], of ?d P] u(1) by (auto simp: onUser_def)
    have "ODir_InfoQuery P req' inBody ?S
        = Inr (infoReply req' ODirSearchResponseOK (map (\<lambda>u. TLVList_val (textTLVs (searchEntry u))) us))"
      using n(1-3) us(1) by (auto simp: sendsName ODir_InfoQuery_def absent_String fromStore_def searchResponse_ok)
    then show ?thesis
      using us(2) by (intro exI conjI) (auto simp: textTLVs_String searchEntry_def u Let_def newAIMNameAndAddrFromTLVList_def)
  qed
  show ?thesis
    unfolding SetDirInfo_ok [OF assms(2)] using d f q by blast
qed

lemma directory_published_witness:
  "\<exists>S' results found. snd (SetDirInfo (0, 0) 1 [\<lparr>Tag = 1, Value = [74]\<rparr>] (sampleServer\<lparr>auAccounts := [(asciiBytes ''al99'', newAccountRow zeroUser)]\<rparr>)) = S'
    \<and> ODir_InfoQuery samplePlatform 2 [\<lparr>Tag = 1, Value = [74]\<rparr>] S' = Inr (infoReply 2 ODirSearchResponseOK results)
    \<and> TLVList_val found \<in> set results \<and> TLVList_String found ODirTLVFirstName = Some [74]"
proof -
  let ?S = "sampleServer\<lparr>auAccounts := [(asciiBytes ''al99'', newAccountRow zeroUser)]\<rparr>" and ?in = "[\<lparr>Tag = 1, Value = [74]\<rparr>] :: TLVList"
  have me: "ownName (0, 0) ?S = asciiBytes ''al99''"
    by (simp add: ownName_def sampleServer_def sessionOf_def updInst_def SetDisplayScreenName_def SetIdentScreenName_def
        oneInstance_def NewSession_def)
  have canon: "NewIdentScreenName samplePlatform (asciiBytes ''al99'') = asciiBytes ''al99''"
    by (simp add: asciiBytes_def ident_ascii asciiLower_def)
  have t: "distinct (map fst (auAccounts ?S))" "map_of (auAccounts ?S) (ownName (0, 0) ?S) = Some (newAccountRow zeroUser)"
      "acPasswordHash (newAccountRow zeroUser) \<noteq> None" and all: "\<forall>a\<in>set (auAccounts ?S). acPasswordHash (snd a) \<noteq> None"
    using me by (simp_all add: newAccountRow_def)
  have i: "\<not> TLVList_HasTag ?in ODirTLVEmailAddress" "\<not> TLVList_HasTag ?in ODirTLVInterest" "tlvText ?in ODirTLVFirstName = [74]"
    by (simp_all add: tlvText_def)
  show ?thesis
    using directory_published [OF t, of samplePlatform "asciiBytes ''al99''" 1 ?in 2] i all by (auto simp: me canon)
qed

text \<open>C38: What a lookup says about another user. When one of the two blocks the other the answer is exactly the
  one for a user who is offline. In every other case an online user is described with the display
  name, and with the profile and the away message when they were asked for, and the message only when the
  user is away. That holds for an invisible user too: the description carries the invisible
  flag, although the news of that very description is withheld from everybody.\<close>
theorem lookup_reveals_invisible:
  assumes "storeOk (bosMgr (auBos S)) (bosHeap (auBos S))"
    and "NewIdentScreenName P name \<noteq> ownName you S"
  shows "let sn = NewIdentScreenName P name; rel = Relationship (ownName you S) sn (bosLists (auBos S)); B = auBos S in
    case (if relYouBlock rel \<or> relBlocksYou rel then None else RetrieveSession sn (bosMgr B) (bosHeap B)) of
      None \<Rightarrow> Locate_UserInfoQuery P now you req t name S = Inr (newLocateErr req ErrorCodeNotLoggedOn)
    | Some a \<Rightarrow> \<exists>info tlvs. Locate_UserInfoQuery P now you req t name S = Inr (replyFrame Locate LocateUserInfoReply req,
          Some (SNAC_0x02_0x06_LocateUserInfoReply, VStruct [TLVUserInfo_val info, TLVList_val tlvs])) \<and>
        tuiScreenName info = displayScreenName (bosHeap B ! a) \<and>
        TLVList_String tlvs LocateTLVTagsInfoSigData
          = (if wants t LocateTypeSig then Some (ProfileText (Profile (bosHeap B ! a))) else None) \<and>
        TLVList_String tlvs LocateTLVTagsInfoUnavailableData
          = (if wants t LocateTypeUnavailable \<and> Away (bosHeap B ! a) then Some (AwayMessage (bosHeap B ! a)) else None) \<and>
        IsInvisible info = Inr (AllUserStatusBitmask OServiceUserStatusInvisible (bosHeap B ! a)) \<and>
        (AllUserStatusBitmask OServiceUserStatusInvisible (bosHeap B ! a) \<longrightarrow> BroadcastBuddyArrived sn info B = Inr B)"
proof -
  let ?sn = "NewIdentScreenName P name" and ?B = "auBos S"
  let ?rel = "Relationship (ownName you S) ?sn (bosLists ?B)"
  have l: "lookedUp you ?sn ?B = (if relYouBlock ?rel \<or> relBlocksYou ?rel then None
      else map_option (\<lambda>a. bosHeap ?B ! a) (RetrieveSession ?sn (bosMgr ?B) (bosHeap ?B)))"
    using assms(2) by (simp add: lookedUp_def ownName_def Let_def)
  show ?thesis
  proof (cases "if relYouBlock ?rel \<or> relBlocksYou ?rel then None else RetrieveSession ?sn (bosMgr ?B) (bosHeap ?B)")
    case None
    moreover from None have "lookedUp you ?sn ?B = None" using l by (auto split: if_splits)
    ultimately show ?thesis by (simp only: Locate_UserInfoQuery_def Let_def option.case)
  next
    case (Some a)
    then have a: "\<not> (relYouBlock ?rel \<or> relBlocksYou ?rel)" "RetrieveSession ?sn (bosMgr ?B) (bosHeap ?B) = Some a"
      by (simp_all split: if_splits)
    then have "HasLiveInstances (bosHeap ?B ! a)" by (auto simp: RetrieveSession_def split: option.splits if_splits)
    then have "Instances (bosHeap ?B ! a) \<noteq> []"
      using HasLive_Instances [OF retrieve_bound(3) [OF assms(1) a(2)]] by auto
    from described_invisible [OF this, of now] obtain info where info: "Session_TLVUserInfo now (bosHeap ?B ! a) = Inr info"
      "tuiScreenName info = displayScreenName (bosHeap ?B ! a)"
      "IsInvisible info = Inr (AllUserStatusBitmask OServiceUserStatusInvisible (bosHeap ?B ! a))" by blast
    have me: "identScreenName (sessionOf you ?B) \<noteq> ?sn" using assms(2) by (simp add: ownName_def)
    then obtain tlvs where tlvs: "lookupTLVs you t ?sn (bosHeap ?B ! a) ?B = Inr tlvs"
      "TLVList_String tlvs LocateTLVTagsInfoSigData
        = (if wants t LocateTypeSig then Some (ProfileText (Profile (bosHeap ?B ! a))) else None)"
      "TLVList_String tlvs LocateTLVTagsInfoUnavailableData
        = (if wants t LocateTypeUnavailable \<and> Away (bosHeap ?B ! a) then Some (AwayMessage (bosHeap ?B ! a)) else None)"
      by (simp add: lookupTLVs_def textTLVs_String Let_def map_add_def split: if_splits)
    have "Locate_UserInfoQuery P now you req t name S = Inr (replyFrame Locate LocateUserInfoReply req,
        Some (SNAC_0x02_0x06_LocateUserInfoReply, VStruct [TLVUserInfo_val info, TLVList_val tlvs]))"
      using a l info tlvs(1) by (simp add: Locate_UserInfoQuery_def)
    moreover have "AllUserStatusBitmask OServiceUserStatusInvisible (bosHeap ?B ! a) \<longrightarrow> BroadcastBuddyArrived ?sn info ?B = Inr ?B"
      using info(3) by (simp add: BroadcastBuddyArrived_def)
    ultimately show ?thesis
      unfolding Let_def Some option.case using info tlvs by blast
  qed
qed

definition invisibleServer :: serverState where
  "invisibleServer = sampleServer\<lparr>auBos := updInstance (SetUserStatusBitmask 0 OServiceUserStatusInvisible) (1, 0) sampleOnline\<rparr>"

lemma lookup_reveals_invisible_witness:
  "\<exists>info tlvs. Locate_UserInfoQuery samplePlatform 0 (0, 0) 3 0 [98] invisibleServer = Inr (replyFrame Locate LocateUserInfoReply 3,
      Some (SNAC_0x02_0x06_LocateUserInfoReply, VStruct [TLVUserInfo_val info, TLVList_val tlvs]))
    \<and> IsInvisible info = Inr True \<and> BroadcastBuddyArrived [98] info (auBos invisibleServer) = Inr (auBos invisibleServer)"
proof -
  let ?B = "auBos invisibleServer"
  have B: "?B = updInstance (SetUserStatusBitmask 0 OServiceUserStatusInvisible) (1, 0) sampleOnline" by (simp add: invisibleServer_def)
  have ok: "storeOk (bosMgr ?B) (bosHeap ?B)"
    using sampleOnline_ok unfolding B by (simp add: updInstance_def storeOk_upd keeps_updInst SetUserStatusBitmask_def)
  have me: "ownName (0, 0) invisibleServer = [97]"
    by (simp add: ownName_def B updInstance_def sessionOf_def updSession_def sampleOnline_def sampleBOS_def updInst_def
        sampleSession_def SetDisplayScreenName_def SetIdentScreenName_def)
  have r: "RetrieveSession [98] (bosMgr ?B) (bosHeap ?B) = Some (Suc 0)" "AllUserStatusBitmask OServiceUserStatusInvisible (bosHeap ?B ! Suc 0)"
    by (simp_all add: B updInstance_def updSession_def sampleOnline_def sampleBOS_def RetrieveSession_def AllUserStatusBitmask_def Instances_def
      HasLiveInstances_def live_def updInst_def inst_def sampleSession_def SetDisplayScreenName_def SetIdentScreenName_def
      oneInstance_def newInstance_def SetSignonComplete_def SetUserStatusBitmask_def)
  have rel: "\<not> (relYouBlock (Relationship [97] [98] (bosLists ?B)) \<or> relBlocksYou (Relationship [97] [98] (bosLists ?B)))"
    by (simp add: B updInstance_def emptyStore_lists)
  show ?thesis
    using lookup_reveals_invisible [OF ok, of samplePlatform "[98]" "(0, 0)" 0 3 0] r rel by (auto simp: me Let_def)
qed

end
