(* ===== verification/Foodgroup_Bart.thy ===== *)
theory Foodgroup_Bart
  imports Foodgroup_Locate Foodgroup_Feedbag
begin

text \<open>
  The service for buddy icons and other art, \<open>foodgroup/bart.go\<close>: items are stored under the MD5 sum of their
  content and fetched by it. The sum, of Go's library, is an argument.
\<close>

section \<open>Operations\<close>

datatype bartFault = BartPanic gerr | BartInfo oserviceFault

abbreviation (input) BARTUploadReply :: u16 where "BARTUploadReply \<equiv> 0x0003"
abbreviation (input) BARTDownloadReply :: u16 where "BARTDownloadReply \<equiv> 0x0005"
abbreviation (input) BARTDownload2Reply :: u16 where "BARTDownload2Reply \<equiv> 0x0007"
abbreviation (input) BARTFlagsCustom :: byte where "BARTFlagsCustom \<equiv> 0x01"
abbreviation (input) BARTReplyCodesSuccess :: byte where "BARTReplyCodesSuccess \<equiv> 0x00"

definition blankGIF :: bytes where
  "blankGIF =
     [0x47, 0x49, 0x46, 0x38, 0x39, 0x61, 0x32, 0x00, 0x32, 0x00, 0x80, 0x00, 0x00, 0x00, 0x00, 0x00,
      0x00, 0x00, 0x00, 0x21, 0xf9, 0x04, 0x01, 0x00, 0x00, 0x00, 0x00, 0x2c, 0x00, 0x00, 0x00, 0x00,
      0x32, 0x00, 0x32, 0x00, 0x00, 0x02, 0x02, 0x44, 0x01, 0x00, 0x3b]"

definition uploadReply :: "u32 \<Rightarrow> BARTID \<Rightarrow> SNACMessage" where
  "uploadReply req bartID = (replyFrame BART BARTUploadReply req,
     Some (SNAC_0x10_0x03_BARTUploadReply, VStruct [VU8 BARTReplyCodesSuccess, BARTID_val bartID]))"

text \<open>An item that exists is kept as it is. An upload of the own icon is news to the buddies.\<close>

definition BART_UpsertItem :: "(bytes \<Rightarrow> bytes) \<Rightarrow> int \<Rightarrow> instanceRef \<Rightarrow> u32 \<Rightarrow> u16 \<Rightarrow> bytes \<Rightarrow> serverState
    \<Rightarrow> (bartFault + SNACMessage) \<times> serverState" where
  "BART_UpsertItem md5 now you req itemType blob S =
     (let hash = md5 blob;
          S1 = S\<lparr>svCatalog := snd (InsertBARTItem hash blob itemType (svCatalog S))\<rparr>;
          (bartID, hasIcon) = BuddyIcon (sessionOf you (auBos S1)) in
      if hasIcon \<and> hash = bartHash bartID then
        (let icon = bartID\<lparr>bartFlags := bartFlags bartID XOR BARTFlagsUnknown\<rparr>;
             S2 = atBos (onSession (SetBuddyIcon icon) you) S1 in
         case newOServiceUserInfoUpdate now (sessionOf you (auBos S2)) (snd you) of
           Inl e \<Rightarrow> (Inl (BartInfo e), S2)
         | Inr v \<Rightarrow>
             (let S3 = atBos (relayTo (ownName you S2)
                    (replyFrame OService OServiceUserInfoUpdate 0, Some (SNAC_0x01_0x0F_OServiceUserInfoUpdate, v))) S2 in
              case broadcastArrival now you (auBos S3) of
                Inl e \<Rightarrow> (Inl (BartPanic e), S3)
              | Inr B \<Rightarrow> (Inr (uploadReply req icon), S3\<lparr>auBos := B\<rparr>)))
      else (Inr (uploadReply req \<lparr>bartType = itemType, bartFlags = BARTFlagsCustom, bartHash = hash\<rparr>), S1))"

definition HasClearIconHash :: "BARTID \<Rightarrow> bool" where
  "HasClearIconHash b \<longleftrightarrow> bartHash b = GetClearIconHash"

definition RetrieveItem :: "u32 \<Rightarrow> bytes \<Rightarrow> BARTID \<Rightarrow> serverState \<Rightarrow> SNACMessage" where
  "RetrieveItem req name b S =
     (let item = (if HasClearIconHash b then blankGIF else BARTItem_body (bartHash b) (svCatalog S)) in
      (replyFrame BART BARTDownloadReply req,
       Some (SNAC_0x10_0x05_BARTDownloadReply, VStruct [VString name, BARTID_val b, bytesVal item])))"

definition RetrieveItemV2 :: "u32 \<Rightarrow> bytes \<Rightarrow> BARTID list \<Rightarrow> serverState \<Rightarrow> SNACMessage list" where
  "RetrieveItemV2 req name ids S =
     map (\<lambda>b. let item = (if bartType b = BARTTypesBuddyIcon \<and> HasClearIconHash b then blankGIF
                else BARTItem_body (bartHash b) (svCatalog S)) in
       (replyFrame BART BARTDownload2Reply req, Some (SNAC_0x10_0x07_BARTDownload2Reply,
          VStruct [VString name, VStruct [BARTID_val b, VU8 0x00, BARTID_val b], bytesVal item]))) ids"

section \<open>Lemmas\<close>

lemma auBos_atBos: "auBos (atBos f S) = f (auBos S)"
  by (simp add: atBos_def)

lemma BART_UpsertItem_catalog:
  "svCatalog (snd (BART_UpsertItem md5 now you req t blob S)) = snd (InsertBARTItem (md5 blob) blob t (svCatalog S))"
  by (auto simp: BART_UpsertItem_def Let_def atBos_def split: prod.split sum.split)

text \<open>What a key of the store gives: the first row filed under it, which no later insertion changes.\<close>

abbreviation stored :: "bytes \<Rightarrow> CatalogStore \<Rightarrow> bool" where
  "stored h C \<equiv> h \<in> brHash ` set (csBart C)"

lemma body_inserted:
  "BARTItem_body h (snd (InsertBARTItem k blob t C)) =
     (if h = k \<and> \<not> stored k C then blob else BARTItem_body h C)"
proof (cases "stored k C")
  case False
  then have "filter (\<lambda>r. brHash r = k) (csBart C) = []" by (auto simp: filter_empty_conv)
  then show ?thesis using False by (auto simp: InsertBARTItem_def BARTItem_body_def)
qed (auto simp: InsertBARTItem_def)

lemma stored_inserted: "stored h (snd (InsertBARTItem k blob t C)) \<longleftrightarrow> h = k \<or> stored h C"
  by (auto simp: InsertBARTItem_def)

text \<open>A run of uploads: the time, the connection, the request number, the type and the content of each.\<close>

definition uploads :: "(bytes \<Rightarrow> bytes) \<Rightarrow> (int \<times> instanceRef \<times> u32 \<times> u16 \<times> bytes) list \<Rightarrow> serverState \<Rightarrow> serverState" where
  "uploads md5 = fold (\<lambda>(now, you, req, t, blob) S. snd (BART_UpsertItem md5 now you req t blob S))"

lemma uploads_keep:
  "stored h (svCatalog S) \<Longrightarrow> stored h (svCatalog (uploads md5 us S))
     \<and> BARTItem_body h (svCatalog (uploads md5 us S)) = BARTItem_body h (svCatalog S)"
proof (induction us arbitrary: S)
  case (Cons u us)
  obtain now you req t blob where u: "u = (now, you, req, t, blob)" by (cases u)
  let ?S = "snd (BART_UpsertItem md5 now you req t blob S)"
  have "stored h (svCatalog ?S)" "BARTItem_body h (svCatalog ?S) = BARTItem_body h (svCatalog S)"
    using Cons.prems by (cases "h = md5 blob"; simp add: BART_UpsertItem_catalog stored_inserted body_inserted)+
  then show ?case using Cons.IH [of ?S] by (simp add: uploads_def u)
qed (simp add: uploads_def)

lemma upload_answer:
  "fst (BART_UpsertItem md5 now you req t blob S) = Inr msg \<Longrightarrow> \<exists>b. msg = uploadReply req b \<and> bartHash b = md5 blob"
  by (auto simp: BART_UpsertItem_def Let_def split: prod.splits if_splits sum.splits)

text \<open>The user info of a session with a connection always marshals.\<close>

lemma bytes_TLV: "\<exists>v. NewTLVBE tag (Some (TSlice TU8, bytesVal bs)) = Inr \<lparr>Tag = tag, Value = v\<rparr>"
  by (simp add: marshal_value bytesVal_def write_bytes del: map_map)

lemma osTLVs_ok:
  assumes "list_all (\<lambda>(tag, t, v). \<exists>b. NewTLVBE tag (Some (t, v)) = Inr \<lparr>Tag = tag, Value = b\<rparr>) es"
  shows "\<exists>tlvs. osTLVs es acc = Inr tlvs"
  using appendTLVs_tags [OF assms] by (auto simp: osTLVs_def)

lemma instanceInfos_ok: "\<exists>vs. instanceInfos s self is = Inr vs"
proof (induction "is")
  case (Cons i "is")
  have "\<exists>tlvs. osTLVs (instanceInfoEntries s self i) [] = Inr tlvs"
    by (rule osTLVs_ok) (simp add: instanceInfoEntries_def Let_def icon_TLV caps_TLV bytes_TLV)
  then show ?case using Cons by (auto simp: ebind_def)
qed simp

lemma newOServiceUserInfoUpdate_ok:
  assumes "Instances s \<noteq> []"
  shows "\<exists>v. newOServiceUserInfoUpdate now s self = Inr v"
proof -
  obtain info where info: "osUserInfo now s = Inr info"
    using described_invisible [OF assms, of now] by (auto simp: osUserInfo_def)
  have "\<exists>tlvs. osTLVs
       ([(OServiceUserInfoMemberSince, TU32, VU32 (word_of_int (unixSeconds (memberSince s)))),
         (OServiceUserInfoSignonTOD, TU32, VU32 (word_of_int (unixSeconds (signonTime s)))),
         (OServiceUserInfoOnlineTime, TU32, VU32 (word_of_int ((now - signonTime s) sdiv 10 ^ 9)))]
        @ (if foodGroupVersions (inst s self) ! unat OService \<ge> 4
           then [(OServiceUserInfoMyInstanceNum, TSlice TU8, bytesVal [instanceNum (inst s self)])] else []))
       (tuiTLVs info) = Inr tlvs"
    by (rule osTLVs_ok) (simp add: bytes_TLV)
  moreover have "\<exists>vs. (if foodGroupVersions (inst s self) ! unat OService \<ge> 4 then instanceInfos s self (Instances s) else Inr []) = Inr vs"
    using instanceInfos_ok [of s self "Instances s"] by simp
  ultimately show ?thesis unfolding newOServiceUserInfoUpdate_def info by (auto simp: ebind_def)
qed

text \<open>A message to anybody leaves a session with an empty queue its connection.\<close>

lemma relay_stays:
  assumes "sessionOk s" and "Instances s = [i]" and "msgCh (inst s i) = []"
  shows "i \<in> set (Instances (maybeRelayMessage m s))"
  using assms(2,3) relayLoop_correct(3) [OF assms(1), of "[i]" live m]
  by (simp add: maybeRelayMessage_def Instances_def)

lemma relayed_stays:
  assumes "sessionOk (sessionOf you B)" and "Instances (sessionOf you B) = [i]" and "msgCh (inst (sessionOf you B) i) = []"
  shows "Instances (sessionOf you (relayTo sn m B)) \<noteq> []"
proof -
  have upd: "updSession f a h ! b = (if a = b \<and> a < length h then f (h ! b) else h ! b)" for f :: "Session \<Rightarrow> Session" and a b h
    by (cases "a < length h") (auto simp: updSession_def list_update_beyond)
  have "sessionOf you (relayTo sn m B) = sessionOf you B \<or> sessionOf you (relayTo sn m B) = maybeRelayMessage m (sessionOf you B)"
    by (auto simp: relayTo_def RelayToScreenName_def sessionOf_def upd split: option.split)
  then show ?thesis using relay_stays [OF assms, of m] assms(2) by auto
qed

section \<open>Properties\<close>

text \<open>C39: An uploaded item is what every later download returns. After an upload, and after any further
  uploads by anybody, of the same content, of others or of contents with the same sum, both downloads answer for the
  sum of the content exactly the item that was first stored under it: the uploaded content, when nothing was stored
  under its sum before, or else what was stored there and stays (the operator can import items under keys that are no
  sums of their content). Every key but the sum downloads after the upload as before it, and an upload that is answered
  names the sum. Only the fixed key of the clear icon is different: a download of it gives the blank image and
  never looks into the store. What is stored does not depend on what the upload answers, its errors included.\<close>
theorem uploaded_item_downloads:
  assumes "bartHash b = md5 blob" and "\<not> HasClearIconHash b"
  shows "let S' = snd (BART_UpsertItem md5 now you req t blob S);
             content = (if stored (md5 blob) (svCatalog S) then BARTItem_body (md5 blob) (svCatalog S) else blob) in
    (\<forall>us. RetrieveItem req' name b (uploads md5 us S') = (replyFrame BART BARTDownloadReply req',
        Some (SNAC_0x10_0x05_BARTDownloadReply, VStruct [VString name, BARTID_val b, bytesVal content])) \<and>
      RetrieveItemV2 req' name [b] (uploads md5 us S') = [(replyFrame BART BARTDownload2Reply req',
        Some (SNAC_0x10_0x07_BARTDownload2Reply,
          VStruct [VString name, VStruct [BARTID_val b, VU8 0x00, BARTID_val b], bytesVal content]))]) \<and>
    (\<forall>b'. bartHash b' \<noteq> md5 blob \<longrightarrow> RetrieveItem req' name b' S' = RetrieveItem req' name b' S
      \<and> RetrieveItemV2 req' name [b'] S' = RetrieveItemV2 req' name [b'] S) \<and>
    (\<forall>msg. fst (BART_UpsertItem md5 now you req t blob S) = Inr msg \<longrightarrow>
      (\<exists>i. msg = uploadReply req i \<and> bartHash i = bartHash b))"
proof -
  let ?S' = "snd (BART_UpsertItem md5 now you req t blob S)"
  have "stored (md5 blob) (svCatalog ?S')" by (simp only: BART_UpsertItem_catalog stored_inserted simp_thms)
  then have body: "BARTItem_body (md5 blob) (svCatalog (uploads md5 us ?S')) =
      (if stored (md5 blob) (svCatalog S) then BARTItem_body (md5 blob) (svCatalog S) else blob)" for us
    using uploads_keep [of "md5 blob" ?S' md5 us] by (simp only: BART_UpsertItem_catalog body_inserted) simp
  have other: "h \<noteq> md5 blob \<Longrightarrow> BARTItem_body h (svCatalog ?S') = BARTItem_body h (svCatalog S)" for h
    by (simp add: BART_UpsertItem_catalog body_inserted)
  show ?thesis
    unfolding Let_def using assms body other upload_answer [of md5 now you req t blob S]
    by (auto simp: RetrieveItem_def RetrieveItemV2_def)
qed

definition sampleMD5 :: "bytes \<Rightarrow> bytes" where
  "sampleMD5 bs = take 16 (bs @ replicate 16 0)"

lemma uploaded_item_downloads_witness:
  "RetrieveItemV2 2 [97] [\<lparr>bartType = 1, bartFlags = 1, bartHash = sampleMD5 [7]\<rparr>] (snd (BART_UpsertItem sampleMD5 0 (0, 0) 1 1 [7] sampleServer))
    = [(replyFrame BART BARTDownload2Reply 2, Some (SNAC_0x10_0x07_BARTDownload2Reply, VStruct [VString [97],
        (let i = BARTID_val \<lparr>bartType = 1, bartFlags = 1, bartHash = sampleMD5 [7]\<rparr> in VStruct [i, VU8 0, i]), bytesVal [7]]))]"
proof -
  let ?b = "\<lparr>bartType = 1, bartFlags = 1, bartHash = sampleMD5 [7]\<rparr>"
  have "csBart (svCatalog sampleServer) = []" by (simp add: sampleServer_def emptyCatalog_def)
  moreover have "length (sampleMD5 [7]) \<noteq> length GetClearIconHash" by (simp add: sampleMD5_def GetClearIconHash_def)
  then have "\<not> HasClearIconHash ?b" by (auto simp: HasClearIconHash_def)
  ultimately show ?thesis
    using uploaded_item_downloads [of ?b sampleMD5 "[7]" 0 "(0, 0)" 1 1 sampleServer 2 "[97]", unfolded Let_def,
      THEN conjunct1, rule_format, of "[]"]
    by (simp add: uploads_def Let_def)
qed

text \<open>The unknown flag of an icon, which asks the client to upload it, is flipped by every upload of the
  icon, not cleared: an upload of an icon that is already known, which no client is kept from, marks it unknown again
  in the answer although the store has it.\<close>
theorem upload_flips_unknown:
  assumes "bartType (buddyIcon (sessionOf you (auBos S))) \<noteq> 0" and "bartHash (buddyIcon (sessionOf you (auBos S))) = md5 blob"
    and "BART_UpsertItem md5 now you req t blob S = (Inr msg, S')"
  shows "\<exists>icon. msg = uploadReply req icon \<and> bartHash icon = md5 blob \<and>
    (bartFlags icon AND BARTFlagsUnknown = 0 \<longleftrightarrow> bartFlags (buddyIcon (sessionOf you (auBos S))) AND BARTFlagsUnknown \<noteq> 0) \<and>
    md5 blob \<in> brHash ` set (csBart (svCatalog S'))"
proof -
  let ?icon = "buddyIcon (sessionOf you (auBos S))"
  let ?new = "?icon\<lparr>bartFlags := bartFlags ?icon XOR BARTFlagsUnknown\<rparr>"
  have "BARTFlagsUnknown = (2 :: byte) ^ 6" by simp
  then have "bartFlags ?new AND BARTFlagsUnknown = 0 \<longleftrightarrow> bartFlags ?icon AND BARTFlagsUnknown \<noteq> 0"
    using and_exp_eq_0_iff_not_bit [of "bartFlags ?icon XOR BARTFlagsUnknown" 6] and_exp_eq_0_iff_not_bit [of "bartFlags ?icon" 6]
    by (simp add: bit_xor_iff bit_exp_iff)
  moreover have "msg = uploadReply req ?new"
    using assms by (auto simp: BART_UpsertItem_def Let_def BuddyIcon_def split: sum.splits)
  moreover have "md5 blob \<in> brHash ` set (csBart (svCatalog S'))"
    using BART_UpsertItem_catalog [of md5 now you req t blob S] assms(3) by (auto simp: InsertBARTItem_def)
  ultimately show ?thesis using assms(2) by auto
qed

definition iconServer :: serverState where
  "iconServer = atBos (onSession (SetBuddyIcon \<lparr>bartType = 1, bartFlags = 1, bartHash = sampleMD5 [7]\<rparr>) (0, 0)) sampleServer"

lemma upload_flips_unknown_witness:
  "\<exists>msg icon. fst (BART_UpsertItem sampleMD5 0 (0, 0) 1 1 [7] iconServer) = Inr msg \<and> msg = uploadReply 1 icon
    \<and> bartFlags icon AND BARTFlagsUnknown \<noteq> 0"
proof -
  let ?s = "sessionOf (0, 0) (auBos iconServer)"
  have i: "buddyIcon ?s = \<lparr>bartType = 1, bartFlags = 1, bartHash = sampleMD5 [7]\<rparr>"
    by (simp add: iconServer_def atBos_def onSession_def updSession_def sessionOf_def SetBuddyIcon_def sampleServer_def)
  let ?S = "iconServer\<lparr>svCatalog := snd (InsertBARTItem (sampleMD5 [7]) [7] 1 (svCatalog iconServer))\<rparr>"
  let ?S2 = "atBos (onSession (SetBuddyIcon \<lparr>bartType = 1, bartFlags = 0x41, bartHash = sampleMD5 [7]\<rparr>) (0, 0)) ?S"
  have i2: "sessionOk (sessionOf (0, 0) (auBos ?S2))" "Instances (sessionOf (0, 0) (auBos ?S2)) = [0]"
      "msgCh (inst (sessionOf (0, 0) (auBos ?S2)) 0) = []"
    by (simp_all add: iconServer_def atBos_def onSession_def updSession_def sampleServer_def sessionOf_def updInst_def SetDisplayScreenName_def
      SetIdentScreenName_def SetBuddyIcon_def oneInstance_def NewSession_def sessionOk_def inst_def newInstance_def SetSignonComplete_def
      Instances_def) (auto simp: nth_Cons')
  obtain v where v: "newOServiceUserInfoUpdate 0 (sessionOf (0, 0) (auBos ?S2)) 0 = Inr v"
    using newOServiceUserInfoUpdate_ok [of "sessionOf (0, 0) (auBos ?S2)" 0 0] i2(2) by auto
  have n: "Instances (sessionOf (0, 0) (relayTo sn m (auBos ?S2))) \<noteq> []" for sn m
    by (rule relayed_stays [OF i2])
  have "\<exists>B. broadcastArrival 0 (0, 0) (relayTo sn m (auBos ?S2)) = Inr B" for sn m
    using described_invisible [OF n [of sn m], of 0] by (auto simp: broadcastArrival_def BroadcastBuddyArrived_def)
  then obtain B where "broadcastArrival 0 (0, 0) (relayTo (ownName (0, 0) ?S2)
      (replyFrame OService OServiceUserInfoUpdate 0, Some (SNAC_0x01_0x0F_OServiceUserInfoUpdate, v)) (auBos ?S2)) = Inr B" by blast
  then obtain msg S' where "BART_UpsertItem sampleMD5 0 (0, 0) 1 1 [7] iconServer = (Inr msg, S')"
    using v i by (simp add: BART_UpsertItem_def BuddyIcon_def auBos_atBos Let_def)
  then show ?thesis
    using upload_flips_unknown [of "(0, 0)" iconServer sampleMD5 "[7]" 0 1 1 msg S'] by (auto simp: i)
qed

end
