(* ===== verification/Foodgroup_Admin.thy ===== *)
theory Foodgroup_Admin
  imports Foodgroup_Bart
begin

text \<open>
  The account service, \<open>foodgroup/admin.go\<close>: a client confirms its account, asks for and changes the format of
  its screen name, its address, its disclosure status and its password. The parser of mail addresses, of Go's library,
  is an argument that answers the bare address; so is the salt of a new password hash.
\<close>

section \<open>Messages\<close>

datatype adminFault = AdmPanic gerr | AdmInfo oserviceFault

abbreviation (input) AdminTLVScreenNameFormatted :: u16 where "AdminTLVScreenNameFormatted \<equiv> 0x01"
abbreviation (input) AdminTLVNewPassword :: u16 where "AdminTLVNewPassword \<equiv> 0x02"
abbreviation (input) AdminTLVUrl :: u16 where "AdminTLVUrl \<equiv> 0x04"
abbreviation (input) AdminTLVErrorCode :: u16 where "AdminTLVErrorCode \<equiv> 0x08"
abbreviation (input) AdminTLVEmailAddress :: u16 where "AdminTLVEmailAddress \<equiv> 0x11"
abbreviation (input) AdminTLVOldPassword :: u16 where "AdminTLVOldPassword \<equiv> 0x12"
abbreviation (input) AdminTLVRegistrationStatus :: u16 where "AdminTLVRegistrationStatus \<equiv> 0x13"
abbreviation (input) AdminInfoErrorValidateNickName :: u16 where "AdminInfoErrorValidateNickName \<equiv> 0x0001"
abbreviation (input) AdminInfoErrorValidatePassword :: u16 where "AdminInfoErrorValidatePassword \<equiv> 0x0002"
abbreviation (input) AdminInfoErrorInvalidNickName :: u16 where "AdminInfoErrorInvalidNickName \<equiv> 0x0006"
abbreviation (input) AdminInfoErrorInvalidEmail :: u16 where "AdminInfoErrorInvalidEmail \<equiv> 0x0008"
abbreviation (input) AdminInfoErrorInvalidRegistrationPreference :: u16 where "AdminInfoErrorInvalidRegistrationPreference \<equiv> 0x0009"
abbreviation (input) AdminInfoErrorInvalidNickNameLength :: u16 where "AdminInfoErrorInvalidNickNameLength \<equiv> 0x000B"
abbreviation (input) AdminInfoErrorInvalidPasswordLength :: u16 where "AdminInfoErrorInvalidPasswordLength \<equiv> 0x000C"
abbreviation (input) AdminInfoErrorInvalidEmailLength :: u16 where "AdminInfoErrorInvalidEmailLength \<equiv> 0x000D"
abbreviation (input) AdminInfoErrorNeedOldPassword :: u16 where "AdminInfoErrorNeedOldPassword \<equiv> 0x000F"
abbreviation (input) AdminInfoErrorAllOtherErrors :: u16 where "AdminInfoErrorAllOtherErrors \<equiv> 0x0013"
abbreviation (input) AdminInfoRegStatusNoDisclosure :: u16 where "AdminInfoRegStatusNoDisclosure \<equiv> 0x01"
abbreviation (input) AdminInfoRegStatusLimitDisclosure :: u16 where "AdminInfoRegStatusLimitDisclosure \<equiv> 0x02"
abbreviation (input) AdminInfoRegStatusFullDisclosure :: u16 where "AdminInfoRegStatusFullDisclosure \<equiv> 0x03"
abbreviation (input) AdminInfoPermissionsReadWrite :: u16 where "AdminInfoPermissionsReadWrite \<equiv> 0x03"
abbreviation (input) AdminAcctConfirmStatusEmailSent :: u16 where "AdminAcctConfirmStatusEmailSent \<equiv> 0x00"
abbreviation (input) AdminAcctConfirmStatusAlreadyConfirmed :: u16 where "AdminAcctConfirmStatusAlreadyConfirmed \<equiv> 0x1E"
abbreviation (input) AdminAcctConfirmStatusServerError :: u16 where "AdminAcctConfirmStatusServerError \<equiv> 0x23"

type_synonym adminOutcome = "(adminFault + SNACMessage) \<times> serverState"

definition adminConfirmReply :: "u32 \<Rightarrow> u16 \<Rightarrow> SNACMessage" where
  "adminConfirmReply req status = (replyFrame Admin AdminAcctConfirmReply req,
     Some (SNAC_0x07_0x07_AdminConfirmReply, VStruct [VU16 status, VStruct [VU16 0, bytesVal []]]))"

definition adminTLVs :: "(u16 \<times> gtype \<times> gval) list \<Rightarrow> (TLVList \<Rightarrow> SNACMessage) \<Rightarrow> adminFault + SNACMessage" where
  "adminTLVs es reply = (case appendTLVs es [] of Inl e \<Rightarrow> Inl (AdmPanic e) | Inr tlvs \<Rightarrow> Inr (reply tlvs))"

definition adminInfoReply :: "u32 \<Rightarrow> TLVList \<Rightarrow> SNACMessage" where
  "adminInfoReply req tlvs = (replyFrame Admin AdminInfoReply req,
     Some (SNAC_0x07_0x03_AdminInfoReply, VStruct [VU16 AdminInfoPermissionsReadWrite, TLVList_val tlvs]))"

definition adminChangeReply :: "u32 \<Rightarrow> TLVList \<Rightarrow> SNACMessage" where
  "adminChangeReply req tlvs = (replyFrame Admin AdminInfoChangeReply req,
     Some (SNAC_0x07_0x05_AdminChangeReply, VStruct [VU16 AdminInfoPermissionsReadWrite, TLVList_val tlvs]))"

definition adminNotSupported :: "u32 \<Rightarrow> SNACMessage" where
  "adminNotSupported req = (replyFrame Admin AdminErr req, Some (SNACError_type, VStruct [VU16 ErrorCodeNotSupportedByHost, TLVList_val []]))"

text \<open>The refusal of a change, with the code and an empty address of an explanation.\<close>

definition adminRefused :: "u32 \<Rightarrow> u16 \<Rightarrow> adminFault + SNACMessage" where
  "adminRefused req errorCode =
     adminTLVs [(AdminTLVErrorCode, TU16, VU16 errorCode), (AdminTLVUrl, TString, VString [])] (adminChangeReply req)"

section \<open>Confirming and asking\<close>

definition ConfirmRequest :: "(bytes \<Rightarrow> bytes option) \<Rightarrow> int \<Rightarrow> instanceRef \<Rightarrow> u32 \<Rightarrow> serverState \<Rightarrow> adminOutcome" where
  "ConfirmRequest parseAddress now you req S =
     (if parseAddress (storedEmail (ownName you S) (auAccounts S)) = None
      then (Inr (adminConfirmReply req AdminAcctConfirmStatusServerError), S)
      else if ConfirmStatus (ownName you S) (auAccounts S) then (Inr (adminConfirmReply req AdminAcctConfirmStatusAlreadyConfirmed), S)
      else
        (let S1 = S\<lparr>auAccounts := UpdateConfirmStatus (ownName you S) True (auAccounts S)\<rparr>;
             S2 = atBos (updInstance (ClearUserInfoFlag OServiceUserFlagUnconfirmed) you) S1 in
         case broadcastArrival now you (auBos S2) of
           Inl e \<Rightarrow> (Inl (AdmPanic e), S2)
         | Inr B \<Rightarrow> (Inr (adminConfirmReply req AdminAcctConfirmStatusEmailSent), S2\<lparr>auBos := B\<rparr>)))"

definition Admin_InfoQuery :: "(bytes \<Rightarrow> bytes option) \<Rightarrow> instanceRef \<Rightarrow> u32 \<Rightarrow> TLVList \<Rightarrow> serverState \<Rightarrow> adminFault + SNACMessage" where
  "Admin_InfoQuery parseAddress you req inBody S =
     (if TLVList_Bytes inBody AdminTLVRegistrationStatus \<noteq> None
      then adminTLVs [(AdminTLVRegistrationStatus, TU16, VU16 (RegStatus (ownName you S) (auAccounts S)))] (adminInfoReply req)
      else if TLVList_Bytes inBody AdminTLVEmailAddress \<noteq> None
      then adminTLVs [(AdminTLVEmailAddress, TString,
             VString (case parseAddress (storedEmail (ownName you S) (auAccounts S)) of None \<Rightarrow> [] | Some a \<Rightarrow> a))] (adminInfoReply req)
      else if TLVList_Bytes inBody AdminTLVScreenNameFormatted \<noteq> None
      then adminTLVs [(AdminTLVScreenNameFormatted, TString, VString (displayScreenName (sessionOf you (auBos S))))] (adminInfoReply req)
      else Inr (adminNotSupported req))"

section \<open>Changing\<close>

definition validateProposedName :: "platform \<Rightarrow> DisplayScreenName \<Rightarrow> IdentScreenName \<Rightarrow> u16 option" where
  "validateProposedName P name me =
     (case ValidateAIMHandle P name of
        Some ErrAIMHandleLength \<Rightarrow> Some AdminInfoErrorInvalidNickNameLength
      | Some ErrAIMHandleInvalidFormat \<Rightarrow> Some AdminInfoErrorInvalidNickName
      | _ \<Rightarrow> if DisplayScreenName_IdentScreenName P name \<noteq> me then Some AdminInfoErrorValidateNickName else None)"

definition validateProposedEmailAddress :: "(bytes \<Rightarrow> bytes option) \<Rightarrow> bytes \<Rightarrow> u16 + bytes" where
  "validateProposedEmailAddress parseAddress emailAddress =
     (case parseAddress emailAddress of
        None \<Rightarrow> Inl AdminInfoErrorInvalidEmail
      | Some a \<Rightarrow> if length a > 320 then Inl AdminInfoErrorInvalidEmailLength else Inr a)"

definition changeName :: "platform \<Rightarrow> int \<Rightarrow> instanceRef \<Rightarrow> u32 \<Rightarrow> DisplayScreenName \<Rightarrow> serverState \<Rightarrow> adminOutcome" where
  "changeName P now you req name S =
     (case validateProposedName P name (ownName you S) of
        Some code \<Rightarrow> (adminRefused req code, S)
      | None \<Rightarrow>
          (let S1 = atBos (onSession (SetDisplayScreenName name) you) (S\<lparr>auAccounts := UpdateDisplayScreenName P name (auAccounts S)\<rparr>) in
           case broadcastArrival now you (auBos S1) of
             Inl e \<Rightarrow> (Inl (AdmPanic e), S1)
           | Inr B \<Rightarrow>
               (let S2 = S1\<lparr>auBos := B\<rparr> in
                case newOServiceUserInfoUpdate now (sessionOf you (auBos S2)) (snd you) of
                  Inl e \<Rightarrow> (Inl (AdmInfo e), S2)
                | Inr v \<Rightarrow> (adminTLVs [(AdminTLVScreenNameFormatted, TString, VString name)] (adminChangeReply req),
                    atBos (relayTo (ownName you S2)
                      (replyFrame OService OServiceUserInfoUpdate 0, Some (SNAC_0x01_0x0F_OServiceUserInfoUpdate, v))) S2))))"

definition changeEmail :: "(bytes \<Rightarrow> bytes option) \<Rightarrow> instanceRef \<Rightarrow> u32 \<Rightarrow> bytes \<Rightarrow> serverState \<Rightarrow> adminOutcome" where
  "changeEmail parseAddress you req emailAddress S =
     (case validateProposedEmailAddress parseAddress emailAddress of
        Inl code \<Rightarrow> (adminRefused req code, S)
      | Inr a \<Rightarrow> (adminTLVs [(AdminTLVEmailAddress, TString, VString a)] (adminChangeReply req),
          S\<lparr>auAccounts := UpdateEmailAddress (ownName you S) a (auAccounts S)\<rparr>))"

definition changeRegStatus :: "instanceRef \<Rightarrow> u32 \<Rightarrow> u16 \<Rightarrow> serverState \<Rightarrow> adminOutcome" where
  "changeRegStatus you req status S =
     (if status = AdminInfoRegStatusFullDisclosure \<or> status = AdminInfoRegStatusLimitDisclosure \<or> status = AdminInfoRegStatusNoDisclosure
      then (adminTLVs [(AdminTLVRegistrationStatus, TU16, VU16 status)] (adminChangeReply req),
        S\<lparr>auAccounts := UpdateRegStatus (ownName you S) status (auAccounts S)\<rparr>)
      else (adminRefused req AdminInfoErrorInvalidRegistrationPreference, S))"

text \<open>Every answer about a password begins with an empty new password; a code after it is a refusal.\<close>

definition passwordReply :: "u32 \<Rightarrow> u16 option \<Rightarrow> adminFault + SNACMessage" where
  "passwordReply req code =
     adminTLVs ((AdminTLVNewPassword, TSlice TU8, bytesVal [])
       # (case code of None \<Rightarrow> [] | Some c \<Rightarrow> [(AdminTLVErrorCode, TU16, VU16 c)])) (adminChangeReply req)"

definition changePassword :: "AuthService \<Rightarrow> bytes option \<Rightarrow> instanceRef \<Rightarrow> u32 \<Rightarrow> TLVList \<Rightarrow> bytes \<Rightarrow> serverState \<Rightarrow> adminOutcome" where
  "changePassword s rand you req inBody newPass S =
     (case TLVList_String inBody AdminTLVOldPassword of
        None \<Rightarrow> (passwordReply req (Some AdminInfoErrorNeedOldPassword), S)
      | Some oldPass \<Rightarrow>
          (case findUser (auPlatform s) (ownName you S) (auAccounts S) of
             Inr (Some u) \<Rightarrow>
               (if \<not> ValidatePlaintextPass (auIDKey s) u oldPass
                then (passwordReply req (Some AdminInfoErrorValidatePassword), S)
                else
                  (case accSetUserPassword (auIDKey s) rand (ownName you S) newPass (auAccounts S) of
                     (Some ErrPasswordInvalid, t) \<Rightarrow> (passwordReply req (Some AdminInfoErrorInvalidPasswordLength), S\<lparr>auAccounts := t\<rparr>)
                   | (Some _, t) \<Rightarrow> (passwordReply req (Some AdminInfoErrorAllOtherErrors), S\<lparr>auAccounts := t\<rparr>)
                   | (None, t) \<Rightarrow> (passwordReply req None, S\<lparr>auAccounts := t\<rparr>)))
           | _ \<Rightarrow> (passwordReply req (Some AdminInfoErrorAllOtherErrors), S)))"

definition InfoChangeRequest :: "AuthService \<Rightarrow> (bytes \<Rightarrow> bytes option) \<Rightarrow> bytes option \<Rightarrow> int \<Rightarrow> instanceRef \<Rightarrow> u32 \<Rightarrow> TLVList
    \<Rightarrow> serverState \<Rightarrow> adminOutcome" where
  "InfoChangeRequest s parseAddress rand now you req inBody S =
     (case TLVList_Bytes inBody AdminTLVScreenNameFormatted of
        Some name \<Rightarrow> changeName (auPlatform s) now you req name S
      | None \<Rightarrow>
          (case TLVList_Bytes inBody AdminTLVEmailAddress of
             Some emailAddress \<Rightarrow> changeEmail parseAddress you req emailAddress S
           | None \<Rightarrow>
               (case TLVList_Uint16BE inBody AdminTLVRegistrationStatus of
                  Inl e \<Rightarrow> (Inl (AdmPanic e), S)
                | Inr (Some status) \<Rightarrow> changeRegStatus you req status S
                | Inr None \<Rightarrow>
                    (case TLVList_String inBody AdminTLVNewPassword of
                       Some newPass \<Rightarrow> changePassword s rand you req inBody newPass S
                     | None \<Rightarrow> (Inr (adminNotSupported req), S)))))"

section \<open>Lemmas\<close>

lemma hash_new_password:
  assumes "length salt = argon2SaltLen"
  shows "User_HashPassword IDKey (Some salt) pw u
    = (if passwordLenOk (userIsICQ u) pw then Inr (u\<lparr>userPasswordHash := storedHash IDKey pw salt\<rparr>) else Inl ErrPasswordInvalid)"
  using assms by (auto simp: User_HashPassword_def validateICQPassword_def validateAIMPassword_def passwordLenOk_def NewPasswordHash_def
      storedHash_def)

lemma absent_Bytes: "\<not> TLVList_HasTag tlvs tag \<Longrightarrow> TLVList_Bytes tlvs tag = None \<and> TLVList_Uint16BE tlvs tag = Inr None"
  by (induction tlvs) (auto split: if_splits)

text \<open>Every change of the account table is one update of the own row; a new screen name
  has the canonical form of the old one.\<close>

definition ownUpdate :: "platform \<Rightarrow> IdentScreenName \<Rightarrow> (accountRow \<Rightarrow> accountRow) \<Rightarrow> bool" where
  "ownUpdate P me f \<longleftrightarrow> (\<forall>r. userDisplayScreenName (acUser (f r)) = userDisplayScreenName (acUser r)
     \<or> me = NewIdentScreenName P (userDisplayScreenName (acUser (f r))))"

lemma ownUpdateI:
  "ownUpdate P me id"
  "(\<And>u. userDisplayScreenName (f u) = userDisplayScreenName u) \<Longrightarrow> ownUpdate P me (onUser f)"
  "ownUpdate P me (\<lambda>r. r\<lparr>acPasswordHash := h\<rparr>)"
  by (simp_all add: ownUpdate_def onUser_def)

lemma updateRow_id [simp]: "updateRow name id t = t"
  by (induction t) (auto simp: updateRow_def)

lemma setPassword_row: "\<exists>f. snd (accSetUserPassword IDKey rand me pw t) = updateRow me f t \<and> ownUpdate P me f"
proof (cases "fst (accSetUserPassword IDKey rand me pw t)")
  case None
  then obtain h where "snd (accSetUserPassword IDKey rand me pw t) = updateRow me (\<lambda>r. r\<lparr>acPasswordHash := Some h\<rparr>) t"
    by (auto simp: accSetUserPassword_def split: option.splits sum.splits)
  then show ?thesis using ownUpdateI(3) by blast
next
  case (Some e)
  then have "snd (accSetUserPassword IDKey rand me pw t) = updateRow me id t"
    by (auto simp: accSetUserPassword_def split: option.splits sum.splits)
  then show ?thesis using ownUpdateI(1) by blast
qed

lemma changeName_row:
  "\<exists>f. auAccounts (snd (changeName P now you req name S)) = updateRow (ownName you S) f (auAccounts S) \<and> ownUpdate P (ownName you S) f"
proof (cases "validateProposedName P name (ownName you S)")
  case None
  then have "DisplayScreenName_IdentScreenName P name = ownName you S"
    by (auto simp: validateProposedName_def split: option.splits nameError.splits if_splits)
  then show ?thesis using None
    by (intro exI [of _ "onUser (\<lambda>u. u\<lparr>userDisplayScreenName := name\<rparr>)"])
      (auto simp: changeName_def Let_def atBos_def UpdateDisplayScreenName_def ownUpdate_def onUser_def
        DisplayScreenName_IdentScreenName_def split: sum.split)
next
  case (Some code)
  then have "auAccounts (snd (changeName P now you req name S)) = updateRow (ownName you S) id (auAccounts S)"
    by (simp add: changeName_def)
  then show ?thesis using ownUpdateI(1) by blast
qed

lemma changePassword_row:
  "\<exists>f. auAccounts (snd (changePassword s rand you req inBody newPass S)) = updateRow (ownName you S) f (auAccounts S)
    \<and> ownUpdate P (ownName you S) f"
proof (cases "auAccounts (snd (changePassword s rand you req inBody newPass S)) = auAccounts S")
  case True
  then show ?thesis using ownUpdateI(1) [of P "ownName you S"] updateRow_id by metis
next
  case False
  then have "auAccounts (snd (changePassword s rand you req inBody newPass S))
      = snd (accSetUserPassword (auIDKey s) rand (ownName you S) newPass (auAccounts S))"
    by (auto simp: changePassword_def split: option.splits sum.splits prod.splits accountError.splits if_splits)
  then show ?thesis using setPassword_row [of "auIDKey s" rand "ownName you S" newPass "auAccounts S" P] by simp
qed

lemma InfoChangeRequest_row:
  "\<exists>f. auAccounts (snd (InfoChangeRequest s parseAddress rand now you req inBody S)) = updateRow (ownName you S) f (auAccounts S)
    \<and> ownUpdate (auPlatform s) (ownName you S) f"
proof -
  let ?me = "ownName you S" and ?t = "auAccounts S" and ?P = "auPlatform s"
  have same: "\<exists>f. ?t = updateRow ?me f ?t \<and> ownUpdate ?P ?me f" using ownUpdateI(1) updateRow_id by metis
  have e: "\<exists>f. auAccounts (snd (changeEmail parseAddress you req a S)) = updateRow ?me f ?t \<and> ownUpdate ?P ?me f" for a
    using same ownUpdateI(2) [of "\<lambda>u. u\<lparr>userEmailAddress := b\<rparr>" ?P ?me for b]
    by (auto simp: changeEmail_def UpdateEmailAddress_def split: sum.split)
  have r: "\<exists>f. auAccounts (snd (changeRegStatus you req w S)) = updateRow ?me f ?t \<and> ownUpdate ?P ?me f" for w
    using same ownUpdateI(2) [of "\<lambda>u. u\<lparr>userRegStatus := b\<rparr>" ?P ?me for b]
    by (auto simp: changeRegStatus_def UpdateRegStatus_def)
  show ?thesis
    using same e r changeName_row [of ?P now you req _ S] changePassword_row [of s rand you req inBody _ S ?P]
    by (auto simp: InfoChangeRequest_def split: option.split sum.split)
qed

text \<open>Every account is filed under the canonical form of its screen name.\<close>

definition namesCanonical :: "platform \<Rightarrow> accountTable \<Rightarrow> bool" where
  "namesCanonical P t \<longleftrightarrow> (\<forall>(i, r)\<in>set t. i = NewIdentScreenName P (userDisplayScreenName (acUser r)))"

lemma namesCanonical_update:
  assumes "namesCanonical P t" and "ownUpdate P me f"
  shows "namesCanonical P (updateRow me f t)"
proof -
  have "i = NewIdentScreenName P (userDisplayScreenName (acUser r))" if m: "(i, r) \<in> set (updateRow me f t)" for i r
  proof -
    obtain r0 where r0: "(i, r0) \<in> set t" "r = (if i = me then f r0 else r0)" using m by (auto simp: updateRow_def)
    have "i = NewIdentScreenName P (userDisplayScreenName (acUser r0))" using assms(1) r0(1) by (auto simp: namesCanonical_def)
    then show ?thesis using assms(2) [unfolded ownUpdate_def, THEN spec, of r0] r0(2) by (auto split: if_splits)
  qed
  then show ?thesis by (auto simp: namesCanonical_def)
qed

section \<open>Properties\<close>

text \<open>C40: Only the holder of the old password changes it. A request for a new password, and for nothing before it,
  succeeds exactly when the old password is given and verifies against the stored hash and the new one has a
  length the account's kind allows. Then the new password verifies from there on, and no other account
  changes; otherwise a refusal is answered and nothing at all changes.\<close>
theorem password_change_guarded:
  assumes "derivesKeys (auIDKey s)" and "length salt = argon2SaltLen" and "distinct (map fst (auAccounts S))"
    and "\<not> TLVList_HasTag inBody AdminTLVScreenNameFormatted" and "\<not> TLVList_HasTag inBody AdminTLVEmailAddress"
    and "\<not> TLVList_HasTag inBody AdminTLVRegistrationStatus" and "TLVList_String inBody AdminTLVNewPassword = Some newPass"
  shows "let (r, S') = InfoChangeRequest s parseAddress (Some salt) now you req inBody S; me = ownName you S in
    if \<exists>old u. TLVList_String inBody AdminTLVOldPassword = Some old \<and> findUser (auPlatform s) me (auAccounts S) = Inr (Some u) \<and>
         ValidatePlaintextPass (auIDKey s) u old \<and> passwordLenOk (userIsICQ u) newPass
    then r = passwordReply req None \<and> S' = S\<lparr>auAccounts := auAccounts S'\<rparr> \<and>
      (\<exists>u. findUser (auPlatform s) me (auAccounts S') = Inr (Some u) \<and> ValidatePlaintextPass (auIDKey s) u newPass) \<and>
      (\<forall>n. n \<noteq> me \<longrightarrow> map_of (auAccounts S') n = map_of (auAccounts S) n)
    else S' = S \<and> (\<exists>code. r = passwordReply req (Some code))"
proof -
  let ?me = "ownName you S" and ?t = "auAccounts S" and ?P = "auPlatform s"
  have req: "InfoChangeRequest s parseAddress (Some salt) now you req inBody S = changePassword s (Some salt) you req inBody newPass S"
    using assms(4-7) by (simp add: InfoChangeRequest_def absent_Bytes)
  show ?thesis
  proof (cases "\<exists>old u. TLVList_String inBody AdminTLVOldPassword = Some old \<and> findUser ?P ?me ?t = Inr (Some u) \<and>
      ValidatePlaintextPass (auIDKey s) u old")
    case False
    then have "snd (changePassword s (Some salt) you req inBody newPass S) = S
        \<and> (\<exists>code. fst (changePassword s (Some salt) you req inBody newPass S) = passwordReply req (Some code))"
      by (auto simp: changePassword_def split: option.split sum.split)
    then show ?thesis unfolding req using False by (auto simp: Let_def split: prod.split)
  next
    case True
    then obtain old u where u: "TLVList_String inBody AdminTLVOldPassword = Some old" "findUser ?P ?me ?t = Inr (Some u)"
      "ValidatePlaintextPass (auIDKey s) u old" by blast
    then obtain row where row: "map_of ?t ?me = Some row" "userIsICQ u = userIsICQ (acUser row)"
      unfolding findUser_map [OF assms(3)] by (auto simp: scanUser_def ebind_def split: option.splits sum.splits)
    let ?t' = "updateRow ?me (\<lambda>r. r\<lparr>acPasswordHash := Some (storedHash (auIDKey s) newPass salt)\<rparr>) ?t"
    have set: "accSetUserPassword (auIDKey s) (Some salt) ?me newPass ?t
        = (if passwordLenOk (userIsICQ u) newPass then (None, ?t') else (Some ErrPasswordInvalid, ?t))"
      by (simp add: accSetUserPassword_def row hash_new_password [OF assms(2)])
    show ?thesis
    proof (cases "passwordLenOk (userIsICQ u) newPass")
      case True
      have "distinct (map fst ?t')" using assms(3) by simp
      from findUser_map [OF this] obtain u' where "findUser ?P ?me ?t' = Inr (Some u')"
          "userPasswordHash u' = storedHash (auIDKey s) newPass salt"
        by (simp add: map_of_updateRow row scanUser_def)
      moreover have "changePassword s (Some salt) you req inBody newPass S = (passwordReply req None, S\<lparr>auAccounts := ?t'\<rparr>)"
        using True u set by (simp add: changePassword_def)
      ultimately show ?thesis
        unfolding req using True u Verify_storedHash [OF assms(1,2)]
        by (auto simp: ValidatePlaintextPass_def User_verify_def map_of_updateRow)
    next
      case False
      then have "changePassword s (Some salt) you req inBody newPass S = (passwordReply req (Some AdminInfoErrorInvalidPasswordLength), S)"
        using u set by (simp add: changePassword_def)
      then show ?thesis unfolding req using u False by auto
    qed
  qed
qed

definition samplePasswordRequest :: TLVList where
  "samplePasswordRequest = [\<lparr>Tag = AdminTLVNewPassword, Value = asciiBytes ''closesesame''\<rparr>, \<lparr>Tag = AdminTLVOldPassword, Value = samplePassword\<rparr>]"

lemma password_change_guarded_witness:
  "\<exists>S'. InfoChangeRequest sampleAuth (\<lambda>_. None) (Some sampleSalt) 0 (0, 0) 1 samplePasswordRequest sampleServer = (passwordReply 1 None, S')
    \<and> (\<exists>u. findUser samplePlatform (asciiBytes ''al99'') (auAccounts S') = Inr (Some u)
      \<and> ValidatePlaintextPass (auIDKey sampleAuth) u (asciiBytes ''closesesame''))"
proof -
  have me: "ownName (0, 0) sampleServer = asciiBytes ''al99''" and t: "auAccounts sampleServer = sampleAccounts"
    by (simp_all add: ownName_def sampleServer_def sessionOf_def updInst_def SetDisplayScreenName_def SetIdentScreenName_def
      oneInstance_def NewSession_def)
  have "distinct (map fst (snd (accCreateAccount sampleAuth (Some sampleSalt) sampleName samplePassword [])))"
    by (simp add: accCreateAccount_def accInsertUser_def split: option.split sum.split)
  then have d: "distinct (map fst sampleAccounts)" by (simp add: sample_accounts)
  obtain u where u: "findUser samplePlatform (asciiBytes ''al99'') sampleAccounts = Inr (Some u)"
      "userPasswordHash u = storedHash (auIDKey sampleAuth) samplePassword sampleSalt" "\<not> userIsICQ u"
    using accCreateAccount_None [OF sample_accounts] sample_name by (simp add: newAccountRow_def)
  have "ValidatePlaintextPass (auIDKey sampleAuth) u samplePassword" "passwordLenOk (userIsICQ u) (asciiBytes ''closesesame'')"
    using u Verify_storedHash [OF sample_auth(2) sample_salt, of samplePassword samplePassword]
    by (simp_all add: ValidatePlaintextPass_def User_verify_def passwordLenOk_def asciiBytes_def)
  moreover have "TLVList_String samplePasswordRequest AdminTLVOldPassword = Some samplePassword"
      "TLVList_String samplePasswordRequest AdminTLVNewPassword = Some (asciiBytes ''closesesame'')"
      "\<not> TLVList_HasTag samplePasswordRequest AdminTLVScreenNameFormatted" "\<not> TLVList_HasTag samplePasswordRequest AdminTLVEmailAddress"
      "\<not> TLVList_HasTag samplePasswordRequest AdminTLVRegistrationStatus"
    by (simp_all add: samplePasswordRequest_def)
  ultimately show ?thesis
    using password_change_guarded [OF sample_auth(2) sample_salt, of sampleServer samplePasswordRequest "asciiBytes ''closesesame''"
      "\<lambda>_. None" 0 "(0, 0)" 1] u(1) d
    by (auto simp: me t Let_def split: prod.splits)
qed

text \<open>Whatever a client asks the account service to change, it changes no account but the client's own,
  neither adds nor removes one, and keeps every account filed under the canonical form of its screen name: a new
  screen name is another spelling of the old one.\<close>
theorem account_change_isolated:
  "let S' = snd (InfoChangeRequest s parseAddress rand now you req inBody S) in
    map fst (auAccounts S') = map fst (auAccounts S) \<and>
    (\<forall>n. n \<noteq> ownName you S \<longrightarrow> map_of (auAccounts S') n = map_of (auAccounts S) n) \<and>
    (namesCanonical (auPlatform s) (auAccounts S) \<longrightarrow> namesCanonical (auPlatform s) (auAccounts S'))"
proof -
  obtain f where f: "auAccounts (snd (InfoChangeRequest s parseAddress rand now you req inBody S)) = updateRow (ownName you S) f (auAccounts S)"
    "ownUpdate (auPlatform s) (ownName you S) f"
    using InfoChangeRequest_row by blast
  then show ?thesis by (simp add: Let_def map_of_updateRow namesCanonical_update)
qed

lemma account_change_isolated_witness:
  "let S = sampleServer\<lparr>auAccounts := [(asciiBytes ''al99'', newAccountRow (zeroUser\<lparr>userDisplayScreenName := sampleName\<rparr>)), ([98], newAccountRow zeroUser)]\<rparr>;
       S' = snd (InfoChangeRequest sampleAuth (\<lambda>_. None) None 0 (0, 0) 1 [\<lparr>Tag = AdminTLVScreenNameFormatted, Value = asciiBytes ''AL99''\<rparr>] S)
   in map_of (auAccounts S') [98] = Some (newAccountRow zeroUser)"
proof -
  let ?S = "sampleServer\<lparr>auAccounts := [(asciiBytes ''al99'', newAccountRow (zeroUser\<lparr>userDisplayScreenName := sampleName\<rparr>)), ([98], newAccountRow zeroUser)]\<rparr>"
  have me: "ownName (0, 0) ?S = asciiBytes ''al99''"
    by (simp add: ownName_def sampleServer_def sessionOf_def updInst_def SetDisplayScreenName_def SetIdentScreenName_def
      oneInstance_def NewSession_def)
  have "map_of (auAccounts (snd (InfoChangeRequest sampleAuth (\<lambda>_. None) None 0 (0, 0) 1
      [\<lparr>Tag = AdminTLVScreenNameFormatted, Value = asciiBytes ''AL99''\<rparr>] ?S))) [98] = map_of (auAccounts ?S) [98]"
    using account_change_isolated [of sampleAuth "\<lambda>_. None" None 0 "(0, 0)" 1
      "[\<lparr>Tag = AdminTLVScreenNameFormatted, Value = asciiBytes ''AL99''\<rparr>]" ?S]
    unfolding Let_def me by (simp add: asciiBytes_def)
  then show ?thesis by (simp add: asciiBytes_def Let_def)
qed

end
