(* ===== verification/State_KeyDirectory.thy ===== *)
theory State_KeyDirectory
  imports State_ScreenName "HOL-Library.AList"
begin

text \<open>
  \<open>state/key_directory.go\<close>: the tables of the key directory and the transactions over them. A
  table with a primary key is a list of rows with one row per account, the history table is the
  list of its rows in the order of their autoincrement ids. Each method is one transaction: the
  result is the value and the error it returns, with the store after commit or rollback. A fault
  of the database itself appears only as the foreign key that refuses a row for an unknown user.
\<close>

section \<open>Rows\<close>

datatype keyDirErr = ErrStaleCounter | ErrIdentityPinned | ErrCounterOutOfRange | ErrForeignKey

abbreviation (input) MaxDevicesPerAccount :: nat where "MaxDevicesPerAccount \<equiv> 32"
abbreviation (input) identityBackupHistoryDepth :: nat where "identityBackupHistoryDepth \<equiv> 20"
abbreviation (input) MaxInt64 :: nat where "MaxInt64 \<equiv> 9223372036854775807"

record KeyManifest =
  IdentityAlg :: byte
  IdentityKey :: bytes
  Counter :: u64
  IssuedAt :: int
  Manifest :: bytes
  SigAlg :: byte
  Signature :: bytes

record IdentityBackup =
  KDF :: byte
  Params :: bytes
  Salt :: bytes
  Blob :: bytes
  UpdatedAt :: int

text \<open>A row of \<open>keyDirManifests\<close>: the counter is SQLite's signed integer.\<close>

record manifestRow =
  identityAlg :: byte
  identityKey :: bytes
  counter :: int
  issuedAt :: int
  manifest :: bytes
  sigAlg :: byte
  signature :: bytes

record historyRow =
  rowid :: nat
  account :: IdentScreenName
  superseded :: IdentityBackup
  supersededAt :: int

record KeyDirStore =
  users :: "IdentScreenName list"
  keyDirManifests :: "(IdentScreenName \<times> manifestRow) list"
  keyDirIdentityBackups :: "(IdentScreenName \<times> IdentityBackup) list"
  keyDirIdentityBackupHistory :: "historyRow list"
  nextHistoryId :: nat

definition emptyKeyDir :: "IdentScreenName list \<Rightarrow> KeyDirStore" where
  "emptyKeyDir us = \<lparr>users = us, keyDirManifests = [], keyDirIdentityBackups = [],
     keyDirIdentityBackupHistory = [], nextHistoryId = 1\<rparr>"

definition toRow :: "KeyManifest \<Rightarrow> manifestRow" where
  "toRow m = \<lparr>identityAlg = IdentityAlg m, identityKey = IdentityKey m, counter = sint (Counter m),
     issuedAt = IssuedAt m, manifest = Manifest m, sigAlg = SigAlg m, signature = Signature m\<rparr>"

definition fromRow :: "manifestRow \<Rightarrow> KeyManifest" where
  "fromRow r = \<lparr>IdentityAlg = identityAlg r, IdentityKey = identityKey r,
     Counter = word_of_int (counter r), IssuedAt = issuedAt r, Manifest = manifest r,
     SigAlg = sigAlg r, Signature = signature r\<rparr>"

section \<open>Manifests\<close>

definition getManifest :: "IdentScreenName \<Rightarrow> KeyDirStore \<Rightarrow> KeyManifest option" where
  "getManifest screenName st = map_option fromRow (map_of (keyDirManifests st) screenName)"

definition storeManifest :: "IdentScreenName \<Rightarrow> KeyManifest \<Rightarrow> KeyDirStore
    \<Rightarrow> (u64 \<times> keyDirErr option) \<times> KeyDirStore" where
  "storeManifest screenName m st =
     (if screenName \<notin> set (users st) then ((0, Some ErrForeignKey), st)
      else ((Counter m, None),
        st\<lparr>keyDirManifests := AList.update screenName (toRow m) (keyDirManifests st)\<rparr>))"

definition PublishManifest :: "IdentScreenName \<Rightarrow> KeyManifest \<Rightarrow> KeyDirStore
    \<Rightarrow> (u64 \<times> keyDirErr option) \<times> KeyDirStore" where
  "PublishManifest screenName m st =
     (if unat (Counter m) > MaxInt64 then ((0, Some ErrCounterOutOfRange), st)
      else (case map_of (keyDirManifests st) screenName of
        None \<Rightarrow> storeManifest screenName m st
      | Some r \<Rightarrow>
          if identityAlg r = IdentityAlg m \<and> identityKey r = IdentityKey m then
            (if Counter m \<le> word_of_int (counter r)
             then ((word_of_int (counter r), Some ErrStaleCounter), st)
             else storeManifest screenName m st)
          else ((word_of_int (counter r), Some ErrIdentityPinned), st)))"

section \<open>Backups\<close>

definition getIdentityBackup :: "IdentScreenName \<Rightarrow> KeyDirStore \<Rightarrow> IdentityBackup option" where
  "getIdentityBackup screenName st = map_of (keyDirIdentityBackups st) screenName"

text \<open>\<open>INSERT ... SELECT\<close> of the live row, if there is one.\<close>

definition archiveBackup :: "int \<Rightarrow> IdentScreenName \<Rightarrow> KeyDirStore \<Rightarrow> KeyDirStore" where
  "archiveBackup now screenName st =
     (case getIdentityBackup screenName st of
        None \<Rightarrow> st
      | Some b \<Rightarrow>
          st\<lparr>keyDirIdentityBackupHistory := keyDirIdentityBackupHistory st @
               [\<lparr>rowid = nextHistoryId st, account = screenName, superseded = b, supersededAt = now\<rparr>],
             nextHistoryId := nextHistoryId st + 1\<rparr>)"

definition historyIds :: "IdentScreenName \<Rightarrow> historyRow list \<Rightarrow> nat list" where
  "historyIds screenName rows = map rowid (filter (\<lambda>h. account h = screenName) rows)"

text \<open>\<open>SELECT id ... ORDER BY id DESC LIMIT n\<close> of the account's rows.\<close>

definition newestIds :: "nat \<Rightarrow> IdentScreenName \<Rightarrow> historyRow list \<Rightarrow> nat list" where
  "newestIds n screenName rows = take n (rev (sort (historyIds screenName rows)))"

definition trimIdentityBackupHistory :: "IdentScreenName \<Rightarrow> KeyDirStore \<Rightarrow> KeyDirStore" where
  "trimIdentityBackupHistory screenName st =
     (let rows = keyDirIdentityBackupHistory st; ids = historyIds screenName rows in
      st\<lparr>keyDirIdentityBackupHistory := filter
           (\<lambda>h. \<not> (account h = screenName
                  \<and> rowid h \<noteq> Min (set ids)
                  \<and> rowid h \<notin> set (newestIds (identityBackupHistoryDepth - 1) screenName rows))) rows\<rparr>)"

definition SetIdentityBackup :: "int \<Rightarrow> IdentScreenName \<Rightarrow> IdentityBackup \<Rightarrow> KeyDirStore
    \<Rightarrow> keyDirErr option \<times> KeyDirStore" where
  "SetIdentityBackup now screenName b st =
     (let st1 = trimIdentityBackupHistory screenName (archiveBackup now screenName st) in
      if screenName \<notin> set (users st) then (Some ErrForeignKey, st)
      else (None, st1\<lparr>keyDirIdentityBackups :=
             AList.update screenName (b\<lparr>UpdatedAt := now\<rparr>) (keyDirIdentityBackups st1)\<rparr>))"

definition ClearKeyDirectory :: "int \<Rightarrow> IdentScreenName \<Rightarrow> KeyDirStore \<Rightarrow> bool \<times> KeyDirStore" where
  "ClearKeyDirectory now screenName st =
     (let st1 = trimIdentityBackupHistory screenName (archiveBackup now screenName st);
          nm = (if map_of (keyDirManifests st1) screenName = None then 0 else 1);
          nb = (if map_of (keyDirIdentityBackups st1) screenName = None then 0 else (1 :: nat))
      in (nm + nb > 0,
          st1\<lparr>keyDirManifests := AList.delete screenName (keyDirManifests st1),
              keyDirIdentityBackups := AList.delete screenName (keyDirIdentityBackups st1)\<rparr>))"

definition IdentityBackupHistory :: "IdentScreenName \<Rightarrow> KeyDirStore \<Rightarrow> (IdentityBackup \<times> int) list" where
  "IdentityBackupHistory screenName st =
     map (\<lambda>h. (superseded h, supersededAt h))
       (rev (sort_key rowid (filter (\<lambda>h. account h = screenName) (keyDirIdentityBackupHistory st))))"

section \<open>Well-formed stores and steps\<close>

text \<open>What every transaction keeps: one row per account in the keyed tables, stored counters that are
  not negative, and history ids that grow along the table and stay below the next one.\<close>

definition storeOk :: "KeyDirStore \<Rightarrow> bool" where
  "storeOk st \<longleftrightarrow>
     distinct (map fst (keyDirManifests st)) \<and> distinct (map fst (keyDirIdentityBackups st))
     \<and> (\<forall>(a, r)\<in>set (keyDirManifests st). 0 \<le> counter r \<and> counter r < 2 ^ 63 \<and> a \<in> set (users st))
     \<and> sorted_wrt (<) (map rowid (keyDirIdentityBackupHistory st))
     \<and> (\<forall>h\<in>set (keyDirIdentityBackupHistory st). rowid h < nextHistoryId st)"

inductive clientStep :: "KeyDirStore \<Rightarrow> KeyDirStore \<Rightarrow> bool" where
  publish: "PublishManifest a m st = (r, st') \<Longrightarrow> clientStep st st'"
| backup: "SetIdentityBackup now a b st = (e, st') \<Longrightarrow> clientStep st st'"

inductive storeStep :: "KeyDirStore \<Rightarrow> KeyDirStore \<Rightarrow> bool" where
  client: "clientStep st st' \<Longrightarrow> storeStep st st'"
| clear: "ClearKeyDirectory now a st = (c, st') \<Longrightarrow> storeStep st st'"

section \<open>The archive of one account\<close>

definition historyOf :: "IdentScreenName \<Rightarrow> KeyDirStore \<Rightarrow> historyRow list" where
  "historyOf a st = filter (\<lambda>h. account h = a) (keyDirIdentityBackupHistory st)"

text \<open>The trim on the rows of one account, oldest first: the oldest row and the newest 19.\<close>

definition trimRows :: "'a list \<Rightarrow> 'a list" where
  "trimRows xs = (if xs = [] then [] else hd xs # drop (max 1 (length xs - 19)) xs)"

lemma length_trimRows: "length (trimRows xs) = min 20 (length xs)"
  by (cases xs) (auto simp: trimRows_def)

lemma trimRows_simps [simp]: "trimRows [] = []" "trimRows xs = [] \<longleftrightarrow> xs = []"
  by (auto simp: trimRows_def)

lemma hd_trimRows: "xs \<noteq> [] \<Longrightarrow> hd (trimRows xs) = hd xs"
  by (simp add: trimRows_def)

lemma trimRows_snoc: "xs \<noteq> [] \<Longrightarrow> trimRows (xs @ [x]) = hd xs # drop (max 1 (length xs - 18)) xs @ [x]"
proof -
  assume "xs \<noteq> []"
  then have "max 1 (length xs - 18) \<le> length xs" by (cases xs) auto
  then have "drop (max 1 (length xs - 18)) (xs @ [x]) = drop (max 1 (length xs - 18)) xs @ [x]"
    by (simp only: drop_append diff_is_0_eq drop_0) simp
  moreover have "length (xs @ [x]) - 19 = length xs - 18" by simp
  ultimately show ?thesis using \<open>xs \<noteq> []\<close> by (simp only: trimRows_def) simp
qed

lemma last_trimRows: "last (trimRows (xs @ [x])) = x"
proof (cases "xs = []")
  case False
  then show ?thesis by (subst trimRows_snoc) simp_all
qed (simp add: trimRows_def)

lemma trimRows_short: "length xs \<le> 20 \<Longrightarrow> trimRows xs = xs"
proof -
  assume "length xs \<le> 20"
  then have "max 1 (length xs - 19) = 1" by simp
  then show ?thesis by (cases xs) (simp_all add: trimRows_def)
qed

lemma set_trimRows: "set (trimRows xs) \<subseteq> set xs"
  by (cases xs) (auto simp: trimRows_def dest: in_set_dropD)

lemma filter_newest:
  fixes f :: "'a \<Rightarrow> nat"
  assumes sorted: "sorted_wrt (<) (map f xs)" and ne: "xs \<noteq> []"
  shows "filter (\<lambda>h. f h = f (hd xs) \<or> f h \<in> set (take 19 (rev (map f xs)))) xs = trimRows xs"
proof -
  define j where "j = length xs - 19"
  have newest: "set (take 19 (rev (map f xs))) = f ` set (drop j xs)"
    by (simp add: take_rev drop_map j_def)
  have inj: "inj_on f (set xs)"
    using sorted strict_sorted_iff [of "map f xs"] by (simp add: distinct_map)
  obtain x ys where xs: "xs = x # ys" using ne by (cases xs) auto
  show ?thesis
  proof (cases j)
    case 0
    then have "filter (\<lambda>h. f h = f x \<or> f h \<in> f ` set (drop j xs)) xs = xs"
      by (intro filter_True) auto
    then show ?thesis using 0 by (simp add: newest trimRows_def xs j_def)
  next
    case (Suc i)
    have split: "ys = take i ys @ drop i ys" by simp
    have dist: "distinct xs" using sorted strict_sorted_iff [of "map f xs"] distinct_map by blast
    have "f h \<noteq> f x \<and> f h \<notin> f ` set (drop i ys)" if h: "h \<in> set (take i ys)" for h
    proof -
      have ys: "h \<in> set ys" using h by (rule in_set_takeD)
      have "set (take i ys) \<inter> set (drop i ys) = {}"
        using dist by (intro set_take_disj_set_drop_if_distinct) (auto simp: xs)
      then have "h \<noteq> x" "h \<notin> set (drop i ys)" using h ys dist by (auto simp: xs)
      moreover have "f h = f k \<longleftrightarrow> h = k" if "k = x \<or> k \<in> set (drop i ys)" for k
        using that ys set_drop_subset [of i ys] by (intro inj_on_eq_iff [OF inj]) (auto simp: xs)
      ultimately show ?thesis by (metis imageE)
    qed
    then have "filter (\<lambda>h. f h = f x \<or> f h \<in> f ` set (drop i ys)) (take i ys) = []"
      by (simp add: filter_empty_conv)
    moreover have "filter (\<lambda>h. f h = f x \<or> f h \<in> f ` set (drop i ys)) (drop i ys) = drop i ys"
      by (intro filter_True) auto
    ultimately have "filter (\<lambda>h. f h = f x \<or> f h \<in> f ` set (drop i ys)) ys = drop i ys"
      by (subst split) (simp only: filter_append append_Nil)
    then have "filter (\<lambda>h. f h = f (hd xs) \<or> f h \<in> f ` set (drop j xs)) xs = x # drop i ys"
      using Suc by (simp add: xs)
    moreover have "trimRows xs = x # drop i ys"
      using Suc by (simp add: trimRows_def xs j_def max_def)
    ultimately show ?thesis by (simp only: newest)
  qed
qed

lemma storeOk_history:
  assumes "storeOk st"
  shows "sorted_wrt (<) (map rowid (historyOf a st))"
    and "historyIds a (keyDirIdentityBackupHistory st) = map rowid (historyOf a st)"
  using assms by (auto simp: storeOk_def historyOf_def historyIds_def sorted_wrt_map intro: sorted_wrt_filter)

text \<open>The SQL statement with its two subqueries keeps exactly the oldest row and the newest 19.\<close>

lemma historyOf_trim:
  assumes sorted: "sorted_wrt (<) (map rowid (keyDirIdentityBackupHistory st))"
  shows "historyOf a (trimIdentityBackupHistory a st) = trimRows (historyOf a st)"
    and "b \<noteq> a \<Longrightarrow> historyOf b (trimIdentityBackupHistory a st) = historyOf b st"
proof -
  let ?xs = "historyOf a st"
  let ?ids = "historyIds a (keyDirIdentityBackupHistory st)"
  have ids: "?ids = map rowid ?xs" by (simp add: historyIds_def historyOf_def)
  have srt: "sorted_wrt (<) (map rowid ?xs)"
    using sorted by (simp add: historyOf_def sorted_wrt_map sorted_wrt_filter)
  then have sorted_ids: "sorted ?ids" by (simp add: ids strict_sorted_imp_sorted)
  have newest: "newestIds 19 a (keyDirIdentityBackupHistory st) = take 19 (rev (map rowid ?xs))"
    using sorted_ids by (simp add: newestIds_def sorted_sort_id ids)
  have least: "Min (set ?ids) = rowid (hd ?xs)" if "?xs \<noteq> []"
    using that sorted_ids by (cases ?xs) (auto simp: ids intro: Min_eqI)
  have "historyOf a (trimIdentityBackupHistory a st)
      = filter (\<lambda>h. rowid h = Min (set ?ids) \<or> rowid h \<in> set (take 19 (rev (map rowid ?xs)))) ?xs"
    by (auto simp: trimIdentityBackupHistory_def Let_def historyOf_def [of a] newest [unfolded historyOf_def]
        conj_commute intro!: filter_cong)
  also have "\<dots> = trimRows ?xs"
    using srt least by (cases "?xs = []") (simp_all add: filter_newest)
  finally show "historyOf a (trimIdentityBackupHistory a st) = trimRows ?xs" .
  show "historyOf b (trimIdentityBackupHistory a st) = historyOf b st" if "b \<noteq> a"
    using that by (auto simp: trimIdentityBackupHistory_def Let_def historyOf_def intro!: filter_cong)
qed

lemma trim_fields [simp]:
  "users (trimIdentityBackupHistory a st) = users st"
  "keyDirManifests (trimIdentityBackupHistory a st) = keyDirManifests st"
  "keyDirIdentityBackups (trimIdentityBackupHistory a st) = keyDirIdentityBackups st"
  "nextHistoryId (trimIdentityBackupHistory a st) = nextHistoryId st"
  by (simp_all add: trimIdentityBackupHistory_def Let_def)

lemma archive_fields [simp]:
  "users (archiveBackup now a st) = users st"
  "keyDirManifests (archiveBackup now a st) = keyDirManifests st"
  "keyDirIdentityBackups (archiveBackup now a st) = keyDirIdentityBackups st"
  by (simp_all add: archiveBackup_def split: option.splits)

lemma sorted_archive:
  assumes "storeOk st"
  shows "sorted_wrt (<) (map rowid (keyDirIdentityBackupHistory (archiveBackup now a st)))"
    and "\<forall>h\<in>set (keyDirIdentityBackupHistory (archiveBackup now a st)).
      rowid h < nextHistoryId (archiveBackup now a st)"
  using assms
  by (auto simp: archiveBackup_def storeOk_def sorted_wrt_append split: option.splits)

lemma historyOf_archive:
  "historyOf b (archiveBackup now a st) = historyOf b st @
     (case getIdentityBackup a st of
        None \<Rightarrow> []
      | Some x \<Rightarrow> if a = b then [\<lparr>rowid = nextHistoryId st, account = a, superseded = x, supersededAt = now\<rparr>]
                  else [])"
  by (simp add: archiveBackup_def historyOf_def split: option.splits)

lemma sorted_trim:
  assumes "sorted_wrt (<) (map rowid (keyDirIdentityBackupHistory st))"
  shows "sorted_wrt (<) (map rowid (keyDirIdentityBackupHistory (trimIdentityBackupHistory a st)))"
    and "set (keyDirIdentityBackupHistory (trimIdentityBackupHistory a st))
      \<subseteq> set (keyDirIdentityBackupHistory st)"
  using assms by (auto simp: trimIdentityBackupHistory_def Let_def sorted_wrt_map sorted_wrt_filter)

section \<open>The contract of the manifest directory\<close>

definition sameIdentity :: "KeyManifest \<Rightarrow> KeyManifest \<Rightarrow> bool" where
  "sameIdentity m n \<longleftrightarrow> IdentityAlg m = IdentityAlg n \<and> IdentityKey m = IdentityKey n"

text \<open>
  What the services above rely on: a publish that reports no error is the manifest read back, one
  that reports an error changes nothing, a publish concerns one account, and over a stored manifest
  only the same identity with a larger counter gets through. A step of the store is a publish or
  leaves the manifests alone.
\<close>

locale manifest_directory =
  fixes getM :: "'a \<Rightarrow> 's \<Rightarrow> KeyManifest option"
    and publish :: "'a \<Rightarrow> KeyManifest \<Rightarrow> 's \<Rightarrow> (u64 \<times> 'e option) \<times> 's"
    and step :: "'s \<Rightarrow> 's \<Rightarrow> bool"
  assumes publish_ok: "publish a m s = ((c, None), s') \<Longrightarrow> c = Counter m \<and> getM a s' = Some m"
    and publish_err: "publish a m s = ((c, Some e), s') \<Longrightarrow> s' = s"
    and publish_other: "publish a m s = (r, s') \<Longrightarrow> b \<noteq> a \<Longrightarrow> getM b s' = getM b s"
    and publish_newer: "publish a m s = ((c, None), s') \<Longrightarrow> getM a s = Some old \<Longrightarrow>
      sameIdentity old m \<and> Counter old < Counter m"
    and step_cases: "step s s' \<Longrightarrow> (\<exists>a m r. publish a m s = (r, s')) \<or> (\<forall>b. getM b s' = getM b s)"
begin

lemma step_keeps:
  assumes "step s s'" and old: "getM a s = Some old"
  shows "\<exists>new. getM a s' = Some new \<and> sameIdentity old new \<and> (new = old \<or> Counter old < Counter new)"
proof (cases "getM a s' = getM a s")
  case False
  then obtain b m r where pub: "publish b m s = (r, s')" using step_cases [OF assms(1)] by metis
  obtain c e where r: "r = (c, e)" by (cases r)
  have "a = b" using publish_other [OF pub] False by metis
  moreover have "e = None" using publish_err [of b m s c _ s'] pub r False by (cases e) auto
  ultimately have "getM a s' = Some m" "sameIdentity old m \<and> Counter old < Counter m"
    using publish_ok publish_newer pub r old by blast+
  then show ?thesis by blast
qed (auto simp: old sameIdentity_def)

lemma steps_keep:
  assumes "step\<^sup>*\<^sup>* s s'" and "getM a s = Some old"
  shows "\<exists>new. getM a s' = Some new \<and> sameIdentity old new \<and> (new = old \<or> Counter old < Counter new)"
  using assms
proof (induction rule: rtranclp_induct)
  case base
  then show ?case by (auto simp: sameIdentity_def)
next
  case (step y z)
  then obtain mid where mid: "getM a y = Some mid" "sameIdentity old mid"
    "mid = old \<or> Counter old < Counter mid" by blast
  obtain new where "getM a z = Some new" "sameIdentity mid new" "new = mid \<or> Counter mid < Counter new"
    using step_keeps [OF step.hyps(2) mid(1)] by blast
  with mid show ?case by (auto simp: sameIdentity_def)
qed

lemma publish_stale: "getM a s = Some old \<Longrightarrow> Counter m \<le> Counter old \<Longrightarrow> snd (publish a m s) = s"
  using publish_newer [of a m s] publish_err [of a m s]
  by (cases "publish a m s"; cases "fst (publish a m s)"; cases "snd (fst (publish a m s))") fastforce+

end

lemma fromRow_toRow [simp]: "fromRow (toRow m) = m"
  by (simp add: fromRow_def toRow_def)

lemma getManifest_eq_Some:
  "getManifest a st = Some m \<longleftrightarrow> (\<exists>r. map_of (keyDirManifests st) a = Some r \<and> m = fromRow r)"
  by (auto simp: getManifest_def)

lemma fromRow_sel [simp]:
  "IdentityAlg (fromRow r) = identityAlg r" "IdentityKey (fromRow r) = identityKey r"
  "Counter (fromRow r) = word_of_int (counter r)"
  by (simp_all add: fromRow_def)

lemma storeManifest_ok:
  "a \<in> set (users st) \<Longrightarrow> storeManifest a m st =
     ((Counter m, None), st\<lparr>keyDirManifests := AList.update a (toRow m) (keyDirManifests st)\<rparr>)"
  by (simp add: storeManifest_def)

text \<open>The outcome of a publish, by the manifest the account holds.\<close>

lemma PublishManifest_eq:
  "PublishManifest a m st =
     (if unat (Counter m) > MaxInt64 then ((0, Some ErrCounterOutOfRange), st)
      else (case getManifest a st of
        None \<Rightarrow> storeManifest a m st
      | Some old \<Rightarrow>
          if \<not> sameIdentity old m then ((Counter old, Some ErrIdentityPinned), st)
          else if Counter m \<le> Counter old then ((Counter old, Some ErrStaleCounter), st)
          else storeManifest a m st))"
  by (simp add: PublishManifest_def getManifest_def sameIdentity_def split: option.splits)

lemma getManifest_store:
  "storeManifest a m st = ((c, None), st') \<Longrightarrow> getManifest b st' = (if b = a then Some m else getManifest b st)"
  by (auto simp: storeManifest_def getManifest_def update_conv split: if_splits)

lemma storeManifest_err: "storeManifest a m st = ((c, Some e), st') \<Longrightarrow> st' = st"
  by (simp add: storeManifest_def split: if_splits)

lemma storeManifest_counter: "storeManifest a m st = ((c, None), st') \<Longrightarrow> c = Counter m"
  by (simp add: storeManifest_def split: if_splits)

lemma PublishManifest_ok:
  "PublishManifest a m st = ((c, None), st') \<longleftrightarrow>
     unat (Counter m) \<le> MaxInt64 \<and> storeManifest a m st = ((c, None), st')
     \<and> (\<forall>old. getManifest a st = Some old \<longrightarrow> sameIdentity old m \<and> Counter old < Counter m)"
  by (auto simp: PublishManifest_eq not_le split: option.splits if_splits)

lemma PublishManifest_err: "PublishManifest a m st = ((c, Some e), st') \<Longrightarrow> st' = st"
  by (auto simp: PublishManifest_eq dest: storeManifest_err split: option.splits if_splits)

lemma SetIdentityBackup_manifests:
  "SetIdentityBackup now a b st = (e, st') \<Longrightarrow> getManifest x st' = getManifest x st"
  by (auto simp: SetIdentityBackup_def Let_def getManifest_def split: if_splits)

interpretation keydir: manifest_directory getManifest PublishManifest clientStep
proof unfold_locales
  fix a m s c s'
  assume p: "PublishManifest a m s = ((c, None), s')"
  then show "c = Counter m \<and> getManifest a s' = Some m"
    by (auto simp: PublishManifest_ok getManifest_store dest: storeManifest_counter)
  show "sameIdentity old m \<and> Counter old < Counter m" if "getManifest a s = Some old" for old
    using p that by (simp add: PublishManifest_ok)
next
  fix a b :: IdentScreenName and m s r s'
  assume p: "PublishManifest a m s = (r, s')" and "b \<noteq> a"
  obtain c e where r: "r = (c, e)" by (cases r)
  show "getManifest b s' = getManifest b s"
  proof (cases e)
    case None
    then show ?thesis using p r \<open>b \<noteq> a\<close> by (auto simp: PublishManifest_ok getManifest_store)
  next
    case (Some x)
    then show ?thesis using p r PublishManifest_err by metis
  qed
next
  fix s s'
  assume "clientStep s s'"
  then show "(\<exists>a m r. PublishManifest a m s = (r, s')) \<or> (\<forall>b. getManifest b s' = getManifest b s)"
    by cases (auto dest: SetIdentityBackup_manifests)
qed (rule PublishManifest_err)

section \<open>Archiving and the invariant\<close>

definition archivedRow :: "int \<Rightarrow> IdentScreenName \<Rightarrow> KeyDirStore \<Rightarrow> historyRow list" where
  "archivedRow now a st =
     (case getIdentityBackup a st of
        None \<Rightarrow> []
      | Some b \<Rightarrow> [\<lparr>rowid = nextHistoryId st, account = a, superseded = b, supersededAt = now\<rparr>])"

lemma archived_history:
  assumes "storeOk st"
  shows "historyOf a (trimIdentityBackupHistory a (archiveBackup now a st))
      = trimRows (historyOf a st @ archivedRow now a st)"
    and "b \<noteq> a \<Longrightarrow> historyOf b (trimIdentityBackupHistory a (archiveBackup now a st)) = historyOf b st"
  using historyOf_trim [OF sorted_archive(1) [OF assms]] 
  by (simp_all add: historyOf_archive archivedRow_def split: option.splits)

lemma historyOf_fields [simp]:
  "historyOf a (st\<lparr>keyDirManifests := x\<rparr>) = historyOf a st"
  "historyOf a (st\<lparr>keyDirIdentityBackups := y\<rparr>) = historyOf a st"
  by (simp_all add: historyOf_def)

lemma SetIdentityBackup_history:
  assumes "SetIdentityBackup now a b st = (e, st')" and "storeOk st"
  shows "historyOf x st' = (if e = None \<and> x = a then trimRows (historyOf a st @ archivedRow now a st)
    else historyOf x st)"
  using assms archived_history [OF assms(2)]
  by (auto simp: SetIdentityBackup_def Let_def split: if_splits)

lemma ClearKeyDirectory_history:
  assumes "ClearKeyDirectory now a st = (c, st')" and "storeOk st"
  shows "historyOf x st' = (if x = a then trimRows (historyOf a st @ archivedRow now a st)
    else historyOf x st)"
  using assms archived_history [OF assms(2)] by (auto simp: ClearKeyDirectory_def Let_def)

lemma PublishManifest_fields:
  "PublishManifest a m st = (r, st') \<Longrightarrow> keyDirIdentityBackupHistory st' = keyDirIdentityBackupHistory st
     \<and> keyDirIdentityBackups st' = keyDirIdentityBackups st \<and> users st' = users st
     \<and> nextHistoryId st' = nextHistoryId st"
  by (auto simp: PublishManifest_eq storeManifest_def split: option.splits if_splits)

lemma sint_counter:
  assumes "unat (c :: u64) \<le> MaxInt64"
  shows "0 \<le> sint c \<and> sint c < 2 ^ 63"
proof -
  have u: "uint c = int (unat c)" by simp
  have "int (unat c) \<le> 9223372036854775807" using assms by linarith
  then have "uint c < 2 ^ 63" unfolding u by simp
  moreover have "- (2 ^ 63) \<le> uint c" by (rule order_trans [OF _ uint_ge_0]) simp
  ultimately have "sint c = uint c" unfolding sint_uint by (intro signed_take_bit_int_eq_self) simp_all
  then show ?thesis using \<open>uint c < 2 ^ 63\<close> by simp
qed

lemma in_set_update: "x \<in> set (AList.update k v xs) \<Longrightarrow> x = (k, v) \<or> x \<in> set xs"
  by (induction xs) (auto split: if_splits)

lemma in_set_delete: "x \<in> set (AList.delete k xs) \<Longrightarrow> x \<in> set xs"
  by (induction xs) (auto split: if_splits)

lemma storeOk_PublishManifest:
  assumes p: "PublishManifest a m st = (r, st')" and ok: "storeOk st"
  shows "storeOk st'"
proof (cases "st' = st")
  case False
  then obtain c where "r = (c, None)" using p PublishManifest_err by (metis (full_types) not_None_eq prod.collapse)
  with p have m: "unat (Counter m) \<le> MaxInt64" and s: "storeManifest a m st = ((c, None), st')"
    by (simp_all add: PublishManifest_ok)
  have st': "st' = st\<lparr>keyDirManifests := AList.update a (toRow m) (keyDirManifests st)\<rparr>"
    and a: "a \<in> set (users st)"
    using s by (auto simp: storeManifest_def split: if_splits)
  have "0 \<le> counter r \<and> counter r < 2 ^ 63 \<and> x \<in> set (users st)"
    if "(x, r) \<in> set (AList.update a (toRow m) (keyDirManifests st))" for x r
    using in_set_update [OF that] a sint_counter [OF m] ok
    by (auto simp: toRow_def storeOk_def)
  with ok show ?thesis by (auto simp: storeOk_def st' distinct_update)
qed (use ok in simp)

lemma storeOk_archived:
  assumes "storeOk st"
  shows "storeOk (trimIdentityBackupHistory a (archiveBackup now a st))"
  using assms sorted_archive [OF assms] sorted_trim [OF sorted_archive(1) [OF assms]]
  unfolding storeOk_def by (auto simp: subset_iff)

lemma storeOk_SetIdentityBackup:
  "SetIdentityBackup now a b st = (e, st') \<Longrightarrow> storeOk st \<Longrightarrow> storeOk st'"
  using storeOk_archived [of st a now]
  by (auto simp: SetIdentityBackup_def Let_def storeOk_def distinct_update split: if_splits)

lemma storeOk_ClearKeyDirectory:
  "ClearKeyDirectory now a st = (c, st') \<Longrightarrow> storeOk st \<Longrightarrow> storeOk st'"
  using storeOk_archived [of st a now] in_set_delete [of _ a "keyDirManifests st"]
  by (fastforce simp: ClearKeyDirectory_def Let_def storeOk_def distinct_delete)

lemma storeOk_step: "storeStep st st' \<Longrightarrow> storeOk st \<Longrightarrow> storeOk st'"
  by (auto elim!: storeStep.cases clientStep.cases
      dest: storeOk_PublishManifest storeOk_SetIdentityBackup storeOk_ClearKeyDirectory)

text \<open>What a step does to the archive of an account: nothing, or one archiving and the trim.\<close>

lemma step_history:
  assumes "storeStep st st'" and "storeOk st"
  shows "historyOf x st' = historyOf x st
    \<or> (\<exists>now. historyOf x st' = trimRows (historyOf x st @ archivedRow now x st))"
  using assms
proof (cases rule: storeStep.cases)
  case client
  then show ?thesis
  proof (cases rule: clientStep.cases)
    case (publish a m r)
    then show ?thesis by (simp add: historyOf_def PublishManifest_fields)
  next
    case (backup now a b e)
    then show ?thesis using SetIdentityBackup_history [OF backup assms(2)] by metis
  qed
next
  case (clear now a c)
  then show ?thesis using ClearKeyDirectory_history [OF clear assms(2)] by metis
qed

definition keyDirInvar :: "KeyDirStore \<Rightarrow> bool" where
  "keyDirInvar st \<longleftrightarrow>
     storeOk st \<and> list_all (\<lambda>h. length (historyOf (account h) st) \<le> 20) (keyDirIdentityBackupHistory st)"

lemma historyOf_bound:
  "list_all (\<lambda>h. length (historyOf (account h) st) \<le> 20) (keyDirIdentityBackupHistory st)
     \<longleftrightarrow> (\<forall>a. length (historyOf a st) \<le> 20)"
proof
  assume b: "list_all (\<lambda>h. length (historyOf (account h) st) \<le> 20) (keyDirIdentityBackupHistory st)"
  show "\<forall>a. length (historyOf a st) \<le> 20"
  proof
    fix a
    show "length (historyOf a st) \<le> 20"
    proof (cases "historyOf a st")
      case (Cons h hs)
      then have "h \<in> set (historyOf a st)" by simp
      then have "h \<in> set (keyDirIdentityBackupHistory st) \<and> account h = a" by (simp add: historyOf_def)
      with b show ?thesis by (auto simp: list_all_iff)
    qed simp
  qed
qed (simp add: list_all_iff)

interpretation keydir_store: invariant_system "\<lambda>st. \<exists>us. st = emptyKeyDir us" storeStep keyDirInvar
proof
  show "keyDirInvar st" if "\<exists>us. st = emptyKeyDir us" for st
    using that by (auto simp: keyDirInvar_def storeOk_def emptyKeyDir_def)
  show "keyDirInvar t" if s: "keyDirInvar s" "storeStep s t" for s t
  proof -
    have ok: "storeOk s" using s by (simp add: keyDirInvar_def)
    have "length (historyOf a t) \<le> 20" for a
      using step_history [OF s(2) ok, of a] s(1)
      by (auto simp: keyDirInvar_def historyOf_bound length_trimRows)
      with storeOk_step [OF s(2) ok] show ?thesis by (simp add: keyDirInvar_def list_all_iff)
  qed
qed

text \<open>The first backup an account ever stored: the oldest archived row, or the live one.\<close>

definition originalBackup :: "IdentScreenName \<Rightarrow> KeyDirStore \<Rightarrow> IdentityBackup option" where
  "originalBackup a st =
     (case historyOf a st of h # hs \<Rightarrow> Some (superseded h) | [] \<Rightarrow> getIdentityBackup a st)"

lemma trimRows_original:
  assumes "originalBackup a st = Some b" and "historyOf a st' = trimRows (historyOf a st @ archivedRow now a st)"
  shows "originalBackup a st' = Some b"
  using assms
  by (cases "historyOf a st") (auto simp: originalBackup_def archivedRow_def trimRows_def split: option.splits)

lemma backups_step:
  assumes "storeStep st st'" and "storeOk st"
  shows "getIdentityBackup a st' = getIdentityBackup a st
    \<or> (\<exists>now. historyOf a st' = trimRows (historyOf a st @ archivedRow now a st))"
  using assms(1)
proof (cases rule: storeStep.cases)
  case client
  then show ?thesis
  proof (cases rule: clientStep.cases)
    case (publish b m r)
    then show ?thesis by (simp add: getIdentityBackup_def PublishManifest_fields)
  next
    case (backup now c b e)
    then show ?thesis
      using SetIdentityBackup_history [OF backup assms(2)]
      by (cases "a = c"; cases e)
        (auto simp: SetIdentityBackup_def Let_def getIdentityBackup_def update_conv split: if_splits)
  qed
next
  case (clear now c d)
  then show ?thesis
    using ClearKeyDirectory_history [OF clear assms(2)]
    by (cases "a = c") (auto simp: ClearKeyDirectory_def Let_def getIdentityBackup_def delete_conv)
qed

lemma originalBackup_step:
  assumes "storeStep st st'" and "storeOk st" and "originalBackup a st = Some b"
  shows "originalBackup a st' = Some b"
proof (cases "\<exists>now. historyOf a st' = trimRows (historyOf a st @ archivedRow now a st)")
  case True
  then show ?thesis using trimRows_original [OF assms(3)] by blast
next
  case False
  then have "historyOf a st' = historyOf a st" "getIdentityBackup a st' = getIdentityBackup a st"
    using step_history [OF assms(1,2)] backups_step [OF assms(1,2)] by blast+
  then show ?thesis using assms(3) by (simp add: originalBackup_def split: list.splits)
qed

section \<open>Properties\<close>


definition sampleManifest :: "byte \<Rightarrow> u64 \<Rightarrow> KeyManifest" where
  "sampleManifest k c = \<lparr>IdentityAlg = 2, IdentityKey = [k], Counter = c, IssuedAt = 0,
     Manifest = [1, 2], SigAlg = 2, Signature = [3]\<rparr>"

definition sampleStore :: KeyDirStore where
  "sampleStore = snd (PublishManifest [97] (sampleManifest 7 5) (emptyKeyDir [[97], [98]]))"

lemmas sample_eval = sampleStore_def sampleManifest_def PublishManifest_def storeManifest_def
  emptyKeyDir_def getManifest_def toRow_def fromRow_def sameIdentity_def


text \<open>C4: The identity is pinned and the counter cannot roll back: over any sequence of client
  requests (publishes and backups of any account, in any order), an account that holds a manifest
  keeps one under the same identity key, and it is either the very same manifest or one with a
  larger counter.\<close>
theorem identity_pinned:
  assumes "clientStep\<^sup>*\<^sup>* st st'" and "getManifest a st = Some old"
  shows "\<exists>new. getManifest a st' = Some new \<and> sameIdentity old new
    \<and> (new = old \<or> Counter old < Counter new)"
  using assms by (rule keydir.steps_keep)

theorem identity_pinned_witness:
  "\<exists>new. getManifest [97] (snd (PublishManifest [97] (sampleManifest 8 9) sampleStore)) = Some new
     \<and> sameIdentity (sampleManifest 7 5) new"
  using identity_pinned [of sampleStore
      "snd (PublishManifest [97] (sampleManifest 8 9) sampleStore)" "[97]" "sampleManifest 7 5"]
    clientStep.publish [of "[97]" "sampleManifest 8 9" sampleStore
      "fst (PublishManifest [97] (sampleManifest 8 9) sampleStore)"
      "snd (PublishManifest [97] (sampleManifest 8 9) sampleStore)"]
  by (auto simp: r_into_rtranclp sample_eval)

text \<open>C6: The first backup an account ever stored is never lost: whatever clients write and
  administrators clear afterwards, it is either still the live backup or the oldest archived row,
  unchanged. The archive itself never exceeds 20 rows per account.\<close>
theorem original_backup_never_lost:
  assumes "storeStep\<^sup>*\<^sup>* (emptyKeyDir us) st" and "storeStep\<^sup>*\<^sup>* st st'"
    and "originalBackup a st = Some b"
  shows "originalBackup a st' = Some b \<and> length (IdentityBackupHistory a st') \<le> 20"
proof -
  have reach: "keyDirInvar st" "keyDirInvar st'"
    using keydir_store.invar_reachable [OF assms(1)] keydir_store.invar_steps [OF assms(2)] by blast+
  have "keyDirInvar x \<and> originalBackup a x = Some b" if "storeStep\<^sup>*\<^sup>* st x" for x
    using that
  proof (induction rule: rtranclp_induct)
    case base
    then show ?case using reach(1) assms(3) by simp
  next
    case (step y z)
    then have y: "keyDirInvar y" "originalBackup a y = Some b" by simp_all
    then have "storeOk y" by (simp add: keyDirInvar_def)
    with y show ?case
      using keydir_store.invar_step [OF y(1) step.hyps(2)] originalBackup_step [OF step.hyps(2)] by blast
  qed
  moreover have "length (IdentityBackupHistory a st') = length (historyOf a st')"
    by (simp add: IdentityBackupHistory_def historyOf_def)
  ultimately show ?thesis
    using assms(2) reach(2) by (simp add: keyDirInvar_def historyOf_bound)
qed

definition sampleBackup :: "byte \<Rightarrow> IdentityBackup" where
  "sampleBackup b = \<lparr>KDF = 1, Params = [], Salt = [1], Blob = [b], UpdatedAt = 0\<rparr>"

definition withBackup :: "byte \<Rightarrow> KeyDirStore \<Rightarrow> KeyDirStore" where
  "withBackup b st = snd (SetIdentityBackup 0 [97] (sampleBackup b) st)"

lemma withBackup_step: "storeStep st (withBackup b st)"
  by (auto simp: withBackup_def intro!: storeStep.client clientStep.backup prod.collapse [symmetric])

theorem original_backup_never_lost_witness:
  "originalBackup [97] (withBackup 3 (withBackup 2 (withBackup 1 (emptyKeyDir [[97]]))))
     = Some (sampleBackup 1)"
proof -
  have "originalBackup [97] (withBackup 1 (emptyKeyDir [[97]])) = Some (sampleBackup 1)"
    by (simp add: withBackup_def SetIdentityBackup_def archiveBackup_def trimIdentityBackupHistory_def
        getIdentityBackup_def originalBackup_def historyOf_def emptyKeyDir_def sampleBackup_def)
  moreover have "storeStep\<^sup>*\<^sup>* (withBackup 1 (emptyKeyDir [[97]]))
      (withBackup 3 (withBackup 2 (withBackup 1 (emptyKeyDir [[97]]))))"
    using withBackup_step [of "withBackup 1 (emptyKeyDir [[97]])" 2]
      withBackup_step [of "withBackup 2 (withBackup 1 (emptyKeyDir [[97]]))" 3]
    by (rule converse_rtranclp_into_rtranclp [OF _ r_into_rtranclp])
  ultimately show ?thesis
    using original_backup_never_lost [OF r_into_rtranclp
        [of storeStep, OF withBackup_step [of "emptyKeyDir [[97]]" 1]]] by blast
qed

text \<open>C21: Replacing a backup of an existing account makes the new one the live one, stamped with the time, and the archive
  of the account becomes, by its oldest row and the newest 19, what it was with the replaced
  backup added; the answer lists it most recently replaced first. Other accounts' backups and
  archives are untouched.\<close>
theorem SetIdentityBackup_correct:
  assumes "storeOk st" and "a \<in> set (users st)" and "SetIdentityBackup now a b st = (e, st')"
  shows "e = None \<and> getIdentityBackup a st' = Some (b\<lparr>UpdatedAt := now\<rparr>)
    \<and> historyOf a st' = trimRows (historyOf a st @ archivedRow now a st)
    \<and> (\<forall>p. getIdentityBackup a st = Some p \<longrightarrow>
        (\<exists>rest. IdentityBackupHistory a st' = (p, now) # rest))
    \<and> (\<forall>x. x \<noteq> a \<longrightarrow> getIdentityBackup x st' = getIdentityBackup x st
        \<and> IdentityBackupHistory x st' = IdentityBackupHistory x st)"
proof -
  have e: "e = None" and live: "getIdentityBackup x st' =
      (if x = a then Some (b\<lparr>UpdatedAt := now\<rparr>) else getIdentityBackup x st)" for x
    using assms(2,3) by (auto simp: SetIdentityBackup_def Let_def getIdentityBackup_def update_conv split: if_splits)
  have hist: "historyOf x st' = (if x = a then trimRows (historyOf a st @ archivedRow now a st)
      else historyOf x st)" for x
    using SetIdentityBackup_history [OF assms(3,1)] e by simp
  have order: "IdentityBackupHistory x s = map (\<lambda>h. (superseded h, supersededAt h)) (rev (historyOf x s))"
    if "storeOk s" for x s
  proof -
    have "sorted (map rowid (historyOf x s))"
      using storeOk_history(1) [OF that] by (simp add: strict_sorted_imp_sorted)
    then show ?thesis
      by (simp add: IdentityBackupHistory_def historyOf_def [symmetric] sorted_sort_id sort_key_id_if_sorted)
  qed
  have ok': "storeOk st'" using storeOk_SetIdentityBackup [OF assms(3,1)] .
  have "\<exists>rest. IdentityBackupHistory a st' = (p, now) # rest" if p: "getIdentityBackup a st = Some p" for p
  proof -
    obtain ys where ys: "historyOf a st' = ys @ archivedRow now a st"
    proof
      have "archivedRow now a st \<noteq> []" "length (archivedRow now a st) = 1" using p by (simp_all add: archivedRow_def)
      then show "historyOf a st' = butlast (historyOf a st') @ archivedRow now a st"
        using hist [of a] p append_butlast_last_id [of "historyOf a st'"]
        by (simp add: archivedRow_def last_trimRows)
    qed
    then show ?thesis using p by (simp add: order [OF ok'] archivedRow_def)
  qed
  then show ?thesis
    using e live hist order [OF ok'] order [OF assms(1)] by simp
qed

theorem SetIdentityBackup_correct_witness:
  "getIdentityBackup [97] (withBackup 2 (withBackup 1 (emptyKeyDir [[97]]))) = Some (sampleBackup 2)"
proof -
  let ?st = "withBackup 1 (emptyKeyDir [[97]])"
  have "keyDirInvar (emptyKeyDir [[97]])" using keydir_store.invar_start by blast
  then have "keyDirInvar ?st" using withBackup_step by (rule keydir_store.invar_step)
  then have "storeOk ?st" by (simp add: keyDirInvar_def)
  moreover have "[97] \<in> set (users ?st)"
    by (simp add: withBackup_def SetIdentityBackup_def emptyKeyDir_def)
  ultimately show ?thesis
    using SetIdentityBackup_correct [of ?st "[97]" 0 "sampleBackup 2" _ "withBackup 2 ?st"]
    by (simp add: withBackup_def [of 2] sampleBackup_def) (metis prod.collapse)
qed

text \<open>Clearing an account's directory reports whether there was anything to clear, leaves the
  account with no manifest and no live backup, archives the live backup rather than losing it, and
  so lets the next publish through under any identity; other accounts keep their manifests.\<close>
theorem ClearKeyDirectory_correct:
  assumes "storeOk st" and "a \<in> set (users st)" and "ClearKeyDirectory now a st = (c, st')"
  shows "(c \<longleftrightarrow> getManifest a st \<noteq> None \<or> getIdentityBackup a st \<noteq> None)
    \<and> getManifest a st' = None \<and> getIdentityBackup a st' = None
    \<and> (\<forall>b. getIdentityBackup a st = Some b \<longrightarrow> superseded (last (historyOf a st')) = b)
    \<and> (\<forall>m. unat (Counter m) < 2 ^ 63 \<longrightarrow> fst (PublishManifest a m st') = (Counter m, None))
    \<and> (\<forall>x. x \<noteq> a \<longrightarrow> getManifest x st' = getManifest x st)"
proof -
  have man: "getManifest x st' = (if x = a then None else getManifest x st)"
    and live: "getIdentityBackup a st' = None" and us: "users st' = users st"
    and c: "c \<longleftrightarrow> getManifest a st \<noteq> None \<or> getIdentityBackup a st \<noteq> None" for x
    using assms(3)
    by (auto simp: ClearKeyDirectory_def Let_def getManifest_def getIdentityBackup_def delete_conv)
  have "superseded (last (historyOf a st')) = b" if "getIdentityBackup a st = Some b" for b
    using that ClearKeyDirectory_history [OF assms(3,1), of a] by (simp add: archivedRow_def last_trimRows)
  moreover have "fst (PublishManifest a m st') = (Counter m, None)" if "unat (Counter m) < 2 ^ 63" for m
    using that man us assms(2) by (simp add: PublishManifest_eq storeManifest_ok)
  ultimately show ?thesis using man live c by simp
qed

theorem ClearKeyDirectory_correct_witness:
  "fst (PublishManifest [97] (sampleManifest 8 1) (snd (ClearKeyDirectory 0 [97] sampleStore))) = (1, None)"
proof -
  have "keyDirInvar (emptyKeyDir [[97], [98]])" using keydir_store.invar_start by blast
  then have "storeOk sampleStore"
    by (auto simp: sampleStore_def keyDirInvar_def intro: storeOk_PublishManifest prod.collapse [symmetric])
  moreover have "[97] \<in> set (users sampleStore)" by (simp add: sample_eval)
  ultimately show ?thesis
    using ClearKeyDirectory_correct [of sampleStore "[97]" 0 _ "snd (ClearKeyDirectory 0 [97] sampleStore)"]
      prod.collapse [of "ClearKeyDirectory 0 [97] sampleStore"]
    by (metis (no_types, lifting) ClearKeyDirectory_correct sampleManifest_def KeyManifest.select_convs(3)
        unsigned_1 one_less_numeral_iff one_less_power zero_less_numeral semiring_norm(76))
qed

end
