(* ===== verification/Foodgroup_KeyDir.thy ===== *)
theory Foodgroup_KeyDir
  imports State_KeyDirectory State_Session Wire_Values
begin

text \<open>
  \<open>foodgroup/benco_keydir.go\<close> and the payload types of \<open>wire/benco_keydir.go\<close>: the service that
  validates what clients publish and answers queries. The signed manifest is a byte string that the
  service decodes with the codec and never encodes again. The storage it calls is the model of
  \<open>state/key_directory.go\<close>; \<open>ed25519.Verify\<close> is the platform's.
\<close>

section \<open>Payloads\<close>

abbreviation (input) BENCOKeyDirVersion :: u16 where "BENCOKeyDirVersion \<equiv> 2"
abbreviation (input) BENCOAlgX25519 :: byte where "BENCOAlgX25519 \<equiv> 0x01"
abbreviation (input) BENCOAlgEd25519 :: byte where "BENCOAlgEd25519 \<equiv> 0x02"
abbreviation (input) BENCOX25519KeyLen :: nat where "BENCOX25519KeyLen \<equiv> 32"
abbreviation (input) BENCOEd25519KeyLen :: nat where "BENCOEd25519KeyLen \<equiv> 32"
abbreviation (input) BENCOEd25519SigLen :: nat where "BENCOEd25519SigLen \<equiv> 64"
abbreviation (input) BENCOKeyDirMaxManifestLen :: nat where "BENCOKeyDirMaxManifestLen \<equiv> 16384"
abbreviation (input) BENCOKDFArgon2id :: byte where "BENCOKDFArgon2id \<equiv> 0x01"
abbreviation (input) BENCOKeyDirMaxBackupLen :: nat where "BENCOKeyDirMaxBackupLen \<equiv> 4096"
abbreviation (input) BENCOPublishRejected :: byte where "BENCOPublishRejected \<equiv> 0"
abbreviation (input) BENCOPublishStored :: byte where "BENCOPublishStored \<equiv> 1"
abbreviation (input) BENCOPublishIdentityPinned :: byte where "BENCOPublishIdentityPinned \<equiv> 2"
abbreviation (input) ErrorCodeInvalidSnac :: u16 where "ErrorCodeInvalidSnac \<equiv> 0x01"
abbreviation (input) ErrorCodeRateToHost :: u16 where "ErrorCodeRateToHost \<equiv> 0x02"
abbreviation (input) ErrorCodeInsufficientRights :: u16 where "ErrorCodeInsufficientRights \<equiv> 0x0F"

record BENCOKey =
  Alg :: byte
  Key :: bytes

record BENCODevice =
  Box :: BENCOKey
  Sign :: BENCOKey
  Label :: bytes

record BENCOManifest =
  man_Version :: u16
  man_ScreenName :: bytes
  man_Counter :: u64
  man_IssuedAt :: u64
  man_Identity :: BENCOKey
  man_Devices :: "BENCODevice list"

record PublishRequest =
  pub_Version :: u16
  pub_Manifest :: bytes
  pub_SigAlg :: byte
  pub_Signature :: bytes

record PutBackupRequest =
  put_Version :: u16
  put_KDF :: byte
  put_Params :: bytes
  put_Salt :: bytes
  put_Blob :: bytes

text \<open>Decoded values as the records the Go code reads its fields from, and back.\<close>

definition toKey :: "gval \<Rightarrow> BENCOKey" where
  "toKey v = \<lparr>Alg = asU8 (field 0 v), Key = asBytes (field 1 v)\<rparr>"

definition toDevice :: "gval \<Rightarrow> BENCODevice" where
  "toDevice v = \<lparr>Box = toKey (field 0 v), Sign = toKey (field 1 v), Label = asBytes (field 2 v)\<rparr>"

definition toManifest :: "gval \<Rightarrow> BENCOManifest" where
  "toManifest v = \<lparr>man_Version = asU16 (field 0 v), man_ScreenName = asBytes (field 1 v),
     man_Counter = asU64 (field 2 v), man_IssuedAt = asU64 (field 3 v),
     man_Identity = toKey (field 4 v),
     man_Devices = (case field 5 v of VSlice vs \<Rightarrow> map toDevice vs | _ \<Rightarrow> [])\<rparr>"

definition toPublishRequest :: "gval \<Rightarrow> PublishRequest" where
  "toPublishRequest v = \<lparr>pub_Version = asU16 (field 0 v), pub_Manifest = asBytes (field 1 v),
     pub_SigAlg = asU8 (field 2 v), pub_Signature = asBytes (field 3 v)\<rparr>"

definition toPutBackupRequest :: "gval \<Rightarrow> PutBackupRequest" where
  "toPutBackupRequest v = \<lparr>put_Version = asU16 (field 0 v), put_KDF = asU8 (field 1 v),
     put_Params = asBytes (field 2 v), put_Salt = asBytes (field 3 v), put_Blob = asBytes (field 4 v)\<rparr>"

definition BENCOKey_val :: "BENCOKey \<Rightarrow> gval" where
  "BENCOKey_val k = VStruct [VU8 (Alg k), bytesVal (Key k)]"

definition BENCODevice_val :: "BENCODevice \<Rightarrow> gval" where
  "BENCODevice_val d = VStruct [BENCOKey_val (Box d), BENCOKey_val (Sign d), VString (Label d)]"

definition BENCOManifest_val :: "BENCOManifest \<Rightarrow> gval" where
  "BENCOManifest_val m = VStruct [VU16 (man_Version m), VString (man_ScreenName m), VU64 (man_Counter m),
     VU64 (man_IssuedAt m), BENCOKey_val (man_Identity m), VSlice (map BENCODevice_val (man_Devices m))]"

definition decodeManifest :: "bytes \<Rightarrow> gerr + BENCOManifest" where
  "decodeManifest bs =
     (case UnmarshalBE BENCOManifest_type bs of (Inl e, _) \<Rightarrow> Inl e | (Inr v, _) \<Rightarrow> Inr (toManifest v))"

section \<open>Validation\<close>

datatype keyErr = WrongAlgorithm | WrongKeyLength

definition validateDeviceKey :: "BENCOKey \<Rightarrow> byte \<Rightarrow> keyErr option" where
  "validateDeviceKey k want =
     (if Alg k = 0 \<and> length (Key k) = 0 then None
      else if Alg k \<noteq> want then Some WrongAlgorithm
      else if length (Key k) \<noteq> BENCOX25519KeyLen then Some WrongKeyLength
      else None)"

datatype publishErr =
    UnsupportedPayloadVersion | ManifestEmpty | ManifestTooLong | ManifestDoesNotDecode gerr
  | UnsupportedManifestVersion | NamesOtherAccount | CounterZero | TooManyDevices
  | BadDeviceKey keyErr
  | IdentityAlgUnsupported | IdentityKeyLength | SigAlgUnsupported | SignatureLength
  | SignatureDoesNotVerify

definition verifyManifestSignature :: "platform \<Rightarrow> BENCOKey \<Rightarrow> byte \<Rightarrow> bytes \<Rightarrow> bytes \<Rightarrow> publishErr option" where
  "verifyManifestSignature P ident alg sig msg =
     (if Alg ident \<noteq> BENCOAlgEd25519 then Some IdentityAlgUnsupported
      else if length (Key ident) \<noteq> BENCOEd25519KeyLen then Some IdentityKeyLength
      else if alg \<noteq> BENCOAlgEd25519 then Some SigAlgUnsupported
      else if length sig \<noteq> BENCOEd25519SigLen then Some SignatureLength
      else if \<not> ed25519_Verify P (Key ident) msg sig then Some SignatureDoesNotVerify
      else None)"

fun validateDevices :: "BENCODevice list \<Rightarrow> publishErr option" where
  "validateDevices [] = None"
| "validateDevices (d # ds) =
     (case validateDeviceKey (Box d) BENCOAlgX25519 of
        Some e \<Rightarrow> Some (BadDeviceKey e)
      | None \<Rightarrow>
          (case validateDeviceKey (Sign d) BENCOAlgEd25519 of
             Some e \<Rightarrow> Some (BadDeviceKey e)
           | None \<Rightarrow> validateDevices ds))"

definition validatePublish :: "platform \<Rightarrow> IdentScreenName \<Rightarrow> PublishRequest \<Rightarrow> publishErr + BENCOManifest" where
  "validatePublish P screenName req =
     (if pub_Version req \<noteq> BENCOKeyDirVersion then Inl UnsupportedPayloadVersion
      else if length (pub_Manifest req) = 0 then Inl ManifestEmpty
      else if length (pub_Manifest req) > BENCOKeyDirMaxManifestLen then Inl ManifestTooLong
      else (case decodeManifest (pub_Manifest req) of
        Inl e \<Rightarrow> Inl (ManifestDoesNotDecode e)
      | Inr m \<Rightarrow>
          if man_Version m \<noteq> BENCOKeyDirVersion then Inl UnsupportedManifestVersion
          else if NewIdentScreenName P (man_ScreenName m) \<noteq> screenName then Inl NamesOtherAccount
          else if man_Counter m = 0 then Inl CounterZero
          else if length (man_Devices m) > MaxDevicesPerAccount then Inl TooManyDevices
          else (case validateDevices (man_Devices m) of
            Some e \<Rightarrow> Inl e
          | None \<Rightarrow>
              (case verifyManifestSignature P (man_Identity m) (pub_SigAlg req) (pub_Signature req)
                      (pub_Manifest req) of
                 Some e \<Rightarrow> Inl e
               | None \<Rightarrow> Inr m))))"

datatype backupErr = BackupVersion | UnsupportedKDF | SaltOrBlobMissing | FieldTooLong

definition validateBackup :: "PutBackupRequest \<Rightarrow> backupErr option" where
  "validateBackup req =
     (if put_Version req \<noteq> BENCOKeyDirVersion then Some BackupVersion
      else if put_KDF req \<noteq> BENCOKDFArgon2id then Some UnsupportedKDF
      else if length (put_Salt req) = 0 \<or> length (put_Blob req) = 0 then Some SaltOrBlobMissing
      else if list_ex (\<lambda>f. length f > BENCOKeyDirMaxBackupLen) [put_Params req, put_Salt req, put_Blob req]
      then Some FieldTooLong
      else None)"

section \<open>The service\<close>

definition keyDirFrame :: "u16 \<Rightarrow> SNACFrame \<Rightarrow> SNACFrame" where
  "keyDirFrame sub inFrame =
     \<lparr>FoodGroup = BENCOKeyDir, SubGroup = sub, Flags = 0, RequestID = RequestID inFrame\<rparr>"

definition SNACError_body :: "u16 \<Rightarrow> (gtype \<times> gval) option" where
  "SNACError_body code = Some (SNACError_type, VStruct [VU16 code, TLVList_val []])"

definition errSNAC :: "SNACFrame \<Rightarrow> u16 \<Rightarrow> SNACMessage" where
  "errSNAC inFrame code = (keyDirFrame BENCOKeyDirErr inFrame, SNACError_body code)"

definition publishReply :: "SNACFrame \<Rightarrow> byte \<Rightarrow> u64 \<Rightarrow> SNACMessage" where
  "publishReply inFrame accepted held =
     (keyDirFrame BENCOKeyDirPublishReply inFrame,
      Some (SNAC_0xBE00_0x0003_BENCOKeyDirPublishReply, VStruct [VU8 accepted, VU64 held]))"

definition storedManifest :: "BENCOManifest \<Rightarrow> PublishRequest \<Rightarrow> KeyManifest" where
  "storedManifest m req =
     \<lparr>IdentityAlg = Alg (man_Identity m), IdentityKey = Key (man_Identity m), Counter = man_Counter m,
      IssuedAt = sint (man_IssuedAt m), Manifest = pub_Manifest req, SigAlg = pub_SigAlg req,
      Signature = pub_Signature req\<rparr>"

definition Service_PublishManifest :: "platform \<Rightarrow> IdentScreenName \<Rightarrow> SNACFrame \<Rightarrow> PublishRequest
    \<Rightarrow> KeyDirStore \<Rightarrow> (keyDirErr + SNACMessage) \<times> KeyDirStore" where
  "Service_PublishManifest P screenName inFrame req st =
     (case validatePublish P screenName req of
        Inl e \<Rightarrow> (Inr (errSNAC inFrame ErrorCodeInvalidSnac), st)
      | Inr m \<Rightarrow>
          (case PublishManifest screenName (storedManifest m req) st of
             ((held, None), st') \<Rightarrow> (Inr (publishReply inFrame BENCOPublishStored held), st')
           | ((held, Some e), st') \<Rightarrow>
               (if e = ErrIdentityPinned then Inr (publishReply inFrame BENCOPublishIdentityPinned held)
                else if e = ErrStaleCounter \<or> e = ErrCounterOutOfRange
                then Inr (publishReply inFrame BENCOPublishRejected held)
                else Inl e, st')))"

definition Service_QueryManifest :: "platform \<Rightarrow> SNACFrame \<Rightarrow> bytes \<Rightarrow> KeyDirStore \<Rightarrow> SNACMessage" where
  "Service_QueryManifest P inFrame name st =
     (keyDirFrame BENCOKeyDirQueryReply inFrame,
      Some (SNAC_0xBE00_0x0005_BENCOKeyDirQueryReply,
        (case getManifest (NewIdentScreenName P name) st of
           None \<Rightarrow> VStruct [VString name, VU8 0, bytesVal [], VU8 0, bytesVal []]
         | Some m \<Rightarrow> VStruct [VString name, VU8 1, bytesVal (Manifest m), VU8 (SigAlg m),
                       bytesVal (Signature m)])))"

definition Service_PutBackup :: "int \<Rightarrow> IdentScreenName \<Rightarrow> SNACFrame \<Rightarrow> PutBackupRequest \<Rightarrow> KeyDirStore
    \<Rightarrow> (keyDirErr + SNACMessage) \<times> KeyDirStore" where
  "Service_PutBackup now screenName inFrame req st =
     (case validateBackup req of
        Some e \<Rightarrow> (Inr (errSNAC inFrame ErrorCodeInvalidSnac), st)
      | None \<Rightarrow>
          (case SetIdentityBackup now screenName
                  \<lparr>KDF = put_KDF req, Params = put_Params req, Salt = put_Salt req, Blob = put_Blob req,
                   UpdatedAt = 0\<rparr> st of
             (Some e, st') \<Rightarrow> (Inl e, st')
           | (None, st') \<Rightarrow>
               (Inr (keyDirFrame BENCOKeyDirPutBackupReply inFrame,
                     Some (SNAC_0xBE00_0x0007_BENCOKeyDirPutBackupReply, VStruct [VU8 1])), st')))"

definition Service_GetBackup :: "IdentScreenName \<Rightarrow> SNACFrame \<Rightarrow> KeyDirStore \<Rightarrow> SNACMessage" where
  "Service_GetBackup screenName inFrame st =
     (keyDirFrame BENCOKeyDirGetBackupReply inFrame,
      Some (SNAC_0xBE00_0x0009_BENCOKeyDirGetBackupReply,
        (case getIdentityBackup screenName st of
           None \<Rightarrow> VStruct [VU8 0, VU8 0, bytesVal [], bytesVal [], bytesVal []]
         | Some b \<Rightarrow> VStruct [VU8 1, VU8 (KDF b), bytesVal (Params b), bytesVal (Salt b), bytesVal (Blob b)])))"

section \<open>Decoding what clients encode\<close>

lemma toKey_val [simp]: "toKey (BENCOKey_val k) = k"
  by (simp add: toKey_def BENCOKey_val_def bytesVal_def)

lemma toDevice_val [simp]: "toDevice (BENCODevice_val d) = d"
  by (simp add: toDevice_def BENCODevice_val_def)

lemma toManifest_val [simp]: "toManifest (BENCOManifest_val m) = m"
  by (simp add: toManifest_def BENCOManifest_val_def comp_def)

definition keyFits :: "BENCOKey \<Rightarrow> bool" where
  "keyFits k \<longleftrightarrow> length (Key k) < 2 ^ 16"

definition manifestFits :: "BENCOManifest \<Rightarrow> bool" where
  "manifestFits m \<longleftrightarrow> length (man_ScreenName m) < 2 ^ 8 \<and> keyFits (man_Identity m)
     \<and> length (man_Devices m) < 2 ^ 16
     \<and> list_all (\<lambda>d. keyFits (Box d) \<and> keyFits (Sign d) \<and> length (Label d) < 2 ^ 8) (man_Devices m)"

lemmas benco_types = BENCOKey_type_def BENCODevice_type_def BENCOManifest_type_def

lemma fits_key: "keyFits k \<Longrightarrow> fits BENCOKey_type noTag order (BENCOKey_val k)"
  using fits_bytes [of order "Key k"]
  by (simp add: benco_types BENCOKey_val_def bytesVal_def keyFits_def parse_tags concat_enc_bytes
      lenFits_def prefixWidth_def del: map_map)

lemma fits_device:
  "keyFits (Box d) \<Longrightarrow> keyFits (Sign d) \<Longrightarrow> length (Label d) < 2 ^ 8 \<Longrightarrow>
     fits BENCODevice_type noTag order (BENCODevice_val d)"
  using fits_key [of "Box d" order] fits_key [of "Sign d" order]
  by (simp add: BENCODevice_type_def BENCODevice_val_def parse_tags lenFits_def prefixWidth_def)

lemma fits_manifest:
  assumes "manifestFits m"
  shows "fits BENCOManifest_type noTag order (BENCOManifest_val m)"
proof -
  have "list_all (fits BENCODevice_type noTag order) (map BENCODevice_val (man_Devices m))"
    using assms by (auto simp: manifestFits_def list_all_iff intro: fits_device)
  moreover have "fits BENCOKey_type noTag order (BENCOKey_val (man_Identity m))"
    using assms by (simp add: manifestFits_def fits_key)
  ultimately show ?thesis
    using assms
    by (simp add: BENCOManifest_type_def BENCOManifest_val_def manifestFits_def parse_tags lenFits_def
        prefixWidth_def del: map_map)
qed

lemma manifest_in_catalogue:
  "BENCOManifest_type \<in> set messageCatalogue" "noQuirk BENCOManifest_type"
  by (simp_all add: messageCatalogue_def messages_shared_def benco_types parse_tags)

lemma decode_encoded_manifest:
  assumes "manifestFits m"
  shows "\<exists>bs. MarshalBE (Some (BENCOManifest_type, BENCOManifest_val m)) = Inr bs \<and> decodeManifest bs = Inr m"
  using catalogue_codec [OF manifest_in_catalogue fits_manifest [OF assms], of BigEndian]
  by (auto simp: MarshalBE_def UnmarshalBE_def decodeManifest_def)

lemma decodeManifest_Nil: "decodeManifest [] = Inl EOF"
proof -
  have "\<not> is_ptr BENCOManifest_type" by (simp add: BENCOManifest_type_def)
  then show ?thesis
    by (simp add: decodeManifest_def UnmarshalBE_def top_of_plain)
      (simp add: BENCOManifest_type_def unmarshalStruct_def unmarshalTagged_def parse_tags rbind_def
        readUint_def readFull_def fieldPointerCheck_def noTag_def)
qed

section \<open>What a valid publish is\<close>

lemma validateDeviceKey_None:
  "validateDeviceKey k want = None \<longleftrightarrow>
     Alg k = 0 \<and> Key k = [] \<or> Alg k = want \<and> length (Key k) = 32"
  by (auto simp: validateDeviceKey_def)

lemma validateDevices_None:
  "validateDevices ds = None \<longleftrightarrow>
     (\<forall>d\<in>set ds. validateDeviceKey (Box d) 1 = None \<and> validateDeviceKey (Sign d) 2 = None)"
  by (induction ds) (auto split: option.splits)

lemma verifyManifestSignature_None:
  "verifyManifestSignature P k alg sig msg = None \<longleftrightarrow>
     Alg k = 2 \<and> length (Key k) = 32 \<and> alg = 2 \<and> length sig = 64 \<and> ed25519_Verify P (Key k) msg sig"
  by (auto simp: verifyManifestSignature_def)

definition publishOk :: "platform \<Rightarrow> IdentScreenName \<Rightarrow> PublishRequest \<Rightarrow> BENCOManifest \<Rightarrow> bool" where
  "publishOk P a req m \<longleftrightarrow>
     pub_Version req = 2 \<and> pub_Manifest req \<noteq> [] \<and> length (pub_Manifest req) \<le> 16384
     \<and> decodeManifest (pub_Manifest req) = Inr m \<and> man_Version m = 2
     \<and> NewIdentScreenName P (man_ScreenName m) = a \<and> man_Counter m \<noteq> 0
     \<and> length (man_Devices m) \<le> 32
     \<and> validateDevices (man_Devices m) = None
     \<and> verifyManifestSignature P (man_Identity m) (pub_SigAlg req) (pub_Signature req) (pub_Manifest req) = None"

lemma validatePublish_iff: "validatePublish P a req = Inr m \<longleftrightarrow> publishOk P a req m"
  by (auto simp: validatePublish_def publishOk_def split: sum.splits option.splits)

text \<open>The row of an account as the request it came from, and what holds of every stored row.\<close>

definition rowRequest :: "manifestRow \<Rightarrow> PublishRequest" where
  "rowRequest r = \<lparr>pub_Version = 2, pub_Manifest = manifest r, pub_SigAlg = sigAlg r,
     pub_Signature = signature r\<rparr>"

definition rowValid :: "platform \<Rightarrow> IdentScreenName \<Rightarrow> manifestRow \<Rightarrow> bool" where
  "rowValid P a r =
     (case validatePublish P a (rowRequest r) of
        Inl e \<Rightarrow> False
      | Inr m \<Rightarrow> r = toRow (storedManifest m (rowRequest r)))"

definition directoryValid :: "platform \<Rightarrow> KeyDirStore \<Rightarrow> bool" where
  "directoryValid P st \<longleftrightarrow>
     distinct (map fst (keyDirManifests st)) \<and> list_all (\<lambda>(a, r). rowValid P a r) (keyDirManifests st)"

lemma rowValid_stored:
  assumes "validatePublish P a req = Inr m"
  shows "rowValid P a (toRow (storedManifest m req))"
proof -
  have "rowRequest (toRow (storedManifest m req)) = req"
    using assms by (simp add: rowRequest_def toRow_def storedManifest_def validatePublish_iff publishOk_def)
  then show ?thesis using assms by (simp add: rowValid_def)
qed

text \<open>Everything that reaches the store through the service and the management API.\<close>

inductive serviceStep :: "platform \<Rightarrow> KeyDirStore \<Rightarrow> KeyDirStore \<Rightarrow> bool" for P where
  publish: "Service_PublishManifest P a fr req st = (r, st') \<Longrightarrow> serviceStep P st st'"
| put: "Service_PutBackup now a fr bk st = (r, st') \<Longrightarrow> serviceStep P st st'"
| clear: "ClearKeyDirectory now a st = (c, st') \<Longrightarrow> serviceStep P st st'"

lemma Service_PublishManifest_store:
  assumes "Service_PublishManifest P a fr req st = (r, st')"
  obtains "st' = st"
  | m where "validatePublish P a req = Inr m"
      "PublishManifest a (storedManifest m req) st = ((Counter (storedManifest m req), None), st')"
      "r = Inr (publishReply fr BENCOPublishStored (man_Counter m))"
proof (cases "validatePublish P a req")
  case (Inl e)
  then show ?thesis using assms that(1) by (simp add: Service_PublishManifest_def)
next
  case (Inr m)
  obtain c e st1 where p: "PublishManifest a (storedManifest m req) st = ((c, e), st1)"
    by (metis prod.collapse)
  show ?thesis
  proof (cases e)
    case None
    with p have c: "c = Counter (storedManifest m req)" using keydir.publish_ok by blast
    then have "r = Inr (publishReply fr BENCOPublishStored (man_Counter m))" "st1 = st'"
      using assms Inr p None by (simp_all add: Service_PublishManifest_def storedManifest_def)
    then show ?thesis using that(2) [OF Inr] p None c by simp
  next
    case (Some x)
    with p have "st1 = st" using keydir.publish_err by blast
    then show ?thesis using assms Inr p Some that(1)
      by (simp add: Service_PublishManifest_def split: if_splits)
  qed
qed

lemma directoryValid_publish:
  assumes "Service_PublishManifest P a fr req st = (r, st')" and "directoryValid P st"
  shows "directoryValid P st'"
  using assms(1)
proof (cases rule: Service_PublishManifest_store)
  case 1
  then show ?thesis using assms(2) by simp
next
  case (2 m)
  then have "st' = st\<lparr>keyDirManifests := AList.update a (toRow (storedManifest m req)) (keyDirManifests st)\<rparr>"
    by (auto simp: PublishManifest_ok storeManifest_def split: if_splits)
  moreover have "rowValid P x row"
    if "(x, row) \<in> set (AList.update a (toRow (storedManifest m req)) (keyDirManifests st))" for x row
    using in_set_update [OF that] rowValid_stored [OF 2(1)] assms(2)
    by (auto simp: directoryValid_def list_all_iff)
  ultimately show ?thesis
    using assms(2) by (auto simp: directoryValid_def list_all_iff distinct_update)
qed

lemma Service_PutBackup_manifests:
  "Service_PutBackup now a fr bk st = (r, st') \<Longrightarrow> keyDirManifests st' = keyDirManifests st"
  by (auto simp: Service_PutBackup_def SetIdentityBackup_def Let_def split: option.splits prod.splits if_splits)

interpretation keydir_service: invariant_system "\<lambda>st. \<exists>us. st = emptyKeyDir us" "serviceStep P"
  "directoryValid P" for P
proof
  show "directoryValid P st" if "\<exists>us. st = emptyKeyDir us" for st
    using that by (auto simp: directoryValid_def emptyKeyDir_def)
  show "directoryValid P t" if v: "directoryValid P s" and step: "serviceStep P s t" for s t
    using step
  proof cases
    case (publish a fr req r)
    then show ?thesis using v directoryValid_publish by blast
  next
    case (put now a fr bk r)
    then show ?thesis using v Service_PutBackup_manifests [OF put] by (simp add: directoryValid_def)
  next
    case (clear now a c)
    then have "keyDirManifests t = AList.delete a (keyDirManifests s)"
      by (auto simp: ClearKeyDirectory_def Let_def)
    then show ?thesis
      using v in_set_delete [of _ a "keyDirManifests s"]
      by (auto simp: directoryValid_def list_all_iff distinct_delete)
  qed
qed

text \<open>A stored manifest, read back, is a valid publish whose copied columns agree with the bytes.\<close>

lemma directoryValid_get:
  assumes "directoryValid P st" and "getManifest a st = Some km"
  shows "\<exists>m req. publishOk P a req m \<and> km = storedManifest m req"
proof -
  obtain r where r: "map_of (keyDirManifests st) a = Some r" "km = fromRow r"
    using assms(2) by (auto simp: getManifest_eq_Some)
  then have "rowValid P a r" using assms(1) by (auto simp: directoryValid_def list_all_iff dest: map_of_SomeD)
  then obtain m where m: "validatePublish P a (rowRequest r) = Inr m" "r = toRow (storedManifest m (rowRequest r))"
    by (auto simp: rowValid_def split: sum.splits)
  have "km = storedManifest m (rowRequest r)" using r(2) m(2) by (metis fromRow_toRow)
  with m(1) show ?thesis by (auto simp: validatePublish_iff)
qed

lemma Service_publish_stores:
  assumes "validatePublish P a req = Inr m" and "a \<in> set (users st)" and "getManifest a st = None"
    and "unat (man_Counter m) < 2 ^ 63" and "Service_PublishManifest P a fr req st = (r, st')"
  shows "r = Inr (publishReply fr BENCOPublishStored (man_Counter m))"
    and "getManifest a st' = Some (storedManifest m req)"
proof -
  have pub: "PublishManifest a (storedManifest m req) st =
      ((man_Counter m, None), st\<lparr>keyDirManifests := AList.update a (toRow (storedManifest m req)) (keyDirManifests st)\<rparr>)"
    using assms(2-4) by (simp add: PublishManifest_eq storeManifest_ok storedManifest_def)
  then show "r = Inr (publishReply fr BENCOPublishStored (man_Counter m))"
    and "getManifest a st' = Some (storedManifest m req)"
    using assms(1,5) keydir.publish_ok [OF pub] by (auto simp: Service_PublishManifest_def)
qed

text \<open>A concrete device list and its encoding.\<close>

definition sampleDevices :: BENCOManifest where
  "sampleDevices = \<lparr>man_Version = 2, man_ScreenName = [97], man_Counter = 1, man_IssuedAt = 0,
     man_Identity = \<lparr>Alg = 2, Key = replicate 32 7\<rparr>,
     man_Devices = [\<lparr>Box = \<lparr>Alg = 1, Key = replicate 32 8\<rparr>, Sign = \<lparr>Alg = 2, Key = replicate 32 9\<rparr>,
       Label = [80, 67]\<rparr>]\<rparr>"

definition sampleBytes :: bytes where
  "sampleBytes = [0, 2, 1, 97, 0, 0, 0, 0, 0, 0, 0, 1, 0, 0, 0, 0, 0, 0, 0, 0, 2, 0, 32] @ replicate 32 7 @
     [0, 1, 1, 0, 32] @ replicate 32 8 @ [2, 0, 32] @ replicate 32 9 @ [2, 80, 67]"

definition sampleRequest :: PublishRequest where
  "sampleRequest = \<lparr>pub_Version = 2, pub_Manifest = sampleBytes, pub_SigAlg = 2,
     pub_Signature = replicate 64 7\<rparr>"

lemma sample_marshal: "MarshalBE (Some (BENCOManifest_type, BENCOManifest_val sampleDevices)) = Inr sampleBytes"
proof -
  have wr: "concat (map (binaryWrite BigEndian) (map VU8 bs)) = bs" for bs
    by (induction bs) auto
  have "putUint BigEndian 2 2 = [0, 2]" "putUint BigEndian 2 32 = [0, 32]"
    "putUint BigEndian 8 (Suc 0) = [0, 0, 0, 0, 0, 0, 0, 1]" "putUint BigEndian 2 (Suc 0) = [0, 1]"
    "putUint BigEndian 8 0 = [0, 0, 0, 0, 0, 0, 0, 0]"
    by code_simp+
  then show ?thesis
    by (simp add: MarshalBE_def top_of_plain benco_types BENCOManifest_val_def BENCODevice_val_def
        BENCOKey_val_def sampleDevices_def bytesVal_def parse_tags block_defs marshalString_def noTag_def wr sampleBytes_def
        del: map_map map_replicate)
qed

lemma sample_fits: "manifestFits sampleDevices"
  by (simp add: manifestFits_def keyFits_def sampleDevices_def)

lemma sample_decodes: "decodeManifest sampleBytes = Inr sampleDevices"
  using decode_encoded_manifest [OF sample_fits] sample_marshal by simp

lemma sample_valid: "validatePublish samplePlatform [97] sampleRequest = Inr sampleDevices"
proof -
  have "length sampleBytes = 128 + 2" "sampleBytes \<noteq> []" by (simp_all add: sampleBytes_def)
  moreover have "NewIdentScreenName samplePlatform [97] = [97]"
    by (simp add: ident_ascii asciiLower_def)
  moreover have "replicate 64 (7 :: byte) = replicate 32 7 @ replicate 32 7"
    by (simp add: replicate_add [symmetric])
  ultimately show ?thesis
    using sample_decodes
    by (simp add: validatePublish_iff publishOk_def sampleRequest_def verifyManifestSignature_None
        validateDevices_None validateDeviceKey_None)
      (simp add: sampleDevices_def samplePlatform_def)
qed

definition sampleFrame :: SNACFrame where
  "sampleFrame = \<lparr>FoodGroup = BENCOKeyDir, SubGroup = BENCOKeyDirPublishRequest, Flags = 0, RequestID = 1\<rparr>"

definition sampleDir :: KeyDirStore where
  "sampleDir = snd (Service_PublishManifest samplePlatform [97] sampleFrame sampleRequest (emptyKeyDir [[97]]))"

lemma sampleDir_reachable: "(serviceStep samplePlatform)\<^sup>*\<^sup>* (emptyKeyDir [[97]]) sampleDir"
  by (intro r_into_rtranclp serviceStep.publish [of samplePlatform "[97]" sampleFrame sampleRequest
        _ "fst (Service_PublishManifest samplePlatform [97] sampleFrame sampleRequest (emptyKeyDir [[97]]))"])
    (simp add: sampleDir_def)

lemma sampleDir_manifest: "getManifest [97] sampleDir = Some (storedManifest sampleDevices sampleRequest)"
  by (rule Service_publish_stores(2) [OF sample_valid, of "emptyKeyDir [[97]]" sampleFrame
        "fst (Service_PublishManifest samplePlatform [97] sampleFrame sampleRequest (emptyKeyDir [[97]]))"])
    (simp_all add: emptyKeyDir_def getManifest_def sampleDevices_def sampleDir_def)

section \<open>Properties\<close>

text \<open>C3: Whatever clients publish, back up and administrators clear, every manifest in the directory
  is one its account's identity key signed: the stored bytes decode, name the account they are
  stored under, carry a counter above zero and at most 32 devices with well-formed keys, verify
  under the 32-byte Ed25519 identity key they contain, and the copied columns (identity key,
  counter) agree with the signed bytes.\<close>
theorem stored_manifest_valid:
  assumes "(serviceStep P)\<^sup>*\<^sup>* (emptyKeyDir us) st" and "getManifest a st = Some km"
  shows "\<exists>m. decodeManifest (Manifest km) = Inr m
    \<and> NewIdentScreenName P (man_ScreenName m) = a
    \<and> Counter km = man_Counter m \<and> Counter km \<noteq> 0
    \<and> IdentityAlg km = 2 \<and> IdentityKey km = Key (man_Identity m) \<and> length (IdentityKey km) = 32
    \<and> ed25519_Verify P (IdentityKey km) (Manifest km) (Signature km)
    \<and> length (man_Devices m) \<le> 32
    \<and> (\<forall>d\<in>set (man_Devices m). Key (Sign d) = [] \<or> Alg (Sign d) = 2 \<and> length (Key (Sign d)) = 32)"
proof -
  have "directoryValid P st" using keydir_service.invar_reachable [OF assms(1)] by blast
  then obtain m req where "publishOk P a req m" "km = storedManifest m req"
    using directoryValid_get assms(2) by blast
  then show ?thesis
    by (intro exI [of _ m])
      (auto simp: publishOk_def storedManifest_def verifyManifestSignature_None validateDevices_None validateDeviceKey_None)
qed

theorem stored_manifest_valid_witness:
  "\<exists>m. decodeManifest (pub_Manifest sampleRequest) = Inr m \<and> man_Counter m \<noteq> 0
    \<and> ed25519_Verify samplePlatform (Key (man_Identity m)) sampleBytes (pub_Signature sampleRequest)"
  using stored_manifest_valid [OF sampleDir_reachable sampleDir_manifest]
  by (auto simp: storedManifest_def sampleRequest_def)



text \<open>A backup comes back as it was put: after a request that passes validation the account's
  backup answer carries the same KDF, parameters, salt and ciphertext; every other account's
  answer is what it was; and a request that fails validation is answered with an error and
  changes nothing.\<close>
theorem backup_roundtrip:
  assumes "Service_PutBackup now a fr req st = (r, st')" and "a \<in> set (users st)"
  shows "(validateBackup req = None \<longrightarrow>
      r = Inr (keyDirFrame BENCOKeyDirPutBackupReply fr,
            Some (SNAC_0xBE00_0x0007_BENCOKeyDirPutBackupReply, VStruct [VU8 1]))
      \<and> Service_GetBackup a fr2 st' = (keyDirFrame BENCOKeyDirGetBackupReply fr2,
          Some (SNAC_0xBE00_0x0009_BENCOKeyDirGetBackupReply,
            VStruct [VU8 1, VU8 1, bytesVal (put_Params req), bytesVal (put_Salt req), bytesVal (put_Blob req)])))
    \<and> (validateBackup req \<noteq> None \<longrightarrow> r = Inr (errSNAC fr ErrorCodeInvalidSnac) \<and> st' = st)
    \<and> (\<forall>b. b \<noteq> a \<longrightarrow> Service_GetBackup b fr2 st' = Service_GetBackup b fr2 st)"
proof (cases "validateBackup req")
  case None
  then have kdf: "put_KDF req = 1" by (simp add: validateBackup_def split: if_splits)
  have "getIdentityBackup b st' = (if b = a then Some \<lparr>KDF = put_KDF req, Params = put_Params req,
      Salt = put_Salt req, Blob = put_Blob req, UpdatedAt = now\<rparr> else getIdentityBackup b st)"
    "r = Inr (keyDirFrame BENCOKeyDirPutBackupReply fr,
            Some (SNAC_0xBE00_0x0007_BENCOKeyDirPutBackupReply, VStruct [VU8 1]))" for b
    using assms None
    by (auto simp: Service_PutBackup_def SetIdentityBackup_def Let_def getIdentityBackup_def update_conv)
  then show ?thesis using None kdf by (simp add: Service_GetBackup_def)
next
  case (Some e)
  then show ?thesis using assms(1) by (simp add: Service_PutBackup_def)
qed

definition samplePut :: PutBackupRequest where
  "samplePut = \<lparr>put_Version = 2, put_KDF = 1, put_Params = [], put_Salt = [5], put_Blob = [6]\<rparr>"

theorem backup_roundtrip_witness:
  "Service_GetBackup [97] sampleFrame (snd (Service_PutBackup 0 [97] sampleFrame samplePut (emptyKeyDir [[97]])))
    = (keyDirFrame BENCOKeyDirGetBackupReply sampleFrame, Some (SNAC_0xBE00_0x0009_BENCOKeyDirGetBackupReply,
        VStruct [VU8 1, VU8 1, bytesVal [], bytesVal [5], bytesVal [6]]))"
proof -
  let ?st = "emptyKeyDir [[97]]"
  have v: "validateBackup samplePut = None" by (simp add: validateBackup_def samplePut_def)
  have "[97] \<in> set (users ?st)" by (simp add: emptyKeyDir_def)
  from backup_roundtrip [where now = 0 and fr = sampleFrame and req = samplePut and ?fr2.0 = sampleFrame,
      OF prod.collapse [symmetric] this] v
  have "Service_GetBackup [97] sampleFrame (snd (Service_PutBackup 0 [97] sampleFrame samplePut ?st))
    = (keyDirFrame BENCOKeyDirGetBackupReply sampleFrame, Some (SNAC_0xBE00_0x0009_BENCOKeyDirGetBackupReply,
        VStruct [VU8 1, VU8 1, bytesVal (put_Params samplePut), bytesVal (put_Salt samplePut),
          bytesVal (put_Blob samplePut)]))" by blast
  then show ?thesis by (simp add: samplePut_def)
qed

end
