(* ===== verification/Foodgroup_DeviceAuth.thy ===== *)
theory Foodgroup_DeviceAuth
  imports Foodgroup_KeyDir
begin

text \<open>
  \<open>foodgroup/benco_deviceauth.go\<close>: which signing keys an account has enrolled, the challenge a
  session is sent, and the check of its answer. The random source is a parameter of \<open>Challenge\<close>:
  the nonce it fills, or \<open>None\<close> for an error.
\<close>

section \<open>Modes\<close>

datatype DeviceAuthMode = DeviceAuthOff | DeviceAuthLog | DeviceAuthEnforce

primrec modeValue :: "DeviceAuthMode \<Rightarrow> nat" where
  "modeValue DeviceAuthOff = 0"
| "modeValue DeviceAuthLog = 1"
| "modeValue DeviceAuthEnforce = 2"

instantiation DeviceAuthMode :: linorder
begin

definition less_eq_DeviceAuthMode :: "DeviceAuthMode \<Rightarrow> DeviceAuthMode \<Rightarrow> bool" where
  "less_eq_DeviceAuthMode m n \<longleftrightarrow> modeValue m \<le> modeValue n"

definition less_DeviceAuthMode :: "DeviceAuthMode \<Rightarrow> DeviceAuthMode \<Rightarrow> bool" where
  "less_DeviceAuthMode m n \<longleftrightarrow> modeValue m < modeValue n"

instance
proof
  fix m n k :: DeviceAuthMode
  show "(m < n) = (m \<le> n \<and> \<not> n \<le> m)" "m \<le> m" "m \<le> n \<or> n \<le> m"
    "m \<le> n \<Longrightarrow> n \<le> k \<Longrightarrow> m \<le> k"
    by (auto simp: less_eq_DeviceAuthMode_def less_DeviceAuthMode_def)
  show "m \<le> n \<Longrightarrow> n \<le> m \<Longrightarrow> m = n"
    by (cases m; cases n) (simp_all add: less_eq_DeviceAuthMode_def)
qed

end

text \<open>Anything unrecognised is the log mode.\<close>

definition ParseDeviceAuthMode :: "string \<Rightarrow> DeviceAuthMode" where
  "ParseDeviceAuthMode s =
     (if s = ''off'' then DeviceAuthOff else if s = ''enforce'' then DeviceAuthEnforce else DeviceAuthLog)"

section \<open>Enrolled keys\<close>

datatype authErr =
    ErrNoDevicesEnrolled | ErrDeviceNotEnrolled | ErrAttestSignature
  | NonceLength | StoredManifestDoesNotDecode gerr

abbreviation (input) BENCOAttestNonceLen :: nat where "BENCOAttestNonceLen \<equiv> 32"
abbreviation (input) ed25519_PublicKeySize :: nat where "ed25519_PublicKeySize \<equiv> 32"
abbreviation (input) ed25519_SignatureSize :: nat where "ed25519_SignatureSize \<equiv> 64"

definition EnrolledSigningKeys :: "IdentScreenName \<Rightarrow> KeyDirStore \<Rightarrow> authErr + bytes list" where
  "EnrolledSigningKeys screenName st =
     (case getManifest screenName st of
        None \<Rightarrow> Inl ErrNoDevicesEnrolled
      | Some stored \<Rightarrow>
          if length (Manifest stored) = 0 then Inl ErrNoDevicesEnrolled
          else (case decodeManifest (Manifest stored) of
            Inl e \<Rightarrow> Inl (StoredManifestDoesNotDecode e)
          | Inr m \<Rightarrow>
              if length (man_Devices m) = 0 then Inl ErrNoDevicesEnrolled
              else (let out = filter (\<lambda>k. length k = ed25519_PublicKeySize)
                          (map (\<lambda>d. Key (Sign d)) (man_Devices m))
                    in if length out = 0 then Inl ErrDeviceNotEnrolled else Inr out)))"

section \<open>Attestation\<close>

definition attestDomain :: bytes where
  "attestDomain = asciiBytes ''BENCO-ATTEST-v1''"

text \<open>\<open>uint32(len(b))\<close> keeps the low 32 bits of the length.\<close>

definition appendLenPrefixed :: "bytes \<Rightarrow> bytes \<Rightarrow> bytes" where
  "appendLenPrefixed dst b = dst @ putUint BigEndian 4 (length b mod 2 ^ 32) @ b"

definition attestContext :: "IdentScreenName \<Rightarrow> bytes \<Rightarrow> bytes" where
  "attestContext name nonce =
     appendLenPrefixed (appendLenPrefixed (attestDomain @ [0]) name) nonce"

definition Verify :: "platform \<Rightarrow> IdentScreenName \<Rightarrow> bytes \<Rightarrow> bytes \<Rightarrow> bytes \<Rightarrow> KeyDirStore
    \<Rightarrow> authErr option" where
  "Verify P screenName nonce offered sig st =
     (if length nonce \<noteq> BENCOAttestNonceLen then Some NonceLength
      else (case EnrolledSigningKeys screenName st of
        Inl e \<Rightarrow> Some e
      | Inr enrolled \<Rightarrow>
          if \<not> list_ex (\<lambda>k. k = offered) enrolled then Some ErrDeviceNotEnrolled
          else if length sig \<noteq> ed25519_SignatureSize then Some ErrAttestSignature
          else if \<not> ed25519_Verify P offered (attestContext screenName nonce) sig
          then Some ErrAttestSignature
          else None))"

definition challengeMessage :: "bytes \<Rightarrow> SNACMessage" where
  "challengeMessage nonce =
     (\<lparr>FoodGroup = BENCOKeyDir, SubGroup = BENCOKeyDirAttestChallenge, Flags = 0, RequestID = 0\<rparr>,
      Some (SNAC_0xBE00_0x000A_BENCOKeyDirAttestChallenge,
        VStruct [VU16 BENCOKeyDirVersion, bytesVal nonce]))"

text \<open>\<open>None\<close> is \<open>ok = false\<close>: nothing to ask.\<close>

definition Challenge :: "DeviceAuthMode \<Rightarrow> IdentScreenName \<Rightarrow> bytes option \<Rightarrow> KeyDirStore
    \<Rightarrow> (SNACMessage \<times> bytes) option" where
  "Challenge mode screenName rnd st =
     (if mode = DeviceAuthOff then None
      else if EnrolledSigningKeys screenName st = Inl ErrNoDevicesEnrolled then None
      else (case rnd of None \<Rightarrow> None | Some nonce \<Rightarrow> Some (challengeMessage nonce, nonce)))"

record AttestRequest =
  att_Version :: u16
  att_SignKey :: BENCOKey
  att_Signature :: bytes

definition toAttestRequest :: "gval \<Rightarrow> AttestRequest" where
  "toAttestRequest v = \<lparr>att_Version = asU16 (field 0 v), att_SignKey = toKey (field 1 v),
     att_Signature = asBytes (field 2 v)\<rparr>"

definition sessionNonce :: "SessionInstance \<Rightarrow> bytes" where
  "sessionNonce x = (case attestNonce x of None \<Rightarrow> [] | Some n \<Rightarrow> n)"

definition attestReply :: "SNACFrame \<Rightarrow> byte \<Rightarrow> SNACMessage" where
  "attestReply inFrame accepted =
     (keyDirFrame BENCOKeyDirAttestReply inFrame,
      Some (SNAC_0xBE00_0x000C_BENCOKeyDirAttestReply, VStruct [VU16 BENCOKeyDirVersion, VU8 accepted]))"

definition AttestResponse :: "platform \<Rightarrow> IdentScreenName \<Rightarrow> SNACFrame \<Rightarrow> AttestRequest \<Rightarrow> KeyDirStore
    \<Rightarrow> SessionInstance \<Rightarrow> SNACMessage \<times> SessionInstance" where
  "AttestResponse P screenName inFrame req st x =
     (let nonce = sessionNonce x in
      if att_Version req \<noteq> BENCOKeyDirVersion then (attestReply inFrame 0, x)
      else if length nonce = 0 then (attestReply inFrame 0, x)
      else (let err = Verify P screenName nonce (Key (att_SignKey req)) (att_Signature req) st in
            if err = None \<or> err = Some ErrNoDevicesEnrolled
            then (attestReply inFrame 1, SetAttested x)
            else (attestReply inFrame 0, x)))"

section \<open>Lemmas\<close>

lemma attestContext_eq:
  "attestContext name nonce = attestDomain @ [0] @
     putUint BigEndian 4 (length name mod 2 ^ 32) @ name @ putUint BigEndian 4 (length nonce mod 2 ^ 32) @ nonce"
  by (simp add: attestContext_def appendLenPrefixed_def)

lemma length_prefix_inject:
  assumes "putUint BigEndian 4 (length a mod 2 ^ 32) @ a @ r = putUint BigEndian 4 (length b mod 2 ^ 32) @ b @ s"
    and "length a < 2 ^ 32" and "length b < 2 ^ 32"
  shows "a = b \<and> r = s"
proof -
  from assms(1) have p: "putUint BigEndian 4 (length a mod 2 ^ 32) = putUint BigEndian 4 (length b mod 2 ^ 32)"
    and rest: "a @ r = b @ s" by (simp_all add: append_eq_append_conv)
  have "length a mod 2 ^ 32 = length b mod 2 ^ 32"
    by (rule putUint_inject [OF p]) simp_all
  then have "length a = length b" using assms(2,3) by simp
  with rest show ?thesis by (simp add: append_eq_append_conv)
qed

lemma Verify_None:
  "Verify P a nonce offered sig st = None \<longleftrightarrow>
     length nonce = 32 \<and> (\<exists>keys. EnrolledSigningKeys a st = Inr keys \<and> offered \<in> set keys)
     \<and> length sig = 64 \<and> ed25519_Verify P offered (attestContext a nonce) sig"
  by (auto simp: Verify_def list_ex_iff split: sum.splits)

lemma Verify_no_devices:
  "Verify P a nonce offered sig st = Some ErrNoDevicesEnrolled \<longleftrightarrow>
     length nonce = 32 \<and> EnrolledSigningKeys a st = Inl ErrNoDevicesEnrolled"
  by (auto simp: Verify_def split: sum.splits)

lemma AttestResponse_attested:
  "attested (snd (AttestResponse P a fr req st x)) \<longleftrightarrow>
     attested x \<or> att_Version req = 2 \<and> sessionNonce x \<noteq> [] \<and>
       (\<exists>err. Verify P a (sessionNonce x) (Key (att_SignKey req)) (att_Signature req) st = err
          \<and> (err = None \<or> err = Some ErrNoDevicesEnrolled))"
  by (auto simp: AttestResponse_def Let_def SetAttested_def)

lemma EnrolledSigningKeys_Inr:
  "EnrolledSigningKeys a st = Inr keys \<longleftrightarrow>
     (\<exists>km m. getManifest a st = Some km \<and> Manifest km \<noteq> [] \<and> decodeManifest (Manifest km) = Inr m
        \<and> keys = filter (\<lambda>k. length k = 32) (map (\<lambda>d. Key (Sign d)) (man_Devices m)) \<and> keys \<noteq> [])"
  by (auto simp: EnrolledSigningKeys_def Let_def split: option.splits sum.splits)

section \<open>Properties\<close>

text \<open>C8: The bytes a device signs determine the account and the nonce: two contexts are equal only for
  the same screen name and the same nonce (of lengths below 2^32), so a signature collected for
  one account or one session cannot be shown for another, whatever bytes the names contain.\<close>
theorem attestContext_injective:
  assumes "attestContext a n = attestContext b m"
    and "length a < 2 ^ 32" and "length b < 2 ^ 32" and "length n < 2 ^ 32" and "length m < 2 ^ 32"
  shows "a = b \<and> n = m"
proof -
  from assms(1) have "putUint BigEndian 4 (length a mod 2 ^ 32) @ a @ putUint BigEndian 4 (length n mod 2 ^ 32) @ n
      = putUint BigEndian 4 (length b mod 2 ^ 32) @ b @ putUint BigEndian 4 (length m mod 2 ^ 32) @ m"
    by (simp add: attestContext_eq)
  from length_prefix_inject [OF this assms(2,3)]
  have ab: "a = b" and "putUint BigEndian 4 (length n mod 2 ^ 32) @ n @ [] = putUint BigEndian 4 (length m mod 2 ^ 32) @ m @ []"
    by simp_all
  from length_prefix_inject [OF this(2) assms(4,5)] ab show ?thesis by simp
qed

theorem attestContext_injective_witness:
  "attestContext [97] (replicate 32 0) \<noteq> attestContext [97, 0] (replicate 31 0)"
  using attestContext_injective [of "[97]" "replicate 32 0" "[97, 0]" "replicate 31 0"] by auto

text \<open>In a directory that clients reach through the service, asking for an account's signing keys has
  exactly three outcomes, and never the decode failure: no devices (no manifest, or one with an
  empty device list), devices of which none carries a signing key, or the non-empty list of the
  32-byte Ed25519 signing keys of its devices. Exactly the first is exempt from the challenge.\<close>
theorem EnrolledSigningKeys_outcomes:
  assumes "(serviceStep P)\<^sup>*\<^sup>* (emptyKeyDir us) st" and "mode \<noteq> DeviceAuthOff"
  shows "(case getManifest a st of
      None \<Rightarrow> EnrolledSigningKeys a st = Inl ErrNoDevicesEnrolled
    | Some km \<Rightarrow> (\<exists>m. decodeManifest (Manifest km) = Inr m \<and>
        EnrolledSigningKeys a st =
          (if man_Devices m = [] then Inl ErrNoDevicesEnrolled
           else if \<forall>d\<in>set (man_Devices m). Key (Sign d) = [] then Inl ErrDeviceNotEnrolled
           else Inr (map (\<lambda>d. Key (Sign d)) (filter (\<lambda>d. Key (Sign d) \<noteq> []) (man_Devices m))))))
    \<and> (Challenge mode a (Some nonce) st = None \<longleftrightarrow>
        EnrolledSigningKeys a st = Inl ErrNoDevicesEnrolled)"
proof -
  have chal: "Challenge mode a (Some nonce) st = None \<longleftrightarrow>
      EnrolledSigningKeys a st = Inl ErrNoDevicesEnrolled"
    using assms(2) by (simp add: Challenge_def)
  show ?thesis
  proof (cases "getManifest a st")
    case None
    then show ?thesis using chal by (simp add: EnrolledSigningKeys_def)
  next
    case (Some km)
    have "directoryValid P st" using keydir_service.invar_reachable [OF assms(1)] by blast
    then obtain m req where ok: "publishOk P a req m" and km: "km = storedManifest m req"
      using directoryValid_get Some by blast
    have dec: "decodeManifest (Manifest km) = Inr m" "Manifest km \<noteq> []"
      using ok km by (simp_all add: publishOk_def storedManifest_def)
    have keys: "length (Key (Sign d)) = 32 \<longleftrightarrow> Key (Sign d) \<noteq> []" if "d \<in> set (man_Devices m)" for d
      using ok that by (auto simp: publishOk_def validateDevices_None validateDeviceKey_None)
    then have "filter (\<lambda>d. length (Key (Sign d)) = 32) (man_Devices m)
        = filter (\<lambda>d. Key (Sign d) \<noteq> []) (man_Devices m)"
      by (intro filter_cong [OF refl])
    then have "filter (\<lambda>k. length k = 32) (map (\<lambda>d. Key (Sign d)) (man_Devices m))
        = map (\<lambda>d. Key (Sign d)) (filter (\<lambda>d. Key (Sign d) \<noteq> []) (man_Devices m))"
      by (simp add: filter_map comp_def)
    then show ?thesis
      using chal Some dec by (auto simp: EnrolledSigningKeys_def Let_def filter_empty_conv)
  qed
qed

theorem EnrolledSigningKeys_outcomes_witness:
  "EnrolledSigningKeys [97] sampleDir = Inr [replicate 32 9]"
  using EnrolledSigningKeys_outcomes [OF sampleDir_reachable, of DeviceAuthEnforce "[97]" "[]"]
    sampleDir_manifest sample_decodes
  by (auto simp: storedManifest_def sampleRequest_def) (simp_all add: sampleDevices_def)

end
