(* ===== verification/Oscar_Dispatch.thy ===== *)
theory Oscar_Dispatch
  imports Foodgroup_DeviceAuth
begin

text \<open>
  The dispatch of a request in \<open>server/oscar\<close>: the device gate and the routing switch of
  \<open>handler.go\<close>, the key directory handlers of \<open>benco_keydir.go\<close>, and the loop body of
  \<open>dispatchIncomingMessages\<close> in \<open>server.go\<close> with its rate limit. A request that belongs to another
  food group ends in the outcome \<open>Forward h\<close>: the switch calls the handler \<open>h\<close> of that component.
  The client's connection takes every frame that is written to it.
\<close>

section \<open>Routing\<close>

abbreviation (input) BOS :: u16 where "BOS \<equiv> 0x0000"
abbreviation (input) Plugin :: u16 where "Plugin \<equiv> 0x0022"
abbreviation (input) MDir :: u16 where "MDir \<equiv> 0x0025"

text \<open>A handler is the name of the method of \<open>Handler\<close> that the switch calls.\<close>

type_synonym handler = string

definition route_Admin :: "u16 \<Rightarrow> handler option" where
  "route_Admin sub =
     (if sub = AdminAcctConfirmRequest then Some ''AdminConfirmRequest''
      else if sub = AdminInfoChangeRequest then Some ''AdminInfoChangeRequest''
      else if sub = AdminInfoQuery then Some ''AdminInfoQuery''
      else None)"

definition route_BENCOKeyDir :: "u16 \<Rightarrow> handler option" where
  "route_BENCOKeyDir sub =
     (if sub = BENCOKeyDirPublishRequest then Some ''BENCOKeyDirPublishRequest''
      else if sub = BENCOKeyDirQueryRequest then Some ''BENCOKeyDirQueryRequest''
      else if sub = BENCOKeyDirPutBackupRequest then Some ''BENCOKeyDirPutBackupRequest''
      else if sub = BENCOKeyDirGetBackupRequest then Some ''BENCOKeyDirGetBackupRequest''
      else if sub = BENCOKeyDirAttestResponse then Some ''BENCOKeyDirAttestResponse''
      else None)"

definition route_Alert :: "u16 \<Rightarrow> handler option" where
  "route_Alert sub =
     (if sub = AlertNotifyCapabilities then Some ''AlertNotifyCapabilities''
      else if sub = AlertNotifyDisplayCapabilities then Some ''AlertNotifyDisplayCapabilities''
      else None)"

definition route_BART :: "u16 \<Rightarrow> handler option" where
  "route_BART sub =
     (if sub = BARTDownloadQuery then Some ''BARTDownloadQuery''
      else if sub = BARTDownload2Query then Some ''BARTDownload2Query''
      else if sub = BARTUploadQuery then Some ''BARTUploadQuery''
      else None)"

definition route_Buddy :: "u16 \<Rightarrow> handler option" where
  "route_Buddy sub =
     (if sub = BuddyAddBuddies then Some ''BuddyAddBuddies''
      else if sub = BuddyDelBuddies then Some ''BuddyDelBuddies''
      else if sub = BuddyRightsQuery then Some ''BuddyRightsQuery''
      else if sub = BuddyAddTempBuddies then Some ''BuddyAddTempBuddies''
      else if sub = BuddyDelTempBuddies then Some ''BuddyDelTempBuddies''
      else None)"

definition route_Chat :: "u16 \<Rightarrow> handler option" where
  "route_Chat sub =
     (if sub = ChatChannelMsgToHost then Some ''ChatChannelMsgToHost''
      else None)"

definition route_ChatNav :: "u16 \<Rightarrow> handler option" where
  "route_ChatNav sub =
     (if sub = ChatNavCreateRoom then Some ''ChatNavCreateRoom''
      else if sub = ChatNavRequestChatRights then Some ''ChatNavRequestChatRights''
      else if sub = ChatNavRequestExchangeInfo then Some ''ChatNavRequestExchangeInfo''
      else if sub = ChatNavRequestRoomInfo then Some ''ChatNavRequestRoomInfo''
      else None)"

definition route_Feedbag :: "u16 \<Rightarrow> handler option" where
  "route_Feedbag sub =
     (if sub = FeedbagDeleteItem then Some ''FeedbagDeleteItem''
      else if sub = FeedbagEndCluster then Some ''FeedbagEndCluster''
      else if sub = FeedbagInsertItem then Some ''FeedbagInsertItem''
      else if sub = FeedbagQuery then Some ''FeedbagQuery''
      else if sub = FeedbagQueryIfModified then Some ''FeedbagQueryIfModified''
      else if sub = FeedbagPreAuthorizeBuddy then Some ''FeedbagPreAuthorizeBuddy''
      else if sub = FeedbagRequestAuthorizeToHost then Some ''FeedbagRequestAuthorizeToHost''
      else if sub = FeedbagRespondAuthorizeToHost then Some ''FeedbagRespondAuthorizeToHost''
      else if sub = FeedbagRightsQuery then Some ''FeedbagRightsQuery''
      else if sub = FeedbagStartCluster then Some ''FeedbagStartCluster''
      else if sub = FeedbagUpdateItem then Some ''FeedbagUpdateItem''
      else if sub = FeedbagUse then Some ''FeedbagUse''
      else None)"

definition route_Invite :: "u16 \<Rightarrow> handler option" where
  "route_Invite sub =
     (if sub = InviteRequestQuery \<or> sub = InviteRequestReply then Some ''InviteRequest''
      else None)"

definition route_ICQ :: "u16 \<Rightarrow> handler option" where
  "route_ICQ sub =
     (if sub = ICQDBQuery then Some ''ICQDBQuery''
      else None)"

definition route_ICBM :: "u16 \<Rightarrow> handler option" where
  "route_ICBM sub =
     (if sub = ICBMAddParameters then Some ''ICBMAddParameters''
      else if sub = ICBMChannelMsgToHost then Some ''ICBMChannelMsgToHost''
      else if sub = ICBMClientErr then Some ''ICBMClientErr''
      else if sub = ICBMClientEvent then Some ''ICBMClientEvent''
      else if sub = ICBMEvilRequest then Some ''ICBMEvilRequest''
      else if sub = ICBMParameterQuery then Some ''ICBMParameterQuery''
      else if sub = ICBMOfflineRetrieve then Some ''ICBMOfflineRetrieve''
      else None)"

definition route_Locate :: "u16 \<Rightarrow> handler option" where
  "route_Locate sub =
     (if sub = LocateGetDirInfo then Some ''LocateGetDirInfo''
      else if sub = LocateRightsQuery then Some ''LocateRightsQuery''
      else if sub = LocateSetDirInfo then Some ''LocateSetDirInfo''
      else if sub = LocateSetInfo then Some ''LocateSetInfo''
      else if sub = LocateSetKeywordInfo then Some ''LocateSetKeywordInfo''
      else if sub = LocateUserInfoQuery then Some ''LocateUserInfoQuery''
      else if sub = LocateUserInfoQuery2 then Some ''LocateUserInfoQuery2''
      else None)"

definition route_MDir :: "u16 \<Rightarrow> handler option" where
  "route_MDir sub = Some ''MDirRequest''"

definition route_ODir :: "u16 \<Rightarrow> handler option" where
  "route_ODir sub =
     (if sub = ODirInfoQuery then Some ''ODirInfoQuery''
      else if sub = ODirKeywordListQuery then Some ''ODirKeywordListQuery''
      else None)"

definition route_OService :: "u16 \<Rightarrow> handler option" where
  "route_OService sub =
     (if sub = OServiceClientOnline then Some ''OServiceClientOnline''
      else if sub = OServiceClientVersions then Some ''OServiceClientVersions''
      else if sub = OServiceIdleNotification then Some ''OServiceIdleNotification''
      else if sub = OServiceNoop then Some ''OServiceNoop''
      else if sub = OServiceRateParamsQuery then Some ''OServiceRateParamsQuery''
      else if sub = OServiceRateParamsSubAdd then Some ''OServiceRateParamsSubAdd''
      else if sub = OServiceServiceRequest then Some ''OServiceServiceRequest''
      else if sub = OServiceSetPrivacyFlags then Some ''OServiceSetPrivacyFlags''
      else if sub = OServiceSetUserInfoFields then Some ''OServiceSetUserInfoFields''
      else if sub = OServiceUserInfoQuery then Some ''OServiceUserInfoQuery''
      else if sub = OServiceProbeReq then Some ''OServiceProbeReq''
      else None)"

definition route_PermitDeny :: "u16 \<Rightarrow> handler option" where
  "route_PermitDeny sub =
     (if sub = PermitDenyAddDenyListEntries then Some ''PermitDenyAddDenyListEntries''
      else if sub = PermitDenyAddPermListEntries then Some ''PermitDenyAddPermListEntries''
      else if sub = PermitDenyDelDenyListEntries then Some ''PermitDenyDelDenyListEntries''
      else if sub = PermitDenyDelPermListEntries then Some ''PermitDenyDelPermListEntries''
      else if sub = PermitDenyRightsQuery then Some ''PermitDenyRightsQuery''
      else if sub = PermitDenySetGroupPermitMask then Some ''PermitDenySetGroupPermitMask''
      else None)"

definition route_Plugin :: "u16 \<Rightarrow> handler option" where
  "route_Plugin sub = Some ''PluginRequest''"

definition route_Stats :: "u16 \<Rightarrow> handler option" where
  "route_Stats sub =
     (if sub = StatsReportEvents then Some ''StatsReportEvents''
      else None)"

definition route_UserLookup :: "u16 \<Rightarrow> handler option" where
  "route_UserLookup sub =
     (if sub = UserLookupFindByEmail then Some ''UserLookupFindByEmail''
      else None)"

definition route :: "u16 \<Rightarrow> u16 \<Rightarrow> handler option" where
  "route foodGroup sub =
     (if foodGroup = Admin then route_Admin sub
      else if foodGroup = BENCOKeyDir then route_BENCOKeyDir sub
      else if foodGroup = Alert then route_Alert sub
      else if foodGroup = BART then route_BART sub
      else if foodGroup = Buddy then route_Buddy sub
      else if foodGroup = Chat then route_Chat sub
      else if foodGroup = ChatNav then route_ChatNav sub
      else if foodGroup = Feedbag then route_Feedbag sub
      else if foodGroup = Invite then route_Invite sub
      else if foodGroup = ICQ then route_ICQ sub
      else if foodGroup = ICBM then route_ICBM sub
      else if foodGroup = Locate then route_Locate sub
      else if foodGroup = MDir then route_MDir sub
      else if foodGroup = ODir then route_ODir sub
      else if foodGroup = OService then route_OService sub
      else if foodGroup = PermitDeny then route_PermitDeny sub
      else if foodGroup = Plugin then route_Plugin sub
      else if foodGroup = Stats then route_Stats sub
      else if foodGroup = UserLookup then route_UserLookup sub
      else None)"

lemmas route_defs = route_def route_Admin_def route_BENCOKeyDir_def route_Alert_def route_BART_def route_Buddy_def route_Chat_def route_ChatNav_def route_Feedbag_def route_Invite_def route_ICQ_def route_ICBM_def route_Locate_def route_MDir_def route_ODir_def route_OService_def route_PermitDeny_def route_Plugin_def route_Stats_def route_UserLookup_def

definition routedCodes :: "(u16 \<times> u16) list" where
  "routedCodes =
     [(Admin, AdminAcctConfirmRequest),
      (Admin, AdminInfoChangeRequest),
      (Admin, AdminInfoQuery),
      (BENCOKeyDir, BENCOKeyDirPublishRequest),
      (BENCOKeyDir, BENCOKeyDirQueryRequest),
      (BENCOKeyDir, BENCOKeyDirPutBackupRequest),
      (BENCOKeyDir, BENCOKeyDirGetBackupRequest),
      (BENCOKeyDir, BENCOKeyDirAttestResponse),
      (Alert, AlertNotifyCapabilities),
      (Alert, AlertNotifyDisplayCapabilities),
      (BART, BARTDownloadQuery),
      (BART, BARTDownload2Query),
      (BART, BARTUploadQuery),
      (Buddy, BuddyAddBuddies),
      (Buddy, BuddyDelBuddies),
      (Buddy, BuddyRightsQuery),
      (Buddy, BuddyAddTempBuddies),
      (Buddy, BuddyDelTempBuddies),
      (Chat, ChatChannelMsgToHost),
      (ChatNav, ChatNavCreateRoom),
      (ChatNav, ChatNavRequestChatRights),
      (ChatNav, ChatNavRequestExchangeInfo),
      (ChatNav, ChatNavRequestRoomInfo),
      (Feedbag, FeedbagDeleteItem),
      (Feedbag, FeedbagEndCluster),
      (Feedbag, FeedbagInsertItem),
      (Feedbag, FeedbagQuery),
      (Feedbag, FeedbagQueryIfModified),
      (Feedbag, FeedbagPreAuthorizeBuddy),
      (Feedbag, FeedbagRequestAuthorizeToHost),
      (Feedbag, FeedbagRespondAuthorizeToHost),
      (Feedbag, FeedbagRightsQuery),
      (Feedbag, FeedbagStartCluster),
      (Feedbag, FeedbagUpdateItem),
      (Feedbag, FeedbagUse),
      (Invite, InviteRequestQuery),
      (Invite, InviteRequestReply),
      (ICQ, ICQDBQuery),
      (ICBM, ICBMAddParameters),
      (ICBM, ICBMChannelMsgToHost),
      (ICBM, ICBMClientErr),
      (ICBM, ICBMClientEvent),
      (ICBM, ICBMEvilRequest),
      (ICBM, ICBMParameterQuery),
      (ICBM, ICBMOfflineRetrieve),
      (Locate, LocateGetDirInfo),
      (Locate, LocateRightsQuery),
      (Locate, LocateSetDirInfo),
      (Locate, LocateSetInfo),
      (Locate, LocateSetKeywordInfo),
      (Locate, LocateUserInfoQuery),
      (Locate, LocateUserInfoQuery2),
      (ODir, ODirInfoQuery),
      (ODir, ODirKeywordListQuery),
      (OService, OServiceClientOnline),
      (OService, OServiceClientVersions),
      (OService, OServiceIdleNotification),
      (OService, OServiceNoop),
      (OService, OServiceRateParamsQuery),
      (OService, OServiceRateParamsSubAdd),
      (OService, OServiceServiceRequest),
      (OService, OServiceSetPrivacyFlags),
      (OService, OServiceSetUserInfoFields),
      (OService, OServiceUserInfoQuery),
      (OService, OServiceProbeReq),
      (PermitDeny, PermitDenyAddDenyListEntries),
      (PermitDeny, PermitDenyAddPermListEntries),
      (PermitDeny, PermitDenyDelDenyListEntries),
      (PermitDeny, PermitDenyDelPermListEntries),
      (PermitDeny, PermitDenyRightsQuery),
      (PermitDeny, PermitDenySetGroupPermitMask),
      (Stats, StatsReportEvents),
      (UserLookup, UserLookupFindByEmail)]"

section \<open>The device gate\<close>

text \<open>What a request finds in its surroundings: the configured mode, what the random source answers,
  the clock, and whether the service behind \<open>ClientOnline\<close> reports no error.\<close>

record surroundings =
  mode :: DeviceAuthMode
  rnd :: "bytes option"
  clock :: int
  clientOnlineOk :: bool

definition errorReply :: "SNACFrame \<Rightarrow> u16 \<Rightarrow> SNACMessage" where
  "errorReply inFrame code =
     (\<lparr>FoodGroup = FoodGroup inFrame, SubGroup = 0x01, Flags = 0, RequestID = RequestID inFrame\<rparr>,
      SNACError_body code)"

definition gateDeviceAuth :: "surroundings \<Rightarrow> u16 \<Rightarrow> IdentScreenName \<Rightarrow> SNACFrame \<Rightarrow> KeyDirStore
    \<Rightarrow> SessionInstance option \<Rightarrow> bool \<times> SNACMessage list \<times> SessionInstance option" where
  "gateDeviceAuth env server screenName inFrame st x0 =
     (case x0 of
        None \<Rightarrow> (False, [], None)
      | Some x \<Rightarrow>
          if mode env = DeviceAuthOff \<or> server \<noteq> BOS \<or> attested x then (False, [], Some x)
          else (case (if length (sessionNonce x) = 0
                      then (case Challenge (mode env) screenName (rnd env) st of
                              None \<Rightarrow> None
                            | Some (msg, nonce) \<Rightarrow> Some ([msg], SetAttestNonce nonce x))
                      else Some ([], x)) of
            None \<Rightarrow> (False, [], Some (SetAttested x))
          | Some (sent, x1) \<Rightarrow>
              if FoodGroup inFrame = BENCOKeyDir \<and>
                 (SubGroup inFrame = BENCOKeyDirAttestResponse \<or> SubGroup inFrame = BENCOKeyDirPublishRequest)
              then (False, sent, Some x1)
              else if mode env \<noteq> DeviceAuthEnforce then (False, sent, Some x1)
              else (True, sent @ [errorReply inFrame ErrorCodeInsufficientRights],
                    Some (snd (NoteUnattestedUse x1)))))"

section \<open>Handlers\<close>

datatype handleErr = ErrRouteNotFound | DecodeErr gerr | ServiceErr keyDirErr

datatype outcome = GateRefused | Served | Forward handler | Failed handleErr

record handled =
  result :: outcome
  sent :: "SNACMessage list"
  inst' :: SessionInstance
  store' :: KeyDirStore

definition reply :: "(keyDirErr + SNACMessage) \<Rightarrow> SessionInstance \<Rightarrow> KeyDirStore \<Rightarrow> handled" where
  "reply r x st =
     (case r of
        Inl e \<Rightarrow> \<lparr>result = Failed (ServiceErr e), sent = [], inst' = x, store' = st\<rparr>
      | Inr msg \<Rightarrow> \<lparr>result = Served, sent = [msg], inst' = x, store' = st\<rparr>)"

definition withBody :: "gtype \<Rightarrow> bytes \<Rightarrow> SessionInstance \<Rightarrow> KeyDirStore \<Rightarrow> (gval \<Rightarrow> handled) \<Rightarrow> handled" where
  "withBody t body x st f =
     (case UnmarshalBE t body of
        (Inl e, _) \<Rightarrow> \<lparr>result = Failed (DecodeErr e), sent = [], inst' = x, store' = st\<rparr>
      | (Inr v, _) \<Rightarrow> f v)"

definition handle_AttestResponse :: "platform \<Rightarrow> IdentScreenName \<Rightarrow> SNACFrame \<Rightarrow> bytes \<Rightarrow> SessionInstance
    \<Rightarrow> KeyDirStore \<Rightarrow> handled" where
  "handle_AttestResponse P screenName inFrame body x st =
     withBody SNAC_0xBE00_0x000B_BENCOKeyDirAttestResponse body x st (\<lambda>v.
       case AttestResponse P screenName inFrame (toAttestRequest v) st x of
         (msg, x') \<Rightarrow> \<lparr>result = Served, sent = [msg], inst' = x', store' = st\<rparr>)"

definition handle_PublishRequest :: "platform \<Rightarrow> IdentScreenName \<Rightarrow> SNACFrame \<Rightarrow> bytes \<Rightarrow> SessionInstance
    \<Rightarrow> KeyDirStore \<Rightarrow> handled" where
  "handle_PublishRequest P screenName inFrame body x st =
     withBody SNAC_0xBE00_0x0002_BENCOKeyDirPublishRequest body x st (\<lambda>v.
       case Service_PublishManifest P screenName inFrame (toPublishRequest v) st of
         (r, st') \<Rightarrow> reply r x st')"

definition handle_QueryRequest :: "platform \<Rightarrow> SNACFrame \<Rightarrow> bytes \<Rightarrow> SessionInstance \<Rightarrow> KeyDirStore
    \<Rightarrow> handled" where
  "handle_QueryRequest P inFrame body x st =
     withBody SNAC_0xBE00_0x0004_BENCOKeyDirQueryRequest body x st (\<lambda>v.
       reply (Inr (Service_QueryManifest P inFrame (asBytes (field 1 v)) st)) x st)"

definition handle_PutBackupRequest :: "int \<Rightarrow> IdentScreenName \<Rightarrow> SNACFrame \<Rightarrow> bytes \<Rightarrow> SessionInstance
    \<Rightarrow> KeyDirStore \<Rightarrow> handled" where
  "handle_PutBackupRequest now screenName inFrame body x st =
     withBody SNAC_0xBE00_0x0006_BENCOKeyDirPutBackupRequest body x st (\<lambda>v.
       case Service_PutBackup now screenName inFrame (toPutBackupRequest v) st of (r, st') \<Rightarrow> reply r x st')"

definition handle_GetBackupRequest :: "IdentScreenName \<Rightarrow> SNACFrame \<Rightarrow> bytes \<Rightarrow> SessionInstance
    \<Rightarrow> KeyDirStore \<Rightarrow> handled" where
  "handle_GetBackupRequest screenName inFrame body x st =
     withBody SNAC_0xBE00_0x0008_BENCOKeyDirGetBackupRequest body x st (\<lambda>v.
       reply (Inr (Service_GetBackup screenName inFrame st)) x st)"

text \<open>\<open>OServiceClientOnline\<close>: after the service, a session that is still unproven is challenged anew.\<close>

definition handle_ClientOnline :: "surroundings \<Rightarrow> u16 \<Rightarrow> IdentScreenName \<Rightarrow> bytes \<Rightarrow> SessionInstance
    \<Rightarrow> KeyDirStore \<Rightarrow> handled" where
  "handle_ClientOnline env server screenName body x st =
     withBody SNAC_0x01_0x02_OServiceClientOnline body x st (\<lambda>v.
       let same = \<lparr>result = Forward ''OServiceClientOnline'', sent = [], inst' = x, store' = st\<rparr> in
       if \<not> clientOnlineOk env then same
       else if server = BOS \<and> mode env \<noteq> DeviceAuthOff \<and> \<not> attested x \<and> length (sessionNonce x) > 0
       then (case Challenge (mode env) screenName (rnd env) st of
               Some (msg, nonce) \<Rightarrow> same\<lparr>sent := [msg], inst' := SetAttestNonce nonce x\<rparr>
             | None \<Rightarrow> same\<lparr>inst' := SetAttested x\<rparr>)
       else same)"

definition callHandler :: "platform \<Rightarrow> surroundings \<Rightarrow> u16 \<Rightarrow> IdentScreenName \<Rightarrow> handler \<Rightarrow> SNACFrame \<Rightarrow> bytes
    \<Rightarrow> SessionInstance \<Rightarrow> KeyDirStore \<Rightarrow> handled" where
  "callHandler P env server screenName h inFrame body x st =
     (if h = ''BENCOKeyDirAttestResponse'' then handle_AttestResponse P screenName inFrame body x st
      else if h = ''BENCOKeyDirPublishRequest'' then handle_PublishRequest P screenName inFrame body x st
      else if h = ''BENCOKeyDirQueryRequest'' then handle_QueryRequest P inFrame body x st
      else if h = ''BENCOKeyDirPutBackupRequest''
      then handle_PutBackupRequest (clock env) screenName inFrame body x st
      else if h = ''BENCOKeyDirGetBackupRequest'' then handle_GetBackupRequest screenName inFrame body x st
      else if h = ''OServiceClientOnline'' then handle_ClientOnline env server screenName body x st
      else \<lparr>result = Forward h, sent = [], inst' = x, store' = st\<rparr>)"

definition Handle :: "platform \<Rightarrow> surroundings \<Rightarrow> u16 \<Rightarrow> IdentScreenName \<Rightarrow> SNACFrame \<Rightarrow> bytes
    \<Rightarrow> SessionInstance \<Rightarrow> KeyDirStore \<Rightarrow> handled" where
  "Handle P env server screenName inFrame body x st =
     (case gateDeviceAuth env server screenName inFrame st (Some x) of
        (isHandled, gateSent, y) \<Rightarrow>
          (let x1 = the y in
           if isHandled then \<lparr>result = GateRefused, sent = gateSent, inst' = x1, store' = st\<rparr>
           else (case route (FoodGroup inFrame) (SubGroup inFrame) of
             None \<Rightarrow> \<lparr>result = Failed ErrRouteNotFound, sent = gateSent, inst' = x1, store' = st\<rparr>
           | Some h \<Rightarrow>
               (let r = callHandler P env server screenName h inFrame body x1 st
                in r\<lparr>sent := gateSent @ sent r\<rparr>))))"

section \<open>The receive loop\<close>

text \<open>One frame from the client: the loop goes on, ends, or panics (an invalid rate class).\<close>

datatype loopNext = GoOn | EndNil | EndErr | LoopPanic

record connState =
  conSession :: Session
  conStore :: KeyDirStore
  conSent :: "SNACMessage list"
  conRouted :: "outcome list"

definition sendRateLimitErr :: "SNACFrame \<Rightarrow> SNACMessage" where
  "sendRateLimitErr frameIn = errorReply frameIn ErrorCodeRateToHost"

definition sendInvalidSNACErr :: "SNACFrame \<Rightarrow> SNACMessage" where
  "sendInvalidSNACErr frameIn = errorReply frameIn ErrorCodeInvalidSnac"

definition toSNACFrame :: "gval \<Rightarrow> SNACFrame" where
  "toSNACFrame v = \<lparr>FoodGroup = asU16 (field 0 v), SubGroup = asU16 (field 1 v), Flags = asU16 (field 2 v),
     RequestID = (case field 3 v of VU32 w \<Rightarrow> w | _ \<Rightarrow> 0)\<rparr>"

definition routeRequest :: "platform \<Rightarrow> surroundings \<Rightarrow> u16 \<Rightarrow> IdentScreenName \<Rightarrow> nat \<Rightarrow> SNACFrame \<Rightarrow> bytes
    \<Rightarrow> connState \<Rightarrow> loopNext \<times> connState" where
  "routeRequest P env fg screenName i inFrame body c =
     (let r = Handle P env fg screenName inFrame body (inst (conSession c) i) (conStore c);
          c1 = c\<lparr>conSession := updInst i (\<lambda>_. inst' r) (conSession c), conStore := store' r,
                 conSent := conSent c @ sent r, conRouted := conRouted c @ [result r]\<rparr>
      in (case result r of
            Failed e \<Rightarrow>
              if e = ErrRouteNotFound
              then (GoOn, c1\<lparr>conSent := conSent c1 @ [sendInvalidSNACErr inFrame]\<rparr>)
              else (EndErr, c1)
          | _ \<Rightarrow> (GoOn, c1)))"

definition dispatchData :: "platform \<Rightarrow> surroundings \<Rightarrow> SNACRateLimits \<Rightarrow> u16 \<Rightarrow> IdentScreenName \<Rightarrow> nat \<Rightarrow> bytes
    \<Rightarrow> connState \<Rightarrow> loopNext \<times> connState" where
  "dispatchData P env limits fg screenName i payload c =
     (case UnmarshalBE SNACFrame_type payload of
        (Inl e, _) \<Rightarrow> (EndErr, c)
      | (Inr fv, flapBuf) \<Rightarrow>
          (let inFrame = toSNACFrame fv in
           case RateClassLookup limits (FoodGroup inFrame) (SubGroup inFrame) of
             None \<Rightarrow> routeRequest P env fg screenName i inFrame flapBuf c
           | Some rateClassID \<Rightarrow>
               (case EvaluateRateLimit (clock env) rateClassID (conSession c) of
                  None \<Rightarrow> (LoopPanic, c)
                | Some (status, s1) \<Rightarrow>
                    (let c1 = c\<lparr>conSession := s1\<rparr> in
                     if status = RateLimitStatusLimited
                     then (GoOn, c1\<lparr>conSent := conSent c1 @ [sendRateLimitErr inFrame]\<rparr>)
                     else routeRequest P env fg screenName i inFrame flapBuf c1))))"

definition dispatchFlap :: "platform \<Rightarrow> surroundings \<Rightarrow> SNACRateLimits \<Rightarrow> u16 \<Rightarrow> IdentScreenName \<Rightarrow> nat
    \<Rightarrow> byte \<Rightarrow> bytes \<Rightarrow> connState \<Rightarrow> loopNext \<times> connState" where
  "dispatchFlap P env limits fg screenName i frameType payload c =
     (if frameType = FLAPFrameData then dispatchData P env limits fg screenName i payload c
      else if frameType = FLAPFrameSignon then (EndErr, c)
      else if frameType = FLAPFrameError then (EndErr, c)
      else if frameType = FLAPFrameSignoff then (EndNil, c)
      else if frameType = FLAPFrameKeepAlive then (GoOn, c)
      else (EndErr, c))"

section \<open>Lemmas\<close>

definition exemptFrame :: "SNACFrame \<Rightarrow> bool" where
  "exemptFrame fr \<longleftrightarrow> FoodGroup fr = BENCOKeyDir \<and>
     (SubGroup fr = BENCOKeyDirAttestResponse \<or> SubGroup fr = BENCOKeyDirPublishRequest)"

lemma sessionNonce_upd [simp]:
  "sessionNonce (SetAttestNonce n x) = n"
  "sessionNonce (SetAttested x) = sessionNonce x"
  "sessionNonce (snd (NoteUnattestedUse x)) = sessionNonce x"
  by (simp_all add: sessionNonce_def SetAttestNonce_def SetAttested_def NoteUnattestedUse_def)

lemma attested_upd [simp]:
  "attested (SetAttestNonce n x) = attested x"
  "attested (SetAttested x)"
  "attested (snd (NoteUnattestedUse x)) = attested x"
  by (simp_all add: SetAttestNonce_def SetAttested_def NoteUnattestedUse_def)

text \<open>The nonce a session is held to when a request arrives: its own, or the one drawn now.\<close>

definition currentNonce :: "surroundings \<Rightarrow> SessionInstance \<Rightarrow> bytes" where
  "currentNonce env x =
     (if sessionNonce x = [] then (case rnd env of None \<Rightarrow> [] | Some n \<Rightarrow> n) else sessionNonce x)"

text \<open>An unproven session of an account with devices, in enforce mode: every request but the two
  exempt ones is refused, and the session stays unproven.\<close>

lemma gate_enforce:
  assumes "mode env = DeviceAuthEnforce" and "\<not> attested x" and "rnd env = Some n"
    and "sessionNonce x \<noteq> [] \<or> EnrolledSigningKeys a st \<noteq> Inl ErrNoDevicesEnrolled"
  shows "\<exists>y. gateDeviceAuth env BOS a fr st (Some x) =
      (\<not> exemptFrame fr,
       (if sessionNonce x = [] then [challengeMessage n] else []) @
         (if exemptFrame fr then [] else [errorReply fr ErrorCodeInsufficientRights]),
       Some y) \<and> \<not> attested y \<and> sessionNonce y = currentNonce env x"
  using assms
  by (auto simp: gateDeviceAuth_def Challenge_def exemptFrame_def currentNonce_def)

lemma gate_passes:
  "attested x \<Longrightarrow> gateDeviceAuth env server a fr st (Some x) = (False, [], Some x)"
  by (simp add: gateDeviceAuth_def)

text \<open>An answer that proves a device: signed, over this account and nonce, by an enrolled key.\<close>

definition attestsDevice :: "platform \<Rightarrow> IdentScreenName \<Rightarrow> bytes \<Rightarrow> bytes \<Rightarrow> KeyDirStore \<Rightarrow> bool" where
  "attestsDevice P a nonce body st \<longleftrightarrow>
     (case UnmarshalBE SNAC_0xBE00_0x000B_BENCOKeyDirAttestResponse body of
        (Inl e, _) \<Rightarrow> False
      | (Inr v, _) \<Rightarrow>
          (let req = toAttestRequest v in
           att_Version req = 2 \<and> length nonce = 32 \<and> length (att_Signature req) = 64
           \<and> (case EnrolledSigningKeys a st of Inl e \<Rightarrow> False
              | Inr keys \<Rightarrow> list_ex (\<lambda>k. k = Key (att_SignKey req)) keys)
           \<and> ed25519_Verify P (Key (att_SignKey req)) (attestContext a nonce) (att_Signature req)))"

lemma attestsDevice_iff:
  "UnmarshalBE SNAC_0xBE00_0x000B_BENCOKeyDirAttestResponse body = (Inr v, rest) \<Longrightarrow>
     attestsDevice P a nonce body st \<longleftrightarrow> att_Version (toAttestRequest v) = 2 \<and>
       Verify P a nonce (Key (att_SignKey (toAttestRequest v))) (att_Signature (toAttestRequest v)) st = None"
  by (auto simp: attestsDevice_def Let_def Verify_None list_ex_iff split: sum.splits)

lemma handle_AttestResponse_attested:
  assumes "\<not> attested x" and "attested (inst' (handle_AttestResponse P a fr body x st))"
  shows "EnrolledSigningKeys a st = Inl ErrNoDevicesEnrolled \<or> attestsDevice P a (sessionNonce x) body st"
proof -
  obtain d rest where u: "UnmarshalBE SNAC_0xBE00_0x000B_BENCOKeyDirAttestResponse body = (d, rest)"
    by (cases "UnmarshalBE SNAC_0xBE00_0x000B_BENCOKeyDirAttestResponse body")
  show ?thesis
  proof (cases d)
    case (Inl e)
    then show ?thesis using assms u by (simp add: handle_AttestResponse_def withBody_def)
  next
    case (Inr v)
    then have "attested (snd (AttestResponse P a fr (toAttestRequest v) st x))"
      using assms u by (simp add: handle_AttestResponse_def withBody_def split: prod.splits)
    then show ?thesis
      using assms(1) u Inr
      by (auto simp: AttestResponse_attested attestsDevice_iff Verify_no_devices)
  qed
qed

lemma withBody_inst:
  "(\<And>v. inst' (f v) = x) \<Longrightarrow> inst' (withBody t body x st f) = x"
  by (simp add: withBody_def split: prod.splits sum.splits)

lemma reply_inst [simp]: "inst' (reply r x st) = x"
  by (simp add: reply_def split: sum.splits)

lemma other_handlers_inst [simp]:
  "inst' (handle_PublishRequest P a fr body x st) = x"
  "inst' (handle_QueryRequest P fr body x st) = x"
  "inst' (handle_PutBackupRequest now a fr body x st) = x"
  "inst' (handle_GetBackupRequest a fr body x st) = x"
  by (auto simp: handle_PublishRequest_def handle_QueryRequest_def handle_PutBackupRequest_def
      handle_GetBackupRequest_def intro!: withBody_inst split: prod.splits)

lemma handle_ClientOnline_attested:
  assumes "\<not> attested x" and "rnd env = Some n"
    and "attested (inst' (handle_ClientOnline env server a body x st))"
  shows "EnrolledSigningKeys a st = Inl ErrNoDevicesEnrolled"
  using assms
  by (auto simp: handle_ClientOnline_def withBody_def Challenge_def Let_def
      split: prod.splits sum.splits if_splits)

lemma callHandler_attested:
  assumes "\<not> attested x" and "rnd env = Some n"
    and "attested (inst' (callHandler P env server a h fr body x st))"
  shows "EnrolledSigningKeys a st = Inl ErrNoDevicesEnrolled
    \<or> h = ''BENCOKeyDirAttestResponse'' \<and> attestsDevice P a (sessionNonce x) body st"
  using assms handle_AttestResponse_attested [OF assms(1)] handle_ClientOnline_attested [OF assms(1,2)]
  by (simp add: callHandler_def split: if_splits)

lemma route_exempt:
  "exemptFrame fr \<Longrightarrow> route (FoodGroup fr) (SubGroup fr) = Some ''BENCOKeyDirAttestResponse'' \<Longrightarrow>
     SubGroup fr = BENCOKeyDirAttestResponse"
  by (auto simp: exemptFrame_def route_defs)

text \<open>A request that turns an unproven session into a proven one is an answer that proves a device over
  the nonce the session is held to, unless the account has no devices.\<close>

lemma Handle_attested:
  assumes "mode env = DeviceAuthEnforce" and "\<not> attested x" and "rnd env = Some n"
    and "attested (inst' (Handle P env BOS a fr body x st))"
    and devices: "EnrolledSigningKeys a st \<noteq> Inl ErrNoDevicesEnrolled"
  shows "FoodGroup fr = BENCOKeyDir \<and> SubGroup fr = BENCOKeyDirAttestResponse
    \<and> attestsDevice P a (currentNonce env x) body st"
proof -
  obtain s y where g: "gateDeviceAuth env BOS a fr st (Some x) = (\<not> exemptFrame fr, s, Some y)"
    and y: "\<not> attested y" "sessionNonce y = currentNonce env x"
    using gate_enforce [OF assms(1-3), of a st fr] devices by blast
  have ex: "exemptFrame fr"
  proof (rule ccontr)
    assume "\<not> exemptFrame fr"
    then have "inst' (Handle P env BOS a fr body x st) = y" using g by (simp add: Handle_def)
    then show False using assms(4) y(1) by simp
  qed
  obtain h where h: "route (FoodGroup fr) (SubGroup fr) = Some h"
    and att: "attested (inst' (callHandler P env BOS a h fr body y st))"
    using assms(4) g ex y(1) by (auto simp: Handle_def Let_def split: option.splits)
  have "h = ''BENCOKeyDirAttestResponse'' \<and> attestsDevice P a (currentNonce env x) body st"
    using callHandler_attested [OF y(1) assms(3) att] devices y(2) by simp
  then show ?thesis using route_exempt [OF ex] h ex by (auto simp: exemptFrame_def)
qed

text \<open>A session on the BOS connection under enforcement, beside everything else that happens to the
  directory.\<close>

inductive enforceStep :: "platform \<Rightarrow> IdentScreenName \<Rightarrow> KeyDirStore \<times> SessionInstance
    \<Rightarrow> KeyDirStore \<times> SessionInstance \<Rightarrow> bool" for P a where
  others: "serviceStep P st st' \<Longrightarrow> enforceStep P a (st, x) (st', x)"
| request: "mode env = DeviceAuthEnforce \<Longrightarrow> rnd env = Some n \<Longrightarrow> length n = 32 \<Longrightarrow>
    r = Handle P env BOS a fr body x st \<Longrightarrow> enforceStep P a (st, x) (store' r, inst' r)"

text \<open>The request by which a session got out of the gate: of an account without devices, or a proof
  over the nonce the session was held to.\<close>

definition releasedBy :: "platform \<Rightarrow> IdentScreenName \<Rightarrow> surroundings \<Rightarrow> SNACFrame \<Rightarrow> bytes
    \<Rightarrow> KeyDirStore \<times> SessionInstance \<Rightarrow> bool" where
  "releasedBy P a env fr body s \<longleftrightarrow>
     \<not> attested (snd s) \<and>
     (EnrolledSigningKeys a (fst s) = Inl ErrNoDevicesEnrolled
      \<or> FoodGroup fr = BENCOKeyDir \<and> SubGroup fr = BENCOKeyDirAttestResponse
        \<and> attestsDevice P a (currentNonce env (snd s)) body (fst s))"

definition afterRequest :: "platform \<Rightarrow> IdentScreenName \<Rightarrow> surroundings \<Rightarrow> SNACFrame \<Rightarrow> bytes
    \<Rightarrow> KeyDirStore \<times> SessionInstance \<Rightarrow> KeyDirStore \<times> SessionInstance" where
  "afterRequest P a env fr body s =
     (let r = Handle P env BOS a fr body (snd s) (fst s) in (store' r, inst' r))"

lemma attested_after_release:
  assumes "(enforceStep P a)\<^sup>*\<^sup>* (st0, x0) (st, x)" and "\<not> attested x0" and "attested x"
  shows "\<exists>s env fr body. (enforceStep P a)\<^sup>*\<^sup>* (st0, x0) s \<and> releasedBy P a env fr body s
    \<and> (enforceStep P a)\<^sup>*\<^sup>* (afterRequest P a env fr body s) (st, x)"
  using assms
proof (induction "(st, x)" arbitrary: st x rule: rtranclp_induct)
  case base
  then show ?case by simp
next
  case (step q)
  obtain st1 x1 where q: "q = (st1, x1)" by (cases q)
  from step.hyps(2) q have last: "enforceStep P a (st1, x1) (st, x)" by simp
  show ?case
  proof (cases "attested x1")
    case True
    then obtain s env fr body where "(enforceStep P a)\<^sup>*\<^sup>* (st0, x0) s" "releasedBy P a env fr body s"
      "(enforceStep P a)\<^sup>*\<^sup>* (afterRequest P a env fr body s) (st1, x1)"
      using step.hyps(3) [OF q] step.prems(1) by blast
    then show ?thesis using rtranclp.rtrancl_into_rtrancl [of "enforceStep P a", OF _ last] by blast
  next
    case False
    from last show ?thesis
    proof cases
      case others
      then show ?thesis using False step.prems(2) by simp
    next
      case (request env n r fr body)
      then have att: "attested (inst' (Handle P env BOS a fr body x1 st1))" using step.prems(2) by simp
      have "releasedBy P a env fr body (st1, x1)"
        using Handle_attested [OF request(3) False request(4) att] False by (auto simp: releasedBy_def)
      moreover have "afterRequest P a env fr body (st1, x1) = (st, x)"
        using request by (simp add: afterRequest_def Let_def)
      ultimately show ?thesis using step.hyps(1) q by (metis rtranclp.rtrancl_refl)
    qed
  qed
qed

section \<open>Properties\<close>

text \<open>C2: Enforcement: on a BOS connection of an account with enrolled devices (or one already under
  challenge), a session that has not proven its device gets nothing but the chance to prove it.
  Every request other than an attestation answer and a manifest publish is refused before any
  handler runs: the directory is unchanged, the session stays unproven and under a challenge, and
  what the client gets is the challenge (if it was not sent before) and an insufficient-rights
  error on the request's own food group and request id.\<close>
theorem gate_enforced:
  assumes "mode env = DeviceAuthEnforce" and "\<not> attested x" and "rnd env = Some n"
    and "sessionNonce x \<noteq> [] \<or> EnrolledSigningKeys a st \<noteq> Inl ErrNoDevicesEnrolled"
    and "\<not> exemptFrame fr"
  shows "result (Handle P env BOS a fr body x st) = GateRefused
    \<and> store' (Handle P env BOS a fr body x st) = st
    \<and> \<not> attested (inst' (Handle P env BOS a fr body x st))
    \<and> sessionNonce (inst' (Handle P env BOS a fr body x st)) = currentNonce env x
    \<and> sent (Handle P env BOS a fr body x st) =
        (if sessionNonce x = [] then [challengeMessage n] else []) @
        [errorReply fr ErrorCodeInsufficientRights]"
  using gate_enforce [OF assms(1-4), of fr] assms(5) by (auto simp: Handle_def)

definition sampleEnv :: surroundings where
  "sampleEnv = \<lparr>mode = DeviceAuthEnforce, rnd = Some (replicate 32 1), clock = 0, clientOnlineOk = True\<rparr>"

definition sampleICBM :: SNACFrame where
  "sampleICBM = \<lparr>FoodGroup = ICBM, SubGroup = ICBMChannelMsgToHost, Flags = 0, RequestID = 9\<rparr>"

lemma sampleDir_enrolled: "EnrolledSigningKeys [97] sampleDir = Inr [replicate 32 9]"
proof -
  have "sampleBytes \<noteq> []" by (simp add: sampleBytes_def)
  then show ?thesis
    by (simp add: EnrolledSigningKeys_def sampleDir_manifest storedManifest_def sampleRequest_def sample_decodes)
      (simp add: sampleDevices_def)
qed

theorem gate_enforced_witness:
  "result (Handle samplePlatform sampleEnv BOS [97] sampleICBM [] (newInstance 1) sampleDir) = GateRefused"
  using gate_enforced [of sampleEnv "newInstance 1" "replicate 32 1" "[97]" sampleDir sampleICBM samplePlatform "[]"]
  by (simp add: sampleDir_enrolled) (simp add: sampleEnv_def newInstance_def exemptFrame_def sampleICBM_def)

text \<open>C1: No request is served on a password alone. Take any run of a session under enforcement from a
  fresh sign-on, with anything happening to the directory in between. If a request other than the
  two exempt ones is not refused at its end, then the account has no enrolled devices at that
  moment, or the run contains the request that released the session: one handled while the account
  had no enrolled devices, or an attestation answer whose body carries a signature that verifies
  under one of the keys then enrolled, over this account and the 32-byte nonce the session was
  held to.\<close>
theorem no_service_without_device:
  assumes "(enforceStep P a)\<^sup>*\<^sup>* (st0, x0) (st, x)" and "\<not> attested x0"
    and "mode env = DeviceAuthEnforce" and "rnd env = Some n"
    and "\<not> exemptFrame fr" and "result (Handle P env BOS a fr body x st) \<noteq> GateRefused"
  shows "EnrolledSigningKeys a st = Inl ErrNoDevicesEnrolled
    \<or> (\<exists>s env1 fr1 body1. (enforceStep P a)\<^sup>*\<^sup>* (st0, x0) s \<and> releasedBy P a env1 fr1 body1 s
        \<and> (enforceStep P a)\<^sup>*\<^sup>* (afterRequest P a env1 fr1 body1 s) (st, x))"
proof (cases "attested x")
  case True
  then show ?thesis using attested_after_release [OF assms(1,2)] by blast
next
  case False
  have "EnrolledSigningKeys a st = Inl ErrNoDevicesEnrolled"
  proof (rule ccontr)
    assume "EnrolledSigningKeys a st \<noteq> Inl ErrNoDevicesEnrolled"
    then obtain s y where "gateDeviceAuth env BOS a fr st (Some x) = (True, s, Some y)"
      using gate_enforce [OF assms(3) False assms(4), of a st fr] assms(5) by auto
    then show False using assms(6) by (simp add: Handle_def)
  qed
  then show ?thesis by blast
qed

theorem no_service_without_device_witness:
  "EnrolledSigningKeys [97] (emptyKeyDir [[97]]) = Inl ErrNoDevicesEnrolled
    \<or> (\<exists>s env1 fr1 body1.
        (enforceStep samplePlatform [97])\<^sup>*\<^sup>* (emptyKeyDir [[97]], newInstance 1) s
        \<and> releasedBy samplePlatform [97] env1 fr1 body1 s
        \<and> (enforceStep samplePlatform [97])\<^sup>*\<^sup>* (afterRequest samplePlatform [97] env1 fr1 body1 s)
            (emptyKeyDir [[97]], newInstance 1))"
proof -
  have "result (Handle samplePlatform sampleEnv BOS [97] sampleICBM [] (newInstance 1) (emptyKeyDir [[97]])) \<noteq> GateRefused"
    by (simp add: Handle_def gateDeviceAuth_def sampleEnv_def newInstance_def sessionNonce_def Challenge_def
        EnrolledSigningKeys_def getManifest_def emptyKeyDir_def sampleICBM_def route_defs callHandler_def)
  moreover have "\<not> exemptFrame sampleICBM" by (simp add: exemptFrame_def sampleICBM_def)
  ultimately show ?thesis
    by (intro no_service_without_device [where env = sampleEnv and fr = sampleICBM and body = "[]"])
      (auto simp: sampleEnv_def newInstance_def)
qed

text \<open>C7: A device that proves itself is let in: an answer signed by an enrolled key over the session's
  nonce is accepted whatever the mode, changes nothing in the directory, and from then on the gate
  passes every request of the session, even after the directory changes.\<close>
theorem attested_session_served:
  assumes "attestsDevice P a (sessionNonce x) body st" and "sessionNonce x \<noteq> []"
    and "FoodGroup fr = BENCOKeyDir" and "SubGroup fr = BENCOKeyDirAttestResponse" and "\<not> attested x"
  shows "sent (Handle P env BOS a fr body x st) = [attestReply fr 1]
    \<and> store' (Handle P env BOS a fr body x st) = st
    \<and> (\<forall>env2 fr2 st2. gateDeviceAuth env2 BOS a fr2 st2 (Some (inst' (Handle P env BOS a fr body x st)))
        = (False, [], Some (inst' (Handle P env BOS a fr body x st))))"
proof -
  obtain v rest where u: "UnmarshalBE SNAC_0xBE00_0x000B_BENCOKeyDirAttestResponse body = (Inr v, rest)"
    using assms(1) by (auto simp: attestsDevice_def split: prod.splits sum.splits)
  have gate: "gateDeviceAuth env BOS a fr st (Some x) = (False, [], Some x)"
    using assms(2-5) by (simp add: gateDeviceAuth_def)
  have r: "route (FoodGroup fr) (SubGroup fr) = Some ''BENCOKeyDirAttestResponse''"
    by (simp add: assms(3,4) route_defs)
  have "AttestResponse P a fr (toAttestRequest v) st x = (attestReply fr 1, SetAttested x)"
    using assms(1,2) by (simp add: attestsDevice_iff [OF u] AttestResponse_def)
  then have "Handle P env BOS a fr body x st =
      \<lparr>result = Served, sent = [attestReply fr 1], inst' = SetAttested x, store' = st\<rparr>"
    by (simp add: Handle_def gate r callHandler_def handle_AttestResponse_def withBody_def u)
  then show ?thesis by (simp add: gate_passes)
qed

definition sampleAnswer :: gval where
  "sampleAnswer = VStruct [VU16 2, BENCOKey_val \<lparr>Alg = 2, Key = replicate 32 9\<rparr>, bytesVal (replicate 64 9)]"

lemma sample_answer_decodes:
  "\<exists>body. UnmarshalBE SNAC_0xBE00_0x000B_BENCOKeyDirAttestResponse body = (Inr sampleAnswer, [])"
proof -
  let ?t = "SNAC_0xBE00_0x000B_BENCOKeyDirAttestResponse"
  have "?t \<in> set messageCatalogue"
    by (simp add: messageCatalogue_def messages_BE00_def)
  moreover have "noQuirk ?t"
    by (simp add: SNAC_0xBE00_0x000B_BENCOKeyDirAttestResponse_def BENCOKey_type_def parse_tags)
  moreover have "fits ?t noTag BigEndian sampleAnswer"
    using fits_key [of "\<lparr>Alg = 2, Key = replicate 32 9\<rparr>" BigEndian] fits_bytes [of BigEndian "replicate 64 9"]
      concat_enc_bytes [of BigEndian "replicate 64 9"]
    by (simp add: SNAC_0xBE00_0x000B_BENCOKeyDirAttestResponse_def sampleAnswer_def parse_tags keyFits_def
        bytesVal_def lenFits_def prefixWidth_def del: map_map map_replicate)
  ultimately show ?thesis
    using catalogue_codec by (metis UnmarshalBE_def)
qed

theorem attested_session_served_witness:
  "\<exists>body. sent (Handle samplePlatform sampleEnv BOS [97]
      (sampleICBM\<lparr>FoodGroup := BENCOKeyDir, SubGroup := BENCOKeyDirAttestResponse\<rparr>) body
      (SetAttestNonce (replicate 32 1) (newInstance 1)) sampleDir)
    = [attestReply (sampleICBM\<lparr>FoodGroup := BENCOKeyDir, SubGroup := BENCOKeyDirAttestResponse\<rparr>) 1]"
proof -
  obtain body where u: "UnmarshalBE SNAC_0xBE00_0x000B_BENCOKeyDirAttestResponse body = (Inr sampleAnswer, [])"
    using sample_answer_decodes by blast
  have "toAttestRequest sampleAnswer =
      \<lparr>att_Version = 2, att_SignKey = \<lparr>Alg = 2, Key = replicate 32 9\<rparr>, att_Signature = replicate 64 9\<rparr>"
    by (simp add: toAttestRequest_def sampleAnswer_def bytesVal_def del: map_replicate)
  moreover have "replicate 64 (9 :: byte) = replicate 32 9 @ replicate 32 9"
    by (simp add: replicate_add [symmetric])
  ultimately have "attestsDevice samplePlatform [97]
      (sessionNonce (SetAttestNonce (replicate 32 1) (newInstance 1))) body sampleDir"
    by (simp add: attestsDevice_def u sampleDir_enrolled samplePlatform_def attestContext_eq)
  from attested_session_served [OF this, of
      "sampleICBM\<lparr>FoodGroup := BENCOKeyDir, SubGroup := BENCOKeyDirAttestResponse\<rparr>" sampleEnv]
  show ?thesis by (auto simp: newInstance_def)
qed

text \<open>Every request the dispatcher routes is under a rate class, with two exceptions: the MDir and
  Plugin food groups are routed for every subgroup and have no class at all, so the loop lets
  their requests through without a check.\<close>
theorem routed_requests_rate_limited:
  "(route fg sub = Some h \<longrightarrow> fg = MDir \<or> fg = Plugin \<or>
      RateClassLookup (WithBENCOKeyDirRateLimits DefaultSNACRateLimits) fg sub \<noteq> None)
    \<and> route MDir sub = Some ''MDirRequest'' \<and> route Plugin sub = Some ''PluginRequest''
    \<and> RateClassLookup (WithBENCOKeyDirRateLimits DefaultSNACRateLimits) MDir sub = None
    \<and> RateClassLookup (WithBENCOKeyDirRateLimits DefaultSNACRateLimits) Plugin sub = None"
proof -
  let ?rg = "WithBENCOKeyDirRateLimits DefaultSNACRateLimits"
  have codes: "list_all (\<lambda>(fg, sub). RateClassLookup ?rg fg sub \<noteq> None) routedCodes"
    by code_simp
  have "(fg, sub) \<in> set routedCodes" if "route fg sub = Some h" and "fg \<noteq> MDir" and "fg \<noteq> Plugin"
    using that by (auto simp: route_defs routedCodes_def split: if_splits)
  then have "RateClassLookup ?rg fg sub \<noteq> None" if "route fg sub = Some h" and "fg \<noteq> MDir" and "fg \<noteq> Plugin"
    using that codes by (auto simp: list_all_iff)
  moreover have "list_all (\<lambda>(fg, grp). fg \<noteq> MDir \<and> fg \<noteq> Plugin) ?rg"
    by code_simp
  then have "map_of ?rg MDir = None" "map_of ?rg Plugin = None"
    by (auto simp: map_of_eq_None_iff list_all_iff)
  then have "RateClassLookup ?rg MDir sub = None" "RateClassLookup ?rg Plugin sub = None"
    by (simp_all only: RateClassLookup_def option.case)
  moreover have "route MDir sub = Some ''MDirRequest''" "route Plugin sub = Some ''PluginRequest''"
    by (simp_all add: route_defs)
  ultimately show ?thesis by blast
qed

theorem routed_requests_rate_limited_witness:
  "RateClassLookup (WithBENCOKeyDirRateLimits DefaultSNACRateLimits) ICBM ICBMChannelMsgToHost \<noteq> None"
  using routed_requests_rate_limited [of ICBM ICBMChannelMsgToHost "''ICBMChannelMsgToHost''"]
  by (simp add: route_defs)

text \<open>What the receive loop does with a request, by its rate status. Limited: the client gets a rate
  error for this request and no handler runs. Any other status, Disconnect included, is routed:
  the request whose rate check closes the session's connections is still served, and the loop
  goes on.\<close>
theorem dispatch_by_rate_status:
  assumes "UnmarshalBE SNACFrame_type payload = (Inr fv, body)"
    and "RateClassLookup limits (FoodGroup (toSNACFrame fv)) (SubGroup (toSNACFrame fv)) = Some cls"
    and "EvaluateRateLimit (clock env) cls (conSession c) = Some (status, s1)"
  shows "dispatchFlap P env limits fg a i FLAPFrameData payload c =
    (if status = RateLimitStatusLimited
     then (GoOn, c\<lparr>conSession := s1, conSent := conSent c @ [errorReply (toSNACFrame fv) ErrorCodeRateToHost]\<rparr>)
     else routeRequest P env fg a i (toSNACFrame fv) body (c\<lparr>conSession := s1\<rparr>))
    \<and> conRouted (snd (dispatchFlap P env limits fg a i FLAPFrameData payload c)) =
    conRouted c @ (if status = RateLimitStatusLimited then []
      else [result (Handle P env fg a (toSNACFrame fv) body (inst s1 i) (conStore c))])"
  using assms
  by (auto simp: dispatchFlap_def dispatchData_def sendRateLimitErr_def routeRequest_def Let_def
      split: outcome.splits)

definition idleConn :: connState where
  "idleConn = \<lparr>conSession = ratedSession, conStore = emptyKeyDir [], conSent = [], conRouted = []\<rparr>"

theorem dispatch_by_rate_status_witness:
  "\<exists>payload t. EvaluateRateLimit (clock (sampleEnv\<lparr>clock := 2 ^ 31 * 1000000\<rparr>)) 1 ratedSession
        = Some (RateLimitStatusDisconnect, t)
    \<and> length (conRouted (snd (dispatchFlap samplePlatform (sampleEnv\<lparr>clock := 2 ^ 31 * 1000000\<rparr>)
        [(ICBM, [(ICBMChannelMsgToHost, 1)])] BOS [97] 0 FLAPFrameData payload idleConn))) = 1"
proof -
  let ?env = "sampleEnv\<lparr>clock := 2 ^ 31 * 1000000\<rparr>" and ?limits = "[(ICBM, [(ICBMChannelMsgToHost, 1)])]"
  have "fits SNACFrame_type noTag BigEndian (SNACFrame_val sampleICBM)" "noQuirk SNACFrame_type"
    by (simp_all add: SNACFrame_type_def SNACFrame_val_def)
  then obtain payload where u: "UnmarshalBE SNACFrame_type payload = (Inr (SNACFrame_val sampleICBM), [])"
    using catalogue_codec [OF in_catalogue(2)] by (metis UnmarshalBE_def)
  have l: "RateClassLookup ?limits (FoodGroup (toSNACFrame (SNACFrame_val sampleICBM)))
      (SubGroup (toSNACFrame (SNACFrame_val sampleICBM))) = Some 1"
    by (simp add: RateClassLookup_def sampleICBM_def toSNACFrame_def SNACFrame_val_def)
  obtain t where e: "EvaluateRateLimit (clock ?env) 1 ratedSession = Some (RateLimitStatusDisconnect, t)"
    using ratedSession_disconnects by auto
  then have "EvaluateRateLimit (clock ?env) 1 (conSession idleConn) = Some (RateLimitStatusDisconnect, t)"
    by (simp add: idleConn_def)
  from dispatch_by_rate_status [OF u l this, THEN conjunct2, of samplePlatform BOS "[97]" 0]
  have "length (conRouted (snd (dispatchFlap samplePlatform ?env ?limits BOS [97] 0 FLAPFrameData payload idleConn))) = 1"
    by (simp only: RateLimitStatus.distinct if_False) (simp add: idleConn_def)
  with e show ?thesis by blast
qed

end
