(* ===== verification/Spec2Isabelle.thy ===== *)
theory Spec2Isabelle
  imports BENC_Prelude Wire_Codec Wire_Codec_Laws Wire_Codec_Safety Wire_TLV Wire_Snacs Wire_Catalogue
    Wire_Frames Wire_Codes Wire_RateLimit Wire_Values Legacy_Crypt State_ScreenName State_Password State_User
    State_Cookie State_Session State_UserInfo State_SessionManager State_SessionManager_Laws State_Chat
    State_BuddyLists State_FeedbagList State_Accounts State_Search State_Mail
    State_Catalog Foodgroup_Buddy Foodgroup_Convo
    Foodgroup_Icbm Foodgroup_Chat Foodgroup_Auth Foodgroup_OService Foodgroup_Feedbag
    Foodgroup_Directory Foodgroup_Locate Foodgroup_Bart Foodgroup_Admin State_KeyDirectory Foodgroup_KeyDir Foodgroup_DeviceAuth Oscar_Dispatch
begin

text \<open>
  A model of BENCoscar, an instant messaging server that speaks the OSCAR protocol, with the
  theorems that make its core correct. The server reads FLAP frames from a client connection,
  decodes the SNAC request each data frame carries, checks the rate limit of the session, passes
  the device gate, routes the request to the handler of its food group, and writes the reply back
  as a frame. What this development covers is the wire layer, accounts with their passwords and
  cookies, sessions with their rate limits and the pool that holds them, chat rooms, contact lists
  with the visibility rules over them, the key directory with device attestation, and the dispatch
  that ties them together.

  \<^bold>\<open>Theories and the code they model\<close>

  \<^item> \<open>BENC_Prelude\<close>: machine types, the error-or-value result, byte order, keystreams, and the
    interfaces \<open>involutive_cipher\<close> and \<open>invariant_system\<close> that several components provide.
  \<^item> \<open>Wire_Codec\<close>: the reflective codec (\<open>wire/encode.go\<close>, \<open>wire/decode.go\<close>). A Go type is a
    descriptor and a Go value a tree; a reader answers the value or an error and the unread bytes.
    \<open>Wire_Codec_Laws\<close> proves the round trip for all well-tagged types, over the interface
    \<open>element_codec\<close> of a slice's element; \<open>Wire_Codec_Safety\<close> proves that decoding neither panics
    nor loops nor grows its input.
  \<^item> \<open>Wire_TLV\<close>: TLV values, lists and blocks (\<open>wire/tlv.go\<close>), with the panics of the accessors.
  \<^item> \<open>Wire_Snacs\<close>: the 188 message types as descriptors (\<open>wire/snacs.go\<close>, \<open>wire/frames.go\<close>,
    \<open>wire/benco_keydir.go\<close>); \<open>Wire_Catalogue\<close>: the codec theorems over all of them, and the places
    where a message type escapes them.
  \<^item> \<open>Wire_Frames\<close>: the FLAP client (\<open>wire/frames.go\<close>) with its sequence counter.
  \<^item> \<open>Wire_Codes\<close>, \<open>Wire_RateLimit\<close>: food group codes, the class table and the moving average of
    \<open>wire/rate_limit.go\<close>, in the 32-bit and 64-bit arithmetic of the code.
  \<^item> \<open>Legacy_Crypt\<close>: the packet ciphers of ICQ V3 to V5 (\<open>server/icq_legacy/wire_legacy_crypt.go\<close>) and
    password roasting (\<open>wire/user.go\<close>), as interpretations of \<open>involutive_cipher\<close>.
  \<^item> \<open>State_ScreenName\<close>: screen names and their checks (\<open>state/user.go\<close>), and the record \<open>platform\<close> of
    what the language's libraries provide.
  \<^item> \<open>State_Password\<close>, \<open>State_User\<close>: hash strings (\<open>state/password.go\<close>), user records, the account table
    and account creation (\<open>state/user.go\<close>, \<open>state/account.go\<close>, \<open>state/user_store.go\<close>).
  \<^item> \<open>State_Accounts\<close>: the whole table of accounts with profiles and flags (\<open>state/user_store.go\<close>), which
    refines the table of \<open>State_User\<close>; \<open>State_Search\<close>: the searches over it, with the \<open>LIKE\<close> of SQL;
    \<open>State_Mail\<close>: the table of offline messages; \<open>State_Catalog\<close>: profiles, icons, room records and the
    interest keywords of the directory, with an invariant over all operations on them.
  \<^item> \<open>State_Cookie\<close>: signed cookies (\<open>state/cookie.go\<close>) and the login cookie of \<open>foodgroup/auth.go\<close>.
  \<^item> \<open>State_Session\<close>: sessions and their instances (\<open>state/session.go\<close>) as an object store with an
    invariant over every sequence of operations; \<open>State_UserInfo\<close>: the user info block they answer.
  \<^item> \<open>State_SessionManager\<close>: the pool of sessions (\<open>state/session_manager.go\<close>). A sign-on is split at
    its synchronisation points and runs as a call of a world in which calls, removals and session
    operations interleave; \<open>State_SessionManager_Laws\<close> proves its invariants.
  \<^item> \<open>State_Chat\<close>: chat rooms (\<open>state/chat.go\<close>) and the manager of their sessions.
  \<^item> \<open>State_BuddyLists\<close>: the tables of lists, modes and consents (\<open>state/user_store.go\<close>) and the
    relationship query (\<open>state/relationship.go\<close>), each statement as the function it denotes;
    \<open>State_FeedbagList\<close>: the editing of a list by the server on behalf of a client
    (\<open>state/feedbag_list.go\<close>), with items shared by reference as addresses into a store.
  \<^item> \<open>Foodgroup_Buddy\<close>: presence notifications, contact list and permit/deny requests
    (\<open>foodgroup/buddy.go\<close>, \<open>foodgroup/permit_deny.go\<close>), over the session pool and the list tables.
  \<^item> \<open>Foodgroup_Convo\<close>: the tracker of messages and warnings of \<open>foodgroup/icbm.go\<close>, over any cache
    that keeps the laws of \<open>go-cache\<close>; it refines counting during its first hour.
    \<open>Foodgroup_Icbm\<close>: the messaging service itself (\<open>foodgroup/icbm.go\<close>): messages, typing events, offline
    messages, warnings and their decay, with the two goroutines of the decay as a step relation.
  \<^item> \<open>Foodgroup_Chat\<close>: chat messages, die rolls, the notices of who comes and goes, and the navigation
    service that makes rooms (\<open>foodgroup/chat.go\<close>, \<open>foodgroup/chat_nav.go\<close>).
  \<^item> \<open>Foodgroup_Auth\<close>: logins over the account table, the registration of sessions in the pool and in
    rooms (\<open>foodgroup/auth.go\<close>), and the function that runs when a session closes (\<open>server/oscar/server.go\<close>).
  \<^item> \<open>Foodgroup_OService\<close>: the control service (\<open>foodgroup/oservice.go\<close>): versions, rates, the user's own
    information, status and idle time, redirection to other services, and what a client that is ready gets.
  \<^item> \<open>Foodgroup_Feedbag\<close>: server-side contact lists with their consent gate, batches, authorizations and the
    messages of the old ICQ protocol (\<open>foodgroup/feedbag.go\<close>, \<open>foodgroup/feedbag_aim_auth.go\<close>); \<open>bridged\<close>
    ties the service to the messaging service, which calls it back.
  \<^item> \<open>Foodgroup_Directory\<close>: the search of the directory, the lookup by address and the statistics
    (\<open>foodgroup/odir.go\<close>, \<open>foodgroup/user_lookup.go\<close>, \<open>foodgroup/stats.go\<close>); \<open>Foodgroup_Locate\<close>: profiles,
    away messages, capabilities, the directory entry and the lookup of another user (\<open>foodgroup/locate.go\<close>);
    \<open>Foodgroup_Bart\<close>: upload and download of icons (\<open>foodgroup/bart.go\<close>); \<open>Foodgroup_Admin\<close>: changes of the
    account (\<open>foodgroup/admin.go\<close>), each of which is shown to be one update of the own row.
  \<^item> \<open>State_KeyDirectory\<close>: the tables and transactions of \<open>state/key_directory.go\<close>. The interface
    \<open>manifest_directory\<close> states what the service relies on and is interpreted on the transactions;
    the archive of backups refines "the oldest row and the newest 19".
  \<^item> \<open>Foodgroup_KeyDir\<close>: the key directory service (\<open>foodgroup/benco_keydir.go\<close>): validation,
    publish, query and backup requests, with the invariant that every stored manifest is a valid
    signed statement of its account.
  \<^item> \<open>Foodgroup_DeviceAuth\<close>: device attestation (\<open>foodgroup/benco_deviceauth.go\<close>).
  \<^item> \<open>Oscar_Dispatch\<close>: the device gate, the routing switch and the key directory handlers
    (\<open>server/oscar/handler.go\<close>, \<open>server/oscar/benco_keydir.go\<close>) and the data branch of the receive
    loop (\<open>server/oscar/server.go\<close>).

  \<^bold>\<open>What the theorems show\<close>

  The messages of the catalogue round-trip and decode safely; FLAP frames of a length the prefix can say arrive in
  order. A paced
  client is never limited, and evaluating a request moves exactly its class. The instance map, the
  ordered slice and the numbers of a session agree in every reachable state. Over every interleaving
  the pool maps a name to its session, the user lock excludes and is never leaked, and a relayed
  message is queued once at each live instance; two races in which a sign-on or a chat join is lost
  are exhibited. Passwords, cookies and stored lists come back as they were written, an AIM account that
  was created signs on when authentication is enabled, and the relationship query gives both users the same view. An account's identity
  key is pinned and its counter cannot fall, over every sequence of client requests; the first
  backup is never lost; every stored manifest verifies under the key it carries. In enforce mode no
  request of a BOS session is served unless the account had no devices or the client proved one,
  and a device that proves itself is served. On the server-side list a contact who has not consented is at
  most pending, and a removal ends the consents in both directions, between users who are no ICQ users; but an answer to a request that
  was never made grants the consent of another user. A directory entry that is set is the one that is queried
  and found by its names, an uploaded icon is downloaded as long as no other was stored under its sum before, a password is changed only by who knows the old one, and no
  request to the account service reaches another account; a lookup hides blocked users but not invisible ones. Beside these, several theorems record behaviour that
  the code does not intend: the wrap of the elapsed time, truncated lengths, panicking accessors,
  a rate reply that does not decode, a double close notification.

  \<^bold>\<open>Bounds, fuel, parameters\<close>

  Loops are structural or have a termination proof by a measure. Only the calls between the contact list
  service and the messaging service are bounded by a number, the argument of \<open>bridged\<close>; 2 is enough, since a
  message is forwarded only to a user who is online with a server-side list, and the messages sent for a
  forwarded one go to users who are not. A decode loop that would never end is the error \<open>Diverges\<close>, which is shown not to occur for the
  message types. Integers keep the width of the code. The parameters of the model are
  \<open>ed25519.Verify\<close>, the argon2id key derivation, the HMAC of the cookies, the MD5 sum of an icon,
  the parser of mail addresses and the tables of the \<open>unicode\<close> package beyond ASCII (record \<open>platform\<close>), the bytes
  of the random source, the clock, and the outcome of services that are not modelled (record
  \<open>surroundings\<close>).

  \<^bold>\<open>What is not modelled\<close>

  Locks (a method is one step, except where it takes its lock several times and the steps are given
  apart), logging, failures of the network writer and of the database other than a violated foreign
  key, the ICQ requests of the food group ICQ (\<open>foodgroup/icq.go\<close>), the TOC, legacy ICQ
  and web front ends, and the management API.
\<close>

end
